(* ===== verification/Prelude.thy ===== *)
theory Prelude
  imports Complex_Main "HOL-Library.Monad_Syntax"
begin

text \<open>
  Shared vocabulary of the development: the collections of rewrite rules the component
  theories fill, lemmas on the option monad (every operation that can raise returns an
  option), and row-major index arithmetic on lists of dimensions, which the tensor
  model, the traced graphs and the GPU kernels all rely on.
\<close>

named_theorems exec_simps \<open>one step of a traced program under the documented laws\<close>
named_theorems index_simps \<open>row-major index arithmetic on concrete shapes\<close>

subsection \<open>The option monad\<close>

lemma bind_case_prod [simp]:
  "Option.bind (case_prod f p) g = case_prod (\<lambda>a b. Option.bind (f a b) g) p"
  by (cases p) simp

lemma bind_Some_iff:
  "Option.bind m f = Some y \<longleftrightarrow> (\<exists>x. m = Some x \<and> f x = Some y)"
  by (cases m) auto

lemma bind_step: "m = Some x \<Longrightarrow> Option.bind m f = f x"
  by simp

subsection \<open>Row-major index vectors\<close>

text \<open>
  \<open>unflat ds i\<close> is the index vector of the \<open>i\<close>-th element, in row-major order, of an
  array with dimensions \<open>ds\<close>; \<open>flat\<close> is its inverse; \<open>cstride ds\<close> are the strides of a
  contiguous array; \<open>idx_ok ds ix\<close> says that \<open>ix\<close> is a legal index vector.
\<close>

fun unflat :: "nat list \<Rightarrow> nat \<Rightarrow> nat list" where
  "unflat [] i = []"
| "unflat (d # ds) i = (i div prod_list ds) # unflat ds (i mod prod_list ds)"

fun cstride :: "nat list \<Rightarrow> nat list" where
  "cstride [] = []"
| "cstride (d # ds) = prod_list ds # cstride ds"

fun dot :: "nat list \<Rightarrow> nat list \<Rightarrow> nat" where
  "dot (i # ix) (s # ss) = i * s + dot ix ss"
| "dot _ _ = 0"

definition flat :: "nat list \<Rightarrow> nat list \<Rightarrow> nat" where
  "flat ds ix = dot ix (cstride ds)"

definition idx_ok :: "nat list \<Rightarrow> nat list \<Rightarrow> bool" where
  "idx_ok ds ix = list_all2 (<) ix ds"

definition tabulate :: "nat list \<Rightarrow> (nat list \<Rightarrow> 'a) \<Rightarrow> 'a list" where
  "tabulate ds f = map (\<lambda>i. f (unflat ds i)) [0..<prod_list ds]"

lemma length_tabulate [simp]: "length (tabulate ds f) = prod_list ds"
  by (simp add: tabulate_def)

lemma length_unflat [simp]: "length (unflat ds i) = length ds"
  by (induction ds arbitrary: i) auto

lemma length_cstride [simp]: "length (cstride ds) = length ds"
  by (induction ds) auto

lemma idx_ok_Nil [simp]: "idx_ok [] ix \<longleftrightarrow> ix = []"
  by (auto simp: idx_ok_def)

lemma idx_ok_Cons [simp]: "idx_ok (d # ds) (i # ix) \<longleftrightarrow> i < d \<and> idx_ok ds ix"
  by (auto simp: idx_ok_def)

lemma idx_ok_Cons_iff: "idx_ok (d # ds) jx \<longleftrightarrow> (\<exists>i ix. jx = i # ix \<and> i < d \<and> idx_ok ds ix)"
  by (auto simp: idx_ok_def list_all2_Cons2)

lemma idx_ok_unflat: "i < prod_list ds \<Longrightarrow> idx_ok ds (unflat ds i)"
proof (induction ds arbitrary: i)
  case (Cons d ds)
  then have pos: "0 < prod_list ds"
    by (cases "prod_list ds") auto
  moreover have "i div prod_list ds < d"
    using Cons.prems by (simp add: less_mult_imp_div_less)
  ultimately show ?case
    using Cons.IH by simp
qed simp

lemma flat_unflat: "i < prod_list ds \<Longrightarrow> dot (unflat ds i) (cstride ds) = i"
proof (induction ds arbitrary: i)
  case (Cons d ds)
  then have "0 < prod_list ds"
    by (cases "prod_list ds") auto
  then show ?case
    using Cons.IH [of "i mod prod_list ds"] by simp
qed simp

lemma flat_less: "idx_ok ds ix \<Longrightarrow> dot ix (cstride ds) < prod_list ds"
proof (induction ds arbitrary: ix)
  case (Cons d ds)
  then obtain i jx where ix: "ix = i # jx" and i: "i < d" and jx: "idx_ok ds jx"
    by (auto simp: idx_ok_Cons_iff)
  have "i * prod_list ds + dot jx (cstride ds) < Suc i * prod_list ds"
    using Cons.IH [OF jx] by simp
  also have "\<dots> \<le> d * prod_list ds"
    using i by (intro mult_le_mono1) simp
  finally show ?case
    using ix by simp
qed simp

lemma unflat_flat: "idx_ok ds ix \<Longrightarrow> unflat ds (dot ix (cstride ds)) = ix"
proof (induction ds arbitrary: ix)
  case (Cons d ds)
  then obtain i jx where ix: "ix = i # jx" and jx: "idx_ok ds jx"
    by (auto simp: idx_ok_Cons_iff)
  then show ?case
    using Cons.IH [OF jx] flat_less [OF jx] by simp
qed simp

lemma nth_tabulate: "i < prod_list ds \<Longrightarrow> tabulate ds f ! i = f (unflat ds i)"
  by (simp add: tabulate_def)

lemma nth_tabulate_flat:
  "idx_ok ds ix \<Longrightarrow> tabulate ds f ! dot ix (cstride ds) = f ix"
  by (simp add: nth_tabulate flat_less unflat_flat)

lemma tabulate_cong:
  assumes "\<And>ix. idx_ok ds ix \<Longrightarrow> f ix = g ix"
  shows "tabulate ds f = tabulate ds g"
  using assms by (simp add: tabulate_def idx_ok_unflat)

lemma list_as_tabulate:
  assumes "length xs = prod_list ds"
  shows "xs = tabulate ds (\<lambda>ix. xs ! dot ix (cstride ds))"
  by (rule nth_equalityI) (simp_all add: assms nth_tabulate flat_unflat)

lemma map_nth_as_tabulate:
  assumes "\<And>i. i < prod_list ds \<Longrightarrow> xs i = f (unflat ds i)"
  shows "map xs [0..<prod_list ds] = tabulate ds f"
  using assms by (simp add: tabulate_def)

lemma idx_ok2: "idx_ok [a, b] ix \<longleftrightarrow> (\<exists>i j. ix = [i, j] \<and> i < a \<and> j < b)"
  by (auto simp: idx_ok_Cons_iff)

lemma idx_ok3: "idx_ok [a, b, c] ix \<longleftrightarrow> (\<exists>i j k. ix = [i, j, k] \<and> i < a \<and> j < b \<and> k < c)"
  by (auto simp: idx_ok_Cons_iff)

end
