(* ===== verification/Tensor.thy ===== *)
theory Tensor
  imports Prelude
begin

text \<open>
  The object model under the traced programs of src/mcv/example: a tensor is a handle
  on a storage (identity, offset, sizes and strides), several handles may share one
  storage, and in-place operations change a storage under every handle on it. Storages
  are numbered in the order in which they are created. The store also carries the
  state the attention operator keeps between calls (its key/value cache), as an opaque
  component.
\<close>

datatype dtype = Int32 | Int64 | BFloat16 | Float16 | Float32

record tensor =
  base :: nat
  offset :: nat
  dtype :: dtype
  sizes :: "nat list"
  strides :: "nat list"

record ('a, 'k) store =
  mem :: "nat \<Rightarrow> 'a list"
  nxt :: nat
  ctx :: 'k

type_synonym 'a tval = "nat list \<times> 'a list"

definition numel :: "tensor \<Rightarrow> nat" where
  "numel x = prod_list (sizes x)"

definition pos :: "tensor \<Rightarrow> nat list \<Rightarrow> nat" where
  "pos x ix = offset x + dot ix (strides x)"

definition rd :: "('a, 'k) store \<Rightarrow> tensor \<Rightarrow> nat list \<Rightarrow> 'a" where
  "rd h x ix = mem h (base x) ! pos x ix"

definition tvals :: "('a, 'k) store \<Rightarrow> tensor \<Rightarrow> 'a list" where
  "tvals h x = tabulate (sizes x) (rd h x)"

definition tv :: "('a, 'k) store \<Rightarrow> tensor \<Rightarrow> 'a tval" where
  "tv h x = (sizes x, tvals h x)"

definition contiguous :: "tensor \<Rightarrow> bool" where
  "contiguous x \<longleftrightarrow> strides x = cstride (sizes x)"

definition valid :: "('a, 'k) store \<Rightarrow> tensor \<Rightarrow> bool" where
  "valid h x \<longleftrightarrow> base x < nxt h \<and> length (strides x) = length (sizes x) \<and>
     (\<forall>ix. idx_ok (sizes x) ix \<longrightarrow> pos x ix < length (mem h (base x)))"

text \<open>A handle that covers its whole storage: what every fresh tensor is.\<close>

definition whole :: "('a, 'k) store \<Rightarrow> tensor \<Rightarrow> bool" where
  "whole h x \<longleftrightarrow> base x < nxt h \<and> offset x = 0 \<and> contiguous x \<and>
     length (mem h (base x)) = numel x"

definition new_t :: "('a, 'k) store \<Rightarrow> dtype \<Rightarrow> nat list \<Rightarrow> tensor" where
  "new_t h dt sz = \<lparr>base = nxt h, offset = 0, dtype = dt, sizes = sz, strides = cstride sz\<rparr>"

definition alloc :: "('a, 'k) store \<Rightarrow> 'a list \<Rightarrow> ('a, 'k) store" where
  "alloc h vs = h\<lparr>mem := (mem h)(nxt h := vs), nxt := Suc (nxt h)\<rparr>"

definition put :: "('a, 'k) store \<Rightarrow> tensor \<Rightarrow> 'a list \<Rightarrow> ('a, 'k) store" where
  "put h x vs = h\<lparr>mem := (mem h)(base x := vs)\<rparr>"

text \<open>
  \<open>frame A h h'\<close>: between the two stores only storages in \<open>A\<close> changed among those that
  existed, and storages are never released.
\<close>

definition frame :: "nat set \<Rightarrow> ('a, 'k) store \<Rightarrow> ('a, 'k) store \<Rightarrow> bool" where
  "frame A h h' \<longleftrightarrow> nxt h \<le> nxt h' \<and> (\<forall>a < nxt h. a \<notin> A \<longrightarrow> mem h' a = mem h a)"

subsection \<open>Reading and writing\<close>

lemma alloc_simps [simp]:
  "nxt (alloc h vs) = Suc (nxt h)"
  "ctx (alloc h vs) = ctx h"
  "mem (alloc h vs) = (mem h)(nxt h := vs)"
  by (simp_all add: alloc_def)

lemma put_simps [simp]:
  "nxt (put h x vs) = nxt h"
  "ctx (put h x vs) = ctx h"
  "mem (put h x vs) = (mem h)(base x := vs)"
  by (simp_all add: put_def)

lemma new_t_simps [simp]:
  "base (new_t h dt sz) = nxt h"
  "offset (new_t h dt sz) = 0"
  "dtype (new_t h dt sz) = dt"
  "sizes (new_t h dt sz) = sz"
  "strides (new_t h dt sz) = cstride sz"
  by (simp_all add: new_t_def)

lemma length_tvals [simp]: "length (tvals h x) = numel x"
  by (simp add: tvals_def numel_def)

lemma tv_simps [simp]: "fst (tv h x) = sizes x" "snd (tv h x) = tvals h x"
  by (simp_all add: tv_def)

lemma whole_valid: "whole h x \<Longrightarrow> valid h x"
  by (auto simp: whole_def valid_def contiguous_def numel_def pos_def flat_less)

lemma whole_rd: "whole h x \<Longrightarrow> rd h x ix = mem h (base x) ! dot ix (cstride (sizes x))"
  by (simp add: whole_def contiguous_def rd_def pos_def)

lemma whole_tvals:
  assumes "whole h x"
  shows "tvals h x = mem h (base x)"
proof -
  have "length (mem h (base x)) = prod_list (sizes x)"
    using assms by (simp add: whole_def numel_def)
  from list_as_tabulate [OF this] show ?thesis
    by (simp add: tvals_def whole_rd [OF assms] fun_eq_iff cong: tabulate_cong)
qed

lemma whole_new: "length vs = prod_list sz \<Longrightarrow> whole (alloc h vs) (new_t h dt sz)"
  by (simp add: whole_def contiguous_def numel_def)

lemma tvals_new: "length vs = prod_list sz \<Longrightarrow> tvals (alloc h vs) (new_t h dt sz) = vs"
  by (simp add: whole_tvals whole_new)

lemma rd_new_tabulate:
  "idx_ok sz ix \<Longrightarrow> rd (alloc h (tabulate sz f)) (new_t h dt sz) ix = f ix"
  by (simp add: rd_def pos_def nth_tabulate_flat)

lemma rd_eq_nth_tvals:
  assumes "idx_ok (sizes x) ix"
  shows "rd h x ix = tvals h x ! dot ix (cstride (sizes x))"
  using assms by (simp add: tvals_def nth_tabulate_flat)

subsection \<open>Frames\<close>

lemma frame_refl [simp]: "frame A h h"
  by (simp add: frame_def)

lemma frame_trans: "frame A h h' \<Longrightarrow> frame B h' h'' \<Longrightarrow> frame (A \<union> B) h h''"
  by (auto simp: frame_def)

lemma frame_mono: "frame A h h' \<Longrightarrow> A \<subseteq> B \<Longrightarrow> frame B h h'"
  by (auto simp: frame_def)

lemma frame_alloc [simp]: "frame {} h (alloc h vs)"
  by (simp add: frame_def)

lemma frame_put [simp]: "frame {base x} h (put h x vs)"
  by (simp add: frame_def)

lemma frame_mem: "frame A h h' \<Longrightarrow> a < nxt h \<Longrightarrow> a \<notin> A \<Longrightarrow> mem h' a = mem h a"
  by (simp add: frame_def)

lemma frame_rd: "frame A h h' \<Longrightarrow> base x < nxt h \<Longrightarrow> base x \<notin> A \<Longrightarrow> rd h' x = rd h x"
  by (rule ext) (simp add: rd_def frame_mem)

lemma frame_tvals: "frame A h h' \<Longrightarrow> base x < nxt h \<Longrightarrow> base x \<notin> A \<Longrightarrow> tvals h' x = tvals h x"
  by (simp add: tvals_def frame_rd)

lemma frame_valid: "frame A h h' \<Longrightarrow> valid h x \<Longrightarrow> base x \<notin> A \<Longrightarrow> valid h' x"
  by (auto simp: valid_def frame_def)

lemma frame_whole: "frame A h h' \<Longrightarrow> whole h x \<Longrightarrow> base x \<notin> A \<Longrightarrow> whole h' x"
  by (auto simp: whole_def frame_def)

lemma valid_base: "valid h x \<Longrightarrow> base x < nxt h"
  by (simp add: valid_def)

lemma whole_base: "whole h x \<Longrightarrow> base x < nxt h"
  by (simp add: whole_def)

subsection \<open>What an operator that allocates its result yields\<close>

definition yields ::
  "('a, 'k) store \<Rightarrow> tensor \<Rightarrow> ('a, 'k) store \<Rightarrow> dtype \<Rightarrow> nat list \<Rightarrow> (nat list \<Rightarrow> 'a) \<Rightarrow> bool" where
  "yields h z h' dt sz f \<longleftrightarrow>
     nxt h \<le> base z \<and> whole h' z \<and> sizes z = sz \<and> dtype z = dt \<and> frame {} h h' \<and>
     ctx h' = ctx h \<and> (\<forall>ix. idx_ok sz ix \<longrightarrow> rd h' z ix = f ix)"

lemma yields_new: "yields h (new_t h dt sz) (alloc h (tabulate sz f)) dt sz f"
  by (simp add: yields_def whole_new rd_new_tabulate)

lemma yieldsD:
  assumes "yields h z h' dt sz f"
  shows "nxt h \<le> base z" "whole h' z" "valid h' z" "sizes z = sz" "dtype z = dt" "frame {} h h'"
    "ctx h' = ctx h" "idx_ok sz ix \<Longrightarrow> rd h' z ix = f ix" "base z < nxt h'"
  using assms by (auto simp: yields_def whole_valid whole_base)

lemma frame_empty_trans: "frame {} h h' \<Longrightarrow> frame {} h' h'' \<Longrightarrow> frame {} h h''"
  using frame_trans [of "{}" h h' "{}" h''] by simp

lemma frame_nxt: "frame A h h' \<Longrightarrow> nxt h \<le> nxt h'"
  by (simp add: frame_def)

lemma frame_emptyD:
  assumes "frame {} h h'"
  shows "valid h x \<Longrightarrow> valid h' x" "whole h x \<Longrightarrow> whole h' x" "base x < nxt h \<Longrightarrow> rd h' x = rd h x"
    "base x < nxt h \<Longrightarrow> tvals h' x = tvals h x" "nxt h \<le> nxt h'"
  using frame_valid [OF assms] frame_whole [OF assms] frame_rd [OF assms] frame_tvals [OF assms]
    frame_nxt [OF assms] by simp_all

lemma frame_drop:
  assumes "frame A h' h''" "frame {} h h'" "\<forall>a\<in>A. nxt h \<le> a"
  shows "frame {} h h''"
proof -
  have "mem h'' a = mem h a" if "a < nxt h" for a
  proof -
    have "a \<notin> A" using assms(3) that by fastforce
    then show ?thesis
      using frame_mem [OF assms(1), of a] frame_mem [OF assms(2) that] frame_nxt [OF assms(2)] that by simp
  qed
  then show ?thesis
    using frame_nxt [OF assms(1)] frame_nxt [OF assms(2)] by (simp add: frame_def)
qed

lemma valid_bound: "valid h x \<Longrightarrow> idx_ok (sizes x) ix \<Longrightarrow> pos x ix < length (mem h (base x))"
  by (simp add: valid_def)

lemma frame_alloc': "frame A h h' \<Longrightarrow> frame A h (alloc h' vs)"
  by (simp add: frame_def)

lemma frame_put': "frame A h h' \<Longrightarrow> base x \<in> A \<or> nxt h \<le> base x \<Longrightarrow> frame A h (put h' x vs)"
  by (auto simp: frame_def)

lemma whole_alloc: "whole h x \<Longrightarrow> whole (alloc h vs) x"
  by (auto simp: whole_def)

lemma whole_put:
  "whole h x \<Longrightarrow> base x = base y \<longrightarrow> length vs = numel x \<Longrightarrow> whole (put h y vs) x"
  by (auto simp: whole_def)

lemma tvals_put:
  "whole h x \<Longrightarrow> base x = base y \<Longrightarrow> length vs = numel x \<Longrightarrow> tvals (put h y vs) x = vs"
  by (subst whole_tvals) (auto intro: whole_put)

lemma numel_sizes: "sizes x = sz \<Longrightarrow> numel x = prod_list sz"
  by (simp add: numel_def)

lemma whole_contiguous: "whole h x \<Longrightarrow> contiguous x"
  by (simp add: whole_def)

end
