(* ===== verification/Torch_API.thy ===== *)
theory Torch_API
  imports Tensor
begin

text \<open>
  The operators the traced programs call. PyTorch, the vLLM custom operators and the
  extern GEMM kernels are not part of the repository, so they are a parameter: a record
  \<open>torch\<close> of operators on handles and stores, each of which may raise (\<open>None\<close>). The
  locale \<open>torch_api\<close> states the documented behaviour the programs rely on, relative to
  a record \<open>kernels\<close> of the numerical functions behind the operators, which stay
  opaque (a GEMM, a normalisation, the attention operator with its key/value cache).
\<close>

type_synonym device = "string \<times> nat"

record ('a, 'k) torch =
  t_long :: "tensor \<Rightarrow> ('a, 'k) store \<Rightarrow> (tensor \<times> ('a, 'k) store) option"
  t_embedding :: "tensor \<Rightarrow> tensor \<Rightarrow> ('a, 'k) store \<Rightarrow> (tensor \<times> ('a, 'k) store) option"
  t_log_api_usage_once :: "string \<Rightarrow> ('a, 'k) store \<Rightarrow> ('a, 'k) store option"
  t_get_data_attr :: "tensor \<Rightarrow> tensor option"
  t_empty_like :: "tensor \<Rightarrow> ('a, 'k) store \<Rightarrow> (tensor \<times> ('a, 'k) store) option"
  t_contiguous :: "tensor \<Rightarrow> ('a, 'k) store \<Rightarrow> (tensor \<times> ('a, 'k) store) option"
  t_rms_norm :: "tensor \<Rightarrow> tensor \<Rightarrow> tensor \<Rightarrow> rat \<Rightarrow> ('a, 'k) store \<Rightarrow> ('a, 'k) store option"
  t_linear :: "tensor \<Rightarrow> tensor \<Rightarrow> tensor option \<Rightarrow> ('a, 'k) store \<Rightarrow> (tensor \<times> ('a, 'k) store) option"
  t_split :: "tensor \<Rightarrow> nat list \<Rightarrow> int \<Rightarrow> tensor list option"
  t_flatten :: "tensor \<Rightarrow> ('a, 'k) store \<Rightarrow> (tensor \<times> ('a, 'k) store) option"
  t_index_select :: "tensor \<Rightarrow> int \<Rightarrow> tensor \<Rightarrow> ('a, 'k) store \<Rightarrow> (tensor \<times> ('a, 'k) store) option"
  t_chunk :: "tensor \<Rightarrow> nat \<Rightarrow> int \<Rightarrow> tensor list option"
  t_view :: "tensor \<Rightarrow> int list \<Rightarrow> tensor option"
  t_getitem_last :: "tensor \<Rightarrow> nat option \<Rightarrow> nat option \<Rightarrow> tensor option"
  t_unsqueeze :: "tensor \<Rightarrow> int \<Rightarrow> tensor option"
  t_to :: "tensor \<Rightarrow> dtype \<Rightarrow> ('a, 'k) store \<Rightarrow> (tensor \<times> ('a, 'k) store) option"
  t_mul :: "tensor \<Rightarrow> tensor \<Rightarrow> ('a, 'k) store \<Rightarrow> (tensor \<times> ('a, 'k) store) option"
  t_sub :: "tensor \<Rightarrow> tensor \<Rightarrow> ('a, 'k) store \<Rightarrow> (tensor \<times> ('a, 'k) store) option"
  t_add :: "tensor \<Rightarrow> tensor \<Rightarrow> ('a, 'k) store \<Rightarrow> (tensor \<times> ('a, 'k) store) option"
  t_cat :: "tensor list \<Rightarrow> int \<Rightarrow> ('a, 'k) store \<Rightarrow> (tensor \<times> ('a, 'k) store) option"
  t_reshape :: "tensor \<Rightarrow> nat list \<Rightarrow> ('a, 'k) store \<Rightarrow> (tensor \<times> ('a, 'k) store) option"
  t_empty :: "nat list \<Rightarrow> dtype \<Rightarrow> device \<Rightarrow> ('a, 'k) store \<Rightarrow> (tensor \<times> ('a, 'k) store) option"
  t_unified_attention_with_output ::
    "tensor \<Rightarrow> tensor \<Rightarrow> tensor \<Rightarrow> tensor \<Rightarrow> string \<Rightarrow> ('a, 'k) store \<Rightarrow> ('a, 'k) store option"
  t_fused_add_rms_norm ::
    "tensor \<Rightarrow> tensor \<Rightarrow> tensor \<Rightarrow> rat \<Rightarrow> ('a, 'k) store \<Rightarrow> ('a, 'k) store option"
  t_silu_and_mul :: "tensor \<Rightarrow> tensor \<Rightarrow> ('a, 'k) store \<Rightarrow> ('a, 'k) store option"

record ('a, 'k) kernels =
  v_int :: "'a \<Rightarrow> int"
  v_long :: "'a \<Rightarrow> 'a"
  v_mul :: "'a \<Rightarrow> 'a \<Rightarrow> 'a"
  v_sub :: "'a \<Rightarrow> 'a \<Rightarrow> 'a"
  v_add :: "'a \<Rightarrow> 'a \<Rightarrow> 'a"
  v_uninit :: "('a, 'k) store \<Rightarrow> nat \<Rightarrow> 'a list"
  v_linear :: "'a tval \<Rightarrow> 'a tval \<Rightarrow> 'a tval option \<Rightarrow> 'a list"
  v_rms_norm :: "'a tval \<Rightarrow> 'a tval \<Rightarrow> rat \<Rightarrow> 'a list"
  v_silu_and_mul :: "'a tval \<Rightarrow> 'a list"
  v_attn :: "string \<Rightarrow> 'k \<Rightarrow> 'a tval \<Rightarrow> 'a tval \<Rightarrow> 'a tval \<Rightarrow> 'a list \<times> 'k"

subsection \<open>Shape calculus\<close>

text \<open>
  \<open>infer\<close> resolves a requested shape in which at most one dimension is \<open>-1\<close>; with no
  elements and a \<open>-1\<close> the request is ambiguous and PyTorch raises.
\<close>

definition infer :: "int list \<Rightarrow> nat \<Rightarrow> nat list option" where
  "infer sh n =
     (let known = filter (\<lambda>d. d \<noteq> -1) sh; k = prod_list (map nat known) in
      if \<exists>d \<in> set known. d < 0 then None
      else if length known = length sh then
        (if k = n then Some (map nat sh) else None)
      else if length known + 1 = length sh then
        (if k \<noteq> 0 \<and> k dvd n then Some (map (\<lambda>d. if d = -1 then n div k else nat d) sh) else None)
      else None)"

definition slice_last :: "tensor \<Rightarrow> nat \<Rightarrow> nat \<Rightarrow> tensor" where
  "slice_last x lo n =
     x\<lparr>offset := offset x + lo * last (strides x), sizes := butlast (sizes x) @ [n]\<rparr>"

fun splits :: "tensor \<Rightarrow> nat \<Rightarrow> nat list \<Rightarrow> tensor list" where
  "splits x lo [] = []"
| "splits x lo (n # ns) = slice_last x lo n # splits x (lo + n) ns"

definition with_shape :: "tensor \<Rightarrow> nat list \<Rightarrow> tensor" where
  "with_shape x sz = x\<lparr>sizes := sz, strides := cstride sz\<rparr>"

definition unsqueezed :: "tensor \<Rightarrow> tensor" where
  "unsqueezed x =
     x\<lparr>sizes := butlast (sizes x) @ [1, last (sizes x)],
       strides := butlast (strides x) @ [last (sizes x) * last (strides x), last (strides x)]\<rparr>"

text \<open>Broadcasting of two shapes of the same rank: a dimension of size 1 is repeated.\<close>

definition bcast_ok :: "nat list \<Rightarrow> nat list \<Rightarrow> bool" where
  "bcast_ok xs ys = list_all2 (\<lambda>a b. a = b \<or> a = 1 \<or> b = 1) xs ys"

definition bcast :: "nat list \<Rightarrow> nat list \<Rightarrow> nat list" where
  "bcast xs ys = map2 (\<lambda>a b. if a = 1 then b else a) xs ys"

definition bidx :: "nat list \<Rightarrow> nat list \<Rightarrow> nat list" where
  "bidx sz ix = map2 (\<lambda>n i. if n = 1 then 0 else i) sz ix"

definition elementwise ::
  "('a \<Rightarrow> 'a \<Rightarrow> 'a) \<Rightarrow> tensor \<Rightarrow> tensor \<Rightarrow> ('a, 'k) store \<Rightarrow> tensor \<times> ('a, 'k) store" where
  "elementwise f x y h =
     (let sz = bcast (sizes x) (sizes y) in
      (new_t h (dtype x) sz,
       alloc h (tabulate sz (\<lambda>ix. f (rd h x (bidx (sizes x) ix)) (rd h y (bidx (sizes y) ix))))))"

definition cat_last :: "tensor \<Rightarrow> tensor \<Rightarrow> ('a, 'k) store \<Rightarrow> tensor \<times> ('a, 'k) store" where
  "cat_last x y h =
     (let la = last (sizes x); sz = butlast (sizes x) @ [la + last (sizes y)] in
      (new_t h (dtype x) sz,
       alloc h (tabulate sz (\<lambda>ix. if last ix < la then rd h x ix
                                  else rd h y (butlast ix @ [last ix - la])))))"

definition gather_rows ::
  "('a, 'k) kernels \<Rightarrow> tensor \<Rightarrow> tensor \<Rightarrow> nat \<Rightarrow> ('a, 'k) store \<Rightarrow> tensor \<times> ('a, 'k) store" where
  "gather_rows V w ids d h =
     (new_t h (dtype w) (sizes ids @ [d]),
      alloc h (tabulate (sizes ids @ [d])
        (\<lambda>ix. rd h w [nat (v_int V (rd h ids (butlast ix))), last ix])))"

definition ids_in_range :: "('a, 'k) kernels \<Rightarrow> ('a, 'k) store \<Rightarrow> tensor \<Rightarrow> nat \<Rightarrow> bool" where
  "ids_in_range V h ids n \<longleftrightarrow>
     (\<forall>ix. idx_ok (sizes ids) ix \<longrightarrow> 0 \<le> v_int V (rd h ids ix) \<and> v_int V (rd h ids ix) < int n)"

lemma infer_leading [index_simps]:
  "infer [-1, 1024] (n * 1024) = Some [n, 1024]"
  "infer [-1, 2816] (n * 2816) = Some [n, 2816]"
  "infer [-1, 16, 64] (n * 1024) = Some [n, 16, 64]"
  by (simp_all add: infer_def Let_def)

lemma infer_middle [index_simps]:
  assumes "0 < n"
  shows "infer [int n, -1, 64] (n * 1024) = Some [n, 16, 64]"
proof -
  have "n * 1024 = 16 * (n * 64)" by simp
  then show ?thesis
    using assms by (simp add: infer_def Let_def del: mult.commute)
qed

lemma with_shape_simps [simp]:
  "base (with_shape x sz) = base x" "sizes (with_shape x sz) = sz" "dtype (with_shape x sz) = dtype x"
  "contiguous (with_shape x sz)"
  by (simp_all add: with_shape_def contiguous_def)

lemma whole_with_shape:
  "whole h x \<Longrightarrow> prod_list sz = numel x \<Longrightarrow> whole h (with_shape x sz)"
  by (auto simp: whole_def with_shape_def contiguous_def numel_def)

lemma tvals_with_shape:
  "whole h x \<Longrightarrow> prod_list sz = numel x \<Longrightarrow> tvals h (with_shape x sz) = tvals h x"
  using whole_tvals [of h x] whole_tvals [of h "with_shape x sz"] whole_with_shape [of h x sz]
  by (simp add: with_shape_def)

subsection \<open>The documented laws\<close>

locale torch_api =
  fixes T :: "('a, 'k) torch" and V :: "('a, 'k) kernels"
  assumes long_law [exec_simps]:
    "valid h x \<Longrightarrow> dtype x = Int32 \<Longrightarrow>
     t_long T x h = Some (new_t h Int64 (sizes x), alloc h (map (v_long V) (tvals h x)))"
  and int_long [simp]: "v_int V (v_long V e) = v_int V e"
  and embedding_law [exec_simps]:
    "valid h ids \<Longrightarrow> valid h w \<Longrightarrow> dtype ids \<in> {Int32, Int64} \<Longrightarrow> sizes w = [n, d] \<Longrightarrow> ids_in_range V h ids n \<Longrightarrow>
     t_embedding T ids w h = Some (gather_rows V w ids d h)"
  and log_api_law [exec_simps]: "t_log_api_usage_once T name h = Some h"
  and get_data_attr_law [exec_simps]: "t_get_data_attr T x = Some x"
  and empty_like_law [exec_simps]:
    "t_empty_like T x h =
       Some (new_t h (dtype x) (sizes x), alloc h (v_uninit V h (prod_list (sizes x))))"
  and uninit_length [simp]: "length (v_uninit V h n) = n"
  and contiguous_law [exec_simps]: "contiguous x \<Longrightarrow> t_contiguous T x h = Some (x, h)"
  and rms_norm_law [exec_simps]:
    "whole h out \<Longrightarrow> valid h x \<Longrightarrow> valid h w \<Longrightarrow> sizes out = sizes x \<Longrightarrow>
     sizes w = [last (sizes x)] \<Longrightarrow> dtype out = dtype x \<Longrightarrow> dtype w = dtype x \<Longrightarrow> base out \<notin> {base x, base w} \<Longrightarrow>
     t_rms_norm T out x w eps h = Some (put h out (v_rms_norm V (tv h x) (tv h w) eps))"
  and rms_norm_length [simp]:
    "length xs = prod_list sz \<Longrightarrow> length (v_rms_norm V (sz, xs) wv eps) = prod_list sz"
  and linear_law [exec_simps]:
    "valid h x \<Longrightarrow> valid h w \<Longrightarrow> sizes x = [n, k] \<Longrightarrow> sizes w = [m, k] \<Longrightarrow> dtype w = dtype x \<Longrightarrow>
     (\<forall>b'. bias = Some b' \<longrightarrow> valid h b' \<and> sizes b' = [m] \<and> dtype b' = dtype x) \<Longrightarrow>
     t_linear T x w bias h =
       Some (new_t h (dtype x) [n, m], alloc h (v_linear V (tv h x) (tv h w) (map_option (tv h) bias)))"
  and linear_length [simp]:
    "length xs = n * k \<Longrightarrow> length ws = m * k \<Longrightarrow>
     length (v_linear V ([n, k], xs) ([m, k], ws) bv) = n * m"
  and split_law [exec_simps]:
    "sizes x \<noteq> [] \<Longrightarrow> sum_list ns = last (sizes x) \<Longrightarrow> t_split T x ns (-1) = Some (splits x 0 ns)"
  and flatten_law [exec_simps]: "sizes x = [n] \<Longrightarrow> t_flatten T x h = Some (x, h)"
  and index_select_law [exec_simps]:
    "valid h ids \<Longrightarrow> valid h w \<Longrightarrow> sizes ids = [l] \<Longrightarrow> dtype ids \<in> {Int32, Int64} \<Longrightarrow> sizes w = [n, d] \<Longrightarrow>
     ids_in_range V h ids n \<Longrightarrow>
     t_index_select T w 0 ids h = Some (gather_rows V w ids d h)"
  and chunk_law [exec_simps]:
    "sizes x \<noteq> [] \<Longrightarrow> 0 < k \<Longrightarrow> last (sizes x) = k * c \<Longrightarrow> 0 < c \<Longrightarrow>
     t_chunk T x k (-1) = Some (splits x 0 (replicate k c))"
  and view_law [exec_simps]:
    "contiguous x \<Longrightarrow> infer sh (numel x) = Some sz \<Longrightarrow> t_view T x sh = Some (with_shape x sz)"
  and view_split_law [exec_simps]:
    "sizes x = [n, a * b] \<Longrightarrow> strides x = [s, 1] \<Longrightarrow> infer sh (numel x) = Some [n, a, b] \<Longrightarrow>
     t_view T x sh = Some (x\<lparr>sizes := [n, a, b], strides := [s, b, 1]\<rparr>)"
  and getitem_upto_law [exec_simps]:
    "sizes x \<noteq> [] \<Longrightarrow> m \<le> last (sizes x) \<Longrightarrow>
     t_getitem_last T x None (Some m) = Some (slice_last x 0 m)"
  and getitem_from_law [exec_simps]:
    "sizes x \<noteq> [] \<Longrightarrow> m \<le> last (sizes x) \<Longrightarrow>
     t_getitem_last T x (Some m) None = Some (slice_last x m (last (sizes x) - m))"
  and unsqueeze_law [exec_simps]: "sizes x \<noteq> [] \<Longrightarrow> t_unsqueeze T x (-2) = Some (unsqueezed x)"
  and to_law [exec_simps]: "dtype x = dt \<Longrightarrow> t_to T x dt h = Some (x, h)"
  and mul_law [exec_simps]:
    "valid h x \<Longrightarrow> valid h y \<Longrightarrow> dtype x = dtype y \<Longrightarrow> bcast_ok (sizes x) (sizes y) \<Longrightarrow>
     t_mul T x y h = Some (elementwise (v_mul V) x y h)"
  and sub_law [exec_simps]:
    "valid h x \<Longrightarrow> valid h y \<Longrightarrow> dtype x = dtype y \<Longrightarrow> bcast_ok (sizes x) (sizes y) \<Longrightarrow>
     t_sub T x y h = Some (elementwise (v_sub V) x y h)"
  and add_law [exec_simps]:
    "valid h x \<Longrightarrow> valid h y \<Longrightarrow> dtype x = dtype y \<Longrightarrow> bcast_ok (sizes x) (sizes y) \<Longrightarrow>
     t_add T x y h = Some (elementwise (v_add V) x y h)"
  and cat_law [exec_simps]:
    "valid h x \<Longrightarrow> valid h y \<Longrightarrow> dtype x = dtype y \<Longrightarrow> sizes x \<noteq> [] \<Longrightarrow> sizes y \<noteq> [] \<Longrightarrow>
     butlast (sizes x) = butlast (sizes y) \<Longrightarrow> t_cat T [x, y] (-1) h = Some (cat_last x y h)"
  and reshape_law [exec_simps]:
    "contiguous x \<Longrightarrow> prod_list sz = numel x \<Longrightarrow> t_reshape T x sz h = Some (with_shape x sz, h)"
  and empty_law [exec_simps]:
    "t_empty T sz dt dev h = Some (new_t h dt sz, alloc h (v_uninit V h (prod_list sz)))"
  and attention_law [exec_simps]:
    "valid h q \<Longrightarrow> valid h kt \<Longrightarrow> valid h vt \<Longrightarrow> whole h out \<Longrightarrow> sizes out = sizes q \<Longrightarrow>
     sizes kt = sizes vt \<Longrightarrow> dtype kt = dtype q \<Longrightarrow> dtype vt = dtype q \<Longrightarrow> dtype out = dtype q \<Longrightarrow>
     base out \<notin> {base q, base kt, base vt} \<Longrightarrow>
     t_unified_attention_with_output T q kt vt out name h =
       Some ((put h out (fst (v_attn V name (ctx h) (tv h q) (tv h kt) (tv h vt))))
               \<lparr>ctx := snd (v_attn V name (ctx h) (tv h q) (tv h kt) (tv h vt))\<rparr>)"
  and attention_length [simp]:
    "length qs = prod_list sz \<Longrightarrow> length (fst (v_attn V name kv (sz, qs) kv1 kv2)) = prod_list sz"
  and fused_add_rms_norm_law [exec_simps]:
    "whole h x \<Longrightarrow> whole h r \<Longrightarrow> valid h w \<Longrightarrow> sizes x = sizes r \<Longrightarrow> sizes w = [last (sizes x)] \<Longrightarrow>
     dtype r = dtype x \<Longrightarrow> dtype w = dtype x \<Longrightarrow> base x \<noteq> base r \<Longrightarrow> base w \<notin> {base x, base r} \<Longrightarrow>
     t_fused_add_rms_norm T x r w eps h =
       (let r' = map2 (v_add V) (tvals h x) (tvals h r) in
        Some (put (put h r r') x (v_rms_norm V (sizes x, r') (tv h w) eps)))"
  and silu_and_mul_law [exec_simps]:
    "whole h out \<Longrightarrow> valid h x \<Longrightarrow> sizes x = [n, 2 * d] \<Longrightarrow> sizes out = [n, d] \<Longrightarrow>
     dtype out = dtype x \<Longrightarrow> base out \<noteq> base x \<Longrightarrow>
     t_silu_and_mul T out x h = Some (put h out (v_silu_and_mul V (tv h x)))"
  and silu_and_mul_length [simp]:
    "length xs = n * (2 * d) \<Longrightarrow> length (v_silu_and_mul V ([n, 2 * d], xs)) = n * d"

end
