(* ===== verification/Vllm_Graph.thy ===== *)
theory Vllm_Graph
  imports Torch_API
begin

text \<open>
  The computation graph of the sample vLLM cache, as torch.compile wrote it to
  src/mcv/example/vllm-cache/torch_compile_cache/d4ec7c2a7d/rank_0_0/computation_graph.py:
  one definition per submodule and the top-level \<open>GraphModule.forward\<close>, statement by
  statement. An assignment \<open>x = op(...)\<close> is a bind; the store \<open>h\<close> is threaded through the
  operators that allocate or write; \<open>x = None\<close> only drops a reference and has no
  counterpart (no name is read after it is dropped). A parameter name such as
  \<open>l_self_modules_layers_modules_0_modules_mlp_modules_down_proj_parameters_weight_\<close> is
  written \<open>layers_0_mlp_down_proj_weight\<close>.
\<close>

text \<open>Indexing a Python tuple or list raises outside its bounds.\<close>

definition py_nth :: "'b list \<Rightarrow> nat \<Rightarrow> 'b option" where
  "py_nth xs i = (if i < length xs then Some (xs ! i) else None)"

lemma py_nth_simps [simp]:
  "py_nth (x # xs) 0 = Some x"
  "py_nth (x # xs) (Suc i) = py_nth xs i"
  "py_nth [] i = None"
  by (simp_all add: py_nth_def)

lemma py_nth_numeral [simp]: "py_nth (x # xs) (numeral k) = py_nth xs (pred_numeral k)"
  by (simp add: numeral_eq_Suc)

lemma py_nth_one [simp]: "py_nth (x # xs) 1 = py_nth xs 0"
  by (simp add: py_nth_def)

record layer_params =
  input_layernorm_weight :: tensor
  qkv_proj_bias :: tensor
  qkv_proj_weight :: tensor
  o_proj_weight :: tensor
  post_attention_layernorm_weight :: tensor
  gate_up_proj_weight :: tensor
  down_proj_weight :: tensor

definition submod_0 ::
  "('a, 'k) torch \<Rightarrow> tensor \<Rightarrow> nat \<Rightarrow> tensor \<Rightarrow> tensor \<Rightarrow> tensor \<Rightarrow> tensor \<Rightarrow> tensor \<Rightarrow> tensor \<Rightarrow>
   ('a, 'k) store \<Rightarrow> ((tensor \<times> tensor \<times> tensor \<times> tensor \<times> tensor) \<times> ('a, 'k) store) option" where
  "submod_0 T l_input_ids s0 embed_tokens_weight layers_0_input_layernorm_weight
      layers_0_self_attn_qkv_proj_weight layers_0_self_attn_qkv_proj_bias l_positions
      layers_0_self_attn_rotary_emb_cos_sin_cache h = do {
  (long, h) \<leftarrow> t_long T l_input_ids h;
  (embedding, h) \<leftarrow> t_embedding T long embed_tokens_weight h;
  h \<leftarrow> t_log_api_usage_once T ''python.nn_module'' h;
  get_data_attr \<leftarrow> t_get_data_attr T layers_0_input_layernorm_weight;
  (empty_like, h) \<leftarrow> t_empty_like T embedding h;
  (contiguous, h) \<leftarrow> t_contiguous T embedding h;
  h \<leftarrow> t_rms_norm T empty_like contiguous get_data_attr (1 / 1000000) h;
  (linear, h) \<leftarrow> t_linear T empty_like layers_0_self_attn_qkv_proj_weight (Some
      layers_0_self_attn_qkv_proj_bias) h;
  split \<leftarrow> t_split T linear [1024, 1024, 1024] (-1);
  getitem \<leftarrow> py_nth split 0;
  getitem_1 \<leftarrow> py_nth split 1;
  getitem_2 \<leftarrow> py_nth split 2;
  (flatten, h) \<leftarrow> t_flatten T l_positions h;
  (index_select, h) \<leftarrow> t_index_select T layers_0_self_attn_rotary_emb_cos_sin_cache 0
      flatten h;
  chunk \<leftarrow> t_chunk T index_select 2 (-1);
  getitem_3 \<leftarrow> py_nth chunk 0;
  getitem_4 \<leftarrow> py_nth chunk 1;
  let size = sizes getitem;
  view \<leftarrow> t_view T getitem [int s0, -1, 64];
  getitem_5 \<leftarrow> t_getitem_last T view None (Some 64);
  getitem_6 \<leftarrow> t_getitem_last T view (Some 64) None;
  unsqueeze \<leftarrow> t_unsqueeze T getitem_3 (-2);
  (to, h) \<leftarrow> t_to T unsqueeze BFloat16 h;
  unsqueeze_1 \<leftarrow> t_unsqueeze T getitem_4 (-2);
  (to_1, h) \<leftarrow> t_to T unsqueeze_1 BFloat16 h;
  chunk_1 \<leftarrow> t_chunk T getitem_5 2 (-1);
  getitem_7 \<leftarrow> py_nth chunk_1 0;
  getitem_8 \<leftarrow> py_nth chunk_1 1;
  (mul, h) \<leftarrow> t_mul T getitem_7 to h;
  (mul_1, h) \<leftarrow> t_mul T getitem_8 to_1 h;
  (sub, h) \<leftarrow> t_sub T mul mul_1 h;
  (mul_2, h) \<leftarrow> t_mul T getitem_8 to h;
  (mul_3, h) \<leftarrow> t_mul T getitem_7 to_1 h;
  (add, h) \<leftarrow> t_add T mul_2 mul_3 h;
  (cat, h) \<leftarrow> t_cat T [sub, add] (-1) h;
  (cat_1, h) \<leftarrow> t_cat T [cat, getitem_6] (-1) h;
  (reshape, h) \<leftarrow> t_reshape T cat_1 size h;
  let size_1 = sizes getitem_1;
  view_1 \<leftarrow> t_view T getitem_1 [int s0, -1, 64];
  getitem_9 \<leftarrow> t_getitem_last T view_1 None (Some 64);
  getitem_10 \<leftarrow> t_getitem_last T view_1 (Some 64) None;
  unsqueeze_2 \<leftarrow> t_unsqueeze T getitem_3 (-2);
  (to_2, h) \<leftarrow> t_to T unsqueeze_2 BFloat16 h;
  unsqueeze_3 \<leftarrow> t_unsqueeze T getitem_4 (-2);
  (to_3, h) \<leftarrow> t_to T unsqueeze_3 BFloat16 h;
  chunk_2 \<leftarrow> t_chunk T getitem_9 2 (-1);
  getitem_11 \<leftarrow> py_nth chunk_2 0;
  getitem_12 \<leftarrow> py_nth chunk_2 1;
  (mul_4, h) \<leftarrow> t_mul T getitem_11 to_2 h;
  (mul_5, h) \<leftarrow> t_mul T getitem_12 to_3 h;
  (sub_1, h) \<leftarrow> t_sub T mul_4 mul_5 h;
  (mul_6, h) \<leftarrow> t_mul T getitem_12 to_2 h;
  (mul_7, h) \<leftarrow> t_mul T getitem_11 to_3 h;
  (add_1, h) \<leftarrow> t_add T mul_6 mul_7 h;
  (cat_2, h) \<leftarrow> t_cat T [sub_1, add_1] (-1) h;
  (cat_3, h) \<leftarrow> t_cat T [cat_2, getitem_10] (-1) h;
  (reshape_1, h) \<leftarrow> t_reshape T cat_3 size_1 h;
  let size_2 = sizes reshape;
  (empty, h) \<leftarrow> t_empty T size_2 BFloat16 (''cuda'', 0) h;
  view_2 \<leftarrow> t_view T reshape [-1, 16, 64];
  view_3 \<leftarrow> t_view T empty [-1, 16, 64];
  view_4 \<leftarrow> t_view T reshape_1 [-1, 16, 64];
  view_5 \<leftarrow> t_view T getitem_2 [-1, 16, 64];
  Some ((view_2, view_4, view_5, view_3, embedding), h)}"

definition submod_1 ::
  "('a, 'k) torch \<Rightarrow> tensor \<Rightarrow> nat \<Rightarrow> tensor \<Rightarrow> tensor \<Rightarrow> tensor \<Rightarrow>
   ('a, 'k) store \<Rightarrow> (unit \<times> ('a, 'k) store) option" where
  "submod_1 T query_2 s0 key_2 value output_1 h = do {
  h \<leftarrow> t_unified_attention_with_output T query_2 key_2 value output_1
      ''model.layers.0.self_attn.attn'' h;
  Some ((), h)}"

definition submod_2 ::
  "('a, 'k) torch \<Rightarrow> tensor \<Rightarrow> nat \<Rightarrow> tensor \<Rightarrow> tensor \<Rightarrow> tensor \<Rightarrow> tensor \<Rightarrow> tensor \<Rightarrow> tensor \<Rightarrow> tensor \<Rightarrow> tensor \<Rightarrow> tensor \<Rightarrow> tensor \<Rightarrow>
   ('a, 'k) store \<Rightarrow> ((tensor \<times> tensor \<times> tensor \<times> tensor) \<times> ('a, 'k) store) option" where
  "submod_2 T output_1 s0 layers_0_self_attn_o_proj_weight
      layers_0_post_attention_layernorm_weight output_parallel layers_0_mlp_gate_up_proj_weight
      layers_0_mlp_down_proj_weight layers_1_input_layernorm_weight
      layers_1_self_attn_qkv_proj_weight layers_1_self_attn_qkv_proj_bias l_positions
      layers_0_self_attn_rotary_emb_cos_sin_cache h = do {
  view \<leftarrow> t_view T output_1 [-1, 1024];
  view_1 \<leftarrow> t_view T view [-1, 1024];
  (linear, h) \<leftarrow> t_linear T view layers_0_self_attn_o_proj_weight None h;
  get_data_attr \<leftarrow> t_get_data_attr T layers_0_post_attention_layernorm_weight;
  h \<leftarrow> t_fused_add_rms_norm T linear output_parallel get_data_attr (1 / 1000000) h;
  view_2 \<leftarrow> t_view T linear [-1, 1024];
  (linear_1, h) \<leftarrow> t_linear T linear layers_0_mlp_gate_up_proj_weight None h;
  (empty, h) \<leftarrow> t_empty T [s0, 2816] BFloat16 (''cuda'', 0) h;
  h \<leftarrow> t_silu_and_mul T empty linear_1 h;
  view_3 \<leftarrow> t_view T empty [-1, 2816];
  (linear_2, h) \<leftarrow> t_linear T empty layers_0_mlp_down_proj_weight None h;
  get_data_attr_1 \<leftarrow> t_get_data_attr T layers_1_input_layernorm_weight;
  h \<leftarrow> t_fused_add_rms_norm T linear_2 output_parallel get_data_attr_1 (1 / 1000000)
      h;
  (linear_3, h) \<leftarrow> t_linear T linear_2 layers_1_self_attn_qkv_proj_weight (Some
      layers_1_self_attn_qkv_proj_bias) h;
  split \<leftarrow> t_split T linear_3 [1024, 1024, 1024] (-1);
  getitem \<leftarrow> py_nth split 0;
  getitem_1 \<leftarrow> py_nth split 1;
  getitem_2 \<leftarrow> py_nth split 2;
  (flatten, h) \<leftarrow> t_flatten T l_positions h;
  (index_select, h) \<leftarrow> t_index_select T layers_0_self_attn_rotary_emb_cos_sin_cache 0
      flatten h;
  chunk \<leftarrow> t_chunk T index_select 2 (-1);
  getitem_3 \<leftarrow> py_nth chunk 0;
  getitem_4 \<leftarrow> py_nth chunk 1;
  let size = sizes getitem;
  view_4 \<leftarrow> t_view T getitem [int s0, -1, 64];
  getitem_5 \<leftarrow> t_getitem_last T view_4 None (Some 64);
  getitem_6 \<leftarrow> t_getitem_last T view_4 (Some 64) None;
  unsqueeze \<leftarrow> t_unsqueeze T getitem_3 (-2);
  (to, h) \<leftarrow> t_to T unsqueeze BFloat16 h;
  unsqueeze_1 \<leftarrow> t_unsqueeze T getitem_4 (-2);
  (to_1, h) \<leftarrow> t_to T unsqueeze_1 BFloat16 h;
  chunk_1 \<leftarrow> t_chunk T getitem_5 2 (-1);
  getitem_7 \<leftarrow> py_nth chunk_1 0;
  getitem_8 \<leftarrow> py_nth chunk_1 1;
  (mul, h) \<leftarrow> t_mul T getitem_7 to h;
  (mul_1, h) \<leftarrow> t_mul T getitem_8 to_1 h;
  (sub, h) \<leftarrow> t_sub T mul mul_1 h;
  (mul_2, h) \<leftarrow> t_mul T getitem_8 to h;
  (mul_3, h) \<leftarrow> t_mul T getitem_7 to_1 h;
  (add, h) \<leftarrow> t_add T mul_2 mul_3 h;
  (cat, h) \<leftarrow> t_cat T [sub, add] (-1) h;
  (cat_1, h) \<leftarrow> t_cat T [cat, getitem_6] (-1) h;
  (reshape, h) \<leftarrow> t_reshape T cat_1 size h;
  let size_1 = sizes getitem_1;
  view_5 \<leftarrow> t_view T getitem_1 [int s0, -1, 64];
  getitem_9 \<leftarrow> t_getitem_last T view_5 None (Some 64);
  getitem_10 \<leftarrow> t_getitem_last T view_5 (Some 64) None;
  unsqueeze_2 \<leftarrow> t_unsqueeze T getitem_3 (-2);
  (to_2, h) \<leftarrow> t_to T unsqueeze_2 BFloat16 h;
  unsqueeze_3 \<leftarrow> t_unsqueeze T getitem_4 (-2);
  (to_3, h) \<leftarrow> t_to T unsqueeze_3 BFloat16 h;
  chunk_2 \<leftarrow> t_chunk T getitem_9 2 (-1);
  getitem_11 \<leftarrow> py_nth chunk_2 0;
  getitem_12 \<leftarrow> py_nth chunk_2 1;
  (mul_4, h) \<leftarrow> t_mul T getitem_11 to_2 h;
  (mul_5, h) \<leftarrow> t_mul T getitem_12 to_3 h;
  (sub_1, h) \<leftarrow> t_sub T mul_4 mul_5 h;
  (mul_6, h) \<leftarrow> t_mul T getitem_12 to_2 h;
  (mul_7, h) \<leftarrow> t_mul T getitem_11 to_3 h;
  (add_1, h) \<leftarrow> t_add T mul_6 mul_7 h;
  (cat_2, h) \<leftarrow> t_cat T [sub_1, add_1] (-1) h;
  (cat_3, h) \<leftarrow> t_cat T [cat_2, getitem_10] (-1) h;
  (reshape_1, h) \<leftarrow> t_reshape T cat_3 size_1 h;
  let size_2 = sizes reshape;
  (empty_1, h) \<leftarrow> t_empty T size_2 BFloat16 (''cuda'', 0) h;
  view_6 \<leftarrow> t_view T reshape [-1, 16, 64];
  view_7 \<leftarrow> t_view T empty_1 [-1, 16, 64];
  view_8 \<leftarrow> t_view T reshape_1 [-1, 16, 64];
  view_9 \<leftarrow> t_view T getitem_2 [-1, 16, 64];
  Some ((view_6, view_8, view_9, view_7), h)}"

definition submod_48 ::
  "('a, 'k) torch \<Rightarrow> tensor \<Rightarrow> nat \<Rightarrow> tensor \<Rightarrow> tensor \<Rightarrow> tensor \<Rightarrow> tensor \<Rightarrow> tensor \<Rightarrow> tensor \<Rightarrow>
   ('a, 'k) store \<Rightarrow> (tensor \<times> ('a, 'k) store) option" where
  "submod_48 T output_47 s0 layers_23_self_attn_o_proj_weight
      layers_23_post_attention_layernorm_weight output_parallel
      layers_23_mlp_gate_up_proj_weight layers_23_mlp_down_proj_weight norm_weight h = do {
  view \<leftarrow> t_view T output_47 [-1, 1024];
  view_1 \<leftarrow> t_view T view [-1, 1024];
  (linear, h) \<leftarrow> t_linear T view layers_23_self_attn_o_proj_weight None h;
  get_data_attr \<leftarrow> t_get_data_attr T layers_23_post_attention_layernorm_weight;
  h \<leftarrow> t_fused_add_rms_norm T linear output_parallel get_data_attr (1 / 1000000) h;
  view_2 \<leftarrow> t_view T linear [-1, 1024];
  (linear_1, h) \<leftarrow> t_linear T linear layers_23_mlp_gate_up_proj_weight None h;
  (empty, h) \<leftarrow> t_empty T [s0, 2816] BFloat16 (''cuda'', 0) h;
  h \<leftarrow> t_silu_and_mul T empty linear_1 h;
  view_3 \<leftarrow> t_view T empty [-1, 2816];
  (linear_2, h) \<leftarrow> t_linear T empty layers_23_mlp_down_proj_weight None h;
  get_data_attr_1 \<leftarrow> t_get_data_attr T norm_weight;
  h \<leftarrow> t_fused_add_rms_norm T linear_2 output_parallel get_data_attr_1 (1 / 1000000)
      h;
  Some (linear_2, h)}"


end
