(* ===== verification/Triton_Kernels.thy ===== *)
theory Triton_Kernels
  imports Prelude
begin

text \<open>
  The Triton kernels of the compiled cache, under
  src/mcv/example/vllm-cache/torch_compile_cache/d4ec7c2a7d/rank_0_0/inductor_cache. All
  three are pointwise: a lane computes one element from its own index and no lane reads
  what another writes. A kernel is modelled as the program of one lane of one program
  instance, on the buffers its pointers refer to: a load or store outside a buffer and a
  failed device assertion are \<open>None\<close>; a masked-off load gives the \<open>other\<close> argument.
  Index arithmetic is 32 bit, and 64 bit where a loaded 64-bit value takes part. A launch
  runs the lanes of all instances in any order.
\<close>

subsection \<open>Machine integers, loads and stores\<close>

definition i32 :: "int \<Rightarrow> int" where
  "i32 z = (z + 2 ^ 31) mod 2 ^ 32 - 2 ^ 31"

definition i64 :: "int \<Rightarrow> int" where
  "i64 z = (z + 2 ^ 63) mod 2 ^ 64 - 2 ^ 63"

text \<open>Integer division and remainder of Triton tensors truncate towards zero.\<close>

definition tl_div :: "int \<Rightarrow> int \<Rightarrow> int" where
  "tl_div a b = sgn a * sgn b * (\<bar>a\<bar> div \<bar>b\<bar>)"

definition tl_mod :: "int \<Rightarrow> int \<Rightarrow> int" where
  "tl_mod a b = a - b * tl_div a b"

definition tl_load :: "'a list \<Rightarrow> int \<Rightarrow> bool \<Rightarrow> 'a \<Rightarrow> 'a option" where
  "tl_load ptr off msk other =
     (if msk then (if 0 \<le> off \<and> off < int (length ptr) then Some (ptr ! nat off) else None)
      else Some other)"

definition tl_store :: "'a list \<Rightarrow> int \<Rightarrow> 'a \<Rightarrow> bool \<Rightarrow> 'a list option" where
  "tl_store ptr off v msk =
     (if msk then (if 0 \<le> off \<and> off < int (length ptr) then Some (ptr[nat off := v]) else None)
      else Some ptr)"

definition device_assert :: "bool \<Rightarrow> unit option" where
  "device_assert c = (if c then Some () else None)"

text \<open>
  The scalar operations of a kernel: bfloat16 cells are widened to float32 after a load,
  arithmetic is in float32, a store narrows. Integer buffers are read with \<open>as_int\<close>;
  \<open>undef\<close> is what a masked-off load without \<open>other\<close> leaves in the register.
\<close>

record ('a, 'f) scalars =
  as_int :: "'a \<Rightarrow> int"
  zero16 :: 'a
  undef16 :: 'a
  up :: "'a \<Rightarrow> 'f"
  down :: "'f \<Rightarrow> 'a"
  zero32 :: 'f
  fmul :: "'f \<Rightarrow> 'f \<Rightarrow> 'f"
  fsub :: "'f \<Rightarrow> 'f \<Rightarrow> 'f"
  fadd :: "'f \<Rightarrow> 'f \<Rightarrow> 'f"

subsection \<open>The kernels\<close>

definition triton_poi_fused__to_copy_embedding_0 ::
  "('a, 'f) scalars \<Rightarrow> 'a list \<Rightarrow> 'a list \<Rightarrow> int \<Rightarrow> int \<Rightarrow> int \<times> int \<Rightarrow> 'a list \<Rightarrow> 'a list option" where
  "triton_poi_fused__to_copy_embedding_0 F in_ptr0 in_ptr1 xnumel XBLOCK = (\<lambda>(pid, lane) out_ptr0. do {
     let xoffset = i32 (pid * XBLOCK);
     let xindex = i32 (xoffset + lane);
     let xmask = xindex < xnumel;
     let x1 = tl_div xindex 1024;
     let x0 = tl_mod xindex 1024;
     let x2 = xindex;
     tmp0 \<leftarrow> map_option (as_int F) (tl_load in_ptr0 x1 xmask (undef16 F));
     let tmp1 = i64 tmp0;
     let tmp2 = 151936;
     let tmp3 = i64 (tmp1 + tmp2);
     let tmp4 = tmp1 < 0;
     let tmp5 = (if tmp4 then tmp3 else tmp1);
     device_assert ((0 \<le> tmp5 \<and> tmp5 < 151936) \<or> \<not> xmask);
     tmp7 \<leftarrow> map_option (up F) (tl_load in_ptr1 (i64 (x0 + 1024 * tmp5)) xmask (undef16 F));
     tl_store out_ptr0 x2 (down F tmp7) xmask})"

definition triton_poi_fused_cat_0 ::
  "('a, 'f) scalars \<Rightarrow> 'a list \<Rightarrow> 'a list \<Rightarrow> 'a list \<Rightarrow> int \<Rightarrow> int \<Rightarrow> int \<times> int \<Rightarrow>
   'a list \<times> 'a list \<Rightarrow> ('a list \<times> 'a list) option" where
  "triton_poi_fused_cat_0 F in_ptr0 in_ptr1 in_ptr2 xnumel XBLOCK = (\<lambda>(pid, lane) (out_ptr0, out_ptr1). do {
     let xoffset = i32 (pid * XBLOCK);
     let xindex = i32 (xoffset + lane);
     let xmask = xindex < xnumel;
     let x0 = tl_mod xindex 64;
     let x1 = tl_mod (tl_div xindex 64) 16;
     let x2 = tl_div xindex 1024;
     let x4 = xindex;
     let tmp0 = x0;
     let tmp1 = (0 :: int);
     let tmp2 = (tmp0 \<ge> tmp1);
     let tmp3 = (32 :: int);
     let tmp4 = (tmp0 < tmp3);
     let tmp5 = tmp4;
     tmp6 \<leftarrow> map_option (up F) (tl_load in_ptr0 (i32 (64 * x1 + 3072 * x2 + x0)) (xmask \<and> tmp5) (zero16 F));
     tmp7 \<leftarrow> map_option (as_int F) (tl_load in_ptr1 x2 (xmask \<and> tmp5) (zero16 F));
     let tmp8 = (32768 :: int);
     let tmp9 = i64 (tmp7 + tmp8);
     let tmp10 = (tmp7 < 0);
     let tmp11 = (if tmp10 then tmp9 else tmp7);
     device_assert ((0 \<le> tmp11 \<and> tmp11 < 32768) \<or> \<not> (xmask \<and> tmp5));
     tmp13 \<leftarrow> map_option (up F) (tl_load in_ptr2 (i64 (64 * tmp11 + x0)) (xmask \<and> tmp5) (zero16 F));
     let tmp14 = fmul F tmp6 tmp13;
     tmp15 \<leftarrow> map_option (up F) (tl_load in_ptr0 (i32 (32 + 64 * x1 + 3072 * x2 + x0)) (xmask \<and> tmp5) (zero16 F));
     tmp16 \<leftarrow> map_option (up F) (tl_load in_ptr2 (i64 (32 + 64 * tmp11 + x0)) (xmask \<and> tmp5) (zero16 F));
     let tmp17 = fmul F tmp15 tmp16;
     let tmp18 = fsub F tmp14 tmp17;
     let tmp19 = zero32 F;
     let tmp20 = (if tmp5 then tmp18 else tmp19);
     let tmp21 = (tmp0 \<ge> tmp3);
     let tmp22 = (64 :: int);
     let tmp23 = (tmp0 < tmp22);
     let tmp24 = tmp21;
     tmp25 \<leftarrow> map_option (up F) (tl_load in_ptr0 (i32 (32 + 64 * x1 + 3072 * x2 + (-32 + x0))) (xmask \<and> tmp24) (zero16 F));
     tmp26 \<leftarrow> map_option (as_int F) (tl_load in_ptr1 x2 (xmask \<and> tmp24) (zero16 F));
     let tmp27 = (32768 :: int);
     let tmp28 = i64 (tmp26 + tmp27);
     let tmp29 = (tmp26 < 0);
     let tmp30 = (if tmp29 then tmp28 else tmp26);
     device_assert ((0 \<le> tmp30 \<and> tmp30 < 32768) \<or> \<not> (xmask \<and> tmp24));
     tmp32 \<leftarrow> map_option (up F) (tl_load in_ptr2 (i64 (64 * tmp30 + (-32 + x0))) (xmask \<and> tmp24) (zero16 F));
     let tmp33 = fmul F tmp25 tmp32;
     tmp34 \<leftarrow> map_option (up F) (tl_load in_ptr0 (i32 (64 * x1 + 3072 * x2 + (-32 + x0))) (xmask \<and> tmp24) (zero16 F));
     tmp35 \<leftarrow> map_option (up F) (tl_load in_ptr2 (i64 (32 + 64 * tmp30 + (-32 + x0))) (xmask \<and> tmp24) (zero16 F));
     let tmp36 = fmul F tmp34 tmp35;
     let tmp37 = fadd F tmp33 tmp36;
     let tmp38 = zero32 F;
     let tmp39 = (if tmp24 then tmp37 else tmp38);
     let tmp40 = (if tmp4 then tmp20 else tmp39);
     tmp41 \<leftarrow> map_option (up F) (tl_load in_ptr0 (i32 (1024 + 64 * x1 + 3072 * x2 + x0)) (xmask \<and> tmp5) (zero16 F));
     let tmp42 = fmul F tmp41 tmp13;
     tmp43 \<leftarrow> map_option (up F) (tl_load in_ptr0 (i32 (1056 + 64 * x1 + 3072 * x2 + x0)) (xmask \<and> tmp5) (zero16 F));
     let tmp44 = fmul F tmp43 tmp16;
     let tmp45 = fsub F tmp42 tmp44;
     let tmp46 = zero32 F;
     let tmp47 = (if tmp5 then tmp45 else tmp46);
     tmp48 \<leftarrow> map_option (up F) (tl_load in_ptr0 (i32 (1056 + 64 * x1 + 3072 * x2 + (-32 + x0))) (xmask \<and> tmp24) (zero16 F));
     let tmp49 = fmul F tmp48 tmp32;
     tmp50 \<leftarrow> map_option (up F) (tl_load in_ptr0 (i32 (1024 + 64 * x1 + 3072 * x2 + (-32 + x0))) (xmask \<and> tmp24) (zero16 F));
     let tmp51 = fmul F tmp50 tmp35;
     let tmp52 = fadd F tmp49 tmp51;
     let tmp53 = zero32 F;
     let tmp54 = (if tmp24 then tmp52 else tmp53);
     let tmp55 = (if tmp4 then tmp47 else tmp54);
     out_ptr0 \<leftarrow> tl_store out_ptr0 x4 (down F tmp40) xmask;
     out_ptr1 \<leftarrow> tl_store out_ptr1 x4 (down F tmp55) xmask;
     Some (out_ptr0, out_ptr1)})"

definition triton_poi_fused_cat_1 ::
  "('a, 'f) scalars \<Rightarrow> 'a list \<Rightarrow> 'a list \<Rightarrow> 'a list \<Rightarrow> int \<Rightarrow> int \<Rightarrow> int \<times> int \<Rightarrow>
   'a list \<times> 'a list \<Rightarrow> ('a list \<times> 'a list) option" where
  "triton_poi_fused_cat_1 F in_ptr0 in_ptr1 in_ptr2 xnumel XBLOCK = (\<lambda>(pid, lane) (out_ptr0, out_ptr1). do {
     let xoffset = i32 (pid * XBLOCK);
     let xindex = i32 (xoffset + lane);
     let xmask = xindex < xnumel;
     let x0 = tl_mod xindex 64;
     let x1 = tl_mod (tl_div xindex 64) 16;
     let x2 = tl_div xindex 1024;
     let x4 = xindex;
     let tmp0 = x0;
     let tmp1 = (0 :: int);
     let tmp2 = (tmp0 \<ge> tmp1);
     let tmp3 = (32 :: int);
     let tmp4 = (tmp0 < tmp3);
     let tmp5 = tmp4;
     tmp6 \<leftarrow> map_option (up F) (tl_load in_ptr0 (i32 (64 * x1 + 3072 * x2 + x0)) (xmask \<and> tmp5) (zero16 F));
     tmp7 \<leftarrow> map_option (as_int F) (tl_load in_ptr1 x2 (xmask \<and> tmp5) (zero16 F));
     let tmp8 = (32768 :: int);
     let tmp9 = i64 (tmp7 + tmp8);
     let tmp10 = (tmp7 < 0);
     let tmp11 = (if tmp10 then tmp9 else tmp7);
     device_assert ((0 \<le> tmp11 \<and> tmp11 < 32768) \<or> \<not> (xmask \<and> tmp5));
     tmp13 \<leftarrow> map_option (up F) (tl_load in_ptr2 (i64 (64 * tmp11 + x0)) (xmask \<and> tmp5) (zero16 F));
     let tmp14 = fmul F tmp6 tmp13;
     tmp15 \<leftarrow> map_option (up F) (tl_load in_ptr0 (i32 (32 + 64 * x1 + 3072 * x2 + x0)) (xmask \<and> tmp5) (zero16 F));
     tmp16 \<leftarrow> map_option (up F) (tl_load in_ptr2 (i64 (32 + 64 * tmp11 + x0)) (xmask \<and> tmp5) (zero16 F));
     let tmp17 = fmul F tmp15 tmp16;
     let tmp18 = fsub F tmp14 tmp17;
     let tmp19 = zero32 F;
     let tmp20 = (if tmp5 then tmp18 else tmp19);
     let tmp21 = (tmp0 \<ge> tmp3);
     let tmp22 = (64 :: int);
     let tmp23 = (tmp0 < tmp22);
     let tmp24 = tmp21;
     tmp25 \<leftarrow> map_option (up F) (tl_load in_ptr0 (i32 (32 + 64 * x1 + 3072 * x2 + (-32 + x0))) (xmask \<and> tmp24) (zero16 F));
     tmp26 \<leftarrow> map_option (as_int F) (tl_load in_ptr1 x2 (xmask \<and> tmp24) (zero16 F));
     let tmp27 = (32768 :: int);
     let tmp28 = i64 (tmp26 + tmp27);
     let tmp29 = (tmp26 < 0);
     let tmp30 = (if tmp29 then tmp28 else tmp26);
     device_assert ((0 \<le> tmp30 \<and> tmp30 < 32768) \<or> \<not> (xmask \<and> tmp24));
     tmp32 \<leftarrow> map_option (up F) (tl_load in_ptr2 (i64 (64 * tmp30 + (-32 + x0))) (xmask \<and> tmp24) (zero16 F));
     let tmp33 = fmul F tmp25 tmp32;
     tmp34 \<leftarrow> map_option (up F) (tl_load in_ptr0 (i32 (64 * x1 + 3072 * x2 + (-32 + x0))) (xmask \<and> tmp24) (zero16 F));
     tmp35 \<leftarrow> map_option (up F) (tl_load in_ptr2 (i64 (32 + 64 * tmp30 + (-32 + x0))) (xmask \<and> tmp24) (zero16 F));
     let tmp36 = fmul F tmp34 tmp35;
     let tmp37 = fadd F tmp33 tmp36;
     let tmp38 = zero32 F;
     let tmp39 = (if tmp24 then tmp37 else tmp38);
     let tmp40 = (if tmp4 then tmp20 else tmp39);
     tmp41 \<leftarrow> map_option (up F) (tl_load in_ptr0 (i32 (1024 + 64 * x1 + 3072 * x2 + x0)) (xmask \<and> tmp5) (zero16 F));
     let tmp42 = fmul F tmp41 tmp13;
     tmp43 \<leftarrow> map_option (up F) (tl_load in_ptr0 (i32 (1056 + 64 * x1 + 3072 * x2 + x0)) (xmask \<and> tmp5) (zero16 F));
     let tmp44 = fmul F tmp43 tmp16;
     let tmp45 = fsub F tmp42 tmp44;
     let tmp46 = zero32 F;
     let tmp47 = (if tmp5 then tmp45 else tmp46);
     tmp48 \<leftarrow> map_option (up F) (tl_load in_ptr0 (i32 (1056 + 64 * x1 + 3072 * x2 + (-32 + x0))) (xmask \<and> tmp24) (zero16 F));
     let tmp49 = fmul F tmp48 tmp32;
     tmp50 \<leftarrow> map_option (up F) (tl_load in_ptr0 (i32 (1024 + 64 * x1 + 3072 * x2 + (-32 + x0))) (xmask \<and> tmp24) (zero16 F));
     let tmp51 = fmul F tmp50 tmp35;
     let tmp52 = fadd F tmp49 tmp51;
     let tmp53 = zero32 F;
     let tmp54 = (if tmp24 then tmp52 else tmp53);
     let tmp55 = (if tmp4 then tmp47 else tmp54);
     out_ptr0 \<leftarrow> tl_store out_ptr0 x4 (down F tmp40) xmask;
     out_ptr1 \<leftarrow> tl_store out_ptr1 x4 (down F tmp55) xmask;
     Some (out_ptr0, out_ptr1)})"

end
