(* ===== verification/Triton_Launch.thy ===== *)
theory Triton_Launch
  imports Triton_Kernels
begin

text \<open>
  Launching the pointwise kernels. A launch runs the threads of a grid one after the other
  in an order that the hardware chooses; \<open>schedule_ok\<close> allows any order and any block
  size. The locale \<open>pointwise_kernel\<close> says what one thread of a pointwise kernel does
  and shows that then a launch over every schedule fills every output cell with its
  value. The kernels of the cache are its interpretations; their laws need that 32-bit
  index arithmetic does not wrap.
\<close>

subsection \<open>Arithmetic, loads and stores\<close>

lemma i32_id: "- (2 ^ 31) \<le> z \<Longrightarrow> z < 2 ^ 31 \<Longrightarrow> i32 z = z"
  by (simp add: i32_def)


lemma i64_id: "- (2 ^ 63) \<le> z \<Longrightarrow> z < 2 ^ 63 \<Longrightarrow> i64 z = z"
  by (simp add: i64_def)

lemma tl_div_nonneg: "0 \<le> a \<Longrightarrow> 0 < b \<Longrightarrow> tl_div a b = a div b"
  by (cases "a = 0") (simp_all add: tl_div_def)

lemma tl_mod_nonneg: "0 \<le> a \<Longrightarrow> 0 < b \<Longrightarrow> tl_mod a b = a mod b"
  by (simp add: tl_mod_def tl_div_nonneg minus_mult_div_eq_mod)

lemma tl_load_in: "0 \<le> off \<Longrightarrow> off < int (length p) \<Longrightarrow> tl_load p off True x = Some (p ! nat off)"
  by (simp add: tl_load_def)

lemma tl_load_off [simp]: "tl_load p off False x = Some x"
  by (simp add: tl_load_def)

lemma tl_store_in: "0 \<le> off \<Longrightarrow> off < int (length p) \<Longrightarrow> tl_store p off v True = Some (p[nat off := v])"
  by (simp add: tl_store_def)

lemma tl_store_off [simp]: "tl_store p off v False = Some p"
  by (simp add: tl_store_def)

lemma device_assert_simps [simp]: "device_assert True = Some ()" "device_assert False = None"
  by (simp_all add: device_assert_def)

lemmas lane_simps = tl_load_off tl_store_off prod.case if_True if_False simp_thms option.map bind.bind_lunit
  device_assert_simps

subsection \<open>What the kernels compute\<close>

definition wrap_index :: "int \<Rightarrow> int \<Rightarrow> int" where
  "wrap_index n p = (if p < 0 then p + n else p)"

definition rope_f32 :: "('a, 'f) scalars \<Rightarrow> (nat \<Rightarrow> 'a) \<Rightarrow> (nat \<Rightarrow> 'a) \<Rightarrow> nat \<Rightarrow> 'a" where
  "rope_f32 F x c d = down F
     (if d < 32 then fsub F (fmul F (up F (x d)) (up F (c d))) (fmul F (up F (x (d + 32))) (up F (c (d + 32))))
      else fadd F (fmul F (up F (x d)) (up F (c (d - 32)))) (fmul F (up F (x (d - 32))) (up F (c d))))"

definition rope_out :: "('a, 'f) scalars \<Rightarrow> 'a list \<Rightarrow> 'a list \<Rightarrow> 'a list \<Rightarrow> nat \<Rightarrow> nat \<Rightarrow> 'a" where
  "rope_out F qkv ps cache off i =
     (let t = i div 1024; hd = i div 64 mod 16; p = nat (wrap_index 32768 (as_int F (ps ! t))) in
      rope_f32 F (\<lambda>j. qkv ! (off + t * 3072 + hd * 64 + j)) (\<lambda>j. cache ! (p * 64 + j)) (i mod 64))"

lemma cat_lane_active:
  assumes i: "pid * XBLOCK + lane = int i" "0 \<le> pid * XBLOCK" "0 \<le> lane" "i < 1024 * n" and n: "n \<le> 699051"
    and len: "3072 * n \<le> length qkv" "n \<le> length ps" "32768 * 64 \<le> length cache" "length o0 = 1024 * n" "length o1 = 1024 * n"
    and p: "- 32768 \<le> as_int F (ps ! (i div 1024))" "as_int F (ps ! (i div 1024)) < 32768"
  shows "triton_poi_fused_cat_0 F qkv ps cache (int (1024 * n)) XBLOCK (pid, lane) (o0, o1) =
    Some (o0[i := rope_out F qkv ps cache 0 i], o1[i := rope_out F qkv ps cache 1024 i])"
proof -
  define t hd d where "t = i div 1024" and "hd = i div 64 mod 16" and "d = i mod 64"
  have b: "t < n" "hd < 16" "d < 64"
    using i by (auto simp: t_def hd_def d_def less_mult_imp_div_less mult.commute)
  define pp where "pp = nat (wrap_index 32768 (as_int F (ps ! t)))"
  have pp: "pp < 32768" "wrap_index 32768 (as_int F (ps ! t)) = int pp"
    using p by (auto simp: pp_def wrap_index_def t_def)
  have w: "(if as_int F (ps ! t) < 0 then i64 (as_int F (ps ! t) + 32768) else as_int F (ps ! t)) = int pp"
    using p pp(2) by (auto simp: wrap_index_def i64_id t_def)
  have xo: "i32 (pid * XBLOCK) = pid * XBLOCK" "i32 (int i) = int i"
    using i n by (simp_all add: i32_id)
  have ix: "tl_mod (int i) 64 = int d" "tl_mod (tl_div (int i) 64) 16 = int hd" "tl_div (int i) 1024 = int t"
    by (simp_all add: tl_mod_nonneg tl_div_nonneg t_def hd_def d_def zdiv_int zmod_int)
  have q: "tl_load qkv (i32 z) True (zero16 F) = Some (qkv ! k)" if "z = int k" "k < 3072 * n" "k < 2 ^ 31" for z k
    using that n len(1) by (simp add: i32_id tl_load_in)
  have c: "tl_load cache (i64 z) True (zero16 F) = Some (cache ! k)" if "z = int k" "k < 32768 * 64" for z k
    using that len(3) by (simp add: i64_id tl_load_in)
  have pl: "tl_load ps (int t) True (zero16 F) = Some (ps ! t)"
    using b len(2) by (simp add: tl_load_in)
  have st: "tl_store o0 (int i) v True = Some (o0[i := v])" "tl_store o1 (int i) v True = Some (o1[i := v])" for v
    using i(4) len(4,5) by (simp_all add: tl_store_in)
  have msk: "(int i < int (1024 * n)) = True" using i(4) by simp
  have as: "(0 \<le> int pp) = True" "(int pp < 32768) = True"
    using pp by simp_all
  show ?thesis
  proof (cases "d < 32")
    case True
    have ld: "tl_load qkv (i32 (64 * int hd + 3072 * int t + int d)) True (zero16 F) = Some (qkv ! (0 + t * 3072 + hd * 64 + d))"
      "tl_load qkv (i32 (32 + 64 * int hd + 3072 * int t + int d)) True (zero16 F) = Some (qkv ! (0 + t * 3072 + hd * 64 + (d + 32)))"
      "tl_load qkv (i32 (1024 + 64 * int hd + 3072 * int t + int d)) True (zero16 F) = Some (qkv ! (1024 + t * 3072 + hd * 64 + d))"
      "tl_load qkv (i32 (1056 + 64 * int hd + 3072 * int t + int d)) True (zero16 F) = Some (qkv ! (1024 + t * 3072 + hd * 64 + (d + 32)))"
      "tl_load cache (i64 (64 * int pp + int d)) True (zero16 F) = Some (cache ! (pp * 64 + d))"
      "tl_load cache (i64 (32 + 64 * int pp + int d)) True (zero16 F) = Some (cache ! (pp * 64 + (d + 32)))"
      using b n True pp by (intro q c; simp)+
    have cd: "(int d < 32) = True" "(32 \<le> int d) = False" "(d < 32) = True"
      using True by simp_all
    show ?thesis
      unfolding triton_poi_fused_cat_0_def rope_out_def rope_f32_def Let_def
      by (simp only: i(1) xo ix pl msk cd w as ld st lane_simps t_def [symmetric] hd_def [symmetric] d_def [symmetric] pp_def [symmetric])
  next
    case False
    have ld: "tl_load qkv (i32 (64 * int hd + 3072 * int t + (- 32 + int d))) True (zero16 F) = Some (qkv ! (0 + t * 3072 + hd * 64 + (d - 32)))"
      "tl_load qkv (i32 (32 + 64 * int hd + 3072 * int t + (- 32 + int d))) True (zero16 F) = Some (qkv ! (0 + t * 3072 + hd * 64 + d))"
      "tl_load qkv (i32 (1024 + 64 * int hd + 3072 * int t + (- 32 + int d))) True (zero16 F) = Some (qkv ! (1024 + t * 3072 + hd * 64 + (d - 32)))"
      "tl_load qkv (i32 (1056 + 64 * int hd + 3072 * int t + (- 32 + int d))) True (zero16 F) = Some (qkv ! (1024 + t * 3072 + hd * 64 + d))"
      "tl_load cache (i64 (64 * int pp + (- 32 + int d))) True (zero16 F) = Some (cache ! (pp * 64 + (d - 32)))"
      "tl_load cache (i64 (32 + 64 * int pp + (- 32 + int d))) True (zero16 F) = Some (cache ! (pp * 64 + d))"
      using b n False pp by (intro q c; simp add: of_nat_diff)+
    have cd: "(int d < 32) = False" "(32 \<le> int d) = True" "(d < 32) = False"
      using False by simp_all
    show ?thesis
      unfolding triton_poi_fused_cat_0_def rope_out_def rope_f32_def Let_def
      by (simp only: i(1) xo ix pl msk cd w as ld st lane_simps t_def [symmetric] hd_def [symmetric] d_def [symmetric] pp_def [symmetric])
  qed
qed

subsection \<open>Launches\<close>

primrec launch :: "(int \<times> int \<Rightarrow> 's \<Rightarrow> 's option) \<Rightarrow> (int \<times> int) list \<Rightarrow> 's \<Rightarrow> 's option" where
  "launch kern [] s = Some s"
| "launch kern (th # ths) s = Option.bind (kern th s) (launch kern ths)"

text \<open>The one-dimensional grid: enough instances of \<open>X\<close> lanes for \<open>N\<close> elements.\<close>

definition cdiv :: "int \<Rightarrow> int \<Rightarrow> int" where
  "cdiv n X = (n + X - 1) div X"

definition grid :: "int \<Rightarrow> int \<Rightarrow> (int \<times> int) list" where
  "grid N X = List.product [0..cdiv N X - 1] [0..X - 1]"

definition schedule_ok :: "nat \<Rightarrow> int \<Rightarrow> (int \<times> int) list \<Rightarrow> bool" where
  "schedule_ok N X ths \<longleftrightarrow> 0 < X \<and> int N + X \<le> 2 ^ 31 \<and> set ths = set (grid (int N) X)"

lemma grid_thread:
  assumes "(pid, lane) \<in> set (grid (int N) X)" "0 < X"
  shows "0 \<le> pid * X" "0 \<le> lane" "pid * X + lane < int N + X"
proof -
  have p: "0 \<le> pid" "pid \<le> (int N + X - 1) div X - 1" and l: "0 \<le> lane" "lane < X"
    using assms(1) by (auto simp: grid_def cdiv_def)
  have "(pid + 1) * X \<le> (int N + X - 1) div X * X"
    using p assms(2) by (intro mult_right_mono) auto
  also have "\<dots> \<le> int N + X - 1"
    using pos_mod_sign [OF assms(2), of "int N + X - 1"] div_mult_mod_eq [of "int N + X - 1" X] by linarith
  finally show "pid * X + lane < int N + X"
    using l by (simp add: algebra_simps)
  show "0 \<le> pid * X" "0 \<le> lane"
    using p l assms(2) by simp_all
qed

lemma grid_covers:
  assumes "i < N" "0 < X"
  shows "(int i div X, int i mod X) \<in> set (grid (int N) X)"
proof -
  have "int i div X * X \<le> int i" using assms(2) by (metis div_mult_mod_eq le_add_same_cancel1 pos_mod_sign)
  then have "int i div X * X + X \<le> int N + X - 1" using assms(1) by simp
  then have "(int i div X + 1) * X div X \<le> (int N + X - 1) div X"
    using assms(2) by (intro zdiv_mono1) (simp_all add: algebra_simps)
  then have "int i div X + 1 \<le> cdiv (int N) X"
    using assms(2) by (simp add: cdiv_def)
  then show ?thesis
    using assms(2) pos_imp_zdiv_nonneg_iff [of X "int i"] by (simp add: grid_def)
qed


locale pointwise_kernel =
  fixes kern :: "int \<times> int \<Rightarrow> 's \<Rightarrow> 's option" and N :: nat and X :: int
    and ok :: "'s \<Rightarrow> bool" and cell :: "'s \<Rightarrow> nat \<Rightarrow> 'b" and val :: "nat \<Rightarrow> 'b"
  assumes active:
    "ok s \<Longrightarrow> i < N \<Longrightarrow> 0 \<le> pid * X \<Longrightarrow> 0 \<le> lane \<Longrightarrow> pid * X + lane = int i \<Longrightarrow>
     \<exists>s'. kern (pid, lane) s = Some s' \<and> ok s' \<and> cell s' i = val i \<and> (\<forall>j. j \<noteq> i \<longrightarrow> cell s' j = cell s j)"
  and inactive:
    "ok s \<Longrightarrow> 0 \<le> pid * X \<Longrightarrow> 0 \<le> lane \<Longrightarrow> int N \<le> pid * X + lane \<Longrightarrow> pid * X + lane < 2 ^ 31 \<Longrightarrow>
     kern (pid, lane) s = Some s"
begin

lemma launch_cells:
  assumes "ok s" "\<forall>(pid, lane) \<in> set ths. 0 \<le> pid * X \<and> 0 \<le> lane \<and> pid * X + lane < 2 ^ 31"
  shows "\<exists>s'. launch kern ths s = Some s' \<and> ok s' \<and>
     (\<forall>i < N. cell s' i = (if \<exists>(pid, lane) \<in> set ths. pid * X + lane = int i then val i else cell s i))"
  using assms
proof (induction ths arbitrary: s)
  case Nil
  then show ?case by simp
next
  case (Cons th ths)
  obtain pid lane where th: "th = (pid, lane)" by fastforce
  have b: "0 \<le> pid * X" "0 \<le> lane" "pid * X + lane < 2 ^ 31"
    using Cons.prems(2) th by auto
  let ?i = "nat (pid * X + lane)"
  have i: "pid * X + lane = int ?i" using b by simp
  obtain s1 where s1: "kern th s = Some s1" "ok s1"
      "\<forall>j < N. cell s1 j = (if pid * X + lane = int j then val j else cell s j)"
  proof (cases "?i < N")
    case True
    from active [OF Cons.prems(1) True b(1,2) i] i that th show ?thesis
      by (metis nat_int)
  next
    case False
    then have "int N \<le> pid * X + lane" using i by linarith
    then have "kern th s = Some s"
      using inactive [OF Cons.prems(1) b(1,2) _ b(3)] th by simp
    with Cons.prems(1) False i that show ?thesis by fastforce
  qed
  from Cons.IH [OF s1(2)] Cons.prems(2) obtain s' where s': "launch kern ths s1 = Some s'" "ok s'"
      "\<forall>i < N. cell s' i = (if \<exists>(pid, lane) \<in> set ths. pid * X + lane = int i then val i else cell s1 i)"
    by auto
  with s1 th show ?case by auto
qed

lemma launch_fills:
  assumes "ok s" "schedule_ok N X ths"
  shows "\<exists>s'. launch kern ths s = Some s' \<and> ok s' \<and> (\<forall>i < N. cell s' i = val i)"
proof -
  note sc = assms(2) [unfolded schedule_ok_def]
  have b: "\<forall>(pid, lane) \<in> set ths. 0 \<le> pid * X \<and> 0 \<le> lane \<and> pid * X + lane < 2 ^ 31"
    using grid_thread [of _ _ N X] sc by fastforce
  have c: "\<exists>(pid, lane) \<in> set ths. pid * X + lane = int i" if "i < N" for i
    using grid_covers [OF that] sc by (intro bexI [of _ "(int i div X, int i mod X)"]) auto
  show ?thesis
    using launch_cells [OF assms(1) b] c by auto
qed

end

subsection \<open>The rotary kernel\<close>

text \<open>
  The inputs a launch of the rotary kernel needs, as the memory from its pointers on: at
  least \<open>n\<close> rows of the projection, \<open>n\<close> positions that index the table forwards or, when negative, from its end, the table of
  32768 rows, and two outputs.
\<close>

definition cat_ok ::
  "('a, 'f) scalars \<Rightarrow> 'a list \<Rightarrow> 'a list \<Rightarrow> 'a list \<Rightarrow> nat \<Rightarrow> 'a list \<times> 'a list \<Rightarrow> bool" where
  "cat_ok F qkv ps cache n = (\<lambda>(o0, o1). n \<le> 699051 \<and> 3072 * n \<le> length qkv \<and> n \<le> length ps \<and>
     32768 * 64 \<le> length cache \<and> length o0 = 1024 * n \<and> length o1 = 1024 * n \<and>
     (\<forall>t < n. - 32768 \<le> as_int F (ps ! t) \<and> as_int F (ps ! t) < 32768))"

lemma cat_lane_inactive:
  assumes "0 \<le> pid * XBLOCK" "0 \<le> lane" "N \<le> pid * XBLOCK + lane" "pid * XBLOCK + lane < 2 ^ 31"
  shows "triton_poi_fused_cat_0 F qkv ps cache N XBLOCK (pid, lane) (o0, o1) = Some (o0, o1)"
proof -
  have x: "i32 (i32 (pid * XBLOCK) + lane) = pid * XBLOCK + lane"
    using assms by (simp add: i32_id)
  have m: "(pid * XBLOCK + lane < N) = False" using assms(3) by simp
  show ?thesis
    unfolding triton_poi_fused_cat_0_def Let_def
    by (simp only: x m lane_simps)
qed

lemma cat_1_eq_0: "triton_poi_fused_cat_1 = triton_poi_fused_cat_0"
  unfolding triton_poi_fused_cat_1_def triton_poi_fused_cat_0_def by (rule refl)

interpretation cat: pointwise_kernel "triton_poi_fused_cat_0 F qkv ps cache (int (1024 * n)) X" "1024 * n" X
  "cat_ok F qkv ps cache n" "\<lambda>s i. (fst s ! i, snd s ! i)"
  "\<lambda>i. (rope_out F qkv ps cache 0 i, rope_out F qkv ps cache 1024 i)" for F qkv ps cache n X
proof (unfold_locales, goal_cases)
  case (1 s i pid lane)
  obtain o0 o1 where s: "s = (o0, o1)" by fastforce
  have "i div 1024 < n" using 1(2) by (simp add: less_mult_imp_div_less mult.commute)
  with 1 s show ?case
    using cat_lane_active [of pid X lane i n qkv ps cache o0 o1 F] by (simp add: cat_ok_def)
next
  case (2 s pid lane)
  then show ?case
    using cat_lane_inactive [of pid X lane "int (1024 * n)" F qkv ps cache "fst s" "snd s"] by simp
qed

lemma cat_launch:
  assumes "cat_ok F qkv ps cache n (o0, o1)" "schedule_ok (1024 * n) X ths"
  shows "launch (triton_poi_fused_cat_0 F qkv ps cache (int (1024 * n)) X) ths (o0, o1) =
    Some (map (rope_out F qkv ps cache 0) [0..<1024 * n], map (rope_out F qkv ps cache 1024) [0..<1024 * n])"
proof -
  let ?k = "triton_poi_fused_cat_0 F qkv ps cache (int (1024 * n)) X"
  obtain p0 p1 where run: "launch ?k ths (o0, o1) = Some (p0, p1)" and ok: "cat_ok F qkv ps cache n (p0, p1)"
    and c: "\<forall>i < 1024 * n. p0 ! i = rope_out F qkv ps cache 0 i \<and> p1 ! i = rope_out F qkv ps cache 1024 i"
    using cat.launch_fills [OF assms] by auto
  have "p0 = map (rope_out F qkv ps cache 0) [0..<1024 * n]" "p1 = map (rope_out F qkv ps cache 1024) [0..<1024 * n]"
    using ok c by (auto simp: cat_ok_def intro!: nth_equalityI)
  with run show ?thesis by simp
qed

subsection \<open>The embedding kernel\<close>

definition emb_ok :: "('a, 'f) scalars \<Rightarrow> 'a list \<Rightarrow> 'a list \<Rightarrow> nat \<Rightarrow> 'a list \<Rightarrow> bool" where
  "emb_ok F ids emb n out \<longleftrightarrow> 1024 * n < 2 ^ 31 \<and> n \<le> length ids \<and> 151936 * 1024 \<le> length emb \<and> length out = 1024 * n \<and>
     (\<forall>t < n. - 151936 \<le> as_int F (ids ! t) \<and> as_int F (ids ! t) < 151936)"

definition embed_out :: "('a, 'f) scalars \<Rightarrow> 'a list \<Rightarrow> 'a list \<Rightarrow> nat \<Rightarrow> 'a" where
  "embed_out F ids emb i =
     down F (up F (emb ! (nat (wrap_index 151936 (as_int F (ids ! (i div 1024)))) * 1024 + i mod 1024)))"

lemma emb_lane_active:
  assumes i: "pid * XBLOCK + lane = int i" "0 \<le> pid * XBLOCK" "0 \<le> lane" "i < 1024 * n"
    and ok: "emb_ok F ids emb n out"
  shows "triton_poi_fused__to_copy_embedding_0 F ids emb (int (1024 * n)) XBLOCK (pid, lane) out =
    Some (out[i := embed_out F ids emb i])"
proof -
  note ok = ok [unfolded emb_ok_def]
  define t d where "t = i div 1024" and "d = i mod 1024"
  have b: "t < n" "d < 1024"
    using i by (auto simp: t_def d_def less_mult_imp_div_less mult.commute)
  have p: "- 151936 \<le> as_int F (ids ! t)" "as_int F (ids ! t) < 151936"
    using ok b(1) by auto
  define pp where "pp = nat (wrap_index 151936 (as_int F (ids ! t)))"
  have pp: "pp < 151936" "wrap_index 151936 (as_int F (ids ! t)) = int pp"
    using p by (auto simp: pp_def wrap_index_def)
  have w: "(if i64 (as_int F (ids ! t)) < 0 then i64 (i64 (as_int F (ids ! t)) + 151936) else i64 (as_int F (ids ! t))) = int pp"
    using p pp(2) by (auto simp: wrap_index_def i64_id)
  have xo: "i32 (pid * XBLOCK) = pid * XBLOCK" "i32 (int i) = int i"
    using i ok by (simp_all add: i32_id)
  have ix: "tl_mod (int i) 1024 = int d" "tl_div (int i) 1024 = int t"
    by (simp_all add: tl_mod_nonneg tl_div_nonneg t_def d_def zdiv_int zmod_int)
  have ld: "tl_load ids (int t) True (undef16 F) = Some (ids ! t)"
    "tl_load emb (i64 (int d + 1024 * int pp)) True (undef16 F) = Some (emb ! (pp * 1024 + d))"
    using b ok pp(1) by (simp_all add: tl_load_in i64_id nat_add_distrib nat_mult_distrib algebra_simps)
  have st: "tl_store out (int i) v True = Some (out[i := v])" for v
    using i(4) ok by (simp add: tl_store_in)
  have m: "(int i < int (1024 * n)) = True" "(0 \<le> int pp) = True" "(int pp < 151936) = True"
    using i(4) pp by simp_all
  show ?thesis
    unfolding triton_poi_fused__to_copy_embedding_0_def embed_out_def Let_def
    by (simp only: i(1) xo ix ld st w m lane_simps t_def [symmetric] d_def [symmetric] pp_def [symmetric])
qed

lemma emb_lane_inactive:
  assumes "0 \<le> pid * XBLOCK" "0 \<le> lane" "N \<le> pid * XBLOCK + lane" "pid * XBLOCK + lane < 2 ^ 31"
  shows "triton_poi_fused__to_copy_embedding_0 F ids emb N XBLOCK (pid, lane) out = Some out"
proof -
  have x: "i32 (i32 (pid * XBLOCK) + lane) = pid * XBLOCK + lane"
    using assms by (simp add: i32_id)
  have m: "(pid * XBLOCK + lane < N) = False" using assms(3) by simp
  show ?thesis
    unfolding triton_poi_fused__to_copy_embedding_0_def Let_def
    by (simp only: x m lane_simps)
qed

interpretation emb: pointwise_kernel "triton_poi_fused__to_copy_embedding_0 F ids emb (int (1024 * n)) X" "1024 * n" X
  "emb_ok F ids emb n" "(!)" "embed_out F ids emb" for F ids emb n X
proof (unfold_locales, goal_cases)
  case (1 s i pid lane)
  then show ?case
    using emb_lane_active [of pid X lane i n F ids emb s] by (simp add: emb_ok_def)
next
  case (2 s pid lane)
  then show ?case
    using emb_lane_inactive [of pid X lane "int (1024 * n)" F ids emb s] by simp
qed

lemma emb_launch:
  assumes "emb_ok F ids emb n out" "schedule_ok (1024 * n) X ths"
  shows "launch (triton_poi_fused__to_copy_embedding_0 F ids emb (int (1024 * n)) X) ths out =
    Some (map (embed_out F ids emb) [0..<1024 * n])"
proof -
  obtain s' where s': "launch (triton_poi_fused__to_copy_embedding_0 F ids emb (int (1024 * n)) X) ths out = Some s'"
    "emb_ok F ids emb n s'" "\<forall>i < 1024 * n. s' ! i = embed_out F ids emb i"
    using emb.launch_fills [OF assms] by blast
  then have "s' = map (embed_out F ids emb) [0..<1024 * n]"
    by (auto simp: emb_ok_def intro!: nth_equalityI)
  with s'(1) show ?thesis by simp
qed

subsection \<open>Faults\<close>



subsection \<open>Theorems\<close>

definition ex_scalars :: "(real, real) scalars" where
  "ex_scalars = \<lparr>as_int = floor, zero16 = 0, undef16 = 9, up = (\<lambda>x. x), down = (\<lambda>x. x), zero32 = 0,
     fmul = (*), fsub = (-), fadd = (+)\<rparr>"

lemma ex_schedule: "0 < X \<Longrightarrow> int N + X \<le> 2 ^ 31 \<Longrightarrow> schedule_ok N X (rev (grid (int N) X))"
  by (simp add: schedule_ok_def)

text \<open>
  C7. The rotary kernel is safe and correct on every grid: for up to 699051 tokens, every
  block size and every order of the threads, no load or store leaves its buffer, no
  assertion fails, no 32-bit index wraps, and the outputs hold the rotated queries and
  keys (cosine products minus or plus sine products in float32, narrowed at the end).
\<close>

theorem rope_kernel_fills:
  assumes "cat_ok F qkv ps cache n (o0, o1)" and "schedule_ok (1024 * n) X ths"
  shows "launch (triton_poi_fused_cat_0 F qkv ps cache (int (1024 * n)) X) ths (o0, o1) =
      Some (map (rope_out F qkv ps cache 0) [0..<1024 * n], map (rope_out F qkv ps cache 1024) [0..<1024 * n]) \<and>
    launch (triton_poi_fused_cat_1 F qkv ps cache (int (1024 * n)) X) ths (o0, o1) =
      Some (map (rope_out F qkv ps cache 0) [0..<1024 * n], map (rope_out F qkv ps cache 1024) [0..<1024 * n])"
  using cat_launch [OF assms] by (simp only: cat_1_eq_0 simp_thms)

theorem rope_kernel_fills_witness:
  "launch (triton_poi_fused_cat_0 ex_scalars (replicate 3072 1) [- 1] (replicate 2097152 2) (int (1024 * 1)) 512)
     (rev (grid (int (1024 * 1)) 512)) (replicate 1024 0, replicate 1024 0) \<noteq> None"
proof -
  have "cat_ok ex_scalars (replicate 3072 1) [- 1] (replicate 2097152 2) 1 (replicate 1024 0, replicate 1024 0)"
    by (simp add: cat_ok_def ex_scalars_def)
  from rope_kernel_fills [OF this ex_schedule [of 512]] show ?thesis by simp
qed





text \<open>
  The embedding kernel copies, for every block size and schedule, the row of the
  embedding table that each token selects, negative identifiers counting from the end of
  the table, and touches nothing out of bounds.
\<close>

theorem embedding_kernel_fills:
  assumes "emb_ok F ids emb n out" and "schedule_ok (1024 * n) X ths"
  shows "launch (triton_poi_fused__to_copy_embedding_0 F ids emb (int (1024 * n)) X) ths out =
    Some (map (embed_out F ids emb) [0..<1024 * n])"
  by (rule emb_launch [OF assms])

theorem embedding_kernel_fills_witness:
  "launch (triton_poi_fused__to_copy_embedding_0 ex_scalars [7] (replicate (151936 * 1024) 3) (int (1024 * 1)) 512)
     (rev (grid (int (1024 * 1)) 512)) (replicate 1024 0) \<noteq> None"
proof -
  have "emb_ok ex_scalars [7] (replicate (151936 * 1024) 3) 1 (replicate 1024 0)"
    by (simp add: emb_ok_def ex_scalars_def)
  from embedding_kernel_fills [OF this ex_schedule [of 512]] show ?thesis by simp
qed

end
