(* ===== verification/Inductor.thy ===== *)
theory Inductor
  imports Vllm_Graph Triton_Launch
begin

text \<open>
  The compiled pieces of the sample cache, under
  src/mcv/example/vllm-cache/torch_compile_cache/d4ec7c2a7d/rank_0_0/inductor_cache:
  the functions \<open>call\<close> of the modules sy/csyds..., df/cdfqw... and ul/cule6..., which
  replace the submodules 0, 2, 4, ..., 46 and 48 of the traced graph. They check the layout of
  their arguments, allocate buffers, call matrix products, vLLM kernels and the Triton
  kernels, and reuse buffers whose contents are dead. What they get from PyTorch is the
  record \<open>inductor\<close>. Reference counting (\<open>del\<close>, \<open>args.clear()\<close>), the device guard and the
  stream do not change values and are left out.
\<close>

record ('a, 'k) inductor =
  e_assert_size_stride :: "tensor \<Rightarrow> nat list \<Rightarrow> nat list \<Rightarrow> unit option"
  e_empty_strided_cuda :: "nat list \<Rightarrow> nat list \<Rightarrow> dtype \<Rightarrow> ('a, 'k) store \<Rightarrow> (tensor \<times> ('a, 'k) store) option"
  e_reinterpret_tensor :: "tensor \<Rightarrow> nat list \<Rightarrow> nat list \<Rightarrow> nat \<Rightarrow> tensor option"
  e_mm :: "tensor \<Rightarrow> tensor \<Rightarrow> tensor \<Rightarrow> ('a, 'k) store \<Rightarrow> ('a, 'k) store option"
  e_addmm :: "tensor \<Rightarrow> tensor \<Rightarrow> tensor \<Rightarrow> int \<Rightarrow> int \<Rightarrow> tensor \<Rightarrow> ('a, 'k) store \<Rightarrow> ('a, 'k) store option"
  e_grid1d :: "nat \<Rightarrow> int \<times> (int \<times> int) list"
  mm_val :: "'a tval \<Rightarrow> 'a tval \<Rightarrow> 'a list"
  addmm_val :: "'a tval \<Rightarrow> 'a tval \<Rightarrow> 'a tval \<Rightarrow> 'a list"

text \<open>
  A kernel sees, through the data pointer of a tensor, the cells from its offset on. \<open>run\<close>
  launches a kernel with the block size and in the thread order the runtime picks.
\<close>

definition ptr :: "('a, 'k) store \<Rightarrow> tensor \<Rightarrow> 'a list" where
  "ptr h x = drop (offset x) (mem h (base x))"

definition poke :: "('a, 'k) store \<Rightarrow> tensor \<Rightarrow> 'a list \<Rightarrow> ('a, 'k) store" where
  "poke h x vs = h\<lparr>mem := (mem h)(base x := take (offset x) (mem h (base x)) @ vs)\<rparr>"

definition run_embedding_0 ::
  "('a, 'k) inductor \<Rightarrow> ('a, 'f) scalars \<Rightarrow> tensor \<Rightarrow> tensor \<Rightarrow> tensor \<Rightarrow> nat \<Rightarrow> ('a, 'k) store \<Rightarrow> ('a, 'k) store option" where
  "run_embedding_0 E F in_ptr0 in_ptr1 out_ptr0 xnumel h = do {
     let (XBLOCK, ths) = e_grid1d E xnumel;
     o0 \<leftarrow> launch (triton_poi_fused__to_copy_embedding_0 F (ptr h in_ptr0) (ptr h in_ptr1) (int xnumel) XBLOCK) ths (ptr h out_ptr0);
     Some (poke h out_ptr0 o0)}"

definition run_cat_0 ::
  "('a, 'k) inductor \<Rightarrow> ('a, 'f) scalars \<Rightarrow> tensor \<Rightarrow> tensor \<Rightarrow> tensor \<Rightarrow> tensor \<Rightarrow> tensor \<Rightarrow> nat \<Rightarrow>
   ('a, 'k) store \<Rightarrow> ('a, 'k) store option" where
  "run_cat_0 E F in_ptr0 in_ptr1 in_ptr2 out_ptr0 out_ptr1 xnumel h = do {
     let (XBLOCK, ths) = e_grid1d E xnumel;
     (o0, o1) \<leftarrow> launch (triton_poi_fused_cat_0 F (ptr h in_ptr0) (ptr h in_ptr1) (ptr h in_ptr2) (int xnumel) XBLOCK) ths
       (ptr h out_ptr0, ptr h out_ptr1);
     Some (poke (poke h out_ptr0 o0) out_ptr1 o1)}"

definition run_cat_1 ::
  "('a, 'k) inductor \<Rightarrow> ('a, 'f) scalars \<Rightarrow> tensor \<Rightarrow> tensor \<Rightarrow> tensor \<Rightarrow> tensor \<Rightarrow> tensor \<Rightarrow> nat \<Rightarrow>
   ('a, 'k) store \<Rightarrow> ('a, 'k) store option" where
  "run_cat_1 E F in_ptr0 in_ptr1 in_ptr2 out_ptr0 out_ptr1 xnumel h = do {
     let (XBLOCK, ths) = e_grid1d E xnumel;
     (o0, o1) \<leftarrow> launch (triton_poi_fused_cat_1 F (ptr h in_ptr0) (ptr h in_ptr1) (ptr h in_ptr2) (int xnumel) XBLOCK) ths
       (ptr h out_ptr0, ptr h out_ptr1);
     Some (poke (poke h out_ptr0 o0) out_ptr1 o1)}"

subsection \<open>The first piece (sy)\<close>

definition call_sy ::
  "('a, 'k) inductor \<Rightarrow> ('a, 'k) torch \<Rightarrow> ('a, 'f) scalars \<Rightarrow> tensor \<Rightarrow> nat \<Rightarrow> tensor \<Rightarrow> tensor \<Rightarrow> tensor \<Rightarrow> tensor \<Rightarrow> tensor \<Rightarrow> tensor \<Rightarrow>
   ('a, 'k) store \<Rightarrow> ((tensor \<times> tensor \<times> tensor \<times> tensor \<times> tensor) \<times> ('a, 'k) store) option" where
  "call_sy E T F arg0_1 arg1_1 arg2_1 arg3_1 arg4_1 arg5_1 arg6_1 arg7_1 h = do {
     let s0 = arg1_1;
     e_assert_size_stride E arg0_1 [s0] [1];
     e_assert_size_stride E arg2_1 [151936, 1024] [1024, 1];
     e_assert_size_stride E arg3_1 [1024] [1];
     e_assert_size_stride E arg4_1 [3072, 1024] [1024, 1];
     e_assert_size_stride E arg5_1 [3072] [1];
     e_assert_size_stride E arg6_1 [s0] [1];
     e_assert_size_stride E arg7_1 [32768, 64] [64, 1];
     (buf0, h) \<leftarrow> e_empty_strided_cuda E [s0, 1024] [1024, 1] BFloat16 h;
     (buf1, h) \<leftarrow> e_empty_strided_cuda E [s0, 1024] [1024, 1] BFloat16 h;
     h \<leftarrow> run_embedding_0 E F arg0_1 arg2_1 buf1 (1024 * s0) h;
     h \<leftarrow> t_rms_norm T buf0 buf1 arg3_1 (1 / 1000000) h;
     (buf4, h) \<leftarrow> e_empty_strided_cuda E [s0, 3072] [3072, 1] BFloat16 h;
     r0 \<leftarrow> e_reinterpret_tensor E arg4_1 [1024, 3072] [1, 1024] 0;
     h \<leftarrow> e_addmm E arg5_1 buf0 r0 1 1 buf4 h;
     buf5 \<leftarrow> e_reinterpret_tensor E buf0 [s0, 16, 64] [1024, 64, 1] 0;
     (buf6, h) \<leftarrow> e_empty_strided_cuda E [s0, 16, 64] [1024, 64, 1] BFloat16 h;
     h \<leftarrow> run_cat_1 E F buf4 arg6_1 arg7_1 buf5 buf6 (1024 * s0) h;
     (buf7, h) \<leftarrow> e_empty_strided_cuda E [s0, 1024] [1024, 1] BFloat16 h;
     r1 \<leftarrow> e_reinterpret_tensor E buf4 [s0, 16, 64] [3072, 64, 1] 2048;
     r2 \<leftarrow> e_reinterpret_tensor E buf7 [s0, 16, 64] [1024, 64, 1] 0;
     Some ((buf5, buf6, r1, r2, buf1), h)}"

subsection \<open>The middle pieces (df)\<close>

definition call_df ::
  "('a, 'k) inductor \<Rightarrow> ('a, 'k) torch \<Rightarrow> ('a, 'f) scalars \<Rightarrow> tensor \<Rightarrow> nat \<Rightarrow> tensor \<Rightarrow> tensor \<Rightarrow> tensor \<Rightarrow> tensor \<Rightarrow> tensor \<Rightarrow> tensor \<Rightarrow>
   tensor \<Rightarrow> tensor \<Rightarrow> tensor \<Rightarrow> tensor \<Rightarrow>
   ('a, 'k) store \<Rightarrow> ((tensor \<times> tensor \<times> tensor \<times> tensor) \<times> ('a, 'k) store) option" where
  "call_df E T F arg0_1 arg1_1 arg2_1 arg3_1 arg4_1 arg5_1 arg6_1 arg7_1 arg8_1 arg9_1 arg10_1 arg11_1 h = do {
     let s0 = arg1_1;
     e_assert_size_stride E arg0_1 [s0, 16, 64] [1024, 64, 1];
     e_assert_size_stride E arg2_1 [1024, 1024] [1024, 1];
     e_assert_size_stride E arg3_1 [1024] [1];
     e_assert_size_stride E arg4_1 [s0, 1024] [1024, 1];
     e_assert_size_stride E arg5_1 [5632, 1024] [1024, 1];
     e_assert_size_stride E arg6_1 [1024, 2816] [2816, 1];
     e_assert_size_stride E arg7_1 [1024] [1];
     e_assert_size_stride E arg8_1 [3072, 1024] [1024, 1];
     e_assert_size_stride E arg9_1 [3072] [1];
     e_assert_size_stride E arg10_1 [s0] [1];
     e_assert_size_stride E arg11_1 [32768, 64] [64, 1];
     (buf0, h) \<leftarrow> e_empty_strided_cuda E [s0, 1024] [1024, 1] BFloat16 h;
     r0 \<leftarrow> e_reinterpret_tensor E arg0_1 [s0, 1024] [1024, 1] 0;
     r1 \<leftarrow> e_reinterpret_tensor E arg2_1 [1024, 1024] [1, 1024] 0;
     h \<leftarrow> e_mm E r0 r1 buf0 h;
     h \<leftarrow> t_fused_add_rms_norm T buf0 arg4_1 arg3_1 (1 / 1000000) h;
     (buf4, h) \<leftarrow> e_empty_strided_cuda E [s0, 2816] [2816, 1] BFloat16 h;
     (buf5, h) \<leftarrow> e_empty_strided_cuda E [s0, 5632] [5632, 1] BFloat16 h;
     r2 \<leftarrow> e_reinterpret_tensor E arg5_1 [1024, 5632] [1, 1024] 0;
     h \<leftarrow> e_mm E buf0 r2 buf5 h;
     h \<leftarrow> t_silu_and_mul T buf4 buf5 h;
     let buf8 = buf0;
     r3 \<leftarrow> e_reinterpret_tensor E arg6_1 [2816, 1024] [1, 2816] 0;
     h \<leftarrow> e_mm E buf4 r3 buf8 h;
     h \<leftarrow> t_fused_add_rms_norm T buf8 arg4_1 arg7_1 (1 / 1000000) h;
     (buf12, h) \<leftarrow> e_empty_strided_cuda E [s0, 3072] [3072, 1] BFloat16 h;
     r4 \<leftarrow> e_reinterpret_tensor E arg8_1 [1024, 3072] [1, 1024] 0;
     h \<leftarrow> e_addmm E arg9_1 buf8 r4 1 1 buf12 h;
     buf13 \<leftarrow> e_reinterpret_tensor E buf8 [s0, 16, 64] [1024, 64, 1] 0;
     (buf15, h) \<leftarrow> e_empty_strided_cuda E [s0, 16, 64] [1024, 64, 1] BFloat16 h;
     h \<leftarrow> run_cat_0 E F buf12 arg10_1 arg11_1 buf13 buf15 (1024 * s0) h;
     (buf14, h) \<leftarrow> e_empty_strided_cuda E [s0, 1024] [1024, 1] BFloat16 h;
     r5 \<leftarrow> e_reinterpret_tensor E buf12 [s0, 16, 64] [3072, 64, 1] 2048;
     r6 \<leftarrow> e_reinterpret_tensor E buf14 [s0, 16, 64] [1024, 64, 1] 0;
     Some ((buf13, buf15, r5, r6), h)}"

subsection \<open>The last piece (ul)\<close>

definition call_ul ::
  "('a, 'k) inductor \<Rightarrow> ('a, 'k) torch \<Rightarrow> tensor \<Rightarrow> nat \<Rightarrow> tensor \<Rightarrow> tensor \<Rightarrow> tensor \<Rightarrow> tensor \<Rightarrow> tensor \<Rightarrow> tensor \<Rightarrow>
   ('a, 'k) store \<Rightarrow> (tensor list \<times> ('a, 'k) store) option" where
  "call_ul E T arg0_1 arg1_1 arg2_1 arg3_1 arg4_1 arg5_1 arg6_1 arg7_1 h = do {
     let s0 = arg1_1;
     e_assert_size_stride E arg0_1 [s0, 16, 64] [1024, 64, 1];
     e_assert_size_stride E arg2_1 [1024, 1024] [1024, 1];
     e_assert_size_stride E arg3_1 [1024] [1];
     e_assert_size_stride E arg4_1 [s0, 1024] [1024, 1];
     e_assert_size_stride E arg5_1 [5632, 1024] [1024, 1];
     e_assert_size_stride E arg6_1 [1024, 2816] [2816, 1];
     e_assert_size_stride E arg7_1 [1024] [1];
     (buf0, h) \<leftarrow> e_empty_strided_cuda E [s0, 1024] [1024, 1] BFloat16 h;
     r0 \<leftarrow> e_reinterpret_tensor E arg0_1 [s0, 1024] [1024, 1] 0;
     r1 \<leftarrow> e_reinterpret_tensor E arg2_1 [1024, 1024] [1, 1024] 0;
     h \<leftarrow> e_mm E r0 r1 buf0 h;
     h \<leftarrow> t_fused_add_rms_norm T buf0 arg4_1 arg3_1 (1 / 1000000) h;
     (buf4, h) \<leftarrow> e_empty_strided_cuda E [s0, 2816] [2816, 1] BFloat16 h;
     (buf5, h) \<leftarrow> e_empty_strided_cuda E [s0, 5632] [5632, 1] BFloat16 h;
     r2 \<leftarrow> e_reinterpret_tensor E arg5_1 [1024, 5632] [1, 1024] 0;
     h \<leftarrow> e_mm E buf0 r2 buf5 h;
     h \<leftarrow> t_silu_and_mul T buf4 buf5 h;
     let buf8 = buf0;
     r3 \<leftarrow> e_reinterpret_tensor E arg6_1 [2816, 1024] [1, 2816] 0;
     h \<leftarrow> e_mm E buf4 r3 buf8 h;
     h \<leftarrow> t_fused_add_rms_norm T buf8 arg4_1 arg7_1 (1 / 1000000) h;
     Some ([buf8], h)}"

end
