(* ===== verification/Piecewise.thy ===== *)
theory Piecewise
  imports Vllm_Graph
begin

text \<open>
  The reference decoder and the contract of a piecewise compiled model. vLLM cuts the
  traced graph at the attention operator: the first piece embeds the tokens, every
  middle piece finishes one layer and starts the next, the last piece closes the model.
  A piece is either a traced submodule or its compiled replacement from the cache;
  \<open>pw_forward\<close> composes pieces the way the traced forward does, and the locale
  \<open>piecewise\<close> states what each piece promises and proves, once, that the composition
  computes the decoder.
\<close>

subsection \<open>The reference decoder on values\<close>

definition eps :: rat where
  "eps = 1 / 1000000"

record 'a layer_vals =
  ln1 :: "'a list"
  qkv_w :: "'a list"
  qkv_b :: "'a list"
  o_w :: "'a list"
  ln2 :: "'a list"
  gate_up_w :: "'a list"
  down_w :: "'a list"

text \<open>The rows of the cos/sin table selected by the positions.\<close>

definition cos_sin_rows :: "('a, 'k) kernels \<Rightarrow> nat \<Rightarrow> 'a list \<Rightarrow> 'a list \<Rightarrow> 'a list" where
  "cos_sin_rows V n ps cache =
     tabulate [n, 64] (\<lambda>ix. cache ! (nat (v_int V (ps ! (ix ! 0))) * 64 + ix ! 1))"

text \<open>Rotary embedding of the 16 heads of 64 that start at column \<open>off\<close> of the projection.\<close>

definition rope_elem ::
  "('a, 'k) kernels \<Rightarrow> (nat \<Rightarrow> 'a) \<Rightarrow> (nat \<Rightarrow> 'a) \<Rightarrow> nat \<Rightarrow> 'a" where
  "rope_elem V x c d =
     (if d < 32 then v_sub V (v_mul V (x d) (c d)) (v_mul V (x (d + 32)) (c (d + 32)))
      else v_add V (v_mul V (x d) (c (d - 32))) (v_mul V (x (d - 32)) (c d)))"

definition rope :: "('a, 'k) kernels \<Rightarrow> nat \<Rightarrow> 'a list \<Rightarrow> 'a list \<Rightarrow> nat \<Rightarrow> 'a list" where
  "rope V n qkv cs off = tabulate [n, 16, 64]
     (\<lambda>ix. rope_elem V (\<lambda>j. qkv ! (off + ix ! 0 * 3072 + ix ! 1 * 64 + j))
                       (\<lambda>j. cs ! (ix ! 0 * 64 + j)) (ix ! 2))"

definition v_heads :: "nat \<Rightarrow> 'a list \<Rightarrow> 'a list" where
  "v_heads n qkv = tabulate [n, 16, 64] (\<lambda>ix. qkv ! (2048 + ix ! 0 * 3072 + ix ! 1 * 64 + ix ! 2))"

definition qkv_of :: "('a, 'k) kernels \<Rightarrow> nat \<Rightarrow> 'a layer_vals \<Rightarrow> 'a list \<Rightarrow> 'a list" where
  "qkv_of V n lv r =
     v_linear V ([n, 1024], v_rms_norm V ([n, 1024], r) ([1024], ln1 lv) eps)
       ([3072, 1024], qkv_w lv) (Some ([3072], qkv_b lv))"

definition attn_of ::
  "(nat \<Rightarrow> 'a list \<Rightarrow> 'a list \<Rightarrow> nat \<Rightarrow> 'a list) \<Rightarrow> ('a, 'k) kernels \<Rightarrow> nat \<Rightarrow> 'a list \<Rightarrow> string \<Rightarrow> 'a layer_vals \<Rightarrow> 'a list \<Rightarrow> 'k \<Rightarrow> 'a list \<times> 'k" where
  "attn_of rp V n cs name lv r kv =
     (let y = qkv_of V n lv r in
      v_attn V name kv ([n, 16, 64], rp n y cs 0) ([n, 16, 64], rp n y cs 1024)
        ([n, 16, 64], v_heads n y))"

definition mid_residual ::
  "('a, 'k) kernels \<Rightarrow> nat \<Rightarrow> 'a layer_vals \<Rightarrow> 'a list \<Rightarrow> 'a list \<Rightarrow> 'a list" where
  "mid_residual V n lv a r =
     map2 (v_add V) (v_linear V ([n, 1024], a) ([1024, 1024], o_w lv) None) r"

definition mlp :: "('a, 'k) kernels \<Rightarrow> nat \<Rightarrow> 'a layer_vals \<Rightarrow> 'a list \<Rightarrow> 'a list" where
  "mlp V n lv r =
     v_linear V
       ([n, 2816], v_silu_and_mul V ([n, 5632],
          v_linear V ([n, 1024], v_rms_norm V ([n, 1024], r) ([1024], ln2 lv) eps)
            ([5632, 1024], gate_up_w lv) None))
       ([1024, 2816], down_w lv) None"

definition after_attn ::
  "('a, 'k) kernels \<Rightarrow> nat \<Rightarrow> 'a layer_vals \<Rightarrow> 'a list \<Rightarrow> 'a list \<Rightarrow> 'a list" where
  "after_attn V n lv a r =
     (let r1 = mid_residual V n lv a r in map2 (v_add V) (mlp V n lv r1) r1)"

definition decoder_layer ::
  "(nat \<Rightarrow> 'a list \<Rightarrow> 'a list \<Rightarrow> nat \<Rightarrow> 'a list) \<Rightarrow> ('a, 'k) kernels \<Rightarrow> nat \<Rightarrow> 'a list \<Rightarrow> string \<Rightarrow> 'a layer_vals \<Rightarrow> 'a list \<times> 'k \<Rightarrow> 'a list \<times> 'k" where
  "decoder_layer rp V n cs name lv = (\<lambda>(r, kv).
     let (a, kv') = attn_of rp V n cs name lv r kv in (after_attn V n lv a r, kv'))"

text \<open>The weights of the part of layer after the attention, and the values they hold.\<close>

definition weights_ok ::
  "('a, 'k) store \<Rightarrow> 'a layer_vals \<Rightarrow> tensor \<Rightarrow> tensor \<Rightarrow> tensor \<Rightarrow> tensor \<Rightarrow> bool" where
  "weights_ok h lv ow pln guw dw \<longleftrightarrow>
     valid h ow \<and> sizes ow = [1024, 1024] \<and> dtype ow = BFloat16 \<and> tvals h ow = o_w lv \<and>
     valid h pln \<and> sizes pln = [1024] \<and> dtype pln = BFloat16 \<and> tvals h pln = ln2 lv \<and>
     valid h guw \<and> sizes guw = [5632, 1024] \<and> dtype guw = BFloat16 \<and> tvals h guw = gate_up_w lv \<and>
     valid h dw \<and> sizes dw = [1024, 2816] \<and> dtype dw = BFloat16 \<and> tvals h dw = down_w lv"

definition embed_rows :: "('a, 'k) kernels \<Rightarrow> nat \<Rightarrow> 'a list \<Rightarrow> 'a list \<Rightarrow> 'a list" where
  "embed_rows V n ids emb =
     tabulate [n, 1024] (\<lambda>ix. emb ! (nat (v_int V (ids ! (ix ! 0))) * 1024 + ix ! 1))"

text \<open>The weights of one layer and the values they hold.\<close>

definition layer_ok :: "('a, 'k) store \<Rightarrow> 'a layer_vals \<Rightarrow> layer_params \<Rightarrow> bool" where
  "layer_ok h lv P \<longleftrightarrow>
     weights_ok h lv (o_proj_weight P) (post_attention_layernorm_weight P)
       (gate_up_proj_weight P) (down_proj_weight P) \<and>
     valid h (input_layernorm_weight P) \<and> sizes (input_layernorm_weight P) = [1024] \<and>
     dtype (input_layernorm_weight P) = BFloat16 \<and> tvals h (input_layernorm_weight P) = ln1 lv \<and>
     valid h (qkv_proj_weight P) \<and> sizes (qkv_proj_weight P) = [3072, 1024] \<and>
     dtype (qkv_proj_weight P) = BFloat16 \<and> tvals h (qkv_proj_weight P) = qkv_w lv \<and>
     valid h (qkv_proj_bias P) \<and> sizes (qkv_proj_bias P) = [3072] \<and>
     dtype (qkv_proj_bias P) = BFloat16 \<and> tvals h (qkv_proj_bias P) = qkv_b lv"

definition positions_ok :: "('a, 'k) kernels \<Rightarrow> ('a, 'k) store \<Rightarrow> nat \<Rightarrow> tensor \<Rightarrow> tensor \<Rightarrow> bool" where
  "positions_ok V h n ps cache \<longleftrightarrow>
     valid h ps \<and> sizes ps = [n] \<and> dtype ps = Int64 \<and> ids_in_range V h ps 32768 \<and>
     valid h cache \<and> sizes cache = [32768, 64] \<and> dtype cache = BFloat16"

text \<open>
  The state at a graph break: rotated query and key, value and uninitialised output of
  the attention about to run, and the running residual, all in storages allocated after
  \<open>h0\<close>, the store the whole forward started from; nothing older has been written.
\<close>

definition at_break ::
  "(nat \<Rightarrow> 'a list \<Rightarrow> 'a list \<Rightarrow> nat \<Rightarrow> 'a list) \<Rightarrow> nat \<Rightarrow> ('a, 'k) store \<Rightarrow> 'a list \<Rightarrow> 'a list \<Rightarrow> 'a list \<Rightarrow> tensor \<Rightarrow>
   tensor \<times> tensor \<times> tensor \<times> tensor \<Rightarrow> ('a, 'k) store \<Rightarrow> bool" where
  "at_break rp n h0 r y cs res = (\<lambda>(q, k, v, out) h.
     frame {} h0 h \<and>
     valid h q \<and> sizes q = [n, 16, 64] \<and> dtype q = BFloat16 \<and> tvals h q = rp n y cs 0 \<and>
     valid h k \<and> sizes k = [n, 16, 64] \<and> dtype k = BFloat16 \<and> tvals h k = rp n y cs 1024 \<and>
     valid h v \<and> sizes v = [n, 16, 64] \<and> dtype v = BFloat16 \<and> tvals h v = v_heads n y \<and>
     whole h out \<and> sizes out = [n, 16, 64] \<and> dtype out = BFloat16 \<and> nxt h0 \<le> base out \<and>
     base out \<notin> {base q, base k, base v, base res} \<and>
     whole h res \<and> sizes res = [n, 1024] \<and> dtype res = BFloat16 \<and> tvals h res = r \<and> nxt h0 \<le> base res)"

lemma frame_layer_ok: "frame {} h h' \<Longrightarrow> layer_ok h lv P \<Longrightarrow> layer_ok h' lv P"
  by (simp add: layer_ok_def weights_ok_def frame_emptyD valid_base)

lemma frame_positions_ok: "frame {} h h' \<Longrightarrow> positions_ok V h n ps cache \<Longrightarrow> positions_ok V h' n ps cache"
  by (simp add: positions_ok_def frame_emptyD valid_base ids_in_range_def)

text \<open>The layer name the attention operator is called with: the layer number in decimal.\<close>

definition digit :: "nat \<Rightarrow> char" where
  "digit d = ''0123456789'' ! d"

fun decimal :: "nat \<Rightarrow> string" where
  "decimal n = (if n < 10 then [digit n] else decimal (n div 10) @ [digit (n mod 10)])"

declare decimal.simps [simp del]

definition layer_name :: "nat \<Rightarrow> string" where
  "layer_name i = ''model.layers.'' @ decimal i @ ''.self_attn.attn''"

definition qwen_model ::
  "(nat \<Rightarrow> 'a list \<Rightarrow> 'a list \<Rightarrow> nat \<Rightarrow> 'a list) \<Rightarrow> ('a, 'k) kernels \<Rightarrow> nat \<Rightarrow> 'a list \<Rightarrow> 'a list \<Rightarrow> 'a list \<Rightarrow> 'a list \<Rightarrow> (nat \<Rightarrow> 'a layer_vals) \<Rightarrow>
   'a list \<Rightarrow> 'k \<Rightarrow> 'a list \<times> 'k" where
  "qwen_model rp V n ids ps emb cache lvs nw kv =
     (let (r, kv') = fold (\<lambda>i. decoder_layer rp V n (cos_sin_rows V n ps cache) (layer_name i) (lvs i))
                       [0..<24] (embed_rows V n ids emb, kv)
      in (v_rms_norm V ([n, 1024], r) ([1024], nw) eps, kv'))"

definition layer_values :: "('a, 'k) store \<Rightarrow> layer_params \<Rightarrow> 'a layer_vals" where
  "layer_values h P =
     \<lparr>ln1 = tvals h (input_layernorm_weight P), qkv_w = tvals h (qkv_proj_weight P),
      qkv_b = tvals h (qkv_proj_bias P), o_w = tvals h (o_proj_weight P),
      ln2 = tvals h (post_attention_layernorm_weight P),
      gate_up_w = tvals h (gate_up_proj_weight P), down_w = tvals h (down_proj_weight P)\<rparr>"

definition graph_inputs_ok ::
  "('a, 'k) kernels \<Rightarrow> ('a, 'k) store \<Rightarrow> nat \<Rightarrow> tensor \<Rightarrow> tensor \<Rightarrow> (nat \<Rightarrow> layer_params) \<Rightarrow>
   tensor \<Rightarrow> tensor \<Rightarrow> tensor \<Rightarrow> bool" where
  "graph_inputs_ok V h n ids emb L ps cache nw \<longleftrightarrow>
     0 < n \<and>
     valid h ids \<and> dtype ids = Int32 \<and> sizes ids = [n] \<and> ids_in_range V h ids 151936 \<and>
     valid h emb \<and> sizes emb = [151936, 1024] \<and> dtype emb = BFloat16 \<and>
     (\<forall>i < 24. layer_ok h (layer_values h (L i)) (L i)) \<and>
     positions_ok V h n ps cache \<and> valid h nw \<and> sizes nw = [1024] \<and> dtype nw = BFloat16"

lemma decoder_layer_eq:
  "decoder_layer rp V n cs name lv (r, kv) =
     (after_attn V n lv (fst (attn_of rp V n cs name lv r kv)) r, snd (attn_of rp V n cs name lv r kv))"
  by (simp add: decoder_layer_def split_def Let_def)

subsection \<open>The composition of the pieces\<close>

text \<open>\<open>m\<close> layers starting from layer \<open>i\<close>: attention, then the piece up to the next attention;
  \<open>mid i\<close> is the piece that finishes layer \<open>i\<close>.\<close>

fun run_layers ::
  "(tensor \<Rightarrow> tensor \<Rightarrow> tensor \<Rightarrow> tensor \<Rightarrow> string \<Rightarrow> ('a, 'k) store \<Rightarrow> ('a, 'k) store option) \<Rightarrow>
   (nat \<Rightarrow> tensor \<Rightarrow> nat \<Rightarrow> tensor \<Rightarrow> tensor \<Rightarrow> tensor \<Rightarrow> tensor \<Rightarrow> tensor \<Rightarrow> tensor \<Rightarrow> tensor \<Rightarrow> tensor \<Rightarrow> tensor \<Rightarrow> tensor \<Rightarrow>
     ('a, 'k) store \<Rightarrow> ((tensor \<times> tensor \<times> tensor \<times> tensor) \<times> ('a, 'k) store) option) \<Rightarrow>
   nat \<Rightarrow> (nat \<Rightarrow> layer_params) \<Rightarrow> tensor \<Rightarrow> tensor \<Rightarrow> tensor \<Rightarrow> nat \<Rightarrow> nat \<Rightarrow>
   tensor \<times> tensor \<times> tensor \<times> tensor \<Rightarrow> ('a, 'k) store \<Rightarrow>
   ((tensor \<times> tensor \<times> tensor \<times> tensor) \<times> ('a, 'k) store) option" where
  "run_layers attn mid s0 L ps cache res i 0 st h = Some (st, h)"
| "run_layers attn mid s0 L ps cache res i (Suc m) st h = (case st of (q, k, v, out) \<Rightarrow> do {
     h \<leftarrow> attn q k v out (layer_name i) h;
     (st, h) \<leftarrow> mid i out s0 (o_proj_weight (L i)) (post_attention_layernorm_weight (L i)) res
       (gate_up_proj_weight (L i)) (down_proj_weight (L i)) (input_layernorm_weight (L (Suc i)))
       (qkv_proj_weight (L (Suc i))) (qkv_proj_bias (L (Suc i))) ps cache h;
     run_layers attn mid s0 L ps cache res (Suc i) m st h})"

definition pw_forward ::
  "(tensor \<Rightarrow> tensor \<Rightarrow> tensor \<Rightarrow> tensor \<Rightarrow> string \<Rightarrow> ('a, 'k) store \<Rightarrow> ('a, 'k) store option) \<Rightarrow>
   (tensor \<Rightarrow> nat \<Rightarrow> tensor \<Rightarrow> tensor \<Rightarrow> tensor \<Rightarrow> tensor \<Rightarrow> tensor \<Rightarrow> tensor \<Rightarrow>
     ('a, 'k) store \<Rightarrow> ((tensor \<times> tensor \<times> tensor \<times> tensor \<times> tensor) \<times> ('a, 'k) store) option) \<Rightarrow>
   (nat \<Rightarrow> tensor \<Rightarrow> nat \<Rightarrow> tensor \<Rightarrow> tensor \<Rightarrow> tensor \<Rightarrow> tensor \<Rightarrow> tensor \<Rightarrow> tensor \<Rightarrow> tensor \<Rightarrow> tensor \<Rightarrow> tensor \<Rightarrow> tensor \<Rightarrow>
     ('a, 'k) store \<Rightarrow> ((tensor \<times> tensor \<times> tensor \<times> tensor) \<times> ('a, 'k) store) option) \<Rightarrow>
   (tensor \<Rightarrow> nat \<Rightarrow> tensor \<Rightarrow> tensor \<Rightarrow> tensor \<Rightarrow> tensor \<Rightarrow> tensor \<Rightarrow> tensor \<Rightarrow>
     ('a, 'k) store \<Rightarrow> (tensor \<times> ('a, 'k) store) option) \<Rightarrow>
   nat \<Rightarrow> tensor \<Rightarrow> tensor \<Rightarrow> (nat \<Rightarrow> layer_params) \<Rightarrow> tensor \<Rightarrow> tensor \<Rightarrow> tensor \<Rightarrow>
   ('a, 'k) store \<Rightarrow> (tensor \<times> ('a, 'k) store) option" where
  "pw_forward attn fst_pc mid lst_pc s0 ids emb L ps cache nw h = do {
     ((q, k, v, out, res), h) \<leftarrow> fst_pc ids s0 emb (input_layernorm_weight (L 0)) (qkv_proj_weight (L 0))
       (qkv_proj_bias (L 0)) ps cache h;
     ((q, k, v, out), h) \<leftarrow> run_layers attn mid s0 L ps cache res 0 23 (q, k, v, out) h;
     h \<leftarrow> attn q k v out (layer_name 23) h;
     lst_pc out s0 (o_proj_weight (L 23)) (post_attention_layernorm_weight (L 23)) res
       (gate_up_proj_weight (L 23)) (down_proj_weight (L 23)) nw h}"

subsection \<open>The contract\<close>

text \<open>
  \<open>small\<close> bounds the number of tokens a piece accepts, \<open>dense\<close> is the memory layout it
  demands of its inputs.
\<close>

definition layer_dense :: "(tensor \<Rightarrow> bool) \<Rightarrow> layer_params \<Rightarrow> bool" where
  "layer_dense dense P \<longleftrightarrow> dense (input_layernorm_weight P) \<and> dense (qkv_proj_weight P) \<and> dense (qkv_proj_bias P) \<and>
     dense (o_proj_weight P) \<and> dense (post_attention_layernorm_weight P) \<and> dense (gate_up_proj_weight P) \<and>
     dense (down_proj_weight P)"

definition inputs_dense ::
  "(tensor \<Rightarrow> bool) \<Rightarrow> tensor \<Rightarrow> tensor \<Rightarrow> (nat \<Rightarrow> layer_params) \<Rightarrow> tensor \<Rightarrow> tensor \<Rightarrow> tensor \<Rightarrow> bool" where
  "inputs_dense dense ids emb L ps cache nw \<longleftrightarrow>
     dense ids \<and> dense emb \<and> (\<forall>i < 24. layer_dense dense (L i)) \<and> dense ps \<and> dense cache \<and> dense nw"

locale piecewise =
  fixes V :: "('a, 'k) kernels"
    and rp :: "nat \<Rightarrow> 'a list \<Rightarrow> 'a list \<Rightarrow> nat \<Rightarrow> 'a list"
    and small :: "nat \<Rightarrow> bool" and dense :: "tensor \<Rightarrow> bool"
    and attn :: "tensor \<Rightarrow> tensor \<Rightarrow> tensor \<Rightarrow> tensor \<Rightarrow> string \<Rightarrow> ('a, 'k) store \<Rightarrow> ('a, 'k) store option"
    and fst_pc :: "tensor \<Rightarrow> nat \<Rightarrow> tensor \<Rightarrow> tensor \<Rightarrow> tensor \<Rightarrow> tensor \<Rightarrow> tensor \<Rightarrow> tensor \<Rightarrow>
      ('a, 'k) store \<Rightarrow> ((tensor \<times> tensor \<times> tensor \<times> tensor \<times> tensor) \<times> ('a, 'k) store) option"
    and mid :: "nat \<Rightarrow> tensor \<Rightarrow> nat \<Rightarrow> tensor \<Rightarrow> tensor \<Rightarrow> tensor \<Rightarrow> tensor \<Rightarrow> tensor \<Rightarrow> tensor \<Rightarrow> tensor \<Rightarrow> tensor \<Rightarrow> tensor \<Rightarrow> tensor \<Rightarrow>
      ('a, 'k) store \<Rightarrow> ((tensor \<times> tensor \<times> tensor \<times> tensor) \<times> ('a, 'k) store) option"
    and lst_pc :: "tensor \<Rightarrow> nat \<Rightarrow> tensor \<Rightarrow> tensor \<Rightarrow> tensor \<Rightarrow> tensor \<Rightarrow> tensor \<Rightarrow> tensor \<Rightarrow>
      ('a, 'k) store \<Rightarrow> (tensor \<times> ('a, 'k) store) option"
  assumes attn_law:
    "at_break rp n h0 r y cs res (q, k, v, out) h \<Longrightarrow>
     a = v_attn V name (ctx h) ([n, 16, 64], rp n y cs 0) ([n, 16, 64], rp n y cs 1024) ([n, 16, 64], v_heads n y) \<Longrightarrow>
     \<exists>h'. attn q k v out name h = Some h' \<and> frame {} h0 h' \<and> ctx h' = snd a \<and> whole h' out \<and>
       tvals h' out = fst a \<and> whole h' res \<and> tvals h' res = r"
  and fst_law:
    "0 < n \<Longrightarrow> small n \<Longrightarrow> valid h ids \<Longrightarrow> dtype ids = Int32 \<Longrightarrow> sizes ids = [n] \<Longrightarrow> ids_in_range V h ids 151936 \<Longrightarrow>
     valid h emb \<Longrightarrow> sizes emb = [151936, 1024] \<Longrightarrow> dtype emb = BFloat16 \<Longrightarrow> layer_ok h lv P \<Longrightarrow>
     positions_ok V h n ps cache \<Longrightarrow> dense ids \<Longrightarrow> dense emb \<Longrightarrow> layer_dense dense P \<Longrightarrow> dense ps \<Longrightarrow> dense cache \<Longrightarrow>
     r = embed_rows V n (tvals h ids) (tvals h emb) \<Longrightarrow>
     \<exists>q k v out res h'.
       fst_pc ids n emb (input_layernorm_weight P) (qkv_proj_weight P) (qkv_proj_bias P) ps cache h =
         Some ((q, k, v, out, res), h') \<and>
       at_break rp n h r (qkv_of V n lv r) (cos_sin_rows V n (tvals h ps) (tvals h cache)) res (q, k, v, out) h' \<and>
       ctx h' = ctx h"
  and mid_law:
    "i < 23 \<Longrightarrow> 0 < n \<Longrightarrow> small n \<Longrightarrow> frame {} h0 h \<Longrightarrow> whole h out \<Longrightarrow> sizes out = [n, 16, 64] \<Longrightarrow> dtype out = BFloat16 \<Longrightarrow>
     whole h res \<Longrightarrow> sizes res = [n, 1024] \<Longrightarrow> dtype res = BFloat16 \<Longrightarrow> base res \<noteq> base out \<Longrightarrow> nxt h0 \<le> base res \<Longrightarrow>
     layer_ok h0 lv P \<Longrightarrow> layer_ok h0 lv' P' \<Longrightarrow> positions_ok V h0 n ps cache \<Longrightarrow>
     layer_dense dense P \<Longrightarrow> layer_dense dense P' \<Longrightarrow> dense ps \<Longrightarrow> dense cache \<Longrightarrow>
     r = after_attn V n lv (tvals h out) (tvals h res) \<Longrightarrow>
     \<exists>q k v out' h'.
       mid i out n (o_proj_weight P) (post_attention_layernorm_weight P) res (gate_up_proj_weight P)
         (down_proj_weight P) (input_layernorm_weight P') (qkv_proj_weight P') (qkv_proj_bias P') ps cache h =
         Some ((q, k, v, out'), h') \<and>
       at_break rp n h0 r (qkv_of V n lv' r) (cos_sin_rows V n (tvals h0 ps) (tvals h0 cache)) res (q, k, v, out') h' \<and>
       ctx h' = ctx h"
  and lst_law:
    "0 < n \<Longrightarrow> small n \<Longrightarrow> frame {} h0 h \<Longrightarrow> whole h out \<Longrightarrow> sizes out = [n, 16, 64] \<Longrightarrow> dtype out = BFloat16 \<Longrightarrow>
     whole h res \<Longrightarrow> sizes res = [n, 1024] \<Longrightarrow> dtype res = BFloat16 \<Longrightarrow> base res \<noteq> base out \<Longrightarrow> nxt h0 \<le> base res \<Longrightarrow>
     layer_ok h0 lv P \<Longrightarrow> valid h0 nw \<Longrightarrow> sizes nw = [1024] \<Longrightarrow> dtype nw = BFloat16 \<Longrightarrow>
     layer_dense dense P \<Longrightarrow> dense nw \<Longrightarrow>
     r = after_attn V n lv (tvals h out) (tvals h res) \<Longrightarrow>
     \<exists>x h'. lst_pc out n (o_proj_weight P) (post_attention_layernorm_weight P) res (gate_up_proj_weight P)
         (down_proj_weight P) nw h = Some (x, h') \<and> sizes x = [n, 1024] \<and> frame {} h0 h' \<and> ctx h' = ctx h \<and>
       tvals h' x = v_rms_norm V ([n, 1024], r) ([1024], tvals h0 nw) eps"
begin

lemma layer_step_ok:
  assumes i: "i < 23" and n: "0 < n" "small n" and ps: "positions_ok V h0 n ps cache" "dense ps" "dense cache"
    and P: "layer_ok h0 (lvs i) (L i)" "layer_ok h0 (lvs (Suc i)) (L (Suc i))"
      "layer_dense dense (L i)" "layer_dense dense (L (Suc i))"
    and st: "at_break rp n h0 r (qkv_of V n (lvs i) r) cs res st h"
    and cs: "cs = cos_sin_rows V n (tvals h0 ps) (tvals h0 cache)"
    and d: "decoder_layer rp V n cs (layer_name i) (lvs i) (r, ctx h) = (r', kv')"
  obtains st' h' where
    "run_layers attn mid n L ps cache res i (Suc m) st h = run_layers attn mid n L ps cache res (Suc i) m st' h'"
    "at_break rp n h0 r' (qkv_of V n (lvs (Suc i)) r') cs res st' h'" "ctx h' = kv'"
proof -
  obtain q k v out where stq: "st = (q, k, v, out)" by (cases st)
  let ?a = "attn_of rp V n cs (layer_name i) (lvs i) r (ctx h)"
  obtain h1 where h1: "attn q k v out (layer_name i) h = Some h1"
    "frame {} h0 h1" "ctx h1 = snd ?a" "whole h1 out" "tvals h1 out = fst ?a" "whole h1 res" "tvals h1 res = r"
    using attn_law [OF st [unfolded stq], of ?a "layer_name i"] by (auto simp: attn_of_def Let_def)
  note s = st [unfolded stq at_break_def, simplified]
  have r': "r' = after_attn V n (lvs i) (fst ?a) r" "kv' = snd ?a"
    using d by (simp_all add: decoder_layer_eq)
  obtain q' k' v' out' h2 where
    run: "mid i out n (o_proj_weight (L i)) (post_attention_layernorm_weight (L i)) res (gate_up_proj_weight (L i))
       (down_proj_weight (L i)) (input_layernorm_weight (L (Suc i))) (qkv_proj_weight (L (Suc i))) (qkv_proj_bias (L (Suc i)))
       ps cache h1 = Some ((q', k', v', out'), h2)"
    and b: "at_break rp n h0 r' (qkv_of V n (lvs (Suc i)) r') cs res (q', k', v', out') h2"
    and c: "ctx h2 = ctx h1"
    using mid_law [OF i n h1(2,4) _ _ h1(6) _ _ _ _ P(1,2) ps(1) P(3,4) ps(2,3), of r'] s h1 r' cs by auto
  show thesis
    by (rule that [of "(q', k', v', out')" h2]) (use run b c h1 r' stq in simp_all)
qed

lemma run_layers_ok:
  assumes n: "0 < n" "small n" and ps: "positions_ok V h0 n ps cache" "dense ps" "dense cache"
    and cs: "cs = cos_sin_rows V n (tvals h0 ps) (tvals h0 cache)"
    and "i + m \<le> 23" and "\<forall>j \<le> i + m. layer_ok h0 (lvs j) (L j) \<and> layer_dense dense (L j)"
    and "at_break rp n h0 r (qkv_of V n (lvs i) r) cs res st h"
    and "fold (\<lambda>j. decoder_layer rp V n cs (layer_name j) (lvs j)) [i..<i + m] (r, ctx h) = (r', kv')"
  shows "\<exists>st' h'. run_layers attn mid n L ps cache res i m st h = Some (st', h') \<and>
    at_break rp n h0 r' (qkv_of V n (lvs (i + m)) r') cs res st' h' \<and> ctx h' = kv'"
  using assms(7-)
proof (induction m arbitrary: i r st h)
  case 0
  then show ?case by simp
next
  case (Suc m)
  obtain r1 kv1 where d: "decoder_layer rp V n cs (layer_name i) (lvs i) (r, ctx h) = (r1, kv1)"
    by fastforce
  have upt: "[i..<i + Suc m] = i # [Suc i..<Suc i + m]"
    by (simp add: upt_conv_Cons del: upt_Suc)
  from Suc.prems(4) [unfolded upt] d have f: "fold (\<lambda>j. decoder_layer rp V n cs (layer_name j) (lvs j)) [Suc i..<Suc i + m] (r1, kv1) = (r', kv')"
    by simp
  obtain st' h' where s: "run_layers attn mid n L ps cache res i (Suc m) st h = run_layers attn mid n L ps cache res (Suc i) m st' h'"
    "at_break rp n h0 r1 (qkv_of V n (lvs (Suc i)) r1) cs res st' h'" "ctx h' = kv1"
    by (rule layer_step_ok [where lvs = lvs and i = i and L = L and m = m, OF _ n ps _ _ _ _ Suc.prems(3) cs d]) (use Suc.prems(1,2) in auto)
  show ?case
    using Suc.IH [of "Suc i" r1 st' h'] s f Suc.prems(1,2) by simp
qed

text \<open>Pieces that keep the contract compose to the decoder.\<close>

lemma pw_forward_ok:
  assumes ok: "graph_inputs_ok V h n ids emb L ps cache nw" and sm: "small n"
    and dn: "inputs_dense dense ids emb L ps cache nw"
  shows "\<exists>x h'. pw_forward attn fst_pc mid lst_pc n ids emb L ps cache nw h = Some (x, h') \<and> sizes x = [n, 1024] \<and>
     (tvals h' x, ctx h') = qwen_model rp V n (tvals h ids) (tvals h ps) (tvals h emb) (tvals h cache)
        (\<lambda>i. layer_values h (L i)) (tvals h nw) (ctx h) \<and>
     frame {} h h'"
proof -
  note ok = ok [unfolded graph_inputs_ok_def] and dn = dn [unfolded inputs_dense_def]
  let ?lvs = "\<lambda>i. layer_values h (L i)"
  define cs where "cs = cos_sin_rows V n (tvals h ps) (tvals h cache)"
  let ?start = "embed_rows V n (tvals h ids) (tvals h emb)"
  let ?F = "\<lambda>j. decoder_layer rp V n cs (layer_name j) (?lvs j)"
  obtain q k v out res h1 where
    m0: "fst_pc ids n emb (input_layernorm_weight (L 0)) (qkv_proj_weight (L 0)) (qkv_proj_bias (L 0)) ps cache h =
       Some ((q, k, v, out, res), h1)"
    and b0: "at_break rp n h ?start (qkv_of V n (?lvs 0) ?start) cs res (q, k, v, out) h1" and c0: "ctx h1 = ctx h"
    using fst_law [of n h ids emb "?lvs 0" "L 0" ps cache ?start] ok dn sm unfolding cs_def by auto
  obtain r kv where f: "fold ?F [0..<0 + 23] (?start, ctx h1) = (r, kv)" by fastforce
  obtain q' k' v' out' h2 where
    m1: "run_layers attn mid n L ps cache res 0 23 (q, k, v, out) h1 = Some ((q', k', v', out'), h2)"
    and b2: "at_break rp n h r (qkv_of V n (?lvs 23) r) cs res (q', k', v', out') h2" and c2: "ctx h2 = kv"
    using run_layers_ok [OF _ sm _ _ _ cs_def _ _ b0 f, of L] ok dn by auto
  let ?a = "attn_of rp V n cs (layer_name 23) (?lvs 23) r (ctx h2)"
  obtain h3 where h3: "attn q' k' v' out' (layer_name 23) h2 = Some h3"
    "frame {} h h3" "ctx h3 = snd ?a" "whole h3 out'" "tvals h3 out' = fst ?a" "whole h3 res" "tvals h3 res = r"
    using attn_law [OF b2, of ?a "layer_name 23"] by (auto simp: attn_of_def Let_def)
  note s = b2 [unfolded at_break_def, simplified]
  let ?r = "after_attn V n (?lvs 23) (fst ?a) r"
  obtain x h4 where x: "lst_pc out' n (o_proj_weight (L 23)) (post_attention_layernorm_weight (L 23)) res
      (gate_up_proj_weight (L 23)) (down_proj_weight (L 23)) nw h3 = Some (x, h4)" "sizes x = [n, 1024]"
    "frame {} h h4" "ctx h4 = ctx h3" "tvals h4 x = v_rms_norm V ([n, 1024], ?r) ([1024], tvals h nw) eps"
    using lst_law [OF _ sm h3(2,4) _ _ h3(6), of "?lvs 23" "L 23" nw ?r] ok s h3 dn by auto
  have "fold ?F [0..<24] (?start, ctx h) = (?r, snd ?a)"
  proof -
    have "[0..<24] = [0..<23] @ [23::nat]" by (simp add: upt_conv_Cons)
    then show ?thesis
      using f c0 c2 by (simp add: decoder_layer_eq)
  qed
  then have "qwen_model rp V n (tvals h ids) (tvals h ps) (tvals h emb) (tvals h cache) ?lvs (tvals h nw) (ctx h) = (tvals h4 x, ctx h4)"
    using x h3 by (simp add: qwen_model_def cs_def [symmetric])
  then show ?thesis
    using m0 m1 h3(1) x by (simp add: pw_forward_def)
qed

end

end
