(* ===== verification/Vllm_Decoder.thy ===== *)
theory Vllm_Decoder
  imports Piecewise
begin

text \<open>
  The submodules of the traced graph keep the contract of the pieces: the fragments they
  share (rotary embedding, projection, embedding lookup) are named, shown to be what the
  trace contains, and shown to compute the reference decoder on values.
\<close>

subsection \<open>Fragments of the traced code\<close>

definition rope_frag ::
  "('a, 'k) torch \<Rightarrow> nat \<Rightarrow> tensor \<Rightarrow> tensor \<Rightarrow> tensor \<Rightarrow> ('a, 'k) store \<Rightarrow>
   (tensor \<times> ('a, 'k) store) option" where
  "rope_frag T s0 x c s h = do {
  let size = sizes x;
  view \<leftarrow> t_view T x [int s0, -1, 64];
  rot \<leftarrow> t_getitem_last T view None (Some 64);
  pass \<leftarrow> t_getitem_last T view (Some 64) None;
  unsqueeze \<leftarrow> t_unsqueeze T c (-2);
  (to, h) \<leftarrow> t_to T unsqueeze BFloat16 h;
  unsqueeze_1 \<leftarrow> t_unsqueeze T s (-2);
  (to_1, h) \<leftarrow> t_to T unsqueeze_1 BFloat16 h;
  chunk_1 \<leftarrow> t_chunk T rot 2 (-1);
  x1 \<leftarrow> py_nth chunk_1 0;
  x2 \<leftarrow> py_nth chunk_1 1;
  (mul, h) \<leftarrow> t_mul T x1 to h;
  (mul_1, h) \<leftarrow> t_mul T x2 to_1 h;
  (sub, h) \<leftarrow> t_sub T mul mul_1 h;
  (mul_2, h) \<leftarrow> t_mul T x2 to h;
  (mul_3, h) \<leftarrow> t_mul T x1 to_1 h;
  (add, h) \<leftarrow> t_add T mul_2 mul_3 h;
  (cat, h) \<leftarrow> t_cat T [sub, add] (-1) h;
  (cat_1, h) \<leftarrow> t_cat T [cat, pass] (-1) h;
  (reshape, h) \<leftarrow> t_reshape T cat_1 size h;
  Some (reshape, h)}"

definition qkv_frag ::
  "('a, 'k) torch \<Rightarrow> tensor \<Rightarrow> tensor \<Rightarrow> tensor \<Rightarrow> tensor \<Rightarrow> tensor \<Rightarrow> nat \<Rightarrow> ('a, 'k) store \<Rightarrow>
   ((tensor \<times> tensor \<times> tensor \<times> tensor) \<times> ('a, 'k) store) option" where
  "qkv_frag T x w b ps cache s0 h = do {
  (linear, h) \<leftarrow> t_linear T x w (Some b) h;
  split \<leftarrow> t_split T linear [1024, 1024, 1024] (-1);
  q \<leftarrow> py_nth split 0;
  k \<leftarrow> py_nth split 1;
  v \<leftarrow> py_nth split 2;
  (flatten, h) \<leftarrow> t_flatten T ps h;
  (index_select, h) \<leftarrow> t_index_select T cache 0 flatten h;
  chunk \<leftarrow> t_chunk T index_select 2 (-1);
  cos \<leftarrow> py_nth chunk 0;
  sin \<leftarrow> py_nth chunk 1;
  (qr, h) \<leftarrow> rope_frag T s0 q cos sin h;
  (kr, h) \<leftarrow> rope_frag T s0 k cos sin h;
  let size_2 = sizes qr;
  (empty, h) \<leftarrow> t_empty T size_2 BFloat16 (''cuda'', 0) h;
  view_2 \<leftarrow> t_view T qr [-1, 16, 64];
  view_3 \<leftarrow> t_view T empty [-1, 16, 64];
  view_4 \<leftarrow> t_view T kr [-1, 16, 64];
  view_5 \<leftarrow> t_view T v [-1, 16, 64];
  Some ((view_2, view_4, view_5, view_3), h)}"

lemma submod_2_split:
  "submod_2 T out s0 ow pln res guw dw iln qw qb ps cache h =
     Option.bind (submod_48 T out s0 ow pln res guw dw iln h)
       (\<lambda>(x, h). qkv_frag T x qw qb ps cache s0 h)"
  unfolding submod_2_def submod_48_def qkv_frag_def rope_frag_def
  by (simp add: Let_def cong: option.case_cong)

lemma rope_elem_cong:
  assumes "d < 64" "\<And>l. l < 64 \<Longrightarrow> x l = x' l" "\<And>l. l < 64 \<Longrightarrow> c l = c' l"
  shows "rope_elem V x c d = rope_elem V x' c' d"
  using assms by (simp add: rope_elem_def)

definition embed_frag ::
  "('a, 'k) torch \<Rightarrow> tensor \<Rightarrow> tensor \<Rightarrow> tensor \<Rightarrow> ('a, 'k) store \<Rightarrow>
   ((tensor \<times> tensor) \<times> ('a, 'k) store) option" where
  "embed_frag T ids emb iln h = do {
  (long, h) \<leftarrow> t_long T ids h;
  (embedding, h) \<leftarrow> t_embedding T long emb h;
  h \<leftarrow> t_log_api_usage_once T ''python.nn_module'' h;
  get_data_attr \<leftarrow> t_get_data_attr T iln;
  (empty_like, h) \<leftarrow> t_empty_like T embedding h;
  (contiguous, h) \<leftarrow> t_contiguous T embedding h;
  h \<leftarrow> t_rms_norm T empty_like contiguous get_data_attr (1 / 1000000) h;
  Some ((empty_like, embedding), h)}"

lemma submod_0_split:
  "submod_0 T ids s0 emb iln qw qb ps cache h =
     Option.bind (embed_frag T ids emb iln h) (\<lambda>((x, e), h).
       Option.bind (qkv_frag T x qw qb ps cache s0 h) (\<lambda>((q, k, v, out), h).
         Some ((q, k, v, out, e), h)))"
  unfolding submod_0_def embed_frag_def qkv_frag_def rope_frag_def
  by (simp add: Let_def cong: option.case_cong)

subsection \<open>The fragments compute the reference\<close>

context torch_api
begin

lemma elementwise_yields:
  "elementwise g x y h = (z, h') \<Longrightarrow> yields h z h' (dtype x) (bcast (sizes x) (sizes y))
     (\<lambda>ix. g (rd h x (bidx (sizes x) ix)) (rd h y (bidx (sizes y) ix)))"
  by (auto simp: elementwise_def Let_def yields_new)

text \<open>One half of a rotated head: two products and their sum or difference.\<close>

lemma rot_half:
  assumes op: "\<And>x y h. valid h x \<Longrightarrow> valid h y \<Longrightarrow> dtype x = dtype y \<Longrightarrow>
      bcast_ok (sizes x) (sizes y) \<Longrightarrow> t_op x y h = Some (elementwise g x y h)"
    and v: "valid h x" "valid h y" "valid h c" "valid h s"
    and sz: "sizes x = [n, 16, 32]" "sizes y = [n, 16, 32]" "sizes c = [n, 1, 32]" "sizes s = [n, 1, 32]"
    and dt: "dtype x = dt" "dtype y = dt" "dtype c = dt" "dtype s = dt"
  obtains a h1 b h2 z h3 where
    "t_mul T x c h = Some (a, h1)" "t_mul T y s h1 = Some (b, h2)" "t_op a b h2 = Some (z, h3)"
    "yields h z h3 dt [n, 16, 32] (\<lambda>ix. g (v_mul V (rd h x ix) (rd h c [ix ! 0, 0, ix ! 2]))
                                           (v_mul V (rd h y ix) (rd h s [ix ! 0, 0, ix ! 2])))"
proof -
  obtain a h1 where a: "elementwise (v_mul V) x c h = (a, h1)" by fastforce
  note ya = elementwise_yields [OF a]
  obtain b h2 where b: "elementwise (v_mul V) y s h1 = (b, h2)" by fastforce
  note yb = elementwise_yields [OF b]
  obtain z h3 where z: "elementwise g a b h2 = (z, h3)" by fastforce
  note yz = elementwise_yields [OF z]
  note fa = frame_emptyD [OF yieldsD(6) [OF ya]] and fb = frame_emptyD [OF yieldsD(6) [OF yb]]
  have bc: "bcast [n, 16, 32] [n, 1, 32] = [n, 16, 32]" "bcast [n, 16, 32] [n, 16, 32] = [n, 16, 32]"
    by (auto simp: bcast_def)
  have m1: "t_mul T x c h = Some (a, h1)"
    using v sz dt a by (simp add: mul_law bcast_ok_def)
  have m2: "t_mul T y s h1 = Some (b, h2)"
    using v sz dt b fa by (simp add: mul_law bcast_ok_def)
  have sza: "sizes a = [n, 16, 32]" "dtype a = dt" "sizes b = [n, 16, 32]" "dtype b = dt"
    using yieldsD(4,5) [OF ya] yieldsD(4,5) [OF yb] sz dt bc by simp_all
  have m3: "t_op a b h2 = Some (z, h3)"
    using sza yieldsD(3) [OF ya] yieldsD(3) [OF yb] fb z by (simp add: op bcast_ok_def)
  have "rd h3 z ix = g (v_mul V (rd h x ix) (rd h c [ix ! 0, 0, ix ! 2]))
                       (v_mul V (rd h y ix) (rd h s [ix ! 0, 0, ix ! 2]))"
    if ix: "idx_ok [n, 16, 32] ix" for ix
  proof -
    from ix obtain i j k where k: "ix = [i, j, k]" "i < n" "j < 16" "k < 32"
      by (auto simp: idx_ok3)
    then have bi: "bidx [n, 16, 32] ix = ix" "bidx [n, 1, 32] ix = [ix ! 0, 0, ix ! 2]"
      by (auto simp: bidx_def)
    have "rd h3 z ix = g (rd h2 a ix) (rd h2 b ix)"
      using yieldsD(8) [OF yz, of ix] ix bi sza bc by simp
    also have "rd h2 a ix = rd h1 a ix"
      using fb(3) yieldsD(9) [OF ya] by simp
    also have "\<dots> = v_mul V (rd h x ix) (rd h c [ix ! 0, 0, ix ! 2])"
      using yieldsD(8) [OF ya, of ix] ix bi sz bc by simp
    also have "rd h2 b ix = v_mul V (rd h1 y ix) (rd h1 s [ix ! 0, 0, ix ! 2])"
      using yieldsD(8) [OF yb, of ix] ix bi sz bc by simp
    finally show ?thesis
      using fa(3) v by (simp add: valid_base)
  qed
  moreover have "frame {} h h3"
    using yieldsD(6) [OF ya] yieldsD(6) [OF yb] yieldsD(6) [OF yz] by (blast intro: frame_empty_trans)
  moreover have "nxt h \<le> base z"
    using yieldsD(1) [OF yz] fa(5) fb(5) by simp
  ultimately have "yields h z h3 dt [n, 16, 32]
      (\<lambda>ix. g (v_mul V (rd h x ix) (rd h c [ix ! 0, 0, ix ! 2]))
              (v_mul V (rd h y ix) (rd h s [ix ! 0, 0, ix ! 2])))"
    using yieldsD(2,4,5,7) [OF yz] yieldsD(7) [OF ya] yieldsD(7) [OF yb] sza bc
    by (simp add: yields_def)
  with m1 m2 m3 show thesis by (rule that)
qed


lemma cat_last_yields:
  "cat_last x y h = (z, h') \<Longrightarrow>
   yields h z h' (dtype x) (butlast (sizes x) @ [last (sizes x) + last (sizes y)])
     (\<lambda>ix. if last ix < last (sizes x) then rd h x ix
           else rd h y (butlast ix @ [last ix - last (sizes x)]))"
  by (auto simp: cat_last_def Let_def yields_new)

lemma valid_head_view:
  assumes "valid h x" "sizes x = [n, 1024]" "strides x = [3072, 1]"
  shows "lo + m \<le> 64 \<Longrightarrow>
    valid h (x\<lparr>offset := offset x + lo, sizes := [n, 16, m], strides := [3072, 64, 1]\<rparr>)"
proof -
  have b: "offset x + i * 3072 + j < length (mem h (base x))" if "i < n" "j < 1024" for i j
    using valid_bound [OF assms(1), of "[i, j]"] assms that by (simp add: pos_def)
  assume le: "lo + m \<le> 64"
  have "offset x + lo + (i * 3072 + (j * 64 + k)) < length (mem h (base x))"
    if "i < n" "j < 16" "k < m" for i j k
    using b [of i "lo + (j * 64 + k)"] that le by (simp add: algebra_simps)
  then show ?thesis
    using assms by (auto simp: valid_def idx_ok3 pos_def)
qed

lemma valid_unsqueezed:
  assumes "valid h c" "sizes c = [n, m]"
  shows "valid h (unsqueezed c)"
proof -
  obtain s t where "strides c = [s, t]"
    using assms by (auto simp: valid_def length_Suc_conv)
  moreover from this have "offset c + (i * s + k * t) < length (mem h (base c))" if "i < n" "k < m" for i k
    using valid_bound [OF assms(1), of "[i, k]"] assms that by (simp add: pos_def)
  ultimately show ?thesis
    using assms by (auto simp: valid_def unsqueezed_def idx_ok3 pos_def)
qed

lemma rd_unsqueezed:
  assumes "valid h c" "sizes c = [n, m]"
  shows "rd h (unsqueezed c) [i, 0, k] = rd h c [i, k]"
proof -
  obtain s t where "strides c = [s, t]"
    using assms by (auto simp: valid_def length_Suc_conv)
  then show ?thesis
    using assms by (simp add: unsqueezed_def rd_def pos_def)
qed

lemma rope_frag_ok:
  assumes n: "0 < n"
    and x: "valid h x" "sizes x = [n, 1024]" "strides x = [3072, 1]" "dtype x = BFloat16"
    and c: "valid h c" "sizes c = [n, 32]" "dtype c = BFloat16"
    and s: "valid h s" "sizes s = [n, 32]" "dtype s = BFloat16"
  obtains q h' where "rope_frag T n x c s h = Some (q, h')"
    and "whole h' q" "sizes q = [n, 1024]" "dtype q = BFloat16" "frame {} h h'" "ctx h' = ctx h"
    "nxt h \<le> base q"
    "mem h' (base q) = tabulate [n, 16, 64] (\<lambda>ix. rope_elem V (\<lambda>j. rd h x [ix ! 0, ix ! 1 * 64 + j])
        (\<lambda>j. if j < 32 then rd h c [ix ! 0, j] else rd h s [ix ! 0, j - 32]) (ix ! 2))"
proof -
  define v1 where "v1 = x\<lparr>sizes := [n, 16, 64], strides := [3072, 64, 1]\<rparr>"
  define x1 where "x1 = x\<lparr>offset := offset x + 0, sizes := [n, 16, 32], strides := [3072, 64, 1]\<rparr>"
  define x2 where "x2 = x\<lparr>offset := offset x + 32, sizes := [n, 16, 32], strides := [3072, 64, 1]\<rparr>"
  define pass where "pass = x\<lparr>offset := offset x + 64, sizes := [n, 16, 0], strides := [3072, 64, 1]\<rparr>"
  note vx = valid_head_view [OF x(1-3)]
  have val: "valid h x1" "valid h x2" "valid h pass"
    using vx [of 0 32] vx [of 32 32] vx [of 64 0] by (simp_all add: x1_def x2_def pass_def)
  have shp: "sizes x1 = [n, 16, 32]" "sizes x2 = [n, 16, 32]" "sizes pass = [n, 16, 0]"
    "dtype x1 = BFloat16" "dtype x2 = BFloat16" "dtype pass = BFloat16"
    using x by (simp_all add: x1_def x2_def pass_def)
  have rx: "rd h x1 [i, j, k] = rd h x [i, j * 64 + k]" "rd h x2 [i, j, k] = rd h x [i, j * 64 + (32 + k)]" for i j k
    using x by (simp_all add: rd_def pos_def x1_def x2_def algebra_simps)
  let ?c = "unsqueezed c" and ?s = "unsqueezed s"
  have cs: "valid h ?c" "valid h ?s" "sizes ?c = [n, 1, 32]" "sizes ?s = [n, 1, 32]"
    "dtype ?c = BFloat16" "dtype ?s = BFloat16"
    using c s valid_unsqueezed by (auto simp: unsqueezed_def)
  obtain a1 h1 a2 h2 sub h3 where q1: "t_mul T x1 ?c h = Some (a1, h1)"
      "t_mul T x2 ?s h1 = Some (a2, h2)" "t_sub T a1 a2 h2 = Some (sub, h3)"
    and ysub: "yields h sub h3 BFloat16 [n, 16, 32]
        (\<lambda>ix. v_sub V (v_mul V (rd h x1 ix) (rd h ?c [ix ! 0, 0, ix ! 2]))
                      (v_mul V (rd h x2 ix) (rd h ?s [ix ! 0, 0, ix ! 2])))"
    by (rule rot_half [where t_op = "t_sub T" and g = "v_sub V", OF sub_law val(1,2) cs(1,2) shp(1,2) cs(3,4) shp(4,5) cs(5,6)])
  note f3 = frame_emptyD [OF yieldsD(6) [OF ysub]]
  obtain a3 h4 a4 h5 add h6 where q2: "t_mul T x2 ?c h3 = Some (a3, h4)"
      "t_mul T x1 ?s h4 = Some (a4, h5)" "t_add T a3 a4 h5 = Some (add, h6)"
    and yadd: "yields h3 add h6 BFloat16 [n, 16, 32]
        (\<lambda>ix. v_add V (v_mul V (rd h3 x2 ix) (rd h3 ?c [ix ! 0, 0, ix ! 2]))
                      (v_mul V (rd h3 x1 ix) (rd h3 ?s [ix ! 0, 0, ix ! 2])))"
    by (rule rot_half [where t_op = "t_add T" and g = "v_add V", OF add_law f3(1) [OF val(2)] f3(1) [OF val(1)]
          f3(1) [OF cs(1)] f3(1) [OF cs(2)] shp(2,1) cs(3,4) shp(5,4) cs(5,6)])
  note f6 = frame_emptyD [OF yieldsD(6) [OF yadd]]
  obtain cat h7 where cat: "cat_last sub add h6 = (cat, h7)" by fastforce
  note ycat = cat_last_yields [OF cat, unfolded yieldsD(4,5) [OF ysub] yieldsD(4) [OF yadd], simplified]
  obtain cat1 h8 where cat1: "cat_last cat pass h7 = (cat1, h8)" by fastforce
  note ycat1 = cat_last_yields [OF cat1, unfolded yieldsD(4,5) [OF ycat] shp(3), simplified]
  note f7 = frame_emptyD [OF yieldsD(6) [OF ycat]] and f8 = frame_emptyD [OF yieldsD(6) [OF ycat1]]
  have q3: "t_cat T [sub, add] (-1) h6 = Some (cat, h7)"
    using yieldsD(3,4,5) [OF ysub] yieldsD(3,4,5) [OF yadd] f6(1) cat by (simp add: cat_law)
  have q4: "t_cat T [cat, pass] (-1) h7 = Some (cat1, h8)"
    using yieldsD(3,4,5) [OF ycat] f3(1) f6(1) f7(1) val(3) shp cat1 by (simp add: cat_law)
  have fr: "frame {} h h8"
    using yieldsD(6) [OF ysub] yieldsD(6) [OF yadd] yieldsD(6) [OF ycat] yieldsD(6) [OF ycat1]
    by (blast intro: frame_empty_trans)
  define q where "q = with_shape cat1 [n, 1024]"
  have w: "whole h8 q" "base q = base cat1"
    using yieldsD(2,4) [OF ycat1] by (auto simp: whole_def q_def with_shape_def contiguous_def numel_def)
  have run: "rope_frag T n x c s h = Some (q, h8)"
  proof -
    have "t_view T x [int n, -1, 64] = Some v1"
      using view_split_law [of x n 16 64 3072 "[int n, -1, 64]"] infer_middle [OF n] x
      by (simp add: numel_def v1_def)
    moreover have "t_getitem_last T v1 None (Some 64) = Some v1"
      by (simp add: getitem_upto_law v1_def slice_last_def)
    moreover have "t_getitem_last T v1 (Some 64) None = Some pass"
      by (simp add: getitem_from_law v1_def slice_last_def pass_def)
    moreover have "t_chunk T v1 2 (-1) = Some [x1, x2]"
      using chunk_law [of v1 2 32] by (simp add: v1_def slice_last_def x1_def x2_def numeral_2_eq_2)
    moreover have "t_reshape T cat1 [n, 1024] h8 = Some (q, h8)"
      using yieldsD(2,4) [OF ycat1] by (simp add: reshape_law whole_def numel_def q_def)
    ultimately show ?thesis
      using c s cs q1 q2 q3 q4 x(2)
      by (simp add: rope_frag_def unsqueeze_law to_law Let_def)
  qed
  have "mem h8 (base q) = tabulate [n, 16, 64] (\<lambda>ix. rd h8 cat1 ix)"
    using whole_tvals [OF yieldsD(2) [OF ycat1]] w(2) yieldsD(4) [OF ycat1] by (simp add: tvals_def)
  also have "\<dots> = tabulate [n, 16, 64] (\<lambda>ix. rope_elem V (\<lambda>j. rd h x [ix ! 0, ix ! 1 * 64 + j])
        (\<lambda>j. if j < 32 then rd h c [ix ! 0, j] else rd h s [ix ! 0, j - 32]) (ix ! 2))"
  proof (rule tabulate_cong)
    fix ix assume ok: "idx_ok [n, 16, 64] ix"
    then obtain i j k where ix: "ix = [i, j, k]" and b: "i < n" "j < 16" "k < 64"
      by (auto simp: idx_ok3)
    have "rd h8 cat1 ix = rd h7 cat ix"
      using yieldsD(8) [OF ycat1, of ix] ok ix b by simp
    also have "\<dots> = (if k < 32 then rd h6 sub ix else rd h6 add [i, j, k - 32])"
      using yieldsD(8) [OF ycat, of ix] ok ix b by simp
    also have "rd h6 sub ix = rd h3 sub ix"
      using f6(3) yieldsD(9) [OF ysub] by simp
    also have "(if k < 32 then rd h3 sub ix else rd h6 add [i, j, k - 32]) =
        rope_elem V (\<lambda>l. rd h x [i, j * 64 + l]) (\<lambda>l. if l < 32 then rd h c [i, l] else rd h s [i, l - 32]) k"
      using yieldsD(8) [OF ysub, of ix] yieldsD(8) [OF yadd, of "[i, j, k - 32]"] ix b
        f3(3) val cs rx rd_unsqueezed [OF c(1,2)] rd_unsqueezed [OF s(1,2)]
      by (auto simp: rope_elem_def valid_base add.commute)
    finally show "rd h8 cat1 ix = rope_elem V (\<lambda>j. rd h x [ix ! 0, ix ! 1 * 64 + j])
        (\<lambda>j. if j < 32 then rd h c [ix ! 0, j] else rd h s [ix ! 0, j - 32]) (ix ! 2)"
      by (simp add: ix cong: if_cong)
  qed
  finally show thesis
    using that [OF run w(1)] fr w(2) yieldsD(1,5,7) [OF ycat1] yieldsD(7) [OF ysub] yieldsD(7) [OF yadd]
      yieldsD(7) [OF ycat] frame_nxt [OF fr] f3(5) f6(5) f7(5)
    by (simp add: q_def with_shape_def)
qed

lemma submod_48_ok:
  assumes out: "whole h out" "sizes out = [n, 16, 64]" "dtype out = BFloat16"
    and res: "whole h res" "sizes res = [n, 1024]" "dtype res = BFloat16" "base res \<noteq> base out"
    and w: "weights_ok h lv ow pln guw dw" and nw: "valid h nw" "sizes nw = [1024]" "dtype nw = BFloat16"
    and dist: "base res \<notin> {base ow, base pln, base guw, base dw, base nw}"
  obtains x h' where "submod_48 T out n ow pln res guw dw nw h = Some (x, h')"
    "whole h' x" "sizes x = [n, 1024]" "dtype x = BFloat16" "nxt h \<le> base x"
    "frame {base res} h h'" "ctx h' = ctx h" "whole h' res"
    "tvals h' res = after_attn V n lv (tvals h out) (tvals h res)"
    "tvals h' x = v_rms_norm V ([n, 1024], after_attn V n lv (tvals h out) (tvals h res))
                    ([1024], tvals h nw) eps"
proof -
  note w = w [unfolded weights_ok_def] and lt = whole_base [OF res(1)] whole_base [OF out(1)]
  let ?L = "v_linear V ([n, 1024], tvals h out) ([1024, 1024], o_w lv) None"
  define r1 where "r1 = map2 (v_add V) ?L (tvals h res)"
  define N1 where "N1 = v_rms_norm V ([n, 1024], r1) ([1024], ln2 lv) eps"
  define G where "G = v_linear V ([n, 1024], N1) ([5632, 1024], gate_up_w lv) None"
  define S where "S = v_silu_and_mul V ([n, 5632], G)"
  define M where "M = v_linear V ([n, 2816], S) ([1024, 2816], down_w lv) None"
  define r2 where "r2 = map2 (v_add V) M r1"
  define N2 where "N2 = v_rms_norm V ([n, 1024], r2) ([1024], tvals h nw) eps"
  have lw: "length (o_w lv) = 1024 * 1024" "length (gate_up_w lv) = 5632 * 1024" "length (down_w lv) = 1024 * 2816"
    using w length_tvals [of h ow] length_tvals [of h guw] length_tvals [of h dw] by (auto simp: numel_def)
  have len: "length ?L = n * 1024" "length r1 = n * 1024" "length N1 = n * 1024" "length G = n * 5632"
      "length S = n * 2816" "length M = n * 1024" "length r2 = n * 1024" "length N2 = n * 1024"
    using out(2) res(2) lw silu_and_mul_length [of _ n 2816]
    by (simp_all add: r1_def N1_def G_def S_def M_def r2_def N2_def numel_def)
  define h1 where "h1 = alloc h ?L"
  define l where "l = new_t h BFloat16 [n, 1024]"
  define h2 where "h2 = put (put h1 res r1) l N1"
  define h3 where "h3 = alloc h2 G"
  define l1 where "l1 = new_t h2 BFloat16 [n, 5632]"
  define h4 where "h4 = alloc h3 (v_uninit V h3 (n * 2816))"
  define e where "e = new_t h3 BFloat16 [n, 2816]"
  define h5 where "h5 = put h4 e S"
  define h6 where "h6 = alloc h5 M"
  define l2 where "l2 = new_t h5 BFloat16 [n, 1024]"
  define h7 where "h7 = put (put h6 res r2) l2 N2"
  note hs = h1_def h2_def h3_def h4_def h5_def h6_def h7_def and ts = l_def l1_def e_def l2_def
  have fr: "frame {base res} h h1" "frame {base res} h h2" "frame {base res} h h3" "frame {base res} h h4"
      "frame {base res} h h5" "frame {base res} h h6" "frame {base res} h h7"
    by (simp_all add: hs ts frame_alloc' frame_put')
  have nx: "nxt h1 = nxt h + 1" "nxt h2 = nxt h + 1" "nxt h3 = nxt h + 2" "nxt h4 = nxt h + 3"
      "nxt h5 = nxt h + 3" "nxt h6 = nxt h + 4" "nxt h7 = nxt h + 4"
    by (simp_all add: hs)
  have bs: "base l = nxt h" "base l1 = nxt h + 1" "base e = nxt h + 2" "base l2 = nxt h + 3"
    by (simp_all add: ts nx)
  have wh: "whole h1 l" "whole h1 res" "whole h2 l" "whole h2 res" "whole h3 l1" "whole h4 l1" "whole h4 e"
      "whole h5 e" "whole h6 l2" "whole h6 res" "whole h7 l2" "whole h7 res"
    using lt res len nx
    by (simp_all add: whole_def hs ts contiguous_def numel_def)
  have mm: "tvals h1 l = ?L" "tvals h1 res = tvals h res" "tvals h2 l = N1" "tvals h4 l1 = G" "tvals h5 e = S"
      "tvals h6 l2 = M" "tvals h6 res = r1" "tvals h7 res = r2" "tvals h7 l2 = N2"
    using wh lt bs nx res(4) whole_tvals [OF res(1)] by (simp_all add: whole_tvals hs)
  have vw: "valid h' ow" "valid h' pln" "valid h' guw" "valid h' dw" "valid h' nw" "tvals h' ow = o_w lv" "tvals h' pln = ln2 lv"
      "tvals h' guw = gate_up_w lv" "tvals h' dw = down_w lv" "tvals h' nw = tvals h nw"
      if "frame {base res} h h'" for h'
    using w nw dist frame_valid [OF that] frame_tvals [OF that] by (auto simp: valid_base)
  have szs: "sizes l = [n, 1024]" "sizes l2 = [n, 1024]" "sizes l1 = [n, 5632]" "sizes e = [n, 2816]"
      "dtype l = BFloat16" "dtype e = BFloat16" "dtype l1 = BFloat16" "dtype l2 = BFloat16"
    by (simp_all add: ts)
  have ds: "base l \<noteq> base res" "base pln \<notin> {base l, base res}" "base l2 \<noteq> base res"
      "base nw \<notin> {base l2, base res}"
    using lt dist bs valid_base [OF nw(1)] w by (auto dest: valid_base)
  have "t_view T out [-1, 1024] = Some (with_shape out [n, 1024])"
    using out(2) whole_contiguous [OF out(1)] by (simp add: view_law numel_def infer_leading)
  moreover have "t_view T (with_shape out [n, 1024]) [-1, 1024] = Some (with_shape out [n, 1024])"
    by (simp add: view_law numel_def infer_leading) (simp add: with_shape_def)
  moreover have "t_linear T (with_shape out [n, 1024]) ow None h = Some (l, h1)"
    using w out whole_with_shape [OF out(1), of "[n, 1024]"] tvals_with_shape [OF out(1), of "[n, 1024]"]
    by (simp add: linear_law whole_valid numel_def tv_def l_def h1_def)
  moreover have "t_fused_add_rms_norm T l res pln (1 / 1000000) h1 = Some h2"
    using fused_add_rms_norm_law [of h1 l res pln] w wh(1,2) mm(1,2) vw [OF fr(1)] res(2,3) ds szs
    by (simp add: tv_def h2_def r1_def N1_def eps_def Let_def)
  moreover have "t_view T l [-1, 1024] = Some (with_shape l [n, 1024])"
    by (simp add: view_law l_def contiguous_def numel_def infer_leading)
  moreover have "t_linear T l guw None h2 = Some (l1, h3)"
    using linear_law [of h2 l guw n 1024 5632 None] w whole_valid [OF wh(3)] mm(3) vw [OF fr(2)] szs
    by (simp add: tv_def l1_def h3_def G_def)
  moreover have "t_empty T [n, 2816] BFloat16 (''cuda'', 0) h3 = Some (e, h4)"
    by (simp add: empty_law e_def h4_def)
  moreover have "t_silu_and_mul T e l1 h4 = Some h5"
    using silu_and_mul_law [of h4 e l1 n 2816] wh(7) whole_valid [OF wh(6)] mm(4) bs szs
    by (simp add: tv_def h5_def S_def)
  moreover have "t_view T e [-1, 2816] = Some (with_shape e [n, 2816])"
    by (simp add: view_law e_def contiguous_def numel_def infer_leading)
  moreover have "t_linear T e dw None h5 = Some (l2, h6)"
    using linear_law [of h5 e dw n 2816 1024 None] w whole_valid [OF wh(8)] mm(5) vw [OF fr(5)] szs
    by (simp add: tv_def l2_def h6_def M_def)
  moreover have "t_fused_add_rms_norm T l2 res nw (1 / 1000000) h6 = Some h7"
    using fused_add_rms_norm_law [of h6 l2 res nw] nw wh(9,10) mm(6,7) vw [OF fr(6)] res(2,3) ds szs
    by (simp add: tv_def h7_def r2_def N2_def eps_def Let_def)
  ultimately have run: "submod_48 T out n ow pln res guw dw nw h = Some (l2, h7)"
    by (simp add: submod_48_def get_data_attr_law)
  have "r2 = after_attn V n lv (tvals h out) (tvals h res)"
    by (simp add: after_attn_def mid_residual_def mlp_def Let_def r2_def M_def S_def G_def N1_def r1_def)
  with run show thesis
    using that [OF run] wh mm fr(7) bs by (simp add: l2_def N2_def) (simp add: hs)
qed

lemma gather_rows_yields:
  "gather_rows V w ids d h = (z, h') \<Longrightarrow>
   yields h z h' (dtype w) (sizes ids @ [d]) (\<lambda>ix. rd h w [nat (v_int V (rd h ids (butlast ix))), last ix])"
  by (auto simp: gather_rows_def yields_new)

text \<open>Columns \<open>lo ..< lo + m\<close> of a fresh matrix.\<close>

lemma column_block:
  assumes "whole h x" "sizes x = [n, w]" "lo + m \<le> w"
  shows "valid h (slice_last x lo m)" "sizes (slice_last x lo m) = [n, m]"
    "strides (slice_last x lo m) = [w, 1]" "base (slice_last x lo m) = base x"
    "i < n \<Longrightarrow> j < m \<Longrightarrow> rd h (slice_last x lo m) [i, j] = mem h (base x) ! (lo + i * w + j)"
proof -
  have st: "strides x = [w, 1]" "offset x = 0" "length (mem h (base x)) = n * w" "base x < nxt h"
    using assms by (auto simp: whole_def contiguous_def numel_def)
  then show "sizes (slice_last x lo m) = [n, m]" "strides (slice_last x lo m) = [w, 1]"
    "base (slice_last x lo m) = base x"
    "i < n \<Longrightarrow> j < m \<Longrightarrow> rd h (slice_last x lo m) [i, j] = mem h (base x) ! (lo + i * w + j)"
    using assms by (simp_all add: slice_last_def rd_def pos_def add.assoc)
  have "lo + (i * w + j) < n * w" if "i < n" "j < m" for i j
  proof -
    have "i * w + w \<le> n * w"
      using that mult_le_mono1 [of "Suc i" n w] by simp
    then show ?thesis
      using that assms(3) by linarith
  qed
  then show "valid h (slice_last x lo m)"
    using assms st by (auto simp: slice_last_def valid_def idx_ok2 pos_def)
qed

lemma rope_frag_values:
  assumes n: "0 < n" and lin: "whole h lin" "sizes lin = [n, 3072]" "dtype lin = BFloat16"
    and cs: "whole h cs" "sizes cs = [n, 64]" "dtype cs = BFloat16" and off: "off + 1024 \<le> 3072"
  obtains q h' where "rope_frag T n (slice_last lin off 1024) (slice_last cs 0 32) (slice_last cs 32 32) h = Some (q, h')"
    "whole h' q" "sizes q = [n, 1024]" "dtype q = BFloat16" "frame {} h h'" "ctx h' = ctx h"
    "nxt h \<le> base q" "tvals h' q = rope V n (mem h (base lin)) (mem h (base cs)) off"
proof -
  have le: "0 + 32 \<le> (64::nat)" "32 + 32 \<le> (64::nat)" by simp_all
  note xb = column_block [OF lin(1,2) off] and cb = column_block [OF cs(1,2) le(1)]
    and sb = column_block [OF cs(1,2) le(2)]
  obtain q h' where run: "rope_frag T n (slice_last lin off 1024) (slice_last cs 0 32) (slice_last cs 32 32) h = Some (q, h')"
    and w: "whole h' q" and q: "sizes q = [n, 1024]" "dtype q = BFloat16" "frame {} h h'" "ctx h' = ctx h" "nxt h \<le> base q"
    and m: "mem h' (base q) = tabulate [n, 16, 64] (\<lambda>ix. rope_elem V (\<lambda>j. rd h (slice_last lin off 1024) [ix ! 0, ix ! 1 * 64 + j])
        (\<lambda>j. if j < 32 then rd h (slice_last cs 0 32) [ix ! 0, j] else rd h (slice_last cs 32 32) [ix ! 0, j - 32]) (ix ! 2))"
    by (rule rope_frag_ok [OF n xb(1-3) _ cb(1,2) _ sb(1,2)])
       (use lin cs in \<open>simp_all add: slice_last_def\<close>)
  have "tvals h' q = rope V n (mem h (base lin)) (mem h (base cs)) off"
    unfolding whole_tvals [OF w] m rope_def
  proof (rule tabulate_cong)
    fix ix assume "idx_ok [n, 16, 64] ix"
    then obtain i j k where ix: "ix = [i, j, k]" and b: "i < n" "j < 16" "k < 64"
      by (auto simp: idx_ok3)
    have x: "rd h (slice_last lin off 1024) [i, j * 64 + l] = mem h (base lin) ! (off + i * 3072 + j * 64 + l)" if "l < 64" for l
      using xb(5) [of i "j * 64 + l"] b that by (simp add: add.assoc)
    have c: "rd h (slice_last cs 0 32) [i, l] = mem h (base cs) ! (i * 64 + l)" if "l < 32" for l
      using cb(5) [of i l] b that by simp
    have s: "rd h (slice_last cs 32 32) [i, l - 32] = mem h (base cs) ! (i * 64 + l)" if "32 \<le> l" "l < 64" for l
      using sb(5) [of i "l - 32"] b that by (simp add: algebra_simps)
    show "rope_elem V (\<lambda>j. rd h (slice_last lin off 1024) [ix ! 0, ix ! 1 * 64 + j])
        (\<lambda>j. if j < 32 then rd h (slice_last cs 0 32) [ix ! 0, j] else rd h (slice_last cs 32 32) [ix ! 0, j - 32]) (ix ! 2) =
      rope_elem V (\<lambda>l. mem h (base lin) ! (off + ix ! 0 * 3072 + ix ! 1 * 64 + l)) (\<lambda>l. mem h (base cs) ! (ix ! 0 * 64 + l)) (ix ! 2)"
      unfolding ix
      by (rule rope_elem_cong) (use b in \<open>simp_all add: x c s del: diff_diff_left\<close>)
  qed
  with run w q show thesis by (rule that)
qed

lemma qkv_frag_ok:
  assumes n: "0 < n" and x: "valid h x" "sizes x = [n, 1024]" "dtype x = BFloat16"
    and w: "valid h w" "sizes w = [3072, 1024]" "dtype w = BFloat16" and b: "valid h b" "sizes b = [3072]" "dtype b = BFloat16"
    and ps: "valid h ps" "sizes ps = [n]" "dtype ps = Int64" "ids_in_range V h ps 32768"
    and cache: "valid h cache" "sizes cache = [32768, 64]" "dtype cache = BFloat16"
  defines "Y \<equiv> v_linear V ([n, 1024], tvals h x) ([3072, 1024], tvals h w) (Some ([3072], tvals h b))"
    and "CS \<equiv> cos_sin_rows V n (tvals h ps) (tvals h cache)"
  obtains q k v out h' where "qkv_frag T x w b ps cache n h = Some ((q, k, v, out), h')"
    "valid h' q" "valid h' k" "valid h' v" "whole h' out" "base out \<notin> {base q, base k, base v}"
    "sizes q = [n, 16, 64]" "sizes k = [n, 16, 64]" "sizes v = [n, 16, 64]" "sizes out = [n, 16, 64]"
    "dtype q = BFloat16" "dtype k = BFloat16" "dtype v = BFloat16"
    "dtype out = BFloat16" "frame {} h h'" "ctx h' = ctx h" "nxt h \<le> base out"
    "tvals h' q = rope V n Y CS 0" "tvals h' k = rope V n Y CS 1024" "tvals h' v = v_heads n Y"
proof -
  define lin where "lin = new_t h BFloat16 [n, 3072]"
  define h1 where "h1 = alloc h Y"
  have lY: "length Y = n * 3072"
    using x w length_tvals [of h x] length_tvals [of h w] by (simp add: Y_def numel_def)
  have f1: "frame {} h h1" by (simp add: h1_def)
  note F1 = frame_emptyD [OF f1]
  have wl1: "whole h1 lin" "sizes lin = [n, 3072]" "dtype lin = BFloat16" "mem h1 (base lin) = Y" "base lin = nxt h"
    using whole_new [of Y "[n, 3072]" h BFloat16] lY by (simp_all add: lin_def h1_def)
  obtain cs h2 where cs: "gather_rows V cache ps 64 h1 = (cs, h2)" by fastforce
  note ycs = gather_rows_yields [OF cs, unfolded ps(2) cache(3), simplified]
  note F2 = frame_emptyD [OF yieldsD(6) [OF ycs]]
  have w2: "whole h2 lin" "whole h2 cs" "sizes cs = [n, 64]" "dtype cs = BFloat16"
    using F2(2) wl1 yieldsD [OF ycs] by simp_all
  have mCS: "mem h2 (base cs) = CS"
  proof -
    have "mem h2 (base cs) = tabulate [n, 64] (rd h2 cs)"
      using whole_tvals [OF w2(2)] w2(3) by (simp add: tvals_def)
    also have "\<dots> = CS"
      unfolding CS_def cos_sin_rows_def
    proof (rule tabulate_cong)
      fix ix assume ok: "idx_ok [n, 64] ix"
      then obtain i j where ix: "ix = [i, j]" and ij: "i < n" "j < 64" by (auto simp: idx_ok2)
      have rp: "rd h1 ps [i] = tvals h ps ! i"
        using F1(3) valid_base [OF ps(1)] rd_eq_nth_tvals [of ps "[i]" h] ps(2) ij by simp
      have "nat (v_int V (rd h ps [i])) < 32768"
        using ps(2,4) ij by (simp add: ids_in_range_def nat_less_iff)
      then have "rd h cache [nat (v_int V (rd h ps [i])), j] = tvals h cache ! (nat (v_int V (rd h ps [i])) * 64 + j)"
        using rd_eq_nth_tvals [of cache "[nat (v_int V (rd h ps [i])), j]" h] cache(2) ij by simp
      then show "rd h2 cs ix = tvals h cache ! (nat (v_int V (tvals h ps ! (ix ! 0))) * 64 + ix ! 1)"
        using yieldsD(8) [OF ycs ok] F1(3) valid_base [OF cache(1)] valid_base [OF ps(1)] rp ix by simp
    qed
    finally show ?thesis .
  qed
  obtain qr h3 where q: "rope_frag T n (slice_last lin 0 1024) (slice_last cs 0 32) (slice_last cs 32 32) h2 = Some (qr, h3)"
    "whole h3 qr" "sizes qr = [n, 1024]" "dtype qr = BFloat16" and f3: "frame {} h2 h3" and q': "ctx h3 = ctx h2"
    "nxt h2 \<le> base qr" "tvals h3 qr = rope V n (mem h2 (base lin)) (mem h2 (base cs)) 0"
    by (rule rope_frag_values [OF n w2(1) wl1(2,3) w2(2-4), of 0]) auto
  note F3 = frame_emptyD [OF f3]
  obtain kr h4 where k: "rope_frag T n (slice_last lin 1024 1024) (slice_last cs 0 32) (slice_last cs 32 32) h3 = Some (kr, h4)"
    "whole h4 kr" "sizes kr = [n, 1024]" "dtype kr = BFloat16" and f4: "frame {} h3 h4" and k': "ctx h4 = ctx h3"
    "nxt h3 \<le> base kr" "tvals h4 kr = rope V n (mem h3 (base lin)) (mem h3 (base cs)) 1024"
    by (rule rope_frag_values [OF n F3(2) [OF w2(1)] wl1(2,3) F3(2) [OF w2(2)] w2(3,4), of 1024]) auto
  note F4 = frame_emptyD [OF f4]
  have lt: "base lin < nxt h2" "base cs < nxt h2"
    using whole_base [OF w2(1)] whole_base [OF w2(2)] .
  have mY: "mem h2 (base lin) = Y" "mem h3 (base lin) = Y" "mem h3 (base cs) = CS" "mem h4 (base lin) = Y"
    using lt mCS wl1(4,5) frame_mem [OF yieldsD(6) [OF ycs], of "base lin"] frame_mem [OF f3] frame_mem [OF f4] F3(5)
    by (simp_all add: h1_def)
  define e where "e = new_t h4 BFloat16 [n, 1024]"
  define h5 where "h5 = alloc h4 (v_uninit V h4 (n * 1024))"
  have f5: "frame {} h4 h5" and we: "whole h5 e"
    by (simp_all add: h5_def e_def whole_new)
  note F5 = frame_emptyD [OF f5]
  let ?v = "slice_last lin 2048 1024"
  let ?v3 = "?v\<lparr>sizes := [n, 16, 64], strides := [3072, 64, 1]\<rparr>"
  have wl5: "whole h5 lin" using F5(2) F4(2) F3(2) w2(1) by simp
  note vb = column_block [OF wl5 wl1(2), of 2048 1024]
  have v3: "valid h5 ?v3"
    using valid_head_view [OF vb(1-3), of 0 64] by simp
  have v3m: "tvals h5 ?v3 = v_heads n Y"
    unfolding tvals_def v_heads_def
    by (simp, rule tabulate_cong)
       (use mY(4) F5 lt F3(5) F4(5) frame_mem [OF f5, of "base lin"] wl1(1) in
        \<open>auto simp: idx_ok3 rd_def pos_def slice_last_def lin_def algebra_simps\<close>)
  have run: "qkv_frag T x w b ps cache n h =
      Some ((with_shape qr [n, 16, 64], with_shape kr [n, 16, 64], ?v3, with_shape e [n, 16, 64]), h5)"
  proof -
    have "t_linear T x w (Some b) h = Some (lin, h1)"
      using linear_law [of h x w n 1024 3072 "Some b"] x w b by (simp add: tv_def lin_def h1_def Y_def)
    moreover have "t_split T lin [1024, 1024, 1024] (-1) = Some [slice_last lin 0 1024, slice_last lin 1024 1024, ?v]"
      using wl1(2) by (simp add: split_law)
    moreover have "t_index_select T cache 0 ps h1 = Some (cs, h2)"
    proof -
      have "ids_in_range V h1 ps 32768"
        using ps(4) F1(3) [OF valid_base [OF ps(1)]] by (simp add: ids_in_range_def)
      then show ?thesis
        using index_select_law [of h1 ps cache n 32768 64] ps cache F1(1) cs by simp
    qed
    moreover have "t_chunk T cs 2 (-1) = Some [slice_last cs 0 32, slice_last cs 32 32]"
      using chunk_law [of cs 2 32] w2(3) by (simp add: numeral_2_eq_2)
    moreover have "t_empty T [n, 1024] BFloat16 (''cuda'', 0) h4 = Some (e, h5)"
      by (simp add: empty_law e_def h5_def)
    moreover have "t_view T qr [-1, 16, 64] = Some (with_shape qr [n, 16, 64])"
        "t_view T kr [-1, 16, 64] = Some (with_shape kr [n, 16, 64])"
        "t_view T e [-1, 16, 64] = Some (with_shape e [n, 16, 64])"
      using q(2,3) k(2,3) we
      by (simp_all add: view_law whole_contiguous numel_def infer_leading e_def)
    moreover have "t_view T ?v [-1, 16, 64] = Some ?v3"
      using view_split_law [of ?v n 16 64 3072 "[-1, 16, 64]"] vb
      by (simp add: numel_def infer_leading)
    ultimately show ?thesis
      using q(1,3) k(1,3) ps(2) by (simp add: qkv_frag_def flatten_law Let_def)
  qed
  have w5: "whole h5 qr" "whole h5 kr" "tvals h5 qr = rope V n Y CS 0" "tvals h5 kr = rope V n Y CS 1024"
    using F4 F5 q(2) k(2) q'(3) k'(3) mY mCS by (simp_all add: whole_base)
  have fr: "frame {} h h5"
    using f1 yieldsD(6) [OF ycs] f3 f4 f5 by (blast intro: frame_empty_trans)
  have be: "base e = nxt h4" "base qr < nxt h4" "base kr < nxt h4" "base lin < nxt h4"
    using whole_base [OF k(2)] whole_base [OF q(2)] lt F3(5) F4(5) by (simp_all add: e_def)
  show thesis
    using that [OF run] w5 v3 v3m we fr be q(3,4) k(3,4) wl1(3) q' k' yieldsD(7) [OF ycs] F1(5) F2(5) F3(5) F4(5) lt
    by (simp add: whole_valid whole_with_shape tvals_with_shape numel_def slice_last_def e_def)
       (simp add: h5_def h1_def)
qed

subsection \<open>The submodules compute the reference\<close>

lemma embed_frag_ok:
  assumes ids: "valid h ids" "dtype ids = Int32" "sizes ids = [n]" "ids_in_range V h ids 151936"
    and emb: "valid h emb" "sizes emb = [151936, 1024]" "dtype emb = BFloat16"
    and ln: "valid h iln" "sizes iln = [1024]" "dtype iln = BFloat16"
  obtains x e h' where "embed_frag T ids emb iln h = Some ((x, e), h')"
    "whole h' x" "sizes x = [n, 1024]" "dtype x = BFloat16" "whole h' e" "sizes e = [n, 1024]" "dtype e = BFloat16"
    "nxt h \<le> base e" "frame {} h h'" "ctx h' = ctx h"
    "tvals h' e = embed_rows V n (tvals h ids) (tvals h emb)"
    "tvals h' x = v_rms_norm V ([n, 1024], embed_rows V n (tvals h ids) (tvals h emb)) ([1024], tvals h iln) eps"
proof -
  let ?L = "map (v_long V) (tvals h ids)"
  define l where "l = new_t h Int64 [n]"
  define h1 where "h1 = alloc h ?L"
  have lL: "length ?L = n" using ids(3) by (simp add: numel_def)
  have w1: "whole h1 l" "tvals h1 l = ?L" and f1: "frame {} h h1"
    using lL by (simp_all add: l_def h1_def whole_new tvals_new)
  note F1 = frame_emptyD [OF f1]
  have rl: "v_int V (rd h1 l [i]) = v_int V (tvals h ids ! i)" if "i < n" for i
    using rd_eq_nth_tvals [of l "[i]" h1] w1(2) lL that by (simp add: l_def)
  have inr: "0 \<le> v_int V (tvals h ids ! i) \<and> v_int V (tvals h ids ! i) < 151936" if "i < n" for i
    using ids(4) [unfolded ids_in_range_def, rule_format, of "[i]"] rd_eq_nth_tvals [of ids "[i]" h] ids(3) that
    by simp
  obtain e h2 where e: "gather_rows V emb l 1024 h1 = (e, h2)" by fastforce
  have ye: "yields h1 e h2 BFloat16 [n, 1024] (\<lambda>ix. rd h1 emb [nat (v_int V (rd h1 l (butlast ix))), last ix])"
    using gather_rows_yields [OF e] emb(3) by (simp add: l_def)
  note F2 = frame_emptyD [OF yieldsD(6) [OF ye]]
  let ?E = "embed_rows V n (tvals h ids) (tvals h emb)"
  have mE: "tvals h2 e = ?E"
    unfolding tvals_def [of h2 e] embed_rows_def yieldsD(4) [OF ye]
  proof (rule tabulate_cong)
    fix ix assume ok: "idx_ok [n, 1024] ix"
    then obtain i j where ix: "ix = [i, j]" and ij: "i < n" "j < 1024" by (auto simp: idx_ok2)
    have "rd h2 e ix = rd h emb [nat (v_int V (tvals h ids ! i)), j]"
      using yieldsD(8) [OF ye ok] F1(3) [OF valid_base [OF emb(1)]] rl ij ix by simp
    also have "\<dots> = tvals h emb ! (nat (v_int V (tvals h ids ! i)) * 1024 + j)"
      using rd_eq_nth_tvals [of emb "[nat (v_int V (tvals h ids ! i)), j]" h] inr [OF ij(1)] emb(2) ij
      by (simp add: nat_less_iff)
    finally show "rd h2 e ix = tvals h emb ! (nat (v_int V (tvals h ids ! (ix ! 0))) * 1024 + ix ! 1)"
      by (simp add: ix)
  qed
  define x where "x = new_t h2 BFloat16 [n, 1024]"
  define h3 where "h3 = alloc h2 (v_uninit V h2 (n * 1024))"
  have w3: "whole h3 x" and f3: "frame {} h2 h3" by (simp_all add: x_def h3_def whole_new)
  note F3 = frame_emptyD [OF f3]
  let ?N = "v_rms_norm V ([n, 1024], ?E) ([1024], tvals h iln) eps"
  have lN: "length ?N = n * 1024" by (simp add: embed_rows_def)
  define h4 where "h4 = put h3 x ?N"
  have bx: "base x = nxt h2" "base e < nxt h2" "base iln < nxt h"
    using yieldsD(9) [OF ye] valid_base [OF ln(1)] by (simp_all add: x_def)
  have f4: "frame {} h2 h4"
    using bx by (simp add: h4_def frame_put' f3)
  note F4 = frame_emptyD [OF f4]
  have le: "nxt h \<le> nxt h1" "nxt h1 \<le> nxt h2" using F1(5) F2(5) .
  have run: "embed_frag T ids emb iln h = Some ((x, e), h4)"
  proof -
    have "t_long T ids h = Some (l, h1)"
      using ids by (simp add: long_law l_def h1_def)
    moreover have "t_embedding T l emb h1 = Some (e, h2)"
    proof -
      have "ids_in_range V h1 l 151936"
        using inr rl by (auto simp: ids_in_range_def l_def idx_ok_Cons_iff)
      then show ?thesis
        using embedding_law [of h1 l emb 151936 1024] whole_valid [OF w1(1)] F1(1) emb e by (simp add: l_def)
    qed
    moreover have "t_empty_like T e h2 = Some (x, h3)"
      using yieldsD(4,5) [OF ye] by (simp add: empty_like_law x_def h3_def)
    moreover have "t_contiguous T e h3 = Some (e, h3)"
      using yieldsD(2) [OF ye] by (simp add: contiguous_law whole_contiguous)
    moreover have "t_rms_norm T x e iln (1 / 1000000) h3 = Some h4"
      using rms_norm_law [of h3 x e iln] w3 F3 F2 F1 yieldsD(3,4,5) [OF ye] ln bx le mE
      by (simp add: x_def tv_def h4_def eps_def)
    ultimately show ?thesis
      by (simp add: embed_frag_def log_api_law get_data_attr_law)
  qed
  have w4: "whole h4 x" "tvals h4 x = ?N"
    using w3 lN by (simp_all add: h4_def whole_put tvals_put numel_def x_def)
  show thesis
    using that [OF run w4(1)] w4(2) F4 yieldsD [OF ye] mE f1 f4 bx le frame_empty_trans [OF frame_empty_trans [OF f1 yieldsD(6) [OF ye]] f4]
    by (simp add: x_def) (simp add: h4_def h3_def h1_def)
qed

lemma submod_0_ok:
  assumes n: "0 < n"
    and ids: "valid h ids" "dtype ids = Int32" "sizes ids = [n]" "ids_in_range V h ids 151936"
    and emb: "valid h emb" "sizes emb = [151936, 1024]" "dtype emb = BFloat16"
    and P: "layer_ok h lv P" and ps: "positions_ok V h n ps cache"
  defines "r \<equiv> embed_rows V n (tvals h ids) (tvals h emb)"
  obtains q k v out res h' where
    "submod_0 T ids n emb (input_layernorm_weight P) (qkv_proj_weight P) (qkv_proj_bias P) ps cache h =
       Some ((q, k, v, out, res), h')"
    "at_break (rope V) n h r (qkv_of V n lv r) (cos_sin_rows V n (tvals h ps) (tvals h cache)) res (q, k, v, out) h'"
    "ctx h' = ctx h"
proof -
  note p = P [unfolded layer_ok_def]
  obtain x e h1 where e: "embed_frag T ids emb (input_layernorm_weight P) h = Some ((x, e), h1)"
    "whole h1 x" "sizes x = [n, 1024]" "dtype x = BFloat16" "whole h1 e" "sizes e = [n, 1024]" "dtype e = BFloat16"
    "nxt h \<le> base e" and f1: "frame {} h h1" and e': "ctx h1 = ctx h" "tvals h1 e = r"
    "tvals h1 x = v_rms_norm V ([n, 1024], r) ([1024], ln1 lv) eps"
    by (rule embed_frag_ok [OF ids emb, of "input_layernorm_weight P"]) (use p in \<open>auto simp: r_def\<close>)
  note F1 = frame_emptyD [OF f1]
  note P1 = frame_layer_ok [OF f1 P, unfolded layer_ok_def]
  note ps1 = frame_positions_ok [OF f1 ps, unfolded positions_ok_def]
  have vps: "base ps < nxt h" "base cache < nxt h"
    using ps by (auto simp: positions_ok_def dest: valid_base)
  obtain q k v out h2 where q: "qkv_frag T x (qkv_proj_weight P) (qkv_proj_bias P) ps cache n h1 = Some ((q, k, v, out), h2)"
    "valid h2 q" "valid h2 k" "valid h2 v" "whole h2 out" "base out \<notin> {base q, base k, base v}"
    "sizes q = [n, 16, 64]" "sizes k = [n, 16, 64]" "sizes v = [n, 16, 64]" "sizes out = [n, 16, 64]"
    "dtype q = BFloat16" "dtype k = BFloat16" "dtype v = BFloat16" "dtype out = BFloat16" and f2: "frame {} h1 h2" and q': "ctx h2 = ctx h1" "nxt h1 \<le> base out"
    "tvals h2 q = rope V n (qkv_of V n lv r) (cos_sin_rows V n (tvals h ps) (tvals h cache)) 0"
    "tvals h2 k = rope V n (qkv_of V n lv r) (cos_sin_rows V n (tvals h ps) (tvals h cache)) 1024"
    "tvals h2 v = v_heads n (qkv_of V n lv r)"
    by (rule qkv_frag_ok [OF n whole_valid [OF e(2)] e(3,4), of "qkv_proj_weight P" "qkv_proj_bias P" ps cache])
       (use P1 ps1 e' vps F1(4) in \<open>auto simp: qkv_of_def\<close>)
  note F2 = frame_emptyD [OF f2]
  have "base e < nxt h1" by (rule whole_base [OF e(5)])
  then have "at_break (rope V) n h r (qkv_of V n lv r) (cos_sin_rows V n (tvals h ps) (tvals h cache)) e (q, k, v, out) h2"
    using q q' e e' f1 f2 F1 F2 by (auto simp: at_break_def intro: frame_empty_trans)
  then show thesis
    using that e(1) q(1) q'(1) e'(1) by (simp add: submod_0_split)
qed

lemma attention_ok:
  fixes name :: string
  assumes st: "at_break rp n h0 r y cs res (q, k, v, out) h"
  defines "a \<equiv> v_attn V name (ctx h) ([n, 16, 64], rp n y cs 0) ([n, 16, 64], rp n y cs 1024) ([n, 16, 64], v_heads n y)"
  obtains h' where "t_unified_attention_with_output T q k v out name h = Some h'"
    "frame {} h0 h'" "ctx h' = snd a" "whole h' out" "tvals h' out = fst a"
    "whole h' res" "tvals h' res = r"
proof -
  note s = st [unfolded at_break_def, simplified]
  let ?h = "(put h out (fst a))\<lparr>ctx := snd a\<rparr>"
  have tv: "tv h q = ([n, 16, 64], rp n y cs 0)" "tv h k = ([n, 16, 64], rp n y cs 1024)" "tv h v = ([n, 16, 64], v_heads n y)"
    using s by (simp_all add: tv_def)
  have len: "length (fst a) = n * 16 * 64"
    using attention_length [of "rp n y cs 0" "[n, 16, 64]" name] s length_tvals [of h q]
    by (simp add: a_def numel_def)
  have run: "t_unified_attention_with_output T q k v out name h = Some ?h"
    using attention_law [of h q k v out name] s tv by (simp add: a_def)
  have w: "whole ?h out" "whole ?h res"
    using s len by (auto simp: whole_def numel_def)
  show thesis
    by (rule that [OF run])
       (use s w len in \<open>auto simp: frame_def whole_tvals\<close>)
qed

lemma after_attention_ok:
  assumes h: "frame {} h0 h" "whole h out" "sizes out = [n, 16, 64]" "dtype out = BFloat16"
    and res: "whole h res" "sizes res = [n, 1024]" "dtype res = BFloat16" "base res \<noteq> base out" "nxt h0 \<le> base res"
    and w: "weights_ok h0 lv ow pln guw dw" and nw: "valid h0 nw" "sizes nw = [1024]" "dtype nw = BFloat16"
  defines "r \<equiv> after_attn V n lv (tvals h out) (tvals h res)"
  obtains x h' where "submod_48 T out n ow pln res guw dw nw h = Some (x, h')"
    "whole h' x" "sizes x = [n, 1024]" "dtype x = BFloat16" "nxt h \<le> base x"
    "frame {} h0 h'" "ctx h' = ctx h" "whole h' res" "tvals h' res = r"
    "tvals h' x = v_rms_norm V ([n, 1024], r) ([1024], tvals h0 nw) eps"
proof -
  note F = frame_emptyD [OF h(1)]
  have w': "weights_ok h lv ow pln guw dw"
    using w by (simp add: weights_ok_def F valid_base)
  have nw': "valid h nw" "tvals h nw = tvals h0 nw"
    using nw by (simp_all add: F valid_base)
  have dist: "base res \<notin> {base ow, base pln, base guw, base dw, base nw}"
    using w nw res(5) by (auto simp: weights_ok_def dest!: valid_base)
  obtain x h' where x: "submod_48 T out n ow pln res guw dw nw h = Some (x, h')"
    "whole h' x" "sizes x = [n, 1024]" "dtype x = BFloat16" "nxt h \<le> base x"
    and fr: "frame {base res} h h'" and x': "ctx h' = ctx h" "whole h' res" "tvals h' res = r"
    "tvals h' x = v_rms_norm V ([n, 1024], r) ([1024], tvals h nw) eps"
    unfolding r_def by (rule submod_48_ok [OF h(2-4) res(1-4) w' nw'(1) nw(2,3) dist]) blast
  have "frame {} h0 h'" using frame_drop [OF fr h(1)] res(5) by simp
  with x x' nw'(2) show thesis by (intro that) simp_all
qed

lemma submod_2_ok:
  assumes n: "0 < n" and h: "frame {} h0 h" "whole h out" "sizes out = [n, 16, 64]" "dtype out = BFloat16"
    and res: "whole h res" "sizes res = [n, 1024]" "dtype res = BFloat16" "base res \<noteq> base out" "nxt h0 \<le> base res"
    and P: "layer_ok h0 lv P" and P': "layer_ok h0 lv' P'" and ps: "positions_ok V h0 n ps cache"
  defines "r \<equiv> after_attn V n lv (tvals h out) (tvals h res)"
  obtains q k v out' h' where
    "submod_2 T out n (o_proj_weight P) (post_attention_layernorm_weight P) res (gate_up_proj_weight P)
       (down_proj_weight P) (input_layernorm_weight P') (qkv_proj_weight P') (qkv_proj_bias P') ps cache h =
       Some ((q, k, v, out'), h')"
    "at_break (rope V) n h0 r (qkv_of V n lv' r) (cos_sin_rows V n (tvals h0 ps) (tvals h0 cache)) res (q, k, v, out') h'"
    "ctx h' = ctx h"
proof -
  note p = P [unfolded layer_ok_def] and p' = P' [unfolded layer_ok_def]
  obtain x h1 where x: "submod_48 T out n (o_proj_weight P) (post_attention_layernorm_weight P) res
      (gate_up_proj_weight P) (down_proj_weight P) (input_layernorm_weight P') h = Some (x, h1)"
    "whole h1 x" "sizes x = [n, 1024]" "dtype x = BFloat16" "nxt h \<le> base x"
    and f1: "frame {} h0 h1" and x': "ctx h1 = ctx h" "whole h1 res" "tvals h1 res = r"
    "tvals h1 x = v_rms_norm V ([n, 1024], r) ([1024], ln1 lv') eps"
    by (rule after_attention_ok [OF h res, of lv "o_proj_weight P" "post_attention_layernorm_weight P"
          "gate_up_proj_weight P" "down_proj_weight P" "input_layernorm_weight P'"])
       (use p p' in \<open>auto simp: r_def\<close>)
  note F1 = frame_emptyD [OF f1]
  note P1 = frame_layer_ok [OF f1 P', unfolded layer_ok_def]
  note ps1 = frame_positions_ok [OF f1 ps, unfolded positions_ok_def]
  have vps: "base ps < nxt h0" "base cache < nxt h0"
    using ps by (auto simp: positions_ok_def dest: valid_base)
  obtain q k v out' h2 where q: "qkv_frag T x (qkv_proj_weight P') (qkv_proj_bias P') ps cache n h1 = Some ((q, k, v, out'), h2)"
    "valid h2 q" "valid h2 k" "valid h2 v" "whole h2 out'" "base out' \<notin> {base q, base k, base v}"
    "sizes q = [n, 16, 64]" "sizes k = [n, 16, 64]" "sizes v = [n, 16, 64]" "sizes out' = [n, 16, 64]"
    "dtype q = BFloat16" "dtype k = BFloat16" "dtype v = BFloat16" "dtype out' = BFloat16" and f2: "frame {} h1 h2" and q': "ctx h2 = ctx h1" "nxt h1 \<le> base out'"
    "tvals h2 q = rope V n (qkv_of V n lv' r) (cos_sin_rows V n (tvals h0 ps) (tvals h0 cache)) 0"
    "tvals h2 k = rope V n (qkv_of V n lv' r) (cos_sin_rows V n (tvals h0 ps) (tvals h0 cache)) 1024"
    "tvals h2 v = v_heads n (qkv_of V n lv' r)"
    by (rule qkv_frag_ok [OF n whole_valid [OF x(2)] x(3,4), of "qkv_proj_weight P'" "qkv_proj_bias P'" ps cache])
       (use P1 ps1 x' vps F1(4) in \<open>auto simp: qkv_of_def\<close>)
  note F2 = frame_emptyD [OF f2]
  have "base res < nxt h1" by (rule whole_base [OF x'(2)])
  then have "at_break (rope V) n h0 r (qkv_of V n lv' r) (cos_sin_rows V n (tvals h0 ps) (tvals h0 cache)) res (q, k, v, out') h2"
    using q q' x x' res f1 f2 F1 F2 by (auto simp: at_break_def intro: frame_empty_trans)
  then show thesis
    using that x(1) q(1) q'(1) x'(1) by (simp add: submod_2_split)
qed

end

end
