(* ===== verification/Inductor_Pieces.thy ===== *)
theory Inductor_Pieces
  imports Inductor Vllm_Decoder
begin

text \<open>
  The compiled pieces keep the same contract as the traced submodules. The laws of the
  locale \<open>inductor_api\<close> are the documented behaviour of the allocation, view and
  matrix-product functions the compiled code calls and of the one-dimensional launch grid;
  \<open>fused_rope\<close> is the rotary embedding with the rounding of the Triton kernel.
\<close>

definition transposed :: "nat \<Rightarrow> nat \<Rightarrow> 'a list \<Rightarrow> 'a list" where
  "transposed m k ws = tabulate [k, m] (\<lambda>ix. ws ! (ix ! 1 * k + ix ! 0))"

definition fused_rope :: "('a, 'f) scalars \<Rightarrow> nat \<Rightarrow> 'a list \<Rightarrow> 'a list \<Rightarrow> nat \<Rightarrow> 'a list" where
  "fused_rope F n qkv cs off = tabulate [n, 16, 64]
     (\<lambda>ix. rope_f32 F (\<lambda>j. qkv ! (off + ix ! 0 * 3072 + ix ! 1 * 64 + j))
                      (\<lambda>j. cs ! (ix ! 0 * 64 + j)) (ix ! 2))"

locale inductor_api = torch_api T V for T :: "('a, 'k) torch" and V :: "('a, 'k) kernels" +
  fixes E :: "('a, 'k) inductor" and F :: "('a, 'f) scalars"
  assumes assert_law: "sizes x = sz \<Longrightarrow> strides x = st \<Longrightarrow> e_assert_size_stride E x sz st = Some ()"
  and empty_strided_law:
    "st = cstride sz \<Longrightarrow>
     e_empty_strided_cuda E sz st dt h = Some (new_t h dt sz, alloc h (v_uninit V h (prod_list sz)))"
  and reinterpret_law:
    "e_reinterpret_tensor E x sz st d = Some (x\<lparr>sizes := sz, strides := st, offset := offset x + d\<rparr>)"
  and mm_law:
    "whole h out \<Longrightarrow> valid h a \<Longrightarrow> valid h b \<Longrightarrow> sizes a = [n, k] \<Longrightarrow> sizes b = [k, m] \<Longrightarrow> sizes out = [n, m] \<Longrightarrow>
     dtype a = dtype out \<Longrightarrow> dtype b = dtype out \<Longrightarrow> base out \<notin> {base a, base b} \<Longrightarrow>
     e_mm E a b out h = Some (put h out (mm_val E (tv h a) (tv h b)))"
  and mm_val_law:
    "length xs = n * k \<Longrightarrow> length ws = m * k \<Longrightarrow>
     mm_val E ([n, k], xs) ([k, m], transposed m k ws) = v_linear V ([n, k], xs) ([m, k], ws) None"
  and addmm_law:
    "whole h out \<Longrightarrow> valid h c \<Longrightarrow> valid h a \<Longrightarrow> valid h b \<Longrightarrow> sizes a = [n, k] \<Longrightarrow> sizes b = [k, m] \<Longrightarrow> sizes c = [m] \<Longrightarrow>
     sizes out = [n, m] \<Longrightarrow> dtype a = dtype out \<Longrightarrow> dtype b = dtype out \<Longrightarrow> dtype c = dtype out \<Longrightarrow>
     base out \<notin> {base a, base b, base c} \<Longrightarrow>
     e_addmm E c a b 1 1 out h = Some (put h out (addmm_val E (tv h c) (tv h a) (tv h b)))"
  and addmm_val_law:
    "length xs = n * k \<Longrightarrow> length ws = m * k \<Longrightarrow> length bs = m \<Longrightarrow>
     addmm_val E ([m], bs) ([n, k], xs) ([k, m], transposed m k ws) = v_linear V ([n, k], xs) ([m, k], ws) (Some ([m], bs))"
  and grid_law: "N < 2 ^ 30 \<Longrightarrow> schedule_ok N (fst (e_grid1d E N)) (snd (e_grid1d E N))"
  and as_int_law: "as_int F e = v_int V e"
  and narrow_widen: "down F (up F e) = e"

text \<open>A transposed view of a contiguous matrix.\<close>

definition tview :: "tensor \<Rightarrow> nat \<Rightarrow> nat \<Rightarrow> tensor" where
  "tview w m k = w\<lparr>sizes := [k, m], strides := [1, k], offset := offset w + 0\<rparr>"

lemma tview_simps [simp]:
  "sizes (tview w m k) = [k, m]" "dtype (tview w m k) = dtype w" "base (tview w m k) = base w"
  by (simp_all add: tview_def)

lemma tview_ok:
  assumes "valid h w" "contiguous w" "sizes w = [m, k]"
  shows "valid h (tview w m k)" "tvals h (tview w m k) = transposed m k (tvals h w)"
proof -
  have st: "strides w = [k, 1]" using assms by (simp add: contiguous_def)
  have p: "pos (tview w m k) [a, b] = pos w [b, a]" for a b
    using st by (simp add: pos_def tview_def)
  show "valid h (tview w m k)"
    using assms p by (auto simp: valid_def idx_ok2 st) (auto simp: tview_def)
  show "tvals h (tview w m k) = transposed m k (tvals h w)"
    unfolding transposed_def tvals_def [of h "tview w m k"]
  proof (simp, rule tabulate_cong)
    fix ix assume "idx_ok [k, m] ix"
    then obtain a b where ix: "ix = [a, b]" and ab: "a < k" "b < m" by (auto simp: idx_ok2)
    show "rd h (tview w m k) ix = tvals h w ! (ix ! Suc 0 * k + ix ! 0)"
      using rd_eq_nth_tvals [of w "[b, a]" h] assms(3) ab p by (simp add: ix rd_def)
  qed
qed

context inductor_api
begin

lemma reinterpret_transposed: "e_reinterpret_tensor E w [k, m] [1, k] 0 = Some (tview w m k)"
  by (simp add: reinterpret_law tview_def)

lemma mm_linear:
  assumes "whole h out" "valid h x" "valid h w" "contiguous w" "sizes x = [n, k]" "sizes w = [m, k]" "sizes out = [n, m]"
    "dtype x = dtype out" "dtype w = dtype out" "base out \<notin> {base x, base w}"
  shows "e_mm E x (tview w m k) out h = Some (put h out (v_linear V (tv h x) (tv h w) None))"
  using assms tview_ok [OF assms(3,4,6)] mm_law [of h out x "tview w m k" n k m]
    mm_val_law [of "tvals h x" n k "tvals h w" m] length_tvals [of h x] length_tvals [of h w]
  by (simp add: tv_def numel_def)

lemma addmm_linear:
  assumes "whole h out" "valid h x" "valid h w" "contiguous w" "valid h b" "sizes x = [n, k]" "sizes w = [m, k]"
    "sizes b = [m]" "sizes out = [n, m]" "dtype x = dtype out" "dtype w = dtype out" "dtype b = dtype out"
    "base out \<notin> {base x, base w, base b}"
  shows "e_addmm E b x (tview w m k) 1 1 out h = Some (put h out (v_linear V (tv h x) (tv h w) (Some (tv h b))))"
  using assms tview_ok [OF assms(3,4,7)] addmm_law [of h out b x "tview w m k" n k m]
    addmm_val_law [of "tvals h x" n k "tvals h w" m "tvals h b"]
    length_tvals [of h x] length_tvals [of h w] length_tvals [of h b]
  by (simp add: tv_def numel_def)

end

text \<open>The parts the compiled pieces share.\<close>

definition check_mid ::
  "('a, 'k) inductor \<Rightarrow> tensor \<Rightarrow> nat \<Rightarrow> tensor \<Rightarrow> tensor \<Rightarrow> tensor \<Rightarrow> tensor \<Rightarrow> tensor \<Rightarrow> tensor \<Rightarrow> unit option" where
  "check_mid E out s0 ow pln res guw dw nw = do {
     e_assert_size_stride E out [s0, 16, 64] [1024, 64, 1];
     e_assert_size_stride E ow [1024, 1024] [1024, 1];
     e_assert_size_stride E pln [1024] [1];
     e_assert_size_stride E res [s0, 1024] [1024, 1];
     e_assert_size_stride E guw [5632, 1024] [1024, 1];
     e_assert_size_stride E dw [1024, 2816] [2816, 1];
     e_assert_size_stride E nw [1024] [1]}"

definition mid_piece ::
  "('a, 'k) inductor \<Rightarrow> ('a, 'k) torch \<Rightarrow> tensor \<Rightarrow> nat \<Rightarrow> tensor \<Rightarrow> tensor \<Rightarrow> tensor \<Rightarrow> tensor \<Rightarrow> tensor \<Rightarrow> tensor \<Rightarrow>
   ('a, 'k) store \<Rightarrow> (tensor \<times> ('a, 'k) store) option" where
  "mid_piece E T out s0 ow pln res guw dw nw h = do {
     (buf0, h) \<leftarrow> e_empty_strided_cuda E [s0, 1024] [1024, 1] BFloat16 h;
     r0 \<leftarrow> e_reinterpret_tensor E out [s0, 1024] [1024, 1] 0;
     r1 \<leftarrow> e_reinterpret_tensor E ow [1024, 1024] [1, 1024] 0;
     h \<leftarrow> e_mm E r0 r1 buf0 h;
     h \<leftarrow> t_fused_add_rms_norm T buf0 res pln (1 / 1000000) h;
     (buf4, h) \<leftarrow> e_empty_strided_cuda E [s0, 2816] [2816, 1] BFloat16 h;
     (buf5, h) \<leftarrow> e_empty_strided_cuda E [s0, 5632] [5632, 1] BFloat16 h;
     r2 \<leftarrow> e_reinterpret_tensor E guw [1024, 5632] [1, 1024] 0;
     h \<leftarrow> e_mm E buf0 r2 buf5 h;
     h \<leftarrow> t_silu_and_mul T buf4 buf5 h;
     r3 \<leftarrow> e_reinterpret_tensor E dw [2816, 1024] [1, 2816] 0;
     h \<leftarrow> e_mm E buf4 r3 buf0 h;
     h \<leftarrow> t_fused_add_rms_norm T buf0 res nw (1 / 1000000) h;
     Some (buf0, h)}"

definition qkv_piece ::
  "('a, 'k) inductor \<Rightarrow> ('a, 'f) scalars \<Rightarrow> tensor \<Rightarrow> tensor \<Rightarrow> tensor \<Rightarrow> tensor \<Rightarrow> tensor \<Rightarrow> nat \<Rightarrow> ('a, 'k) store \<Rightarrow>
   ((tensor \<times> tensor \<times> tensor \<times> tensor) \<times> ('a, 'k) store) option" where
  "qkv_piece E F x w b ps cache s0 h = do {
     (buf12, h) \<leftarrow> e_empty_strided_cuda E [s0, 3072] [3072, 1] BFloat16 h;
     r4 \<leftarrow> e_reinterpret_tensor E w [1024, 3072] [1, 1024] 0;
     h \<leftarrow> e_addmm E b x r4 1 1 buf12 h;
     buf13 \<leftarrow> e_reinterpret_tensor E x [s0, 16, 64] [1024, 64, 1] 0;
     (buf15, h) \<leftarrow> e_empty_strided_cuda E [s0, 16, 64] [1024, 64, 1] BFloat16 h;
     h \<leftarrow> run_cat_0 E F buf12 ps cache buf13 buf15 (1024 * s0) h;
     (buf14, h) \<leftarrow> e_empty_strided_cuda E [s0, 1024] [1024, 1] BFloat16 h;
     r5 \<leftarrow> e_reinterpret_tensor E buf12 [s0, 16, 64] [3072, 64, 1] 2048;
     r6 \<leftarrow> e_reinterpret_tensor E buf14 [s0, 16, 64] [1024, 64, 1] 0;
     Some ((buf13, buf15, r5, r6), h)}"

definition embed_piece ::
  "('a, 'k) inductor \<Rightarrow> ('a, 'k) torch \<Rightarrow> ('a, 'f) scalars \<Rightarrow> tensor \<Rightarrow> tensor \<Rightarrow> tensor \<Rightarrow> nat \<Rightarrow> ('a, 'k) store \<Rightarrow>
   ((tensor \<times> tensor) \<times> ('a, 'k) store) option" where
  "embed_piece E T F ids emb iln s0 h = do {
     (buf0, h) \<leftarrow> e_empty_strided_cuda E [s0, 1024] [1024, 1] BFloat16 h;
     (buf1, h) \<leftarrow> e_empty_strided_cuda E [s0, 1024] [1024, 1] BFloat16 h;
     h \<leftarrow> run_embedding_0 E F ids emb buf1 (1024 * s0) h;
     h \<leftarrow> t_rms_norm T buf0 buf1 iln (1 / 1000000) h;
     Some ((buf0, buf1), h)}"

lemma call_ul_split:
  "call_ul E T out s0 ow pln res guw dw nw h = do {
     check_mid E out s0 ow pln res guw dw nw;
     (x, h) \<leftarrow> mid_piece E T out s0 ow pln res guw dw nw h;
     Some ([x], h)}"
  unfolding call_ul_def check_mid_def mid_piece_def
  by (simp add: Let_def cong: option.case_cong)

lemma call_df_split:
  "call_df E T F out s0 ow pln res guw dw iln qw qb ps cache h = do {
     check_mid E out s0 ow pln res guw dw iln;
     e_assert_size_stride E qw [3072, 1024] [1024, 1];
     e_assert_size_stride E qb [3072] [1];
     e_assert_size_stride E ps [s0] [1];
     e_assert_size_stride E cache [32768, 64] [64, 1];
     (x, h) \<leftarrow> mid_piece E T out s0 ow pln res guw dw iln h;
     qkv_piece E F x qw qb ps cache s0 h}"
  unfolding call_df_def check_mid_def mid_piece_def qkv_piece_def
  by (simp add: Let_def cong: option.case_cong)

lemma run_cat_1_eq_0: "run_cat_1 = run_cat_0"
  unfolding run_cat_1_def run_cat_0_def cat_1_eq_0 by (rule refl)

lemma call_sy_split:
  "call_sy E T F ids s0 emb iln qw qb ps cache h = do {
     e_assert_size_stride E ids [s0] [1];
     e_assert_size_stride E emb [151936, 1024] [1024, 1];
     e_assert_size_stride E iln [1024] [1];
     e_assert_size_stride E qw [3072, 1024] [1024, 1];
     e_assert_size_stride E qb [3072] [1];
     e_assert_size_stride E ps [s0] [1];
     e_assert_size_stride E cache [32768, 64] [64, 1];
     ((x, e), h) \<leftarrow> embed_piece E T F ids emb iln s0 h;
     ((q, k, v, out), h) \<leftarrow> qkv_piece E F x qw qb ps cache s0 h;
     Some ((q, k, v, out, e), h)}"
  unfolding call_sy_def embed_piece_def qkv_piece_def run_cat_1_eq_0
  by (simp add: Let_def cong: option.case_cong)

text \<open>What the kernels see of a contiguous tensor, and what they compute from it.\<close>

lemma ptr_contiguous:
  assumes "valid h x" "contiguous x"
  shows "numel x \<le> length (ptr h x)" "i < numel x \<Longrightarrow> ptr h x ! i = tvals h x ! i"
proof -
  have st: "strides x = cstride (sizes x)" using assms(2) by (simp add: contiguous_def)
  have p: "pos x (unflat (sizes x) i) = offset x + i" if "i < numel x" for i
    using that by (simp add: pos_def st flat_unflat numel_def)
  have l: "offset x + i < length (mem h (base x))" if "i < numel x" for i
    using assms(1) p [OF that] idx_ok_unflat [of i "sizes x"] that by (force simp: valid_def numel_def)
  show "numel x \<le> length (ptr h x)"
    using l [of "numel x - 1"] by (cases "numel x") (simp_all add: ptr_def)
  show "ptr h x ! i = tvals h x ! i" if "i < numel x"
    using that l [OF that] p [OF that] by (simp add: ptr_def tvals_def nth_tabulate rd_def numel_def)
qed

lemma poke_whole: "whole h x \<Longrightarrow> poke h x vs = put h x vs"
  by (simp add: poke_def put_def whole_def)

lemma ptr_whole: "whole h x \<Longrightarrow> ptr h x = mem h (base x)"
  by (simp add: ptr_def whole_def)

lemma rope_f32_cong:
  assumes "d < 64" "\<And>l. l < 64 \<Longrightarrow> x l = x' l" "\<And>l. l < 64 \<Longrightarrow> c l = c' l"
  shows "rope_f32 F x c d = rope_f32 F x' c' d"
  using assms by (simp add: rope_f32_def)

lemma unflat_heads:
  "unflat [n, 16, 64] i = [i div 1024, i div 64 mod 16, i mod 64]"
  using mod_mult2_eq [of i 64 16] by (simp add: mod_mod_cancel)

lemma rope_out_rows:
  assumes as: "\<And>e. as_int F e = v_int V e" and off: "off + 1024 \<le> 3072"
    and q: "\<And>j. j < 3072 * n \<Longrightarrow> qkv ! j = Y ! j" and p: "\<And>t. t < n \<Longrightarrow> ps ! t = pv ! t"
    and c: "\<And>j. j < 32768 * 64 \<Longrightarrow> cc ! j = cv ! j"
    and r: "\<And>t. t < n \<Longrightarrow> 0 \<le> v_int V (pv ! t) \<and> v_int V (pv ! t) < 32768"
  shows "map (rope_out F qkv ps cc off) [0..<1024 * n] = fused_rope F n Y (cos_sin_rows V n pv cv) off"
proof -
  have "map (rope_out F qkv ps cc off) [0..<prod_list [n, 16, 64]] = fused_rope F n Y (cos_sin_rows V n pv cv) off"
    unfolding fused_rope_def
  proof (rule map_nth_as_tabulate)
    fix i assume "i < prod_list [n, 16, 64]"
    then have t: "i div 1024 < n" by (simp add: less_mult_imp_div_less)
    let ?t = "i div 1024" and ?h = "i div 64 mod 16"
    have h: "?h < 16" by simp
    have w: "nat (wrap_index 32768 (as_int F (ps ! ?t))) = nat (v_int V (pv ! ?t))"
      using r [OF t] p [OF t] as by (simp add: wrap_index_def)
    have y: "qkv ! (off + ?t * 3072 + ?h * 64 + l) = Y ! (off + ?t * 3072 + ?h * 64 + l)" if "l < 64" for l
      using q [of "off + ?t * 3072 + ?h * 64 + l"] off t h that by simp
    have x: "cc ! (nat (v_int V (pv ! ?t)) * 64 + l) = cos_sin_rows V n pv cv ! (?t * 64 + l)" if "l < 64" for l
    proof -
      have "nat (v_int V (pv ! ?t)) * 64 + l < 32768 * 64"
        using r [OF t] that by (simp add: nat_less_iff) linarith
      then show ?thesis
        using nth_tabulate_flat [of "[n, 64]" "[?t, l]" "\<lambda>ix. cv ! (nat (v_int V (pv ! (ix ! 0))) * 64 + ix ! 1)"] c t that by (simp add: cos_sin_rows_def)
    qed
    show "rope_out F qkv ps cc off i = rope_f32 F (\<lambda>j. Y ! (off + unflat [n, 16, 64] i ! 0 * 3072 + unflat [n, 16, 64] i ! 1 * 64 + j))
        (\<lambda>j. cos_sin_rows V n pv cv ! (unflat [n, 16, 64] i ! 0 * 64 + j)) (unflat [n, 16, 64] i ! 2)"
      unfolding rope_out_def Let_def unflat_heads w
      by (simp, rule rope_f32_cong) (simp_all add: x y)
  qed
  then show ?thesis by (simp add: mult.commute)
qed

lemma embed_out_rows:
  assumes as: "\<And>e. as_int F e = v_int V e" and nw: "\<And>e. down F (up F e) = e"
    and p: "\<And>t. t < n \<Longrightarrow> ids ! t = iv ! t" and c: "\<And>j. j < 151936 * 1024 \<Longrightarrow> emb ! j = ev ! j"
    and r: "\<And>t. t < n \<Longrightarrow> 0 \<le> v_int V (iv ! t) \<and> v_int V (iv ! t) < 151936"
  shows "map (embed_out F ids emb) [0..<1024 * n] = embed_rows V n iv ev"
proof -
  have "map (embed_out F ids emb) [0..<prod_list [n, 1024]] = embed_rows V n iv ev"
    unfolding embed_rows_def
  proof (rule map_nth_as_tabulate)
    fix i assume "i < prod_list [n, 1024]"
    then have t: "i div 1024 < n" by (simp add: less_mult_imp_div_less)
    have "nat (v_int V (iv ! (i div 1024))) * 1024 + i mod 1024 < 151936 * 1024"
      using r [OF t] by (simp add: nat_less_iff) linarith
    then show "embed_out F ids emb i =
        ev ! (nat (v_int V (iv ! (unflat [n, 1024] i ! 0))) * 1024 + unflat [n, 1024] i ! 1)"
      using c [of "nat (v_int V (iv ! (i div 1024))) * 1024 + i mod 1024"] r [OF t] p [OF t]
      by (simp add: embed_out_def nw as wrap_index_def)
  qed
  then show ?thesis by (simp add: mult.commute)
qed

context inductor_api
begin

lemma reinterpret_shape: "st = cstride sz \<Longrightarrow> e_reinterpret_tensor E x sz st 0 = Some (with_shape x sz)"
  by (simp add: reinterpret_law with_shape_def)

lemma mid_piece_ok:
  assumes out: "whole h out" "sizes out = [n, 16, 64]" "dtype out = BFloat16"
    and res: "whole h res" "sizes res = [n, 1024]" "dtype res = BFloat16" "base res \<noteq> base out"
    and w: "weights_ok h lv ow pln guw dw" and nw: "valid h nw" "sizes nw = [1024]" "dtype nw = BFloat16"
    and dist: "base res \<notin> {base ow, base pln, base guw, base dw, base nw}"
    and dense: "contiguous ow" "contiguous guw" "contiguous dw"
  obtains x h' where "mid_piece E T out n ow pln res guw dw nw h = Some (x, h')"
    "whole h' x" "sizes x = [n, 1024]" "dtype x = BFloat16" "nxt h \<le> base x"
    "frame {base res} h h'" "ctx h' = ctx h" "whole h' res"
    "tvals h' res = after_attn V n lv (tvals h out) (tvals h res)"
    "tvals h' x = v_rms_norm V ([n, 1024], after_attn V n lv (tvals h out) (tvals h res))
                    ([1024], tvals h nw) eps"
proof -
  note w = w [unfolded weights_ok_def] and lt = whole_base [OF res(1)] whole_base [OF out(1)]
  let ?L = "v_linear V ([n, 1024], tvals h out) ([1024, 1024], o_w lv) None"
  define r1 where "r1 = map2 (v_add V) ?L (tvals h res)"
  define N1 where "N1 = v_rms_norm V ([n, 1024], r1) ([1024], ln2 lv) eps"
  define G where "G = v_linear V ([n, 1024], N1) ([5632, 1024], gate_up_w lv) None"
  define S where "S = v_silu_and_mul V ([n, 5632], G)"
  define M where "M = v_linear V ([n, 2816], S) ([1024, 2816], down_w lv) None"
  define r2 where "r2 = map2 (v_add V) M r1"
  define N2 where "N2 = v_rms_norm V ([n, 1024], r2) ([1024], tvals h nw) eps"
  have lw: "length (o_w lv) = 1024 * 1024" "length (gate_up_w lv) = 5632 * 1024" "length (down_w lv) = 1024 * 2816"
    using w length_tvals [of h ow] length_tvals [of h guw] length_tvals [of h dw] by (auto simp: numel_def)
  have len: "length ?L = n * 1024" "length r1 = n * 1024" "length N1 = n * 1024" "length G = n * 5632"
      "length S = n * 2816" "length M = n * 1024" "length r2 = n * 1024" "length N2 = n * 1024"
    using out(2) res(2) lw silu_and_mul_length [of _ n 2816]
    by (simp_all add: r1_def N1_def G_def S_def M_def r2_def N2_def numel_def)
  define b0 where "b0 = new_t h BFloat16 [n, 1024]"
  define h1 where "h1 = alloc h (v_uninit V h (n * 1024))"
  define h2 where "h2 = put h1 b0 ?L"
  define h3 where "h3 = put (put h2 res r1) b0 N1"
  define b4 where "b4 = new_t h3 BFloat16 [n, 2816]"
  define h4 where "h4 = alloc h3 (v_uninit V h3 (n * 2816))"
  define b5 where "b5 = new_t h4 BFloat16 [n, 5632]"
  define h5 where "h5 = alloc h4 (v_uninit V h4 (n * 5632))"
  define h6 where "h6 = put h5 b5 G"
  define h7 where "h7 = put h6 b4 S"
  define h8 where "h8 = put h7 b0 M"
  define h9 where "h9 = put (put h8 res r2) b0 N2"
  note hs = h1_def h2_def h3_def h4_def h5_def h6_def h7_def h8_def h9_def and ts = b0_def b4_def b5_def
  have nx: "nxt h1 = nxt h + 1" "nxt h2 = nxt h + 1" "nxt h3 = nxt h + 1" "nxt h4 = nxt h + 2"
      "nxt h5 = nxt h + 3" "nxt h6 = nxt h + 3" "nxt h7 = nxt h + 3" "nxt h8 = nxt h + 3" "nxt h9 = nxt h + 3"
    by (simp_all add: hs)
  have bs: "base b0 = nxt h" "base b4 = nxt h + 1" "base b5 = nxt h + 2"
    by (simp_all add: ts nx)
  have fr: "frame {base res} h h1" "frame {base res} h h2" "frame {base res} h h3" "frame {base res} h h4"
      "frame {base res} h h5" "frame {base res} h h6" "frame {base res} h h7" "frame {base res} h h8" "frame {base res} h h9"
    by (simp_all add: hs bs frame_alloc' frame_put')
  have wh: "whole h1 b0" "whole h2 b0" "whole h2 res" "whole h3 b0" "whole h5 b0" "whole h5 b5" "whole h6 b4" "whole h6 b5"
      "whole h7 b4" "whole h7 b0" "whole h8 b0" "whole h8 res" "whole h9 b0" "whole h9 res"
    using lt res len nx
    by (simp_all add: whole_def hs ts contiguous_def numel_def)
  have mm: "tvals h2 b0 = ?L" "tvals h2 res = tvals h res" "tvals h5 b0 = N1" "tvals h6 b5 = G"
      "tvals h7 b4 = S" "tvals h8 b0 = M" "tvals h8 res = r1" "tvals h9 res = r2" "tvals h9 b0 = N2"
    using wh lt bs nx res(4) whole_tvals [OF res(1)] by (simp_all add: whole_tvals hs)
  have vw: "valid h' ow" "valid h' pln" "valid h' guw" "valid h' dw" "valid h' nw" "tvals h' ow = o_w lv" "tvals h' pln = ln2 lv"
      "tvals h' guw = gate_up_w lv" "tvals h' dw = down_w lv" "tvals h' nw = tvals h nw"
      if "frame {base res} h h'" for h'
    using w nw dist frame_valid [OF that] frame_tvals [OF that] by (auto simp: valid_base)
  have szs: "sizes b0 = [n, 1024]" "sizes b4 = [n, 2816]" "sizes b5 = [n, 5632]"
      "dtype b0 = BFloat16" "dtype b4 = BFloat16" "dtype b5 = BFloat16"
    by (simp_all add: ts)
  have lw': "base ow < nxt h" "base pln < nxt h" "base guw < nxt h" "base dw < nxt h" "base nw < nxt h"
    using w nw by (auto dest: valid_base)
  have ds: "base b0 \<noteq> base res" "base pln \<notin> {base b0, base res}" "base nw \<notin> {base b0, base res}"
    using lt dist bs lw' by auto
  have o1: "whole h1 out" "tvals h1 out = tvals h out"
    using out(1) lt(2) by (simp_all add: h1_def whole_alloc whole_tvals [OF out(1)] whole_tvals [OF whole_alloc [OF out(1)]])
  have "e_mm E (with_shape out [n, 1024]) (tview ow 1024 1024) b0 h1 = Some h2"
    using mm_linear [of h1 b0 "with_shape out [n, 1024]" ow n 1024 1024] w vw [OF fr(1)] out wh(1) o1 szs dense lw' bs lt
      whole_with_shape [OF o1(1), of "[n, 1024]"] tvals_with_shape [OF o1(1), of "[n, 1024]"]
    by (simp add: numel_def whole_valid tv_def h2_def)
  moreover have "t_fused_add_rms_norm T b0 res pln (1 / 1000000) h2 = Some h3"
    using fused_add_rms_norm_law [of h2 b0 res pln] w wh(2,3) mm(1,2) vw [OF fr(2)] res(2,3) ds szs
    by (simp add: tv_def h3_def r1_def N1_def eps_def Let_def)
  moreover have "e_mm E b0 (tview guw 5632 1024) b5 h5 = Some h6"
    using mm_linear [of h5 b5 b0 guw n 1024 5632] w vw [OF fr(5)] wh(5,6) szs dense lw' bs mm(3)
    by (simp add: whole_valid tv_def h6_def G_def)
  moreover have "t_silu_and_mul T b4 b5 h6 = Some h7"
    using silu_and_mul_law [of h6 b4 b5 n 2816] wh(7) whole_valid [OF wh(8)] mm(4) bs szs
    by (simp add: tv_def h7_def S_def)
  moreover have "e_mm E b4 (tview dw 1024 2816) b0 h7 = Some h8"
    using mm_linear [of h7 b0 b4 dw n 2816 1024] w vw [OF fr(7)] wh(9,10) szs dense lw' bs mm(5)
    by (simp add: whole_valid tv_def h8_def M_def)
  moreover have "t_fused_add_rms_norm T b0 res nw (1 / 1000000) h8 = Some h9"
    using fused_add_rms_norm_law [of h8 b0 res nw] nw wh(11,12) mm(6,7) vw [OF fr(8)] res(2,3) ds szs
    by (simp add: tv_def h9_def r2_def N2_def eps_def Let_def)
  ultimately have run: "mid_piece E T out n ow pln res guw dw nw h = Some (b0, h9)"
    by (simp add: mid_piece_def empty_strided_law reinterpret_shape reinterpret_transposed [simplified]
        b0_def [symmetric] h1_def [symmetric] b4_def [symmetric] h4_def [symmetric] b5_def [symmetric] h5_def [symmetric])
  have "r2 = after_attn V n lv (tvals h out) (tvals h res)"
    by (simp add: after_attn_def mid_residual_def mlp_def Let_def r2_def M_def S_def G_def N1_def r1_def)
  with run show thesis
    using that [OF run] wh mm fr(9) bs szs by (simp add: N2_def) (simp add: hs)
qed

lemma run_cat_0_ok:
  assumes n: "n \<le> 699051" and y: "whole h y" "sizes y = [n, 3072]"
    and ps: "positions_ok V h n ps cache" "contiguous ps" "contiguous cache"
    and o: "whole h q" "numel q = 1024 * n" "whole h k" "numel k = 1024 * n"
  defines "CS \<equiv> cos_sin_rows V n (tvals h ps) (tvals h cache)"
  shows "run_cat_0 E F y ps cache q k (1024 * n) h =
    Some (put (put h q (fused_rope F n (tvals h y) CS 0)) k (fused_rope F n (tvals h y) CS 1024))"
proof -
  note p = ps(1) [unfolded positions_ok_def]
  have vps: "valid h ps" "valid h cache" "sizes ps = [n]" "sizes cache = [32768, 64]" using p by auto
  note pp = ptr_contiguous [OF vps(1) ps(2)] and pc = ptr_contiguous [OF vps(2) ps(3)]
  have r: "0 \<le> v_int V (tvals h ps ! t) \<and> v_int V (tvals h ps ! t) < 32768" if "t < n" for t
    using p that rd_eq_nth_tvals [of ps "[t]" h] by (auto simp: ids_in_range_def dest!: spec [of _ "[t]"])
  have r': "- 32768 \<le> v_int V (tvals h ps ! t)" if "t < n" for t
    using r [OF that] by simp
  obtain X ths where g: "e_grid1d E (1024 * n) = (X, ths)" by fastforce
  have sch: "schedule_ok (1024 * n) X ths"
    using grid_law [of "1024 * n"] n g by simp
  have "cat_ok F (ptr h y) (ptr h ps) (ptr h cache) n (ptr h q, ptr h k)"
    using n y vps pp pc o r r' by (simp add: cat_ok_def ptr_whole whole_def numel_def as_int_law)
  note run = cat_launch [OF this sch]
  have rows: "map (rope_out F (ptr h y) (ptr h ps) (ptr h cache) d) [0..<1024 * n] = fused_rope F n (tvals h y) CS d"
    if "d + 1024 \<le> 3072" for d
    unfolding CS_def
    by (rule rope_out_rows [OF as_int_law that])
       (use y vps pp pc r in \<open>simp_all add: ptr_whole whole_tvals numel_def\<close>)
  have "whole (put h q (fused_rope F n (tvals h y) CS 0)) k"
    using o by (auto simp: whole_def fused_rope_def)
  then show ?thesis
    using run rows [of 0] rows [of 1024] o by (simp add: run_cat_0_def g poke_whole)
qed

lemma run_embedding_0_ok:
  assumes n: "n \<le> 699051" and ids: "valid h ids" "contiguous ids" "sizes ids = [n]" "ids_in_range V h ids 151936"
    and emb: "valid h emb" "contiguous emb" "sizes emb = [151936, 1024]"
    and o: "whole h x" "numel x = 1024 * n"
  shows "run_embedding_0 E F ids emb x (1024 * n) h = Some (put h x (embed_rows V n (tvals h ids) (tvals h emb)))"
proof -
  note pp = ptr_contiguous [OF ids(1,2)] and pc = ptr_contiguous [OF emb(1,2)]
  have r: "0 \<le> v_int V (tvals h ids ! t) \<and> v_int V (tvals h ids ! t) < 151936" if "t < n" for t
    using ids that rd_eq_nth_tvals [of ids "[t]" h] by (auto simp: ids_in_range_def dest!: spec [of _ "[t]"])
  have r': "- 151936 \<le> v_int V (tvals h ids ! t)" if "t < n" for t
    using r [OF that] by simp
  obtain X ths where g: "e_grid1d E (1024 * n) = (X, ths)" by fastforce
  have sch: "schedule_ok (1024 * n) X ths"
    using grid_law [of "1024 * n"] n g by simp
  have "emb_ok F (ptr h ids) (ptr h emb) n (ptr h x)"
    using n ids emb pp pc o r r' by (simp add: emb_ok_def ptr_whole whole_def numel_def as_int_law)
  note run = emb_launch [OF this sch]
  have "map (embed_out F (ptr h ids) (ptr h emb)) [0..<1024 * n] = embed_rows V n (tvals h ids) (tvals h emb)"
    by (rule embed_out_rows [OF as_int_law narrow_widen])
       (use ids emb pp pc r in \<open>simp_all add: numel_def\<close>)
  with run o show ?thesis by (simp add: run_embedding_0_def g poke_whole)
qed

lemma qkv_piece_ok:
  assumes n: "n \<le> 699051" and x: "whole h x" "sizes x = [n, 1024]" "dtype x = BFloat16"
    and w: "valid h w" "contiguous w" "sizes w = [3072, 1024]" "dtype w = BFloat16"
    and b: "valid h b" "sizes b = [3072]" "dtype b = BFloat16"
    and ps: "positions_ok V h n ps cache" "contiguous ps" "contiguous cache" "base x \<notin> {base ps, base cache}"
  defines "Y \<equiv> v_linear V ([n, 1024], tvals h x) ([3072, 1024], tvals h w) (Some ([3072], tvals h b))"
    and "CS \<equiv> cos_sin_rows V n (tvals h ps) (tvals h cache)"
  obtains q k v out h' where "qkv_piece E F x w b ps cache n h = Some ((q, k, v, out), h')"
    "valid h' q" "valid h' k" "valid h' v" "whole h' out" "base out \<notin> {base q, base k, base v}"
    "sizes q = [n, 16, 64]" "sizes k = [n, 16, 64]" "sizes v = [n, 16, 64]" "sizes out = [n, 16, 64]"
    "dtype q = BFloat16" "dtype k = BFloat16" "dtype v = BFloat16"
    "dtype out = BFloat16" "frame {base x} h h'" "ctx h' = ctx h" "nxt h \<le> base out"
    "tvals h' q = fused_rope F n Y CS 0" "tvals h' k = fused_rope F n Y CS 1024" "tvals h' v = v_heads n Y"
proof -
  have bx: "base x < nxt h" "base w < nxt h" "base b < nxt h" "base ps < nxt h" "base cache < nxt h"
    using x w b ps(1) by (auto simp: positions_ok_def dest: whole_base valid_base)
  have lY: "length Y = n * 3072"
    using x w length_tvals [of h x] length_tvals [of h w] by (simp add: Y_def numel_def)
  define y where "y = new_t h BFloat16 [n, 3072]"
  define h1 where "h1 = alloc h (v_uninit V h (n * 3072))"
  define h2 where "h2 = put h1 y Y"
  define k where "k = new_t h2 BFloat16 [n, 16, 64]"
  define h3 where "h3 = alloc h2 (v_uninit V h2 (n * 1024))"
  let ?q = "with_shape x [n, 16, 64]"
  define h4 where "h4 = put (put h3 ?q (fused_rope F n Y CS 0)) k (fused_rope F n Y CS 1024)"
  define e where "e = new_t h4 BFloat16 [n, 1024]"
  define h5 where "h5 = alloc h4 (v_uninit V h4 (n * 1024))"
  define v where "v = y\<lparr>sizes := [n, 16, 64], strides := [3072, 64, 1], offset := offset y + 2048\<rparr>"
  note hs = h1_def h2_def h3_def h4_def h5_def and ts = y_def k_def e_def
  have nx: "nxt h1 = nxt h + 1" "nxt h2 = nxt h + 1" "nxt h3 = nxt h + 2" "nxt h4 = nxt h + 2" "nxt h5 = nxt h + 3"
    by (simp_all add: hs)
  have bs: "base y = nxt h" "base k = nxt h + 1" "base e = nxt h + 2"
    by (simp_all add: ts nx)
  have f2: "frame {} h h1" "frame {} h h3" and f5: "frame {base x} h h5"
    by (simp_all add: hs bs frame_alloc' frame_put')
  have lr: "length (fused_rope F n Y CS d) = n * 1024" for d
    by (simp add: fused_rope_def)
  have lx: "length (mem h (base x)) = n * 1024" "offset x = 0" "contiguous x"
    using x by (auto simp: whole_def numel_def)
  have wq: "whole h3 ?q" "whole h5 ?q"
    using bx lx lr bs nx by (auto simp: whole_def hs numel_def with_shape_def contiguous_def)
  have wh: "whole h1 y" "whole h3 y" "whole h3 k" "whole h5 k" "whole h5 e" "whole h5 y"
    using lY lr bx bs nx by (auto simp: whole_def hs ts contiguous_def numel_def)
  have m: "mem h3 (base y) = Y" "mem h5 (base y) = Y" "mem h5 (base x) = fused_rope F n Y CS 0"
      "mem h5 (base k) = fused_rope F n Y CS 1024"
    using bx bs nx by (simp_all add: hs)
  note F1 = frame_emptyD [OF f2(1)]
  note ps3 = frame_positions_ok [OF f2(2) ps(1)]
  have "e_addmm E b x (tview w 3072 1024) 1 1 y h1 = Some h2"
    using addmm_linear [of h1 y x w b n 1024 3072] F1(1) [OF whole_valid [OF x(1)]] F1 x w b wh(1) bx bs
    by (simp add: tv_def h2_def Y_def) (simp add: y_def)
  moreover have "run_cat_0 E F y ps cache ?q k (1024 * n) h3 = Some h4"
  proof -
    have "tvals h3 ps = tvals h ps" "tvals h3 cache = tvals h cache" "tvals h3 y = Y"
      using frame_emptyD(4) [OF f2(2)] bx whole_tvals [OF wh(2)] m by auto
    then show ?thesis
      using run_cat_0_ok [OF n wh(2) _ ps3 ps(2,3) wq(1) _ wh(3)]
      by (simp add: numel_def h4_def CS_def) (simp add: ts)
  qed
  ultimately have run: "qkv_piece E F x w b ps cache n h = Some ((?q, k, v, with_shape e [n, 16, 64]), h5)"
    by (simp add: qkv_piece_def empty_strided_law reinterpret_shape reinterpret_transposed [simplified]
        y_def [symmetric] h1_def [symmetric] k_def [symmetric] h3_def [symmetric] e_def [symmetric] h5_def [symmetric])
       (simp add: reinterpret_law v_def)
  have pv: "pos v [i, j, l] = 2048 + i * 3072 + j * 64 + l" for i j l
    by (simp add: pos_def y_def v_def)
  have sv: "sizes v = [n, 16, 64]" "base v = base y" "dtype v = BFloat16" "length (strides v) = 3"
    by (simp_all add: v_def y_def)
  have vv: "valid h5 v"
    using wh(6) m(2) lY by (auto simp: valid_def idx_ok3 pv sv whole_def)
  have tv: "tvals h5 v = v_heads n Y"
    unfolding tvals_def v_heads_def
    unfolding sv by (rule tabulate_cong) (auto simp: idx_ok3 rd_def pv sv m)
  have we: "whole h5 (with_shape e [n, 16, 64])"
    using whole_with_shape [OF wh(5), of "[n, 16, 64]"] by (simp add: numel_def e_def)
  have ds: "base e \<noteq> base x" "base e \<noteq> base k" "base e \<noteq> base y" "nxt h \<le> base e"
    using bs bx by auto
  have sd: "sizes k = [n, 16, 64]" "dtype k = BFloat16" "dtype y = BFloat16" "dtype e = BFloat16"
    by (simp_all add: ts)
  show thesis
    using that [OF run] whole_valid [OF wq(2)] whole_valid [OF wh(4)] vv we tv whole_tvals [OF wq(2)] whole_tvals [OF wh(4)]
      m f5 sd ds sv x(3)
    by simp (simp add: hs)
qed

lemma embed_piece_ok:
  assumes n: "n \<le> 699051"
    and ids: "valid h ids" "contiguous ids" "sizes ids = [n]" "ids_in_range V h ids 151936"
    and emb: "valid h emb" "contiguous emb" "sizes emb = [151936, 1024]"
    and ln: "valid h iln" "sizes iln = [1024]" "dtype iln = BFloat16"
  obtains x e h' where "embed_piece E T F ids emb iln n h = Some ((x, e), h')"
    "whole h' x" "sizes x = [n, 1024]" "dtype x = BFloat16" "whole h' e" "sizes e = [n, 1024]" "dtype e = BFloat16"
    "nxt h \<le> base e" "nxt h \<le> base x" "base x \<noteq> base e" "frame {} h h'" "ctx h' = ctx h"
    "tvals h' e = embed_rows V n (tvals h ids) (tvals h emb)"
    "tvals h' x = v_rms_norm V ([n, 1024], embed_rows V n (tvals h ids) (tvals h emb)) ([1024], tvals h iln) eps"
proof -
  let ?E = "embed_rows V n (tvals h ids) (tvals h emb)"
  let ?N = "v_rms_norm V ([n, 1024], ?E) ([1024], tvals h iln) eps"
  have l: "length ?E = n * 1024" "length ?N = n * 1024" by (simp_all add: embed_rows_def)
  define x where "x = new_t h BFloat16 [n, 1024]"
  define h1 where "h1 = alloc h (v_uninit V h (n * 1024))"
  define e where "e = new_t h1 BFloat16 [n, 1024]"
  define h2 where "h2 = alloc h1 (v_uninit V h1 (n * 1024))"
  define h3 where "h3 = put h2 e ?E"
  define h4 where "h4 = put h3 x ?N"
  note hs = h1_def h2_def h3_def h4_def and ts = x_def e_def
  have bs: "base x = nxt h" "base e = nxt h + 1" by (simp_all add: ts hs)
  have fr: "frame {} h h2" "frame {} h h3" "frame {} h h4"
    by (simp_all add: hs bs frame_alloc' frame_put')
  note F2 = frame_emptyD [OF fr(1)] and F3 = frame_emptyD [OF fr(2)]
  have wh: "whole h2 e" "whole h3 x" "whole h3 e" "whole h4 x" "whole h4 e"
    using l bs by (auto simp: whole_def hs ts contiguous_def numel_def)
  have m: "tvals h3 e = ?E" "tvals h4 e = ?E" "tvals h4 x = ?N"
    using wh bs by (simp_all add: whole_tvals hs)
  have lt: "base ids < nxt h" "base emb < nxt h" "base iln < nxt h"
    using ids emb ln by (auto dest: valid_base)
  have sz: "sizes x = [n, 1024]" "sizes e = [n, 1024]" "dtype x = BFloat16" "dtype e = BFloat16"
    by (simp_all add: ts)
  have "run_embedding_0 E F ids emb e (1024 * n) h2 = Some h3"
    using run_embedding_0_ok [OF n F2(1) [OF ids(1)] ids(2,3) _ F2(1) [OF emb(1)] emb(2,3) wh(1)] ids(4) F2 lt sz
    by (simp add: h3_def numel_def ids_in_range_def)
  moreover have "t_rms_norm T x e iln (1 / 1000000) h3 = Some h4"
    using rms_norm_law [of h3 x e iln] wh(2) whole_valid [OF wh(3)] F3 lt ln sz bs m(1)
    by (simp add: tv_def h4_def eps_def)
  ultimately have run: "embed_piece E T F ids emb iln n h = Some ((x, e), h4)"
    by (simp add: embed_piece_def empty_strided_law x_def [symmetric] h1_def [symmetric] e_def [symmetric] h2_def [symmetric])
  show thesis
    using that [OF run] wh sz m fr bs by simp (simp add: hs)
qed

end

text \<open>
  vLLM takes the only element of the tuple a piece returns when the graph it replaces
  returns a single tensor.
\<close>

definition last_piece ::
  "('a, 'k) inductor \<Rightarrow> ('a, 'k) torch \<Rightarrow> tensor \<Rightarrow> nat \<Rightarrow> tensor \<Rightarrow> tensor \<Rightarrow> tensor \<Rightarrow> tensor \<Rightarrow> tensor \<Rightarrow> tensor \<Rightarrow>
   ('a, 'k) store \<Rightarrow> (tensor \<times> ('a, 'k) store) option" where
  "last_piece E T out s0 ow pln res guw dw nw h = do {
     (xs, h) \<leftarrow> call_ul E T out s0 ow pln res guw dw nw h;
     x \<leftarrow> py_nth xs 0;
     Some (x, h)}"

context inductor_api
begin

lemma assert_contiguous:
  "contiguous x \<Longrightarrow> sizes x = sz \<Longrightarrow> st = cstride sz \<Longrightarrow> e_assert_size_stride E x sz st = Some ()"
  by (simp add: assert_law contiguous_def)

lemma check_mid_ok:
  assumes "contiguous out" "sizes out = [n, 16, 64]" "contiguous res" "sizes res = [n, 1024]"
    and "layer_ok h lv P" "layer_dense contiguous P" "contiguous nw" "sizes nw = [1024]"
  shows "check_mid E out n (o_proj_weight P) (post_attention_layernorm_weight P) res (gate_up_proj_weight P)
     (down_proj_weight P) nw = Some ()"
  using assms by (simp add: check_mid_def assert_contiguous layer_ok_def weights_ok_def layer_dense_def)

lemma mid_piece_frame_ok:
  assumes h: "frame {} h0 h" "whole h out" "sizes out = [n, 16, 64]" "dtype out = BFloat16"
    and res: "whole h res" "sizes res = [n, 1024]" "dtype res = BFloat16" "base res \<noteq> base out" "nxt h0 \<le> base res"
    and P: "layer_ok h0 lv P" "layer_dense contiguous P" and nw: "valid h0 nw" "sizes nw = [1024]" "dtype nw = BFloat16"
  defines "r \<equiv> after_attn V n lv (tvals h out) (tvals h res)"
  obtains x h' where "mid_piece E T out n (o_proj_weight P) (post_attention_layernorm_weight P) res (gate_up_proj_weight P)
     (down_proj_weight P) nw h = Some (x, h')"
    "whole h' x" "sizes x = [n, 1024]" "dtype x = BFloat16" "nxt h \<le> base x"
    "frame {} h0 h'" "ctx h' = ctx h" "whole h' res" "tvals h' res = r"
    "tvals h' x = v_rms_norm V ([n, 1024], r) ([1024], tvals h0 nw) eps"
proof -
  note F = frame_emptyD [OF h(1)] and w = P(1) [unfolded layer_ok_def, THEN conjunct1]
  have w': "weights_ok h lv (o_proj_weight P) (post_attention_layernorm_weight P) (gate_up_proj_weight P) (down_proj_weight P)"
    using w by (simp add: weights_ok_def F valid_base)
  have nw': "valid h nw" "tvals h nw = tvals h0 nw"
    using nw by (simp_all add: F valid_base)
  have dist: "base res \<notin> {base (o_proj_weight P), base (post_attention_layernorm_weight P),
      base (gate_up_proj_weight P), base (down_proj_weight P), base nw}"
    using w nw res(5) by (auto simp: weights_ok_def dest!: valid_base)
  have c: "contiguous (o_proj_weight P)" "contiguous (gate_up_proj_weight P)" "contiguous (down_proj_weight P)"
    using P(2) by (simp_all add: layer_dense_def)
  obtain x h' where x: "mid_piece E T out n (o_proj_weight P) (post_attention_layernorm_weight P) res (gate_up_proj_weight P)
      (down_proj_weight P) nw h = Some (x, h')"
    "whole h' x" "sizes x = [n, 1024]" "dtype x = BFloat16" "nxt h \<le> base x"
    and fr: "frame {base res} h h'" and x': "ctx h' = ctx h" "whole h' res" "tvals h' res = r"
    "tvals h' x = v_rms_norm V ([n, 1024], r) ([1024], tvals h nw) eps"
    unfolding r_def by (rule mid_piece_ok [OF h(2-4) res(1-4) w' nw'(1) nw(2,3) dist c]) blast
  have "frame {} h0 h'" using frame_drop [OF fr h(1)] res(5) by simp
  with x x' nw'(2) show thesis by (intro that) simp_all
qed

lemma last_piece_ok:
  assumes h: "frame {} h0 h" "whole h out" "sizes out = [n, 16, 64]" "dtype out = BFloat16"
    and res: "whole h res" "sizes res = [n, 1024]" "dtype res = BFloat16" "base res \<noteq> base out" "nxt h0 \<le> base res"
    and P: "layer_ok h0 lv P" "layer_dense contiguous P"
    and nw: "valid h0 nw" "sizes nw = [1024]" "dtype nw = BFloat16" "contiguous nw"
  defines "r \<equiv> after_attn V n lv (tvals h out) (tvals h res)"
  obtains x h' where "last_piece E T out n (o_proj_weight P) (post_attention_layernorm_weight P) res (gate_up_proj_weight P)
     (down_proj_weight P) nw h = Some (x, h')" "sizes x = [n, 1024]" "frame {} h0 h'" "ctx h' = ctx h"
    "tvals h' x = v_rms_norm V ([n, 1024], r) ([1024], tvals h0 nw) eps"
proof -
  note ck = check_mid_ok [OF whole_contiguous [OF h(2)] h(3) whole_contiguous [OF res(1)] res(2) P nw(4,2)]
  show thesis
    by (rule mid_piece_frame_ok [OF h res P nw(1-3)])
       (use that in \<open>simp add: last_piece_def call_ul_split ck r_def\<close>)
qed

lemma call_df_ok:
  assumes n: "n \<le> 699051" and h: "frame {} h0 h" "whole h out" "sizes out = [n, 16, 64]" "dtype out = BFloat16"
    and res: "whole h res" "sizes res = [n, 1024]" "dtype res = BFloat16" "base res \<noteq> base out" "nxt h0 \<le> base res"
    and P: "layer_ok h0 lv P" and P': "layer_ok h0 lv' P'" and ps: "positions_ok V h0 n ps cache"
    and dense: "layer_dense contiguous P" "layer_dense contiguous P'" "contiguous ps" "contiguous cache"
  defines "r \<equiv> after_attn V n lv (tvals h out) (tvals h res)"
  obtains q k v out' h' where
    "call_df E T F out n (o_proj_weight P) (post_attention_layernorm_weight P) res (gate_up_proj_weight P)
       (down_proj_weight P) (input_layernorm_weight P') (qkv_proj_weight P') (qkv_proj_bias P') ps cache h =
       Some ((q, k, v, out'), h')"
    "at_break (fused_rope F) n h0 r (qkv_of V n lv' r) (cos_sin_rows V n (tvals h0 ps) (tvals h0 cache)) res (q, k, v, out') h'"
    "ctx h' = ctx h"
proof -
  note p' = P' [unfolded layer_ok_def]
  have nw: "valid h0 (input_layernorm_weight P')" "sizes (input_layernorm_weight P') = [1024]"
    "dtype (input_layernorm_weight P') = BFloat16" "contiguous (input_layernorm_weight P')"
    using p' dense by (simp_all add: layer_dense_def)
  note ck = check_mid_ok [OF whole_contiguous [OF h(2)] h(3) whole_contiguous [OF res(1)] res(2) P dense(1) nw(4,2)]
  obtain x h1 where x: "mid_piece E T out n (o_proj_weight P) (post_attention_layernorm_weight P) res
      (gate_up_proj_weight P) (down_proj_weight P) (input_layernorm_weight P') h = Some (x, h1)"
    "whole h1 x" "sizes x = [n, 1024]" "dtype x = BFloat16" "nxt h \<le> base x"
    and f1: "frame {} h0 h1" and x': "ctx h1 = ctx h" "whole h1 res" "tvals h1 res = r"
    "tvals h1 x = v_rms_norm V ([n, 1024], r) ([1024], ln1 lv') eps"
    unfolding r_def
    by (rule mid_piece_frame_ok [OF h res P dense(1) nw(1-3)]) (use p' in auto)
  note F1 = frame_emptyD [OF f1]
  note P1 = frame_layer_ok [OF f1 P', unfolded layer_ok_def]
  note ps1 = frame_positions_ok [OF f1 ps]
  have vps: "base ps < nxt h0" "base cache < nxt h0" "sizes ps = [n]" "sizes cache = [32768, 64]"
    using ps by (auto simp: positions_ok_def dest: valid_base)
  have le: "nxt h0 \<le> nxt h" using frame_nxt [OF h(1)] .
  have cw: "contiguous (qkv_proj_weight P')" "contiguous (qkv_proj_bias P')"
    using dense by (simp_all add: layer_dense_def)
  obtain q k v out' h2 where q: "qkv_piece E F x (qkv_proj_weight P') (qkv_proj_bias P') ps cache n h1 = Some ((q, k, v, out'), h2)"
    "valid h2 q" "valid h2 k" "valid h2 v" "whole h2 out'" "base out' \<notin> {base q, base k, base v}"
    "sizes q = [n, 16, 64]" "sizes k = [n, 16, 64]" "sizes v = [n, 16, 64]" "sizes out' = [n, 16, 64]"
    "dtype q = BFloat16" "dtype k = BFloat16" "dtype v = BFloat16" "dtype out' = BFloat16"
    and f2: "frame {base x} h1 h2" and q': "ctx h2 = ctx h1" "nxt h1 \<le> base out'"
    "tvals h2 q = fused_rope F n (qkv_of V n lv' r) (cos_sin_rows V n (tvals h0 ps) (tvals h0 cache)) 0"
    "tvals h2 k = fused_rope F n (qkv_of V n lv' r) (cos_sin_rows V n (tvals h0 ps) (tvals h0 cache)) 1024"
    "tvals h2 v = v_heads n (qkv_of V n lv' r)"
    by (rule qkv_piece_ok [OF n x(2-4), of "qkv_proj_weight P'" "qkv_proj_bias P'" ps cache])
       (use P1 ps1 x' x(5) le vps F1(4) dense cw in \<open>auto simp: qkv_of_def\<close>)
  have rx: "base res \<noteq> base x" "base res < nxt h1"
    using x(5) whole_base [OF res(1)] whole_base [OF x'(2)] by auto
  have f: "frame {} h0 h2" using frame_drop [OF f2 f1] x(5) le by simp
  have "whole h2 res" "tvals h2 res = r"
    using frame_whole [OF f2 x'(2)] frame_tvals [OF f2 whole_base [OF x'(2)]] rx x'(3) by auto
  then have "at_break (fused_rope F) n h0 r (qkv_of V n lv' r) (cos_sin_rows V n (tvals h0 ps) (tvals h0 cache)) res (q, k, v, out') h2"
    using q q' x x' res f F1 rx by (auto simp: at_break_def)
  then show thesis
    using that q q'(1) x x'(1) ck vps P1 dense cw by (simp add: call_df_split assert_contiguous)
qed

lemma call_sy_ok:
  assumes n: "n \<le> 699051"
    and ids: "valid h ids" "sizes ids = [n]" "ids_in_range V h ids 151936" "contiguous ids"
    and emb: "valid h emb" "sizes emb = [151936, 1024]" "contiguous emb"
    and P: "layer_ok h lv P" "layer_dense contiguous P"
    and ps: "positions_ok V h n ps cache" "contiguous ps" "contiguous cache"
  defines "r \<equiv> embed_rows V n (tvals h ids) (tvals h emb)"
  obtains q k v out res h' where
    "call_sy E T F ids n emb (input_layernorm_weight P) (qkv_proj_weight P) (qkv_proj_bias P) ps cache h =
       Some ((q, k, v, out, res), h')"
    "at_break (fused_rope F) n h r (qkv_of V n lv r) (cos_sin_rows V n (tvals h ps) (tvals h cache)) res (q, k, v, out) h'"
    "ctx h' = ctx h"
proof -
  note p = P(1) [unfolded layer_ok_def]
  obtain x e h1 where e: "embed_piece E T F ids emb (input_layernorm_weight P) n h = Some ((x, e), h1)"
    "whole h1 x" "sizes x = [n, 1024]" "dtype x = BFloat16" "whole h1 e" "sizes e = [n, 1024]" "dtype e = BFloat16"
    "nxt h \<le> base e" "nxt h \<le> base x" "base x \<noteq> base e" and f1: "frame {} h h1" and e': "ctx h1 = ctx h" "tvals h1 e = r"
    "tvals h1 x = v_rms_norm V ([n, 1024], r) ([1024], ln1 lv) eps"
    by (rule embed_piece_ok [OF n ids(1,4,2,3) emb(1,3,2), of "input_layernorm_weight P"]) (use p in \<open>auto simp: r_def\<close>)
  note F1 = frame_emptyD [OF f1]
  note P1 = frame_layer_ok [OF f1 P(1), unfolded layer_ok_def]
  note ps1 = frame_positions_ok [OF f1 ps(1)]
  have vps: "base ps < nxt h" "base cache < nxt h" "sizes ps = [n]" "sizes cache = [32768, 64]"
    using ps by (auto simp: positions_ok_def dest: valid_base)
  have cw: "contiguous (qkv_proj_weight P)" "contiguous (qkv_proj_bias P)" "contiguous (input_layernorm_weight P)"
    using P by (simp_all add: layer_dense_def)
  obtain q k v out h2 where q: "qkv_piece E F x (qkv_proj_weight P) (qkv_proj_bias P) ps cache n h1 = Some ((q, k, v, out), h2)"
    "valid h2 q" "valid h2 k" "valid h2 v" "whole h2 out" "base out \<notin> {base q, base k, base v}"
    "sizes q = [n, 16, 64]" "sizes k = [n, 16, 64]" "sizes v = [n, 16, 64]" "sizes out = [n, 16, 64]"
    "dtype q = BFloat16" "dtype k = BFloat16" "dtype v = BFloat16" "dtype out = BFloat16"
    and f2: "frame {base x} h1 h2" and q': "ctx h2 = ctx h1" "nxt h1 \<le> base out"
    "tvals h2 q = fused_rope F n (qkv_of V n lv r) (cos_sin_rows V n (tvals h ps) (tvals h cache)) 0"
    "tvals h2 k = fused_rope F n (qkv_of V n lv r) (cos_sin_rows V n (tvals h ps) (tvals h cache)) 1024"
    "tvals h2 v = v_heads n (qkv_of V n lv r)"
    by (rule qkv_piece_ok [OF n e(2-4), of "qkv_proj_weight P" "qkv_proj_bias P" ps cache])
       (use P1 ps1 e' e(9) vps F1(4) ps(2,3) cw in \<open>auto simp: qkv_of_def\<close>)
  have f: "frame {} h h2" using frame_drop [OF f2 f1] e(9) by simp
  have "whole h2 e" "tvals h2 e = r"
    using frame_whole [OF f2 e(5)] frame_tvals [OF f2 whole_base [OF e(5)]] e(10) e'(2) by auto
  then have "at_break (fused_rope F) n h r (qkv_of V n lv r) (cos_sin_rows V n (tvals h ps) (tvals h cache)) e (q, k, v, out) h2"
    using q q' e e' f F1 whole_base [OF e(5)] by (auto simp: at_break_def)
  then show thesis
    using that q q'(1) e(1) e'(1) vps P1 cw ps ids emb p by (simp add: call_sy_split assert_contiguous)
qed

end

end
