(* ===== verification/Compile_Cache.thy ===== *)
theory Compile_Cache
  imports Inductor_Pieces
begin

text \<open>
  The index of the compiled pieces, vllm_compile_cache.py of the sample cache: a Python
  dictionary from (runtime shape, piece number, compiler name) to (graph hash, path of the
  generated module), in the order of the file. A shape of \<open>None\<close> is the general shape.
  The compiled model runs, at piece \<open>i\<close>, the module the index names for piece \<open>i\<close>; a missing
  entry or a module of another signature is an error.
\<close>

type_synonym cache_key = "nat option \<times> nat \<times> string"

definition vllm_compile_cache :: "(cache_key \<times> string \<times> string) list" where
  "vllm_compile_cache = [
     ((None, 0, ''inductor''),
      (''feorwmj2xdtwpofkcuc6fdnluv2auo3zbui7xy2qcncgy2qnvds6'',
       ''/home/vllm/.cache/vllm/torch_compile_cache/d4ec7c2a7d/rank_0_0/inductor_cache/sy/csydsib3zoojnddissy5psapld25ic346gbdsibkekh6pid6bevv.py'')),
     ((None, 1, ''inductor''),
      (''fihfzkdily6bpw73zhhfvyx7i7syj2bh2z73lj5bgrbq3ty5mkpv'',
       ''/home/vllm/.cache/vllm/torch_compile_cache/d4ec7c2a7d/rank_0_0/inductor_cache/df/cdfqwrxmstxseesfef72s74nawkkh3iyiu6k7rg5kdhvmg7736qb.py'')),
     ((None, 2, ''inductor''),
      (''fihfzkdily6bpw73zhhfvyx7i7syj2bh2z73lj5bgrbq3ty5mkpv'',
       ''/home/vllm/.cache/vllm/torch_compile_cache/d4ec7c2a7d/rank_0_0/inductor_cache/df/cdfqwrxmstxseesfef72s74nawkkh3iyiu6k7rg5kdhvmg7736qb.py'')),
     ((None, 3, ''inductor''),
      (''fihfzkdily6bpw73zhhfvyx7i7syj2bh2z73lj5bgrbq3ty5mkpv'',
       ''/home/vllm/.cache/vllm/torch_compile_cache/d4ec7c2a7d/rank_0_0/inductor_cache/df/cdfqwrxmstxseesfef72s74nawkkh3iyiu6k7rg5kdhvmg7736qb.py'')),
     ((None, 4, ''inductor''),
      (''fihfzkdily6bpw73zhhfvyx7i7syj2bh2z73lj5bgrbq3ty5mkpv'',
       ''/home/vllm/.cache/vllm/torch_compile_cache/d4ec7c2a7d/rank_0_0/inductor_cache/df/cdfqwrxmstxseesfef72s74nawkkh3iyiu6k7rg5kdhvmg7736qb.py'')),
     ((None, 5, ''inductor''),
      (''fihfzkdily6bpw73zhhfvyx7i7syj2bh2z73lj5bgrbq3ty5mkpv'',
       ''/home/vllm/.cache/vllm/torch_compile_cache/d4ec7c2a7d/rank_0_0/inductor_cache/df/cdfqwrxmstxseesfef72s74nawkkh3iyiu6k7rg5kdhvmg7736qb.py'')),
     ((None, 6, ''inductor''),
      (''fihfzkdily6bpw73zhhfvyx7i7syj2bh2z73lj5bgrbq3ty5mkpv'',
       ''/home/vllm/.cache/vllm/torch_compile_cache/d4ec7c2a7d/rank_0_0/inductor_cache/df/cdfqwrxmstxseesfef72s74nawkkh3iyiu6k7rg5kdhvmg7736qb.py'')),
     ((None, 7, ''inductor''),
      (''fihfzkdily6bpw73zhhfvyx7i7syj2bh2z73lj5bgrbq3ty5mkpv'',
       ''/home/vllm/.cache/vllm/torch_compile_cache/d4ec7c2a7d/rank_0_0/inductor_cache/df/cdfqwrxmstxseesfef72s74nawkkh3iyiu6k7rg5kdhvmg7736qb.py'')),
     ((None, 8, ''inductor''),
      (''fihfzkdily6bpw73zhhfvyx7i7syj2bh2z73lj5bgrbq3ty5mkpv'',
       ''/home/vllm/.cache/vllm/torch_compile_cache/d4ec7c2a7d/rank_0_0/inductor_cache/df/cdfqwrxmstxseesfef72s74nawkkh3iyiu6k7rg5kdhvmg7736qb.py'')),
     ((None, 9, ''inductor''),
      (''fihfzkdily6bpw73zhhfvyx7i7syj2bh2z73lj5bgrbq3ty5mkpv'',
       ''/home/vllm/.cache/vllm/torch_compile_cache/d4ec7c2a7d/rank_0_0/inductor_cache/df/cdfqwrxmstxseesfef72s74nawkkh3iyiu6k7rg5kdhvmg7736qb.py'')),
     ((None, 10, ''inductor''),
      (''fihfzkdily6bpw73zhhfvyx7i7syj2bh2z73lj5bgrbq3ty5mkpv'',
       ''/home/vllm/.cache/vllm/torch_compile_cache/d4ec7c2a7d/rank_0_0/inductor_cache/df/cdfqwrxmstxseesfef72s74nawkkh3iyiu6k7rg5kdhvmg7736qb.py'')),
     ((None, 11, ''inductor''),
      (''fihfzkdily6bpw73zhhfvyx7i7syj2bh2z73lj5bgrbq3ty5mkpv'',
       ''/home/vllm/.cache/vllm/torch_compile_cache/d4ec7c2a7d/rank_0_0/inductor_cache/df/cdfqwrxmstxseesfef72s74nawkkh3iyiu6k7rg5kdhvmg7736qb.py'')),
     ((None, 12, ''inductor''),
      (''fihfzkdily6bpw73zhhfvyx7i7syj2bh2z73lj5bgrbq3ty5mkpv'',
       ''/home/vllm/.cache/vllm/torch_compile_cache/d4ec7c2a7d/rank_0_0/inductor_cache/df/cdfqwrxmstxseesfef72s74nawkkh3iyiu6k7rg5kdhvmg7736qb.py'')),
     ((None, 13, ''inductor''),
      (''fihfzkdily6bpw73zhhfvyx7i7syj2bh2z73lj5bgrbq3ty5mkpv'',
       ''/home/vllm/.cache/vllm/torch_compile_cache/d4ec7c2a7d/rank_0_0/inductor_cache/df/cdfqwrxmstxseesfef72s74nawkkh3iyiu6k7rg5kdhvmg7736qb.py'')),
     ((None, 14, ''inductor''),
      (''fihfzkdily6bpw73zhhfvyx7i7syj2bh2z73lj5bgrbq3ty5mkpv'',
       ''/home/vllm/.cache/vllm/torch_compile_cache/d4ec7c2a7d/rank_0_0/inductor_cache/df/cdfqwrxmstxseesfef72s74nawkkh3iyiu6k7rg5kdhvmg7736qb.py'')),
     ((None, 15, ''inductor''),
      (''fihfzkdily6bpw73zhhfvyx7i7syj2bh2z73lj5bgrbq3ty5mkpv'',
       ''/home/vllm/.cache/vllm/torch_compile_cache/d4ec7c2a7d/rank_0_0/inductor_cache/df/cdfqwrxmstxseesfef72s74nawkkh3iyiu6k7rg5kdhvmg7736qb.py'')),
     ((None, 16, ''inductor''),
      (''fihfzkdily6bpw73zhhfvyx7i7syj2bh2z73lj5bgrbq3ty5mkpv'',
       ''/home/vllm/.cache/vllm/torch_compile_cache/d4ec7c2a7d/rank_0_0/inductor_cache/df/cdfqwrxmstxseesfef72s74nawkkh3iyiu6k7rg5kdhvmg7736qb.py'')),
     ((None, 17, ''inductor''),
      (''fihfzkdily6bpw73zhhfvyx7i7syj2bh2z73lj5bgrbq3ty5mkpv'',
       ''/home/vllm/.cache/vllm/torch_compile_cache/d4ec7c2a7d/rank_0_0/inductor_cache/df/cdfqwrxmstxseesfef72s74nawkkh3iyiu6k7rg5kdhvmg7736qb.py'')),
     ((None, 18, ''inductor''),
      (''fihfzkdily6bpw73zhhfvyx7i7syj2bh2z73lj5bgrbq3ty5mkpv'',
       ''/home/vllm/.cache/vllm/torch_compile_cache/d4ec7c2a7d/rank_0_0/inductor_cache/df/cdfqwrxmstxseesfef72s74nawkkh3iyiu6k7rg5kdhvmg7736qb.py'')),
     ((None, 19, ''inductor''),
      (''fihfzkdily6bpw73zhhfvyx7i7syj2bh2z73lj5bgrbq3ty5mkpv'',
       ''/home/vllm/.cache/vllm/torch_compile_cache/d4ec7c2a7d/rank_0_0/inductor_cache/df/cdfqwrxmstxseesfef72s74nawkkh3iyiu6k7rg5kdhvmg7736qb.py'')),
     ((None, 20, ''inductor''),
      (''fihfzkdily6bpw73zhhfvyx7i7syj2bh2z73lj5bgrbq3ty5mkpv'',
       ''/home/vllm/.cache/vllm/torch_compile_cache/d4ec7c2a7d/rank_0_0/inductor_cache/df/cdfqwrxmstxseesfef72s74nawkkh3iyiu6k7rg5kdhvmg7736qb.py'')),
     ((None, 21, ''inductor''),
      (''fihfzkdily6bpw73zhhfvyx7i7syj2bh2z73lj5bgrbq3ty5mkpv'',
       ''/home/vllm/.cache/vllm/torch_compile_cache/d4ec7c2a7d/rank_0_0/inductor_cache/df/cdfqwrxmstxseesfef72s74nawkkh3iyiu6k7rg5kdhvmg7736qb.py'')),
     ((None, 22, ''inductor''),
      (''fihfzkdily6bpw73zhhfvyx7i7syj2bh2z73lj5bgrbq3ty5mkpv'',
       ''/home/vllm/.cache/vllm/torch_compile_cache/d4ec7c2a7d/rank_0_0/inductor_cache/df/cdfqwrxmstxseesfef72s74nawkkh3iyiu6k7rg5kdhvmg7736qb.py'')),
     ((None, 23, ''inductor''),
      (''fihfzkdily6bpw73zhhfvyx7i7syj2bh2z73lj5bgrbq3ty5mkpv'',
       ''/home/vllm/.cache/vllm/torch_compile_cache/d4ec7c2a7d/rank_0_0/inductor_cache/df/cdfqwrxmstxseesfef72s74nawkkh3iyiu6k7rg5kdhvmg7736qb.py'')),
     ((None, 24, ''inductor''),
      (''fr4t73hg7nisksrnalktc6oq7w4kf5xjy7couij4xnicybdtk65e'',
       ''/home/vllm/.cache/vllm/torch_compile_cache/d4ec7c2a7d/rank_0_0/inductor_cache/ul/cule6b2xs7q3q3operc5ahzng3xethuccx5j6ajr46wf7xymoytc.py''))]"

text \<open>The module files under inductor_cache whose \<open>call\<close> is modelled here.\<close>

datatype piece = Call_sy | Call_df | Call_ul

definition cache_dir :: string where
  "cache_dir = ''/home/vllm/.cache/vllm/torch_compile_cache/d4ec7c2a7d/rank_0_0/inductor_cache/''"

definition modules :: "(string \<times> piece) list" where
  "modules = [
     (cache_dir @ ''sy/csydsib3zoojnddissy5psapld25ic346gbdsibkekh6pid6bevv.py'', Call_sy),
     (cache_dir @ ''df/cdfqwrxmstxseesfef72s74nawkkh3iyiu6k7rg5kdhvmg7736qb.py'', Call_df),
     (cache_dir @ ''ul/cule6b2xs7q3q3operc5ahzng3xethuccx5j6ajr46wf7xymoytc.py'', Call_ul)]"

text \<open>Looking a piece up: the dictionary entry, then the module behind its path.\<close>

definition lookup_piece :: "cache_key \<Rightarrow> piece option" where
  "lookup_piece k = Option.bind (map_of vllm_compile_cache k) (\<lambda>(hash, path). map_of modules path)"

text \<open>The pieces as the index selects them.\<close>

definition first_piece where
  "first_piece E T F ids s0 emb iln qw qb ps cache h = (case lookup_piece (None, 0, ''inductor'') of
     Some Call_sy \<Rightarrow> call_sy E T F ids s0 emb iln qw qb ps cache h
   | _ \<Rightarrow> None)"

definition middle_piece where
  "middle_piece E T F i out s0 ow pln res guw dw iln qw qb ps cache h =
     (case lookup_piece (None, Suc i, ''inductor'') of
        Some Call_df \<Rightarrow> call_df E T F out s0 ow pln res guw dw iln qw qb ps cache h
      | _ \<Rightarrow> None)"

definition final_piece where
  "final_piece E T out s0 ow pln res guw dw nw h = (case lookup_piece (None, 24, ''inductor'') of
     Some Call_ul \<Rightarrow> last_piece E T out s0 ow pln res guw dw nw h
   | _ \<Rightarrow> None)"

definition compiled_forward ::
  "('a, 'k) inductor \<Rightarrow> ('a, 'k) torch \<Rightarrow> ('a, 'f) scalars \<Rightarrow> nat \<Rightarrow> tensor \<Rightarrow> tensor \<Rightarrow> (nat \<Rightarrow> layer_params) \<Rightarrow>
   tensor \<Rightarrow> tensor \<Rightarrow> tensor \<Rightarrow> ('a, 'k) store \<Rightarrow> (tensor \<times> ('a, 'k) store) option" where
  "compiled_forward E T F =
     pw_forward (t_unified_attention_with_output T) (first_piece E T F) (middle_piece E T F) (final_piece E T)"

lemma cache_entries:
  "map (\<lambda>(k, v). (k, map_of modules (snd v))) vllm_compile_cache =
     map (\<lambda>i. ((None, i, ''inductor''), Some (if i = 0 then Call_sy else if i < 24 then Call_df else Call_ul))) [0..<25]"
  by (simp add: vllm_compile_cache_def modules_def cache_dir_def upt_rec)

lemma map_of_map_snd: "map_of (map (\<lambda>(k, v). (k, g v)) xs) k = map_option g (map_of xs k)"
  by (induction xs) auto

lemma map_of_indexed:
  "map_of (map (\<lambda>i. ((c, i, s), g i)) [0..<n]) k =
     (if fst k = c \<and> snd (snd k) = s \<and> fst (snd k) < n then Some (g (fst (snd k))) else None)"
  by (cases k, induction n) (auto simp: map_add_def less_Suc_eq split: option.splits)

lemma lookup_piece_eq:
  "lookup_piece k = (if fst k = None \<and> snd (snd k) = ''inductor'' \<and> fst (snd k) < 25
     then Some (if fst (snd k) = 0 then Call_sy else if fst (snd k) < 24 then Call_df else Call_ul) else None)"
proof -
  have "map_option (\<lambda>v. map_of modules (snd v)) (map_of vllm_compile_cache k) =
     (if fst k = None \<and> snd (snd k) = ''inductor'' \<and> fst (snd k) < 25
     then Some (Some (if fst (snd k) = 0 then Call_sy else if fst (snd k) < 24 then Call_df else Call_ul)) else None)"
    unfolding map_of_map_snd [symmetric] cache_entries map_of_indexed by simp
  then show ?thesis
    by (cases "map_of vllm_compile_cache k") (auto simp: lookup_piece_def split: if_splits)
qed

lemma pieces_by_index:
  "first_piece E T F = call_sy E T F" "i < 23 \<Longrightarrow> middle_piece E T F i = call_df E T F"
  "final_piece E T = last_piece E T"
  by (simp_all add: fun_eq_iff first_piece_def middle_piece_def final_piece_def lookup_piece_eq)

text \<open>The compiled pieces keep the contract of the pieces.\<close>

sublocale inductor_api \<subseteq> compiled: piecewise V "fused_rope F" "\<lambda>n. n \<le> 699051" contiguous
  "t_unified_attention_with_output T" "first_piece E T F" "middle_piece E T F" "final_piece E T"
proof (unfold_locales, goal_cases)
  case 1
  then show ?case by (auto elim!: attention_ok)
next
  case 2
  show ?case unfolding pieces_by_index by (rule call_sy_ok [OF 2(2,3,5,6,12,7,8,13,10,14,11,15,16)]) (use 2(17) in blast)
next
  case 3
  show ?case unfolding pieces_by_index(2) [OF 3(1)] by (rule call_df_ok [OF 3(3-19)]) (use 3(20) in blast)
next
  case 4
  show ?case unfolding pieces_by_index by (rule last_piece_ok [OF 4(3-12,16,13-15,17)]) (use 4(18) in blast)
qed

context inductor_api
begin

lemma compiled_forward_ok:
  assumes "n \<le> 699051"
    and "graph_inputs_ok V h n ids emb L ps cache nw" and "inputs_dense contiguous ids emb L ps cache nw"
  shows "\<exists>x h'. compiled_forward E T F n ids emb L ps cache nw h = Some (x, h') \<and> sizes x = [n, 1024] \<and>
     (tvals h' x, ctx h') = qwen_model (fused_rope F) V n (tvals h ids) (tvals h ps) (tvals h emb) (tvals h cache)
        (\<lambda>i. layer_values h (L i)) (tvals h nw) (ctx h) \<and>
     frame {} h h'"
  unfolding compiled_forward_def
  by (rule compiled.pw_forward_ok [OF assms(2,1,3)])

end

end
