(* ===== verification/Torch_Ref.thy ===== *)
theory Torch_Ref
  imports Torch_API
begin

text \<open>
  A reference implementation of the operators over the real numbers, written from their
  documentation: matrix products, root-mean-square normalisation, the gated activation
  and a causal soft-max attention that appends to its key/value cache. It satisfies the
  laws of \<open>torch_api\<close>, so the theorems that rest on them are not vacuous. The argument
  \<open>garbage\<close> is what every cell of a freshly allocated, uninitialised buffer holds.
\<close>

type_synonym kv_cache = "string \<Rightarrow> real list \<times> real list"

definition ref_linear :: "real tval \<Rightarrow> real tval \<Rightarrow> real tval option \<Rightarrow> real list" where
  "ref_linear x w b = (case (fst x, fst w) of
     ([n, k], [m, _]) \<Rightarrow> tabulate [n, m] (\<lambda>ix.
        (\<Sum>l<k. snd x ! (ix ! 0 * k + l) * snd w ! (ix ! 1 * k + l)) +
        (case b of None \<Rightarrow> 0 | Some bs \<Rightarrow> snd bs ! (ix ! 1)))
   | _ \<Rightarrow> [])"

definition ref_rms_norm :: "real tval \<Rightarrow> real tval \<Rightarrow> rat \<Rightarrow> real list" where
  "ref_rms_norm x w eps = (let d = last (fst x); xs = snd x in
     map (\<lambda>i. xs ! i / sqrt ((\<Sum>l<d. (xs ! (i div d * d + l))\<^sup>2) / real d + of_rat eps) * snd w ! (i mod d))
       [0..<length xs])"

definition silu :: "real \<Rightarrow> real" where
  "silu x = x / (1 + exp (- x))"

definition ref_silu_and_mul :: "real tval \<Rightarrow> real list" where
  "ref_silu_and_mul x = (case fst x of
     [n, m] \<Rightarrow> tabulate [n, m div 2] (\<lambda>ix.
        silu (snd x ! (ix ! 0 * m + ix ! 1)) * snd x ! (ix ! 0 * m + m div 2 + ix ! 1))
   | _ \<Rightarrow> [])"

definition ref_attn ::
  "string \<Rightarrow> kv_cache \<Rightarrow> real tval \<Rightarrow> real tval \<Rightarrow> real tval \<Rightarrow> real list \<times> kv_cache" where
  "ref_attn name kv q k v =
     ((case fst q of
        [n, nh, d] \<Rightarrow> tabulate [n, nh, d] (\<lambda>ix.
           let row = (\<lambda>t. t * (nh * d) + ix ! 1 * d);
               wt = (\<lambda>t. exp ((\<Sum>l<d. snd q ! (row (ix ! 0) + l) * snd k ! (row t + l)) / sqrt (real d)))
           in (\<Sum>t\<le>ix ! 0. wt t * snd v ! (row t + ix ! 2)) / (\<Sum>t\<le>ix ! 0. wt t))
      | _ \<Rightarrow> snd q),
      kv(name := (fst (kv name) @ snd k, snd (kv name) @ snd v)))"

definition ref_kernels :: "real \<Rightarrow> (real, kv_cache) kernels" where
  "ref_kernels garbage =
     \<lparr>v_int = floor, v_long = (\<lambda>e. e), v_mul = (*), v_sub = (-), v_add = (+),
      v_uninit = (\<lambda>h n. replicate n garbage), v_linear = ref_linear, v_rms_norm = ref_rms_norm,
      v_silu_and_mul = ref_silu_and_mul, v_attn = ref_attn\<rparr>"

definition ref_gather ::
  "tensor \<Rightarrow> tensor \<Rightarrow> (real, kv_cache) store \<Rightarrow> (tensor \<times> (real, kv_cache) store) option" where
  "ref_gather w ids h = (case sizes w of
     [n, d] \<Rightarrow> if list_all (\<lambda>e. 0 \<le> floor e \<and> floor e < int n) (tvals h ids)
               then Some (gather_rows (ref_kernels 0) w ids d h) else None
   | _ \<Rightarrow> None)"

definition ref_view :: "tensor \<Rightarrow> int list \<Rightarrow> tensor option" where
  "ref_view x sh = (case infer sh (numel x) of
     None \<Rightarrow> None
   | Some sz \<Rightarrow> if contiguous x then Some (with_shape x sz)
       else (case (sizes x, strides x, sz) of
         ([n, c], [s, t], [n', a, b]) \<Rightarrow>
            if t = 1 \<and> n = n' \<and> c = a * b
            then Some (x\<lparr>sizes := sz, strides := [s, b, 1]\<rparr>) else None
       | _ \<Rightarrow> None))"

definition ref_elementwise ::
  "(real \<Rightarrow> real \<Rightarrow> real) \<Rightarrow> tensor \<Rightarrow> tensor \<Rightarrow> (real, kv_cache) store \<Rightarrow>
   (tensor \<times> (real, kv_cache) store) option" where
  "ref_elementwise f x y h =
     (if dtype x = dtype y \<and> bcast_ok (sizes x) (sizes y) then Some (elementwise f x y h) else None)"

definition ref_linear_op ::
  "tensor \<Rightarrow> tensor \<Rightarrow> tensor option \<Rightarrow> (real, kv_cache) store \<Rightarrow>
   (tensor \<times> (real, kv_cache) store) option" where
  "ref_linear_op x w b h = (case (sizes x, sizes w) of
     ([n, k], [m, k']) \<Rightarrow>
       if k = k' \<and> (case b of None \<Rightarrow> True | Some b' \<Rightarrow> sizes b' = [m])
       then Some (new_t h (dtype x) [n, m], alloc h (ref_linear (tv h x) (tv h w) (map_option (tv h) b)))
       else None
   | _ \<Rightarrow> None)"

definition ref_torch :: "real \<Rightarrow> (real, kv_cache) torch" where
  "ref_torch garbage =
     \<lparr>t_long = (\<lambda>x h. Some (new_t h Int64 (sizes x), alloc h (tvals h x))),
      t_embedding = (\<lambda>ids w h. ref_gather w ids h),
      t_log_api_usage_once = (\<lambda>s h. Some h),
      t_get_data_attr = Some,
      t_empty_like = (\<lambda>x h. Some (new_t h (dtype x) (sizes x), alloc h (replicate (prod_list (sizes x)) garbage))),
      t_contiguous = (\<lambda>x h. if contiguous x then Some (x, h)
                            else Some (new_t h (dtype x) (sizes x), alloc h (tvals h x))),
      t_rms_norm = (\<lambda>out x w eps h. Some (put h out (ref_rms_norm (tv h x) (tv h w) eps))),
      t_linear = ref_linear_op,
      t_split = (\<lambda>x ns dim. if sizes x \<noteq> [] \<and> dim = -1 \<and> sum_list ns = last (sizes x)
                            then Some (splits x 0 ns) else None),
      t_flatten = (\<lambda>x h. if length (sizes x) = 1 then Some (x, h)
                         else Some (new_t h (dtype x) [numel x], alloc h (tvals h x))),
      t_index_select = (\<lambda>w dim ids h. if dim = 0 then ref_gather w ids h else None),
      t_chunk = (\<lambda>x k dim. if sizes x \<noteq> [] \<and> dim = -1 \<and> 0 < k \<and> k dvd last (sizes x) \<and> last (sizes x) \<noteq> 0
                           then Some (splits x 0 (replicate k (last (sizes x) div k))) else None),
      t_view = ref_view,
      t_getitem_last = (\<lambda>x lo hi. if sizes x = [] then None else
         let l = (case lo of None \<Rightarrow> 0 | Some m \<Rightarrow> min m (last (sizes x)));
             u = (case hi of None \<Rightarrow> last (sizes x) | Some m \<Rightarrow> min m (last (sizes x)))
         in Some (slice_last x l (u - l))),
      t_unsqueeze = (\<lambda>x dim. if sizes x \<noteq> [] \<and> dim = -2 then Some (unsqueezed x) else None),
      t_to = (\<lambda>x dt h. if dtype x = dt then Some (x, h)
                       else Some (new_t h dt (sizes x), alloc h (tvals h x))),
      t_mul = ref_elementwise (*), t_sub = ref_elementwise (-), t_add = ref_elementwise (+),
      t_cat = (\<lambda>xs dim h. case xs of
         [x, y] \<Rightarrow> if dim = -1 \<and> dtype x = dtype y \<and> sizes x \<noteq> [] \<and> sizes y \<noteq> [] \<and>
                      butlast (sizes x) = butlast (sizes y) then Some (cat_last x y h) else None
       | _ \<Rightarrow> None),
      t_reshape = (\<lambda>x sz h. if prod_list sz \<noteq> numel x then None
                            else if contiguous x then Some (with_shape x sz, h)
                            else Some (new_t h (dtype x) sz, alloc h (tvals h x))),
      t_empty = (\<lambda>sz dt dev h. Some (new_t h dt sz, alloc h (replicate (prod_list sz) garbage))),
      t_unified_attention_with_output = (\<lambda>q k v out name h.
         let a = ref_attn name (ctx h) (tv h q) (tv h k) (tv h v)
         in Some ((put h out (fst a))\<lparr>ctx := snd a\<rparr>)),
      t_fused_add_rms_norm = (\<lambda>x r w eps h.
         let r' = map2 (+) (tvals h x) (tvals h r)
         in Some (put (put h r r') x (ref_rms_norm (sizes x, r') (tv h w) eps))),
      t_silu_and_mul = (\<lambda>out x h. Some (put h out (ref_silu_and_mul (tv h x))))\<rparr>"

lemma ref_gather_ok:
  assumes "sizes w = [n, d]" "ids_in_range (ref_kernels g) h ids n"
  shows "ref_gather w ids h = Some (gather_rows (ref_kernels g) w ids d h)"
  using assms
  by (auto simp: ref_gather_def ids_in_range_def list_all_iff tvals_def tabulate_def ref_kernels_def
      idx_ok_unflat gather_rows_def)

lemma with_shape_split:
  assumes "sizes x = [n, a * b]" "strides x = [s, Suc 0]" "contiguous x"
  shows "with_shape x [n, a, b] = x\<lparr>sizes := [n, a, b], strides := [s, b, Suc 0]\<rparr>"
  using assms by (simp add: contiguous_def with_shape_def)

interpretation ref: torch_api "ref_torch g" "ref_kernels g" for g
  by unfold_locales
     (auto simp: ref_torch_def ref_kernels_def with_shape_split ref_gather_ok [unfolded ref_kernels_def]
        ref_rms_norm_def ref_linear_def ref_linear_op_def ref_silu_and_mul_def ref_attn_def Let_def
        ref_view_def ref_elementwise_def split: list.splits option.splits)

end
