(* ===== verification/Inductor_Ref.thy ===== *)
theory Inductor_Ref
  imports Compile_Cache Torch_Ref
begin

text \<open>
  A reference implementation, over the real numbers, of the functions the compiled pieces
  call: views and allocations as documented, matrix products as sums of products, a grid
  of blocks of 1024 lanes run in reverse order.
\<close>

definition ref_mm_val :: "real tval \<Rightarrow> real tval \<Rightarrow> real list" where
  "ref_mm_val a b = (case (fst a, fst b) of
     ([n, k], [_, m]) \<Rightarrow> tabulate [n, m] (\<lambda>ix. \<Sum>l<k. snd a ! (ix ! 0 * k + l) * snd b ! (l * m + ix ! 1))
   | _ \<Rightarrow> [])"

definition ref_addmm_val :: "real tval \<Rightarrow> real tval \<Rightarrow> real tval \<Rightarrow> real list" where
  "ref_addmm_val c a b = (case (fst a, fst b) of
     ([n, k], [_, m]) \<Rightarrow> tabulate [n, m] (\<lambda>ix.
        (\<Sum>l<k. snd a ! (ix ! 0 * k + l) * snd b ! (l * m + ix ! 1)) + snd c ! (ix ! 1))
   | _ \<Rightarrow> [])"

definition ref_inductor :: "real \<Rightarrow> (real, kv_cache) inductor" where
  "ref_inductor garbage =
     \<lparr>e_assert_size_stride = (\<lambda>x sz st. if sizes x = sz \<and> strides x = st then Some () else None),
      e_empty_strided_cuda = (\<lambda>sz st dt h. if st = cstride sz
        then Some (new_t h dt sz, alloc h (replicate (prod_list sz) garbage)) else None),
      e_reinterpret_tensor = (\<lambda>x sz st d. Some (x\<lparr>sizes := sz, strides := st, offset := offset x + d\<rparr>)),
      e_mm = (\<lambda>a b out h. case (sizes a, sizes b) of
         ([n, k], [k', m]) \<Rightarrow> if k = k' \<and> sizes out = [n, m] \<and> dtype a = dtype b \<and> dtype out = dtype a
           then Some (put h out (ref_mm_val (tv h a) (tv h b))) else None
       | _ \<Rightarrow> None),
      e_addmm = (\<lambda>c a b alpha beta out h. case (sizes a, sizes b) of
         ([n, k], [k', m]) \<Rightarrow> if k = k' \<and> sizes out = [n, m] \<and> sizes c = [m] \<and> alpha = 1 \<and> beta = 1 \<and>
             dtype a = dtype b \<and> dtype c = dtype a \<and> dtype out = dtype a
           then Some (put h out (ref_addmm_val (tv h c) (tv h a) (tv h b))) else None
       | _ \<Rightarrow> None),
      e_grid1d = (\<lambda>N. (1024, rev (grid (int N) 1024))),
      mm_val = ref_mm_val, addmm_val = ref_addmm_val\<rparr>"

lemma nth_transposed: "j < m \<Longrightarrow> l < k \<Longrightarrow> transposed m k ws ! (l * m + j) = ws ! (j * k + l)"
  using nth_tabulate_flat [of "[k, m]" "[l, j]" "\<lambda>ix. ws ! (ix ! 1 * k + ix ! 0)"]
  by (simp add: transposed_def)

lemma ref_mm_linear:
  "ref_mm_val ([n, k], xs) ([k, m], transposed m k ws) = ref_linear ([n, k], xs) ([m, k], ws) None"
  by (auto simp: ref_mm_val_def ref_linear_def idx_ok2 nth_transposed intro!: tabulate_cong sum.cong)

lemma ref_addmm_linear:
  "ref_addmm_val ([m], bs) ([n, k], xs) ([k, m], transposed m k ws) = ref_linear ([n, k], xs) ([m, k], ws) (Some ([m], bs))"
  by (auto simp: ref_addmm_val_def ref_linear_def idx_ok2 nth_transposed intro!: tabulate_cong sum.cong)

interpretation refi: inductor_api "ref_torch g" "ref_kernels g" "ref_inductor g" ex_scalars for g
proof (unfold_locales, goal_cases)
  case (8 N)
  then show ?case using ex_schedule [of 1024 N] by (simp add: ref_inductor_def)
qed (simp_all add: ref_inductor_def ref_kernels_def ref_mm_linear ref_addmm_linear ex_scalars_def del: One_nat_def)

end
