(* ===== verification/Vllm_Graph_Layers.thy ===== *)
theory Vllm_Graph_Layers
  imports Vllm_Graph
begin

text \<open>
  The remaining submodules of the traced graph and the top-level forward. The graph is
  unrolled over the 24 decoder layers: submodule \<open>2 k + 1\<close> is the attention of layer \<open>k\<close>,
  submodule \<open>2 k + 2\<close> the rest of layer \<open>k\<close> and the projections of layer \<open>k + 1\<close>. The
  arguments of \<open>forward\<close> that belong to layer \<open>i\<close> are gathered in the record \<open>L i\<close>.
\<close>

definition submod_3 ::
  "('a, 'k) torch \<Rightarrow> tensor \<Rightarrow> nat \<Rightarrow> tensor \<Rightarrow> tensor \<Rightarrow> tensor \<Rightarrow>
   ('a, 'k) store \<Rightarrow> (unit \<times> ('a, 'k) store) option" where
  "submod_3 T query_5 s0 key_5 value_1 output_3 h = do {
  h \<leftarrow> t_unified_attention_with_output T query_5 key_5 value_1 output_3
      ''model.layers.1.self_attn.attn'' h;
  Some ((), h)}"

definition submod_4 ::
  "('a, 'k) torch \<Rightarrow> tensor \<Rightarrow> nat \<Rightarrow> tensor \<Rightarrow> tensor \<Rightarrow> tensor \<Rightarrow> tensor \<Rightarrow> tensor \<Rightarrow> tensor \<Rightarrow> tensor \<Rightarrow> tensor \<Rightarrow> tensor \<Rightarrow> tensor \<Rightarrow>
   ('a, 'k) store \<Rightarrow> ((tensor \<times> tensor \<times> tensor \<times> tensor) \<times> ('a, 'k) store) option" where
  "submod_4 T output_3 s0 layers_1_self_attn_o_proj_weight
      layers_1_post_attention_layernorm_weight output_parallel layers_1_mlp_gate_up_proj_weight
      layers_1_mlp_down_proj_weight layers_2_input_layernorm_weight
      layers_2_self_attn_qkv_proj_weight layers_2_self_attn_qkv_proj_bias l_positions
      layers_0_self_attn_rotary_emb_cos_sin_cache h = do {
  view \<leftarrow> t_view T output_3 [-1, 1024];
  view_1 \<leftarrow> t_view T view [-1, 1024];
  (linear, h) \<leftarrow> t_linear T view layers_1_self_attn_o_proj_weight None h;
  get_data_attr \<leftarrow> t_get_data_attr T layers_1_post_attention_layernorm_weight;
  h \<leftarrow> t_fused_add_rms_norm T linear output_parallel get_data_attr (1 / 1000000) h;
  view_2 \<leftarrow> t_view T linear [-1, 1024];
  (linear_1, h) \<leftarrow> t_linear T linear layers_1_mlp_gate_up_proj_weight None h;
  (empty, h) \<leftarrow> t_empty T [s0, 2816] BFloat16 (''cuda'', 0) h;
  h \<leftarrow> t_silu_and_mul T empty linear_1 h;
  view_3 \<leftarrow> t_view T empty [-1, 2816];
  (linear_2, h) \<leftarrow> t_linear T empty layers_1_mlp_down_proj_weight None h;
  get_data_attr_1 \<leftarrow> t_get_data_attr T layers_2_input_layernorm_weight;
  h \<leftarrow> t_fused_add_rms_norm T linear_2 output_parallel get_data_attr_1 (1 / 1000000)
      h;
  (linear_3, h) \<leftarrow> t_linear T linear_2 layers_2_self_attn_qkv_proj_weight (Some
      layers_2_self_attn_qkv_proj_bias) h;
  split \<leftarrow> t_split T linear_3 [1024, 1024, 1024] (-1);
  getitem \<leftarrow> py_nth split 0;
  getitem_1 \<leftarrow> py_nth split 1;
  getitem_2 \<leftarrow> py_nth split 2;
  (flatten, h) \<leftarrow> t_flatten T l_positions h;
  (index_select, h) \<leftarrow> t_index_select T layers_0_self_attn_rotary_emb_cos_sin_cache 0
      flatten h;
  chunk \<leftarrow> t_chunk T index_select 2 (-1);
  getitem_3 \<leftarrow> py_nth chunk 0;
  getitem_4 \<leftarrow> py_nth chunk 1;
  let size = sizes getitem;
  view_4 \<leftarrow> t_view T getitem [int s0, -1, 64];
  getitem_5 \<leftarrow> t_getitem_last T view_4 None (Some 64);
  getitem_6 \<leftarrow> t_getitem_last T view_4 (Some 64) None;
  unsqueeze \<leftarrow> t_unsqueeze T getitem_3 (-2);
  (to, h) \<leftarrow> t_to T unsqueeze BFloat16 h;
  unsqueeze_1 \<leftarrow> t_unsqueeze T getitem_4 (-2);
  (to_1, h) \<leftarrow> t_to T unsqueeze_1 BFloat16 h;
  chunk_1 \<leftarrow> t_chunk T getitem_5 2 (-1);
  getitem_7 \<leftarrow> py_nth chunk_1 0;
  getitem_8 \<leftarrow> py_nth chunk_1 1;
  (mul, h) \<leftarrow> t_mul T getitem_7 to h;
  (mul_1, h) \<leftarrow> t_mul T getitem_8 to_1 h;
  (sub, h) \<leftarrow> t_sub T mul mul_1 h;
  (mul_2, h) \<leftarrow> t_mul T getitem_8 to h;
  (mul_3, h) \<leftarrow> t_mul T getitem_7 to_1 h;
  (add, h) \<leftarrow> t_add T mul_2 mul_3 h;
  (cat, h) \<leftarrow> t_cat T [sub, add] (-1) h;
  (cat_1, h) \<leftarrow> t_cat T [cat, getitem_6] (-1) h;
  (reshape, h) \<leftarrow> t_reshape T cat_1 size h;
  let size_1 = sizes getitem_1;
  view_5 \<leftarrow> t_view T getitem_1 [int s0, -1, 64];
  getitem_9 \<leftarrow> t_getitem_last T view_5 None (Some 64);
  getitem_10 \<leftarrow> t_getitem_last T view_5 (Some 64) None;
  unsqueeze_2 \<leftarrow> t_unsqueeze T getitem_3 (-2);
  (to_2, h) \<leftarrow> t_to T unsqueeze_2 BFloat16 h;
  unsqueeze_3 \<leftarrow> t_unsqueeze T getitem_4 (-2);
  (to_3, h) \<leftarrow> t_to T unsqueeze_3 BFloat16 h;
  chunk_2 \<leftarrow> t_chunk T getitem_9 2 (-1);
  getitem_11 \<leftarrow> py_nth chunk_2 0;
  getitem_12 \<leftarrow> py_nth chunk_2 1;
  (mul_4, h) \<leftarrow> t_mul T getitem_11 to_2 h;
  (mul_5, h) \<leftarrow> t_mul T getitem_12 to_3 h;
  (sub_1, h) \<leftarrow> t_sub T mul_4 mul_5 h;
  (mul_6, h) \<leftarrow> t_mul T getitem_12 to_2 h;
  (mul_7, h) \<leftarrow> t_mul T getitem_11 to_3 h;
  (add_1, h) \<leftarrow> t_add T mul_6 mul_7 h;
  (cat_2, h) \<leftarrow> t_cat T [sub_1, add_1] (-1) h;
  (cat_3, h) \<leftarrow> t_cat T [cat_2, getitem_10] (-1) h;
  (reshape_1, h) \<leftarrow> t_reshape T cat_3 size_1 h;
  let size_2 = sizes reshape;
  (empty_1, h) \<leftarrow> t_empty T size_2 BFloat16 (''cuda'', 0) h;
  view_6 \<leftarrow> t_view T reshape [-1, 16, 64];
  view_7 \<leftarrow> t_view T empty_1 [-1, 16, 64];
  view_8 \<leftarrow> t_view T reshape_1 [-1, 16, 64];
  view_9 \<leftarrow> t_view T getitem_2 [-1, 16, 64];
  Some ((view_6, view_8, view_9, view_7), h)}"

definition submod_5 ::
  "('a, 'k) torch \<Rightarrow> tensor \<Rightarrow> nat \<Rightarrow> tensor \<Rightarrow> tensor \<Rightarrow> tensor \<Rightarrow>
   ('a, 'k) store \<Rightarrow> (unit \<times> ('a, 'k) store) option" where
  "submod_5 T query_8 s0 key_8 value_2 output_5 h = do {
  h \<leftarrow> t_unified_attention_with_output T query_8 key_8 value_2 output_5
      ''model.layers.2.self_attn.attn'' h;
  Some ((), h)}"

definition submod_6 ::
  "('a, 'k) torch \<Rightarrow> tensor \<Rightarrow> nat \<Rightarrow> tensor \<Rightarrow> tensor \<Rightarrow> tensor \<Rightarrow> tensor \<Rightarrow> tensor \<Rightarrow> tensor \<Rightarrow> tensor \<Rightarrow> tensor \<Rightarrow> tensor \<Rightarrow> tensor \<Rightarrow>
   ('a, 'k) store \<Rightarrow> ((tensor \<times> tensor \<times> tensor \<times> tensor) \<times> ('a, 'k) store) option" where
  "submod_6 T output_5 s0 layers_2_self_attn_o_proj_weight
      layers_2_post_attention_layernorm_weight output_parallel layers_2_mlp_gate_up_proj_weight
      layers_2_mlp_down_proj_weight layers_3_input_layernorm_weight
      layers_3_self_attn_qkv_proj_weight layers_3_self_attn_qkv_proj_bias l_positions
      layers_0_self_attn_rotary_emb_cos_sin_cache h = do {
  view \<leftarrow> t_view T output_5 [-1, 1024];
  view_1 \<leftarrow> t_view T view [-1, 1024];
  (linear, h) \<leftarrow> t_linear T view layers_2_self_attn_o_proj_weight None h;
  get_data_attr \<leftarrow> t_get_data_attr T layers_2_post_attention_layernorm_weight;
  h \<leftarrow> t_fused_add_rms_norm T linear output_parallel get_data_attr (1 / 1000000) h;
  view_2 \<leftarrow> t_view T linear [-1, 1024];
  (linear_1, h) \<leftarrow> t_linear T linear layers_2_mlp_gate_up_proj_weight None h;
  (empty, h) \<leftarrow> t_empty T [s0, 2816] BFloat16 (''cuda'', 0) h;
  h \<leftarrow> t_silu_and_mul T empty linear_1 h;
  view_3 \<leftarrow> t_view T empty [-1, 2816];
  (linear_2, h) \<leftarrow> t_linear T empty layers_2_mlp_down_proj_weight None h;
  get_data_attr_1 \<leftarrow> t_get_data_attr T layers_3_input_layernorm_weight;
  h \<leftarrow> t_fused_add_rms_norm T linear_2 output_parallel get_data_attr_1 (1 / 1000000)
      h;
  (linear_3, h) \<leftarrow> t_linear T linear_2 layers_3_self_attn_qkv_proj_weight (Some
      layers_3_self_attn_qkv_proj_bias) h;
  split \<leftarrow> t_split T linear_3 [1024, 1024, 1024] (-1);
  getitem \<leftarrow> py_nth split 0;
  getitem_1 \<leftarrow> py_nth split 1;
  getitem_2 \<leftarrow> py_nth split 2;
  (flatten, h) \<leftarrow> t_flatten T l_positions h;
  (index_select, h) \<leftarrow> t_index_select T layers_0_self_attn_rotary_emb_cos_sin_cache 0
      flatten h;
  chunk \<leftarrow> t_chunk T index_select 2 (-1);
  getitem_3 \<leftarrow> py_nth chunk 0;
  getitem_4 \<leftarrow> py_nth chunk 1;
  let size = sizes getitem;
  view_4 \<leftarrow> t_view T getitem [int s0, -1, 64];
  getitem_5 \<leftarrow> t_getitem_last T view_4 None (Some 64);
  getitem_6 \<leftarrow> t_getitem_last T view_4 (Some 64) None;
  unsqueeze \<leftarrow> t_unsqueeze T getitem_3 (-2);
  (to, h) \<leftarrow> t_to T unsqueeze BFloat16 h;
  unsqueeze_1 \<leftarrow> t_unsqueeze T getitem_4 (-2);
  (to_1, h) \<leftarrow> t_to T unsqueeze_1 BFloat16 h;
  chunk_1 \<leftarrow> t_chunk T getitem_5 2 (-1);
  getitem_7 \<leftarrow> py_nth chunk_1 0;
  getitem_8 \<leftarrow> py_nth chunk_1 1;
  (mul, h) \<leftarrow> t_mul T getitem_7 to h;
  (mul_1, h) \<leftarrow> t_mul T getitem_8 to_1 h;
  (sub, h) \<leftarrow> t_sub T mul mul_1 h;
  (mul_2, h) \<leftarrow> t_mul T getitem_8 to h;
  (mul_3, h) \<leftarrow> t_mul T getitem_7 to_1 h;
  (add, h) \<leftarrow> t_add T mul_2 mul_3 h;
  (cat, h) \<leftarrow> t_cat T [sub, add] (-1) h;
  (cat_1, h) \<leftarrow> t_cat T [cat, getitem_6] (-1) h;
  (reshape, h) \<leftarrow> t_reshape T cat_1 size h;
  let size_1 = sizes getitem_1;
  view_5 \<leftarrow> t_view T getitem_1 [int s0, -1, 64];
  getitem_9 \<leftarrow> t_getitem_last T view_5 None (Some 64);
  getitem_10 \<leftarrow> t_getitem_last T view_5 (Some 64) None;
  unsqueeze_2 \<leftarrow> t_unsqueeze T getitem_3 (-2);
  (to_2, h) \<leftarrow> t_to T unsqueeze_2 BFloat16 h;
  unsqueeze_3 \<leftarrow> t_unsqueeze T getitem_4 (-2);
  (to_3, h) \<leftarrow> t_to T unsqueeze_3 BFloat16 h;
  chunk_2 \<leftarrow> t_chunk T getitem_9 2 (-1);
  getitem_11 \<leftarrow> py_nth chunk_2 0;
  getitem_12 \<leftarrow> py_nth chunk_2 1;
  (mul_4, h) \<leftarrow> t_mul T getitem_11 to_2 h;
  (mul_5, h) \<leftarrow> t_mul T getitem_12 to_3 h;
  (sub_1, h) \<leftarrow> t_sub T mul_4 mul_5 h;
  (mul_6, h) \<leftarrow> t_mul T getitem_12 to_2 h;
  (mul_7, h) \<leftarrow> t_mul T getitem_11 to_3 h;
  (add_1, h) \<leftarrow> t_add T mul_6 mul_7 h;
  (cat_2, h) \<leftarrow> t_cat T [sub_1, add_1] (-1) h;
  (cat_3, h) \<leftarrow> t_cat T [cat_2, getitem_10] (-1) h;
  (reshape_1, h) \<leftarrow> t_reshape T cat_3 size_1 h;
  let size_2 = sizes reshape;
  (empty_1, h) \<leftarrow> t_empty T size_2 BFloat16 (''cuda'', 0) h;
  view_6 \<leftarrow> t_view T reshape [-1, 16, 64];
  view_7 \<leftarrow> t_view T empty_1 [-1, 16, 64];
  view_8 \<leftarrow> t_view T reshape_1 [-1, 16, 64];
  view_9 \<leftarrow> t_view T getitem_2 [-1, 16, 64];
  Some ((view_6, view_8, view_9, view_7), h)}"

definition submod_7 ::
  "('a, 'k) torch \<Rightarrow> tensor \<Rightarrow> nat \<Rightarrow> tensor \<Rightarrow> tensor \<Rightarrow> tensor \<Rightarrow>
   ('a, 'k) store \<Rightarrow> (unit \<times> ('a, 'k) store) option" where
  "submod_7 T query_11 s0 key_11 value_3 output_7 h = do {
  h \<leftarrow> t_unified_attention_with_output T query_11 key_11 value_3 output_7
      ''model.layers.3.self_attn.attn'' h;
  Some ((), h)}"

definition submod_8 ::
  "('a, 'k) torch \<Rightarrow> tensor \<Rightarrow> nat \<Rightarrow> tensor \<Rightarrow> tensor \<Rightarrow> tensor \<Rightarrow> tensor \<Rightarrow> tensor \<Rightarrow> tensor \<Rightarrow> tensor \<Rightarrow> tensor \<Rightarrow> tensor \<Rightarrow> tensor \<Rightarrow>
   ('a, 'k) store \<Rightarrow> ((tensor \<times> tensor \<times> tensor \<times> tensor) \<times> ('a, 'k) store) option" where
  "submod_8 T output_7 s0 layers_3_self_attn_o_proj_weight
      layers_3_post_attention_layernorm_weight output_parallel layers_3_mlp_gate_up_proj_weight
      layers_3_mlp_down_proj_weight layers_4_input_layernorm_weight
      layers_4_self_attn_qkv_proj_weight layers_4_self_attn_qkv_proj_bias l_positions
      layers_0_self_attn_rotary_emb_cos_sin_cache h = do {
  view \<leftarrow> t_view T output_7 [-1, 1024];
  view_1 \<leftarrow> t_view T view [-1, 1024];
  (linear, h) \<leftarrow> t_linear T view layers_3_self_attn_o_proj_weight None h;
  get_data_attr \<leftarrow> t_get_data_attr T layers_3_post_attention_layernorm_weight;
  h \<leftarrow> t_fused_add_rms_norm T linear output_parallel get_data_attr (1 / 1000000) h;
  view_2 \<leftarrow> t_view T linear [-1, 1024];
  (linear_1, h) \<leftarrow> t_linear T linear layers_3_mlp_gate_up_proj_weight None h;
  (empty, h) \<leftarrow> t_empty T [s0, 2816] BFloat16 (''cuda'', 0) h;
  h \<leftarrow> t_silu_and_mul T empty linear_1 h;
  view_3 \<leftarrow> t_view T empty [-1, 2816];
  (linear_2, h) \<leftarrow> t_linear T empty layers_3_mlp_down_proj_weight None h;
  get_data_attr_1 \<leftarrow> t_get_data_attr T layers_4_input_layernorm_weight;
  h \<leftarrow> t_fused_add_rms_norm T linear_2 output_parallel get_data_attr_1 (1 / 1000000)
      h;
  (linear_3, h) \<leftarrow> t_linear T linear_2 layers_4_self_attn_qkv_proj_weight (Some
      layers_4_self_attn_qkv_proj_bias) h;
  split \<leftarrow> t_split T linear_3 [1024, 1024, 1024] (-1);
  getitem \<leftarrow> py_nth split 0;
  getitem_1 \<leftarrow> py_nth split 1;
  getitem_2 \<leftarrow> py_nth split 2;
  (flatten, h) \<leftarrow> t_flatten T l_positions h;
  (index_select, h) \<leftarrow> t_index_select T layers_0_self_attn_rotary_emb_cos_sin_cache 0
      flatten h;
  chunk \<leftarrow> t_chunk T index_select 2 (-1);
  getitem_3 \<leftarrow> py_nth chunk 0;
  getitem_4 \<leftarrow> py_nth chunk 1;
  let size = sizes getitem;
  view_4 \<leftarrow> t_view T getitem [int s0, -1, 64];
  getitem_5 \<leftarrow> t_getitem_last T view_4 None (Some 64);
  getitem_6 \<leftarrow> t_getitem_last T view_4 (Some 64) None;
  unsqueeze \<leftarrow> t_unsqueeze T getitem_3 (-2);
  (to, h) \<leftarrow> t_to T unsqueeze BFloat16 h;
  unsqueeze_1 \<leftarrow> t_unsqueeze T getitem_4 (-2);
  (to_1, h) \<leftarrow> t_to T unsqueeze_1 BFloat16 h;
  chunk_1 \<leftarrow> t_chunk T getitem_5 2 (-1);
  getitem_7 \<leftarrow> py_nth chunk_1 0;
  getitem_8 \<leftarrow> py_nth chunk_1 1;
  (mul, h) \<leftarrow> t_mul T getitem_7 to h;
  (mul_1, h) \<leftarrow> t_mul T getitem_8 to_1 h;
  (sub, h) \<leftarrow> t_sub T mul mul_1 h;
  (mul_2, h) \<leftarrow> t_mul T getitem_8 to h;
  (mul_3, h) \<leftarrow> t_mul T getitem_7 to_1 h;
  (add, h) \<leftarrow> t_add T mul_2 mul_3 h;
  (cat, h) \<leftarrow> t_cat T [sub, add] (-1) h;
  (cat_1, h) \<leftarrow> t_cat T [cat, getitem_6] (-1) h;
  (reshape, h) \<leftarrow> t_reshape T cat_1 size h;
  let size_1 = sizes getitem_1;
  view_5 \<leftarrow> t_view T getitem_1 [int s0, -1, 64];
  getitem_9 \<leftarrow> t_getitem_last T view_5 None (Some 64);
  getitem_10 \<leftarrow> t_getitem_last T view_5 (Some 64) None;
  unsqueeze_2 \<leftarrow> t_unsqueeze T getitem_3 (-2);
  (to_2, h) \<leftarrow> t_to T unsqueeze_2 BFloat16 h;
  unsqueeze_3 \<leftarrow> t_unsqueeze T getitem_4 (-2);
  (to_3, h) \<leftarrow> t_to T unsqueeze_3 BFloat16 h;
  chunk_2 \<leftarrow> t_chunk T getitem_9 2 (-1);
  getitem_11 \<leftarrow> py_nth chunk_2 0;
  getitem_12 \<leftarrow> py_nth chunk_2 1;
  (mul_4, h) \<leftarrow> t_mul T getitem_11 to_2 h;
  (mul_5, h) \<leftarrow> t_mul T getitem_12 to_3 h;
  (sub_1, h) \<leftarrow> t_sub T mul_4 mul_5 h;
  (mul_6, h) \<leftarrow> t_mul T getitem_12 to_2 h;
  (mul_7, h) \<leftarrow> t_mul T getitem_11 to_3 h;
  (add_1, h) \<leftarrow> t_add T mul_6 mul_7 h;
  (cat_2, h) \<leftarrow> t_cat T [sub_1, add_1] (-1) h;
  (cat_3, h) \<leftarrow> t_cat T [cat_2, getitem_10] (-1) h;
  (reshape_1, h) \<leftarrow> t_reshape T cat_3 size_1 h;
  let size_2 = sizes reshape;
  (empty_1, h) \<leftarrow> t_empty T size_2 BFloat16 (''cuda'', 0) h;
  view_6 \<leftarrow> t_view T reshape [-1, 16, 64];
  view_7 \<leftarrow> t_view T empty_1 [-1, 16, 64];
  view_8 \<leftarrow> t_view T reshape_1 [-1, 16, 64];
  view_9 \<leftarrow> t_view T getitem_2 [-1, 16, 64];
  Some ((view_6, view_8, view_9, view_7), h)}"

definition submod_9 ::
  "('a, 'k) torch \<Rightarrow> tensor \<Rightarrow> nat \<Rightarrow> tensor \<Rightarrow> tensor \<Rightarrow> tensor \<Rightarrow>
   ('a, 'k) store \<Rightarrow> (unit \<times> ('a, 'k) store) option" where
  "submod_9 T query_14 s0 key_14 value_4 output_9 h = do {
  h \<leftarrow> t_unified_attention_with_output T query_14 key_14 value_4 output_9
      ''model.layers.4.self_attn.attn'' h;
  Some ((), h)}"

definition submod_10 ::
  "('a, 'k) torch \<Rightarrow> tensor \<Rightarrow> nat \<Rightarrow> tensor \<Rightarrow> tensor \<Rightarrow> tensor \<Rightarrow> tensor \<Rightarrow> tensor \<Rightarrow> tensor \<Rightarrow> tensor \<Rightarrow> tensor \<Rightarrow> tensor \<Rightarrow> tensor \<Rightarrow>
   ('a, 'k) store \<Rightarrow> ((tensor \<times> tensor \<times> tensor \<times> tensor) \<times> ('a, 'k) store) option" where
  "submod_10 T output_9 s0 layers_4_self_attn_o_proj_weight
      layers_4_post_attention_layernorm_weight output_parallel layers_4_mlp_gate_up_proj_weight
      layers_4_mlp_down_proj_weight layers_5_input_layernorm_weight
      layers_5_self_attn_qkv_proj_weight layers_5_self_attn_qkv_proj_bias l_positions
      layers_0_self_attn_rotary_emb_cos_sin_cache h = do {
  view \<leftarrow> t_view T output_9 [-1, 1024];
  view_1 \<leftarrow> t_view T view [-1, 1024];
  (linear, h) \<leftarrow> t_linear T view layers_4_self_attn_o_proj_weight None h;
  get_data_attr \<leftarrow> t_get_data_attr T layers_4_post_attention_layernorm_weight;
  h \<leftarrow> t_fused_add_rms_norm T linear output_parallel get_data_attr (1 / 1000000) h;
  view_2 \<leftarrow> t_view T linear [-1, 1024];
  (linear_1, h) \<leftarrow> t_linear T linear layers_4_mlp_gate_up_proj_weight None h;
  (empty, h) \<leftarrow> t_empty T [s0, 2816] BFloat16 (''cuda'', 0) h;
  h \<leftarrow> t_silu_and_mul T empty linear_1 h;
  view_3 \<leftarrow> t_view T empty [-1, 2816];
  (linear_2, h) \<leftarrow> t_linear T empty layers_4_mlp_down_proj_weight None h;
  get_data_attr_1 \<leftarrow> t_get_data_attr T layers_5_input_layernorm_weight;
  h \<leftarrow> t_fused_add_rms_norm T linear_2 output_parallel get_data_attr_1 (1 / 1000000)
      h;
  (linear_3, h) \<leftarrow> t_linear T linear_2 layers_5_self_attn_qkv_proj_weight (Some
      layers_5_self_attn_qkv_proj_bias) h;
  split \<leftarrow> t_split T linear_3 [1024, 1024, 1024] (-1);
  getitem \<leftarrow> py_nth split 0;
  getitem_1 \<leftarrow> py_nth split 1;
  getitem_2 \<leftarrow> py_nth split 2;
  (flatten, h) \<leftarrow> t_flatten T l_positions h;
  (index_select, h) \<leftarrow> t_index_select T layers_0_self_attn_rotary_emb_cos_sin_cache 0
      flatten h;
  chunk \<leftarrow> t_chunk T index_select 2 (-1);
  getitem_3 \<leftarrow> py_nth chunk 0;
  getitem_4 \<leftarrow> py_nth chunk 1;
  let size = sizes getitem;
  view_4 \<leftarrow> t_view T getitem [int s0, -1, 64];
  getitem_5 \<leftarrow> t_getitem_last T view_4 None (Some 64);
  getitem_6 \<leftarrow> t_getitem_last T view_4 (Some 64) None;
  unsqueeze \<leftarrow> t_unsqueeze T getitem_3 (-2);
  (to, h) \<leftarrow> t_to T unsqueeze BFloat16 h;
  unsqueeze_1 \<leftarrow> t_unsqueeze T getitem_4 (-2);
  (to_1, h) \<leftarrow> t_to T unsqueeze_1 BFloat16 h;
  chunk_1 \<leftarrow> t_chunk T getitem_5 2 (-1);
  getitem_7 \<leftarrow> py_nth chunk_1 0;
  getitem_8 \<leftarrow> py_nth chunk_1 1;
  (mul, h) \<leftarrow> t_mul T getitem_7 to h;
  (mul_1, h) \<leftarrow> t_mul T getitem_8 to_1 h;
  (sub, h) \<leftarrow> t_sub T mul mul_1 h;
  (mul_2, h) \<leftarrow> t_mul T getitem_8 to h;
  (mul_3, h) \<leftarrow> t_mul T getitem_7 to_1 h;
  (add, h) \<leftarrow> t_add T mul_2 mul_3 h;
  (cat, h) \<leftarrow> t_cat T [sub, add] (-1) h;
  (cat_1, h) \<leftarrow> t_cat T [cat, getitem_6] (-1) h;
  (reshape, h) \<leftarrow> t_reshape T cat_1 size h;
  let size_1 = sizes getitem_1;
  view_5 \<leftarrow> t_view T getitem_1 [int s0, -1, 64];
  getitem_9 \<leftarrow> t_getitem_last T view_5 None (Some 64);
  getitem_10 \<leftarrow> t_getitem_last T view_5 (Some 64) None;
  unsqueeze_2 \<leftarrow> t_unsqueeze T getitem_3 (-2);
  (to_2, h) \<leftarrow> t_to T unsqueeze_2 BFloat16 h;
  unsqueeze_3 \<leftarrow> t_unsqueeze T getitem_4 (-2);
  (to_3, h) \<leftarrow> t_to T unsqueeze_3 BFloat16 h;
  chunk_2 \<leftarrow> t_chunk T getitem_9 2 (-1);
  getitem_11 \<leftarrow> py_nth chunk_2 0;
  getitem_12 \<leftarrow> py_nth chunk_2 1;
  (mul_4, h) \<leftarrow> t_mul T getitem_11 to_2 h;
  (mul_5, h) \<leftarrow> t_mul T getitem_12 to_3 h;
  (sub_1, h) \<leftarrow> t_sub T mul_4 mul_5 h;
  (mul_6, h) \<leftarrow> t_mul T getitem_12 to_2 h;
  (mul_7, h) \<leftarrow> t_mul T getitem_11 to_3 h;
  (add_1, h) \<leftarrow> t_add T mul_6 mul_7 h;
  (cat_2, h) \<leftarrow> t_cat T [sub_1, add_1] (-1) h;
  (cat_3, h) \<leftarrow> t_cat T [cat_2, getitem_10] (-1) h;
  (reshape_1, h) \<leftarrow> t_reshape T cat_3 size_1 h;
  let size_2 = sizes reshape;
  (empty_1, h) \<leftarrow> t_empty T size_2 BFloat16 (''cuda'', 0) h;
  view_6 \<leftarrow> t_view T reshape [-1, 16, 64];
  view_7 \<leftarrow> t_view T empty_1 [-1, 16, 64];
  view_8 \<leftarrow> t_view T reshape_1 [-1, 16, 64];
  view_9 \<leftarrow> t_view T getitem_2 [-1, 16, 64];
  Some ((view_6, view_8, view_9, view_7), h)}"

definition submod_11 ::
  "('a, 'k) torch \<Rightarrow> tensor \<Rightarrow> nat \<Rightarrow> tensor \<Rightarrow> tensor \<Rightarrow> tensor \<Rightarrow>
   ('a, 'k) store \<Rightarrow> (unit \<times> ('a, 'k) store) option" where
  "submod_11 T query_17 s0 key_17 value_5 output_11 h = do {
  h \<leftarrow> t_unified_attention_with_output T query_17 key_17 value_5 output_11
      ''model.layers.5.self_attn.attn'' h;
  Some ((), h)}"

definition submod_12 ::
  "('a, 'k) torch \<Rightarrow> tensor \<Rightarrow> nat \<Rightarrow> tensor \<Rightarrow> tensor \<Rightarrow> tensor \<Rightarrow> tensor \<Rightarrow> tensor \<Rightarrow> tensor \<Rightarrow> tensor \<Rightarrow> tensor \<Rightarrow> tensor \<Rightarrow> tensor \<Rightarrow>
   ('a, 'k) store \<Rightarrow> ((tensor \<times> tensor \<times> tensor \<times> tensor) \<times> ('a, 'k) store) option" where
  "submod_12 T output_11 s0 layers_5_self_attn_o_proj_weight
      layers_5_post_attention_layernorm_weight output_parallel layers_5_mlp_gate_up_proj_weight
      layers_5_mlp_down_proj_weight layers_6_input_layernorm_weight
      layers_6_self_attn_qkv_proj_weight layers_6_self_attn_qkv_proj_bias l_positions
      layers_0_self_attn_rotary_emb_cos_sin_cache h = do {
  view \<leftarrow> t_view T output_11 [-1, 1024];
  view_1 \<leftarrow> t_view T view [-1, 1024];
  (linear, h) \<leftarrow> t_linear T view layers_5_self_attn_o_proj_weight None h;
  get_data_attr \<leftarrow> t_get_data_attr T layers_5_post_attention_layernorm_weight;
  h \<leftarrow> t_fused_add_rms_norm T linear output_parallel get_data_attr (1 / 1000000) h;
  view_2 \<leftarrow> t_view T linear [-1, 1024];
  (linear_1, h) \<leftarrow> t_linear T linear layers_5_mlp_gate_up_proj_weight None h;
  (empty, h) \<leftarrow> t_empty T [s0, 2816] BFloat16 (''cuda'', 0) h;
  h \<leftarrow> t_silu_and_mul T empty linear_1 h;
  view_3 \<leftarrow> t_view T empty [-1, 2816];
  (linear_2, h) \<leftarrow> t_linear T empty layers_5_mlp_down_proj_weight None h;
  get_data_attr_1 \<leftarrow> t_get_data_attr T layers_6_input_layernorm_weight;
  h \<leftarrow> t_fused_add_rms_norm T linear_2 output_parallel get_data_attr_1 (1 / 1000000)
      h;
  (linear_3, h) \<leftarrow> t_linear T linear_2 layers_6_self_attn_qkv_proj_weight (Some
      layers_6_self_attn_qkv_proj_bias) h;
  split \<leftarrow> t_split T linear_3 [1024, 1024, 1024] (-1);
  getitem \<leftarrow> py_nth split 0;
  getitem_1 \<leftarrow> py_nth split 1;
  getitem_2 \<leftarrow> py_nth split 2;
  (flatten, h) \<leftarrow> t_flatten T l_positions h;
  (index_select, h) \<leftarrow> t_index_select T layers_0_self_attn_rotary_emb_cos_sin_cache 0
      flatten h;
  chunk \<leftarrow> t_chunk T index_select 2 (-1);
  getitem_3 \<leftarrow> py_nth chunk 0;
  getitem_4 \<leftarrow> py_nth chunk 1;
  let size = sizes getitem;
  view_4 \<leftarrow> t_view T getitem [int s0, -1, 64];
  getitem_5 \<leftarrow> t_getitem_last T view_4 None (Some 64);
  getitem_6 \<leftarrow> t_getitem_last T view_4 (Some 64) None;
  unsqueeze \<leftarrow> t_unsqueeze T getitem_3 (-2);
  (to, h) \<leftarrow> t_to T unsqueeze BFloat16 h;
  unsqueeze_1 \<leftarrow> t_unsqueeze T getitem_4 (-2);
  (to_1, h) \<leftarrow> t_to T unsqueeze_1 BFloat16 h;
  chunk_1 \<leftarrow> t_chunk T getitem_5 2 (-1);
  getitem_7 \<leftarrow> py_nth chunk_1 0;
  getitem_8 \<leftarrow> py_nth chunk_1 1;
  (mul, h) \<leftarrow> t_mul T getitem_7 to h;
  (mul_1, h) \<leftarrow> t_mul T getitem_8 to_1 h;
  (sub, h) \<leftarrow> t_sub T mul mul_1 h;
  (mul_2, h) \<leftarrow> t_mul T getitem_8 to h;
  (mul_3, h) \<leftarrow> t_mul T getitem_7 to_1 h;
  (add, h) \<leftarrow> t_add T mul_2 mul_3 h;
  (cat, h) \<leftarrow> t_cat T [sub, add] (-1) h;
  (cat_1, h) \<leftarrow> t_cat T [cat, getitem_6] (-1) h;
  (reshape, h) \<leftarrow> t_reshape T cat_1 size h;
  let size_1 = sizes getitem_1;
  view_5 \<leftarrow> t_view T getitem_1 [int s0, -1, 64];
  getitem_9 \<leftarrow> t_getitem_last T view_5 None (Some 64);
  getitem_10 \<leftarrow> t_getitem_last T view_5 (Some 64) None;
  unsqueeze_2 \<leftarrow> t_unsqueeze T getitem_3 (-2);
  (to_2, h) \<leftarrow> t_to T unsqueeze_2 BFloat16 h;
  unsqueeze_3 \<leftarrow> t_unsqueeze T getitem_4 (-2);
  (to_3, h) \<leftarrow> t_to T unsqueeze_3 BFloat16 h;
  chunk_2 \<leftarrow> t_chunk T getitem_9 2 (-1);
  getitem_11 \<leftarrow> py_nth chunk_2 0;
  getitem_12 \<leftarrow> py_nth chunk_2 1;
  (mul_4, h) \<leftarrow> t_mul T getitem_11 to_2 h;
  (mul_5, h) \<leftarrow> t_mul T getitem_12 to_3 h;
  (sub_1, h) \<leftarrow> t_sub T mul_4 mul_5 h;
  (mul_6, h) \<leftarrow> t_mul T getitem_12 to_2 h;
  (mul_7, h) \<leftarrow> t_mul T getitem_11 to_3 h;
  (add_1, h) \<leftarrow> t_add T mul_6 mul_7 h;
  (cat_2, h) \<leftarrow> t_cat T [sub_1, add_1] (-1) h;
  (cat_3, h) \<leftarrow> t_cat T [cat_2, getitem_10] (-1) h;
  (reshape_1, h) \<leftarrow> t_reshape T cat_3 size_1 h;
  let size_2 = sizes reshape;
  (empty_1, h) \<leftarrow> t_empty T size_2 BFloat16 (''cuda'', 0) h;
  view_6 \<leftarrow> t_view T reshape [-1, 16, 64];
  view_7 \<leftarrow> t_view T empty_1 [-1, 16, 64];
  view_8 \<leftarrow> t_view T reshape_1 [-1, 16, 64];
  view_9 \<leftarrow> t_view T getitem_2 [-1, 16, 64];
  Some ((view_6, view_8, view_9, view_7), h)}"

definition submod_13 ::
  "('a, 'k) torch \<Rightarrow> tensor \<Rightarrow> nat \<Rightarrow> tensor \<Rightarrow> tensor \<Rightarrow> tensor \<Rightarrow>
   ('a, 'k) store \<Rightarrow> (unit \<times> ('a, 'k) store) option" where
  "submod_13 T query_20 s0 key_20 value_6 output_13 h = do {
  h \<leftarrow> t_unified_attention_with_output T query_20 key_20 value_6 output_13
      ''model.layers.6.self_attn.attn'' h;
  Some ((), h)}"

definition submod_14 ::
  "('a, 'k) torch \<Rightarrow> tensor \<Rightarrow> nat \<Rightarrow> tensor \<Rightarrow> tensor \<Rightarrow> tensor \<Rightarrow> tensor \<Rightarrow> tensor \<Rightarrow> tensor \<Rightarrow> tensor \<Rightarrow> tensor \<Rightarrow> tensor \<Rightarrow> tensor \<Rightarrow>
   ('a, 'k) store \<Rightarrow> ((tensor \<times> tensor \<times> tensor \<times> tensor) \<times> ('a, 'k) store) option" where
  "submod_14 T output_13 s0 layers_6_self_attn_o_proj_weight
      layers_6_post_attention_layernorm_weight output_parallel layers_6_mlp_gate_up_proj_weight
      layers_6_mlp_down_proj_weight layers_7_input_layernorm_weight
      layers_7_self_attn_qkv_proj_weight layers_7_self_attn_qkv_proj_bias l_positions
      layers_0_self_attn_rotary_emb_cos_sin_cache h = do {
  view \<leftarrow> t_view T output_13 [-1, 1024];
  view_1 \<leftarrow> t_view T view [-1, 1024];
  (linear, h) \<leftarrow> t_linear T view layers_6_self_attn_o_proj_weight None h;
  get_data_attr \<leftarrow> t_get_data_attr T layers_6_post_attention_layernorm_weight;
  h \<leftarrow> t_fused_add_rms_norm T linear output_parallel get_data_attr (1 / 1000000) h;
  view_2 \<leftarrow> t_view T linear [-1, 1024];
  (linear_1, h) \<leftarrow> t_linear T linear layers_6_mlp_gate_up_proj_weight None h;
  (empty, h) \<leftarrow> t_empty T [s0, 2816] BFloat16 (''cuda'', 0) h;
  h \<leftarrow> t_silu_and_mul T empty linear_1 h;
  view_3 \<leftarrow> t_view T empty [-1, 2816];
  (linear_2, h) \<leftarrow> t_linear T empty layers_6_mlp_down_proj_weight None h;
  get_data_attr_1 \<leftarrow> t_get_data_attr T layers_7_input_layernorm_weight;
  h \<leftarrow> t_fused_add_rms_norm T linear_2 output_parallel get_data_attr_1 (1 / 1000000)
      h;
  (linear_3, h) \<leftarrow> t_linear T linear_2 layers_7_self_attn_qkv_proj_weight (Some
      layers_7_self_attn_qkv_proj_bias) h;
  split \<leftarrow> t_split T linear_3 [1024, 1024, 1024] (-1);
  getitem \<leftarrow> py_nth split 0;
  getitem_1 \<leftarrow> py_nth split 1;
  getitem_2 \<leftarrow> py_nth split 2;
  (flatten, h) \<leftarrow> t_flatten T l_positions h;
  (index_select, h) \<leftarrow> t_index_select T layers_0_self_attn_rotary_emb_cos_sin_cache 0
      flatten h;
  chunk \<leftarrow> t_chunk T index_select 2 (-1);
  getitem_3 \<leftarrow> py_nth chunk 0;
  getitem_4 \<leftarrow> py_nth chunk 1;
  let size = sizes getitem;
  view_4 \<leftarrow> t_view T getitem [int s0, -1, 64];
  getitem_5 \<leftarrow> t_getitem_last T view_4 None (Some 64);
  getitem_6 \<leftarrow> t_getitem_last T view_4 (Some 64) None;
  unsqueeze \<leftarrow> t_unsqueeze T getitem_3 (-2);
  (to, h) \<leftarrow> t_to T unsqueeze BFloat16 h;
  unsqueeze_1 \<leftarrow> t_unsqueeze T getitem_4 (-2);
  (to_1, h) \<leftarrow> t_to T unsqueeze_1 BFloat16 h;
  chunk_1 \<leftarrow> t_chunk T getitem_5 2 (-1);
  getitem_7 \<leftarrow> py_nth chunk_1 0;
  getitem_8 \<leftarrow> py_nth chunk_1 1;
  (mul, h) \<leftarrow> t_mul T getitem_7 to h;
  (mul_1, h) \<leftarrow> t_mul T getitem_8 to_1 h;
  (sub, h) \<leftarrow> t_sub T mul mul_1 h;
  (mul_2, h) \<leftarrow> t_mul T getitem_8 to h;
  (mul_3, h) \<leftarrow> t_mul T getitem_7 to_1 h;
  (add, h) \<leftarrow> t_add T mul_2 mul_3 h;
  (cat, h) \<leftarrow> t_cat T [sub, add] (-1) h;
  (cat_1, h) \<leftarrow> t_cat T [cat, getitem_6] (-1) h;
  (reshape, h) \<leftarrow> t_reshape T cat_1 size h;
  let size_1 = sizes getitem_1;
  view_5 \<leftarrow> t_view T getitem_1 [int s0, -1, 64];
  getitem_9 \<leftarrow> t_getitem_last T view_5 None (Some 64);
  getitem_10 \<leftarrow> t_getitem_last T view_5 (Some 64) None;
  unsqueeze_2 \<leftarrow> t_unsqueeze T getitem_3 (-2);
  (to_2, h) \<leftarrow> t_to T unsqueeze_2 BFloat16 h;
  unsqueeze_3 \<leftarrow> t_unsqueeze T getitem_4 (-2);
  (to_3, h) \<leftarrow> t_to T unsqueeze_3 BFloat16 h;
  chunk_2 \<leftarrow> t_chunk T getitem_9 2 (-1);
  getitem_11 \<leftarrow> py_nth chunk_2 0;
  getitem_12 \<leftarrow> py_nth chunk_2 1;
  (mul_4, h) \<leftarrow> t_mul T getitem_11 to_2 h;
  (mul_5, h) \<leftarrow> t_mul T getitem_12 to_3 h;
  (sub_1, h) \<leftarrow> t_sub T mul_4 mul_5 h;
  (mul_6, h) \<leftarrow> t_mul T getitem_12 to_2 h;
  (mul_7, h) \<leftarrow> t_mul T getitem_11 to_3 h;
  (add_1, h) \<leftarrow> t_add T mul_6 mul_7 h;
  (cat_2, h) \<leftarrow> t_cat T [sub_1, add_1] (-1) h;
  (cat_3, h) \<leftarrow> t_cat T [cat_2, getitem_10] (-1) h;
  (reshape_1, h) \<leftarrow> t_reshape T cat_3 size_1 h;
  let size_2 = sizes reshape;
  (empty_1, h) \<leftarrow> t_empty T size_2 BFloat16 (''cuda'', 0) h;
  view_6 \<leftarrow> t_view T reshape [-1, 16, 64];
  view_7 \<leftarrow> t_view T empty_1 [-1, 16, 64];
  view_8 \<leftarrow> t_view T reshape_1 [-1, 16, 64];
  view_9 \<leftarrow> t_view T getitem_2 [-1, 16, 64];
  Some ((view_6, view_8, view_9, view_7), h)}"

definition submod_15 ::
  "('a, 'k) torch \<Rightarrow> tensor \<Rightarrow> nat \<Rightarrow> tensor \<Rightarrow> tensor \<Rightarrow> tensor \<Rightarrow>
   ('a, 'k) store \<Rightarrow> (unit \<times> ('a, 'k) store) option" where
  "submod_15 T query_23 s0 key_23 value_7 output_15 h = do {
  h \<leftarrow> t_unified_attention_with_output T query_23 key_23 value_7 output_15
      ''model.layers.7.self_attn.attn'' h;
  Some ((), h)}"

definition submod_16 ::
  "('a, 'k) torch \<Rightarrow> tensor \<Rightarrow> nat \<Rightarrow> tensor \<Rightarrow> tensor \<Rightarrow> tensor \<Rightarrow> tensor \<Rightarrow> tensor \<Rightarrow> tensor \<Rightarrow> tensor \<Rightarrow> tensor \<Rightarrow> tensor \<Rightarrow> tensor \<Rightarrow>
   ('a, 'k) store \<Rightarrow> ((tensor \<times> tensor \<times> tensor \<times> tensor) \<times> ('a, 'k) store) option" where
  "submod_16 T output_15 s0 layers_7_self_attn_o_proj_weight
      layers_7_post_attention_layernorm_weight output_parallel layers_7_mlp_gate_up_proj_weight
      layers_7_mlp_down_proj_weight layers_8_input_layernorm_weight
      layers_8_self_attn_qkv_proj_weight layers_8_self_attn_qkv_proj_bias l_positions
      layers_0_self_attn_rotary_emb_cos_sin_cache h = do {
  view \<leftarrow> t_view T output_15 [-1, 1024];
  view_1 \<leftarrow> t_view T view [-1, 1024];
  (linear, h) \<leftarrow> t_linear T view layers_7_self_attn_o_proj_weight None h;
  get_data_attr \<leftarrow> t_get_data_attr T layers_7_post_attention_layernorm_weight;
  h \<leftarrow> t_fused_add_rms_norm T linear output_parallel get_data_attr (1 / 1000000) h;
  view_2 \<leftarrow> t_view T linear [-1, 1024];
  (linear_1, h) \<leftarrow> t_linear T linear layers_7_mlp_gate_up_proj_weight None h;
  (empty, h) \<leftarrow> t_empty T [s0, 2816] BFloat16 (''cuda'', 0) h;
  h \<leftarrow> t_silu_and_mul T empty linear_1 h;
  view_3 \<leftarrow> t_view T empty [-1, 2816];
  (linear_2, h) \<leftarrow> t_linear T empty layers_7_mlp_down_proj_weight None h;
  get_data_attr_1 \<leftarrow> t_get_data_attr T layers_8_input_layernorm_weight;
  h \<leftarrow> t_fused_add_rms_norm T linear_2 output_parallel get_data_attr_1 (1 / 1000000)
      h;
  (linear_3, h) \<leftarrow> t_linear T linear_2 layers_8_self_attn_qkv_proj_weight (Some
      layers_8_self_attn_qkv_proj_bias) h;
  split \<leftarrow> t_split T linear_3 [1024, 1024, 1024] (-1);
  getitem \<leftarrow> py_nth split 0;
  getitem_1 \<leftarrow> py_nth split 1;
  getitem_2 \<leftarrow> py_nth split 2;
  (flatten, h) \<leftarrow> t_flatten T l_positions h;
  (index_select, h) \<leftarrow> t_index_select T layers_0_self_attn_rotary_emb_cos_sin_cache 0
      flatten h;
  chunk \<leftarrow> t_chunk T index_select 2 (-1);
  getitem_3 \<leftarrow> py_nth chunk 0;
  getitem_4 \<leftarrow> py_nth chunk 1;
  let size = sizes getitem;
  view_4 \<leftarrow> t_view T getitem [int s0, -1, 64];
  getitem_5 \<leftarrow> t_getitem_last T view_4 None (Some 64);
  getitem_6 \<leftarrow> t_getitem_last T view_4 (Some 64) None;
  unsqueeze \<leftarrow> t_unsqueeze T getitem_3 (-2);
  (to, h) \<leftarrow> t_to T unsqueeze BFloat16 h;
  unsqueeze_1 \<leftarrow> t_unsqueeze T getitem_4 (-2);
  (to_1, h) \<leftarrow> t_to T unsqueeze_1 BFloat16 h;
  chunk_1 \<leftarrow> t_chunk T getitem_5 2 (-1);
  getitem_7 \<leftarrow> py_nth chunk_1 0;
  getitem_8 \<leftarrow> py_nth chunk_1 1;
  (mul, h) \<leftarrow> t_mul T getitem_7 to h;
  (mul_1, h) \<leftarrow> t_mul T getitem_8 to_1 h;
  (sub, h) \<leftarrow> t_sub T mul mul_1 h;
  (mul_2, h) \<leftarrow> t_mul T getitem_8 to h;
  (mul_3, h) \<leftarrow> t_mul T getitem_7 to_1 h;
  (add, h) \<leftarrow> t_add T mul_2 mul_3 h;
  (cat, h) \<leftarrow> t_cat T [sub, add] (-1) h;
  (cat_1, h) \<leftarrow> t_cat T [cat, getitem_6] (-1) h;
  (reshape, h) \<leftarrow> t_reshape T cat_1 size h;
  let size_1 = sizes getitem_1;
  view_5 \<leftarrow> t_view T getitem_1 [int s0, -1, 64];
  getitem_9 \<leftarrow> t_getitem_last T view_5 None (Some 64);
  getitem_10 \<leftarrow> t_getitem_last T view_5 (Some 64) None;
  unsqueeze_2 \<leftarrow> t_unsqueeze T getitem_3 (-2);
  (to_2, h) \<leftarrow> t_to T unsqueeze_2 BFloat16 h;
  unsqueeze_3 \<leftarrow> t_unsqueeze T getitem_4 (-2);
  (to_3, h) \<leftarrow> t_to T unsqueeze_3 BFloat16 h;
  chunk_2 \<leftarrow> t_chunk T getitem_9 2 (-1);
  getitem_11 \<leftarrow> py_nth chunk_2 0;
  getitem_12 \<leftarrow> py_nth chunk_2 1;
  (mul_4, h) \<leftarrow> t_mul T getitem_11 to_2 h;
  (mul_5, h) \<leftarrow> t_mul T getitem_12 to_3 h;
  (sub_1, h) \<leftarrow> t_sub T mul_4 mul_5 h;
  (mul_6, h) \<leftarrow> t_mul T getitem_12 to_2 h;
  (mul_7, h) \<leftarrow> t_mul T getitem_11 to_3 h;
  (add_1, h) \<leftarrow> t_add T mul_6 mul_7 h;
  (cat_2, h) \<leftarrow> t_cat T [sub_1, add_1] (-1) h;
  (cat_3, h) \<leftarrow> t_cat T [cat_2, getitem_10] (-1) h;
  (reshape_1, h) \<leftarrow> t_reshape T cat_3 size_1 h;
  let size_2 = sizes reshape;
  (empty_1, h) \<leftarrow> t_empty T size_2 BFloat16 (''cuda'', 0) h;
  view_6 \<leftarrow> t_view T reshape [-1, 16, 64];
  view_7 \<leftarrow> t_view T empty_1 [-1, 16, 64];
  view_8 \<leftarrow> t_view T reshape_1 [-1, 16, 64];
  view_9 \<leftarrow> t_view T getitem_2 [-1, 16, 64];
  Some ((view_6, view_8, view_9, view_7), h)}"

definition submod_17 ::
  "('a, 'k) torch \<Rightarrow> tensor \<Rightarrow> nat \<Rightarrow> tensor \<Rightarrow> tensor \<Rightarrow> tensor \<Rightarrow>
   ('a, 'k) store \<Rightarrow> (unit \<times> ('a, 'k) store) option" where
  "submod_17 T query_26 s0 key_26 value_8 output_17 h = do {
  h \<leftarrow> t_unified_attention_with_output T query_26 key_26 value_8 output_17
      ''model.layers.8.self_attn.attn'' h;
  Some ((), h)}"

definition submod_18 ::
  "('a, 'k) torch \<Rightarrow> tensor \<Rightarrow> nat \<Rightarrow> tensor \<Rightarrow> tensor \<Rightarrow> tensor \<Rightarrow> tensor \<Rightarrow> tensor \<Rightarrow> tensor \<Rightarrow> tensor \<Rightarrow> tensor \<Rightarrow> tensor \<Rightarrow> tensor \<Rightarrow>
   ('a, 'k) store \<Rightarrow> ((tensor \<times> tensor \<times> tensor \<times> tensor) \<times> ('a, 'k) store) option" where
  "submod_18 T output_17 s0 layers_8_self_attn_o_proj_weight
      layers_8_post_attention_layernorm_weight output_parallel layers_8_mlp_gate_up_proj_weight
      layers_8_mlp_down_proj_weight layers_9_input_layernorm_weight
      layers_9_self_attn_qkv_proj_weight layers_9_self_attn_qkv_proj_bias l_positions
      layers_0_self_attn_rotary_emb_cos_sin_cache h = do {
  view \<leftarrow> t_view T output_17 [-1, 1024];
  view_1 \<leftarrow> t_view T view [-1, 1024];
  (linear, h) \<leftarrow> t_linear T view layers_8_self_attn_o_proj_weight None h;
  get_data_attr \<leftarrow> t_get_data_attr T layers_8_post_attention_layernorm_weight;
  h \<leftarrow> t_fused_add_rms_norm T linear output_parallel get_data_attr (1 / 1000000) h;
  view_2 \<leftarrow> t_view T linear [-1, 1024];
  (linear_1, h) \<leftarrow> t_linear T linear layers_8_mlp_gate_up_proj_weight None h;
  (empty, h) \<leftarrow> t_empty T [s0, 2816] BFloat16 (''cuda'', 0) h;
  h \<leftarrow> t_silu_and_mul T empty linear_1 h;
  view_3 \<leftarrow> t_view T empty [-1, 2816];
  (linear_2, h) \<leftarrow> t_linear T empty layers_8_mlp_down_proj_weight None h;
  get_data_attr_1 \<leftarrow> t_get_data_attr T layers_9_input_layernorm_weight;
  h \<leftarrow> t_fused_add_rms_norm T linear_2 output_parallel get_data_attr_1 (1 / 1000000)
      h;
  (linear_3, h) \<leftarrow> t_linear T linear_2 layers_9_self_attn_qkv_proj_weight (Some
      layers_9_self_attn_qkv_proj_bias) h;
  split \<leftarrow> t_split T linear_3 [1024, 1024, 1024] (-1);
  getitem \<leftarrow> py_nth split 0;
  getitem_1 \<leftarrow> py_nth split 1;
  getitem_2 \<leftarrow> py_nth split 2;
  (flatten, h) \<leftarrow> t_flatten T l_positions h;
  (index_select, h) \<leftarrow> t_index_select T layers_0_self_attn_rotary_emb_cos_sin_cache 0
      flatten h;
  chunk \<leftarrow> t_chunk T index_select 2 (-1);
  getitem_3 \<leftarrow> py_nth chunk 0;
  getitem_4 \<leftarrow> py_nth chunk 1;
  let size = sizes getitem;
  view_4 \<leftarrow> t_view T getitem [int s0, -1, 64];
  getitem_5 \<leftarrow> t_getitem_last T view_4 None (Some 64);
  getitem_6 \<leftarrow> t_getitem_last T view_4 (Some 64) None;
  unsqueeze \<leftarrow> t_unsqueeze T getitem_3 (-2);
  (to, h) \<leftarrow> t_to T unsqueeze BFloat16 h;
  unsqueeze_1 \<leftarrow> t_unsqueeze T getitem_4 (-2);
  (to_1, h) \<leftarrow> t_to T unsqueeze_1 BFloat16 h;
  chunk_1 \<leftarrow> t_chunk T getitem_5 2 (-1);
  getitem_7 \<leftarrow> py_nth chunk_1 0;
  getitem_8 \<leftarrow> py_nth chunk_1 1;
  (mul, h) \<leftarrow> t_mul T getitem_7 to h;
  (mul_1, h) \<leftarrow> t_mul T getitem_8 to_1 h;
  (sub, h) \<leftarrow> t_sub T mul mul_1 h;
  (mul_2, h) \<leftarrow> t_mul T getitem_8 to h;
  (mul_3, h) \<leftarrow> t_mul T getitem_7 to_1 h;
  (add, h) \<leftarrow> t_add T mul_2 mul_3 h;
  (cat, h) \<leftarrow> t_cat T [sub, add] (-1) h;
  (cat_1, h) \<leftarrow> t_cat T [cat, getitem_6] (-1) h;
  (reshape, h) \<leftarrow> t_reshape T cat_1 size h;
  let size_1 = sizes getitem_1;
  view_5 \<leftarrow> t_view T getitem_1 [int s0, -1, 64];
  getitem_9 \<leftarrow> t_getitem_last T view_5 None (Some 64);
  getitem_10 \<leftarrow> t_getitem_last T view_5 (Some 64) None;
  unsqueeze_2 \<leftarrow> t_unsqueeze T getitem_3 (-2);
  (to_2, h) \<leftarrow> t_to T unsqueeze_2 BFloat16 h;
  unsqueeze_3 \<leftarrow> t_unsqueeze T getitem_4 (-2);
  (to_3, h) \<leftarrow> t_to T unsqueeze_3 BFloat16 h;
  chunk_2 \<leftarrow> t_chunk T getitem_9 2 (-1);
  getitem_11 \<leftarrow> py_nth chunk_2 0;
  getitem_12 \<leftarrow> py_nth chunk_2 1;
  (mul_4, h) \<leftarrow> t_mul T getitem_11 to_2 h;
  (mul_5, h) \<leftarrow> t_mul T getitem_12 to_3 h;
  (sub_1, h) \<leftarrow> t_sub T mul_4 mul_5 h;
  (mul_6, h) \<leftarrow> t_mul T getitem_12 to_2 h;
  (mul_7, h) \<leftarrow> t_mul T getitem_11 to_3 h;
  (add_1, h) \<leftarrow> t_add T mul_6 mul_7 h;
  (cat_2, h) \<leftarrow> t_cat T [sub_1, add_1] (-1) h;
  (cat_3, h) \<leftarrow> t_cat T [cat_2, getitem_10] (-1) h;
  (reshape_1, h) \<leftarrow> t_reshape T cat_3 size_1 h;
  let size_2 = sizes reshape;
  (empty_1, h) \<leftarrow> t_empty T size_2 BFloat16 (''cuda'', 0) h;
  view_6 \<leftarrow> t_view T reshape [-1, 16, 64];
  view_7 \<leftarrow> t_view T empty_1 [-1, 16, 64];
  view_8 \<leftarrow> t_view T reshape_1 [-1, 16, 64];
  view_9 \<leftarrow> t_view T getitem_2 [-1, 16, 64];
  Some ((view_6, view_8, view_9, view_7), h)}"

definition submod_19 ::
  "('a, 'k) torch \<Rightarrow> tensor \<Rightarrow> nat \<Rightarrow> tensor \<Rightarrow> tensor \<Rightarrow> tensor \<Rightarrow>
   ('a, 'k) store \<Rightarrow> (unit \<times> ('a, 'k) store) option" where
  "submod_19 T query_29 s0 key_29 value_9 output_19 h = do {
  h \<leftarrow> t_unified_attention_with_output T query_29 key_29 value_9 output_19
      ''model.layers.9.self_attn.attn'' h;
  Some ((), h)}"

definition submod_20 ::
  "('a, 'k) torch \<Rightarrow> tensor \<Rightarrow> nat \<Rightarrow> tensor \<Rightarrow> tensor \<Rightarrow> tensor \<Rightarrow> tensor \<Rightarrow> tensor \<Rightarrow> tensor \<Rightarrow> tensor \<Rightarrow> tensor \<Rightarrow> tensor \<Rightarrow> tensor \<Rightarrow>
   ('a, 'k) store \<Rightarrow> ((tensor \<times> tensor \<times> tensor \<times> tensor) \<times> ('a, 'k) store) option" where
  "submod_20 T output_19 s0 layers_9_self_attn_o_proj_weight
      layers_9_post_attention_layernorm_weight output_parallel layers_9_mlp_gate_up_proj_weight
      layers_9_mlp_down_proj_weight layers_10_input_layernorm_weight
      layers_10_self_attn_qkv_proj_weight layers_10_self_attn_qkv_proj_bias l_positions
      layers_0_self_attn_rotary_emb_cos_sin_cache h = do {
  view \<leftarrow> t_view T output_19 [-1, 1024];
  view_1 \<leftarrow> t_view T view [-1, 1024];
  (linear, h) \<leftarrow> t_linear T view layers_9_self_attn_o_proj_weight None h;
  get_data_attr \<leftarrow> t_get_data_attr T layers_9_post_attention_layernorm_weight;
  h \<leftarrow> t_fused_add_rms_norm T linear output_parallel get_data_attr (1 / 1000000) h;
  view_2 \<leftarrow> t_view T linear [-1, 1024];
  (linear_1, h) \<leftarrow> t_linear T linear layers_9_mlp_gate_up_proj_weight None h;
  (empty, h) \<leftarrow> t_empty T [s0, 2816] BFloat16 (''cuda'', 0) h;
  h \<leftarrow> t_silu_and_mul T empty linear_1 h;
  view_3 \<leftarrow> t_view T empty [-1, 2816];
  (linear_2, h) \<leftarrow> t_linear T empty layers_9_mlp_down_proj_weight None h;
  get_data_attr_1 \<leftarrow> t_get_data_attr T layers_10_input_layernorm_weight;
  h \<leftarrow> t_fused_add_rms_norm T linear_2 output_parallel get_data_attr_1 (1 / 1000000)
      h;
  (linear_3, h) \<leftarrow> t_linear T linear_2 layers_10_self_attn_qkv_proj_weight (Some
      layers_10_self_attn_qkv_proj_bias) h;
  split \<leftarrow> t_split T linear_3 [1024, 1024, 1024] (-1);
  getitem \<leftarrow> py_nth split 0;
  getitem_1 \<leftarrow> py_nth split 1;
  getitem_2 \<leftarrow> py_nth split 2;
  (flatten, h) \<leftarrow> t_flatten T l_positions h;
  (index_select, h) \<leftarrow> t_index_select T layers_0_self_attn_rotary_emb_cos_sin_cache 0
      flatten h;
  chunk \<leftarrow> t_chunk T index_select 2 (-1);
  getitem_3 \<leftarrow> py_nth chunk 0;
  getitem_4 \<leftarrow> py_nth chunk 1;
  let size = sizes getitem;
  view_4 \<leftarrow> t_view T getitem [int s0, -1, 64];
  getitem_5 \<leftarrow> t_getitem_last T view_4 None (Some 64);
  getitem_6 \<leftarrow> t_getitem_last T view_4 (Some 64) None;
  unsqueeze \<leftarrow> t_unsqueeze T getitem_3 (-2);
  (to, h) \<leftarrow> t_to T unsqueeze BFloat16 h;
  unsqueeze_1 \<leftarrow> t_unsqueeze T getitem_4 (-2);
  (to_1, h) \<leftarrow> t_to T unsqueeze_1 BFloat16 h;
  chunk_1 \<leftarrow> t_chunk T getitem_5 2 (-1);
  getitem_7 \<leftarrow> py_nth chunk_1 0;
  getitem_8 \<leftarrow> py_nth chunk_1 1;
  (mul, h) \<leftarrow> t_mul T getitem_7 to h;
  (mul_1, h) \<leftarrow> t_mul T getitem_8 to_1 h;
  (sub, h) \<leftarrow> t_sub T mul mul_1 h;
  (mul_2, h) \<leftarrow> t_mul T getitem_8 to h;
  (mul_3, h) \<leftarrow> t_mul T getitem_7 to_1 h;
  (add, h) \<leftarrow> t_add T mul_2 mul_3 h;
  (cat, h) \<leftarrow> t_cat T [sub, add] (-1) h;
  (cat_1, h) \<leftarrow> t_cat T [cat, getitem_6] (-1) h;
  (reshape, h) \<leftarrow> t_reshape T cat_1 size h;
  let size_1 = sizes getitem_1;
  view_5 \<leftarrow> t_view T getitem_1 [int s0, -1, 64];
  getitem_9 \<leftarrow> t_getitem_last T view_5 None (Some 64);
  getitem_10 \<leftarrow> t_getitem_last T view_5 (Some 64) None;
  unsqueeze_2 \<leftarrow> t_unsqueeze T getitem_3 (-2);
  (to_2, h) \<leftarrow> t_to T unsqueeze_2 BFloat16 h;
  unsqueeze_3 \<leftarrow> t_unsqueeze T getitem_4 (-2);
  (to_3, h) \<leftarrow> t_to T unsqueeze_3 BFloat16 h;
  chunk_2 \<leftarrow> t_chunk T getitem_9 2 (-1);
  getitem_11 \<leftarrow> py_nth chunk_2 0;
  getitem_12 \<leftarrow> py_nth chunk_2 1;
  (mul_4, h) \<leftarrow> t_mul T getitem_11 to_2 h;
  (mul_5, h) \<leftarrow> t_mul T getitem_12 to_3 h;
  (sub_1, h) \<leftarrow> t_sub T mul_4 mul_5 h;
  (mul_6, h) \<leftarrow> t_mul T getitem_12 to_2 h;
  (mul_7, h) \<leftarrow> t_mul T getitem_11 to_3 h;
  (add_1, h) \<leftarrow> t_add T mul_6 mul_7 h;
  (cat_2, h) \<leftarrow> t_cat T [sub_1, add_1] (-1) h;
  (cat_3, h) \<leftarrow> t_cat T [cat_2, getitem_10] (-1) h;
  (reshape_1, h) \<leftarrow> t_reshape T cat_3 size_1 h;
  let size_2 = sizes reshape;
  (empty_1, h) \<leftarrow> t_empty T size_2 BFloat16 (''cuda'', 0) h;
  view_6 \<leftarrow> t_view T reshape [-1, 16, 64];
  view_7 \<leftarrow> t_view T empty_1 [-1, 16, 64];
  view_8 \<leftarrow> t_view T reshape_1 [-1, 16, 64];
  view_9 \<leftarrow> t_view T getitem_2 [-1, 16, 64];
  Some ((view_6, view_8, view_9, view_7), h)}"

definition submod_21 ::
  "('a, 'k) torch \<Rightarrow> tensor \<Rightarrow> nat \<Rightarrow> tensor \<Rightarrow> tensor \<Rightarrow> tensor \<Rightarrow>
   ('a, 'k) store \<Rightarrow> (unit \<times> ('a, 'k) store) option" where
  "submod_21 T query_32 s0 key_32 value_10 output_21 h = do {
  h \<leftarrow> t_unified_attention_with_output T query_32 key_32 value_10 output_21
      ''model.layers.10.self_attn.attn'' h;
  Some ((), h)}"

definition submod_22 ::
  "('a, 'k) torch \<Rightarrow> tensor \<Rightarrow> nat \<Rightarrow> tensor \<Rightarrow> tensor \<Rightarrow> tensor \<Rightarrow> tensor \<Rightarrow> tensor \<Rightarrow> tensor \<Rightarrow> tensor \<Rightarrow> tensor \<Rightarrow> tensor \<Rightarrow> tensor \<Rightarrow>
   ('a, 'k) store \<Rightarrow> ((tensor \<times> tensor \<times> tensor \<times> tensor) \<times> ('a, 'k) store) option" where
  "submod_22 T output_21 s0 layers_10_self_attn_o_proj_weight
      layers_10_post_attention_layernorm_weight output_parallel
      layers_10_mlp_gate_up_proj_weight layers_10_mlp_down_proj_weight
      layers_11_input_layernorm_weight layers_11_self_attn_qkv_proj_weight
      layers_11_self_attn_qkv_proj_bias l_positions layers_0_self_attn_rotary_emb_cos_sin_cache
      h = do {
  view \<leftarrow> t_view T output_21 [-1, 1024];
  view_1 \<leftarrow> t_view T view [-1, 1024];
  (linear, h) \<leftarrow> t_linear T view layers_10_self_attn_o_proj_weight None h;
  get_data_attr \<leftarrow> t_get_data_attr T layers_10_post_attention_layernorm_weight;
  h \<leftarrow> t_fused_add_rms_norm T linear output_parallel get_data_attr (1 / 1000000) h;
  view_2 \<leftarrow> t_view T linear [-1, 1024];
  (linear_1, h) \<leftarrow> t_linear T linear layers_10_mlp_gate_up_proj_weight None h;
  (empty, h) \<leftarrow> t_empty T [s0, 2816] BFloat16 (''cuda'', 0) h;
  h \<leftarrow> t_silu_and_mul T empty linear_1 h;
  view_3 \<leftarrow> t_view T empty [-1, 2816];
  (linear_2, h) \<leftarrow> t_linear T empty layers_10_mlp_down_proj_weight None h;
  get_data_attr_1 \<leftarrow> t_get_data_attr T layers_11_input_layernorm_weight;
  h \<leftarrow> t_fused_add_rms_norm T linear_2 output_parallel get_data_attr_1 (1 / 1000000)
      h;
  (linear_3, h) \<leftarrow> t_linear T linear_2 layers_11_self_attn_qkv_proj_weight (Some
      layers_11_self_attn_qkv_proj_bias) h;
  split \<leftarrow> t_split T linear_3 [1024, 1024, 1024] (-1);
  getitem \<leftarrow> py_nth split 0;
  getitem_1 \<leftarrow> py_nth split 1;
  getitem_2 \<leftarrow> py_nth split 2;
  (flatten, h) \<leftarrow> t_flatten T l_positions h;
  (index_select, h) \<leftarrow> t_index_select T layers_0_self_attn_rotary_emb_cos_sin_cache 0
      flatten h;
  chunk \<leftarrow> t_chunk T index_select 2 (-1);
  getitem_3 \<leftarrow> py_nth chunk 0;
  getitem_4 \<leftarrow> py_nth chunk 1;
  let size = sizes getitem;
  view_4 \<leftarrow> t_view T getitem [int s0, -1, 64];
  getitem_5 \<leftarrow> t_getitem_last T view_4 None (Some 64);
  getitem_6 \<leftarrow> t_getitem_last T view_4 (Some 64) None;
  unsqueeze \<leftarrow> t_unsqueeze T getitem_3 (-2);
  (to, h) \<leftarrow> t_to T unsqueeze BFloat16 h;
  unsqueeze_1 \<leftarrow> t_unsqueeze T getitem_4 (-2);
  (to_1, h) \<leftarrow> t_to T unsqueeze_1 BFloat16 h;
  chunk_1 \<leftarrow> t_chunk T getitem_5 2 (-1);
  getitem_7 \<leftarrow> py_nth chunk_1 0;
  getitem_8 \<leftarrow> py_nth chunk_1 1;
  (mul, h) \<leftarrow> t_mul T getitem_7 to h;
  (mul_1, h) \<leftarrow> t_mul T getitem_8 to_1 h;
  (sub, h) \<leftarrow> t_sub T mul mul_1 h;
  (mul_2, h) \<leftarrow> t_mul T getitem_8 to h;
  (mul_3, h) \<leftarrow> t_mul T getitem_7 to_1 h;
  (add, h) \<leftarrow> t_add T mul_2 mul_3 h;
  (cat, h) \<leftarrow> t_cat T [sub, add] (-1) h;
  (cat_1, h) \<leftarrow> t_cat T [cat, getitem_6] (-1) h;
  (reshape, h) \<leftarrow> t_reshape T cat_1 size h;
  let size_1 = sizes getitem_1;
  view_5 \<leftarrow> t_view T getitem_1 [int s0, -1, 64];
  getitem_9 \<leftarrow> t_getitem_last T view_5 None (Some 64);
  getitem_10 \<leftarrow> t_getitem_last T view_5 (Some 64) None;
  unsqueeze_2 \<leftarrow> t_unsqueeze T getitem_3 (-2);
  (to_2, h) \<leftarrow> t_to T unsqueeze_2 BFloat16 h;
  unsqueeze_3 \<leftarrow> t_unsqueeze T getitem_4 (-2);
  (to_3, h) \<leftarrow> t_to T unsqueeze_3 BFloat16 h;
  chunk_2 \<leftarrow> t_chunk T getitem_9 2 (-1);
  getitem_11 \<leftarrow> py_nth chunk_2 0;
  getitem_12 \<leftarrow> py_nth chunk_2 1;
  (mul_4, h) \<leftarrow> t_mul T getitem_11 to_2 h;
  (mul_5, h) \<leftarrow> t_mul T getitem_12 to_3 h;
  (sub_1, h) \<leftarrow> t_sub T mul_4 mul_5 h;
  (mul_6, h) \<leftarrow> t_mul T getitem_12 to_2 h;
  (mul_7, h) \<leftarrow> t_mul T getitem_11 to_3 h;
  (add_1, h) \<leftarrow> t_add T mul_6 mul_7 h;
  (cat_2, h) \<leftarrow> t_cat T [sub_1, add_1] (-1) h;
  (cat_3, h) \<leftarrow> t_cat T [cat_2, getitem_10] (-1) h;
  (reshape_1, h) \<leftarrow> t_reshape T cat_3 size_1 h;
  let size_2 = sizes reshape;
  (empty_1, h) \<leftarrow> t_empty T size_2 BFloat16 (''cuda'', 0) h;
  view_6 \<leftarrow> t_view T reshape [-1, 16, 64];
  view_7 \<leftarrow> t_view T empty_1 [-1, 16, 64];
  view_8 \<leftarrow> t_view T reshape_1 [-1, 16, 64];
  view_9 \<leftarrow> t_view T getitem_2 [-1, 16, 64];
  Some ((view_6, view_8, view_9, view_7), h)}"

definition submod_23 ::
  "('a, 'k) torch \<Rightarrow> tensor \<Rightarrow> nat \<Rightarrow> tensor \<Rightarrow> tensor \<Rightarrow> tensor \<Rightarrow>
   ('a, 'k) store \<Rightarrow> (unit \<times> ('a, 'k) store) option" where
  "submod_23 T query_35 s0 key_35 value_11 output_23 h = do {
  h \<leftarrow> t_unified_attention_with_output T query_35 key_35 value_11 output_23
      ''model.layers.11.self_attn.attn'' h;
  Some ((), h)}"

definition submod_24 ::
  "('a, 'k) torch \<Rightarrow> tensor \<Rightarrow> nat \<Rightarrow> tensor \<Rightarrow> tensor \<Rightarrow> tensor \<Rightarrow> tensor \<Rightarrow> tensor \<Rightarrow> tensor \<Rightarrow> tensor \<Rightarrow> tensor \<Rightarrow> tensor \<Rightarrow> tensor \<Rightarrow>
   ('a, 'k) store \<Rightarrow> ((tensor \<times> tensor \<times> tensor \<times> tensor) \<times> ('a, 'k) store) option" where
  "submod_24 T output_23 s0 layers_11_self_attn_o_proj_weight
      layers_11_post_attention_layernorm_weight output_parallel
      layers_11_mlp_gate_up_proj_weight layers_11_mlp_down_proj_weight
      layers_12_input_layernorm_weight layers_12_self_attn_qkv_proj_weight
      layers_12_self_attn_qkv_proj_bias l_positions layers_0_self_attn_rotary_emb_cos_sin_cache
      h = do {
  view \<leftarrow> t_view T output_23 [-1, 1024];
  view_1 \<leftarrow> t_view T view [-1, 1024];
  (linear, h) \<leftarrow> t_linear T view layers_11_self_attn_o_proj_weight None h;
  get_data_attr \<leftarrow> t_get_data_attr T layers_11_post_attention_layernorm_weight;
  h \<leftarrow> t_fused_add_rms_norm T linear output_parallel get_data_attr (1 / 1000000) h;
  view_2 \<leftarrow> t_view T linear [-1, 1024];
  (linear_1, h) \<leftarrow> t_linear T linear layers_11_mlp_gate_up_proj_weight None h;
  (empty, h) \<leftarrow> t_empty T [s0, 2816] BFloat16 (''cuda'', 0) h;
  h \<leftarrow> t_silu_and_mul T empty linear_1 h;
  view_3 \<leftarrow> t_view T empty [-1, 2816];
  (linear_2, h) \<leftarrow> t_linear T empty layers_11_mlp_down_proj_weight None h;
  get_data_attr_1 \<leftarrow> t_get_data_attr T layers_12_input_layernorm_weight;
  h \<leftarrow> t_fused_add_rms_norm T linear_2 output_parallel get_data_attr_1 (1 / 1000000)
      h;
  (linear_3, h) \<leftarrow> t_linear T linear_2 layers_12_self_attn_qkv_proj_weight (Some
      layers_12_self_attn_qkv_proj_bias) h;
  split \<leftarrow> t_split T linear_3 [1024, 1024, 1024] (-1);
  getitem \<leftarrow> py_nth split 0;
  getitem_1 \<leftarrow> py_nth split 1;
  getitem_2 \<leftarrow> py_nth split 2;
  (flatten, h) \<leftarrow> t_flatten T l_positions h;
  (index_select, h) \<leftarrow> t_index_select T layers_0_self_attn_rotary_emb_cos_sin_cache 0
      flatten h;
  chunk \<leftarrow> t_chunk T index_select 2 (-1);
  getitem_3 \<leftarrow> py_nth chunk 0;
  getitem_4 \<leftarrow> py_nth chunk 1;
  let size = sizes getitem;
  view_4 \<leftarrow> t_view T getitem [int s0, -1, 64];
  getitem_5 \<leftarrow> t_getitem_last T view_4 None (Some 64);
  getitem_6 \<leftarrow> t_getitem_last T view_4 (Some 64) None;
  unsqueeze \<leftarrow> t_unsqueeze T getitem_3 (-2);
  (to, h) \<leftarrow> t_to T unsqueeze BFloat16 h;
  unsqueeze_1 \<leftarrow> t_unsqueeze T getitem_4 (-2);
  (to_1, h) \<leftarrow> t_to T unsqueeze_1 BFloat16 h;
  chunk_1 \<leftarrow> t_chunk T getitem_5 2 (-1);
  getitem_7 \<leftarrow> py_nth chunk_1 0;
  getitem_8 \<leftarrow> py_nth chunk_1 1;
  (mul, h) \<leftarrow> t_mul T getitem_7 to h;
  (mul_1, h) \<leftarrow> t_mul T getitem_8 to_1 h;
  (sub, h) \<leftarrow> t_sub T mul mul_1 h;
  (mul_2, h) \<leftarrow> t_mul T getitem_8 to h;
  (mul_3, h) \<leftarrow> t_mul T getitem_7 to_1 h;
  (add, h) \<leftarrow> t_add T mul_2 mul_3 h;
  (cat, h) \<leftarrow> t_cat T [sub, add] (-1) h;
  (cat_1, h) \<leftarrow> t_cat T [cat, getitem_6] (-1) h;
  (reshape, h) \<leftarrow> t_reshape T cat_1 size h;
  let size_1 = sizes getitem_1;
  view_5 \<leftarrow> t_view T getitem_1 [int s0, -1, 64];
  getitem_9 \<leftarrow> t_getitem_last T view_5 None (Some 64);
  getitem_10 \<leftarrow> t_getitem_last T view_5 (Some 64) None;
  unsqueeze_2 \<leftarrow> t_unsqueeze T getitem_3 (-2);
  (to_2, h) \<leftarrow> t_to T unsqueeze_2 BFloat16 h;
  unsqueeze_3 \<leftarrow> t_unsqueeze T getitem_4 (-2);
  (to_3, h) \<leftarrow> t_to T unsqueeze_3 BFloat16 h;
  chunk_2 \<leftarrow> t_chunk T getitem_9 2 (-1);
  getitem_11 \<leftarrow> py_nth chunk_2 0;
  getitem_12 \<leftarrow> py_nth chunk_2 1;
  (mul_4, h) \<leftarrow> t_mul T getitem_11 to_2 h;
  (mul_5, h) \<leftarrow> t_mul T getitem_12 to_3 h;
  (sub_1, h) \<leftarrow> t_sub T mul_4 mul_5 h;
  (mul_6, h) \<leftarrow> t_mul T getitem_12 to_2 h;
  (mul_7, h) \<leftarrow> t_mul T getitem_11 to_3 h;
  (add_1, h) \<leftarrow> t_add T mul_6 mul_7 h;
  (cat_2, h) \<leftarrow> t_cat T [sub_1, add_1] (-1) h;
  (cat_3, h) \<leftarrow> t_cat T [cat_2, getitem_10] (-1) h;
  (reshape_1, h) \<leftarrow> t_reshape T cat_3 size_1 h;
  let size_2 = sizes reshape;
  (empty_1, h) \<leftarrow> t_empty T size_2 BFloat16 (''cuda'', 0) h;
  view_6 \<leftarrow> t_view T reshape [-1, 16, 64];
  view_7 \<leftarrow> t_view T empty_1 [-1, 16, 64];
  view_8 \<leftarrow> t_view T reshape_1 [-1, 16, 64];
  view_9 \<leftarrow> t_view T getitem_2 [-1, 16, 64];
  Some ((view_6, view_8, view_9, view_7), h)}"

definition submod_25 ::
  "('a, 'k) torch \<Rightarrow> tensor \<Rightarrow> nat \<Rightarrow> tensor \<Rightarrow> tensor \<Rightarrow> tensor \<Rightarrow>
   ('a, 'k) store \<Rightarrow> (unit \<times> ('a, 'k) store) option" where
  "submod_25 T query_38 s0 key_38 value_12 output_25 h = do {
  h \<leftarrow> t_unified_attention_with_output T query_38 key_38 value_12 output_25
      ''model.layers.12.self_attn.attn'' h;
  Some ((), h)}"

definition submod_26 ::
  "('a, 'k) torch \<Rightarrow> tensor \<Rightarrow> nat \<Rightarrow> tensor \<Rightarrow> tensor \<Rightarrow> tensor \<Rightarrow> tensor \<Rightarrow> tensor \<Rightarrow> tensor \<Rightarrow> tensor \<Rightarrow> tensor \<Rightarrow> tensor \<Rightarrow> tensor \<Rightarrow>
   ('a, 'k) store \<Rightarrow> ((tensor \<times> tensor \<times> tensor \<times> tensor) \<times> ('a, 'k) store) option" where
  "submod_26 T output_25 s0 layers_12_self_attn_o_proj_weight
      layers_12_post_attention_layernorm_weight output_parallel
      layers_12_mlp_gate_up_proj_weight layers_12_mlp_down_proj_weight
      layers_13_input_layernorm_weight layers_13_self_attn_qkv_proj_weight
      layers_13_self_attn_qkv_proj_bias l_positions layers_0_self_attn_rotary_emb_cos_sin_cache
      h = do {
  view \<leftarrow> t_view T output_25 [-1, 1024];
  view_1 \<leftarrow> t_view T view [-1, 1024];
  (linear, h) \<leftarrow> t_linear T view layers_12_self_attn_o_proj_weight None h;
  get_data_attr \<leftarrow> t_get_data_attr T layers_12_post_attention_layernorm_weight;
  h \<leftarrow> t_fused_add_rms_norm T linear output_parallel get_data_attr (1 / 1000000) h;
  view_2 \<leftarrow> t_view T linear [-1, 1024];
  (linear_1, h) \<leftarrow> t_linear T linear layers_12_mlp_gate_up_proj_weight None h;
  (empty, h) \<leftarrow> t_empty T [s0, 2816] BFloat16 (''cuda'', 0) h;
  h \<leftarrow> t_silu_and_mul T empty linear_1 h;
  view_3 \<leftarrow> t_view T empty [-1, 2816];
  (linear_2, h) \<leftarrow> t_linear T empty layers_12_mlp_down_proj_weight None h;
  get_data_attr_1 \<leftarrow> t_get_data_attr T layers_13_input_layernorm_weight;
  h \<leftarrow> t_fused_add_rms_norm T linear_2 output_parallel get_data_attr_1 (1 / 1000000)
      h;
  (linear_3, h) \<leftarrow> t_linear T linear_2 layers_13_self_attn_qkv_proj_weight (Some
      layers_13_self_attn_qkv_proj_bias) h;
  split \<leftarrow> t_split T linear_3 [1024, 1024, 1024] (-1);
  getitem \<leftarrow> py_nth split 0;
  getitem_1 \<leftarrow> py_nth split 1;
  getitem_2 \<leftarrow> py_nth split 2;
  (flatten, h) \<leftarrow> t_flatten T l_positions h;
  (index_select, h) \<leftarrow> t_index_select T layers_0_self_attn_rotary_emb_cos_sin_cache 0
      flatten h;
  chunk \<leftarrow> t_chunk T index_select 2 (-1);
  getitem_3 \<leftarrow> py_nth chunk 0;
  getitem_4 \<leftarrow> py_nth chunk 1;
  let size = sizes getitem;
  view_4 \<leftarrow> t_view T getitem [int s0, -1, 64];
  getitem_5 \<leftarrow> t_getitem_last T view_4 None (Some 64);
  getitem_6 \<leftarrow> t_getitem_last T view_4 (Some 64) None;
  unsqueeze \<leftarrow> t_unsqueeze T getitem_3 (-2);
  (to, h) \<leftarrow> t_to T unsqueeze BFloat16 h;
  unsqueeze_1 \<leftarrow> t_unsqueeze T getitem_4 (-2);
  (to_1, h) \<leftarrow> t_to T unsqueeze_1 BFloat16 h;
  chunk_1 \<leftarrow> t_chunk T getitem_5 2 (-1);
  getitem_7 \<leftarrow> py_nth chunk_1 0;
  getitem_8 \<leftarrow> py_nth chunk_1 1;
  (mul, h) \<leftarrow> t_mul T getitem_7 to h;
  (mul_1, h) \<leftarrow> t_mul T getitem_8 to_1 h;
  (sub, h) \<leftarrow> t_sub T mul mul_1 h;
  (mul_2, h) \<leftarrow> t_mul T getitem_8 to h;
  (mul_3, h) \<leftarrow> t_mul T getitem_7 to_1 h;
  (add, h) \<leftarrow> t_add T mul_2 mul_3 h;
  (cat, h) \<leftarrow> t_cat T [sub, add] (-1) h;
  (cat_1, h) \<leftarrow> t_cat T [cat, getitem_6] (-1) h;
  (reshape, h) \<leftarrow> t_reshape T cat_1 size h;
  let size_1 = sizes getitem_1;
  view_5 \<leftarrow> t_view T getitem_1 [int s0, -1, 64];
  getitem_9 \<leftarrow> t_getitem_last T view_5 None (Some 64);
  getitem_10 \<leftarrow> t_getitem_last T view_5 (Some 64) None;
  unsqueeze_2 \<leftarrow> t_unsqueeze T getitem_3 (-2);
  (to_2, h) \<leftarrow> t_to T unsqueeze_2 BFloat16 h;
  unsqueeze_3 \<leftarrow> t_unsqueeze T getitem_4 (-2);
  (to_3, h) \<leftarrow> t_to T unsqueeze_3 BFloat16 h;
  chunk_2 \<leftarrow> t_chunk T getitem_9 2 (-1);
  getitem_11 \<leftarrow> py_nth chunk_2 0;
  getitem_12 \<leftarrow> py_nth chunk_2 1;
  (mul_4, h) \<leftarrow> t_mul T getitem_11 to_2 h;
  (mul_5, h) \<leftarrow> t_mul T getitem_12 to_3 h;
  (sub_1, h) \<leftarrow> t_sub T mul_4 mul_5 h;
  (mul_6, h) \<leftarrow> t_mul T getitem_12 to_2 h;
  (mul_7, h) \<leftarrow> t_mul T getitem_11 to_3 h;
  (add_1, h) \<leftarrow> t_add T mul_6 mul_7 h;
  (cat_2, h) \<leftarrow> t_cat T [sub_1, add_1] (-1) h;
  (cat_3, h) \<leftarrow> t_cat T [cat_2, getitem_10] (-1) h;
  (reshape_1, h) \<leftarrow> t_reshape T cat_3 size_1 h;
  let size_2 = sizes reshape;
  (empty_1, h) \<leftarrow> t_empty T size_2 BFloat16 (''cuda'', 0) h;
  view_6 \<leftarrow> t_view T reshape [-1, 16, 64];
  view_7 \<leftarrow> t_view T empty_1 [-1, 16, 64];
  view_8 \<leftarrow> t_view T reshape_1 [-1, 16, 64];
  view_9 \<leftarrow> t_view T getitem_2 [-1, 16, 64];
  Some ((view_6, view_8, view_9, view_7), h)}"

definition submod_27 ::
  "('a, 'k) torch \<Rightarrow> tensor \<Rightarrow> nat \<Rightarrow> tensor \<Rightarrow> tensor \<Rightarrow> tensor \<Rightarrow>
   ('a, 'k) store \<Rightarrow> (unit \<times> ('a, 'k) store) option" where
  "submod_27 T query_41 s0 key_41 value_13 output_27 h = do {
  h \<leftarrow> t_unified_attention_with_output T query_41 key_41 value_13 output_27
      ''model.layers.13.self_attn.attn'' h;
  Some ((), h)}"

definition submod_28 ::
  "('a, 'k) torch \<Rightarrow> tensor \<Rightarrow> nat \<Rightarrow> tensor \<Rightarrow> tensor \<Rightarrow> tensor \<Rightarrow> tensor \<Rightarrow> tensor \<Rightarrow> tensor \<Rightarrow> tensor \<Rightarrow> tensor \<Rightarrow> tensor \<Rightarrow> tensor \<Rightarrow>
   ('a, 'k) store \<Rightarrow> ((tensor \<times> tensor \<times> tensor \<times> tensor) \<times> ('a, 'k) store) option" where
  "submod_28 T output_27 s0 layers_13_self_attn_o_proj_weight
      layers_13_post_attention_layernorm_weight output_parallel
      layers_13_mlp_gate_up_proj_weight layers_13_mlp_down_proj_weight
      layers_14_input_layernorm_weight layers_14_self_attn_qkv_proj_weight
      layers_14_self_attn_qkv_proj_bias l_positions layers_0_self_attn_rotary_emb_cos_sin_cache
      h = do {
  view \<leftarrow> t_view T output_27 [-1, 1024];
  view_1 \<leftarrow> t_view T view [-1, 1024];
  (linear, h) \<leftarrow> t_linear T view layers_13_self_attn_o_proj_weight None h;
  get_data_attr \<leftarrow> t_get_data_attr T layers_13_post_attention_layernorm_weight;
  h \<leftarrow> t_fused_add_rms_norm T linear output_parallel get_data_attr (1 / 1000000) h;
  view_2 \<leftarrow> t_view T linear [-1, 1024];
  (linear_1, h) \<leftarrow> t_linear T linear layers_13_mlp_gate_up_proj_weight None h;
  (empty, h) \<leftarrow> t_empty T [s0, 2816] BFloat16 (''cuda'', 0) h;
  h \<leftarrow> t_silu_and_mul T empty linear_1 h;
  view_3 \<leftarrow> t_view T empty [-1, 2816];
  (linear_2, h) \<leftarrow> t_linear T empty layers_13_mlp_down_proj_weight None h;
  get_data_attr_1 \<leftarrow> t_get_data_attr T layers_14_input_layernorm_weight;
  h \<leftarrow> t_fused_add_rms_norm T linear_2 output_parallel get_data_attr_1 (1 / 1000000)
      h;
  (linear_3, h) \<leftarrow> t_linear T linear_2 layers_14_self_attn_qkv_proj_weight (Some
      layers_14_self_attn_qkv_proj_bias) h;
  split \<leftarrow> t_split T linear_3 [1024, 1024, 1024] (-1);
  getitem \<leftarrow> py_nth split 0;
  getitem_1 \<leftarrow> py_nth split 1;
  getitem_2 \<leftarrow> py_nth split 2;
  (flatten, h) \<leftarrow> t_flatten T l_positions h;
  (index_select, h) \<leftarrow> t_index_select T layers_0_self_attn_rotary_emb_cos_sin_cache 0
      flatten h;
  chunk \<leftarrow> t_chunk T index_select 2 (-1);
  getitem_3 \<leftarrow> py_nth chunk 0;
  getitem_4 \<leftarrow> py_nth chunk 1;
  let size = sizes getitem;
  view_4 \<leftarrow> t_view T getitem [int s0, -1, 64];
  getitem_5 \<leftarrow> t_getitem_last T view_4 None (Some 64);
  getitem_6 \<leftarrow> t_getitem_last T view_4 (Some 64) None;
  unsqueeze \<leftarrow> t_unsqueeze T getitem_3 (-2);
  (to, h) \<leftarrow> t_to T unsqueeze BFloat16 h;
  unsqueeze_1 \<leftarrow> t_unsqueeze T getitem_4 (-2);
  (to_1, h) \<leftarrow> t_to T unsqueeze_1 BFloat16 h;
  chunk_1 \<leftarrow> t_chunk T getitem_5 2 (-1);
  getitem_7 \<leftarrow> py_nth chunk_1 0;
  getitem_8 \<leftarrow> py_nth chunk_1 1;
  (mul, h) \<leftarrow> t_mul T getitem_7 to h;
  (mul_1, h) \<leftarrow> t_mul T getitem_8 to_1 h;
  (sub, h) \<leftarrow> t_sub T mul mul_1 h;
  (mul_2, h) \<leftarrow> t_mul T getitem_8 to h;
  (mul_3, h) \<leftarrow> t_mul T getitem_7 to_1 h;
  (add, h) \<leftarrow> t_add T mul_2 mul_3 h;
  (cat, h) \<leftarrow> t_cat T [sub, add] (-1) h;
  (cat_1, h) \<leftarrow> t_cat T [cat, getitem_6] (-1) h;
  (reshape, h) \<leftarrow> t_reshape T cat_1 size h;
  let size_1 = sizes getitem_1;
  view_5 \<leftarrow> t_view T getitem_1 [int s0, -1, 64];
  getitem_9 \<leftarrow> t_getitem_last T view_5 None (Some 64);
  getitem_10 \<leftarrow> t_getitem_last T view_5 (Some 64) None;
  unsqueeze_2 \<leftarrow> t_unsqueeze T getitem_3 (-2);
  (to_2, h) \<leftarrow> t_to T unsqueeze_2 BFloat16 h;
  unsqueeze_3 \<leftarrow> t_unsqueeze T getitem_4 (-2);
  (to_3, h) \<leftarrow> t_to T unsqueeze_3 BFloat16 h;
  chunk_2 \<leftarrow> t_chunk T getitem_9 2 (-1);
  getitem_11 \<leftarrow> py_nth chunk_2 0;
  getitem_12 \<leftarrow> py_nth chunk_2 1;
  (mul_4, h) \<leftarrow> t_mul T getitem_11 to_2 h;
  (mul_5, h) \<leftarrow> t_mul T getitem_12 to_3 h;
  (sub_1, h) \<leftarrow> t_sub T mul_4 mul_5 h;
  (mul_6, h) \<leftarrow> t_mul T getitem_12 to_2 h;
  (mul_7, h) \<leftarrow> t_mul T getitem_11 to_3 h;
  (add_1, h) \<leftarrow> t_add T mul_6 mul_7 h;
  (cat_2, h) \<leftarrow> t_cat T [sub_1, add_1] (-1) h;
  (cat_3, h) \<leftarrow> t_cat T [cat_2, getitem_10] (-1) h;
  (reshape_1, h) \<leftarrow> t_reshape T cat_3 size_1 h;
  let size_2 = sizes reshape;
  (empty_1, h) \<leftarrow> t_empty T size_2 BFloat16 (''cuda'', 0) h;
  view_6 \<leftarrow> t_view T reshape [-1, 16, 64];
  view_7 \<leftarrow> t_view T empty_1 [-1, 16, 64];
  view_8 \<leftarrow> t_view T reshape_1 [-1, 16, 64];
  view_9 \<leftarrow> t_view T getitem_2 [-1, 16, 64];
  Some ((view_6, view_8, view_9, view_7), h)}"

definition submod_29 ::
  "('a, 'k) torch \<Rightarrow> tensor \<Rightarrow> nat \<Rightarrow> tensor \<Rightarrow> tensor \<Rightarrow> tensor \<Rightarrow>
   ('a, 'k) store \<Rightarrow> (unit \<times> ('a, 'k) store) option" where
  "submod_29 T query_44 s0 key_44 value_14 output_29 h = do {
  h \<leftarrow> t_unified_attention_with_output T query_44 key_44 value_14 output_29
      ''model.layers.14.self_attn.attn'' h;
  Some ((), h)}"

definition submod_30 ::
  "('a, 'k) torch \<Rightarrow> tensor \<Rightarrow> nat \<Rightarrow> tensor \<Rightarrow> tensor \<Rightarrow> tensor \<Rightarrow> tensor \<Rightarrow> tensor \<Rightarrow> tensor \<Rightarrow> tensor \<Rightarrow> tensor \<Rightarrow> tensor \<Rightarrow> tensor \<Rightarrow>
   ('a, 'k) store \<Rightarrow> ((tensor \<times> tensor \<times> tensor \<times> tensor) \<times> ('a, 'k) store) option" where
  "submod_30 T output_29 s0 layers_14_self_attn_o_proj_weight
      layers_14_post_attention_layernorm_weight output_parallel
      layers_14_mlp_gate_up_proj_weight layers_14_mlp_down_proj_weight
      layers_15_input_layernorm_weight layers_15_self_attn_qkv_proj_weight
      layers_15_self_attn_qkv_proj_bias l_positions layers_0_self_attn_rotary_emb_cos_sin_cache
      h = do {
  view \<leftarrow> t_view T output_29 [-1, 1024];
  view_1 \<leftarrow> t_view T view [-1, 1024];
  (linear, h) \<leftarrow> t_linear T view layers_14_self_attn_o_proj_weight None h;
  get_data_attr \<leftarrow> t_get_data_attr T layers_14_post_attention_layernorm_weight;
  h \<leftarrow> t_fused_add_rms_norm T linear output_parallel get_data_attr (1 / 1000000) h;
  view_2 \<leftarrow> t_view T linear [-1, 1024];
  (linear_1, h) \<leftarrow> t_linear T linear layers_14_mlp_gate_up_proj_weight None h;
  (empty, h) \<leftarrow> t_empty T [s0, 2816] BFloat16 (''cuda'', 0) h;
  h \<leftarrow> t_silu_and_mul T empty linear_1 h;
  view_3 \<leftarrow> t_view T empty [-1, 2816];
  (linear_2, h) \<leftarrow> t_linear T empty layers_14_mlp_down_proj_weight None h;
  get_data_attr_1 \<leftarrow> t_get_data_attr T layers_15_input_layernorm_weight;
  h \<leftarrow> t_fused_add_rms_norm T linear_2 output_parallel get_data_attr_1 (1 / 1000000)
      h;
  (linear_3, h) \<leftarrow> t_linear T linear_2 layers_15_self_attn_qkv_proj_weight (Some
      layers_15_self_attn_qkv_proj_bias) h;
  split \<leftarrow> t_split T linear_3 [1024, 1024, 1024] (-1);
  getitem \<leftarrow> py_nth split 0;
  getitem_1 \<leftarrow> py_nth split 1;
  getitem_2 \<leftarrow> py_nth split 2;
  (flatten, h) \<leftarrow> t_flatten T l_positions h;
  (index_select, h) \<leftarrow> t_index_select T layers_0_self_attn_rotary_emb_cos_sin_cache 0
      flatten h;
  chunk \<leftarrow> t_chunk T index_select 2 (-1);
  getitem_3 \<leftarrow> py_nth chunk 0;
  getitem_4 \<leftarrow> py_nth chunk 1;
  let size = sizes getitem;
  view_4 \<leftarrow> t_view T getitem [int s0, -1, 64];
  getitem_5 \<leftarrow> t_getitem_last T view_4 None (Some 64);
  getitem_6 \<leftarrow> t_getitem_last T view_4 (Some 64) None;
  unsqueeze \<leftarrow> t_unsqueeze T getitem_3 (-2);
  (to, h) \<leftarrow> t_to T unsqueeze BFloat16 h;
  unsqueeze_1 \<leftarrow> t_unsqueeze T getitem_4 (-2);
  (to_1, h) \<leftarrow> t_to T unsqueeze_1 BFloat16 h;
  chunk_1 \<leftarrow> t_chunk T getitem_5 2 (-1);
  getitem_7 \<leftarrow> py_nth chunk_1 0;
  getitem_8 \<leftarrow> py_nth chunk_1 1;
  (mul, h) \<leftarrow> t_mul T getitem_7 to h;
  (mul_1, h) \<leftarrow> t_mul T getitem_8 to_1 h;
  (sub, h) \<leftarrow> t_sub T mul mul_1 h;
  (mul_2, h) \<leftarrow> t_mul T getitem_8 to h;
  (mul_3, h) \<leftarrow> t_mul T getitem_7 to_1 h;
  (add, h) \<leftarrow> t_add T mul_2 mul_3 h;
  (cat, h) \<leftarrow> t_cat T [sub, add] (-1) h;
  (cat_1, h) \<leftarrow> t_cat T [cat, getitem_6] (-1) h;
  (reshape, h) \<leftarrow> t_reshape T cat_1 size h;
  let size_1 = sizes getitem_1;
  view_5 \<leftarrow> t_view T getitem_1 [int s0, -1, 64];
  getitem_9 \<leftarrow> t_getitem_last T view_5 None (Some 64);
  getitem_10 \<leftarrow> t_getitem_last T view_5 (Some 64) None;
  unsqueeze_2 \<leftarrow> t_unsqueeze T getitem_3 (-2);
  (to_2, h) \<leftarrow> t_to T unsqueeze_2 BFloat16 h;
  unsqueeze_3 \<leftarrow> t_unsqueeze T getitem_4 (-2);
  (to_3, h) \<leftarrow> t_to T unsqueeze_3 BFloat16 h;
  chunk_2 \<leftarrow> t_chunk T getitem_9 2 (-1);
  getitem_11 \<leftarrow> py_nth chunk_2 0;
  getitem_12 \<leftarrow> py_nth chunk_2 1;
  (mul_4, h) \<leftarrow> t_mul T getitem_11 to_2 h;
  (mul_5, h) \<leftarrow> t_mul T getitem_12 to_3 h;
  (sub_1, h) \<leftarrow> t_sub T mul_4 mul_5 h;
  (mul_6, h) \<leftarrow> t_mul T getitem_12 to_2 h;
  (mul_7, h) \<leftarrow> t_mul T getitem_11 to_3 h;
  (add_1, h) \<leftarrow> t_add T mul_6 mul_7 h;
  (cat_2, h) \<leftarrow> t_cat T [sub_1, add_1] (-1) h;
  (cat_3, h) \<leftarrow> t_cat T [cat_2, getitem_10] (-1) h;
  (reshape_1, h) \<leftarrow> t_reshape T cat_3 size_1 h;
  let size_2 = sizes reshape;
  (empty_1, h) \<leftarrow> t_empty T size_2 BFloat16 (''cuda'', 0) h;
  view_6 \<leftarrow> t_view T reshape [-1, 16, 64];
  view_7 \<leftarrow> t_view T empty_1 [-1, 16, 64];
  view_8 \<leftarrow> t_view T reshape_1 [-1, 16, 64];
  view_9 \<leftarrow> t_view T getitem_2 [-1, 16, 64];
  Some ((view_6, view_8, view_9, view_7), h)}"

definition submod_31 ::
  "('a, 'k) torch \<Rightarrow> tensor \<Rightarrow> nat \<Rightarrow> tensor \<Rightarrow> tensor \<Rightarrow> tensor \<Rightarrow>
   ('a, 'k) store \<Rightarrow> (unit \<times> ('a, 'k) store) option" where
  "submod_31 T query_47 s0 key_47 value_15 output_31 h = do {
  h \<leftarrow> t_unified_attention_with_output T query_47 key_47 value_15 output_31
      ''model.layers.15.self_attn.attn'' h;
  Some ((), h)}"

definition submod_32 ::
  "('a, 'k) torch \<Rightarrow> tensor \<Rightarrow> nat \<Rightarrow> tensor \<Rightarrow> tensor \<Rightarrow> tensor \<Rightarrow> tensor \<Rightarrow> tensor \<Rightarrow> tensor \<Rightarrow> tensor \<Rightarrow> tensor \<Rightarrow> tensor \<Rightarrow> tensor \<Rightarrow>
   ('a, 'k) store \<Rightarrow> ((tensor \<times> tensor \<times> tensor \<times> tensor) \<times> ('a, 'k) store) option" where
  "submod_32 T output_31 s0 layers_15_self_attn_o_proj_weight
      layers_15_post_attention_layernorm_weight output_parallel
      layers_15_mlp_gate_up_proj_weight layers_15_mlp_down_proj_weight
      layers_16_input_layernorm_weight layers_16_self_attn_qkv_proj_weight
      layers_16_self_attn_qkv_proj_bias l_positions layers_0_self_attn_rotary_emb_cos_sin_cache
      h = do {
  view \<leftarrow> t_view T output_31 [-1, 1024];
  view_1 \<leftarrow> t_view T view [-1, 1024];
  (linear, h) \<leftarrow> t_linear T view layers_15_self_attn_o_proj_weight None h;
  get_data_attr \<leftarrow> t_get_data_attr T layers_15_post_attention_layernorm_weight;
  h \<leftarrow> t_fused_add_rms_norm T linear output_parallel get_data_attr (1 / 1000000) h;
  view_2 \<leftarrow> t_view T linear [-1, 1024];
  (linear_1, h) \<leftarrow> t_linear T linear layers_15_mlp_gate_up_proj_weight None h;
  (empty, h) \<leftarrow> t_empty T [s0, 2816] BFloat16 (''cuda'', 0) h;
  h \<leftarrow> t_silu_and_mul T empty linear_1 h;
  view_3 \<leftarrow> t_view T empty [-1, 2816];
  (linear_2, h) \<leftarrow> t_linear T empty layers_15_mlp_down_proj_weight None h;
  get_data_attr_1 \<leftarrow> t_get_data_attr T layers_16_input_layernorm_weight;
  h \<leftarrow> t_fused_add_rms_norm T linear_2 output_parallel get_data_attr_1 (1 / 1000000)
      h;
  (linear_3, h) \<leftarrow> t_linear T linear_2 layers_16_self_attn_qkv_proj_weight (Some
      layers_16_self_attn_qkv_proj_bias) h;
  split \<leftarrow> t_split T linear_3 [1024, 1024, 1024] (-1);
  getitem \<leftarrow> py_nth split 0;
  getitem_1 \<leftarrow> py_nth split 1;
  getitem_2 \<leftarrow> py_nth split 2;
  (flatten, h) \<leftarrow> t_flatten T l_positions h;
  (index_select, h) \<leftarrow> t_index_select T layers_0_self_attn_rotary_emb_cos_sin_cache 0
      flatten h;
  chunk \<leftarrow> t_chunk T index_select 2 (-1);
  getitem_3 \<leftarrow> py_nth chunk 0;
  getitem_4 \<leftarrow> py_nth chunk 1;
  let size = sizes getitem;
  view_4 \<leftarrow> t_view T getitem [int s0, -1, 64];
  getitem_5 \<leftarrow> t_getitem_last T view_4 None (Some 64);
  getitem_6 \<leftarrow> t_getitem_last T view_4 (Some 64) None;
  unsqueeze \<leftarrow> t_unsqueeze T getitem_3 (-2);
  (to, h) \<leftarrow> t_to T unsqueeze BFloat16 h;
  unsqueeze_1 \<leftarrow> t_unsqueeze T getitem_4 (-2);
  (to_1, h) \<leftarrow> t_to T unsqueeze_1 BFloat16 h;
  chunk_1 \<leftarrow> t_chunk T getitem_5 2 (-1);
  getitem_7 \<leftarrow> py_nth chunk_1 0;
  getitem_8 \<leftarrow> py_nth chunk_1 1;
  (mul, h) \<leftarrow> t_mul T getitem_7 to h;
  (mul_1, h) \<leftarrow> t_mul T getitem_8 to_1 h;
  (sub, h) \<leftarrow> t_sub T mul mul_1 h;
  (mul_2, h) \<leftarrow> t_mul T getitem_8 to h;
  (mul_3, h) \<leftarrow> t_mul T getitem_7 to_1 h;
  (add, h) \<leftarrow> t_add T mul_2 mul_3 h;
  (cat, h) \<leftarrow> t_cat T [sub, add] (-1) h;
  (cat_1, h) \<leftarrow> t_cat T [cat, getitem_6] (-1) h;
  (reshape, h) \<leftarrow> t_reshape T cat_1 size h;
  let size_1 = sizes getitem_1;
  view_5 \<leftarrow> t_view T getitem_1 [int s0, -1, 64];
  getitem_9 \<leftarrow> t_getitem_last T view_5 None (Some 64);
  getitem_10 \<leftarrow> t_getitem_last T view_5 (Some 64) None;
  unsqueeze_2 \<leftarrow> t_unsqueeze T getitem_3 (-2);
  (to_2, h) \<leftarrow> t_to T unsqueeze_2 BFloat16 h;
  unsqueeze_3 \<leftarrow> t_unsqueeze T getitem_4 (-2);
  (to_3, h) \<leftarrow> t_to T unsqueeze_3 BFloat16 h;
  chunk_2 \<leftarrow> t_chunk T getitem_9 2 (-1);
  getitem_11 \<leftarrow> py_nth chunk_2 0;
  getitem_12 \<leftarrow> py_nth chunk_2 1;
  (mul_4, h) \<leftarrow> t_mul T getitem_11 to_2 h;
  (mul_5, h) \<leftarrow> t_mul T getitem_12 to_3 h;
  (sub_1, h) \<leftarrow> t_sub T mul_4 mul_5 h;
  (mul_6, h) \<leftarrow> t_mul T getitem_12 to_2 h;
  (mul_7, h) \<leftarrow> t_mul T getitem_11 to_3 h;
  (add_1, h) \<leftarrow> t_add T mul_6 mul_7 h;
  (cat_2, h) \<leftarrow> t_cat T [sub_1, add_1] (-1) h;
  (cat_3, h) \<leftarrow> t_cat T [cat_2, getitem_10] (-1) h;
  (reshape_1, h) \<leftarrow> t_reshape T cat_3 size_1 h;
  let size_2 = sizes reshape;
  (empty_1, h) \<leftarrow> t_empty T size_2 BFloat16 (''cuda'', 0) h;
  view_6 \<leftarrow> t_view T reshape [-1, 16, 64];
  view_7 \<leftarrow> t_view T empty_1 [-1, 16, 64];
  view_8 \<leftarrow> t_view T reshape_1 [-1, 16, 64];
  view_9 \<leftarrow> t_view T getitem_2 [-1, 16, 64];
  Some ((view_6, view_8, view_9, view_7), h)}"

definition submod_33 ::
  "('a, 'k) torch \<Rightarrow> tensor \<Rightarrow> nat \<Rightarrow> tensor \<Rightarrow> tensor \<Rightarrow> tensor \<Rightarrow>
   ('a, 'k) store \<Rightarrow> (unit \<times> ('a, 'k) store) option" where
  "submod_33 T query_50 s0 key_50 value_16 output_33 h = do {
  h \<leftarrow> t_unified_attention_with_output T query_50 key_50 value_16 output_33
      ''model.layers.16.self_attn.attn'' h;
  Some ((), h)}"

definition submod_34 ::
  "('a, 'k) torch \<Rightarrow> tensor \<Rightarrow> nat \<Rightarrow> tensor \<Rightarrow> tensor \<Rightarrow> tensor \<Rightarrow> tensor \<Rightarrow> tensor \<Rightarrow> tensor \<Rightarrow> tensor \<Rightarrow> tensor \<Rightarrow> tensor \<Rightarrow> tensor \<Rightarrow>
   ('a, 'k) store \<Rightarrow> ((tensor \<times> tensor \<times> tensor \<times> tensor) \<times> ('a, 'k) store) option" where
  "submod_34 T output_33 s0 layers_16_self_attn_o_proj_weight
      layers_16_post_attention_layernorm_weight output_parallel
      layers_16_mlp_gate_up_proj_weight layers_16_mlp_down_proj_weight
      layers_17_input_layernorm_weight layers_17_self_attn_qkv_proj_weight
      layers_17_self_attn_qkv_proj_bias l_positions layers_0_self_attn_rotary_emb_cos_sin_cache
      h = do {
  view \<leftarrow> t_view T output_33 [-1, 1024];
  view_1 \<leftarrow> t_view T view [-1, 1024];
  (linear, h) \<leftarrow> t_linear T view layers_16_self_attn_o_proj_weight None h;
  get_data_attr \<leftarrow> t_get_data_attr T layers_16_post_attention_layernorm_weight;
  h \<leftarrow> t_fused_add_rms_norm T linear output_parallel get_data_attr (1 / 1000000) h;
  view_2 \<leftarrow> t_view T linear [-1, 1024];
  (linear_1, h) \<leftarrow> t_linear T linear layers_16_mlp_gate_up_proj_weight None h;
  (empty, h) \<leftarrow> t_empty T [s0, 2816] BFloat16 (''cuda'', 0) h;
  h \<leftarrow> t_silu_and_mul T empty linear_1 h;
  view_3 \<leftarrow> t_view T empty [-1, 2816];
  (linear_2, h) \<leftarrow> t_linear T empty layers_16_mlp_down_proj_weight None h;
  get_data_attr_1 \<leftarrow> t_get_data_attr T layers_17_input_layernorm_weight;
  h \<leftarrow> t_fused_add_rms_norm T linear_2 output_parallel get_data_attr_1 (1 / 1000000)
      h;
  (linear_3, h) \<leftarrow> t_linear T linear_2 layers_17_self_attn_qkv_proj_weight (Some
      layers_17_self_attn_qkv_proj_bias) h;
  split \<leftarrow> t_split T linear_3 [1024, 1024, 1024] (-1);
  getitem \<leftarrow> py_nth split 0;
  getitem_1 \<leftarrow> py_nth split 1;
  getitem_2 \<leftarrow> py_nth split 2;
  (flatten, h) \<leftarrow> t_flatten T l_positions h;
  (index_select, h) \<leftarrow> t_index_select T layers_0_self_attn_rotary_emb_cos_sin_cache 0
      flatten h;
  chunk \<leftarrow> t_chunk T index_select 2 (-1);
  getitem_3 \<leftarrow> py_nth chunk 0;
  getitem_4 \<leftarrow> py_nth chunk 1;
  let size = sizes getitem;
  view_4 \<leftarrow> t_view T getitem [int s0, -1, 64];
  getitem_5 \<leftarrow> t_getitem_last T view_4 None (Some 64);
  getitem_6 \<leftarrow> t_getitem_last T view_4 (Some 64) None;
  unsqueeze \<leftarrow> t_unsqueeze T getitem_3 (-2);
  (to, h) \<leftarrow> t_to T unsqueeze BFloat16 h;
  unsqueeze_1 \<leftarrow> t_unsqueeze T getitem_4 (-2);
  (to_1, h) \<leftarrow> t_to T unsqueeze_1 BFloat16 h;
  chunk_1 \<leftarrow> t_chunk T getitem_5 2 (-1);
  getitem_7 \<leftarrow> py_nth chunk_1 0;
  getitem_8 \<leftarrow> py_nth chunk_1 1;
  (mul, h) \<leftarrow> t_mul T getitem_7 to h;
  (mul_1, h) \<leftarrow> t_mul T getitem_8 to_1 h;
  (sub, h) \<leftarrow> t_sub T mul mul_1 h;
  (mul_2, h) \<leftarrow> t_mul T getitem_8 to h;
  (mul_3, h) \<leftarrow> t_mul T getitem_7 to_1 h;
  (add, h) \<leftarrow> t_add T mul_2 mul_3 h;
  (cat, h) \<leftarrow> t_cat T [sub, add] (-1) h;
  (cat_1, h) \<leftarrow> t_cat T [cat, getitem_6] (-1) h;
  (reshape, h) \<leftarrow> t_reshape T cat_1 size h;
  let size_1 = sizes getitem_1;
  view_5 \<leftarrow> t_view T getitem_1 [int s0, -1, 64];
  getitem_9 \<leftarrow> t_getitem_last T view_5 None (Some 64);
  getitem_10 \<leftarrow> t_getitem_last T view_5 (Some 64) None;
  unsqueeze_2 \<leftarrow> t_unsqueeze T getitem_3 (-2);
  (to_2, h) \<leftarrow> t_to T unsqueeze_2 BFloat16 h;
  unsqueeze_3 \<leftarrow> t_unsqueeze T getitem_4 (-2);
  (to_3, h) \<leftarrow> t_to T unsqueeze_3 BFloat16 h;
  chunk_2 \<leftarrow> t_chunk T getitem_9 2 (-1);
  getitem_11 \<leftarrow> py_nth chunk_2 0;
  getitem_12 \<leftarrow> py_nth chunk_2 1;
  (mul_4, h) \<leftarrow> t_mul T getitem_11 to_2 h;
  (mul_5, h) \<leftarrow> t_mul T getitem_12 to_3 h;
  (sub_1, h) \<leftarrow> t_sub T mul_4 mul_5 h;
  (mul_6, h) \<leftarrow> t_mul T getitem_12 to_2 h;
  (mul_7, h) \<leftarrow> t_mul T getitem_11 to_3 h;
  (add_1, h) \<leftarrow> t_add T mul_6 mul_7 h;
  (cat_2, h) \<leftarrow> t_cat T [sub_1, add_1] (-1) h;
  (cat_3, h) \<leftarrow> t_cat T [cat_2, getitem_10] (-1) h;
  (reshape_1, h) \<leftarrow> t_reshape T cat_3 size_1 h;
  let size_2 = sizes reshape;
  (empty_1, h) \<leftarrow> t_empty T size_2 BFloat16 (''cuda'', 0) h;
  view_6 \<leftarrow> t_view T reshape [-1, 16, 64];
  view_7 \<leftarrow> t_view T empty_1 [-1, 16, 64];
  view_8 \<leftarrow> t_view T reshape_1 [-1, 16, 64];
  view_9 \<leftarrow> t_view T getitem_2 [-1, 16, 64];
  Some ((view_6, view_8, view_9, view_7), h)}"

definition submod_35 ::
  "('a, 'k) torch \<Rightarrow> tensor \<Rightarrow> nat \<Rightarrow> tensor \<Rightarrow> tensor \<Rightarrow> tensor \<Rightarrow>
   ('a, 'k) store \<Rightarrow> (unit \<times> ('a, 'k) store) option" where
  "submod_35 T query_53 s0 key_53 value_17 output_35 h = do {
  h \<leftarrow> t_unified_attention_with_output T query_53 key_53 value_17 output_35
      ''model.layers.17.self_attn.attn'' h;
  Some ((), h)}"

definition submod_36 ::
  "('a, 'k) torch \<Rightarrow> tensor \<Rightarrow> nat \<Rightarrow> tensor \<Rightarrow> tensor \<Rightarrow> tensor \<Rightarrow> tensor \<Rightarrow> tensor \<Rightarrow> tensor \<Rightarrow> tensor \<Rightarrow> tensor \<Rightarrow> tensor \<Rightarrow> tensor \<Rightarrow>
   ('a, 'k) store \<Rightarrow> ((tensor \<times> tensor \<times> tensor \<times> tensor) \<times> ('a, 'k) store) option" where
  "submod_36 T output_35 s0 layers_17_self_attn_o_proj_weight
      layers_17_post_attention_layernorm_weight output_parallel
      layers_17_mlp_gate_up_proj_weight layers_17_mlp_down_proj_weight
      layers_18_input_layernorm_weight layers_18_self_attn_qkv_proj_weight
      layers_18_self_attn_qkv_proj_bias l_positions layers_0_self_attn_rotary_emb_cos_sin_cache
      h = do {
  view \<leftarrow> t_view T output_35 [-1, 1024];
  view_1 \<leftarrow> t_view T view [-1, 1024];
  (linear, h) \<leftarrow> t_linear T view layers_17_self_attn_o_proj_weight None h;
  get_data_attr \<leftarrow> t_get_data_attr T layers_17_post_attention_layernorm_weight;
  h \<leftarrow> t_fused_add_rms_norm T linear output_parallel get_data_attr (1 / 1000000) h;
  view_2 \<leftarrow> t_view T linear [-1, 1024];
  (linear_1, h) \<leftarrow> t_linear T linear layers_17_mlp_gate_up_proj_weight None h;
  (empty, h) \<leftarrow> t_empty T [s0, 2816] BFloat16 (''cuda'', 0) h;
  h \<leftarrow> t_silu_and_mul T empty linear_1 h;
  view_3 \<leftarrow> t_view T empty [-1, 2816];
  (linear_2, h) \<leftarrow> t_linear T empty layers_17_mlp_down_proj_weight None h;
  get_data_attr_1 \<leftarrow> t_get_data_attr T layers_18_input_layernorm_weight;
  h \<leftarrow> t_fused_add_rms_norm T linear_2 output_parallel get_data_attr_1 (1 / 1000000)
      h;
  (linear_3, h) \<leftarrow> t_linear T linear_2 layers_18_self_attn_qkv_proj_weight (Some
      layers_18_self_attn_qkv_proj_bias) h;
  split \<leftarrow> t_split T linear_3 [1024, 1024, 1024] (-1);
  getitem \<leftarrow> py_nth split 0;
  getitem_1 \<leftarrow> py_nth split 1;
  getitem_2 \<leftarrow> py_nth split 2;
  (flatten, h) \<leftarrow> t_flatten T l_positions h;
  (index_select, h) \<leftarrow> t_index_select T layers_0_self_attn_rotary_emb_cos_sin_cache 0
      flatten h;
  chunk \<leftarrow> t_chunk T index_select 2 (-1);
  getitem_3 \<leftarrow> py_nth chunk 0;
  getitem_4 \<leftarrow> py_nth chunk 1;
  let size = sizes getitem;
  view_4 \<leftarrow> t_view T getitem [int s0, -1, 64];
  getitem_5 \<leftarrow> t_getitem_last T view_4 None (Some 64);
  getitem_6 \<leftarrow> t_getitem_last T view_4 (Some 64) None;
  unsqueeze \<leftarrow> t_unsqueeze T getitem_3 (-2);
  (to, h) \<leftarrow> t_to T unsqueeze BFloat16 h;
  unsqueeze_1 \<leftarrow> t_unsqueeze T getitem_4 (-2);
  (to_1, h) \<leftarrow> t_to T unsqueeze_1 BFloat16 h;
  chunk_1 \<leftarrow> t_chunk T getitem_5 2 (-1);
  getitem_7 \<leftarrow> py_nth chunk_1 0;
  getitem_8 \<leftarrow> py_nth chunk_1 1;
  (mul, h) \<leftarrow> t_mul T getitem_7 to h;
  (mul_1, h) \<leftarrow> t_mul T getitem_8 to_1 h;
  (sub, h) \<leftarrow> t_sub T mul mul_1 h;
  (mul_2, h) \<leftarrow> t_mul T getitem_8 to h;
  (mul_3, h) \<leftarrow> t_mul T getitem_7 to_1 h;
  (add, h) \<leftarrow> t_add T mul_2 mul_3 h;
  (cat, h) \<leftarrow> t_cat T [sub, add] (-1) h;
  (cat_1, h) \<leftarrow> t_cat T [cat, getitem_6] (-1) h;
  (reshape, h) \<leftarrow> t_reshape T cat_1 size h;
  let size_1 = sizes getitem_1;
  view_5 \<leftarrow> t_view T getitem_1 [int s0, -1, 64];
  getitem_9 \<leftarrow> t_getitem_last T view_5 None (Some 64);
  getitem_10 \<leftarrow> t_getitem_last T view_5 (Some 64) None;
  unsqueeze_2 \<leftarrow> t_unsqueeze T getitem_3 (-2);
  (to_2, h) \<leftarrow> t_to T unsqueeze_2 BFloat16 h;
  unsqueeze_3 \<leftarrow> t_unsqueeze T getitem_4 (-2);
  (to_3, h) \<leftarrow> t_to T unsqueeze_3 BFloat16 h;
  chunk_2 \<leftarrow> t_chunk T getitem_9 2 (-1);
  getitem_11 \<leftarrow> py_nth chunk_2 0;
  getitem_12 \<leftarrow> py_nth chunk_2 1;
  (mul_4, h) \<leftarrow> t_mul T getitem_11 to_2 h;
  (mul_5, h) \<leftarrow> t_mul T getitem_12 to_3 h;
  (sub_1, h) \<leftarrow> t_sub T mul_4 mul_5 h;
  (mul_6, h) \<leftarrow> t_mul T getitem_12 to_2 h;
  (mul_7, h) \<leftarrow> t_mul T getitem_11 to_3 h;
  (add_1, h) \<leftarrow> t_add T mul_6 mul_7 h;
  (cat_2, h) \<leftarrow> t_cat T [sub_1, add_1] (-1) h;
  (cat_3, h) \<leftarrow> t_cat T [cat_2, getitem_10] (-1) h;
  (reshape_1, h) \<leftarrow> t_reshape T cat_3 size_1 h;
  let size_2 = sizes reshape;
  (empty_1, h) \<leftarrow> t_empty T size_2 BFloat16 (''cuda'', 0) h;
  view_6 \<leftarrow> t_view T reshape [-1, 16, 64];
  view_7 \<leftarrow> t_view T empty_1 [-1, 16, 64];
  view_8 \<leftarrow> t_view T reshape_1 [-1, 16, 64];
  view_9 \<leftarrow> t_view T getitem_2 [-1, 16, 64];
  Some ((view_6, view_8, view_9, view_7), h)}"

definition submod_37 ::
  "('a, 'k) torch \<Rightarrow> tensor \<Rightarrow> nat \<Rightarrow> tensor \<Rightarrow> tensor \<Rightarrow> tensor \<Rightarrow>
   ('a, 'k) store \<Rightarrow> (unit \<times> ('a, 'k) store) option" where
  "submod_37 T query_56 s0 key_56 value_18 output_37 h = do {
  h \<leftarrow> t_unified_attention_with_output T query_56 key_56 value_18 output_37
      ''model.layers.18.self_attn.attn'' h;
  Some ((), h)}"

definition submod_38 ::
  "('a, 'k) torch \<Rightarrow> tensor \<Rightarrow> nat \<Rightarrow> tensor \<Rightarrow> tensor \<Rightarrow> tensor \<Rightarrow> tensor \<Rightarrow> tensor \<Rightarrow> tensor \<Rightarrow> tensor \<Rightarrow> tensor \<Rightarrow> tensor \<Rightarrow> tensor \<Rightarrow>
   ('a, 'k) store \<Rightarrow> ((tensor \<times> tensor \<times> tensor \<times> tensor) \<times> ('a, 'k) store) option" where
  "submod_38 T output_37 s0 layers_18_self_attn_o_proj_weight
      layers_18_post_attention_layernorm_weight output_parallel
      layers_18_mlp_gate_up_proj_weight layers_18_mlp_down_proj_weight
      layers_19_input_layernorm_weight layers_19_self_attn_qkv_proj_weight
      layers_19_self_attn_qkv_proj_bias l_positions layers_0_self_attn_rotary_emb_cos_sin_cache
      h = do {
  view \<leftarrow> t_view T output_37 [-1, 1024];
  view_1 \<leftarrow> t_view T view [-1, 1024];
  (linear, h) \<leftarrow> t_linear T view layers_18_self_attn_o_proj_weight None h;
  get_data_attr \<leftarrow> t_get_data_attr T layers_18_post_attention_layernorm_weight;
  h \<leftarrow> t_fused_add_rms_norm T linear output_parallel get_data_attr (1 / 1000000) h;
  view_2 \<leftarrow> t_view T linear [-1, 1024];
  (linear_1, h) \<leftarrow> t_linear T linear layers_18_mlp_gate_up_proj_weight None h;
  (empty, h) \<leftarrow> t_empty T [s0, 2816] BFloat16 (''cuda'', 0) h;
  h \<leftarrow> t_silu_and_mul T empty linear_1 h;
  view_3 \<leftarrow> t_view T empty [-1, 2816];
  (linear_2, h) \<leftarrow> t_linear T empty layers_18_mlp_down_proj_weight None h;
  get_data_attr_1 \<leftarrow> t_get_data_attr T layers_19_input_layernorm_weight;
  h \<leftarrow> t_fused_add_rms_norm T linear_2 output_parallel get_data_attr_1 (1 / 1000000)
      h;
  (linear_3, h) \<leftarrow> t_linear T linear_2 layers_19_self_attn_qkv_proj_weight (Some
      layers_19_self_attn_qkv_proj_bias) h;
  split \<leftarrow> t_split T linear_3 [1024, 1024, 1024] (-1);
  getitem \<leftarrow> py_nth split 0;
  getitem_1 \<leftarrow> py_nth split 1;
  getitem_2 \<leftarrow> py_nth split 2;
  (flatten, h) \<leftarrow> t_flatten T l_positions h;
  (index_select, h) \<leftarrow> t_index_select T layers_0_self_attn_rotary_emb_cos_sin_cache 0
      flatten h;
  chunk \<leftarrow> t_chunk T index_select 2 (-1);
  getitem_3 \<leftarrow> py_nth chunk 0;
  getitem_4 \<leftarrow> py_nth chunk 1;
  let size = sizes getitem;
  view_4 \<leftarrow> t_view T getitem [int s0, -1, 64];
  getitem_5 \<leftarrow> t_getitem_last T view_4 None (Some 64);
  getitem_6 \<leftarrow> t_getitem_last T view_4 (Some 64) None;
  unsqueeze \<leftarrow> t_unsqueeze T getitem_3 (-2);
  (to, h) \<leftarrow> t_to T unsqueeze BFloat16 h;
  unsqueeze_1 \<leftarrow> t_unsqueeze T getitem_4 (-2);
  (to_1, h) \<leftarrow> t_to T unsqueeze_1 BFloat16 h;
  chunk_1 \<leftarrow> t_chunk T getitem_5 2 (-1);
  getitem_7 \<leftarrow> py_nth chunk_1 0;
  getitem_8 \<leftarrow> py_nth chunk_1 1;
  (mul, h) \<leftarrow> t_mul T getitem_7 to h;
  (mul_1, h) \<leftarrow> t_mul T getitem_8 to_1 h;
  (sub, h) \<leftarrow> t_sub T mul mul_1 h;
  (mul_2, h) \<leftarrow> t_mul T getitem_8 to h;
  (mul_3, h) \<leftarrow> t_mul T getitem_7 to_1 h;
  (add, h) \<leftarrow> t_add T mul_2 mul_3 h;
  (cat, h) \<leftarrow> t_cat T [sub, add] (-1) h;
  (cat_1, h) \<leftarrow> t_cat T [cat, getitem_6] (-1) h;
  (reshape, h) \<leftarrow> t_reshape T cat_1 size h;
  let size_1 = sizes getitem_1;
  view_5 \<leftarrow> t_view T getitem_1 [int s0, -1, 64];
  getitem_9 \<leftarrow> t_getitem_last T view_5 None (Some 64);
  getitem_10 \<leftarrow> t_getitem_last T view_5 (Some 64) None;
  unsqueeze_2 \<leftarrow> t_unsqueeze T getitem_3 (-2);
  (to_2, h) \<leftarrow> t_to T unsqueeze_2 BFloat16 h;
  unsqueeze_3 \<leftarrow> t_unsqueeze T getitem_4 (-2);
  (to_3, h) \<leftarrow> t_to T unsqueeze_3 BFloat16 h;
  chunk_2 \<leftarrow> t_chunk T getitem_9 2 (-1);
  getitem_11 \<leftarrow> py_nth chunk_2 0;
  getitem_12 \<leftarrow> py_nth chunk_2 1;
  (mul_4, h) \<leftarrow> t_mul T getitem_11 to_2 h;
  (mul_5, h) \<leftarrow> t_mul T getitem_12 to_3 h;
  (sub_1, h) \<leftarrow> t_sub T mul_4 mul_5 h;
  (mul_6, h) \<leftarrow> t_mul T getitem_12 to_2 h;
  (mul_7, h) \<leftarrow> t_mul T getitem_11 to_3 h;
  (add_1, h) \<leftarrow> t_add T mul_6 mul_7 h;
  (cat_2, h) \<leftarrow> t_cat T [sub_1, add_1] (-1) h;
  (cat_3, h) \<leftarrow> t_cat T [cat_2, getitem_10] (-1) h;
  (reshape_1, h) \<leftarrow> t_reshape T cat_3 size_1 h;
  let size_2 = sizes reshape;
  (empty_1, h) \<leftarrow> t_empty T size_2 BFloat16 (''cuda'', 0) h;
  view_6 \<leftarrow> t_view T reshape [-1, 16, 64];
  view_7 \<leftarrow> t_view T empty_1 [-1, 16, 64];
  view_8 \<leftarrow> t_view T reshape_1 [-1, 16, 64];
  view_9 \<leftarrow> t_view T getitem_2 [-1, 16, 64];
  Some ((view_6, view_8, view_9, view_7), h)}"

definition submod_39 ::
  "('a, 'k) torch \<Rightarrow> tensor \<Rightarrow> nat \<Rightarrow> tensor \<Rightarrow> tensor \<Rightarrow> tensor \<Rightarrow>
   ('a, 'k) store \<Rightarrow> (unit \<times> ('a, 'k) store) option" where
  "submod_39 T query_59 s0 key_59 value_19 output_39 h = do {
  h \<leftarrow> t_unified_attention_with_output T query_59 key_59 value_19 output_39
      ''model.layers.19.self_attn.attn'' h;
  Some ((), h)}"

definition submod_40 ::
  "('a, 'k) torch \<Rightarrow> tensor \<Rightarrow> nat \<Rightarrow> tensor \<Rightarrow> tensor \<Rightarrow> tensor \<Rightarrow> tensor \<Rightarrow> tensor \<Rightarrow> tensor \<Rightarrow> tensor \<Rightarrow> tensor \<Rightarrow> tensor \<Rightarrow> tensor \<Rightarrow>
   ('a, 'k) store \<Rightarrow> ((tensor \<times> tensor \<times> tensor \<times> tensor) \<times> ('a, 'k) store) option" where
  "submod_40 T output_39 s0 layers_19_self_attn_o_proj_weight
      layers_19_post_attention_layernorm_weight output_parallel
      layers_19_mlp_gate_up_proj_weight layers_19_mlp_down_proj_weight
      layers_20_input_layernorm_weight layers_20_self_attn_qkv_proj_weight
      layers_20_self_attn_qkv_proj_bias l_positions layers_0_self_attn_rotary_emb_cos_sin_cache
      h = do {
  view \<leftarrow> t_view T output_39 [-1, 1024];
  view_1 \<leftarrow> t_view T view [-1, 1024];
  (linear, h) \<leftarrow> t_linear T view layers_19_self_attn_o_proj_weight None h;
  get_data_attr \<leftarrow> t_get_data_attr T layers_19_post_attention_layernorm_weight;
  h \<leftarrow> t_fused_add_rms_norm T linear output_parallel get_data_attr (1 / 1000000) h;
  view_2 \<leftarrow> t_view T linear [-1, 1024];
  (linear_1, h) \<leftarrow> t_linear T linear layers_19_mlp_gate_up_proj_weight None h;
  (empty, h) \<leftarrow> t_empty T [s0, 2816] BFloat16 (''cuda'', 0) h;
  h \<leftarrow> t_silu_and_mul T empty linear_1 h;
  view_3 \<leftarrow> t_view T empty [-1, 2816];
  (linear_2, h) \<leftarrow> t_linear T empty layers_19_mlp_down_proj_weight None h;
  get_data_attr_1 \<leftarrow> t_get_data_attr T layers_20_input_layernorm_weight;
  h \<leftarrow> t_fused_add_rms_norm T linear_2 output_parallel get_data_attr_1 (1 / 1000000)
      h;
  (linear_3, h) \<leftarrow> t_linear T linear_2 layers_20_self_attn_qkv_proj_weight (Some
      layers_20_self_attn_qkv_proj_bias) h;
  split \<leftarrow> t_split T linear_3 [1024, 1024, 1024] (-1);
  getitem \<leftarrow> py_nth split 0;
  getitem_1 \<leftarrow> py_nth split 1;
  getitem_2 \<leftarrow> py_nth split 2;
  (flatten, h) \<leftarrow> t_flatten T l_positions h;
  (index_select, h) \<leftarrow> t_index_select T layers_0_self_attn_rotary_emb_cos_sin_cache 0
      flatten h;
  chunk \<leftarrow> t_chunk T index_select 2 (-1);
  getitem_3 \<leftarrow> py_nth chunk 0;
  getitem_4 \<leftarrow> py_nth chunk 1;
  let size = sizes getitem;
  view_4 \<leftarrow> t_view T getitem [int s0, -1, 64];
  getitem_5 \<leftarrow> t_getitem_last T view_4 None (Some 64);
  getitem_6 \<leftarrow> t_getitem_last T view_4 (Some 64) None;
  unsqueeze \<leftarrow> t_unsqueeze T getitem_3 (-2);
  (to, h) \<leftarrow> t_to T unsqueeze BFloat16 h;
  unsqueeze_1 \<leftarrow> t_unsqueeze T getitem_4 (-2);
  (to_1, h) \<leftarrow> t_to T unsqueeze_1 BFloat16 h;
  chunk_1 \<leftarrow> t_chunk T getitem_5 2 (-1);
  getitem_7 \<leftarrow> py_nth chunk_1 0;
  getitem_8 \<leftarrow> py_nth chunk_1 1;
  (mul, h) \<leftarrow> t_mul T getitem_7 to h;
  (mul_1, h) \<leftarrow> t_mul T getitem_8 to_1 h;
  (sub, h) \<leftarrow> t_sub T mul mul_1 h;
  (mul_2, h) \<leftarrow> t_mul T getitem_8 to h;
  (mul_3, h) \<leftarrow> t_mul T getitem_7 to_1 h;
  (add, h) \<leftarrow> t_add T mul_2 mul_3 h;
  (cat, h) \<leftarrow> t_cat T [sub, add] (-1) h;
  (cat_1, h) \<leftarrow> t_cat T [cat, getitem_6] (-1) h;
  (reshape, h) \<leftarrow> t_reshape T cat_1 size h;
  let size_1 = sizes getitem_1;
  view_5 \<leftarrow> t_view T getitem_1 [int s0, -1, 64];
  getitem_9 \<leftarrow> t_getitem_last T view_5 None (Some 64);
  getitem_10 \<leftarrow> t_getitem_last T view_5 (Some 64) None;
  unsqueeze_2 \<leftarrow> t_unsqueeze T getitem_3 (-2);
  (to_2, h) \<leftarrow> t_to T unsqueeze_2 BFloat16 h;
  unsqueeze_3 \<leftarrow> t_unsqueeze T getitem_4 (-2);
  (to_3, h) \<leftarrow> t_to T unsqueeze_3 BFloat16 h;
  chunk_2 \<leftarrow> t_chunk T getitem_9 2 (-1);
  getitem_11 \<leftarrow> py_nth chunk_2 0;
  getitem_12 \<leftarrow> py_nth chunk_2 1;
  (mul_4, h) \<leftarrow> t_mul T getitem_11 to_2 h;
  (mul_5, h) \<leftarrow> t_mul T getitem_12 to_3 h;
  (sub_1, h) \<leftarrow> t_sub T mul_4 mul_5 h;
  (mul_6, h) \<leftarrow> t_mul T getitem_12 to_2 h;
  (mul_7, h) \<leftarrow> t_mul T getitem_11 to_3 h;
  (add_1, h) \<leftarrow> t_add T mul_6 mul_7 h;
  (cat_2, h) \<leftarrow> t_cat T [sub_1, add_1] (-1) h;
  (cat_3, h) \<leftarrow> t_cat T [cat_2, getitem_10] (-1) h;
  (reshape_1, h) \<leftarrow> t_reshape T cat_3 size_1 h;
  let size_2 = sizes reshape;
  (empty_1, h) \<leftarrow> t_empty T size_2 BFloat16 (''cuda'', 0) h;
  view_6 \<leftarrow> t_view T reshape [-1, 16, 64];
  view_7 \<leftarrow> t_view T empty_1 [-1, 16, 64];
  view_8 \<leftarrow> t_view T reshape_1 [-1, 16, 64];
  view_9 \<leftarrow> t_view T getitem_2 [-1, 16, 64];
  Some ((view_6, view_8, view_9, view_7), h)}"

definition submod_41 ::
  "('a, 'k) torch \<Rightarrow> tensor \<Rightarrow> nat \<Rightarrow> tensor \<Rightarrow> tensor \<Rightarrow> tensor \<Rightarrow>
   ('a, 'k) store \<Rightarrow> (unit \<times> ('a, 'k) store) option" where
  "submod_41 T query_62 s0 key_62 value_20 output_41 h = do {
  h \<leftarrow> t_unified_attention_with_output T query_62 key_62 value_20 output_41
      ''model.layers.20.self_attn.attn'' h;
  Some ((), h)}"

definition submod_42 ::
  "('a, 'k) torch \<Rightarrow> tensor \<Rightarrow> nat \<Rightarrow> tensor \<Rightarrow> tensor \<Rightarrow> tensor \<Rightarrow> tensor \<Rightarrow> tensor \<Rightarrow> tensor \<Rightarrow> tensor \<Rightarrow> tensor \<Rightarrow> tensor \<Rightarrow> tensor \<Rightarrow>
   ('a, 'k) store \<Rightarrow> ((tensor \<times> tensor \<times> tensor \<times> tensor) \<times> ('a, 'k) store) option" where
  "submod_42 T output_41 s0 layers_20_self_attn_o_proj_weight
      layers_20_post_attention_layernorm_weight output_parallel
      layers_20_mlp_gate_up_proj_weight layers_20_mlp_down_proj_weight
      layers_21_input_layernorm_weight layers_21_self_attn_qkv_proj_weight
      layers_21_self_attn_qkv_proj_bias l_positions layers_0_self_attn_rotary_emb_cos_sin_cache
      h = do {
  view \<leftarrow> t_view T output_41 [-1, 1024];
  view_1 \<leftarrow> t_view T view [-1, 1024];
  (linear, h) \<leftarrow> t_linear T view layers_20_self_attn_o_proj_weight None h;
  get_data_attr \<leftarrow> t_get_data_attr T layers_20_post_attention_layernorm_weight;
  h \<leftarrow> t_fused_add_rms_norm T linear output_parallel get_data_attr (1 / 1000000) h;
  view_2 \<leftarrow> t_view T linear [-1, 1024];
  (linear_1, h) \<leftarrow> t_linear T linear layers_20_mlp_gate_up_proj_weight None h;
  (empty, h) \<leftarrow> t_empty T [s0, 2816] BFloat16 (''cuda'', 0) h;
  h \<leftarrow> t_silu_and_mul T empty linear_1 h;
  view_3 \<leftarrow> t_view T empty [-1, 2816];
  (linear_2, h) \<leftarrow> t_linear T empty layers_20_mlp_down_proj_weight None h;
  get_data_attr_1 \<leftarrow> t_get_data_attr T layers_21_input_layernorm_weight;
  h \<leftarrow> t_fused_add_rms_norm T linear_2 output_parallel get_data_attr_1 (1 / 1000000)
      h;
  (linear_3, h) \<leftarrow> t_linear T linear_2 layers_21_self_attn_qkv_proj_weight (Some
      layers_21_self_attn_qkv_proj_bias) h;
  split \<leftarrow> t_split T linear_3 [1024, 1024, 1024] (-1);
  getitem \<leftarrow> py_nth split 0;
  getitem_1 \<leftarrow> py_nth split 1;
  getitem_2 \<leftarrow> py_nth split 2;
  (flatten, h) \<leftarrow> t_flatten T l_positions h;
  (index_select, h) \<leftarrow> t_index_select T layers_0_self_attn_rotary_emb_cos_sin_cache 0
      flatten h;
  chunk \<leftarrow> t_chunk T index_select 2 (-1);
  getitem_3 \<leftarrow> py_nth chunk 0;
  getitem_4 \<leftarrow> py_nth chunk 1;
  let size = sizes getitem;
  view_4 \<leftarrow> t_view T getitem [int s0, -1, 64];
  getitem_5 \<leftarrow> t_getitem_last T view_4 None (Some 64);
  getitem_6 \<leftarrow> t_getitem_last T view_4 (Some 64) None;
  unsqueeze \<leftarrow> t_unsqueeze T getitem_3 (-2);
  (to, h) \<leftarrow> t_to T unsqueeze BFloat16 h;
  unsqueeze_1 \<leftarrow> t_unsqueeze T getitem_4 (-2);
  (to_1, h) \<leftarrow> t_to T unsqueeze_1 BFloat16 h;
  chunk_1 \<leftarrow> t_chunk T getitem_5 2 (-1);
  getitem_7 \<leftarrow> py_nth chunk_1 0;
  getitem_8 \<leftarrow> py_nth chunk_1 1;
  (mul, h) \<leftarrow> t_mul T getitem_7 to h;
  (mul_1, h) \<leftarrow> t_mul T getitem_8 to_1 h;
  (sub, h) \<leftarrow> t_sub T mul mul_1 h;
  (mul_2, h) \<leftarrow> t_mul T getitem_8 to h;
  (mul_3, h) \<leftarrow> t_mul T getitem_7 to_1 h;
  (add, h) \<leftarrow> t_add T mul_2 mul_3 h;
  (cat, h) \<leftarrow> t_cat T [sub, add] (-1) h;
  (cat_1, h) \<leftarrow> t_cat T [cat, getitem_6] (-1) h;
  (reshape, h) \<leftarrow> t_reshape T cat_1 size h;
  let size_1 = sizes getitem_1;
  view_5 \<leftarrow> t_view T getitem_1 [int s0, -1, 64];
  getitem_9 \<leftarrow> t_getitem_last T view_5 None (Some 64);
  getitem_10 \<leftarrow> t_getitem_last T view_5 (Some 64) None;
  unsqueeze_2 \<leftarrow> t_unsqueeze T getitem_3 (-2);
  (to_2, h) \<leftarrow> t_to T unsqueeze_2 BFloat16 h;
  unsqueeze_3 \<leftarrow> t_unsqueeze T getitem_4 (-2);
  (to_3, h) \<leftarrow> t_to T unsqueeze_3 BFloat16 h;
  chunk_2 \<leftarrow> t_chunk T getitem_9 2 (-1);
  getitem_11 \<leftarrow> py_nth chunk_2 0;
  getitem_12 \<leftarrow> py_nth chunk_2 1;
  (mul_4, h) \<leftarrow> t_mul T getitem_11 to_2 h;
  (mul_5, h) \<leftarrow> t_mul T getitem_12 to_3 h;
  (sub_1, h) \<leftarrow> t_sub T mul_4 mul_5 h;
  (mul_6, h) \<leftarrow> t_mul T getitem_12 to_2 h;
  (mul_7, h) \<leftarrow> t_mul T getitem_11 to_3 h;
  (add_1, h) \<leftarrow> t_add T mul_6 mul_7 h;
  (cat_2, h) \<leftarrow> t_cat T [sub_1, add_1] (-1) h;
  (cat_3, h) \<leftarrow> t_cat T [cat_2, getitem_10] (-1) h;
  (reshape_1, h) \<leftarrow> t_reshape T cat_3 size_1 h;
  let size_2 = sizes reshape;
  (empty_1, h) \<leftarrow> t_empty T size_2 BFloat16 (''cuda'', 0) h;
  view_6 \<leftarrow> t_view T reshape [-1, 16, 64];
  view_7 \<leftarrow> t_view T empty_1 [-1, 16, 64];
  view_8 \<leftarrow> t_view T reshape_1 [-1, 16, 64];
  view_9 \<leftarrow> t_view T getitem_2 [-1, 16, 64];
  Some ((view_6, view_8, view_9, view_7), h)}"

definition submod_43 ::
  "('a, 'k) torch \<Rightarrow> tensor \<Rightarrow> nat \<Rightarrow> tensor \<Rightarrow> tensor \<Rightarrow> tensor \<Rightarrow>
   ('a, 'k) store \<Rightarrow> (unit \<times> ('a, 'k) store) option" where
  "submod_43 T query_65 s0 key_65 value_21 output_43 h = do {
  h \<leftarrow> t_unified_attention_with_output T query_65 key_65 value_21 output_43
      ''model.layers.21.self_attn.attn'' h;
  Some ((), h)}"

definition submod_44 ::
  "('a, 'k) torch \<Rightarrow> tensor \<Rightarrow> nat \<Rightarrow> tensor \<Rightarrow> tensor \<Rightarrow> tensor \<Rightarrow> tensor \<Rightarrow> tensor \<Rightarrow> tensor \<Rightarrow> tensor \<Rightarrow> tensor \<Rightarrow> tensor \<Rightarrow> tensor \<Rightarrow>
   ('a, 'k) store \<Rightarrow> ((tensor \<times> tensor \<times> tensor \<times> tensor) \<times> ('a, 'k) store) option" where
  "submod_44 T output_43 s0 layers_21_self_attn_o_proj_weight
      layers_21_post_attention_layernorm_weight output_parallel
      layers_21_mlp_gate_up_proj_weight layers_21_mlp_down_proj_weight
      layers_22_input_layernorm_weight layers_22_self_attn_qkv_proj_weight
      layers_22_self_attn_qkv_proj_bias l_positions layers_0_self_attn_rotary_emb_cos_sin_cache
      h = do {
  view \<leftarrow> t_view T output_43 [-1, 1024];
  view_1 \<leftarrow> t_view T view [-1, 1024];
  (linear, h) \<leftarrow> t_linear T view layers_21_self_attn_o_proj_weight None h;
  get_data_attr \<leftarrow> t_get_data_attr T layers_21_post_attention_layernorm_weight;
  h \<leftarrow> t_fused_add_rms_norm T linear output_parallel get_data_attr (1 / 1000000) h;
  view_2 \<leftarrow> t_view T linear [-1, 1024];
  (linear_1, h) \<leftarrow> t_linear T linear layers_21_mlp_gate_up_proj_weight None h;
  (empty, h) \<leftarrow> t_empty T [s0, 2816] BFloat16 (''cuda'', 0) h;
  h \<leftarrow> t_silu_and_mul T empty linear_1 h;
  view_3 \<leftarrow> t_view T empty [-1, 2816];
  (linear_2, h) \<leftarrow> t_linear T empty layers_21_mlp_down_proj_weight None h;
  get_data_attr_1 \<leftarrow> t_get_data_attr T layers_22_input_layernorm_weight;
  h \<leftarrow> t_fused_add_rms_norm T linear_2 output_parallel get_data_attr_1 (1 / 1000000)
      h;
  (linear_3, h) \<leftarrow> t_linear T linear_2 layers_22_self_attn_qkv_proj_weight (Some
      layers_22_self_attn_qkv_proj_bias) h;
  split \<leftarrow> t_split T linear_3 [1024, 1024, 1024] (-1);
  getitem \<leftarrow> py_nth split 0;
  getitem_1 \<leftarrow> py_nth split 1;
  getitem_2 \<leftarrow> py_nth split 2;
  (flatten, h) \<leftarrow> t_flatten T l_positions h;
  (index_select, h) \<leftarrow> t_index_select T layers_0_self_attn_rotary_emb_cos_sin_cache 0
      flatten h;
  chunk \<leftarrow> t_chunk T index_select 2 (-1);
  getitem_3 \<leftarrow> py_nth chunk 0;
  getitem_4 \<leftarrow> py_nth chunk 1;
  let size = sizes getitem;
  view_4 \<leftarrow> t_view T getitem [int s0, -1, 64];
  getitem_5 \<leftarrow> t_getitem_last T view_4 None (Some 64);
  getitem_6 \<leftarrow> t_getitem_last T view_4 (Some 64) None;
  unsqueeze \<leftarrow> t_unsqueeze T getitem_3 (-2);
  (to, h) \<leftarrow> t_to T unsqueeze BFloat16 h;
  unsqueeze_1 \<leftarrow> t_unsqueeze T getitem_4 (-2);
  (to_1, h) \<leftarrow> t_to T unsqueeze_1 BFloat16 h;
  chunk_1 \<leftarrow> t_chunk T getitem_5 2 (-1);
  getitem_7 \<leftarrow> py_nth chunk_1 0;
  getitem_8 \<leftarrow> py_nth chunk_1 1;
  (mul, h) \<leftarrow> t_mul T getitem_7 to h;
  (mul_1, h) \<leftarrow> t_mul T getitem_8 to_1 h;
  (sub, h) \<leftarrow> t_sub T mul mul_1 h;
  (mul_2, h) \<leftarrow> t_mul T getitem_8 to h;
  (mul_3, h) \<leftarrow> t_mul T getitem_7 to_1 h;
  (add, h) \<leftarrow> t_add T mul_2 mul_3 h;
  (cat, h) \<leftarrow> t_cat T [sub, add] (-1) h;
  (cat_1, h) \<leftarrow> t_cat T [cat, getitem_6] (-1) h;
  (reshape, h) \<leftarrow> t_reshape T cat_1 size h;
  let size_1 = sizes getitem_1;
  view_5 \<leftarrow> t_view T getitem_1 [int s0, -1, 64];
  getitem_9 \<leftarrow> t_getitem_last T view_5 None (Some 64);
  getitem_10 \<leftarrow> t_getitem_last T view_5 (Some 64) None;
  unsqueeze_2 \<leftarrow> t_unsqueeze T getitem_3 (-2);
  (to_2, h) \<leftarrow> t_to T unsqueeze_2 BFloat16 h;
  unsqueeze_3 \<leftarrow> t_unsqueeze T getitem_4 (-2);
  (to_3, h) \<leftarrow> t_to T unsqueeze_3 BFloat16 h;
  chunk_2 \<leftarrow> t_chunk T getitem_9 2 (-1);
  getitem_11 \<leftarrow> py_nth chunk_2 0;
  getitem_12 \<leftarrow> py_nth chunk_2 1;
  (mul_4, h) \<leftarrow> t_mul T getitem_11 to_2 h;
  (mul_5, h) \<leftarrow> t_mul T getitem_12 to_3 h;
  (sub_1, h) \<leftarrow> t_sub T mul_4 mul_5 h;
  (mul_6, h) \<leftarrow> t_mul T getitem_12 to_2 h;
  (mul_7, h) \<leftarrow> t_mul T getitem_11 to_3 h;
  (add_1, h) \<leftarrow> t_add T mul_6 mul_7 h;
  (cat_2, h) \<leftarrow> t_cat T [sub_1, add_1] (-1) h;
  (cat_3, h) \<leftarrow> t_cat T [cat_2, getitem_10] (-1) h;
  (reshape_1, h) \<leftarrow> t_reshape T cat_3 size_1 h;
  let size_2 = sizes reshape;
  (empty_1, h) \<leftarrow> t_empty T size_2 BFloat16 (''cuda'', 0) h;
  view_6 \<leftarrow> t_view T reshape [-1, 16, 64];
  view_7 \<leftarrow> t_view T empty_1 [-1, 16, 64];
  view_8 \<leftarrow> t_view T reshape_1 [-1, 16, 64];
  view_9 \<leftarrow> t_view T getitem_2 [-1, 16, 64];
  Some ((view_6, view_8, view_9, view_7), h)}"

definition submod_45 ::
  "('a, 'k) torch \<Rightarrow> tensor \<Rightarrow> nat \<Rightarrow> tensor \<Rightarrow> tensor \<Rightarrow> tensor \<Rightarrow>
   ('a, 'k) store \<Rightarrow> (unit \<times> ('a, 'k) store) option" where
  "submod_45 T query_68 s0 key_68 value_22 output_45 h = do {
  h \<leftarrow> t_unified_attention_with_output T query_68 key_68 value_22 output_45
      ''model.layers.22.self_attn.attn'' h;
  Some ((), h)}"

definition submod_46 ::
  "('a, 'k) torch \<Rightarrow> tensor \<Rightarrow> nat \<Rightarrow> tensor \<Rightarrow> tensor \<Rightarrow> tensor \<Rightarrow> tensor \<Rightarrow> tensor \<Rightarrow> tensor \<Rightarrow> tensor \<Rightarrow> tensor \<Rightarrow> tensor \<Rightarrow> tensor \<Rightarrow>
   ('a, 'k) store \<Rightarrow> ((tensor \<times> tensor \<times> tensor \<times> tensor) \<times> ('a, 'k) store) option" where
  "submod_46 T output_45 s0 layers_22_self_attn_o_proj_weight
      layers_22_post_attention_layernorm_weight output_parallel
      layers_22_mlp_gate_up_proj_weight layers_22_mlp_down_proj_weight
      layers_23_input_layernorm_weight layers_23_self_attn_qkv_proj_weight
      layers_23_self_attn_qkv_proj_bias l_positions layers_0_self_attn_rotary_emb_cos_sin_cache
      h = do {
  view \<leftarrow> t_view T output_45 [-1, 1024];
  view_1 \<leftarrow> t_view T view [-1, 1024];
  (linear, h) \<leftarrow> t_linear T view layers_22_self_attn_o_proj_weight None h;
  get_data_attr \<leftarrow> t_get_data_attr T layers_22_post_attention_layernorm_weight;
  h \<leftarrow> t_fused_add_rms_norm T linear output_parallel get_data_attr (1 / 1000000) h;
  view_2 \<leftarrow> t_view T linear [-1, 1024];
  (linear_1, h) \<leftarrow> t_linear T linear layers_22_mlp_gate_up_proj_weight None h;
  (empty, h) \<leftarrow> t_empty T [s0, 2816] BFloat16 (''cuda'', 0) h;
  h \<leftarrow> t_silu_and_mul T empty linear_1 h;
  view_3 \<leftarrow> t_view T empty [-1, 2816];
  (linear_2, h) \<leftarrow> t_linear T empty layers_22_mlp_down_proj_weight None h;
  get_data_attr_1 \<leftarrow> t_get_data_attr T layers_23_input_layernorm_weight;
  h \<leftarrow> t_fused_add_rms_norm T linear_2 output_parallel get_data_attr_1 (1 / 1000000)
      h;
  (linear_3, h) \<leftarrow> t_linear T linear_2 layers_23_self_attn_qkv_proj_weight (Some
      layers_23_self_attn_qkv_proj_bias) h;
  split \<leftarrow> t_split T linear_3 [1024, 1024, 1024] (-1);
  getitem \<leftarrow> py_nth split 0;
  getitem_1 \<leftarrow> py_nth split 1;
  getitem_2 \<leftarrow> py_nth split 2;
  (flatten, h) \<leftarrow> t_flatten T l_positions h;
  (index_select, h) \<leftarrow> t_index_select T layers_0_self_attn_rotary_emb_cos_sin_cache 0
      flatten h;
  chunk \<leftarrow> t_chunk T index_select 2 (-1);
  getitem_3 \<leftarrow> py_nth chunk 0;
  getitem_4 \<leftarrow> py_nth chunk 1;
  let size = sizes getitem;
  view_4 \<leftarrow> t_view T getitem [int s0, -1, 64];
  getitem_5 \<leftarrow> t_getitem_last T view_4 None (Some 64);
  getitem_6 \<leftarrow> t_getitem_last T view_4 (Some 64) None;
  unsqueeze \<leftarrow> t_unsqueeze T getitem_3 (-2);
  (to, h) \<leftarrow> t_to T unsqueeze BFloat16 h;
  unsqueeze_1 \<leftarrow> t_unsqueeze T getitem_4 (-2);
  (to_1, h) \<leftarrow> t_to T unsqueeze_1 BFloat16 h;
  chunk_1 \<leftarrow> t_chunk T getitem_5 2 (-1);
  getitem_7 \<leftarrow> py_nth chunk_1 0;
  getitem_8 \<leftarrow> py_nth chunk_1 1;
  (mul, h) \<leftarrow> t_mul T getitem_7 to h;
  (mul_1, h) \<leftarrow> t_mul T getitem_8 to_1 h;
  (sub, h) \<leftarrow> t_sub T mul mul_1 h;
  (mul_2, h) \<leftarrow> t_mul T getitem_8 to h;
  (mul_3, h) \<leftarrow> t_mul T getitem_7 to_1 h;
  (add, h) \<leftarrow> t_add T mul_2 mul_3 h;
  (cat, h) \<leftarrow> t_cat T [sub, add] (-1) h;
  (cat_1, h) \<leftarrow> t_cat T [cat, getitem_6] (-1) h;
  (reshape, h) \<leftarrow> t_reshape T cat_1 size h;
  let size_1 = sizes getitem_1;
  view_5 \<leftarrow> t_view T getitem_1 [int s0, -1, 64];
  getitem_9 \<leftarrow> t_getitem_last T view_5 None (Some 64);
  getitem_10 \<leftarrow> t_getitem_last T view_5 (Some 64) None;
  unsqueeze_2 \<leftarrow> t_unsqueeze T getitem_3 (-2);
  (to_2, h) \<leftarrow> t_to T unsqueeze_2 BFloat16 h;
  unsqueeze_3 \<leftarrow> t_unsqueeze T getitem_4 (-2);
  (to_3, h) \<leftarrow> t_to T unsqueeze_3 BFloat16 h;
  chunk_2 \<leftarrow> t_chunk T getitem_9 2 (-1);
  getitem_11 \<leftarrow> py_nth chunk_2 0;
  getitem_12 \<leftarrow> py_nth chunk_2 1;
  (mul_4, h) \<leftarrow> t_mul T getitem_11 to_2 h;
  (mul_5, h) \<leftarrow> t_mul T getitem_12 to_3 h;
  (sub_1, h) \<leftarrow> t_sub T mul_4 mul_5 h;
  (mul_6, h) \<leftarrow> t_mul T getitem_12 to_2 h;
  (mul_7, h) \<leftarrow> t_mul T getitem_11 to_3 h;
  (add_1, h) \<leftarrow> t_add T mul_6 mul_7 h;
  (cat_2, h) \<leftarrow> t_cat T [sub_1, add_1] (-1) h;
  (cat_3, h) \<leftarrow> t_cat T [cat_2, getitem_10] (-1) h;
  (reshape_1, h) \<leftarrow> t_reshape T cat_3 size_1 h;
  let size_2 = sizes reshape;
  (empty_1, h) \<leftarrow> t_empty T size_2 BFloat16 (''cuda'', 0) h;
  view_6 \<leftarrow> t_view T reshape [-1, 16, 64];
  view_7 \<leftarrow> t_view T empty_1 [-1, 16, 64];
  view_8 \<leftarrow> t_view T reshape_1 [-1, 16, 64];
  view_9 \<leftarrow> t_view T getitem_2 [-1, 16, 64];
  Some ((view_6, view_8, view_9, view_7), h)}"

definition submod_47 ::
  "('a, 'k) torch \<Rightarrow> tensor \<Rightarrow> nat \<Rightarrow> tensor \<Rightarrow> tensor \<Rightarrow> tensor \<Rightarrow>
   ('a, 'k) store \<Rightarrow> (unit \<times> ('a, 'k) store) option" where
  "submod_47 T query_71 s0 key_71 value_23 output_47 h = do {
  h \<leftarrow> t_unified_attention_with_output T query_71 key_71 value_23 output_47
      ''model.layers.23.self_attn.attn'' h;
  Some ((), h)}"

definition forward ::
  "('a, 'k) torch \<Rightarrow> nat \<Rightarrow> tensor \<Rightarrow> tensor \<Rightarrow> (nat \<Rightarrow> layer_params) \<Rightarrow> nat \<Rightarrow> tensor \<Rightarrow>
   tensor \<Rightarrow> tensor \<Rightarrow> ('a, 'k) store \<Rightarrow> (tensor \<times> ('a, 'k) store) option" where
  "forward T s0 l_input_ids embed_tokens_weight L s1 l_positions cos_sin_cache norm_weight h = do {
  ((getitem, getitem_1, getitem_2, getitem_3, getitem_4), h) \<leftarrow> submod_0 T l_input_ids
      s0 embed_tokens_weight (input_layernorm_weight (L 0)) (qkv_proj_weight (L 0))
      (qkv_proj_bias (L 0)) l_positions cos_sin_cache h;
  (_, h) \<leftarrow> submod_1 T getitem s0 getitem_1 getitem_2 getitem_3 h;
  ((getitem_5, getitem_6, getitem_7, getitem_8), h) \<leftarrow> submod_2 T getitem_3 s0
      (o_proj_weight (L 0)) (post_attention_layernorm_weight (L 0)) getitem_4
      (gate_up_proj_weight (L 0)) (down_proj_weight (L 0)) (input_layernorm_weight (L 1))
      (qkv_proj_weight (L 1)) (qkv_proj_bias (L 1)) l_positions cos_sin_cache h;
  (_, h) \<leftarrow> submod_3 T getitem_5 s0 getitem_6 getitem_7 getitem_8 h;
  ((getitem_9, getitem_10, getitem_11, getitem_12), h) \<leftarrow> submod_4 T getitem_8 s0
      (o_proj_weight (L 1)) (post_attention_layernorm_weight (L 1)) getitem_4
      (gate_up_proj_weight (L 1)) (down_proj_weight (L 1)) (input_layernorm_weight (L 2))
      (qkv_proj_weight (L 2)) (qkv_proj_bias (L 2)) l_positions cos_sin_cache h;
  (_, h) \<leftarrow> submod_5 T getitem_9 s0 getitem_10 getitem_11 getitem_12 h;
  ((getitem_13, getitem_14, getitem_15, getitem_16), h) \<leftarrow> submod_6 T getitem_12 s0
      (o_proj_weight (L 2)) (post_attention_layernorm_weight (L 2)) getitem_4
      (gate_up_proj_weight (L 2)) (down_proj_weight (L 2)) (input_layernorm_weight (L 3))
      (qkv_proj_weight (L 3)) (qkv_proj_bias (L 3)) l_positions cos_sin_cache h;
  (_, h) \<leftarrow> submod_7 T getitem_13 s0 getitem_14 getitem_15 getitem_16 h;
  ((getitem_17, getitem_18, getitem_19, getitem_20), h) \<leftarrow> submod_8 T getitem_16 s0
      (o_proj_weight (L 3)) (post_attention_layernorm_weight (L 3)) getitem_4
      (gate_up_proj_weight (L 3)) (down_proj_weight (L 3)) (input_layernorm_weight (L 4))
      (qkv_proj_weight (L 4)) (qkv_proj_bias (L 4)) l_positions cos_sin_cache h;
  (_, h) \<leftarrow> submod_9 T getitem_17 s0 getitem_18 getitem_19 getitem_20 h;
  ((getitem_21, getitem_22, getitem_23, getitem_24), h) \<leftarrow> submod_10 T getitem_20 s0
      (o_proj_weight (L 4)) (post_attention_layernorm_weight (L 4)) getitem_4
      (gate_up_proj_weight (L 4)) (down_proj_weight (L 4)) (input_layernorm_weight (L 5))
      (qkv_proj_weight (L 5)) (qkv_proj_bias (L 5)) l_positions cos_sin_cache h;
  (_, h) \<leftarrow> submod_11 T getitem_21 s0 getitem_22 getitem_23 getitem_24 h;
  ((getitem_25, getitem_26, getitem_27, getitem_28), h) \<leftarrow> submod_12 T getitem_24 s0
      (o_proj_weight (L 5)) (post_attention_layernorm_weight (L 5)) getitem_4
      (gate_up_proj_weight (L 5)) (down_proj_weight (L 5)) (input_layernorm_weight (L 6))
      (qkv_proj_weight (L 6)) (qkv_proj_bias (L 6)) l_positions cos_sin_cache h;
  (_, h) \<leftarrow> submod_13 T getitem_25 s0 getitem_26 getitem_27 getitem_28 h;
  ((getitem_29, getitem_30, getitem_31, getitem_32), h) \<leftarrow> submod_14 T getitem_28 s0
      (o_proj_weight (L 6)) (post_attention_layernorm_weight (L 6)) getitem_4
      (gate_up_proj_weight (L 6)) (down_proj_weight (L 6)) (input_layernorm_weight (L 7))
      (qkv_proj_weight (L 7)) (qkv_proj_bias (L 7)) l_positions cos_sin_cache h;
  (_, h) \<leftarrow> submod_15 T getitem_29 s0 getitem_30 getitem_31 getitem_32 h;
  ((getitem_33, getitem_34, getitem_35, getitem_36), h) \<leftarrow> submod_16 T getitem_32 s0
      (o_proj_weight (L 7)) (post_attention_layernorm_weight (L 7)) getitem_4
      (gate_up_proj_weight (L 7)) (down_proj_weight (L 7)) (input_layernorm_weight (L 8))
      (qkv_proj_weight (L 8)) (qkv_proj_bias (L 8)) l_positions cos_sin_cache h;
  (_, h) \<leftarrow> submod_17 T getitem_33 s0 getitem_34 getitem_35 getitem_36 h;
  ((getitem_37, getitem_38, getitem_39, getitem_40), h) \<leftarrow> submod_18 T getitem_36 s0
      (o_proj_weight (L 8)) (post_attention_layernorm_weight (L 8)) getitem_4
      (gate_up_proj_weight (L 8)) (down_proj_weight (L 8)) (input_layernorm_weight (L 9))
      (qkv_proj_weight (L 9)) (qkv_proj_bias (L 9)) l_positions cos_sin_cache h;
  (_, h) \<leftarrow> submod_19 T getitem_37 s0 getitem_38 getitem_39 getitem_40 h;
  ((getitem_41, getitem_42, getitem_43, getitem_44), h) \<leftarrow> submod_20 T getitem_40 s0
      (o_proj_weight (L 9)) (post_attention_layernorm_weight (L 9)) getitem_4
      (gate_up_proj_weight (L 9)) (down_proj_weight (L 9)) (input_layernorm_weight (L 10))
      (qkv_proj_weight (L 10)) (qkv_proj_bias (L 10)) l_positions cos_sin_cache h;
  (_, h) \<leftarrow> submod_21 T getitem_41 s0 getitem_42 getitem_43 getitem_44 h;
  ((getitem_45, getitem_46, getitem_47, getitem_48), h) \<leftarrow> submod_22 T getitem_44 s0
      (o_proj_weight (L 10)) (post_attention_layernorm_weight (L 10)) getitem_4
      (gate_up_proj_weight (L 10)) (down_proj_weight (L 10)) (input_layernorm_weight (L 11))
      (qkv_proj_weight (L 11)) (qkv_proj_bias (L 11)) l_positions cos_sin_cache h;
  (_, h) \<leftarrow> submod_23 T getitem_45 s0 getitem_46 getitem_47 getitem_48 h;
  ((getitem_49, getitem_50, getitem_51, getitem_52), h) \<leftarrow> submod_24 T getitem_48 s0
      (o_proj_weight (L 11)) (post_attention_layernorm_weight (L 11)) getitem_4
      (gate_up_proj_weight (L 11)) (down_proj_weight (L 11)) (input_layernorm_weight (L 12))
      (qkv_proj_weight (L 12)) (qkv_proj_bias (L 12)) l_positions cos_sin_cache h;
  (_, h) \<leftarrow> submod_25 T getitem_49 s0 getitem_50 getitem_51 getitem_52 h;
  ((getitem_53, getitem_54, getitem_55, getitem_56), h) \<leftarrow> submod_26 T getitem_52 s0
      (o_proj_weight (L 12)) (post_attention_layernorm_weight (L 12)) getitem_4
      (gate_up_proj_weight (L 12)) (down_proj_weight (L 12)) (input_layernorm_weight (L 13))
      (qkv_proj_weight (L 13)) (qkv_proj_bias (L 13)) l_positions cos_sin_cache h;
  (_, h) \<leftarrow> submod_27 T getitem_53 s0 getitem_54 getitem_55 getitem_56 h;
  ((getitem_57, getitem_58, getitem_59, getitem_60), h) \<leftarrow> submod_28 T getitem_56 s0
      (o_proj_weight (L 13)) (post_attention_layernorm_weight (L 13)) getitem_4
      (gate_up_proj_weight (L 13)) (down_proj_weight (L 13)) (input_layernorm_weight (L 14))
      (qkv_proj_weight (L 14)) (qkv_proj_bias (L 14)) l_positions cos_sin_cache h;
  (_, h) \<leftarrow> submod_29 T getitem_57 s0 getitem_58 getitem_59 getitem_60 h;
  ((getitem_61, getitem_62, getitem_63, getitem_64), h) \<leftarrow> submod_30 T getitem_60 s0
      (o_proj_weight (L 14)) (post_attention_layernorm_weight (L 14)) getitem_4
      (gate_up_proj_weight (L 14)) (down_proj_weight (L 14)) (input_layernorm_weight (L 15))
      (qkv_proj_weight (L 15)) (qkv_proj_bias (L 15)) l_positions cos_sin_cache h;
  (_, h) \<leftarrow> submod_31 T getitem_61 s0 getitem_62 getitem_63 getitem_64 h;
  ((getitem_65, getitem_66, getitem_67, getitem_68), h) \<leftarrow> submod_32 T getitem_64 s0
      (o_proj_weight (L 15)) (post_attention_layernorm_weight (L 15)) getitem_4
      (gate_up_proj_weight (L 15)) (down_proj_weight (L 15)) (input_layernorm_weight (L 16))
      (qkv_proj_weight (L 16)) (qkv_proj_bias (L 16)) l_positions cos_sin_cache h;
  (_, h) \<leftarrow> submod_33 T getitem_65 s0 getitem_66 getitem_67 getitem_68 h;
  ((getitem_69, getitem_70, getitem_71, getitem_72), h) \<leftarrow> submod_34 T getitem_68 s0
      (o_proj_weight (L 16)) (post_attention_layernorm_weight (L 16)) getitem_4
      (gate_up_proj_weight (L 16)) (down_proj_weight (L 16)) (input_layernorm_weight (L 17))
      (qkv_proj_weight (L 17)) (qkv_proj_bias (L 17)) l_positions cos_sin_cache h;
  (_, h) \<leftarrow> submod_35 T getitem_69 s0 getitem_70 getitem_71 getitem_72 h;
  ((getitem_73, getitem_74, getitem_75, getitem_76), h) \<leftarrow> submod_36 T getitem_72 s0
      (o_proj_weight (L 17)) (post_attention_layernorm_weight (L 17)) getitem_4
      (gate_up_proj_weight (L 17)) (down_proj_weight (L 17)) (input_layernorm_weight (L 18))
      (qkv_proj_weight (L 18)) (qkv_proj_bias (L 18)) l_positions cos_sin_cache h;
  (_, h) \<leftarrow> submod_37 T getitem_73 s0 getitem_74 getitem_75 getitem_76 h;
  ((getitem_77, getitem_78, getitem_79, getitem_80), h) \<leftarrow> submod_38 T getitem_76 s0
      (o_proj_weight (L 18)) (post_attention_layernorm_weight (L 18)) getitem_4
      (gate_up_proj_weight (L 18)) (down_proj_weight (L 18)) (input_layernorm_weight (L 19))
      (qkv_proj_weight (L 19)) (qkv_proj_bias (L 19)) l_positions cos_sin_cache h;
  (_, h) \<leftarrow> submod_39 T getitem_77 s0 getitem_78 getitem_79 getitem_80 h;
  ((getitem_81, getitem_82, getitem_83, getitem_84), h) \<leftarrow> submod_40 T getitem_80 s0
      (o_proj_weight (L 19)) (post_attention_layernorm_weight (L 19)) getitem_4
      (gate_up_proj_weight (L 19)) (down_proj_weight (L 19)) (input_layernorm_weight (L 20))
      (qkv_proj_weight (L 20)) (qkv_proj_bias (L 20)) l_positions cos_sin_cache h;
  (_, h) \<leftarrow> submod_41 T getitem_81 s0 getitem_82 getitem_83 getitem_84 h;
  ((getitem_85, getitem_86, getitem_87, getitem_88), h) \<leftarrow> submod_42 T getitem_84 s0
      (o_proj_weight (L 20)) (post_attention_layernorm_weight (L 20)) getitem_4
      (gate_up_proj_weight (L 20)) (down_proj_weight (L 20)) (input_layernorm_weight (L 21))
      (qkv_proj_weight (L 21)) (qkv_proj_bias (L 21)) l_positions cos_sin_cache h;
  (_, h) \<leftarrow> submod_43 T getitem_85 s0 getitem_86 getitem_87 getitem_88 h;
  ((getitem_89, getitem_90, getitem_91, getitem_92), h) \<leftarrow> submod_44 T getitem_88 s0
      (o_proj_weight (L 21)) (post_attention_layernorm_weight (L 21)) getitem_4
      (gate_up_proj_weight (L 21)) (down_proj_weight (L 21)) (input_layernorm_weight (L 22))
      (qkv_proj_weight (L 22)) (qkv_proj_bias (L 22)) l_positions cos_sin_cache h;
  (_, h) \<leftarrow> submod_45 T getitem_89 s0 getitem_90 getitem_91 getitem_92 h;
  ((getitem_93, getitem_94, getitem_95, getitem_96), h) \<leftarrow> submod_46 T getitem_92 s0
      (o_proj_weight (L 22)) (post_attention_layernorm_weight (L 22)) getitem_4
      (gate_up_proj_weight (L 22)) (down_proj_weight (L 22)) (input_layernorm_weight (L 23))
      (qkv_proj_weight (L 23)) (qkv_proj_bias (L 23)) l_positions cos_sin_cache h;
  (_, h) \<leftarrow> submod_47 T getitem_93 s0 getitem_94 getitem_95 getitem_96 h;
  (submod_48, h) \<leftarrow> submod_48 T getitem_96 s0 (o_proj_weight (L 23))
      (post_attention_layernorm_weight (L 23)) getitem_4 (gate_up_proj_weight (L 23))
      (down_proj_weight (L 23)) norm_weight h;
  Some (submod_48, h)}"

end
