(* ===== verification/Vllm_Forward.thy ===== *)
theory Vllm_Forward
  imports Vllm_Decoder Vllm_Graph_Layers
begin

text \<open>
  The whole traced forward computes the 24-layer decoder. All middle submodules of the
  unrolled graph are one function, so the graph is the composition of three pieces; the
  pieces keep the contract of the locale \<open>piecewise\<close>.
\<close>

lemma submods_equal:
  "submod_4 = submod_2"
  "submod_6 = submod_2"
  "submod_8 = submod_2"
  "submod_10 = submod_2"
  "submod_12 = submod_2"
  "submod_14 = submod_2"
  "submod_16 = submod_2"
  "submod_18 = submod_2"
  "submod_20 = submod_2"
  "submod_22 = submod_2"
  "submod_24 = submod_2"
  "submod_26 = submod_2"
  "submod_28 = submod_2"
  "submod_30 = submod_2"
  "submod_32 = submod_2"
  "submod_34 = submod_2"
  "submod_36 = submod_2"
  "submod_38 = submod_2"
  "submod_40 = submod_2"
  "submod_42 = submod_2"
  "submod_44 = submod_2"
  "submod_46 = submod_2"
  unfolding submod_4_def submod_6_def submod_8_def submod_10_def submod_12_def submod_14_def submod_16_def submod_18_def submod_20_def submod_22_def submod_24_def submod_26_def submod_28_def submod_30_def submod_32_def submod_34_def submod_36_def submod_38_def submod_40_def submod_42_def submod_44_def submod_46_def submod_2_def
  by (rule refl)+

lemmas attn_defs =
  submod_1_def submod_3_def submod_5_def submod_7_def submod_9_def submod_11_def submod_13_def submod_15_def submod_17_def submod_19_def submod_21_def submod_23_def submod_25_def submod_27_def submod_29_def submod_31_def submod_33_def submod_35_def submod_37_def submod_39_def submod_41_def submod_43_def submod_45_def submod_47_def

lemma layer_names:
  "layer_name 0 = ''model.layers.0.self_attn.attn''"
  "layer_name (Suc 0) = ''model.layers.1.self_attn.attn''"
  "layer_name 2 = ''model.layers.2.self_attn.attn''"
  "layer_name 3 = ''model.layers.3.self_attn.attn''"
  "layer_name 4 = ''model.layers.4.self_attn.attn''"
  "layer_name 5 = ''model.layers.5.self_attn.attn''"
  "layer_name 6 = ''model.layers.6.self_attn.attn''"
  "layer_name 7 = ''model.layers.7.self_attn.attn''"
  "layer_name 8 = ''model.layers.8.self_attn.attn''"
  "layer_name 9 = ''model.layers.9.self_attn.attn''"
  "layer_name 10 = ''model.layers.10.self_attn.attn''"
  "layer_name 11 = ''model.layers.11.self_attn.attn''"
  "layer_name 12 = ''model.layers.12.self_attn.attn''"
  "layer_name 13 = ''model.layers.13.self_attn.attn''"
  "layer_name 14 = ''model.layers.14.self_attn.attn''"
  "layer_name 15 = ''model.layers.15.self_attn.attn''"
  "layer_name 16 = ''model.layers.16.self_attn.attn''"
  "layer_name 17 = ''model.layers.17.self_attn.attn''"
  "layer_name 18 = ''model.layers.18.self_attn.attn''"
  "layer_name 19 = ''model.layers.19.self_attn.attn''"
  "layer_name 20 = ''model.layers.20.self_attn.attn''"
  "layer_name 21 = ''model.layers.21.self_attn.attn''"
  "layer_name 22 = ''model.layers.22.self_attn.attn''"
  "layer_name 23 = ''model.layers.23.self_attn.attn''"
  by (simp_all add: layer_name_def decimal.simps digit_def)

lemma run_layers_numeral:
  "run_layers attn mid s0 L ps cache res i (numeral w) st h = (case st of (q, k, v, out) \<Rightarrow> do {
     h \<leftarrow> attn q k v out (layer_name i) h;
     (st, h) \<leftarrow> mid i out s0 (o_proj_weight (L i)) (post_attention_layernorm_weight (L i)) res
       (gate_up_proj_weight (L i)) (down_proj_weight (L i)) (input_layernorm_weight (L (Suc i)))
       (qkv_proj_weight (L (Suc i))) (qkv_proj_bias (L (Suc i))) ps cache h;
     run_layers attn mid s0 L ps cache res (Suc i) (pred_numeral w) st h})"
  by (simp add: numeral_eq_Suc)

lemma forward_loop:
  "forward T s0 ids emb L s1 ps cache nw h =
     pw_forward (t_unified_attention_with_output T) (submod_0 T) (\<lambda>_. submod_2 T) (submod_48 T)
       s0 ids emb L ps cache nw h"
  unfolding forward_def submods_equal attn_defs pw_forward_def
  by (simp add: run_layers_numeral layer_names numeral_2_eq_2 [symmetric] split_def cong: option.case_cong)

text \<open>The traced submodules keep the contract of the pieces, on any layout and any number of tokens.\<close>

sublocale torch_api \<subseteq> graph: piecewise V "rope V" "\<lambda>_. True" "\<lambda>_. True" "t_unified_attention_with_output T"
  "submod_0 T" "\<lambda>_. submod_2 T" "submod_48 T"
proof (unfold_locales, goal_cases)
  case 1
  then show ?case by (auto elim!: attention_ok)
next
  case 2
  show ?case by (rule submod_0_ok [OF 2(1,3-11)]) (use 2(17) in blast)
next
  case 3
  show ?case by (rule submod_2_ok [OF 3(2,4-15)]) (use 3(20) in blast)
next
  case 4
  note w = 4(12) [unfolded layer_ok_def, THEN conjunct1]
  show ?case by (rule after_attention_ok [OF 4(3-11) w 4(13-15)]) (use 4(18) in blast)
qed

context torch_api
begin

lemma forward_ok:
  assumes ok: "graph_inputs_ok V h n ids emb L ps cache nw"
  shows "\<exists>x h'. forward T n ids emb L s1 ps cache nw h = Some (x, h') \<and> sizes x = [n, 1024] \<and>
     (tvals h' x, ctx h') = qwen_model (rope V) V n (tvals h ids) (tvals h ps) (tvals h emb) (tvals h cache)
        (\<lambda>i. layer_values h (L i)) (tvals h nw) (ctx h) \<and>
     frame {} h h'"
  unfolding forward_loop
  by (rule graph.pw_forward_ok [OF ok]) (simp_all add: inputs_dense_def layer_dense_def)

end

end
