(* ===== verification/Vllm_Theorems.thy ===== *)
theory Vllm_Theorems
  imports Vllm_Forward Torch_Ref
begin

text \<open>
  The statements about the traced graph, for every implementation of the operators that
  satisfies the documented laws, with a concrete input for each.
\<close>


text \<open>A concrete input of one token: every storage holds zeros, the layers share their weights.\<close>

definition ex_size :: "nat \<Rightarrow> nat list" where
  "ex_size a = (if a = 0 then [1] else if a = 1 then [151936, 1024] else if a = 2 then [1]
     else if a = 3 then [32768, 64] else if a = 4 then [1024] else if a = 5 then [3072, 1024]
     else if a = 6 then [3072] else if a = 7 then [1024, 1024] else if a = 8 then [1024]
     else if a = 9 then [5632, 1024] else if a = 10 then [1024, 2816] else [1024])"

definition ex_store :: "(real, kv_cache) store" where
  "ex_store = \<lparr>mem = (\<lambda>a. replicate (prod_list (ex_size a)) 0), nxt = 12, ctx = (\<lambda>_. ([], []))\<rparr>"

definition ex_t :: "nat \<Rightarrow> tensor" where
  "ex_t a = \<lparr>base = a, offset = 0,
     dtype = (if a = 0 then Int32 else if a = 2 then Int64 else BFloat16),
     sizes = ex_size a, strides = cstride (ex_size a)\<rparr>"

definition ex_layer :: layer_params where
  "ex_layer = \<lparr>input_layernorm_weight = ex_t 4, qkv_proj_bias = ex_t 6, qkv_proj_weight = ex_t 5,
     o_proj_weight = ex_t 7, post_attention_layernorm_weight = ex_t 8,
     gate_up_proj_weight = ex_t 9, down_proj_weight = ex_t 10\<rparr>"

lemma ex_valid: "a < 12 \<Longrightarrow> valid ex_store (ex_t a)"
  by (rule whole_valid) (simp add: whole_def ex_store_def ex_t_def contiguous_def numel_def)

lemma ex_rd: "idx_ok (ex_size a) ix \<Longrightarrow> rd ex_store (ex_t a) ix = 0"
  by (simp add: rd_def pos_def ex_store_def ex_t_def flat_less)

lemma ex_ids: "0 < n \<Longrightarrow> ids_in_range (ref_kernels g) ex_store (ex_t a) n"
  using ex_rd [of a] by (simp add: ids_in_range_def ref_kernels_def ex_t_def)

lemma ex_inputs_ok:
  "graph_inputs_ok (ref_kernels g) ex_store 1 (ex_t 0) (ex_t 1) (\<lambda>_. ex_layer) (ex_t 2) (ex_t 3) (ex_t 11)"
  unfolding graph_inputs_ok_def positions_ok_def layer_ok_def weights_ok_def
  by (simp add: ex_valid ex_ids ex_layer_def layer_values_def) (simp add: ex_t_def ex_size_def)

text \<open>
  C1. The traced forward of the sample vLLM cache, run on any store, returns without
  raising on well-shaped inputs, its result has shape (s0, 1024) and holds exactly what
  the 24-layer pre-norm decoder computes, the attention state ends as the decoder leaves
  it, and no tensor that existed before the call has changed, although the graph
  updates its residual and its buffers in place.
\<close>

theorem forward_is_qwen_model:
  assumes "torch_api T V"
    and "graph_inputs_ok V h n ids emb L ps cache nw"
  shows "\<exists>x h'. forward T n ids emb L s1 ps cache nw h = Some (x, h') \<and> sizes x = [n, 1024] \<and>
     (tvals h' x, ctx h') = qwen_model (rope V) V n (tvals h ids) (tvals h ps) (tvals h emb) (tvals h cache)
        (\<lambda>i. layer_values h (L i)) (tvals h nw) (ctx h) \<and>
     (\<forall>y. valid h y \<longrightarrow> tvals h' y = tvals h y)"
proof -
  obtain x h' where x: "forward T n ids emb L s1 ps cache nw h = Some (x, h')" "sizes x = [n, 1024]"
    "(tvals h' x, ctx h') = qwen_model (rope V) V n (tvals h ids) (tvals h ps) (tvals h emb) (tvals h cache)
        (\<lambda>i. layer_values h (L i)) (tvals h nw) (ctx h)" "frame {} h h'"
    using torch_api.forward_ok [OF assms, of s1] by blast
  then show ?thesis
    using frame_emptyD(4) [OF x(4)] valid_base by blast
qed

theorem forward_is_qwen_model_witness:
  "\<exists>x h'. forward (ref_torch 7) 1 (ex_t 0) (ex_t 1) (\<lambda>_. ex_layer) 1 (ex_t 2) (ex_t 3) (ex_t 11) ex_store = Some (x, h') \<and>
     sizes x = [1, 1024]"
  using forward_is_qwen_model [OF ref.torch_api_axioms [of 7] ex_inputs_ok, of 1] by blast


text \<open>
  C2. The unrolled graph of 49 submodules is a loop: the embedding submodule, 23 times
  attention followed by one and the same layer function with the weights of layers i and
  i + 1, the last attention, and the closing submodule. No layer is skipped, repeated,
  given the weights of another layer or the wrong attention name.
\<close>

theorem forward_unrolled_is_loop:
  "forward T s0 ids emb L s1 ps cache nw h = do {
     ((q, k, v, out, res), h) \<leftarrow> submod_0 T ids s0 emb (input_layernorm_weight (L 0)) (qkv_proj_weight (L 0))
       (qkv_proj_bias (L 0)) ps cache h;
     ((q, k, v, out), h) \<leftarrow> run_layers (t_unified_attention_with_output T) (\<lambda>_. submod_2 T) s0 L ps cache res 0 23 (q, k, v, out) h;
     h \<leftarrow> t_unified_attention_with_output T q k v out (''model.layers.'' @ decimal 23 @ ''.self_attn.attn'') h;
     submod_48 T out s0 (o_proj_weight (L 23)) (post_attention_layernorm_weight (L 23)) res
       (gate_up_proj_weight (L 23)) (down_proj_weight (L 23)) nw h}"
  by (simp only: forward_loop layer_name_def pw_forward_def)

lemma qwen_model_uninit: "qwen_model (rope (V\<lparr>v_uninit := u\<rparr>)) (V\<lparr>v_uninit := u\<rparr>) = qwen_model (rope V) V"
  by (intro ext) (simp add: qwen_model_def decoder_layer_def embed_rows_def cos_sin_rows_def after_attn_def
     attn_of_def qkv_of_def mid_residual_def mlp_def rope_def rope_elem_def v_heads_def Let_def cong: if_cong)

text \<open>
  C3. Uninitialised memory does not leak: the graph fills eight buffers per layer that it
  got from \<open>torch.empty\<close> or \<open>empty_like\<close>; two runs that agree on everything but the
  garbage those allocations return give the same result and the same attention state.
\<close>

theorem forward_ignores_garbage:
  assumes "torch_api T V" and "torch_api T' (V\<lparr>v_uninit := u\<rparr>)"
    and "graph_inputs_ok V h n ids emb L ps cache nw"
  shows "\<exists>x h1 x' h2. forward T n ids emb L s1 ps cache nw h = Some (x, h1) \<and>
     forward T' n ids emb L s1 ps cache nw h = Some (x', h2) \<and>
     tv h1 x = tv h2 x' \<and> ctx h1 = ctx h2"
proof -
  have ok: "graph_inputs_ok (V\<lparr>v_uninit := u\<rparr>) h n ids emb L ps cache nw"
    using assms(3) by (simp add: graph_inputs_ok_def positions_ok_def ids_in_range_def)
  let ?y = "qwen_model (rope V) V n (tvals h ids) (tvals h ps) (tvals h emb) (tvals h cache)
        (\<lambda>i. layer_values h (L i)) (tvals h nw) (ctx h)"
  obtain x h1 where x: "forward T n ids emb L s1 ps cache nw h = Some (x, h1)" "sizes x = [n, 1024]"
      "(tvals h1 x, ctx h1) = ?y"
    using torch_api.forward_ok [OF assms(1,3), of s1] by blast
  obtain x' h2 where x': "forward T' n ids emb L s1 ps cache nw h = Some (x', h2)" "sizes x' = [n, 1024]"
      "(tvals h2 x', ctx h2) = ?y"
    using torch_api.forward_ok [OF assms(2) ok, of s1] by (auto simp: qwen_model_uninit)
  have "tvals h1 x = tvals h2 x'" "ctx h1 = ctx h2"
    using trans [OF x(3) sym [OF x'(3)]] by simp_all
  with x x' show ?thesis by (simp add: tv_def)
qed

theorem forward_ignores_garbage_witness:
  "\<exists>x h1 x' h2. forward (ref_torch 7) 1 (ex_t 0) (ex_t 1) (\<lambda>_. ex_layer) 1 (ex_t 2) (ex_t 3) (ex_t 11) ex_store = Some (x, h1) \<and>
     forward (ref_torch 8) 1 (ex_t 0) (ex_t 1) (\<lambda>_. ex_layer) 1 (ex_t 2) (ex_t 3) (ex_t 11) ex_store = Some (x', h2) \<and>
     tv h1 x = tv h2 x'"
  using forward_ignores_garbage [OF ref.torch_api_axioms [of 7], of "ref_torch 8" "\<lambda>h n. replicate n 8",
      OF _ ex_inputs_ok, of 1] ref.torch_api_axioms [of 8]
  by (auto simp: ref_kernels_def)


text \<open>
  The embedding submodule looks the tokens up, normalises and projects them, and hands
  over rotated queries and keys, values, a fresh attention buffer and the residual stream
  (the embedded tokens), touching no tensor of its caller.
\<close>

theorem submod_0_embeds:
  assumes "torch_api T V" and "0 < n"
    and "valid h ids" "dtype ids = Int32" "sizes ids = [n]" "ids_in_range V h ids 151936"
    and "valid h emb" "sizes emb = [151936, 1024]" "dtype emb = BFloat16"
    and "layer_ok h lv P" and "positions_ok V h n ps cache"
  shows "\<exists>st res h'. submod_0 T ids n emb (input_layernorm_weight P) (qkv_proj_weight P) (qkv_proj_bias P) ps cache h =
       Some ((fst st, fst (snd st), fst (snd (snd st)), snd (snd (snd st)), res), h') \<and> ctx h' = ctx h \<and>
     at_break (rope V) n h (embed_rows V n (tvals h ids) (tvals h emb))
       (qkv_of V n lv (embed_rows V n (tvals h ids) (tvals h emb)))
       (cos_sin_rows V n (tvals h ps) (tvals h cache)) res st h'"
  by (rule torch_api.submod_0_ok [OF assms]) force

lemmas ex_ok = ex_inputs_ok [unfolded graph_inputs_ok_def]

lemma ex_layer_ok: "layer_ok ex_store (layer_values ex_store ex_layer) ex_layer"
  using ex_ok [of 0] by (metis zero_less_numeral)

theorem submod_0_embeds_witness:
  "submod_0 (ref_torch 7) (ex_t 0) 1 (ex_t 1) (input_layernorm_weight ex_layer) (qkv_proj_weight ex_layer)
     (qkv_proj_bias ex_layer) (ex_t 2) (ex_t 3) ex_store \<noteq> None"
  using ex_layer_ok submod_0_embeds [OF ref.torch_api_axioms [of 7], of 1 ex_store "ex_t 0" "ex_t 1" _ ex_layer "ex_t 2" "ex_t 3"]
      ex_ok [of 7] by fastforce

text \<open>
  C5. A middle submodule finishes the layer the attention belongs to and starts the next
  one: the residual, updated in place twice, ends as the layer's output, the next
  layer's query, key and value come from it, and apart from the residual no tensor older
  than the forward is written.
\<close>

theorem submod_2_is_layer_boundary:
  assumes "torch_api T V" and "0 < n" "frame {} h0 h" "whole h out" "sizes out = [n, 16, 64]" "dtype out = BFloat16"
    and "whole h res" "sizes res = [n, 1024]" "dtype res = BFloat16" "base res \<noteq> base out" "nxt h0 \<le> base res"
    and "layer_ok h0 lv P" and "layer_ok h0 lv' P'" and "positions_ok V h0 n ps cache"
  shows "\<exists>st h'. submod_2 T out n (o_proj_weight P) (post_attention_layernorm_weight P) res (gate_up_proj_weight P)
       (down_proj_weight P) (input_layernorm_weight P') (qkv_proj_weight P') (qkv_proj_bias P') ps cache h = Some (st, h') \<and>
     ctx h' = ctx h \<and>
     at_break (rope V) n h0 (after_attn V n lv (tvals h out) (tvals h res))
       (qkv_of V n lv' (after_attn V n lv (tvals h out) (tvals h res)))
       (cos_sin_rows V n (tvals h0 ps) (tvals h0 cache)) res st h'"
  by (rule torch_api.submod_2_ok [OF assms]) blast

definition ex_out :: tensor where
  "ex_out = new_t ex_store BFloat16 [1, 16, 64]"

definition ex_res :: tensor where
  "ex_res = new_t (alloc ex_store (replicate 1024 0)) BFloat16 [1, 1024]"

definition ex_mid :: "(real, kv_cache) store" where
  "ex_mid = alloc (alloc ex_store (replicate 1024 0)) (replicate 1024 0)"

lemma ex_mid_facts:
  "frame {} ex_store ex_mid" "whole ex_mid ex_out" "whole ex_mid ex_res" "base ex_res \<noteq> base ex_out"
  "nxt ex_store \<le> base ex_res" "sizes ex_out = [1, 16, 64]" "dtype ex_out = BFloat16" "sizes ex_res = [1, 1024]"
  "dtype ex_res = BFloat16"
  by (auto simp: ex_mid_def ex_out_def ex_res_def intro!: whole_alloc whole_new frame_alloc')

theorem submod_2_is_layer_boundary_witness:
  "submod_2 (ref_torch 7) ex_out 1 (o_proj_weight ex_layer) (post_attention_layernorm_weight ex_layer) ex_res
     (gate_up_proj_weight ex_layer) (down_proj_weight ex_layer) (input_layernorm_weight ex_layer)
     (qkv_proj_weight ex_layer) (qkv_proj_bias ex_layer) (ex_t 2) (ex_t 3) ex_mid \<noteq> None"
  using ex_layer_ok submod_2_is_layer_boundary [OF ref.torch_api_axioms [of 7], of 1 ex_store ex_mid ex_out ex_res _ ex_layer _ ex_layer "ex_t 2" "ex_t 3"]
      ex_ok [of 7] ex_mid_facts by fastforce

text \<open>
  The closing submodule returns the final normalisation of the last layer's output and
  writes, of all storages that existed, only the residual.
\<close>

theorem submod_48_closes:
  assumes "torch_api T V" and "whole h out" "sizes out = [n, 16, 64]" "dtype out = BFloat16"
    and "whole h res" "sizes res = [n, 1024]" "dtype res = BFloat16" "base res \<noteq> base out"
    and "weights_ok h lv ow pln guw dw" and "valid h nw" "sizes nw = [1024]" "dtype nw = BFloat16"
    and "base res \<notin> {base ow, base pln, base guw, base dw, base nw}"
  shows "\<exists>x h'. submod_48 T out n ow pln res guw dw nw h = Some (x, h') \<and> sizes x = [n, 1024] \<and>
     dtype x = BFloat16 \<and> frame {base res} h h' \<and> ctx h' = ctx h \<and>
     tvals h' res = after_attn V n lv (tvals h out) (tvals h res) \<and>
     tvals h' x = v_rms_norm V ([n, 1024], tvals h' res) ([1024], tvals h nw) eps"
  by (rule torch_api.submod_48_ok [OF assms]) auto

theorem submod_48_closes_witness:
  "\<exists>x h'. submod_48 (ref_torch 7) ex_out 1 (ex_t 7) (ex_t 8) ex_res (ex_t 9) (ex_t 10) (ex_t 11) ex_mid = Some (x, h') \<and>
     frame {13} ex_mid h'"
proof -
  have w: "weights_ok ex_mid (layer_values ex_store ex_layer) (ex_t 7) (ex_t 8) (ex_t 9) (ex_t 10)"
    using frame_layer_ok [OF ex_mid_facts(1) ex_layer_ok] by (auto simp: layer_ok_def ex_layer_def)
  have b: "base ex_res = 13"
    by (simp add: ex_res_def ex_store_def)
  then have d: "base ex_res \<notin> {base (ex_t 7), base (ex_t 8), base (ex_t 9), base (ex_t 10), base (ex_t 11)}"
    by (simp add: ex_t_def)
  have v: "valid ex_mid (ex_t 11)" "sizes (ex_t 11) = [1024]" "dtype (ex_t 11) = BFloat16"
    using frame_valid [OF ex_mid_facts(1) ex_valid [of 11]] by (simp_all add: ex_t_def ex_size_def)
  show ?thesis
    using submod_48_closes [OF ref.torch_api_axioms [of 7] ex_mid_facts(2,6,7,3,8,9,4) w v d] b by auto
qed

end
