(* ===== verification/Compiled_Theorems.thy ===== *)
theory Compiled_Theorems
  imports Inductor_Ref Vllm_Theorems
begin

text \<open>
  The statements about the compiled cache as a whole: what the index selects, what the
  compiled model computes, and that it agrees with the traced graph it was compiled from.
\<close>

lemma ex_dense: "inputs_dense contiguous (ex_t 0) (ex_t 1) (\<lambda>_. ex_layer) (ex_t 2) (ex_t 3) (ex_t 11)"
  by (simp add: inputs_dense_def layer_dense_def ex_layer_def) (simp add: ex_t_def contiguous_def)

text \<open>
  C11. The compiled model, whose pieces are found through the cache's index, run on
  well-shaped contiguous inputs of up to 699051 tokens, passes all its layout assertions,
  never faults in a Triton kernel, and returns what the 24-layer decoder computes with the
  rotary embedding rounded the way the Triton kernel rounds it, although its pieces write
  over buffers (a normalised input becomes the query) and share storages with the result;
  no tensor of the caller changes.
\<close>

theorem compiled_forward_is_qwen_model:
  assumes "inductor_api T V E F" and "n \<le> 699051"
    and "graph_inputs_ok V h n ids emb L ps cache nw" and "inputs_dense contiguous ids emb L ps cache nw"
  shows "\<exists>x h'. compiled_forward E T F n ids emb L ps cache nw h = Some (x, h') \<and> sizes x = [n, 1024] \<and>
     (tvals h' x, ctx h') = qwen_model (fused_rope F) V n (tvals h ids) (tvals h ps) (tvals h emb) (tvals h cache)
        (\<lambda>i. layer_values h (L i)) (tvals h nw) (ctx h) \<and>
     (\<forall>y. valid h y \<longrightarrow> tvals h' y = tvals h y)"
  using inductor_api.compiled_forward_ok [OF assms] frame_emptyD(4) valid_base by blast

theorem compiled_forward_is_qwen_model_witness:
  "\<exists>x h'. compiled_forward (ref_inductor 7) (ref_torch 7) ex_scalars 1 (ex_t 0) (ex_t 1) (\<lambda>_. ex_layer) (ex_t 2) (ex_t 3)
     (ex_t 11) ex_store = Some (x, h') \<and> sizes x = [1, 1024]"
  using compiled_forward_is_qwen_model [OF refi.inductor_api_axioms [of 7] _ ex_inputs_ok ex_dense] by fastforce





lemma cache_values:
  "set (map snd vllm_compile_cache) = {snd (vllm_compile_cache ! 0), snd (vllm_compile_cache ! 1), snd (vllm_compile_cache ! 24)}"
  by (simp add: vllm_compile_cache_def)

text \<open>
  C13. The index is complete and consistent: the general shape of piece i resolves to the
  first, middle or last module exactly for i = 0, 1..23 and 24, no other key resolves, and
  two pieces have the same graph hash exactly when they share a module file.
\<close>

theorem cache_selects_pieces:
  "lookup_piece (shape, i, compiler) =
     (if shape = None \<and> compiler = ''inductor'' \<and> i < 25
      then Some (if i = 0 then Call_sy else if i < 24 then Call_df else Call_ul) else None) \<and>
   list_all (\<lambda>v. list_all (\<lambda>w. (fst v = fst w) = (snd v = snd w)) (map snd vllm_compile_cache)) (map snd vllm_compile_cache)"
proof
  show "lookup_piece (shape, i, compiler) =
     (if shape = None \<and> compiler = ''inductor'' \<and> i < 25
      then Some (if i = 0 then Call_sy else if i < 24 then Call_df else Call_ul) else None)"
    by (simp only: lookup_piece_eq fst_conv snd_conv)
  show "list_all (\<lambda>v. list_all (\<lambda>w. (fst v = fst w) = (snd v = snd w)) (map snd vllm_compile_cache)) (map snd vllm_compile_cache)"
    unfolding list_all_iff cache_values by (simp add: vllm_compile_cache_def)
qed

end
