(* ===== verification/Native_API.thy ===== *)
theory Native_API
  imports Piecewise
begin

text \<open>
  The PyTorch operators of the graphs under src/mcv/example/llama-binary-cache and
  qwen-binary-cache that the vLLM graph does not call: powers, row means, reciprocal
  square roots, the sigmoid-weighted activation, conversion between element types and
  products of operands of different rank or type. As in \<open>Torch_API\<close> the operators are a
  parameter, with their documented behaviour as the assumptions of a locale.
\<close>

record ('a, 'k) native_ops =
  t_pow :: "tensor \<Rightarrow> nat \<Rightarrow> ('a, 'k) store \<Rightarrow> (tensor \<times> ('a, 'k) store) option"
  t_mean :: "tensor \<Rightarrow> int \<Rightarrow> bool \<Rightarrow> ('a, 'k) store \<Rightarrow> (tensor \<times> ('a, 'k) store) option"
  t_add_scalar :: "tensor \<Rightarrow> rat \<Rightarrow> ('a, 'k) store \<Rightarrow> (tensor \<times> ('a, 'k) store) option"
  t_rsqrt :: "tensor \<Rightarrow> ('a, 'k) store \<Rightarrow> (tensor \<times> ('a, 'k) store) option"
  t_silu :: "tensor \<Rightarrow> ('a, 'k) store \<Rightarrow> (tensor \<times> ('a, 'k) store) option"

text \<open>
  The functions behind them on element values. A value carries its own precision, so
  \<open>v_mul\<close> and \<open>v_add\<close> of \<open>kernels\<close> serve both half and single precision; \<open>w_mean\<close> is the
  mean of each row of a tensor.
\<close>

record 'a native_kernels =
  w_cast :: "dtype \<Rightarrow> 'a \<Rightarrow> 'a"
  w_pow :: "nat \<Rightarrow> 'a \<Rightarrow> 'a"
  w_mean :: "'a tval \<Rightarrow> 'a list"
  w_add_scalar :: "rat \<Rightarrow> 'a \<Rightarrow> 'a"
  w_rsqrt :: "'a \<Rightarrow> 'a"
  w_silu :: "'a \<Rightarrow> 'a"

definition mapped :: "('a \<Rightarrow> 'a) \<Rightarrow> dtype \<Rightarrow> tensor \<Rightarrow> ('a, 'k) store \<Rightarrow> tensor \<times> ('a, 'k) store" where
  "mapped f dt x h = (new_t h dt (sizes x), alloc h (map f (tvals h x)))"

text \<open>A product with a vector: the vector is repeated along every leading dimension.\<close>

definition by_row ::
  "('a \<Rightarrow> 'a \<Rightarrow> 'a) \<Rightarrow> tensor \<Rightarrow> tensor \<Rightarrow> ('a, 'k) store \<Rightarrow> tensor \<times> ('a, 'k) store" where
  "by_row f x y h =
     (new_t h (dtype x) (sizes x), alloc h (tabulate (sizes x) (\<lambda>ix. f (rd h x ix) (rd h y [last ix]))))"

text \<open>The weights of one layer, as the graphs name them; the qwen model also normalises heads.\<close>

record native_params =
  n_input_layernorm_weight :: tensor
  n_qkv_proj_weight :: tensor
  n_o_proj_weight :: tensor
  n_post_attention_layernorm_weight :: tensor
  n_gate_up_proj_weight :: tensor
  n_down_proj_weight :: tensor

record qwen_params = native_params +
  n_q_norm_weight :: tensor
  n_k_norm_weight :: tensor

locale native_api = torch_api T V
  for T :: "('a, 'k) torch" and V :: "('a, 'k) kernels" +
  fixes N :: "('a, 'k) native_ops" and W :: "'a native_kernels"
  assumes cast_law [exec_simps]:
    "valid h x \<Longrightarrow> dtype x \<noteq> dt \<Longrightarrow> dtype x \<in> {Float16, Float32} \<Longrightarrow> dt \<in> {Float16, Float32} \<Longrightarrow>
     t_to T x dt h = Some (mapped (w_cast W dt) dt x h)"
  and pow_law [exec_simps]: "valid h x \<Longrightarrow> t_pow N x k h = Some (mapped (w_pow W k) (dtype x) x h)"
  and mean_law [exec_simps]:
    "valid h x \<Longrightarrow> sizes x \<noteq> [] \<Longrightarrow>
     t_mean N x (-1) True h =
       Some (new_t h (dtype x) (butlast (sizes x) @ [1]), alloc h (w_mean W (tv h x)))"
  and mean_length [simp]: "length xs = prod_list (ds @ [d]) \<Longrightarrow> length (w_mean W (ds @ [d], xs)) = prod_list ds"
  and add_scalar_law [exec_simps]: "valid h x \<Longrightarrow> t_add_scalar N x c h = Some (mapped (w_add_scalar W c) (dtype x) x h)"
  and rsqrt_law [exec_simps]: "valid h x \<Longrightarrow> t_rsqrt N x h = Some (mapped (w_rsqrt W) (dtype x) x h)"
  and silu_law [exec_simps]: "valid h x \<Longrightarrow> t_silu N x h = Some (mapped (w_silu W) (dtype x) x h)"
  and mul_row_law [exec_simps]:
    "valid h x \<Longrightarrow> valid h y \<Longrightarrow> dtype x = dtype y \<Longrightarrow> 1 < length (sizes x) \<Longrightarrow> sizes y = [last (sizes x)] \<Longrightarrow>
     t_mul T x y h = Some (by_row (v_mul V) x y h)"
  and add_promote_law [exec_simps]:
    "valid h x \<Longrightarrow> valid h y \<Longrightarrow> dtype x = Float32 \<Longrightarrow> dtype y = Float16 \<Longrightarrow> bcast_ok (sizes x) (sizes y) \<Longrightarrow>
     t_add T x y h = Some (elementwise (\<lambda>a b. v_add V a (w_cast W Float32 b)) x y h)"

end
