(* ===== verification/Native_Ops.thy ===== *)
theory Native_Ops
  imports Native_API
begin

text \<open>
  Symbolic execution of the functional graphs. \<open>holds h x dt sz vs\<close> is what a later operator
  needs to know of a tensor: it is valid and has element type \<open>dt\<close>, shape \<open>sz\<close> and values
  \<open>vs\<close>. \<open>fresh\<close> says that an operator allocated such a tensor and changed nothing else; what
  was known before stays known (\<open>fresh_keep\<close>). Each operator has one lemma in these terms,
  with its result written as a function on lists of values.
\<close>

definition holds :: "('a, 'k) store \<Rightarrow> tensor \<Rightarrow> dtype \<Rightarrow> nat list \<Rightarrow> 'a list \<Rightarrow> bool" where
  "holds h x dt sz vs \<longleftrightarrow> valid h x \<and> dtype x = dt \<and> sizes x = sz \<and> tvals h x = vs"

definition ext :: "('a, 'k) store \<Rightarrow> ('a, 'k) store \<Rightarrow> bool" where
  "ext h h' \<longleftrightarrow> frame {} h h' \<and> ctx h' = ctx h"

definition fresh ::
  "('a, 'k) store \<Rightarrow> tensor \<Rightarrow> ('a, 'k) store \<Rightarrow> dtype \<Rightarrow> nat list \<Rightarrow> 'a list \<Rightarrow> bool" where
  "fresh h z h' dt sz vs \<longleftrightarrow>
     ext h h' \<and> nxt h \<le> base z \<and> whole h' z \<and> dtype z = dt \<and> sizes z = sz \<and> tvals h' z = vs"

lemma ext_refl [simp]: "ext h h"
  by (simp add: ext_def)

lemma ext_trans [trans]: "ext h h' \<Longrightarrow> ext h' h'' \<Longrightarrow> ext h h''"
  using frame_empty_trans by (auto simp: ext_def)

lemma ext_keep: "ext h h' \<Longrightarrow> holds h x dt sz vs \<Longrightarrow> holds h' x dt sz vs"
  by (auto simp: ext_def holds_def frame_emptyD valid_base)

lemma fresh_ext: "fresh h z h' dt sz vs \<Longrightarrow> ext h h'"
  by (simp add: fresh_def)

lemma fresh_keep: "fresh h z h' dt sz vs \<Longrightarrow> holds h x dt' sz' vs' \<Longrightarrow> holds h' x dt' sz' vs'"
  by (rule ext_keep [OF fresh_ext])

lemma fresh_holds: "fresh h z h' dt sz vs \<Longrightarrow> holds h' z dt sz vs"
  by (simp add: fresh_def holds_def whole_valid)

lemma fresh_alloc: "length vs = prod_list sz \<Longrightarrow> fresh h (new_t h dt sz) (alloc h vs) dt sz vs"
  by (simp add: fresh_def ext_def whole_new tvals_new)

lemma fresh_later: "ext h0 h \<Longrightarrow> fresh h z h' dt sz vs \<Longrightarrow> fresh h0 z h' dt sz vs"
  using ext_trans [of h0 h h'] frame_nxt [of "{}" h0 h] by (auto simp: fresh_def ext_def)

lemma holds_length: "holds h x dt sz vs \<Longrightarrow> length vs = prod_list sz"
  by (auto simp: holds_def numel_def)

lemma holdsD:
  assumes "holds h x dt sz vs"
  shows "valid h x" "dtype x = dt" "sizes x = sz" "tvals h x = vs" "tv h x = (sz, vs)" "numel x = prod_list sz"
    "idx_ok sz ix \<Longrightarrow> rd h x ix = vs ! dot ix (cstride sz)"
  using assms rd_eq_nth_tvals [of x ix h] by (auto simp: holds_def tv_def numel_def)

subsection \<open>Values of views\<close>

text \<open>Columns \<open>lo ..< lo + m\<close> of a row-major matrix with \<open>r\<close> rows of width \<open>w\<close>.\<close>

definition cols :: "nat \<Rightarrow> nat \<Rightarrow> nat \<Rightarrow> nat \<Rightarrow> 'a list \<Rightarrow> 'a list" where
  "cols r w lo m vs = tabulate [r, m] (\<lambda>ix. vs ! (ix ! 0 * w + lo + ix ! 1))"

lemma length_cols [simp]: "length (cols r w lo m vs) = r * m"
  by (simp add: cols_def)

lemma tabulate_2_3: "tabulate [n, a * b] f = tabulate [n, a, b] (\<lambda>ix. f [ix ! 0, ix ! 1 * b + ix ! 2])"
proof -
  have "f (unflat [n, a * b] i) = f [i div (a * b), i mod (a * b) div b * b + i mod (a * b) mod b]" for i
    by simp
  then show ?thesis
    by (simp add: tabulate_def mult.assoc)
qed

lemma tabulate_3_2: "tabulate [n, a, b] f = tabulate [n * a, b] (\<lambda>ix. f [ix ! 0 div a, ix ! 0 mod a, ix ! 1])"
  by (cases "a = 0 \<or> b = 0")
     (auto simp: tabulate_def mult.assoc mult.commute [of a b] div_mult2_eq mod_mult2_eq)

lemma view3_holds:
  assumes x: "holds h x dt [n, a * b] vs" and st: "strides x = [s, 1]"
  shows "holds h (x\<lparr>sizes := [n, a, b], strides := [s, b, 1]\<rparr>) dt [n, a, b] vs"
proof -
  note d = holdsD [OF x]
  let ?y = "x\<lparr>sizes := [n, a, b], strides := [s, b, 1]\<rparr>"
  have eq: "pos ?y [i, j, k] = pos x [i, j * b + k]" for i j k
    using st by (simp add: pos_def)
  have "pos ?y [i, j, k] < length (mem h (base x))" if "i < n" "j < a" "k < b" for i j k
  proof -
    have "j * b + k < Suc j * b" using that by simp
    also have "\<dots> \<le> a * b" using that by (intro mult_le_mono1) simp
    finally show ?thesis using valid_bound [OF d(1), of "[i, j * b + k]"] that d(3) unfolding eq by simp
  qed
  moreover have "tvals h ?y = tvals h x"
    using st d(3) by (simp add: tvals_def tabulate_2_3)
       (rule tabulate_cong, auto simp: idx_ok3 rd_def pos_def)
  ultimately show ?thesis
    using d by (auto simp: holds_def valid_def idx_ok3)
qed

lemma slice2_holds:
  assumes x: "holds h x dt [n, w] vs" and st: "strides x = [s, 1]" and le: "lo + m \<le> w"
  shows "holds h (slice_last x lo m) dt [n, m] (cols n w lo m vs)" "strides (slice_last x lo m) = [s, 1]"
proof -
  note d = holdsD [OF x]
  let ?y = "slice_last x lo m"
  have eq: "pos ?y [i, j] = pos x [i, lo + j]" for i j
    using st by (simp add: pos_def slice_last_def)
  have "pos ?y [i, j] < length (mem h (base x))" if "i < n" "j < m" for i j
    using valid_bound [OF d(1), of "[i, lo + j]"] that le d(3) unfolding eq by simp
  moreover have "rd h ?y [i, j] = vs ! (i * w + lo + j)" if "i < n" "j < m" for i j
  proof -
    have "rd h ?y [i, j] = rd h x [i, lo + j]" by (simp add: rd_def eq) (simp add: slice_last_def)
    then show ?thesis using d(7) [of "[i, lo + j]"] that le by (simp add: add.assoc)
  qed
  ultimately show "holds h ?y dt [n, m] (cols n w lo m vs)"
    using d st by (auto simp: holds_def valid_def idx_ok2 tvals_def cols_def slice_last_def intro!: tabulate_cong)
  show "strides ?y = [s, 1]" using st by (simp add: slice_last_def)
qed

lemma slice3_holds:
  assumes x: "holds h x dt [n, a, b] vs" and st: "strides x = [s, t, 1]" and le: "lo + m \<le> b"
  shows "holds h (slice_last x lo m) dt [n, a, m] (cols (n * a) b lo m vs)"
proof -
  note d = holdsD [OF x]
  let ?y = "slice_last x lo m"
  have eq: "pos ?y [i, j, k] = pos x [i, j, lo + k]" for i j k
    using st by (simp add: pos_def slice_last_def)
  have "pos ?y [i, j, k] < length (mem h (base x))" if "i < n" "j < a" "k < m" for i j k
    using valid_bound [OF d(1), of "[i, j, lo + k]"] that le d(3) unfolding eq by simp
  moreover have "rd h ?y [i, j, k] = vs ! ((i * a + j) * b + lo + k)" if "i < n" "j < a" "k < m" for i j k
  proof -
    have "rd h ?y [i, j, k] = rd h x [i, j, lo + k]" by (simp add: rd_def eq) (simp add: slice_last_def)
    then show ?thesis using d(7) [of "[i, j, lo + k]"] that le by (simp add: algebra_simps)
  qed
  moreover have "tabulate [n, a, m] (\<lambda>ix. vs ! ((ix ! 0 * a + ix ! 1) * b + lo + ix ! 2)) = cols (n * a) b lo m vs"
    by (simp add: tabulate_3_2 cols_def)
  ultimately show ?thesis
    using d st unfolding holds_def
    by (auto simp: valid_def idx_ok3 tvals_def slice_last_def intro!: tabulate_cong simp flip: \<open>tabulate [n, a, m] _ = _\<close>)
qed

lemma unsqueezed_holds:
  assumes x: "holds h x dt [n, m] vs"
  shows "holds h (unsqueezed x) dt [n, 1, m] vs"
proof -
  note d = holdsD [OF x]
  obtain s t where st: "strides x = [s, t]"
    using d by (auto simp: valid_def length_Suc_conv)
  have eq: "pos (unsqueezed x) [i, 0, k] = pos x [i, k]" for i k
    using st d(3) by (simp add: unsqueezed_def pos_def)
  have "pos (unsqueezed x) [i, 0, k] < length (mem h (base x))" if "i < n" "k < m" for i k
    using valid_bound [OF d(1), of "[i, k]"] that d(3) unfolding eq by simp
  moreover have "tabulate [n, 1, m] (rd h (unsqueezed x)) = tabulate [n, m] (rd h x)"
  proof -
    have "tabulate [n, 1 * m] (rd h x) = tabulate [n, 1, m] (rd h (unsqueezed x))"
      unfolding tabulate_2_3 by (rule tabulate_cong) (auto simp: idx_ok3 rd_def eq [unfolded One_nat_def] less_Suc_eq_0_disj, simp add: unsqueezed_def)
    then show ?thesis by simp
  qed
  ultimately show ?thesis
    using d st by (auto simp: holds_def valid_def idx_ok3 tvals_def unsqueezed_def)
qed

lemma reshaped_holds:
  assumes "whole h x" "holds h x dt sz vs" "prod_list sz' = prod_list sz"
  shows "holds h (with_shape x sz') dt sz' vs"
  using assms whole_with_shape [of h x sz'] tvals_with_shape [of h x sz']
  by (auto simp: holds_def whole_valid numel_def)

lemma fresh_strides: "fresh h z h' dt [n, m] vs \<Longrightarrow> strides z = [m, 1]"
  by (auto simp: fresh_def whole_def contiguous_def)

subsection \<open>Element-wise operators\<close>

lemma bidx_self: "idx_ok sz ix \<Longrightarrow> bidx sz ix = ix"
  by (auto simp: bidx_def idx_ok_def list_all2_conv_all_nth intro!: nth_equalityI)

lemma bcast_self [simp]: "bcast sz sz = sz" "bcast_ok sz sz"
  by (auto simp: bcast_def bcast_ok_def list_all2_conv_all_nth intro!: nth_equalityI)

lemma map2_tabulate: "map2 f (tabulate sz g) (tabulate sz k) = tabulate sz (\<lambda>ix. f (g ix) (k ix))"
  by (simp add: tabulate_def map2_map_map)

lemma elementwise_fresh:
  assumes "holds h x dt sz xs" "holds h y dt' sz ys" "elementwise f x y h = (z, h')"
  shows "fresh h z h' dt sz (map2 f xs ys)"
proof -
  note x = holdsD [OF assms(1)] and y = holdsD [OF assms(2)]
  let ?vs = "tabulate sz (\<lambda>ix. f (rd h x (bidx sz ix)) (rd h y (bidx sz ix)))"
  have "?vs = tabulate sz (\<lambda>ix. f (rd h x ix) (rd h y ix))"
    by (rule tabulate_cong) (simp add: bidx_self)
  also have "\<dots> = map2 f xs ys"
    using x(3,4) y(3,4) by (simp add: tvals_def map2_tabulate [symmetric])
  finally have "?vs = map2 f xs ys" .
  moreover have "fresh h (new_t h dt sz) (alloc h ?vs) dt sz ?vs" by (rule fresh_alloc) simp
  ultimately show ?thesis
    using assms(3) x y by (simp add: elementwise_def)
qed

lemma mapped_fresh:
  assumes "holds h x dt sz vs" "mapped f dt' x h = (z, h')"
  shows "fresh h z h' dt' sz (map f vs)"
  using assms holdsD [OF assms(1)] holds_length [OF assms(1)] fresh_alloc [of "map f vs" sz h dt']
  by (simp add: mapped_def)

text \<open>The flat position of an element and of the mean of its row.\<close>

lemma dot_row:
  assumes "idx_ok (ds @ [d]) (ix @ [k])"
  shows "dot (ix @ [k]) (cstride (ds @ [d])) = dot (ix @ [0]) (cstride (ds @ [1])) * d + k"
  using assms
proof (induction ds arbitrary: ix)
  case Nil
  then show ?case by (cases ix) (auto simp: idx_ok_def)
next
  case (Cons a ds)
  then show ?case by (cases ix) (auto simp: algebra_simps, auto simp: idx_ok_def)
qed

lemma idx_ok_snoc: "idx_ok (ds @ [d]) jx \<longleftrightarrow> (\<exists>ix k. jx = ix @ [k] \<and> idx_ok ds ix \<and> k < d)"
  by (simp add: idx_ok_def list_all2_append2 list_all2_Cons2) (metis list_all2_lengthD length_Cons list.size(3))

lemma bidx_row: "idx_ok ds ix \<Longrightarrow> bidx (ds @ [1]) (ix @ [k]) = ix @ [0]"
  using bidx_self [of ds ix] by (simp add: bidx_def idx_ok_def list_all2_lengthD)

text \<open>Every row of \<open>xs\<close> scaled by its entry of \<open>ss\<close>.\<close>

definition row_scale :: "('a \<Rightarrow> 'a \<Rightarrow> 'a) \<Rightarrow> nat \<Rightarrow> 'a list \<Rightarrow> 'a list \<Rightarrow> 'a list" where
  "row_scale f d xs ss = map (\<lambda>i. f (xs ! i) (ss ! (i div d))) [0..<length xs]"

definition col_scale :: "('a \<Rightarrow> 'a \<Rightarrow> 'a) \<Rightarrow> nat \<Rightarrow> 'a list \<Rightarrow> 'a list \<Rightarrow> 'a list" where
  "col_scale f d xs ws = map (\<lambda>i. f (xs ! i) (ws ! (i mod d))) [0..<length xs]"

lemma tabulate_flat:
  assumes "length vs = prod_list sz" "\<And>ix. idx_ok sz ix \<Longrightarrow> f ix = vs ! dot ix (cstride sz)"
  shows "tabulate sz f = vs"
  using assms tabulate_cong [of sz f] list_as_tabulate [of vs sz] by metis

lemma row_scale_fresh:
  assumes x: "holds h x dt (ds @ [d]) xs" and y: "holds h y dt' (ds @ [1]) ss" and e: "elementwise f x y h = (z, h')"
  shows "fresh h z h' dt (ds @ [d]) (row_scale f d xs ss)"
proof -
  note dx = holdsD [OF x] and dy = holdsD [OF y]
  have "map2 (\<lambda>a b. if a = Suc 0 then b else a) ds ds = ds" by (rule nth_equalityI) auto
  then have bc: "bcast (ds @ [d]) (ds @ [1]) = ds @ [d]"
    by (simp add: bcast_def)
  let ?vs = "tabulate (ds @ [d]) (\<lambda>ix. f (rd h x (bidx (ds @ [d]) ix)) (rd h y (bidx (ds @ [1]) ix)))"
  have "?vs = row_scale f d xs ss"
  proof (rule tabulate_flat)
    show "length (row_scale f d xs ss) = prod_list (ds @ [d])"
      using holds_length [OF x] by (simp add: row_scale_def)
    fix jx assume ok: "idx_ok (ds @ [d]) jx"
    then obtain ix k where j: "jx = ix @ [k]" "idx_ok ds ix" "k < d" by (auto simp: idx_ok_snoc)
    then have o1: "idx_ok (ds @ [1]) (ix @ [0])" by (simp add: idx_ok_snoc)
    have "dot jx (cstride (ds @ [d])) < length xs"
      using flat_less [OF ok] holds_length [OF x] by simp
    then show "f (rd h x (bidx (ds @ [d]) jx)) (rd h y (bidx (ds @ [1]) jx)) = row_scale f d xs ss ! dot jx (cstride (ds @ [d]))"
      using ok j dx(7) [OF ok] dy(7) [OF o1] dot_row [of ds d ix k]
      by (simp add: bidx_self bidx_row [unfolded One_nat_def] row_scale_def)
  qed
  moreover have "fresh h (new_t h dt (ds @ [d])) (alloc h ?vs) dt (ds @ [d]) ?vs" by (rule fresh_alloc) simp
  ultimately show ?thesis
    using e dx dy bc by (simp add: elementwise_def)
qed

lemma by_row_fresh:
  assumes x: "holds h x dt (ds @ [d]) xs" and y: "holds h y dt' [d] ws" and e: "by_row f x y h = (z, h')"
  shows "fresh h z h' dt (ds @ [d]) (col_scale f d xs ws)"
proof -
  note dx = holdsD [OF x] and dy = holdsD [OF y]
  let ?vs = "tabulate (ds @ [d]) (\<lambda>ix. f (rd h x ix) (rd h y [last ix]))"
  have "?vs = col_scale f d xs ws"
  proof (rule tabulate_flat)
    show "length (col_scale f d xs ws) = prod_list (ds @ [d])"
      using holds_length [OF x] by (simp add: col_scale_def)
    fix jx assume ok: "idx_ok (ds @ [d]) jx"
    then obtain ix k where j: "jx = ix @ [k]" "idx_ok ds ix" "k < d" by (auto simp: idx_ok_snoc)
    have "dot jx (cstride (ds @ [d])) < length xs"
      using flat_less [OF ok] holds_length [OF x] by simp
    then show "f (rd h x jx) (rd h y [last jx]) = col_scale f d xs ws ! dot jx (cstride (ds @ [d]))"
      using ok j dx(7) [OF ok] dy(7) [of "[k]"] dot_row [of ds d ix k]
      by (simp add: col_scale_def)
  qed
  moreover have "fresh h (new_t h dt (ds @ [d])) (alloc h ?vs) dt (ds @ [d]) ?vs" by (rule fresh_alloc) simp
  ultimately show ?thesis
    using e dx by (simp add: by_row_def)
qed

end
