(* ===== verification/Native_Decoder.thy ===== *)
theory Native_Decoder
  imports Native_Ops
begin

text \<open>
  The decoder the llama and qwen graphs compute, on values, for any sizes and number of
  layers, and the contract of the pieces such a graph is cut into. Half-precision weights
  and activations are multiplied in half precision; the residual sum and the norms are
  single precision. Between two layers the stream is therefore a pair: the single-precision
  sum that is normalised, and its half-precision rounding that the next sum starts from.
\<close>

subsection \<open>Sizes and weights\<close>

record model_dims =
  d_hid :: nat
  d_nq :: nat
  d_nkv :: nat
  d_half :: nat
  d_inter :: nat
  d_eps :: rat
  d_vocab :: nat
  d_maxpos :: nat
  d_layers :: nat

definition d_hd :: "model_dims \<Rightarrow> nat" where "d_hd D = 2 * d_half D"
definition d_q :: "model_dims \<Rightarrow> nat" where "d_q D = d_nq D * d_hd D"
definition d_kv :: "model_dims \<Rightarrow> nat" where "d_kv D = d_nkv D * d_hd D"
definition d_tot :: "model_dims \<Rightarrow> nat" where "d_tot D = d_q D + d_kv D + d_kv D"

definition dims_ok :: "model_dims \<Rightarrow> bool" where
  "dims_ok D \<longleftrightarrow> 0 < d_hid D \<and> 0 < d_nq D \<and> 0 < d_nkv D \<and> 0 < d_half D \<and> 0 < d_inter D \<and> 0 < d_layers D"

record 'a native_vals =
  nv_ln1 :: "'a list"
  nv_qkv :: "'a list"
  nv_heads :: "('a list \<times> 'a list) option"
  nv_o :: "'a list"
  nv_ln2 :: "'a list"
  nv_gate_up :: "'a list"
  nv_down :: "'a list"

subsection \<open>One layer\<close>

text \<open>Root-mean-square normalisation in single precision, rounded, then scaled by the weight.\<close>

definition nrms ::
  "('a, 'k) kernels \<Rightarrow> 'a native_kernels \<Rightarrow> rat \<Rightarrow> nat list \<Rightarrow> 'a list \<Rightarrow> 'a list \<Rightarrow> 'a list" where
  "nrms V W e sz xs ws =
     (let ss = map (w_rsqrt W) (map (w_add_scalar W e) (w_mean W (sz, map (w_pow W 2) xs))) in
      col_scale (v_mul V) (last sz) (map (w_cast W Float16) (row_scale (v_mul V) (last sz) xs ss)) ws)"

text \<open>Rotary embedding of \<open>r\<close> rows of \<open>a\<close> heads of \<open>2 * b\<close>; each row of \<open>cs\<close> holds \<open>b\<close> cosines and \<open>b\<close> sines.\<close>

definition nrope :: "('a, 'k) kernels \<Rightarrow> nat \<Rightarrow> nat \<Rightarrow> nat \<Rightarrow> 'a list \<Rightarrow> 'a list \<Rightarrow> 'a list" where
  "nrope V r a b xs cs = tabulate [r, a, 2 * b]
     (\<lambda>ix. let x = (\<lambda>l. xs ! ((ix ! 0 * a + ix ! 1) * (2 * b) + l)); c = (\<lambda>l. cs ! (ix ! 0 * (2 * b) + l)); j = ix ! 2 in
        if j < b then v_sub V (v_mul V (x j) (c j)) (v_mul V (x (b + j)) (c (b + j)))
        else v_add V (v_mul V (x j) (c (j - b))) (v_mul V (x (j - b)) (c j)))"

text \<open>The rows of a table that a vector of indices selects.\<close>

definition nrows :: "('a, 'k) kernels \<Rightarrow> nat \<Rightarrow> nat \<Rightarrow> 'a list \<Rightarrow> 'a list \<Rightarrow> 'a list" where
  "nrows V n d ids t = tabulate [n, d] (\<lambda>ix. t ! (nat (v_int V (ids ! (ix ! 0))) * d + ix ! 1))"

definition hnorm ::
  "('a, 'k) kernels \<Rightarrow> 'a native_kernels \<Rightarrow> rat \<Rightarrow> nat list \<Rightarrow> 'a list option \<Rightarrow> 'a list \<Rightarrow> 'a list" where
  "hnorm V W e sz ws xs = (case ws of None \<Rightarrow> xs | Some w \<Rightarrow> nrms V W e sz (map (w_cast W Float32) xs) w)"

definition nproj :: "('a, 'k) kernels \<Rightarrow> model_dims \<Rightarrow> nat \<Rightarrow> 'a list \<Rightarrow> 'a list \<Rightarrow> 'a list" where
  "nproj V D n w x = v_linear V ([n, d_hid D], x) ([d_tot D, d_hid D], w) None"

definition nquery ::
  "('a, 'k) kernels \<Rightarrow> 'a native_kernels \<Rightarrow> model_dims \<Rightarrow> nat \<Rightarrow> 'a native_vals \<Rightarrow> 'a list \<Rightarrow> 'a list \<Rightarrow> 'a list" where
  "nquery V W D n lv cs y =
     nrope V n (d_nq D) (d_half D)
       (hnorm V W (d_eps D) [n, d_nq D, d_hd D] (map_option fst (nv_heads lv)) (cols n (d_tot D) 0 (d_q D) y)) cs"

definition nkey ::
  "('a, 'k) kernels \<Rightarrow> 'a native_kernels \<Rightarrow> model_dims \<Rightarrow> nat \<Rightarrow> 'a native_vals \<Rightarrow> 'a list \<Rightarrow> 'a list \<Rightarrow> 'a list" where
  "nkey V W D n lv cs y =
     nrope V n (d_nkv D) (d_half D)
       (hnorm V W (d_eps D) [n, d_nkv D, d_hd D] (map_option snd (nv_heads lv)) (cols n (d_tot D) (d_q D) (d_kv D) y)) cs"

definition nvalue :: "model_dims \<Rightarrow> nat \<Rightarrow> 'a list \<Rightarrow> 'a list" where
  "nvalue D n y = cols n (d_tot D) (d_q D + d_kv D) (d_kv D) y"

definition nattn ::
  "('a, 'k) kernels \<Rightarrow> 'a native_kernels \<Rightarrow> model_dims \<Rightarrow> nat \<Rightarrow> 'a list \<Rightarrow> string \<Rightarrow> 'a native_vals \<Rightarrow>
   'a list \<Rightarrow> 'k \<Rightarrow> 'a list \<times> 'k" where
  "nattn V W D n cs name lv s kv =
     (let y = nproj V D n (nv_qkv lv) (nrms V W (d_eps D) [n, d_hid D] s (nv_ln1 lv)) in
      v_attn V name kv ([n, d_nq D, d_hd D], nquery V W D n lv cs y)
        ([n, d_nkv D, d_hd D], nkey V W D n lv cs y) ([n, d_nkv D, d_hd D], nvalue D n y))"

text \<open>A projection added to the stream in single precision.\<close>

definition nresidual :: "('a, 'k) kernels \<Rightarrow> 'a native_kernels \<Rightarrow> 'a list \<Rightarrow> 'a list \<Rightarrow> 'a list" where
  "nresidual V W y r = map2 (\<lambda>a b. v_add V a (w_cast W Float32 b)) (map (w_cast W Float32) y) r"

definition nmlp ::
  "('a, 'k) kernels \<Rightarrow> 'a native_kernels \<Rightarrow> model_dims \<Rightarrow> nat \<Rightarrow> 'a native_vals \<Rightarrow> 'a list \<Rightarrow> 'a list" where
  "nmlp V W D n lv x =
     (let g = v_linear V ([n, d_hid D], x) ([2 * d_inter D, d_hid D], nv_gate_up lv) None;
          a = map2 (v_mul V) (map (w_silu W) (cols n (2 * d_inter D) 0 (d_inter D) g))
                             (cols n (2 * d_inter D) (d_inter D) (d_inter D) g)
      in v_linear V ([n, d_inter D], a) ([d_hid D, d_inter D], nv_down lv) None)"

text \<open>What follows the attention in a layer: the new single-precision stream and its rounding.\<close>

definition nafter ::
  "('a, 'k) kernels \<Rightarrow> 'a native_kernels \<Rightarrow> model_dims \<Rightarrow> nat \<Rightarrow> 'a native_vals \<Rightarrow> 'a list \<Rightarrow> 'a list \<Rightarrow>
   'a list \<times> 'a list" where
  "nafter V W D n lv a r =
     (let s1 = nresidual V W (v_linear V ([n, d_q D], a) ([d_hid D, d_q D], nv_o lv) None) r;
          s2 = nresidual V W (nmlp V W D n lv (nrms V W (d_eps D) [n, d_hid D] s1 (nv_ln2 lv))) (map (w_cast W Float16) s1)
      in (s2, map (w_cast W Float16) s2))"

definition nlayer ::
  "('a, 'k) kernels \<Rightarrow> 'a native_kernels \<Rightarrow> model_dims \<Rightarrow> nat \<Rightarrow> 'a list \<Rightarrow> string \<Rightarrow> 'a native_vals \<Rightarrow>
   ('a list \<times> 'a list) \<times> 'k \<Rightarrow> ('a list \<times> 'a list) \<times> 'k" where
  "nlayer V W D n cs name lv = (\<lambda>((s, r), kv).
     let (a, kv') = nattn V W D n cs name lv s kv in (nafter V W D n lv a r, kv'))"

definition native_model ::
  "('a, 'k) kernels \<Rightarrow> 'a native_kernels \<Rightarrow> model_dims \<Rightarrow> nat \<Rightarrow> 'a list \<Rightarrow> 'a list \<Rightarrow> 'a list \<Rightarrow> 'a list \<Rightarrow>
   (nat \<Rightarrow> 'a native_vals) \<Rightarrow> 'a list \<Rightarrow> 'k \<Rightarrow> 'a list \<times> 'k" where
  "native_model V W D n ids ps emb cache lvs nw kv =
     (let e = nrows V n (d_hid D) ids emb;
          ((s, r), kv') = fold (\<lambda>i. nlayer V W D n (nrows V n (d_hd D) ps cache) (layer_name i) (lvs i))
            [0..<d_layers D] ((map (w_cast W Float32) e, e), kv)
      in (nrms V W (d_eps D) [n, d_hid D] s nw, kv'))"

subsection \<open>The state at a graph break\<close>

definition nat_break ::
  "('a, 'k) kernels \<Rightarrow> 'a native_kernels \<Rightarrow> model_dims \<Rightarrow> nat \<Rightarrow> ('a, 'k) store \<Rightarrow> 'a native_vals \<Rightarrow> 'a list \<Rightarrow>
   'a list \<Rightarrow> 'a list \<Rightarrow> tensor \<times> tensor \<times> tensor \<times> tensor \<times> tensor \<Rightarrow> ('a, 'k) store \<Rightarrow> bool" where
  "nat_break V W D n h0 lv cs s r = (\<lambda>(q, k, v, out, res) h.
     let y = nproj V D n (nv_qkv lv) (nrms V W (d_eps D) [n, d_hid D] s (nv_ln1 lv)) in
     frame {} h0 h \<and>
     holds h q Float16 [n, d_nq D, d_hd D] (nquery V W D n lv cs y) \<and>
     holds h k Float16 [n, d_nkv D, d_hd D] (nkey V W D n lv cs y) \<and>
     holds h v Float16 [n, d_nkv D, d_hd D] (nvalue D n y) \<and>
     whole h out \<and> sizes out = [n, d_nq D, d_hd D] \<and> dtype out = Float16 \<and> nxt h0 \<le> base out \<and>
     base out \<notin> {base q, base k, base v, base res} \<and>
     holds h res Float16 [n, d_hid D] r)"

definition weight_ok :: "('a, 'k) store \<Rightarrow> tensor \<Rightarrow> nat list \<Rightarrow> bool" where
  "weight_ok h w sz \<longleftrightarrow> valid h w \<and> dtype w = Float16 \<and> sizes w = sz"

definition params_ok :: "model_dims \<Rightarrow> ('a, 'k) store \<Rightarrow> ('z) native_params_scheme \<Rightarrow> bool" where
  "params_ok D h P \<longleftrightarrow>
     weight_ok h (n_input_layernorm_weight P) [d_hid D] \<and> weight_ok h (n_qkv_proj_weight P) [d_tot D, d_hid D] \<and>
     weight_ok h (n_o_proj_weight P) [d_hid D, d_q D] \<and> weight_ok h (n_post_attention_layernorm_weight P) [d_hid D] \<and>
     weight_ok h (n_gate_up_proj_weight P) [2 * d_inter D, d_hid D] \<and> weight_ok h (n_down_proj_weight P) [d_hid D, d_inter D]"

definition params_vals ::
  "('a, 'k) store \<Rightarrow> (tensor \<times> tensor) option \<Rightarrow> ('z) native_params_scheme \<Rightarrow> 'a native_vals" where
  "params_vals h hw P =
     \<lparr>nv_ln1 = tvals h (n_input_layernorm_weight P), nv_qkv = tvals h (n_qkv_proj_weight P),
      nv_heads = map_option (\<lambda>(a, b). (tvals h a, tvals h b)) hw,
      nv_o = tvals h (n_o_proj_weight P), nv_ln2 = tvals h (n_post_attention_layernorm_weight P),
      nv_gate_up = tvals h (n_gate_up_proj_weight P), nv_down = tvals h (n_down_proj_weight P)\<rparr>"

definition heads_ok :: "model_dims \<Rightarrow> ('a, 'k) store \<Rightarrow> (tensor \<times> tensor) option \<Rightarrow> bool" where
  "heads_ok D h hw \<longleftrightarrow> (case hw of None \<Rightarrow> True | Some (a, b) \<Rightarrow> weight_ok h a [d_hd D] \<and> weight_ok h b [d_hd D])"

lemma weight_holds: "weight_ok h w sz \<Longrightarrow> holds h w Float16 sz (tvals h w)"
  by (simp add: weight_ok_def holds_def)

lemma frame_weight_ok: "frame {} h h' \<Longrightarrow> weight_ok h w sz \<Longrightarrow> weight_ok h' w sz \<and> tvals h' w = tvals h w"
  by (simp add: weight_ok_def frame_emptyD valid_base)

lemma frame_params_ok:
  "frame {} h h' \<Longrightarrow> params_ok D h P \<Longrightarrow> heads_ok D h hw \<Longrightarrow>
   params_ok D h' P \<and> heads_ok D h' hw \<and> params_vals h' hw P = params_vals h hw P"
  by (auto simp: params_ok_def heads_ok_def params_vals_def frame_weight_ok split: option.splits)

end
