(* ===== verification/Native_Frag.thy ===== *)
theory Native_Frag
  imports Native_Decoder
begin

text \<open>
  The stretches of code the pieces of the llama and qwen graphs share, with the sizes as a
  parameter, and their results: each computes its function of \<open>Native_Decoder\<close> and allocates
  everything it returns.
\<close>

subsection \<open>Normalisation\<close>

definition norm_frag ::
  "('a, 'k) torch \<Rightarrow> ('a, 'k) native_ops \<Rightarrow> rat \<Rightarrow> tensor \<Rightarrow> tensor \<Rightarrow> ('a, 'k) store \<Rightarrow>
   (tensor \<times> ('a, 'k) store) option" where
  "norm_frag T N e x w h = do {
  (pow, h) \<leftarrow> t_pow N x 2 h;
  (mean, h) \<leftarrow> t_mean N pow (-1) True h;
  (add, h) \<leftarrow> t_add_scalar N mean e h;
  (rsqrt, h) \<leftarrow> t_rsqrt N add h;
  (mul, h) \<leftarrow> t_mul T x rsqrt h;
  (to, h) \<leftarrow> t_to T mul Float16 h;
  (mul_1, h) \<leftarrow> t_mul T to w h;
  Some (mul_1, h)}"

definition hnorm_frag ::
  "('a, 'k) torch \<Rightarrow> ('a, 'k) native_ops \<Rightarrow> rat \<Rightarrow> nat \<Rightarrow> nat \<Rightarrow> nat \<Rightarrow> tensor option \<Rightarrow> tensor \<Rightarrow> ('a, 'k) store \<Rightarrow>
   (tensor \<times> ('a, 'k) store) option" where
  "hnorm_frag T N e s72 a b w x h = (case w of None \<Rightarrow> Some (x, h) | Some w \<Rightarrow> do {
  view \<leftarrow> t_view T x [int s72, int a, int b];
  (to, h) \<leftarrow> t_to T view Float32 h;
  (y, h) \<leftarrow> norm_frag T N e to w h;
  view_1 \<leftarrow> t_view T y (map int (sizes x));
  Some (view_1, h)})"

context native_api
begin

text \<open>Each operator in terms of \<open>holds\<close> and \<open>fresh\<close>.\<close>

lemma mapped_ok:
  assumes "holds h x dt sz vs"
  obtains z h' where "mapped f dt' x h = (z, h')" "fresh h z h' dt' sz (map f vs)"
  using mapped_fresh [OF assms] by (cases "mapped f dt' x h") blast

lemma cast_ok:
  assumes x: "holds h x dt sz vs" and "dt \<noteq> dt'" "dt \<in> {Float16, Float32}" "dt' \<in> {Float16, Float32}"
  obtains z h' where "t_to T x dt' h = Some (z, h')" "fresh h z h' dt' sz (map (w_cast W dt') vs)"
  using mapped_ok [OF x, of "w_cast W dt'" dt'] cast_law [of h x dt'] assms holdsD [OF x] by metis

lemma mul_same_ok:
  assumes x: "holds h x dt sz xs" and y: "holds h y dt sz ys"
  obtains z h' where "t_mul T x y h = Some (z, h')" "fresh h z h' dt sz (map2 (v_mul V) xs ys)"
proof -
  obtain z h' where z: "elementwise (v_mul V) x y h = (z, h')" by fastforce
  show thesis
    by (rule that [OF _ elementwise_fresh [OF x y z]]) (simp add: mul_law holdsD [OF x] holdsD [OF y] z)
qed

lemma norm_frag_ok:
  assumes x: "holds h x Float32 (ds @ [d]) xs" and ds: "ds \<noteq> []" and w: "holds h w Float16 [d] ws"
  obtains y h' where "norm_frag T N e x w h = Some (y, h')" "fresh h y h' Float16 (ds @ [d]) (nrms V W e (ds @ [d]) xs ws)"
proof -
  obtain p h1 where p: "mapped (w_pow W 2) Float32 x h = (p, h1)"
    and p1: "fresh h p h1 Float32 (ds @ [d]) (map (w_pow W 2) xs)" by (rule mapped_ok [OF x])
  note p1' = fresh_holds [OF p1]
  let ?m = "w_mean W (ds @ [d], map (w_pow W 2) xs)"
  have lm: "length ?m = prod_list (ds @ [1])"
    using mean_length [of "map (w_pow W 2) xs" ds d] holds_length [OF p1'] by simp
  define m where "m = new_t h1 Float32 (ds @ [1])"
  define h2 where "h2 = alloc h1 ?m"
  have m1: "fresh h1 m h2 Float32 (ds @ [1]) ?m" using fresh_alloc [OF lm, of h1 Float32] by (simp add: m_def h2_def)
  obtain a h3 where a: "mapped (w_add_scalar W e) Float32 m h2 = (a, h3)"
    and a1: "fresh h2 a h3 Float32 (ds @ [1]) (map (w_add_scalar W e) ?m)" by (rule mapped_ok [OF fresh_holds [OF m1]])
  obtain s h4 where s: "mapped (w_rsqrt W) Float32 a h3 = (s, h4)"
    and s1: "fresh h3 s h4 Float32 (ds @ [1]) (map (w_rsqrt W) (map (w_add_scalar W e) ?m))"
    by (rule mapped_ok [OF fresh_holds [OF a1]])
  let ?s = "map (w_rsqrt W) (map (w_add_scalar W e) ?m)"
  have e4: "ext h h4" using fresh_ext [OF p1] fresh_ext [OF m1] fresh_ext [OF a1] fresh_ext [OF s1] by (blast intro: ext_trans)
  note x4 = ext_keep [OF e4 x] and s4 = fresh_holds [OF s1]
  obtain y h5 where y: "elementwise (v_mul V) x s h4 = (y, h5)" by fastforce
  note y1 = row_scale_fresh [OF x4 s4 y]
  obtain c h6 where c: "t_to T y Float16 h5 = Some (c, h6)"
    and c1: "fresh h5 c h6 Float16 (ds @ [d]) (map (w_cast W Float16) (row_scale (v_mul V) d xs ?s))"
    by (rule cast_ok [OF fresh_holds [OF y1], of Float16]) auto
  have e6: "ext h h6" using e4 fresh_ext [OF y1] fresh_ext [OF c1] by (blast intro: ext_trans)
  obtain z h7 where z: "by_row (v_mul V) c w h6 = (z, h7)" by fastforce
  note z1 = by_row_fresh [OF fresh_holds [OF c1] ext_keep [OF e6 w] z]
  have bc: "bcast_ok (ds @ [d]) (ds @ [1])"
    by (auto simp: bcast_ok_def list_all2_conv_all_nth nth_append less_Suc_eq)
  have "norm_frag T N e x w h = Some (z, h7)"
    unfolding norm_frag_def
    using pow_law [of h x 2] mean_law [of h1 p] add_scalar_law [of h2 m e] rsqrt_law [of h3 a]
      mul_law [of h4 x s] mul_row_law [of h6 c w]
      holdsD(1-3,5) [OF x] holdsD(1-3,5) [OF p1'] holdsD(1-3) [OF fresh_holds [OF m1]] holdsD(1-3) [OF fresh_holds [OF a1]]
      holdsD(1-3) [OF x4] holdsD(1-3) [OF s4] holdsD(1-3) [OF fresh_holds [OF c1]] holdsD(1-3) [OF ext_keep [OF e6 w]]
      p a s y c z ds bc
    by (simp add: m_def [symmetric, unfolded One_nat_def] h2_def [symmetric])
  then show thesis
    by (rule that) (use fresh_later [OF e6 z1] in \<open>simp add: nrms_def\<close>)
qed

lemma view3_ok:
  assumes x: "holds h x dt [n, a * b] vs" and st: "strides x = [s, 1]" and sh: "infer sh (n * (a * b)) = Some [n, a, b]"
  obtains y where "t_view T x sh = Some y" "holds h y dt [n, a, b] vs" "strides y = [s, b, 1]" "base y = base x"
  using that [OF view_split_law [of x n a b s sh] view3_holds [OF x st]] holdsD(3,6) [OF x] st sh by simp

lemma view_whole_ok:
  assumes w: "whole h x" and x: "holds h x dt sz vs" and sh: "infer sh (prod_list sz) = Some sz'"
    and p: "prod_list sz' = prod_list sz"
  obtains y where "t_view T x sh = Some y" "holds h y dt sz' vs" "whole h y" "base y = base x"
  using that [OF view_law [of x sh sz'] reshaped_holds [OF w x p] whole_with_shape [OF w, of sz']]
    whole_contiguous [OF w] holdsD(6) [OF x] sh p by simp

lemma infer_exact: "infer (map int sz) (prod_list sz) = Some sz"
proof -
  have "filter (\<lambda>d. d \<noteq> -1) (map int sz) = map int sz" by (induction sz) auto
  then show ?thesis by (simp add: infer_def Let_def comp_def)
qed

lemma hnorm_frag_ok:
  assumes x: "holds h x Float16 [n, a * b] xs" and st: "strides x = [s, 1]"
    and w: "\<And>w'. w = Some w' \<Longrightarrow> holds h w' Float16 [b] (ws w')"
  obtains y h' s' where "hnorm_frag T N e n a b w x h = Some (y, h')" "ext h h'" "strides y = [s', 1]"
    "holds h' y Float16 [n, a * b] (hnorm V W e [n, a, b] (map_option ws w) xs)"
proof (cases w)
  case None
  show thesis
    by (rule that [of x h s]) (use x st None in \<open>simp_all add: hnorm_frag_def hnorm_def\<close>)
next
  case (Some w')
  obtain v where v: "t_view T x [int n, int a, int b] = Some v" "holds h v Float16 [n, a, b] xs"
    by (rule view3_ok [OF x st]) (use infer_exact [of "[n, a, b]"] in \<open>simp_all add: mult.assoc\<close>)
  obtain c h1 where c: "t_to T v Float32 h = Some (c, h1)" and c1: "fresh h c h1 Float32 [n, a, b] (map (w_cast W Float32) xs)"
    by (rule cast_ok [OF v(2), of Float32]) auto
  obtain y h2 where y: "norm_frag T N e c w' h1 = Some (y, h2)"
    and y1: "fresh h1 y h2 Float16 ([n, a] @ [b]) (nrms V W e ([n, a] @ [b]) (map (w_cast W Float32) xs) (ws w'))"
    by (rule norm_frag_ok [where ds = "[n, a]" and d = b, OF _ _ fresh_keep [OF c1 w [OF Some]]])
       (use fresh_holds [OF c1] in auto)
  note hy = fresh_holds [OF y1]
  have wy: "whole h2 y" using y1 by (simp add: fresh_def)
  obtain z where z: "t_view T y (map int [n, a * b]) = Some z" "whole h2 z"
    "holds h2 z Float16 [n, a * b] (nrms V W e [n, a, b] (map (w_cast W Float32) xs) (ws w'))"
    by (rule view_whole_ok [OF wy hy, of "map int [n, a * b]" "[n, a * b]"])
       (use infer_exact [of "[n, a * b]"] in \<open>simp_all add: mult.assoc\<close>)
  show thesis
  proof (rule that)
    show "hnorm_frag T N e n a b w x h = Some (z, h2)"
      using v c y z holdsD(3) [OF x] Some by (simp add: hnorm_frag_def)
    show "ext h h2" using fresh_ext [OF c1] fresh_ext [OF y1] by (blast intro: ext_trans)
    show "strides z = [a * b, 1]" using z(2) holdsD(3) [OF z(3)] by (simp add: whole_def contiguous_def)
    show "holds h2 z Float16 [n, a * b] (hnorm V W e [n, a, b] (map_option ws w) xs)"
      using z(3) Some by (simp add: hnorm_def)
  qed
qed

end

subsection \<open>Rotary embedding\<close>

definition nrope_frag ::
  "('a, 'k) torch \<Rightarrow> nat \<Rightarrow> nat \<Rightarrow> tensor \<Rightarrow> tensor \<Rightarrow> tensor \<Rightarrow> ('a, 'k) store \<Rightarrow>
   (tensor \<times> ('a, 'k) store) option" where
  "nrope_frag T s72 w x c s h = do {
  let size = sizes x;
  view \<leftarrow> t_view T x [int s72, -1, int w];
  rot \<leftarrow> t_getitem_last T view None (Some w);
  pass \<leftarrow> t_getitem_last T view (Some w) None;
  unsqueeze \<leftarrow> t_unsqueeze T c (-2);
  (to, h) \<leftarrow> t_to T unsqueeze Float16 h;
  unsqueeze_1 \<leftarrow> t_unsqueeze T s (-2);
  (to_1, h) \<leftarrow> t_to T unsqueeze_1 Float16 h;
  chunk_1 \<leftarrow> t_chunk T rot 2 (-1);
  x1 \<leftarrow> py_nth chunk_1 0;
  x2 \<leftarrow> py_nth chunk_1 1;
  (mul, h) \<leftarrow> t_mul T x1 to h;
  (mul_1, h) \<leftarrow> t_mul T x2 to_1 h;
  (sub, h) \<leftarrow> t_sub T mul mul_1 h;
  (mul_2, h) \<leftarrow> t_mul T x2 to h;
  (mul_3, h) \<leftarrow> t_mul T x1 to_1 h;
  (add, h) \<leftarrow> t_add T mul_2 mul_3 h;
  (cat, h) \<leftarrow> t_cat T [sub, add] (-1) h;
  (cat_1, h) \<leftarrow> t_cat T [cat, pass] (-1) h;
  (reshape, h) \<leftarrow> t_reshape T cat_1 size h;
  Some (reshape, h)}"

text \<open>The products with a table row that is shared by all heads of a token.\<close>

definition head_mul :: "('a \<Rightarrow> 'a \<Rightarrow> 'a) \<Rightarrow> nat \<Rightarrow> nat \<Rightarrow> nat \<Rightarrow> 'a list \<Rightarrow> 'a list \<Rightarrow> 'a list" where
  "head_mul f n a b xs cs = tabulate [n, a, b] (\<lambda>ix. f (xs ! ((ix ! 0 * a + ix ! 1) * b + ix ! 2)) (cs ! (ix ! 0 * b + ix ! 2)))"

lemma head_mul_fresh:
  assumes x: "holds h x dt [n, a, b] xs" and c: "holds h c dt [n, 1, b] cs" and z: "elementwise f x c h = (z, h')"
  shows "fresh h z h' dt [n, a, b] (head_mul f n a b xs cs)"
proof -
  note dx = holdsD [OF x] and dc = holdsD [OF c]
  let ?vs = "tabulate [n, a, b] (\<lambda>ix. f (rd h x (bidx [n, a, b] ix)) (rd h c (bidx [n, 1, b] ix)))"
  have "?vs = head_mul f n a b xs cs"
    unfolding head_mul_def
  proof (rule tabulate_cong)
    fix ix assume ok: "idx_ok [n, a, b] ix"
    then obtain i j k where ix: "ix = [i, j, k]" "i < n" "j < a" "k < b" by (auto simp: idx_ok3)
    have "bidx [n, 1, b] ix = [i, 0, k]" using ix by (auto simp: bidx_def)
    then show "f (rd h x (bidx [n, a, b] ix)) (rd h c (bidx [n, 1, b] ix)) =
        f (xs ! ((ix ! 0 * a + ix ! 1) * b + ix ! 2)) (cs ! (ix ! 0 * b + ix ! 2))"
      using ok dx(7) [of ix] dc(7) [of "[i, 0, k]"] ix by (simp add: bidx_self algebra_simps)
  qed
  moreover have "fresh h (new_t h dt [n, a, b]) (alloc h ?vs) dt [n, a, b] ?vs" by (rule fresh_alloc) simp
  moreover have "bcast [n, a, b] [n, 1, b] = [n, a, b]" by (auto simp: bcast_def)
  ultimately show ?thesis
    using z dx dc by (simp add: elementwise_def)
qed

lemma cat3_fresh:
  assumes x: "holds h x dt [n, a, b] xs" and y: "holds h y dt' [n, a, c] ys" and z: "cat_last x y h = (z, h')"
  shows "fresh h z h' dt [n, a, b + c] (tabulate [n, a, b + c]
    (\<lambda>ix. if ix ! 2 < b then xs ! ((ix ! 0 * a + ix ! 1) * b + ix ! 2)
          else ys ! ((ix ! 0 * a + ix ! 1) * c + (ix ! 2 - b))))" (is "fresh h z h' dt _ ?ws")
proof -
  note dx = holdsD [OF x] and dy = holdsD [OF y]
  let ?vs = "tabulate [n, a, b + c] (\<lambda>ix. if last ix < b then rd h x ix else rd h y (butlast ix @ [last ix - b]))"
  have "?vs = ?ws"
  proof (rule tabulate_cong)
    fix ix assume "idx_ok [n, a, b + c] ix"
    then obtain i j k where ix: "ix = [i, j, k]" "i < n" "j < a" "k < b + c" by (auto simp: idx_ok3)
    then show "(if last ix < b then rd h x ix else rd h y (butlast ix @ [last ix - b])) =
        (if ix ! 2 < b then xs ! ((ix ! 0 * a + ix ! 1) * b + ix ! 2)
          else ys ! ((ix ! 0 * a + ix ! 1) * c + (ix ! 2 - b)))"
      using dx(7) [of ix] dy(7) [of "[i, j, k - b]"] by (auto simp: algebra_simps)
  qed
  moreover have "fresh h (new_t h dt [n, a, b + c]) (alloc h ?vs) dt [n, a, b + c] ?vs" by (rule fresh_alloc) simp
  ultimately show ?thesis
    using z dx dy by (simp add: cat_last_def Let_def)
qed

context native_api
begin

text \<open>One half of a rotated head: two products and their sum or difference.\<close>

lemma half_ok:
  assumes op: "\<And>x y h. valid h x \<Longrightarrow> valid h y \<Longrightarrow> dtype x = dtype y \<Longrightarrow>
      bcast_ok (sizes x) (sizes y) \<Longrightarrow> t_op x y h = Some (elementwise g x y h)"
    and x: "holds h x dt [n, a, b] xs" and y: "holds h y dt [n, a, b] ys"
    and c: "holds h c dt [n, 1, b] cs" and s: "holds h s dt [n, 1, b] ss"
  obtains p h1 q h2 z h3 where
    "t_mul T x c h = Some (p, h1)" "t_mul T y s h1 = Some (q, h2)" "t_op p q h2 = Some (z, h3)"
    "fresh h z h3 dt [n, a, b] (map2 g (head_mul (v_mul V) n a b xs cs) (head_mul (v_mul V) n a b ys ss))"
proof -
  obtain p h1 where p: "elementwise (v_mul V) x c h = (p, h1)" by fastforce
  note p1 = head_mul_fresh [OF x c p]
  note y1 = fresh_keep [OF p1 y] and s1 = fresh_keep [OF p1 s]
  obtain q h2 where q: "elementwise (v_mul V) y s h1 = (q, h2)" by fastforce
  note q1 = head_mul_fresh [OF y1 s1 q]
  note p2 = fresh_keep [OF q1 fresh_holds [OF p1]] and q2 = fresh_holds [OF q1]
  obtain z h3 where z: "elementwise g p q h2 = (z, h3)" by fastforce
  have bc: "bcast_ok [n, a, b] [n, 1, b]" by (simp add: bcast_ok_def)
  show thesis
  proof (rule that)
    show "t_mul T x c h = Some (p, h1)" using p bc by (simp add: mul_law holdsD [OF x] holdsD [OF c])
    show "t_mul T y s h1 = Some (q, h2)" using q bc by (simp add: mul_law holdsD [OF y1] holdsD [OF s1])
    show "t_op p q h2 = Some (z, h3)" using z by (simp add: op holdsD [OF p2] holdsD [OF q2])
    show "fresh h z h3 dt [n, a, b] (map2 g (head_mul (v_mul V) n a b xs cs) (head_mul (v_mul V) n a b ys ss))"
      using fresh_later [OF ext_trans [OF fresh_ext [OF p1] fresh_ext [OF q1]] elementwise_fresh [OF p2 q2 z]] .
  qed
qed

end

lemma nth_tab3:
  assumes "i < n" "j < a" "k < b"
  shows "tabulate [n, a, b] f ! ((i * a + j) * b + k) = f [i, j, k]"
  using nth_tabulate_flat [of "[n, a, b]" "[i, j, k]" f] assms by (simp add: algebra_simps)

lemma nth_cols: "i < r \<Longrightarrow> j < m \<Longrightarrow> cols r w lo m vs ! (i * m + j) = vs ! (i * w + lo + j)"
  using nth_tabulate_flat [of "[r, m]" "[i, j]" "\<lambda>ix. vs ! (ix ! 0 * w + lo + ix ! 1)"] by (simp add: cols_def)

lemma row_less: "i < n \<Longrightarrow> j < a \<Longrightarrow> i * a + j < n * (a :: nat)"
  using mult_le_mono1 [of "Suc i" n a] by simp

lemma nrope_halves:
  fixes n a b :: nat and V :: "('a, 'k) kernels"
  defines "X \<equiv> \<lambda>xs lo. cols (n * a) (2 * b) lo b xs" and "C \<equiv> \<lambda>cs lo. cols n (2 * b) lo b cs"
  defines "S \<equiv> \<lambda>xs cs. map2 (v_sub V) (head_mul (v_mul V) n a b (X xs 0) (C cs 0)) (head_mul (v_mul V) n a b (X xs b) (C cs b))"
    and "A \<equiv> \<lambda>xs cs. map2 (v_add V) (head_mul (v_mul V) n a b (X xs b) (C cs 0)) (head_mul (v_mul V) n a b (X xs 0) (C cs b))"
  shows "tabulate [n, a, b + b] (\<lambda>ix. if ix ! 2 < b then S xs cs ! ((ix ! 0 * a + ix ! 1) * b + ix ! 2)
      else A xs cs ! ((ix ! 0 * a + ix ! 1) * b + (ix ! 2 - b))) = nrope V n a b xs cs"
proof -
  have "(if k < b then S xs cs ! ((i * a + j) * b + k) else A xs cs ! ((i * a + j) * b + (k - b))) =
      (let x = \<lambda>l. xs ! ((i * a + j) * (2 * b) + l); c = \<lambda>l. cs ! (i * (2 * b) + l) in
        if k < b then v_sub V (v_mul V (x k) (c k)) (v_mul V (x (b + k)) (c (b + k)))
        else v_add V (v_mul V (x k) (c (k - b))) (v_mul V (x (k - b)) (c k)))"
    if "i < n" "j < a" "k < b + b" for i j k
  proof (cases "k < b")
    case True
    then show ?thesis
      using that by (simp add: S_def X_def C_def head_mul_def map2_tabulate nth_tab3 nth_cols row_less Let_def add.assoc)
  next
    case False
    then obtain l where "k = b + l" "l < b" using \<open>k < b + b\<close> by (auto simp: not_less le_iff_add)
    then show ?thesis
      using that by (simp add: A_def X_def C_def head_mul_def map2_tabulate nth_tab3 nth_cols row_less Let_def add.assoc)
  qed
  note half = this
  show ?thesis
    unfolding nrope_def mult_2 [of b]
  proof (rule tabulate_cong, goal_cases)
    case (1 ix)
    then obtain i j k where ix: "ix = [i, j, k]" "i < n" "j < a" "k < b + b" by (auto simp: idx_ok3)
    then show ?case
      using half [OF ix(2-4)] by (cases "k < b") (simp_all add: mult_2 Let_def)
  qed
qed

lemma infer_mid: "0 < n \<Longrightarrow> 0 < w \<Longrightarrow> infer [int n, -1, int w] (n * (a * w)) = Some [n, a, w]"
  by (simp add: infer_def Let_def)

context native_api
begin

lemma nrope_frag_ok:
  assumes pos: "0 < n" "0 < b"
    and x: "holds h x Float16 [n, a * (2 * b)] xs" and st: "strides x = [sx, 1]"
    and c: "holds h c Float16 [n, b] (cols n (2 * b) 0 b cs)" and s: "holds h s Float16 [n, b] (cols n (2 * b) b b cs)"
  obtains y h' where "nrope_frag T n (2 * b) x c s h = Some (y, h')"
    "fresh h y h' Float16 [n, a * (2 * b)] (nrope V n a b xs cs)"
proof -
  obtain v where v: "t_view T x [int n, -1, int (2 * b)] = Some v" "holds h v Float16 [n, a, 2 * b] xs" "strides v = [sx, 2 * b, 1]"
    by (rule view3_ok [OF x st infer_mid]) (use pos in auto)
  note dv = holdsD [OF v(2)]
  let ?pass = "slice_last v (2 * b) 0" and ?x1 = "slice_last v 0 b" and ?x2 = "slice_last v b b"
  have rot: "slice_last v 0 (2 * b) = v" using dv(3) v(3) by (simp add: slice_last_def)
  note x1 = slice3_holds [OF v(2,3), of 0 b] and x2 = slice3_holds [OF v(2,3), of b b] and ps = slice3_holds [OF v(2,3), of "2 * b" 0]
  note cu = unsqueezed_holds [OF c] and su = unsqueezed_holds [OF s]
  let ?X = "\<lambda>lo. cols (n * a) (2 * b) lo b xs" and ?C = "\<lambda>lo. cols n (2 * b) lo b cs"
  let ?S = "map2 (v_sub V) (head_mul (v_mul V) n a b (?X 0) (?C 0)) (head_mul (v_mul V) n a b (?X b) (?C b))"
  let ?A = "map2 (v_add V) (head_mul (v_mul V) n a b (?X b) (?C 0)) (head_mul (v_mul V) n a b (?X 0) (?C b))"
  obtain p1 h1 p2 h2 sub h3 where q1: "t_mul T ?x1 (unsqueezed c) h = Some (p1, h1)" "t_mul T ?x2 (unsqueezed s) h1 = Some (p2, h2)"
    "t_sub T p1 p2 h2 = Some (sub, h3)" and fs: "fresh h sub h3 Float16 [n, a, b] ?S"
    by (rule half_ok [where t_op = "t_sub T" and g = "v_sub V", OF sub_law x1 x2 cu su]) auto
  note k3 = fresh_keep [OF fs]
  obtain p3 h4 p4 h5 add h6 where q2: "t_mul T ?x2 (unsqueezed c) h3 = Some (p3, h4)" "t_mul T ?x1 (unsqueezed s) h4 = Some (p4, h5)"
    "t_add T p3 p4 h5 = Some (add, h6)" and fa: "fresh h3 add h6 Float16 [n, a, b] ?A"
    by (rule half_ok [where t_op = "t_add T" and g = "v_add V", OF add_law k3 [OF x2] k3 [OF x1] k3 [OF cu] k3 [OF su]]) auto
  note hs = fresh_keep [OF fa fresh_holds [OF fs]] and ha = fresh_holds [OF fa]
  obtain cat h7 where cat: "cat_last sub add h6 = (cat, h7)" by fastforce
  note fc = cat3_fresh [OF hs ha cat, unfolded nrope_halves, folded mult_2]
  have hp: "holds h7 ?pass Float16 [n, a, 0] (cols (n * a) (2 * b) (2 * b) 0 xs)"
    using fresh_keep [OF fc fresh_keep [OF fa k3 [OF ps]]] by simp
  obtain cat1 h8 where cat1: "cat_last cat ?pass h7 = (cat1, h8)" by fastforce
  note f1 = cat3_fresh [OF fresh_holds [OF fc] hp cat1]
  have "tabulate [n, a, 2 * b + 0] (\<lambda>ix. if ix ! 2 < 2 * b then nrope V n a b xs cs ! ((ix ! 0 * a + ix ! 1) * (2 * b) + ix ! 2)
      else cols (n * a) (2 * b) (2 * b) 0 xs ! ((ix ! 0 * a + ix ! 1) * 0 + (ix ! 2 - 2 * b))) = nrope V n a b xs cs"
    by (rule tabulate_flat) (simp add: nrope_def, auto simp: idx_ok3 algebra_simps mult_2_right)
  note f1 = f1 [unfolded this]
  have e8: "ext h h8" using fresh_ext [OF fs] fresh_ext [OF fa] fresh_ext [OF fc] fresh_ext [OF f1] by (blast intro: ext_trans)
  have e7: "ext h h7" using fresh_ext [OF fs] fresh_ext [OF fa] fresh_ext [OF fc] by (blast intro: ext_trans)
  note fl = fresh_later [OF e7 f1]
  have wh: "whole h8 cat1" using f1 by (simp add: fresh_def)
  let ?y = "with_shape cat1 [n, a * (2 * b)]"
  have run: "nrope_frag T n (2 * b) x c s h = Some (?y, h8)"
  proof -
    have "t_chunk T v 2 (-1) = Some [?x1, ?x2]"
      using chunk_law [of v 2 b] dv(3) v(3) pos
      by (simp add: numeral_2_eq_2 slice_last_def)
    moreover have "t_getitem_last T v None (Some (2 * b)) = Some v" "t_getitem_last T v (Some (2 * b)) None = Some ?pass"
      using getitem_upto_law [of v "2 * b"] getitem_from_law [of v "2 * b"] dv(3) rot by simp_all
    moreover have "t_unsqueeze T c (-2) = Some (unsqueezed c)" "t_unsqueeze T s (-2) = Some (unsqueezed s)"
      using holdsD(3) [OF c] holdsD(3) [OF s] by (simp_all add: unsqueeze_law)
    moreover have "t_to T (unsqueezed c) Float16 h = Some (unsqueezed c, h)" "t_to T (unsqueezed s) Float16 h = Some (unsqueezed s, h)"
      using holdsD(2) [OF cu] holdsD(2) [OF su] by (simp_all add: to_law)
    moreover have "t_cat T [sub, add] (-1) h6 = Some (cat, h7)"
      using cat by (simp add: cat_law holdsD [OF hs] holdsD [OF ha])
    moreover have "t_cat T [cat, ?pass] (-1) h7 = Some (cat1, h8)"
      using cat1 by (simp add: cat_law holdsD [OF fresh_holds [OF fc]] holdsD [OF hp])
    moreover have "t_reshape T cat1 (sizes x) h8 = Some (?y, h8)"
      using wh holdsD(3,6) [OF fresh_holds [OF f1]] holdsD(3) [OF x]
      by (simp add: reshape_law whole_contiguous mult.assoc)
    ultimately show ?thesis
      using v(1) q1 q2 by (simp add: nrope_frag_def Let_def)
  qed
  have "fresh h ?y h8 Float16 [n, a * (2 * b)] (nrope V n a b xs cs)"
    using fl reshaped_holds [OF wh fresh_holds [OF f1], of "[n, a * (2 * b)]"]
      whole_with_shape [OF wh, of "[n, a * (2 * b)]"] holdsD(6) [OF fresh_holds [OF f1]]
    by (simp add: fresh_def holds_def mult.assoc)
  with run show thesis by (rule that)
qed

end

subsection \<open>Embedding, projections, and the rest of a layer\<close>

definition nembed_frag ::
  "('a, 'k) torch \<Rightarrow> ('a, 'k) native_ops \<Rightarrow> rat \<Rightarrow> tensor \<Rightarrow> tensor \<Rightarrow> tensor \<Rightarrow> ('a, 'k) store \<Rightarrow>
   ((tensor \<times> tensor) \<times> ('a, 'k) store) option" where
  "nembed_frag T N e ids emb iln h = do {
  (long, h) \<leftarrow> t_long T ids h;
  (embedding, h) \<leftarrow> t_embedding T long emb h;
  (to, h) \<leftarrow> t_to T embedding Float32 h;
  (x, h) \<leftarrow> norm_frag T N e to iln h;
  Some ((x, embedding), h)}"

definition nproj_frag ::
  "('a, 'k) torch \<Rightarrow> ('a, 'k) native_ops \<Rightarrow> model_dims \<Rightarrow> (tensor \<times> tensor) option \<Rightarrow> tensor \<Rightarrow> tensor \<Rightarrow>
   tensor \<Rightarrow> tensor \<Rightarrow> nat \<Rightarrow> ('a, 'k) store \<Rightarrow> ((tensor \<times> tensor \<times> tensor \<times> tensor) \<times> ('a, 'k) store) option" where
  "nproj_frag T N D hw x w ps cache s72 h = do {
  (linear, h) \<leftarrow> t_linear T x w None h;
  split \<leftarrow> t_split T linear [d_q D, d_kv D, d_kv D] (-1);
  q \<leftarrow> py_nth split 0;
  k \<leftarrow> py_nth split 1;
  v \<leftarrow> py_nth split 2;
  (q, h) \<leftarrow> hnorm_frag T N (d_eps D) s72 (d_nq D) (d_hd D) (map_option fst hw) q h;
  (k, h) \<leftarrow> hnorm_frag T N (d_eps D) s72 (d_nkv D) (d_hd D) (map_option snd hw) k h;
  (flatten, h) \<leftarrow> t_flatten T ps h;
  (index_select, h) \<leftarrow> t_index_select T cache 0 flatten h;
  chunk \<leftarrow> t_chunk T index_select 2 (-1);
  cos \<leftarrow> py_nth chunk 0;
  sin \<leftarrow> py_nth chunk 1;
  (qr, h) \<leftarrow> nrope_frag T s72 (d_hd D) q cos sin h;
  (kr, h) \<leftarrow> nrope_frag T s72 (d_hd D) k cos sin h;
  (empty, h) \<leftarrow> t_empty T [s72, d_q D] Float16 (''cuda'', 0) h;
  view_2 \<leftarrow> t_view T qr [-1, int (d_nq D), int (d_hd D)];
  view_3 \<leftarrow> t_view T empty [-1, int (d_nq D), int (d_hd D)];
  view_4 \<leftarrow> t_view T kr [-1, int (d_nkv D), int (d_hd D)];
  view_5 \<leftarrow> t_view T v [-1, int (d_nkv D), int (d_hd D)];
  Some ((view_2, view_4, view_5, view_3), h)}"

definition nafter_frag ::
  "('a, 'k) torch \<Rightarrow> ('a, 'k) native_ops \<Rightarrow> model_dims \<Rightarrow> tensor \<Rightarrow> tensor \<Rightarrow> tensor \<Rightarrow> tensor \<Rightarrow> tensor \<Rightarrow> tensor \<Rightarrow>
   tensor \<Rightarrow> ('a, 'k) store \<Rightarrow> ((tensor \<times> tensor) \<times> ('a, 'k) store) option" where
  "nafter_frag T N D out ow pln res guw dw nw h = do {
  view \<leftarrow> t_view T out [-1, int (d_q D)];
  (linear, h) \<leftarrow> t_linear T view ow None h;
  (to, h) \<leftarrow> t_to T linear Float32 h;
  (add, h) \<leftarrow> t_add T to res h;
  (to_1, h) \<leftarrow> t_to T add Float16 h;
  (mul_1, h) \<leftarrow> norm_frag T N (d_eps D) add pln h;
  (linear_1, h) \<leftarrow> t_linear T mul_1 guw None h;
  getitem \<leftarrow> t_getitem_last T linear_1 None (Some (d_inter D));
  (silu, h) \<leftarrow> t_silu N getitem h;
  getitem_1 \<leftarrow> t_getitem_last T linear_1 (Some (d_inter D)) None;
  (mul_2, h) \<leftarrow> t_mul T silu getitem_1 h;
  (linear_2, h) \<leftarrow> t_linear T mul_2 dw None h;
  (to_3, h) \<leftarrow> t_to T linear_2 Float32 h;
  (add_2, h) \<leftarrow> t_add T to_3 to_1 h;
  (to_4, h) \<leftarrow> t_to T add_2 Float16 h;
  (mul_4, h) \<leftarrow> norm_frag T N (d_eps D) add_2 nw h;
  Some ((mul_4, to_4), h)}"

lemma gather_fresh:
  assumes x: "holds h ids dti [n] is" and t: "holds h w dt [m, d] ts" and r: "ids_in_range V h ids m"
    and z: "gather_rows V w ids d h = (z, h')"
  shows "fresh h z h' dt [n, d] (nrows V n d is ts)"
proof -
  note dx = holdsD [OF x] and dt = holdsD [OF t]
  let ?vs = "tabulate [n, d] (\<lambda>ix. rd h w [nat (v_int V (rd h ids (butlast ix))), last ix])"
  have "?vs = nrows V n d is ts"
    unfolding nrows_def
  proof (rule tabulate_cong)
    fix ix assume "idx_ok [n, d] ix"
    then obtain i j where ix: "ix = [i, j]" "i < n" "j < d" by (auto simp: idx_ok2)
    have "0 \<le> v_int V (is ! i) \<and> v_int V (is ! i) < int m"
      using r [unfolded ids_in_range_def, rule_format, of "[i]"] dx(3) dx(7) [of "[i]"] ix by simp
    then show "rd h w [nat (v_int V (rd h ids (butlast ix))), last ix] =
        ts ! (nat (v_int V (is ! (ix ! 0))) * d + ix ! 1)"
      using dx(7) [of "[i]"] dt(7) [of "[nat (v_int V (is ! i)), j]"] ix by (simp add: nat_less_iff)
  qed
  moreover have "fresh h (new_t h dt [n, d]) (alloc h ?vs) dt [n, d] ?vs" by (rule fresh_alloc) simp
  ultimately show ?thesis
    using z dx dt by (simp add: gather_rows_def)
qed

context native_api
begin

lemma linear_ok:
  assumes x: "holds h x Float16 [n, k] xs" and w: "holds h w Float16 [m, k] ws"
  obtains z h' where "t_linear T x w None h = Some (z, h')"
    "fresh h z h' Float16 [n, m] (v_linear V ([n, k], xs) ([m, k], ws) None)"
  by (rule that [OF _ fresh_alloc])
     (use linear_law [of h x w n k m None] holdsD [OF x] holdsD [OF w] holds_length [OF x] holds_length [OF w] in simp_all)

lemma residual_ok:
  assumes x: "holds h x Float16 sz xs" and r: "holds h r Float16 sz rs"
  obtains c h1 z h2 where "t_to T x Float32 h = Some (c, h1)" "t_add T c r h1 = Some (z, h2)"
    "fresh h z h2 Float32 sz (nresidual V W xs rs)"
proof -
  obtain c h1 where c: "t_to T x Float32 h = Some (c, h1)" and c1: "fresh h c h1 Float32 sz (map (w_cast W Float32) xs)"
    by (rule cast_ok [OF x, of Float32]) auto
  note hc = fresh_holds [OF c1] and hr = fresh_keep [OF c1 r]
  obtain z h2 where z: "elementwise (\<lambda>a b. v_add V a (w_cast W Float32 b)) c r h1 = (z, h2)" by fastforce
  have "t_add T c r h1 = Some (z, h2)"
    using z by (simp add: add_promote_law holdsD [OF hc] holdsD [OF hr])
  then show thesis
    by (rule that [OF c])
       (use fresh_later [OF fresh_ext [OF c1] elementwise_fresh [OF hc hr z]] in \<open>simp add: nresidual_def\<close>)
qed

lemma nembed_frag_ok:
  assumes ids: "valid h ids" "dtype ids = Int32" "sizes ids = [n]" "ids_in_range V h ids m"
    and emb: "holds h emb Float16 [m, d] es" and w: "holds h iln Float16 [d] ws"
  defines "r \<equiv> nrows V n d (tvals h ids) es"
  obtains x e h' where "nembed_frag T N c ids emb iln h = Some ((x, e), h')" "ext h h'"
    "holds h' x Float16 [n, d] (nrms V W c [n, d] (map (w_cast W Float32) r) ws)" "holds h' e Float16 [n, d] r"
proof -
  let ?L = "map (v_long V) (tvals h ids)"
  define l where "l = new_t h Int64 [n]"
  define h1 where "h1 = alloc h ?L"
  have fl: "fresh h l h1 Int64 [n] ?L"
    using fresh_alloc [of ?L "[n]" h Int64] ids(3) by (simp add: l_def h1_def numel_def)
  note hl = fresh_holds [OF fl]
  have "ids_in_range V h1 l m"
    unfolding ids_in_range_def
  proof (intro allI impI)
    fix ix assume "idx_ok (sizes l) ix"
    then obtain i where ix: "ix = [i]" "i < n" using holdsD(3) [OF hl] by (auto simp: idx_ok_Cons_iff)
    have "rd h ids [i] = tvals h ids ! i" using rd_eq_nth_tvals [of ids "[i]" h] ids(3) ix by simp
    then show "0 \<le> v_int V (rd h1 l ix) \<and> v_int V (rd h1 l ix) < int m"
      using ids(4) [unfolded ids_in_range_def, rule_format, of "[i]"] ids(3) holdsD(7) [OF hl, of ix] ix
      by (simp add: numel_def)
  qed
  note rng = this
  obtain e h2 where e: "gather_rows V emb l d h1 = (e, h2)" by fastforce
  note fe = gather_fresh [OF hl fresh_keep [OF fl emb] rng e]
  have "nrows V n d ?L es = r"
    unfolding r_def nrows_def using ids(3) by (intro tabulate_cong) (auto simp: idx_ok2 numel_def)
  note fe = fe [unfolded this]
  obtain t h3 where t: "t_to T e Float32 h2 = Some (t, h3)" and ft: "fresh h2 t h3 Float32 [n, d] (map (w_cast W Float32) r)"
    by (rule cast_ok [OF fresh_holds [OF fe], of Float32]) auto
  have e3: "ext h h3" using fresh_ext [OF fl] fresh_ext [OF fe] fresh_ext [OF ft] by (blast intro: ext_trans)
  obtain x h4 where x: "norm_frag T N c t iln h3 = Some (x, h4)"
    and fx: "fresh h3 x h4 Float16 ([n] @ [d]) (nrms V W c ([n] @ [d]) (map (w_cast W Float32) r) ws)"
    by (rule norm_frag_ok [where ds = "[n]" and d = d, OF _ _ ext_keep [OF e3 w]]) (use fresh_holds [OF ft] in auto)
  show thesis
  proof (rule that)
    show "nembed_frag T N c ids emb iln h = Some ((x, e), h4)"
      using long_law [OF ids(1,2)] embedding_law [of h1 l emb m d] ids(3) rng e t x
        holdsD [OF hl] holdsD [OF fresh_keep [OF fl emb]]
      by (simp add: nembed_frag_def l_def [symmetric] h1_def [symmetric])
    show "ext h h4" using e3 fresh_ext [OF fx] by (blast intro: ext_trans)
    show "holds h4 x Float16 [n, d] (nrms V W c [n, d] (map (w_cast W Float32) r) ws)"
      using fresh_holds [OF fx] by simp
    show "holds h4 e Float16 [n, d] r"
      using fresh_keep [OF fx fresh_keep [OF ft fresh_holds [OF fe]]] .
  qed
qed

end

lemma infer_heads: "0 < a \<Longrightarrow> 0 < b \<Longrightarrow> infer [-1, int a, int b] (n * (a * b)) = Some [n, a, b]"
  by (simp add: infer_def Let_def)

lemma infer_flat: "0 < b \<Longrightarrow> infer [-1, int b] (n * b) = Some [n, b]"
  by (simp add: infer_def Let_def)

context native_api
begin

text \<open>What the projections of a piece leave behind: the inputs of the next attention.\<close>

definition qkv_done ::
  "model_dims \<Rightarrow> nat \<Rightarrow> ('a, 'k) store \<Rightarrow> 'a list \<Rightarrow> 'a list \<Rightarrow> 'a list \<Rightarrow> tensor \<times> tensor \<times> tensor \<times> tensor \<Rightarrow> ('a, 'k) store \<Rightarrow> bool" where
  "qkv_done D n h qs ks vs = (\<lambda>(q, k, v, out) h'. ext h h' \<and>
     holds h' q Float16 [n, d_nq D, d_hd D] qs \<and> holds h' k Float16 [n, d_nkv D, d_hd D] ks \<and>
     holds h' v Float16 [n, d_nkv D, d_hd D] vs \<and>
     whole h' out \<and> sizes out = [n, d_nq D, d_hd D] \<and> dtype out = Float16 \<and> nxt h \<le> base out \<and>
     base out \<notin> {base q, base k, base v})"

lemma nproj_frag_ok:
  assumes pos: "0 < n" "dims_ok D"
    and x: "holds h x Float16 [n, d_hid D] xs" and w: "holds h w Float16 [d_tot D, d_hid D] (nv_qkv lv)"
    and hw: "\<And>a b. hw = Some (a, b) \<Longrightarrow> holds h a Float16 [d_hd D] (tvals h a) \<and> holds h b Float16 [d_hd D] (tvals h b)"
    and hv: "nv_heads lv = map_option (\<lambda>(a, b). (tvals h a, tvals h b)) hw"
    and ps: "holds h ps Int64 [n] pv" "ids_in_range V h ps m" and cache: "holds h cache Float16 [m, d_hd D] ct"
  defines "y \<equiv> nproj V D n (nv_qkv lv) xs" and "cs \<equiv> nrows V n (d_hd D) pv ct"
  obtains st h' where "nproj_frag T N D hw x w ps cache n h = Some (st, h')"
    "qkv_done D n h (nquery V W D n lv cs y) (nkey V W D n lv cs y) (nvalue D n y) st h'"
proof -
  have dp: "0 < d_nq D" "0 < d_nkv D" "0 < d_hd D" "0 < d_half D" using pos(2) by (auto simp: dims_ok_def d_hd_def)
  have tot: "d_tot D = d_q D + (d_kv D + d_kv D)" by (simp add: d_tot_def)
  obtain l h1 where l: "t_linear T x w None h = Some (l, h1)" and fl: "fresh h l h1 Float16 [n, d_tot D] y"
    by (rule linear_ok [OF x w]) (simp add: y_def nproj_def)
  note hl = fresh_holds [OF fl] and sl = fresh_strides [OF fl] and e1 = fresh_ext [OF fl]
  let ?q = "slice_last l 0 (d_q D)" and ?k = "slice_last l (d_q D) (d_kv D)" and ?v = "slice_last l (d_q D + d_kv D) (d_kv D)"
  have split: "t_split T l [d_q D, d_kv D, d_kv D] (-1) = Some [?q, ?k, ?v]"
    using split_law [of l "[d_q D, d_kv D, d_kv D]"] holdsD(3) [OF hl] tot by (simp add: add.assoc)
  have q: "holds h1 ?q Float16 [n, d_nq D * d_hd D] (cols n (d_tot D) 0 (d_q D) y)" "strides ?q = [d_tot D, 1]"
    using slice2_holds [OF hl sl, of 0 "d_q D"] tot by (simp_all add: d_q_def)
  have k: "holds h1 ?k Float16 [n, d_nkv D * d_hd D] (cols n (d_tot D) (d_q D) (d_kv D) y)" "strides ?k = [d_tot D, 1]"
    using slice2_holds [OF hl sl, of "d_q D" "d_kv D"] tot by (simp_all add: d_kv_def)
  have v: "holds h1 ?v Float16 [n, d_nkv D * d_hd D] (nvalue D n y)" "strides ?v = [d_tot D, 1]"
    using slice2_holds [OF hl sl, of "d_q D + d_kv D" "d_kv D"] tot by (simp_all add: d_kv_def nvalue_def)
  obtain q1 h2 sq where q1: "hnorm_frag T N (d_eps D) n (d_nq D) (d_hd D) (map_option fst hw) ?q h1 = Some (q1, h2)" "ext h1 h2"
    "strides q1 = [sq, 1]" "holds h2 q1 Float16 [n, d_nq D * d_hd D] (hnorm V W (d_eps D) [n, d_nq D, d_hd D]
       (map_option (tvals h) (map_option fst hw)) (cols n (d_tot D) 0 (d_q D) y))"
    by (rule hnorm_frag_ok [OF q, where ws = "tvals h" and w = "map_option fst hw" and e = "d_eps D"])
       (use hw ext_keep [OF e1] in auto)
  note e2 = ext_trans [OF e1 q1(2)]
  obtain k1 h3 sk where k1: "hnorm_frag T N (d_eps D) n (d_nkv D) (d_hd D) (map_option snd hw) ?k h2 = Some (k1, h3)" "ext h2 h3"
    "strides k1 = [sk, 1]" "holds h3 k1 Float16 [n, d_nkv D * d_hd D] (hnorm V W (d_eps D) [n, d_nkv D, d_hd D]
       (map_option (tvals h) (map_option snd hw)) (cols n (d_tot D) (d_q D) (d_kv D) y))"
    by (rule hnorm_frag_ok [OF ext_keep [OF q1(2) k(1)] k(2), where ws = "tvals h" and w = "map_option snd hw" and e = "d_eps D"])
       (use hw ext_keep [OF e2] in auto)
  note e3 = ext_trans [OF e2 k1(2)]
  note p3 = ext_keep [OF e3 ps(1)] and c3 = ext_keep [OF e3 cache]
  have rng: "ids_in_range V h3 ps m"
    using ps(2) frame_emptyD(3) [OF e3 [unfolded ext_def, THEN conjunct1] valid_base [OF holdsD(1) [OF ps(1)]]]
    by (simp add: ids_in_range_def)
  obtain t h4 where t: "gather_rows V cache ps (d_hd D) h3 = (t, h4)" by fastforce
  note ft = gather_fresh [OF p3 c3 rng t, folded cs_def]
  note ht = fresh_holds [OF ft] and st = fresh_strides [OF ft]
  let ?c = "slice_last t 0 (d_half D)" and ?s = "slice_last t (d_half D) (d_half D)"
  note c = slice2_holds [OF ht st, of 0 "d_half D"] and s = slice2_holds [OF ht st, of "d_half D" "d_half D"]
  have hd: "d_hd D = 2 * d_half D" by (simp add: d_hd_def)
  obtain qr h5 where qr: "nrope_frag T n (2 * d_half D) q1 ?c ?s h4 = Some (qr, h5)"
    and fq: "fresh h4 qr h5 Float16 [n, d_nq D * (2 * d_half D)] (nquery V W D n lv cs y)"
    by (rule nrope_frag_ok [OF pos(1) dp(4) fresh_keep [OF ft ext_keep [OF k1(2) q1(4) [unfolded hd]]] q1(3), of ?c cs ?s])
       (use c s hv in \<open>auto simp: hd nquery_def option.map_comp comp_def split_def\<close>)
  note k5 = fresh_keep [OF fq]
  obtain kr h6 where kr: "nrope_frag T n (2 * d_half D) k1 ?c ?s h5 = Some (kr, h6)"
    and fk: "fresh h5 kr h6 Float16 [n, d_nkv D * (2 * d_half D)] (nkey V W D n lv cs y)"
    by (rule nrope_frag_ok [OF pos(1) dp(4) k5 [OF fresh_keep [OF ft k1(4) [unfolded hd]]] k1(3), of ?c cs ?s])
       (use k5 [OF c(1)] k5 [OF s(1)] hv in \<open>auto simp: hd nkey_def option.map_comp comp_def split_def\<close>)
  define em where "em = new_t h6 Float16 [n, d_q D]"
  define h7 where "h7 = alloc h6 (v_uninit V h6 (n * d_q D))"
  have fe: "fresh h6 em h7 Float16 [n, d_q D] (v_uninit V h6 (n * d_q D))"
    unfolding em_def h7_def by (rule fresh_alloc) simp
  have e6: "ext h h6" using e3 fresh_ext [OF ft] fresh_ext [OF fq] fresh_ext [OF fk] by (blast intro: ext_trans)
  have e7: "ext h h7" using e6 fresh_ext [OF fe] by (rule ext_trans)
  have wq: "whole h7 qr" "whole h7 kr" "whole h7 em"
    using fq fk fe by (auto simp: fresh_def ext_def frame_emptyD)
  obtain vq where vq: "t_view T qr [-1, int (d_nq D), int (d_hd D)] = Some vq" "holds h7 vq Float16 [n, d_nq D, d_hd D] (nquery V W D n lv cs y)" "base vq = base qr"
    by (rule view_whole_ok [OF wq(1) fresh_keep [OF fe fresh_keep [OF fk fresh_holds [OF fq]]], of "[-1, int (d_nq D), int (d_hd D)]" "[n, d_nq D, d_hd D]"])
       (use infer_heads [OF dp(1,3)] in \<open>simp_all add: hd\<close>)
  obtain ve where ve: "t_view T em [-1, int (d_nq D), int (d_hd D)] = Some ve" "whole h7 ve" "holds h7 ve Float16 [n, d_nq D, d_hd D] (v_uninit V h6 (n * d_q D))" "base ve = base em"
    by (rule view_whole_ok [OF wq(3) fresh_holds [OF fe], of "[-1, int (d_nq D), int (d_hd D)]" "[n, d_nq D, d_hd D]"])
       (use infer_heads [OF dp(1,3)] in \<open>simp_all add: d_q_def\<close>)
  obtain vk where vk: "t_view T kr [-1, int (d_nkv D), int (d_hd D)] = Some vk" "holds h7 vk Float16 [n, d_nkv D, d_hd D] (nkey V W D n lv cs y)" "base vk = base kr"
    by (rule view_whole_ok [OF wq(2) fresh_keep [OF fe fresh_holds [OF fk]], of "[-1, int (d_nkv D), int (d_hd D)]" "[n, d_nkv D, d_hd D]"])
       (use infer_heads [OF dp(2,3)] in \<open>simp_all add: hd\<close>)
  have e17: "ext h1 h7" using q1(2) k1(2) fresh_ext [OF ft] fresh_ext [OF fq] fresh_ext [OF fk] fresh_ext [OF fe] by (blast intro: ext_trans)
  obtain vv where vv: "t_view T ?v [-1, int (d_nkv D), int (d_hd D)] = Some vv" "holds h7 vv Float16 [n, d_nkv D, d_hd D] (nvalue D n y)" "base vv = base ?v"
    by (rule view3_ok [OF ext_keep [OF e17 v(1)] v(2) infer_heads [OF dp(2,3)]])
  have chunk: "t_chunk T t 2 (-1) = Some [?c, ?s]"
    using chunk_law [of t 2 "d_half D"] holdsD(3) [OF ht] dp by (simp add: numeral_2_eq_2 d_hd_def)
  have run: "nproj_frag T N D hw x w ps cache n h = Some ((vq, vk, vv, ve), h7)"
    using l split q1(1) k1(1) t chunk qr kr vq(1) ve(1) vk(1) vv(1) rng
      flatten_law [OF holdsD(3) [OF p3]] index_select_law [of h3 ps cache n m "d_hd D"]
      holdsD [OF p3] holdsD [OF c3] empty_law [of "[n, d_q D]" Float16 "(''cuda'', 0)" h6]
    by (simp add: nproj_frag_def hd em_def [symmetric] h7_def [symmetric])
  have e16: "ext h1 h6" using q1(2) k1(2) fresh_ext [OF ft] fresh_ext [OF fq] fresh_ext [OF fk] by (blast intro: ext_trans)
  have "base qr < nxt h6" "base kr < nxt h6" "base l < nxt h6"
    using fresh_keep [OF fk fresh_holds [OF fq]] fresh_holds [OF fk] ext_keep [OF e16 hl]
    by (auto dest!: holdsD(1) valid_base)
  then have "qkv_done D n h (nquery V W D n lv cs y) (nkey V W D n lv cs y) (nvalue D n y) (vq, vk, vv, ve) h7"
    using e7 vq vk vv ve e6 holdsD [OF ve(3)] frame_nxt [of "{}" h h6]
    by (auto simp: qkv_done_def ext_def em_def slice_last_def)
  with run show thesis by (rule that)
qed

end

context native_api
begin

lemma nafter_frag_ok:
  assumes D: "dims_ok D"
    and out: "whole h out" "holds h out Float16 [n, d_nq D, d_hd D] a"
    and res: "holds h res Float16 [n, d_hid D] r"
    and w: "holds h ow Float16 [d_hid D, d_q D] (nv_o lv)" "holds h pln Float16 [d_hid D] (nv_ln2 lv)"
      "holds h guw Float16 [2 * d_inter D, d_hid D] (nv_gate_up lv)" "holds h dw Float16 [d_hid D, d_inter D] (nv_down lv)"
    and nw: "holds h nw Float16 [d_hid D] ws"
  obtains x r' h' where "nafter_frag T N D out ow pln res guw dw nw h = Some ((x, r'), h')" "ext h h'"
    "holds h' x Float16 [n, d_hid D] (nrms V W (d_eps D) [n, d_hid D] (fst (nafter V W D n lv a r)) ws)"
    "holds h' r' Float16 [n, d_hid D] (snd (nafter V W D n lv a r))"
proof -
  have dp: "0 < d_q D" using D by (auto simp: dims_ok_def d_hd_def d_q_def)
  obtain v where v: "t_view T out [-1, int (d_q D)] = Some v" "holds h v Float16 [n, d_q D] a"
    by (rule view_whole_ok [OF out, of "[-1, int (d_q D)]" "[n, d_q D]"])
       (use infer_flat [OF dp, of n] in \<open>simp_all add: d_q_def\<close>)
  let ?L = "v_linear V ([n, d_q D], a) ([d_hid D, d_q D], nv_o lv) None"
  define s1 where "s1 = nresidual V W ?L r"
  obtain l h1 where l: "t_linear T v ow None h = Some (l, h1)" and fl: "fresh h l h1 Float16 [n, d_hid D] ?L"
    by (rule linear_ok [OF v(2) w(1)])
  note k1 = ext_keep [OF fresh_ext [OF fl]]
  obtain c h2 s h3 where c: "t_to T l Float32 h1 = Some (c, h2)" "t_add T c res h2 = Some (s, h3)"
    and fs: "fresh h1 s h3 Float32 [n, d_hid D] s1"
    by (rule residual_ok [OF fresh_holds [OF fl] k1 [OF res]]) (simp add: s1_def)
  obtain t h4 where t: "t_to T s Float16 h3 = Some (t, h4)" and ft: "fresh h3 t h4 Float16 [n, d_hid D] (map (w_cast W Float16) s1)"
    by (rule cast_ok [OF fresh_holds [OF fs], of Float16]) auto
  have e4: "ext h h4" using fresh_ext [OF fl] fresh_ext [OF fs] fresh_ext [OF ft] by (blast intro: ext_trans)
  obtain y h5 where y: "norm_frag T N (d_eps D) s pln h4 = Some (y, h5)"
    and fy: "fresh h4 y h5 Float16 ([n] @ [d_hid D]) (nrms V W (d_eps D) ([n] @ [d_hid D]) s1 (nv_ln2 lv))"
    by (rule norm_frag_ok [where ds = "[n]" and d = "d_hid D", OF _ _ ext_keep [OF e4 w(2)]])
       (use fresh_keep [OF ft fresh_holds [OF fs]] in auto)
  note fy = fy [simplified]
  have e5: "ext h h5" using e4 fresh_ext [OF fy] by (rule ext_trans)
  let ?Y = "nrms V W (d_eps D) [n, d_hid D] s1 (nv_ln2 lv)"
  let ?G = "v_linear V ([n, d_hid D], ?Y) ([2 * d_inter D, d_hid D], nv_gate_up lv) None"
  obtain g h6 where g: "t_linear T y guw None h5 = Some (g, h6)" and fg: "fresh h5 g h6 Float16 [n, 2 * d_inter D] ?G"
    by (rule linear_ok [OF fresh_holds [OF fy] ext_keep [OF e5 w(3)]])
  note hg = fresh_holds [OF fg] and sg = fresh_strides [OF fg]
  note g1 = slice2_holds(1) [OF hg sg, of 0 "d_inter D"] and g2 = slice2_holds(1) [OF hg sg, of "d_inter D" "d_inter D"]
  let ?g1 = "slice_last g 0 (d_inter D)" and ?g2 = "slice_last g (d_inter D) (d_inter D)"
  have gi: "t_getitem_last T g None (Some (d_inter D)) = Some ?g1" "t_getitem_last T g (Some (d_inter D)) None = Some ?g2"
    using getitem_upto_law [of g "d_inter D"] getitem_from_law [of g "d_inter D"] holdsD(3) [OF hg] by simp_all
  obtain z h7 where z: "mapped (w_silu W) Float16 ?g1 h6 = (z, h7)"
    and fz: "fresh h6 z h7 Float16 [n, d_inter D] (map (w_silu W) (cols n (2 * d_inter D) 0 (d_inter D) ?G))"
    by (rule mapped_ok [OF g1]) auto
  have z': "t_silu N ?g1 h6 = Some (z, h7)"
    using z silu_law [of h6 ?g1] holdsD(1,2) [OF g1] by simp
  obtain m h8 where m: "t_mul T z ?g2 h7 = Some (m, h8)"
    and fm: "fresh h7 m h8 Float16 [n, d_inter D] (map2 (v_mul V) (map (w_silu W) (cols n (2 * d_inter D) 0 (d_inter D) ?G)) (cols n (2 * d_inter D) (d_inter D) (d_inter D) ?G))"
    by (rule mul_same_ok [OF fresh_holds [OF fz] fresh_keep [OF fz g2]]) auto
  have e8: "ext h h8" using e5 fresh_ext [OF fg] fresh_ext [OF fz] fresh_ext [OF fm] by (blast intro: ext_trans)
  obtain l2 h9 where l2: "t_linear T m dw None h8 = Some (l2, h9)"
    and fl2: "fresh h8 l2 h9 Float16 [n, d_hid D] (nmlp V W D n lv ?Y)"
    by (rule linear_ok [OF fresh_holds [OF fm] ext_keep [OF e8 w(4)]]) (simp add: nmlp_def Let_def)
  have e49: "ext h4 h9" using fresh_ext [OF fy] fresh_ext [OF fg] fresh_ext [OF fz] fresh_ext [OF fm] fresh_ext [OF fl2] by (blast intro: ext_trans)
  define s2 where "s2 = nresidual V W (nmlp V W D n lv ?Y) (map (w_cast W Float16) s1)"
  obtain c2 h10 s' h11 where c2: "t_to T l2 Float32 h9 = Some (c2, h10)" "t_add T c2 t h10 = Some (s', h11)"
    and fs2: "fresh h9 s' h11 Float32 [n, d_hid D] s2"
    by (rule residual_ok [OF fresh_holds [OF fl2] ext_keep [OF e49 fresh_holds [OF ft]]]) (simp add: s2_def)
  obtain t2 h12 where t2: "t_to T s' Float16 h11 = Some (t2, h12)" and ft2: "fresh h11 t2 h12 Float16 [n, d_hid D] (map (w_cast W Float16) s2)"
    by (rule cast_ok [OF fresh_holds [OF fs2], of Float16]) auto
  have e12: "ext h h12" using e4 e49 fresh_ext [OF fs2] fresh_ext [OF ft2] by (blast intro: ext_trans)
  obtain x h13 where x: "norm_frag T N (d_eps D) s' nw h12 = Some (x, h13)"
    and fx: "fresh h12 x h13 Float16 ([n] @ [d_hid D]) (nrms V W (d_eps D) ([n] @ [d_hid D]) s2 ws)"
    by (rule norm_frag_ok [where ds = "[n]" and d = "d_hid D", OF _ _ ext_keep [OF e12 nw]])
       (use fresh_keep [OF ft2 fresh_holds [OF fs2]] in auto)
  note fx = fx [simplified]
  have eq: "nafter V W D n lv a r = (s2, map (w_cast W Float16) s2)"
    by (simp add: nafter_def Let_def s1_def s2_def)
  show thesis
  proof (rule that)
    show "nafter_frag T N D out ow pln res guw dw nw h = Some ((x, t2), h13)"
      using v(1) l c t y g gi z' m l2 c2 t2 x by (simp add: nafter_frag_def)
    show "ext h h13" using e12 fresh_ext [OF fx] by (rule ext_trans)
    show "holds h13 x Float16 [n, d_hid D] (nrms V W (d_eps D) [n, d_hid D] (fst (nafter V W D n lv a r)) ws)"
      using fresh_holds [OF fx] by (simp add: eq)
    show "holds h13 t2 Float16 [n, d_hid D] (snd (nafter V W D n lv a r))"
      using fresh_keep [OF fx fresh_holds [OF ft2]] by (simp add: eq)
  qed
qed

end

end
