(* ===== verification/Native_Piecewise.thy ===== *)
theory Native_Piecewise
  imports Native_Frag
begin

text \<open>
  The contract of the pieces of a llama or qwen graph and the proof, once for both, that
  pieces which keep it compose to the decoder. A piece takes the weights of the layers it
  belongs to as one argument of any type \<open>'p\<close>; \<open>pok\<close> says what they must be and \<open>pvals\<close> reads
  them.
\<close>

definition npositions_ok :: "('a, 'k) kernels \<Rightarrow> model_dims \<Rightarrow> ('a, 'k) store \<Rightarrow> nat \<Rightarrow> tensor \<Rightarrow> tensor \<Rightarrow> bool" where
  "npositions_ok V D h n ps cache \<longleftrightarrow>
     valid h ps \<and> dtype ps = Int64 \<and> sizes ps = [n] \<and> ids_in_range V h ps (d_maxpos D) \<and>
     weight_ok h cache [d_maxpos D, d_hd D]"

definition native_inputs_ok ::
  "('a, 'k) kernels \<Rightarrow> model_dims \<Rightarrow> (('a, 'k) store \<Rightarrow> 'p \<Rightarrow> bool) \<Rightarrow> ('a, 'k) store \<Rightarrow> nat \<Rightarrow> tensor \<Rightarrow> tensor \<Rightarrow>
   (nat \<Rightarrow> 'p) \<Rightarrow> tensor \<Rightarrow> tensor \<Rightarrow> tensor \<Rightarrow> bool" where
  "native_inputs_ok V D pok h n ids emb L ps cache nw \<longleftrightarrow>
     0 < n \<and> valid h ids \<and> dtype ids = Int32 \<and> sizes ids = [n] \<and> ids_in_range V h ids (d_vocab D) \<and>
     weight_ok h emb [d_vocab D, d_hid D] \<and> (\<forall>i < d_layers D. pok h (L i)) \<and>
     npositions_ok V D h n ps cache \<and> weight_ok h nw [d_hid D]"

type_synonym native_state = "tensor \<times> tensor \<times> tensor \<times> tensor \<times> tensor"

fun nrun ::
  "(tensor \<Rightarrow> tensor \<Rightarrow> tensor \<Rightarrow> tensor \<Rightarrow> string \<Rightarrow> ('a, 'k) store \<Rightarrow> ('a, 'k) store option) \<Rightarrow>
   ('p \<Rightarrow> 'p \<Rightarrow> tensor \<Rightarrow> nat \<Rightarrow> tensor \<Rightarrow> tensor \<Rightarrow> tensor \<Rightarrow> ('a, 'k) store \<Rightarrow> (native_state \<times> ('a, 'k) store) option) \<Rightarrow>
   nat \<Rightarrow> (nat \<Rightarrow> 'p) \<Rightarrow> tensor \<Rightarrow> tensor \<Rightarrow> nat \<Rightarrow> nat \<Rightarrow> native_state \<Rightarrow> ('a, 'k) store \<Rightarrow>
   (native_state \<times> ('a, 'k) store) option" where
  "nrun attn mid n L ps cache i 0 st h = Some (st, h)"
| "nrun attn mid n L ps cache i (Suc m) st h = (case st of (q, k, v, out, res) \<Rightarrow> do {
     h \<leftarrow> attn q k v out (layer_name i) h;
     (st, h) \<leftarrow> mid (L i) (L (Suc i)) out n res ps cache h;
     nrun attn mid n L ps cache (Suc i) m st h})"

definition nforward ::
  "(tensor \<Rightarrow> tensor \<Rightarrow> tensor \<Rightarrow> tensor \<Rightarrow> string \<Rightarrow> ('a, 'k) store \<Rightarrow> ('a, 'k) store option) \<Rightarrow>
   ('p \<Rightarrow> tensor \<Rightarrow> nat \<Rightarrow> tensor \<Rightarrow> tensor \<Rightarrow> tensor \<Rightarrow> ('a, 'k) store \<Rightarrow> (native_state \<times> ('a, 'k) store) option) \<Rightarrow>
   ('p \<Rightarrow> 'p \<Rightarrow> tensor \<Rightarrow> nat \<Rightarrow> tensor \<Rightarrow> tensor \<Rightarrow> tensor \<Rightarrow> ('a, 'k) store \<Rightarrow> (native_state \<times> ('a, 'k) store) option) \<Rightarrow>
   ('p \<Rightarrow> tensor \<Rightarrow> nat \<Rightarrow> tensor \<Rightarrow> tensor \<Rightarrow> ('a, 'k) store \<Rightarrow> (tensor \<times> ('a, 'k) store) option) \<Rightarrow>
   nat \<Rightarrow> nat \<Rightarrow> tensor \<Rightarrow> tensor \<Rightarrow> (nat \<Rightarrow> 'p) \<Rightarrow> tensor \<Rightarrow> tensor \<Rightarrow> tensor \<Rightarrow> ('a, 'k) store \<Rightarrow>
   (tensor \<times> ('a, 'k) store) option" where
  "nforward attn fst_pc mid lst_pc m n ids emb L ps cache nw h = do {
     (st, h) \<leftarrow> fst_pc (L 0) ids n emb ps cache h;
     ((q, k, v, out, res), h) \<leftarrow> nrun attn mid n L ps cache 0 m st h;
     h \<leftarrow> attn q k v out (layer_name m) h;
     lst_pc (L m) out n res nw h}"

lemma nrun_numeral:
  "nrun attn mid n L ps cache i (numeral w) st h = (case st of (q, k, v, out, res) \<Rightarrow> do {
     h \<leftarrow> attn q k v out (layer_name i) h;
     (st, h) \<leftarrow> mid (L i) (L (Suc i)) out n res ps cache h;
     nrun attn mid n L ps cache (Suc i) (pred_numeral w) st h})"
  by (simp add: numeral_eq_Suc)

context native_api
begin

lemma nattn_ok:
  fixes name :: string
  assumes st: "nat_break V W D n h0 lv cs s r (q, k, v, out, res) h"
  defines "a \<equiv> nattn V W D n cs name lv s (ctx h)"
  obtains h' where "t_unified_attention_with_output T q k v out name h = Some h'" "frame {} h0 h'" "ctx h' = snd a"
    "whole h' out" "holds h' out Float16 [n, d_nq D, d_hd D] (fst a)" "holds h' res Float16 [n, d_hid D] r"
proof -
  note s = st [unfolded nat_break_def Let_def, simplified]
  let ?h = "(put h out (fst a))\<lparr>ctx := snd a\<rparr>"
  define y where "y = nproj V D n (nv_qkv lv) (nrms V W (d_eps D) [n, d_hid D] s (nv_ln1 lv))"
  have hq: "holds h q Float16 [n, d_nq D, d_hd D] (nquery V W D n lv cs y)"
    and hk: "holds h k Float16 [n, d_nkv D, d_hd D] (nkey V W D n lv cs y)"
    and hv: "holds h v Float16 [n, d_nkv D, d_hd D] (nvalue D n y)"
    and hr: "holds h res Float16 [n, d_hid D] r"
    using s by (simp_all add: y_def)
  have a: "a = v_attn V name (ctx h) (tv h q) (tv h k) (tv h v)"
    by (simp add: a_def nattn_def Let_def holdsD(5) [OF hq] holdsD(5) [OF hk] holdsD(5) [OF hv] y_def)
  have len: "length (fst a) = prod_list [n, d_nq D, d_hd D]"
    unfolding a holdsD(5) [OF hq] by (rule attention_length) (rule holds_length [OF hq])
  have run: "t_unified_attention_with_output T q k v out name h = Some ?h"
    using attention_law [of h q k v out name] holdsD [OF hq] holdsD [OF hk] holdsD [OF hv] s
    by (simp add: a)
  have w1: "whole ?h out" using s len by (simp add: whole_def numel_def)
  note w = w1 whole_tvals [OF w1, simplified]
  have fr: "frame {base out} h ?h" "frame {} h0 ?h"
    using s by (auto simp: frame_def)
  have keep: "valid h y \<Longrightarrow> base y \<noteq> base out \<Longrightarrow> valid ?h y \<and> tvals ?h y = tvals h y" for y
    using frame_valid [OF fr(1), of y] frame_tvals [OF fr(1), of y] by (simp add: valid_base)
  have hr': "holds ?h res Float16 [n, d_hid D] r"
    using holdsD(1-4) [OF hr] keep [of res] s by (simp add: holds_def)
  show thesis
    by (rule that [OF run fr(2)]) (use w s hr' in \<open>auto simp: holds_def whole_valid\<close>)
qed

end

locale native_pieces = native_api T V N W
  for T :: "('a, 'k) torch" and V :: "('a, 'k) kernels" and N :: "('a, 'k) native_ops" and W :: "'a native_kernels" +
  fixes D :: model_dims
    and pok :: "('a, 'k) store \<Rightarrow> 'p \<Rightarrow> bool" and pvals :: "('a, 'k) store \<Rightarrow> 'p \<Rightarrow> 'a native_vals"
    and fst_pc :: "'p \<Rightarrow> tensor \<Rightarrow> nat \<Rightarrow> tensor \<Rightarrow> tensor \<Rightarrow> tensor \<Rightarrow> ('a, 'k) store \<Rightarrow> (native_state \<times> ('a, 'k) store) option"
    and mid :: "'p \<Rightarrow> 'p \<Rightarrow> tensor \<Rightarrow> nat \<Rightarrow> tensor \<Rightarrow> tensor \<Rightarrow> tensor \<Rightarrow> ('a, 'k) store \<Rightarrow> (native_state \<times> ('a, 'k) store) option"
    and lst_pc :: "'p \<Rightarrow> tensor \<Rightarrow> nat \<Rightarrow> tensor \<Rightarrow> tensor \<Rightarrow> ('a, 'k) store \<Rightarrow> (tensor \<times> ('a, 'k) store) option"
  assumes dims: "dims_ok D"
  and fst_law:
    "0 < n \<Longrightarrow> valid h ids \<Longrightarrow> dtype ids = Int32 \<Longrightarrow> sizes ids = [n] \<Longrightarrow> ids_in_range V h ids (d_vocab D) \<Longrightarrow>
     weight_ok h emb [d_vocab D, d_hid D] \<Longrightarrow> pok h P \<Longrightarrow> npositions_ok V D h n ps cache \<Longrightarrow>
     r = nrows V n (d_hid D) (tvals h ids) (tvals h emb) \<Longrightarrow>
     \<exists>st h'. fst_pc P ids n emb ps cache h = Some (st, h') \<and> ctx h' = ctx h \<and>
       nat_break V W D n h (pvals h P) (nrows V n (d_hd D) (tvals h ps) (tvals h cache)) (map (w_cast W Float32) r) r st h'"
  and mid_law:
    "0 < n \<Longrightarrow> frame {} h0 h \<Longrightarrow> whole h out \<Longrightarrow> holds h out Float16 [n, d_nq D, d_hd D] a \<Longrightarrow>
     holds h res Float16 [n, d_hid D] r \<Longrightarrow> pok h0 P \<Longrightarrow> pok h0 P' \<Longrightarrow> npositions_ok V D h0 n ps cache \<Longrightarrow>
     nafter V W D n (pvals h0 P) a r = (s', r') \<Longrightarrow>
     \<exists>st h'. mid P P' out n res ps cache h = Some (st, h') \<and> ctx h' = ctx h \<and>
       nat_break V W D n h0 (pvals h0 P') (nrows V n (d_hd D) (tvals h0 ps) (tvals h0 cache)) s' r' st h'"
  and lst_law:
    "0 < n \<Longrightarrow> frame {} h0 h \<Longrightarrow> whole h out \<Longrightarrow> holds h out Float16 [n, d_nq D, d_hd D] a \<Longrightarrow>
     holds h res Float16 [n, d_hid D] r \<Longrightarrow> pok h0 P \<Longrightarrow> weight_ok h0 nw [d_hid D] \<Longrightarrow>
     \<exists>x h'. lst_pc P out n res nw h = Some (x, h') \<and> ctx h' = ctx h \<and> frame {} h0 h' \<and>
       holds h' x Float16 [n, d_hid D] (nrms V W (d_eps D) [n, d_hid D] (fst (nafter V W D n (pvals h0 P) a r)) (tvals h0 nw))"
begin

lemma nrun_ok:
  assumes n: "0 < n" and ps: "npositions_ok V D h0 n ps cache"
    and cs: "cs = nrows V n (d_hd D) (tvals h0 ps) (tvals h0 cache)"
    and "\<forall>j \<le> i + m. pok h0 (L j)"
    and "nat_break V W D n h0 (pvals h0 (L i)) cs s r st h"
    and "fold (\<lambda>j. nlayer V W D n cs (layer_name j) (pvals h0 (L j))) [i..<i + m] ((s, r), ctx h) = ((s', r'), kv')"
  shows "\<exists>st' h'. nrun (t_unified_attention_with_output T) mid n L ps cache i m st h = Some (st', h') \<and>
    nat_break V W D n h0 (pvals h0 (L (i + m))) cs s' r' st' h' \<and> ctx h' = kv'"
  using assms(4-)
proof (induction m arbitrary: i s r st h)
  case 0
  then show ?case by simp
next
  case (Suc m)
  obtain q k v out res where st: "st = (q, k, v, out, res)" by (cases st)
  let ?a = "nattn V W D n cs (layer_name i) (pvals h0 (L i)) s (ctx h)"
  obtain h1 where h1: "t_unified_attention_with_output T q k v out (layer_name i) h = Some h1" "frame {} h0 h1" "ctx h1 = snd ?a"
    "whole h1 out" "holds h1 out Float16 [n, d_nq D, d_hd D] (fst ?a)" "holds h1 res Float16 [n, d_hid D] r"
    by (rule nattn_ok [OF Suc.prems(2) [unfolded st]])
  obtain s1 r1 where sr: "nafter V W D n (pvals h0 (L i)) (fst ?a) r = (s1, r1)" by fastforce
  obtain st' h2 where h2: "mid (L i) (L (Suc i)) out n res ps cache h1 = Some (st', h2)" "ctx h2 = ctx h1"
    "nat_break V W D n h0 (pvals h0 (L (Suc i))) cs s1 r1 st' h2"
    using mid_law [OF n h1(2,4,5,6) _ _ ps sr, of "L (Suc i)"] Suc.prems(1) unfolding cs by auto
  have "[i..<i + Suc m] = i # [Suc i..<Suc i + m]" by (simp add: upt_conv_Cons del: upt_Suc)
  moreover have "nlayer V W D n cs (layer_name i) (pvals h0 (L i)) ((s, r), ctx h) = ((s1, r1), ctx h2)"
    using sr h1(3) h2(2) by (simp add: nlayer_def split_def Let_def)
  ultimately have "fold (\<lambda>j. nlayer V W D n cs (layer_name j) (pvals h0 (L j))) [Suc i..<Suc i + m] ((s1, r1), ctx h2) = ((s', r'), kv')"
    using Suc.prems(3) by simp
  from Suc.IH [OF _ h2(3) this] Suc.prems(1) show ?case
    using h1(1) h2(1) by (simp add: st)
qed

text \<open>Every state on the way: the first piece, then \<open>i\<close> rounds of attention and middle piece.\<close>

lemma nstates_ok:
  assumes ok: "native_inputs_ok V D pok h n ids emb L ps cache nw" and i: "i < d_layers D"
  shows "\<exists>st h1 st' h' s r. fst_pc (L 0) ids n emb ps cache h = Some (st, h1) \<and>
     nrun (t_unified_attention_with_output T) mid n L ps cache 0 i st h1 = Some (st', h') \<and>
     nat_break V W D n h (pvals h (L i)) (nrows V n (d_hd D) (tvals h ps) (tvals h cache)) s r st' h' \<and>
     ((s, r), ctx h') = fold (\<lambda>j. nlayer V W D n (nrows V n (d_hd D) (tvals h ps) (tvals h cache)) (layer_name j) (pvals h (L j)))
       [0..<i] ((map (w_cast W Float32) (nrows V n (d_hid D) (tvals h ids) (tvals h emb)),
                 nrows V n (d_hid D) (tvals h ids) (tvals h emb)), ctx h)"
proof -
  note ok = ok [unfolded native_inputs_ok_def]
  have o: "0 < n" "valid h ids" "dtype ids = Int32" "sizes ids = [n]" "ids_in_range V h ids (d_vocab D)"
    "weight_ok h emb [d_vocab D, d_hid D]" "\<forall>j \<le> i. pok h (L j)" "npositions_ok V D h n ps cache"
    using ok i by auto
  have p0: "pok h (L 0)" using o(7) by auto
  define cs where "cs = nrows V n (d_hd D) (tvals h ps) (tvals h cache)"
  let ?e = "nrows V n (d_hid D) (tvals h ids) (tvals h emb)"
  let ?F = "\<lambda>j. nlayer V W D n cs (layer_name j) (pvals h (L j))"
  obtain st h1 where h1: "fst_pc (L 0) ids n emb ps cache h = Some (st, h1)" "ctx h1 = ctx h"
    "nat_break V W D n h (pvals h (L 0)) cs (map (w_cast W Float32) ?e) ?e st h1"
    using fst_law [OF o(1-6) p0 o(8) refl] unfolding cs_def by blast
  obtain z kv where z: "fold ?F [0..<0 + i] ((map (w_cast W Float32) ?e, ?e), ctx h1) = (z, kv)" by fastforce
  obtain s r where "z = (s, r)" by (cases z)
  note f = z [unfolded this]
  obtain st' h2 where "nrun (t_unified_attention_with_output T) mid n L ps cache 0 i st h1 = Some (st', h2)"
    "nat_break V W D n h (pvals h (L i)) cs s r st' h2" "ctx h2 = kv"
    using nrun_ok [OF o(1,8) cs_def _ h1(3) f] o(7) by auto
  then show ?thesis using h1(1,2) f unfolding cs_def [symmetric] by fastforce
qed

text \<open>Pieces that keep the contract compose to the decoder.\<close>

lemma nforward_ok:
  assumes ok: "native_inputs_ok V D pok h n ids emb L ps cache nw" and m: "d_layers D = Suc m"
  shows "\<exists>x h'. nforward (t_unified_attention_with_output T) fst_pc mid lst_pc m n ids emb L ps cache nw h = Some (x, h') \<and>
     sizes x = [n, d_hid D] \<and> dtype x = Float16 \<and>
     (tvals h' x, ctx h') = native_model V W D n (tvals h ids) (tvals h ps) (tvals h emb) (tvals h cache)
        (\<lambda>i. pvals h (L i)) (tvals h nw) (ctx h) \<and>
     frame {} h h'"
proof -
  have o: "0 < n" "weight_ok h nw [d_hid D]" and pm: "pok h (L m)"
    using ok m by (auto simp: native_inputs_ok_def)
  define cs where "cs = nrows V n (d_hd D) (tvals h ps) (tvals h cache)"
  let ?e = "nrows V n (d_hid D) (tvals h ids) (tvals h emb)"
  let ?F = "\<lambda>j. nlayer V W D n cs (layer_name j) (pvals h (L j))"
  obtain st h1 st' h2 s r where h1: "fst_pc (L 0) ids n emb ps cache h = Some (st, h1)"
    and h2: "nrun (t_unified_attention_with_output T) mid n L ps cache 0 m st h1 = Some (st', h2)"
      "nat_break V W D n h (pvals h (L m)) cs s r st' h2"
    and f: "((s, r), ctx h2) = fold ?F [0..<m] ((map (w_cast W Float32) ?e, ?e), ctx h)"
    using nstates_ok [OF ok, of m] m unfolding cs_def by auto
  obtain q k v out res where st: "st' = (q, k, v, out, res)" by (cases st')
  let ?a = "nattn V W D n cs (layer_name m) (pvals h (L m)) s (ctx h2)"
  obtain h3 where h3: "t_unified_attention_with_output T q k v out (layer_name m) h2 = Some h3" "frame {} h h3" "ctx h3 = snd ?a"
    "whole h3 out" "holds h3 out Float16 [n, d_nq D, d_hd D] (fst ?a)" "holds h3 res Float16 [n, d_hid D] r"
    by (rule nattn_ok [OF h2(2) [unfolded st]])
  obtain s1 r1 where sr: "nafter V W D n (pvals h (L m)) (fst ?a) r = (s1, r1)" by fastforce
  obtain x h4 where x: "lst_pc (L m) out n res nw h3 = Some (x, h4)" "ctx h4 = ctx h3" "frame {} h h4"
    "holds h4 x Float16 [n, d_hid D] (nrms V W (d_eps D) [n, d_hid D] s1 (tvals h nw))"
    using lst_law [OF o(1) h3(2,4,5,6) pm o(2)] sr by auto
  have "fold ?F [0..<d_layers D] ((map (w_cast W Float32) ?e, ?e), ctx h) = ((s1, r1), snd ?a)"
    using f [symmetric] sr m by (simp add: nlayer_def split_def Let_def)
  then have "native_model V W D n (tvals h ids) (tvals h ps) (tvals h emb) (tvals h cache) (\<lambda>i. pvals h (L i)) (tvals h nw) (ctx h) =
      (tvals h4 x, ctx h4)"
    using x(2) h3(3) holdsD(4) [OF x(4)] by (simp add: native_model_def cs_def [symmetric] Let_def)
  then show ?thesis
    using h1 h2(1) st h3(1) x holdsD [OF x(4)] by (simp add: nforward_def)
qed

end

subsection \<open>Pieces made of the shared fragments\<close>

text \<open>The three kinds of pieces, with the sizes and the weights of the head norms as parameters.\<close>

definition gen_first ::
  "('a, 'k) torch \<Rightarrow> ('a, 'k) native_ops \<Rightarrow> model_dims \<Rightarrow> (tensor \<times> tensor) option \<Rightarrow> 'z native_params_scheme \<Rightarrow>
   tensor \<Rightarrow> nat \<Rightarrow> tensor \<Rightarrow> tensor \<Rightarrow> tensor \<Rightarrow> ('a, 'k) store \<Rightarrow> (native_state \<times> ('a, 'k) store) option" where
  "gen_first T N D hw P ids n emb ps cache h = do {
  ((x, e), h) \<leftarrow> nembed_frag T N (d_eps D) ids emb (n_input_layernorm_weight P) h;
  ((q, k, v, out), h) \<leftarrow> nproj_frag T N D hw x (n_qkv_proj_weight P) ps cache n h;
  Some ((q, k, v, out, e), h)}"

definition gen_mid ::
  "('a, 'k) torch \<Rightarrow> ('a, 'k) native_ops \<Rightarrow> model_dims \<Rightarrow> (tensor \<times> tensor) option \<Rightarrow> 'z native_params_scheme \<Rightarrow>
   'z native_params_scheme \<Rightarrow> tensor \<Rightarrow> nat \<Rightarrow> tensor \<Rightarrow> tensor \<Rightarrow> tensor \<Rightarrow> ('a, 'k) store \<Rightarrow>
   (native_state \<times> ('a, 'k) store) option" where
  "gen_mid T N D hw P P' out n res ps cache h = do {
  ((x, r), h) \<leftarrow> nafter_frag T N D out (n_o_proj_weight P) (n_post_attention_layernorm_weight P) res
    (n_gate_up_proj_weight P) (n_down_proj_weight P) (n_input_layernorm_weight P') h;
  ((q, k, v, out), h) \<leftarrow> nproj_frag T N D hw x (n_qkv_proj_weight P') ps cache n h;
  Some ((q, k, v, out, r), h)}"

definition gen_last ::
  "('a, 'k) torch \<Rightarrow> ('a, 'k) native_ops \<Rightarrow> model_dims \<Rightarrow> 'z native_params_scheme \<Rightarrow> tensor \<Rightarrow> nat \<Rightarrow> tensor \<Rightarrow> tensor \<Rightarrow>
   ('a, 'k) store \<Rightarrow> (tensor \<times> ('a, 'k) store) option" where
  "gen_last T N D P out n res nw h = do {
  ((x, r), h) \<leftarrow> nafter_frag T N D out (n_o_proj_weight P) (n_post_attention_layernorm_weight P) res
    (n_gate_up_proj_weight P) (n_down_proj_weight P) nw h;
  Some (x, h)}"

lemma frame_npositions_ok: "frame {} h h' \<Longrightarrow> npositions_ok V D h n ps cache \<Longrightarrow>
   npositions_ok V D h' n ps cache \<and> tvals h' ps = tvals h ps \<and> tvals h' cache = tvals h cache"
  by (auto simp: npositions_ok_def ids_in_range_def frame_emptyD valid_base frame_weight_ok)

context native_api
begin

lemma gen_proj_ok:
  assumes pos: "0 < n" "dims_ok D" and fr: "frame {} h0 h"
    and P: "params_ok D h0 P" "heads_ok D h0 hw" and ps: "npositions_ok V D h0 n ps cache"
    and x: "holds h x Float16 [n, d_hid D] (nrms V W (d_eps D) [n, d_hid D] s (tvals h0 (n_input_layernorm_weight P)))"
    and res: "holds h res Float16 [n, d_hid D] r"
  shows "\<exists>q k v out h'. nproj_frag T N D hw x (n_qkv_proj_weight P) ps cache n h = Some ((q, k, v, out), h') \<and> ctx h' = ctx h \<and>
     nat_break V W D n h0 (params_vals h0 hw P) (nrows V n (d_hd D) (tvals h0 ps) (tvals h0 cache)) s r (q, k, v, out, res) h'"
proof -
  let ?lv = "params_vals h0 hw P"
  note P' = frame_params_ok [OF fr P] and ps' = frame_npositions_ok [OF fr ps]
  have w: "holds h (n_qkv_proj_weight P) Float16 [d_tot D, d_hid D] (nv_qkv ?lv)"
    using weight_holds [of h "n_qkv_proj_weight P"] P' by (simp add: params_ok_def params_vals_def)
  have hv: "nv_heads ?lv = map_option (\<lambda>(a, b). (tvals h a, tvals h b)) hw"
    using P' by (simp add: params_vals_def)
  have hw: "holds h a Float16 [d_hd D] (tvals h a) \<and> holds h b Float16 [d_hd D] (tvals h b)" if "hw = Some (a, b)" for a b
    using P' that by (simp add: heads_ok_def weight_holds)
  have pp: "holds h ps Int64 [n] (tvals h0 ps)" "ids_in_range V h ps (d_maxpos D)" "holds h cache Float16 [d_maxpos D, d_hd D] (tvals h0 cache)"
    using ps' by (auto simp: npositions_ok_def holds_def weight_ok_def)
  define y where "y = nproj V D n (nv_qkv ?lv) (nrms V W (d_eps D) [n, d_hid D] s (tvals h0 (n_input_layernorm_weight P)))"
  define cs where "cs = nrows V n (d_hd D) (tvals h0 ps) (tvals h0 cache)"
  obtain st h' where st: "nproj_frag T N D hw x (n_qkv_proj_weight P) ps cache n h = Some (st, h')"
    "qkv_done D n h (nquery V W D n ?lv cs y) (nkey V W D n ?lv cs y) (nvalue D n y) st h'"
    unfolding y_def cs_def by (rule nproj_frag_ok [OF pos x w hw hv pp])
  obtain q k v out where q: "st = (q, k, v, out)" by (cases st)
  note d = st(2) [unfolded qkv_done_def q, simplified]
  have "base res < base out"
    using d valid_base [OF holdsD(1) [OF res]] by simp
  moreover have "nxt h0 \<le> base out" using d frame_nxt [OF fr] by simp
  moreover have "frame {} h0 h'" using d fr by (auto simp: ext_def intro: frame_empty_trans)
  moreover have "holds h' res Float16 [n, d_hid D] r" using d ext_keep [OF _ res] by simp
  ultimately show ?thesis
    using st(1) q d unfolding nat_break_def cs_def [symmetric]
    by (auto simp: y_def params_vals_def ext_def Let_def)
qed

lemma gen_after_ok:
  assumes D: "dims_ok D" and fr: "frame {} h0 h" and out: "whole h out" "holds h out Float16 [n, d_nq D, d_hd D] a"
    and res: "holds h res Float16 [n, d_hid D] r" and P: "params_ok D h0 P" "heads_ok D h0 hw" and nw: "weight_ok h0 nw [d_hid D]"
  obtains x r' h' where "nafter_frag T N D out (n_o_proj_weight P) (n_post_attention_layernorm_weight P) res
      (n_gate_up_proj_weight P) (n_down_proj_weight P) nw h = Some ((x, r'), h')"
    "frame {} h0 h'" "ctx h' = ctx h"
    "holds h' x Float16 [n, d_hid D] (nrms V W (d_eps D) [n, d_hid D] (fst (nafter V W D n (params_vals h0 hw P) a r)) (tvals h0 nw))"
    "holds h' r' Float16 [n, d_hid D] (snd (nafter V W D n (params_vals h0 hw P) a r))"
proof -
  let ?lv = "params_vals h0 hw P"
  have keep: "weight_ok h0 w sz \<Longrightarrow> holds h w Float16 sz (tvals h0 w)" for w sz
    using frame_weight_ok [OF fr, of w sz] weight_holds [of h w sz] by simp
  have w: "holds h (n_o_proj_weight P) Float16 [d_hid D, d_q D] (nv_o ?lv)"
    "holds h (n_post_attention_layernorm_weight P) Float16 [d_hid D] (nv_ln2 ?lv)"
    "holds h (n_gate_up_proj_weight P) Float16 [2 * d_inter D, d_hid D] (nv_gate_up ?lv)"
    "holds h (n_down_proj_weight P) Float16 [d_hid D, d_inter D] (nv_down ?lv)"
    using P(1) by (simp_all add: params_vals_def params_ok_def keep)
  note nh = keep [OF nw]
  obtain x r' h' where "nafter_frag T N D out (n_o_proj_weight P) (n_post_attention_layernorm_weight P) res
      (n_gate_up_proj_weight P) (n_down_proj_weight P) nw h = Some ((x, r'), h')" "ext h h'"
    "holds h' x Float16 [n, d_hid D] (nrms V W (d_eps D) [n, d_hid D] (fst (nafter V W D n ?lv a r)) (tvals h0 nw))"
    "holds h' r' Float16 [n, d_hid D] (snd (nafter V W D n ?lv a r))"
    by (rule nafter_frag_ok [OF D out res w nh])
  then show thesis
    using fr by (intro that) (auto simp: ext_def intro: frame_empty_trans)
qed

lemma gen_pieces:
  fixes hw :: "'z native_params_scheme \<Rightarrow> (tensor \<times> tensor) option"
  assumes D: "dims_ok D"
  shows "native_pieces T V N W D (\<lambda>h P. params_ok D h P \<and> heads_ok D h (hw P)) (\<lambda>h P. params_vals h (hw P) P)
    (\<lambda>P. gen_first T N D (hw P) P) (\<lambda>P P'. gen_mid T N D (hw P') P P') (gen_last T N D)"
proof (unfold_locales, goal_cases)
  case 1
  show ?case by (rule D)
next
  case (2 n h ids emb P ps cache r)
  then obtain x e h1 where e: "nembed_frag T N (d_eps D) ids emb (n_input_layernorm_weight P) h = Some ((x, e), h1)" "ext h h1"
    "holds h1 x Float16 [n, d_hid D] (nrms V W (d_eps D) [n, d_hid D] (map (w_cast W Float32) r) (tvals h (n_input_layernorm_weight P)))"
    "holds h1 e Float16 [n, d_hid D] r"
    using nembed_frag_ok [of h ids n "d_vocab D" emb "d_hid D" "tvals h emb" "n_input_layernorm_weight P"
      "tvals h (n_input_layernorm_weight P)" "d_eps D"]
    by (auto simp: weight_holds params_ok_def)
  have f: "frame {} h h1" "ctx h1 = ctx h" using e(2) by (simp_all add: ext_def)
  from gen_proj_ok [OF 2(1) D f(1) _ _ 2(8) e(3,4), of "hw P"] 2(7) e(1) f(2) show ?case
    by (auto simp: gen_first_def)
next
  case (3 n h0 h out a res r P P' ps cache s' r')
  note p = 3(6,7)
  have nw: "weight_ok h0 (n_input_layernorm_weight P') [d_hid D]" using p by (simp add: params_ok_def)
  obtain x t h1 where x: "nafter_frag T N D out (n_o_proj_weight P) (n_post_attention_layernorm_weight P) res
      (n_gate_up_proj_weight P) (n_down_proj_weight P) (n_input_layernorm_weight P') h = Some ((x, t), h1)"
    "frame {} h0 h1" "ctx h1 = ctx h"
    "holds h1 x Float16 [n, d_hid D] (nrms V W (d_eps D) [n, d_hid D] s' (tvals h0 (n_input_layernorm_weight P')))"
    "holds h1 t Float16 [n, d_hid D] r'"
    by (rule gen_after_ok [OF D 3(2-5) p(1) [THEN conjunct1] p(1) [THEN conjunct2] nw]) (simp add: 3(9))
  from gen_proj_ok [OF 3(1) D x(2) p(2) [THEN conjunct1] p(2) [THEN conjunct2] 3(8) x(4,5)] x(1,3) show ?case
    by (auto simp: gen_mid_def)
next
  case (4 n h0 h out a res r P nw)
  show ?case
    by (rule gen_after_ok [OF D 4(2-5) 4(6) [THEN conjunct1] 4(6) [THEN conjunct2] 4(7)]) (auto simp: gen_last_def)
qed

end

end
