(* ===== verification/Llama_Forward.thy ===== *)
theory Llama_Forward
  imports Native_Piecewise Llama_Graph_Layers
begin

text \<open>
  The llama graph (src/mcv/example/llama-binary-cache/torch_compile_cache/edf531ca35/rank_0_0/backbone)
  is made of the shared fragments: its pieces keep the contract of \<open>Native_Piecewise\<close>, all
  middle pieces are one function, and the unrolled forward is their composition.
\<close>

definition llama_dims :: model_dims where
  "llama_dims = \<lparr>d_hid = 2048, d_nq = 32, d_nkv = 8, d_half = 32, d_inter = 8192, d_eps = 1 / 100000,
     d_vocab = 128256, d_maxpos = 131072, d_layers = 16\<rparr>"

lemma llama_sizes:
  "d_hd llama_dims = 64" "d_q llama_dims = 2048" "d_kv llama_dims = 512" "d_tot llama_dims = 3072"
  by (simp_all add: llama_dims_def d_hd_def d_q_def d_kv_def d_tot_def)

lemma llama_fields:
  "d_hid llama_dims = 2048" "d_nq llama_dims = 32" "d_nkv llama_dims = 8" "d_half llama_dims = 32" "d_inter llama_dims = 8192" "d_eps llama_dims = 1 / 100000" "d_vocab llama_dims = 128256" "d_maxpos llama_dims = 131072" "d_layers llama_dims = 16"
  by (simp_all add: llama_dims_def)

definition heads_llama :: "native_params \<Rightarrow> (tensor \<times> tensor) option" where
  "heads_llama P = None"

text \<open>The pieces, taking the weights of a layer as one argument.\<close>

definition first_llama ::
  "('a, 'k) torch \<Rightarrow> ('a, 'k) native_ops \<Rightarrow> native_params \<Rightarrow> tensor \<Rightarrow> nat \<Rightarrow> tensor \<Rightarrow> tensor \<Rightarrow> tensor \<Rightarrow> ('a, 'k) store \<Rightarrow>
   (native_state \<times> ('a, 'k) store) option" where
  "first_llama T N P ids n emb ps cache h =
     submod_0_llama T N ids n emb (n_input_layernorm_weight P) (n_qkv_proj_weight P) ps cache h"

definition mid_llama ::
  "('a, 'k) torch \<Rightarrow> ('a, 'k) native_ops \<Rightarrow> native_params \<Rightarrow> native_params \<Rightarrow> tensor \<Rightarrow> nat \<Rightarrow> tensor \<Rightarrow> tensor \<Rightarrow> tensor \<Rightarrow>
   ('a, 'k) store \<Rightarrow> (native_state \<times> ('a, 'k) store) option" where
  "mid_llama T N P P' out n res ps cache h =
     submod_2_llama T N out n (n_o_proj_weight P) (n_post_attention_layernorm_weight P) res (n_gate_up_proj_weight P)
       (n_down_proj_weight P) (n_input_layernorm_weight P') (n_qkv_proj_weight P') ps cache h"

definition last_llama ::
  "('a, 'k) torch \<Rightarrow> ('a, 'k) native_ops \<Rightarrow> native_params \<Rightarrow> tensor \<Rightarrow> nat \<Rightarrow> tensor \<Rightarrow> tensor \<Rightarrow> ('a, 'k) store \<Rightarrow>
   (tensor \<times> ('a, 'k) store) option" where
  "last_llama T N P out n res nw h =
     submod_32_llama T N out n (n_o_proj_weight P) (n_post_attention_layernorm_weight P) res (n_gate_up_proj_weight P)
       (n_down_proj_weight P) nw h"

context native_api
begin

lemma first_llama_gen: "first_llama T N P = gen_first T N llama_dims (heads_llama P) P"
  unfolding first_llama_def submod_0_llama_def gen_first_def nembed_frag_def nproj_frag_def norm_frag_def hnorm_frag_def
    nrope_frag_def heads_llama_def
  by (intro ext) (simp add: llama_sizes llama_fields get_data_attr_law Let_def cong: option.case_cong)

lemma mid_llama_gen: "mid_llama T N P P' = gen_mid T N llama_dims (heads_llama P') P P'"
  unfolding mid_llama_def submod_2_llama_def gen_mid_def nafter_frag_def nproj_frag_def norm_frag_def hnorm_frag_def
    nrope_frag_def heads_llama_def
  by (intro ext) (simp add: llama_sizes llama_fields get_data_attr_law Let_def cong: option.case_cong)

lemma last_llama_gen: "last_llama T N = gen_last T N llama_dims"
  unfolding last_llama_def submod_32_llama_def gen_last_def nafter_frag_def norm_frag_def
  by (intro ext) (simp add: llama_sizes llama_fields get_data_attr_law Let_def cong: option.case_cong)

end

lemma llama_dims_ok: "dims_ok llama_dims"
  by (simp add: dims_ok_def llama_dims_def)

text \<open>What the weights of a layer must be, and their values.\<close>

definition llama_layer_ok :: "('a, 'k) store \<Rightarrow> native_params \<Rightarrow> bool" where
  "llama_layer_ok h P \<longleftrightarrow> params_ok llama_dims h P \<and> heads_ok llama_dims h (heads_llama P)"

definition llama_layer_vals :: "('a, 'k) store \<Rightarrow> native_params \<Rightarrow> 'a native_vals" where
  "llama_layer_vals h P = params_vals h (heads_llama P) P"

sublocale native_api \<subseteq> llama: native_pieces T V N W llama_dims llama_layer_ok llama_layer_vals
  "first_llama T N" "mid_llama T N" "last_llama T N"
  using gen_pieces [OF llama_dims_ok, of heads_llama]
  unfolding first_llama_gen [abs_def, symmetric] mid_llama_gen [abs_def, symmetric] last_llama_gen [symmetric]
    llama_layer_ok_def [abs_def, symmetric] llama_layer_vals_def [abs_def, symmetric] .

subsection \<open>The unrolled forward\<close>

lemma submods_llama_equal:
  "submod_4_llama = submod_2_llama"
  "submod_6_llama = submod_2_llama"
  "submod_8_llama = submod_2_llama"
  "submod_10_llama = submod_2_llama"
  "submod_12_llama = submod_2_llama"
  "submod_14_llama = submod_2_llama"
  "submod_16_llama = submod_2_llama"
  "submod_18_llama = submod_2_llama"
  "submod_20_llama = submod_2_llama"
  "submod_22_llama = submod_2_llama"
  "submod_24_llama = submod_2_llama"
  "submod_26_llama = submod_2_llama"
  "submod_28_llama = submod_2_llama"
  "submod_30_llama = submod_2_llama"
  unfolding submod_4_llama_def submod_6_llama_def submod_8_llama_def submod_10_llama_def submod_12_llama_def submod_14_llama_def submod_16_llama_def submod_18_llama_def submod_20_llama_def submod_22_llama_def submod_24_llama_def submod_26_llama_def submod_28_llama_def submod_30_llama_def submod_2_llama_def
  by (rule refl)+

lemmas attn_llama_defs =
  submod_1_llama_def submod_3_llama_def submod_5_llama_def submod_7_llama_def submod_9_llama_def submod_11_llama_def submod_13_llama_def submod_15_llama_def submod_17_llama_def submod_19_llama_def submod_21_llama_def submod_23_llama_def submod_25_llama_def submod_27_llama_def submod_29_llama_def submod_31_llama_def

lemma layer_names_llama:
  "layer_name 0 = ''model.layers.0.self_attn.attn''"
  "layer_name (Suc 0) = ''model.layers.1.self_attn.attn''"
  "layer_name 2 = ''model.layers.2.self_attn.attn''"
  "layer_name 3 = ''model.layers.3.self_attn.attn''"
  "layer_name 4 = ''model.layers.4.self_attn.attn''"
  "layer_name 5 = ''model.layers.5.self_attn.attn''"
  "layer_name 6 = ''model.layers.6.self_attn.attn''"
  "layer_name 7 = ''model.layers.7.self_attn.attn''"
  "layer_name 8 = ''model.layers.8.self_attn.attn''"
  "layer_name 9 = ''model.layers.9.self_attn.attn''"
  "layer_name 10 = ''model.layers.10.self_attn.attn''"
  "layer_name 11 = ''model.layers.11.self_attn.attn''"
  "layer_name 12 = ''model.layers.12.self_attn.attn''"
  "layer_name 13 = ''model.layers.13.self_attn.attn''"
  "layer_name 14 = ''model.layers.14.self_attn.attn''"
  "layer_name 15 = ''model.layers.15.self_attn.attn''"
  by (simp_all add: layer_name_def decimal.simps digit_def)

lemma forward_llama_loop:
  "forward_llama T N n ids emb L cache s80 ps nw h =
     nforward (t_unified_attention_with_output T) (first_llama T N) (mid_llama T N) (last_llama T N) 15 n ids emb L ps cache nw h"
  unfolding forward_llama_def submods_llama_equal attn_llama_defs nforward_def first_llama_def mid_llama_def last_llama_def
  by (simp add: nrun_numeral layer_names_llama numeral_2_eq_2 [symmetric] split_def cong: option.case_cong)

end
