(* ===== verification/Qwen_Graph.thy ===== *)
theory Qwen_Graph
  imports Native_API
begin

text \<open>
  The computation graph of the sample qwen cache, as torch.compile wrote it to
  src/mcv/example/qwen-binary-cache/torch_compile_cache/4bce7ae4f8/rank_0_0/backbone/computation_graph.py:
  the pieces that differ from each other, statement by statement, in the conventions of
  \<open>Vllm_Graph\<close>. The graph holds no custom vLLM operators but the attention: norms, rotary
  embedding and activation are spelled out in PyTorch operators, in half and single
  precision, and the residual stream is a fresh tensor in every piece.
\<close>

definition submod_0_qwen ::
  "('a, 'k) torch \<Rightarrow> ('a, 'k) native_ops \<Rightarrow>
   tensor \<Rightarrow> nat \<Rightarrow> tensor \<Rightarrow> tensor \<Rightarrow> tensor \<Rightarrow> tensor \<Rightarrow> tensor \<Rightarrow> tensor \<Rightarrow> tensor \<Rightarrow>
   ('a, 'k) store \<Rightarrow> ((tensor \<times> tensor \<times> tensor \<times> tensor \<times> tensor) \<times> ('a, 'k) store) option" where
  "submod_0_qwen T N l_input_ids s72 embed_tokens_weight layers_0_input_layernorm_weight
      layers_0_self_attn_qkv_proj_weight layers_0_self_attn_q_norm_weight
      layers_0_self_attn_k_norm_weight l_positions layers_0_self_attn_rotary_emb_cos_sin_cache h
      = do {
  (long, h) \<leftarrow> t_long T l_input_ids h;
  (embedding, h) \<leftarrow> t_embedding T long embed_tokens_weight h;
  get_data_attr \<leftarrow> t_get_data_attr T layers_0_input_layernorm_weight;
  (to, h) \<leftarrow> t_to T embedding Float32 h;
  (pow_1, h) \<leftarrow> t_pow N to 2 h;
  (mean, h) \<leftarrow> t_mean N pow_1 (-1) True h;
  (add, h) \<leftarrow> t_add_scalar N mean (1 / 1000000) h;
  (rsqrt, h) \<leftarrow> t_rsqrt N add h;
  (mul, h) \<leftarrow> t_mul T to rsqrt h;
  (to_1, h) \<leftarrow> t_to T mul Float16 h;
  (mul_1, h) \<leftarrow> t_mul T to_1 get_data_attr h;
  (linear, h) \<leftarrow> t_linear T mul_1 layers_0_self_attn_qkv_proj_weight None h;
  split \<leftarrow> t_split T linear [2048, 1024, 1024] (-1);
  getitem \<leftarrow> py_nth split 0;
  getitem_1 \<leftarrow> py_nth split 1;
  getitem_2 \<leftarrow> py_nth split 2;
  view \<leftarrow> t_view T getitem [int s72, 16, 128];
  get_data_attr_1 \<leftarrow> t_get_data_attr T layers_0_self_attn_q_norm_weight;
  (to_2, h) \<leftarrow> t_to T view Float32 h;
  (pow_2, h) \<leftarrow> t_pow N to_2 2 h;
  (mean_1, h) \<leftarrow> t_mean N pow_2 (-1) True h;
  (add_1, h) \<leftarrow> t_add_scalar N mean_1 (1 / 1000000) h;
  (rsqrt_1, h) \<leftarrow> t_rsqrt N add_1 h;
  (mul_2, h) \<leftarrow> t_mul T to_2 rsqrt_1 h;
  (to_3, h) \<leftarrow> t_to T mul_2 Float16 h;
  (mul_3, h) \<leftarrow> t_mul T to_3 get_data_attr_1 h;
  let size = sizes getitem;
  view_1 \<leftarrow> t_view T mul_3 (map int size);
  view_2 \<leftarrow> t_view T getitem_1 [int s72, 8, 128];
  get_data_attr_2 \<leftarrow> t_get_data_attr T layers_0_self_attn_k_norm_weight;
  (to_4, h) \<leftarrow> t_to T view_2 Float32 h;
  (pow_3, h) \<leftarrow> t_pow N to_4 2 h;
  (mean_2, h) \<leftarrow> t_mean N pow_3 (-1) True h;
  (add_2, h) \<leftarrow> t_add_scalar N mean_2 (1 / 1000000) h;
  (rsqrt_2, h) \<leftarrow> t_rsqrt N add_2 h;
  (mul_4, h) \<leftarrow> t_mul T to_4 rsqrt_2 h;
  (to_5, h) \<leftarrow> t_to T mul_4 Float16 h;
  (mul_5, h) \<leftarrow> t_mul T to_5 get_data_attr_2 h;
  let size_1 = sizes getitem_1;
  view_3 \<leftarrow> t_view T mul_5 (map int size_1);
  (flatten, h) \<leftarrow> t_flatten T l_positions h;
  (index_select, h) \<leftarrow> t_index_select T layers_0_self_attn_rotary_emb_cos_sin_cache 0
      flatten h;
  chunk \<leftarrow> t_chunk T index_select 2 (-1);
  getitem_3 \<leftarrow> py_nth chunk 0;
  getitem_4 \<leftarrow> py_nth chunk 1;
  let size_2 = sizes view_1;
  view_4 \<leftarrow> t_view T view_1 [int s72, -1, 128];
  getitem_5 \<leftarrow> t_getitem_last T view_4 None (Some 128);
  getitem_6 \<leftarrow> t_getitem_last T view_4 (Some 128) None;
  unsqueeze \<leftarrow> t_unsqueeze T getitem_3 (-2);
  (to_6, h) \<leftarrow> t_to T unsqueeze Float16 h;
  unsqueeze_1 \<leftarrow> t_unsqueeze T getitem_4 (-2);
  (to_7, h) \<leftarrow> t_to T unsqueeze_1 Float16 h;
  chunk_1 \<leftarrow> t_chunk T getitem_5 2 (-1);
  getitem_7 \<leftarrow> py_nth chunk_1 0;
  getitem_8 \<leftarrow> py_nth chunk_1 1;
  (mul_6, h) \<leftarrow> t_mul T getitem_7 to_6 h;
  (mul_7, h) \<leftarrow> t_mul T getitem_8 to_7 h;
  (sub, h) \<leftarrow> t_sub T mul_6 mul_7 h;
  (mul_8, h) \<leftarrow> t_mul T getitem_8 to_6 h;
  (mul_9, h) \<leftarrow> t_mul T getitem_7 to_7 h;
  (add_3, h) \<leftarrow> t_add T mul_8 mul_9 h;
  (cat, h) \<leftarrow> t_cat T [sub, add_3] (-1) h;
  (cat_1, h) \<leftarrow> t_cat T [cat, getitem_6] (-1) h;
  (reshape, h) \<leftarrow> t_reshape T cat_1 size_2 h;
  let size_3 = sizes view_3;
  view_5 \<leftarrow> t_view T view_3 [int s72, -1, 128];
  getitem_9 \<leftarrow> t_getitem_last T view_5 None (Some 128);
  getitem_10 \<leftarrow> t_getitem_last T view_5 (Some 128) None;
  unsqueeze_2 \<leftarrow> t_unsqueeze T getitem_3 (-2);
  (to_8, h) \<leftarrow> t_to T unsqueeze_2 Float16 h;
  unsqueeze_3 \<leftarrow> t_unsqueeze T getitem_4 (-2);
  (to_9, h) \<leftarrow> t_to T unsqueeze_3 Float16 h;
  chunk_2 \<leftarrow> t_chunk T getitem_9 2 (-1);
  getitem_11 \<leftarrow> py_nth chunk_2 0;
  getitem_12 \<leftarrow> py_nth chunk_2 1;
  (mul_10, h) \<leftarrow> t_mul T getitem_11 to_8 h;
  (mul_11, h) \<leftarrow> t_mul T getitem_12 to_9 h;
  (sub_1, h) \<leftarrow> t_sub T mul_10 mul_11 h;
  (mul_12, h) \<leftarrow> t_mul T getitem_12 to_8 h;
  (mul_13, h) \<leftarrow> t_mul T getitem_11 to_9 h;
  (add_4, h) \<leftarrow> t_add T mul_12 mul_13 h;
  (cat_2, h) \<leftarrow> t_cat T [sub_1, add_4] (-1) h;
  (cat_3, h) \<leftarrow> t_cat T [cat_2, getitem_10] (-1) h;
  (reshape_1, h) \<leftarrow> t_reshape T cat_3 size_3 h;
  let size_4 = [s72, 2048];
  (empty, h) \<leftarrow> t_empty T size_4 Float16 (''cuda'', 0) h;
  view_6 \<leftarrow> t_view T reshape [-1, 16, 128];
  view_7 \<leftarrow> t_view T empty [-1, 16, 128];
  view_8 \<leftarrow> t_view T reshape_1 [-1, 8, 128];
  view_9 \<leftarrow> t_view T getitem_2 [-1, 8, 128];
  Some ((view_6, view_8, view_9, view_7, embedding), h)}"

definition submod_1_qwen ::
  "('a, 'k) torch \<Rightarrow> ('a, 'k) native_ops \<Rightarrow>
   tensor \<Rightarrow> nat \<Rightarrow> tensor \<Rightarrow> tensor \<Rightarrow> tensor \<Rightarrow>
   ('a, 'k) store \<Rightarrow> (unit \<times> ('a, 'k) store) option" where
  "submod_1_qwen T N query_2 s72 key_2 value output_3 h = do {
  h \<leftarrow> t_unified_attention_with_output T query_2 key_2 value output_3
      ''model.layers.0.self_attn.attn'' h;
  Some ((), h)}"

definition submod_2_qwen ::
  "('a, 'k) torch \<Rightarrow> ('a, 'k) native_ops \<Rightarrow>
   tensor \<Rightarrow> nat \<Rightarrow> tensor \<Rightarrow> tensor \<Rightarrow> tensor \<Rightarrow> tensor \<Rightarrow> tensor \<Rightarrow> tensor \<Rightarrow> tensor \<Rightarrow> tensor \<Rightarrow> tensor \<Rightarrow> tensor \<Rightarrow> tensor \<Rightarrow>
   ('a, 'k) store \<Rightarrow> ((tensor \<times> tensor \<times> tensor \<times> tensor \<times> tensor) \<times> ('a, 'k) store) option" where
  "submod_2_qwen T N output_3 s72 layers_0_self_attn_o_proj_weight
      layers_0_post_attention_layernorm_weight output_parallel layers_0_mlp_gate_up_proj_weight
      layers_0_mlp_down_proj_weight layers_1_input_layernorm_weight
      layers_1_self_attn_qkv_proj_weight layers_1_self_attn_q_norm_weight
      layers_1_self_attn_k_norm_weight l_positions layers_0_self_attn_rotary_emb_cos_sin_cache h
      = do {
  view \<leftarrow> t_view T output_3 [-1, 2048];
  (linear, h) \<leftarrow> t_linear T view layers_0_self_attn_o_proj_weight None h;
  get_data_attr \<leftarrow> t_get_data_attr T layers_0_post_attention_layernorm_weight;
  (to, h) \<leftarrow> t_to T linear Float32 h;
  (add, h) \<leftarrow> t_add T to output_parallel h;
  (to_1, h) \<leftarrow> t_to T add Float16 h;
  (pow_1, h) \<leftarrow> t_pow N add 2 h;
  (mean, h) \<leftarrow> t_mean N pow_1 (-1) True h;
  (add_1, h) \<leftarrow> t_add_scalar N mean (1 / 1000000) h;
  (rsqrt, h) \<leftarrow> t_rsqrt N add_1 h;
  (mul, h) \<leftarrow> t_mul T add rsqrt h;
  (to_2, h) \<leftarrow> t_to T mul Float16 h;
  (mul_1, h) \<leftarrow> t_mul T to_2 get_data_attr h;
  (linear_1, h) \<leftarrow> t_linear T mul_1 layers_0_mlp_gate_up_proj_weight None h;
  getitem \<leftarrow> t_getitem_last T linear_1 None (Some 3072);
  (silu, h) \<leftarrow> t_silu N getitem h;
  getitem_1 \<leftarrow> t_getitem_last T linear_1 (Some 3072) None;
  (mul_2, h) \<leftarrow> t_mul T silu getitem_1 h;
  (linear_2, h) \<leftarrow> t_linear T mul_2 layers_0_mlp_down_proj_weight None h;
  get_data_attr_1 \<leftarrow> t_get_data_attr T layers_1_input_layernorm_weight;
  (to_3, h) \<leftarrow> t_to T linear_2 Float32 h;
  (add_2, h) \<leftarrow> t_add T to_3 to_1 h;
  (to_4, h) \<leftarrow> t_to T add_2 Float16 h;
  (pow_2, h) \<leftarrow> t_pow N add_2 2 h;
  (mean_1, h) \<leftarrow> t_mean N pow_2 (-1) True h;
  (add_3, h) \<leftarrow> t_add_scalar N mean_1 (1 / 1000000) h;
  (rsqrt_1, h) \<leftarrow> t_rsqrt N add_3 h;
  (mul_3, h) \<leftarrow> t_mul T add_2 rsqrt_1 h;
  (to_5, h) \<leftarrow> t_to T mul_3 Float16 h;
  (mul_4, h) \<leftarrow> t_mul T to_5 get_data_attr_1 h;
  (linear_3, h) \<leftarrow> t_linear T mul_4 layers_1_self_attn_qkv_proj_weight None h;
  split \<leftarrow> t_split T linear_3 [2048, 1024, 1024] (-1);
  getitem_2 \<leftarrow> py_nth split 0;
  getitem_3 \<leftarrow> py_nth split 1;
  getitem_4 \<leftarrow> py_nth split 2;
  view_1 \<leftarrow> t_view T getitem_2 [int s72, 16, 128];
  get_data_attr_2 \<leftarrow> t_get_data_attr T layers_1_self_attn_q_norm_weight;
  (to_6, h) \<leftarrow> t_to T view_1 Float32 h;
  (pow_3, h) \<leftarrow> t_pow N to_6 2 h;
  (mean_2, h) \<leftarrow> t_mean N pow_3 (-1) True h;
  (add_4, h) \<leftarrow> t_add_scalar N mean_2 (1 / 1000000) h;
  (rsqrt_2, h) \<leftarrow> t_rsqrt N add_4 h;
  (mul_5, h) \<leftarrow> t_mul T to_6 rsqrt_2 h;
  (to_7, h) \<leftarrow> t_to T mul_5 Float16 h;
  (mul_6, h) \<leftarrow> t_mul T to_7 get_data_attr_2 h;
  let size = sizes getitem_2;
  view_2 \<leftarrow> t_view T mul_6 (map int size);
  view_3 \<leftarrow> t_view T getitem_3 [int s72, 8, 128];
  get_data_attr_3 \<leftarrow> t_get_data_attr T layers_1_self_attn_k_norm_weight;
  (to_8, h) \<leftarrow> t_to T view_3 Float32 h;
  (pow_4, h) \<leftarrow> t_pow N to_8 2 h;
  (mean_3, h) \<leftarrow> t_mean N pow_4 (-1) True h;
  (add_5, h) \<leftarrow> t_add_scalar N mean_3 (1 / 1000000) h;
  (rsqrt_3, h) \<leftarrow> t_rsqrt N add_5 h;
  (mul_7, h) \<leftarrow> t_mul T to_8 rsqrt_3 h;
  (to_9, h) \<leftarrow> t_to T mul_7 Float16 h;
  (mul_8, h) \<leftarrow> t_mul T to_9 get_data_attr_3 h;
  let size_1 = sizes getitem_3;
  view_4 \<leftarrow> t_view T mul_8 (map int size_1);
  (flatten, h) \<leftarrow> t_flatten T l_positions h;
  (index_select, h) \<leftarrow> t_index_select T layers_0_self_attn_rotary_emb_cos_sin_cache 0
      flatten h;
  chunk \<leftarrow> t_chunk T index_select 2 (-1);
  getitem_5 \<leftarrow> py_nth chunk 0;
  getitem_6 \<leftarrow> py_nth chunk 1;
  let size_2 = sizes view_2;
  view_5 \<leftarrow> t_view T view_2 [int s72, -1, 128];
  getitem_7 \<leftarrow> t_getitem_last T view_5 None (Some 128);
  getitem_8 \<leftarrow> t_getitem_last T view_5 (Some 128) None;
  unsqueeze \<leftarrow> t_unsqueeze T getitem_5 (-2);
  (to_10, h) \<leftarrow> t_to T unsqueeze Float16 h;
  unsqueeze_1 \<leftarrow> t_unsqueeze T getitem_6 (-2);
  (to_11, h) \<leftarrow> t_to T unsqueeze_1 Float16 h;
  chunk_1 \<leftarrow> t_chunk T getitem_7 2 (-1);
  getitem_9 \<leftarrow> py_nth chunk_1 0;
  getitem_10 \<leftarrow> py_nth chunk_1 1;
  (mul_9, h) \<leftarrow> t_mul T getitem_9 to_10 h;
  (mul_10, h) \<leftarrow> t_mul T getitem_10 to_11 h;
  (sub, h) \<leftarrow> t_sub T mul_9 mul_10 h;
  (mul_11, h) \<leftarrow> t_mul T getitem_10 to_10 h;
  (mul_12, h) \<leftarrow> t_mul T getitem_9 to_11 h;
  (add_6, h) \<leftarrow> t_add T mul_11 mul_12 h;
  (cat, h) \<leftarrow> t_cat T [sub, add_6] (-1) h;
  (cat_1, h) \<leftarrow> t_cat T [cat, getitem_8] (-1) h;
  (reshape, h) \<leftarrow> t_reshape T cat_1 size_2 h;
  let size_3 = sizes view_4;
  view_6 \<leftarrow> t_view T view_4 [int s72, -1, 128];
  getitem_11 \<leftarrow> t_getitem_last T view_6 None (Some 128);
  getitem_12 \<leftarrow> t_getitem_last T view_6 (Some 128) None;
  unsqueeze_2 \<leftarrow> t_unsqueeze T getitem_5 (-2);
  (to_12, h) \<leftarrow> t_to T unsqueeze_2 Float16 h;
  unsqueeze_3 \<leftarrow> t_unsqueeze T getitem_6 (-2);
  (to_13, h) \<leftarrow> t_to T unsqueeze_3 Float16 h;
  chunk_2 \<leftarrow> t_chunk T getitem_11 2 (-1);
  getitem_13 \<leftarrow> py_nth chunk_2 0;
  getitem_14 \<leftarrow> py_nth chunk_2 1;
  (mul_13, h) \<leftarrow> t_mul T getitem_13 to_12 h;
  (mul_14, h) \<leftarrow> t_mul T getitem_14 to_13 h;
  (sub_1, h) \<leftarrow> t_sub T mul_13 mul_14 h;
  (mul_15, h) \<leftarrow> t_mul T getitem_14 to_12 h;
  (mul_16, h) \<leftarrow> t_mul T getitem_13 to_13 h;
  (add_7, h) \<leftarrow> t_add T mul_15 mul_16 h;
  (cat_2, h) \<leftarrow> t_cat T [sub_1, add_7] (-1) h;
  (cat_3, h) \<leftarrow> t_cat T [cat_2, getitem_12] (-1) h;
  (reshape_1, h) \<leftarrow> t_reshape T cat_3 size_3 h;
  let size_4 = [s72, 2048];
  (empty, h) \<leftarrow> t_empty T size_4 Float16 (''cuda'', 0) h;
  view_7 \<leftarrow> t_view T reshape [-1, 16, 128];
  view_8 \<leftarrow> t_view T empty [-1, 16, 128];
  view_9 \<leftarrow> t_view T reshape_1 [-1, 8, 128];
  view_10 \<leftarrow> t_view T getitem_4 [-1, 8, 128];
  Some ((view_7, view_9, view_10, view_8, to_4), h)}"

definition submod_56_qwen ::
  "('a, 'k) torch \<Rightarrow> ('a, 'k) native_ops \<Rightarrow>
   tensor \<Rightarrow> nat \<Rightarrow> tensor \<Rightarrow> tensor \<Rightarrow> tensor \<Rightarrow> tensor \<Rightarrow> tensor \<Rightarrow> tensor \<Rightarrow>
   ('a, 'k) store \<Rightarrow> (tensor \<times> ('a, 'k) store) option" where
  "submod_56_qwen T N output_111 s72 layers_27_self_attn_o_proj_weight
      layers_27_post_attention_layernorm_weight residual_53 layers_27_mlp_gate_up_proj_weight
      layers_27_mlp_down_proj_weight norm_weight h = do {
  view \<leftarrow> t_view T output_111 [-1, 2048];
  (linear, h) \<leftarrow> t_linear T view layers_27_self_attn_o_proj_weight None h;
  get_data_attr \<leftarrow> t_get_data_attr T layers_27_post_attention_layernorm_weight;
  (to, h) \<leftarrow> t_to T linear Float32 h;
  (add, h) \<leftarrow> t_add T to residual_53 h;
  (to_1, h) \<leftarrow> t_to T add Float16 h;
  (pow_1, h) \<leftarrow> t_pow N add 2 h;
  (mean, h) \<leftarrow> t_mean N pow_1 (-1) True h;
  (add_1, h) \<leftarrow> t_add_scalar N mean (1 / 1000000) h;
  (rsqrt, h) \<leftarrow> t_rsqrt N add_1 h;
  (mul, h) \<leftarrow> t_mul T add rsqrt h;
  (to_2, h) \<leftarrow> t_to T mul Float16 h;
  (mul_1, h) \<leftarrow> t_mul T to_2 get_data_attr h;
  (linear_1, h) \<leftarrow> t_linear T mul_1 layers_27_mlp_gate_up_proj_weight None h;
  getitem \<leftarrow> t_getitem_last T linear_1 None (Some 3072);
  (silu, h) \<leftarrow> t_silu N getitem h;
  getitem_1 \<leftarrow> t_getitem_last T linear_1 (Some 3072) None;
  (mul_2, h) \<leftarrow> t_mul T silu getitem_1 h;
  (linear_2, h) \<leftarrow> t_linear T mul_2 layers_27_mlp_down_proj_weight None h;
  get_data_attr_1 \<leftarrow> t_get_data_attr T norm_weight;
  (to_3, h) \<leftarrow> t_to T linear_2 Float32 h;
  (add_2, h) \<leftarrow> t_add T to_3 to_1 h;
  (to_4, h) \<leftarrow> t_to T add_2 Float16 h;
  (pow_2, h) \<leftarrow> t_pow N add_2 2 h;
  (mean_1, h) \<leftarrow> t_mean N pow_2 (-1) True h;
  (add_3, h) \<leftarrow> t_add_scalar N mean_1 (1 / 1000000) h;
  (rsqrt_1, h) \<leftarrow> t_rsqrt N add_3 h;
  (mul_3, h) \<leftarrow> t_mul T add_2 rsqrt_1 h;
  (to_5, h) \<leftarrow> t_to T mul_3 Float16 h;
  (mul_4, h) \<leftarrow> t_mul T to_5 get_data_attr_1 h;
  Some (mul_4, h)}"

end
