(* ===== verification/Qwen_Graph_Layers.thy ===== *)
theory Qwen_Graph_Layers
  imports Qwen_Graph
begin

text \<open>
  The remaining submodules of the qwen graph and its top-level forward, unrolled over
  28 layers. The arguments of \<open>forward\<close> that belong to layer \<open>i\<close> are gathered in the
  record \<open>L i\<close>.
\<close>

definition submod_3_qwen ::
  "('a, 'k) torch \<Rightarrow> ('a, 'k) native_ops \<Rightarrow>
   tensor \<Rightarrow> nat \<Rightarrow> tensor \<Rightarrow> tensor \<Rightarrow> tensor \<Rightarrow>
   ('a, 'k) store \<Rightarrow> (unit \<times> ('a, 'k) store) option" where
  "submod_3_qwen T N query_5 s72 key_5 value_1 output_7 h = do {
  h \<leftarrow> t_unified_attention_with_output T query_5 key_5 value_1 output_7
      ''model.layers.1.self_attn.attn'' h;
  Some ((), h)}"

definition submod_4_qwen ::
  "('a, 'k) torch \<Rightarrow> ('a, 'k) native_ops \<Rightarrow>
   tensor \<Rightarrow> nat \<Rightarrow> tensor \<Rightarrow> tensor \<Rightarrow> tensor \<Rightarrow> tensor \<Rightarrow> tensor \<Rightarrow> tensor \<Rightarrow> tensor \<Rightarrow> tensor \<Rightarrow> tensor \<Rightarrow> tensor \<Rightarrow> tensor \<Rightarrow>
   ('a, 'k) store \<Rightarrow> ((tensor \<times> tensor \<times> tensor \<times> tensor \<times> tensor) \<times> ('a, 'k) store) option" where
  "submod_4_qwen T N output_7 s72 layers_1_self_attn_o_proj_weight
      layers_1_post_attention_layernorm_weight residual_1 layers_1_mlp_gate_up_proj_weight
      layers_1_mlp_down_proj_weight layers_2_input_layernorm_weight
      layers_2_self_attn_qkv_proj_weight layers_2_self_attn_q_norm_weight
      layers_2_self_attn_k_norm_weight l_positions layers_0_self_attn_rotary_emb_cos_sin_cache h
      = do {
  view \<leftarrow> t_view T output_7 [-1, 2048];
  (linear, h) \<leftarrow> t_linear T view layers_1_self_attn_o_proj_weight None h;
  get_data_attr \<leftarrow> t_get_data_attr T layers_1_post_attention_layernorm_weight;
  (to, h) \<leftarrow> t_to T linear Float32 h;
  (add, h) \<leftarrow> t_add T to residual_1 h;
  (to_1, h) \<leftarrow> t_to T add Float16 h;
  (pow_1, h) \<leftarrow> t_pow N add 2 h;
  (mean, h) \<leftarrow> t_mean N pow_1 (-1) True h;
  (add_1, h) \<leftarrow> t_add_scalar N mean (1 / 1000000) h;
  (rsqrt, h) \<leftarrow> t_rsqrt N add_1 h;
  (mul, h) \<leftarrow> t_mul T add rsqrt h;
  (to_2, h) \<leftarrow> t_to T mul Float16 h;
  (mul_1, h) \<leftarrow> t_mul T to_2 get_data_attr h;
  (linear_1, h) \<leftarrow> t_linear T mul_1 layers_1_mlp_gate_up_proj_weight None h;
  getitem \<leftarrow> t_getitem_last T linear_1 None (Some 3072);
  (silu, h) \<leftarrow> t_silu N getitem h;
  getitem_1 \<leftarrow> t_getitem_last T linear_1 (Some 3072) None;
  (mul_2, h) \<leftarrow> t_mul T silu getitem_1 h;
  (linear_2, h) \<leftarrow> t_linear T mul_2 layers_1_mlp_down_proj_weight None h;
  get_data_attr_1 \<leftarrow> t_get_data_attr T layers_2_input_layernorm_weight;
  (to_3, h) \<leftarrow> t_to T linear_2 Float32 h;
  (add_2, h) \<leftarrow> t_add T to_3 to_1 h;
  (to_4, h) \<leftarrow> t_to T add_2 Float16 h;
  (pow_2, h) \<leftarrow> t_pow N add_2 2 h;
  (mean_1, h) \<leftarrow> t_mean N pow_2 (-1) True h;
  (add_3, h) \<leftarrow> t_add_scalar N mean_1 (1 / 1000000) h;
  (rsqrt_1, h) \<leftarrow> t_rsqrt N add_3 h;
  (mul_3, h) \<leftarrow> t_mul T add_2 rsqrt_1 h;
  (to_5, h) \<leftarrow> t_to T mul_3 Float16 h;
  (mul_4, h) \<leftarrow> t_mul T to_5 get_data_attr_1 h;
  (linear_3, h) \<leftarrow> t_linear T mul_4 layers_2_self_attn_qkv_proj_weight None h;
  split \<leftarrow> t_split T linear_3 [2048, 1024, 1024] (-1);
  getitem_2 \<leftarrow> py_nth split 0;
  getitem_3 \<leftarrow> py_nth split 1;
  getitem_4 \<leftarrow> py_nth split 2;
  view_1 \<leftarrow> t_view T getitem_2 [int s72, 16, 128];
  get_data_attr_2 \<leftarrow> t_get_data_attr T layers_2_self_attn_q_norm_weight;
  (to_6, h) \<leftarrow> t_to T view_1 Float32 h;
  (pow_3, h) \<leftarrow> t_pow N to_6 2 h;
  (mean_2, h) \<leftarrow> t_mean N pow_3 (-1) True h;
  (add_4, h) \<leftarrow> t_add_scalar N mean_2 (1 / 1000000) h;
  (rsqrt_2, h) \<leftarrow> t_rsqrt N add_4 h;
  (mul_5, h) \<leftarrow> t_mul T to_6 rsqrt_2 h;
  (to_7, h) \<leftarrow> t_to T mul_5 Float16 h;
  (mul_6, h) \<leftarrow> t_mul T to_7 get_data_attr_2 h;
  let size = sizes getitem_2;
  view_2 \<leftarrow> t_view T mul_6 (map int size);
  view_3 \<leftarrow> t_view T getitem_3 [int s72, 8, 128];
  get_data_attr_3 \<leftarrow> t_get_data_attr T layers_2_self_attn_k_norm_weight;
  (to_8, h) \<leftarrow> t_to T view_3 Float32 h;
  (pow_4, h) \<leftarrow> t_pow N to_8 2 h;
  (mean_3, h) \<leftarrow> t_mean N pow_4 (-1) True h;
  (add_5, h) \<leftarrow> t_add_scalar N mean_3 (1 / 1000000) h;
  (rsqrt_3, h) \<leftarrow> t_rsqrt N add_5 h;
  (mul_7, h) \<leftarrow> t_mul T to_8 rsqrt_3 h;
  (to_9, h) \<leftarrow> t_to T mul_7 Float16 h;
  (mul_8, h) \<leftarrow> t_mul T to_9 get_data_attr_3 h;
  let size_1 = sizes getitem_3;
  view_4 \<leftarrow> t_view T mul_8 (map int size_1);
  (flatten, h) \<leftarrow> t_flatten T l_positions h;
  (index_select, h) \<leftarrow> t_index_select T layers_0_self_attn_rotary_emb_cos_sin_cache 0
      flatten h;
  chunk \<leftarrow> t_chunk T index_select 2 (-1);
  getitem_5 \<leftarrow> py_nth chunk 0;
  getitem_6 \<leftarrow> py_nth chunk 1;
  let size_2 = sizes view_2;
  view_5 \<leftarrow> t_view T view_2 [int s72, -1, 128];
  getitem_7 \<leftarrow> t_getitem_last T view_5 None (Some 128);
  getitem_8 \<leftarrow> t_getitem_last T view_5 (Some 128) None;
  unsqueeze \<leftarrow> t_unsqueeze T getitem_5 (-2);
  (to_10, h) \<leftarrow> t_to T unsqueeze Float16 h;
  unsqueeze_1 \<leftarrow> t_unsqueeze T getitem_6 (-2);
  (to_11, h) \<leftarrow> t_to T unsqueeze_1 Float16 h;
  chunk_1 \<leftarrow> t_chunk T getitem_7 2 (-1);
  getitem_9 \<leftarrow> py_nth chunk_1 0;
  getitem_10 \<leftarrow> py_nth chunk_1 1;
  (mul_9, h) \<leftarrow> t_mul T getitem_9 to_10 h;
  (mul_10, h) \<leftarrow> t_mul T getitem_10 to_11 h;
  (sub, h) \<leftarrow> t_sub T mul_9 mul_10 h;
  (mul_11, h) \<leftarrow> t_mul T getitem_10 to_10 h;
  (mul_12, h) \<leftarrow> t_mul T getitem_9 to_11 h;
  (add_6, h) \<leftarrow> t_add T mul_11 mul_12 h;
  (cat, h) \<leftarrow> t_cat T [sub, add_6] (-1) h;
  (cat_1, h) \<leftarrow> t_cat T [cat, getitem_8] (-1) h;
  (reshape, h) \<leftarrow> t_reshape T cat_1 size_2 h;
  let size_3 = sizes view_4;
  view_6 \<leftarrow> t_view T view_4 [int s72, -1, 128];
  getitem_11 \<leftarrow> t_getitem_last T view_6 None (Some 128);
  getitem_12 \<leftarrow> t_getitem_last T view_6 (Some 128) None;
  unsqueeze_2 \<leftarrow> t_unsqueeze T getitem_5 (-2);
  (to_12, h) \<leftarrow> t_to T unsqueeze_2 Float16 h;
  unsqueeze_3 \<leftarrow> t_unsqueeze T getitem_6 (-2);
  (to_13, h) \<leftarrow> t_to T unsqueeze_3 Float16 h;
  chunk_2 \<leftarrow> t_chunk T getitem_11 2 (-1);
  getitem_13 \<leftarrow> py_nth chunk_2 0;
  getitem_14 \<leftarrow> py_nth chunk_2 1;
  (mul_13, h) \<leftarrow> t_mul T getitem_13 to_12 h;
  (mul_14, h) \<leftarrow> t_mul T getitem_14 to_13 h;
  (sub_1, h) \<leftarrow> t_sub T mul_13 mul_14 h;
  (mul_15, h) \<leftarrow> t_mul T getitem_14 to_12 h;
  (mul_16, h) \<leftarrow> t_mul T getitem_13 to_13 h;
  (add_7, h) \<leftarrow> t_add T mul_15 mul_16 h;
  (cat_2, h) \<leftarrow> t_cat T [sub_1, add_7] (-1) h;
  (cat_3, h) \<leftarrow> t_cat T [cat_2, getitem_12] (-1) h;
  (reshape_1, h) \<leftarrow> t_reshape T cat_3 size_3 h;
  let size_4 = [s72, 2048];
  (empty, h) \<leftarrow> t_empty T size_4 Float16 (''cuda'', 0) h;
  view_7 \<leftarrow> t_view T reshape [-1, 16, 128];
  view_8 \<leftarrow> t_view T empty [-1, 16, 128];
  view_9 \<leftarrow> t_view T reshape_1 [-1, 8, 128];
  view_10 \<leftarrow> t_view T getitem_4 [-1, 8, 128];
  Some ((view_7, view_9, view_10, view_8, to_4), h)}"

definition submod_5_qwen ::
  "('a, 'k) torch \<Rightarrow> ('a, 'k) native_ops \<Rightarrow>
   tensor \<Rightarrow> nat \<Rightarrow> tensor \<Rightarrow> tensor \<Rightarrow> tensor \<Rightarrow>
   ('a, 'k) store \<Rightarrow> (unit \<times> ('a, 'k) store) option" where
  "submod_5_qwen T N query_8 s72 key_8 value_2 output_11 h = do {
  h \<leftarrow> t_unified_attention_with_output T query_8 key_8 value_2 output_11
      ''model.layers.2.self_attn.attn'' h;
  Some ((), h)}"

definition submod_6_qwen ::
  "('a, 'k) torch \<Rightarrow> ('a, 'k) native_ops \<Rightarrow>
   tensor \<Rightarrow> nat \<Rightarrow> tensor \<Rightarrow> tensor \<Rightarrow> tensor \<Rightarrow> tensor \<Rightarrow> tensor \<Rightarrow> tensor \<Rightarrow> tensor \<Rightarrow> tensor \<Rightarrow> tensor \<Rightarrow> tensor \<Rightarrow> tensor \<Rightarrow>
   ('a, 'k) store \<Rightarrow> ((tensor \<times> tensor \<times> tensor \<times> tensor \<times> tensor) \<times> ('a, 'k) store) option" where
  "submod_6_qwen T N output_11 s72 layers_2_self_attn_o_proj_weight
      layers_2_post_attention_layernorm_weight residual_3 layers_2_mlp_gate_up_proj_weight
      layers_2_mlp_down_proj_weight layers_3_input_layernorm_weight
      layers_3_self_attn_qkv_proj_weight layers_3_self_attn_q_norm_weight
      layers_3_self_attn_k_norm_weight l_positions layers_0_self_attn_rotary_emb_cos_sin_cache h
      = do {
  view \<leftarrow> t_view T output_11 [-1, 2048];
  (linear, h) \<leftarrow> t_linear T view layers_2_self_attn_o_proj_weight None h;
  get_data_attr \<leftarrow> t_get_data_attr T layers_2_post_attention_layernorm_weight;
  (to, h) \<leftarrow> t_to T linear Float32 h;
  (add, h) \<leftarrow> t_add T to residual_3 h;
  (to_1, h) \<leftarrow> t_to T add Float16 h;
  (pow_1, h) \<leftarrow> t_pow N add 2 h;
  (mean, h) \<leftarrow> t_mean N pow_1 (-1) True h;
  (add_1, h) \<leftarrow> t_add_scalar N mean (1 / 1000000) h;
  (rsqrt, h) \<leftarrow> t_rsqrt N add_1 h;
  (mul, h) \<leftarrow> t_mul T add rsqrt h;
  (to_2, h) \<leftarrow> t_to T mul Float16 h;
  (mul_1, h) \<leftarrow> t_mul T to_2 get_data_attr h;
  (linear_1, h) \<leftarrow> t_linear T mul_1 layers_2_mlp_gate_up_proj_weight None h;
  getitem \<leftarrow> t_getitem_last T linear_1 None (Some 3072);
  (silu, h) \<leftarrow> t_silu N getitem h;
  getitem_1 \<leftarrow> t_getitem_last T linear_1 (Some 3072) None;
  (mul_2, h) \<leftarrow> t_mul T silu getitem_1 h;
  (linear_2, h) \<leftarrow> t_linear T mul_2 layers_2_mlp_down_proj_weight None h;
  get_data_attr_1 \<leftarrow> t_get_data_attr T layers_3_input_layernorm_weight;
  (to_3, h) \<leftarrow> t_to T linear_2 Float32 h;
  (add_2, h) \<leftarrow> t_add T to_3 to_1 h;
  (to_4, h) \<leftarrow> t_to T add_2 Float16 h;
  (pow_2, h) \<leftarrow> t_pow N add_2 2 h;
  (mean_1, h) \<leftarrow> t_mean N pow_2 (-1) True h;
  (add_3, h) \<leftarrow> t_add_scalar N mean_1 (1 / 1000000) h;
  (rsqrt_1, h) \<leftarrow> t_rsqrt N add_3 h;
  (mul_3, h) \<leftarrow> t_mul T add_2 rsqrt_1 h;
  (to_5, h) \<leftarrow> t_to T mul_3 Float16 h;
  (mul_4, h) \<leftarrow> t_mul T to_5 get_data_attr_1 h;
  (linear_3, h) \<leftarrow> t_linear T mul_4 layers_3_self_attn_qkv_proj_weight None h;
  split \<leftarrow> t_split T linear_3 [2048, 1024, 1024] (-1);
  getitem_2 \<leftarrow> py_nth split 0;
  getitem_3 \<leftarrow> py_nth split 1;
  getitem_4 \<leftarrow> py_nth split 2;
  view_1 \<leftarrow> t_view T getitem_2 [int s72, 16, 128];
  get_data_attr_2 \<leftarrow> t_get_data_attr T layers_3_self_attn_q_norm_weight;
  (to_6, h) \<leftarrow> t_to T view_1 Float32 h;
  (pow_3, h) \<leftarrow> t_pow N to_6 2 h;
  (mean_2, h) \<leftarrow> t_mean N pow_3 (-1) True h;
  (add_4, h) \<leftarrow> t_add_scalar N mean_2 (1 / 1000000) h;
  (rsqrt_2, h) \<leftarrow> t_rsqrt N add_4 h;
  (mul_5, h) \<leftarrow> t_mul T to_6 rsqrt_2 h;
  (to_7, h) \<leftarrow> t_to T mul_5 Float16 h;
  (mul_6, h) \<leftarrow> t_mul T to_7 get_data_attr_2 h;
  let size = sizes getitem_2;
  view_2 \<leftarrow> t_view T mul_6 (map int size);
  view_3 \<leftarrow> t_view T getitem_3 [int s72, 8, 128];
  get_data_attr_3 \<leftarrow> t_get_data_attr T layers_3_self_attn_k_norm_weight;
  (to_8, h) \<leftarrow> t_to T view_3 Float32 h;
  (pow_4, h) \<leftarrow> t_pow N to_8 2 h;
  (mean_3, h) \<leftarrow> t_mean N pow_4 (-1) True h;
  (add_5, h) \<leftarrow> t_add_scalar N mean_3 (1 / 1000000) h;
  (rsqrt_3, h) \<leftarrow> t_rsqrt N add_5 h;
  (mul_7, h) \<leftarrow> t_mul T to_8 rsqrt_3 h;
  (to_9, h) \<leftarrow> t_to T mul_7 Float16 h;
  (mul_8, h) \<leftarrow> t_mul T to_9 get_data_attr_3 h;
  let size_1 = sizes getitem_3;
  view_4 \<leftarrow> t_view T mul_8 (map int size_1);
  (flatten, h) \<leftarrow> t_flatten T l_positions h;
  (index_select, h) \<leftarrow> t_index_select T layers_0_self_attn_rotary_emb_cos_sin_cache 0
      flatten h;
  chunk \<leftarrow> t_chunk T index_select 2 (-1);
  getitem_5 \<leftarrow> py_nth chunk 0;
  getitem_6 \<leftarrow> py_nth chunk 1;
  let size_2 = sizes view_2;
  view_5 \<leftarrow> t_view T view_2 [int s72, -1, 128];
  getitem_7 \<leftarrow> t_getitem_last T view_5 None (Some 128);
  getitem_8 \<leftarrow> t_getitem_last T view_5 (Some 128) None;
  unsqueeze \<leftarrow> t_unsqueeze T getitem_5 (-2);
  (to_10, h) \<leftarrow> t_to T unsqueeze Float16 h;
  unsqueeze_1 \<leftarrow> t_unsqueeze T getitem_6 (-2);
  (to_11, h) \<leftarrow> t_to T unsqueeze_1 Float16 h;
  chunk_1 \<leftarrow> t_chunk T getitem_7 2 (-1);
  getitem_9 \<leftarrow> py_nth chunk_1 0;
  getitem_10 \<leftarrow> py_nth chunk_1 1;
  (mul_9, h) \<leftarrow> t_mul T getitem_9 to_10 h;
  (mul_10, h) \<leftarrow> t_mul T getitem_10 to_11 h;
  (sub, h) \<leftarrow> t_sub T mul_9 mul_10 h;
  (mul_11, h) \<leftarrow> t_mul T getitem_10 to_10 h;
  (mul_12, h) \<leftarrow> t_mul T getitem_9 to_11 h;
  (add_6, h) \<leftarrow> t_add T mul_11 mul_12 h;
  (cat, h) \<leftarrow> t_cat T [sub, add_6] (-1) h;
  (cat_1, h) \<leftarrow> t_cat T [cat, getitem_8] (-1) h;
  (reshape, h) \<leftarrow> t_reshape T cat_1 size_2 h;
  let size_3 = sizes view_4;
  view_6 \<leftarrow> t_view T view_4 [int s72, -1, 128];
  getitem_11 \<leftarrow> t_getitem_last T view_6 None (Some 128);
  getitem_12 \<leftarrow> t_getitem_last T view_6 (Some 128) None;
  unsqueeze_2 \<leftarrow> t_unsqueeze T getitem_5 (-2);
  (to_12, h) \<leftarrow> t_to T unsqueeze_2 Float16 h;
  unsqueeze_3 \<leftarrow> t_unsqueeze T getitem_6 (-2);
  (to_13, h) \<leftarrow> t_to T unsqueeze_3 Float16 h;
  chunk_2 \<leftarrow> t_chunk T getitem_11 2 (-1);
  getitem_13 \<leftarrow> py_nth chunk_2 0;
  getitem_14 \<leftarrow> py_nth chunk_2 1;
  (mul_13, h) \<leftarrow> t_mul T getitem_13 to_12 h;
  (mul_14, h) \<leftarrow> t_mul T getitem_14 to_13 h;
  (sub_1, h) \<leftarrow> t_sub T mul_13 mul_14 h;
  (mul_15, h) \<leftarrow> t_mul T getitem_14 to_12 h;
  (mul_16, h) \<leftarrow> t_mul T getitem_13 to_13 h;
  (add_7, h) \<leftarrow> t_add T mul_15 mul_16 h;
  (cat_2, h) \<leftarrow> t_cat T [sub_1, add_7] (-1) h;
  (cat_3, h) \<leftarrow> t_cat T [cat_2, getitem_12] (-1) h;
  (reshape_1, h) \<leftarrow> t_reshape T cat_3 size_3 h;
  let size_4 = [s72, 2048];
  (empty, h) \<leftarrow> t_empty T size_4 Float16 (''cuda'', 0) h;
  view_7 \<leftarrow> t_view T reshape [-1, 16, 128];
  view_8 \<leftarrow> t_view T empty [-1, 16, 128];
  view_9 \<leftarrow> t_view T reshape_1 [-1, 8, 128];
  view_10 \<leftarrow> t_view T getitem_4 [-1, 8, 128];
  Some ((view_7, view_9, view_10, view_8, to_4), h)}"

definition submod_7_qwen ::
  "('a, 'k) torch \<Rightarrow> ('a, 'k) native_ops \<Rightarrow>
   tensor \<Rightarrow> nat \<Rightarrow> tensor \<Rightarrow> tensor \<Rightarrow> tensor \<Rightarrow>
   ('a, 'k) store \<Rightarrow> (unit \<times> ('a, 'k) store) option" where
  "submod_7_qwen T N query_11 s72 key_11 value_3 output_15 h = do {
  h \<leftarrow> t_unified_attention_with_output T query_11 key_11 value_3 output_15
      ''model.layers.3.self_attn.attn'' h;
  Some ((), h)}"

definition submod_8_qwen ::
  "('a, 'k) torch \<Rightarrow> ('a, 'k) native_ops \<Rightarrow>
   tensor \<Rightarrow> nat \<Rightarrow> tensor \<Rightarrow> tensor \<Rightarrow> tensor \<Rightarrow> tensor \<Rightarrow> tensor \<Rightarrow> tensor \<Rightarrow> tensor \<Rightarrow> tensor \<Rightarrow> tensor \<Rightarrow> tensor \<Rightarrow> tensor \<Rightarrow>
   ('a, 'k) store \<Rightarrow> ((tensor \<times> tensor \<times> tensor \<times> tensor \<times> tensor) \<times> ('a, 'k) store) option" where
  "submod_8_qwen T N output_15 s72 layers_3_self_attn_o_proj_weight
      layers_3_post_attention_layernorm_weight residual_5 layers_3_mlp_gate_up_proj_weight
      layers_3_mlp_down_proj_weight layers_4_input_layernorm_weight
      layers_4_self_attn_qkv_proj_weight layers_4_self_attn_q_norm_weight
      layers_4_self_attn_k_norm_weight l_positions layers_0_self_attn_rotary_emb_cos_sin_cache h
      = do {
  view \<leftarrow> t_view T output_15 [-1, 2048];
  (linear, h) \<leftarrow> t_linear T view layers_3_self_attn_o_proj_weight None h;
  get_data_attr \<leftarrow> t_get_data_attr T layers_3_post_attention_layernorm_weight;
  (to, h) \<leftarrow> t_to T linear Float32 h;
  (add, h) \<leftarrow> t_add T to residual_5 h;
  (to_1, h) \<leftarrow> t_to T add Float16 h;
  (pow_1, h) \<leftarrow> t_pow N add 2 h;
  (mean, h) \<leftarrow> t_mean N pow_1 (-1) True h;
  (add_1, h) \<leftarrow> t_add_scalar N mean (1 / 1000000) h;
  (rsqrt, h) \<leftarrow> t_rsqrt N add_1 h;
  (mul, h) \<leftarrow> t_mul T add rsqrt h;
  (to_2, h) \<leftarrow> t_to T mul Float16 h;
  (mul_1, h) \<leftarrow> t_mul T to_2 get_data_attr h;
  (linear_1, h) \<leftarrow> t_linear T mul_1 layers_3_mlp_gate_up_proj_weight None h;
  getitem \<leftarrow> t_getitem_last T linear_1 None (Some 3072);
  (silu, h) \<leftarrow> t_silu N getitem h;
  getitem_1 \<leftarrow> t_getitem_last T linear_1 (Some 3072) None;
  (mul_2, h) \<leftarrow> t_mul T silu getitem_1 h;
  (linear_2, h) \<leftarrow> t_linear T mul_2 layers_3_mlp_down_proj_weight None h;
  get_data_attr_1 \<leftarrow> t_get_data_attr T layers_4_input_layernorm_weight;
  (to_3, h) \<leftarrow> t_to T linear_2 Float32 h;
  (add_2, h) \<leftarrow> t_add T to_3 to_1 h;
  (to_4, h) \<leftarrow> t_to T add_2 Float16 h;
  (pow_2, h) \<leftarrow> t_pow N add_2 2 h;
  (mean_1, h) \<leftarrow> t_mean N pow_2 (-1) True h;
  (add_3, h) \<leftarrow> t_add_scalar N mean_1 (1 / 1000000) h;
  (rsqrt_1, h) \<leftarrow> t_rsqrt N add_3 h;
  (mul_3, h) \<leftarrow> t_mul T add_2 rsqrt_1 h;
  (to_5, h) \<leftarrow> t_to T mul_3 Float16 h;
  (mul_4, h) \<leftarrow> t_mul T to_5 get_data_attr_1 h;
  (linear_3, h) \<leftarrow> t_linear T mul_4 layers_4_self_attn_qkv_proj_weight None h;
  split \<leftarrow> t_split T linear_3 [2048, 1024, 1024] (-1);
  getitem_2 \<leftarrow> py_nth split 0;
  getitem_3 \<leftarrow> py_nth split 1;
  getitem_4 \<leftarrow> py_nth split 2;
  view_1 \<leftarrow> t_view T getitem_2 [int s72, 16, 128];
  get_data_attr_2 \<leftarrow> t_get_data_attr T layers_4_self_attn_q_norm_weight;
  (to_6, h) \<leftarrow> t_to T view_1 Float32 h;
  (pow_3, h) \<leftarrow> t_pow N to_6 2 h;
  (mean_2, h) \<leftarrow> t_mean N pow_3 (-1) True h;
  (add_4, h) \<leftarrow> t_add_scalar N mean_2 (1 / 1000000) h;
  (rsqrt_2, h) \<leftarrow> t_rsqrt N add_4 h;
  (mul_5, h) \<leftarrow> t_mul T to_6 rsqrt_2 h;
  (to_7, h) \<leftarrow> t_to T mul_5 Float16 h;
  (mul_6, h) \<leftarrow> t_mul T to_7 get_data_attr_2 h;
  let size = sizes getitem_2;
  view_2 \<leftarrow> t_view T mul_6 (map int size);
  view_3 \<leftarrow> t_view T getitem_3 [int s72, 8, 128];
  get_data_attr_3 \<leftarrow> t_get_data_attr T layers_4_self_attn_k_norm_weight;
  (to_8, h) \<leftarrow> t_to T view_3 Float32 h;
  (pow_4, h) \<leftarrow> t_pow N to_8 2 h;
  (mean_3, h) \<leftarrow> t_mean N pow_4 (-1) True h;
  (add_5, h) \<leftarrow> t_add_scalar N mean_3 (1 / 1000000) h;
  (rsqrt_3, h) \<leftarrow> t_rsqrt N add_5 h;
  (mul_7, h) \<leftarrow> t_mul T to_8 rsqrt_3 h;
  (to_9, h) \<leftarrow> t_to T mul_7 Float16 h;
  (mul_8, h) \<leftarrow> t_mul T to_9 get_data_attr_3 h;
  let size_1 = sizes getitem_3;
  view_4 \<leftarrow> t_view T mul_8 (map int size_1);
  (flatten, h) \<leftarrow> t_flatten T l_positions h;
  (index_select, h) \<leftarrow> t_index_select T layers_0_self_attn_rotary_emb_cos_sin_cache 0
      flatten h;
  chunk \<leftarrow> t_chunk T index_select 2 (-1);
  getitem_5 \<leftarrow> py_nth chunk 0;
  getitem_6 \<leftarrow> py_nth chunk 1;
  let size_2 = sizes view_2;
  view_5 \<leftarrow> t_view T view_2 [int s72, -1, 128];
  getitem_7 \<leftarrow> t_getitem_last T view_5 None (Some 128);
  getitem_8 \<leftarrow> t_getitem_last T view_5 (Some 128) None;
  unsqueeze \<leftarrow> t_unsqueeze T getitem_5 (-2);
  (to_10, h) \<leftarrow> t_to T unsqueeze Float16 h;
  unsqueeze_1 \<leftarrow> t_unsqueeze T getitem_6 (-2);
  (to_11, h) \<leftarrow> t_to T unsqueeze_1 Float16 h;
  chunk_1 \<leftarrow> t_chunk T getitem_7 2 (-1);
  getitem_9 \<leftarrow> py_nth chunk_1 0;
  getitem_10 \<leftarrow> py_nth chunk_1 1;
  (mul_9, h) \<leftarrow> t_mul T getitem_9 to_10 h;
  (mul_10, h) \<leftarrow> t_mul T getitem_10 to_11 h;
  (sub, h) \<leftarrow> t_sub T mul_9 mul_10 h;
  (mul_11, h) \<leftarrow> t_mul T getitem_10 to_10 h;
  (mul_12, h) \<leftarrow> t_mul T getitem_9 to_11 h;
  (add_6, h) \<leftarrow> t_add T mul_11 mul_12 h;
  (cat, h) \<leftarrow> t_cat T [sub, add_6] (-1) h;
  (cat_1, h) \<leftarrow> t_cat T [cat, getitem_8] (-1) h;
  (reshape, h) \<leftarrow> t_reshape T cat_1 size_2 h;
  let size_3 = sizes view_4;
  view_6 \<leftarrow> t_view T view_4 [int s72, -1, 128];
  getitem_11 \<leftarrow> t_getitem_last T view_6 None (Some 128);
  getitem_12 \<leftarrow> t_getitem_last T view_6 (Some 128) None;
  unsqueeze_2 \<leftarrow> t_unsqueeze T getitem_5 (-2);
  (to_12, h) \<leftarrow> t_to T unsqueeze_2 Float16 h;
  unsqueeze_3 \<leftarrow> t_unsqueeze T getitem_6 (-2);
  (to_13, h) \<leftarrow> t_to T unsqueeze_3 Float16 h;
  chunk_2 \<leftarrow> t_chunk T getitem_11 2 (-1);
  getitem_13 \<leftarrow> py_nth chunk_2 0;
  getitem_14 \<leftarrow> py_nth chunk_2 1;
  (mul_13, h) \<leftarrow> t_mul T getitem_13 to_12 h;
  (mul_14, h) \<leftarrow> t_mul T getitem_14 to_13 h;
  (sub_1, h) \<leftarrow> t_sub T mul_13 mul_14 h;
  (mul_15, h) \<leftarrow> t_mul T getitem_14 to_12 h;
  (mul_16, h) \<leftarrow> t_mul T getitem_13 to_13 h;
  (add_7, h) \<leftarrow> t_add T mul_15 mul_16 h;
  (cat_2, h) \<leftarrow> t_cat T [sub_1, add_7] (-1) h;
  (cat_3, h) \<leftarrow> t_cat T [cat_2, getitem_12] (-1) h;
  (reshape_1, h) \<leftarrow> t_reshape T cat_3 size_3 h;
  let size_4 = [s72, 2048];
  (empty, h) \<leftarrow> t_empty T size_4 Float16 (''cuda'', 0) h;
  view_7 \<leftarrow> t_view T reshape [-1, 16, 128];
  view_8 \<leftarrow> t_view T empty [-1, 16, 128];
  view_9 \<leftarrow> t_view T reshape_1 [-1, 8, 128];
  view_10 \<leftarrow> t_view T getitem_4 [-1, 8, 128];
  Some ((view_7, view_9, view_10, view_8, to_4), h)}"

definition submod_9_qwen ::
  "('a, 'k) torch \<Rightarrow> ('a, 'k) native_ops \<Rightarrow>
   tensor \<Rightarrow> nat \<Rightarrow> tensor \<Rightarrow> tensor \<Rightarrow> tensor \<Rightarrow>
   ('a, 'k) store \<Rightarrow> (unit \<times> ('a, 'k) store) option" where
  "submod_9_qwen T N query_14 s72 key_14 value_4 output_19 h = do {
  h \<leftarrow> t_unified_attention_with_output T query_14 key_14 value_4 output_19
      ''model.layers.4.self_attn.attn'' h;
  Some ((), h)}"

definition submod_10_qwen ::
  "('a, 'k) torch \<Rightarrow> ('a, 'k) native_ops \<Rightarrow>
   tensor \<Rightarrow> nat \<Rightarrow> tensor \<Rightarrow> tensor \<Rightarrow> tensor \<Rightarrow> tensor \<Rightarrow> tensor \<Rightarrow> tensor \<Rightarrow> tensor \<Rightarrow> tensor \<Rightarrow> tensor \<Rightarrow> tensor \<Rightarrow> tensor \<Rightarrow>
   ('a, 'k) store \<Rightarrow> ((tensor \<times> tensor \<times> tensor \<times> tensor \<times> tensor) \<times> ('a, 'k) store) option" where
  "submod_10_qwen T N output_19 s72 layers_4_self_attn_o_proj_weight
      layers_4_post_attention_layernorm_weight residual_7 layers_4_mlp_gate_up_proj_weight
      layers_4_mlp_down_proj_weight layers_5_input_layernorm_weight
      layers_5_self_attn_qkv_proj_weight layers_5_self_attn_q_norm_weight
      layers_5_self_attn_k_norm_weight l_positions layers_0_self_attn_rotary_emb_cos_sin_cache h
      = do {
  view \<leftarrow> t_view T output_19 [-1, 2048];
  (linear, h) \<leftarrow> t_linear T view layers_4_self_attn_o_proj_weight None h;
  get_data_attr \<leftarrow> t_get_data_attr T layers_4_post_attention_layernorm_weight;
  (to, h) \<leftarrow> t_to T linear Float32 h;
  (add, h) \<leftarrow> t_add T to residual_7 h;
  (to_1, h) \<leftarrow> t_to T add Float16 h;
  (pow_1, h) \<leftarrow> t_pow N add 2 h;
  (mean, h) \<leftarrow> t_mean N pow_1 (-1) True h;
  (add_1, h) \<leftarrow> t_add_scalar N mean (1 / 1000000) h;
  (rsqrt, h) \<leftarrow> t_rsqrt N add_1 h;
  (mul, h) \<leftarrow> t_mul T add rsqrt h;
  (to_2, h) \<leftarrow> t_to T mul Float16 h;
  (mul_1, h) \<leftarrow> t_mul T to_2 get_data_attr h;
  (linear_1, h) \<leftarrow> t_linear T mul_1 layers_4_mlp_gate_up_proj_weight None h;
  getitem \<leftarrow> t_getitem_last T linear_1 None (Some 3072);
  (silu, h) \<leftarrow> t_silu N getitem h;
  getitem_1 \<leftarrow> t_getitem_last T linear_1 (Some 3072) None;
  (mul_2, h) \<leftarrow> t_mul T silu getitem_1 h;
  (linear_2, h) \<leftarrow> t_linear T mul_2 layers_4_mlp_down_proj_weight None h;
  get_data_attr_1 \<leftarrow> t_get_data_attr T layers_5_input_layernorm_weight;
  (to_3, h) \<leftarrow> t_to T linear_2 Float32 h;
  (add_2, h) \<leftarrow> t_add T to_3 to_1 h;
  (to_4, h) \<leftarrow> t_to T add_2 Float16 h;
  (pow_2, h) \<leftarrow> t_pow N add_2 2 h;
  (mean_1, h) \<leftarrow> t_mean N pow_2 (-1) True h;
  (add_3, h) \<leftarrow> t_add_scalar N mean_1 (1 / 1000000) h;
  (rsqrt_1, h) \<leftarrow> t_rsqrt N add_3 h;
  (mul_3, h) \<leftarrow> t_mul T add_2 rsqrt_1 h;
  (to_5, h) \<leftarrow> t_to T mul_3 Float16 h;
  (mul_4, h) \<leftarrow> t_mul T to_5 get_data_attr_1 h;
  (linear_3, h) \<leftarrow> t_linear T mul_4 layers_5_self_attn_qkv_proj_weight None h;
  split \<leftarrow> t_split T linear_3 [2048, 1024, 1024] (-1);
  getitem_2 \<leftarrow> py_nth split 0;
  getitem_3 \<leftarrow> py_nth split 1;
  getitem_4 \<leftarrow> py_nth split 2;
  view_1 \<leftarrow> t_view T getitem_2 [int s72, 16, 128];
  get_data_attr_2 \<leftarrow> t_get_data_attr T layers_5_self_attn_q_norm_weight;
  (to_6, h) \<leftarrow> t_to T view_1 Float32 h;
  (pow_3, h) \<leftarrow> t_pow N to_6 2 h;
  (mean_2, h) \<leftarrow> t_mean N pow_3 (-1) True h;
  (add_4, h) \<leftarrow> t_add_scalar N mean_2 (1 / 1000000) h;
  (rsqrt_2, h) \<leftarrow> t_rsqrt N add_4 h;
  (mul_5, h) \<leftarrow> t_mul T to_6 rsqrt_2 h;
  (to_7, h) \<leftarrow> t_to T mul_5 Float16 h;
  (mul_6, h) \<leftarrow> t_mul T to_7 get_data_attr_2 h;
  let size = sizes getitem_2;
  view_2 \<leftarrow> t_view T mul_6 (map int size);
  view_3 \<leftarrow> t_view T getitem_3 [int s72, 8, 128];
  get_data_attr_3 \<leftarrow> t_get_data_attr T layers_5_self_attn_k_norm_weight;
  (to_8, h) \<leftarrow> t_to T view_3 Float32 h;
  (pow_4, h) \<leftarrow> t_pow N to_8 2 h;
  (mean_3, h) \<leftarrow> t_mean N pow_4 (-1) True h;
  (add_5, h) \<leftarrow> t_add_scalar N mean_3 (1 / 1000000) h;
  (rsqrt_3, h) \<leftarrow> t_rsqrt N add_5 h;
  (mul_7, h) \<leftarrow> t_mul T to_8 rsqrt_3 h;
  (to_9, h) \<leftarrow> t_to T mul_7 Float16 h;
  (mul_8, h) \<leftarrow> t_mul T to_9 get_data_attr_3 h;
  let size_1 = sizes getitem_3;
  view_4 \<leftarrow> t_view T mul_8 (map int size_1);
  (flatten, h) \<leftarrow> t_flatten T l_positions h;
  (index_select, h) \<leftarrow> t_index_select T layers_0_self_attn_rotary_emb_cos_sin_cache 0
      flatten h;
  chunk \<leftarrow> t_chunk T index_select 2 (-1);
  getitem_5 \<leftarrow> py_nth chunk 0;
  getitem_6 \<leftarrow> py_nth chunk 1;
  let size_2 = sizes view_2;
  view_5 \<leftarrow> t_view T view_2 [int s72, -1, 128];
  getitem_7 \<leftarrow> t_getitem_last T view_5 None (Some 128);
  getitem_8 \<leftarrow> t_getitem_last T view_5 (Some 128) None;
  unsqueeze \<leftarrow> t_unsqueeze T getitem_5 (-2);
  (to_10, h) \<leftarrow> t_to T unsqueeze Float16 h;
  unsqueeze_1 \<leftarrow> t_unsqueeze T getitem_6 (-2);
  (to_11, h) \<leftarrow> t_to T unsqueeze_1 Float16 h;
  chunk_1 \<leftarrow> t_chunk T getitem_7 2 (-1);
  getitem_9 \<leftarrow> py_nth chunk_1 0;
  getitem_10 \<leftarrow> py_nth chunk_1 1;
  (mul_9, h) \<leftarrow> t_mul T getitem_9 to_10 h;
  (mul_10, h) \<leftarrow> t_mul T getitem_10 to_11 h;
  (sub, h) \<leftarrow> t_sub T mul_9 mul_10 h;
  (mul_11, h) \<leftarrow> t_mul T getitem_10 to_10 h;
  (mul_12, h) \<leftarrow> t_mul T getitem_9 to_11 h;
  (add_6, h) \<leftarrow> t_add T mul_11 mul_12 h;
  (cat, h) \<leftarrow> t_cat T [sub, add_6] (-1) h;
  (cat_1, h) \<leftarrow> t_cat T [cat, getitem_8] (-1) h;
  (reshape, h) \<leftarrow> t_reshape T cat_1 size_2 h;
  let size_3 = sizes view_4;
  view_6 \<leftarrow> t_view T view_4 [int s72, -1, 128];
  getitem_11 \<leftarrow> t_getitem_last T view_6 None (Some 128);
  getitem_12 \<leftarrow> t_getitem_last T view_6 (Some 128) None;
  unsqueeze_2 \<leftarrow> t_unsqueeze T getitem_5 (-2);
  (to_12, h) \<leftarrow> t_to T unsqueeze_2 Float16 h;
  unsqueeze_3 \<leftarrow> t_unsqueeze T getitem_6 (-2);
  (to_13, h) \<leftarrow> t_to T unsqueeze_3 Float16 h;
  chunk_2 \<leftarrow> t_chunk T getitem_11 2 (-1);
  getitem_13 \<leftarrow> py_nth chunk_2 0;
  getitem_14 \<leftarrow> py_nth chunk_2 1;
  (mul_13, h) \<leftarrow> t_mul T getitem_13 to_12 h;
  (mul_14, h) \<leftarrow> t_mul T getitem_14 to_13 h;
  (sub_1, h) \<leftarrow> t_sub T mul_13 mul_14 h;
  (mul_15, h) \<leftarrow> t_mul T getitem_14 to_12 h;
  (mul_16, h) \<leftarrow> t_mul T getitem_13 to_13 h;
  (add_7, h) \<leftarrow> t_add T mul_15 mul_16 h;
  (cat_2, h) \<leftarrow> t_cat T [sub_1, add_7] (-1) h;
  (cat_3, h) \<leftarrow> t_cat T [cat_2, getitem_12] (-1) h;
  (reshape_1, h) \<leftarrow> t_reshape T cat_3 size_3 h;
  let size_4 = [s72, 2048];
  (empty, h) \<leftarrow> t_empty T size_4 Float16 (''cuda'', 0) h;
  view_7 \<leftarrow> t_view T reshape [-1, 16, 128];
  view_8 \<leftarrow> t_view T empty [-1, 16, 128];
  view_9 \<leftarrow> t_view T reshape_1 [-1, 8, 128];
  view_10 \<leftarrow> t_view T getitem_4 [-1, 8, 128];
  Some ((view_7, view_9, view_10, view_8, to_4), h)}"

definition submod_11_qwen ::
  "('a, 'k) torch \<Rightarrow> ('a, 'k) native_ops \<Rightarrow>
   tensor \<Rightarrow> nat \<Rightarrow> tensor \<Rightarrow> tensor \<Rightarrow> tensor \<Rightarrow>
   ('a, 'k) store \<Rightarrow> (unit \<times> ('a, 'k) store) option" where
  "submod_11_qwen T N query_17 s72 key_17 value_5 output_23 h = do {
  h \<leftarrow> t_unified_attention_with_output T query_17 key_17 value_5 output_23
      ''model.layers.5.self_attn.attn'' h;
  Some ((), h)}"

definition submod_12_qwen ::
  "('a, 'k) torch \<Rightarrow> ('a, 'k) native_ops \<Rightarrow>
   tensor \<Rightarrow> nat \<Rightarrow> tensor \<Rightarrow> tensor \<Rightarrow> tensor \<Rightarrow> tensor \<Rightarrow> tensor \<Rightarrow> tensor \<Rightarrow> tensor \<Rightarrow> tensor \<Rightarrow> tensor \<Rightarrow> tensor \<Rightarrow> tensor \<Rightarrow>
   ('a, 'k) store \<Rightarrow> ((tensor \<times> tensor \<times> tensor \<times> tensor \<times> tensor) \<times> ('a, 'k) store) option" where
  "submod_12_qwen T N output_23 s72 layers_5_self_attn_o_proj_weight
      layers_5_post_attention_layernorm_weight residual_9 layers_5_mlp_gate_up_proj_weight
      layers_5_mlp_down_proj_weight layers_6_input_layernorm_weight
      layers_6_self_attn_qkv_proj_weight layers_6_self_attn_q_norm_weight
      layers_6_self_attn_k_norm_weight l_positions layers_0_self_attn_rotary_emb_cos_sin_cache h
      = do {
  view \<leftarrow> t_view T output_23 [-1, 2048];
  (linear, h) \<leftarrow> t_linear T view layers_5_self_attn_o_proj_weight None h;
  get_data_attr \<leftarrow> t_get_data_attr T layers_5_post_attention_layernorm_weight;
  (to, h) \<leftarrow> t_to T linear Float32 h;
  (add, h) \<leftarrow> t_add T to residual_9 h;
  (to_1, h) \<leftarrow> t_to T add Float16 h;
  (pow_1, h) \<leftarrow> t_pow N add 2 h;
  (mean, h) \<leftarrow> t_mean N pow_1 (-1) True h;
  (add_1, h) \<leftarrow> t_add_scalar N mean (1 / 1000000) h;
  (rsqrt, h) \<leftarrow> t_rsqrt N add_1 h;
  (mul, h) \<leftarrow> t_mul T add rsqrt h;
  (to_2, h) \<leftarrow> t_to T mul Float16 h;
  (mul_1, h) \<leftarrow> t_mul T to_2 get_data_attr h;
  (linear_1, h) \<leftarrow> t_linear T mul_1 layers_5_mlp_gate_up_proj_weight None h;
  getitem \<leftarrow> t_getitem_last T linear_1 None (Some 3072);
  (silu, h) \<leftarrow> t_silu N getitem h;
  getitem_1 \<leftarrow> t_getitem_last T linear_1 (Some 3072) None;
  (mul_2, h) \<leftarrow> t_mul T silu getitem_1 h;
  (linear_2, h) \<leftarrow> t_linear T mul_2 layers_5_mlp_down_proj_weight None h;
  get_data_attr_1 \<leftarrow> t_get_data_attr T layers_6_input_layernorm_weight;
  (to_3, h) \<leftarrow> t_to T linear_2 Float32 h;
  (add_2, h) \<leftarrow> t_add T to_3 to_1 h;
  (to_4, h) \<leftarrow> t_to T add_2 Float16 h;
  (pow_2, h) \<leftarrow> t_pow N add_2 2 h;
  (mean_1, h) \<leftarrow> t_mean N pow_2 (-1) True h;
  (add_3, h) \<leftarrow> t_add_scalar N mean_1 (1 / 1000000) h;
  (rsqrt_1, h) \<leftarrow> t_rsqrt N add_3 h;
  (mul_3, h) \<leftarrow> t_mul T add_2 rsqrt_1 h;
  (to_5, h) \<leftarrow> t_to T mul_3 Float16 h;
  (mul_4, h) \<leftarrow> t_mul T to_5 get_data_attr_1 h;
  (linear_3, h) \<leftarrow> t_linear T mul_4 layers_6_self_attn_qkv_proj_weight None h;
  split \<leftarrow> t_split T linear_3 [2048, 1024, 1024] (-1);
  getitem_2 \<leftarrow> py_nth split 0;
  getitem_3 \<leftarrow> py_nth split 1;
  getitem_4 \<leftarrow> py_nth split 2;
  view_1 \<leftarrow> t_view T getitem_2 [int s72, 16, 128];
  get_data_attr_2 \<leftarrow> t_get_data_attr T layers_6_self_attn_q_norm_weight;
  (to_6, h) \<leftarrow> t_to T view_1 Float32 h;
  (pow_3, h) \<leftarrow> t_pow N to_6 2 h;
  (mean_2, h) \<leftarrow> t_mean N pow_3 (-1) True h;
  (add_4, h) \<leftarrow> t_add_scalar N mean_2 (1 / 1000000) h;
  (rsqrt_2, h) \<leftarrow> t_rsqrt N add_4 h;
  (mul_5, h) \<leftarrow> t_mul T to_6 rsqrt_2 h;
  (to_7, h) \<leftarrow> t_to T mul_5 Float16 h;
  (mul_6, h) \<leftarrow> t_mul T to_7 get_data_attr_2 h;
  let size = sizes getitem_2;
  view_2 \<leftarrow> t_view T mul_6 (map int size);
  view_3 \<leftarrow> t_view T getitem_3 [int s72, 8, 128];
  get_data_attr_3 \<leftarrow> t_get_data_attr T layers_6_self_attn_k_norm_weight;
  (to_8, h) \<leftarrow> t_to T view_3 Float32 h;
  (pow_4, h) \<leftarrow> t_pow N to_8 2 h;
  (mean_3, h) \<leftarrow> t_mean N pow_4 (-1) True h;
  (add_5, h) \<leftarrow> t_add_scalar N mean_3 (1 / 1000000) h;
  (rsqrt_3, h) \<leftarrow> t_rsqrt N add_5 h;
  (mul_7, h) \<leftarrow> t_mul T to_8 rsqrt_3 h;
  (to_9, h) \<leftarrow> t_to T mul_7 Float16 h;
  (mul_8, h) \<leftarrow> t_mul T to_9 get_data_attr_3 h;
  let size_1 = sizes getitem_3;
  view_4 \<leftarrow> t_view T mul_8 (map int size_1);
  (flatten, h) \<leftarrow> t_flatten T l_positions h;
  (index_select, h) \<leftarrow> t_index_select T layers_0_self_attn_rotary_emb_cos_sin_cache 0
      flatten h;
  chunk \<leftarrow> t_chunk T index_select 2 (-1);
  getitem_5 \<leftarrow> py_nth chunk 0;
  getitem_6 \<leftarrow> py_nth chunk 1;
  let size_2 = sizes view_2;
  view_5 \<leftarrow> t_view T view_2 [int s72, -1, 128];
  getitem_7 \<leftarrow> t_getitem_last T view_5 None (Some 128);
  getitem_8 \<leftarrow> t_getitem_last T view_5 (Some 128) None;
  unsqueeze \<leftarrow> t_unsqueeze T getitem_5 (-2);
  (to_10, h) \<leftarrow> t_to T unsqueeze Float16 h;
  unsqueeze_1 \<leftarrow> t_unsqueeze T getitem_6 (-2);
  (to_11, h) \<leftarrow> t_to T unsqueeze_1 Float16 h;
  chunk_1 \<leftarrow> t_chunk T getitem_7 2 (-1);
  getitem_9 \<leftarrow> py_nth chunk_1 0;
  getitem_10 \<leftarrow> py_nth chunk_1 1;
  (mul_9, h) \<leftarrow> t_mul T getitem_9 to_10 h;
  (mul_10, h) \<leftarrow> t_mul T getitem_10 to_11 h;
  (sub, h) \<leftarrow> t_sub T mul_9 mul_10 h;
  (mul_11, h) \<leftarrow> t_mul T getitem_10 to_10 h;
  (mul_12, h) \<leftarrow> t_mul T getitem_9 to_11 h;
  (add_6, h) \<leftarrow> t_add T mul_11 mul_12 h;
  (cat, h) \<leftarrow> t_cat T [sub, add_6] (-1) h;
  (cat_1, h) \<leftarrow> t_cat T [cat, getitem_8] (-1) h;
  (reshape, h) \<leftarrow> t_reshape T cat_1 size_2 h;
  let size_3 = sizes view_4;
  view_6 \<leftarrow> t_view T view_4 [int s72, -1, 128];
  getitem_11 \<leftarrow> t_getitem_last T view_6 None (Some 128);
  getitem_12 \<leftarrow> t_getitem_last T view_6 (Some 128) None;
  unsqueeze_2 \<leftarrow> t_unsqueeze T getitem_5 (-2);
  (to_12, h) \<leftarrow> t_to T unsqueeze_2 Float16 h;
  unsqueeze_3 \<leftarrow> t_unsqueeze T getitem_6 (-2);
  (to_13, h) \<leftarrow> t_to T unsqueeze_3 Float16 h;
  chunk_2 \<leftarrow> t_chunk T getitem_11 2 (-1);
  getitem_13 \<leftarrow> py_nth chunk_2 0;
  getitem_14 \<leftarrow> py_nth chunk_2 1;
  (mul_13, h) \<leftarrow> t_mul T getitem_13 to_12 h;
  (mul_14, h) \<leftarrow> t_mul T getitem_14 to_13 h;
  (sub_1, h) \<leftarrow> t_sub T mul_13 mul_14 h;
  (mul_15, h) \<leftarrow> t_mul T getitem_14 to_12 h;
  (mul_16, h) \<leftarrow> t_mul T getitem_13 to_13 h;
  (add_7, h) \<leftarrow> t_add T mul_15 mul_16 h;
  (cat_2, h) \<leftarrow> t_cat T [sub_1, add_7] (-1) h;
  (cat_3, h) \<leftarrow> t_cat T [cat_2, getitem_12] (-1) h;
  (reshape_1, h) \<leftarrow> t_reshape T cat_3 size_3 h;
  let size_4 = [s72, 2048];
  (empty, h) \<leftarrow> t_empty T size_4 Float16 (''cuda'', 0) h;
  view_7 \<leftarrow> t_view T reshape [-1, 16, 128];
  view_8 \<leftarrow> t_view T empty [-1, 16, 128];
  view_9 \<leftarrow> t_view T reshape_1 [-1, 8, 128];
  view_10 \<leftarrow> t_view T getitem_4 [-1, 8, 128];
  Some ((view_7, view_9, view_10, view_8, to_4), h)}"

definition submod_13_qwen ::
  "('a, 'k) torch \<Rightarrow> ('a, 'k) native_ops \<Rightarrow>
   tensor \<Rightarrow> nat \<Rightarrow> tensor \<Rightarrow> tensor \<Rightarrow> tensor \<Rightarrow>
   ('a, 'k) store \<Rightarrow> (unit \<times> ('a, 'k) store) option" where
  "submod_13_qwen T N query_20 s72 key_20 value_6 output_27 h = do {
  h \<leftarrow> t_unified_attention_with_output T query_20 key_20 value_6 output_27
      ''model.layers.6.self_attn.attn'' h;
  Some ((), h)}"

definition submod_14_qwen ::
  "('a, 'k) torch \<Rightarrow> ('a, 'k) native_ops \<Rightarrow>
   tensor \<Rightarrow> nat \<Rightarrow> tensor \<Rightarrow> tensor \<Rightarrow> tensor \<Rightarrow> tensor \<Rightarrow> tensor \<Rightarrow> tensor \<Rightarrow> tensor \<Rightarrow> tensor \<Rightarrow> tensor \<Rightarrow> tensor \<Rightarrow> tensor \<Rightarrow>
   ('a, 'k) store \<Rightarrow> ((tensor \<times> tensor \<times> tensor \<times> tensor \<times> tensor) \<times> ('a, 'k) store) option" where
  "submod_14_qwen T N output_27 s72 layers_6_self_attn_o_proj_weight
      layers_6_post_attention_layernorm_weight residual_11 layers_6_mlp_gate_up_proj_weight
      layers_6_mlp_down_proj_weight layers_7_input_layernorm_weight
      layers_7_self_attn_qkv_proj_weight layers_7_self_attn_q_norm_weight
      layers_7_self_attn_k_norm_weight l_positions layers_0_self_attn_rotary_emb_cos_sin_cache h
      = do {
  view \<leftarrow> t_view T output_27 [-1, 2048];
  (linear, h) \<leftarrow> t_linear T view layers_6_self_attn_o_proj_weight None h;
  get_data_attr \<leftarrow> t_get_data_attr T layers_6_post_attention_layernorm_weight;
  (to, h) \<leftarrow> t_to T linear Float32 h;
  (add, h) \<leftarrow> t_add T to residual_11 h;
  (to_1, h) \<leftarrow> t_to T add Float16 h;
  (pow_1, h) \<leftarrow> t_pow N add 2 h;
  (mean, h) \<leftarrow> t_mean N pow_1 (-1) True h;
  (add_1, h) \<leftarrow> t_add_scalar N mean (1 / 1000000) h;
  (rsqrt, h) \<leftarrow> t_rsqrt N add_1 h;
  (mul, h) \<leftarrow> t_mul T add rsqrt h;
  (to_2, h) \<leftarrow> t_to T mul Float16 h;
  (mul_1, h) \<leftarrow> t_mul T to_2 get_data_attr h;
  (linear_1, h) \<leftarrow> t_linear T mul_1 layers_6_mlp_gate_up_proj_weight None h;
  getitem \<leftarrow> t_getitem_last T linear_1 None (Some 3072);
  (silu, h) \<leftarrow> t_silu N getitem h;
  getitem_1 \<leftarrow> t_getitem_last T linear_1 (Some 3072) None;
  (mul_2, h) \<leftarrow> t_mul T silu getitem_1 h;
  (linear_2, h) \<leftarrow> t_linear T mul_2 layers_6_mlp_down_proj_weight None h;
  get_data_attr_1 \<leftarrow> t_get_data_attr T layers_7_input_layernorm_weight;
  (to_3, h) \<leftarrow> t_to T linear_2 Float32 h;
  (add_2, h) \<leftarrow> t_add T to_3 to_1 h;
  (to_4, h) \<leftarrow> t_to T add_2 Float16 h;
  (pow_2, h) \<leftarrow> t_pow N add_2 2 h;
  (mean_1, h) \<leftarrow> t_mean N pow_2 (-1) True h;
  (add_3, h) \<leftarrow> t_add_scalar N mean_1 (1 / 1000000) h;
  (rsqrt_1, h) \<leftarrow> t_rsqrt N add_3 h;
  (mul_3, h) \<leftarrow> t_mul T add_2 rsqrt_1 h;
  (to_5, h) \<leftarrow> t_to T mul_3 Float16 h;
  (mul_4, h) \<leftarrow> t_mul T to_5 get_data_attr_1 h;
  (linear_3, h) \<leftarrow> t_linear T mul_4 layers_7_self_attn_qkv_proj_weight None h;
  split \<leftarrow> t_split T linear_3 [2048, 1024, 1024] (-1);
  getitem_2 \<leftarrow> py_nth split 0;
  getitem_3 \<leftarrow> py_nth split 1;
  getitem_4 \<leftarrow> py_nth split 2;
  view_1 \<leftarrow> t_view T getitem_2 [int s72, 16, 128];
  get_data_attr_2 \<leftarrow> t_get_data_attr T layers_7_self_attn_q_norm_weight;
  (to_6, h) \<leftarrow> t_to T view_1 Float32 h;
  (pow_3, h) \<leftarrow> t_pow N to_6 2 h;
  (mean_2, h) \<leftarrow> t_mean N pow_3 (-1) True h;
  (add_4, h) \<leftarrow> t_add_scalar N mean_2 (1 / 1000000) h;
  (rsqrt_2, h) \<leftarrow> t_rsqrt N add_4 h;
  (mul_5, h) \<leftarrow> t_mul T to_6 rsqrt_2 h;
  (to_7, h) \<leftarrow> t_to T mul_5 Float16 h;
  (mul_6, h) \<leftarrow> t_mul T to_7 get_data_attr_2 h;
  let size = sizes getitem_2;
  view_2 \<leftarrow> t_view T mul_6 (map int size);
  view_3 \<leftarrow> t_view T getitem_3 [int s72, 8, 128];
  get_data_attr_3 \<leftarrow> t_get_data_attr T layers_7_self_attn_k_norm_weight;
  (to_8, h) \<leftarrow> t_to T view_3 Float32 h;
  (pow_4, h) \<leftarrow> t_pow N to_8 2 h;
  (mean_3, h) \<leftarrow> t_mean N pow_4 (-1) True h;
  (add_5, h) \<leftarrow> t_add_scalar N mean_3 (1 / 1000000) h;
  (rsqrt_3, h) \<leftarrow> t_rsqrt N add_5 h;
  (mul_7, h) \<leftarrow> t_mul T to_8 rsqrt_3 h;
  (to_9, h) \<leftarrow> t_to T mul_7 Float16 h;
  (mul_8, h) \<leftarrow> t_mul T to_9 get_data_attr_3 h;
  let size_1 = sizes getitem_3;
  view_4 \<leftarrow> t_view T mul_8 (map int size_1);
  (flatten, h) \<leftarrow> t_flatten T l_positions h;
  (index_select, h) \<leftarrow> t_index_select T layers_0_self_attn_rotary_emb_cos_sin_cache 0
      flatten h;
  chunk \<leftarrow> t_chunk T index_select 2 (-1);
  getitem_5 \<leftarrow> py_nth chunk 0;
  getitem_6 \<leftarrow> py_nth chunk 1;
  let size_2 = sizes view_2;
  view_5 \<leftarrow> t_view T view_2 [int s72, -1, 128];
  getitem_7 \<leftarrow> t_getitem_last T view_5 None (Some 128);
  getitem_8 \<leftarrow> t_getitem_last T view_5 (Some 128) None;
  unsqueeze \<leftarrow> t_unsqueeze T getitem_5 (-2);
  (to_10, h) \<leftarrow> t_to T unsqueeze Float16 h;
  unsqueeze_1 \<leftarrow> t_unsqueeze T getitem_6 (-2);
  (to_11, h) \<leftarrow> t_to T unsqueeze_1 Float16 h;
  chunk_1 \<leftarrow> t_chunk T getitem_7 2 (-1);
  getitem_9 \<leftarrow> py_nth chunk_1 0;
  getitem_10 \<leftarrow> py_nth chunk_1 1;
  (mul_9, h) \<leftarrow> t_mul T getitem_9 to_10 h;
  (mul_10, h) \<leftarrow> t_mul T getitem_10 to_11 h;
  (sub, h) \<leftarrow> t_sub T mul_9 mul_10 h;
  (mul_11, h) \<leftarrow> t_mul T getitem_10 to_10 h;
  (mul_12, h) \<leftarrow> t_mul T getitem_9 to_11 h;
  (add_6, h) \<leftarrow> t_add T mul_11 mul_12 h;
  (cat, h) \<leftarrow> t_cat T [sub, add_6] (-1) h;
  (cat_1, h) \<leftarrow> t_cat T [cat, getitem_8] (-1) h;
  (reshape, h) \<leftarrow> t_reshape T cat_1 size_2 h;
  let size_3 = sizes view_4;
  view_6 \<leftarrow> t_view T view_4 [int s72, -1, 128];
  getitem_11 \<leftarrow> t_getitem_last T view_6 None (Some 128);
  getitem_12 \<leftarrow> t_getitem_last T view_6 (Some 128) None;
  unsqueeze_2 \<leftarrow> t_unsqueeze T getitem_5 (-2);
  (to_12, h) \<leftarrow> t_to T unsqueeze_2 Float16 h;
  unsqueeze_3 \<leftarrow> t_unsqueeze T getitem_6 (-2);
  (to_13, h) \<leftarrow> t_to T unsqueeze_3 Float16 h;
  chunk_2 \<leftarrow> t_chunk T getitem_11 2 (-1);
  getitem_13 \<leftarrow> py_nth chunk_2 0;
  getitem_14 \<leftarrow> py_nth chunk_2 1;
  (mul_13, h) \<leftarrow> t_mul T getitem_13 to_12 h;
  (mul_14, h) \<leftarrow> t_mul T getitem_14 to_13 h;
  (sub_1, h) \<leftarrow> t_sub T mul_13 mul_14 h;
  (mul_15, h) \<leftarrow> t_mul T getitem_14 to_12 h;
  (mul_16, h) \<leftarrow> t_mul T getitem_13 to_13 h;
  (add_7, h) \<leftarrow> t_add T mul_15 mul_16 h;
  (cat_2, h) \<leftarrow> t_cat T [sub_1, add_7] (-1) h;
  (cat_3, h) \<leftarrow> t_cat T [cat_2, getitem_12] (-1) h;
  (reshape_1, h) \<leftarrow> t_reshape T cat_3 size_3 h;
  let size_4 = [s72, 2048];
  (empty, h) \<leftarrow> t_empty T size_4 Float16 (''cuda'', 0) h;
  view_7 \<leftarrow> t_view T reshape [-1, 16, 128];
  view_8 \<leftarrow> t_view T empty [-1, 16, 128];
  view_9 \<leftarrow> t_view T reshape_1 [-1, 8, 128];
  view_10 \<leftarrow> t_view T getitem_4 [-1, 8, 128];
  Some ((view_7, view_9, view_10, view_8, to_4), h)}"

definition submod_15_qwen ::
  "('a, 'k) torch \<Rightarrow> ('a, 'k) native_ops \<Rightarrow>
   tensor \<Rightarrow> nat \<Rightarrow> tensor \<Rightarrow> tensor \<Rightarrow> tensor \<Rightarrow>
   ('a, 'k) store \<Rightarrow> (unit \<times> ('a, 'k) store) option" where
  "submod_15_qwen T N query_23 s72 key_23 value_7 output_31 h = do {
  h \<leftarrow> t_unified_attention_with_output T query_23 key_23 value_7 output_31
      ''model.layers.7.self_attn.attn'' h;
  Some ((), h)}"

definition submod_16_qwen ::
  "('a, 'k) torch \<Rightarrow> ('a, 'k) native_ops \<Rightarrow>
   tensor \<Rightarrow> nat \<Rightarrow> tensor \<Rightarrow> tensor \<Rightarrow> tensor \<Rightarrow> tensor \<Rightarrow> tensor \<Rightarrow> tensor \<Rightarrow> tensor \<Rightarrow> tensor \<Rightarrow> tensor \<Rightarrow> tensor \<Rightarrow> tensor \<Rightarrow>
   ('a, 'k) store \<Rightarrow> ((tensor \<times> tensor \<times> tensor \<times> tensor \<times> tensor) \<times> ('a, 'k) store) option" where
  "submod_16_qwen T N output_31 s72 layers_7_self_attn_o_proj_weight
      layers_7_post_attention_layernorm_weight residual_13 layers_7_mlp_gate_up_proj_weight
      layers_7_mlp_down_proj_weight layers_8_input_layernorm_weight
      layers_8_self_attn_qkv_proj_weight layers_8_self_attn_q_norm_weight
      layers_8_self_attn_k_norm_weight l_positions layers_0_self_attn_rotary_emb_cos_sin_cache h
      = do {
  view \<leftarrow> t_view T output_31 [-1, 2048];
  (linear, h) \<leftarrow> t_linear T view layers_7_self_attn_o_proj_weight None h;
  get_data_attr \<leftarrow> t_get_data_attr T layers_7_post_attention_layernorm_weight;
  (to, h) \<leftarrow> t_to T linear Float32 h;
  (add, h) \<leftarrow> t_add T to residual_13 h;
  (to_1, h) \<leftarrow> t_to T add Float16 h;
  (pow_1, h) \<leftarrow> t_pow N add 2 h;
  (mean, h) \<leftarrow> t_mean N pow_1 (-1) True h;
  (add_1, h) \<leftarrow> t_add_scalar N mean (1 / 1000000) h;
  (rsqrt, h) \<leftarrow> t_rsqrt N add_1 h;
  (mul, h) \<leftarrow> t_mul T add rsqrt h;
  (to_2, h) \<leftarrow> t_to T mul Float16 h;
  (mul_1, h) \<leftarrow> t_mul T to_2 get_data_attr h;
  (linear_1, h) \<leftarrow> t_linear T mul_1 layers_7_mlp_gate_up_proj_weight None h;
  getitem \<leftarrow> t_getitem_last T linear_1 None (Some 3072);
  (silu, h) \<leftarrow> t_silu N getitem h;
  getitem_1 \<leftarrow> t_getitem_last T linear_1 (Some 3072) None;
  (mul_2, h) \<leftarrow> t_mul T silu getitem_1 h;
  (linear_2, h) \<leftarrow> t_linear T mul_2 layers_7_mlp_down_proj_weight None h;
  get_data_attr_1 \<leftarrow> t_get_data_attr T layers_8_input_layernorm_weight;
  (to_3, h) \<leftarrow> t_to T linear_2 Float32 h;
  (add_2, h) \<leftarrow> t_add T to_3 to_1 h;
  (to_4, h) \<leftarrow> t_to T add_2 Float16 h;
  (pow_2, h) \<leftarrow> t_pow N add_2 2 h;
  (mean_1, h) \<leftarrow> t_mean N pow_2 (-1) True h;
  (add_3, h) \<leftarrow> t_add_scalar N mean_1 (1 / 1000000) h;
  (rsqrt_1, h) \<leftarrow> t_rsqrt N add_3 h;
  (mul_3, h) \<leftarrow> t_mul T add_2 rsqrt_1 h;
  (to_5, h) \<leftarrow> t_to T mul_3 Float16 h;
  (mul_4, h) \<leftarrow> t_mul T to_5 get_data_attr_1 h;
  (linear_3, h) \<leftarrow> t_linear T mul_4 layers_8_self_attn_qkv_proj_weight None h;
  split \<leftarrow> t_split T linear_3 [2048, 1024, 1024] (-1);
  getitem_2 \<leftarrow> py_nth split 0;
  getitem_3 \<leftarrow> py_nth split 1;
  getitem_4 \<leftarrow> py_nth split 2;
  view_1 \<leftarrow> t_view T getitem_2 [int s72, 16, 128];
  get_data_attr_2 \<leftarrow> t_get_data_attr T layers_8_self_attn_q_norm_weight;
  (to_6, h) \<leftarrow> t_to T view_1 Float32 h;
  (pow_3, h) \<leftarrow> t_pow N to_6 2 h;
  (mean_2, h) \<leftarrow> t_mean N pow_3 (-1) True h;
  (add_4, h) \<leftarrow> t_add_scalar N mean_2 (1 / 1000000) h;
  (rsqrt_2, h) \<leftarrow> t_rsqrt N add_4 h;
  (mul_5, h) \<leftarrow> t_mul T to_6 rsqrt_2 h;
  (to_7, h) \<leftarrow> t_to T mul_5 Float16 h;
  (mul_6, h) \<leftarrow> t_mul T to_7 get_data_attr_2 h;
  let size = sizes getitem_2;
  view_2 \<leftarrow> t_view T mul_6 (map int size);
  view_3 \<leftarrow> t_view T getitem_3 [int s72, 8, 128];
  get_data_attr_3 \<leftarrow> t_get_data_attr T layers_8_self_attn_k_norm_weight;
  (to_8, h) \<leftarrow> t_to T view_3 Float32 h;
  (pow_4, h) \<leftarrow> t_pow N to_8 2 h;
  (mean_3, h) \<leftarrow> t_mean N pow_4 (-1) True h;
  (add_5, h) \<leftarrow> t_add_scalar N mean_3 (1 / 1000000) h;
  (rsqrt_3, h) \<leftarrow> t_rsqrt N add_5 h;
  (mul_7, h) \<leftarrow> t_mul T to_8 rsqrt_3 h;
  (to_9, h) \<leftarrow> t_to T mul_7 Float16 h;
  (mul_8, h) \<leftarrow> t_mul T to_9 get_data_attr_3 h;
  let size_1 = sizes getitem_3;
  view_4 \<leftarrow> t_view T mul_8 (map int size_1);
  (flatten, h) \<leftarrow> t_flatten T l_positions h;
  (index_select, h) \<leftarrow> t_index_select T layers_0_self_attn_rotary_emb_cos_sin_cache 0
      flatten h;
  chunk \<leftarrow> t_chunk T index_select 2 (-1);
  getitem_5 \<leftarrow> py_nth chunk 0;
  getitem_6 \<leftarrow> py_nth chunk 1;
  let size_2 = sizes view_2;
  view_5 \<leftarrow> t_view T view_2 [int s72, -1, 128];
  getitem_7 \<leftarrow> t_getitem_last T view_5 None (Some 128);
  getitem_8 \<leftarrow> t_getitem_last T view_5 (Some 128) None;
  unsqueeze \<leftarrow> t_unsqueeze T getitem_5 (-2);
  (to_10, h) \<leftarrow> t_to T unsqueeze Float16 h;
  unsqueeze_1 \<leftarrow> t_unsqueeze T getitem_6 (-2);
  (to_11, h) \<leftarrow> t_to T unsqueeze_1 Float16 h;
  chunk_1 \<leftarrow> t_chunk T getitem_7 2 (-1);
  getitem_9 \<leftarrow> py_nth chunk_1 0;
  getitem_10 \<leftarrow> py_nth chunk_1 1;
  (mul_9, h) \<leftarrow> t_mul T getitem_9 to_10 h;
  (mul_10, h) \<leftarrow> t_mul T getitem_10 to_11 h;
  (sub, h) \<leftarrow> t_sub T mul_9 mul_10 h;
  (mul_11, h) \<leftarrow> t_mul T getitem_10 to_10 h;
  (mul_12, h) \<leftarrow> t_mul T getitem_9 to_11 h;
  (add_6, h) \<leftarrow> t_add T mul_11 mul_12 h;
  (cat, h) \<leftarrow> t_cat T [sub, add_6] (-1) h;
  (cat_1, h) \<leftarrow> t_cat T [cat, getitem_8] (-1) h;
  (reshape, h) \<leftarrow> t_reshape T cat_1 size_2 h;
  let size_3 = sizes view_4;
  view_6 \<leftarrow> t_view T view_4 [int s72, -1, 128];
  getitem_11 \<leftarrow> t_getitem_last T view_6 None (Some 128);
  getitem_12 \<leftarrow> t_getitem_last T view_6 (Some 128) None;
  unsqueeze_2 \<leftarrow> t_unsqueeze T getitem_5 (-2);
  (to_12, h) \<leftarrow> t_to T unsqueeze_2 Float16 h;
  unsqueeze_3 \<leftarrow> t_unsqueeze T getitem_6 (-2);
  (to_13, h) \<leftarrow> t_to T unsqueeze_3 Float16 h;
  chunk_2 \<leftarrow> t_chunk T getitem_11 2 (-1);
  getitem_13 \<leftarrow> py_nth chunk_2 0;
  getitem_14 \<leftarrow> py_nth chunk_2 1;
  (mul_13, h) \<leftarrow> t_mul T getitem_13 to_12 h;
  (mul_14, h) \<leftarrow> t_mul T getitem_14 to_13 h;
  (sub_1, h) \<leftarrow> t_sub T mul_13 mul_14 h;
  (mul_15, h) \<leftarrow> t_mul T getitem_14 to_12 h;
  (mul_16, h) \<leftarrow> t_mul T getitem_13 to_13 h;
  (add_7, h) \<leftarrow> t_add T mul_15 mul_16 h;
  (cat_2, h) \<leftarrow> t_cat T [sub_1, add_7] (-1) h;
  (cat_3, h) \<leftarrow> t_cat T [cat_2, getitem_12] (-1) h;
  (reshape_1, h) \<leftarrow> t_reshape T cat_3 size_3 h;
  let size_4 = [s72, 2048];
  (empty, h) \<leftarrow> t_empty T size_4 Float16 (''cuda'', 0) h;
  view_7 \<leftarrow> t_view T reshape [-1, 16, 128];
  view_8 \<leftarrow> t_view T empty [-1, 16, 128];
  view_9 \<leftarrow> t_view T reshape_1 [-1, 8, 128];
  view_10 \<leftarrow> t_view T getitem_4 [-1, 8, 128];
  Some ((view_7, view_9, view_10, view_8, to_4), h)}"

definition submod_17_qwen ::
  "('a, 'k) torch \<Rightarrow> ('a, 'k) native_ops \<Rightarrow>
   tensor \<Rightarrow> nat \<Rightarrow> tensor \<Rightarrow> tensor \<Rightarrow> tensor \<Rightarrow>
   ('a, 'k) store \<Rightarrow> (unit \<times> ('a, 'k) store) option" where
  "submod_17_qwen T N query_26 s72 key_26 value_8 output_35 h = do {
  h \<leftarrow> t_unified_attention_with_output T query_26 key_26 value_8 output_35
      ''model.layers.8.self_attn.attn'' h;
  Some ((), h)}"

definition submod_18_qwen ::
  "('a, 'k) torch \<Rightarrow> ('a, 'k) native_ops \<Rightarrow>
   tensor \<Rightarrow> nat \<Rightarrow> tensor \<Rightarrow> tensor \<Rightarrow> tensor \<Rightarrow> tensor \<Rightarrow> tensor \<Rightarrow> tensor \<Rightarrow> tensor \<Rightarrow> tensor \<Rightarrow> tensor \<Rightarrow> tensor \<Rightarrow> tensor \<Rightarrow>
   ('a, 'k) store \<Rightarrow> ((tensor \<times> tensor \<times> tensor \<times> tensor \<times> tensor) \<times> ('a, 'k) store) option" where
  "submod_18_qwen T N output_35 s72 layers_8_self_attn_o_proj_weight
      layers_8_post_attention_layernorm_weight residual_15 layers_8_mlp_gate_up_proj_weight
      layers_8_mlp_down_proj_weight layers_9_input_layernorm_weight
      layers_9_self_attn_qkv_proj_weight layers_9_self_attn_q_norm_weight
      layers_9_self_attn_k_norm_weight l_positions layers_0_self_attn_rotary_emb_cos_sin_cache h
      = do {
  view \<leftarrow> t_view T output_35 [-1, 2048];
  (linear, h) \<leftarrow> t_linear T view layers_8_self_attn_o_proj_weight None h;
  get_data_attr \<leftarrow> t_get_data_attr T layers_8_post_attention_layernorm_weight;
  (to, h) \<leftarrow> t_to T linear Float32 h;
  (add, h) \<leftarrow> t_add T to residual_15 h;
  (to_1, h) \<leftarrow> t_to T add Float16 h;
  (pow_1, h) \<leftarrow> t_pow N add 2 h;
  (mean, h) \<leftarrow> t_mean N pow_1 (-1) True h;
  (add_1, h) \<leftarrow> t_add_scalar N mean (1 / 1000000) h;
  (rsqrt, h) \<leftarrow> t_rsqrt N add_1 h;
  (mul, h) \<leftarrow> t_mul T add rsqrt h;
  (to_2, h) \<leftarrow> t_to T mul Float16 h;
  (mul_1, h) \<leftarrow> t_mul T to_2 get_data_attr h;
  (linear_1, h) \<leftarrow> t_linear T mul_1 layers_8_mlp_gate_up_proj_weight None h;
  getitem \<leftarrow> t_getitem_last T linear_1 None (Some 3072);
  (silu, h) \<leftarrow> t_silu N getitem h;
  getitem_1 \<leftarrow> t_getitem_last T linear_1 (Some 3072) None;
  (mul_2, h) \<leftarrow> t_mul T silu getitem_1 h;
  (linear_2, h) \<leftarrow> t_linear T mul_2 layers_8_mlp_down_proj_weight None h;
  get_data_attr_1 \<leftarrow> t_get_data_attr T layers_9_input_layernorm_weight;
  (to_3, h) \<leftarrow> t_to T linear_2 Float32 h;
  (add_2, h) \<leftarrow> t_add T to_3 to_1 h;
  (to_4, h) \<leftarrow> t_to T add_2 Float16 h;
  (pow_2, h) \<leftarrow> t_pow N add_2 2 h;
  (mean_1, h) \<leftarrow> t_mean N pow_2 (-1) True h;
  (add_3, h) \<leftarrow> t_add_scalar N mean_1 (1 / 1000000) h;
  (rsqrt_1, h) \<leftarrow> t_rsqrt N add_3 h;
  (mul_3, h) \<leftarrow> t_mul T add_2 rsqrt_1 h;
  (to_5, h) \<leftarrow> t_to T mul_3 Float16 h;
  (mul_4, h) \<leftarrow> t_mul T to_5 get_data_attr_1 h;
  (linear_3, h) \<leftarrow> t_linear T mul_4 layers_9_self_attn_qkv_proj_weight None h;
  split \<leftarrow> t_split T linear_3 [2048, 1024, 1024] (-1);
  getitem_2 \<leftarrow> py_nth split 0;
  getitem_3 \<leftarrow> py_nth split 1;
  getitem_4 \<leftarrow> py_nth split 2;
  view_1 \<leftarrow> t_view T getitem_2 [int s72, 16, 128];
  get_data_attr_2 \<leftarrow> t_get_data_attr T layers_9_self_attn_q_norm_weight;
  (to_6, h) \<leftarrow> t_to T view_1 Float32 h;
  (pow_3, h) \<leftarrow> t_pow N to_6 2 h;
  (mean_2, h) \<leftarrow> t_mean N pow_3 (-1) True h;
  (add_4, h) \<leftarrow> t_add_scalar N mean_2 (1 / 1000000) h;
  (rsqrt_2, h) \<leftarrow> t_rsqrt N add_4 h;
  (mul_5, h) \<leftarrow> t_mul T to_6 rsqrt_2 h;
  (to_7, h) \<leftarrow> t_to T mul_5 Float16 h;
  (mul_6, h) \<leftarrow> t_mul T to_7 get_data_attr_2 h;
  let size = sizes getitem_2;
  view_2 \<leftarrow> t_view T mul_6 (map int size);
  view_3 \<leftarrow> t_view T getitem_3 [int s72, 8, 128];
  get_data_attr_3 \<leftarrow> t_get_data_attr T layers_9_self_attn_k_norm_weight;
  (to_8, h) \<leftarrow> t_to T view_3 Float32 h;
  (pow_4, h) \<leftarrow> t_pow N to_8 2 h;
  (mean_3, h) \<leftarrow> t_mean N pow_4 (-1) True h;
  (add_5, h) \<leftarrow> t_add_scalar N mean_3 (1 / 1000000) h;
  (rsqrt_3, h) \<leftarrow> t_rsqrt N add_5 h;
  (mul_7, h) \<leftarrow> t_mul T to_8 rsqrt_3 h;
  (to_9, h) \<leftarrow> t_to T mul_7 Float16 h;
  (mul_8, h) \<leftarrow> t_mul T to_9 get_data_attr_3 h;
  let size_1 = sizes getitem_3;
  view_4 \<leftarrow> t_view T mul_8 (map int size_1);
  (flatten, h) \<leftarrow> t_flatten T l_positions h;
  (index_select, h) \<leftarrow> t_index_select T layers_0_self_attn_rotary_emb_cos_sin_cache 0
      flatten h;
  chunk \<leftarrow> t_chunk T index_select 2 (-1);
  getitem_5 \<leftarrow> py_nth chunk 0;
  getitem_6 \<leftarrow> py_nth chunk 1;
  let size_2 = sizes view_2;
  view_5 \<leftarrow> t_view T view_2 [int s72, -1, 128];
  getitem_7 \<leftarrow> t_getitem_last T view_5 None (Some 128);
  getitem_8 \<leftarrow> t_getitem_last T view_5 (Some 128) None;
  unsqueeze \<leftarrow> t_unsqueeze T getitem_5 (-2);
  (to_10, h) \<leftarrow> t_to T unsqueeze Float16 h;
  unsqueeze_1 \<leftarrow> t_unsqueeze T getitem_6 (-2);
  (to_11, h) \<leftarrow> t_to T unsqueeze_1 Float16 h;
  chunk_1 \<leftarrow> t_chunk T getitem_7 2 (-1);
  getitem_9 \<leftarrow> py_nth chunk_1 0;
  getitem_10 \<leftarrow> py_nth chunk_1 1;
  (mul_9, h) \<leftarrow> t_mul T getitem_9 to_10 h;
  (mul_10, h) \<leftarrow> t_mul T getitem_10 to_11 h;
  (sub, h) \<leftarrow> t_sub T mul_9 mul_10 h;
  (mul_11, h) \<leftarrow> t_mul T getitem_10 to_10 h;
  (mul_12, h) \<leftarrow> t_mul T getitem_9 to_11 h;
  (add_6, h) \<leftarrow> t_add T mul_11 mul_12 h;
  (cat, h) \<leftarrow> t_cat T [sub, add_6] (-1) h;
  (cat_1, h) \<leftarrow> t_cat T [cat, getitem_8] (-1) h;
  (reshape, h) \<leftarrow> t_reshape T cat_1 size_2 h;
  let size_3 = sizes view_4;
  view_6 \<leftarrow> t_view T view_4 [int s72, -1, 128];
  getitem_11 \<leftarrow> t_getitem_last T view_6 None (Some 128);
  getitem_12 \<leftarrow> t_getitem_last T view_6 (Some 128) None;
  unsqueeze_2 \<leftarrow> t_unsqueeze T getitem_5 (-2);
  (to_12, h) \<leftarrow> t_to T unsqueeze_2 Float16 h;
  unsqueeze_3 \<leftarrow> t_unsqueeze T getitem_6 (-2);
  (to_13, h) \<leftarrow> t_to T unsqueeze_3 Float16 h;
  chunk_2 \<leftarrow> t_chunk T getitem_11 2 (-1);
  getitem_13 \<leftarrow> py_nth chunk_2 0;
  getitem_14 \<leftarrow> py_nth chunk_2 1;
  (mul_13, h) \<leftarrow> t_mul T getitem_13 to_12 h;
  (mul_14, h) \<leftarrow> t_mul T getitem_14 to_13 h;
  (sub_1, h) \<leftarrow> t_sub T mul_13 mul_14 h;
  (mul_15, h) \<leftarrow> t_mul T getitem_14 to_12 h;
  (mul_16, h) \<leftarrow> t_mul T getitem_13 to_13 h;
  (add_7, h) \<leftarrow> t_add T mul_15 mul_16 h;
  (cat_2, h) \<leftarrow> t_cat T [sub_1, add_7] (-1) h;
  (cat_3, h) \<leftarrow> t_cat T [cat_2, getitem_12] (-1) h;
  (reshape_1, h) \<leftarrow> t_reshape T cat_3 size_3 h;
  let size_4 = [s72, 2048];
  (empty, h) \<leftarrow> t_empty T size_4 Float16 (''cuda'', 0) h;
  view_7 \<leftarrow> t_view T reshape [-1, 16, 128];
  view_8 \<leftarrow> t_view T empty [-1, 16, 128];
  view_9 \<leftarrow> t_view T reshape_1 [-1, 8, 128];
  view_10 \<leftarrow> t_view T getitem_4 [-1, 8, 128];
  Some ((view_7, view_9, view_10, view_8, to_4), h)}"

definition submod_19_qwen ::
  "('a, 'k) torch \<Rightarrow> ('a, 'k) native_ops \<Rightarrow>
   tensor \<Rightarrow> nat \<Rightarrow> tensor \<Rightarrow> tensor \<Rightarrow> tensor \<Rightarrow>
   ('a, 'k) store \<Rightarrow> (unit \<times> ('a, 'k) store) option" where
  "submod_19_qwen T N query_29 s72 key_29 value_9 output_39 h = do {
  h \<leftarrow> t_unified_attention_with_output T query_29 key_29 value_9 output_39
      ''model.layers.9.self_attn.attn'' h;
  Some ((), h)}"

definition submod_20_qwen ::
  "('a, 'k) torch \<Rightarrow> ('a, 'k) native_ops \<Rightarrow>
   tensor \<Rightarrow> nat \<Rightarrow> tensor \<Rightarrow> tensor \<Rightarrow> tensor \<Rightarrow> tensor \<Rightarrow> tensor \<Rightarrow> tensor \<Rightarrow> tensor \<Rightarrow> tensor \<Rightarrow> tensor \<Rightarrow> tensor \<Rightarrow> tensor \<Rightarrow>
   ('a, 'k) store \<Rightarrow> ((tensor \<times> tensor \<times> tensor \<times> tensor \<times> tensor) \<times> ('a, 'k) store) option" where
  "submod_20_qwen T N output_39 s72 layers_9_self_attn_o_proj_weight
      layers_9_post_attention_layernorm_weight residual_17 layers_9_mlp_gate_up_proj_weight
      layers_9_mlp_down_proj_weight layers_10_input_layernorm_weight
      layers_10_self_attn_qkv_proj_weight layers_10_self_attn_q_norm_weight
      layers_10_self_attn_k_norm_weight l_positions layers_0_self_attn_rotary_emb_cos_sin_cache
      h = do {
  view \<leftarrow> t_view T output_39 [-1, 2048];
  (linear, h) \<leftarrow> t_linear T view layers_9_self_attn_o_proj_weight None h;
  get_data_attr \<leftarrow> t_get_data_attr T layers_9_post_attention_layernorm_weight;
  (to, h) \<leftarrow> t_to T linear Float32 h;
  (add, h) \<leftarrow> t_add T to residual_17 h;
  (to_1, h) \<leftarrow> t_to T add Float16 h;
  (pow_1, h) \<leftarrow> t_pow N add 2 h;
  (mean, h) \<leftarrow> t_mean N pow_1 (-1) True h;
  (add_1, h) \<leftarrow> t_add_scalar N mean (1 / 1000000) h;
  (rsqrt, h) \<leftarrow> t_rsqrt N add_1 h;
  (mul, h) \<leftarrow> t_mul T add rsqrt h;
  (to_2, h) \<leftarrow> t_to T mul Float16 h;
  (mul_1, h) \<leftarrow> t_mul T to_2 get_data_attr h;
  (linear_1, h) \<leftarrow> t_linear T mul_1 layers_9_mlp_gate_up_proj_weight None h;
  getitem \<leftarrow> t_getitem_last T linear_1 None (Some 3072);
  (silu, h) \<leftarrow> t_silu N getitem h;
  getitem_1 \<leftarrow> t_getitem_last T linear_1 (Some 3072) None;
  (mul_2, h) \<leftarrow> t_mul T silu getitem_1 h;
  (linear_2, h) \<leftarrow> t_linear T mul_2 layers_9_mlp_down_proj_weight None h;
  get_data_attr_1 \<leftarrow> t_get_data_attr T layers_10_input_layernorm_weight;
  (to_3, h) \<leftarrow> t_to T linear_2 Float32 h;
  (add_2, h) \<leftarrow> t_add T to_3 to_1 h;
  (to_4, h) \<leftarrow> t_to T add_2 Float16 h;
  (pow_2, h) \<leftarrow> t_pow N add_2 2 h;
  (mean_1, h) \<leftarrow> t_mean N pow_2 (-1) True h;
  (add_3, h) \<leftarrow> t_add_scalar N mean_1 (1 / 1000000) h;
  (rsqrt_1, h) \<leftarrow> t_rsqrt N add_3 h;
  (mul_3, h) \<leftarrow> t_mul T add_2 rsqrt_1 h;
  (to_5, h) \<leftarrow> t_to T mul_3 Float16 h;
  (mul_4, h) \<leftarrow> t_mul T to_5 get_data_attr_1 h;
  (linear_3, h) \<leftarrow> t_linear T mul_4 layers_10_self_attn_qkv_proj_weight None h;
  split \<leftarrow> t_split T linear_3 [2048, 1024, 1024] (-1);
  getitem_2 \<leftarrow> py_nth split 0;
  getitem_3 \<leftarrow> py_nth split 1;
  getitem_4 \<leftarrow> py_nth split 2;
  view_1 \<leftarrow> t_view T getitem_2 [int s72, 16, 128];
  get_data_attr_2 \<leftarrow> t_get_data_attr T layers_10_self_attn_q_norm_weight;
  (to_6, h) \<leftarrow> t_to T view_1 Float32 h;
  (pow_3, h) \<leftarrow> t_pow N to_6 2 h;
  (mean_2, h) \<leftarrow> t_mean N pow_3 (-1) True h;
  (add_4, h) \<leftarrow> t_add_scalar N mean_2 (1 / 1000000) h;
  (rsqrt_2, h) \<leftarrow> t_rsqrt N add_4 h;
  (mul_5, h) \<leftarrow> t_mul T to_6 rsqrt_2 h;
  (to_7, h) \<leftarrow> t_to T mul_5 Float16 h;
  (mul_6, h) \<leftarrow> t_mul T to_7 get_data_attr_2 h;
  let size = sizes getitem_2;
  view_2 \<leftarrow> t_view T mul_6 (map int size);
  view_3 \<leftarrow> t_view T getitem_3 [int s72, 8, 128];
  get_data_attr_3 \<leftarrow> t_get_data_attr T layers_10_self_attn_k_norm_weight;
  (to_8, h) \<leftarrow> t_to T view_3 Float32 h;
  (pow_4, h) \<leftarrow> t_pow N to_8 2 h;
  (mean_3, h) \<leftarrow> t_mean N pow_4 (-1) True h;
  (add_5, h) \<leftarrow> t_add_scalar N mean_3 (1 / 1000000) h;
  (rsqrt_3, h) \<leftarrow> t_rsqrt N add_5 h;
  (mul_7, h) \<leftarrow> t_mul T to_8 rsqrt_3 h;
  (to_9, h) \<leftarrow> t_to T mul_7 Float16 h;
  (mul_8, h) \<leftarrow> t_mul T to_9 get_data_attr_3 h;
  let size_1 = sizes getitem_3;
  view_4 \<leftarrow> t_view T mul_8 (map int size_1);
  (flatten, h) \<leftarrow> t_flatten T l_positions h;
  (index_select, h) \<leftarrow> t_index_select T layers_0_self_attn_rotary_emb_cos_sin_cache 0
      flatten h;
  chunk \<leftarrow> t_chunk T index_select 2 (-1);
  getitem_5 \<leftarrow> py_nth chunk 0;
  getitem_6 \<leftarrow> py_nth chunk 1;
  let size_2 = sizes view_2;
  view_5 \<leftarrow> t_view T view_2 [int s72, -1, 128];
  getitem_7 \<leftarrow> t_getitem_last T view_5 None (Some 128);
  getitem_8 \<leftarrow> t_getitem_last T view_5 (Some 128) None;
  unsqueeze \<leftarrow> t_unsqueeze T getitem_5 (-2);
  (to_10, h) \<leftarrow> t_to T unsqueeze Float16 h;
  unsqueeze_1 \<leftarrow> t_unsqueeze T getitem_6 (-2);
  (to_11, h) \<leftarrow> t_to T unsqueeze_1 Float16 h;
  chunk_1 \<leftarrow> t_chunk T getitem_7 2 (-1);
  getitem_9 \<leftarrow> py_nth chunk_1 0;
  getitem_10 \<leftarrow> py_nth chunk_1 1;
  (mul_9, h) \<leftarrow> t_mul T getitem_9 to_10 h;
  (mul_10, h) \<leftarrow> t_mul T getitem_10 to_11 h;
  (sub, h) \<leftarrow> t_sub T mul_9 mul_10 h;
  (mul_11, h) \<leftarrow> t_mul T getitem_10 to_10 h;
  (mul_12, h) \<leftarrow> t_mul T getitem_9 to_11 h;
  (add_6, h) \<leftarrow> t_add T mul_11 mul_12 h;
  (cat, h) \<leftarrow> t_cat T [sub, add_6] (-1) h;
  (cat_1, h) \<leftarrow> t_cat T [cat, getitem_8] (-1) h;
  (reshape, h) \<leftarrow> t_reshape T cat_1 size_2 h;
  let size_3 = sizes view_4;
  view_6 \<leftarrow> t_view T view_4 [int s72, -1, 128];
  getitem_11 \<leftarrow> t_getitem_last T view_6 None (Some 128);
  getitem_12 \<leftarrow> t_getitem_last T view_6 (Some 128) None;
  unsqueeze_2 \<leftarrow> t_unsqueeze T getitem_5 (-2);
  (to_12, h) \<leftarrow> t_to T unsqueeze_2 Float16 h;
  unsqueeze_3 \<leftarrow> t_unsqueeze T getitem_6 (-2);
  (to_13, h) \<leftarrow> t_to T unsqueeze_3 Float16 h;
  chunk_2 \<leftarrow> t_chunk T getitem_11 2 (-1);
  getitem_13 \<leftarrow> py_nth chunk_2 0;
  getitem_14 \<leftarrow> py_nth chunk_2 1;
  (mul_13, h) \<leftarrow> t_mul T getitem_13 to_12 h;
  (mul_14, h) \<leftarrow> t_mul T getitem_14 to_13 h;
  (sub_1, h) \<leftarrow> t_sub T mul_13 mul_14 h;
  (mul_15, h) \<leftarrow> t_mul T getitem_14 to_12 h;
  (mul_16, h) \<leftarrow> t_mul T getitem_13 to_13 h;
  (add_7, h) \<leftarrow> t_add T mul_15 mul_16 h;
  (cat_2, h) \<leftarrow> t_cat T [sub_1, add_7] (-1) h;
  (cat_3, h) \<leftarrow> t_cat T [cat_2, getitem_12] (-1) h;
  (reshape_1, h) \<leftarrow> t_reshape T cat_3 size_3 h;
  let size_4 = [s72, 2048];
  (empty, h) \<leftarrow> t_empty T size_4 Float16 (''cuda'', 0) h;
  view_7 \<leftarrow> t_view T reshape [-1, 16, 128];
  view_8 \<leftarrow> t_view T empty [-1, 16, 128];
  view_9 \<leftarrow> t_view T reshape_1 [-1, 8, 128];
  view_10 \<leftarrow> t_view T getitem_4 [-1, 8, 128];
  Some ((view_7, view_9, view_10, view_8, to_4), h)}"

definition submod_21_qwen ::
  "('a, 'k) torch \<Rightarrow> ('a, 'k) native_ops \<Rightarrow>
   tensor \<Rightarrow> nat \<Rightarrow> tensor \<Rightarrow> tensor \<Rightarrow> tensor \<Rightarrow>
   ('a, 'k) store \<Rightarrow> (unit \<times> ('a, 'k) store) option" where
  "submod_21_qwen T N query_32 s72 key_32 value_10 output_43 h = do {
  h \<leftarrow> t_unified_attention_with_output T query_32 key_32 value_10 output_43
      ''model.layers.10.self_attn.attn'' h;
  Some ((), h)}"

definition submod_22_qwen ::
  "('a, 'k) torch \<Rightarrow> ('a, 'k) native_ops \<Rightarrow>
   tensor \<Rightarrow> nat \<Rightarrow> tensor \<Rightarrow> tensor \<Rightarrow> tensor \<Rightarrow> tensor \<Rightarrow> tensor \<Rightarrow> tensor \<Rightarrow> tensor \<Rightarrow> tensor \<Rightarrow> tensor \<Rightarrow> tensor \<Rightarrow> tensor \<Rightarrow>
   ('a, 'k) store \<Rightarrow> ((tensor \<times> tensor \<times> tensor \<times> tensor \<times> tensor) \<times> ('a, 'k) store) option" where
  "submod_22_qwen T N output_43 s72 layers_10_self_attn_o_proj_weight
      layers_10_post_attention_layernorm_weight residual_19 layers_10_mlp_gate_up_proj_weight
      layers_10_mlp_down_proj_weight layers_11_input_layernorm_weight
      layers_11_self_attn_qkv_proj_weight layers_11_self_attn_q_norm_weight
      layers_11_self_attn_k_norm_weight l_positions layers_0_self_attn_rotary_emb_cos_sin_cache
      h = do {
  view \<leftarrow> t_view T output_43 [-1, 2048];
  (linear, h) \<leftarrow> t_linear T view layers_10_self_attn_o_proj_weight None h;
  get_data_attr \<leftarrow> t_get_data_attr T layers_10_post_attention_layernorm_weight;
  (to, h) \<leftarrow> t_to T linear Float32 h;
  (add, h) \<leftarrow> t_add T to residual_19 h;
  (to_1, h) \<leftarrow> t_to T add Float16 h;
  (pow_1, h) \<leftarrow> t_pow N add 2 h;
  (mean, h) \<leftarrow> t_mean N pow_1 (-1) True h;
  (add_1, h) \<leftarrow> t_add_scalar N mean (1 / 1000000) h;
  (rsqrt, h) \<leftarrow> t_rsqrt N add_1 h;
  (mul, h) \<leftarrow> t_mul T add rsqrt h;
  (to_2, h) \<leftarrow> t_to T mul Float16 h;
  (mul_1, h) \<leftarrow> t_mul T to_2 get_data_attr h;
  (linear_1, h) \<leftarrow> t_linear T mul_1 layers_10_mlp_gate_up_proj_weight None h;
  getitem \<leftarrow> t_getitem_last T linear_1 None (Some 3072);
  (silu, h) \<leftarrow> t_silu N getitem h;
  getitem_1 \<leftarrow> t_getitem_last T linear_1 (Some 3072) None;
  (mul_2, h) \<leftarrow> t_mul T silu getitem_1 h;
  (linear_2, h) \<leftarrow> t_linear T mul_2 layers_10_mlp_down_proj_weight None h;
  get_data_attr_1 \<leftarrow> t_get_data_attr T layers_11_input_layernorm_weight;
  (to_3, h) \<leftarrow> t_to T linear_2 Float32 h;
  (add_2, h) \<leftarrow> t_add T to_3 to_1 h;
  (to_4, h) \<leftarrow> t_to T add_2 Float16 h;
  (pow_2, h) \<leftarrow> t_pow N add_2 2 h;
  (mean_1, h) \<leftarrow> t_mean N pow_2 (-1) True h;
  (add_3, h) \<leftarrow> t_add_scalar N mean_1 (1 / 1000000) h;
  (rsqrt_1, h) \<leftarrow> t_rsqrt N add_3 h;
  (mul_3, h) \<leftarrow> t_mul T add_2 rsqrt_1 h;
  (to_5, h) \<leftarrow> t_to T mul_3 Float16 h;
  (mul_4, h) \<leftarrow> t_mul T to_5 get_data_attr_1 h;
  (linear_3, h) \<leftarrow> t_linear T mul_4 layers_11_self_attn_qkv_proj_weight None h;
  split \<leftarrow> t_split T linear_3 [2048, 1024, 1024] (-1);
  getitem_2 \<leftarrow> py_nth split 0;
  getitem_3 \<leftarrow> py_nth split 1;
  getitem_4 \<leftarrow> py_nth split 2;
  view_1 \<leftarrow> t_view T getitem_2 [int s72, 16, 128];
  get_data_attr_2 \<leftarrow> t_get_data_attr T layers_11_self_attn_q_norm_weight;
  (to_6, h) \<leftarrow> t_to T view_1 Float32 h;
  (pow_3, h) \<leftarrow> t_pow N to_6 2 h;
  (mean_2, h) \<leftarrow> t_mean N pow_3 (-1) True h;
  (add_4, h) \<leftarrow> t_add_scalar N mean_2 (1 / 1000000) h;
  (rsqrt_2, h) \<leftarrow> t_rsqrt N add_4 h;
  (mul_5, h) \<leftarrow> t_mul T to_6 rsqrt_2 h;
  (to_7, h) \<leftarrow> t_to T mul_5 Float16 h;
  (mul_6, h) \<leftarrow> t_mul T to_7 get_data_attr_2 h;
  let size = sizes getitem_2;
  view_2 \<leftarrow> t_view T mul_6 (map int size);
  view_3 \<leftarrow> t_view T getitem_3 [int s72, 8, 128];
  get_data_attr_3 \<leftarrow> t_get_data_attr T layers_11_self_attn_k_norm_weight;
  (to_8, h) \<leftarrow> t_to T view_3 Float32 h;
  (pow_4, h) \<leftarrow> t_pow N to_8 2 h;
  (mean_3, h) \<leftarrow> t_mean N pow_4 (-1) True h;
  (add_5, h) \<leftarrow> t_add_scalar N mean_3 (1 / 1000000) h;
  (rsqrt_3, h) \<leftarrow> t_rsqrt N add_5 h;
  (mul_7, h) \<leftarrow> t_mul T to_8 rsqrt_3 h;
  (to_9, h) \<leftarrow> t_to T mul_7 Float16 h;
  (mul_8, h) \<leftarrow> t_mul T to_9 get_data_attr_3 h;
  let size_1 = sizes getitem_3;
  view_4 \<leftarrow> t_view T mul_8 (map int size_1);
  (flatten, h) \<leftarrow> t_flatten T l_positions h;
  (index_select, h) \<leftarrow> t_index_select T layers_0_self_attn_rotary_emb_cos_sin_cache 0
      flatten h;
  chunk \<leftarrow> t_chunk T index_select 2 (-1);
  getitem_5 \<leftarrow> py_nth chunk 0;
  getitem_6 \<leftarrow> py_nth chunk 1;
  let size_2 = sizes view_2;
  view_5 \<leftarrow> t_view T view_2 [int s72, -1, 128];
  getitem_7 \<leftarrow> t_getitem_last T view_5 None (Some 128);
  getitem_8 \<leftarrow> t_getitem_last T view_5 (Some 128) None;
  unsqueeze \<leftarrow> t_unsqueeze T getitem_5 (-2);
  (to_10, h) \<leftarrow> t_to T unsqueeze Float16 h;
  unsqueeze_1 \<leftarrow> t_unsqueeze T getitem_6 (-2);
  (to_11, h) \<leftarrow> t_to T unsqueeze_1 Float16 h;
  chunk_1 \<leftarrow> t_chunk T getitem_7 2 (-1);
  getitem_9 \<leftarrow> py_nth chunk_1 0;
  getitem_10 \<leftarrow> py_nth chunk_1 1;
  (mul_9, h) \<leftarrow> t_mul T getitem_9 to_10 h;
  (mul_10, h) \<leftarrow> t_mul T getitem_10 to_11 h;
  (sub, h) \<leftarrow> t_sub T mul_9 mul_10 h;
  (mul_11, h) \<leftarrow> t_mul T getitem_10 to_10 h;
  (mul_12, h) \<leftarrow> t_mul T getitem_9 to_11 h;
  (add_6, h) \<leftarrow> t_add T mul_11 mul_12 h;
  (cat, h) \<leftarrow> t_cat T [sub, add_6] (-1) h;
  (cat_1, h) \<leftarrow> t_cat T [cat, getitem_8] (-1) h;
  (reshape, h) \<leftarrow> t_reshape T cat_1 size_2 h;
  let size_3 = sizes view_4;
  view_6 \<leftarrow> t_view T view_4 [int s72, -1, 128];
  getitem_11 \<leftarrow> t_getitem_last T view_6 None (Some 128);
  getitem_12 \<leftarrow> t_getitem_last T view_6 (Some 128) None;
  unsqueeze_2 \<leftarrow> t_unsqueeze T getitem_5 (-2);
  (to_12, h) \<leftarrow> t_to T unsqueeze_2 Float16 h;
  unsqueeze_3 \<leftarrow> t_unsqueeze T getitem_6 (-2);
  (to_13, h) \<leftarrow> t_to T unsqueeze_3 Float16 h;
  chunk_2 \<leftarrow> t_chunk T getitem_11 2 (-1);
  getitem_13 \<leftarrow> py_nth chunk_2 0;
  getitem_14 \<leftarrow> py_nth chunk_2 1;
  (mul_13, h) \<leftarrow> t_mul T getitem_13 to_12 h;
  (mul_14, h) \<leftarrow> t_mul T getitem_14 to_13 h;
  (sub_1, h) \<leftarrow> t_sub T mul_13 mul_14 h;
  (mul_15, h) \<leftarrow> t_mul T getitem_14 to_12 h;
  (mul_16, h) \<leftarrow> t_mul T getitem_13 to_13 h;
  (add_7, h) \<leftarrow> t_add T mul_15 mul_16 h;
  (cat_2, h) \<leftarrow> t_cat T [sub_1, add_7] (-1) h;
  (cat_3, h) \<leftarrow> t_cat T [cat_2, getitem_12] (-1) h;
  (reshape_1, h) \<leftarrow> t_reshape T cat_3 size_3 h;
  let size_4 = [s72, 2048];
  (empty, h) \<leftarrow> t_empty T size_4 Float16 (''cuda'', 0) h;
  view_7 \<leftarrow> t_view T reshape [-1, 16, 128];
  view_8 \<leftarrow> t_view T empty [-1, 16, 128];
  view_9 \<leftarrow> t_view T reshape_1 [-1, 8, 128];
  view_10 \<leftarrow> t_view T getitem_4 [-1, 8, 128];
  Some ((view_7, view_9, view_10, view_8, to_4), h)}"

definition submod_23_qwen ::
  "('a, 'k) torch \<Rightarrow> ('a, 'k) native_ops \<Rightarrow>
   tensor \<Rightarrow> nat \<Rightarrow> tensor \<Rightarrow> tensor \<Rightarrow> tensor \<Rightarrow>
   ('a, 'k) store \<Rightarrow> (unit \<times> ('a, 'k) store) option" where
  "submod_23_qwen T N query_35 s72 key_35 value_11 output_47 h = do {
  h \<leftarrow> t_unified_attention_with_output T query_35 key_35 value_11 output_47
      ''model.layers.11.self_attn.attn'' h;
  Some ((), h)}"

definition submod_24_qwen ::
  "('a, 'k) torch \<Rightarrow> ('a, 'k) native_ops \<Rightarrow>
   tensor \<Rightarrow> nat \<Rightarrow> tensor \<Rightarrow> tensor \<Rightarrow> tensor \<Rightarrow> tensor \<Rightarrow> tensor \<Rightarrow> tensor \<Rightarrow> tensor \<Rightarrow> tensor \<Rightarrow> tensor \<Rightarrow> tensor \<Rightarrow> tensor \<Rightarrow>
   ('a, 'k) store \<Rightarrow> ((tensor \<times> tensor \<times> tensor \<times> tensor \<times> tensor) \<times> ('a, 'k) store) option" where
  "submod_24_qwen T N output_47 s72 layers_11_self_attn_o_proj_weight
      layers_11_post_attention_layernorm_weight residual_21 layers_11_mlp_gate_up_proj_weight
      layers_11_mlp_down_proj_weight layers_12_input_layernorm_weight
      layers_12_self_attn_qkv_proj_weight layers_12_self_attn_q_norm_weight
      layers_12_self_attn_k_norm_weight l_positions layers_0_self_attn_rotary_emb_cos_sin_cache
      h = do {
  view \<leftarrow> t_view T output_47 [-1, 2048];
  (linear, h) \<leftarrow> t_linear T view layers_11_self_attn_o_proj_weight None h;
  get_data_attr \<leftarrow> t_get_data_attr T layers_11_post_attention_layernorm_weight;
  (to, h) \<leftarrow> t_to T linear Float32 h;
  (add, h) \<leftarrow> t_add T to residual_21 h;
  (to_1, h) \<leftarrow> t_to T add Float16 h;
  (pow_1, h) \<leftarrow> t_pow N add 2 h;
  (mean, h) \<leftarrow> t_mean N pow_1 (-1) True h;
  (add_1, h) \<leftarrow> t_add_scalar N mean (1 / 1000000) h;
  (rsqrt, h) \<leftarrow> t_rsqrt N add_1 h;
  (mul, h) \<leftarrow> t_mul T add rsqrt h;
  (to_2, h) \<leftarrow> t_to T mul Float16 h;
  (mul_1, h) \<leftarrow> t_mul T to_2 get_data_attr h;
  (linear_1, h) \<leftarrow> t_linear T mul_1 layers_11_mlp_gate_up_proj_weight None h;
  getitem \<leftarrow> t_getitem_last T linear_1 None (Some 3072);
  (silu, h) \<leftarrow> t_silu N getitem h;
  getitem_1 \<leftarrow> t_getitem_last T linear_1 (Some 3072) None;
  (mul_2, h) \<leftarrow> t_mul T silu getitem_1 h;
  (linear_2, h) \<leftarrow> t_linear T mul_2 layers_11_mlp_down_proj_weight None h;
  get_data_attr_1 \<leftarrow> t_get_data_attr T layers_12_input_layernorm_weight;
  (to_3, h) \<leftarrow> t_to T linear_2 Float32 h;
  (add_2, h) \<leftarrow> t_add T to_3 to_1 h;
  (to_4, h) \<leftarrow> t_to T add_2 Float16 h;
  (pow_2, h) \<leftarrow> t_pow N add_2 2 h;
  (mean_1, h) \<leftarrow> t_mean N pow_2 (-1) True h;
  (add_3, h) \<leftarrow> t_add_scalar N mean_1 (1 / 1000000) h;
  (rsqrt_1, h) \<leftarrow> t_rsqrt N add_3 h;
  (mul_3, h) \<leftarrow> t_mul T add_2 rsqrt_1 h;
  (to_5, h) \<leftarrow> t_to T mul_3 Float16 h;
  (mul_4, h) \<leftarrow> t_mul T to_5 get_data_attr_1 h;
  (linear_3, h) \<leftarrow> t_linear T mul_4 layers_12_self_attn_qkv_proj_weight None h;
  split \<leftarrow> t_split T linear_3 [2048, 1024, 1024] (-1);
  getitem_2 \<leftarrow> py_nth split 0;
  getitem_3 \<leftarrow> py_nth split 1;
  getitem_4 \<leftarrow> py_nth split 2;
  view_1 \<leftarrow> t_view T getitem_2 [int s72, 16, 128];
  get_data_attr_2 \<leftarrow> t_get_data_attr T layers_12_self_attn_q_norm_weight;
  (to_6, h) \<leftarrow> t_to T view_1 Float32 h;
  (pow_3, h) \<leftarrow> t_pow N to_6 2 h;
  (mean_2, h) \<leftarrow> t_mean N pow_3 (-1) True h;
  (add_4, h) \<leftarrow> t_add_scalar N mean_2 (1 / 1000000) h;
  (rsqrt_2, h) \<leftarrow> t_rsqrt N add_4 h;
  (mul_5, h) \<leftarrow> t_mul T to_6 rsqrt_2 h;
  (to_7, h) \<leftarrow> t_to T mul_5 Float16 h;
  (mul_6, h) \<leftarrow> t_mul T to_7 get_data_attr_2 h;
  let size = sizes getitem_2;
  view_2 \<leftarrow> t_view T mul_6 (map int size);
  view_3 \<leftarrow> t_view T getitem_3 [int s72, 8, 128];
  get_data_attr_3 \<leftarrow> t_get_data_attr T layers_12_self_attn_k_norm_weight;
  (to_8, h) \<leftarrow> t_to T view_3 Float32 h;
  (pow_4, h) \<leftarrow> t_pow N to_8 2 h;
  (mean_3, h) \<leftarrow> t_mean N pow_4 (-1) True h;
  (add_5, h) \<leftarrow> t_add_scalar N mean_3 (1 / 1000000) h;
  (rsqrt_3, h) \<leftarrow> t_rsqrt N add_5 h;
  (mul_7, h) \<leftarrow> t_mul T to_8 rsqrt_3 h;
  (to_9, h) \<leftarrow> t_to T mul_7 Float16 h;
  (mul_8, h) \<leftarrow> t_mul T to_9 get_data_attr_3 h;
  let size_1 = sizes getitem_3;
  view_4 \<leftarrow> t_view T mul_8 (map int size_1);
  (flatten, h) \<leftarrow> t_flatten T l_positions h;
  (index_select, h) \<leftarrow> t_index_select T layers_0_self_attn_rotary_emb_cos_sin_cache 0
      flatten h;
  chunk \<leftarrow> t_chunk T index_select 2 (-1);
  getitem_5 \<leftarrow> py_nth chunk 0;
  getitem_6 \<leftarrow> py_nth chunk 1;
  let size_2 = sizes view_2;
  view_5 \<leftarrow> t_view T view_2 [int s72, -1, 128];
  getitem_7 \<leftarrow> t_getitem_last T view_5 None (Some 128);
  getitem_8 \<leftarrow> t_getitem_last T view_5 (Some 128) None;
  unsqueeze \<leftarrow> t_unsqueeze T getitem_5 (-2);
  (to_10, h) \<leftarrow> t_to T unsqueeze Float16 h;
  unsqueeze_1 \<leftarrow> t_unsqueeze T getitem_6 (-2);
  (to_11, h) \<leftarrow> t_to T unsqueeze_1 Float16 h;
  chunk_1 \<leftarrow> t_chunk T getitem_7 2 (-1);
  getitem_9 \<leftarrow> py_nth chunk_1 0;
  getitem_10 \<leftarrow> py_nth chunk_1 1;
  (mul_9, h) \<leftarrow> t_mul T getitem_9 to_10 h;
  (mul_10, h) \<leftarrow> t_mul T getitem_10 to_11 h;
  (sub, h) \<leftarrow> t_sub T mul_9 mul_10 h;
  (mul_11, h) \<leftarrow> t_mul T getitem_10 to_10 h;
  (mul_12, h) \<leftarrow> t_mul T getitem_9 to_11 h;
  (add_6, h) \<leftarrow> t_add T mul_11 mul_12 h;
  (cat, h) \<leftarrow> t_cat T [sub, add_6] (-1) h;
  (cat_1, h) \<leftarrow> t_cat T [cat, getitem_8] (-1) h;
  (reshape, h) \<leftarrow> t_reshape T cat_1 size_2 h;
  let size_3 = sizes view_4;
  view_6 \<leftarrow> t_view T view_4 [int s72, -1, 128];
  getitem_11 \<leftarrow> t_getitem_last T view_6 None (Some 128);
  getitem_12 \<leftarrow> t_getitem_last T view_6 (Some 128) None;
  unsqueeze_2 \<leftarrow> t_unsqueeze T getitem_5 (-2);
  (to_12, h) \<leftarrow> t_to T unsqueeze_2 Float16 h;
  unsqueeze_3 \<leftarrow> t_unsqueeze T getitem_6 (-2);
  (to_13, h) \<leftarrow> t_to T unsqueeze_3 Float16 h;
  chunk_2 \<leftarrow> t_chunk T getitem_11 2 (-1);
  getitem_13 \<leftarrow> py_nth chunk_2 0;
  getitem_14 \<leftarrow> py_nth chunk_2 1;
  (mul_13, h) \<leftarrow> t_mul T getitem_13 to_12 h;
  (mul_14, h) \<leftarrow> t_mul T getitem_14 to_13 h;
  (sub_1, h) \<leftarrow> t_sub T mul_13 mul_14 h;
  (mul_15, h) \<leftarrow> t_mul T getitem_14 to_12 h;
  (mul_16, h) \<leftarrow> t_mul T getitem_13 to_13 h;
  (add_7, h) \<leftarrow> t_add T mul_15 mul_16 h;
  (cat_2, h) \<leftarrow> t_cat T [sub_1, add_7] (-1) h;
  (cat_3, h) \<leftarrow> t_cat T [cat_2, getitem_12] (-1) h;
  (reshape_1, h) \<leftarrow> t_reshape T cat_3 size_3 h;
  let size_4 = [s72, 2048];
  (empty, h) \<leftarrow> t_empty T size_4 Float16 (''cuda'', 0) h;
  view_7 \<leftarrow> t_view T reshape [-1, 16, 128];
  view_8 \<leftarrow> t_view T empty [-1, 16, 128];
  view_9 \<leftarrow> t_view T reshape_1 [-1, 8, 128];
  view_10 \<leftarrow> t_view T getitem_4 [-1, 8, 128];
  Some ((view_7, view_9, view_10, view_8, to_4), h)}"

definition submod_25_qwen ::
  "('a, 'k) torch \<Rightarrow> ('a, 'k) native_ops \<Rightarrow>
   tensor \<Rightarrow> nat \<Rightarrow> tensor \<Rightarrow> tensor \<Rightarrow> tensor \<Rightarrow>
   ('a, 'k) store \<Rightarrow> (unit \<times> ('a, 'k) store) option" where
  "submod_25_qwen T N query_38 s72 key_38 value_12 output_51 h = do {
  h \<leftarrow> t_unified_attention_with_output T query_38 key_38 value_12 output_51
      ''model.layers.12.self_attn.attn'' h;
  Some ((), h)}"

definition submod_26_qwen ::
  "('a, 'k) torch \<Rightarrow> ('a, 'k) native_ops \<Rightarrow>
   tensor \<Rightarrow> nat \<Rightarrow> tensor \<Rightarrow> tensor \<Rightarrow> tensor \<Rightarrow> tensor \<Rightarrow> tensor \<Rightarrow> tensor \<Rightarrow> tensor \<Rightarrow> tensor \<Rightarrow> tensor \<Rightarrow> tensor \<Rightarrow> tensor \<Rightarrow>
   ('a, 'k) store \<Rightarrow> ((tensor \<times> tensor \<times> tensor \<times> tensor \<times> tensor) \<times> ('a, 'k) store) option" where
  "submod_26_qwen T N output_51 s72 layers_12_self_attn_o_proj_weight
      layers_12_post_attention_layernorm_weight residual_23 layers_12_mlp_gate_up_proj_weight
      layers_12_mlp_down_proj_weight layers_13_input_layernorm_weight
      layers_13_self_attn_qkv_proj_weight layers_13_self_attn_q_norm_weight
      layers_13_self_attn_k_norm_weight l_positions layers_0_self_attn_rotary_emb_cos_sin_cache
      h = do {
  view \<leftarrow> t_view T output_51 [-1, 2048];
  (linear, h) \<leftarrow> t_linear T view layers_12_self_attn_o_proj_weight None h;
  get_data_attr \<leftarrow> t_get_data_attr T layers_12_post_attention_layernorm_weight;
  (to, h) \<leftarrow> t_to T linear Float32 h;
  (add, h) \<leftarrow> t_add T to residual_23 h;
  (to_1, h) \<leftarrow> t_to T add Float16 h;
  (pow_1, h) \<leftarrow> t_pow N add 2 h;
  (mean, h) \<leftarrow> t_mean N pow_1 (-1) True h;
  (add_1, h) \<leftarrow> t_add_scalar N mean (1 / 1000000) h;
  (rsqrt, h) \<leftarrow> t_rsqrt N add_1 h;
  (mul, h) \<leftarrow> t_mul T add rsqrt h;
  (to_2, h) \<leftarrow> t_to T mul Float16 h;
  (mul_1, h) \<leftarrow> t_mul T to_2 get_data_attr h;
  (linear_1, h) \<leftarrow> t_linear T mul_1 layers_12_mlp_gate_up_proj_weight None h;
  getitem \<leftarrow> t_getitem_last T linear_1 None (Some 3072);
  (silu, h) \<leftarrow> t_silu N getitem h;
  getitem_1 \<leftarrow> t_getitem_last T linear_1 (Some 3072) None;
  (mul_2, h) \<leftarrow> t_mul T silu getitem_1 h;
  (linear_2, h) \<leftarrow> t_linear T mul_2 layers_12_mlp_down_proj_weight None h;
  get_data_attr_1 \<leftarrow> t_get_data_attr T layers_13_input_layernorm_weight;
  (to_3, h) \<leftarrow> t_to T linear_2 Float32 h;
  (add_2, h) \<leftarrow> t_add T to_3 to_1 h;
  (to_4, h) \<leftarrow> t_to T add_2 Float16 h;
  (pow_2, h) \<leftarrow> t_pow N add_2 2 h;
  (mean_1, h) \<leftarrow> t_mean N pow_2 (-1) True h;
  (add_3, h) \<leftarrow> t_add_scalar N mean_1 (1 / 1000000) h;
  (rsqrt_1, h) \<leftarrow> t_rsqrt N add_3 h;
  (mul_3, h) \<leftarrow> t_mul T add_2 rsqrt_1 h;
  (to_5, h) \<leftarrow> t_to T mul_3 Float16 h;
  (mul_4, h) \<leftarrow> t_mul T to_5 get_data_attr_1 h;
  (linear_3, h) \<leftarrow> t_linear T mul_4 layers_13_self_attn_qkv_proj_weight None h;
  split \<leftarrow> t_split T linear_3 [2048, 1024, 1024] (-1);
  getitem_2 \<leftarrow> py_nth split 0;
  getitem_3 \<leftarrow> py_nth split 1;
  getitem_4 \<leftarrow> py_nth split 2;
  view_1 \<leftarrow> t_view T getitem_2 [int s72, 16, 128];
  get_data_attr_2 \<leftarrow> t_get_data_attr T layers_13_self_attn_q_norm_weight;
  (to_6, h) \<leftarrow> t_to T view_1 Float32 h;
  (pow_3, h) \<leftarrow> t_pow N to_6 2 h;
  (mean_2, h) \<leftarrow> t_mean N pow_3 (-1) True h;
  (add_4, h) \<leftarrow> t_add_scalar N mean_2 (1 / 1000000) h;
  (rsqrt_2, h) \<leftarrow> t_rsqrt N add_4 h;
  (mul_5, h) \<leftarrow> t_mul T to_6 rsqrt_2 h;
  (to_7, h) \<leftarrow> t_to T mul_5 Float16 h;
  (mul_6, h) \<leftarrow> t_mul T to_7 get_data_attr_2 h;
  let size = sizes getitem_2;
  view_2 \<leftarrow> t_view T mul_6 (map int size);
  view_3 \<leftarrow> t_view T getitem_3 [int s72, 8, 128];
  get_data_attr_3 \<leftarrow> t_get_data_attr T layers_13_self_attn_k_norm_weight;
  (to_8, h) \<leftarrow> t_to T view_3 Float32 h;
  (pow_4, h) \<leftarrow> t_pow N to_8 2 h;
  (mean_3, h) \<leftarrow> t_mean N pow_4 (-1) True h;
  (add_5, h) \<leftarrow> t_add_scalar N mean_3 (1 / 1000000) h;
  (rsqrt_3, h) \<leftarrow> t_rsqrt N add_5 h;
  (mul_7, h) \<leftarrow> t_mul T to_8 rsqrt_3 h;
  (to_9, h) \<leftarrow> t_to T mul_7 Float16 h;
  (mul_8, h) \<leftarrow> t_mul T to_9 get_data_attr_3 h;
  let size_1 = sizes getitem_3;
  view_4 \<leftarrow> t_view T mul_8 (map int size_1);
  (flatten, h) \<leftarrow> t_flatten T l_positions h;
  (index_select, h) \<leftarrow> t_index_select T layers_0_self_attn_rotary_emb_cos_sin_cache 0
      flatten h;
  chunk \<leftarrow> t_chunk T index_select 2 (-1);
  getitem_5 \<leftarrow> py_nth chunk 0;
  getitem_6 \<leftarrow> py_nth chunk 1;
  let size_2 = sizes view_2;
  view_5 \<leftarrow> t_view T view_2 [int s72, -1, 128];
  getitem_7 \<leftarrow> t_getitem_last T view_5 None (Some 128);
  getitem_8 \<leftarrow> t_getitem_last T view_5 (Some 128) None;
  unsqueeze \<leftarrow> t_unsqueeze T getitem_5 (-2);
  (to_10, h) \<leftarrow> t_to T unsqueeze Float16 h;
  unsqueeze_1 \<leftarrow> t_unsqueeze T getitem_6 (-2);
  (to_11, h) \<leftarrow> t_to T unsqueeze_1 Float16 h;
  chunk_1 \<leftarrow> t_chunk T getitem_7 2 (-1);
  getitem_9 \<leftarrow> py_nth chunk_1 0;
  getitem_10 \<leftarrow> py_nth chunk_1 1;
  (mul_9, h) \<leftarrow> t_mul T getitem_9 to_10 h;
  (mul_10, h) \<leftarrow> t_mul T getitem_10 to_11 h;
  (sub, h) \<leftarrow> t_sub T mul_9 mul_10 h;
  (mul_11, h) \<leftarrow> t_mul T getitem_10 to_10 h;
  (mul_12, h) \<leftarrow> t_mul T getitem_9 to_11 h;
  (add_6, h) \<leftarrow> t_add T mul_11 mul_12 h;
  (cat, h) \<leftarrow> t_cat T [sub, add_6] (-1) h;
  (cat_1, h) \<leftarrow> t_cat T [cat, getitem_8] (-1) h;
  (reshape, h) \<leftarrow> t_reshape T cat_1 size_2 h;
  let size_3 = sizes view_4;
  view_6 \<leftarrow> t_view T view_4 [int s72, -1, 128];
  getitem_11 \<leftarrow> t_getitem_last T view_6 None (Some 128);
  getitem_12 \<leftarrow> t_getitem_last T view_6 (Some 128) None;
  unsqueeze_2 \<leftarrow> t_unsqueeze T getitem_5 (-2);
  (to_12, h) \<leftarrow> t_to T unsqueeze_2 Float16 h;
  unsqueeze_3 \<leftarrow> t_unsqueeze T getitem_6 (-2);
  (to_13, h) \<leftarrow> t_to T unsqueeze_3 Float16 h;
  chunk_2 \<leftarrow> t_chunk T getitem_11 2 (-1);
  getitem_13 \<leftarrow> py_nth chunk_2 0;
  getitem_14 \<leftarrow> py_nth chunk_2 1;
  (mul_13, h) \<leftarrow> t_mul T getitem_13 to_12 h;
  (mul_14, h) \<leftarrow> t_mul T getitem_14 to_13 h;
  (sub_1, h) \<leftarrow> t_sub T mul_13 mul_14 h;
  (mul_15, h) \<leftarrow> t_mul T getitem_14 to_12 h;
  (mul_16, h) \<leftarrow> t_mul T getitem_13 to_13 h;
  (add_7, h) \<leftarrow> t_add T mul_15 mul_16 h;
  (cat_2, h) \<leftarrow> t_cat T [sub_1, add_7] (-1) h;
  (cat_3, h) \<leftarrow> t_cat T [cat_2, getitem_12] (-1) h;
  (reshape_1, h) \<leftarrow> t_reshape T cat_3 size_3 h;
  let size_4 = [s72, 2048];
  (empty, h) \<leftarrow> t_empty T size_4 Float16 (''cuda'', 0) h;
  view_7 \<leftarrow> t_view T reshape [-1, 16, 128];
  view_8 \<leftarrow> t_view T empty [-1, 16, 128];
  view_9 \<leftarrow> t_view T reshape_1 [-1, 8, 128];
  view_10 \<leftarrow> t_view T getitem_4 [-1, 8, 128];
  Some ((view_7, view_9, view_10, view_8, to_4), h)}"

definition submod_27_qwen ::
  "('a, 'k) torch \<Rightarrow> ('a, 'k) native_ops \<Rightarrow>
   tensor \<Rightarrow> nat \<Rightarrow> tensor \<Rightarrow> tensor \<Rightarrow> tensor \<Rightarrow>
   ('a, 'k) store \<Rightarrow> (unit \<times> ('a, 'k) store) option" where
  "submod_27_qwen T N query_41 s72 key_41 value_13 output_55 h = do {
  h \<leftarrow> t_unified_attention_with_output T query_41 key_41 value_13 output_55
      ''model.layers.13.self_attn.attn'' h;
  Some ((), h)}"

definition submod_28_qwen ::
  "('a, 'k) torch \<Rightarrow> ('a, 'k) native_ops \<Rightarrow>
   tensor \<Rightarrow> nat \<Rightarrow> tensor \<Rightarrow> tensor \<Rightarrow> tensor \<Rightarrow> tensor \<Rightarrow> tensor \<Rightarrow> tensor \<Rightarrow> tensor \<Rightarrow> tensor \<Rightarrow> tensor \<Rightarrow> tensor \<Rightarrow> tensor \<Rightarrow>
   ('a, 'k) store \<Rightarrow> ((tensor \<times> tensor \<times> tensor \<times> tensor \<times> tensor) \<times> ('a, 'k) store) option" where
  "submod_28_qwen T N output_55 s72 layers_13_self_attn_o_proj_weight
      layers_13_post_attention_layernorm_weight residual_25 layers_13_mlp_gate_up_proj_weight
      layers_13_mlp_down_proj_weight layers_14_input_layernorm_weight
      layers_14_self_attn_qkv_proj_weight layers_14_self_attn_q_norm_weight
      layers_14_self_attn_k_norm_weight l_positions layers_0_self_attn_rotary_emb_cos_sin_cache
      h = do {
  view \<leftarrow> t_view T output_55 [-1, 2048];
  (linear, h) \<leftarrow> t_linear T view layers_13_self_attn_o_proj_weight None h;
  get_data_attr \<leftarrow> t_get_data_attr T layers_13_post_attention_layernorm_weight;
  (to, h) \<leftarrow> t_to T linear Float32 h;
  (add, h) \<leftarrow> t_add T to residual_25 h;
  (to_1, h) \<leftarrow> t_to T add Float16 h;
  (pow_1, h) \<leftarrow> t_pow N add 2 h;
  (mean, h) \<leftarrow> t_mean N pow_1 (-1) True h;
  (add_1, h) \<leftarrow> t_add_scalar N mean (1 / 1000000) h;
  (rsqrt, h) \<leftarrow> t_rsqrt N add_1 h;
  (mul, h) \<leftarrow> t_mul T add rsqrt h;
  (to_2, h) \<leftarrow> t_to T mul Float16 h;
  (mul_1, h) \<leftarrow> t_mul T to_2 get_data_attr h;
  (linear_1, h) \<leftarrow> t_linear T mul_1 layers_13_mlp_gate_up_proj_weight None h;
  getitem \<leftarrow> t_getitem_last T linear_1 None (Some 3072);
  (silu, h) \<leftarrow> t_silu N getitem h;
  getitem_1 \<leftarrow> t_getitem_last T linear_1 (Some 3072) None;
  (mul_2, h) \<leftarrow> t_mul T silu getitem_1 h;
  (linear_2, h) \<leftarrow> t_linear T mul_2 layers_13_mlp_down_proj_weight None h;
  get_data_attr_1 \<leftarrow> t_get_data_attr T layers_14_input_layernorm_weight;
  (to_3, h) \<leftarrow> t_to T linear_2 Float32 h;
  (add_2, h) \<leftarrow> t_add T to_3 to_1 h;
  (to_4, h) \<leftarrow> t_to T add_2 Float16 h;
  (pow_2, h) \<leftarrow> t_pow N add_2 2 h;
  (mean_1, h) \<leftarrow> t_mean N pow_2 (-1) True h;
  (add_3, h) \<leftarrow> t_add_scalar N mean_1 (1 / 1000000) h;
  (rsqrt_1, h) \<leftarrow> t_rsqrt N add_3 h;
  (mul_3, h) \<leftarrow> t_mul T add_2 rsqrt_1 h;
  (to_5, h) \<leftarrow> t_to T mul_3 Float16 h;
  (mul_4, h) \<leftarrow> t_mul T to_5 get_data_attr_1 h;
  (linear_3, h) \<leftarrow> t_linear T mul_4 layers_14_self_attn_qkv_proj_weight None h;
  split \<leftarrow> t_split T linear_3 [2048, 1024, 1024] (-1);
  getitem_2 \<leftarrow> py_nth split 0;
  getitem_3 \<leftarrow> py_nth split 1;
  getitem_4 \<leftarrow> py_nth split 2;
  view_1 \<leftarrow> t_view T getitem_2 [int s72, 16, 128];
  get_data_attr_2 \<leftarrow> t_get_data_attr T layers_14_self_attn_q_norm_weight;
  (to_6, h) \<leftarrow> t_to T view_1 Float32 h;
  (pow_3, h) \<leftarrow> t_pow N to_6 2 h;
  (mean_2, h) \<leftarrow> t_mean N pow_3 (-1) True h;
  (add_4, h) \<leftarrow> t_add_scalar N mean_2 (1 / 1000000) h;
  (rsqrt_2, h) \<leftarrow> t_rsqrt N add_4 h;
  (mul_5, h) \<leftarrow> t_mul T to_6 rsqrt_2 h;
  (to_7, h) \<leftarrow> t_to T mul_5 Float16 h;
  (mul_6, h) \<leftarrow> t_mul T to_7 get_data_attr_2 h;
  let size = sizes getitem_2;
  view_2 \<leftarrow> t_view T mul_6 (map int size);
  view_3 \<leftarrow> t_view T getitem_3 [int s72, 8, 128];
  get_data_attr_3 \<leftarrow> t_get_data_attr T layers_14_self_attn_k_norm_weight;
  (to_8, h) \<leftarrow> t_to T view_3 Float32 h;
  (pow_4, h) \<leftarrow> t_pow N to_8 2 h;
  (mean_3, h) \<leftarrow> t_mean N pow_4 (-1) True h;
  (add_5, h) \<leftarrow> t_add_scalar N mean_3 (1 / 1000000) h;
  (rsqrt_3, h) \<leftarrow> t_rsqrt N add_5 h;
  (mul_7, h) \<leftarrow> t_mul T to_8 rsqrt_3 h;
  (to_9, h) \<leftarrow> t_to T mul_7 Float16 h;
  (mul_8, h) \<leftarrow> t_mul T to_9 get_data_attr_3 h;
  let size_1 = sizes getitem_3;
  view_4 \<leftarrow> t_view T mul_8 (map int size_1);
  (flatten, h) \<leftarrow> t_flatten T l_positions h;
  (index_select, h) \<leftarrow> t_index_select T layers_0_self_attn_rotary_emb_cos_sin_cache 0
      flatten h;
  chunk \<leftarrow> t_chunk T index_select 2 (-1);
  getitem_5 \<leftarrow> py_nth chunk 0;
  getitem_6 \<leftarrow> py_nth chunk 1;
  let size_2 = sizes view_2;
  view_5 \<leftarrow> t_view T view_2 [int s72, -1, 128];
  getitem_7 \<leftarrow> t_getitem_last T view_5 None (Some 128);
  getitem_8 \<leftarrow> t_getitem_last T view_5 (Some 128) None;
  unsqueeze \<leftarrow> t_unsqueeze T getitem_5 (-2);
  (to_10, h) \<leftarrow> t_to T unsqueeze Float16 h;
  unsqueeze_1 \<leftarrow> t_unsqueeze T getitem_6 (-2);
  (to_11, h) \<leftarrow> t_to T unsqueeze_1 Float16 h;
  chunk_1 \<leftarrow> t_chunk T getitem_7 2 (-1);
  getitem_9 \<leftarrow> py_nth chunk_1 0;
  getitem_10 \<leftarrow> py_nth chunk_1 1;
  (mul_9, h) \<leftarrow> t_mul T getitem_9 to_10 h;
  (mul_10, h) \<leftarrow> t_mul T getitem_10 to_11 h;
  (sub, h) \<leftarrow> t_sub T mul_9 mul_10 h;
  (mul_11, h) \<leftarrow> t_mul T getitem_10 to_10 h;
  (mul_12, h) \<leftarrow> t_mul T getitem_9 to_11 h;
  (add_6, h) \<leftarrow> t_add T mul_11 mul_12 h;
  (cat, h) \<leftarrow> t_cat T [sub, add_6] (-1) h;
  (cat_1, h) \<leftarrow> t_cat T [cat, getitem_8] (-1) h;
  (reshape, h) \<leftarrow> t_reshape T cat_1 size_2 h;
  let size_3 = sizes view_4;
  view_6 \<leftarrow> t_view T view_4 [int s72, -1, 128];
  getitem_11 \<leftarrow> t_getitem_last T view_6 None (Some 128);
  getitem_12 \<leftarrow> t_getitem_last T view_6 (Some 128) None;
  unsqueeze_2 \<leftarrow> t_unsqueeze T getitem_5 (-2);
  (to_12, h) \<leftarrow> t_to T unsqueeze_2 Float16 h;
  unsqueeze_3 \<leftarrow> t_unsqueeze T getitem_6 (-2);
  (to_13, h) \<leftarrow> t_to T unsqueeze_3 Float16 h;
  chunk_2 \<leftarrow> t_chunk T getitem_11 2 (-1);
  getitem_13 \<leftarrow> py_nth chunk_2 0;
  getitem_14 \<leftarrow> py_nth chunk_2 1;
  (mul_13, h) \<leftarrow> t_mul T getitem_13 to_12 h;
  (mul_14, h) \<leftarrow> t_mul T getitem_14 to_13 h;
  (sub_1, h) \<leftarrow> t_sub T mul_13 mul_14 h;
  (mul_15, h) \<leftarrow> t_mul T getitem_14 to_12 h;
  (mul_16, h) \<leftarrow> t_mul T getitem_13 to_13 h;
  (add_7, h) \<leftarrow> t_add T mul_15 mul_16 h;
  (cat_2, h) \<leftarrow> t_cat T [sub_1, add_7] (-1) h;
  (cat_3, h) \<leftarrow> t_cat T [cat_2, getitem_12] (-1) h;
  (reshape_1, h) \<leftarrow> t_reshape T cat_3 size_3 h;
  let size_4 = [s72, 2048];
  (empty, h) \<leftarrow> t_empty T size_4 Float16 (''cuda'', 0) h;
  view_7 \<leftarrow> t_view T reshape [-1, 16, 128];
  view_8 \<leftarrow> t_view T empty [-1, 16, 128];
  view_9 \<leftarrow> t_view T reshape_1 [-1, 8, 128];
  view_10 \<leftarrow> t_view T getitem_4 [-1, 8, 128];
  Some ((view_7, view_9, view_10, view_8, to_4), h)}"

definition submod_29_qwen ::
  "('a, 'k) torch \<Rightarrow> ('a, 'k) native_ops \<Rightarrow>
   tensor \<Rightarrow> nat \<Rightarrow> tensor \<Rightarrow> tensor \<Rightarrow> tensor \<Rightarrow>
   ('a, 'k) store \<Rightarrow> (unit \<times> ('a, 'k) store) option" where
  "submod_29_qwen T N query_44 s72 key_44 value_14 output_59 h = do {
  h \<leftarrow> t_unified_attention_with_output T query_44 key_44 value_14 output_59
      ''model.layers.14.self_attn.attn'' h;
  Some ((), h)}"

definition submod_30_qwen ::
  "('a, 'k) torch \<Rightarrow> ('a, 'k) native_ops \<Rightarrow>
   tensor \<Rightarrow> nat \<Rightarrow> tensor \<Rightarrow> tensor \<Rightarrow> tensor \<Rightarrow> tensor \<Rightarrow> tensor \<Rightarrow> tensor \<Rightarrow> tensor \<Rightarrow> tensor \<Rightarrow> tensor \<Rightarrow> tensor \<Rightarrow> tensor \<Rightarrow>
   ('a, 'k) store \<Rightarrow> ((tensor \<times> tensor \<times> tensor \<times> tensor \<times> tensor) \<times> ('a, 'k) store) option" where
  "submod_30_qwen T N output_59 s72 layers_14_self_attn_o_proj_weight
      layers_14_post_attention_layernorm_weight residual_27 layers_14_mlp_gate_up_proj_weight
      layers_14_mlp_down_proj_weight layers_15_input_layernorm_weight
      layers_15_self_attn_qkv_proj_weight layers_15_self_attn_q_norm_weight
      layers_15_self_attn_k_norm_weight l_positions layers_0_self_attn_rotary_emb_cos_sin_cache
      h = do {
  view \<leftarrow> t_view T output_59 [-1, 2048];
  (linear, h) \<leftarrow> t_linear T view layers_14_self_attn_o_proj_weight None h;
  get_data_attr \<leftarrow> t_get_data_attr T layers_14_post_attention_layernorm_weight;
  (to, h) \<leftarrow> t_to T linear Float32 h;
  (add, h) \<leftarrow> t_add T to residual_27 h;
  (to_1, h) \<leftarrow> t_to T add Float16 h;
  (pow_1, h) \<leftarrow> t_pow N add 2 h;
  (mean, h) \<leftarrow> t_mean N pow_1 (-1) True h;
  (add_1, h) \<leftarrow> t_add_scalar N mean (1 / 1000000) h;
  (rsqrt, h) \<leftarrow> t_rsqrt N add_1 h;
  (mul, h) \<leftarrow> t_mul T add rsqrt h;
  (to_2, h) \<leftarrow> t_to T mul Float16 h;
  (mul_1, h) \<leftarrow> t_mul T to_2 get_data_attr h;
  (linear_1, h) \<leftarrow> t_linear T mul_1 layers_14_mlp_gate_up_proj_weight None h;
  getitem \<leftarrow> t_getitem_last T linear_1 None (Some 3072);
  (silu, h) \<leftarrow> t_silu N getitem h;
  getitem_1 \<leftarrow> t_getitem_last T linear_1 (Some 3072) None;
  (mul_2, h) \<leftarrow> t_mul T silu getitem_1 h;
  (linear_2, h) \<leftarrow> t_linear T mul_2 layers_14_mlp_down_proj_weight None h;
  get_data_attr_1 \<leftarrow> t_get_data_attr T layers_15_input_layernorm_weight;
  (to_3, h) \<leftarrow> t_to T linear_2 Float32 h;
  (add_2, h) \<leftarrow> t_add T to_3 to_1 h;
  (to_4, h) \<leftarrow> t_to T add_2 Float16 h;
  (pow_2, h) \<leftarrow> t_pow N add_2 2 h;
  (mean_1, h) \<leftarrow> t_mean N pow_2 (-1) True h;
  (add_3, h) \<leftarrow> t_add_scalar N mean_1 (1 / 1000000) h;
  (rsqrt_1, h) \<leftarrow> t_rsqrt N add_3 h;
  (mul_3, h) \<leftarrow> t_mul T add_2 rsqrt_1 h;
  (to_5, h) \<leftarrow> t_to T mul_3 Float16 h;
  (mul_4, h) \<leftarrow> t_mul T to_5 get_data_attr_1 h;
  (linear_3, h) \<leftarrow> t_linear T mul_4 layers_15_self_attn_qkv_proj_weight None h;
  split \<leftarrow> t_split T linear_3 [2048, 1024, 1024] (-1);
  getitem_2 \<leftarrow> py_nth split 0;
  getitem_3 \<leftarrow> py_nth split 1;
  getitem_4 \<leftarrow> py_nth split 2;
  view_1 \<leftarrow> t_view T getitem_2 [int s72, 16, 128];
  get_data_attr_2 \<leftarrow> t_get_data_attr T layers_15_self_attn_q_norm_weight;
  (to_6, h) \<leftarrow> t_to T view_1 Float32 h;
  (pow_3, h) \<leftarrow> t_pow N to_6 2 h;
  (mean_2, h) \<leftarrow> t_mean N pow_3 (-1) True h;
  (add_4, h) \<leftarrow> t_add_scalar N mean_2 (1 / 1000000) h;
  (rsqrt_2, h) \<leftarrow> t_rsqrt N add_4 h;
  (mul_5, h) \<leftarrow> t_mul T to_6 rsqrt_2 h;
  (to_7, h) \<leftarrow> t_to T mul_5 Float16 h;
  (mul_6, h) \<leftarrow> t_mul T to_7 get_data_attr_2 h;
  let size = sizes getitem_2;
  view_2 \<leftarrow> t_view T mul_6 (map int size);
  view_3 \<leftarrow> t_view T getitem_3 [int s72, 8, 128];
  get_data_attr_3 \<leftarrow> t_get_data_attr T layers_15_self_attn_k_norm_weight;
  (to_8, h) \<leftarrow> t_to T view_3 Float32 h;
  (pow_4, h) \<leftarrow> t_pow N to_8 2 h;
  (mean_3, h) \<leftarrow> t_mean N pow_4 (-1) True h;
  (add_5, h) \<leftarrow> t_add_scalar N mean_3 (1 / 1000000) h;
  (rsqrt_3, h) \<leftarrow> t_rsqrt N add_5 h;
  (mul_7, h) \<leftarrow> t_mul T to_8 rsqrt_3 h;
  (to_9, h) \<leftarrow> t_to T mul_7 Float16 h;
  (mul_8, h) \<leftarrow> t_mul T to_9 get_data_attr_3 h;
  let size_1 = sizes getitem_3;
  view_4 \<leftarrow> t_view T mul_8 (map int size_1);
  (flatten, h) \<leftarrow> t_flatten T l_positions h;
  (index_select, h) \<leftarrow> t_index_select T layers_0_self_attn_rotary_emb_cos_sin_cache 0
      flatten h;
  chunk \<leftarrow> t_chunk T index_select 2 (-1);
  getitem_5 \<leftarrow> py_nth chunk 0;
  getitem_6 \<leftarrow> py_nth chunk 1;
  let size_2 = sizes view_2;
  view_5 \<leftarrow> t_view T view_2 [int s72, -1, 128];
  getitem_7 \<leftarrow> t_getitem_last T view_5 None (Some 128);
  getitem_8 \<leftarrow> t_getitem_last T view_5 (Some 128) None;
  unsqueeze \<leftarrow> t_unsqueeze T getitem_5 (-2);
  (to_10, h) \<leftarrow> t_to T unsqueeze Float16 h;
  unsqueeze_1 \<leftarrow> t_unsqueeze T getitem_6 (-2);
  (to_11, h) \<leftarrow> t_to T unsqueeze_1 Float16 h;
  chunk_1 \<leftarrow> t_chunk T getitem_7 2 (-1);
  getitem_9 \<leftarrow> py_nth chunk_1 0;
  getitem_10 \<leftarrow> py_nth chunk_1 1;
  (mul_9, h) \<leftarrow> t_mul T getitem_9 to_10 h;
  (mul_10, h) \<leftarrow> t_mul T getitem_10 to_11 h;
  (sub, h) \<leftarrow> t_sub T mul_9 mul_10 h;
  (mul_11, h) \<leftarrow> t_mul T getitem_10 to_10 h;
  (mul_12, h) \<leftarrow> t_mul T getitem_9 to_11 h;
  (add_6, h) \<leftarrow> t_add T mul_11 mul_12 h;
  (cat, h) \<leftarrow> t_cat T [sub, add_6] (-1) h;
  (cat_1, h) \<leftarrow> t_cat T [cat, getitem_8] (-1) h;
  (reshape, h) \<leftarrow> t_reshape T cat_1 size_2 h;
  let size_3 = sizes view_4;
  view_6 \<leftarrow> t_view T view_4 [int s72, -1, 128];
  getitem_11 \<leftarrow> t_getitem_last T view_6 None (Some 128);
  getitem_12 \<leftarrow> t_getitem_last T view_6 (Some 128) None;
  unsqueeze_2 \<leftarrow> t_unsqueeze T getitem_5 (-2);
  (to_12, h) \<leftarrow> t_to T unsqueeze_2 Float16 h;
  unsqueeze_3 \<leftarrow> t_unsqueeze T getitem_6 (-2);
  (to_13, h) \<leftarrow> t_to T unsqueeze_3 Float16 h;
  chunk_2 \<leftarrow> t_chunk T getitem_11 2 (-1);
  getitem_13 \<leftarrow> py_nth chunk_2 0;
  getitem_14 \<leftarrow> py_nth chunk_2 1;
  (mul_13, h) \<leftarrow> t_mul T getitem_13 to_12 h;
  (mul_14, h) \<leftarrow> t_mul T getitem_14 to_13 h;
  (sub_1, h) \<leftarrow> t_sub T mul_13 mul_14 h;
  (mul_15, h) \<leftarrow> t_mul T getitem_14 to_12 h;
  (mul_16, h) \<leftarrow> t_mul T getitem_13 to_13 h;
  (add_7, h) \<leftarrow> t_add T mul_15 mul_16 h;
  (cat_2, h) \<leftarrow> t_cat T [sub_1, add_7] (-1) h;
  (cat_3, h) \<leftarrow> t_cat T [cat_2, getitem_12] (-1) h;
  (reshape_1, h) \<leftarrow> t_reshape T cat_3 size_3 h;
  let size_4 = [s72, 2048];
  (empty, h) \<leftarrow> t_empty T size_4 Float16 (''cuda'', 0) h;
  view_7 \<leftarrow> t_view T reshape [-1, 16, 128];
  view_8 \<leftarrow> t_view T empty [-1, 16, 128];
  view_9 \<leftarrow> t_view T reshape_1 [-1, 8, 128];
  view_10 \<leftarrow> t_view T getitem_4 [-1, 8, 128];
  Some ((view_7, view_9, view_10, view_8, to_4), h)}"

definition submod_31_qwen ::
  "('a, 'k) torch \<Rightarrow> ('a, 'k) native_ops \<Rightarrow>
   tensor \<Rightarrow> nat \<Rightarrow> tensor \<Rightarrow> tensor \<Rightarrow> tensor \<Rightarrow>
   ('a, 'k) store \<Rightarrow> (unit \<times> ('a, 'k) store) option" where
  "submod_31_qwen T N query_47 s72 key_47 value_15 output_63 h = do {
  h \<leftarrow> t_unified_attention_with_output T query_47 key_47 value_15 output_63
      ''model.layers.15.self_attn.attn'' h;
  Some ((), h)}"

definition submod_32_qwen ::
  "('a, 'k) torch \<Rightarrow> ('a, 'k) native_ops \<Rightarrow>
   tensor \<Rightarrow> nat \<Rightarrow> tensor \<Rightarrow> tensor \<Rightarrow> tensor \<Rightarrow> tensor \<Rightarrow> tensor \<Rightarrow> tensor \<Rightarrow> tensor \<Rightarrow> tensor \<Rightarrow> tensor \<Rightarrow> tensor \<Rightarrow> tensor \<Rightarrow>
   ('a, 'k) store \<Rightarrow> ((tensor \<times> tensor \<times> tensor \<times> tensor \<times> tensor) \<times> ('a, 'k) store) option" where
  "submod_32_qwen T N output_63 s72 layers_15_self_attn_o_proj_weight
      layers_15_post_attention_layernorm_weight residual_29 layers_15_mlp_gate_up_proj_weight
      layers_15_mlp_down_proj_weight layers_16_input_layernorm_weight
      layers_16_self_attn_qkv_proj_weight layers_16_self_attn_q_norm_weight
      layers_16_self_attn_k_norm_weight l_positions layers_0_self_attn_rotary_emb_cos_sin_cache
      h = do {
  view \<leftarrow> t_view T output_63 [-1, 2048];
  (linear, h) \<leftarrow> t_linear T view layers_15_self_attn_o_proj_weight None h;
  get_data_attr \<leftarrow> t_get_data_attr T layers_15_post_attention_layernorm_weight;
  (to, h) \<leftarrow> t_to T linear Float32 h;
  (add, h) \<leftarrow> t_add T to residual_29 h;
  (to_1, h) \<leftarrow> t_to T add Float16 h;
  (pow_1, h) \<leftarrow> t_pow N add 2 h;
  (mean, h) \<leftarrow> t_mean N pow_1 (-1) True h;
  (add_1, h) \<leftarrow> t_add_scalar N mean (1 / 1000000) h;
  (rsqrt, h) \<leftarrow> t_rsqrt N add_1 h;
  (mul, h) \<leftarrow> t_mul T add rsqrt h;
  (to_2, h) \<leftarrow> t_to T mul Float16 h;
  (mul_1, h) \<leftarrow> t_mul T to_2 get_data_attr h;
  (linear_1, h) \<leftarrow> t_linear T mul_1 layers_15_mlp_gate_up_proj_weight None h;
  getitem \<leftarrow> t_getitem_last T linear_1 None (Some 3072);
  (silu, h) \<leftarrow> t_silu N getitem h;
  getitem_1 \<leftarrow> t_getitem_last T linear_1 (Some 3072) None;
  (mul_2, h) \<leftarrow> t_mul T silu getitem_1 h;
  (linear_2, h) \<leftarrow> t_linear T mul_2 layers_15_mlp_down_proj_weight None h;
  get_data_attr_1 \<leftarrow> t_get_data_attr T layers_16_input_layernorm_weight;
  (to_3, h) \<leftarrow> t_to T linear_2 Float32 h;
  (add_2, h) \<leftarrow> t_add T to_3 to_1 h;
  (to_4, h) \<leftarrow> t_to T add_2 Float16 h;
  (pow_2, h) \<leftarrow> t_pow N add_2 2 h;
  (mean_1, h) \<leftarrow> t_mean N pow_2 (-1) True h;
  (add_3, h) \<leftarrow> t_add_scalar N mean_1 (1 / 1000000) h;
  (rsqrt_1, h) \<leftarrow> t_rsqrt N add_3 h;
  (mul_3, h) \<leftarrow> t_mul T add_2 rsqrt_1 h;
  (to_5, h) \<leftarrow> t_to T mul_3 Float16 h;
  (mul_4, h) \<leftarrow> t_mul T to_5 get_data_attr_1 h;
  (linear_3, h) \<leftarrow> t_linear T mul_4 layers_16_self_attn_qkv_proj_weight None h;
  split \<leftarrow> t_split T linear_3 [2048, 1024, 1024] (-1);
  getitem_2 \<leftarrow> py_nth split 0;
  getitem_3 \<leftarrow> py_nth split 1;
  getitem_4 \<leftarrow> py_nth split 2;
  view_1 \<leftarrow> t_view T getitem_2 [int s72, 16, 128];
  get_data_attr_2 \<leftarrow> t_get_data_attr T layers_16_self_attn_q_norm_weight;
  (to_6, h) \<leftarrow> t_to T view_1 Float32 h;
  (pow_3, h) \<leftarrow> t_pow N to_6 2 h;
  (mean_2, h) \<leftarrow> t_mean N pow_3 (-1) True h;
  (add_4, h) \<leftarrow> t_add_scalar N mean_2 (1 / 1000000) h;
  (rsqrt_2, h) \<leftarrow> t_rsqrt N add_4 h;
  (mul_5, h) \<leftarrow> t_mul T to_6 rsqrt_2 h;
  (to_7, h) \<leftarrow> t_to T mul_5 Float16 h;
  (mul_6, h) \<leftarrow> t_mul T to_7 get_data_attr_2 h;
  let size = sizes getitem_2;
  view_2 \<leftarrow> t_view T mul_6 (map int size);
  view_3 \<leftarrow> t_view T getitem_3 [int s72, 8, 128];
  get_data_attr_3 \<leftarrow> t_get_data_attr T layers_16_self_attn_k_norm_weight;
  (to_8, h) \<leftarrow> t_to T view_3 Float32 h;
  (pow_4, h) \<leftarrow> t_pow N to_8 2 h;
  (mean_3, h) \<leftarrow> t_mean N pow_4 (-1) True h;
  (add_5, h) \<leftarrow> t_add_scalar N mean_3 (1 / 1000000) h;
  (rsqrt_3, h) \<leftarrow> t_rsqrt N add_5 h;
  (mul_7, h) \<leftarrow> t_mul T to_8 rsqrt_3 h;
  (to_9, h) \<leftarrow> t_to T mul_7 Float16 h;
  (mul_8, h) \<leftarrow> t_mul T to_9 get_data_attr_3 h;
  let size_1 = sizes getitem_3;
  view_4 \<leftarrow> t_view T mul_8 (map int size_1);
  (flatten, h) \<leftarrow> t_flatten T l_positions h;
  (index_select, h) \<leftarrow> t_index_select T layers_0_self_attn_rotary_emb_cos_sin_cache 0
      flatten h;
  chunk \<leftarrow> t_chunk T index_select 2 (-1);
  getitem_5 \<leftarrow> py_nth chunk 0;
  getitem_6 \<leftarrow> py_nth chunk 1;
  let size_2 = sizes view_2;
  view_5 \<leftarrow> t_view T view_2 [int s72, -1, 128];
  getitem_7 \<leftarrow> t_getitem_last T view_5 None (Some 128);
  getitem_8 \<leftarrow> t_getitem_last T view_5 (Some 128) None;
  unsqueeze \<leftarrow> t_unsqueeze T getitem_5 (-2);
  (to_10, h) \<leftarrow> t_to T unsqueeze Float16 h;
  unsqueeze_1 \<leftarrow> t_unsqueeze T getitem_6 (-2);
  (to_11, h) \<leftarrow> t_to T unsqueeze_1 Float16 h;
  chunk_1 \<leftarrow> t_chunk T getitem_7 2 (-1);
  getitem_9 \<leftarrow> py_nth chunk_1 0;
  getitem_10 \<leftarrow> py_nth chunk_1 1;
  (mul_9, h) \<leftarrow> t_mul T getitem_9 to_10 h;
  (mul_10, h) \<leftarrow> t_mul T getitem_10 to_11 h;
  (sub, h) \<leftarrow> t_sub T mul_9 mul_10 h;
  (mul_11, h) \<leftarrow> t_mul T getitem_10 to_10 h;
  (mul_12, h) \<leftarrow> t_mul T getitem_9 to_11 h;
  (add_6, h) \<leftarrow> t_add T mul_11 mul_12 h;
  (cat, h) \<leftarrow> t_cat T [sub, add_6] (-1) h;
  (cat_1, h) \<leftarrow> t_cat T [cat, getitem_8] (-1) h;
  (reshape, h) \<leftarrow> t_reshape T cat_1 size_2 h;
  let size_3 = sizes view_4;
  view_6 \<leftarrow> t_view T view_4 [int s72, -1, 128];
  getitem_11 \<leftarrow> t_getitem_last T view_6 None (Some 128);
  getitem_12 \<leftarrow> t_getitem_last T view_6 (Some 128) None;
  unsqueeze_2 \<leftarrow> t_unsqueeze T getitem_5 (-2);
  (to_12, h) \<leftarrow> t_to T unsqueeze_2 Float16 h;
  unsqueeze_3 \<leftarrow> t_unsqueeze T getitem_6 (-2);
  (to_13, h) \<leftarrow> t_to T unsqueeze_3 Float16 h;
  chunk_2 \<leftarrow> t_chunk T getitem_11 2 (-1);
  getitem_13 \<leftarrow> py_nth chunk_2 0;
  getitem_14 \<leftarrow> py_nth chunk_2 1;
  (mul_13, h) \<leftarrow> t_mul T getitem_13 to_12 h;
  (mul_14, h) \<leftarrow> t_mul T getitem_14 to_13 h;
  (sub_1, h) \<leftarrow> t_sub T mul_13 mul_14 h;
  (mul_15, h) \<leftarrow> t_mul T getitem_14 to_12 h;
  (mul_16, h) \<leftarrow> t_mul T getitem_13 to_13 h;
  (add_7, h) \<leftarrow> t_add T mul_15 mul_16 h;
  (cat_2, h) \<leftarrow> t_cat T [sub_1, add_7] (-1) h;
  (cat_3, h) \<leftarrow> t_cat T [cat_2, getitem_12] (-1) h;
  (reshape_1, h) \<leftarrow> t_reshape T cat_3 size_3 h;
  let size_4 = [s72, 2048];
  (empty, h) \<leftarrow> t_empty T size_4 Float16 (''cuda'', 0) h;
  view_7 \<leftarrow> t_view T reshape [-1, 16, 128];
  view_8 \<leftarrow> t_view T empty [-1, 16, 128];
  view_9 \<leftarrow> t_view T reshape_1 [-1, 8, 128];
  view_10 \<leftarrow> t_view T getitem_4 [-1, 8, 128];
  Some ((view_7, view_9, view_10, view_8, to_4), h)}"

definition submod_33_qwen ::
  "('a, 'k) torch \<Rightarrow> ('a, 'k) native_ops \<Rightarrow>
   tensor \<Rightarrow> nat \<Rightarrow> tensor \<Rightarrow> tensor \<Rightarrow> tensor \<Rightarrow>
   ('a, 'k) store \<Rightarrow> (unit \<times> ('a, 'k) store) option" where
  "submod_33_qwen T N query_50 s72 key_50 value_16 output_67 h = do {
  h \<leftarrow> t_unified_attention_with_output T query_50 key_50 value_16 output_67
      ''model.layers.16.self_attn.attn'' h;
  Some ((), h)}"

definition submod_34_qwen ::
  "('a, 'k) torch \<Rightarrow> ('a, 'k) native_ops \<Rightarrow>
   tensor \<Rightarrow> nat \<Rightarrow> tensor \<Rightarrow> tensor \<Rightarrow> tensor \<Rightarrow> tensor \<Rightarrow> tensor \<Rightarrow> tensor \<Rightarrow> tensor \<Rightarrow> tensor \<Rightarrow> tensor \<Rightarrow> tensor \<Rightarrow> tensor \<Rightarrow>
   ('a, 'k) store \<Rightarrow> ((tensor \<times> tensor \<times> tensor \<times> tensor \<times> tensor) \<times> ('a, 'k) store) option" where
  "submod_34_qwen T N output_67 s72 layers_16_self_attn_o_proj_weight
      layers_16_post_attention_layernorm_weight residual_31 layers_16_mlp_gate_up_proj_weight
      layers_16_mlp_down_proj_weight layers_17_input_layernorm_weight
      layers_17_self_attn_qkv_proj_weight layers_17_self_attn_q_norm_weight
      layers_17_self_attn_k_norm_weight l_positions layers_0_self_attn_rotary_emb_cos_sin_cache
      h = do {
  view \<leftarrow> t_view T output_67 [-1, 2048];
  (linear, h) \<leftarrow> t_linear T view layers_16_self_attn_o_proj_weight None h;
  get_data_attr \<leftarrow> t_get_data_attr T layers_16_post_attention_layernorm_weight;
  (to, h) \<leftarrow> t_to T linear Float32 h;
  (add, h) \<leftarrow> t_add T to residual_31 h;
  (to_1, h) \<leftarrow> t_to T add Float16 h;
  (pow_1, h) \<leftarrow> t_pow N add 2 h;
  (mean, h) \<leftarrow> t_mean N pow_1 (-1) True h;
  (add_1, h) \<leftarrow> t_add_scalar N mean (1 / 1000000) h;
  (rsqrt, h) \<leftarrow> t_rsqrt N add_1 h;
  (mul, h) \<leftarrow> t_mul T add rsqrt h;
  (to_2, h) \<leftarrow> t_to T mul Float16 h;
  (mul_1, h) \<leftarrow> t_mul T to_2 get_data_attr h;
  (linear_1, h) \<leftarrow> t_linear T mul_1 layers_16_mlp_gate_up_proj_weight None h;
  getitem \<leftarrow> t_getitem_last T linear_1 None (Some 3072);
  (silu, h) \<leftarrow> t_silu N getitem h;
  getitem_1 \<leftarrow> t_getitem_last T linear_1 (Some 3072) None;
  (mul_2, h) \<leftarrow> t_mul T silu getitem_1 h;
  (linear_2, h) \<leftarrow> t_linear T mul_2 layers_16_mlp_down_proj_weight None h;
  get_data_attr_1 \<leftarrow> t_get_data_attr T layers_17_input_layernorm_weight;
  (to_3, h) \<leftarrow> t_to T linear_2 Float32 h;
  (add_2, h) \<leftarrow> t_add T to_3 to_1 h;
  (to_4, h) \<leftarrow> t_to T add_2 Float16 h;
  (pow_2, h) \<leftarrow> t_pow N add_2 2 h;
  (mean_1, h) \<leftarrow> t_mean N pow_2 (-1) True h;
  (add_3, h) \<leftarrow> t_add_scalar N mean_1 (1 / 1000000) h;
  (rsqrt_1, h) \<leftarrow> t_rsqrt N add_3 h;
  (mul_3, h) \<leftarrow> t_mul T add_2 rsqrt_1 h;
  (to_5, h) \<leftarrow> t_to T mul_3 Float16 h;
  (mul_4, h) \<leftarrow> t_mul T to_5 get_data_attr_1 h;
  (linear_3, h) \<leftarrow> t_linear T mul_4 layers_17_self_attn_qkv_proj_weight None h;
  split \<leftarrow> t_split T linear_3 [2048, 1024, 1024] (-1);
  getitem_2 \<leftarrow> py_nth split 0;
  getitem_3 \<leftarrow> py_nth split 1;
  getitem_4 \<leftarrow> py_nth split 2;
  view_1 \<leftarrow> t_view T getitem_2 [int s72, 16, 128];
  get_data_attr_2 \<leftarrow> t_get_data_attr T layers_17_self_attn_q_norm_weight;
  (to_6, h) \<leftarrow> t_to T view_1 Float32 h;
  (pow_3, h) \<leftarrow> t_pow N to_6 2 h;
  (mean_2, h) \<leftarrow> t_mean N pow_3 (-1) True h;
  (add_4, h) \<leftarrow> t_add_scalar N mean_2 (1 / 1000000) h;
  (rsqrt_2, h) \<leftarrow> t_rsqrt N add_4 h;
  (mul_5, h) \<leftarrow> t_mul T to_6 rsqrt_2 h;
  (to_7, h) \<leftarrow> t_to T mul_5 Float16 h;
  (mul_6, h) \<leftarrow> t_mul T to_7 get_data_attr_2 h;
  let size = sizes getitem_2;
  view_2 \<leftarrow> t_view T mul_6 (map int size);
  view_3 \<leftarrow> t_view T getitem_3 [int s72, 8, 128];
  get_data_attr_3 \<leftarrow> t_get_data_attr T layers_17_self_attn_k_norm_weight;
  (to_8, h) \<leftarrow> t_to T view_3 Float32 h;
  (pow_4, h) \<leftarrow> t_pow N to_8 2 h;
  (mean_3, h) \<leftarrow> t_mean N pow_4 (-1) True h;
  (add_5, h) \<leftarrow> t_add_scalar N mean_3 (1 / 1000000) h;
  (rsqrt_3, h) \<leftarrow> t_rsqrt N add_5 h;
  (mul_7, h) \<leftarrow> t_mul T to_8 rsqrt_3 h;
  (to_9, h) \<leftarrow> t_to T mul_7 Float16 h;
  (mul_8, h) \<leftarrow> t_mul T to_9 get_data_attr_3 h;
  let size_1 = sizes getitem_3;
  view_4 \<leftarrow> t_view T mul_8 (map int size_1);
  (flatten, h) \<leftarrow> t_flatten T l_positions h;
  (index_select, h) \<leftarrow> t_index_select T layers_0_self_attn_rotary_emb_cos_sin_cache 0
      flatten h;
  chunk \<leftarrow> t_chunk T index_select 2 (-1);
  getitem_5 \<leftarrow> py_nth chunk 0;
  getitem_6 \<leftarrow> py_nth chunk 1;
  let size_2 = sizes view_2;
  view_5 \<leftarrow> t_view T view_2 [int s72, -1, 128];
  getitem_7 \<leftarrow> t_getitem_last T view_5 None (Some 128);
  getitem_8 \<leftarrow> t_getitem_last T view_5 (Some 128) None;
  unsqueeze \<leftarrow> t_unsqueeze T getitem_5 (-2);
  (to_10, h) \<leftarrow> t_to T unsqueeze Float16 h;
  unsqueeze_1 \<leftarrow> t_unsqueeze T getitem_6 (-2);
  (to_11, h) \<leftarrow> t_to T unsqueeze_1 Float16 h;
  chunk_1 \<leftarrow> t_chunk T getitem_7 2 (-1);
  getitem_9 \<leftarrow> py_nth chunk_1 0;
  getitem_10 \<leftarrow> py_nth chunk_1 1;
  (mul_9, h) \<leftarrow> t_mul T getitem_9 to_10 h;
  (mul_10, h) \<leftarrow> t_mul T getitem_10 to_11 h;
  (sub, h) \<leftarrow> t_sub T mul_9 mul_10 h;
  (mul_11, h) \<leftarrow> t_mul T getitem_10 to_10 h;
  (mul_12, h) \<leftarrow> t_mul T getitem_9 to_11 h;
  (add_6, h) \<leftarrow> t_add T mul_11 mul_12 h;
  (cat, h) \<leftarrow> t_cat T [sub, add_6] (-1) h;
  (cat_1, h) \<leftarrow> t_cat T [cat, getitem_8] (-1) h;
  (reshape, h) \<leftarrow> t_reshape T cat_1 size_2 h;
  let size_3 = sizes view_4;
  view_6 \<leftarrow> t_view T view_4 [int s72, -1, 128];
  getitem_11 \<leftarrow> t_getitem_last T view_6 None (Some 128);
  getitem_12 \<leftarrow> t_getitem_last T view_6 (Some 128) None;
  unsqueeze_2 \<leftarrow> t_unsqueeze T getitem_5 (-2);
  (to_12, h) \<leftarrow> t_to T unsqueeze_2 Float16 h;
  unsqueeze_3 \<leftarrow> t_unsqueeze T getitem_6 (-2);
  (to_13, h) \<leftarrow> t_to T unsqueeze_3 Float16 h;
  chunk_2 \<leftarrow> t_chunk T getitem_11 2 (-1);
  getitem_13 \<leftarrow> py_nth chunk_2 0;
  getitem_14 \<leftarrow> py_nth chunk_2 1;
  (mul_13, h) \<leftarrow> t_mul T getitem_13 to_12 h;
  (mul_14, h) \<leftarrow> t_mul T getitem_14 to_13 h;
  (sub_1, h) \<leftarrow> t_sub T mul_13 mul_14 h;
  (mul_15, h) \<leftarrow> t_mul T getitem_14 to_12 h;
  (mul_16, h) \<leftarrow> t_mul T getitem_13 to_13 h;
  (add_7, h) \<leftarrow> t_add T mul_15 mul_16 h;
  (cat_2, h) \<leftarrow> t_cat T [sub_1, add_7] (-1) h;
  (cat_3, h) \<leftarrow> t_cat T [cat_2, getitem_12] (-1) h;
  (reshape_1, h) \<leftarrow> t_reshape T cat_3 size_3 h;
  let size_4 = [s72, 2048];
  (empty, h) \<leftarrow> t_empty T size_4 Float16 (''cuda'', 0) h;
  view_7 \<leftarrow> t_view T reshape [-1, 16, 128];
  view_8 \<leftarrow> t_view T empty [-1, 16, 128];
  view_9 \<leftarrow> t_view T reshape_1 [-1, 8, 128];
  view_10 \<leftarrow> t_view T getitem_4 [-1, 8, 128];
  Some ((view_7, view_9, view_10, view_8, to_4), h)}"

definition submod_35_qwen ::
  "('a, 'k) torch \<Rightarrow> ('a, 'k) native_ops \<Rightarrow>
   tensor \<Rightarrow> nat \<Rightarrow> tensor \<Rightarrow> tensor \<Rightarrow> tensor \<Rightarrow>
   ('a, 'k) store \<Rightarrow> (unit \<times> ('a, 'k) store) option" where
  "submod_35_qwen T N query_53 s72 key_53 value_17 output_71 h = do {
  h \<leftarrow> t_unified_attention_with_output T query_53 key_53 value_17 output_71
      ''model.layers.17.self_attn.attn'' h;
  Some ((), h)}"

definition submod_36_qwen ::
  "('a, 'k) torch \<Rightarrow> ('a, 'k) native_ops \<Rightarrow>
   tensor \<Rightarrow> nat \<Rightarrow> tensor \<Rightarrow> tensor \<Rightarrow> tensor \<Rightarrow> tensor \<Rightarrow> tensor \<Rightarrow> tensor \<Rightarrow> tensor \<Rightarrow> tensor \<Rightarrow> tensor \<Rightarrow> tensor \<Rightarrow> tensor \<Rightarrow>
   ('a, 'k) store \<Rightarrow> ((tensor \<times> tensor \<times> tensor \<times> tensor \<times> tensor) \<times> ('a, 'k) store) option" where
  "submod_36_qwen T N output_71 s72 layers_17_self_attn_o_proj_weight
      layers_17_post_attention_layernorm_weight residual_33 layers_17_mlp_gate_up_proj_weight
      layers_17_mlp_down_proj_weight layers_18_input_layernorm_weight
      layers_18_self_attn_qkv_proj_weight layers_18_self_attn_q_norm_weight
      layers_18_self_attn_k_norm_weight l_positions layers_0_self_attn_rotary_emb_cos_sin_cache
      h = do {
  view \<leftarrow> t_view T output_71 [-1, 2048];
  (linear, h) \<leftarrow> t_linear T view layers_17_self_attn_o_proj_weight None h;
  get_data_attr \<leftarrow> t_get_data_attr T layers_17_post_attention_layernorm_weight;
  (to, h) \<leftarrow> t_to T linear Float32 h;
  (add, h) \<leftarrow> t_add T to residual_33 h;
  (to_1, h) \<leftarrow> t_to T add Float16 h;
  (pow_1, h) \<leftarrow> t_pow N add 2 h;
  (mean, h) \<leftarrow> t_mean N pow_1 (-1) True h;
  (add_1, h) \<leftarrow> t_add_scalar N mean (1 / 1000000) h;
  (rsqrt, h) \<leftarrow> t_rsqrt N add_1 h;
  (mul, h) \<leftarrow> t_mul T add rsqrt h;
  (to_2, h) \<leftarrow> t_to T mul Float16 h;
  (mul_1, h) \<leftarrow> t_mul T to_2 get_data_attr h;
  (linear_1, h) \<leftarrow> t_linear T mul_1 layers_17_mlp_gate_up_proj_weight None h;
  getitem \<leftarrow> t_getitem_last T linear_1 None (Some 3072);
  (silu, h) \<leftarrow> t_silu N getitem h;
  getitem_1 \<leftarrow> t_getitem_last T linear_1 (Some 3072) None;
  (mul_2, h) \<leftarrow> t_mul T silu getitem_1 h;
  (linear_2, h) \<leftarrow> t_linear T mul_2 layers_17_mlp_down_proj_weight None h;
  get_data_attr_1 \<leftarrow> t_get_data_attr T layers_18_input_layernorm_weight;
  (to_3, h) \<leftarrow> t_to T linear_2 Float32 h;
  (add_2, h) \<leftarrow> t_add T to_3 to_1 h;
  (to_4, h) \<leftarrow> t_to T add_2 Float16 h;
  (pow_2, h) \<leftarrow> t_pow N add_2 2 h;
  (mean_1, h) \<leftarrow> t_mean N pow_2 (-1) True h;
  (add_3, h) \<leftarrow> t_add_scalar N mean_1 (1 / 1000000) h;
  (rsqrt_1, h) \<leftarrow> t_rsqrt N add_3 h;
  (mul_3, h) \<leftarrow> t_mul T add_2 rsqrt_1 h;
  (to_5, h) \<leftarrow> t_to T mul_3 Float16 h;
  (mul_4, h) \<leftarrow> t_mul T to_5 get_data_attr_1 h;
  (linear_3, h) \<leftarrow> t_linear T mul_4 layers_18_self_attn_qkv_proj_weight None h;
  split \<leftarrow> t_split T linear_3 [2048, 1024, 1024] (-1);
  getitem_2 \<leftarrow> py_nth split 0;
  getitem_3 \<leftarrow> py_nth split 1;
  getitem_4 \<leftarrow> py_nth split 2;
  view_1 \<leftarrow> t_view T getitem_2 [int s72, 16, 128];
  get_data_attr_2 \<leftarrow> t_get_data_attr T layers_18_self_attn_q_norm_weight;
  (to_6, h) \<leftarrow> t_to T view_1 Float32 h;
  (pow_3, h) \<leftarrow> t_pow N to_6 2 h;
  (mean_2, h) \<leftarrow> t_mean N pow_3 (-1) True h;
  (add_4, h) \<leftarrow> t_add_scalar N mean_2 (1 / 1000000) h;
  (rsqrt_2, h) \<leftarrow> t_rsqrt N add_4 h;
  (mul_5, h) \<leftarrow> t_mul T to_6 rsqrt_2 h;
  (to_7, h) \<leftarrow> t_to T mul_5 Float16 h;
  (mul_6, h) \<leftarrow> t_mul T to_7 get_data_attr_2 h;
  let size = sizes getitem_2;
  view_2 \<leftarrow> t_view T mul_6 (map int size);
  view_3 \<leftarrow> t_view T getitem_3 [int s72, 8, 128];
  get_data_attr_3 \<leftarrow> t_get_data_attr T layers_18_self_attn_k_norm_weight;
  (to_8, h) \<leftarrow> t_to T view_3 Float32 h;
  (pow_4, h) \<leftarrow> t_pow N to_8 2 h;
  (mean_3, h) \<leftarrow> t_mean N pow_4 (-1) True h;
  (add_5, h) \<leftarrow> t_add_scalar N mean_3 (1 / 1000000) h;
  (rsqrt_3, h) \<leftarrow> t_rsqrt N add_5 h;
  (mul_7, h) \<leftarrow> t_mul T to_8 rsqrt_3 h;
  (to_9, h) \<leftarrow> t_to T mul_7 Float16 h;
  (mul_8, h) \<leftarrow> t_mul T to_9 get_data_attr_3 h;
  let size_1 = sizes getitem_3;
  view_4 \<leftarrow> t_view T mul_8 (map int size_1);
  (flatten, h) \<leftarrow> t_flatten T l_positions h;
  (index_select, h) \<leftarrow> t_index_select T layers_0_self_attn_rotary_emb_cos_sin_cache 0
      flatten h;
  chunk \<leftarrow> t_chunk T index_select 2 (-1);
  getitem_5 \<leftarrow> py_nth chunk 0;
  getitem_6 \<leftarrow> py_nth chunk 1;
  let size_2 = sizes view_2;
  view_5 \<leftarrow> t_view T view_2 [int s72, -1, 128];
  getitem_7 \<leftarrow> t_getitem_last T view_5 None (Some 128);
  getitem_8 \<leftarrow> t_getitem_last T view_5 (Some 128) None;
  unsqueeze \<leftarrow> t_unsqueeze T getitem_5 (-2);
  (to_10, h) \<leftarrow> t_to T unsqueeze Float16 h;
  unsqueeze_1 \<leftarrow> t_unsqueeze T getitem_6 (-2);
  (to_11, h) \<leftarrow> t_to T unsqueeze_1 Float16 h;
  chunk_1 \<leftarrow> t_chunk T getitem_7 2 (-1);
  getitem_9 \<leftarrow> py_nth chunk_1 0;
  getitem_10 \<leftarrow> py_nth chunk_1 1;
  (mul_9, h) \<leftarrow> t_mul T getitem_9 to_10 h;
  (mul_10, h) \<leftarrow> t_mul T getitem_10 to_11 h;
  (sub, h) \<leftarrow> t_sub T mul_9 mul_10 h;
  (mul_11, h) \<leftarrow> t_mul T getitem_10 to_10 h;
  (mul_12, h) \<leftarrow> t_mul T getitem_9 to_11 h;
  (add_6, h) \<leftarrow> t_add T mul_11 mul_12 h;
  (cat, h) \<leftarrow> t_cat T [sub, add_6] (-1) h;
  (cat_1, h) \<leftarrow> t_cat T [cat, getitem_8] (-1) h;
  (reshape, h) \<leftarrow> t_reshape T cat_1 size_2 h;
  let size_3 = sizes view_4;
  view_6 \<leftarrow> t_view T view_4 [int s72, -1, 128];
  getitem_11 \<leftarrow> t_getitem_last T view_6 None (Some 128);
  getitem_12 \<leftarrow> t_getitem_last T view_6 (Some 128) None;
  unsqueeze_2 \<leftarrow> t_unsqueeze T getitem_5 (-2);
  (to_12, h) \<leftarrow> t_to T unsqueeze_2 Float16 h;
  unsqueeze_3 \<leftarrow> t_unsqueeze T getitem_6 (-2);
  (to_13, h) \<leftarrow> t_to T unsqueeze_3 Float16 h;
  chunk_2 \<leftarrow> t_chunk T getitem_11 2 (-1);
  getitem_13 \<leftarrow> py_nth chunk_2 0;
  getitem_14 \<leftarrow> py_nth chunk_2 1;
  (mul_13, h) \<leftarrow> t_mul T getitem_13 to_12 h;
  (mul_14, h) \<leftarrow> t_mul T getitem_14 to_13 h;
  (sub_1, h) \<leftarrow> t_sub T mul_13 mul_14 h;
  (mul_15, h) \<leftarrow> t_mul T getitem_14 to_12 h;
  (mul_16, h) \<leftarrow> t_mul T getitem_13 to_13 h;
  (add_7, h) \<leftarrow> t_add T mul_15 mul_16 h;
  (cat_2, h) \<leftarrow> t_cat T [sub_1, add_7] (-1) h;
  (cat_3, h) \<leftarrow> t_cat T [cat_2, getitem_12] (-1) h;
  (reshape_1, h) \<leftarrow> t_reshape T cat_3 size_3 h;
  let size_4 = [s72, 2048];
  (empty, h) \<leftarrow> t_empty T size_4 Float16 (''cuda'', 0) h;
  view_7 \<leftarrow> t_view T reshape [-1, 16, 128];
  view_8 \<leftarrow> t_view T empty [-1, 16, 128];
  view_9 \<leftarrow> t_view T reshape_1 [-1, 8, 128];
  view_10 \<leftarrow> t_view T getitem_4 [-1, 8, 128];
  Some ((view_7, view_9, view_10, view_8, to_4), h)}"

definition submod_37_qwen ::
  "('a, 'k) torch \<Rightarrow> ('a, 'k) native_ops \<Rightarrow>
   tensor \<Rightarrow> nat \<Rightarrow> tensor \<Rightarrow> tensor \<Rightarrow> tensor \<Rightarrow>
   ('a, 'k) store \<Rightarrow> (unit \<times> ('a, 'k) store) option" where
  "submod_37_qwen T N query_56 s72 key_56 value_18 output_75 h = do {
  h \<leftarrow> t_unified_attention_with_output T query_56 key_56 value_18 output_75
      ''model.layers.18.self_attn.attn'' h;
  Some ((), h)}"

definition submod_38_qwen ::
  "('a, 'k) torch \<Rightarrow> ('a, 'k) native_ops \<Rightarrow>
   tensor \<Rightarrow> nat \<Rightarrow> tensor \<Rightarrow> tensor \<Rightarrow> tensor \<Rightarrow> tensor \<Rightarrow> tensor \<Rightarrow> tensor \<Rightarrow> tensor \<Rightarrow> tensor \<Rightarrow> tensor \<Rightarrow> tensor \<Rightarrow> tensor \<Rightarrow>
   ('a, 'k) store \<Rightarrow> ((tensor \<times> tensor \<times> tensor \<times> tensor \<times> tensor) \<times> ('a, 'k) store) option" where
  "submod_38_qwen T N output_75 s72 layers_18_self_attn_o_proj_weight
      layers_18_post_attention_layernorm_weight residual_35 layers_18_mlp_gate_up_proj_weight
      layers_18_mlp_down_proj_weight layers_19_input_layernorm_weight
      layers_19_self_attn_qkv_proj_weight layers_19_self_attn_q_norm_weight
      layers_19_self_attn_k_norm_weight l_positions layers_0_self_attn_rotary_emb_cos_sin_cache
      h = do {
  view \<leftarrow> t_view T output_75 [-1, 2048];
  (linear, h) \<leftarrow> t_linear T view layers_18_self_attn_o_proj_weight None h;
  get_data_attr \<leftarrow> t_get_data_attr T layers_18_post_attention_layernorm_weight;
  (to, h) \<leftarrow> t_to T linear Float32 h;
  (add, h) \<leftarrow> t_add T to residual_35 h;
  (to_1, h) \<leftarrow> t_to T add Float16 h;
  (pow_1, h) \<leftarrow> t_pow N add 2 h;
  (mean, h) \<leftarrow> t_mean N pow_1 (-1) True h;
  (add_1, h) \<leftarrow> t_add_scalar N mean (1 / 1000000) h;
  (rsqrt, h) \<leftarrow> t_rsqrt N add_1 h;
  (mul, h) \<leftarrow> t_mul T add rsqrt h;
  (to_2, h) \<leftarrow> t_to T mul Float16 h;
  (mul_1, h) \<leftarrow> t_mul T to_2 get_data_attr h;
  (linear_1, h) \<leftarrow> t_linear T mul_1 layers_18_mlp_gate_up_proj_weight None h;
  getitem \<leftarrow> t_getitem_last T linear_1 None (Some 3072);
  (silu, h) \<leftarrow> t_silu N getitem h;
  getitem_1 \<leftarrow> t_getitem_last T linear_1 (Some 3072) None;
  (mul_2, h) \<leftarrow> t_mul T silu getitem_1 h;
  (linear_2, h) \<leftarrow> t_linear T mul_2 layers_18_mlp_down_proj_weight None h;
  get_data_attr_1 \<leftarrow> t_get_data_attr T layers_19_input_layernorm_weight;
  (to_3, h) \<leftarrow> t_to T linear_2 Float32 h;
  (add_2, h) \<leftarrow> t_add T to_3 to_1 h;
  (to_4, h) \<leftarrow> t_to T add_2 Float16 h;
  (pow_2, h) \<leftarrow> t_pow N add_2 2 h;
  (mean_1, h) \<leftarrow> t_mean N pow_2 (-1) True h;
  (add_3, h) \<leftarrow> t_add_scalar N mean_1 (1 / 1000000) h;
  (rsqrt_1, h) \<leftarrow> t_rsqrt N add_3 h;
  (mul_3, h) \<leftarrow> t_mul T add_2 rsqrt_1 h;
  (to_5, h) \<leftarrow> t_to T mul_3 Float16 h;
  (mul_4, h) \<leftarrow> t_mul T to_5 get_data_attr_1 h;
  (linear_3, h) \<leftarrow> t_linear T mul_4 layers_19_self_attn_qkv_proj_weight None h;
  split \<leftarrow> t_split T linear_3 [2048, 1024, 1024] (-1);
  getitem_2 \<leftarrow> py_nth split 0;
  getitem_3 \<leftarrow> py_nth split 1;
  getitem_4 \<leftarrow> py_nth split 2;
  view_1 \<leftarrow> t_view T getitem_2 [int s72, 16, 128];
  get_data_attr_2 \<leftarrow> t_get_data_attr T layers_19_self_attn_q_norm_weight;
  (to_6, h) \<leftarrow> t_to T view_1 Float32 h;
  (pow_3, h) \<leftarrow> t_pow N to_6 2 h;
  (mean_2, h) \<leftarrow> t_mean N pow_3 (-1) True h;
  (add_4, h) \<leftarrow> t_add_scalar N mean_2 (1 / 1000000) h;
  (rsqrt_2, h) \<leftarrow> t_rsqrt N add_4 h;
  (mul_5, h) \<leftarrow> t_mul T to_6 rsqrt_2 h;
  (to_7, h) \<leftarrow> t_to T mul_5 Float16 h;
  (mul_6, h) \<leftarrow> t_mul T to_7 get_data_attr_2 h;
  let size = sizes getitem_2;
  view_2 \<leftarrow> t_view T mul_6 (map int size);
  view_3 \<leftarrow> t_view T getitem_3 [int s72, 8, 128];
  get_data_attr_3 \<leftarrow> t_get_data_attr T layers_19_self_attn_k_norm_weight;
  (to_8, h) \<leftarrow> t_to T view_3 Float32 h;
  (pow_4, h) \<leftarrow> t_pow N to_8 2 h;
  (mean_3, h) \<leftarrow> t_mean N pow_4 (-1) True h;
  (add_5, h) \<leftarrow> t_add_scalar N mean_3 (1 / 1000000) h;
  (rsqrt_3, h) \<leftarrow> t_rsqrt N add_5 h;
  (mul_7, h) \<leftarrow> t_mul T to_8 rsqrt_3 h;
  (to_9, h) \<leftarrow> t_to T mul_7 Float16 h;
  (mul_8, h) \<leftarrow> t_mul T to_9 get_data_attr_3 h;
  let size_1 = sizes getitem_3;
  view_4 \<leftarrow> t_view T mul_8 (map int size_1);
  (flatten, h) \<leftarrow> t_flatten T l_positions h;
  (index_select, h) \<leftarrow> t_index_select T layers_0_self_attn_rotary_emb_cos_sin_cache 0
      flatten h;
  chunk \<leftarrow> t_chunk T index_select 2 (-1);
  getitem_5 \<leftarrow> py_nth chunk 0;
  getitem_6 \<leftarrow> py_nth chunk 1;
  let size_2 = sizes view_2;
  view_5 \<leftarrow> t_view T view_2 [int s72, -1, 128];
  getitem_7 \<leftarrow> t_getitem_last T view_5 None (Some 128);
  getitem_8 \<leftarrow> t_getitem_last T view_5 (Some 128) None;
  unsqueeze \<leftarrow> t_unsqueeze T getitem_5 (-2);
  (to_10, h) \<leftarrow> t_to T unsqueeze Float16 h;
  unsqueeze_1 \<leftarrow> t_unsqueeze T getitem_6 (-2);
  (to_11, h) \<leftarrow> t_to T unsqueeze_1 Float16 h;
  chunk_1 \<leftarrow> t_chunk T getitem_7 2 (-1);
  getitem_9 \<leftarrow> py_nth chunk_1 0;
  getitem_10 \<leftarrow> py_nth chunk_1 1;
  (mul_9, h) \<leftarrow> t_mul T getitem_9 to_10 h;
  (mul_10, h) \<leftarrow> t_mul T getitem_10 to_11 h;
  (sub, h) \<leftarrow> t_sub T mul_9 mul_10 h;
  (mul_11, h) \<leftarrow> t_mul T getitem_10 to_10 h;
  (mul_12, h) \<leftarrow> t_mul T getitem_9 to_11 h;
  (add_6, h) \<leftarrow> t_add T mul_11 mul_12 h;
  (cat, h) \<leftarrow> t_cat T [sub, add_6] (-1) h;
  (cat_1, h) \<leftarrow> t_cat T [cat, getitem_8] (-1) h;
  (reshape, h) \<leftarrow> t_reshape T cat_1 size_2 h;
  let size_3 = sizes view_4;
  view_6 \<leftarrow> t_view T view_4 [int s72, -1, 128];
  getitem_11 \<leftarrow> t_getitem_last T view_6 None (Some 128);
  getitem_12 \<leftarrow> t_getitem_last T view_6 (Some 128) None;
  unsqueeze_2 \<leftarrow> t_unsqueeze T getitem_5 (-2);
  (to_12, h) \<leftarrow> t_to T unsqueeze_2 Float16 h;
  unsqueeze_3 \<leftarrow> t_unsqueeze T getitem_6 (-2);
  (to_13, h) \<leftarrow> t_to T unsqueeze_3 Float16 h;
  chunk_2 \<leftarrow> t_chunk T getitem_11 2 (-1);
  getitem_13 \<leftarrow> py_nth chunk_2 0;
  getitem_14 \<leftarrow> py_nth chunk_2 1;
  (mul_13, h) \<leftarrow> t_mul T getitem_13 to_12 h;
  (mul_14, h) \<leftarrow> t_mul T getitem_14 to_13 h;
  (sub_1, h) \<leftarrow> t_sub T mul_13 mul_14 h;
  (mul_15, h) \<leftarrow> t_mul T getitem_14 to_12 h;
  (mul_16, h) \<leftarrow> t_mul T getitem_13 to_13 h;
  (add_7, h) \<leftarrow> t_add T mul_15 mul_16 h;
  (cat_2, h) \<leftarrow> t_cat T [sub_1, add_7] (-1) h;
  (cat_3, h) \<leftarrow> t_cat T [cat_2, getitem_12] (-1) h;
  (reshape_1, h) \<leftarrow> t_reshape T cat_3 size_3 h;
  let size_4 = [s72, 2048];
  (empty, h) \<leftarrow> t_empty T size_4 Float16 (''cuda'', 0) h;
  view_7 \<leftarrow> t_view T reshape [-1, 16, 128];
  view_8 \<leftarrow> t_view T empty [-1, 16, 128];
  view_9 \<leftarrow> t_view T reshape_1 [-1, 8, 128];
  view_10 \<leftarrow> t_view T getitem_4 [-1, 8, 128];
  Some ((view_7, view_9, view_10, view_8, to_4), h)}"

definition submod_39_qwen ::
  "('a, 'k) torch \<Rightarrow> ('a, 'k) native_ops \<Rightarrow>
   tensor \<Rightarrow> nat \<Rightarrow> tensor \<Rightarrow> tensor \<Rightarrow> tensor \<Rightarrow>
   ('a, 'k) store \<Rightarrow> (unit \<times> ('a, 'k) store) option" where
  "submod_39_qwen T N query_59 s72 key_59 value_19 output_79 h = do {
  h \<leftarrow> t_unified_attention_with_output T query_59 key_59 value_19 output_79
      ''model.layers.19.self_attn.attn'' h;
  Some ((), h)}"

definition submod_40_qwen ::
  "('a, 'k) torch \<Rightarrow> ('a, 'k) native_ops \<Rightarrow>
   tensor \<Rightarrow> nat \<Rightarrow> tensor \<Rightarrow> tensor \<Rightarrow> tensor \<Rightarrow> tensor \<Rightarrow> tensor \<Rightarrow> tensor \<Rightarrow> tensor \<Rightarrow> tensor \<Rightarrow> tensor \<Rightarrow> tensor \<Rightarrow> tensor \<Rightarrow>
   ('a, 'k) store \<Rightarrow> ((tensor \<times> tensor \<times> tensor \<times> tensor \<times> tensor) \<times> ('a, 'k) store) option" where
  "submod_40_qwen T N output_79 s72 layers_19_self_attn_o_proj_weight
      layers_19_post_attention_layernorm_weight residual_37 layers_19_mlp_gate_up_proj_weight
      layers_19_mlp_down_proj_weight layers_20_input_layernorm_weight
      layers_20_self_attn_qkv_proj_weight layers_20_self_attn_q_norm_weight
      layers_20_self_attn_k_norm_weight l_positions layers_0_self_attn_rotary_emb_cos_sin_cache
      h = do {
  view \<leftarrow> t_view T output_79 [-1, 2048];
  (linear, h) \<leftarrow> t_linear T view layers_19_self_attn_o_proj_weight None h;
  get_data_attr \<leftarrow> t_get_data_attr T layers_19_post_attention_layernorm_weight;
  (to, h) \<leftarrow> t_to T linear Float32 h;
  (add, h) \<leftarrow> t_add T to residual_37 h;
  (to_1, h) \<leftarrow> t_to T add Float16 h;
  (pow_1, h) \<leftarrow> t_pow N add 2 h;
  (mean, h) \<leftarrow> t_mean N pow_1 (-1) True h;
  (add_1, h) \<leftarrow> t_add_scalar N mean (1 / 1000000) h;
  (rsqrt, h) \<leftarrow> t_rsqrt N add_1 h;
  (mul, h) \<leftarrow> t_mul T add rsqrt h;
  (to_2, h) \<leftarrow> t_to T mul Float16 h;
  (mul_1, h) \<leftarrow> t_mul T to_2 get_data_attr h;
  (linear_1, h) \<leftarrow> t_linear T mul_1 layers_19_mlp_gate_up_proj_weight None h;
  getitem \<leftarrow> t_getitem_last T linear_1 None (Some 3072);
  (silu, h) \<leftarrow> t_silu N getitem h;
  getitem_1 \<leftarrow> t_getitem_last T linear_1 (Some 3072) None;
  (mul_2, h) \<leftarrow> t_mul T silu getitem_1 h;
  (linear_2, h) \<leftarrow> t_linear T mul_2 layers_19_mlp_down_proj_weight None h;
  get_data_attr_1 \<leftarrow> t_get_data_attr T layers_20_input_layernorm_weight;
  (to_3, h) \<leftarrow> t_to T linear_2 Float32 h;
  (add_2, h) \<leftarrow> t_add T to_3 to_1 h;
  (to_4, h) \<leftarrow> t_to T add_2 Float16 h;
  (pow_2, h) \<leftarrow> t_pow N add_2 2 h;
  (mean_1, h) \<leftarrow> t_mean N pow_2 (-1) True h;
  (add_3, h) \<leftarrow> t_add_scalar N mean_1 (1 / 1000000) h;
  (rsqrt_1, h) \<leftarrow> t_rsqrt N add_3 h;
  (mul_3, h) \<leftarrow> t_mul T add_2 rsqrt_1 h;
  (to_5, h) \<leftarrow> t_to T mul_3 Float16 h;
  (mul_4, h) \<leftarrow> t_mul T to_5 get_data_attr_1 h;
  (linear_3, h) \<leftarrow> t_linear T mul_4 layers_20_self_attn_qkv_proj_weight None h;
  split \<leftarrow> t_split T linear_3 [2048, 1024, 1024] (-1);
  getitem_2 \<leftarrow> py_nth split 0;
  getitem_3 \<leftarrow> py_nth split 1;
  getitem_4 \<leftarrow> py_nth split 2;
  view_1 \<leftarrow> t_view T getitem_2 [int s72, 16, 128];
  get_data_attr_2 \<leftarrow> t_get_data_attr T layers_20_self_attn_q_norm_weight;
  (to_6, h) \<leftarrow> t_to T view_1 Float32 h;
  (pow_3, h) \<leftarrow> t_pow N to_6 2 h;
  (mean_2, h) \<leftarrow> t_mean N pow_3 (-1) True h;
  (add_4, h) \<leftarrow> t_add_scalar N mean_2 (1 / 1000000) h;
  (rsqrt_2, h) \<leftarrow> t_rsqrt N add_4 h;
  (mul_5, h) \<leftarrow> t_mul T to_6 rsqrt_2 h;
  (to_7, h) \<leftarrow> t_to T mul_5 Float16 h;
  (mul_6, h) \<leftarrow> t_mul T to_7 get_data_attr_2 h;
  let size = sizes getitem_2;
  view_2 \<leftarrow> t_view T mul_6 (map int size);
  view_3 \<leftarrow> t_view T getitem_3 [int s72, 8, 128];
  get_data_attr_3 \<leftarrow> t_get_data_attr T layers_20_self_attn_k_norm_weight;
  (to_8, h) \<leftarrow> t_to T view_3 Float32 h;
  (pow_4, h) \<leftarrow> t_pow N to_8 2 h;
  (mean_3, h) \<leftarrow> t_mean N pow_4 (-1) True h;
  (add_5, h) \<leftarrow> t_add_scalar N mean_3 (1 / 1000000) h;
  (rsqrt_3, h) \<leftarrow> t_rsqrt N add_5 h;
  (mul_7, h) \<leftarrow> t_mul T to_8 rsqrt_3 h;
  (to_9, h) \<leftarrow> t_to T mul_7 Float16 h;
  (mul_8, h) \<leftarrow> t_mul T to_9 get_data_attr_3 h;
  let size_1 = sizes getitem_3;
  view_4 \<leftarrow> t_view T mul_8 (map int size_1);
  (flatten, h) \<leftarrow> t_flatten T l_positions h;
  (index_select, h) \<leftarrow> t_index_select T layers_0_self_attn_rotary_emb_cos_sin_cache 0
      flatten h;
  chunk \<leftarrow> t_chunk T index_select 2 (-1);
  getitem_5 \<leftarrow> py_nth chunk 0;
  getitem_6 \<leftarrow> py_nth chunk 1;
  let size_2 = sizes view_2;
  view_5 \<leftarrow> t_view T view_2 [int s72, -1, 128];
  getitem_7 \<leftarrow> t_getitem_last T view_5 None (Some 128);
  getitem_8 \<leftarrow> t_getitem_last T view_5 (Some 128) None;
  unsqueeze \<leftarrow> t_unsqueeze T getitem_5 (-2);
  (to_10, h) \<leftarrow> t_to T unsqueeze Float16 h;
  unsqueeze_1 \<leftarrow> t_unsqueeze T getitem_6 (-2);
  (to_11, h) \<leftarrow> t_to T unsqueeze_1 Float16 h;
  chunk_1 \<leftarrow> t_chunk T getitem_7 2 (-1);
  getitem_9 \<leftarrow> py_nth chunk_1 0;
  getitem_10 \<leftarrow> py_nth chunk_1 1;
  (mul_9, h) \<leftarrow> t_mul T getitem_9 to_10 h;
  (mul_10, h) \<leftarrow> t_mul T getitem_10 to_11 h;
  (sub, h) \<leftarrow> t_sub T mul_9 mul_10 h;
  (mul_11, h) \<leftarrow> t_mul T getitem_10 to_10 h;
  (mul_12, h) \<leftarrow> t_mul T getitem_9 to_11 h;
  (add_6, h) \<leftarrow> t_add T mul_11 mul_12 h;
  (cat, h) \<leftarrow> t_cat T [sub, add_6] (-1) h;
  (cat_1, h) \<leftarrow> t_cat T [cat, getitem_8] (-1) h;
  (reshape, h) \<leftarrow> t_reshape T cat_1 size_2 h;
  let size_3 = sizes view_4;
  view_6 \<leftarrow> t_view T view_4 [int s72, -1, 128];
  getitem_11 \<leftarrow> t_getitem_last T view_6 None (Some 128);
  getitem_12 \<leftarrow> t_getitem_last T view_6 (Some 128) None;
  unsqueeze_2 \<leftarrow> t_unsqueeze T getitem_5 (-2);
  (to_12, h) \<leftarrow> t_to T unsqueeze_2 Float16 h;
  unsqueeze_3 \<leftarrow> t_unsqueeze T getitem_6 (-2);
  (to_13, h) \<leftarrow> t_to T unsqueeze_3 Float16 h;
  chunk_2 \<leftarrow> t_chunk T getitem_11 2 (-1);
  getitem_13 \<leftarrow> py_nth chunk_2 0;
  getitem_14 \<leftarrow> py_nth chunk_2 1;
  (mul_13, h) \<leftarrow> t_mul T getitem_13 to_12 h;
  (mul_14, h) \<leftarrow> t_mul T getitem_14 to_13 h;
  (sub_1, h) \<leftarrow> t_sub T mul_13 mul_14 h;
  (mul_15, h) \<leftarrow> t_mul T getitem_14 to_12 h;
  (mul_16, h) \<leftarrow> t_mul T getitem_13 to_13 h;
  (add_7, h) \<leftarrow> t_add T mul_15 mul_16 h;
  (cat_2, h) \<leftarrow> t_cat T [sub_1, add_7] (-1) h;
  (cat_3, h) \<leftarrow> t_cat T [cat_2, getitem_12] (-1) h;
  (reshape_1, h) \<leftarrow> t_reshape T cat_3 size_3 h;
  let size_4 = [s72, 2048];
  (empty, h) \<leftarrow> t_empty T size_4 Float16 (''cuda'', 0) h;
  view_7 \<leftarrow> t_view T reshape [-1, 16, 128];
  view_8 \<leftarrow> t_view T empty [-1, 16, 128];
  view_9 \<leftarrow> t_view T reshape_1 [-1, 8, 128];
  view_10 \<leftarrow> t_view T getitem_4 [-1, 8, 128];
  Some ((view_7, view_9, view_10, view_8, to_4), h)}"

definition submod_41_qwen ::
  "('a, 'k) torch \<Rightarrow> ('a, 'k) native_ops \<Rightarrow>
   tensor \<Rightarrow> nat \<Rightarrow> tensor \<Rightarrow> tensor \<Rightarrow> tensor \<Rightarrow>
   ('a, 'k) store \<Rightarrow> (unit \<times> ('a, 'k) store) option" where
  "submod_41_qwen T N query_62 s72 key_62 value_20 output_83 h = do {
  h \<leftarrow> t_unified_attention_with_output T query_62 key_62 value_20 output_83
      ''model.layers.20.self_attn.attn'' h;
  Some ((), h)}"

definition submod_42_qwen ::
  "('a, 'k) torch \<Rightarrow> ('a, 'k) native_ops \<Rightarrow>
   tensor \<Rightarrow> nat \<Rightarrow> tensor \<Rightarrow> tensor \<Rightarrow> tensor \<Rightarrow> tensor \<Rightarrow> tensor \<Rightarrow> tensor \<Rightarrow> tensor \<Rightarrow> tensor \<Rightarrow> tensor \<Rightarrow> tensor \<Rightarrow> tensor \<Rightarrow>
   ('a, 'k) store \<Rightarrow> ((tensor \<times> tensor \<times> tensor \<times> tensor \<times> tensor) \<times> ('a, 'k) store) option" where
  "submod_42_qwen T N output_83 s72 layers_20_self_attn_o_proj_weight
      layers_20_post_attention_layernorm_weight residual_39 layers_20_mlp_gate_up_proj_weight
      layers_20_mlp_down_proj_weight layers_21_input_layernorm_weight
      layers_21_self_attn_qkv_proj_weight layers_21_self_attn_q_norm_weight
      layers_21_self_attn_k_norm_weight l_positions layers_0_self_attn_rotary_emb_cos_sin_cache
      h = do {
  view \<leftarrow> t_view T output_83 [-1, 2048];
  (linear, h) \<leftarrow> t_linear T view layers_20_self_attn_o_proj_weight None h;
  get_data_attr \<leftarrow> t_get_data_attr T layers_20_post_attention_layernorm_weight;
  (to, h) \<leftarrow> t_to T linear Float32 h;
  (add, h) \<leftarrow> t_add T to residual_39 h;
  (to_1, h) \<leftarrow> t_to T add Float16 h;
  (pow_1, h) \<leftarrow> t_pow N add 2 h;
  (mean, h) \<leftarrow> t_mean N pow_1 (-1) True h;
  (add_1, h) \<leftarrow> t_add_scalar N mean (1 / 1000000) h;
  (rsqrt, h) \<leftarrow> t_rsqrt N add_1 h;
  (mul, h) \<leftarrow> t_mul T add rsqrt h;
  (to_2, h) \<leftarrow> t_to T mul Float16 h;
  (mul_1, h) \<leftarrow> t_mul T to_2 get_data_attr h;
  (linear_1, h) \<leftarrow> t_linear T mul_1 layers_20_mlp_gate_up_proj_weight None h;
  getitem \<leftarrow> t_getitem_last T linear_1 None (Some 3072);
  (silu, h) \<leftarrow> t_silu N getitem h;
  getitem_1 \<leftarrow> t_getitem_last T linear_1 (Some 3072) None;
  (mul_2, h) \<leftarrow> t_mul T silu getitem_1 h;
  (linear_2, h) \<leftarrow> t_linear T mul_2 layers_20_mlp_down_proj_weight None h;
  get_data_attr_1 \<leftarrow> t_get_data_attr T layers_21_input_layernorm_weight;
  (to_3, h) \<leftarrow> t_to T linear_2 Float32 h;
  (add_2, h) \<leftarrow> t_add T to_3 to_1 h;
  (to_4, h) \<leftarrow> t_to T add_2 Float16 h;
  (pow_2, h) \<leftarrow> t_pow N add_2 2 h;
  (mean_1, h) \<leftarrow> t_mean N pow_2 (-1) True h;
  (add_3, h) \<leftarrow> t_add_scalar N mean_1 (1 / 1000000) h;
  (rsqrt_1, h) \<leftarrow> t_rsqrt N add_3 h;
  (mul_3, h) \<leftarrow> t_mul T add_2 rsqrt_1 h;
  (to_5, h) \<leftarrow> t_to T mul_3 Float16 h;
  (mul_4, h) \<leftarrow> t_mul T to_5 get_data_attr_1 h;
  (linear_3, h) \<leftarrow> t_linear T mul_4 layers_21_self_attn_qkv_proj_weight None h;
  split \<leftarrow> t_split T linear_3 [2048, 1024, 1024] (-1);
  getitem_2 \<leftarrow> py_nth split 0;
  getitem_3 \<leftarrow> py_nth split 1;
  getitem_4 \<leftarrow> py_nth split 2;
  view_1 \<leftarrow> t_view T getitem_2 [int s72, 16, 128];
  get_data_attr_2 \<leftarrow> t_get_data_attr T layers_21_self_attn_q_norm_weight;
  (to_6, h) \<leftarrow> t_to T view_1 Float32 h;
  (pow_3, h) \<leftarrow> t_pow N to_6 2 h;
  (mean_2, h) \<leftarrow> t_mean N pow_3 (-1) True h;
  (add_4, h) \<leftarrow> t_add_scalar N mean_2 (1 / 1000000) h;
  (rsqrt_2, h) \<leftarrow> t_rsqrt N add_4 h;
  (mul_5, h) \<leftarrow> t_mul T to_6 rsqrt_2 h;
  (to_7, h) \<leftarrow> t_to T mul_5 Float16 h;
  (mul_6, h) \<leftarrow> t_mul T to_7 get_data_attr_2 h;
  let size = sizes getitem_2;
  view_2 \<leftarrow> t_view T mul_6 (map int size);
  view_3 \<leftarrow> t_view T getitem_3 [int s72, 8, 128];
  get_data_attr_3 \<leftarrow> t_get_data_attr T layers_21_self_attn_k_norm_weight;
  (to_8, h) \<leftarrow> t_to T view_3 Float32 h;
  (pow_4, h) \<leftarrow> t_pow N to_8 2 h;
  (mean_3, h) \<leftarrow> t_mean N pow_4 (-1) True h;
  (add_5, h) \<leftarrow> t_add_scalar N mean_3 (1 / 1000000) h;
  (rsqrt_3, h) \<leftarrow> t_rsqrt N add_5 h;
  (mul_7, h) \<leftarrow> t_mul T to_8 rsqrt_3 h;
  (to_9, h) \<leftarrow> t_to T mul_7 Float16 h;
  (mul_8, h) \<leftarrow> t_mul T to_9 get_data_attr_3 h;
  let size_1 = sizes getitem_3;
  view_4 \<leftarrow> t_view T mul_8 (map int size_1);
  (flatten, h) \<leftarrow> t_flatten T l_positions h;
  (index_select, h) \<leftarrow> t_index_select T layers_0_self_attn_rotary_emb_cos_sin_cache 0
      flatten h;
  chunk \<leftarrow> t_chunk T index_select 2 (-1);
  getitem_5 \<leftarrow> py_nth chunk 0;
  getitem_6 \<leftarrow> py_nth chunk 1;
  let size_2 = sizes view_2;
  view_5 \<leftarrow> t_view T view_2 [int s72, -1, 128];
  getitem_7 \<leftarrow> t_getitem_last T view_5 None (Some 128);
  getitem_8 \<leftarrow> t_getitem_last T view_5 (Some 128) None;
  unsqueeze \<leftarrow> t_unsqueeze T getitem_5 (-2);
  (to_10, h) \<leftarrow> t_to T unsqueeze Float16 h;
  unsqueeze_1 \<leftarrow> t_unsqueeze T getitem_6 (-2);
  (to_11, h) \<leftarrow> t_to T unsqueeze_1 Float16 h;
  chunk_1 \<leftarrow> t_chunk T getitem_7 2 (-1);
  getitem_9 \<leftarrow> py_nth chunk_1 0;
  getitem_10 \<leftarrow> py_nth chunk_1 1;
  (mul_9, h) \<leftarrow> t_mul T getitem_9 to_10 h;
  (mul_10, h) \<leftarrow> t_mul T getitem_10 to_11 h;
  (sub, h) \<leftarrow> t_sub T mul_9 mul_10 h;
  (mul_11, h) \<leftarrow> t_mul T getitem_10 to_10 h;
  (mul_12, h) \<leftarrow> t_mul T getitem_9 to_11 h;
  (add_6, h) \<leftarrow> t_add T mul_11 mul_12 h;
  (cat, h) \<leftarrow> t_cat T [sub, add_6] (-1) h;
  (cat_1, h) \<leftarrow> t_cat T [cat, getitem_8] (-1) h;
  (reshape, h) \<leftarrow> t_reshape T cat_1 size_2 h;
  let size_3 = sizes view_4;
  view_6 \<leftarrow> t_view T view_4 [int s72, -1, 128];
  getitem_11 \<leftarrow> t_getitem_last T view_6 None (Some 128);
  getitem_12 \<leftarrow> t_getitem_last T view_6 (Some 128) None;
  unsqueeze_2 \<leftarrow> t_unsqueeze T getitem_5 (-2);
  (to_12, h) \<leftarrow> t_to T unsqueeze_2 Float16 h;
  unsqueeze_3 \<leftarrow> t_unsqueeze T getitem_6 (-2);
  (to_13, h) \<leftarrow> t_to T unsqueeze_3 Float16 h;
  chunk_2 \<leftarrow> t_chunk T getitem_11 2 (-1);
  getitem_13 \<leftarrow> py_nth chunk_2 0;
  getitem_14 \<leftarrow> py_nth chunk_2 1;
  (mul_13, h) \<leftarrow> t_mul T getitem_13 to_12 h;
  (mul_14, h) \<leftarrow> t_mul T getitem_14 to_13 h;
  (sub_1, h) \<leftarrow> t_sub T mul_13 mul_14 h;
  (mul_15, h) \<leftarrow> t_mul T getitem_14 to_12 h;
  (mul_16, h) \<leftarrow> t_mul T getitem_13 to_13 h;
  (add_7, h) \<leftarrow> t_add T mul_15 mul_16 h;
  (cat_2, h) \<leftarrow> t_cat T [sub_1, add_7] (-1) h;
  (cat_3, h) \<leftarrow> t_cat T [cat_2, getitem_12] (-1) h;
  (reshape_1, h) \<leftarrow> t_reshape T cat_3 size_3 h;
  let size_4 = [s72, 2048];
  (empty, h) \<leftarrow> t_empty T size_4 Float16 (''cuda'', 0) h;
  view_7 \<leftarrow> t_view T reshape [-1, 16, 128];
  view_8 \<leftarrow> t_view T empty [-1, 16, 128];
  view_9 \<leftarrow> t_view T reshape_1 [-1, 8, 128];
  view_10 \<leftarrow> t_view T getitem_4 [-1, 8, 128];
  Some ((view_7, view_9, view_10, view_8, to_4), h)}"

definition submod_43_qwen ::
  "('a, 'k) torch \<Rightarrow> ('a, 'k) native_ops \<Rightarrow>
   tensor \<Rightarrow> nat \<Rightarrow> tensor \<Rightarrow> tensor \<Rightarrow> tensor \<Rightarrow>
   ('a, 'k) store \<Rightarrow> (unit \<times> ('a, 'k) store) option" where
  "submod_43_qwen T N query_65 s72 key_65 value_21 output_87 h = do {
  h \<leftarrow> t_unified_attention_with_output T query_65 key_65 value_21 output_87
      ''model.layers.21.self_attn.attn'' h;
  Some ((), h)}"

definition submod_44_qwen ::
  "('a, 'k) torch \<Rightarrow> ('a, 'k) native_ops \<Rightarrow>
   tensor \<Rightarrow> nat \<Rightarrow> tensor \<Rightarrow> tensor \<Rightarrow> tensor \<Rightarrow> tensor \<Rightarrow> tensor \<Rightarrow> tensor \<Rightarrow> tensor \<Rightarrow> tensor \<Rightarrow> tensor \<Rightarrow> tensor \<Rightarrow> tensor \<Rightarrow>
   ('a, 'k) store \<Rightarrow> ((tensor \<times> tensor \<times> tensor \<times> tensor \<times> tensor) \<times> ('a, 'k) store) option" where
  "submod_44_qwen T N output_87 s72 layers_21_self_attn_o_proj_weight
      layers_21_post_attention_layernorm_weight residual_41 layers_21_mlp_gate_up_proj_weight
      layers_21_mlp_down_proj_weight layers_22_input_layernorm_weight
      layers_22_self_attn_qkv_proj_weight layers_22_self_attn_q_norm_weight
      layers_22_self_attn_k_norm_weight l_positions layers_0_self_attn_rotary_emb_cos_sin_cache
      h = do {
  view \<leftarrow> t_view T output_87 [-1, 2048];
  (linear, h) \<leftarrow> t_linear T view layers_21_self_attn_o_proj_weight None h;
  get_data_attr \<leftarrow> t_get_data_attr T layers_21_post_attention_layernorm_weight;
  (to, h) \<leftarrow> t_to T linear Float32 h;
  (add, h) \<leftarrow> t_add T to residual_41 h;
  (to_1, h) \<leftarrow> t_to T add Float16 h;
  (pow_1, h) \<leftarrow> t_pow N add 2 h;
  (mean, h) \<leftarrow> t_mean N pow_1 (-1) True h;
  (add_1, h) \<leftarrow> t_add_scalar N mean (1 / 1000000) h;
  (rsqrt, h) \<leftarrow> t_rsqrt N add_1 h;
  (mul, h) \<leftarrow> t_mul T add rsqrt h;
  (to_2, h) \<leftarrow> t_to T mul Float16 h;
  (mul_1, h) \<leftarrow> t_mul T to_2 get_data_attr h;
  (linear_1, h) \<leftarrow> t_linear T mul_1 layers_21_mlp_gate_up_proj_weight None h;
  getitem \<leftarrow> t_getitem_last T linear_1 None (Some 3072);
  (silu, h) \<leftarrow> t_silu N getitem h;
  getitem_1 \<leftarrow> t_getitem_last T linear_1 (Some 3072) None;
  (mul_2, h) \<leftarrow> t_mul T silu getitem_1 h;
  (linear_2, h) \<leftarrow> t_linear T mul_2 layers_21_mlp_down_proj_weight None h;
  get_data_attr_1 \<leftarrow> t_get_data_attr T layers_22_input_layernorm_weight;
  (to_3, h) \<leftarrow> t_to T linear_2 Float32 h;
  (add_2, h) \<leftarrow> t_add T to_3 to_1 h;
  (to_4, h) \<leftarrow> t_to T add_2 Float16 h;
  (pow_2, h) \<leftarrow> t_pow N add_2 2 h;
  (mean_1, h) \<leftarrow> t_mean N pow_2 (-1) True h;
  (add_3, h) \<leftarrow> t_add_scalar N mean_1 (1 / 1000000) h;
  (rsqrt_1, h) \<leftarrow> t_rsqrt N add_3 h;
  (mul_3, h) \<leftarrow> t_mul T add_2 rsqrt_1 h;
  (to_5, h) \<leftarrow> t_to T mul_3 Float16 h;
  (mul_4, h) \<leftarrow> t_mul T to_5 get_data_attr_1 h;
  (linear_3, h) \<leftarrow> t_linear T mul_4 layers_22_self_attn_qkv_proj_weight None h;
  split \<leftarrow> t_split T linear_3 [2048, 1024, 1024] (-1);
  getitem_2 \<leftarrow> py_nth split 0;
  getitem_3 \<leftarrow> py_nth split 1;
  getitem_4 \<leftarrow> py_nth split 2;
  view_1 \<leftarrow> t_view T getitem_2 [int s72, 16, 128];
  get_data_attr_2 \<leftarrow> t_get_data_attr T layers_22_self_attn_q_norm_weight;
  (to_6, h) \<leftarrow> t_to T view_1 Float32 h;
  (pow_3, h) \<leftarrow> t_pow N to_6 2 h;
  (mean_2, h) \<leftarrow> t_mean N pow_3 (-1) True h;
  (add_4, h) \<leftarrow> t_add_scalar N mean_2 (1 / 1000000) h;
  (rsqrt_2, h) \<leftarrow> t_rsqrt N add_4 h;
  (mul_5, h) \<leftarrow> t_mul T to_6 rsqrt_2 h;
  (to_7, h) \<leftarrow> t_to T mul_5 Float16 h;
  (mul_6, h) \<leftarrow> t_mul T to_7 get_data_attr_2 h;
  let size = sizes getitem_2;
  view_2 \<leftarrow> t_view T mul_6 (map int size);
  view_3 \<leftarrow> t_view T getitem_3 [int s72, 8, 128];
  get_data_attr_3 \<leftarrow> t_get_data_attr T layers_22_self_attn_k_norm_weight;
  (to_8, h) \<leftarrow> t_to T view_3 Float32 h;
  (pow_4, h) \<leftarrow> t_pow N to_8 2 h;
  (mean_3, h) \<leftarrow> t_mean N pow_4 (-1) True h;
  (add_5, h) \<leftarrow> t_add_scalar N mean_3 (1 / 1000000) h;
  (rsqrt_3, h) \<leftarrow> t_rsqrt N add_5 h;
  (mul_7, h) \<leftarrow> t_mul T to_8 rsqrt_3 h;
  (to_9, h) \<leftarrow> t_to T mul_7 Float16 h;
  (mul_8, h) \<leftarrow> t_mul T to_9 get_data_attr_3 h;
  let size_1 = sizes getitem_3;
  view_4 \<leftarrow> t_view T mul_8 (map int size_1);
  (flatten, h) \<leftarrow> t_flatten T l_positions h;
  (index_select, h) \<leftarrow> t_index_select T layers_0_self_attn_rotary_emb_cos_sin_cache 0
      flatten h;
  chunk \<leftarrow> t_chunk T index_select 2 (-1);
  getitem_5 \<leftarrow> py_nth chunk 0;
  getitem_6 \<leftarrow> py_nth chunk 1;
  let size_2 = sizes view_2;
  view_5 \<leftarrow> t_view T view_2 [int s72, -1, 128];
  getitem_7 \<leftarrow> t_getitem_last T view_5 None (Some 128);
  getitem_8 \<leftarrow> t_getitem_last T view_5 (Some 128) None;
  unsqueeze \<leftarrow> t_unsqueeze T getitem_5 (-2);
  (to_10, h) \<leftarrow> t_to T unsqueeze Float16 h;
  unsqueeze_1 \<leftarrow> t_unsqueeze T getitem_6 (-2);
  (to_11, h) \<leftarrow> t_to T unsqueeze_1 Float16 h;
  chunk_1 \<leftarrow> t_chunk T getitem_7 2 (-1);
  getitem_9 \<leftarrow> py_nth chunk_1 0;
  getitem_10 \<leftarrow> py_nth chunk_1 1;
  (mul_9, h) \<leftarrow> t_mul T getitem_9 to_10 h;
  (mul_10, h) \<leftarrow> t_mul T getitem_10 to_11 h;
  (sub, h) \<leftarrow> t_sub T mul_9 mul_10 h;
  (mul_11, h) \<leftarrow> t_mul T getitem_10 to_10 h;
  (mul_12, h) \<leftarrow> t_mul T getitem_9 to_11 h;
  (add_6, h) \<leftarrow> t_add T mul_11 mul_12 h;
  (cat, h) \<leftarrow> t_cat T [sub, add_6] (-1) h;
  (cat_1, h) \<leftarrow> t_cat T [cat, getitem_8] (-1) h;
  (reshape, h) \<leftarrow> t_reshape T cat_1 size_2 h;
  let size_3 = sizes view_4;
  view_6 \<leftarrow> t_view T view_4 [int s72, -1, 128];
  getitem_11 \<leftarrow> t_getitem_last T view_6 None (Some 128);
  getitem_12 \<leftarrow> t_getitem_last T view_6 (Some 128) None;
  unsqueeze_2 \<leftarrow> t_unsqueeze T getitem_5 (-2);
  (to_12, h) \<leftarrow> t_to T unsqueeze_2 Float16 h;
  unsqueeze_3 \<leftarrow> t_unsqueeze T getitem_6 (-2);
  (to_13, h) \<leftarrow> t_to T unsqueeze_3 Float16 h;
  chunk_2 \<leftarrow> t_chunk T getitem_11 2 (-1);
  getitem_13 \<leftarrow> py_nth chunk_2 0;
  getitem_14 \<leftarrow> py_nth chunk_2 1;
  (mul_13, h) \<leftarrow> t_mul T getitem_13 to_12 h;
  (mul_14, h) \<leftarrow> t_mul T getitem_14 to_13 h;
  (sub_1, h) \<leftarrow> t_sub T mul_13 mul_14 h;
  (mul_15, h) \<leftarrow> t_mul T getitem_14 to_12 h;
  (mul_16, h) \<leftarrow> t_mul T getitem_13 to_13 h;
  (add_7, h) \<leftarrow> t_add T mul_15 mul_16 h;
  (cat_2, h) \<leftarrow> t_cat T [sub_1, add_7] (-1) h;
  (cat_3, h) \<leftarrow> t_cat T [cat_2, getitem_12] (-1) h;
  (reshape_1, h) \<leftarrow> t_reshape T cat_3 size_3 h;
  let size_4 = [s72, 2048];
  (empty, h) \<leftarrow> t_empty T size_4 Float16 (''cuda'', 0) h;
  view_7 \<leftarrow> t_view T reshape [-1, 16, 128];
  view_8 \<leftarrow> t_view T empty [-1, 16, 128];
  view_9 \<leftarrow> t_view T reshape_1 [-1, 8, 128];
  view_10 \<leftarrow> t_view T getitem_4 [-1, 8, 128];
  Some ((view_7, view_9, view_10, view_8, to_4), h)}"

definition submod_45_qwen ::
  "('a, 'k) torch \<Rightarrow> ('a, 'k) native_ops \<Rightarrow>
   tensor \<Rightarrow> nat \<Rightarrow> tensor \<Rightarrow> tensor \<Rightarrow> tensor \<Rightarrow>
   ('a, 'k) store \<Rightarrow> (unit \<times> ('a, 'k) store) option" where
  "submod_45_qwen T N query_68 s72 key_68 value_22 output_91 h = do {
  h \<leftarrow> t_unified_attention_with_output T query_68 key_68 value_22 output_91
      ''model.layers.22.self_attn.attn'' h;
  Some ((), h)}"

definition submod_46_qwen ::
  "('a, 'k) torch \<Rightarrow> ('a, 'k) native_ops \<Rightarrow>
   tensor \<Rightarrow> nat \<Rightarrow> tensor \<Rightarrow> tensor \<Rightarrow> tensor \<Rightarrow> tensor \<Rightarrow> tensor \<Rightarrow> tensor \<Rightarrow> tensor \<Rightarrow> tensor \<Rightarrow> tensor \<Rightarrow> tensor \<Rightarrow> tensor \<Rightarrow>
   ('a, 'k) store \<Rightarrow> ((tensor \<times> tensor \<times> tensor \<times> tensor \<times> tensor) \<times> ('a, 'k) store) option" where
  "submod_46_qwen T N output_91 s72 layers_22_self_attn_o_proj_weight
      layers_22_post_attention_layernorm_weight residual_43 layers_22_mlp_gate_up_proj_weight
      layers_22_mlp_down_proj_weight layers_23_input_layernorm_weight
      layers_23_self_attn_qkv_proj_weight layers_23_self_attn_q_norm_weight
      layers_23_self_attn_k_norm_weight l_positions layers_0_self_attn_rotary_emb_cos_sin_cache
      h = do {
  view \<leftarrow> t_view T output_91 [-1, 2048];
  (linear, h) \<leftarrow> t_linear T view layers_22_self_attn_o_proj_weight None h;
  get_data_attr \<leftarrow> t_get_data_attr T layers_22_post_attention_layernorm_weight;
  (to, h) \<leftarrow> t_to T linear Float32 h;
  (add, h) \<leftarrow> t_add T to residual_43 h;
  (to_1, h) \<leftarrow> t_to T add Float16 h;
  (pow_1, h) \<leftarrow> t_pow N add 2 h;
  (mean, h) \<leftarrow> t_mean N pow_1 (-1) True h;
  (add_1, h) \<leftarrow> t_add_scalar N mean (1 / 1000000) h;
  (rsqrt, h) \<leftarrow> t_rsqrt N add_1 h;
  (mul, h) \<leftarrow> t_mul T add rsqrt h;
  (to_2, h) \<leftarrow> t_to T mul Float16 h;
  (mul_1, h) \<leftarrow> t_mul T to_2 get_data_attr h;
  (linear_1, h) \<leftarrow> t_linear T mul_1 layers_22_mlp_gate_up_proj_weight None h;
  getitem \<leftarrow> t_getitem_last T linear_1 None (Some 3072);
  (silu, h) \<leftarrow> t_silu N getitem h;
  getitem_1 \<leftarrow> t_getitem_last T linear_1 (Some 3072) None;
  (mul_2, h) \<leftarrow> t_mul T silu getitem_1 h;
  (linear_2, h) \<leftarrow> t_linear T mul_2 layers_22_mlp_down_proj_weight None h;
  get_data_attr_1 \<leftarrow> t_get_data_attr T layers_23_input_layernorm_weight;
  (to_3, h) \<leftarrow> t_to T linear_2 Float32 h;
  (add_2, h) \<leftarrow> t_add T to_3 to_1 h;
  (to_4, h) \<leftarrow> t_to T add_2 Float16 h;
  (pow_2, h) \<leftarrow> t_pow N add_2 2 h;
  (mean_1, h) \<leftarrow> t_mean N pow_2 (-1) True h;
  (add_3, h) \<leftarrow> t_add_scalar N mean_1 (1 / 1000000) h;
  (rsqrt_1, h) \<leftarrow> t_rsqrt N add_3 h;
  (mul_3, h) \<leftarrow> t_mul T add_2 rsqrt_1 h;
  (to_5, h) \<leftarrow> t_to T mul_3 Float16 h;
  (mul_4, h) \<leftarrow> t_mul T to_5 get_data_attr_1 h;
  (linear_3, h) \<leftarrow> t_linear T mul_4 layers_23_self_attn_qkv_proj_weight None h;
  split \<leftarrow> t_split T linear_3 [2048, 1024, 1024] (-1);
  getitem_2 \<leftarrow> py_nth split 0;
  getitem_3 \<leftarrow> py_nth split 1;
  getitem_4 \<leftarrow> py_nth split 2;
  view_1 \<leftarrow> t_view T getitem_2 [int s72, 16, 128];
  get_data_attr_2 \<leftarrow> t_get_data_attr T layers_23_self_attn_q_norm_weight;
  (to_6, h) \<leftarrow> t_to T view_1 Float32 h;
  (pow_3, h) \<leftarrow> t_pow N to_6 2 h;
  (mean_2, h) \<leftarrow> t_mean N pow_3 (-1) True h;
  (add_4, h) \<leftarrow> t_add_scalar N mean_2 (1 / 1000000) h;
  (rsqrt_2, h) \<leftarrow> t_rsqrt N add_4 h;
  (mul_5, h) \<leftarrow> t_mul T to_6 rsqrt_2 h;
  (to_7, h) \<leftarrow> t_to T mul_5 Float16 h;
  (mul_6, h) \<leftarrow> t_mul T to_7 get_data_attr_2 h;
  let size = sizes getitem_2;
  view_2 \<leftarrow> t_view T mul_6 (map int size);
  view_3 \<leftarrow> t_view T getitem_3 [int s72, 8, 128];
  get_data_attr_3 \<leftarrow> t_get_data_attr T layers_23_self_attn_k_norm_weight;
  (to_8, h) \<leftarrow> t_to T view_3 Float32 h;
  (pow_4, h) \<leftarrow> t_pow N to_8 2 h;
  (mean_3, h) \<leftarrow> t_mean N pow_4 (-1) True h;
  (add_5, h) \<leftarrow> t_add_scalar N mean_3 (1 / 1000000) h;
  (rsqrt_3, h) \<leftarrow> t_rsqrt N add_5 h;
  (mul_7, h) \<leftarrow> t_mul T to_8 rsqrt_3 h;
  (to_9, h) \<leftarrow> t_to T mul_7 Float16 h;
  (mul_8, h) \<leftarrow> t_mul T to_9 get_data_attr_3 h;
  let size_1 = sizes getitem_3;
  view_4 \<leftarrow> t_view T mul_8 (map int size_1);
  (flatten, h) \<leftarrow> t_flatten T l_positions h;
  (index_select, h) \<leftarrow> t_index_select T layers_0_self_attn_rotary_emb_cos_sin_cache 0
      flatten h;
  chunk \<leftarrow> t_chunk T index_select 2 (-1);
  getitem_5 \<leftarrow> py_nth chunk 0;
  getitem_6 \<leftarrow> py_nth chunk 1;
  let size_2 = sizes view_2;
  view_5 \<leftarrow> t_view T view_2 [int s72, -1, 128];
  getitem_7 \<leftarrow> t_getitem_last T view_5 None (Some 128);
  getitem_8 \<leftarrow> t_getitem_last T view_5 (Some 128) None;
  unsqueeze \<leftarrow> t_unsqueeze T getitem_5 (-2);
  (to_10, h) \<leftarrow> t_to T unsqueeze Float16 h;
  unsqueeze_1 \<leftarrow> t_unsqueeze T getitem_6 (-2);
  (to_11, h) \<leftarrow> t_to T unsqueeze_1 Float16 h;
  chunk_1 \<leftarrow> t_chunk T getitem_7 2 (-1);
  getitem_9 \<leftarrow> py_nth chunk_1 0;
  getitem_10 \<leftarrow> py_nth chunk_1 1;
  (mul_9, h) \<leftarrow> t_mul T getitem_9 to_10 h;
  (mul_10, h) \<leftarrow> t_mul T getitem_10 to_11 h;
  (sub, h) \<leftarrow> t_sub T mul_9 mul_10 h;
  (mul_11, h) \<leftarrow> t_mul T getitem_10 to_10 h;
  (mul_12, h) \<leftarrow> t_mul T getitem_9 to_11 h;
  (add_6, h) \<leftarrow> t_add T mul_11 mul_12 h;
  (cat, h) \<leftarrow> t_cat T [sub, add_6] (-1) h;
  (cat_1, h) \<leftarrow> t_cat T [cat, getitem_8] (-1) h;
  (reshape, h) \<leftarrow> t_reshape T cat_1 size_2 h;
  let size_3 = sizes view_4;
  view_6 \<leftarrow> t_view T view_4 [int s72, -1, 128];
  getitem_11 \<leftarrow> t_getitem_last T view_6 None (Some 128);
  getitem_12 \<leftarrow> t_getitem_last T view_6 (Some 128) None;
  unsqueeze_2 \<leftarrow> t_unsqueeze T getitem_5 (-2);
  (to_12, h) \<leftarrow> t_to T unsqueeze_2 Float16 h;
  unsqueeze_3 \<leftarrow> t_unsqueeze T getitem_6 (-2);
  (to_13, h) \<leftarrow> t_to T unsqueeze_3 Float16 h;
  chunk_2 \<leftarrow> t_chunk T getitem_11 2 (-1);
  getitem_13 \<leftarrow> py_nth chunk_2 0;
  getitem_14 \<leftarrow> py_nth chunk_2 1;
  (mul_13, h) \<leftarrow> t_mul T getitem_13 to_12 h;
  (mul_14, h) \<leftarrow> t_mul T getitem_14 to_13 h;
  (sub_1, h) \<leftarrow> t_sub T mul_13 mul_14 h;
  (mul_15, h) \<leftarrow> t_mul T getitem_14 to_12 h;
  (mul_16, h) \<leftarrow> t_mul T getitem_13 to_13 h;
  (add_7, h) \<leftarrow> t_add T mul_15 mul_16 h;
  (cat_2, h) \<leftarrow> t_cat T [sub_1, add_7] (-1) h;
  (cat_3, h) \<leftarrow> t_cat T [cat_2, getitem_12] (-1) h;
  (reshape_1, h) \<leftarrow> t_reshape T cat_3 size_3 h;
  let size_4 = [s72, 2048];
  (empty, h) \<leftarrow> t_empty T size_4 Float16 (''cuda'', 0) h;
  view_7 \<leftarrow> t_view T reshape [-1, 16, 128];
  view_8 \<leftarrow> t_view T empty [-1, 16, 128];
  view_9 \<leftarrow> t_view T reshape_1 [-1, 8, 128];
  view_10 \<leftarrow> t_view T getitem_4 [-1, 8, 128];
  Some ((view_7, view_9, view_10, view_8, to_4), h)}"

definition submod_47_qwen ::
  "('a, 'k) torch \<Rightarrow> ('a, 'k) native_ops \<Rightarrow>
   tensor \<Rightarrow> nat \<Rightarrow> tensor \<Rightarrow> tensor \<Rightarrow> tensor \<Rightarrow>
   ('a, 'k) store \<Rightarrow> (unit \<times> ('a, 'k) store) option" where
  "submod_47_qwen T N query_71 s72 key_71 value_23 output_95 h = do {
  h \<leftarrow> t_unified_attention_with_output T query_71 key_71 value_23 output_95
      ''model.layers.23.self_attn.attn'' h;
  Some ((), h)}"

definition submod_48_qwen ::
  "('a, 'k) torch \<Rightarrow> ('a, 'k) native_ops \<Rightarrow>
   tensor \<Rightarrow> nat \<Rightarrow> tensor \<Rightarrow> tensor \<Rightarrow> tensor \<Rightarrow> tensor \<Rightarrow> tensor \<Rightarrow> tensor \<Rightarrow> tensor \<Rightarrow> tensor \<Rightarrow> tensor \<Rightarrow> tensor \<Rightarrow> tensor \<Rightarrow>
   ('a, 'k) store \<Rightarrow> ((tensor \<times> tensor \<times> tensor \<times> tensor \<times> tensor) \<times> ('a, 'k) store) option" where
  "submod_48_qwen T N output_95 s72 layers_23_self_attn_o_proj_weight
      layers_23_post_attention_layernorm_weight residual_45 layers_23_mlp_gate_up_proj_weight
      layers_23_mlp_down_proj_weight layers_24_input_layernorm_weight
      layers_24_self_attn_qkv_proj_weight layers_24_self_attn_q_norm_weight
      layers_24_self_attn_k_norm_weight l_positions layers_0_self_attn_rotary_emb_cos_sin_cache
      h = do {
  view \<leftarrow> t_view T output_95 [-1, 2048];
  (linear, h) \<leftarrow> t_linear T view layers_23_self_attn_o_proj_weight None h;
  get_data_attr \<leftarrow> t_get_data_attr T layers_23_post_attention_layernorm_weight;
  (to, h) \<leftarrow> t_to T linear Float32 h;
  (add, h) \<leftarrow> t_add T to residual_45 h;
  (to_1, h) \<leftarrow> t_to T add Float16 h;
  (pow_1, h) \<leftarrow> t_pow N add 2 h;
  (mean, h) \<leftarrow> t_mean N pow_1 (-1) True h;
  (add_1, h) \<leftarrow> t_add_scalar N mean (1 / 1000000) h;
  (rsqrt, h) \<leftarrow> t_rsqrt N add_1 h;
  (mul, h) \<leftarrow> t_mul T add rsqrt h;
  (to_2, h) \<leftarrow> t_to T mul Float16 h;
  (mul_1, h) \<leftarrow> t_mul T to_2 get_data_attr h;
  (linear_1, h) \<leftarrow> t_linear T mul_1 layers_23_mlp_gate_up_proj_weight None h;
  getitem \<leftarrow> t_getitem_last T linear_1 None (Some 3072);
  (silu, h) \<leftarrow> t_silu N getitem h;
  getitem_1 \<leftarrow> t_getitem_last T linear_1 (Some 3072) None;
  (mul_2, h) \<leftarrow> t_mul T silu getitem_1 h;
  (linear_2, h) \<leftarrow> t_linear T mul_2 layers_23_mlp_down_proj_weight None h;
  get_data_attr_1 \<leftarrow> t_get_data_attr T layers_24_input_layernorm_weight;
  (to_3, h) \<leftarrow> t_to T linear_2 Float32 h;
  (add_2, h) \<leftarrow> t_add T to_3 to_1 h;
  (to_4, h) \<leftarrow> t_to T add_2 Float16 h;
  (pow_2, h) \<leftarrow> t_pow N add_2 2 h;
  (mean_1, h) \<leftarrow> t_mean N pow_2 (-1) True h;
  (add_3, h) \<leftarrow> t_add_scalar N mean_1 (1 / 1000000) h;
  (rsqrt_1, h) \<leftarrow> t_rsqrt N add_3 h;
  (mul_3, h) \<leftarrow> t_mul T add_2 rsqrt_1 h;
  (to_5, h) \<leftarrow> t_to T mul_3 Float16 h;
  (mul_4, h) \<leftarrow> t_mul T to_5 get_data_attr_1 h;
  (linear_3, h) \<leftarrow> t_linear T mul_4 layers_24_self_attn_qkv_proj_weight None h;
  split \<leftarrow> t_split T linear_3 [2048, 1024, 1024] (-1);
  getitem_2 \<leftarrow> py_nth split 0;
  getitem_3 \<leftarrow> py_nth split 1;
  getitem_4 \<leftarrow> py_nth split 2;
  view_1 \<leftarrow> t_view T getitem_2 [int s72, 16, 128];
  get_data_attr_2 \<leftarrow> t_get_data_attr T layers_24_self_attn_q_norm_weight;
  (to_6, h) \<leftarrow> t_to T view_1 Float32 h;
  (pow_3, h) \<leftarrow> t_pow N to_6 2 h;
  (mean_2, h) \<leftarrow> t_mean N pow_3 (-1) True h;
  (add_4, h) \<leftarrow> t_add_scalar N mean_2 (1 / 1000000) h;
  (rsqrt_2, h) \<leftarrow> t_rsqrt N add_4 h;
  (mul_5, h) \<leftarrow> t_mul T to_6 rsqrt_2 h;
  (to_7, h) \<leftarrow> t_to T mul_5 Float16 h;
  (mul_6, h) \<leftarrow> t_mul T to_7 get_data_attr_2 h;
  let size = sizes getitem_2;
  view_2 \<leftarrow> t_view T mul_6 (map int size);
  view_3 \<leftarrow> t_view T getitem_3 [int s72, 8, 128];
  get_data_attr_3 \<leftarrow> t_get_data_attr T layers_24_self_attn_k_norm_weight;
  (to_8, h) \<leftarrow> t_to T view_3 Float32 h;
  (pow_4, h) \<leftarrow> t_pow N to_8 2 h;
  (mean_3, h) \<leftarrow> t_mean N pow_4 (-1) True h;
  (add_5, h) \<leftarrow> t_add_scalar N mean_3 (1 / 1000000) h;
  (rsqrt_3, h) \<leftarrow> t_rsqrt N add_5 h;
  (mul_7, h) \<leftarrow> t_mul T to_8 rsqrt_3 h;
  (to_9, h) \<leftarrow> t_to T mul_7 Float16 h;
  (mul_8, h) \<leftarrow> t_mul T to_9 get_data_attr_3 h;
  let size_1 = sizes getitem_3;
  view_4 \<leftarrow> t_view T mul_8 (map int size_1);
  (flatten, h) \<leftarrow> t_flatten T l_positions h;
  (index_select, h) \<leftarrow> t_index_select T layers_0_self_attn_rotary_emb_cos_sin_cache 0
      flatten h;
  chunk \<leftarrow> t_chunk T index_select 2 (-1);
  getitem_5 \<leftarrow> py_nth chunk 0;
  getitem_6 \<leftarrow> py_nth chunk 1;
  let size_2 = sizes view_2;
  view_5 \<leftarrow> t_view T view_2 [int s72, -1, 128];
  getitem_7 \<leftarrow> t_getitem_last T view_5 None (Some 128);
  getitem_8 \<leftarrow> t_getitem_last T view_5 (Some 128) None;
  unsqueeze \<leftarrow> t_unsqueeze T getitem_5 (-2);
  (to_10, h) \<leftarrow> t_to T unsqueeze Float16 h;
  unsqueeze_1 \<leftarrow> t_unsqueeze T getitem_6 (-2);
  (to_11, h) \<leftarrow> t_to T unsqueeze_1 Float16 h;
  chunk_1 \<leftarrow> t_chunk T getitem_7 2 (-1);
  getitem_9 \<leftarrow> py_nth chunk_1 0;
  getitem_10 \<leftarrow> py_nth chunk_1 1;
  (mul_9, h) \<leftarrow> t_mul T getitem_9 to_10 h;
  (mul_10, h) \<leftarrow> t_mul T getitem_10 to_11 h;
  (sub, h) \<leftarrow> t_sub T mul_9 mul_10 h;
  (mul_11, h) \<leftarrow> t_mul T getitem_10 to_10 h;
  (mul_12, h) \<leftarrow> t_mul T getitem_9 to_11 h;
  (add_6, h) \<leftarrow> t_add T mul_11 mul_12 h;
  (cat, h) \<leftarrow> t_cat T [sub, add_6] (-1) h;
  (cat_1, h) \<leftarrow> t_cat T [cat, getitem_8] (-1) h;
  (reshape, h) \<leftarrow> t_reshape T cat_1 size_2 h;
  let size_3 = sizes view_4;
  view_6 \<leftarrow> t_view T view_4 [int s72, -1, 128];
  getitem_11 \<leftarrow> t_getitem_last T view_6 None (Some 128);
  getitem_12 \<leftarrow> t_getitem_last T view_6 (Some 128) None;
  unsqueeze_2 \<leftarrow> t_unsqueeze T getitem_5 (-2);
  (to_12, h) \<leftarrow> t_to T unsqueeze_2 Float16 h;
  unsqueeze_3 \<leftarrow> t_unsqueeze T getitem_6 (-2);
  (to_13, h) \<leftarrow> t_to T unsqueeze_3 Float16 h;
  chunk_2 \<leftarrow> t_chunk T getitem_11 2 (-1);
  getitem_13 \<leftarrow> py_nth chunk_2 0;
  getitem_14 \<leftarrow> py_nth chunk_2 1;
  (mul_13, h) \<leftarrow> t_mul T getitem_13 to_12 h;
  (mul_14, h) \<leftarrow> t_mul T getitem_14 to_13 h;
  (sub_1, h) \<leftarrow> t_sub T mul_13 mul_14 h;
  (mul_15, h) \<leftarrow> t_mul T getitem_14 to_12 h;
  (mul_16, h) \<leftarrow> t_mul T getitem_13 to_13 h;
  (add_7, h) \<leftarrow> t_add T mul_15 mul_16 h;
  (cat_2, h) \<leftarrow> t_cat T [sub_1, add_7] (-1) h;
  (cat_3, h) \<leftarrow> t_cat T [cat_2, getitem_12] (-1) h;
  (reshape_1, h) \<leftarrow> t_reshape T cat_3 size_3 h;
  let size_4 = [s72, 2048];
  (empty, h) \<leftarrow> t_empty T size_4 Float16 (''cuda'', 0) h;
  view_7 \<leftarrow> t_view T reshape [-1, 16, 128];
  view_8 \<leftarrow> t_view T empty [-1, 16, 128];
  view_9 \<leftarrow> t_view T reshape_1 [-1, 8, 128];
  view_10 \<leftarrow> t_view T getitem_4 [-1, 8, 128];
  Some ((view_7, view_9, view_10, view_8, to_4), h)}"

definition submod_49_qwen ::
  "('a, 'k) torch \<Rightarrow> ('a, 'k) native_ops \<Rightarrow>
   tensor \<Rightarrow> nat \<Rightarrow> tensor \<Rightarrow> tensor \<Rightarrow> tensor \<Rightarrow>
   ('a, 'k) store \<Rightarrow> (unit \<times> ('a, 'k) store) option" where
  "submod_49_qwen T N query_74 s72 key_74 value_24 output_99 h = do {
  h \<leftarrow> t_unified_attention_with_output T query_74 key_74 value_24 output_99
      ''model.layers.24.self_attn.attn'' h;
  Some ((), h)}"

definition submod_50_qwen ::
  "('a, 'k) torch \<Rightarrow> ('a, 'k) native_ops \<Rightarrow>
   tensor \<Rightarrow> nat \<Rightarrow> tensor \<Rightarrow> tensor \<Rightarrow> tensor \<Rightarrow> tensor \<Rightarrow> tensor \<Rightarrow> tensor \<Rightarrow> tensor \<Rightarrow> tensor \<Rightarrow> tensor \<Rightarrow> tensor \<Rightarrow> tensor \<Rightarrow>
   ('a, 'k) store \<Rightarrow> ((tensor \<times> tensor \<times> tensor \<times> tensor \<times> tensor) \<times> ('a, 'k) store) option" where
  "submod_50_qwen T N output_99 s72 layers_24_self_attn_o_proj_weight
      layers_24_post_attention_layernorm_weight residual_47 layers_24_mlp_gate_up_proj_weight
      layers_24_mlp_down_proj_weight layers_25_input_layernorm_weight
      layers_25_self_attn_qkv_proj_weight layers_25_self_attn_q_norm_weight
      layers_25_self_attn_k_norm_weight l_positions layers_0_self_attn_rotary_emb_cos_sin_cache
      h = do {
  view \<leftarrow> t_view T output_99 [-1, 2048];
  (linear, h) \<leftarrow> t_linear T view layers_24_self_attn_o_proj_weight None h;
  get_data_attr \<leftarrow> t_get_data_attr T layers_24_post_attention_layernorm_weight;
  (to, h) \<leftarrow> t_to T linear Float32 h;
  (add, h) \<leftarrow> t_add T to residual_47 h;
  (to_1, h) \<leftarrow> t_to T add Float16 h;
  (pow_1, h) \<leftarrow> t_pow N add 2 h;
  (mean, h) \<leftarrow> t_mean N pow_1 (-1) True h;
  (add_1, h) \<leftarrow> t_add_scalar N mean (1 / 1000000) h;
  (rsqrt, h) \<leftarrow> t_rsqrt N add_1 h;
  (mul, h) \<leftarrow> t_mul T add rsqrt h;
  (to_2, h) \<leftarrow> t_to T mul Float16 h;
  (mul_1, h) \<leftarrow> t_mul T to_2 get_data_attr h;
  (linear_1, h) \<leftarrow> t_linear T mul_1 layers_24_mlp_gate_up_proj_weight None h;
  getitem \<leftarrow> t_getitem_last T linear_1 None (Some 3072);
  (silu, h) \<leftarrow> t_silu N getitem h;
  getitem_1 \<leftarrow> t_getitem_last T linear_1 (Some 3072) None;
  (mul_2, h) \<leftarrow> t_mul T silu getitem_1 h;
  (linear_2, h) \<leftarrow> t_linear T mul_2 layers_24_mlp_down_proj_weight None h;
  get_data_attr_1 \<leftarrow> t_get_data_attr T layers_25_input_layernorm_weight;
  (to_3, h) \<leftarrow> t_to T linear_2 Float32 h;
  (add_2, h) \<leftarrow> t_add T to_3 to_1 h;
  (to_4, h) \<leftarrow> t_to T add_2 Float16 h;
  (pow_2, h) \<leftarrow> t_pow N add_2 2 h;
  (mean_1, h) \<leftarrow> t_mean N pow_2 (-1) True h;
  (add_3, h) \<leftarrow> t_add_scalar N mean_1 (1 / 1000000) h;
  (rsqrt_1, h) \<leftarrow> t_rsqrt N add_3 h;
  (mul_3, h) \<leftarrow> t_mul T add_2 rsqrt_1 h;
  (to_5, h) \<leftarrow> t_to T mul_3 Float16 h;
  (mul_4, h) \<leftarrow> t_mul T to_5 get_data_attr_1 h;
  (linear_3, h) \<leftarrow> t_linear T mul_4 layers_25_self_attn_qkv_proj_weight None h;
  split \<leftarrow> t_split T linear_3 [2048, 1024, 1024] (-1);
  getitem_2 \<leftarrow> py_nth split 0;
  getitem_3 \<leftarrow> py_nth split 1;
  getitem_4 \<leftarrow> py_nth split 2;
  view_1 \<leftarrow> t_view T getitem_2 [int s72, 16, 128];
  get_data_attr_2 \<leftarrow> t_get_data_attr T layers_25_self_attn_q_norm_weight;
  (to_6, h) \<leftarrow> t_to T view_1 Float32 h;
  (pow_3, h) \<leftarrow> t_pow N to_6 2 h;
  (mean_2, h) \<leftarrow> t_mean N pow_3 (-1) True h;
  (add_4, h) \<leftarrow> t_add_scalar N mean_2 (1 / 1000000) h;
  (rsqrt_2, h) \<leftarrow> t_rsqrt N add_4 h;
  (mul_5, h) \<leftarrow> t_mul T to_6 rsqrt_2 h;
  (to_7, h) \<leftarrow> t_to T mul_5 Float16 h;
  (mul_6, h) \<leftarrow> t_mul T to_7 get_data_attr_2 h;
  let size = sizes getitem_2;
  view_2 \<leftarrow> t_view T mul_6 (map int size);
  view_3 \<leftarrow> t_view T getitem_3 [int s72, 8, 128];
  get_data_attr_3 \<leftarrow> t_get_data_attr T layers_25_self_attn_k_norm_weight;
  (to_8, h) \<leftarrow> t_to T view_3 Float32 h;
  (pow_4, h) \<leftarrow> t_pow N to_8 2 h;
  (mean_3, h) \<leftarrow> t_mean N pow_4 (-1) True h;
  (add_5, h) \<leftarrow> t_add_scalar N mean_3 (1 / 1000000) h;
  (rsqrt_3, h) \<leftarrow> t_rsqrt N add_5 h;
  (mul_7, h) \<leftarrow> t_mul T to_8 rsqrt_3 h;
  (to_9, h) \<leftarrow> t_to T mul_7 Float16 h;
  (mul_8, h) \<leftarrow> t_mul T to_9 get_data_attr_3 h;
  let size_1 = sizes getitem_3;
  view_4 \<leftarrow> t_view T mul_8 (map int size_1);
  (flatten, h) \<leftarrow> t_flatten T l_positions h;
  (index_select, h) \<leftarrow> t_index_select T layers_0_self_attn_rotary_emb_cos_sin_cache 0
      flatten h;
  chunk \<leftarrow> t_chunk T index_select 2 (-1);
  getitem_5 \<leftarrow> py_nth chunk 0;
  getitem_6 \<leftarrow> py_nth chunk 1;
  let size_2 = sizes view_2;
  view_5 \<leftarrow> t_view T view_2 [int s72, -1, 128];
  getitem_7 \<leftarrow> t_getitem_last T view_5 None (Some 128);
  getitem_8 \<leftarrow> t_getitem_last T view_5 (Some 128) None;
  unsqueeze \<leftarrow> t_unsqueeze T getitem_5 (-2);
  (to_10, h) \<leftarrow> t_to T unsqueeze Float16 h;
  unsqueeze_1 \<leftarrow> t_unsqueeze T getitem_6 (-2);
  (to_11, h) \<leftarrow> t_to T unsqueeze_1 Float16 h;
  chunk_1 \<leftarrow> t_chunk T getitem_7 2 (-1);
  getitem_9 \<leftarrow> py_nth chunk_1 0;
  getitem_10 \<leftarrow> py_nth chunk_1 1;
  (mul_9, h) \<leftarrow> t_mul T getitem_9 to_10 h;
  (mul_10, h) \<leftarrow> t_mul T getitem_10 to_11 h;
  (sub, h) \<leftarrow> t_sub T mul_9 mul_10 h;
  (mul_11, h) \<leftarrow> t_mul T getitem_10 to_10 h;
  (mul_12, h) \<leftarrow> t_mul T getitem_9 to_11 h;
  (add_6, h) \<leftarrow> t_add T mul_11 mul_12 h;
  (cat, h) \<leftarrow> t_cat T [sub, add_6] (-1) h;
  (cat_1, h) \<leftarrow> t_cat T [cat, getitem_8] (-1) h;
  (reshape, h) \<leftarrow> t_reshape T cat_1 size_2 h;
  let size_3 = sizes view_4;
  view_6 \<leftarrow> t_view T view_4 [int s72, -1, 128];
  getitem_11 \<leftarrow> t_getitem_last T view_6 None (Some 128);
  getitem_12 \<leftarrow> t_getitem_last T view_6 (Some 128) None;
  unsqueeze_2 \<leftarrow> t_unsqueeze T getitem_5 (-2);
  (to_12, h) \<leftarrow> t_to T unsqueeze_2 Float16 h;
  unsqueeze_3 \<leftarrow> t_unsqueeze T getitem_6 (-2);
  (to_13, h) \<leftarrow> t_to T unsqueeze_3 Float16 h;
  chunk_2 \<leftarrow> t_chunk T getitem_11 2 (-1);
  getitem_13 \<leftarrow> py_nth chunk_2 0;
  getitem_14 \<leftarrow> py_nth chunk_2 1;
  (mul_13, h) \<leftarrow> t_mul T getitem_13 to_12 h;
  (mul_14, h) \<leftarrow> t_mul T getitem_14 to_13 h;
  (sub_1, h) \<leftarrow> t_sub T mul_13 mul_14 h;
  (mul_15, h) \<leftarrow> t_mul T getitem_14 to_12 h;
  (mul_16, h) \<leftarrow> t_mul T getitem_13 to_13 h;
  (add_7, h) \<leftarrow> t_add T mul_15 mul_16 h;
  (cat_2, h) \<leftarrow> t_cat T [sub_1, add_7] (-1) h;
  (cat_3, h) \<leftarrow> t_cat T [cat_2, getitem_12] (-1) h;
  (reshape_1, h) \<leftarrow> t_reshape T cat_3 size_3 h;
  let size_4 = [s72, 2048];
  (empty, h) \<leftarrow> t_empty T size_4 Float16 (''cuda'', 0) h;
  view_7 \<leftarrow> t_view T reshape [-1, 16, 128];
  view_8 \<leftarrow> t_view T empty [-1, 16, 128];
  view_9 \<leftarrow> t_view T reshape_1 [-1, 8, 128];
  view_10 \<leftarrow> t_view T getitem_4 [-1, 8, 128];
  Some ((view_7, view_9, view_10, view_8, to_4), h)}"

definition submod_51_qwen ::
  "('a, 'k) torch \<Rightarrow> ('a, 'k) native_ops \<Rightarrow>
   tensor \<Rightarrow> nat \<Rightarrow> tensor \<Rightarrow> tensor \<Rightarrow> tensor \<Rightarrow>
   ('a, 'k) store \<Rightarrow> (unit \<times> ('a, 'k) store) option" where
  "submod_51_qwen T N query_77 s72 key_77 value_25 output_103 h = do {
  h \<leftarrow> t_unified_attention_with_output T query_77 key_77 value_25 output_103
      ''model.layers.25.self_attn.attn'' h;
  Some ((), h)}"

definition submod_52_qwen ::
  "('a, 'k) torch \<Rightarrow> ('a, 'k) native_ops \<Rightarrow>
   tensor \<Rightarrow> nat \<Rightarrow> tensor \<Rightarrow> tensor \<Rightarrow> tensor \<Rightarrow> tensor \<Rightarrow> tensor \<Rightarrow> tensor \<Rightarrow> tensor \<Rightarrow> tensor \<Rightarrow> tensor \<Rightarrow> tensor \<Rightarrow> tensor \<Rightarrow>
   ('a, 'k) store \<Rightarrow> ((tensor \<times> tensor \<times> tensor \<times> tensor \<times> tensor) \<times> ('a, 'k) store) option" where
  "submod_52_qwen T N output_103 s72 layers_25_self_attn_o_proj_weight
      layers_25_post_attention_layernorm_weight residual_49 layers_25_mlp_gate_up_proj_weight
      layers_25_mlp_down_proj_weight layers_26_input_layernorm_weight
      layers_26_self_attn_qkv_proj_weight layers_26_self_attn_q_norm_weight
      layers_26_self_attn_k_norm_weight l_positions layers_0_self_attn_rotary_emb_cos_sin_cache
      h = do {
  view \<leftarrow> t_view T output_103 [-1, 2048];
  (linear, h) \<leftarrow> t_linear T view layers_25_self_attn_o_proj_weight None h;
  get_data_attr \<leftarrow> t_get_data_attr T layers_25_post_attention_layernorm_weight;
  (to, h) \<leftarrow> t_to T linear Float32 h;
  (add, h) \<leftarrow> t_add T to residual_49 h;
  (to_1, h) \<leftarrow> t_to T add Float16 h;
  (pow_1, h) \<leftarrow> t_pow N add 2 h;
  (mean, h) \<leftarrow> t_mean N pow_1 (-1) True h;
  (add_1, h) \<leftarrow> t_add_scalar N mean (1 / 1000000) h;
  (rsqrt, h) \<leftarrow> t_rsqrt N add_1 h;
  (mul, h) \<leftarrow> t_mul T add rsqrt h;
  (to_2, h) \<leftarrow> t_to T mul Float16 h;
  (mul_1, h) \<leftarrow> t_mul T to_2 get_data_attr h;
  (linear_1, h) \<leftarrow> t_linear T mul_1 layers_25_mlp_gate_up_proj_weight None h;
  getitem \<leftarrow> t_getitem_last T linear_1 None (Some 3072);
  (silu, h) \<leftarrow> t_silu N getitem h;
  getitem_1 \<leftarrow> t_getitem_last T linear_1 (Some 3072) None;
  (mul_2, h) \<leftarrow> t_mul T silu getitem_1 h;
  (linear_2, h) \<leftarrow> t_linear T mul_2 layers_25_mlp_down_proj_weight None h;
  get_data_attr_1 \<leftarrow> t_get_data_attr T layers_26_input_layernorm_weight;
  (to_3, h) \<leftarrow> t_to T linear_2 Float32 h;
  (add_2, h) \<leftarrow> t_add T to_3 to_1 h;
  (to_4, h) \<leftarrow> t_to T add_2 Float16 h;
  (pow_2, h) \<leftarrow> t_pow N add_2 2 h;
  (mean_1, h) \<leftarrow> t_mean N pow_2 (-1) True h;
  (add_3, h) \<leftarrow> t_add_scalar N mean_1 (1 / 1000000) h;
  (rsqrt_1, h) \<leftarrow> t_rsqrt N add_3 h;
  (mul_3, h) \<leftarrow> t_mul T add_2 rsqrt_1 h;
  (to_5, h) \<leftarrow> t_to T mul_3 Float16 h;
  (mul_4, h) \<leftarrow> t_mul T to_5 get_data_attr_1 h;
  (linear_3, h) \<leftarrow> t_linear T mul_4 layers_26_self_attn_qkv_proj_weight None h;
  split \<leftarrow> t_split T linear_3 [2048, 1024, 1024] (-1);
  getitem_2 \<leftarrow> py_nth split 0;
  getitem_3 \<leftarrow> py_nth split 1;
  getitem_4 \<leftarrow> py_nth split 2;
  view_1 \<leftarrow> t_view T getitem_2 [int s72, 16, 128];
  get_data_attr_2 \<leftarrow> t_get_data_attr T layers_26_self_attn_q_norm_weight;
  (to_6, h) \<leftarrow> t_to T view_1 Float32 h;
  (pow_3, h) \<leftarrow> t_pow N to_6 2 h;
  (mean_2, h) \<leftarrow> t_mean N pow_3 (-1) True h;
  (add_4, h) \<leftarrow> t_add_scalar N mean_2 (1 / 1000000) h;
  (rsqrt_2, h) \<leftarrow> t_rsqrt N add_4 h;
  (mul_5, h) \<leftarrow> t_mul T to_6 rsqrt_2 h;
  (to_7, h) \<leftarrow> t_to T mul_5 Float16 h;
  (mul_6, h) \<leftarrow> t_mul T to_7 get_data_attr_2 h;
  let size = sizes getitem_2;
  view_2 \<leftarrow> t_view T mul_6 (map int size);
  view_3 \<leftarrow> t_view T getitem_3 [int s72, 8, 128];
  get_data_attr_3 \<leftarrow> t_get_data_attr T layers_26_self_attn_k_norm_weight;
  (to_8, h) \<leftarrow> t_to T view_3 Float32 h;
  (pow_4, h) \<leftarrow> t_pow N to_8 2 h;
  (mean_3, h) \<leftarrow> t_mean N pow_4 (-1) True h;
  (add_5, h) \<leftarrow> t_add_scalar N mean_3 (1 / 1000000) h;
  (rsqrt_3, h) \<leftarrow> t_rsqrt N add_5 h;
  (mul_7, h) \<leftarrow> t_mul T to_8 rsqrt_3 h;
  (to_9, h) \<leftarrow> t_to T mul_7 Float16 h;
  (mul_8, h) \<leftarrow> t_mul T to_9 get_data_attr_3 h;
  let size_1 = sizes getitem_3;
  view_4 \<leftarrow> t_view T mul_8 (map int size_1);
  (flatten, h) \<leftarrow> t_flatten T l_positions h;
  (index_select, h) \<leftarrow> t_index_select T layers_0_self_attn_rotary_emb_cos_sin_cache 0
      flatten h;
  chunk \<leftarrow> t_chunk T index_select 2 (-1);
  getitem_5 \<leftarrow> py_nth chunk 0;
  getitem_6 \<leftarrow> py_nth chunk 1;
  let size_2 = sizes view_2;
  view_5 \<leftarrow> t_view T view_2 [int s72, -1, 128];
  getitem_7 \<leftarrow> t_getitem_last T view_5 None (Some 128);
  getitem_8 \<leftarrow> t_getitem_last T view_5 (Some 128) None;
  unsqueeze \<leftarrow> t_unsqueeze T getitem_5 (-2);
  (to_10, h) \<leftarrow> t_to T unsqueeze Float16 h;
  unsqueeze_1 \<leftarrow> t_unsqueeze T getitem_6 (-2);
  (to_11, h) \<leftarrow> t_to T unsqueeze_1 Float16 h;
  chunk_1 \<leftarrow> t_chunk T getitem_7 2 (-1);
  getitem_9 \<leftarrow> py_nth chunk_1 0;
  getitem_10 \<leftarrow> py_nth chunk_1 1;
  (mul_9, h) \<leftarrow> t_mul T getitem_9 to_10 h;
  (mul_10, h) \<leftarrow> t_mul T getitem_10 to_11 h;
  (sub, h) \<leftarrow> t_sub T mul_9 mul_10 h;
  (mul_11, h) \<leftarrow> t_mul T getitem_10 to_10 h;
  (mul_12, h) \<leftarrow> t_mul T getitem_9 to_11 h;
  (add_6, h) \<leftarrow> t_add T mul_11 mul_12 h;
  (cat, h) \<leftarrow> t_cat T [sub, add_6] (-1) h;
  (cat_1, h) \<leftarrow> t_cat T [cat, getitem_8] (-1) h;
  (reshape, h) \<leftarrow> t_reshape T cat_1 size_2 h;
  let size_3 = sizes view_4;
  view_6 \<leftarrow> t_view T view_4 [int s72, -1, 128];
  getitem_11 \<leftarrow> t_getitem_last T view_6 None (Some 128);
  getitem_12 \<leftarrow> t_getitem_last T view_6 (Some 128) None;
  unsqueeze_2 \<leftarrow> t_unsqueeze T getitem_5 (-2);
  (to_12, h) \<leftarrow> t_to T unsqueeze_2 Float16 h;
  unsqueeze_3 \<leftarrow> t_unsqueeze T getitem_6 (-2);
  (to_13, h) \<leftarrow> t_to T unsqueeze_3 Float16 h;
  chunk_2 \<leftarrow> t_chunk T getitem_11 2 (-1);
  getitem_13 \<leftarrow> py_nth chunk_2 0;
  getitem_14 \<leftarrow> py_nth chunk_2 1;
  (mul_13, h) \<leftarrow> t_mul T getitem_13 to_12 h;
  (mul_14, h) \<leftarrow> t_mul T getitem_14 to_13 h;
  (sub_1, h) \<leftarrow> t_sub T mul_13 mul_14 h;
  (mul_15, h) \<leftarrow> t_mul T getitem_14 to_12 h;
  (mul_16, h) \<leftarrow> t_mul T getitem_13 to_13 h;
  (add_7, h) \<leftarrow> t_add T mul_15 mul_16 h;
  (cat_2, h) \<leftarrow> t_cat T [sub_1, add_7] (-1) h;
  (cat_3, h) \<leftarrow> t_cat T [cat_2, getitem_12] (-1) h;
  (reshape_1, h) \<leftarrow> t_reshape T cat_3 size_3 h;
  let size_4 = [s72, 2048];
  (empty, h) \<leftarrow> t_empty T size_4 Float16 (''cuda'', 0) h;
  view_7 \<leftarrow> t_view T reshape [-1, 16, 128];
  view_8 \<leftarrow> t_view T empty [-1, 16, 128];
  view_9 \<leftarrow> t_view T reshape_1 [-1, 8, 128];
  view_10 \<leftarrow> t_view T getitem_4 [-1, 8, 128];
  Some ((view_7, view_9, view_10, view_8, to_4), h)}"

definition submod_53_qwen ::
  "('a, 'k) torch \<Rightarrow> ('a, 'k) native_ops \<Rightarrow>
   tensor \<Rightarrow> nat \<Rightarrow> tensor \<Rightarrow> tensor \<Rightarrow> tensor \<Rightarrow>
   ('a, 'k) store \<Rightarrow> (unit \<times> ('a, 'k) store) option" where
  "submod_53_qwen T N query_80 s72 key_80 value_26 output_107 h = do {
  h \<leftarrow> t_unified_attention_with_output T query_80 key_80 value_26 output_107
      ''model.layers.26.self_attn.attn'' h;
  Some ((), h)}"

definition submod_54_qwen ::
  "('a, 'k) torch \<Rightarrow> ('a, 'k) native_ops \<Rightarrow>
   tensor \<Rightarrow> nat \<Rightarrow> tensor \<Rightarrow> tensor \<Rightarrow> tensor \<Rightarrow> tensor \<Rightarrow> tensor \<Rightarrow> tensor \<Rightarrow> tensor \<Rightarrow> tensor \<Rightarrow> tensor \<Rightarrow> tensor \<Rightarrow> tensor \<Rightarrow>
   ('a, 'k) store \<Rightarrow> ((tensor \<times> tensor \<times> tensor \<times> tensor \<times> tensor) \<times> ('a, 'k) store) option" where
  "submod_54_qwen T N output_107 s72 layers_26_self_attn_o_proj_weight
      layers_26_post_attention_layernorm_weight residual_51 layers_26_mlp_gate_up_proj_weight
      layers_26_mlp_down_proj_weight layers_27_input_layernorm_weight
      layers_27_self_attn_qkv_proj_weight layers_27_self_attn_q_norm_weight
      layers_27_self_attn_k_norm_weight l_positions layers_0_self_attn_rotary_emb_cos_sin_cache
      h = do {
  view \<leftarrow> t_view T output_107 [-1, 2048];
  (linear, h) \<leftarrow> t_linear T view layers_26_self_attn_o_proj_weight None h;
  get_data_attr \<leftarrow> t_get_data_attr T layers_26_post_attention_layernorm_weight;
  (to, h) \<leftarrow> t_to T linear Float32 h;
  (add, h) \<leftarrow> t_add T to residual_51 h;
  (to_1, h) \<leftarrow> t_to T add Float16 h;
  (pow_1, h) \<leftarrow> t_pow N add 2 h;
  (mean, h) \<leftarrow> t_mean N pow_1 (-1) True h;
  (add_1, h) \<leftarrow> t_add_scalar N mean (1 / 1000000) h;
  (rsqrt, h) \<leftarrow> t_rsqrt N add_1 h;
  (mul, h) \<leftarrow> t_mul T add rsqrt h;
  (to_2, h) \<leftarrow> t_to T mul Float16 h;
  (mul_1, h) \<leftarrow> t_mul T to_2 get_data_attr h;
  (linear_1, h) \<leftarrow> t_linear T mul_1 layers_26_mlp_gate_up_proj_weight None h;
  getitem \<leftarrow> t_getitem_last T linear_1 None (Some 3072);
  (silu, h) \<leftarrow> t_silu N getitem h;
  getitem_1 \<leftarrow> t_getitem_last T linear_1 (Some 3072) None;
  (mul_2, h) \<leftarrow> t_mul T silu getitem_1 h;
  (linear_2, h) \<leftarrow> t_linear T mul_2 layers_26_mlp_down_proj_weight None h;
  get_data_attr_1 \<leftarrow> t_get_data_attr T layers_27_input_layernorm_weight;
  (to_3, h) \<leftarrow> t_to T linear_2 Float32 h;
  (add_2, h) \<leftarrow> t_add T to_3 to_1 h;
  (to_4, h) \<leftarrow> t_to T add_2 Float16 h;
  (pow_2, h) \<leftarrow> t_pow N add_2 2 h;
  (mean_1, h) \<leftarrow> t_mean N pow_2 (-1) True h;
  (add_3, h) \<leftarrow> t_add_scalar N mean_1 (1 / 1000000) h;
  (rsqrt_1, h) \<leftarrow> t_rsqrt N add_3 h;
  (mul_3, h) \<leftarrow> t_mul T add_2 rsqrt_1 h;
  (to_5, h) \<leftarrow> t_to T mul_3 Float16 h;
  (mul_4, h) \<leftarrow> t_mul T to_5 get_data_attr_1 h;
  (linear_3, h) \<leftarrow> t_linear T mul_4 layers_27_self_attn_qkv_proj_weight None h;
  split \<leftarrow> t_split T linear_3 [2048, 1024, 1024] (-1);
  getitem_2 \<leftarrow> py_nth split 0;
  getitem_3 \<leftarrow> py_nth split 1;
  getitem_4 \<leftarrow> py_nth split 2;
  view_1 \<leftarrow> t_view T getitem_2 [int s72, 16, 128];
  get_data_attr_2 \<leftarrow> t_get_data_attr T layers_27_self_attn_q_norm_weight;
  (to_6, h) \<leftarrow> t_to T view_1 Float32 h;
  (pow_3, h) \<leftarrow> t_pow N to_6 2 h;
  (mean_2, h) \<leftarrow> t_mean N pow_3 (-1) True h;
  (add_4, h) \<leftarrow> t_add_scalar N mean_2 (1 / 1000000) h;
  (rsqrt_2, h) \<leftarrow> t_rsqrt N add_4 h;
  (mul_5, h) \<leftarrow> t_mul T to_6 rsqrt_2 h;
  (to_7, h) \<leftarrow> t_to T mul_5 Float16 h;
  (mul_6, h) \<leftarrow> t_mul T to_7 get_data_attr_2 h;
  let size = sizes getitem_2;
  view_2 \<leftarrow> t_view T mul_6 (map int size);
  view_3 \<leftarrow> t_view T getitem_3 [int s72, 8, 128];
  get_data_attr_3 \<leftarrow> t_get_data_attr T layers_27_self_attn_k_norm_weight;
  (to_8, h) \<leftarrow> t_to T view_3 Float32 h;
  (pow_4, h) \<leftarrow> t_pow N to_8 2 h;
  (mean_3, h) \<leftarrow> t_mean N pow_4 (-1) True h;
  (add_5, h) \<leftarrow> t_add_scalar N mean_3 (1 / 1000000) h;
  (rsqrt_3, h) \<leftarrow> t_rsqrt N add_5 h;
  (mul_7, h) \<leftarrow> t_mul T to_8 rsqrt_3 h;
  (to_9, h) \<leftarrow> t_to T mul_7 Float16 h;
  (mul_8, h) \<leftarrow> t_mul T to_9 get_data_attr_3 h;
  let size_1 = sizes getitem_3;
  view_4 \<leftarrow> t_view T mul_8 (map int size_1);
  (flatten, h) \<leftarrow> t_flatten T l_positions h;
  (index_select, h) \<leftarrow> t_index_select T layers_0_self_attn_rotary_emb_cos_sin_cache 0
      flatten h;
  chunk \<leftarrow> t_chunk T index_select 2 (-1);
  getitem_5 \<leftarrow> py_nth chunk 0;
  getitem_6 \<leftarrow> py_nth chunk 1;
  let size_2 = sizes view_2;
  view_5 \<leftarrow> t_view T view_2 [int s72, -1, 128];
  getitem_7 \<leftarrow> t_getitem_last T view_5 None (Some 128);
  getitem_8 \<leftarrow> t_getitem_last T view_5 (Some 128) None;
  unsqueeze \<leftarrow> t_unsqueeze T getitem_5 (-2);
  (to_10, h) \<leftarrow> t_to T unsqueeze Float16 h;
  unsqueeze_1 \<leftarrow> t_unsqueeze T getitem_6 (-2);
  (to_11, h) \<leftarrow> t_to T unsqueeze_1 Float16 h;
  chunk_1 \<leftarrow> t_chunk T getitem_7 2 (-1);
  getitem_9 \<leftarrow> py_nth chunk_1 0;
  getitem_10 \<leftarrow> py_nth chunk_1 1;
  (mul_9, h) \<leftarrow> t_mul T getitem_9 to_10 h;
  (mul_10, h) \<leftarrow> t_mul T getitem_10 to_11 h;
  (sub, h) \<leftarrow> t_sub T mul_9 mul_10 h;
  (mul_11, h) \<leftarrow> t_mul T getitem_10 to_10 h;
  (mul_12, h) \<leftarrow> t_mul T getitem_9 to_11 h;
  (add_6, h) \<leftarrow> t_add T mul_11 mul_12 h;
  (cat, h) \<leftarrow> t_cat T [sub, add_6] (-1) h;
  (cat_1, h) \<leftarrow> t_cat T [cat, getitem_8] (-1) h;
  (reshape, h) \<leftarrow> t_reshape T cat_1 size_2 h;
  let size_3 = sizes view_4;
  view_6 \<leftarrow> t_view T view_4 [int s72, -1, 128];
  getitem_11 \<leftarrow> t_getitem_last T view_6 None (Some 128);
  getitem_12 \<leftarrow> t_getitem_last T view_6 (Some 128) None;
  unsqueeze_2 \<leftarrow> t_unsqueeze T getitem_5 (-2);
  (to_12, h) \<leftarrow> t_to T unsqueeze_2 Float16 h;
  unsqueeze_3 \<leftarrow> t_unsqueeze T getitem_6 (-2);
  (to_13, h) \<leftarrow> t_to T unsqueeze_3 Float16 h;
  chunk_2 \<leftarrow> t_chunk T getitem_11 2 (-1);
  getitem_13 \<leftarrow> py_nth chunk_2 0;
  getitem_14 \<leftarrow> py_nth chunk_2 1;
  (mul_13, h) \<leftarrow> t_mul T getitem_13 to_12 h;
  (mul_14, h) \<leftarrow> t_mul T getitem_14 to_13 h;
  (sub_1, h) \<leftarrow> t_sub T mul_13 mul_14 h;
  (mul_15, h) \<leftarrow> t_mul T getitem_14 to_12 h;
  (mul_16, h) \<leftarrow> t_mul T getitem_13 to_13 h;
  (add_7, h) \<leftarrow> t_add T mul_15 mul_16 h;
  (cat_2, h) \<leftarrow> t_cat T [sub_1, add_7] (-1) h;
  (cat_3, h) \<leftarrow> t_cat T [cat_2, getitem_12] (-1) h;
  (reshape_1, h) \<leftarrow> t_reshape T cat_3 size_3 h;
  let size_4 = [s72, 2048];
  (empty, h) \<leftarrow> t_empty T size_4 Float16 (''cuda'', 0) h;
  view_7 \<leftarrow> t_view T reshape [-1, 16, 128];
  view_8 \<leftarrow> t_view T empty [-1, 16, 128];
  view_9 \<leftarrow> t_view T reshape_1 [-1, 8, 128];
  view_10 \<leftarrow> t_view T getitem_4 [-1, 8, 128];
  Some ((view_7, view_9, view_10, view_8, to_4), h)}"

definition submod_55_qwen ::
  "('a, 'k) torch \<Rightarrow> ('a, 'k) native_ops \<Rightarrow>
   tensor \<Rightarrow> nat \<Rightarrow> tensor \<Rightarrow> tensor \<Rightarrow> tensor \<Rightarrow>
   ('a, 'k) store \<Rightarrow> (unit \<times> ('a, 'k) store) option" where
  "submod_55_qwen T N query_83 s72 key_83 value_27 output_111 h = do {
  h \<leftarrow> t_unified_attention_with_output T query_83 key_83 value_27 output_111
      ''model.layers.27.self_attn.attn'' h;
  Some ((), h)}"

definition forward_qwen ::
  "('a, 'k) torch \<Rightarrow> ('a, 'k) native_ops \<Rightarrow> nat \<Rightarrow> tensor \<Rightarrow> tensor \<Rightarrow> (nat \<Rightarrow> qwen_params) \<Rightarrow>
   tensor \<Rightarrow> nat \<Rightarrow> tensor \<Rightarrow> tensor \<Rightarrow> ('a, 'k) store \<Rightarrow> (tensor \<times> ('a, 'k) store) option" where
  "forward_qwen T N s72 l_input_ids embed_tokens_weight L cos_sin_cache s80 l_positions norm_weight h = do {
  ((getitem, getitem_1, getitem_2, getitem_3, getitem_4), h) \<leftarrow> submod_0_qwen T N
      l_input_ids s72 embed_tokens_weight (n_input_layernorm_weight (L 0)) (n_qkv_proj_weight (L
      0)) (n_q_norm_weight (L 0)) (n_k_norm_weight (L 0)) l_positions cos_sin_cache h;
  (_, h) \<leftarrow> submod_1_qwen T N getitem s72 getitem_1 getitem_2 getitem_3 h;
  ((getitem_5, getitem_6, getitem_7, getitem_8, getitem_9), h) \<leftarrow> submod_2_qwen T N
      getitem_3 s72 (n_o_proj_weight (L 0)) (n_post_attention_layernorm_weight (L 0)) getitem_4
      (n_gate_up_proj_weight (L 0)) (n_down_proj_weight (L 0)) (n_input_layernorm_weight (L 1))
      (n_qkv_proj_weight (L 1)) (n_q_norm_weight (L 1)) (n_k_norm_weight (L 1)) l_positions
      cos_sin_cache h;
  (_, h) \<leftarrow> submod_3_qwen T N getitem_5 s72 getitem_6 getitem_7 getitem_8 h;
  ((getitem_10, getitem_11, getitem_12, getitem_13, getitem_14), h) \<leftarrow> submod_4_qwen T
      N getitem_8 s72 (n_o_proj_weight (L 1)) (n_post_attention_layernorm_weight (L 1))
      getitem_9 (n_gate_up_proj_weight (L 1)) (n_down_proj_weight (L 1))
      (n_input_layernorm_weight (L 2)) (n_qkv_proj_weight (L 2)) (n_q_norm_weight (L 2))
      (n_k_norm_weight (L 2)) l_positions cos_sin_cache h;
  (_, h) \<leftarrow> submod_5_qwen T N getitem_10 s72 getitem_11 getitem_12 getitem_13 h;
  ((getitem_15, getitem_16, getitem_17, getitem_18, getitem_19), h) \<leftarrow> submod_6_qwen T
      N getitem_13 s72 (n_o_proj_weight (L 2)) (n_post_attention_layernorm_weight (L 2))
      getitem_14 (n_gate_up_proj_weight (L 2)) (n_down_proj_weight (L 2))
      (n_input_layernorm_weight (L 3)) (n_qkv_proj_weight (L 3)) (n_q_norm_weight (L 3))
      (n_k_norm_weight (L 3)) l_positions cos_sin_cache h;
  (_, h) \<leftarrow> submod_7_qwen T N getitem_15 s72 getitem_16 getitem_17 getitem_18 h;
  ((getitem_20, getitem_21, getitem_22, getitem_23, getitem_24), h) \<leftarrow> submod_8_qwen T
      N getitem_18 s72 (n_o_proj_weight (L 3)) (n_post_attention_layernorm_weight (L 3))
      getitem_19 (n_gate_up_proj_weight (L 3)) (n_down_proj_weight (L 3))
      (n_input_layernorm_weight (L 4)) (n_qkv_proj_weight (L 4)) (n_q_norm_weight (L 4))
      (n_k_norm_weight (L 4)) l_positions cos_sin_cache h;
  (_, h) \<leftarrow> submod_9_qwen T N getitem_20 s72 getitem_21 getitem_22 getitem_23 h;
  ((getitem_25, getitem_26, getitem_27, getitem_28, getitem_29), h) \<leftarrow> submod_10_qwen
      T N getitem_23 s72 (n_o_proj_weight (L 4)) (n_post_attention_layernorm_weight (L 4))
      getitem_24 (n_gate_up_proj_weight (L 4)) (n_down_proj_weight (L 4))
      (n_input_layernorm_weight (L 5)) (n_qkv_proj_weight (L 5)) (n_q_norm_weight (L 5))
      (n_k_norm_weight (L 5)) l_positions cos_sin_cache h;
  (_, h) \<leftarrow> submod_11_qwen T N getitem_25 s72 getitem_26 getitem_27 getitem_28 h;
  ((getitem_30, getitem_31, getitem_32, getitem_33, getitem_34), h) \<leftarrow> submod_12_qwen
      T N getitem_28 s72 (n_o_proj_weight (L 5)) (n_post_attention_layernorm_weight (L 5))
      getitem_29 (n_gate_up_proj_weight (L 5)) (n_down_proj_weight (L 5))
      (n_input_layernorm_weight (L 6)) (n_qkv_proj_weight (L 6)) (n_q_norm_weight (L 6))
      (n_k_norm_weight (L 6)) l_positions cos_sin_cache h;
  (_, h) \<leftarrow> submod_13_qwen T N getitem_30 s72 getitem_31 getitem_32 getitem_33 h;
  ((getitem_35, getitem_36, getitem_37, getitem_38, getitem_39), h) \<leftarrow> submod_14_qwen
      T N getitem_33 s72 (n_o_proj_weight (L 6)) (n_post_attention_layernorm_weight (L 6))
      getitem_34 (n_gate_up_proj_weight (L 6)) (n_down_proj_weight (L 6))
      (n_input_layernorm_weight (L 7)) (n_qkv_proj_weight (L 7)) (n_q_norm_weight (L 7))
      (n_k_norm_weight (L 7)) l_positions cos_sin_cache h;
  (_, h) \<leftarrow> submod_15_qwen T N getitem_35 s72 getitem_36 getitem_37 getitem_38 h;
  ((getitem_40, getitem_41, getitem_42, getitem_43, getitem_44), h) \<leftarrow> submod_16_qwen
      T N getitem_38 s72 (n_o_proj_weight (L 7)) (n_post_attention_layernorm_weight (L 7))
      getitem_39 (n_gate_up_proj_weight (L 7)) (n_down_proj_weight (L 7))
      (n_input_layernorm_weight (L 8)) (n_qkv_proj_weight (L 8)) (n_q_norm_weight (L 8))
      (n_k_norm_weight (L 8)) l_positions cos_sin_cache h;
  (_, h) \<leftarrow> submod_17_qwen T N getitem_40 s72 getitem_41 getitem_42 getitem_43 h;
  ((getitem_45, getitem_46, getitem_47, getitem_48, getitem_49), h) \<leftarrow> submod_18_qwen
      T N getitem_43 s72 (n_o_proj_weight (L 8)) (n_post_attention_layernorm_weight (L 8))
      getitem_44 (n_gate_up_proj_weight (L 8)) (n_down_proj_weight (L 8))
      (n_input_layernorm_weight (L 9)) (n_qkv_proj_weight (L 9)) (n_q_norm_weight (L 9))
      (n_k_norm_weight (L 9)) l_positions cos_sin_cache h;
  (_, h) \<leftarrow> submod_19_qwen T N getitem_45 s72 getitem_46 getitem_47 getitem_48 h;
  ((getitem_50, getitem_51, getitem_52, getitem_53, getitem_54), h) \<leftarrow> submod_20_qwen
      T N getitem_48 s72 (n_o_proj_weight (L 9)) (n_post_attention_layernorm_weight (L 9))
      getitem_49 (n_gate_up_proj_weight (L 9)) (n_down_proj_weight (L 9))
      (n_input_layernorm_weight (L 10)) (n_qkv_proj_weight (L 10)) (n_q_norm_weight (L 10))
      (n_k_norm_weight (L 10)) l_positions cos_sin_cache h;
  (_, h) \<leftarrow> submod_21_qwen T N getitem_50 s72 getitem_51 getitem_52 getitem_53 h;
  ((getitem_55, getitem_56, getitem_57, getitem_58, getitem_59), h) \<leftarrow> submod_22_qwen
      T N getitem_53 s72 (n_o_proj_weight (L 10)) (n_post_attention_layernorm_weight (L 10))
      getitem_54 (n_gate_up_proj_weight (L 10)) (n_down_proj_weight (L 10))
      (n_input_layernorm_weight (L 11)) (n_qkv_proj_weight (L 11)) (n_q_norm_weight (L 11))
      (n_k_norm_weight (L 11)) l_positions cos_sin_cache h;
  (_, h) \<leftarrow> submod_23_qwen T N getitem_55 s72 getitem_56 getitem_57 getitem_58 h;
  ((getitem_60, getitem_61, getitem_62, getitem_63, getitem_64), h) \<leftarrow> submod_24_qwen
      T N getitem_58 s72 (n_o_proj_weight (L 11)) (n_post_attention_layernorm_weight (L 11))
      getitem_59 (n_gate_up_proj_weight (L 11)) (n_down_proj_weight (L 11))
      (n_input_layernorm_weight (L 12)) (n_qkv_proj_weight (L 12)) (n_q_norm_weight (L 12))
      (n_k_norm_weight (L 12)) l_positions cos_sin_cache h;
  (_, h) \<leftarrow> submod_25_qwen T N getitem_60 s72 getitem_61 getitem_62 getitem_63 h;
  ((getitem_65, getitem_66, getitem_67, getitem_68, getitem_69), h) \<leftarrow> submod_26_qwen
      T N getitem_63 s72 (n_o_proj_weight (L 12)) (n_post_attention_layernorm_weight (L 12))
      getitem_64 (n_gate_up_proj_weight (L 12)) (n_down_proj_weight (L 12))
      (n_input_layernorm_weight (L 13)) (n_qkv_proj_weight (L 13)) (n_q_norm_weight (L 13))
      (n_k_norm_weight (L 13)) l_positions cos_sin_cache h;
  (_, h) \<leftarrow> submod_27_qwen T N getitem_65 s72 getitem_66 getitem_67 getitem_68 h;
  ((getitem_70, getitem_71, getitem_72, getitem_73, getitem_74), h) \<leftarrow> submod_28_qwen
      T N getitem_68 s72 (n_o_proj_weight (L 13)) (n_post_attention_layernorm_weight (L 13))
      getitem_69 (n_gate_up_proj_weight (L 13)) (n_down_proj_weight (L 13))
      (n_input_layernorm_weight (L 14)) (n_qkv_proj_weight (L 14)) (n_q_norm_weight (L 14))
      (n_k_norm_weight (L 14)) l_positions cos_sin_cache h;
  (_, h) \<leftarrow> submod_29_qwen T N getitem_70 s72 getitem_71 getitem_72 getitem_73 h;
  ((getitem_75, getitem_76, getitem_77, getitem_78, getitem_79), h) \<leftarrow> submod_30_qwen
      T N getitem_73 s72 (n_o_proj_weight (L 14)) (n_post_attention_layernorm_weight (L 14))
      getitem_74 (n_gate_up_proj_weight (L 14)) (n_down_proj_weight (L 14))
      (n_input_layernorm_weight (L 15)) (n_qkv_proj_weight (L 15)) (n_q_norm_weight (L 15))
      (n_k_norm_weight (L 15)) l_positions cos_sin_cache h;
  (_, h) \<leftarrow> submod_31_qwen T N getitem_75 s72 getitem_76 getitem_77 getitem_78 h;
  ((getitem_80, getitem_81, getitem_82, getitem_83, getitem_84), h) \<leftarrow> submod_32_qwen
      T N getitem_78 s72 (n_o_proj_weight (L 15)) (n_post_attention_layernorm_weight (L 15))
      getitem_79 (n_gate_up_proj_weight (L 15)) (n_down_proj_weight (L 15))
      (n_input_layernorm_weight (L 16)) (n_qkv_proj_weight (L 16)) (n_q_norm_weight (L 16))
      (n_k_norm_weight (L 16)) l_positions cos_sin_cache h;
  (_, h) \<leftarrow> submod_33_qwen T N getitem_80 s72 getitem_81 getitem_82 getitem_83 h;
  ((getitem_85, getitem_86, getitem_87, getitem_88, getitem_89), h) \<leftarrow> submod_34_qwen
      T N getitem_83 s72 (n_o_proj_weight (L 16)) (n_post_attention_layernorm_weight (L 16))
      getitem_84 (n_gate_up_proj_weight (L 16)) (n_down_proj_weight (L 16))
      (n_input_layernorm_weight (L 17)) (n_qkv_proj_weight (L 17)) (n_q_norm_weight (L 17))
      (n_k_norm_weight (L 17)) l_positions cos_sin_cache h;
  (_, h) \<leftarrow> submod_35_qwen T N getitem_85 s72 getitem_86 getitem_87 getitem_88 h;
  ((getitem_90, getitem_91, getitem_92, getitem_93, getitem_94), h) \<leftarrow> submod_36_qwen
      T N getitem_88 s72 (n_o_proj_weight (L 17)) (n_post_attention_layernorm_weight (L 17))
      getitem_89 (n_gate_up_proj_weight (L 17)) (n_down_proj_weight (L 17))
      (n_input_layernorm_weight (L 18)) (n_qkv_proj_weight (L 18)) (n_q_norm_weight (L 18))
      (n_k_norm_weight (L 18)) l_positions cos_sin_cache h;
  (_, h) \<leftarrow> submod_37_qwen T N getitem_90 s72 getitem_91 getitem_92 getitem_93 h;
  ((getitem_95, getitem_96, getitem_97, getitem_98, getitem_99), h) \<leftarrow> submod_38_qwen
      T N getitem_93 s72 (n_o_proj_weight (L 18)) (n_post_attention_layernorm_weight (L 18))
      getitem_94 (n_gate_up_proj_weight (L 18)) (n_down_proj_weight (L 18))
      (n_input_layernorm_weight (L 19)) (n_qkv_proj_weight (L 19)) (n_q_norm_weight (L 19))
      (n_k_norm_weight (L 19)) l_positions cos_sin_cache h;
  (_, h) \<leftarrow> submod_39_qwen T N getitem_95 s72 getitem_96 getitem_97 getitem_98 h;
  ((getitem_100, getitem_101, getitem_102, getitem_103, getitem_104), h) \<leftarrow>
      submod_40_qwen T N getitem_98 s72 (n_o_proj_weight (L 19))
      (n_post_attention_layernorm_weight (L 19)) getitem_99 (n_gate_up_proj_weight (L 19))
      (n_down_proj_weight (L 19)) (n_input_layernorm_weight (L 20)) (n_qkv_proj_weight (L 20))
      (n_q_norm_weight (L 20)) (n_k_norm_weight (L 20)) l_positions cos_sin_cache h;
  (_, h) \<leftarrow> submod_41_qwen T N getitem_100 s72 getitem_101 getitem_102 getitem_103 h;
  ((getitem_105, getitem_106, getitem_107, getitem_108, getitem_109), h) \<leftarrow>
      submod_42_qwen T N getitem_103 s72 (n_o_proj_weight (L 20))
      (n_post_attention_layernorm_weight (L 20)) getitem_104 (n_gate_up_proj_weight (L 20))
      (n_down_proj_weight (L 20)) (n_input_layernorm_weight (L 21)) (n_qkv_proj_weight (L 21))
      (n_q_norm_weight (L 21)) (n_k_norm_weight (L 21)) l_positions cos_sin_cache h;
  (_, h) \<leftarrow> submod_43_qwen T N getitem_105 s72 getitem_106 getitem_107 getitem_108 h;
  ((getitem_110, getitem_111, getitem_112, getitem_113, getitem_114), h) \<leftarrow>
      submod_44_qwen T N getitem_108 s72 (n_o_proj_weight (L 21))
      (n_post_attention_layernorm_weight (L 21)) getitem_109 (n_gate_up_proj_weight (L 21))
      (n_down_proj_weight (L 21)) (n_input_layernorm_weight (L 22)) (n_qkv_proj_weight (L 22))
      (n_q_norm_weight (L 22)) (n_k_norm_weight (L 22)) l_positions cos_sin_cache h;
  (_, h) \<leftarrow> submod_45_qwen T N getitem_110 s72 getitem_111 getitem_112 getitem_113 h;
  ((getitem_115, getitem_116, getitem_117, getitem_118, getitem_119), h) \<leftarrow>
      submod_46_qwen T N getitem_113 s72 (n_o_proj_weight (L 22))
      (n_post_attention_layernorm_weight (L 22)) getitem_114 (n_gate_up_proj_weight (L 22))
      (n_down_proj_weight (L 22)) (n_input_layernorm_weight (L 23)) (n_qkv_proj_weight (L 23))
      (n_q_norm_weight (L 23)) (n_k_norm_weight (L 23)) l_positions cos_sin_cache h;
  (_, h) \<leftarrow> submod_47_qwen T N getitem_115 s72 getitem_116 getitem_117 getitem_118 h;
  ((getitem_120, getitem_121, getitem_122, getitem_123, getitem_124), h) \<leftarrow>
      submod_48_qwen T N getitem_118 s72 (n_o_proj_weight (L 23))
      (n_post_attention_layernorm_weight (L 23)) getitem_119 (n_gate_up_proj_weight (L 23))
      (n_down_proj_weight (L 23)) (n_input_layernorm_weight (L 24)) (n_qkv_proj_weight (L 24))
      (n_q_norm_weight (L 24)) (n_k_norm_weight (L 24)) l_positions cos_sin_cache h;
  (_, h) \<leftarrow> submod_49_qwen T N getitem_120 s72 getitem_121 getitem_122 getitem_123 h;
  ((getitem_125, getitem_126, getitem_127, getitem_128, getitem_129), h) \<leftarrow>
      submod_50_qwen T N getitem_123 s72 (n_o_proj_weight (L 24))
      (n_post_attention_layernorm_weight (L 24)) getitem_124 (n_gate_up_proj_weight (L 24))
      (n_down_proj_weight (L 24)) (n_input_layernorm_weight (L 25)) (n_qkv_proj_weight (L 25))
      (n_q_norm_weight (L 25)) (n_k_norm_weight (L 25)) l_positions cos_sin_cache h;
  (_, h) \<leftarrow> submod_51_qwen T N getitem_125 s72 getitem_126 getitem_127 getitem_128 h;
  ((getitem_130, getitem_131, getitem_132, getitem_133, getitem_134), h) \<leftarrow>
      submod_52_qwen T N getitem_128 s72 (n_o_proj_weight (L 25))
      (n_post_attention_layernorm_weight (L 25)) getitem_129 (n_gate_up_proj_weight (L 25))
      (n_down_proj_weight (L 25)) (n_input_layernorm_weight (L 26)) (n_qkv_proj_weight (L 26))
      (n_q_norm_weight (L 26)) (n_k_norm_weight (L 26)) l_positions cos_sin_cache h;
  (_, h) \<leftarrow> submod_53_qwen T N getitem_130 s72 getitem_131 getitem_132 getitem_133 h;
  ((getitem_135, getitem_136, getitem_137, getitem_138, getitem_139), h) \<leftarrow>
      submod_54_qwen T N getitem_133 s72 (n_o_proj_weight (L 26))
      (n_post_attention_layernorm_weight (L 26)) getitem_134 (n_gate_up_proj_weight (L 26))
      (n_down_proj_weight (L 26)) (n_input_layernorm_weight (L 27)) (n_qkv_proj_weight (L 27))
      (n_q_norm_weight (L 27)) (n_k_norm_weight (L 27)) l_positions cos_sin_cache h;
  (_, h) \<leftarrow> submod_55_qwen T N getitem_135 s72 getitem_136 getitem_137 getitem_138 h;
  (submod_56, h) \<leftarrow> submod_56_qwen T N getitem_138 s72 (n_o_proj_weight (L 27))
      (n_post_attention_layernorm_weight (L 27)) getitem_139 (n_gate_up_proj_weight (L 27))
      (n_down_proj_weight (L 27)) norm_weight h;
  Some (submod_56, h)}"

end
