(* ===== verification/Qwen_Forward.thy ===== *)
theory Qwen_Forward
  imports Native_Piecewise Qwen_Graph_Layers
begin

text \<open>
  The qwen graph (src/mcv/example/qwen-binary-cache/torch_compile_cache/4bce7ae4f8/rank_0_0/backbone)
  is made of the shared fragments: its pieces keep the contract of \<open>Native_Piecewise\<close>, all
  middle pieces are one function, and the unrolled forward is their composition.
\<close>

definition qwen_dims :: model_dims where
  "qwen_dims = \<lparr>d_hid = 1024, d_nq = 16, d_nkv = 8, d_half = 64, d_inter = 3072, d_eps = 1 / 1000000,
     d_vocab = 151936, d_maxpos = 40960, d_layers = 28\<rparr>"

lemma qwen_sizes:
  "d_hd qwen_dims = 128" "d_q qwen_dims = 2048" "d_kv qwen_dims = 1024" "d_tot qwen_dims = 4096"
  by (simp_all add: qwen_dims_def d_hd_def d_q_def d_kv_def d_tot_def)

lemma qwen_fields:
  "d_hid qwen_dims = 1024" "d_nq qwen_dims = 16" "d_nkv qwen_dims = 8" "d_half qwen_dims = 64" "d_inter qwen_dims = 3072" "d_eps qwen_dims = 1 / 1000000" "d_vocab qwen_dims = 151936" "d_maxpos qwen_dims = 40960" "d_layers qwen_dims = 28"
  by (simp_all add: qwen_dims_def)

definition heads_qwen :: "qwen_params \<Rightarrow> (tensor \<times> tensor) option" where
  "heads_qwen P = Some (n_q_norm_weight P, n_k_norm_weight P)"

text \<open>The pieces, taking the weights of a layer as one argument.\<close>

definition first_qwen ::
  "('a, 'k) torch \<Rightarrow> ('a, 'k) native_ops \<Rightarrow> qwen_params \<Rightarrow> tensor \<Rightarrow> nat \<Rightarrow> tensor \<Rightarrow> tensor \<Rightarrow> tensor \<Rightarrow> ('a, 'k) store \<Rightarrow>
   (native_state \<times> ('a, 'k) store) option" where
  "first_qwen T N P ids n emb ps cache h =
     submod_0_qwen T N ids n emb (n_input_layernorm_weight P) (n_qkv_proj_weight P) (n_q_norm_weight P) (n_k_norm_weight P) ps cache h"

definition mid_qwen ::
  "('a, 'k) torch \<Rightarrow> ('a, 'k) native_ops \<Rightarrow> qwen_params \<Rightarrow> qwen_params \<Rightarrow> tensor \<Rightarrow> nat \<Rightarrow> tensor \<Rightarrow> tensor \<Rightarrow> tensor \<Rightarrow>
   ('a, 'k) store \<Rightarrow> (native_state \<times> ('a, 'k) store) option" where
  "mid_qwen T N P P' out n res ps cache h =
     submod_2_qwen T N out n (n_o_proj_weight P) (n_post_attention_layernorm_weight P) res (n_gate_up_proj_weight P)
       (n_down_proj_weight P) (n_input_layernorm_weight P') (n_qkv_proj_weight P') (n_q_norm_weight P') (n_k_norm_weight P') ps cache h"

definition last_qwen ::
  "('a, 'k) torch \<Rightarrow> ('a, 'k) native_ops \<Rightarrow> qwen_params \<Rightarrow> tensor \<Rightarrow> nat \<Rightarrow> tensor \<Rightarrow> tensor \<Rightarrow> ('a, 'k) store \<Rightarrow>
   (tensor \<times> ('a, 'k) store) option" where
  "last_qwen T N P out n res nw h =
     submod_56_qwen T N out n (n_o_proj_weight P) (n_post_attention_layernorm_weight P) res (n_gate_up_proj_weight P)
       (n_down_proj_weight P) nw h"

context native_api
begin

lemma first_qwen_gen: "first_qwen T N P = gen_first T N qwen_dims (heads_qwen P) P"
  unfolding first_qwen_def submod_0_qwen_def gen_first_def nembed_frag_def nproj_frag_def norm_frag_def hnorm_frag_def
    nrope_frag_def heads_qwen_def
  by (intro ext) (simp add: qwen_sizes qwen_fields get_data_attr_law Let_def cong: option.case_cong)

lemma mid_qwen_gen: "mid_qwen T N P P' = gen_mid T N qwen_dims (heads_qwen P') P P'"
  unfolding mid_qwen_def submod_2_qwen_def gen_mid_def nafter_frag_def nproj_frag_def norm_frag_def hnorm_frag_def
    nrope_frag_def heads_qwen_def
  by (intro ext) (simp add: qwen_sizes qwen_fields get_data_attr_law Let_def cong: option.case_cong)

lemma last_qwen_gen: "last_qwen T N = gen_last T N qwen_dims"
  unfolding last_qwen_def submod_56_qwen_def gen_last_def nafter_frag_def norm_frag_def
  by (intro ext) (simp add: qwen_sizes qwen_fields get_data_attr_law Let_def cong: option.case_cong)

end

lemma qwen_dims_ok: "dims_ok qwen_dims"
  by (simp add: dims_ok_def qwen_dims_def)

text \<open>What the weights of a layer must be, and their values.\<close>

definition qwen_layer_ok :: "('a, 'k) store \<Rightarrow> qwen_params \<Rightarrow> bool" where
  "qwen_layer_ok h P \<longleftrightarrow> params_ok qwen_dims h P \<and> heads_ok qwen_dims h (heads_qwen P)"

definition qwen_layer_vals :: "('a, 'k) store \<Rightarrow> qwen_params \<Rightarrow> 'a native_vals" where
  "qwen_layer_vals h P = params_vals h (heads_qwen P) P"

sublocale native_api \<subseteq> qwen: native_pieces T V N W qwen_dims qwen_layer_ok qwen_layer_vals
  "first_qwen T N" "mid_qwen T N" "last_qwen T N"
  using gen_pieces [OF qwen_dims_ok, of heads_qwen]
  unfolding first_qwen_gen [abs_def, symmetric] mid_qwen_gen [abs_def, symmetric] last_qwen_gen [symmetric]
    qwen_layer_ok_def [abs_def, symmetric] qwen_layer_vals_def [abs_def, symmetric] .

subsection \<open>The unrolled forward\<close>

lemma submods_qwen_equal:
  "submod_4_qwen = submod_2_qwen"
  "submod_6_qwen = submod_2_qwen"
  "submod_8_qwen = submod_2_qwen"
  "submod_10_qwen = submod_2_qwen"
  "submod_12_qwen = submod_2_qwen"
  "submod_14_qwen = submod_2_qwen"
  "submod_16_qwen = submod_2_qwen"
  "submod_18_qwen = submod_2_qwen"
  "submod_20_qwen = submod_2_qwen"
  "submod_22_qwen = submod_2_qwen"
  "submod_24_qwen = submod_2_qwen"
  "submod_26_qwen = submod_2_qwen"
  "submod_28_qwen = submod_2_qwen"
  "submod_30_qwen = submod_2_qwen"
  "submod_32_qwen = submod_2_qwen"
  "submod_34_qwen = submod_2_qwen"
  "submod_36_qwen = submod_2_qwen"
  "submod_38_qwen = submod_2_qwen"
  "submod_40_qwen = submod_2_qwen"
  "submod_42_qwen = submod_2_qwen"
  "submod_44_qwen = submod_2_qwen"
  "submod_46_qwen = submod_2_qwen"
  "submod_48_qwen = submod_2_qwen"
  "submod_50_qwen = submod_2_qwen"
  "submod_52_qwen = submod_2_qwen"
  "submod_54_qwen = submod_2_qwen"
  unfolding submod_4_qwen_def submod_6_qwen_def submod_8_qwen_def submod_10_qwen_def submod_12_qwen_def submod_14_qwen_def submod_16_qwen_def submod_18_qwen_def submod_20_qwen_def submod_22_qwen_def submod_24_qwen_def submod_26_qwen_def submod_28_qwen_def submod_30_qwen_def submod_32_qwen_def submod_34_qwen_def submod_36_qwen_def submod_38_qwen_def submod_40_qwen_def submod_42_qwen_def submod_44_qwen_def submod_46_qwen_def submod_48_qwen_def submod_50_qwen_def submod_52_qwen_def submod_54_qwen_def submod_2_qwen_def
  by (rule refl)+

lemmas attn_qwen_defs =
  submod_1_qwen_def submod_3_qwen_def submod_5_qwen_def submod_7_qwen_def submod_9_qwen_def submod_11_qwen_def submod_13_qwen_def submod_15_qwen_def submod_17_qwen_def submod_19_qwen_def submod_21_qwen_def submod_23_qwen_def submod_25_qwen_def submod_27_qwen_def submod_29_qwen_def submod_31_qwen_def submod_33_qwen_def submod_35_qwen_def submod_37_qwen_def submod_39_qwen_def submod_41_qwen_def submod_43_qwen_def submod_45_qwen_def submod_47_qwen_def submod_49_qwen_def submod_51_qwen_def submod_53_qwen_def submod_55_qwen_def

lemma layer_names_qwen:
  "layer_name 0 = ''model.layers.0.self_attn.attn''"
  "layer_name (Suc 0) = ''model.layers.1.self_attn.attn''"
  "layer_name 2 = ''model.layers.2.self_attn.attn''"
  "layer_name 3 = ''model.layers.3.self_attn.attn''"
  "layer_name 4 = ''model.layers.4.self_attn.attn''"
  "layer_name 5 = ''model.layers.5.self_attn.attn''"
  "layer_name 6 = ''model.layers.6.self_attn.attn''"
  "layer_name 7 = ''model.layers.7.self_attn.attn''"
  "layer_name 8 = ''model.layers.8.self_attn.attn''"
  "layer_name 9 = ''model.layers.9.self_attn.attn''"
  "layer_name 10 = ''model.layers.10.self_attn.attn''"
  "layer_name 11 = ''model.layers.11.self_attn.attn''"
  "layer_name 12 = ''model.layers.12.self_attn.attn''"
  "layer_name 13 = ''model.layers.13.self_attn.attn''"
  "layer_name 14 = ''model.layers.14.self_attn.attn''"
  "layer_name 15 = ''model.layers.15.self_attn.attn''"
  "layer_name 16 = ''model.layers.16.self_attn.attn''"
  "layer_name 17 = ''model.layers.17.self_attn.attn''"
  "layer_name 18 = ''model.layers.18.self_attn.attn''"
  "layer_name 19 = ''model.layers.19.self_attn.attn''"
  "layer_name 20 = ''model.layers.20.self_attn.attn''"
  "layer_name 21 = ''model.layers.21.self_attn.attn''"
  "layer_name 22 = ''model.layers.22.self_attn.attn''"
  "layer_name 23 = ''model.layers.23.self_attn.attn''"
  "layer_name 24 = ''model.layers.24.self_attn.attn''"
  "layer_name 25 = ''model.layers.25.self_attn.attn''"
  "layer_name 26 = ''model.layers.26.self_attn.attn''"
  "layer_name 27 = ''model.layers.27.self_attn.attn''"
  by (simp_all add: layer_name_def decimal.simps digit_def)

lemma forward_qwen_loop:
  "forward_qwen T N n ids emb L cache s80 ps nw h =
     nforward (t_unified_attention_with_output T) (first_qwen T N) (mid_qwen T N) (last_qwen T N) 27 n ids emb L ps cache nw h"
  unfolding forward_qwen_def submods_qwen_equal attn_qwen_defs nforward_def first_qwen_def mid_qwen_def last_qwen_def
  by (simp add: nrun_numeral layer_names_qwen numeral_2_eq_2 [symmetric] split_def cong: option.case_cong)

end
