(* ===== verification/Native_Ref.thy ===== *)
theory Native_Ref
  imports Native_API Torch_Ref
begin

text \<open>
  An implementation over the real numbers of the operators the llama and qwen graphs use,
  on top of \<open>Torch_Ref\<close>: conversions between element types are exact, sums of a single and
  a half precision tensor are promoted, a product with a vector repeats the vector.
\<close>

definition native_torch :: "real \<Rightarrow> (real, kv_cache) torch" where
  "native_torch g = (ref_torch g)
     \<lparr>t_mul := (\<lambda>x y h.
        if dtype x = dtype y \<and> bcast_ok (sizes x) (sizes y) then Some (elementwise (*) x y h)
        else if dtype x = dtype y \<and> 1 < length (sizes x) \<and> sizes y = [last (sizes x)] then Some (by_row (*) x y h)
        else None),
      t_add := (\<lambda>x y h.
        if bcast_ok (sizes x) (sizes y) \<and> (dtype x = dtype y \<or> dtype x = Float32 \<and> dtype y = Float16)
        then Some (elementwise (+) x y h) else None)\<rparr>"

definition ref_mapped ::
  "(real \<Rightarrow> real) \<Rightarrow> tensor \<Rightarrow> (real, kv_cache) store \<Rightarrow> (tensor \<times> (real, kv_cache) store) option" where
  "ref_mapped f x h = Some (mapped f (dtype x) x h)"

definition ref_mean :: "real tval \<Rightarrow> real list" where
  "ref_mean x = (let d = last (fst x) in
     map (\<lambda>i. (\<Sum>l<d. snd x ! (i * d + l)) / real d) [0..<prod_list (butlast (fst x))])"

definition ref_native_kernels :: "real native_kernels" where
  "ref_native_kernels =
     \<lparr>w_cast = (\<lambda>dt x. x), w_pow = (\<lambda>k x. x ^ k), w_mean = ref_mean, w_add_scalar = (\<lambda>c x. x + of_rat c),
      w_rsqrt = (\<lambda>x. 1 / sqrt x), w_silu = silu\<rparr>"

definition ref_native :: "(real, kv_cache) native_ops" where
  "ref_native =
     \<lparr>t_pow = (\<lambda>x k. ref_mapped (\<lambda>a. a ^ k) x),
      t_mean = (\<lambda>x dim keep h. if sizes x \<noteq> [] \<and> dim = -1 \<and> keep
         then Some (new_t h (dtype x) (butlast (sizes x) @ [1]), alloc h (ref_mean (tv h x))) else None),
      t_add_scalar = (\<lambda>x c. ref_mapped (\<lambda>a. a + of_rat c) x),
      t_rsqrt = ref_mapped (\<lambda>a. 1 / sqrt a),
      t_silu = ref_mapped silu\<rparr>"

lemma bcast_ok_row: "1 < length xs \<Longrightarrow> \<not> bcast_ok xs [d]"
  by (auto simp: bcast_ok_def dest: list_all2_lengthD)

lemma native_torch_api: "torch_api (native_torch g) (ref_kernels g)"
proof -
  have same: "t_mul (native_torch g) x y h = t_mul (ref_torch g) x y h" "t_add (native_torch g) x y h = t_add (ref_torch g) x y h"
    if "dtype x = dtype y" "bcast_ok (sizes x) (sizes y)" for x y h
    using that by (simp_all add: native_torch_def ref_torch_def ref_elementwise_def)
  show ?thesis
    by unfold_locales
       (simp_all add: same ref.mul_law ref.add_law,
        simp_all add: native_torch_def ref.long_law ref.embedding_law ref.log_api_law ref.get_data_attr_law
          ref.empty_like_law ref.contiguous_law ref.rms_norm_law ref.linear_law ref.split_law ref.flatten_law
          ref.index_select_law ref.chunk_law ref.view_law ref.view_split_law ref.getitem_upto_law
          ref.getitem_from_law ref.unsqueeze_law ref.to_law ref.sub_law ref.cat_law ref.reshape_law ref.empty_law
          ref.attention_law ref.fused_add_rms_norm_law ref.silu_and_mul_law ref.rms_norm_length ref.linear_length
          ref.attention_length ref.silu_and_mul_length)
qed

interpretation nref: native_api "native_torch g" "ref_kernels g" ref_native ref_native_kernels for g
  by (rule native_api.intro [OF native_torch_api], unfold_locales)
     (auto simp: native_torch_def ref_torch_def ref_native_def ref_native_kernels_def ref_kernels_def ref_mapped_def
        mapped_def ref_mean_def bcast_ok_row Let_def)

end
