(* ===== verification/Native_Theorems.thy ===== *)
theory Native_Theorems
  imports Llama_Forward Qwen_Forward Native_Ref
begin

text \<open>
  The statements about the llama and qwen graphs, for every implementation of the operators
  that satisfies the documented laws, with a concrete input for each.
\<close>

context native_api
begin

lemma forward_llama_ok:
  assumes ok: "native_inputs_ok V llama_dims llama_layer_ok h n ids emb L ps cache nw"
  shows "\<exists>x h'. forward_llama T N n ids emb L cache s80 ps nw h = Some (x, h') \<and> sizes x = [n, 2048] \<and> dtype x = Float16 \<and>
     (tvals h' x, ctx h') = native_model V W llama_dims n (tvals h ids) (tvals h ps) (tvals h emb) (tvals h cache)
        (\<lambda>i. llama_layer_vals h (L i)) (tvals h nw) (ctx h) \<and> frame {} h h'"
  using llama.nforward_ok [OF ok, of 15] by (simp add: forward_llama_loop llama_fields)

lemma forward_qwen_ok:
  assumes ok: "native_inputs_ok V qwen_dims qwen_layer_ok h n ids emb L ps cache nw"
  shows "\<exists>x h'. forward_qwen T N n ids emb L cache s80 ps nw h = Some (x, h') \<and> sizes x = [n, 1024] \<and> dtype x = Float16 \<and>
     (tvals h' x, ctx h') = native_model V W qwen_dims n (tvals h ids) (tvals h ps) (tvals h emb) (tvals h cache)
        (\<lambda>i. qwen_layer_vals h (L i)) (tvals h nw) (ctx h) \<and> frame {} h h'"
  using qwen.nforward_ok [OF ok, of 27] by (simp add: forward_qwen_loop qwen_fields)

lemma qwen_states:
  assumes ok: "native_inputs_ok V qwen_dims qwen_layer_ok h n ids emb L ps cache nw" and i: "i < 28"
  shows "\<exists>st h1 st' h' lv cs s r. first_qwen T N (L 0) ids n emb ps cache h = Some (st, h1) \<and>
     nrun (t_unified_attention_with_output T) (mid_qwen T N) n L ps cache 0 i st h1 = Some (st', h') \<and>
     nat_break V W qwen_dims n h lv cs s r st' h'"
proof -
  obtain st h1 st' h' s r where "first_qwen T N (L 0) ids n emb ps cache h = Some (st, h1)"
    "nrun (t_unified_attention_with_output T) (mid_qwen T N) n L ps cache 0 i st h1 = Some (st', h')"
    "nat_break V W qwen_dims n h (qwen_layer_vals h (L i)) (nrows V n (d_hd qwen_dims) (tvals h ps) (tvals h cache)) s r st' h'"
    using qwen.nstates_ok [OF ok, of i] i by (auto simp: qwen_fields)
  then show ?thesis by blast
qed

end

text \<open>A store of zeros with one storage per entry of a list of element types and shapes.\<close>

definition nat_store :: "(dtype \<times> nat list) list \<Rightarrow> (real, kv_cache) store" where
  "nat_store xs = \<lparr>mem = (\<lambda>a. replicate (prod_list (snd (xs ! a))) 0), nxt = length xs, ctx = (\<lambda>_. ([], []))\<rparr>"

definition nat_t :: "(dtype \<times> nat list) list \<Rightarrow> nat \<Rightarrow> tensor" where
  "nat_t xs a = \<lparr>base = a, offset = 0, dtype = fst (xs ! a), sizes = snd (xs ! a), strides = cstride (snd (xs ! a))\<rparr>"

lemma nat_t_valid: "a < length xs \<Longrightarrow> valid (nat_store xs) (nat_t xs a)"
  by (rule whole_valid) (simp add: whole_def nat_store_def nat_t_def contiguous_def numel_def)

lemma nat_t_ids: "0 < n \<Longrightarrow> ids_in_range (ref_kernels g) (nat_store xs) (nat_t xs a) n"
  by (auto simp: ids_in_range_def ref_kernels_def nat_t_def nat_store_def rd_def pos_def flat_less)

definition llama_ex :: "(dtype \<times> nat list) list" where
  "llama_ex = [(Int32, [1]), (Float16, [128256, 2048]), (Int64, [1]), (Float16, [131072, 64]),
     (Float16, [2048]), (Float16, [2048]), (Float16, [3072, 2048]), (Float16, [2048, 2048]),
     (Float16, [2048]), (Float16, [16384, 2048]), (Float16, [2048, 8192])]"

definition llama_ex_layer :: native_params where
  "llama_ex_layer = \<lparr>n_input_layernorm_weight = nat_t llama_ex 5,
     n_qkv_proj_weight = nat_t llama_ex 6,
     n_o_proj_weight = nat_t llama_ex 7,
     n_post_attention_layernorm_weight = nat_t llama_ex 8,
     n_gate_up_proj_weight = nat_t llama_ex 9,
     n_down_proj_weight = nat_t llama_ex 10\<rparr>"

lemma llama_ex_ok:
  "native_inputs_ok (ref_kernels g) llama_dims llama_layer_ok (nat_store llama_ex) 1 (nat_t llama_ex 0) (nat_t llama_ex 1)
     (\<lambda>_. llama_ex_layer) (nat_t llama_ex 2) (nat_t llama_ex 3) (nat_t llama_ex 4)"
  unfolding native_inputs_ok_def npositions_ok_def llama_layer_ok_def params_ok_def heads_ok_def heads_llama_def weight_ok_def
    llama_sizes llama_fields
  by (simp add: nat_t_valid nat_t_ids llama_ex_layer_def llama_ex_def) (simp add: nat_t_def)

definition qwen_ex :: "(dtype \<times> nat list) list" where
  "qwen_ex = [(Int32, [1]), (Float16, [151936, 1024]), (Int64, [1]), (Float16, [40960, 128]),
     (Float16, [1024]), (Float16, [1024]), (Float16, [4096, 1024]), (Float16, [1024, 2048]),
     (Float16, [1024]), (Float16, [6144, 1024]), (Float16, [1024, 3072]), (Float16, [128]),
     (Float16, [128])]"

definition qwen_ex_layer :: qwen_params where
  "qwen_ex_layer = \<lparr>n_input_layernorm_weight = nat_t qwen_ex 5,
     n_qkv_proj_weight = nat_t qwen_ex 6,
     n_o_proj_weight = nat_t qwen_ex 7,
     n_post_attention_layernorm_weight = nat_t qwen_ex 8,
     n_gate_up_proj_weight = nat_t qwen_ex 9,
     n_down_proj_weight = nat_t qwen_ex 10,
     n_q_norm_weight = nat_t qwen_ex 11,
     n_k_norm_weight = nat_t qwen_ex 12\<rparr>"

lemma qwen_ex_ok:
  "native_inputs_ok (ref_kernels g) qwen_dims qwen_layer_ok (nat_store qwen_ex) 1 (nat_t qwen_ex 0) (nat_t qwen_ex 1)
     (\<lambda>_. qwen_ex_layer) (nat_t qwen_ex 2) (nat_t qwen_ex 3) (nat_t qwen_ex 4)"
  unfolding native_inputs_ok_def npositions_ok_def qwen_layer_ok_def params_ok_def heads_ok_def heads_qwen_def weight_ok_def
    qwen_sizes qwen_fields
  by (simp add: nat_t_valid nat_t_ids qwen_ex_layer_def qwen_ex_def) (simp add: nat_t_def)

text \<open>
  C19. The traced forward of the sample llama cache, on any store and any well-shaped inputs,
  returns without raising; its result has shape (s72, 2048) and holds exactly what the
  16-layer decoder computes, with its half-precision rounding points; the attention state
  ends as the decoder leaves it, and no tensor that existed before the call has changed.
\<close>

theorem forward_llama_is_decoder:
  assumes "native_api T V N W"
    and "native_inputs_ok V llama_dims llama_layer_ok h n ids emb L ps cache nw"
  shows "\<exists>x h'. forward_llama T N n ids emb L cache s80 ps nw h = Some (x, h') \<and> sizes x = [n, 2048] \<and> dtype x = Float16 \<and>
     (tvals h' x, ctx h') = native_model V W llama_dims n (tvals h ids) (tvals h ps) (tvals h emb) (tvals h cache)
        (\<lambda>i. llama_layer_vals h (L i)) (tvals h nw) (ctx h) \<and>
     (\<forall>y. valid h y \<longrightarrow> tvals h' y = tvals h y)"
proof -
  obtain x h' where x: "forward_llama T N n ids emb L cache s80 ps nw h = Some (x, h')" "sizes x = [n, 2048]" "dtype x = Float16"
    "(tvals h' x, ctx h') = native_model V W llama_dims n (tvals h ids) (tvals h ps) (tvals h emb) (tvals h cache)
        (\<lambda>i. llama_layer_vals h (L i)) (tvals h nw) (ctx h)" "frame {} h h'"
    using native_api.forward_llama_ok [OF assms] by blast
  then show ?thesis
    using frame_emptyD(4) [OF x(5)] valid_base by blast
qed

theorem forward_llama_is_decoder_witness:
  "\<exists>x h'. forward_llama (native_torch 7) ref_native 1 (nat_t llama_ex 0) (nat_t llama_ex 1) (\<lambda>_. llama_ex_layer) (nat_t llama_ex 3) 1
     (nat_t llama_ex 2) (nat_t llama_ex 4) (nat_store llama_ex) = Some (x, h') \<and> sizes x = [1, 2048]"
  using forward_llama_is_decoder [OF nref.native_api_axioms [of 7] llama_ex_ok] by blast

text \<open>
  C20. The traced forward of the sample qwen cache, on any store and any well-shaped inputs,
  returns without raising; its result has shape (s72, 1024) and holds exactly what the
  28-layer decoder computes, with its half-precision rounding points; the attention state
  ends as the decoder leaves it, and no tensor that existed before the call has changed.
\<close>

theorem forward_qwen_is_decoder:
  assumes "native_api T V N W"
    and "native_inputs_ok V qwen_dims qwen_layer_ok h n ids emb L ps cache nw"
  shows "\<exists>x h'. forward_qwen T N n ids emb L cache s80 ps nw h = Some (x, h') \<and> sizes x = [n, 1024] \<and> dtype x = Float16 \<and>
     (tvals h' x, ctx h') = native_model V W qwen_dims n (tvals h ids) (tvals h ps) (tvals h emb) (tvals h cache)
        (\<lambda>i. qwen_layer_vals h (L i)) (tvals h nw) (ctx h) \<and>
     (\<forall>y. valid h y \<longrightarrow> tvals h' y = tvals h y)"
proof -
  obtain x h' where x: "forward_qwen T N n ids emb L cache s80 ps nw h = Some (x, h')" "sizes x = [n, 1024]" "dtype x = Float16"
    "(tvals h' x, ctx h') = native_model V W qwen_dims n (tvals h ids) (tvals h ps) (tvals h emb) (tvals h cache)
        (\<lambda>i. qwen_layer_vals h (L i)) (tvals h nw) (ctx h)" "frame {} h h'"
    using native_api.forward_qwen_ok [OF assms] by blast
  then show ?thesis
    using frame_emptyD(4) [OF x(5)] valid_base by blast
qed

theorem forward_qwen_is_decoder_witness:
  "\<exists>x h'. forward_qwen (native_torch 7) ref_native 1 (nat_t qwen_ex 0) (nat_t qwen_ex 1) (\<lambda>_. qwen_ex_layer) (nat_t qwen_ex 3) 1
     (nat_t qwen_ex 2) (nat_t qwen_ex 4) (nat_store qwen_ex) = Some (x, h') \<and> sizes x = [1, 1024]"
  using forward_qwen_is_decoder [OF nref.native_api_axioms [of 7] qwen_ex_ok] by blast

text \<open>
  The unrolled llama graph of 33 submodules is a loop: the first piece, 15 times attention
  followed by one and the same layer function on the weights of layers i and i + 1, the last
  attention and the closing piece. No layer is skipped, repeated, given the weights of
  another layer or the wrong attention name.
\<close>

theorem forward_llama_unrolled_is_loop:
  "forward_llama T N n ids emb L cache s80 ps nw h = do {
     (st, h) \<leftarrow> submod_0_llama T N ids n emb (n_input_layernorm_weight (L 0)) (n_qkv_proj_weight (L 0)) ps cache h;
     ((q, k, v, out, res), h) \<leftarrow> nrun (t_unified_attention_with_output T) (mid_llama T N) n L ps cache 0 15 st h;
     h \<leftarrow> t_unified_attention_with_output T q k v out (''model.layers.'' @ decimal 15 @ ''.self_attn.attn'') h;
     submod_32_llama T N out n (n_o_proj_weight (L 15)) (n_post_attention_layernorm_weight (L 15)) res
       (n_gate_up_proj_weight (L 15)) (n_down_proj_weight (L 15)) nw h}"
  by (simp only: forward_llama_loop layer_name_def nforward_def first_llama_def last_llama_def)

text \<open>
  The unrolled qwen graph of 57 submodules is a loop: the first piece, 27 times attention
  followed by one and the same layer function on the weights of layers i and i + 1, the last
  attention and the closing piece. No layer is skipped, repeated, given the weights of
  another layer or the wrong attention name.
\<close>

theorem forward_qwen_unrolled_is_loop:
  "forward_qwen T N n ids emb L cache s80 ps nw h = do {
     (st, h) \<leftarrow> submod_0_qwen T N ids n emb (n_input_layernorm_weight (L 0)) (n_qkv_proj_weight (L 0)) (n_q_norm_weight (L 0)) (n_k_norm_weight (L 0)) ps cache h;
     ((q, k, v, out, res), h) \<leftarrow> nrun (t_unified_attention_with_output T) (mid_qwen T N) n L ps cache 0 27 st h;
     h \<leftarrow> t_unified_attention_with_output T q k v out (''model.layers.'' @ decimal 27 @ ''.self_attn.attn'') h;
     submod_56_qwen T N out n (n_o_proj_weight (L 27)) (n_post_attention_layernorm_weight (L 27)) res
       (n_gate_up_proj_weight (L 27)) (n_down_proj_weight (L 27)) nw h}"
  by (simp only: forward_qwen_loop layer_name_def nforward_def first_qwen_def last_qwen_def)





end
