(* ===== verification/Artifact_Index.thy ===== *)
theory Artifact_Index
  imports Piecewise
begin

text \<open>
  The indices of the llama and qwen sample caches, vllm_compile_cache.py: Python dictionaries
  from (range of token numbers, piece number, compiler name) to (artifact name, path), in the
  order of the files. Unlike the vLLM sample cache these index one binary artifact per piece.
\<close>

type_synonym artifact_key = "(nat \<times> nat) \<times> nat \<times> string"

definition artifact_index_llama :: "(artifact_key \<times> string \<times> string) list" where
  "artifact_index_llama = [
     (((1, 2048), 0, ''inductor_standalone''),
      (''artifact_compile_range_1_2048_subgraph_0'',
       ''/home/ec2-user/.cache/vllm/torch_compile_cache/edf531ca35/rank_0_0/backbone/artifact_compile_range_1_2048_subgraph_0'')),
     (((1, 2048), 1, ''inductor_standalone''),
      (''artifact_compile_range_1_2048_subgraph_1'',
       ''/home/ec2-user/.cache/vllm/torch_compile_cache/edf531ca35/rank_0_0/backbone/artifact_compile_range_1_2048_subgraph_1'')),
     (((1, 2048), 2, ''inductor_standalone''),
      (''artifact_compile_range_1_2048_subgraph_2'',
       ''/home/ec2-user/.cache/vllm/torch_compile_cache/edf531ca35/rank_0_0/backbone/artifact_compile_range_1_2048_subgraph_2'')),
     (((1, 2048), 3, ''inductor_standalone''),
      (''artifact_compile_range_1_2048_subgraph_3'',
       ''/home/ec2-user/.cache/vllm/torch_compile_cache/edf531ca35/rank_0_0/backbone/artifact_compile_range_1_2048_subgraph_3'')),
     (((1, 2048), 4, ''inductor_standalone''),
      (''artifact_compile_range_1_2048_subgraph_4'',
       ''/home/ec2-user/.cache/vllm/torch_compile_cache/edf531ca35/rank_0_0/backbone/artifact_compile_range_1_2048_subgraph_4'')),
     (((1, 2048), 5, ''inductor_standalone''),
      (''artifact_compile_range_1_2048_subgraph_5'',
       ''/home/ec2-user/.cache/vllm/torch_compile_cache/edf531ca35/rank_0_0/backbone/artifact_compile_range_1_2048_subgraph_5'')),
     (((1, 2048), 6, ''inductor_standalone''),
      (''artifact_compile_range_1_2048_subgraph_6'',
       ''/home/ec2-user/.cache/vllm/torch_compile_cache/edf531ca35/rank_0_0/backbone/artifact_compile_range_1_2048_subgraph_6'')),
     (((1, 2048), 7, ''inductor_standalone''),
      (''artifact_compile_range_1_2048_subgraph_7'',
       ''/home/ec2-user/.cache/vllm/torch_compile_cache/edf531ca35/rank_0_0/backbone/artifact_compile_range_1_2048_subgraph_7'')),
     (((1, 2048), 8, ''inductor_standalone''),
      (''artifact_compile_range_1_2048_subgraph_8'',
       ''/home/ec2-user/.cache/vllm/torch_compile_cache/edf531ca35/rank_0_0/backbone/artifact_compile_range_1_2048_subgraph_8'')),
     (((1, 2048), 9, ''inductor_standalone''),
      (''artifact_compile_range_1_2048_subgraph_9'',
       ''/home/ec2-user/.cache/vllm/torch_compile_cache/edf531ca35/rank_0_0/backbone/artifact_compile_range_1_2048_subgraph_9'')),
     (((1, 2048), 10, ''inductor_standalone''),
      (''artifact_compile_range_1_2048_subgraph_10'',
       ''/home/ec2-user/.cache/vllm/torch_compile_cache/edf531ca35/rank_0_0/backbone/artifact_compile_range_1_2048_subgraph_10'')),
     (((1, 2048), 11, ''inductor_standalone''),
      (''artifact_compile_range_1_2048_subgraph_11'',
       ''/home/ec2-user/.cache/vllm/torch_compile_cache/edf531ca35/rank_0_0/backbone/artifact_compile_range_1_2048_subgraph_11'')),
     (((1, 2048), 12, ''inductor_standalone''),
      (''artifact_compile_range_1_2048_subgraph_12'',
       ''/home/ec2-user/.cache/vllm/torch_compile_cache/edf531ca35/rank_0_0/backbone/artifact_compile_range_1_2048_subgraph_12'')),
     (((1, 2048), 13, ''inductor_standalone''),
      (''artifact_compile_range_1_2048_subgraph_13'',
       ''/home/ec2-user/.cache/vllm/torch_compile_cache/edf531ca35/rank_0_0/backbone/artifact_compile_range_1_2048_subgraph_13'')),
     (((1, 2048), 14, ''inductor_standalone''),
      (''artifact_compile_range_1_2048_subgraph_14'',
       ''/home/ec2-user/.cache/vllm/torch_compile_cache/edf531ca35/rank_0_0/backbone/artifact_compile_range_1_2048_subgraph_14'')),
     (((1, 2048), 15, ''inductor_standalone''),
      (''artifact_compile_range_1_2048_subgraph_15'',
       ''/home/ec2-user/.cache/vllm/torch_compile_cache/edf531ca35/rank_0_0/backbone/artifact_compile_range_1_2048_subgraph_15'')),
     (((1, 2048), 16, ''inductor_standalone''),
      (''artifact_compile_range_1_2048_subgraph_16'',
       ''/home/ec2-user/.cache/vllm/torch_compile_cache/edf531ca35/rank_0_0/backbone/artifact_compile_range_1_2048_subgraph_16''))]"

definition artifact_index_qwen :: "(artifact_key \<times> string \<times> string) list" where
  "artifact_index_qwen = [
     (((1, 2048), 0, ''inductor_standalone''),
      (''artifact_compile_range_1_2048_subgraph_0'',
       ''/home/ec2-user/.cache/vllm/torch_compile_cache/4bce7ae4f8/rank_0_0/backbone/artifact_compile_range_1_2048_subgraph_0'')),
     (((1, 2048), 1, ''inductor_standalone''),
      (''artifact_compile_range_1_2048_subgraph_1'',
       ''/home/ec2-user/.cache/vllm/torch_compile_cache/4bce7ae4f8/rank_0_0/backbone/artifact_compile_range_1_2048_subgraph_1'')),
     (((1, 2048), 2, ''inductor_standalone''),
      (''artifact_compile_range_1_2048_subgraph_2'',
       ''/home/ec2-user/.cache/vllm/torch_compile_cache/4bce7ae4f8/rank_0_0/backbone/artifact_compile_range_1_2048_subgraph_2'')),
     (((1, 2048), 3, ''inductor_standalone''),
      (''artifact_compile_range_1_2048_subgraph_3'',
       ''/home/ec2-user/.cache/vllm/torch_compile_cache/4bce7ae4f8/rank_0_0/backbone/artifact_compile_range_1_2048_subgraph_3'')),
     (((1, 2048), 4, ''inductor_standalone''),
      (''artifact_compile_range_1_2048_subgraph_4'',
       ''/home/ec2-user/.cache/vllm/torch_compile_cache/4bce7ae4f8/rank_0_0/backbone/artifact_compile_range_1_2048_subgraph_4'')),
     (((1, 2048), 5, ''inductor_standalone''),
      (''artifact_compile_range_1_2048_subgraph_5'',
       ''/home/ec2-user/.cache/vllm/torch_compile_cache/4bce7ae4f8/rank_0_0/backbone/artifact_compile_range_1_2048_subgraph_5'')),
     (((1, 2048), 6, ''inductor_standalone''),
      (''artifact_compile_range_1_2048_subgraph_6'',
       ''/home/ec2-user/.cache/vllm/torch_compile_cache/4bce7ae4f8/rank_0_0/backbone/artifact_compile_range_1_2048_subgraph_6'')),
     (((1, 2048), 7, ''inductor_standalone''),
      (''artifact_compile_range_1_2048_subgraph_7'',
       ''/home/ec2-user/.cache/vllm/torch_compile_cache/4bce7ae4f8/rank_0_0/backbone/artifact_compile_range_1_2048_subgraph_7'')),
     (((1, 2048), 8, ''inductor_standalone''),
      (''artifact_compile_range_1_2048_subgraph_8'',
       ''/home/ec2-user/.cache/vllm/torch_compile_cache/4bce7ae4f8/rank_0_0/backbone/artifact_compile_range_1_2048_subgraph_8'')),
     (((1, 2048), 9, ''inductor_standalone''),
      (''artifact_compile_range_1_2048_subgraph_9'',
       ''/home/ec2-user/.cache/vllm/torch_compile_cache/4bce7ae4f8/rank_0_0/backbone/artifact_compile_range_1_2048_subgraph_9'')),
     (((1, 2048), 10, ''inductor_standalone''),
      (''artifact_compile_range_1_2048_subgraph_10'',
       ''/home/ec2-user/.cache/vllm/torch_compile_cache/4bce7ae4f8/rank_0_0/backbone/artifact_compile_range_1_2048_subgraph_10'')),
     (((1, 2048), 11, ''inductor_standalone''),
      (''artifact_compile_range_1_2048_subgraph_11'',
       ''/home/ec2-user/.cache/vllm/torch_compile_cache/4bce7ae4f8/rank_0_0/backbone/artifact_compile_range_1_2048_subgraph_11'')),
     (((1, 2048), 12, ''inductor_standalone''),
      (''artifact_compile_range_1_2048_subgraph_12'',
       ''/home/ec2-user/.cache/vllm/torch_compile_cache/4bce7ae4f8/rank_0_0/backbone/artifact_compile_range_1_2048_subgraph_12'')),
     (((1, 2048), 13, ''inductor_standalone''),
      (''artifact_compile_range_1_2048_subgraph_13'',
       ''/home/ec2-user/.cache/vllm/torch_compile_cache/4bce7ae4f8/rank_0_0/backbone/artifact_compile_range_1_2048_subgraph_13'')),
     (((1, 2048), 14, ''inductor_standalone''),
      (''artifact_compile_range_1_2048_subgraph_14'',
       ''/home/ec2-user/.cache/vllm/torch_compile_cache/4bce7ae4f8/rank_0_0/backbone/artifact_compile_range_1_2048_subgraph_14'')),
     (((1, 2048), 15, ''inductor_standalone''),
      (''artifact_compile_range_1_2048_subgraph_15'',
       ''/home/ec2-user/.cache/vllm/torch_compile_cache/4bce7ae4f8/rank_0_0/backbone/artifact_compile_range_1_2048_subgraph_15'')),
     (((1, 2048), 16, ''inductor_standalone''),
      (''artifact_compile_range_1_2048_subgraph_16'',
       ''/home/ec2-user/.cache/vllm/torch_compile_cache/4bce7ae4f8/rank_0_0/backbone/artifact_compile_range_1_2048_subgraph_16'')),
     (((1, 2048), 17, ''inductor_standalone''),
      (''artifact_compile_range_1_2048_subgraph_17'',
       ''/home/ec2-user/.cache/vllm/torch_compile_cache/4bce7ae4f8/rank_0_0/backbone/artifact_compile_range_1_2048_subgraph_17'')),
     (((1, 2048), 18, ''inductor_standalone''),
      (''artifact_compile_range_1_2048_subgraph_18'',
       ''/home/ec2-user/.cache/vllm/torch_compile_cache/4bce7ae4f8/rank_0_0/backbone/artifact_compile_range_1_2048_subgraph_18'')),
     (((1, 2048), 19, ''inductor_standalone''),
      (''artifact_compile_range_1_2048_subgraph_19'',
       ''/home/ec2-user/.cache/vllm/torch_compile_cache/4bce7ae4f8/rank_0_0/backbone/artifact_compile_range_1_2048_subgraph_19'')),
     (((1, 2048), 20, ''inductor_standalone''),
      (''artifact_compile_range_1_2048_subgraph_20'',
       ''/home/ec2-user/.cache/vllm/torch_compile_cache/4bce7ae4f8/rank_0_0/backbone/artifact_compile_range_1_2048_subgraph_20'')),
     (((1, 2048), 21, ''inductor_standalone''),
      (''artifact_compile_range_1_2048_subgraph_21'',
       ''/home/ec2-user/.cache/vllm/torch_compile_cache/4bce7ae4f8/rank_0_0/backbone/artifact_compile_range_1_2048_subgraph_21'')),
     (((1, 2048), 22, ''inductor_standalone''),
      (''artifact_compile_range_1_2048_subgraph_22'',
       ''/home/ec2-user/.cache/vllm/torch_compile_cache/4bce7ae4f8/rank_0_0/backbone/artifact_compile_range_1_2048_subgraph_22'')),
     (((1, 2048), 23, ''inductor_standalone''),
      (''artifact_compile_range_1_2048_subgraph_23'',
       ''/home/ec2-user/.cache/vllm/torch_compile_cache/4bce7ae4f8/rank_0_0/backbone/artifact_compile_range_1_2048_subgraph_23'')),
     (((1, 2048), 24, ''inductor_standalone''),
      (''artifact_compile_range_1_2048_subgraph_24'',
       ''/home/ec2-user/.cache/vllm/torch_compile_cache/4bce7ae4f8/rank_0_0/backbone/artifact_compile_range_1_2048_subgraph_24'')),
     (((1, 2048), 25, ''inductor_standalone''),
      (''artifact_compile_range_1_2048_subgraph_25'',
       ''/home/ec2-user/.cache/vllm/torch_compile_cache/4bce7ae4f8/rank_0_0/backbone/artifact_compile_range_1_2048_subgraph_25'')),
     (((1, 2048), 26, ''inductor_standalone''),
      (''artifact_compile_range_1_2048_subgraph_26'',
       ''/home/ec2-user/.cache/vllm/torch_compile_cache/4bce7ae4f8/rank_0_0/backbone/artifact_compile_range_1_2048_subgraph_26'')),
     (((1, 2048), 27, ''inductor_standalone''),
      (''artifact_compile_range_1_2048_subgraph_27'',
       ''/home/ec2-user/.cache/vllm/torch_compile_cache/4bce7ae4f8/rank_0_0/backbone/artifact_compile_range_1_2048_subgraph_27'')),
     (((1, 2048), 28, ''inductor_standalone''),
      (''artifact_compile_range_1_2048_subgraph_28'',
       ''/home/ec2-user/.cache/vllm/torch_compile_cache/4bce7ae4f8/rank_0_0/backbone/artifact_compile_range_1_2048_subgraph_28''))]"

definition artifact_name :: "nat \<Rightarrow> string" where
  "artifact_name i = ''artifact_compile_range_1_2048_subgraph_'' @ decimal i"

definition indexes :: "(artifact_key \<times> string \<times> string) list \<Rightarrow> nat \<Rightarrow> string \<Rightarrow> bool" where
  "indexes xs n dir \<longleftrightarrow> xs = map (\<lambda>i. (((1, 2048), i, ''inductor_standalone''), artifact_name i, dir @ artifact_name i)) [0..<n]"

lemma indexes_llama:
  "indexes artifact_index_llama 17 ''/home/ec2-user/.cache/vllm/torch_compile_cache/edf531ca35/rank_0_0/backbone/''"
  by (simp add: indexes_def artifact_index_llama_def artifact_name_def upt_conv_Cons decimal.simps digit_def)

lemma indexes_qwen:
  "indexes artifact_index_qwen 29 ''/home/ec2-user/.cache/vllm/torch_compile_cache/4bce7ae4f8/rank_0_0/backbone/''"
  by (simp add: indexes_def artifact_index_qwen_def artifact_name_def upt_conv_Cons decimal.simps digit_def)

lemma map_of_indexes:
  assumes "indexes xs n dir"
  shows "map_of xs (r, i, c) =
    (if r = (1, 2048) \<and> i < n \<and> c = ''inductor_standalone'' then Some (artifact_name i, dir @ artifact_name i) else None)"
proof -
  have "map_of (map (\<lambda>i. (((1, 2048), i, ''inductor_standalone''), artifact_name i, dir @ artifact_name i)) js) (r, i, c) =
    (if r = (1, 2048) \<and> i \<in> set js \<and> c = ''inductor_standalone'' then Some (artifact_name i, dir @ artifact_name i) else None)" for js
    by (induction js) auto
  from this [of "[0..<n]"] show ?thesis
    using assms by (simp add: indexes_def)
qed

lemma decimal_val: "foldl (\<lambda>a c. 10 * a + (of_char c - 48 :: nat)) 0 (decimal n) = n"
proof (induction n rule: decimal.induct)
  case (1 n)
  have d: "of_char (digit k) = (48 + k :: nat)" if "k < 10" for k
  proof -
    have "k = 0 \<or> k = 1 \<or> k = 2 \<or> k = 3 \<or> k = 4 \<or> k = 5 \<or> k = 6 \<or> k = 7 \<or> k = 8 \<or> k = 9"
      using that by presburger
    then show ?thesis by (elim disjE) (simp_all add: digit_def)
  qed
  show ?case
  proof (cases "n < 10")
    case True
    then have "decimal n = [digit n]" by (simp add: decimal.simps [of n])
    then show ?thesis using d [OF True] by simp
  next
    case False
    then have "decimal n = decimal (n div 10) @ [digit (n mod 10)]" by (simp add: decimal.simps [of n])
    then show ?thesis using 1 [OF False] d [of "n mod 10"] by simp
  qed
qed

lemma decimal_inject [simp]: "decimal m = decimal n \<longleftrightarrow> m = n"
  by (metis decimal_val)

text \<open>
  The two indices are complete for their graphs and consistent: piece i resolves exactly
  for the 17 (llama, 16 layers) and 29 (qwen, 28 layers) even submodules of the graph, only
  for the range of 1 to 2048 tokens and the stand-alone compiler, to the artifact of that
  number below the directory of the cache, and no artifact serves two pieces.
\<close>

theorem artifact_indices_complete:
  "map_of artifact_index_llama (r, i, c) =
     (if r = (1, 2048) \<and> i < 17 \<and> c = ''inductor_standalone''
      then Some (artifact_name i, ''/home/ec2-user/.cache/vllm/torch_compile_cache/edf531ca35/rank_0_0/backbone/'' @ artifact_name i) else None) \<and>
   map_of artifact_index_qwen (r, i, c) =
     (if r = (1, 2048) \<and> i < 29 \<and> c = ''inductor_standalone''
      then Some (artifact_name i, ''/home/ec2-user/.cache/vllm/torch_compile_cache/4bce7ae4f8/rank_0_0/backbone/'' @ artifact_name i) else None) \<and>
   inj artifact_name"
  by (simp add: map_of_indexes [OF indexes_llama] map_of_indexes [OF indexes_qwen] inj_def artifact_name_def)

end
