(* ===== verification/Py_Object.thy ===== *)
theory Py_Object
  imports Main
begin

text \<open>
  Straight-line Python: the statements of a function without branches, on an arbitrary
  runtime. None, integers, strings and tuples are Python's; every other object, and what
  its attributes, calls and iteration do (with the exceptions they raise), belongs to the
  runtime. The second half is the definite-assignment analysis of such functions.
\<close>

datatype var = Tmp int | Temp int | Param string | Glob string

datatype 'o val = VNone | VInt int | VStr string | VTuple "'o val list" | VObj 'o

datatype 'o expr = Nm var | Lit "'o val" | Attr "'o expr" string | Call "'o expr" "'o expr list"

datatype 'o stmt = Assign var "'o expr" | Unpack var "'o expr"

text \<open>\<open>Unpack x e\<close> is the statement \<open>x, = e\<close>; \<open>Raised\<close> is an exception out of the runtime.\<close>

datatype ('o, 'e) exc =
  Attribute_error "'o val" string
| Not_callable "'o val"
| Not_iterable "'o val"
| Bad_unpack nat
| Name_error string
| Unbound_local var
| Raised 'e

record ('o, 'e, 'w) runtime =
  rt_globals :: "string \<Rightarrow> 'o val option"
  rt_attr :: "'o \<Rightarrow> string \<Rightarrow> 'w \<Rightarrow> ('e + 'o val) \<times> 'w"
  rt_call :: "'o \<Rightarrow> 'o val list \<Rightarrow> 'w \<Rightarrow> ('e + 'o val) \<times> 'w"
  rt_iter :: "'o \<Rightarrow> 'w \<Rightarrow> ('e + 'o val list) \<times> 'w"

type_synonym 'o locals = "var \<Rightarrow> 'o val option"

fun raised :: "('e + 'a) \<times> 'w \<Rightarrow> (('o, 'e) exc + 'a) \<times> 'w" where
  "raised (Inl e, w) = (Inl (Raised e), w)"
| "raised (Inr x, w) = (Inr x, w)"

text \<open>
  Attribute access and calls. The built-in values have no attribute that such a function
  asks them for (all its attribute names are those of torch modules and of torch itself).
\<close>

fun py_attr :: "('o, 'e, 'w) runtime \<Rightarrow> 'o val \<Rightarrow> string \<Rightarrow> 'w \<Rightarrow> (('o, 'e) exc + 'o val) \<times> 'w" where
  "py_attr R (VObj x) a w = raised (rt_attr R x a w)"
| "py_attr R v a w = (Inl (Attribute_error v a), w)"

fun py_call :: "('o, 'e, 'w) runtime \<Rightarrow> 'o val \<Rightarrow> 'o val list \<Rightarrow> 'w \<Rightarrow> (('o, 'e) exc + 'o val) \<times> 'w" where
  "py_call R (VObj x) vs w = raised (rt_call R x vs w)"
| "py_call R v vs w = (Inl (Not_callable v), w)"

fun py_iter :: "('o, 'e, 'w) runtime \<Rightarrow> 'o val \<Rightarrow> 'w \<Rightarrow> (('o, 'e) exc + 'o val list) \<times> 'w" where
  "py_iter R (VObj x) w = raised (rt_iter R x w)"
| "py_iter R (VTuple vs) w = (Inr vs, w)"
| "py_iter R (VStr s) w = (Inr (map (\<lambda>c. VStr [c]) s), w)"
| "py_iter R v w = (Inl (Not_iterable v), w)"

fun py_name :: "('o, 'e, 'w) runtime \<Rightarrow> 'o locals \<Rightarrow> var \<Rightarrow> ('o, 'e) exc + 'o val" where
  "py_name R l (Glob g) = (case rt_globals R g of None \<Rightarrow> Inl (Name_error g) | Some v \<Rightarrow> Inr v)"
| "py_name R l x = (case l x of None \<Rightarrow> Inl (Unbound_local x) | Some v \<Rightarrow> Inr v)"

fun eval :: "('o, 'e, 'w) runtime \<Rightarrow> 'o locals \<Rightarrow> 'o expr \<Rightarrow> 'w \<Rightarrow> (('o, 'e) exc + 'o val) \<times> 'w"
  and evals :: "('o, 'e, 'w) runtime \<Rightarrow> 'o locals \<Rightarrow> 'o expr list \<Rightarrow> 'w \<Rightarrow> (('o, 'e) exc + 'o val list) \<times> 'w" where
  "eval R l (Nm x) w = (py_name R l x, w)"
| "eval R l (Lit v) w = (Inr v, w)"
| "eval R l (Attr e a) w = (case eval R l e w of
     (Inl x, w) \<Rightarrow> (Inl x, w) | (Inr v, w) \<Rightarrow> py_attr R v a w)"
| "eval R l (Call f es) w = (case eval R l f w of
     (Inl x, w) \<Rightarrow> (Inl x, w)
   | (Inr v, w) \<Rightarrow> (case evals R l es w of
        (Inl x, w) \<Rightarrow> (Inl x, w) | (Inr vs, w) \<Rightarrow> py_call R v vs w))"
| "evals R l [] w = (Inr [], w)"
| "evals R l (e # es) w = (case eval R l e w of
     (Inl x, w) \<Rightarrow> (Inl x, w)
   | (Inr v, w) \<Rightarrow> (case evals R l es w of
        (Inl x, w) \<Rightarrow> (Inl x, w) | (Inr vs, w) \<Rightarrow> (Inr (v # vs), w)))"

fun exec :: "('o, 'e, 'w) runtime \<Rightarrow> 'o stmt \<Rightarrow> 'o locals \<Rightarrow> 'w \<Rightarrow> (('o, 'e) exc + 'o locals) \<times> 'w" where
  "exec R (Assign x e) l w = (case eval R l e w of
     (Inl y, w) \<Rightarrow> (Inl y, w) | (Inr v, w) \<Rightarrow> (Inr (l(x \<mapsto> v)), w))"
| "exec R (Unpack x e) l w = (case eval R l e w of
     (Inl y, w) \<Rightarrow> (Inl y, w)
   | (Inr v, w) \<Rightarrow> (case py_iter R v w of
        (Inl y, w) \<Rightarrow> (Inl y, w)
      | (Inr vs, w) \<Rightarrow> (case vs of [u] \<Rightarrow> (Inr (l(x \<mapsto> u)), w) | _ \<Rightarrow> (Inl (Bad_unpack (length vs)), w))))"

fun run :: "('o, 'e, 'w) runtime \<Rightarrow> 'o stmt list \<Rightarrow> 'o locals \<Rightarrow> 'w \<Rightarrow> (('o, 'e) exc + 'o locals) \<times> 'w" where
  "run R [] l w = (Inr l, w)"
| "run R (s # ss) l w = (case exec R s l w of
     (Inl x, w) \<Rightarrow> (Inl x, w) | (Inr l, w) \<Rightarrow> run R ss l w)"

lemma run_append:
  "run R (ss @ ts) l w = (case run R ss l w of (Inl x, w) \<Rightarrow> (Inl x, w) | (Inr l, w) \<Rightarrow> run R ts l w)"
  by (induction ss arbitrary: l w) (auto split: prod.splits sum.splits)

fun target :: "'o stmt \<Rightarrow> var" where
  "target (Assign x e) = x"
| "target (Unpack x e) = x"

fun rhs :: "'o stmt \<Rightarrow> 'o expr" where
  "rhs (Assign x e) = e"
| "rhs (Unpack x e) = e"

fun names :: "'o expr \<Rightarrow> var list" where
  "names (Nm x) = [x]"
| "names (Lit v) = []"
| "names (Attr e a) = names e"
| "names (Call f es) = names f @ concat (map names es)"

text \<open>
  Definite and single assignment: every name is assigned before it is read, and once. The analysed functions number their temporaries in the order of
  assignment, so the set of assigned names is a number n (\<open>Tmp i\<close> for 0 \<le> i < n) and the list of
  the other names.
\<close>

fun known :: "int \<times> var list \<Rightarrow> var \<Rightarrow> bool" where
  "known (n, xs) (Tmp i) \<longleftrightarrow> 0 \<le> i \<and> i < n"
| "known (n, xs) (Glob g) \<longleftrightarrow> True"
| "known (n, xs) x \<longleftrightarrow> x \<in> set xs"

fun assigned :: "int \<times> var list \<Rightarrow> 'o stmt list \<Rightarrow> (int \<times> var list) option" where
  "assigned a [] = Some a"
| "assigned (n, xs) (s # ss) =
     (if list_all (known (n, xs)) (names (rhs s)) then
        (case target s of
           Tmp i \<Rightarrow> if i = n \<and> 0 \<le> n then assigned (n + 1, xs) ss else None
         | x \<Rightarrow> if known (n, xs) x then None else assigned (n, x # xs) ss)
      else None)"

definition covers :: "int \<times> var list \<Rightarrow> 'o locals \<Rightarrow> bool" where
  "covers a l \<longleftrightarrow> (\<forall>x. known a x \<longrightarrow> (\<forall>g. x \<noteq> Glob g) \<longrightarrow> l x \<noteq> None)"

lemma py_name_known: "covers a l \<Longrightarrow> known a x \<Longrightarrow> py_name R l x \<noteq> Inl (Unbound_local y)"
  by (cases x) (auto simp: covers_def split: option.splits)

lemma raised_bound: "fst (raised r) \<noteq> Inl (Unbound_local y)"
  by (cases r rule: raised.cases) auto

lemma py_attr_bound: "fst (py_attr R v a w) \<noteq> Inl (Unbound_local y)"
  by (cases v) (auto simp: raised_bound)

lemma py_call_bound: "fst (py_call R v vs w) \<noteq> Inl (Unbound_local y)"
  by (cases v) (auto simp: raised_bound)

lemma py_iter_bound: "fst (py_iter R v w) \<noteq> Inl (Unbound_local y)"
  by (cases v) (auto simp: raised_bound)

lemma eval_bound:
  "covers a l \<Longrightarrow> list_all (known a) (names e) \<Longrightarrow> fst (eval R l e w) \<noteq> Inl (Unbound_local y)"
  "covers a l \<Longrightarrow> list_all (known a) (concat (map names es)) \<Longrightarrow> fst (evals R l es w) \<noteq> Inl (Unbound_local y)"
  by (induction R l e w and R l es w rule: eval_evals.induct)
    (auto simp: py_name_known py_attr_bound py_call_bound split: prod.splits sum.splits)

definition objects :: "int \<times> var list \<Rightarrow> 'o locals \<Rightarrow> bool" where
  "objects a l \<longleftrightarrow> (\<forall>x. known a x \<longrightarrow> (\<forall>g. x \<noteq> Glob g) \<longrightarrow> (\<exists>u. l x = Some (VObj u)))"

lemma known_Glob [simp]: "known a (Glob g)"
  by (cases a) simp

lemma known_extended:
  "0 \<le> n \<Longrightarrow> known (n + 1, xs) y \<longleftrightarrow> y = Tmp n \<or> known (n, xs) y"
  "known (n, Temp i # xs) y \<longleftrightarrow> y = Temp i \<or> known (n, xs) y"
  "known (n, Param p # xs) y \<longleftrightarrow> y = Param p \<or> known (n, xs) y"
  by (cases y; auto)+

lemma assigned_step:
  assumes "assigned a (s # ss) = Some b"
  obtains a' where "list_all (known a) (names (rhs s))" "assigned a' ss = Some b"
    and "\<And>l v. covers a l \<Longrightarrow> covers a' (l(target s \<mapsto> v))"
    and "\<And>l u. objects a l \<Longrightarrow> objects a' (l(target s \<mapsto> VObj u))"
    and "\<not> known a (target s)" "known a' (target s)" "\<And>y. known a y \<Longrightarrow> known a' y"
proof (cases a)
  case (Pair n xs)
  note result = that
  have k: "list_all (known a) (names (rhs s))" using assms Pair by (auto split: if_splits)
  have step: ?thesis if s: "assigned a' ss = Some b" and n: "\<not> known a (target s)"
    and t: "\<And>y. known a' y \<longleftrightarrow> y = target s \<or> known a y" for a'
  proof (rule result [OF k s])
    show "covers a' (l(target s \<mapsto> v))" if "covers a l" for l v
      using \<open>covers a l\<close> t unfolding covers_def by (metis fun_upd_apply option.distinct(1))
    show "objects a' (l(target s \<mapsto> VObj u))" if "objects a l" for l u
      using \<open>objects a l\<close> t unfolding objects_def by (metis fun_upd_apply)
  qed (use n t in auto)
  show ?thesis
  proof (cases "target s")
    case (Tmp i)
    then have "assigned (n + 1, xs) ss = Some b" "i = n" "0 \<le> n" using assms Pair by (auto split: if_splits)
    then show ?thesis using step [of "(n + 1, xs)"] Pair Tmp by (auto simp: known_extended)
  next
    case (Temp i)
    then have "assigned (n, Temp i # xs) ss = Some b" "\<not> known (n, xs) (Temp i)" using assms Pair by (auto split: if_splits)
    then show ?thesis using step [of "(n, Temp i # xs)"] Pair Temp by (auto simp: known_extended)
  next
    case (Param i)
    then have "assigned (n, Param i # xs) ss = Some b" "\<not> known (n, xs) (Param i)" using assms Pair by (auto split: if_splits)
    then show ?thesis using step [of "(n, Param i # xs)"] Pair Param by (auto simp: known_extended)
  next
    case (Glob g)
    then show ?thesis using assms Pair by (auto split: if_splits)
  qed
qed

text \<open>Soundness: an accepted function never reads a local before its assignment.\<close>

lemma exec_bound:
  assumes "covers a l" "list_all (known a) (names (rhs s))"
  shows "fst (exec R s l w) \<noteq> Inl (Unbound_local y)"
proof -
  have "fst (eval R l (rhs s) w) \<noteq> Inl (Unbound_local y)" by (rule eval_bound(1) [OF assms])
  then show ?thesis
    using py_iter_bound [of R _ _ y]
    by (cases s) (auto split: prod.splits sum.splits list.splits, metis fst_conv)
qed

lemma exec_updates: "exec R s l w = (Inr l', w') \<Longrightarrow> \<exists>v. l' = l(target s \<mapsto> v)"
  by (cases s) (auto split: prod.splits sum.splits list.splits)

lemma assigned_run:
  "assigned a ss = Some b \<Longrightarrow> covers a l \<Longrightarrow>
   fst (run R ss l w) \<noteq> Inl (Unbound_local y) \<and> (\<forall>l' w'. run R ss l w = (Inr l', w') \<longrightarrow> covers b l')"
proof (induction ss arbitrary: a l w)
  case Nil
  then show ?case by simp
next
  case (Cons s ss)
  obtain a' where k: "list_all (known a) (names (rhs s))" and a': "assigned a' ss = Some b"
    and c: "\<And>v. covers a' (l(target s \<mapsto> v))"
    using assigned_step [OF Cons.prems(1)] Cons.prems(2) by metis
  obtain r w1 where r: "exec R s l w = (r, w1)" by fastforce
  show ?case
  proof (cases r)
    case (Inl x)
    then show ?thesis using exec_bound [OF Cons.prems(2) k, of R w y] r by auto
  next
    case (Inr l1)
    then obtain v where "l1 = l(target s \<mapsto> v)" using exec_updates r by metis
    then show ?thesis using Cons.IH [OF a' c, of v w1] r Inr by (simp del: fun_upd_apply)
  qed
qed

lemma assigned_append:
  "assigned a (ss @ ts) = (case assigned a ss of None \<Rightarrow> None | Some b \<Rightarrow> assigned b ts)"
  by (induction a ss rule: assigned.induct) (auto split: var.splits)

lemma assigned_last:
  "list_all (known a) (names e) \<Longrightarrow> \<not> known a (Temp t) \<Longrightarrow> assigned a [Unpack (Temp t) e] = Some (fst a, Temp t # snd a)"
  by (cases a) simp

lemma assigned_fresh: "assigned a ss = Some b \<Longrightarrow> s \<in> set ss \<Longrightarrow> \<not> known a (target s)"
proof (induction ss arbitrary: a)
  case (Cons t ss)
  show ?case using assigned_step [OF Cons.prems(1)] Cons.IH Cons.prems(2) by (metis set_ConsD)
qed simp

lemma run_keeps:
  "run R ss l w = (Inr l', w') \<Longrightarrow> \<forall>s \<in> set ss. target s \<noteq> x \<Longrightarrow> l' x = l x"
  by (induction ss arbitrary: l w) (auto dest!: exec_updates split: prod.splits sum.splits)

text \<open>
  After an accepted function has run, its assignments hold as equations: each name still has
  the value its right-hand side had, and so have the names the right-hand side read.
\<close>

lemma run_equation:
  assumes "assigned a ss = Some b" "run R ss l w = (Inr l', w')" "Assign x e \<in> set ss"
  shows "\<exists>l1 w1 v w2. eval R l1 e w1 = (Inr v, w2) \<and> l' x = Some v \<and> (\<forall>y \<in> set (names e). (\<forall>g. y \<noteq> Glob g) \<longrightarrow> l' y = l1 y)"
  using assms
proof (induction ss arbitrary: a l w)
  case (Cons s ss)
  obtain a' where k: "list_all (known a) (names (rhs s))" and a': "assigned a' ss = Some b"
    and t: "known a' (target s)" "\<And>y. known a y \<Longrightarrow> known a' y" "\<not> known a (target s)"
    using assigned_step [OF Cons.prems(1)] by metis
  obtain l1 w1 where l1: "exec R s l w = (Inr l1, w1)" "run R ss l1 w1 = (Inr l', w')"
    using Cons.prems(2) by (auto split: prod.splits sum.splits)
  show ?case
  proof (cases "s = Assign x e")
    case True
    then obtain v where v: "eval R l e w = (Inr v, w1)" "l1 = l(x \<mapsto> v)"
      using l1(1) by (auto split: prod.splits sum.splits)
    have keep: "l' y = l1 y" if "known a' y" for y
      using run_keeps [OF l1(2)] assigned_fresh [OF a'] that by metis
    have "l' y = l y" if "y \<in> set (names e)" for y
      using that keep [of y] k t True v(2) by (auto simp: list_all_iff)
    moreover have "l' x = Some v" using keep [of x] t True v(2) by simp
    ultimately show ?thesis using v(1) by blast
  next
    case False
    then show ?thesis using Cons.IH [OF a' l1(2)] Cons.prems(3) by simp
  qed
qed simp

lemma run_alias:
  assumes "assigned a ss = Some b" "run R ss l w = (Inr l', w')" "Assign x (Nm y) \<in> set ss" "\<forall>g. y \<noteq> Glob g"
  shows "l' x = l' y"
  using run_equation [OF assms(1-3)] assms(4) by (cases y) (auto split: option.splits)

text \<open>
  Progress: where every attribute, call and iteration of the runtime succeeds with objects,
  an accepted function whose operands are objects runs to its end.
\<close>

fun plain :: "'o expr \<Rightarrow> bool" where
  "plain (Nm x) \<longleftrightarrow> True"
| "plain (Lit v) \<longleftrightarrow> False"
| "plain (Attr e a) \<longleftrightarrow> plain e"
| "plain (Call f es) \<longleftrightarrow> plain f \<and> (\<forall>e \<in> set es. (case e of Lit v \<Rightarrow> True | _ \<Rightarrow> plain e))"

fun plain_stmt :: "'o stmt \<Rightarrow> bool" where
  "plain_stmt (Assign x e) \<longleftrightarrow> plain e \<or> (\<exists>u. e = Lit (VObj u))"
| "plain_stmt (Unpack x e) \<longleftrightarrow> plain e"

definition obliging :: "('o, 'e, 'w) runtime \<Rightarrow> bool" where
  "obliging R \<longleftrightarrow> (\<forall>g. \<exists>u. rt_globals R g = Some (VObj u)) \<and>
     (\<forall>x a w. \<exists>u w'. rt_attr R x a w = (Inr (VObj u), w')) \<and>
     (\<forall>x vs w. \<exists>u w'. rt_call R x vs w = (Inr (VObj u), w')) \<and>
     (\<forall>x w. \<exists>u w'. rt_iter R x w = (Inr [VObj u], w'))"

lemma object_results:
  assumes "obliging R"
  shows "objects a l \<Longrightarrow> known a x \<Longrightarrow> \<exists>u. py_name R l x = Inr (VObj u)"
    and "\<exists>u' w'. py_attr R (VObj u) b w = (Inr (VObj u'), w')"
    and "\<exists>u' w'. py_call R (VObj u) vs w = (Inr (VObj u'), w')"
    and "\<exists>u' w'. py_iter R (VObj u) w = (Inr [VObj u'], w')"
proof -
  show "\<exists>u. py_name R l x = Inr (VObj u)" if o: "objects a l" and k: "known a x"
  proof (cases "\<exists>g. x = Glob g")
    case True
    then obtain g where g: "x = Glob g" ..
    obtain u where "rt_globals R g = Some (VObj u)" using assms unfolding obliging_def by blast
    with g show ?thesis by simp
  next
    case False
    then obtain u where "l x = Some (VObj u)" using o k unfolding objects_def by blast
    with False show ?thesis by (cases x) auto
  qed
  show "\<exists>u' w'. py_attr R (VObj u) b w = (Inr (VObj u'), w')"
    using assms by (auto simp: obliging_def) (metis raised.simps(2))
  show "\<exists>u' w'. py_call R (VObj u) vs w = (Inr (VObj u'), w')"
    using assms by (auto simp: obliging_def) (metis raised.simps(2))
  show "\<exists>u' w'. py_iter R (VObj u) w = (Inr [VObj u'], w')"
    using assms by (auto simp: obliging_def) (metis raised.simps(2))
qed

lemma eval_progress:
  "obliging R \<Longrightarrow> objects a l \<Longrightarrow> list_all (known a) (names e) \<Longrightarrow> plain e \<Longrightarrow> \<exists>u w'. eval R l e w = (Inr (VObj u), w')"
  "obliging R \<Longrightarrow> objects a l \<Longrightarrow> list_all (known a) (concat (map names es)) \<Longrightarrow>
    \<forall>e \<in> set es. (case e of Lit v \<Rightarrow> True | _ \<Rightarrow> plain e) \<Longrightarrow> \<exists>vs w'. evals R l es w = (Inr vs, w')"
proof (induction R l e w and R l es w rule: eval_evals.induct)
  case (1 R l x w)
  then show ?case using object_results(1) [of R a l x] by auto
next
  case (3 R l e b w)
  then obtain u w' where "eval R l e w = (Inr (VObj u), w')" by auto
  then show ?case using object_results(2) [OF 3(2)] by (simp del: py_attr.simps)
next
  case (4 R l f es w)
  then obtain u w' where f: "eval R l f w = (Inr (VObj u), w')" by auto
  moreover from this 4 obtain vs w'' where "evals R l es w' = (Inr vs, w'')" by fastforce
  ultimately show ?case using object_results(3) [OF 4(3)] by (simp del: py_call.simps)
next
  case (6 R l e es w)
  have "\<exists>v w'. eval R l e w = (Inr v, w')"
    using 6 by (cases e) (auto simp del: eval.simps(1,3,4))
  then obtain v w' where e: "eval R l e w = (Inr v, w')" by auto
  moreover from this 6 obtain vs w'' where "evals R l es w' = (Inr vs, w'')" by fastforce
  ultimately show ?case by simp
qed auto

lemma run_progress:
  "obliging R \<Longrightarrow> objects a l \<Longrightarrow> assigned a ss = Some b \<Longrightarrow> list_all plain_stmt ss \<Longrightarrow>
   \<exists>l' w'. run R ss l w = (Inr l', w') \<and> objects b l'"
proof (induction ss arbitrary: a l w)
  case Nil
  then show ?case by simp
next
  case (Cons s ss)
  obtain a' where k: "list_all (known a) (names (rhs s))" and a': "assigned a' ss = Some b"
    and c: "\<And>u. objects a' (l(target s \<mapsto> VObj u))"
    using assigned_step [OF Cons.prems(3)] Cons.prems(2) by metis
  have "\<exists>u w'. exec R s l w = (Inr (l(target s \<mapsto> VObj u)), w')"
  proof (cases s)
    case (Assign x e)
    then have "\<exists>u w'. eval R l e w = (Inr (VObj u), w')"
      using eval_progress(1) [OF Cons.prems(1,2), of e w] k Cons.prems(4)
      by (cases e) (auto split: val.splits)
    then show ?thesis using Assign by auto
  next
    case (Unpack x e)
    then obtain u w' where "eval R l e w = (Inr (VObj u), w')"
      using eval_progress(1) [OF Cons.prems(1,2), of e w] k Cons.prems(4) by auto
    then show ?thesis
      using Unpack object_results(4) [OF Cons.prems(1), of u w'] by (auto simp del: py_iter.simps)
  qed
  then show ?case using Cons.IH [OF Cons.prems(1) c a'] Cons.prems(4) by (fastforce simp del: fun_upd_apply)
qed

end
