(* ===== verification/Transformed_Code.thy ===== *)
theory Transformed_Code
  imports Py_Object "HOL-Library.Sublist"
begin

text \<open>
  transformed_code.py of the sample cache: the Python that a bytecode decompiler wrote for
  the function around the compiled graph. It looks up the 171 weights and buffers in the
  module tree and calls the compiled graph with them. The statements are kept one by one
  (segments of 56 lines); the parameter names of the graph come from
  computation_graph.py.
\<close>

definition transformed_1 :: "'o stmt list" where
  "transformed_1 = [
     Assign (Tmp 0) (Lit VNone), Assign (Tmp 1) (Lit VNone),
     Assign (Tmp 2) (Attr (Nm (Glob ''__import_torch_dot__dynamo_dot_utils'')) ''call_size''),
     Assign (Tmp 3) (Nm (Glob ''__compiled_fn_1'')), Assign (Tmp 4) (Lit VNone), Assign (Tmp 5) (Nm (Tmp 4)),
     Assign (Tmp 6) (Nm (Tmp 4)), Assign (Tmp 7) (Nm (Tmp 4)), Assign (Tmp 8) (Attr (Nm (Tmp 0)) ''dict_getitem''),
     Assign (Tmp 9) (Attr (Nm (Tmp 0)) ''dict_getitem''), Assign (Tmp 10) (Attr (Nm (Tmp 0)) ''dict_getitem''),
     Assign (Temp 3) (Call (Attr (Nm (Tmp 0)) ''dict_getitem'') [Attr (Call (Nm (Tmp 4)) [Attr (Nm (Param ''self'')) ''_modules'', Lit (VStr ''embed_tokens'')]) ''_parameters'', Lit (VStr ''weight'')]),
     Assign (Tmp 11) (Nm (Tmp 2)), Assign (Tmp 12) (Nm (Tmp 4)), Assign (Tmp 13) (Nm (Tmp 4)),
     Assign (Tmp 14) (Nm (Tmp 4)), Assign (Tmp 15) (Nm (Tmp 4)), Assign (Tmp 16) (Nm (Tmp 4)),
     Assign (Tmp 17) (Nm (Tmp 4)), Assign (Tmp 18) (Nm (Tmp 4)), Assign (Tmp 19) (Nm (Tmp 4)),
     Assign (Tmp 20) (Nm (Tmp 4)),
     Assign (Temp 7) (Call (Nm (Tmp 4)) [Attr (Call (Nm (Tmp 4)) [Attr (Call (Nm (Tmp 4)) [Attr (Call (Nm (Tmp 4)) [Nm (Tmp 7), Lit (VStr ''layers'')]) ''_modules'', Lit (VStr ''0'')]) ''_modules'', Lit (VStr ''input_layernorm'')]) ''_parameters'', Lit (VStr ''weight'')]),
     Assign (Tmp 21) (Nm (Temp 3)), Assign (Tmp 22) (Nm (Tmp 4)), Assign (Tmp 23) (Nm (Tmp 4)),
     Assign (Tmp 24) (Nm (Tmp 4)), Assign (Tmp 25) (Nm (Tmp 4)), Assign (Tmp 26) (Nm (Tmp 4)),
     Assign (Tmp 27) (Nm (Tmp 4)),
     Assign (Temp 10) (Call (Nm (Tmp 4)) [Attr (Call (Nm (Tmp 4)) [Attr (Call (Nm (Tmp 4)) [Nm (Tmp 17), Lit (VStr ''self_attn'')]) ''_modules'', Lit (VStr ''qkv_proj'')]) ''_parameters'', Lit (VStr ''bias'')]),
     Assign (Tmp 28) (Nm (Temp 7)), Assign (Temp 11) (Call (Nm (Tmp 4)) [Nm (Tmp 27), Lit (VStr ''weight'')]),
     Assign (Tmp 29) (Nm (Temp 10)), Assign (Tmp 30) (Nm (Tmp 1)), Assign (Tmp 31) (Nm (Temp 11)),
     Assign (Tmp 32) (Nm (Tmp 4)), Assign (Tmp 33) (Nm (Tmp 4)), Assign (Tmp 34) (Nm (Tmp 4)),
     Assign (Temp 14) (Call (Nm (Tmp 4)) [Attr (Call (Nm (Tmp 4)) [Nm (Tmp 24), Lit (VStr ''rotary_emb'')]) ''_buffers'', Lit (VStr ''cos_sin_cache'')]),
     Assign (Tmp 35) (Nm (Tmp 30)), Assign (Tmp 36) (Nm (Tmp 4)), Assign (Tmp 37) (Nm (Tmp 4)),
     Assign (Tmp 38) (Nm (Tmp 4)),
     Assign (Temp 16) (Call (Nm (Tmp 4)) [Attr (Call (Nm (Tmp 4)) [Nm (Tmp 24), Lit (VStr ''o_proj'')]) ''_parameters'', Lit (VStr ''weight'')]),
     Assign (Tmp 39) (Nm (Temp 14)), Assign (Tmp 40) (Nm (Tmp 4)), Assign (Tmp 41) (Nm (Tmp 4)),
     Assign (Tmp 42) (Nm (Tmp 4)),
     Assign (Temp 18) (Call (Nm (Tmp 4)) [Attr (Call (Nm (Tmp 4)) [Nm (Tmp 17), Lit (VStr ''post_attention_layernorm'')]) ''_parameters'', Lit (VStr ''weight'')]),
     Assign (Tmp 43) (Nm (Temp 16)), Assign (Tmp 44) (Nm (Tmp 4))]"

definition transformed_2 :: "'o stmt list" where
  "transformed_2 = [
     Assign (Tmp 45) (Nm (Tmp 4)), Assign (Tmp 46) (Nm (Tmp 4)), Assign (Tmp 47) (Nm (Tmp 4)),
     Assign (Tmp 48) (Nm (Tmp 4)), Assign (Tmp 49) (Nm (Tmp 4)),
     Assign (Temp 21) (Call (Nm (Tmp 4)) [Attr (Call (Nm (Tmp 4)) [Attr (Call (Nm (Tmp 4)) [Nm (Tmp 17), Lit (VStr ''mlp'')]) ''_modules'', Lit (VStr ''gate_up_proj'')]) ''_parameters'', Lit (VStr ''weight'')]),
     Assign (Tmp 50) (Nm (Temp 18)), Assign (Tmp 51) (Nm (Tmp 4)), Assign (Tmp 52) (Nm (Tmp 4)),
     Assign (Tmp 53) (Nm (Tmp 4)),
     Assign (Temp 23) (Call (Nm (Tmp 4)) [Attr (Call (Nm (Tmp 4)) [Nm (Tmp 46), Lit (VStr ''down_proj'')]) ''_parameters'', Lit (VStr ''weight'')]),
     Assign (Tmp 54) (Nm (Temp 21)), Assign (Tmp 55) (Nm (Tmp 4)), Assign (Tmp 56) (Nm (Tmp 4)),
     Assign (Tmp 57) (Nm (Tmp 4)), Assign (Tmp 58) (Nm (Tmp 4)), Assign (Tmp 59) (Nm (Tmp 4)),
     Assign (Tmp 60) (Nm (Tmp 4)),
     Assign (Temp 26) (Call (Nm (Tmp 4)) [Attr (Call (Nm (Tmp 4)) [Attr (Call (Nm (Tmp 4)) [Nm (Tmp 14), Lit (VStr ''1'')]) ''_modules'', Lit (VStr ''input_layernorm'')]) ''_parameters'', Lit (VStr ''weight'')]),
     Assign (Tmp 61) (Nm (Temp 23)), Assign (Tmp 62) (Nm (Tmp 4)), Assign (Tmp 63) (Nm (Tmp 4)),
     Assign (Tmp 64) (Nm (Tmp 4)), Assign (Tmp 65) (Nm (Tmp 4)), Assign (Tmp 66) (Nm (Tmp 4)),
     Assign (Tmp 67) (Nm (Tmp 4)),
     Assign (Temp 29) (Call (Nm (Tmp 4)) [Attr (Call (Nm (Tmp 4)) [Attr (Call (Nm (Tmp 4)) [Nm (Tmp 57), Lit (VStr ''self_attn'')]) ''_modules'', Lit (VStr ''qkv_proj'')]) ''_parameters'', Lit (VStr ''bias'')]),
     Assign (Tmp 68) (Nm (Temp 26)), Assign (Temp 30) (Call (Nm (Tmp 4)) [Nm (Tmp 67), Lit (VStr ''weight'')]),
     Assign (Tmp 69) (Nm (Temp 29)), Assign (Tmp 70) (Nm (Tmp 4)), Assign (Tmp 71) (Nm (Tmp 4)),
     Assign (Tmp 72) (Nm (Tmp 4)),
     Assign (Temp 32) (Call (Nm (Tmp 4)) [Attr (Call (Nm (Tmp 4)) [Nm (Tmp 64), Lit (VStr ''o_proj'')]) ''_parameters'', Lit (VStr ''weight'')]),
     Assign (Tmp 73) (Nm (Temp 30)), Assign (Tmp 74) (Nm (Tmp 4)), Assign (Tmp 75) (Nm (Tmp 4)),
     Assign (Tmp 76) (Nm (Tmp 4)),
     Assign (Temp 34) (Call (Nm (Tmp 4)) [Attr (Call (Nm (Tmp 4)) [Nm (Tmp 57), Lit (VStr ''post_attention_layernorm'')]) ''_parameters'', Lit (VStr ''weight'')]),
     Assign (Tmp 77) (Nm (Temp 32)), Assign (Tmp 78) (Nm (Tmp 4)), Assign (Tmp 79) (Nm (Tmp 4)),
     Assign (Tmp 80) (Nm (Tmp 4)), Assign (Tmp 81) (Nm (Tmp 4)), Assign (Tmp 82) (Nm (Tmp 4)),
     Assign (Tmp 83) (Nm (Tmp 4)),
     Assign (Temp 37) (Call (Nm (Tmp 4)) [Attr (Call (Nm (Tmp 4)) [Attr (Call (Nm (Tmp 4)) [Nm (Tmp 57), Lit (VStr ''mlp'')]) ''_modules'', Lit (VStr ''gate_up_proj'')]) ''_parameters'', Lit (VStr ''weight'')]),
     Assign (Tmp 84) (Nm (Temp 34)), Assign (Tmp 85) (Nm (Tmp 4)), Assign (Tmp 86) (Nm (Tmp 4)),
     Assign (Tmp 87) (Nm (Tmp 4))]"

definition transformed_3 :: "'o stmt list" where
  "transformed_3 = [
     Assign (Temp 39) (Call (Nm (Tmp 4)) [Attr (Call (Nm (Tmp 4)) [Nm (Tmp 80), Lit (VStr ''down_proj'')]) ''_parameters'', Lit (VStr ''weight'')]),
     Assign (Tmp 88) (Nm (Temp 37)), Assign (Tmp 89) (Nm (Tmp 4)), Assign (Tmp 90) (Nm (Tmp 4)),
     Assign (Tmp 91) (Nm (Tmp 4)), Assign (Tmp 92) (Nm (Tmp 4)), Assign (Tmp 93) (Nm (Tmp 4)),
     Assign (Tmp 94) (Nm (Tmp 4)),
     Assign (Temp 42) (Call (Nm (Tmp 4)) [Attr (Call (Nm (Tmp 4)) [Attr (Call (Nm (Tmp 4)) [Nm (Tmp 14), Lit (VStr ''2'')]) ''_modules'', Lit (VStr ''input_layernorm'')]) ''_parameters'', Lit (VStr ''weight'')]),
     Assign (Tmp 95) (Nm (Temp 39)), Assign (Tmp 96) (Nm (Tmp 4)), Assign (Tmp 97) (Nm (Tmp 4)),
     Assign (Tmp 98) (Nm (Tmp 4)), Assign (Tmp 99) (Nm (Tmp 4)), Assign (Tmp 100) (Nm (Tmp 4)),
     Assign (Tmp 101) (Nm (Tmp 4)),
     Assign (Temp 45) (Call (Nm (Tmp 4)) [Attr (Call (Nm (Tmp 4)) [Attr (Call (Nm (Tmp 4)) [Nm (Tmp 91), Lit (VStr ''self_attn'')]) ''_modules'', Lit (VStr ''qkv_proj'')]) ''_parameters'', Lit (VStr ''bias'')]),
     Assign (Tmp 102) (Nm (Temp 42)), Assign (Temp 46) (Call (Nm (Tmp 4)) [Nm (Tmp 101), Lit (VStr ''weight'')]),
     Assign (Tmp 103) (Nm (Temp 45)), Assign (Tmp 104) (Nm (Tmp 4)), Assign (Tmp 105) (Nm (Tmp 4)),
     Assign (Tmp 106) (Nm (Tmp 4)),
     Assign (Temp 48) (Call (Nm (Tmp 4)) [Attr (Call (Nm (Tmp 4)) [Nm (Tmp 98), Lit (VStr ''o_proj'')]) ''_parameters'', Lit (VStr ''weight'')]),
     Assign (Tmp 107) (Nm (Temp 46)), Assign (Tmp 108) (Nm (Tmp 4)), Assign (Tmp 109) (Nm (Tmp 4)),
     Assign (Tmp 110) (Nm (Tmp 4)),
     Assign (Temp 50) (Call (Nm (Tmp 4)) [Attr (Call (Nm (Tmp 4)) [Nm (Tmp 91), Lit (VStr ''post_attention_layernorm'')]) ''_parameters'', Lit (VStr ''weight'')]),
     Assign (Tmp 111) (Nm (Temp 48)), Assign (Tmp 112) (Nm (Tmp 4)), Assign (Tmp 113) (Nm (Tmp 4)),
     Assign (Tmp 114) (Nm (Tmp 4)), Assign (Tmp 115) (Nm (Tmp 4)), Assign (Tmp 116) (Nm (Tmp 4)),
     Assign (Tmp 117) (Nm (Tmp 4)),
     Assign (Temp 53) (Call (Nm (Tmp 4)) [Attr (Call (Nm (Tmp 4)) [Attr (Call (Nm (Tmp 4)) [Nm (Tmp 91), Lit (VStr ''mlp'')]) ''_modules'', Lit (VStr ''gate_up_proj'')]) ''_parameters'', Lit (VStr ''weight'')]),
     Assign (Tmp 118) (Nm (Temp 50)), Assign (Tmp 119) (Nm (Tmp 4)), Assign (Tmp 120) (Nm (Tmp 4)),
     Assign (Tmp 121) (Nm (Tmp 4)),
     Assign (Temp 55) (Call (Nm (Tmp 4)) [Attr (Call (Nm (Tmp 4)) [Nm (Tmp 114), Lit (VStr ''down_proj'')]) ''_parameters'', Lit (VStr ''weight'')]),
     Assign (Tmp 122) (Nm (Temp 53)), Assign (Tmp 123) (Nm (Tmp 4)), Assign (Tmp 124) (Nm (Tmp 4)),
     Assign (Tmp 125) (Nm (Tmp 4)), Assign (Tmp 126) (Nm (Tmp 4)), Assign (Tmp 127) (Nm (Tmp 4)),
     Assign (Tmp 128) (Nm (Tmp 4)),
     Assign (Temp 58) (Call (Nm (Tmp 4)) [Attr (Call (Nm (Tmp 4)) [Attr (Call (Nm (Tmp 4)) [Nm (Tmp 14), Lit (VStr ''3'')]) ''_modules'', Lit (VStr ''input_layernorm'')]) ''_parameters'', Lit (VStr ''weight'')]),
     Assign (Tmp 129) (Nm (Temp 55))]"

definition transformed_4 :: "'o stmt list" where
  "transformed_4 = [
     Assign (Tmp 130) (Nm (Tmp 4)), Assign (Tmp 131) (Nm (Tmp 4)), Assign (Tmp 132) (Nm (Tmp 4)),
     Assign (Tmp 133) (Nm (Tmp 4)), Assign (Tmp 134) (Nm (Tmp 4)), Assign (Tmp 135) (Nm (Tmp 4)),
     Assign (Temp 61) (Call (Nm (Tmp 4)) [Attr (Call (Nm (Tmp 4)) [Attr (Call (Nm (Tmp 4)) [Nm (Tmp 125), Lit (VStr ''self_attn'')]) ''_modules'', Lit (VStr ''qkv_proj'')]) ''_parameters'', Lit (VStr ''bias'')]),
     Assign (Tmp 136) (Nm (Temp 58)), Assign (Temp 62) (Call (Nm (Tmp 4)) [Nm (Tmp 135), Lit (VStr ''weight'')]),
     Assign (Tmp 137) (Nm (Temp 61)), Assign (Tmp 138) (Nm (Tmp 4)), Assign (Tmp 139) (Nm (Tmp 4)),
     Assign (Tmp 140) (Nm (Tmp 4)),
     Assign (Temp 64) (Call (Nm (Tmp 4)) [Attr (Call (Nm (Tmp 4)) [Nm (Tmp 132), Lit (VStr ''o_proj'')]) ''_parameters'', Lit (VStr ''weight'')]),
     Assign (Tmp 141) (Nm (Temp 62)), Assign (Tmp 142) (Nm (Tmp 4)), Assign (Tmp 143) (Nm (Tmp 4)),
     Assign (Tmp 144) (Nm (Tmp 4)),
     Assign (Temp 66) (Call (Nm (Tmp 4)) [Attr (Call (Nm (Tmp 4)) [Nm (Tmp 125), Lit (VStr ''post_attention_layernorm'')]) ''_parameters'', Lit (VStr ''weight'')]),
     Assign (Tmp 145) (Nm (Temp 64)), Assign (Tmp 146) (Nm (Tmp 4)), Assign (Tmp 147) (Nm (Tmp 4)),
     Assign (Tmp 148) (Nm (Tmp 4)), Assign (Tmp 149) (Nm (Tmp 4)), Assign (Tmp 150) (Nm (Tmp 4)),
     Assign (Tmp 151) (Nm (Tmp 4)),
     Assign (Temp 69) (Call (Nm (Tmp 4)) [Attr (Call (Nm (Tmp 4)) [Attr (Call (Nm (Tmp 4)) [Nm (Tmp 125), Lit (VStr ''mlp'')]) ''_modules'', Lit (VStr ''gate_up_proj'')]) ''_parameters'', Lit (VStr ''weight'')]),
     Assign (Tmp 152) (Nm (Temp 66)), Assign (Tmp 153) (Nm (Tmp 4)), Assign (Tmp 154) (Nm (Tmp 4)),
     Assign (Tmp 155) (Nm (Tmp 4)),
     Assign (Temp 71) (Call (Nm (Tmp 4)) [Attr (Call (Nm (Tmp 4)) [Nm (Tmp 148), Lit (VStr ''down_proj'')]) ''_parameters'', Lit (VStr ''weight'')]),
     Assign (Tmp 156) (Nm (Temp 69)), Assign (Tmp 157) (Nm (Tmp 4)), Assign (Tmp 158) (Nm (Tmp 4)),
     Assign (Tmp 159) (Nm (Tmp 4)), Assign (Tmp 160) (Nm (Tmp 4)), Assign (Tmp 161) (Nm (Tmp 4)),
     Assign (Tmp 162) (Nm (Tmp 4)),
     Assign (Temp 74) (Call (Nm (Tmp 4)) [Attr (Call (Nm (Tmp 4)) [Attr (Call (Nm (Tmp 4)) [Nm (Tmp 14), Lit (VStr ''4'')]) ''_modules'', Lit (VStr ''input_layernorm'')]) ''_parameters'', Lit (VStr ''weight'')]),
     Assign (Tmp 163) (Nm (Temp 71)), Assign (Tmp 164) (Nm (Tmp 4)), Assign (Tmp 165) (Nm (Tmp 4)),
     Assign (Tmp 166) (Nm (Tmp 4)), Assign (Tmp 167) (Nm (Tmp 4)), Assign (Tmp 168) (Nm (Tmp 4)),
     Assign (Tmp 169) (Nm (Tmp 4)),
     Assign (Temp 77) (Call (Nm (Tmp 4)) [Attr (Call (Nm (Tmp 4)) [Attr (Call (Nm (Tmp 4)) [Nm (Tmp 159), Lit (VStr ''self_attn'')]) ''_modules'', Lit (VStr ''qkv_proj'')]) ''_parameters'', Lit (VStr ''bias'')]),
     Assign (Tmp 170) (Nm (Temp 74)), Assign (Temp 78) (Call (Nm (Tmp 4)) [Nm (Tmp 169), Lit (VStr ''weight'')]),
     Assign (Tmp 171) (Nm (Temp 77))]"

definition transformed_5 :: "'o stmt list" where
  "transformed_5 = [
     Assign (Tmp 172) (Nm (Tmp 4)), Assign (Tmp 173) (Nm (Tmp 4)), Assign (Tmp 174) (Nm (Tmp 4)),
     Assign (Temp 80) (Call (Nm (Tmp 4)) [Attr (Call (Nm (Tmp 4)) [Nm (Tmp 166), Lit (VStr ''o_proj'')]) ''_parameters'', Lit (VStr ''weight'')]),
     Assign (Tmp 175) (Nm (Temp 78)), Assign (Tmp 176) (Nm (Tmp 4)), Assign (Tmp 177) (Nm (Tmp 4)),
     Assign (Tmp 178) (Nm (Tmp 4)),
     Assign (Temp 82) (Call (Nm (Tmp 4)) [Attr (Call (Nm (Tmp 4)) [Nm (Tmp 159), Lit (VStr ''post_attention_layernorm'')]) ''_parameters'', Lit (VStr ''weight'')]),
     Assign (Tmp 179) (Nm (Temp 80)), Assign (Tmp 180) (Nm (Tmp 4)), Assign (Tmp 181) (Nm (Tmp 4)),
     Assign (Tmp 182) (Nm (Tmp 4)), Assign (Tmp 183) (Nm (Tmp 4)), Assign (Tmp 184) (Nm (Tmp 4)),
     Assign (Tmp 185) (Nm (Tmp 4)),
     Assign (Temp 85) (Call (Nm (Tmp 4)) [Attr (Call (Nm (Tmp 4)) [Attr (Call (Nm (Tmp 4)) [Nm (Tmp 159), Lit (VStr ''mlp'')]) ''_modules'', Lit (VStr ''gate_up_proj'')]) ''_parameters'', Lit (VStr ''weight'')]),
     Assign (Tmp 186) (Nm (Temp 82)), Assign (Tmp 187) (Nm (Tmp 4)), Assign (Tmp 188) (Nm (Tmp 4)),
     Assign (Tmp 189) (Nm (Tmp 4)),
     Assign (Temp 87) (Call (Nm (Tmp 4)) [Attr (Call (Nm (Tmp 4)) [Nm (Tmp 182), Lit (VStr ''down_proj'')]) ''_parameters'', Lit (VStr ''weight'')]),
     Assign (Tmp 190) (Nm (Temp 85)), Assign (Tmp 191) (Nm (Tmp 4)), Assign (Tmp 192) (Nm (Tmp 4)),
     Assign (Tmp 193) (Nm (Tmp 4)), Assign (Tmp 194) (Nm (Tmp 4)), Assign (Tmp 195) (Nm (Tmp 4)),
     Assign (Tmp 196) (Nm (Tmp 4)),
     Assign (Temp 90) (Call (Nm (Tmp 4)) [Attr (Call (Nm (Tmp 4)) [Attr (Call (Nm (Tmp 4)) [Nm (Tmp 14), Lit (VStr ''5'')]) ''_modules'', Lit (VStr ''input_layernorm'')]) ''_parameters'', Lit (VStr ''weight'')]),
     Assign (Tmp 197) (Nm (Temp 87)), Assign (Tmp 198) (Nm (Tmp 4)), Assign (Tmp 199) (Nm (Tmp 4)),
     Assign (Tmp 200) (Nm (Tmp 4)), Assign (Tmp 201) (Nm (Tmp 4)), Assign (Tmp 202) (Nm (Tmp 4)),
     Assign (Tmp 203) (Nm (Tmp 4)),
     Assign (Temp 93) (Call (Nm (Tmp 4)) [Attr (Call (Nm (Tmp 4)) [Attr (Call (Nm (Tmp 4)) [Nm (Tmp 193), Lit (VStr ''self_attn'')]) ''_modules'', Lit (VStr ''qkv_proj'')]) ''_parameters'', Lit (VStr ''bias'')]),
     Assign (Tmp 204) (Nm (Temp 90)), Assign (Temp 94) (Call (Nm (Tmp 4)) [Nm (Tmp 203), Lit (VStr ''weight'')]),
     Assign (Tmp 205) (Nm (Temp 93)), Assign (Tmp 206) (Nm (Tmp 4)), Assign (Tmp 207) (Nm (Tmp 4)),
     Assign (Tmp 208) (Nm (Tmp 4)),
     Assign (Temp 96) (Call (Nm (Tmp 4)) [Attr (Call (Nm (Tmp 4)) [Nm (Tmp 200), Lit (VStr ''o_proj'')]) ''_parameters'', Lit (VStr ''weight'')]),
     Assign (Tmp 209) (Nm (Temp 94)), Assign (Tmp 210) (Nm (Tmp 4)), Assign (Tmp 211) (Nm (Tmp 4)),
     Assign (Tmp 212) (Nm (Tmp 4)),
     Assign (Temp 98) (Call (Nm (Tmp 4)) [Attr (Call (Nm (Tmp 4)) [Nm (Tmp 193), Lit (VStr ''post_attention_layernorm'')]) ''_parameters'', Lit (VStr ''weight'')]),
     Assign (Tmp 213) (Nm (Temp 96))]"

definition transformed_6 :: "'o stmt list" where
  "transformed_6 = [
     Assign (Tmp 214) (Nm (Tmp 4)), Assign (Tmp 215) (Nm (Tmp 4)), Assign (Tmp 216) (Nm (Tmp 4)),
     Assign (Tmp 217) (Nm (Tmp 4)), Assign (Tmp 218) (Nm (Tmp 4)), Assign (Tmp 219) (Nm (Tmp 4)),
     Assign (Temp 101) (Call (Nm (Tmp 4)) [Attr (Call (Nm (Tmp 4)) [Attr (Call (Nm (Tmp 4)) [Nm (Tmp 193), Lit (VStr ''mlp'')]) ''_modules'', Lit (VStr ''gate_up_proj'')]) ''_parameters'', Lit (VStr ''weight'')]),
     Assign (Tmp 220) (Nm (Temp 98)), Assign (Tmp 221) (Nm (Tmp 4)), Assign (Tmp 222) (Nm (Tmp 4)),
     Assign (Tmp 223) (Nm (Tmp 4)),
     Assign (Temp 103) (Call (Nm (Tmp 4)) [Attr (Call (Nm (Tmp 4)) [Nm (Tmp 216), Lit (VStr ''down_proj'')]) ''_parameters'', Lit (VStr ''weight'')]),
     Assign (Tmp 224) (Nm (Temp 101)), Assign (Tmp 225) (Nm (Tmp 4)), Assign (Tmp 226) (Nm (Tmp 4)),
     Assign (Tmp 227) (Nm (Tmp 4)), Assign (Tmp 228) (Nm (Tmp 4)), Assign (Tmp 229) (Nm (Tmp 4)),
     Assign (Tmp 230) (Nm (Tmp 4)),
     Assign (Temp 106) (Call (Nm (Tmp 4)) [Attr (Call (Nm (Tmp 4)) [Attr (Call (Nm (Tmp 4)) [Nm (Tmp 14), Lit (VStr ''6'')]) ''_modules'', Lit (VStr ''input_layernorm'')]) ''_parameters'', Lit (VStr ''weight'')]),
     Assign (Tmp 231) (Nm (Temp 103)), Assign (Tmp 232) (Nm (Tmp 4)), Assign (Tmp 233) (Nm (Tmp 4)),
     Assign (Tmp 234) (Nm (Tmp 4)), Assign (Tmp 235) (Nm (Tmp 4)), Assign (Tmp 236) (Nm (Tmp 4)),
     Assign (Tmp 237) (Nm (Tmp 4)),
     Assign (Temp 109) (Call (Nm (Tmp 4)) [Attr (Call (Nm (Tmp 4)) [Attr (Call (Nm (Tmp 4)) [Nm (Tmp 227), Lit (VStr ''self_attn'')]) ''_modules'', Lit (VStr ''qkv_proj'')]) ''_parameters'', Lit (VStr ''bias'')]),
     Assign (Tmp 238) (Nm (Temp 106)), Assign (Temp 110) (Call (Nm (Tmp 4)) [Nm (Tmp 237), Lit (VStr ''weight'')]),
     Assign (Tmp 239) (Nm (Temp 109)), Assign (Tmp 240) (Nm (Tmp 4)), Assign (Tmp 241) (Nm (Tmp 4)),
     Assign (Tmp 242) (Nm (Tmp 4)),
     Assign (Temp 112) (Call (Nm (Tmp 4)) [Attr (Call (Nm (Tmp 4)) [Nm (Tmp 234), Lit (VStr ''o_proj'')]) ''_parameters'', Lit (VStr ''weight'')]),
     Assign (Tmp 243) (Nm (Temp 110)), Assign (Tmp 244) (Nm (Tmp 4)), Assign (Tmp 245) (Nm (Tmp 4)),
     Assign (Tmp 246) (Nm (Tmp 4)),
     Assign (Temp 114) (Call (Nm (Tmp 4)) [Attr (Call (Nm (Tmp 4)) [Nm (Tmp 227), Lit (VStr ''post_attention_layernorm'')]) ''_parameters'', Lit (VStr ''weight'')]),
     Assign (Tmp 247) (Nm (Temp 112)), Assign (Tmp 248) (Nm (Tmp 4)), Assign (Tmp 249) (Nm (Tmp 4)),
     Assign (Tmp 250) (Nm (Tmp 4)), Assign (Tmp 251) (Nm (Tmp 4)), Assign (Tmp 252) (Nm (Tmp 4)),
     Assign (Tmp 253) (Nm (Tmp 4)),
     Assign (Temp 117) (Call (Nm (Tmp 4)) [Attr (Call (Nm (Tmp 4)) [Attr (Call (Nm (Tmp 4)) [Nm (Tmp 227), Lit (VStr ''mlp'')]) ''_modules'', Lit (VStr ''gate_up_proj'')]) ''_parameters'', Lit (VStr ''weight'')]),
     Assign (Tmp 254) (Nm (Temp 114)), Assign (Tmp 255) (Nm (Tmp 4)), Assign (Tmp 256) (Nm (Tmp 4))]"

definition transformed_7 :: "'o stmt list" where
  "transformed_7 = [
     Assign (Tmp 257) (Nm (Tmp 4)),
     Assign (Temp 119) (Call (Nm (Tmp 4)) [Attr (Call (Nm (Tmp 4)) [Nm (Tmp 250), Lit (VStr ''down_proj'')]) ''_parameters'', Lit (VStr ''weight'')]),
     Assign (Tmp 258) (Nm (Temp 117)), Assign (Tmp 259) (Nm (Tmp 4)), Assign (Tmp 260) (Nm (Tmp 4)),
     Assign (Tmp 261) (Nm (Tmp 4)), Assign (Tmp 262) (Nm (Tmp 4)), Assign (Tmp 263) (Nm (Tmp 4)),
     Assign (Tmp 264) (Nm (Tmp 4)),
     Assign (Temp 122) (Call (Nm (Tmp 4)) [Attr (Call (Nm (Tmp 4)) [Attr (Call (Nm (Tmp 4)) [Nm (Tmp 14), Lit (VStr ''7'')]) ''_modules'', Lit (VStr ''input_layernorm'')]) ''_parameters'', Lit (VStr ''weight'')]),
     Assign (Tmp 265) (Nm (Temp 119)), Assign (Tmp 266) (Nm (Tmp 4)), Assign (Tmp 267) (Nm (Tmp 4)),
     Assign (Tmp 268) (Nm (Tmp 4)), Assign (Tmp 269) (Nm (Tmp 4)), Assign (Tmp 270) (Nm (Tmp 4)),
     Assign (Tmp 271) (Nm (Tmp 4)),
     Assign (Temp 125) (Call (Nm (Tmp 4)) [Attr (Call (Nm (Tmp 4)) [Attr (Call (Nm (Tmp 4)) [Nm (Tmp 261), Lit (VStr ''self_attn'')]) ''_modules'', Lit (VStr ''qkv_proj'')]) ''_parameters'', Lit (VStr ''bias'')]),
     Assign (Tmp 272) (Nm (Temp 122)), Assign (Temp 126) (Call (Nm (Tmp 4)) [Nm (Tmp 271), Lit (VStr ''weight'')]),
     Assign (Tmp 273) (Nm (Temp 125)), Assign (Tmp 274) (Nm (Tmp 4)), Assign (Tmp 275) (Nm (Tmp 4)),
     Assign (Tmp 276) (Nm (Tmp 4)),
     Assign (Temp 128) (Call (Nm (Tmp 4)) [Attr (Call (Nm (Tmp 4)) [Nm (Tmp 268), Lit (VStr ''o_proj'')]) ''_parameters'', Lit (VStr ''weight'')]),
     Assign (Tmp 277) (Nm (Temp 126)), Assign (Tmp 278) (Nm (Tmp 4)), Assign (Tmp 279) (Nm (Tmp 4)),
     Assign (Tmp 280) (Nm (Tmp 4)),
     Assign (Temp 130) (Call (Nm (Tmp 4)) [Attr (Call (Nm (Tmp 4)) [Nm (Tmp 261), Lit (VStr ''post_attention_layernorm'')]) ''_parameters'', Lit (VStr ''weight'')]),
     Assign (Tmp 281) (Nm (Temp 128)), Assign (Tmp 282) (Nm (Tmp 4)), Assign (Tmp 283) (Nm (Tmp 4)),
     Assign (Tmp 284) (Nm (Tmp 4)), Assign (Tmp 285) (Nm (Tmp 4)), Assign (Tmp 286) (Nm (Tmp 4)),
     Assign (Tmp 287) (Nm (Tmp 4)),
     Assign (Temp 133) (Call (Nm (Tmp 4)) [Attr (Call (Nm (Tmp 4)) [Attr (Call (Nm (Tmp 4)) [Nm (Tmp 261), Lit (VStr ''mlp'')]) ''_modules'', Lit (VStr ''gate_up_proj'')]) ''_parameters'', Lit (VStr ''weight'')]),
     Assign (Tmp 288) (Nm (Temp 130)), Assign (Tmp 289) (Nm (Tmp 4)), Assign (Tmp 290) (Nm (Tmp 4)),
     Assign (Tmp 291) (Nm (Tmp 4)),
     Assign (Temp 135) (Call (Nm (Tmp 4)) [Attr (Call (Nm (Tmp 4)) [Nm (Tmp 284), Lit (VStr ''down_proj'')]) ''_parameters'', Lit (VStr ''weight'')]),
     Assign (Tmp 292) (Nm (Temp 133)), Assign (Tmp 293) (Nm (Tmp 4)), Assign (Tmp 294) (Nm (Tmp 4)),
     Assign (Tmp 295) (Nm (Tmp 4)), Assign (Tmp 296) (Nm (Tmp 4)), Assign (Tmp 297) (Nm (Tmp 4)),
     Assign (Tmp 298) (Nm (Tmp 4)),
     Assign (Temp 138) (Call (Nm (Tmp 4)) [Attr (Call (Nm (Tmp 4)) [Attr (Call (Nm (Tmp 4)) [Nm (Tmp 14), Lit (VStr ''8'')]) ''_modules'', Lit (VStr ''input_layernorm'')]) ''_parameters'', Lit (VStr ''weight'')])]"

definition transformed_8 :: "'o stmt list" where
  "transformed_8 = [
     Assign (Tmp 299) (Nm (Temp 135)), Assign (Tmp 300) (Nm (Tmp 4)), Assign (Tmp 301) (Nm (Tmp 4)),
     Assign (Tmp 302) (Nm (Tmp 4)), Assign (Tmp 303) (Nm (Tmp 4)), Assign (Tmp 304) (Nm (Tmp 4)),
     Assign (Tmp 305) (Nm (Tmp 4)),
     Assign (Temp 141) (Call (Nm (Tmp 4)) [Attr (Call (Nm (Tmp 4)) [Attr (Call (Nm (Tmp 4)) [Nm (Tmp 295), Lit (VStr ''self_attn'')]) ''_modules'', Lit (VStr ''qkv_proj'')]) ''_parameters'', Lit (VStr ''bias'')]),
     Assign (Tmp 306) (Nm (Temp 138)), Assign (Temp 142) (Call (Nm (Tmp 4)) [Nm (Tmp 305), Lit (VStr ''weight'')]),
     Assign (Tmp 307) (Nm (Temp 141)), Assign (Tmp 308) (Nm (Tmp 4)), Assign (Tmp 309) (Nm (Tmp 4)),
     Assign (Tmp 310) (Nm (Tmp 4)),
     Assign (Temp 144) (Call (Nm (Tmp 4)) [Attr (Call (Nm (Tmp 4)) [Nm (Tmp 302), Lit (VStr ''o_proj'')]) ''_parameters'', Lit (VStr ''weight'')]),
     Assign (Tmp 311) (Nm (Temp 142)), Assign (Tmp 312) (Nm (Tmp 4)), Assign (Tmp 313) (Nm (Tmp 4)),
     Assign (Tmp 314) (Nm (Tmp 4)),
     Assign (Temp 146) (Call (Nm (Tmp 4)) [Attr (Call (Nm (Tmp 4)) [Nm (Tmp 295), Lit (VStr ''post_attention_layernorm'')]) ''_parameters'', Lit (VStr ''weight'')]),
     Assign (Tmp 315) (Nm (Temp 144)), Assign (Tmp 316) (Nm (Tmp 4)), Assign (Tmp 317) (Nm (Tmp 4)),
     Assign (Tmp 318) (Nm (Tmp 4)), Assign (Tmp 319) (Nm (Tmp 4)), Assign (Tmp 320) (Nm (Tmp 4)),
     Assign (Tmp 321) (Nm (Tmp 4)),
     Assign (Temp 149) (Call (Nm (Tmp 4)) [Attr (Call (Nm (Tmp 4)) [Attr (Call (Nm (Tmp 4)) [Nm (Tmp 295), Lit (VStr ''mlp'')]) ''_modules'', Lit (VStr ''gate_up_proj'')]) ''_parameters'', Lit (VStr ''weight'')]),
     Assign (Tmp 322) (Nm (Temp 146)), Assign (Tmp 323) (Nm (Tmp 4)), Assign (Tmp 324) (Nm (Tmp 4)),
     Assign (Tmp 325) (Nm (Tmp 4)),
     Assign (Temp 151) (Call (Nm (Tmp 4)) [Attr (Call (Nm (Tmp 4)) [Nm (Tmp 318), Lit (VStr ''down_proj'')]) ''_parameters'', Lit (VStr ''weight'')]),
     Assign (Tmp 326) (Nm (Temp 149)), Assign (Tmp 327) (Nm (Tmp 4)), Assign (Tmp 328) (Nm (Tmp 4)),
     Assign (Tmp 329) (Nm (Tmp 4)), Assign (Tmp 330) (Nm (Tmp 4)), Assign (Tmp 331) (Nm (Tmp 4)),
     Assign (Tmp 332) (Nm (Tmp 4)),
     Assign (Temp 154) (Call (Nm (Tmp 4)) [Attr (Call (Nm (Tmp 4)) [Attr (Call (Nm (Tmp 4)) [Nm (Tmp 14), Lit (VStr ''9'')]) ''_modules'', Lit (VStr ''input_layernorm'')]) ''_parameters'', Lit (VStr ''weight'')]),
     Assign (Tmp 333) (Nm (Temp 151)), Assign (Tmp 334) (Nm (Tmp 4)), Assign (Tmp 335) (Nm (Tmp 4)),
     Assign (Tmp 336) (Nm (Tmp 4)), Assign (Tmp 337) (Nm (Tmp 4)), Assign (Tmp 338) (Nm (Tmp 4)),
     Assign (Tmp 339) (Nm (Tmp 4)),
     Assign (Temp 157) (Call (Nm (Tmp 4)) [Attr (Call (Nm (Tmp 4)) [Attr (Call (Nm (Tmp 4)) [Nm (Tmp 329), Lit (VStr ''self_attn'')]) ''_modules'', Lit (VStr ''qkv_proj'')]) ''_parameters'', Lit (VStr ''bias'')]),
     Assign (Tmp 340) (Nm (Temp 154)), Assign (Temp 158) (Call (Nm (Tmp 4)) [Nm (Tmp 339), Lit (VStr ''weight'')])]"

definition transformed_9 :: "'o stmt list" where
  "transformed_9 = [
     Assign (Tmp 341) (Nm (Temp 157)), Assign (Tmp 342) (Nm (Tmp 4)), Assign (Tmp 343) (Nm (Tmp 4)),
     Assign (Tmp 344) (Nm (Tmp 4)),
     Assign (Temp 160) (Call (Nm (Tmp 4)) [Attr (Call (Nm (Tmp 4)) [Nm (Tmp 336), Lit (VStr ''o_proj'')]) ''_parameters'', Lit (VStr ''weight'')]),
     Assign (Tmp 345) (Nm (Temp 158)), Assign (Tmp 346) (Nm (Tmp 4)), Assign (Tmp 347) (Nm (Tmp 4)),
     Assign (Tmp 348) (Nm (Tmp 4)),
     Assign (Temp 162) (Call (Nm (Tmp 4)) [Attr (Call (Nm (Tmp 4)) [Nm (Tmp 329), Lit (VStr ''post_attention_layernorm'')]) ''_parameters'', Lit (VStr ''weight'')]),
     Assign (Tmp 349) (Nm (Temp 160)), Assign (Tmp 350) (Nm (Tmp 4)), Assign (Tmp 351) (Nm (Tmp 4)),
     Assign (Tmp 352) (Nm (Tmp 4)), Assign (Tmp 353) (Nm (Tmp 4)), Assign (Tmp 354) (Nm (Tmp 4)),
     Assign (Tmp 355) (Nm (Tmp 4)),
     Assign (Temp 165) (Call (Nm (Tmp 4)) [Attr (Call (Nm (Tmp 4)) [Attr (Call (Nm (Tmp 4)) [Nm (Tmp 329), Lit (VStr ''mlp'')]) ''_modules'', Lit (VStr ''gate_up_proj'')]) ''_parameters'', Lit (VStr ''weight'')]),
     Assign (Tmp 356) (Nm (Temp 162)), Assign (Tmp 357) (Nm (Tmp 4)), Assign (Tmp 358) (Nm (Tmp 4)),
     Assign (Tmp 359) (Nm (Tmp 4)),
     Assign (Temp 167) (Call (Nm (Tmp 4)) [Attr (Call (Nm (Tmp 4)) [Nm (Tmp 352), Lit (VStr ''down_proj'')]) ''_parameters'', Lit (VStr ''weight'')]),
     Assign (Tmp 360) (Nm (Temp 165)), Assign (Tmp 361) (Nm (Tmp 4)), Assign (Tmp 362) (Nm (Tmp 4)),
     Assign (Tmp 363) (Nm (Tmp 4)), Assign (Tmp 364) (Nm (Tmp 4)), Assign (Tmp 365) (Nm (Tmp 4)),
     Assign (Tmp 366) (Nm (Tmp 4)),
     Assign (Temp 170) (Call (Nm (Tmp 4)) [Attr (Call (Nm (Tmp 4)) [Attr (Call (Nm (Tmp 4)) [Nm (Tmp 14), Lit (VStr ''10'')]) ''_modules'', Lit (VStr ''input_layernorm'')]) ''_parameters'', Lit (VStr ''weight'')]),
     Assign (Tmp 367) (Nm (Temp 167)), Assign (Tmp 368) (Nm (Tmp 4)), Assign (Tmp 369) (Nm (Tmp 4)),
     Assign (Tmp 370) (Nm (Tmp 4)), Assign (Tmp 371) (Nm (Tmp 4)), Assign (Tmp 372) (Nm (Tmp 4)),
     Assign (Tmp 373) (Nm (Tmp 4)),
     Assign (Temp 173) (Call (Nm (Tmp 4)) [Attr (Call (Nm (Tmp 4)) [Attr (Call (Nm (Tmp 4)) [Nm (Tmp 363), Lit (VStr ''self_attn'')]) ''_modules'', Lit (VStr ''qkv_proj'')]) ''_parameters'', Lit (VStr ''bias'')]),
     Assign (Tmp 374) (Nm (Temp 170)), Assign (Temp 174) (Call (Nm (Tmp 4)) [Nm (Tmp 373), Lit (VStr ''weight'')]),
     Assign (Tmp 375) (Nm (Temp 173)), Assign (Tmp 376) (Nm (Tmp 4)), Assign (Tmp 377) (Nm (Tmp 4)),
     Assign (Tmp 378) (Nm (Tmp 4)),
     Assign (Temp 176) (Call (Nm (Tmp 4)) [Attr (Call (Nm (Tmp 4)) [Nm (Tmp 370), Lit (VStr ''o_proj'')]) ''_parameters'', Lit (VStr ''weight'')]),
     Assign (Tmp 379) (Nm (Temp 174)), Assign (Tmp 380) (Nm (Tmp 4)), Assign (Tmp 381) (Nm (Tmp 4)),
     Assign (Tmp 382) (Nm (Tmp 4)),
     Assign (Temp 178) (Call (Nm (Tmp 4)) [Attr (Call (Nm (Tmp 4)) [Nm (Tmp 363), Lit (VStr ''post_attention_layernorm'')]) ''_parameters'', Lit (VStr ''weight'')])]"

definition transformed_10 :: "'o stmt list" where
  "transformed_10 = [
     Assign (Tmp 383) (Nm (Temp 176)), Assign (Tmp 384) (Nm (Tmp 4)), Assign (Tmp 385) (Nm (Tmp 4)),
     Assign (Tmp 386) (Nm (Tmp 4)), Assign (Tmp 387) (Nm (Tmp 4)), Assign (Tmp 388) (Nm (Tmp 4)),
     Assign (Tmp 389) (Nm (Tmp 4)),
     Assign (Temp 181) (Call (Nm (Tmp 4)) [Attr (Call (Nm (Tmp 4)) [Attr (Call (Nm (Tmp 4)) [Nm (Tmp 363), Lit (VStr ''mlp'')]) ''_modules'', Lit (VStr ''gate_up_proj'')]) ''_parameters'', Lit (VStr ''weight'')]),
     Assign (Tmp 390) (Nm (Temp 178)), Assign (Tmp 391) (Nm (Tmp 4)), Assign (Tmp 392) (Nm (Tmp 4)),
     Assign (Tmp 393) (Nm (Tmp 4)),
     Assign (Temp 183) (Call (Nm (Tmp 4)) [Attr (Call (Nm (Tmp 4)) [Nm (Tmp 386), Lit (VStr ''down_proj'')]) ''_parameters'', Lit (VStr ''weight'')]),
     Assign (Tmp 394) (Nm (Temp 181)), Assign (Tmp 395) (Nm (Tmp 4)), Assign (Tmp 396) (Nm (Tmp 4)),
     Assign (Tmp 397) (Nm (Tmp 4)), Assign (Tmp 398) (Nm (Tmp 4)), Assign (Tmp 399) (Nm (Tmp 4)),
     Assign (Tmp 400) (Nm (Tmp 4)),
     Assign (Temp 186) (Call (Nm (Tmp 4)) [Attr (Call (Nm (Tmp 4)) [Attr (Call (Nm (Tmp 4)) [Nm (Tmp 14), Lit (VStr ''11'')]) ''_modules'', Lit (VStr ''input_layernorm'')]) ''_parameters'', Lit (VStr ''weight'')]),
     Assign (Tmp 401) (Nm (Temp 183)), Assign (Tmp 402) (Nm (Tmp 4)), Assign (Tmp 403) (Nm (Tmp 4)),
     Assign (Tmp 404) (Nm (Tmp 4)), Assign (Tmp 405) (Nm (Tmp 4)), Assign (Tmp 406) (Nm (Tmp 4)),
     Assign (Tmp 407) (Nm (Tmp 4)),
     Assign (Temp 189) (Call (Nm (Tmp 4)) [Attr (Call (Nm (Tmp 4)) [Attr (Call (Nm (Tmp 4)) [Nm (Tmp 397), Lit (VStr ''self_attn'')]) ''_modules'', Lit (VStr ''qkv_proj'')]) ''_parameters'', Lit (VStr ''bias'')]),
     Assign (Tmp 408) (Nm (Temp 186)), Assign (Temp 190) (Call (Nm (Tmp 4)) [Nm (Tmp 407), Lit (VStr ''weight'')]),
     Assign (Tmp 409) (Nm (Temp 189)), Assign (Tmp 410) (Nm (Tmp 4)), Assign (Tmp 411) (Nm (Tmp 4)),
     Assign (Tmp 412) (Nm (Tmp 4)),
     Assign (Temp 192) (Call (Nm (Tmp 4)) [Attr (Call (Nm (Tmp 4)) [Nm (Tmp 404), Lit (VStr ''o_proj'')]) ''_parameters'', Lit (VStr ''weight'')]),
     Assign (Tmp 413) (Nm (Temp 190)), Assign (Tmp 414) (Nm (Tmp 4)), Assign (Tmp 415) (Nm (Tmp 4)),
     Assign (Tmp 416) (Nm (Tmp 4)),
     Assign (Temp 194) (Call (Nm (Tmp 4)) [Attr (Call (Nm (Tmp 4)) [Nm (Tmp 397), Lit (VStr ''post_attention_layernorm'')]) ''_parameters'', Lit (VStr ''weight'')]),
     Assign (Tmp 417) (Nm (Temp 192)), Assign (Tmp 418) (Nm (Tmp 4)), Assign (Tmp 419) (Nm (Tmp 4)),
     Assign (Tmp 420) (Nm (Tmp 4)), Assign (Tmp 421) (Nm (Tmp 4)), Assign (Tmp 422) (Nm (Tmp 4)),
     Assign (Tmp 423) (Nm (Tmp 4)),
     Assign (Temp 197) (Call (Nm (Tmp 4)) [Attr (Call (Nm (Tmp 4)) [Attr (Call (Nm (Tmp 4)) [Nm (Tmp 397), Lit (VStr ''mlp'')]) ''_modules'', Lit (VStr ''gate_up_proj'')]) ''_parameters'', Lit (VStr ''weight'')]),
     Assign (Tmp 424) (Nm (Temp 194)), Assign (Tmp 425) (Nm (Tmp 4))]"

definition transformed_11 :: "'o stmt list" where
  "transformed_11 = [
     Assign (Tmp 426) (Nm (Tmp 4)), Assign (Tmp 427) (Nm (Tmp 4)),
     Assign (Temp 199) (Call (Nm (Tmp 4)) [Attr (Call (Nm (Tmp 4)) [Nm (Tmp 420), Lit (VStr ''down_proj'')]) ''_parameters'', Lit (VStr ''weight'')]),
     Assign (Tmp 428) (Nm (Temp 197)), Assign (Tmp 429) (Nm (Tmp 4)), Assign (Tmp 430) (Nm (Tmp 4)),
     Assign (Tmp 431) (Nm (Tmp 4)), Assign (Tmp 432) (Nm (Tmp 4)), Assign (Tmp 433) (Nm (Tmp 4)),
     Assign (Tmp 434) (Nm (Tmp 4)),
     Assign (Temp 202) (Call (Nm (Tmp 4)) [Attr (Call (Nm (Tmp 4)) [Attr (Call (Nm (Tmp 4)) [Nm (Tmp 14), Lit (VStr ''12'')]) ''_modules'', Lit (VStr ''input_layernorm'')]) ''_parameters'', Lit (VStr ''weight'')]),
     Assign (Tmp 435) (Nm (Temp 199)), Assign (Tmp 436) (Nm (Tmp 4)), Assign (Tmp 437) (Nm (Tmp 4)),
     Assign (Tmp 438) (Nm (Tmp 4)), Assign (Tmp 439) (Nm (Tmp 4)), Assign (Tmp 440) (Nm (Tmp 4)),
     Assign (Tmp 441) (Nm (Tmp 4)),
     Assign (Temp 205) (Call (Nm (Tmp 4)) [Attr (Call (Nm (Tmp 4)) [Attr (Call (Nm (Tmp 4)) [Nm (Tmp 431), Lit (VStr ''self_attn'')]) ''_modules'', Lit (VStr ''qkv_proj'')]) ''_parameters'', Lit (VStr ''bias'')]),
     Assign (Tmp 442) (Nm (Temp 202)), Assign (Temp 206) (Call (Nm (Tmp 4)) [Nm (Tmp 441), Lit (VStr ''weight'')]),
     Assign (Tmp 443) (Nm (Temp 205)), Assign (Tmp 444) (Nm (Tmp 4)), Assign (Tmp 445) (Nm (Tmp 4)),
     Assign (Tmp 446) (Nm (Tmp 4)),
     Assign (Temp 208) (Call (Nm (Tmp 4)) [Attr (Call (Nm (Tmp 4)) [Nm (Tmp 438), Lit (VStr ''o_proj'')]) ''_parameters'', Lit (VStr ''weight'')]),
     Assign (Tmp 447) (Nm (Temp 206)), Assign (Tmp 448) (Nm (Tmp 4)), Assign (Tmp 449) (Nm (Tmp 4)),
     Assign (Tmp 450) (Nm (Tmp 4)),
     Assign (Temp 210) (Call (Nm (Tmp 4)) [Attr (Call (Nm (Tmp 4)) [Nm (Tmp 431), Lit (VStr ''post_attention_layernorm'')]) ''_parameters'', Lit (VStr ''weight'')]),
     Assign (Tmp 451) (Nm (Temp 208)), Assign (Tmp 452) (Nm (Tmp 4)), Assign (Tmp 453) (Nm (Tmp 4)),
     Assign (Tmp 454) (Nm (Tmp 4)), Assign (Tmp 455) (Nm (Tmp 4)), Assign (Tmp 456) (Nm (Tmp 4)),
     Assign (Tmp 457) (Nm (Tmp 4)),
     Assign (Temp 213) (Call (Nm (Tmp 4)) [Attr (Call (Nm (Tmp 4)) [Attr (Call (Nm (Tmp 4)) [Nm (Tmp 431), Lit (VStr ''mlp'')]) ''_modules'', Lit (VStr ''gate_up_proj'')]) ''_parameters'', Lit (VStr ''weight'')]),
     Assign (Tmp 458) (Nm (Temp 210)), Assign (Tmp 459) (Nm (Tmp 4)), Assign (Tmp 460) (Nm (Tmp 4)),
     Assign (Tmp 461) (Nm (Tmp 4)),
     Assign (Temp 215) (Call (Nm (Tmp 4)) [Attr (Call (Nm (Tmp 4)) [Nm (Tmp 454), Lit (VStr ''down_proj'')]) ''_parameters'', Lit (VStr ''weight'')]),
     Assign (Tmp 462) (Nm (Temp 213)), Assign (Tmp 463) (Nm (Tmp 4)), Assign (Tmp 464) (Nm (Tmp 4)),
     Assign (Tmp 465) (Nm (Tmp 4)), Assign (Tmp 466) (Nm (Tmp 4)), Assign (Tmp 467) (Nm (Tmp 4)),
     Assign (Tmp 468) (Nm (Tmp 4))]"

definition transformed_12 :: "'o stmt list" where
  "transformed_12 = [
     Assign (Temp 218) (Call (Nm (Tmp 4)) [Attr (Call (Nm (Tmp 4)) [Attr (Call (Nm (Tmp 4)) [Nm (Tmp 14), Lit (VStr ''13'')]) ''_modules'', Lit (VStr ''input_layernorm'')]) ''_parameters'', Lit (VStr ''weight'')]),
     Assign (Tmp 469) (Nm (Temp 215)), Assign (Tmp 470) (Nm (Tmp 4)), Assign (Tmp 471) (Nm (Tmp 4)),
     Assign (Tmp 472) (Nm (Tmp 4)), Assign (Tmp 473) (Nm (Tmp 4)), Assign (Tmp 474) (Nm (Tmp 4)),
     Assign (Tmp 475) (Nm (Tmp 4)),
     Assign (Temp 221) (Call (Nm (Tmp 4)) [Attr (Call (Nm (Tmp 4)) [Attr (Call (Nm (Tmp 4)) [Nm (Tmp 465), Lit (VStr ''self_attn'')]) ''_modules'', Lit (VStr ''qkv_proj'')]) ''_parameters'', Lit (VStr ''bias'')]),
     Assign (Tmp 476) (Nm (Temp 218)), Assign (Temp 222) (Call (Nm (Tmp 4)) [Nm (Tmp 475), Lit (VStr ''weight'')]),
     Assign (Tmp 477) (Nm (Temp 221)), Assign (Tmp 478) (Nm (Tmp 4)), Assign (Tmp 479) (Nm (Tmp 4)),
     Assign (Tmp 480) (Nm (Tmp 4)),
     Assign (Temp 224) (Call (Nm (Tmp 4)) [Attr (Call (Nm (Tmp 4)) [Nm (Tmp 472), Lit (VStr ''o_proj'')]) ''_parameters'', Lit (VStr ''weight'')]),
     Assign (Tmp 481) (Nm (Temp 222)), Assign (Tmp 482) (Nm (Tmp 4)), Assign (Tmp 483) (Nm (Tmp 4)),
     Assign (Tmp 484) (Nm (Tmp 4)),
     Assign (Temp 226) (Call (Nm (Tmp 4)) [Attr (Call (Nm (Tmp 4)) [Nm (Tmp 465), Lit (VStr ''post_attention_layernorm'')]) ''_parameters'', Lit (VStr ''weight'')]),
     Assign (Tmp 485) (Nm (Temp 224)), Assign (Tmp 486) (Nm (Tmp 4)), Assign (Tmp 487) (Nm (Tmp 4)),
     Assign (Tmp 488) (Nm (Tmp 4)), Assign (Tmp 489) (Nm (Tmp 4)), Assign (Tmp 490) (Nm (Tmp 4)),
     Assign (Tmp 491) (Nm (Tmp 4)),
     Assign (Temp 229) (Call (Nm (Tmp 4)) [Attr (Call (Nm (Tmp 4)) [Attr (Call (Nm (Tmp 4)) [Nm (Tmp 465), Lit (VStr ''mlp'')]) ''_modules'', Lit (VStr ''gate_up_proj'')]) ''_parameters'', Lit (VStr ''weight'')]),
     Assign (Tmp 492) (Nm (Temp 226)), Assign (Tmp 493) (Nm (Tmp 4)), Assign (Tmp 494) (Nm (Tmp 4)),
     Assign (Tmp 495) (Nm (Tmp 4)),
     Assign (Temp 231) (Call (Nm (Tmp 4)) [Attr (Call (Nm (Tmp 4)) [Nm (Tmp 488), Lit (VStr ''down_proj'')]) ''_parameters'', Lit (VStr ''weight'')]),
     Assign (Tmp 496) (Nm (Temp 229)), Assign (Tmp 497) (Nm (Tmp 4)), Assign (Tmp 498) (Nm (Tmp 4)),
     Assign (Tmp 499) (Nm (Tmp 4)), Assign (Tmp 500) (Nm (Tmp 4)), Assign (Tmp 501) (Nm (Tmp 4)),
     Assign (Tmp 502) (Nm (Tmp 4)),
     Assign (Temp 234) (Call (Nm (Tmp 4)) [Attr (Call (Nm (Tmp 4)) [Attr (Call (Nm (Tmp 4)) [Nm (Tmp 14), Lit (VStr ''14'')]) ''_modules'', Lit (VStr ''input_layernorm'')]) ''_parameters'', Lit (VStr ''weight'')]),
     Assign (Tmp 503) (Nm (Temp 231)), Assign (Tmp 504) (Nm (Tmp 4)), Assign (Tmp 505) (Nm (Tmp 4)),
     Assign (Tmp 506) (Nm (Tmp 4)), Assign (Tmp 507) (Nm (Tmp 4)), Assign (Tmp 508) (Nm (Tmp 4)),
     Assign (Tmp 509) (Nm (Tmp 4)),
     Assign (Temp 237) (Call (Nm (Tmp 4)) [Attr (Call (Nm (Tmp 4)) [Attr (Call (Nm (Tmp 4)) [Nm (Tmp 499), Lit (VStr ''self_attn'')]) ''_modules'', Lit (VStr ''qkv_proj'')]) ''_parameters'', Lit (VStr ''bias'')])]"

definition transformed_13 :: "'o stmt list" where
  "transformed_13 = [
     Assign (Tmp 510) (Nm (Temp 234)), Assign (Temp 238) (Call (Nm (Tmp 4)) [Nm (Tmp 509), Lit (VStr ''weight'')]),
     Assign (Tmp 511) (Nm (Temp 237)), Assign (Tmp 512) (Nm (Tmp 4)), Assign (Tmp 513) (Nm (Tmp 4)),
     Assign (Tmp 514) (Nm (Tmp 4)),
     Assign (Temp 240) (Call (Nm (Tmp 4)) [Attr (Call (Nm (Tmp 4)) [Nm (Tmp 506), Lit (VStr ''o_proj'')]) ''_parameters'', Lit (VStr ''weight'')]),
     Assign (Tmp 515) (Nm (Temp 238)), Assign (Tmp 516) (Nm (Tmp 4)), Assign (Tmp 517) (Nm (Tmp 4)),
     Assign (Tmp 518) (Nm (Tmp 4)),
     Assign (Temp 242) (Call (Nm (Tmp 4)) [Attr (Call (Nm (Tmp 4)) [Nm (Tmp 499), Lit (VStr ''post_attention_layernorm'')]) ''_parameters'', Lit (VStr ''weight'')]),
     Assign (Tmp 519) (Nm (Temp 240)), Assign (Tmp 520) (Nm (Tmp 4)), Assign (Tmp 521) (Nm (Tmp 4)),
     Assign (Tmp 522) (Nm (Tmp 4)), Assign (Tmp 523) (Nm (Tmp 4)), Assign (Tmp 524) (Nm (Tmp 4)),
     Assign (Tmp 525) (Nm (Tmp 4)),
     Assign (Temp 245) (Call (Nm (Tmp 4)) [Attr (Call (Nm (Tmp 4)) [Attr (Call (Nm (Tmp 4)) [Nm (Tmp 499), Lit (VStr ''mlp'')]) ''_modules'', Lit (VStr ''gate_up_proj'')]) ''_parameters'', Lit (VStr ''weight'')]),
     Assign (Tmp 526) (Nm (Temp 242)), Assign (Tmp 527) (Nm (Tmp 4)), Assign (Tmp 528) (Nm (Tmp 4)),
     Assign (Tmp 529) (Nm (Tmp 4)),
     Assign (Temp 247) (Call (Nm (Tmp 4)) [Attr (Call (Nm (Tmp 4)) [Nm (Tmp 522), Lit (VStr ''down_proj'')]) ''_parameters'', Lit (VStr ''weight'')]),
     Assign (Tmp 530) (Nm (Temp 245)), Assign (Tmp 531) (Nm (Tmp 4)), Assign (Tmp 532) (Nm (Tmp 4)),
     Assign (Tmp 533) (Nm (Tmp 4)), Assign (Tmp 534) (Nm (Tmp 4)), Assign (Tmp 535) (Nm (Tmp 4)),
     Assign (Tmp 536) (Nm (Tmp 4)),
     Assign (Temp 250) (Call (Nm (Tmp 4)) [Attr (Call (Nm (Tmp 4)) [Attr (Call (Nm (Tmp 4)) [Nm (Tmp 14), Lit (VStr ''15'')]) ''_modules'', Lit (VStr ''input_layernorm'')]) ''_parameters'', Lit (VStr ''weight'')]),
     Assign (Tmp 537) (Nm (Temp 247)), Assign (Tmp 538) (Nm (Tmp 4)), Assign (Tmp 539) (Nm (Tmp 4)),
     Assign (Tmp 540) (Nm (Tmp 4)), Assign (Tmp 541) (Nm (Tmp 4)), Assign (Tmp 542) (Nm (Tmp 4)),
     Assign (Tmp 543) (Nm (Tmp 4)),
     Assign (Temp 253) (Call (Nm (Tmp 4)) [Attr (Call (Nm (Tmp 4)) [Attr (Call (Nm (Tmp 4)) [Nm (Tmp 533), Lit (VStr ''self_attn'')]) ''_modules'', Lit (VStr ''qkv_proj'')]) ''_parameters'', Lit (VStr ''bias'')]),
     Assign (Tmp 544) (Nm (Temp 250)), Assign (Temp 254) (Call (Nm (Tmp 4)) [Nm (Tmp 543), Lit (VStr ''weight'')]),
     Assign (Tmp 545) (Nm (Temp 253)), Assign (Tmp 546) (Nm (Tmp 4)), Assign (Tmp 547) (Nm (Tmp 4)),
     Assign (Tmp 548) (Nm (Tmp 4)),
     Assign (Temp 256) (Call (Nm (Tmp 4)) [Attr (Call (Nm (Tmp 4)) [Nm (Tmp 540), Lit (VStr ''o_proj'')]) ''_parameters'', Lit (VStr ''weight'')]),
     Assign (Tmp 549) (Nm (Temp 254)), Assign (Tmp 550) (Nm (Tmp 4)), Assign (Tmp 551) (Nm (Tmp 4)),
     Assign (Tmp 552) (Nm (Tmp 4))]"

definition transformed_14 :: "'o stmt list" where
  "transformed_14 = [
     Assign (Temp 258) (Call (Nm (Tmp 4)) [Attr (Call (Nm (Tmp 4)) [Nm (Tmp 533), Lit (VStr ''post_attention_layernorm'')]) ''_parameters'', Lit (VStr ''weight'')]),
     Assign (Tmp 553) (Nm (Temp 256)), Assign (Tmp 554) (Nm (Tmp 4)), Assign (Tmp 555) (Nm (Tmp 4)),
     Assign (Tmp 556) (Nm (Tmp 4)), Assign (Tmp 557) (Nm (Tmp 4)), Assign (Tmp 558) (Nm (Tmp 4)),
     Assign (Tmp 559) (Nm (Tmp 4)),
     Assign (Temp 261) (Call (Nm (Tmp 4)) [Attr (Call (Nm (Tmp 4)) [Attr (Call (Nm (Tmp 4)) [Nm (Tmp 533), Lit (VStr ''mlp'')]) ''_modules'', Lit (VStr ''gate_up_proj'')]) ''_parameters'', Lit (VStr ''weight'')]),
     Assign (Tmp 560) (Nm (Temp 258)), Assign (Tmp 561) (Nm (Tmp 4)), Assign (Tmp 562) (Nm (Tmp 4)),
     Assign (Tmp 563) (Nm (Tmp 4)),
     Assign (Temp 263) (Call (Nm (Tmp 4)) [Attr (Call (Nm (Tmp 4)) [Nm (Tmp 556), Lit (VStr ''down_proj'')]) ''_parameters'', Lit (VStr ''weight'')]),
     Assign (Tmp 564) (Nm (Temp 261)), Assign (Tmp 565) (Nm (Tmp 4)), Assign (Tmp 566) (Nm (Tmp 4)),
     Assign (Tmp 567) (Nm (Tmp 4)), Assign (Tmp 568) (Nm (Tmp 4)), Assign (Tmp 569) (Nm (Tmp 4)),
     Assign (Tmp 570) (Nm (Tmp 4)),
     Assign (Temp 266) (Call (Nm (Tmp 4)) [Attr (Call (Nm (Tmp 4)) [Attr (Call (Nm (Tmp 4)) [Nm (Tmp 14), Lit (VStr ''16'')]) ''_modules'', Lit (VStr ''input_layernorm'')]) ''_parameters'', Lit (VStr ''weight'')]),
     Assign (Tmp 571) (Nm (Temp 263)), Assign (Tmp 572) (Nm (Tmp 4)), Assign (Tmp 573) (Nm (Tmp 4)),
     Assign (Tmp 574) (Nm (Tmp 4)), Assign (Tmp 575) (Nm (Tmp 4)), Assign (Tmp 576) (Nm (Tmp 4)),
     Assign (Tmp 577) (Nm (Tmp 4)),
     Assign (Temp 269) (Call (Nm (Tmp 4)) [Attr (Call (Nm (Tmp 4)) [Attr (Call (Nm (Tmp 4)) [Nm (Tmp 567), Lit (VStr ''self_attn'')]) ''_modules'', Lit (VStr ''qkv_proj'')]) ''_parameters'', Lit (VStr ''bias'')]),
     Assign (Tmp 578) (Nm (Temp 266)), Assign (Temp 270) (Call (Nm (Tmp 4)) [Nm (Tmp 577), Lit (VStr ''weight'')]),
     Assign (Tmp 579) (Nm (Temp 269)), Assign (Tmp 580) (Nm (Tmp 4)), Assign (Tmp 581) (Nm (Tmp 4)),
     Assign (Tmp 582) (Nm (Tmp 4)),
     Assign (Temp 272) (Call (Nm (Tmp 4)) [Attr (Call (Nm (Tmp 4)) [Nm (Tmp 574), Lit (VStr ''o_proj'')]) ''_parameters'', Lit (VStr ''weight'')]),
     Assign (Tmp 583) (Nm (Temp 270)), Assign (Tmp 584) (Nm (Tmp 4)), Assign (Tmp 585) (Nm (Tmp 4)),
     Assign (Tmp 586) (Nm (Tmp 4)),
     Assign (Temp 274) (Call (Nm (Tmp 4)) [Attr (Call (Nm (Tmp 4)) [Nm (Tmp 567), Lit (VStr ''post_attention_layernorm'')]) ''_parameters'', Lit (VStr ''weight'')]),
     Assign (Tmp 587) (Nm (Temp 272)), Assign (Tmp 588) (Nm (Tmp 4)), Assign (Tmp 589) (Nm (Tmp 4)),
     Assign (Tmp 590) (Nm (Tmp 4)), Assign (Tmp 591) (Nm (Tmp 4)), Assign (Tmp 592) (Nm (Tmp 4)),
     Assign (Tmp 593) (Nm (Tmp 4)),
     Assign (Temp 277) (Call (Nm (Tmp 4)) [Attr (Call (Nm (Tmp 4)) [Attr (Call (Nm (Tmp 4)) [Nm (Tmp 567), Lit (VStr ''mlp'')]) ''_modules'', Lit (VStr ''gate_up_proj'')]) ''_parameters'', Lit (VStr ''weight'')])]"

definition transformed_15 :: "'o stmt list" where
  "transformed_15 = [
     Assign (Tmp 594) (Nm (Temp 274)), Assign (Tmp 595) (Nm (Tmp 4)), Assign (Tmp 596) (Nm (Tmp 4)),
     Assign (Tmp 597) (Nm (Tmp 4)),
     Assign (Temp 279) (Call (Nm (Tmp 4)) [Attr (Call (Nm (Tmp 4)) [Nm (Tmp 590), Lit (VStr ''down_proj'')]) ''_parameters'', Lit (VStr ''weight'')]),
     Assign (Tmp 598) (Nm (Temp 277)), Assign (Tmp 599) (Nm (Tmp 4)), Assign (Tmp 600) (Nm (Tmp 4)),
     Assign (Tmp 601) (Nm (Tmp 4)), Assign (Tmp 602) (Nm (Tmp 4)), Assign (Tmp 603) (Nm (Tmp 4)),
     Assign (Tmp 604) (Nm (Tmp 4)),
     Assign (Temp 282) (Call (Nm (Tmp 4)) [Attr (Call (Nm (Tmp 4)) [Attr (Call (Nm (Tmp 4)) [Nm (Tmp 14), Lit (VStr ''17'')]) ''_modules'', Lit (VStr ''input_layernorm'')]) ''_parameters'', Lit (VStr ''weight'')]),
     Assign (Tmp 605) (Nm (Temp 279)), Assign (Tmp 606) (Nm (Tmp 4)), Assign (Tmp 607) (Nm (Tmp 4)),
     Assign (Tmp 608) (Nm (Tmp 4)), Assign (Tmp 609) (Nm (Tmp 4)), Assign (Tmp 610) (Nm (Tmp 4)),
     Assign (Tmp 611) (Nm (Tmp 4)),
     Assign (Temp 285) (Call (Nm (Tmp 4)) [Attr (Call (Nm (Tmp 4)) [Attr (Call (Nm (Tmp 4)) [Nm (Tmp 601), Lit (VStr ''self_attn'')]) ''_modules'', Lit (VStr ''qkv_proj'')]) ''_parameters'', Lit (VStr ''bias'')]),
     Assign (Tmp 612) (Nm (Temp 282)), Assign (Temp 286) (Call (Nm (Tmp 4)) [Nm (Tmp 611), Lit (VStr ''weight'')]),
     Assign (Tmp 613) (Nm (Temp 285)), Assign (Tmp 614) (Nm (Tmp 4)), Assign (Tmp 615) (Nm (Tmp 4)),
     Assign (Tmp 616) (Nm (Tmp 4)),
     Assign (Temp 288) (Call (Nm (Tmp 4)) [Attr (Call (Nm (Tmp 4)) [Nm (Tmp 608), Lit (VStr ''o_proj'')]) ''_parameters'', Lit (VStr ''weight'')]),
     Assign (Tmp 617) (Nm (Temp 286)), Assign (Tmp 618) (Nm (Tmp 4)), Assign (Tmp 619) (Nm (Tmp 4)),
     Assign (Tmp 620) (Nm (Tmp 4)),
     Assign (Temp 290) (Call (Nm (Tmp 4)) [Attr (Call (Nm (Tmp 4)) [Nm (Tmp 601), Lit (VStr ''post_attention_layernorm'')]) ''_parameters'', Lit (VStr ''weight'')]),
     Assign (Tmp 621) (Nm (Temp 288)), Assign (Tmp 622) (Nm (Tmp 4)), Assign (Tmp 623) (Nm (Tmp 4)),
     Assign (Tmp 624) (Nm (Tmp 4)), Assign (Tmp 625) (Nm (Tmp 4)), Assign (Tmp 626) (Nm (Tmp 4)),
     Assign (Tmp 627) (Nm (Tmp 4)),
     Assign (Temp 293) (Call (Nm (Tmp 4)) [Attr (Call (Nm (Tmp 4)) [Attr (Call (Nm (Tmp 4)) [Nm (Tmp 601), Lit (VStr ''mlp'')]) ''_modules'', Lit (VStr ''gate_up_proj'')]) ''_parameters'', Lit (VStr ''weight'')]),
     Assign (Tmp 628) (Nm (Temp 290)), Assign (Tmp 629) (Nm (Tmp 4)), Assign (Tmp 630) (Nm (Tmp 4)),
     Assign (Tmp 631) (Nm (Tmp 4)),
     Assign (Temp 295) (Call (Nm (Tmp 4)) [Attr (Call (Nm (Tmp 4)) [Nm (Tmp 624), Lit (VStr ''down_proj'')]) ''_parameters'', Lit (VStr ''weight'')]),
     Assign (Tmp 632) (Nm (Temp 293)), Assign (Tmp 633) (Nm (Tmp 4)), Assign (Tmp 634) (Nm (Tmp 4)),
     Assign (Tmp 635) (Nm (Tmp 4)), Assign (Tmp 636) (Nm (Tmp 4)), Assign (Tmp 637) (Nm (Tmp 4))]"

definition transformed_16 :: "'o stmt list" where
  "transformed_16 = [
     Assign (Tmp 638) (Nm (Tmp 4)),
     Assign (Temp 298) (Call (Nm (Tmp 4)) [Attr (Call (Nm (Tmp 4)) [Attr (Call (Nm (Tmp 4)) [Nm (Tmp 14), Lit (VStr ''18'')]) ''_modules'', Lit (VStr ''input_layernorm'')]) ''_parameters'', Lit (VStr ''weight'')]),
     Assign (Tmp 639) (Nm (Temp 295)), Assign (Tmp 640) (Nm (Tmp 4)), Assign (Tmp 641) (Nm (Tmp 4)),
     Assign (Tmp 642) (Nm (Tmp 4)), Assign (Tmp 643) (Nm (Tmp 4)), Assign (Tmp 644) (Nm (Tmp 4)),
     Assign (Tmp 645) (Nm (Tmp 4)),
     Assign (Temp 301) (Call (Nm (Tmp 4)) [Attr (Call (Nm (Tmp 4)) [Attr (Call (Nm (Tmp 4)) [Nm (Tmp 635), Lit (VStr ''self_attn'')]) ''_modules'', Lit (VStr ''qkv_proj'')]) ''_parameters'', Lit (VStr ''bias'')]),
     Assign (Tmp 646) (Nm (Temp 298)), Assign (Temp 302) (Call (Nm (Tmp 4)) [Nm (Tmp 645), Lit (VStr ''weight'')]),
     Assign (Tmp 647) (Nm (Temp 301)), Assign (Tmp 648) (Nm (Tmp 4)), Assign (Tmp 649) (Nm (Tmp 4)),
     Assign (Tmp 650) (Nm (Tmp 4)),
     Assign (Temp 304) (Call (Nm (Tmp 4)) [Attr (Call (Nm (Tmp 4)) [Nm (Tmp 642), Lit (VStr ''o_proj'')]) ''_parameters'', Lit (VStr ''weight'')]),
     Assign (Tmp 651) (Nm (Temp 302)), Assign (Tmp 652) (Nm (Tmp 4)), Assign (Tmp 653) (Nm (Tmp 4)),
     Assign (Tmp 654) (Nm (Tmp 4)),
     Assign (Temp 306) (Call (Nm (Tmp 4)) [Attr (Call (Nm (Tmp 4)) [Nm (Tmp 635), Lit (VStr ''post_attention_layernorm'')]) ''_parameters'', Lit (VStr ''weight'')]),
     Assign (Tmp 655) (Nm (Temp 304)), Assign (Tmp 656) (Nm (Tmp 4)), Assign (Tmp 657) (Nm (Tmp 4)),
     Assign (Tmp 658) (Nm (Tmp 4)), Assign (Tmp 659) (Nm (Tmp 4)), Assign (Tmp 660) (Nm (Tmp 4)),
     Assign (Tmp 661) (Nm (Tmp 4)),
     Assign (Temp 309) (Call (Nm (Tmp 4)) [Attr (Call (Nm (Tmp 4)) [Attr (Call (Nm (Tmp 4)) [Nm (Tmp 635), Lit (VStr ''mlp'')]) ''_modules'', Lit (VStr ''gate_up_proj'')]) ''_parameters'', Lit (VStr ''weight'')]),
     Assign (Tmp 662) (Nm (Temp 306)), Assign (Tmp 663) (Nm (Tmp 4)), Assign (Tmp 664) (Nm (Tmp 4)),
     Assign (Tmp 665) (Nm (Tmp 4)),
     Assign (Temp 311) (Call (Nm (Tmp 4)) [Attr (Call (Nm (Tmp 4)) [Nm (Tmp 658), Lit (VStr ''down_proj'')]) ''_parameters'', Lit (VStr ''weight'')]),
     Assign (Tmp 666) (Nm (Temp 309)), Assign (Tmp 667) (Nm (Tmp 4)), Assign (Tmp 668) (Nm (Tmp 4)),
     Assign (Tmp 669) (Nm (Tmp 4)), Assign (Tmp 670) (Nm (Tmp 4)), Assign (Tmp 671) (Nm (Tmp 4)),
     Assign (Tmp 672) (Nm (Tmp 4)),
     Assign (Temp 314) (Call (Nm (Tmp 4)) [Attr (Call (Nm (Tmp 4)) [Attr (Call (Nm (Tmp 4)) [Nm (Tmp 14), Lit (VStr ''19'')]) ''_modules'', Lit (VStr ''input_layernorm'')]) ''_parameters'', Lit (VStr ''weight'')]),
     Assign (Tmp 673) (Nm (Temp 311)), Assign (Tmp 674) (Nm (Tmp 4)), Assign (Tmp 675) (Nm (Tmp 4)),
     Assign (Tmp 676) (Nm (Tmp 4)), Assign (Tmp 677) (Nm (Tmp 4)), Assign (Tmp 678) (Nm (Tmp 4)),
     Assign (Tmp 679) (Nm (Tmp 4))]"

definition transformed_17 :: "'o stmt list" where
  "transformed_17 = [
     Assign (Temp 317) (Call (Nm (Tmp 4)) [Attr (Call (Nm (Tmp 4)) [Attr (Call (Nm (Tmp 4)) [Nm (Tmp 669), Lit (VStr ''self_attn'')]) ''_modules'', Lit (VStr ''qkv_proj'')]) ''_parameters'', Lit (VStr ''bias'')]),
     Assign (Tmp 680) (Nm (Temp 314)), Assign (Temp 318) (Call (Nm (Tmp 4)) [Nm (Tmp 679), Lit (VStr ''weight'')]),
     Assign (Tmp 681) (Nm (Temp 317)), Assign (Tmp 682) (Nm (Tmp 4)), Assign (Tmp 683) (Nm (Tmp 4)),
     Assign (Tmp 684) (Nm (Tmp 4)),
     Assign (Temp 320) (Call (Nm (Tmp 4)) [Attr (Call (Nm (Tmp 4)) [Nm (Tmp 676), Lit (VStr ''o_proj'')]) ''_parameters'', Lit (VStr ''weight'')]),
     Assign (Tmp 685) (Nm (Temp 318)), Assign (Tmp 686) (Nm (Tmp 4)), Assign (Tmp 687) (Nm (Tmp 4)),
     Assign (Tmp 688) (Nm (Tmp 4)),
     Assign (Temp 322) (Call (Nm (Tmp 4)) [Attr (Call (Nm (Tmp 4)) [Nm (Tmp 669), Lit (VStr ''post_attention_layernorm'')]) ''_parameters'', Lit (VStr ''weight'')]),
     Assign (Tmp 689) (Nm (Temp 320)), Assign (Tmp 690) (Nm (Tmp 4)), Assign (Tmp 691) (Nm (Tmp 4)),
     Assign (Tmp 692) (Nm (Tmp 4)), Assign (Tmp 693) (Nm (Tmp 4)), Assign (Tmp 694) (Nm (Tmp 4)),
     Assign (Tmp 695) (Nm (Tmp 4)),
     Assign (Temp 325) (Call (Nm (Tmp 4)) [Attr (Call (Nm (Tmp 4)) [Attr (Call (Nm (Tmp 4)) [Nm (Tmp 669), Lit (VStr ''mlp'')]) ''_modules'', Lit (VStr ''gate_up_proj'')]) ''_parameters'', Lit (VStr ''weight'')]),
     Assign (Tmp 696) (Nm (Temp 322)), Assign (Tmp 697) (Nm (Tmp 4)), Assign (Tmp 698) (Nm (Tmp 4)),
     Assign (Tmp 699) (Nm (Tmp 4)),
     Assign (Temp 327) (Call (Nm (Tmp 4)) [Attr (Call (Nm (Tmp 4)) [Nm (Tmp 692), Lit (VStr ''down_proj'')]) ''_parameters'', Lit (VStr ''weight'')]),
     Assign (Tmp 700) (Nm (Temp 325)), Assign (Tmp 701) (Nm (Tmp 4)), Assign (Tmp 702) (Nm (Tmp 4)),
     Assign (Tmp 703) (Nm (Tmp 4)), Assign (Tmp 704) (Nm (Tmp 4)), Assign (Tmp 705) (Nm (Tmp 4)),
     Assign (Tmp 706) (Nm (Tmp 4)),
     Assign (Temp 330) (Call (Nm (Tmp 4)) [Attr (Call (Nm (Tmp 4)) [Attr (Call (Nm (Tmp 4)) [Nm (Tmp 14), Lit (VStr ''20'')]) ''_modules'', Lit (VStr ''input_layernorm'')]) ''_parameters'', Lit (VStr ''weight'')]),
     Assign (Tmp 707) (Nm (Temp 327)), Assign (Tmp 708) (Nm (Tmp 4)), Assign (Tmp 709) (Nm (Tmp 4)),
     Assign (Tmp 710) (Nm (Tmp 4)), Assign (Tmp 711) (Nm (Tmp 4)), Assign (Tmp 712) (Nm (Tmp 4)),
     Assign (Tmp 713) (Nm (Tmp 4)),
     Assign (Temp 333) (Call (Nm (Tmp 4)) [Attr (Call (Nm (Tmp 4)) [Attr (Call (Nm (Tmp 4)) [Nm (Tmp 703), Lit (VStr ''self_attn'')]) ''_modules'', Lit (VStr ''qkv_proj'')]) ''_parameters'', Lit (VStr ''bias'')]),
     Assign (Tmp 714) (Nm (Temp 330)), Assign (Temp 334) (Call (Nm (Tmp 4)) [Nm (Tmp 713), Lit (VStr ''weight'')]),
     Assign (Tmp 715) (Nm (Temp 333)), Assign (Tmp 716) (Nm (Tmp 4)), Assign (Tmp 717) (Nm (Tmp 4)),
     Assign (Tmp 718) (Nm (Tmp 4)),
     Assign (Temp 336) (Call (Nm (Tmp 4)) [Attr (Call (Nm (Tmp 4)) [Nm (Tmp 710), Lit (VStr ''o_proj'')]) ''_parameters'', Lit (VStr ''weight'')]),
     Assign (Tmp 719) (Nm (Temp 334)), Assign (Tmp 720) (Nm (Tmp 4))]"

definition transformed_18 :: "'o stmt list" where
  "transformed_18 = [
     Assign (Tmp 721) (Nm (Tmp 4)), Assign (Tmp 722) (Nm (Tmp 4)),
     Assign (Temp 338) (Call (Nm (Tmp 4)) [Attr (Call (Nm (Tmp 4)) [Nm (Tmp 703), Lit (VStr ''post_attention_layernorm'')]) ''_parameters'', Lit (VStr ''weight'')]),
     Assign (Tmp 723) (Nm (Temp 336)), Assign (Tmp 724) (Nm (Tmp 4)), Assign (Tmp 725) (Nm (Tmp 4)),
     Assign (Tmp 726) (Nm (Tmp 4)), Assign (Tmp 727) (Nm (Tmp 4)), Assign (Tmp 728) (Nm (Tmp 4)),
     Assign (Tmp 729) (Nm (Tmp 4)),
     Assign (Temp 341) (Call (Nm (Tmp 4)) [Attr (Call (Nm (Tmp 4)) [Attr (Call (Nm (Tmp 4)) [Nm (Tmp 703), Lit (VStr ''mlp'')]) ''_modules'', Lit (VStr ''gate_up_proj'')]) ''_parameters'', Lit (VStr ''weight'')]),
     Assign (Tmp 730) (Nm (Temp 338)), Assign (Tmp 731) (Nm (Tmp 4)), Assign (Tmp 732) (Nm (Tmp 4)),
     Assign (Tmp 733) (Nm (Tmp 4)),
     Assign (Temp 343) (Call (Nm (Tmp 4)) [Attr (Call (Nm (Tmp 4)) [Nm (Tmp 726), Lit (VStr ''down_proj'')]) ''_parameters'', Lit (VStr ''weight'')]),
     Assign (Tmp 734) (Nm (Temp 341)), Assign (Tmp 735) (Nm (Tmp 4)), Assign (Tmp 736) (Nm (Tmp 4)),
     Assign (Tmp 737) (Nm (Tmp 4)), Assign (Tmp 738) (Nm (Tmp 4)), Assign (Tmp 739) (Nm (Tmp 4)),
     Assign (Tmp 740) (Nm (Tmp 4)),
     Assign (Temp 346) (Call (Nm (Tmp 4)) [Attr (Call (Nm (Tmp 4)) [Attr (Call (Nm (Tmp 4)) [Nm (Tmp 14), Lit (VStr ''21'')]) ''_modules'', Lit (VStr ''input_layernorm'')]) ''_parameters'', Lit (VStr ''weight'')]),
     Assign (Tmp 741) (Nm (Temp 343)), Assign (Tmp 742) (Nm (Tmp 4)), Assign (Tmp 743) (Nm (Tmp 4)),
     Assign (Tmp 744) (Nm (Tmp 4)), Assign (Tmp 745) (Nm (Tmp 4)), Assign (Tmp 746) (Nm (Tmp 4)),
     Assign (Tmp 747) (Nm (Tmp 4)),
     Assign (Temp 349) (Call (Nm (Tmp 4)) [Attr (Call (Nm (Tmp 4)) [Attr (Call (Nm (Tmp 4)) [Nm (Tmp 737), Lit (VStr ''self_attn'')]) ''_modules'', Lit (VStr ''qkv_proj'')]) ''_parameters'', Lit (VStr ''bias'')]),
     Assign (Tmp 748) (Nm (Temp 346)), Assign (Temp 350) (Call (Nm (Tmp 4)) [Nm (Tmp 747), Lit (VStr ''weight'')]),
     Assign (Tmp 749) (Nm (Temp 349)), Assign (Tmp 750) (Nm (Tmp 4)), Assign (Tmp 751) (Nm (Tmp 4)),
     Assign (Tmp 752) (Nm (Tmp 4)),
     Assign (Temp 352) (Call (Nm (Tmp 4)) [Attr (Call (Nm (Tmp 4)) [Nm (Tmp 744), Lit (VStr ''o_proj'')]) ''_parameters'', Lit (VStr ''weight'')]),
     Assign (Tmp 753) (Nm (Temp 350)), Assign (Tmp 754) (Nm (Tmp 4)), Assign (Tmp 755) (Nm (Tmp 4)),
     Assign (Tmp 756) (Nm (Tmp 4)),
     Assign (Temp 354) (Call (Nm (Tmp 4)) [Attr (Call (Nm (Tmp 4)) [Nm (Tmp 737), Lit (VStr ''post_attention_layernorm'')]) ''_parameters'', Lit (VStr ''weight'')]),
     Assign (Tmp 757) (Nm (Temp 352)), Assign (Tmp 758) (Nm (Tmp 4)), Assign (Tmp 759) (Nm (Tmp 4)),
     Assign (Tmp 760) (Nm (Tmp 4)), Assign (Tmp 761) (Nm (Tmp 4)), Assign (Tmp 762) (Nm (Tmp 4)),
     Assign (Tmp 763) (Nm (Tmp 4))]"

definition transformed_19 :: "'o stmt list" where
  "transformed_19 = [
     Assign (Temp 357) (Call (Nm (Tmp 4)) [Attr (Call (Nm (Tmp 4)) [Attr (Call (Nm (Tmp 4)) [Nm (Tmp 737), Lit (VStr ''mlp'')]) ''_modules'', Lit (VStr ''gate_up_proj'')]) ''_parameters'', Lit (VStr ''weight'')]),
     Assign (Tmp 764) (Nm (Temp 354)), Assign (Tmp 765) (Nm (Tmp 4)), Assign (Tmp 766) (Nm (Tmp 4)),
     Assign (Tmp 767) (Nm (Tmp 4)),
     Assign (Temp 359) (Call (Nm (Tmp 4)) [Attr (Call (Nm (Tmp 4)) [Nm (Tmp 760), Lit (VStr ''down_proj'')]) ''_parameters'', Lit (VStr ''weight'')]),
     Assign (Tmp 768) (Nm (Temp 357)), Assign (Tmp 769) (Nm (Tmp 4)), Assign (Tmp 770) (Nm (Tmp 4)),
     Assign (Tmp 771) (Nm (Tmp 4)), Assign (Tmp 772) (Nm (Tmp 4)), Assign (Tmp 773) (Nm (Tmp 4)),
     Assign (Tmp 774) (Nm (Tmp 4)),
     Assign (Temp 362) (Call (Nm (Tmp 4)) [Attr (Call (Nm (Tmp 4)) [Attr (Call (Nm (Tmp 4)) [Nm (Tmp 14), Lit (VStr ''22'')]) ''_modules'', Lit (VStr ''input_layernorm'')]) ''_parameters'', Lit (VStr ''weight'')]),
     Assign (Tmp 775) (Nm (Temp 359)), Assign (Tmp 776) (Nm (Tmp 4)), Assign (Tmp 777) (Nm (Tmp 4)),
     Assign (Tmp 778) (Nm (Tmp 4)), Assign (Tmp 779) (Nm (Tmp 4)), Assign (Tmp 780) (Nm (Tmp 4)),
     Assign (Tmp 781) (Nm (Tmp 4)),
     Assign (Temp 365) (Call (Nm (Tmp 4)) [Attr (Call (Nm (Tmp 4)) [Attr (Call (Nm (Tmp 4)) [Nm (Tmp 771), Lit (VStr ''self_attn'')]) ''_modules'', Lit (VStr ''qkv_proj'')]) ''_parameters'', Lit (VStr ''bias'')]),
     Assign (Tmp 782) (Nm (Temp 362)), Assign (Temp 366) (Call (Nm (Tmp 4)) [Nm (Tmp 781), Lit (VStr ''weight'')]),
     Assign (Tmp 783) (Nm (Temp 365)), Assign (Tmp 784) (Nm (Tmp 4)), Assign (Tmp 785) (Nm (Tmp 4)),
     Assign (Tmp 786) (Nm (Tmp 4)),
     Assign (Temp 368) (Call (Nm (Tmp 4)) [Attr (Call (Nm (Tmp 4)) [Nm (Tmp 778), Lit (VStr ''o_proj'')]) ''_parameters'', Lit (VStr ''weight'')]),
     Assign (Tmp 787) (Nm (Temp 366)), Assign (Tmp 788) (Nm (Tmp 4)), Assign (Tmp 789) (Nm (Tmp 4)),
     Assign (Tmp 790) (Nm (Tmp 4)),
     Assign (Temp 370) (Call (Nm (Tmp 4)) [Attr (Call (Nm (Tmp 4)) [Nm (Tmp 771), Lit (VStr ''post_attention_layernorm'')]) ''_parameters'', Lit (VStr ''weight'')]),
     Assign (Tmp 791) (Nm (Temp 368)), Assign (Tmp 792) (Nm (Tmp 4)), Assign (Tmp 793) (Nm (Tmp 4)),
     Assign (Tmp 794) (Nm (Tmp 4)), Assign (Tmp 795) (Nm (Tmp 4)), Assign (Tmp 796) (Nm (Tmp 4)),
     Assign (Tmp 797) (Nm (Tmp 4)),
     Assign (Temp 373) (Call (Nm (Tmp 4)) [Attr (Call (Nm (Tmp 4)) [Attr (Call (Nm (Tmp 4)) [Nm (Tmp 771), Lit (VStr ''mlp'')]) ''_modules'', Lit (VStr ''gate_up_proj'')]) ''_parameters'', Lit (VStr ''weight'')]),
     Assign (Tmp 798) (Nm (Temp 370)), Assign (Tmp 799) (Nm (Tmp 4)), Assign (Tmp 800) (Nm (Tmp 4)),
     Assign (Tmp 801) (Nm (Tmp 4)),
     Assign (Temp 375) (Call (Nm (Tmp 4)) [Attr (Call (Nm (Tmp 4)) [Nm (Tmp 794), Lit (VStr ''down_proj'')]) ''_parameters'', Lit (VStr ''weight'')]),
     Assign (Tmp 802) (Nm (Temp 373)), Assign (Tmp 803) (Nm (Tmp 4)), Assign (Tmp 804) (Nm (Tmp 4)),
     Assign (Tmp 805) (Nm (Tmp 4))]"

definition transformed_20 :: "'o stmt list" where
  "transformed_20 = [
     Assign (Tmp 806) (Nm (Tmp 4)), Assign (Tmp 807) (Nm (Tmp 4)), Assign (Tmp 808) (Nm (Tmp 4)),
     Assign (Temp 378) (Call (Nm (Tmp 4)) [Attr (Call (Nm (Tmp 4)) [Attr (Call (Nm (Tmp 4)) [Nm (Tmp 14), Lit (VStr ''23'')]) ''_modules'', Lit (VStr ''input_layernorm'')]) ''_parameters'', Lit (VStr ''weight'')]),
     Assign (Tmp 809) (Nm (Temp 375)), Assign (Tmp 810) (Nm (Tmp 4)), Assign (Tmp 811) (Nm (Tmp 4)),
     Assign (Tmp 812) (Nm (Tmp 4)), Assign (Tmp 813) (Nm (Tmp 4)), Assign (Tmp 814) (Nm (Tmp 4)),
     Assign (Tmp 815) (Nm (Tmp 4)),
     Assign (Temp 381) (Call (Nm (Tmp 4)) [Attr (Call (Nm (Tmp 4)) [Attr (Call (Nm (Tmp 4)) [Nm (Tmp 805), Lit (VStr ''self_attn'')]) ''_modules'', Lit (VStr ''qkv_proj'')]) ''_parameters'', Lit (VStr ''bias'')]),
     Assign (Tmp 816) (Nm (Temp 378)), Assign (Temp 382) (Call (Nm (Tmp 4)) [Nm (Tmp 815), Lit (VStr ''weight'')]),
     Assign (Tmp 817) (Nm (Temp 381)), Assign (Tmp 818) (Nm (Tmp 4)), Assign (Tmp 819) (Nm (Tmp 4)),
     Assign (Tmp 820) (Nm (Tmp 4)),
     Assign (Temp 384) (Call (Nm (Tmp 4)) [Attr (Call (Nm (Tmp 4)) [Nm (Tmp 812), Lit (VStr ''o_proj'')]) ''_parameters'', Lit (VStr ''weight'')]),
     Assign (Tmp 821) (Nm (Temp 382)), Assign (Tmp 822) (Nm (Tmp 4)), Assign (Tmp 823) (Nm (Tmp 4)),
     Assign (Tmp 824) (Nm (Tmp 4)),
     Assign (Temp 386) (Call (Nm (Tmp 4)) [Attr (Call (Nm (Tmp 4)) [Nm (Tmp 805), Lit (VStr ''post_attention_layernorm'')]) ''_parameters'', Lit (VStr ''weight'')]),
     Assign (Tmp 825) (Nm (Temp 384)), Assign (Tmp 826) (Nm (Tmp 4)), Assign (Tmp 827) (Nm (Tmp 4)),
     Assign (Tmp 828) (Nm (Tmp 4)), Assign (Tmp 829) (Nm (Tmp 4)), Assign (Tmp 830) (Nm (Tmp 4)),
     Assign (Tmp 831) (Nm (Tmp 4)),
     Assign (Temp 389) (Call (Nm (Tmp 4)) [Attr (Call (Nm (Tmp 4)) [Attr (Call (Nm (Tmp 4)) [Nm (Tmp 805), Lit (VStr ''mlp'')]) ''_modules'', Lit (VStr ''gate_up_proj'')]) ''_parameters'', Lit (VStr ''weight'')]),
     Assign (Tmp 832) (Nm (Temp 386)), Assign (Tmp 833) (Nm (Tmp 4)), Assign (Tmp 834) (Nm (Tmp 4)),
     Assign (Tmp 835) (Nm (Tmp 4)),
     Assign (Temp 391) (Call (Nm (Tmp 4)) [Attr (Call (Nm (Tmp 4)) [Nm (Tmp 828), Lit (VStr ''down_proj'')]) ''_parameters'', Lit (VStr ''weight'')]),
     Assign (Tmp 836) (Nm (Temp 389)), Assign (Tmp 837) (Nm (Tmp 4)), Assign (Tmp 838) (Nm (Tmp 4)),
     Assign (Tmp 839) (Nm (Tmp 4)), Assign (Tmp 840) (Nm (Temp 391))]"

definition transformed_body :: "'o stmt list" where
  "transformed_body =
     transformed_1 @ transformed_2 @ transformed_3 @ transformed_4 @ transformed_5 @ transformed_6 @ transformed_7 @ transformed_8 @ transformed_9 @ transformed_10 @ transformed_11 @ transformed_12 @ transformed_13 @ transformed_14 @ transformed_15 @ transformed_16 @ transformed_17 @ transformed_18 @ transformed_19 @ transformed_20"

definition transformed_arguments :: "'o expr list" where
  "transformed_arguments = [
     Call (Attr (Nm (Glob ''__import_torch_dot__dynamo_dot_utils'')) ''call_size'') [Nm (Param ''input_ids''), Lit (VInt 0)],
     Nm (Tmp 2), Nm (Temp 3), Nm (Temp 7), Nm (Temp 10), Nm (Temp 11),
     Call (Nm (Tmp 1)) [Nm (Param ''positions''), Lit (VInt 0)], Nm (Tmp 30), Nm (Temp 14), Nm (Temp 16),
     Nm (Temp 18), Nm (Temp 21), Nm (Temp 23), Nm (Temp 26), Nm (Temp 29), Nm (Temp 30), Nm (Temp 32), Nm (Temp 34),
     Nm (Temp 37), Nm (Temp 39), Nm (Temp 42), Nm (Temp 45), Nm (Temp 46), Nm (Temp 48), Nm (Temp 50), Nm (Temp 53),
     Nm (Temp 55), Nm (Temp 58), Nm (Temp 61), Nm (Temp 62), Nm (Temp 64), Nm (Temp 66), Nm (Temp 69), Nm (Temp 71),
     Nm (Temp 74), Nm (Temp 77), Nm (Temp 78), Nm (Temp 80), Nm (Temp 82), Nm (Temp 85), Nm (Temp 87), Nm (Temp 90),
     Nm (Temp 93), Nm (Temp 94), Nm (Temp 96), Nm (Temp 98), Nm (Temp 101), Nm (Temp 103), Nm (Temp 106),
     Nm (Temp 109), Nm (Temp 110), Nm (Temp 112), Nm (Temp 114), Nm (Temp 117), Nm (Temp 119), Nm (Temp 122),
     Nm (Temp 125), Nm (Temp 126), Nm (Temp 128), Nm (Temp 130), Nm (Temp 133), Nm (Temp 135), Nm (Temp 138),
     Nm (Temp 141), Nm (Temp 142), Nm (Temp 144), Nm (Temp 146), Nm (Temp 149), Nm (Temp 151), Nm (Temp 154),
     Nm (Temp 157), Nm (Temp 158), Nm (Temp 160), Nm (Temp 162), Nm (Temp 165), Nm (Temp 167), Nm (Temp 170),
     Nm (Temp 173), Nm (Temp 174), Nm (Temp 176), Nm (Temp 178), Nm (Temp 181), Nm (Temp 183), Nm (Temp 186),
     Nm (Temp 189), Nm (Temp 190), Nm (Temp 192), Nm (Temp 194), Nm (Temp 197), Nm (Temp 199), Nm (Temp 202),
     Nm (Temp 205), Nm (Temp 206), Nm (Temp 208), Nm (Temp 210), Nm (Temp 213), Nm (Temp 215), Nm (Temp 218),
     Nm (Temp 221), Nm (Temp 222), Nm (Temp 224), Nm (Temp 226), Nm (Temp 229), Nm (Temp 231), Nm (Temp 234),
     Nm (Temp 237), Nm (Temp 238), Nm (Temp 240), Nm (Temp 242), Nm (Temp 245), Nm (Temp 247), Nm (Temp 250),
     Nm (Temp 253), Nm (Temp 254), Nm (Temp 256), Nm (Temp 258), Nm (Temp 261), Nm (Temp 263), Nm (Temp 266),
     Nm (Temp 269), Nm (Temp 270), Nm (Temp 272), Nm (Temp 274), Nm (Temp 277), Nm (Temp 279), Nm (Temp 282),
     Nm (Temp 285), Nm (Temp 286), Nm (Temp 288), Nm (Temp 290), Nm (Temp 293), Nm (Temp 295), Nm (Temp 298),
     Nm (Temp 301), Nm (Temp 302), Nm (Temp 304), Nm (Temp 306), Nm (Temp 309), Nm (Temp 311), Nm (Temp 314),
     Nm (Temp 317), Nm (Temp 318), Nm (Temp 320), Nm (Temp 322), Nm (Temp 325), Nm (Temp 327), Nm (Temp 330),
     Nm (Temp 333), Nm (Temp 334), Nm (Temp 336), Nm (Temp 338), Nm (Temp 341), Nm (Temp 343), Nm (Temp 346),
     Nm (Temp 349), Nm (Temp 350), Nm (Temp 352), Nm (Temp 354), Nm (Temp 357), Nm (Temp 359), Nm (Temp 362),
     Nm (Temp 365), Nm (Temp 366), Nm (Temp 368), Nm (Temp 370), Nm (Temp 373), Nm (Temp 375), Nm (Temp 378),
     Nm (Temp 381), Nm (Temp 382), Nm (Temp 384), Nm (Temp 386), Nm (Temp 389), Nm (Temp 391),
     Call (Nm (Tmp 4)) [Attr (Call (Nm (Tmp 4)) [Nm (Tmp 7), Lit (VStr ''norm'')]) ''_parameters'', Lit (VStr ''weight'')]]"

text \<open>The parameters of GraphModule.forward in computation_graph.py.\<close>

definition graph_parameters :: "string list" where
  "graph_parameters = [
     ''s0'', ''L_input_ids_'', ''L_self_modules_embed_tokens_parameters_weight_'',
     ''L_self_modules_layers_modules_0_modules_input_layernorm_parameters_weight_'',
     ''L_self_modules_layers_modules_0_modules_self_attn_modules_qkv_proj_parameters_bias_'',
     ''L_self_modules_layers_modules_0_modules_self_attn_modules_qkv_proj_parameters_weight_'', ''s1'',
     ''L_positions_'',
     ''L_self_modules_layers_modules_0_modules_self_attn_modules_rotary_emb_buffers_cos_sin_cache_'',
     ''L_self_modules_layers_modules_0_modules_self_attn_modules_o_proj_parameters_weight_'',
     ''L_self_modules_layers_modules_0_modules_post_attention_layernorm_parameters_weight_'',
     ''L_self_modules_layers_modules_0_modules_mlp_modules_gate_up_proj_parameters_weight_'',
     ''L_self_modules_layers_modules_0_modules_mlp_modules_down_proj_parameters_weight_'',
     ''L_self_modules_layers_modules_1_modules_input_layernorm_parameters_weight_'',
     ''L_self_modules_layers_modules_1_modules_self_attn_modules_qkv_proj_parameters_bias_'',
     ''L_self_modules_layers_modules_1_modules_self_attn_modules_qkv_proj_parameters_weight_'',
     ''L_self_modules_layers_modules_1_modules_self_attn_modules_o_proj_parameters_weight_'',
     ''L_self_modules_layers_modules_1_modules_post_attention_layernorm_parameters_weight_'',
     ''L_self_modules_layers_modules_1_modules_mlp_modules_gate_up_proj_parameters_weight_'',
     ''L_self_modules_layers_modules_1_modules_mlp_modules_down_proj_parameters_weight_'',
     ''L_self_modules_layers_modules_2_modules_input_layernorm_parameters_weight_'',
     ''L_self_modules_layers_modules_2_modules_self_attn_modules_qkv_proj_parameters_bias_'',
     ''L_self_modules_layers_modules_2_modules_self_attn_modules_qkv_proj_parameters_weight_'',
     ''L_self_modules_layers_modules_2_modules_self_attn_modules_o_proj_parameters_weight_'',
     ''L_self_modules_layers_modules_2_modules_post_attention_layernorm_parameters_weight_'',
     ''L_self_modules_layers_modules_2_modules_mlp_modules_gate_up_proj_parameters_weight_'',
     ''L_self_modules_layers_modules_2_modules_mlp_modules_down_proj_parameters_weight_'',
     ''L_self_modules_layers_modules_3_modules_input_layernorm_parameters_weight_'',
     ''L_self_modules_layers_modules_3_modules_self_attn_modules_qkv_proj_parameters_bias_'',
     ''L_self_modules_layers_modules_3_modules_self_attn_modules_qkv_proj_parameters_weight_'',
     ''L_self_modules_layers_modules_3_modules_self_attn_modules_o_proj_parameters_weight_'',
     ''L_self_modules_layers_modules_3_modules_post_attention_layernorm_parameters_weight_'',
     ''L_self_modules_layers_modules_3_modules_mlp_modules_gate_up_proj_parameters_weight_'',
     ''L_self_modules_layers_modules_3_modules_mlp_modules_down_proj_parameters_weight_'',
     ''L_self_modules_layers_modules_4_modules_input_layernorm_parameters_weight_'',
     ''L_self_modules_layers_modules_4_modules_self_attn_modules_qkv_proj_parameters_bias_'',
     ''L_self_modules_layers_modules_4_modules_self_attn_modules_qkv_proj_parameters_weight_'',
     ''L_self_modules_layers_modules_4_modules_self_attn_modules_o_proj_parameters_weight_'',
     ''L_self_modules_layers_modules_4_modules_post_attention_layernorm_parameters_weight_'',
     ''L_self_modules_layers_modules_4_modules_mlp_modules_gate_up_proj_parameters_weight_'',
     ''L_self_modules_layers_modules_4_modules_mlp_modules_down_proj_parameters_weight_'',
     ''L_self_modules_layers_modules_5_modules_input_layernorm_parameters_weight_'',
     ''L_self_modules_layers_modules_5_modules_self_attn_modules_qkv_proj_parameters_bias_'',
     ''L_self_modules_layers_modules_5_modules_self_attn_modules_qkv_proj_parameters_weight_'',
     ''L_self_modules_layers_modules_5_modules_self_attn_modules_o_proj_parameters_weight_'',
     ''L_self_modules_layers_modules_5_modules_post_attention_layernorm_parameters_weight_'',
     ''L_self_modules_layers_modules_5_modules_mlp_modules_gate_up_proj_parameters_weight_'',
     ''L_self_modules_layers_modules_5_modules_mlp_modules_down_proj_parameters_weight_'',
     ''L_self_modules_layers_modules_6_modules_input_layernorm_parameters_weight_'',
     ''L_self_modules_layers_modules_6_modules_self_attn_modules_qkv_proj_parameters_bias_'',
     ''L_self_modules_layers_modules_6_modules_self_attn_modules_qkv_proj_parameters_weight_'',
     ''L_self_modules_layers_modules_6_modules_self_attn_modules_o_proj_parameters_weight_'',
     ''L_self_modules_layers_modules_6_modules_post_attention_layernorm_parameters_weight_'',
     ''L_self_modules_layers_modules_6_modules_mlp_modules_gate_up_proj_parameters_weight_'',
     ''L_self_modules_layers_modules_6_modules_mlp_modules_down_proj_parameters_weight_'',
     ''L_self_modules_layers_modules_7_modules_input_layernorm_parameters_weight_'',
     ''L_self_modules_layers_modules_7_modules_self_attn_modules_qkv_proj_parameters_bias_'',
     ''L_self_modules_layers_modules_7_modules_self_attn_modules_qkv_proj_parameters_weight_'',
     ''L_self_modules_layers_modules_7_modules_self_attn_modules_o_proj_parameters_weight_'',
     ''L_self_modules_layers_modules_7_modules_post_attention_layernorm_parameters_weight_'',
     ''L_self_modules_layers_modules_7_modules_mlp_modules_gate_up_proj_parameters_weight_'',
     ''L_self_modules_layers_modules_7_modules_mlp_modules_down_proj_parameters_weight_'',
     ''L_self_modules_layers_modules_8_modules_input_layernorm_parameters_weight_'',
     ''L_self_modules_layers_modules_8_modules_self_attn_modules_qkv_proj_parameters_bias_'',
     ''L_self_modules_layers_modules_8_modules_self_attn_modules_qkv_proj_parameters_weight_'',
     ''L_self_modules_layers_modules_8_modules_self_attn_modules_o_proj_parameters_weight_'',
     ''L_self_modules_layers_modules_8_modules_post_attention_layernorm_parameters_weight_'',
     ''L_self_modules_layers_modules_8_modules_mlp_modules_gate_up_proj_parameters_weight_'',
     ''L_self_modules_layers_modules_8_modules_mlp_modules_down_proj_parameters_weight_'',
     ''L_self_modules_layers_modules_9_modules_input_layernorm_parameters_weight_'',
     ''L_self_modules_layers_modules_9_modules_self_attn_modules_qkv_proj_parameters_bias_'',
     ''L_self_modules_layers_modules_9_modules_self_attn_modules_qkv_proj_parameters_weight_'',
     ''L_self_modules_layers_modules_9_modules_self_attn_modules_o_proj_parameters_weight_'',
     ''L_self_modules_layers_modules_9_modules_post_attention_layernorm_parameters_weight_'',
     ''L_self_modules_layers_modules_9_modules_mlp_modules_gate_up_proj_parameters_weight_'',
     ''L_self_modules_layers_modules_9_modules_mlp_modules_down_proj_parameters_weight_'',
     ''L_self_modules_layers_modules_10_modules_input_layernorm_parameters_weight_'',
     ''L_self_modules_layers_modules_10_modules_self_attn_modules_qkv_proj_parameters_bias_'',
     ''L_self_modules_layers_modules_10_modules_self_attn_modules_qkv_proj_parameters_weight_'',
     ''L_self_modules_layers_modules_10_modules_self_attn_modules_o_proj_parameters_weight_'',
     ''L_self_modules_layers_modules_10_modules_post_attention_layernorm_parameters_weight_'',
     ''L_self_modules_layers_modules_10_modules_mlp_modules_gate_up_proj_parameters_weight_'',
     ''L_self_modules_layers_modules_10_modules_mlp_modules_down_proj_parameters_weight_'',
     ''L_self_modules_layers_modules_11_modules_input_layernorm_parameters_weight_'',
     ''L_self_modules_layers_modules_11_modules_self_attn_modules_qkv_proj_parameters_bias_'',
     ''L_self_modules_layers_modules_11_modules_self_attn_modules_qkv_proj_parameters_weight_'',
     ''L_self_modules_layers_modules_11_modules_self_attn_modules_o_proj_parameters_weight_'',
     ''L_self_modules_layers_modules_11_modules_post_attention_layernorm_parameters_weight_'',
     ''L_self_modules_layers_modules_11_modules_mlp_modules_gate_up_proj_parameters_weight_'',
     ''L_self_modules_layers_modules_11_modules_mlp_modules_down_proj_parameters_weight_'',
     ''L_self_modules_layers_modules_12_modules_input_layernorm_parameters_weight_'',
     ''L_self_modules_layers_modules_12_modules_self_attn_modules_qkv_proj_parameters_bias_'',
     ''L_self_modules_layers_modules_12_modules_self_attn_modules_qkv_proj_parameters_weight_'',
     ''L_self_modules_layers_modules_12_modules_self_attn_modules_o_proj_parameters_weight_'',
     ''L_self_modules_layers_modules_12_modules_post_attention_layernorm_parameters_weight_'',
     ''L_self_modules_layers_modules_12_modules_mlp_modules_gate_up_proj_parameters_weight_'',
     ''L_self_modules_layers_modules_12_modules_mlp_modules_down_proj_parameters_weight_'',
     ''L_self_modules_layers_modules_13_modules_input_layernorm_parameters_weight_'',
     ''L_self_modules_layers_modules_13_modules_self_attn_modules_qkv_proj_parameters_bias_'',
     ''L_self_modules_layers_modules_13_modules_self_attn_modules_qkv_proj_parameters_weight_'',
     ''L_self_modules_layers_modules_13_modules_self_attn_modules_o_proj_parameters_weight_'',
     ''L_self_modules_layers_modules_13_modules_post_attention_layernorm_parameters_weight_'',
     ''L_self_modules_layers_modules_13_modules_mlp_modules_gate_up_proj_parameters_weight_'',
     ''L_self_modules_layers_modules_13_modules_mlp_modules_down_proj_parameters_weight_'',
     ''L_self_modules_layers_modules_14_modules_input_layernorm_parameters_weight_'',
     ''L_self_modules_layers_modules_14_modules_self_attn_modules_qkv_proj_parameters_bias_'',
     ''L_self_modules_layers_modules_14_modules_self_attn_modules_qkv_proj_parameters_weight_'',
     ''L_self_modules_layers_modules_14_modules_self_attn_modules_o_proj_parameters_weight_'',
     ''L_self_modules_layers_modules_14_modules_post_attention_layernorm_parameters_weight_'',
     ''L_self_modules_layers_modules_14_modules_mlp_modules_gate_up_proj_parameters_weight_'',
     ''L_self_modules_layers_modules_14_modules_mlp_modules_down_proj_parameters_weight_'',
     ''L_self_modules_layers_modules_15_modules_input_layernorm_parameters_weight_'',
     ''L_self_modules_layers_modules_15_modules_self_attn_modules_qkv_proj_parameters_bias_'',
     ''L_self_modules_layers_modules_15_modules_self_attn_modules_qkv_proj_parameters_weight_'',
     ''L_self_modules_layers_modules_15_modules_self_attn_modules_o_proj_parameters_weight_'',
     ''L_self_modules_layers_modules_15_modules_post_attention_layernorm_parameters_weight_'',
     ''L_self_modules_layers_modules_15_modules_mlp_modules_gate_up_proj_parameters_weight_'',
     ''L_self_modules_layers_modules_15_modules_mlp_modules_down_proj_parameters_weight_'',
     ''L_self_modules_layers_modules_16_modules_input_layernorm_parameters_weight_'',
     ''L_self_modules_layers_modules_16_modules_self_attn_modules_qkv_proj_parameters_bias_'',
     ''L_self_modules_layers_modules_16_modules_self_attn_modules_qkv_proj_parameters_weight_'',
     ''L_self_modules_layers_modules_16_modules_self_attn_modules_o_proj_parameters_weight_'',
     ''L_self_modules_layers_modules_16_modules_post_attention_layernorm_parameters_weight_'',
     ''L_self_modules_layers_modules_16_modules_mlp_modules_gate_up_proj_parameters_weight_'',
     ''L_self_modules_layers_modules_16_modules_mlp_modules_down_proj_parameters_weight_'',
     ''L_self_modules_layers_modules_17_modules_input_layernorm_parameters_weight_'',
     ''L_self_modules_layers_modules_17_modules_self_attn_modules_qkv_proj_parameters_bias_'',
     ''L_self_modules_layers_modules_17_modules_self_attn_modules_qkv_proj_parameters_weight_'',
     ''L_self_modules_layers_modules_17_modules_self_attn_modules_o_proj_parameters_weight_'',
     ''L_self_modules_layers_modules_17_modules_post_attention_layernorm_parameters_weight_'',
     ''L_self_modules_layers_modules_17_modules_mlp_modules_gate_up_proj_parameters_weight_'',
     ''L_self_modules_layers_modules_17_modules_mlp_modules_down_proj_parameters_weight_'',
     ''L_self_modules_layers_modules_18_modules_input_layernorm_parameters_weight_'',
     ''L_self_modules_layers_modules_18_modules_self_attn_modules_qkv_proj_parameters_bias_'',
     ''L_self_modules_layers_modules_18_modules_self_attn_modules_qkv_proj_parameters_weight_'',
     ''L_self_modules_layers_modules_18_modules_self_attn_modules_o_proj_parameters_weight_'',
     ''L_self_modules_layers_modules_18_modules_post_attention_layernorm_parameters_weight_'',
     ''L_self_modules_layers_modules_18_modules_mlp_modules_gate_up_proj_parameters_weight_'',
     ''L_self_modules_layers_modules_18_modules_mlp_modules_down_proj_parameters_weight_'',
     ''L_self_modules_layers_modules_19_modules_input_layernorm_parameters_weight_'',
     ''L_self_modules_layers_modules_19_modules_self_attn_modules_qkv_proj_parameters_bias_'',
     ''L_self_modules_layers_modules_19_modules_self_attn_modules_qkv_proj_parameters_weight_'',
     ''L_self_modules_layers_modules_19_modules_self_attn_modules_o_proj_parameters_weight_'',
     ''L_self_modules_layers_modules_19_modules_post_attention_layernorm_parameters_weight_'',
     ''L_self_modules_layers_modules_19_modules_mlp_modules_gate_up_proj_parameters_weight_'',
     ''L_self_modules_layers_modules_19_modules_mlp_modules_down_proj_parameters_weight_'',
     ''L_self_modules_layers_modules_20_modules_input_layernorm_parameters_weight_'',
     ''L_self_modules_layers_modules_20_modules_self_attn_modules_qkv_proj_parameters_bias_'',
     ''L_self_modules_layers_modules_20_modules_self_attn_modules_qkv_proj_parameters_weight_'',
     ''L_self_modules_layers_modules_20_modules_self_attn_modules_o_proj_parameters_weight_'',
     ''L_self_modules_layers_modules_20_modules_post_attention_layernorm_parameters_weight_'',
     ''L_self_modules_layers_modules_20_modules_mlp_modules_gate_up_proj_parameters_weight_'',
     ''L_self_modules_layers_modules_20_modules_mlp_modules_down_proj_parameters_weight_'',
     ''L_self_modules_layers_modules_21_modules_input_layernorm_parameters_weight_'',
     ''L_self_modules_layers_modules_21_modules_self_attn_modules_qkv_proj_parameters_bias_'',
     ''L_self_modules_layers_modules_21_modules_self_attn_modules_qkv_proj_parameters_weight_'',
     ''L_self_modules_layers_modules_21_modules_self_attn_modules_o_proj_parameters_weight_'',
     ''L_self_modules_layers_modules_21_modules_post_attention_layernorm_parameters_weight_'',
     ''L_self_modules_layers_modules_21_modules_mlp_modules_gate_up_proj_parameters_weight_'',
     ''L_self_modules_layers_modules_21_modules_mlp_modules_down_proj_parameters_weight_'',
     ''L_self_modules_layers_modules_22_modules_input_layernorm_parameters_weight_'',
     ''L_self_modules_layers_modules_22_modules_self_attn_modules_qkv_proj_parameters_bias_'',
     ''L_self_modules_layers_modules_22_modules_self_attn_modules_qkv_proj_parameters_weight_'',
     ''L_self_modules_layers_modules_22_modules_self_attn_modules_o_proj_parameters_weight_'',
     ''L_self_modules_layers_modules_22_modules_post_attention_layernorm_parameters_weight_'',
     ''L_self_modules_layers_modules_22_modules_mlp_modules_gate_up_proj_parameters_weight_'',
     ''L_self_modules_layers_modules_22_modules_mlp_modules_down_proj_parameters_weight_'',
     ''L_self_modules_layers_modules_23_modules_input_layernorm_parameters_weight_'',
     ''L_self_modules_layers_modules_23_modules_self_attn_modules_qkv_proj_parameters_bias_'',
     ''L_self_modules_layers_modules_23_modules_self_attn_modules_qkv_proj_parameters_weight_'',
     ''L_self_modules_layers_modules_23_modules_self_attn_modules_o_proj_parameters_weight_'',
     ''L_self_modules_layers_modules_23_modules_post_attention_layernorm_parameters_weight_'',
     ''L_self_modules_layers_modules_23_modules_mlp_modules_gate_up_proj_parameters_weight_'',
     ''L_self_modules_layers_modules_23_modules_mlp_modules_down_proj_parameters_weight_'',
     ''L_self_modules_norm_parameters_weight_'']"

definition start ::
  "'o val \<Rightarrow> 'o val \<Rightarrow> 'o val \<Rightarrow> 'o val \<Rightarrow> 'o val \<Rightarrow> 'o locals" where
  "start self input_ids positions intermediate_tensors inputs_embeds =
     [Param ''self'' \<mapsto> self, Param ''input_ids'' \<mapsto> input_ids, Param ''positions'' \<mapsto> positions,
      Param ''intermediate_tensors'' \<mapsto> intermediate_tensors, Param ''inputs_embeds'' \<mapsto> inputs_embeds]"

definition call_body :: "'o stmt list \<Rightarrow> ('o, 'e, 'w) runtime \<Rightarrow> 'o locals \<Rightarrow> 'w \<Rightarrow> (('o, 'e) exc + 'o val) \<times> 'w" where
  "call_body ss R l w =
     (case run R (ss @ [Unpack (Temp 395) (Call (Nm (Glob ''__compiled_fn_1'')) transformed_arguments)]) l w of
        (Inl x, w) \<Rightarrow> (Inl x, w)
      | (Inr l, w) \<Rightarrow> eval R l (Nm (Temp 395)) w)"

definition forward_transformed ::
  "('o, 'e, 'w) runtime \<Rightarrow> 'o val \<Rightarrow> 'o val \<Rightarrow> 'o val \<Rightarrow> 'o val \<Rightarrow> 'o val \<Rightarrow> 'w \<Rightarrow> (('o, 'e) exc + 'o val) \<times> 'w" where
  "forward_transformed R self input_ids positions intermediate_tensors inputs_embeds =
     call_body transformed_body R (start self input_ids positions intermediate_tensors inputs_embeds)"

text \<open>
  The decompiler lost three values and wrote None for them (tmp_0, tmp_1 and tmp_4, of which
  834 other names are copies). \<open>restore \<sigma>\<close> puts values of one's choice in their place.
\<close>

fun restore :: "(var \<Rightarrow> 'o val) \<Rightarrow> 'o stmt \<Rightarrow> 'o stmt" where
  "restore \<sigma> (Assign x (Lit VNone)) = Assign x (Lit (\<sigma> x))"
| "restore \<sigma> s = s"

definition restored_body :: "(var \<Rightarrow> 'o val) \<Rightarrow> 'o stmt list" where
  "restored_body \<sigma> = map (restore \<sigma>) transformed_body"

text \<open>
  What a lookup expression says about the module path: attribute names and string keys, from
  the last value that is not lost. Dynamo builds the names of the graph's parameters from the
  same path.
\<close>

fun visible :: "'o expr \<Rightarrow> string" where
  "visible (Attr e a) = visible e @ a"
| "visible (Call f [e, Lit (VStr k)]) = visible e @ ''_'' @ k"
| "visible (Nm (Param p)) = (if p = ''self'' then ''L_self'' else [])"
| "visible e = []"

fun ends_with :: "string \<Rightarrow> string \<Rightarrow> bool" where
  "ends_with v [] \<longleftrightarrow> v = []"
| "ends_with v (c # cs) \<longleftrightarrow> v = c # cs \<or> ends_with v cs"

definition names_parameter :: "string \<Rightarrow> 'o expr \<Rightarrow> bool" where
  "names_parameter p e \<longleftrightarrow> visible e \<noteq> [] \<and> ends_with (visible e @ ''_'') p"

fun is_temp :: "var \<Rightarrow> bool" where
  "is_temp (Temp t) = True"
| "is_temp x = False"

definition lookups :: "'o stmt list" where
  "lookups = filter (is_temp \<circ> target) transformed_body"

definition passed :: "'o expr list \<Rightarrow> var list" where
  "passed es = filter is_temp (concat (map (\<lambda>e. case e of Nm x \<Rightarrow> [x] | _ \<Rightarrow> []) es))"

definition passed_for :: "'o expr list \<Rightarrow> string list" where
  "passed_for es = map fst (filter (\<lambda>(p, e). passed [e] \<noteq> []) (zip graph_parameters es))"

lemma restored_simps:
  "target (restore \<sigma> s) = target s" "names (rhs (restore \<sigma> s)) = names (rhs s)"
  by (cases "(\<sigma>, s)" rule: restore.cases; simp)+

lemma assigned_restore [simp]: "assigned a (map (restore \<sigma>) ss) = assigned a ss"
  by (induction a ss rule: assigned.induct) (auto simp: restored_simps split: var.splits)

text \<open>Definite assignment and the form of the operands, segment by segment.\<close>

abbreviation inputs :: "var list" where
  "inputs \<equiv> [Param ''self'', Param ''input_ids'', Param ''positions'',
      Param ''intermediate_tensors'', Param ''inputs_embeds'']"

fun plain_or_lost :: "'o stmt \<Rightarrow> bool" where
  "plain_or_lost (Assign x e) \<longleftrightarrow> plain e \<or> (case e of Lit VNone \<Rightarrow> True | _ \<Rightarrow> False)"
| "plain_or_lost (Unpack x e) \<longleftrightarrow> plain e"

lemma plain_restore: "plain_or_lost s \<Longrightarrow> \<forall>x. \<exists>u. \<sigma> x = VObj u \<Longrightarrow> plain_stmt (restore \<sigma> s)"
  by (cases "(\<sigma>, s)" rule: restore.cases) (auto split: expr.splits val.splits)

lemma segment_1:
  "assigned
     (0, map Temp [] @ inputs)
     transformed_1 = Some
     (45, map Temp [18, 16, 14, 11, 10, 7, 3] @ inputs) \<and>
   list_all plain_or_lost transformed_1 \<and>
   map target (filter (is_temp \<circ> target) transformed_1) = map Temp
     [3, 7, 10, 11, 14, 16, 18] \<and>
   list_all2 names_parameter [
     ''L_self_modules_embed_tokens_parameters_weight_'',
       ''L_self_modules_layers_modules_0_modules_input_layernorm_parameters_weight_'',
       ''L_self_modules_layers_modules_0_modules_self_attn_modules_qkv_proj_parameters_bias_'',
       ''L_self_modules_layers_modules_0_modules_self_attn_modules_qkv_proj_parameters_weight_'',
       ''L_self_modules_layers_modules_0_modules_self_attn_modules_rotary_emb_buffers_cos_sin_cache_'',
       ''L_self_modules_layers_modules_0_modules_self_attn_modules_o_proj_parameters_weight_'',
       ''L_self_modules_layers_modules_0_modules_post_attention_layernorm_parameters_weight_'']
     (map rhs (filter (is_temp \<circ> target) transformed_1))"
  by code_simp

lemma segment_2:
  "assigned
     (45, map Temp [18, 16, 14, 11, 10, 7, 3] @ inputs)
     transformed_2 = Some
     (88, map Temp [37, 34, 32, 30, 29, 26, 23, 21, 18, 16, 14, 11, 10, 7, 3] @ inputs) \<and>
   list_all plain_or_lost transformed_2 \<and>
   map target (filter (is_temp \<circ> target) transformed_2) = map Temp
     [21, 23, 26, 29, 30, 32, 34, 37] \<and>
   list_all2 names_parameter [
     ''L_self_modules_layers_modules_0_modules_mlp_modules_gate_up_proj_parameters_weight_'',
       ''L_self_modules_layers_modules_0_modules_mlp_modules_down_proj_parameters_weight_'',
       ''L_self_modules_layers_modules_1_modules_input_layernorm_parameters_weight_'',
       ''L_self_modules_layers_modules_1_modules_self_attn_modules_qkv_proj_parameters_bias_'',
       ''L_self_modules_layers_modules_1_modules_self_attn_modules_qkv_proj_parameters_weight_'',
       ''L_self_modules_layers_modules_1_modules_self_attn_modules_o_proj_parameters_weight_'',
       ''L_self_modules_layers_modules_1_modules_post_attention_layernorm_parameters_weight_'',
       ''L_self_modules_layers_modules_1_modules_mlp_modules_gate_up_proj_parameters_weight_'']
     (map rhs (filter (is_temp \<circ> target) transformed_2))"
  by code_simp

lemma segment_3:
  "assigned
     (88, map Temp [37, 34, 32, 30, 29, 26, 23, 21, 18, 16, 14, 11, 10, 7, 3] @ inputs)
     transformed_3 = Some
     (130, map Temp [58, 55, 53, 50, 48, 46, 45, 42, 39, 37, 34, 32, 30, 29, 26, 23, 21, 18, 16, 14, 11, 10,
       7, 3] @ inputs) \<and>
   list_all plain_or_lost transformed_3 \<and>
   map target (filter (is_temp \<circ> target) transformed_3) = map Temp
     [39, 42, 45, 46, 48, 50, 53, 55, 58] \<and>
   list_all2 names_parameter [
     ''L_self_modules_layers_modules_1_modules_mlp_modules_down_proj_parameters_weight_'',
       ''L_self_modules_layers_modules_2_modules_input_layernorm_parameters_weight_'',
       ''L_self_modules_layers_modules_2_modules_self_attn_modules_qkv_proj_parameters_bias_'',
       ''L_self_modules_layers_modules_2_modules_self_attn_modules_qkv_proj_parameters_weight_'',
       ''L_self_modules_layers_modules_2_modules_self_attn_modules_o_proj_parameters_weight_'',
       ''L_self_modules_layers_modules_2_modules_post_attention_layernorm_parameters_weight_'',
       ''L_self_modules_layers_modules_2_modules_mlp_modules_gate_up_proj_parameters_weight_'',
       ''L_self_modules_layers_modules_2_modules_mlp_modules_down_proj_parameters_weight_'',
       ''L_self_modules_layers_modules_3_modules_input_layernorm_parameters_weight_'']
     (map rhs (filter (is_temp \<circ> target) transformed_3))"
  by code_simp

lemma segment_4:
  "assigned
     (130, map Temp [58, 55, 53, 50, 48, 46, 45, 42, 39, 37, 34, 32, 30, 29, 26, 23, 21, 18, 16, 14, 11, 10,
       7, 3] @ inputs)
     transformed_4 = Some
     (172, map Temp [78, 77, 74, 71, 69, 66, 64, 62, 61, 58, 55, 53, 50, 48, 46, 45, 42, 39, 37, 34, 32, 30,
       29, 26, 23, 21, 18, 16, 14, 11, 10, 7, 3] @ inputs) \<and>
   list_all plain_or_lost transformed_4 \<and>
   map target (filter (is_temp \<circ> target) transformed_4) = map Temp
     [61, 62, 64, 66, 69, 71, 74, 77, 78] \<and>
   list_all2 names_parameter [
     ''L_self_modules_layers_modules_3_modules_self_attn_modules_qkv_proj_parameters_bias_'',
       ''L_self_modules_layers_modules_3_modules_self_attn_modules_qkv_proj_parameters_weight_'',
       ''L_self_modules_layers_modules_3_modules_self_attn_modules_o_proj_parameters_weight_'',
       ''L_self_modules_layers_modules_3_modules_post_attention_layernorm_parameters_weight_'',
       ''L_self_modules_layers_modules_3_modules_mlp_modules_gate_up_proj_parameters_weight_'',
       ''L_self_modules_layers_modules_3_modules_mlp_modules_down_proj_parameters_weight_'',
       ''L_self_modules_layers_modules_4_modules_input_layernorm_parameters_weight_'',
       ''L_self_modules_layers_modules_4_modules_self_attn_modules_qkv_proj_parameters_bias_'',
       ''L_self_modules_layers_modules_4_modules_self_attn_modules_qkv_proj_parameters_weight_'']
     (map rhs (filter (is_temp \<circ> target) transformed_4))"
  by code_simp

lemma segment_5:
  "assigned
     (172, map Temp [78, 77, 74, 71, 69, 66, 64, 62, 61, 58, 55, 53, 50, 48, 46, 45, 42, 39, 37, 34, 32, 30,
       29, 26, 23, 21, 18, 16, 14, 11, 10, 7, 3] @ inputs)
     transformed_5 = Some
     (214, map Temp [98, 96, 94, 93, 90, 87, 85, 82, 80, 78, 77, 74, 71, 69, 66, 64, 62, 61, 58, 55, 53, 50,
       48, 46, 45, 42, 39, 37, 34, 32, 30, 29, 26, 23, 21, 18, 16, 14, 11, 10, 7, 3] @ inputs) \<and>
   list_all plain_or_lost transformed_5 \<and>
   map target (filter (is_temp \<circ> target) transformed_5) = map Temp
     [80, 82, 85, 87, 90, 93, 94, 96, 98] \<and>
   list_all2 names_parameter [
     ''L_self_modules_layers_modules_4_modules_self_attn_modules_o_proj_parameters_weight_'',
       ''L_self_modules_layers_modules_4_modules_post_attention_layernorm_parameters_weight_'',
       ''L_self_modules_layers_modules_4_modules_mlp_modules_gate_up_proj_parameters_weight_'',
       ''L_self_modules_layers_modules_4_modules_mlp_modules_down_proj_parameters_weight_'',
       ''L_self_modules_layers_modules_5_modules_input_layernorm_parameters_weight_'',
       ''L_self_modules_layers_modules_5_modules_self_attn_modules_qkv_proj_parameters_bias_'',
       ''L_self_modules_layers_modules_5_modules_self_attn_modules_qkv_proj_parameters_weight_'',
       ''L_self_modules_layers_modules_5_modules_self_attn_modules_o_proj_parameters_weight_'',
       ''L_self_modules_layers_modules_5_modules_post_attention_layernorm_parameters_weight_'']
     (map rhs (filter (is_temp \<circ> target) transformed_5))"
  by code_simp

lemma segment_6:
  "assigned
     (214, map Temp [98, 96, 94, 93, 90, 87, 85, 82, 80, 78, 77, 74, 71, 69, 66, 64, 62, 61, 58, 55, 53, 50,
       48, 46, 45, 42, 39, 37, 34, 32, 30, 29, 26, 23, 21, 18, 16, 14, 11, 10, 7, 3] @ inputs)
     transformed_6 = Some
     (257, map Temp [117, 114, 112, 110, 109, 106, 103, 101, 98, 96, 94, 93, 90, 87, 85, 82, 80, 78, 77, 74,
       71, 69, 66, 64, 62, 61, 58, 55, 53, 50, 48, 46, 45, 42, 39, 37, 34, 32, 30, 29, 26, 23, 21, 18, 16, 14,
       11, 10, 7, 3] @ inputs) \<and>
   list_all plain_or_lost transformed_6 \<and>
   map target (filter (is_temp \<circ> target) transformed_6) = map Temp
     [101, 103, 106, 109, 110, 112, 114, 117] \<and>
   list_all2 names_parameter [
     ''L_self_modules_layers_modules_5_modules_mlp_modules_gate_up_proj_parameters_weight_'',
       ''L_self_modules_layers_modules_5_modules_mlp_modules_down_proj_parameters_weight_'',
       ''L_self_modules_layers_modules_6_modules_input_layernorm_parameters_weight_'',
       ''L_self_modules_layers_modules_6_modules_self_attn_modules_qkv_proj_parameters_bias_'',
       ''L_self_modules_layers_modules_6_modules_self_attn_modules_qkv_proj_parameters_weight_'',
       ''L_self_modules_layers_modules_6_modules_self_attn_modules_o_proj_parameters_weight_'',
       ''L_self_modules_layers_modules_6_modules_post_attention_layernorm_parameters_weight_'',
       ''L_self_modules_layers_modules_6_modules_mlp_modules_gate_up_proj_parameters_weight_'']
     (map rhs (filter (is_temp \<circ> target) transformed_6))"
  by code_simp

lemma segment_7:
  "assigned
     (257, map Temp [117, 114, 112, 110, 109, 106, 103, 101, 98, 96, 94, 93, 90, 87, 85, 82, 80, 78, 77, 74,
       71, 69, 66, 64, 62, 61, 58, 55, 53, 50, 48, 46, 45, 42, 39, 37, 34, 32, 30, 29, 26, 23, 21, 18, 16, 14,
       11, 10, 7, 3] @ inputs)
     transformed_7 = Some
     (299, map Temp [138, 135, 133, 130, 128, 126, 125, 122, 119, 117, 114, 112, 110, 109, 106, 103, 101, 98,
       96, 94, 93, 90, 87, 85, 82, 80, 78, 77, 74, 71, 69, 66, 64, 62, 61, 58, 55, 53, 50, 48, 46, 45, 42, 39,
       37, 34, 32, 30, 29, 26, 23, 21, 18, 16, 14, 11, 10, 7, 3] @ inputs) \<and>
   list_all plain_or_lost transformed_7 \<and>
   map target (filter (is_temp \<circ> target) transformed_7) = map Temp
     [119, 122, 125, 126, 128, 130, 133, 135, 138] \<and>
   list_all2 names_parameter [
     ''L_self_modules_layers_modules_6_modules_mlp_modules_down_proj_parameters_weight_'',
       ''L_self_modules_layers_modules_7_modules_input_layernorm_parameters_weight_'',
       ''L_self_modules_layers_modules_7_modules_self_attn_modules_qkv_proj_parameters_bias_'',
       ''L_self_modules_layers_modules_7_modules_self_attn_modules_qkv_proj_parameters_weight_'',
       ''L_self_modules_layers_modules_7_modules_self_attn_modules_o_proj_parameters_weight_'',
       ''L_self_modules_layers_modules_7_modules_post_attention_layernorm_parameters_weight_'',
       ''L_self_modules_layers_modules_7_modules_mlp_modules_gate_up_proj_parameters_weight_'',
       ''L_self_modules_layers_modules_7_modules_mlp_modules_down_proj_parameters_weight_'',
       ''L_self_modules_layers_modules_8_modules_input_layernorm_parameters_weight_'']
     (map rhs (filter (is_temp \<circ> target) transformed_7))"
  by code_simp

lemma segment_8:
  "assigned
     (299, map Temp [138, 135, 133, 130, 128, 126, 125, 122, 119, 117, 114, 112, 110, 109, 106, 103, 101, 98,
       96, 94, 93, 90, 87, 85, 82, 80, 78, 77, 74, 71, 69, 66, 64, 62, 61, 58, 55, 53, 50, 48, 46, 45, 42, 39,
       37, 34, 32, 30, 29, 26, 23, 21, 18, 16, 14, 11, 10, 7, 3] @ inputs)
     transformed_8 = Some
     (341, map Temp [158, 157, 154, 151, 149, 146, 144, 142, 141, 138, 135, 133, 130, 128, 126, 125, 122, 119,
       117, 114, 112, 110, 109, 106, 103, 101, 98, 96, 94, 93, 90, 87, 85, 82, 80, 78, 77, 74, 71, 69, 66, 64,
       62, 61, 58, 55, 53, 50, 48, 46, 45, 42, 39, 37, 34, 32, 30, 29, 26, 23, 21, 18, 16, 14, 11, 10, 7, 3] @
       inputs) \<and>
   list_all plain_or_lost transformed_8 \<and>
   map target (filter (is_temp \<circ> target) transformed_8) = map Temp
     [141, 142, 144, 146, 149, 151, 154, 157, 158] \<and>
   list_all2 names_parameter [
     ''L_self_modules_layers_modules_8_modules_self_attn_modules_qkv_proj_parameters_bias_'',
       ''L_self_modules_layers_modules_8_modules_self_attn_modules_qkv_proj_parameters_weight_'',
       ''L_self_modules_layers_modules_8_modules_self_attn_modules_o_proj_parameters_weight_'',
       ''L_self_modules_layers_modules_8_modules_post_attention_layernorm_parameters_weight_'',
       ''L_self_modules_layers_modules_8_modules_mlp_modules_gate_up_proj_parameters_weight_'',
       ''L_self_modules_layers_modules_8_modules_mlp_modules_down_proj_parameters_weight_'',
       ''L_self_modules_layers_modules_9_modules_input_layernorm_parameters_weight_'',
       ''L_self_modules_layers_modules_9_modules_self_attn_modules_qkv_proj_parameters_bias_'',
       ''L_self_modules_layers_modules_9_modules_self_attn_modules_qkv_proj_parameters_weight_'']
     (map rhs (filter (is_temp \<circ> target) transformed_8))"
  by code_simp

lemma segment_9:
  "assigned
     (341, map Temp [158, 157, 154, 151, 149, 146, 144, 142, 141, 138, 135, 133, 130, 128, 126, 125, 122, 119,
       117, 114, 112, 110, 109, 106, 103, 101, 98, 96, 94, 93, 90, 87, 85, 82, 80, 78, 77, 74, 71, 69, 66, 64,
       62, 61, 58, 55, 53, 50, 48, 46, 45, 42, 39, 37, 34, 32, 30, 29, 26, 23, 21, 18, 16, 14, 11, 10, 7, 3] @
       inputs)
     transformed_9 = Some
     (383, map Temp [178, 176, 174, 173, 170, 167, 165, 162, 160, 158, 157, 154, 151, 149, 146, 144, 142, 141,
       138, 135, 133, 130, 128, 126, 125, 122, 119, 117, 114, 112, 110, 109, 106, 103, 101, 98, 96, 94, 93,
       90, 87, 85, 82, 80, 78, 77, 74, 71, 69, 66, 64, 62, 61, 58, 55, 53, 50, 48, 46, 45, 42, 39, 37, 34, 32,
       30, 29, 26, 23, 21, 18, 16, 14, 11, 10, 7, 3] @ inputs) \<and>
   list_all plain_or_lost transformed_9 \<and>
   map target (filter (is_temp \<circ> target) transformed_9) = map Temp
     [160, 162, 165, 167, 170, 173, 174, 176, 178] \<and>
   list_all2 names_parameter [
     ''L_self_modules_layers_modules_9_modules_self_attn_modules_o_proj_parameters_weight_'',
       ''L_self_modules_layers_modules_9_modules_post_attention_layernorm_parameters_weight_'',
       ''L_self_modules_layers_modules_9_modules_mlp_modules_gate_up_proj_parameters_weight_'',
       ''L_self_modules_layers_modules_9_modules_mlp_modules_down_proj_parameters_weight_'',
       ''L_self_modules_layers_modules_10_modules_input_layernorm_parameters_weight_'',
       ''L_self_modules_layers_modules_10_modules_self_attn_modules_qkv_proj_parameters_bias_'',
       ''L_self_modules_layers_modules_10_modules_self_attn_modules_qkv_proj_parameters_weight_'',
       ''L_self_modules_layers_modules_10_modules_self_attn_modules_o_proj_parameters_weight_'',
       ''L_self_modules_layers_modules_10_modules_post_attention_layernorm_parameters_weight_'']
     (map rhs (filter (is_temp \<circ> target) transformed_9))"
  by code_simp

lemma segment_10:
  "assigned
     (383, map Temp [178, 176, 174, 173, 170, 167, 165, 162, 160, 158, 157, 154, 151, 149, 146, 144, 142, 141,
       138, 135, 133, 130, 128, 126, 125, 122, 119, 117, 114, 112, 110, 109, 106, 103, 101, 98, 96, 94, 93,
       90, 87, 85, 82, 80, 78, 77, 74, 71, 69, 66, 64, 62, 61, 58, 55, 53, 50, 48, 46, 45, 42, 39, 37, 34, 32,
       30, 29, 26, 23, 21, 18, 16, 14, 11, 10, 7, 3] @ inputs)
     transformed_10 = Some
     (426, map Temp [197, 194, 192, 190, 189, 186, 183, 181, 178, 176, 174, 173, 170, 167, 165, 162, 160, 158,
       157, 154, 151, 149, 146, 144, 142, 141, 138, 135, 133, 130, 128, 126, 125, 122, 119, 117, 114, 112,
       110, 109, 106, 103, 101, 98, 96, 94, 93, 90, 87, 85, 82, 80, 78, 77, 74, 71, 69, 66, 64, 62, 61, 58,
       55, 53, 50, 48, 46, 45, 42, 39, 37, 34, 32, 30, 29, 26, 23, 21, 18, 16, 14, 11, 10, 7, 3] @ inputs) \<and>
   list_all plain_or_lost transformed_10 \<and>
   map target (filter (is_temp \<circ> target) transformed_10) = map Temp
     [181, 183, 186, 189, 190, 192, 194, 197] \<and>
   list_all2 names_parameter [
     ''L_self_modules_layers_modules_10_modules_mlp_modules_gate_up_proj_parameters_weight_'',
       ''L_self_modules_layers_modules_10_modules_mlp_modules_down_proj_parameters_weight_'',
       ''L_self_modules_layers_modules_11_modules_input_layernorm_parameters_weight_'',
       ''L_self_modules_layers_modules_11_modules_self_attn_modules_qkv_proj_parameters_bias_'',
       ''L_self_modules_layers_modules_11_modules_self_attn_modules_qkv_proj_parameters_weight_'',
       ''L_self_modules_layers_modules_11_modules_self_attn_modules_o_proj_parameters_weight_'',
       ''L_self_modules_layers_modules_11_modules_post_attention_layernorm_parameters_weight_'',
       ''L_self_modules_layers_modules_11_modules_mlp_modules_gate_up_proj_parameters_weight_'']
     (map rhs (filter (is_temp \<circ> target) transformed_10))"
  by code_simp

lemma segment_11:
  "assigned
     (426, map Temp [197, 194, 192, 190, 189, 186, 183, 181, 178, 176, 174, 173, 170, 167, 165, 162, 160, 158,
       157, 154, 151, 149, 146, 144, 142, 141, 138, 135, 133, 130, 128, 126, 125, 122, 119, 117, 114, 112,
       110, 109, 106, 103, 101, 98, 96, 94, 93, 90, 87, 85, 82, 80, 78, 77, 74, 71, 69, 66, 64, 62, 61, 58,
       55, 53, 50, 48, 46, 45, 42, 39, 37, 34, 32, 30, 29, 26, 23, 21, 18, 16, 14, 11, 10, 7, 3] @ inputs)
     transformed_11 = Some
     (469, map Temp [215, 213, 210, 208, 206, 205, 202, 199, 197, 194, 192, 190, 189, 186, 183, 181, 178, 176,
       174, 173, 170, 167, 165, 162, 160, 158, 157, 154, 151, 149, 146, 144, 142, 141, 138, 135, 133, 130,
       128, 126, 125, 122, 119, 117, 114, 112, 110, 109, 106, 103, 101, 98, 96, 94, 93, 90, 87, 85, 82, 80,
       78, 77, 74, 71, 69, 66, 64, 62, 61, 58, 55, 53, 50, 48, 46, 45, 42, 39, 37, 34, 32, 30, 29, 26, 23, 21,
       18, 16, 14, 11, 10, 7, 3] @ inputs) \<and>
   list_all plain_or_lost transformed_11 \<and>
   map target (filter (is_temp \<circ> target) transformed_11) = map Temp
     [199, 202, 205, 206, 208, 210, 213, 215] \<and>
   list_all2 names_parameter [
     ''L_self_modules_layers_modules_11_modules_mlp_modules_down_proj_parameters_weight_'',
       ''L_self_modules_layers_modules_12_modules_input_layernorm_parameters_weight_'',
       ''L_self_modules_layers_modules_12_modules_self_attn_modules_qkv_proj_parameters_bias_'',
       ''L_self_modules_layers_modules_12_modules_self_attn_modules_qkv_proj_parameters_weight_'',
       ''L_self_modules_layers_modules_12_modules_self_attn_modules_o_proj_parameters_weight_'',
       ''L_self_modules_layers_modules_12_modules_post_attention_layernorm_parameters_weight_'',
       ''L_self_modules_layers_modules_12_modules_mlp_modules_gate_up_proj_parameters_weight_'',
       ''L_self_modules_layers_modules_12_modules_mlp_modules_down_proj_parameters_weight_'']
     (map rhs (filter (is_temp \<circ> target) transformed_11))"
  by code_simp

lemma segment_12:
  "assigned
     (469, map Temp [215, 213, 210, 208, 206, 205, 202, 199, 197, 194, 192, 190, 189, 186, 183, 181, 178, 176,
       174, 173, 170, 167, 165, 162, 160, 158, 157, 154, 151, 149, 146, 144, 142, 141, 138, 135, 133, 130,
       128, 126, 125, 122, 119, 117, 114, 112, 110, 109, 106, 103, 101, 98, 96, 94, 93, 90, 87, 85, 82, 80,
       78, 77, 74, 71, 69, 66, 64, 62, 61, 58, 55, 53, 50, 48, 46, 45, 42, 39, 37, 34, 32, 30, 29, 26, 23, 21,
       18, 16, 14, 11, 10, 7, 3] @ inputs)
     transformed_12 = Some
     (510, map Temp [237, 234, 231, 229, 226, 224, 222, 221, 218, 215, 213, 210, 208, 206, 205, 202, 199, 197,
       194, 192, 190, 189, 186, 183, 181, 178, 176, 174, 173, 170, 167, 165, 162, 160, 158, 157, 154, 151,
       149, 146, 144, 142, 141, 138, 135, 133, 130, 128, 126, 125, 122, 119, 117, 114, 112, 110, 109, 106,
       103, 101, 98, 96, 94, 93, 90, 87, 85, 82, 80, 78, 77, 74, 71, 69, 66, 64, 62, 61, 58, 55, 53, 50, 48,
       46, 45, 42, 39, 37, 34, 32, 30, 29, 26, 23, 21, 18, 16, 14, 11, 10, 7, 3] @ inputs) \<and>
   list_all plain_or_lost transformed_12 \<and>
   map target (filter (is_temp \<circ> target) transformed_12) = map Temp
     [218, 221, 222, 224, 226, 229, 231, 234, 237] \<and>
   list_all2 names_parameter [
     ''L_self_modules_layers_modules_13_modules_input_layernorm_parameters_weight_'',
       ''L_self_modules_layers_modules_13_modules_self_attn_modules_qkv_proj_parameters_bias_'',
       ''L_self_modules_layers_modules_13_modules_self_attn_modules_qkv_proj_parameters_weight_'',
       ''L_self_modules_layers_modules_13_modules_self_attn_modules_o_proj_parameters_weight_'',
       ''L_self_modules_layers_modules_13_modules_post_attention_layernorm_parameters_weight_'',
       ''L_self_modules_layers_modules_13_modules_mlp_modules_gate_up_proj_parameters_weight_'',
       ''L_self_modules_layers_modules_13_modules_mlp_modules_down_proj_parameters_weight_'',
       ''L_self_modules_layers_modules_14_modules_input_layernorm_parameters_weight_'',
       ''L_self_modules_layers_modules_14_modules_self_attn_modules_qkv_proj_parameters_bias_'']
     (map rhs (filter (is_temp \<circ> target) transformed_12))"
  by code_simp

lemma segment_13:
  "assigned
     (510, map Temp [237, 234, 231, 229, 226, 224, 222, 221, 218, 215, 213, 210, 208, 206, 205, 202, 199, 197,
       194, 192, 190, 189, 186, 183, 181, 178, 176, 174, 173, 170, 167, 165, 162, 160, 158, 157, 154, 151,
       149, 146, 144, 142, 141, 138, 135, 133, 130, 128, 126, 125, 122, 119, 117, 114, 112, 110, 109, 106,
       103, 101, 98, 96, 94, 93, 90, 87, 85, 82, 80, 78, 77, 74, 71, 69, 66, 64, 62, 61, 58, 55, 53, 50, 48,
       46, 45, 42, 39, 37, 34, 32, 30, 29, 26, 23, 21, 18, 16, 14, 11, 10, 7, 3] @ inputs)
     transformed_13 = Some
     (553, map Temp [256, 254, 253, 250, 247, 245, 242, 240, 238, 237, 234, 231, 229, 226, 224, 222, 221, 218,
       215, 213, 210, 208, 206, 205, 202, 199, 197, 194, 192, 190, 189, 186, 183, 181, 178, 176, 174, 173,
       170, 167, 165, 162, 160, 158, 157, 154, 151, 149, 146, 144, 142, 141, 138, 135, 133, 130, 128, 126,
       125, 122, 119, 117, 114, 112, 110, 109, 106, 103, 101, 98, 96, 94, 93, 90, 87, 85, 82, 80, 78, 77, 74,
       71, 69, 66, 64, 62, 61, 58, 55, 53, 50, 48, 46, 45, 42, 39, 37, 34, 32, 30, 29, 26, 23, 21, 18, 16, 14,
       11, 10, 7, 3] @ inputs) \<and>
   list_all plain_or_lost transformed_13 \<and>
   map target (filter (is_temp \<circ> target) transformed_13) = map Temp
     [238, 240, 242, 245, 247, 250, 253, 254, 256] \<and>
   list_all2 names_parameter [
     ''L_self_modules_layers_modules_14_modules_self_attn_modules_qkv_proj_parameters_weight_'',
       ''L_self_modules_layers_modules_14_modules_self_attn_modules_o_proj_parameters_weight_'',
       ''L_self_modules_layers_modules_14_modules_post_attention_layernorm_parameters_weight_'',
       ''L_self_modules_layers_modules_14_modules_mlp_modules_gate_up_proj_parameters_weight_'',
       ''L_self_modules_layers_modules_14_modules_mlp_modules_down_proj_parameters_weight_'',
       ''L_self_modules_layers_modules_15_modules_input_layernorm_parameters_weight_'',
       ''L_self_modules_layers_modules_15_modules_self_attn_modules_qkv_proj_parameters_bias_'',
       ''L_self_modules_layers_modules_15_modules_self_attn_modules_qkv_proj_parameters_weight_'',
       ''L_self_modules_layers_modules_15_modules_self_attn_modules_o_proj_parameters_weight_'']
     (map rhs (filter (is_temp \<circ> target) transformed_13))"
  by code_simp

lemma segment_14:
  "assigned
     (553, map Temp [256, 254, 253, 250, 247, 245, 242, 240, 238, 237, 234, 231, 229, 226, 224, 222, 221, 218,
       215, 213, 210, 208, 206, 205, 202, 199, 197, 194, 192, 190, 189, 186, 183, 181, 178, 176, 174, 173,
       170, 167, 165, 162, 160, 158, 157, 154, 151, 149, 146, 144, 142, 141, 138, 135, 133, 130, 128, 126,
       125, 122, 119, 117, 114, 112, 110, 109, 106, 103, 101, 98, 96, 94, 93, 90, 87, 85, 82, 80, 78, 77, 74,
       71, 69, 66, 64, 62, 61, 58, 55, 53, 50, 48, 46, 45, 42, 39, 37, 34, 32, 30, 29, 26, 23, 21, 18, 16, 14,
       11, 10, 7, 3] @ inputs)
     transformed_14 = Some
     (594, map Temp [277, 274, 272, 270, 269, 266, 263, 261, 258, 256, 254, 253, 250, 247, 245, 242, 240, 238,
       237, 234, 231, 229, 226, 224, 222, 221, 218, 215, 213, 210, 208, 206, 205, 202, 199, 197, 194, 192,
       190, 189, 186, 183, 181, 178, 176, 174, 173, 170, 167, 165, 162, 160, 158, 157, 154, 151, 149, 146,
       144, 142, 141, 138, 135, 133, 130, 128, 126, 125, 122, 119, 117, 114, 112, 110, 109, 106, 103, 101, 98,
       96, 94, 93, 90, 87, 85, 82, 80, 78, 77, 74, 71, 69, 66, 64, 62, 61, 58, 55, 53, 50, 48, 46, 45, 42, 39,
       37, 34, 32, 30, 29, 26, 23, 21, 18, 16, 14, 11, 10, 7, 3] @ inputs) \<and>
   list_all plain_or_lost transformed_14 \<and>
   map target (filter (is_temp \<circ> target) transformed_14) = map Temp
     [258, 261, 263, 266, 269, 270, 272, 274, 277] \<and>
   list_all2 names_parameter [
     ''L_self_modules_layers_modules_15_modules_post_attention_layernorm_parameters_weight_'',
       ''L_self_modules_layers_modules_15_modules_mlp_modules_gate_up_proj_parameters_weight_'',
       ''L_self_modules_layers_modules_15_modules_mlp_modules_down_proj_parameters_weight_'',
       ''L_self_modules_layers_modules_16_modules_input_layernorm_parameters_weight_'',
       ''L_self_modules_layers_modules_16_modules_self_attn_modules_qkv_proj_parameters_bias_'',
       ''L_self_modules_layers_modules_16_modules_self_attn_modules_qkv_proj_parameters_weight_'',
       ''L_self_modules_layers_modules_16_modules_self_attn_modules_o_proj_parameters_weight_'',
       ''L_self_modules_layers_modules_16_modules_post_attention_layernorm_parameters_weight_'',
       ''L_self_modules_layers_modules_16_modules_mlp_modules_gate_up_proj_parameters_weight_'']
     (map rhs (filter (is_temp \<circ> target) transformed_14))"
  by code_simp

lemma segment_15:
  "assigned
     (594, map Temp [277, 274, 272, 270, 269, 266, 263, 261, 258, 256, 254, 253, 250, 247, 245, 242, 240, 238,
       237, 234, 231, 229, 226, 224, 222, 221, 218, 215, 213, 210, 208, 206, 205, 202, 199, 197, 194, 192,
       190, 189, 186, 183, 181, 178, 176, 174, 173, 170, 167, 165, 162, 160, 158, 157, 154, 151, 149, 146,
       144, 142, 141, 138, 135, 133, 130, 128, 126, 125, 122, 119, 117, 114, 112, 110, 109, 106, 103, 101, 98,
       96, 94, 93, 90, 87, 85, 82, 80, 78, 77, 74, 71, 69, 66, 64, 62, 61, 58, 55, 53, 50, 48, 46, 45, 42, 39,
       37, 34, 32, 30, 29, 26, 23, 21, 18, 16, 14, 11, 10, 7, 3] @ inputs)
     transformed_15 = Some
     (638, map Temp [295, 293, 290, 288, 286, 285, 282, 279, 277, 274, 272, 270, 269, 266, 263, 261, 258, 256,
       254, 253, 250, 247, 245, 242, 240, 238, 237, 234, 231, 229, 226, 224, 222, 221, 218, 215, 213, 210,
       208, 206, 205, 202, 199, 197, 194, 192, 190, 189, 186, 183, 181, 178, 176, 174, 173, 170, 167, 165,
       162, 160, 158, 157, 154, 151, 149, 146, 144, 142, 141, 138, 135, 133, 130, 128, 126, 125, 122, 119,
       117, 114, 112, 110, 109, 106, 103, 101, 98, 96, 94, 93, 90, 87, 85, 82, 80, 78, 77, 74, 71, 69, 66, 64,
       62, 61, 58, 55, 53, 50, 48, 46, 45, 42, 39, 37, 34, 32, 30, 29, 26, 23, 21, 18, 16, 14, 11, 10, 7, 3] @
       inputs) \<and>
   list_all plain_or_lost transformed_15 \<and>
   map target (filter (is_temp \<circ> target) transformed_15) = map Temp
     [279, 282, 285, 286, 288, 290, 293, 295] \<and>
   list_all2 names_parameter [
     ''L_self_modules_layers_modules_16_modules_mlp_modules_down_proj_parameters_weight_'',
       ''L_self_modules_layers_modules_17_modules_input_layernorm_parameters_weight_'',
       ''L_self_modules_layers_modules_17_modules_self_attn_modules_qkv_proj_parameters_bias_'',
       ''L_self_modules_layers_modules_17_modules_self_attn_modules_qkv_proj_parameters_weight_'',
       ''L_self_modules_layers_modules_17_modules_self_attn_modules_o_proj_parameters_weight_'',
       ''L_self_modules_layers_modules_17_modules_post_attention_layernorm_parameters_weight_'',
       ''L_self_modules_layers_modules_17_modules_mlp_modules_gate_up_proj_parameters_weight_'',
       ''L_self_modules_layers_modules_17_modules_mlp_modules_down_proj_parameters_weight_'']
     (map rhs (filter (is_temp \<circ> target) transformed_15))"
  by code_simp

lemma segment_16:
  "assigned
     (638, map Temp [295, 293, 290, 288, 286, 285, 282, 279, 277, 274, 272, 270, 269, 266, 263, 261, 258, 256,
       254, 253, 250, 247, 245, 242, 240, 238, 237, 234, 231, 229, 226, 224, 222, 221, 218, 215, 213, 210,
       208, 206, 205, 202, 199, 197, 194, 192, 190, 189, 186, 183, 181, 178, 176, 174, 173, 170, 167, 165,
       162, 160, 158, 157, 154, 151, 149, 146, 144, 142, 141, 138, 135, 133, 130, 128, 126, 125, 122, 119,
       117, 114, 112, 110, 109, 106, 103, 101, 98, 96, 94, 93, 90, 87, 85, 82, 80, 78, 77, 74, 71, 69, 66, 64,
       62, 61, 58, 55, 53, 50, 48, 46, 45, 42, 39, 37, 34, 32, 30, 29, 26, 23, 21, 18, 16, 14, 11, 10, 7, 3] @
       inputs)
     transformed_16 = Some
     (680, map Temp [314, 311, 309, 306, 304, 302, 301, 298, 295, 293, 290, 288, 286, 285, 282, 279, 277, 274,
       272, 270, 269, 266, 263, 261, 258, 256, 254, 253, 250, 247, 245, 242, 240, 238, 237, 234, 231, 229,
       226, 224, 222, 221, 218, 215, 213, 210, 208, 206, 205, 202, 199, 197, 194, 192, 190, 189, 186, 183,
       181, 178, 176, 174, 173, 170, 167, 165, 162, 160, 158, 157, 154, 151, 149, 146, 144, 142, 141, 138,
       135, 133, 130, 128, 126, 125, 122, 119, 117, 114, 112, 110, 109, 106, 103, 101, 98, 96, 94, 93, 90, 87,
       85, 82, 80, 78, 77, 74, 71, 69, 66, 64, 62, 61, 58, 55, 53, 50, 48, 46, 45, 42, 39, 37, 34, 32, 30, 29,
       26, 23, 21, 18, 16, 14, 11, 10, 7, 3] @ inputs) \<and>
   list_all plain_or_lost transformed_16 \<and>
   map target (filter (is_temp \<circ> target) transformed_16) = map Temp
     [298, 301, 302, 304, 306, 309, 311, 314] \<and>
   list_all2 names_parameter [
     ''L_self_modules_layers_modules_18_modules_input_layernorm_parameters_weight_'',
       ''L_self_modules_layers_modules_18_modules_self_attn_modules_qkv_proj_parameters_bias_'',
       ''L_self_modules_layers_modules_18_modules_self_attn_modules_qkv_proj_parameters_weight_'',
       ''L_self_modules_layers_modules_18_modules_self_attn_modules_o_proj_parameters_weight_'',
       ''L_self_modules_layers_modules_18_modules_post_attention_layernorm_parameters_weight_'',
       ''L_self_modules_layers_modules_18_modules_mlp_modules_gate_up_proj_parameters_weight_'',
       ''L_self_modules_layers_modules_18_modules_mlp_modules_down_proj_parameters_weight_'',
       ''L_self_modules_layers_modules_19_modules_input_layernorm_parameters_weight_'']
     (map rhs (filter (is_temp \<circ> target) transformed_16))"
  by code_simp

lemma segment_17:
  "assigned
     (680, map Temp [314, 311, 309, 306, 304, 302, 301, 298, 295, 293, 290, 288, 286, 285, 282, 279, 277, 274,
       272, 270, 269, 266, 263, 261, 258, 256, 254, 253, 250, 247, 245, 242, 240, 238, 237, 234, 231, 229,
       226, 224, 222, 221, 218, 215, 213, 210, 208, 206, 205, 202, 199, 197, 194, 192, 190, 189, 186, 183,
       181, 178, 176, 174, 173, 170, 167, 165, 162, 160, 158, 157, 154, 151, 149, 146, 144, 142, 141, 138,
       135, 133, 130, 128, 126, 125, 122, 119, 117, 114, 112, 110, 109, 106, 103, 101, 98, 96, 94, 93, 90, 87,
       85, 82, 80, 78, 77, 74, 71, 69, 66, 64, 62, 61, 58, 55, 53, 50, 48, 46, 45, 42, 39, 37, 34, 32, 30, 29,
       26, 23, 21, 18, 16, 14, 11, 10, 7, 3] @ inputs)
     transformed_17 = Some
     (721, map Temp [336, 334, 333, 330, 327, 325, 322, 320, 318, 317, 314, 311, 309, 306, 304, 302, 301, 298,
       295, 293, 290, 288, 286, 285, 282, 279, 277, 274, 272, 270, 269, 266, 263, 261, 258, 256, 254, 253,
       250, 247, 245, 242, 240, 238, 237, 234, 231, 229, 226, 224, 222, 221, 218, 215, 213, 210, 208, 206,
       205, 202, 199, 197, 194, 192, 190, 189, 186, 183, 181, 178, 176, 174, 173, 170, 167, 165, 162, 160,
       158, 157, 154, 151, 149, 146, 144, 142, 141, 138, 135, 133, 130, 128, 126, 125, 122, 119, 117, 114,
       112, 110, 109, 106, 103, 101, 98, 96, 94, 93, 90, 87, 85, 82, 80, 78, 77, 74, 71, 69, 66, 64, 62, 61,
       58, 55, 53, 50, 48, 46, 45, 42, 39, 37, 34, 32, 30, 29, 26, 23, 21, 18, 16, 14, 11, 10, 7, 3] @ inputs) \<and>
   list_all plain_or_lost transformed_17 \<and>
   map target (filter (is_temp \<circ> target) transformed_17) = map Temp
     [317, 318, 320, 322, 325, 327, 330, 333, 334, 336] \<and>
   list_all2 names_parameter [
     ''L_self_modules_layers_modules_19_modules_self_attn_modules_qkv_proj_parameters_bias_'',
       ''L_self_modules_layers_modules_19_modules_self_attn_modules_qkv_proj_parameters_weight_'',
       ''L_self_modules_layers_modules_19_modules_self_attn_modules_o_proj_parameters_weight_'',
       ''L_self_modules_layers_modules_19_modules_post_attention_layernorm_parameters_weight_'',
       ''L_self_modules_layers_modules_19_modules_mlp_modules_gate_up_proj_parameters_weight_'',
       ''L_self_modules_layers_modules_19_modules_mlp_modules_down_proj_parameters_weight_'',
       ''L_self_modules_layers_modules_20_modules_input_layernorm_parameters_weight_'',
       ''L_self_modules_layers_modules_20_modules_self_attn_modules_qkv_proj_parameters_bias_'',
       ''L_self_modules_layers_modules_20_modules_self_attn_modules_qkv_proj_parameters_weight_'',
       ''L_self_modules_layers_modules_20_modules_self_attn_modules_o_proj_parameters_weight_'']
     (map rhs (filter (is_temp \<circ> target) transformed_17))"
  by code_simp

lemma segment_18:
  "assigned
     (721, map Temp [336, 334, 333, 330, 327, 325, 322, 320, 318, 317, 314, 311, 309, 306, 304, 302, 301, 298,
       295, 293, 290, 288, 286, 285, 282, 279, 277, 274, 272, 270, 269, 266, 263, 261, 258, 256, 254, 253,
       250, 247, 245, 242, 240, 238, 237, 234, 231, 229, 226, 224, 222, 221, 218, 215, 213, 210, 208, 206,
       205, 202, 199, 197, 194, 192, 190, 189, 186, 183, 181, 178, 176, 174, 173, 170, 167, 165, 162, 160,
       158, 157, 154, 151, 149, 146, 144, 142, 141, 138, 135, 133, 130, 128, 126, 125, 122, 119, 117, 114,
       112, 110, 109, 106, 103, 101, 98, 96, 94, 93, 90, 87, 85, 82, 80, 78, 77, 74, 71, 69, 66, 64, 62, 61,
       58, 55, 53, 50, 48, 46, 45, 42, 39, 37, 34, 32, 30, 29, 26, 23, 21, 18, 16, 14, 11, 10, 7, 3] @ inputs)
     transformed_18 = Some
     (764, map Temp [354, 352, 350, 349, 346, 343, 341, 338, 336, 334, 333, 330, 327, 325, 322, 320, 318, 317,
       314, 311, 309, 306, 304, 302, 301, 298, 295, 293, 290, 288, 286, 285, 282, 279, 277, 274, 272, 270,
       269, 266, 263, 261, 258, 256, 254, 253, 250, 247, 245, 242, 240, 238, 237, 234, 231, 229, 226, 224,
       222, 221, 218, 215, 213, 210, 208, 206, 205, 202, 199, 197, 194, 192, 190, 189, 186, 183, 181, 178,
       176, 174, 173, 170, 167, 165, 162, 160, 158, 157, 154, 151, 149, 146, 144, 142, 141, 138, 135, 133,
       130, 128, 126, 125, 122, 119, 117, 114, 112, 110, 109, 106, 103, 101, 98, 96, 94, 93, 90, 87, 85, 82,
       80, 78, 77, 74, 71, 69, 66, 64, 62, 61, 58, 55, 53, 50, 48, 46, 45, 42, 39, 37, 34, 32, 30, 29, 26, 23,
       21, 18, 16, 14, 11, 10, 7, 3] @ inputs) \<and>
   list_all plain_or_lost transformed_18 \<and>
   map target (filter (is_temp \<circ> target) transformed_18) = map Temp
     [338, 341, 343, 346, 349, 350, 352, 354] \<and>
   list_all2 names_parameter [
     ''L_self_modules_layers_modules_20_modules_post_attention_layernorm_parameters_weight_'',
       ''L_self_modules_layers_modules_20_modules_mlp_modules_gate_up_proj_parameters_weight_'',
       ''L_self_modules_layers_modules_20_modules_mlp_modules_down_proj_parameters_weight_'',
       ''L_self_modules_layers_modules_21_modules_input_layernorm_parameters_weight_'',
       ''L_self_modules_layers_modules_21_modules_self_attn_modules_qkv_proj_parameters_bias_'',
       ''L_self_modules_layers_modules_21_modules_self_attn_modules_qkv_proj_parameters_weight_'',
       ''L_self_modules_layers_modules_21_modules_self_attn_modules_o_proj_parameters_weight_'',
       ''L_self_modules_layers_modules_21_modules_post_attention_layernorm_parameters_weight_'']
     (map rhs (filter (is_temp \<circ> target) transformed_18))"
  by code_simp

lemma segment_19:
  "assigned
     (764, map Temp [354, 352, 350, 349, 346, 343, 341, 338, 336, 334, 333, 330, 327, 325, 322, 320, 318, 317,
       314, 311, 309, 306, 304, 302, 301, 298, 295, 293, 290, 288, 286, 285, 282, 279, 277, 274, 272, 270,
       269, 266, 263, 261, 258, 256, 254, 253, 250, 247, 245, 242, 240, 238, 237, 234, 231, 229, 226, 224,
       222, 221, 218, 215, 213, 210, 208, 206, 205, 202, 199, 197, 194, 192, 190, 189, 186, 183, 181, 178,
       176, 174, 173, 170, 167, 165, 162, 160, 158, 157, 154, 151, 149, 146, 144, 142, 141, 138, 135, 133,
       130, 128, 126, 125, 122, 119, 117, 114, 112, 110, 109, 106, 103, 101, 98, 96, 94, 93, 90, 87, 85, 82,
       80, 78, 77, 74, 71, 69, 66, 64, 62, 61, 58, 55, 53, 50, 48, 46, 45, 42, 39, 37, 34, 32, 30, 29, 26, 23,
       21, 18, 16, 14, 11, 10, 7, 3] @ inputs)
     transformed_19 = Some
     (806, map Temp [375, 373, 370, 368, 366, 365, 362, 359, 357, 354, 352, 350, 349, 346, 343, 341, 338, 336,
       334, 333, 330, 327, 325, 322, 320, 318, 317, 314, 311, 309, 306, 304, 302, 301, 298, 295, 293, 290,
       288, 286, 285, 282, 279, 277, 274, 272, 270, 269, 266, 263, 261, 258, 256, 254, 253, 250, 247, 245,
       242, 240, 238, 237, 234, 231, 229, 226, 224, 222, 221, 218, 215, 213, 210, 208, 206, 205, 202, 199,
       197, 194, 192, 190, 189, 186, 183, 181, 178, 176, 174, 173, 170, 167, 165, 162, 160, 158, 157, 154,
       151, 149, 146, 144, 142, 141, 138, 135, 133, 130, 128, 126, 125, 122, 119, 117, 114, 112, 110, 109,
       106, 103, 101, 98, 96, 94, 93, 90, 87, 85, 82, 80, 78, 77, 74, 71, 69, 66, 64, 62, 61, 58, 55, 53, 50,
       48, 46, 45, 42, 39, 37, 34, 32, 30, 29, 26, 23, 21, 18, 16, 14, 11, 10, 7, 3] @ inputs) \<and>
   list_all plain_or_lost transformed_19 \<and>
   map target (filter (is_temp \<circ> target) transformed_19) = map Temp
     [357, 359, 362, 365, 366, 368, 370, 373, 375] \<and>
   list_all2 names_parameter [
     ''L_self_modules_layers_modules_21_modules_mlp_modules_gate_up_proj_parameters_weight_'',
       ''L_self_modules_layers_modules_21_modules_mlp_modules_down_proj_parameters_weight_'',
       ''L_self_modules_layers_modules_22_modules_input_layernorm_parameters_weight_'',
       ''L_self_modules_layers_modules_22_modules_self_attn_modules_qkv_proj_parameters_bias_'',
       ''L_self_modules_layers_modules_22_modules_self_attn_modules_qkv_proj_parameters_weight_'',
       ''L_self_modules_layers_modules_22_modules_self_attn_modules_o_proj_parameters_weight_'',
       ''L_self_modules_layers_modules_22_modules_post_attention_layernorm_parameters_weight_'',
       ''L_self_modules_layers_modules_22_modules_mlp_modules_gate_up_proj_parameters_weight_'',
       ''L_self_modules_layers_modules_22_modules_mlp_modules_down_proj_parameters_weight_'']
     (map rhs (filter (is_temp \<circ> target) transformed_19))"
  by code_simp

lemma segment_20:
  "assigned
     (806, map Temp [375, 373, 370, 368, 366, 365, 362, 359, 357, 354, 352, 350, 349, 346, 343, 341, 338, 336,
       334, 333, 330, 327, 325, 322, 320, 318, 317, 314, 311, 309, 306, 304, 302, 301, 298, 295, 293, 290,
       288, 286, 285, 282, 279, 277, 274, 272, 270, 269, 266, 263, 261, 258, 256, 254, 253, 250, 247, 245,
       242, 240, 238, 237, 234, 231, 229, 226, 224, 222, 221, 218, 215, 213, 210, 208, 206, 205, 202, 199,
       197, 194, 192, 190, 189, 186, 183, 181, 178, 176, 174, 173, 170, 167, 165, 162, 160, 158, 157, 154,
       151, 149, 146, 144, 142, 141, 138, 135, 133, 130, 128, 126, 125, 122, 119, 117, 114, 112, 110, 109,
       106, 103, 101, 98, 96, 94, 93, 90, 87, 85, 82, 80, 78, 77, 74, 71, 69, 66, 64, 62, 61, 58, 55, 53, 50,
       48, 46, 45, 42, 39, 37, 34, 32, 30, 29, 26, 23, 21, 18, 16, 14, 11, 10, 7, 3] @ inputs)
     transformed_20 = Some
     (841, map Temp [391, 389, 386, 384, 382, 381, 378, 375, 373, 370, 368, 366, 365, 362, 359, 357, 354, 352,
       350, 349, 346, 343, 341, 338, 336, 334, 333, 330, 327, 325, 322, 320, 318, 317, 314, 311, 309, 306,
       304, 302, 301, 298, 295, 293, 290, 288, 286, 285, 282, 279, 277, 274, 272, 270, 269, 266, 263, 261,
       258, 256, 254, 253, 250, 247, 245, 242, 240, 238, 237, 234, 231, 229, 226, 224, 222, 221, 218, 215,
       213, 210, 208, 206, 205, 202, 199, 197, 194, 192, 190, 189, 186, 183, 181, 178, 176, 174, 173, 170,
       167, 165, 162, 160, 158, 157, 154, 151, 149, 146, 144, 142, 141, 138, 135, 133, 130, 128, 126, 125,
       122, 119, 117, 114, 112, 110, 109, 106, 103, 101, 98, 96, 94, 93, 90, 87, 85, 82, 80, 78, 77, 74, 71,
       69, 66, 64, 62, 61, 58, 55, 53, 50, 48, 46, 45, 42, 39, 37, 34, 32, 30, 29, 26, 23, 21, 18, 16, 14, 11,
       10, 7, 3] @ inputs) \<and>
   list_all plain_or_lost transformed_20 \<and>
   map target (filter (is_temp \<circ> target) transformed_20) = map Temp
     [378, 381, 382, 384, 386, 389, 391] \<and>
   list_all2 names_parameter [
     ''L_self_modules_layers_modules_23_modules_input_layernorm_parameters_weight_'',
       ''L_self_modules_layers_modules_23_modules_self_attn_modules_qkv_proj_parameters_bias_'',
       ''L_self_modules_layers_modules_23_modules_self_attn_modules_qkv_proj_parameters_weight_'',
       ''L_self_modules_layers_modules_23_modules_self_attn_modules_o_proj_parameters_weight_'',
       ''L_self_modules_layers_modules_23_modules_post_attention_layernorm_parameters_weight_'',
       ''L_self_modules_layers_modules_23_modules_mlp_modules_gate_up_proj_parameters_weight_'',
       ''L_self_modules_layers_modules_23_modules_mlp_modules_down_proj_parameters_weight_'']
     (map rhs (filter (is_temp \<circ> target) transformed_20))"
  by code_simp

lemmas assigned_1 = segment_1 [THEN conjunct1]
lemmas assigned_2 = segment_2 [THEN conjunct1]
lemmas assigned_3 = segment_3 [THEN conjunct1]
lemmas assigned_4 = segment_4 [THEN conjunct1]
lemmas assigned_5 = segment_5 [THEN conjunct1]
lemmas assigned_6 = segment_6 [THEN conjunct1]
lemmas assigned_7 = segment_7 [THEN conjunct1]
lemmas assigned_8 = segment_8 [THEN conjunct1]
lemmas assigned_9 = segment_9 [THEN conjunct1]
lemmas assigned_10 = segment_10 [THEN conjunct1]
lemmas assigned_11 = segment_11 [THEN conjunct1]
lemmas assigned_12 = segment_12 [THEN conjunct1]
lemmas assigned_13 = segment_13 [THEN conjunct1]
lemmas assigned_14 = segment_14 [THEN conjunct1]
lemmas assigned_15 = segment_15 [THEN conjunct1]
lemmas assigned_16 = segment_16 [THEN conjunct1]
lemmas assigned_17 = segment_17 [THEN conjunct1]
lemmas assigned_18 = segment_18 [THEN conjunct1]
lemmas assigned_19 = segment_19 [THEN conjunct1]
lemmas assigned_20 = segment_20 [THEN conjunct1]
lemmas plain_1 = segment_1 [THEN conjunct2, THEN conjunct1]
lemmas plain_2 = segment_2 [THEN conjunct2, THEN conjunct1]
lemmas plain_3 = segment_3 [THEN conjunct2, THEN conjunct1]
lemmas plain_4 = segment_4 [THEN conjunct2, THEN conjunct1]
lemmas plain_5 = segment_5 [THEN conjunct2, THEN conjunct1]
lemmas plain_6 = segment_6 [THEN conjunct2, THEN conjunct1]
lemmas plain_7 = segment_7 [THEN conjunct2, THEN conjunct1]
lemmas plain_8 = segment_8 [THEN conjunct2, THEN conjunct1]
lemmas plain_9 = segment_9 [THEN conjunct2, THEN conjunct1]
lemmas plain_10 = segment_10 [THEN conjunct2, THEN conjunct1]
lemmas plain_11 = segment_11 [THEN conjunct2, THEN conjunct1]
lemmas plain_12 = segment_12 [THEN conjunct2, THEN conjunct1]
lemmas plain_13 = segment_13 [THEN conjunct2, THEN conjunct1]
lemmas plain_14 = segment_14 [THEN conjunct2, THEN conjunct1]
lemmas plain_15 = segment_15 [THEN conjunct2, THEN conjunct1]
lemmas plain_16 = segment_16 [THEN conjunct2, THEN conjunct1]
lemmas plain_17 = segment_17 [THEN conjunct2, THEN conjunct1]
lemmas plain_18 = segment_18 [THEN conjunct2, THEN conjunct1]
lemmas plain_19 = segment_19 [THEN conjunct2, THEN conjunct1]
lemmas plain_20 = segment_20 [THEN conjunct2, THEN conjunct1]
lemmas targets_1 = segment_1 [THEN conjunct2, THEN conjunct2, THEN conjunct1]
lemmas targets_2 = segment_2 [THEN conjunct2, THEN conjunct2, THEN conjunct1]
lemmas targets_3 = segment_3 [THEN conjunct2, THEN conjunct2, THEN conjunct1]
lemmas targets_4 = segment_4 [THEN conjunct2, THEN conjunct2, THEN conjunct1]
lemmas targets_5 = segment_5 [THEN conjunct2, THEN conjunct2, THEN conjunct1]
lemmas targets_6 = segment_6 [THEN conjunct2, THEN conjunct2, THEN conjunct1]
lemmas targets_7 = segment_7 [THEN conjunct2, THEN conjunct2, THEN conjunct1]
lemmas targets_8 = segment_8 [THEN conjunct2, THEN conjunct2, THEN conjunct1]
lemmas targets_9 = segment_9 [THEN conjunct2, THEN conjunct2, THEN conjunct1]
lemmas targets_10 = segment_10 [THEN conjunct2, THEN conjunct2, THEN conjunct1]
lemmas targets_11 = segment_11 [THEN conjunct2, THEN conjunct2, THEN conjunct1]
lemmas targets_12 = segment_12 [THEN conjunct2, THEN conjunct2, THEN conjunct1]
lemmas targets_13 = segment_13 [THEN conjunct2, THEN conjunct2, THEN conjunct1]
lemmas targets_14 = segment_14 [THEN conjunct2, THEN conjunct2, THEN conjunct1]
lemmas targets_15 = segment_15 [THEN conjunct2, THEN conjunct2, THEN conjunct1]
lemmas targets_16 = segment_16 [THEN conjunct2, THEN conjunct2, THEN conjunct1]
lemmas targets_17 = segment_17 [THEN conjunct2, THEN conjunct2, THEN conjunct1]
lemmas targets_18 = segment_18 [THEN conjunct2, THEN conjunct2, THEN conjunct1]
lemmas targets_19 = segment_19 [THEN conjunct2, THEN conjunct2, THEN conjunct1]
lemmas targets_20 = segment_20 [THEN conjunct2, THEN conjunct2, THEN conjunct1]
lemmas named_1 = segment_1 [THEN conjunct2, THEN conjunct2, THEN conjunct2]
lemmas named_2 = segment_2 [THEN conjunct2, THEN conjunct2, THEN conjunct2]
lemmas named_3 = segment_3 [THEN conjunct2, THEN conjunct2, THEN conjunct2]
lemmas named_4 = segment_4 [THEN conjunct2, THEN conjunct2, THEN conjunct2]
lemmas named_5 = segment_5 [THEN conjunct2, THEN conjunct2, THEN conjunct2]
lemmas named_6 = segment_6 [THEN conjunct2, THEN conjunct2, THEN conjunct2]
lemmas named_7 = segment_7 [THEN conjunct2, THEN conjunct2, THEN conjunct2]
lemmas named_8 = segment_8 [THEN conjunct2, THEN conjunct2, THEN conjunct2]
lemmas named_9 = segment_9 [THEN conjunct2, THEN conjunct2, THEN conjunct2]
lemmas named_10 = segment_10 [THEN conjunct2, THEN conjunct2, THEN conjunct2]
lemmas named_11 = segment_11 [THEN conjunct2, THEN conjunct2, THEN conjunct2]
lemmas named_12 = segment_12 [THEN conjunct2, THEN conjunct2, THEN conjunct2]
lemmas named_13 = segment_13 [THEN conjunct2, THEN conjunct2, THEN conjunct2]
lemmas named_14 = segment_14 [THEN conjunct2, THEN conjunct2, THEN conjunct2]
lemmas named_15 = segment_15 [THEN conjunct2, THEN conjunct2, THEN conjunct2]
lemmas named_16 = segment_16 [THEN conjunct2, THEN conjunct2, THEN conjunct2]
lemmas named_17 = segment_17 [THEN conjunct2, THEN conjunct2, THEN conjunct2]
lemmas named_18 = segment_18 [THEN conjunct2, THEN conjunct2, THEN conjunct2]
lemmas named_19 = segment_19 [THEN conjunct2, THEN conjunct2, THEN conjunct2]
lemmas named_20 = segment_20 [THEN conjunct2, THEN conjunct2, THEN conjunct2]

definition body_names :: "int \<times> var list" where
  "body_names =
     (841, map Temp [391, 389, 386, 384, 382, 381, 378, 375, 373, 370, 368, 366, 365, 362, 359, 357, 354, 352,
       350, 349, 346, 343, 341, 338, 336, 334, 333, 330, 327, 325, 322, 320, 318, 317, 314, 311, 309, 306,
       304, 302, 301, 298, 295, 293, 290, 288, 286, 285, 282, 279, 277, 274, 272, 270, 269, 266, 263, 261,
       258, 256, 254, 253, 250, 247, 245, 242, 240, 238, 237, 234, 231, 229, 226, 224, 222, 221, 218, 215,
       213, 210, 208, 206, 205, 202, 199, 197, 194, 192, 190, 189, 186, 183, 181, 178, 176, 174, 173, 170,
       167, 165, 162, 160, 158, 157, 154, 151, 149, 146, 144, 142, 141, 138, 135, 133, 130, 128, 126, 125,
       122, 119, 117, 114, 112, 110, 109, 106, 103, 101, 98, 96, 94, 93, 90, 87, 85, 82, 80, 78, 77, 74, 71,
       69, 66, 64, 62, 61, 58, 55, 53, 50, 48, 46, 45, 42, 39, 37, 34, 32, 30, 29, 26, 23, 21, 18, 16, 14, 11,
       10, 7, 3] @ inputs)"

lemma body_assigned: "assigned (0, inputs) transformed_body = Some body_names"
proof -
  have "assigned (0, map Temp [] @ inputs) transformed_body = Some body_names"
    by (simp only: transformed_body_def assigned_append body_names_def assigned_1 assigned_2 assigned_3 assigned_4 assigned_5 assigned_6 assigned_7 assigned_8 assigned_9 assigned_10 assigned_11 assigned_12 assigned_13 assigned_14 assigned_15 assigned_16 assigned_17 assigned_18 assigned_19 assigned_20 option.case)
  then show ?thesis by (simp only: list.map append_Nil)
qed

lemma body_plain: "list_all plain_or_lost transformed_body"
  by (simp only: transformed_body_def list_all_append plain_1 plain_2 plain_3 plain_4 plain_5 plain_6 plain_7 plain_8 plain_9 plain_10 plain_11 plain_12 plain_13 plain_14 plain_15 plain_16 plain_17 plain_18 plain_19 plain_20 simp_thms)

lemma arguments_known: "list_all (known body_names) (concat (map names transformed_arguments))"
  by code_simp

lemma result_unknown: "\<not> known body_names (Temp 395)"
  by code_simp

lemma arguments_plain: "\<forall>e \<in> set transformed_arguments. (case e of Lit v \<Rightarrow> True | _ \<Rightarrow> plain e)"
  by code_simp

lemma lookups_in_order: "map target lookups = passed transformed_arguments" "length lookups = 170"
proof -
  have l: "map target lookups = map Temp [
     3, 7, 10, 11, 14, 16, 18, 21, 23, 26, 29, 30, 32, 34, 37, 39, 42, 45, 46, 48, 50, 53, 55, 58, 61, 62, 64,
       66, 69, 71, 74, 77, 78, 80, 82, 85, 87, 90, 93, 94, 96, 98, 101, 103, 106, 109, 110, 112, 114, 117,
       119, 122, 125, 126, 128, 130, 133, 135, 138, 141, 142, 144, 146, 149, 151, 154, 157, 158, 160, 162,
       165, 167, 170, 173, 174, 176, 178, 181, 183, 186, 189, 190, 192, 194, 197, 199, 202, 205, 206, 208,
       210, 213, 215, 218, 221, 222, 224, 226, 229, 231, 234, 237, 238, 240, 242, 245, 247, 250, 253, 254,
       256, 258, 261, 263, 266, 269, 270, 272, 274, 277, 279, 282, 285, 286, 288, 290, 293, 295, 298, 301,
       302, 304, 306, 309, 311, 314, 317, 318, 320, 322, 325, 327, 330, 333, 334, 336, 338, 341, 343, 346,
       349, 350, 352, 354, 357, 359, 362, 365, 366, 368, 370, 373, 375, 378, 381, 382, 384, 386, 389, 391]"
    by (simp only: lookups_def transformed_body_def filter_append map_append targets_1 targets_2 targets_3 targets_4 targets_5 targets_6 targets_7 targets_8 targets_9 targets_10 targets_11 targets_12 targets_13 targets_14 targets_15 targets_16 targets_17 targets_18 targets_19 targets_20) simp
  have p: "passed transformed_arguments = map Temp [
     3, 7, 10, 11, 14, 16, 18, 21, 23, 26, 29, 30, 32, 34, 37, 39, 42, 45, 46, 48, 50, 53, 55, 58, 61, 62, 64,
       66, 69, 71, 74, 77, 78, 80, 82, 85, 87, 90, 93, 94, 96, 98, 101, 103, 106, 109, 110, 112, 114, 117,
       119, 122, 125, 126, 128, 130, 133, 135, 138, 141, 142, 144, 146, 149, 151, 154, 157, 158, 160, 162,
       165, 167, 170, 173, 174, 176, 178, 181, 183, 186, 189, 190, 192, 194, 197, 199, 202, 205, 206, 208,
       210, 213, 215, 218, 221, 222, 224, 226, 229, 231, 234, 237, 238, 240, 242, 245, 247, 250, 253, 254,
       256, 258, 261, 263, 266, 269, 270, 272, 274, 277, 279, 282, 285, 286, 288, 290, 293, 295, 298, 301,
       302, 304, 306, 309, 311, 314, 317, 318, 320, 322, 325, 327, 330, 333, 334, 336, 338, 341, 343, 346,
       349, 350, 352, 354, 357, 359, 362, 365, 366, 368, 370, 373, 375, 378, 381, 382, 384, 386, 389, 391]"
    by code_simp
  show "map target lookups = passed transformed_arguments" by (simp only: l p)
  have "length (map target lookups) = 170" by (simp only: l) simp
  then show "length lookups = 170" by (simp only: length_map)
qed

lemma passed_for_all: "passed_for transformed_arguments = [
     ''L_self_modules_embed_tokens_parameters_weight_'',
       ''L_self_modules_layers_modules_0_modules_input_layernorm_parameters_weight_'',
       ''L_self_modules_layers_modules_0_modules_self_attn_modules_qkv_proj_parameters_bias_'',
       ''L_self_modules_layers_modules_0_modules_self_attn_modules_qkv_proj_parameters_weight_'',
       ''L_self_modules_layers_modules_0_modules_self_attn_modules_rotary_emb_buffers_cos_sin_cache_'',
       ''L_self_modules_layers_modules_0_modules_self_attn_modules_o_proj_parameters_weight_'',
       ''L_self_modules_layers_modules_0_modules_post_attention_layernorm_parameters_weight_'',
       ''L_self_modules_layers_modules_0_modules_mlp_modules_gate_up_proj_parameters_weight_'',
       ''L_self_modules_layers_modules_0_modules_mlp_modules_down_proj_parameters_weight_'',
       ''L_self_modules_layers_modules_1_modules_input_layernorm_parameters_weight_'',
       ''L_self_modules_layers_modules_1_modules_self_attn_modules_qkv_proj_parameters_bias_'',
       ''L_self_modules_layers_modules_1_modules_self_attn_modules_qkv_proj_parameters_weight_'',
       ''L_self_modules_layers_modules_1_modules_self_attn_modules_o_proj_parameters_weight_'',
       ''L_self_modules_layers_modules_1_modules_post_attention_layernorm_parameters_weight_'',
       ''L_self_modules_layers_modules_1_modules_mlp_modules_gate_up_proj_parameters_weight_'',
       ''L_self_modules_layers_modules_1_modules_mlp_modules_down_proj_parameters_weight_'',
       ''L_self_modules_layers_modules_2_modules_input_layernorm_parameters_weight_'',
       ''L_self_modules_layers_modules_2_modules_self_attn_modules_qkv_proj_parameters_bias_'',
       ''L_self_modules_layers_modules_2_modules_self_attn_modules_qkv_proj_parameters_weight_'',
       ''L_self_modules_layers_modules_2_modules_self_attn_modules_o_proj_parameters_weight_'',
       ''L_self_modules_layers_modules_2_modules_post_attention_layernorm_parameters_weight_'',
       ''L_self_modules_layers_modules_2_modules_mlp_modules_gate_up_proj_parameters_weight_'',
       ''L_self_modules_layers_modules_2_modules_mlp_modules_down_proj_parameters_weight_'',
       ''L_self_modules_layers_modules_3_modules_input_layernorm_parameters_weight_'',
       ''L_self_modules_layers_modules_3_modules_self_attn_modules_qkv_proj_parameters_bias_'',
       ''L_self_modules_layers_modules_3_modules_self_attn_modules_qkv_proj_parameters_weight_'',
       ''L_self_modules_layers_modules_3_modules_self_attn_modules_o_proj_parameters_weight_'',
       ''L_self_modules_layers_modules_3_modules_post_attention_layernorm_parameters_weight_'',
       ''L_self_modules_layers_modules_3_modules_mlp_modules_gate_up_proj_parameters_weight_'',
       ''L_self_modules_layers_modules_3_modules_mlp_modules_down_proj_parameters_weight_'',
       ''L_self_modules_layers_modules_4_modules_input_layernorm_parameters_weight_'',
       ''L_self_modules_layers_modules_4_modules_self_attn_modules_qkv_proj_parameters_bias_'',
       ''L_self_modules_layers_modules_4_modules_self_attn_modules_qkv_proj_parameters_weight_'',
       ''L_self_modules_layers_modules_4_modules_self_attn_modules_o_proj_parameters_weight_'',
       ''L_self_modules_layers_modules_4_modules_post_attention_layernorm_parameters_weight_'',
       ''L_self_modules_layers_modules_4_modules_mlp_modules_gate_up_proj_parameters_weight_'',
       ''L_self_modules_layers_modules_4_modules_mlp_modules_down_proj_parameters_weight_'',
       ''L_self_modules_layers_modules_5_modules_input_layernorm_parameters_weight_'',
       ''L_self_modules_layers_modules_5_modules_self_attn_modules_qkv_proj_parameters_bias_'',
       ''L_self_modules_layers_modules_5_modules_self_attn_modules_qkv_proj_parameters_weight_'',
       ''L_self_modules_layers_modules_5_modules_self_attn_modules_o_proj_parameters_weight_'',
       ''L_self_modules_layers_modules_5_modules_post_attention_layernorm_parameters_weight_'',
       ''L_self_modules_layers_modules_5_modules_mlp_modules_gate_up_proj_parameters_weight_'',
       ''L_self_modules_layers_modules_5_modules_mlp_modules_down_proj_parameters_weight_'',
       ''L_self_modules_layers_modules_6_modules_input_layernorm_parameters_weight_'',
       ''L_self_modules_layers_modules_6_modules_self_attn_modules_qkv_proj_parameters_bias_'',
       ''L_self_modules_layers_modules_6_modules_self_attn_modules_qkv_proj_parameters_weight_'',
       ''L_self_modules_layers_modules_6_modules_self_attn_modules_o_proj_parameters_weight_'',
       ''L_self_modules_layers_modules_6_modules_post_attention_layernorm_parameters_weight_'',
       ''L_self_modules_layers_modules_6_modules_mlp_modules_gate_up_proj_parameters_weight_'',
       ''L_self_modules_layers_modules_6_modules_mlp_modules_down_proj_parameters_weight_'',
       ''L_self_modules_layers_modules_7_modules_input_layernorm_parameters_weight_'',
       ''L_self_modules_layers_modules_7_modules_self_attn_modules_qkv_proj_parameters_bias_'',
       ''L_self_modules_layers_modules_7_modules_self_attn_modules_qkv_proj_parameters_weight_'',
       ''L_self_modules_layers_modules_7_modules_self_attn_modules_o_proj_parameters_weight_'',
       ''L_self_modules_layers_modules_7_modules_post_attention_layernorm_parameters_weight_'',
       ''L_self_modules_layers_modules_7_modules_mlp_modules_gate_up_proj_parameters_weight_'',
       ''L_self_modules_layers_modules_7_modules_mlp_modules_down_proj_parameters_weight_'',
       ''L_self_modules_layers_modules_8_modules_input_layernorm_parameters_weight_'',
       ''L_self_modules_layers_modules_8_modules_self_attn_modules_qkv_proj_parameters_bias_'',
       ''L_self_modules_layers_modules_8_modules_self_attn_modules_qkv_proj_parameters_weight_'',
       ''L_self_modules_layers_modules_8_modules_self_attn_modules_o_proj_parameters_weight_'',
       ''L_self_modules_layers_modules_8_modules_post_attention_layernorm_parameters_weight_'',
       ''L_self_modules_layers_modules_8_modules_mlp_modules_gate_up_proj_parameters_weight_'',
       ''L_self_modules_layers_modules_8_modules_mlp_modules_down_proj_parameters_weight_'',
       ''L_self_modules_layers_modules_9_modules_input_layernorm_parameters_weight_'',
       ''L_self_modules_layers_modules_9_modules_self_attn_modules_qkv_proj_parameters_bias_'',
       ''L_self_modules_layers_modules_9_modules_self_attn_modules_qkv_proj_parameters_weight_'',
       ''L_self_modules_layers_modules_9_modules_self_attn_modules_o_proj_parameters_weight_'',
       ''L_self_modules_layers_modules_9_modules_post_attention_layernorm_parameters_weight_'',
       ''L_self_modules_layers_modules_9_modules_mlp_modules_gate_up_proj_parameters_weight_'',
       ''L_self_modules_layers_modules_9_modules_mlp_modules_down_proj_parameters_weight_'',
       ''L_self_modules_layers_modules_10_modules_input_layernorm_parameters_weight_'',
       ''L_self_modules_layers_modules_10_modules_self_attn_modules_qkv_proj_parameters_bias_'',
       ''L_self_modules_layers_modules_10_modules_self_attn_modules_qkv_proj_parameters_weight_'',
       ''L_self_modules_layers_modules_10_modules_self_attn_modules_o_proj_parameters_weight_'',
       ''L_self_modules_layers_modules_10_modules_post_attention_layernorm_parameters_weight_'',
       ''L_self_modules_layers_modules_10_modules_mlp_modules_gate_up_proj_parameters_weight_'',
       ''L_self_modules_layers_modules_10_modules_mlp_modules_down_proj_parameters_weight_'',
       ''L_self_modules_layers_modules_11_modules_input_layernorm_parameters_weight_'',
       ''L_self_modules_layers_modules_11_modules_self_attn_modules_qkv_proj_parameters_bias_'',
       ''L_self_modules_layers_modules_11_modules_self_attn_modules_qkv_proj_parameters_weight_'',
       ''L_self_modules_layers_modules_11_modules_self_attn_modules_o_proj_parameters_weight_'',
       ''L_self_modules_layers_modules_11_modules_post_attention_layernorm_parameters_weight_'',
       ''L_self_modules_layers_modules_11_modules_mlp_modules_gate_up_proj_parameters_weight_'',
       ''L_self_modules_layers_modules_11_modules_mlp_modules_down_proj_parameters_weight_'',
       ''L_self_modules_layers_modules_12_modules_input_layernorm_parameters_weight_'',
       ''L_self_modules_layers_modules_12_modules_self_attn_modules_qkv_proj_parameters_bias_'',
       ''L_self_modules_layers_modules_12_modules_self_attn_modules_qkv_proj_parameters_weight_'',
       ''L_self_modules_layers_modules_12_modules_self_attn_modules_o_proj_parameters_weight_'',
       ''L_self_modules_layers_modules_12_modules_post_attention_layernorm_parameters_weight_'',
       ''L_self_modules_layers_modules_12_modules_mlp_modules_gate_up_proj_parameters_weight_'',
       ''L_self_modules_layers_modules_12_modules_mlp_modules_down_proj_parameters_weight_'',
       ''L_self_modules_layers_modules_13_modules_input_layernorm_parameters_weight_'',
       ''L_self_modules_layers_modules_13_modules_self_attn_modules_qkv_proj_parameters_bias_'',
       ''L_self_modules_layers_modules_13_modules_self_attn_modules_qkv_proj_parameters_weight_'',
       ''L_self_modules_layers_modules_13_modules_self_attn_modules_o_proj_parameters_weight_'',
       ''L_self_modules_layers_modules_13_modules_post_attention_layernorm_parameters_weight_'',
       ''L_self_modules_layers_modules_13_modules_mlp_modules_gate_up_proj_parameters_weight_'',
       ''L_self_modules_layers_modules_13_modules_mlp_modules_down_proj_parameters_weight_'',
       ''L_self_modules_layers_modules_14_modules_input_layernorm_parameters_weight_'',
       ''L_self_modules_layers_modules_14_modules_self_attn_modules_qkv_proj_parameters_bias_'',
       ''L_self_modules_layers_modules_14_modules_self_attn_modules_qkv_proj_parameters_weight_'',
       ''L_self_modules_layers_modules_14_modules_self_attn_modules_o_proj_parameters_weight_'',
       ''L_self_modules_layers_modules_14_modules_post_attention_layernorm_parameters_weight_'',
       ''L_self_modules_layers_modules_14_modules_mlp_modules_gate_up_proj_parameters_weight_'',
       ''L_self_modules_layers_modules_14_modules_mlp_modules_down_proj_parameters_weight_'',
       ''L_self_modules_layers_modules_15_modules_input_layernorm_parameters_weight_'',
       ''L_self_modules_layers_modules_15_modules_self_attn_modules_qkv_proj_parameters_bias_'',
       ''L_self_modules_layers_modules_15_modules_self_attn_modules_qkv_proj_parameters_weight_'',
       ''L_self_modules_layers_modules_15_modules_self_attn_modules_o_proj_parameters_weight_'',
       ''L_self_modules_layers_modules_15_modules_post_attention_layernorm_parameters_weight_'',
       ''L_self_modules_layers_modules_15_modules_mlp_modules_gate_up_proj_parameters_weight_'',
       ''L_self_modules_layers_modules_15_modules_mlp_modules_down_proj_parameters_weight_'',
       ''L_self_modules_layers_modules_16_modules_input_layernorm_parameters_weight_'',
       ''L_self_modules_layers_modules_16_modules_self_attn_modules_qkv_proj_parameters_bias_'',
       ''L_self_modules_layers_modules_16_modules_self_attn_modules_qkv_proj_parameters_weight_'',
       ''L_self_modules_layers_modules_16_modules_self_attn_modules_o_proj_parameters_weight_'',
       ''L_self_modules_layers_modules_16_modules_post_attention_layernorm_parameters_weight_'',
       ''L_self_modules_layers_modules_16_modules_mlp_modules_gate_up_proj_parameters_weight_'',
       ''L_self_modules_layers_modules_16_modules_mlp_modules_down_proj_parameters_weight_'',
       ''L_self_modules_layers_modules_17_modules_input_layernorm_parameters_weight_'',
       ''L_self_modules_layers_modules_17_modules_self_attn_modules_qkv_proj_parameters_bias_'',
       ''L_self_modules_layers_modules_17_modules_self_attn_modules_qkv_proj_parameters_weight_'',
       ''L_self_modules_layers_modules_17_modules_self_attn_modules_o_proj_parameters_weight_'',
       ''L_self_modules_layers_modules_17_modules_post_attention_layernorm_parameters_weight_'',
       ''L_self_modules_layers_modules_17_modules_mlp_modules_gate_up_proj_parameters_weight_'',
       ''L_self_modules_layers_modules_17_modules_mlp_modules_down_proj_parameters_weight_'',
       ''L_self_modules_layers_modules_18_modules_input_layernorm_parameters_weight_'',
       ''L_self_modules_layers_modules_18_modules_self_attn_modules_qkv_proj_parameters_bias_'',
       ''L_self_modules_layers_modules_18_modules_self_attn_modules_qkv_proj_parameters_weight_'',
       ''L_self_modules_layers_modules_18_modules_self_attn_modules_o_proj_parameters_weight_'',
       ''L_self_modules_layers_modules_18_modules_post_attention_layernorm_parameters_weight_'',
       ''L_self_modules_layers_modules_18_modules_mlp_modules_gate_up_proj_parameters_weight_'',
       ''L_self_modules_layers_modules_18_modules_mlp_modules_down_proj_parameters_weight_'',
       ''L_self_modules_layers_modules_19_modules_input_layernorm_parameters_weight_'',
       ''L_self_modules_layers_modules_19_modules_self_attn_modules_qkv_proj_parameters_bias_'',
       ''L_self_modules_layers_modules_19_modules_self_attn_modules_qkv_proj_parameters_weight_'',
       ''L_self_modules_layers_modules_19_modules_self_attn_modules_o_proj_parameters_weight_'',
       ''L_self_modules_layers_modules_19_modules_post_attention_layernorm_parameters_weight_'',
       ''L_self_modules_layers_modules_19_modules_mlp_modules_gate_up_proj_parameters_weight_'',
       ''L_self_modules_layers_modules_19_modules_mlp_modules_down_proj_parameters_weight_'',
       ''L_self_modules_layers_modules_20_modules_input_layernorm_parameters_weight_'',
       ''L_self_modules_layers_modules_20_modules_self_attn_modules_qkv_proj_parameters_bias_'',
       ''L_self_modules_layers_modules_20_modules_self_attn_modules_qkv_proj_parameters_weight_'',
       ''L_self_modules_layers_modules_20_modules_self_attn_modules_o_proj_parameters_weight_'',
       ''L_self_modules_layers_modules_20_modules_post_attention_layernorm_parameters_weight_'',
       ''L_self_modules_layers_modules_20_modules_mlp_modules_gate_up_proj_parameters_weight_'',
       ''L_self_modules_layers_modules_20_modules_mlp_modules_down_proj_parameters_weight_'',
       ''L_self_modules_layers_modules_21_modules_input_layernorm_parameters_weight_'',
       ''L_self_modules_layers_modules_21_modules_self_attn_modules_qkv_proj_parameters_bias_'',
       ''L_self_modules_layers_modules_21_modules_self_attn_modules_qkv_proj_parameters_weight_'',
       ''L_self_modules_layers_modules_21_modules_self_attn_modules_o_proj_parameters_weight_'',
       ''L_self_modules_layers_modules_21_modules_post_attention_layernorm_parameters_weight_'',
       ''L_self_modules_layers_modules_21_modules_mlp_modules_gate_up_proj_parameters_weight_'',
       ''L_self_modules_layers_modules_21_modules_mlp_modules_down_proj_parameters_weight_'',
       ''L_self_modules_layers_modules_22_modules_input_layernorm_parameters_weight_'',
       ''L_self_modules_layers_modules_22_modules_self_attn_modules_qkv_proj_parameters_bias_'',
       ''L_self_modules_layers_modules_22_modules_self_attn_modules_qkv_proj_parameters_weight_'',
       ''L_self_modules_layers_modules_22_modules_self_attn_modules_o_proj_parameters_weight_'',
       ''L_self_modules_layers_modules_22_modules_post_attention_layernorm_parameters_weight_'',
       ''L_self_modules_layers_modules_22_modules_mlp_modules_gate_up_proj_parameters_weight_'',
       ''L_self_modules_layers_modules_22_modules_mlp_modules_down_proj_parameters_weight_'',
       ''L_self_modules_layers_modules_23_modules_input_layernorm_parameters_weight_'',
       ''L_self_modules_layers_modules_23_modules_self_attn_modules_qkv_proj_parameters_bias_'',
       ''L_self_modules_layers_modules_23_modules_self_attn_modules_qkv_proj_parameters_weight_'',
       ''L_self_modules_layers_modules_23_modules_self_attn_modules_o_proj_parameters_weight_'',
       ''L_self_modules_layers_modules_23_modules_post_attention_layernorm_parameters_weight_'',
       ''L_self_modules_layers_modules_23_modules_mlp_modules_gate_up_proj_parameters_weight_'',
       ''L_self_modules_layers_modules_23_modules_mlp_modules_down_proj_parameters_weight_'']"
  by code_simp

lemma lookups_named: "list_all2 names_parameter (passed_for transformed_arguments) (map rhs lookups)"
proof -
  show ?thesis
    unfolding passed_for_all lookups_def transformed_body_def filter_append map_append
    using list_all2_appendI [OF list_all2_appendI [OF list_all2_appendI [OF list_all2_appendI [OF list_all2_appendI [OF list_all2_appendI [OF list_all2_appendI [OF list_all2_appendI [OF list_all2_appendI [OF list_all2_appendI [OF list_all2_appendI [OF list_all2_appendI [OF list_all2_appendI [OF list_all2_appendI [OF list_all2_appendI [OF list_all2_appendI [OF list_all2_appendI [OF list_all2_appendI [OF list_all2_appendI [OF named_1 named_2] named_3] named_4] named_5] named_6] named_7] named_8] named_9] named_10] named_11] named_12] named_13] named_14] named_15] named_16] named_17] named_18] named_19] named_20]
    by simp
qed

lemma norm_named: "names_parameter (last graph_parameters) (last transformed_arguments)"
  by code_simp

end
