(* ===== verification/Transformed_Theorems.thy ===== *)
theory Transformed_Theorems
  imports Transformed_Code
begin

text \<open>What the decompiled function does, and what it would do with its lost values restored.\<close>

abbreviation compiled_call :: "'o stmt" where
  "compiled_call \<equiv> Unpack (Temp 395) (Call (Nm (Glob ''__compiled_fn_1'')) transformed_arguments)"

lemma whole_assigned:
  "assigned (0, inputs) (restored_body \<sigma> @ [compiled_call]) = Some (fst body_names, Temp 395 # snd body_names)"
proof -
  have "assigned body_names [compiled_call] = Some (fst body_names, Temp 395 # snd body_names)"
    by (rule assigned_last) (simp_all add: arguments_known result_unknown)
  then show ?thesis
    by (simp only: assigned_append restored_body_def assigned_restore body_assigned option.case)
qed

lemma restored_plain: "\<forall>x. \<exists>u. \<sigma> x = VObj u \<Longrightarrow> list_all plain_stmt (restored_body \<sigma> @ [compiled_call])"
  using body_plain arguments_plain by (auto simp: restored_body_def list_all_iff plain_restore)

lemma restore_None: "restored_body (\<lambda>_. VNone) = (transformed_body :: 'o stmt list)"
proof -
  have "restore (\<lambda>_. VNone) s = s" for s :: "'o stmt"
    by (cases "(\<lambda>_ :: var. VNone :: 'o val, s)" rule: restore.cases) auto
  then show ?thesis by (simp add: restored_body_def map_idI)
qed

lemma covers_result: "covers (n, Temp t # xs) l \<Longrightarrow> l (Temp t) \<noteq> None"
  by (auto simp: covers_def)

lemma objects_result: "objects (n, Temp t # xs) l \<Longrightarrow> \<exists>u. l (Temp t) = Some (VObj u)"
  by (simp add: objects_def)

lemma start_covers: "covers (0, inputs) (start s i p t e)"
  by (auto simp: covers_def start_def elim!: known.elims)

lemma start_objects: "objects (0, inputs) (start (VObj s) (VObj i) (VObj p) (VObj t) (VObj e))"
  by (auto simp: objects_def start_def elim!: known.elims)

lemma body_start:
  "transformed_body = [Assign (Tmp 0) (Lit VNone), Assign (Tmp 1) (Lit VNone),
     Assign (Tmp 2) (Attr (Nm (Glob ''__import_torch_dot__dynamo_dot_utils'')) ''call_size''),
     Assign (Tmp 3) (Nm (Glob ''__compiled_fn_1'')), Assign (Tmp 4) (Lit VNone),
     Assign (Tmp 5) (Nm (Tmp 4)), Assign (Tmp 6) (Nm (Tmp 4)), Assign (Tmp 7) (Nm (Tmp 4)),
     Assign (Tmp 8) (Attr (Nm (Tmp 0)) ''dict_getitem'')] @ drop 9 transformed_body"
  unfolding transformed_body_def transformed_1_def by simp




text \<open>
  C25. The decompiled function does not run: for every module, every inputs and every runtime
  that has the two globals, it stops with an attribute error on None before it has looked up
  a weight or called the compiled graph; only torch's \<open>call_size\<close> has been read.
\<close>

theorem transformed_code_raises:
  assumes "rt_globals R ''__import_torch_dot__dynamo_dot_utils'' = Some u"
    and "py_attr R u ''call_size'' w = (Inr c, w')"
    and "rt_globals R ''__compiled_fn_1'' = Some f"
  shows "forward_transformed R self input_ids positions intermediate_tensors inputs_embeds w =
     (Inl (Attribute_error VNone ''dict_getitem''), w')"
  unfolding forward_transformed_def call_body_def
  by (subst body_start) (simp add: assms)

definition obliging_ex :: "(nat, nat, nat) runtime" where
  "obliging_ex = \<lparr>rt_globals = (\<lambda>_. Some (VObj 0)), rt_attr = (\<lambda>x a w. (Inr (VObj (x + length a)), w)),
     rt_call = (\<lambda>x vs w. (Inr (VObj (x + length vs)), Suc w)), rt_iter = (\<lambda>x w. (Inr [VObj x], w))\<rparr>"

lemma obliging_ex: "obliging obliging_ex"
  by (simp add: obliging_def obliging_ex_def)

theorem transformed_code_raises_witness:
  "forward_transformed obliging_ex (VObj 1) (VObj 2) (VObj 3) VNone VNone 0 =
     (Inl (Attribute_error VNone ''dict_getitem''), 0)"
  using transformed_code_raises [where R = obliging_ex and w = 0] by (simp add: obliging_ex_def)

text \<open>
  C26. The code is well formed for any values in place of the three lost ones: no local is
  read before it is assigned, whatever the runtime does; and where the lost values are
  objects and every lookup and call of the runtime succeeds, the function runs to its end
  and returns what the compiled graph returned.
\<close>

theorem transformed_code_progress:
  "fst (call_body (restored_body \<sigma>) R (start self input_ids positions intermediate_tensors inputs_embeds) w) \<noteq>
      Inl (Unbound_local x) \<and>
   (obliging R \<and> (\<forall>x. \<exists>u. \<sigma> x = VObj u) \<longrightarrow>
     (\<exists>u w'. call_body (restored_body \<sigma>) R (start (VObj a) (VObj b) (VObj c) (VObj d) (VObj e)) w = (Inr (VObj u), w')))"
proof (intro conjI impI)
  let ?ss = "restored_body \<sigma> @ [compiled_call]"
  show "fst (call_body (restored_body \<sigma>) R (start self input_ids positions intermediate_tensors inputs_embeds) w) \<noteq> Inl (Unbound_local x)"
  proof -
    have "fst (run R ?ss (start self input_ids positions intermediate_tensors inputs_embeds) w) \<noteq> Inl (Unbound_local x) \<and>
      (\<forall>l' w'. run R ?ss (start self input_ids positions intermediate_tensors inputs_embeds) w = (Inr l', w') \<longrightarrow>
        covers (fst body_names, Temp 395 # snd body_names) l')"
      by (rule assigned_run [OF whole_assigned start_covers])
    then show ?thesis
      using covers_result by (fastforce simp: call_body_def split: prod.splits sum.splits option.splits)
  qed
  assume "obliging R \<and> (\<forall>x. \<exists>u. \<sigma> x = VObj u)"
  then obtain l' w' where "run R ?ss (start (VObj a) (VObj b) (VObj c) (VObj d) (VObj e)) w = (Inr l', w')"
    "objects (fst body_names, Temp 395 # snd body_names) l'"
    using run_progress [OF _ start_objects whole_assigned restored_plain, of R \<sigma>] by blast
  then show "\<exists>u w'. call_body (restored_body \<sigma>) R (start (VObj a) (VObj b) (VObj c) (VObj d) (VObj e)) w = (Inr (VObj u), w')"
    using objects_result by (fastforce simp: call_body_def)
qed

theorem transformed_code_progress_witness:
  "\<exists>u w'. call_body (restored_body (\<lambda>_. VObj 7)) obliging_ex (start (VObj 1) (VObj 2) (VObj 3) (VObj 4) (VObj 5)) 0 = (Inr (VObj u), w')"
  using transformed_code_progress [where \<sigma> = "\<lambda>_. VObj 7" and R = obliging_ex] obliging_ex by simp




end
