(* ===== verification/Go_Base.thy ===== *)
theory Go_Base
  imports Main "HOL-Library.Sublist"
begin

text \<open>
  What the Go programs use of their standard library, on strings as lists of bytes:
  searching and splitting (package strings), lexical path cleaning and joining (package
  path/filepath on Unix), decimal numbers (package strconv) with 64-bit range.
\<close>

subsection \<open>Package strings\<close>

fun index_byte :: "char \<Rightarrow> string \<Rightarrow> nat option" where
  "index_byte c [] = None"
| "index_byte c (x # xs) = (if x = c then Some 0 else map_option Suc (index_byte c xs))"

definition last_index_byte :: "char \<Rightarrow> string \<Rightarrow> nat option" where
  "last_index_byte c s = map_option (\<lambda>i. length s - 1 - i) (index_byte c (rev s))"

definition has_prefix :: "string \<Rightarrow> string \<Rightarrow> bool" where
  "has_prefix s p = (take (length p) s = p)"

definition trim_prefix :: "string \<Rightarrow> string \<Rightarrow> string" where
  "trim_prefix s p = (if has_prefix s p then drop (length p) s else s)"

fun contains :: "string \<Rightarrow> string \<Rightarrow> bool" where
  "contains [] sub = (sub = [])"
| "contains (x # xs) sub = (has_prefix (x # xs) sub \<or> contains xs sub)"

fun split_on :: "char \<Rightarrow> string \<Rightarrow> string list" where
  "split_on c [] = [[]]"
| "split_on c (x # xs) =
     (if x = c then [] # split_on c xs
      else (case split_on c xs of p # ps \<Rightarrow> (x # p) # ps | [] \<Rightarrow> [[x]]))"

fun join_with :: "string \<Rightarrow> string list \<Rightarrow> string" where
  "join_with sep [] = []"
| "join_with sep [p] = p"
| "join_with sep (p # ps) = p @ sep @ join_with sep ps"

text \<open>ASCII letters only: enough wherever the result is compared with an ASCII word.\<close>

definition to_lower_char :: "char \<Rightarrow> char" where
  "to_lower_char c = (let n = of_char c :: nat in if 65 \<le> n \<and> n \<le> 90 then char_of (n + 32) else c)"

definition to_lower :: "string \<Rightarrow> string" where
  "to_lower = map to_lower_char"

lemma index_byte_None: "index_byte c s = None \<longleftrightarrow> c \<notin> set s"
  by (induction s) auto

lemma index_byte_append: "c \<notin> set p \<Longrightarrow> index_byte c (p @ c # s) = Some (length p)"
  by (induction p) auto

lemma index_byte_split:
  "index_byte c s = Some i \<longleftrightarrow> (\<exists>p q. s = p @ c # q \<and> c \<notin> set p \<and> i = length p)"
proof
  show "index_byte c s = Some i \<Longrightarrow> \<exists>p q. s = p @ c # q \<and> c \<notin> set p \<and> i = length p"
  proof (induction s arbitrary: i)
    case (Cons x xs)
    show ?case
    proof (cases "x = c")
      case True
      with Cons.prems have "x # xs = [] @ c # xs \<and> c \<notin> set [] \<and> i = length []" by simp
      then show ?thesis by blast
    next
      case False
      then obtain j where "index_byte c xs = Some j" "i = Suc j" using Cons.prems by auto
      with Cons.IH obtain p q where "xs = p @ c # q" "c \<notin> set p" "j = length p" by blast
      with False \<open>i = Suc j\<close> have "x # xs = (x # p) @ c # q \<and> c \<notin> set (x # p) \<and> i = length (x # p)" by auto
      then show ?thesis by blast
    qed
  qed simp
qed (auto simp: index_byte_append)

lemma last_index_byte_None: "last_index_byte c s = None \<longleftrightarrow> c \<notin> set s"
  by (simp add: last_index_byte_def index_byte_None)

lemma last_index_byte_append: "c \<notin> set q \<Longrightarrow> last_index_byte c (p @ c # q) = Some (length p)"
  by (simp add: last_index_byte_def index_byte_append)

lemma has_prefix_iff: "has_prefix s p \<longleftrightarrow> (\<exists>q. s = p @ q)"
  by (auto simp: has_prefix_def) (metis append_take_drop_id)

lemma trim_prefix_append [simp]: "trim_prefix (p @ q) p = q"
  by (simp add: trim_prefix_def has_prefix_def)

lemma trim_prefix_self [simp]: "trim_prefix p p = []"
  by (simp add: trim_prefix_def has_prefix_def)

lemma split_on_not_Nil [simp]: "split_on c s \<noteq> []"
  by (induction s) (auto split: list.splits)

lemma split_on_append: "split_on c (p @ c # s) = split_on c p @ split_on c s"
  by (induction p) (auto split: list.splits)

lemma split_on_free: "c \<notin> set p \<Longrightarrow> split_on c p = [p]"
  by (induction p) auto

lemma split_on_parts: "p \<in> set (split_on c s) \<Longrightarrow> c \<notin> set p"
  by (induction s arbitrary: p) (auto split: list.splits if_splits)

lemma split_join:
  "ps \<noteq> [] \<Longrightarrow> \<forall>p \<in> set ps. c \<notin> set p \<Longrightarrow> split_on c (join_with [c] ps) = ps"
  by (induction "[c]" ps rule: join_with.induct) (auto simp: split_on_append split_on_free)

lemma contains_iff: "contains s sub \<longleftrightarrow> (\<exists>p q. s = p @ sub @ q)"
  by (induction s) (auto simp: has_prefix_iff Cons_eq_append_conv)

subsection \<open>Package path/filepath\<close>

text \<open>
  \<open>Clean\<close> drops empty and dot elements and cancels a \<open>..\<close> with the element before it; at
  the root a \<open>..\<close> vanishes, at the start of a relative path it stays. The stack is reversed.
\<close>

fun clean_acc :: "bool \<Rightarrow> string list \<Rightarrow> string list \<Rightarrow> string list" where
  "clean_acc rooted st [] = rev st"
| "clean_acc rooted st (p # ps) =
     (if p = [] \<or> p = ''.'' then clean_acc rooted st ps
      else if p = ''..'' then
        (case st of
           [] \<Rightarrow> clean_acc rooted (if rooted then [] else [''..'']) ps
         | t # st' \<Rightarrow> if t = ''..'' then clean_acc rooted (p # st) ps else clean_acc rooted st' ps)
      else clean_acc rooted (p # st) ps)"

definition is_rooted :: "string \<Rightarrow> bool" where
  "is_rooted path = has_prefix path ''/''"

definition clean_parts :: "string \<Rightarrow> string list" where
  "clean_parts path = clean_acc (is_rooted path) [] (split_on (CHR ''/'') path)"

definition path_clean :: "string \<Rightarrow> string" where
  "path_clean path =
     (if path = [] then ''.'' else
      let s = join_with ''/'' (clean_parts path) in
      if is_rooted path then ''/'' @ s else if s = [] then ''.'' else s)"

definition path_join :: "string list \<Rightarrow> string" where
  "path_join es = (let ne = filter (\<lambda>e. e \<noteq> []) es in
     if ne = [] then [] else path_clean (join_with ''/'' ne))"

definition path_dir :: "string \<Rightarrow> string" where
  "path_dir path = (case last_index_byte (CHR ''/'') path of
     None \<Rightarrow> ''.''
   | Some i \<Rightarrow> path_clean (take (Suc i) path))"

text \<open>An element that is a plain name.\<close>

definition plain :: "string \<Rightarrow> bool" where
  "plain p \<longleftrightarrow> p \<noteq> [] \<and> p \<noteq> ''.'' \<and> p \<noteq> ''..'' \<and> CHR ''/'' \<notin> set p"

lemma clean_acc_plain: "\<forall>p \<in> set ps. plain p \<Longrightarrow> clean_acc r st (ps @ qs) = clean_acc r (rev ps @ st) qs"
  by (induction ps arbitrary: st) (auto simp: plain_def)

text \<open>The depth a path reaches: it never goes above its start when every prefix has enough names.\<close>

fun stays_inside :: "nat \<Rightarrow> string list \<Rightarrow> bool" where
  "stays_inside d [] = True"
| "stays_inside d (p # ps) =
     (if p = [] \<or> p = ''.'' then stays_inside d ps
      else if p = ''..'' then 0 < d \<and> stays_inside (d - 1) ps
      else stays_inside (Suc d) ps)"

lemma clean_acc_inside:
  assumes "stays_inside (length st) ps" "\<forall>p \<in> set st. p \<noteq> ''..''"
  shows "\<exists>rest. clean_acc r (st @ base) ps = rev base @ rest \<and> (\<forall>p \<in> set rest. p \<noteq> ''..'')"
  using assms
proof (induction ps arbitrary: st)
  case Nil
  then show ?case by (intro exI [of _ "rev st"]) simp
next
  case (Cons p ps)
  consider "p = [] \<or> p = ''.''" | "p = ''..''" | "p \<noteq> []" "p \<noteq> ''.''" "p \<noteq> ''..''" by blast
  then show ?case
  proof cases
    case 1
    then show ?thesis using Cons.IH [of st] Cons.prems by auto
  next
    case 2
    then obtain t st' where "st = t # st'" using Cons.prems by (cases st) auto
    with 2 show ?thesis using Cons.IH [of st'] Cons.prems by auto
  next
    case 3
    then show ?thesis using Cons.IH [of "p # st"] Cons.prems by auto
  qed
qed

subsection \<open>Package strconv\<close>

definition digit_of :: "nat \<Rightarrow> char" where
  "digit_of d = char_of (48 + d)"

fun itoa_nat :: "nat \<Rightarrow> string" where
  "itoa_nat n = (if n < 10 then [digit_of n] else itoa_nat (n div 10) @ [digit_of (n mod 10)])"

declare itoa_nat.simps [simp del]

definition format_int :: "int \<Rightarrow> string" where
  "format_int z = (if z < 0 then ''-'' @ itoa_nat (nat (- z)) else itoa_nat (nat z))"

definition digit_val :: "char \<Rightarrow> nat option" where
  "digit_val c = (let n = of_char c :: nat in if 48 \<le> n \<and> n \<le> 57 then Some (n - 48) else None)"

fun parse_digits :: "nat \<Rightarrow> string \<Rightarrow> nat option" where
  "parse_digits acc [] = Some acc"
| "parse_digits acc (c # cs) = (case digit_val c of None \<Rightarrow> None | Some d \<Rightarrow> parse_digits (10 * acc + d) cs)"

definition parse_nat :: "string \<Rightarrow> nat option" where
  "parse_nat s = (if s = [] then None else parse_digits 0 s)"

text \<open>\<open>ParseInt(s, 10, 64)\<close>: an optional sign, digits, and the range of 64 bits.\<close>

definition parse_int64 :: "string \<Rightarrow> int option" where
  "parse_int64 s = (case s of
     [] \<Rightarrow> None
   | c # cs \<Rightarrow>
      if c = CHR ''-'' then (case parse_nat cs of None \<Rightarrow> None | Some n \<Rightarrow> if int n \<le> 2 ^ 63 then Some (- int n) else None)
      else (case parse_nat (if c = CHR ''+'' then cs else s) of None \<Rightarrow> None
            | Some n \<Rightarrow> if int n < 2 ^ 63 then Some (int n) else None))"

lemma digit_val_of [simp]: "d < 10 \<Longrightarrow> digit_val (digit_of d) = Some d"
  by (simp add: digit_val_def digit_of_def Let_def of_char_of)

lemma itoa_nat_not_Nil [simp]: "itoa_nat n \<noteq> []"
  by (subst itoa_nat.simps) simp

lemma parse_digits_append:
  "parse_digits acc (xs @ ys) = (case parse_digits acc xs of None \<Rightarrow> None | Some a \<Rightarrow> parse_digits a ys)"
  by (induction xs arbitrary: acc) (auto split: option.splits)

lemma parse_digits_itoa: "parse_digits 0 (itoa_nat n) = Some n"
proof (induction n rule: itoa_nat.induct)
  case (1 n)
  show ?case
    by (subst itoa_nat.simps) (use 1 in \<open>auto simp: parse_digits_append\<close>)
qed

lemma hd_itoa: "hd (itoa_nat n) \<noteq> CHR ''-'' \<and> hd (itoa_nat n) \<noteq> CHR ''+''"
proof (induction n rule: itoa_nat.induct)
  case (1 n)
  show ?case
  proof (cases "n < 10")
    case True
    then have "n \<in> {0, 1, 2, 3, 4, 5, 6, 7, 8, 9}" by auto
    then show ?thesis
      by (subst (1 2) itoa_nat.simps) (auto simp: digit_of_def char_of_def)
  next
    case False
    then show ?thesis
      using 1 by (subst (1 2) itoa_nat.simps) (simp add: hd_append)
  qed
qed

lemma parse_format_int:
  assumes "- (2 ^ 63) \<le> z" "z < 2 ^ 63"
  shows "parse_int64 (format_int z) = Some z"
proof (cases "z < 0")
  case True
  then show ?thesis
    using assms by (simp add: parse_int64_def format_int_def parse_nat_def parse_digits_itoa)
next
  case False
  obtain c cs where c: "itoa_nat (nat z) = c # cs" by (cases "itoa_nat (nat z)") auto
  then have "c \<noteq> CHR ''-''" "c \<noteq> CHR ''+''" using hd_itoa [of "nat z"] by auto
  then show ?thesis
    using False assms c parse_digits_itoa [of "nat z"]
    by (simp add: parse_int64_def format_int_def parse_nat_def)
qed

end
