(* ===== verification/Image_Url.thy ===== *)
theory Image_Url
  imports Go_Base
begin

text \<open>
  ReplaceUrlTag of pkg/utils/utils.go: pinning an image reference to a digest. A reference
  with a digest gets its digest replaced, one with a tag gets the tag replaced, any other
  gets the digest appended; an empty argument gives the empty string.
\<close>

definition ReplaceUrlTag :: "string \<Rightarrow> string \<Rightarrow> string" where
  "ReplaceUrlTag imageURL digest =
     (if imageURL = [] \<or> digest = [] then []
      else case index_byte (CHR ''@'') imageURL of
        Some atIndex \<Rightarrow>
          let existingDigest = drop (atIndex + 1) imageURL in
          if existingDigest = digest then imageURL
          else take atIndex imageURL @ ''@'' @ digest
      | None \<Rightarrow>
          (case last_index_byte (CHR '':'') imageURL of
             None \<Rightarrow> imageURL @ ''@'' @ digest
           | Some lastColonIndex \<Rightarrow> take lastColonIndex imageURL @ ''@'' @ digest))"

text \<open>Every result has the form: a part without \<open>@\<close> that depends on the reference only, then the digest.\<close>

definition url_base :: "string \<Rightarrow> string" where
  "url_base u = (case index_byte (CHR ''@'') u of
     Some i \<Rightarrow> take i u
   | None \<Rightarrow> (case last_index_byte (CHR '':'') u of None \<Rightarrow> u | Some i \<Rightarrow> take i u))"

lemma url_base_pinned: "CHR ''@'' \<notin> set b \<Longrightarrow> url_base (b @ ''@'' @ d) = b"
  by (simp add: url_base_def index_byte_append)

lemma url_base_free: "CHR ''@'' \<notin> set (url_base u)"
proof (cases "CHR ''@'' \<in> set u")
  case True
  then obtain p q where "u = p @ ''@'' @ q" "CHR ''@'' \<notin> set p" using split_list_first by fastforce
  then show ?thesis using url_base_pinned [of p q] by simp
next
  case False
  note n = index_byte_None [THEN iffD2, OF this]
  show ?thesis
    unfolding url_base_def n option.case
    using False by (auto split: option.splits dest: in_set_takeD)
qed

lemma ReplaceUrlTag_eq:
  assumes "u \<noteq> []" "d \<noteq> []"
  shows "ReplaceUrlTag u d = url_base u @ ''@'' @ d"
proof (cases "CHR ''@'' \<in> set u")
  case True
  then obtain p q where u: "u = p @ ''@'' @ q" "CHR ''@'' \<notin> set p" using split_list_first by fastforce
  then have "index_byte (CHR ''@'') u = Some (length p)" by (simp add: index_byte_append)
  then show ?thesis using assms u by (simp add: ReplaceUrlTag_def url_base_def)
next
  case False
  note n = index_byte_None [THEN iffD2, OF this]
  show ?thesis
    unfolding ReplaceUrlTag_def url_base_def n option.case
    using assms by (cases "last_index_byte (CHR '':'') u") simp_all
qed

lemma url_base_colon:
  assumes "CHR ''@'' \<notin> set (p @ '':'' @ q)" "CHR '':'' \<notin> set q"
  shows "url_base (p @ '':'' @ q) = p"
proof -
  note n = index_byte_None [THEN iffD2, OF assms(1)]
  show ?thesis
    unfolding url_base_def n option.case
    using last_index_byte_append [OF assms(2), of p] by simp
qed

text \<open>
  Pinning is stable: pinning a pinned reference to the same digest changes nothing, and
  pinning again to another digest gives what pinning the original would have given.
\<close>

theorem ReplaceUrlTag_last_wins:
  assumes "u \<noteq> []" and "d1 \<noteq> []" and "d2 \<noteq> []"
  shows "ReplaceUrlTag (ReplaceUrlTag u d1) d2 = ReplaceUrlTag u d2"
  using assms url_base_pinned [OF url_base_free, of u d1] by (simp add: ReplaceUrlTag_eq)

theorem ReplaceUrlTag_last_wins_witness:
  "ReplaceUrlTag (ReplaceUrlTag ''quay.io/a/b:v1'' ''sha256:11'') ''sha256:22'' = ''quay.io/a/b@sha256:22''"
proof -
  have "ReplaceUrlTag ''quay.io/a/b:v1'' ''sha256:22'' = ''quay.io/a/b@sha256:22''"
    by (simp add: ReplaceUrlTag_def last_index_byte_def)
  then show ?thesis
    using ReplaceUrlTag_last_wins [of "''quay.io/a/b:v1''" "''sha256:11''" "''sha256:22''"] by simp
qed

text \<open>
  A reference with a tag, whose repository may contain a registry port, is pinned
  to its own repository. Without a tag this fails when the registry has a port: the
  last colon is the port's, and the repository path is cut off.
\<close>

theorem ReplaceUrlTag_repository:
  assumes "d \<noteq> []" and "CHR ''@'' \<notin> set repo" and "CHR '':'' \<notin> set tag" and "CHR ''@'' \<notin> set tag"
    and "CHR '':'' \<notin> set path" and "CHR ''@'' \<notin> set path" and "CHR ''@'' \<notin> set host" and "CHR '':'' \<notin> set port" and "CHR ''@'' \<notin> set port"
  shows "ReplaceUrlTag (repo @ '':'' @ tag) d = repo @ ''@'' @ d \<and>
     ReplaceUrlTag (host @ '':'' @ port @ ''/'' @ path) d = host @ ''@'' @ d"
proof -
  have "url_base (repo @ '':'' @ tag) = repo"
    using assms by (intro url_base_colon) auto
  moreover have "url_base (host @ '':'' @ port @ ''/'' @ path) = host"
    using assms by (intro url_base_colon) auto
  ultimately show ?thesis using assms(1) by (simp add: ReplaceUrlTag_eq)
qed

theorem ReplaceUrlTag_repository_witness:
  "ReplaceUrlTag ''localhost:5000/gkm/cache'' ''sha256:ab'' = ''localhost@sha256:ab''"
  using ReplaceUrlTag_repository [of "''sha256:ab''" "''r''" "''t''" "''gkm/cache''" "''localhost''" "''5000''"] by simp

end
