(* ===== verification/File_System.thy ===== *)
theory File_System
  imports Go_Base
begin

text \<open>
  The file system as the Go programs use it: an operating system performs one action on its
  own state and tells whether it succeeded, and answers what a file holds. The locale
  \<open>file_system\<close> collects what package os promises of the actions on a tree without links;
  a failed action may have done part of its work. The lists of \<open>mem_os\<close> are a model of it.
\<close>

datatype action =
  Mkdir_all string nat
| Write_file string string nat
| Open_create string nat
| Chown string nat nat
| Flock string bool
| Close string
| Rename string string
| Remove_file string
| Remove_all string

type_synonym 's os = "action \<Rightarrow> 's \<Rightarrow> bool \<times> 's"

text \<open>A path at or below another one, both cleaned.\<close>

definition under :: "string \<Rightarrow> string \<Rightarrow> bool" where
  "under d p \<longleftrightarrow> p = d \<or> has_prefix p (if d = ''/'' then d else d @ ''/'')"

fun touches :: "action \<Rightarrow> string \<Rightarrow> bool" where
  "touches (Mkdir_all d m) q = False"
| "touches (Write_file p c m) q = (q = p)"
| "touches (Open_create p m) q = (q = p)"
| "touches (Chown p u g) q = False"
| "touches (Flock p b) q = False"
| "touches (Close p) q = False"
| "touches (Rename p p') q = (q = p \<or> q = p')"
| "touches (Remove_file p) q = (q = p)"
| "touches (Remove_all d) q = under d q"

text \<open>The states that actions of a given kind lead to, whether they succeed or not.\<close>

inductive acts :: "'s os \<Rightarrow> (action \<Rightarrow> bool) \<Rightarrow> 's \<Rightarrow> 's \<Rightarrow> bool" for os P where
  none: "acts os P s s"
| step: "acts os P s s1 \<Longrightarrow> P a \<Longrightarrow> os a s1 = (ok, s2) \<Longrightarrow> acts os P s s2"

lemma acts_one: "P a \<Longrightarrow> os a s = (ok, s') \<Longrightarrow> acts os P s s'"
  by (rule acts.step [OF acts.none])

lemma acts_trans [trans]: "acts os P s s1 \<Longrightarrow> acts os P s1 s2 \<Longrightarrow> acts os P s s2"
  by (rotate_tac 1, induction rule: acts.induct) (auto intro: acts.step)

lemma acts_mono: "acts os P s s' \<Longrightarrow> (\<And>a. P a \<Longrightarrow> Q a) \<Longrightarrow> acts os Q s s'"
  by (induction rule: acts.induct) (auto intro: acts.intros)

locale file_system =
  fixes os :: "'s os" and read :: "'s \<Rightarrow> string \<Rightarrow> string option"
  assumes frame: "os a s = (ok, s') \<Longrightarrow> \<not> touches a q \<Longrightarrow> read s' q = read s q"
    and written: "os (Write_file p c m) s = (True, s') \<Longrightarrow> read s' p = Some c"
    and opened: "os (Open_create p m) s = (ok, s') \<Longrightarrow> read s' p = read s p \<or> read s' p = Some []"
    and renamed: "os (Rename p q) s = (True, s') \<Longrightarrow> p \<noteq> q \<Longrightarrow> read s' q = read s p \<and> read s' p = None"
    and rename_atomic: "os (Rename p q) s = (False, s') \<Longrightarrow> read s' = read s"
    and removed: "os (Remove_all d) s = (True, s') \<Longrightarrow> under d q \<Longrightarrow> read s' q = None"
    and shrinks: "os (Remove_all d) s = (ok, s') \<Longrightarrow> read s' q = None \<or> read s' q = read s q"
begin

lemma acts_frame:
  assumes "acts os P s s'" "\<And>a. P a \<Longrightarrow> \<not> touches a q"
  shows "read s' q = read s q"
  using assms(1)
proof (induction rule: acts.induct)
  case (step s s1 a ok s2)
  then show ?case using frame [OF step.hyps(3) assms(2)] by simp
qed simp

lemma mkdir_read: "os (Mkdir_all d m) s = (ok, s') \<Longrightarrow> read s' = read s"
  by (rule ext) (erule frame, simp)

lemma write_read: "os (Write_file p c m) s = (True, s') \<Longrightarrow> read s' = (read s)(p \<mapsto> c)"
  by (rule ext) (auto dest: written frame)

lemma remove_all_read:
  "os (Remove_all d) s = (True, s') \<Longrightarrow> read s' = (\<lambda>q. if under d q then None else read s q)"
  by (rule ext) (auto dest: removed frame)

end

text \<open>Files by name.\<close>

type_synonym files = "(string \<times> string) list"

definition drop_files :: "(string \<Rightarrow> bool) \<Rightarrow> files \<Rightarrow> files" where
  "drop_files P fs = filter (\<lambda>(q, _). \<not> P q) fs"

definition put :: "string \<Rightarrow> string \<Rightarrow> files \<Rightarrow> files" where
  "put p c fs = (p, c) # drop_files ((=) p) fs"

lemma map_of_drop_files [simp]: "map_of (drop_files P fs) q = (if P q then None else map_of fs q)"
  by (induction fs) (auto simp: drop_files_def)

lemma map_of_put [simp]: "map_of (put p c fs) = (map_of fs)(p \<mapsto> c)"
  by (rule ext) (simp add: put_def)

fun mem_os :: "files os" where
  "mem_os (Mkdir_all d m) fs = (True, fs)"
| "mem_os (Write_file p c m) fs = (True, put p c fs)"
| "mem_os (Open_create p m) fs = (True, if map_of fs p = None then put p [] fs else fs)"
| "mem_os (Chown p u g) fs = (True, fs)"
| "mem_os (Flock p b) fs = (True, fs)"
| "mem_os (Close p) fs = (True, fs)"
| "mem_os (Rename p q) fs = (case map_of fs p of None \<Rightarrow> (False, fs) | Some c \<Rightarrow> (True, put q c (drop_files ((=) p) fs)))"
| "mem_os (Remove_file p) fs = (map_of fs p \<noteq> None, drop_files ((=) p) fs)"
| "mem_os (Remove_all d) fs = (True, drop_files (under d) fs)"

interpretation mem: file_system mem_os map_of
proof unfold_locales
  fix a s ok s' q
  show "mem_os a s = (ok, s') \<Longrightarrow> \<not> touches a q \<Longrightarrow> map_of s' q = map_of s q"
    by (cases a) (auto split: option.splits if_splits)
qed (auto split: option.splits if_splits)

end
