(* ===== verification/Tar_Extract.thy ===== *)
theory Tar_Extract
  imports File_System
begin

text \<open>
  Unpacking a cache image, mcv/pkg/cache/cache.go and triton.go: the loop of
  \<open>extractCacheAndManifestDirectory\<close> over the entries of a tar archive. The archive reader
  is a list of events, each an entry or a read error. Every operation takes the operating
  system and its state and returns the state it leaves behind, also when it fails.
\<close>

datatype typeflag = TypeDir | TypeReg | TypeOther

record tar_header =
  h_name :: string
  h_typeflag :: typeflag
  h_mode :: nat
  h_size :: int
  h_content :: string

datatype tar_event = Entry tar_header | Read_error

datatype extract_error = Gzip_error | Mkdir_error string | Tar_error | Write_error string

type_synonym 's extraction = "(extract_error + string list \<times> int) \<times> 's"

definition stringInSlice :: "string \<Rightarrow> string list \<Rightarrow> bool" where
  "stringInSlice str list = list_ex (\<lambda>s. s = str) list"

text \<open>\<open>os.MkdirAll\<close> of the parent, create, copy, change mode.\<close>

definition writeFile :: "'s os \<Rightarrow> string \<Rightarrow> string \<Rightarrow> nat \<Rightarrow> 's \<Rightarrow> bool \<times> 's" where
  "writeFile os filePath content mode s =
     (case os (Mkdir_all (path_dir filePath) 493) s of
        (False, s) \<Rightarrow> (False, s)
      | (True, s) \<Rightarrow> os (Write_file filePath content mode) s)"

text \<open>
  One pass of the loop: the relevant name, the output path, the directories recorded for
  the caller, the parent directory, then the entry itself.
\<close>

definition extract_entry ::
  "'s os \<Rightarrow> string \<Rightarrow> string \<Rightarrow> string \<Rightarrow> string \<Rightarrow> tar_header \<Rightarrow> string list \<times> int \<Rightarrow> 's \<Rightarrow> 's extraction" where
  "extract_entry os cacheDirPrefix manifestDirPrefix extractCacheDir extractManifestDir h = (\<lambda>(dirs, bytes) s.
     if \<not> has_prefix (h_name h) cacheDirPrefix \<and> \<not> has_prefix (h_name h) (manifestDirPrefix @ ''manifest.json'')
     then (Inr (dirs, bytes), s)
     else if has_prefix (h_name h) cacheDirPrefix \<and> trim_prefix (h_name h) cacheDirPrefix = []
     then (Inr (dirs, bytes), s)
     else
       let (filePath, dirs) =
         (if has_prefix (h_name h) cacheDirPrefix then
            let rel = trim_prefix (h_name h) cacheDirPrefix;
                topDir = path_join [extractCacheDir, path_dir rel]
            in (path_join [extractCacheDir, rel], if stringInSlice topDir dirs then dirs else dirs @ [topDir])
          else
            (path_join [extractManifestDir, trim_prefix (h_name h) manifestDirPrefix], dirs))
       in case os (Mkdir_all (path_dir filePath) 493) s of
            (False, s) \<Rightarrow> (Inl (Mkdir_error filePath), s)
          | (True, s) \<Rightarrow>
             (case h_typeflag h of
                TypeDir \<Rightarrow> (case os (Mkdir_all filePath (h_mode h)) s of
                    (False, s) \<Rightarrow> (Inl (Mkdir_error filePath), s) | (True, s) \<Rightarrow> (Inr (dirs, bytes), s))
              | TypeReg \<Rightarrow> (case writeFile os filePath (h_content h) (h_mode h) s of
                    (False, s) \<Rightarrow> (Inl (Write_error filePath), s)
                  | (True, s) \<Rightarrow> (Inr (dirs, if has_prefix (h_name h) cacheDirPrefix then bytes + h_size h else bytes), s))
              | TypeOther \<Rightarrow> (Inr (dirs, bytes), s)))"

fun extract_loop ::
  "(tar_header \<Rightarrow> 'r \<Rightarrow> 's \<Rightarrow> (extract_error + 'r) \<times> 's) \<Rightarrow> tar_event list \<Rightarrow> 'r \<Rightarrow> 's \<Rightarrow> (extract_error + 'r) \<times> 's" where
  "extract_loop step [] r s = (Inr r, s)"
| "extract_loop step (Read_error # evs) r s = (Inl Tar_error, s)"
| "extract_loop step (Entry h # evs) r s =
     (case step h r s of (Inl e, s) \<Rightarrow> (Inl e, s) | (Inr r, s) \<Rightarrow> extract_loop step evs r s)"

definition extractCacheAndManifestDirectory ::
  "'s os \<Rightarrow> tar_event list option \<Rightarrow> string \<Rightarrow> string \<Rightarrow> string \<Rightarrow> string \<Rightarrow> 's \<Rightarrow> 's extraction" where
  "extractCacheAndManifestDirectory os r cacheDirPrefix manifestDirPrefix extractCacheDir extractManifestDir s =
     (case r of
        None \<Rightarrow> (Inl Gzip_error, s)
      | Some evs \<Rightarrow>
         (case os (Mkdir_all extractCacheDir 493) s of
            (False, s) \<Rightarrow> (Inl (Mkdir_error extractCacheDir), s)
          | (True, s) \<Rightarrow>
             (case os (Mkdir_all extractManifestDir 493) s of
                (False, s) \<Rightarrow> (Inl (Mkdir_error extractManifestDir), s)
              | (True, s) \<Rightarrow>
                  extract_loop (extract_entry os cacheDirPrefix manifestDirPrefix extractCacheDir extractManifestDir)
                    evs ([], 0) s)))"

definition ExtractTritonCacheDirectory ::
  "'s os \<Rightarrow> string \<Rightarrow> string \<Rightarrow> tar_event list option \<Rightarrow> 's \<Rightarrow> 's extraction" where
  "ExtractTritonCacheDirectory os ExtractCacheDir ExtractManifestDir r s =
     extractCacheAndManifestDirectory os r ''io.triton.cache/'' ''io.triton.manifest/'' ExtractCacheDir ExtractManifestDir s"

definition ExtractVLLMCacheDirectory ::
  "'s os \<Rightarrow> string \<Rightarrow> string \<Rightarrow> tar_event list option \<Rightarrow> 's \<Rightarrow> 's extraction" where
  "ExtractVLLMCacheDirectory os ExtractCacheDir ExtractManifestDir r s =
     extractCacheAndManifestDirectory os r ''io.vllm.cache'' ''io.vllm.manifest/'' ExtractCacheDir ExtractManifestDir s"

subsection \<open>Output paths\<close>

lemma clean_acc_append: "clean_acc r st (xs @ ys) = clean_acc r (rev (clean_acc r st xs)) ys"
  by (induction r st xs rule: clean_acc.induct) (auto split: list.splits)

definition render :: "bool \<Rightarrow> string list \<Rightarrow> string" where
  "render rooted ps = (let s = join_with ''/'' ps in if rooted then ''/'' @ s else if s = [] then ''.'' else s)"

lemma is_rooted_append [simp]: "d \<noteq> [] \<Longrightarrow> is_rooted (d @ s) = is_rooted d"
  by (cases d) (auto simp: is_rooted_def has_prefix_def)

lemma path_join_two:
  assumes "d \<noteq> []" "rel \<noteq> []"
  shows "path_join [d, rel] =
    render (is_rooted d) (clean_acc (is_rooted d) (rev (clean_parts d)) (split_on (CHR ''/'') rel))"
proof -
  have "clean_parts (d @ ''/'' @ rel) = clean_acc (is_rooted d) (rev (clean_parts d)) (split_on (CHR ''/'') rel)"
    using assms by (simp add: clean_parts_def split_on_append clean_acc_append)
  then show ?thesis
    using assms by (simp add: path_join_def path_clean_def render_def Let_def)
qed

text \<open>A path below directory \<open>d\<close>: its elements, none of them \<open>..\<close>, follow those of \<open>d\<close>.\<close>

definition below :: "string \<Rightarrow> string \<Rightarrow> bool" where
  "below d p \<longleftrightarrow> (\<exists>rest. p = render (is_rooted d) (clean_parts d @ rest) \<and> ''..'' \<notin> set rest)"

lemma path_join_below:
  assumes "d \<noteq> []" "rel \<noteq> []" "stays_inside 0 (split_on (CHR ''/'') rel)"
  shows "below d (path_join [d, rel])"
  using clean_acc_inside [of "[]" "split_on (CHR ''/'') rel" "is_rooted d" "rev (clean_parts d)"] assms
  by (auto simp: below_def path_join_two)

text \<open>As many \<open>..\<close> as the directory has elements lead to the root.\<close>

lemma clean_acc_up:
  "''..'' \<notin> set st \<Longrightarrow> clean_acc True st (replicate (length st) ''..'' @ ps) = clean_acc True [] ps"
  by (induction st) (auto split: list.splits)

lemma clean_acc_rooted: "''..'' \<notin> set st \<Longrightarrow> ''..'' \<notin> set (clean_acc True st ps)"
  by (induction True st ps rule: clean_acc.induct) (auto split: list.splits)

lemma clean_acc_names: "\<forall>p \<in> set ps. plain p \<Longrightarrow> clean_acc r st ps = rev st @ ps"
  using clean_acc_plain [of ps r st "[]"] by simp

lemma split_ups: "split_on (CHR ''/'') (concat (replicate k ''../'') @ t) = replicate k ''..'' @ split_on (CHR ''/'') t"
proof (induction k)
  case (Suc k)
  have "split_on (CHR ''/'') (''..'' @ CHR ''/'' # concat (replicate k ''../'') @ t) =
      split_on (CHR ''/'') ''..'' @ split_on (CHR ''/'') (concat (replicate k ''../'') @ t)"
    by (rule split_on_append)
  then show ?case using Suc.IH by simp
qed simp

lemma path_join_escapes:
  assumes "is_rooted d" "length (clean_parts d) \<le> k" "ts \<noteq> []" "\<forall>p \<in> set ts. plain p"
  shows "path_join [d, concat (replicate k ''../'') @ join_with ''/'' ts] = ''/'' @ join_with ''/'' ts"
proof -
  have d: "d \<noteq> []" using assms(1) by (auto simp: is_rooted_def has_prefix_def)
  have sp: "split_on (CHR ''/'') (join_with ''/'' ts) = ts"
    using assms(3,4) by (intro split_join) (auto simp: plain_def)
  have tn: "join_with ''/'' ts \<noteq> []"
    using assms(3,4) by (cases ts; cases "tl ts") (auto simp: plain_def)
  obtain j where k: "k = length (rev (clean_parts d)) + j" using assms(2) by (auto simp: le_iff_add)
  have up: "clean_acc True [] (replicate j ''..'' @ ts) = clean_acc True [] ts"
    by (induction j) auto
  have "clean_acc True (rev (clean_parts d)) (replicate k ''..'' @ ts) = ts"
    unfolding k replicate_add append_assoc
    using clean_acc_rooted [of "[]" "split_on (CHR ''/'') d"] assms(1,4) up
    by (subst clean_acc_up) (auto simp: clean_parts_def clean_acc_names)
  then show ?thesis
    using assms(1) d tn by (simp add: path_join_two split_ups sp render_def)
qed

subsection \<open>Whole archives\<close>

text \<open>An operating system that refuses to write files outside the two output directories.\<close>

definition confined :: "string \<Rightarrow> string \<Rightarrow> 's os \<Rightarrow> 's os" where
  "confined cd md os a s = (case a of
     Write_file p c m \<Rightarrow> if below cd p \<or> below md p then os a s else (False, s)
   | _ \<Rightarrow> os a s)"

text \<open>The name of an entry, when the loop unpacks it, does not climb above its output directory.\<close>

definition name_ok :: "string \<Rightarrow> string \<Rightarrow> tar_header \<Rightarrow> bool" where
  "name_ok cp mp h \<longleftrightarrow>
     has_prefix (h_name h) cp \<or> has_prefix (h_name h) (mp @ ''manifest.json'') \<longrightarrow>
     stays_inside 0 (split_on (CHR ''/'') (trim_prefix (h_name h) (if has_prefix (h_name h) cp then cp else mp)))"

lemma extract_entry_confined:
  assumes "cd \<noteq> []" "md \<noteq> []" "name_ok cp mp h"
  shows "extract_entry (confined cd md os) cp mp cd md h = extract_entry os cp mp cd md h"
proof (rule ext, rule ext)
  fix r :: "string list \<times> int" and s :: 'a
  obtain dirs bytes where r: "r = (dirs, bytes)" by (cases r)
  have mk: "confined cd md os (Mkdir_all p m) = os (Mkdir_all p m)" for p m
    by (rule ext) (simp add: confined_def)
  have wr: "writeFile (confined cd md os) p c m = writeFile os p c m" if "below cd p \<or> below md p" for p c m
    using that by (auto simp: writeFile_def confined_def fun_eq_iff split: prod.split bool.split)
  have c: "below cd (path_join [cd, trim_prefix (h_name h) cp])"
    if "has_prefix (h_name h) cp" "trim_prefix (h_name h) cp \<noteq> []"
    using path_join_below [OF assms(1) that(2)] assms(3) that(1) by (simp add: name_ok_def)
  have m: "below md (path_join [md, trim_prefix (h_name h) mp])"
    if "\<not> has_prefix (h_name h) cp" "has_prefix (h_name h) (mp @ ''manifest.json'')"
  proof -
    have "trim_prefix (h_name h) mp \<noteq> []" using that(2) by (auto simp: has_prefix_iff)
    from path_join_below [OF assms(2) this] assms(3) that show ?thesis by (simp add: name_ok_def)
  qed
  consider "has_prefix (h_name h) cp" "trim_prefix (h_name h) cp \<noteq> []"
    | "has_prefix (h_name h) cp" "trim_prefix (h_name h) cp = []"
    | "\<not> has_prefix (h_name h) cp" "has_prefix (h_name h) (mp @ ''manifest.json'')"
    | "\<not> has_prefix (h_name h) cp" "\<not> has_prefix (h_name h) (mp @ ''manifest.json'')" by blast
  then show "extract_entry (confined cd md os) cp mp cd md h r s = extract_entry os cp mp cd md h r s"
  proof cases
    case 1
    then show ?thesis unfolding r extract_entry_def prod.case mk Let_def
      by (simp only: wr [OF disjI1 [OF c [OF 1]]] prod.case if_True if_False simp_thms)
  next
    case 3
    then show ?thesis unfolding r extract_entry_def prod.case mk Let_def
      by (simp only: wr [OF disjI2 [OF m [OF 3]]] prod.case if_True if_False simp_thms)
  qed (simp_all add: r extract_entry_def)
qed

lemma extract_loop_cong:
  "(\<And>h. Entry h \<in> set evs \<Longrightarrow> f h = g h) \<Longrightarrow> extract_loop f evs r s = extract_loop g evs r s"
proof (induction evs arbitrary: r s)
  case (Cons e evs)
  then show ?case by (cases e) (auto split: prod.split sum.split)
qed simp

text \<open>
  C16. An archive none of whose relevant entry names climbs with \<open>..\<close> above its output
  directory writes files inside the two output directories only: in every run, on every
  operating system, successful or failing, the result is the same as if the system refused
  every file write to any other place.
\<close>

theorem extract_confined:
  assumes "cd \<noteq> []" and "md \<noteq> []" and "\<And>h. Entry h \<in> set evs \<Longrightarrow> name_ok cp mp h"
  shows "extractCacheAndManifestDirectory os (Some evs) cp mp cd md s =
     extractCacheAndManifestDirectory (confined cd md os) (Some evs) cp mp cd md s"
proof -
  have mk: "confined cd md os (Mkdir_all p m) = os (Mkdir_all p m)" for p m
    by (rule ext) (simp add: confined_def)
  have "extract_loop (extract_entry os cp mp cd md) evs r s =
      extract_loop (extract_entry (confined cd md os) cp mp cd md) evs r s" for r s
    by (rule extract_loop_cong) (simp add: extract_entry_confined assms)
  then show ?thesis by (simp add: extractCacheAndManifestDirectory_def mk split: prod.split bool.split)
qed

definition ex_entry :: "string \<Rightarrow> tar_header" where
  "ex_entry n = \<lparr>h_name = n, h_typeflag = TypeReg, h_mode = 420, h_size = 5, h_content = ''hello''\<rparr>"

text \<open>An operating system on which everything succeeds and every action is recorded.\<close>

definition log_os :: "action list os" where
  "log_os a l = (True, l @ [a])"

theorem extract_confined_witness:
  "extractCacheAndManifestDirectory log_os (Some [Entry (ex_entry ''c/a/../b'')]) ''c/'' ''m/'' ''/x'' ''/y'' [] =
     extractCacheAndManifestDirectory (confined ''/x'' ''/y'' log_os) (Some [Entry (ex_entry ''c/a/../b'')]) ''c/'' ''m/'' ''/x'' ''/y'' []"
  by (rule extract_confined) (auto simp: name_ok_def ex_entry_def trim_prefix_def has_prefix_def)

text \<open>
  C17. Without that condition on the names the loop is not confined: for an absolute cache
  directory, an entry whose name climbs up as many levels as the directory has makes the
  unpacking succeed and write any absolute path the author of the image chooses, with the
  mode the author chooses.
\<close>

theorem extract_escapes:
  assumes "is_rooted cd" and "cp \<noteq> []" and "ts \<noteq> []" and "list_all plain ts" and "length (clean_parts cd) \<le> k"
    and "h_name h = cp @ concat (replicate k ''../'') @ join_with ''/'' ts" and "h_typeflag h = TypeReg"
  shows "\<exists>dirs log. extractCacheAndManifestDirectory log_os (Some [Entry h]) cp mp cd md [] = (Inr (dirs, h_size h), log) \<and>
     Write_file (''/'' @ join_with ''/'' ts) (h_content h) (h_mode h) \<in> set log"
proof -
  have pl: "\<forall>p \<in> set ts. plain p" using assms(4) by (simp add: list_all_iff)
  have p: "has_prefix (h_name h) cp" "trim_prefix (h_name h) cp = concat (replicate k ''../'') @ join_with ''/'' ts"
    using assms(6) by (simp_all add: has_prefix_def)
  have ne: "concat (replicate k ''../'') @ join_with ''/'' ts \<noteq> []"
    using assms(3) pl by (cases ts; cases "tl ts") (auto simp: plain_def)
  show ?thesis
    using p ne assms(7) path_join_escapes [OF assms(1,5,3) pl]
    by (simp add: extractCacheAndManifestDirectory_def extract_entry_def log_os_def writeFile_def Let_def)
qed

theorem extract_escapes_witness:
  "\<exists>dirs log. ExtractTritonCacheDirectory log_os ''/root/.triton/cache'' ''/tmp/m''
     (Some [Entry (ex_entry ''io.triton.cache/../../../etc/cron.d/job'')]) [] = (Inr (dirs, 5), log) \<and>
     Write_file ''/etc/cron.d/job'' ''hello'' 420 \<in> set log"
  unfolding ExtractTritonCacheDirectory_def
  using extract_escapes [of "''/root/.triton/cache''" "''io.triton.cache/''" "[''etc'', ''cron.d'', ''job'']" 3
      "ex_entry ''io.triton.cache/../../../etc/cron.d/job''" "''io.triton.manifest/''" "''/tmp/m''"]
  by (simp add: is_rooted_def has_prefix_def clean_parts_def plain_def ex_entry_def numeral_3_eq_3)






end
