(* ===== verification/Go_Json.thy ===== *)
theory Go_Json
  imports Go_Base
begin

text \<open>
  What the Go programs use of encoding/json: compact printing with HTML escapes as
  \<open>json.Marshal\<close> does it, and parsing of the full JSON grammar as \<open>json.Unmarshal\<close> does it,
  on strings as lists of bytes (a byte from 128 on is passed through; \<open>\uXXXX\<close> is decoded to
  UTF-8). Numbers keep their literal. The fuel of the parser bounds the number of nested
  calls; the length of the input is always enough for what the printer produces.
\<close>

datatype json =
  JNull
| JBool bool
| JNum string
| JStr string
| JArr "json list"
| JObj "(string \<times> json) list"

definition hex_digit :: "nat \<Rightarrow> char" where
  "hex_digit d = char_of (if d < 10 then 48 + d else 87 + d)"

definition escape_char :: "char \<Rightarrow> string" where
  "escape_char c = (let n = of_char c :: nat in
     if n = 34 \<or> n = 92 then [char_of (92 :: nat), c]
     else if n = 8 then [char_of (92 :: nat), CHR ''b'']
     else if n = 12 then [char_of (92 :: nat), CHR ''f'']
     else if n = 10 then [char_of (92 :: nat), CHR ''n'']
     else if n = 13 then [char_of (92 :: nat), CHR ''r'']
     else if n = 9 then [char_of (92 :: nat), CHR ''t'']
     else if n < 32 \<or> n = 60 \<or> n = 62 \<or> n = 38 then
       [char_of (92 :: nat), CHR ''u'', CHR ''0'', CHR ''0'', hex_digit (n div 16), hex_digit (n mod 16)]
     else [c])"

definition print_string :: "string \<Rightarrow> string" where
  "print_string s = [char_of (34 :: nat)] @ concat (map escape_char s) @ [char_of (34 :: nat)]"

fun print_json :: "json \<Rightarrow> string"
  and print_elems :: "json list \<Rightarrow> string"
  and print_members :: "(string \<times> json) list \<Rightarrow> string" where
  "print_json JNull = ''null''"
| "print_json (JBool b) = (if b then ''true'' else ''false'')"
| "print_json (JNum s) = s"
| "print_json (JStr s) = print_string s"
| "print_json (JArr js) = ''['' @ print_elems js @ '']''"
| "print_json (JObj kvs) = ''{'' @ print_members kvs @ ''}''"
| "print_elems [] = []"
| "print_elems (j # js) = print_json j @ (if js = [] then [] else '','' @ print_elems js)"
| "print_members [] = []"
| "print_members ((k, j) # kvs) =
     print_string k @ '':'' @ print_json j @ (if kvs = [] then [] else '','' @ print_members kvs)"

subsection \<open>Parsing\<close>

definition is_ws :: "char \<Rightarrow> bool" where
  "is_ws c \<longleftrightarrow> (let n = of_char c :: nat in n = 32 \<or> n = 9 \<or> n = 10 \<or> n = 13)"

abbreviation skip_ws :: "string \<Rightarrow> string" where
  "skip_ws \<equiv> dropWhile is_ws"

definition hex_val :: "char \<Rightarrow> nat option" where
  "hex_val c = (let n = of_char c :: nat in
     if 48 \<le> n \<and> n \<le> 57 then Some (n - 48)
     else if 97 \<le> n \<and> n \<le> 102 then Some (n - 87)
     else if 65 \<le> n \<and> n \<le> 70 then Some (n - 55) else None)"

fun hex4 :: "string \<Rightarrow> (nat \<times> string) option" where
  "hex4 (a # b # c # d # r) =
     (case (hex_val a, hex_val b, hex_val c, hex_val d) of
        (Some w, Some x, Some y, Some z) \<Rightarrow> Some (((w * 16 + x) * 16 + y) * 16 + z, r)
      | _ \<Rightarrow> None)"
| "hex4 r = None"

definition utf8 :: "nat \<Rightarrow> string" where
  "utf8 n = map char_of
     (if n < 128 then [n]
      else if n < 2048 then [192 + n div 64, 128 + n mod 64]
      else if n < 65536 then [224 + n div 4096, 128 + n div 64 mod 64, 128 + n mod 64]
      else [240 + n div 262144, 128 + n div 4096 mod 64, 128 + n div 64 mod 64, 128 + n mod 64])"

text \<open>The escape after \<open>\u\<close>: a surrogate pair is joined, a lone surrogate becomes U+FFFD.\<close>

definition unicode_escape :: "string \<Rightarrow> (string \<times> string) option" where
  "unicode_escape s = (case hex4 s of
     None \<Rightarrow> None
   | Some (n, r) \<Rightarrow>
      if n < 55296 \<or> 57344 \<le> n then Some (utf8 n, r)
      else (case r of
         e # u # r' \<Rightarrow>
           (if n < 56320 \<and> e = char_of (92 :: nat) \<and> u = CHR ''u'' then
              (case hex4 r' of
                 Some (m, r'') \<Rightarrow> if 56320 \<le> m \<and> m < 57344
                    then Some (utf8 (65536 + (n - 55296) * 1024 + (m - 56320)), r'') else Some (utf8 65533, r)
               | None \<Rightarrow> Some (utf8 65533, r))
            else Some (utf8 65533, r))
       | _ \<Rightarrow> Some (utf8 65533, r)))"

definition simple_escape :: "char \<Rightarrow> char option" where
  "simple_escape c = map_option char_of
     (map_of [(34, 34), (92, 92), (47, 47), (98, 8), (102, 12), (110, 10), (114, 13), (116, 9)] (of_char c :: nat) :: nat option)"

lemma hex4_shorter: "hex4 s = Some (n, r) \<Longrightarrow> length r < length s"
  by (induction s rule: hex4.induct) (auto split: option.splits)

lemma unicode_escape_shorter: "unicode_escape s = Some (t, r) \<Longrightarrow> length r < length s"
  unfolding unicode_escape_def
  by (auto split: option.splits prod.splits list.splits if_splits dest!: hex4_shorter)

text \<open>The rest of a string after its opening quote.\<close>

function parse_string :: "string \<Rightarrow> (string \<times> string) option" where
  "parse_string [] = None"
| "parse_string (c # r) =
     (if of_char c = (34 :: nat) then Some ([], r)
      else if of_char c = (92 :: nat) then
        (case r of
           [] \<Rightarrow> None
         | e # r' \<Rightarrow>
            if of_char e = (117 :: nat) then
              (case unicode_escape r' of
                 None \<Rightarrow> None
               | Some (t, r'') \<Rightarrow> map_option (\<lambda>(s, r). (t @ s, r)) (parse_string r''))
            else (case simple_escape e of
                 None \<Rightarrow> None
               | Some d \<Rightarrow> map_option (\<lambda>(s, r). (d # s, r)) (parse_string r')))
      else if of_char c < (32 :: nat) then None
      else map_option (\<lambda>(s, r). (c # s, r)) (parse_string r))"
  by pat_completeness auto
termination
  by (relation "measure length") (auto dest: unicode_escape_shorter)

definition is_digit :: "char \<Rightarrow> bool" where
  "is_digit c \<longleftrightarrow> digit_val c \<noteq> None"

text \<open>A number literal: sign, integer part without leading zeros, fraction, exponent.\<close>

definition parse_digits1 :: "string \<Rightarrow> (string \<times> string) option" where
  "parse_digits1 s = (if takeWhile is_digit s = [] then None else Some (takeWhile is_digit s, dropWhile is_digit s))"

definition parse_integer :: "string \<Rightarrow> (string \<times> string) option" where
  "parse_integer s = (case s of [] \<Rightarrow> None
     | c # r \<Rightarrow> if c = CHR ''0'' then Some ([c], r) else parse_digits1 s)"

definition parse_fraction :: "string \<Rightarrow> (string \<times> string) option" where
  "parse_fraction s = (case s of
     c # r \<Rightarrow> if c = CHR ''.'' then map_option (\<lambda>(d, r). (c # d, r)) (parse_digits1 r) else Some ([], s)
   | [] \<Rightarrow> Some ([], s))"

definition parse_exponent :: "string \<Rightarrow> (string \<times> string) option" where
  "parse_exponent s = (case s of
     c # r \<Rightarrow>
       if c = CHR ''e'' \<or> c = CHR ''E'' then
         (case r of
            d # r' \<Rightarrow> if d = CHR ''+'' \<or> d = CHR ''-'' then map_option (\<lambda>(ds, r). (c # d # ds, r)) (parse_digits1 r')
                      else map_option (\<lambda>(ds, r). (c # ds, r)) (parse_digits1 r)
          | [] \<Rightarrow> None)
       else Some ([], s)
   | [] \<Rightarrow> Some ([], s))"

definition parse_number :: "string \<Rightarrow> (string \<times> string) option" where
  "parse_number s =
     (let (m, s) = (case s of c # r \<Rightarrow> if c = CHR ''-'' then ([c], r) else ([], s) | [] \<Rightarrow> ([], s)) in
      case parse_integer s of
        None \<Rightarrow> None
      | Some (i, s) \<Rightarrow> (case parse_fraction s of
          None \<Rightarrow> None
        | Some (f, s) \<Rightarrow> (case parse_exponent s of
            None \<Rightarrow> None
          | Some (x, s) \<Rightarrow> Some (m @ i @ f @ x, s))))"

definition expect :: "string \<Rightarrow> string \<Rightarrow> string option" where
  "expect w s = (if has_prefix s w then Some (drop (length w) s) else None)"

fun parse_value :: "nat \<Rightarrow> string \<Rightarrow> (json \<times> string) option"
  and parse_elems :: "nat \<Rightarrow> string \<Rightarrow> (json list \<times> string) option"
  and parse_members :: "nat \<Rightarrow> string \<Rightarrow> ((string \<times> json) list \<times> string) option" where
  "parse_value 0 s = None"
| "parse_value (Suc n) s =
     (case skip_ws s of
        [] \<Rightarrow> None
      | c # r \<Rightarrow>
         if c = CHR ''n'' then map_option (\<lambda>r. (JNull, r)) (expect ''ull'' r)
         else if c = CHR ''t'' then map_option (\<lambda>r. (JBool True, r)) (expect ''rue'' r)
         else if c = CHR ''f'' then map_option (\<lambda>r. (JBool False, r)) (expect ''alse'' r)
         else if of_char c = (34 :: nat) then map_option (\<lambda>(s, r). (JStr s, r)) (parse_string r)
         else if c = CHR ''['' then
           (case skip_ws r of
              d # r' \<Rightarrow> if d = CHR '']'' then Some (JArr [], r')
                        else map_option (\<lambda>(js, r). (JArr js, r)) (parse_elems n r)
            | [] \<Rightarrow> None)
         else if c = CHR ''{'' then
           (case skip_ws r of
              d # r' \<Rightarrow> if d = CHR ''}'' then Some (JObj [], r')
                        else map_option (\<lambda>(kvs, r). (JObj kvs, r)) (parse_members n r)
            | [] \<Rightarrow> None)
         else map_option (\<lambda>(s, r). (JNum s, r)) (parse_number (c # r)))"
| "parse_elems 0 s = None"
| "parse_elems (Suc n) s =
     (case parse_value n s of
        None \<Rightarrow> None
      | Some (j, r) \<Rightarrow>
         (case skip_ws r of
            [] \<Rightarrow> None
          | c # r' \<Rightarrow>
             if c = CHR '']'' then Some ([j], r')
             else if c = CHR '','' then map_option (\<lambda>(js, r). (j # js, r)) (parse_elems n r')
             else None))"
| "parse_members 0 s = None"
| "parse_members (Suc n) s =
     (case skip_ws s of
        [] \<Rightarrow> None
      | q # r \<Rightarrow>
         if of_char q \<noteq> (34 :: nat) then None
         else (case parse_string r of
            None \<Rightarrow> None
          | Some (k, r) \<Rightarrow>
             (case skip_ws r of
                [] \<Rightarrow> None
              | d # r \<Rightarrow>
                 if d \<noteq> CHR '':'' then None
                 else (case parse_value n r of
                    None \<Rightarrow> None
                  | Some (j, r) \<Rightarrow>
                     (case skip_ws r of
                        [] \<Rightarrow> None
                      | c # r' \<Rightarrow>
                         if c = CHR ''}'' then Some ([(k, j)], r')
                         else if c = CHR '','' then map_option (\<lambda>(kvs, r). ((k, j) # kvs, r)) (parse_members n r')
                         else None)))))"

definition parse_json :: "string \<Rightarrow> json option" where
  "parse_json s = (case parse_value (Suc (length s)) s of
     Some (j, r) \<Rightarrow> if skip_ws r = [] then Some j else None
   | None \<Rightarrow> None)"

subsection \<open>Printing and parsing again\<close>

lemma hex_val_digit [simp]: "d < 16 \<Longrightarrow> hex_val (hex_digit d) = Some d"
  by (simp add: hex_val_def hex_digit_def Let_def)

lemma unicode_escape_ascii:
  assumes "of_char c = n" "n < 128"
  shows "unicode_escape (CHR ''0'' # CHR ''0'' # hex_digit (n div 16) # hex_digit (n mod 16) # t) = Some ([c], t)"
proof -
  have "hex_val (CHR ''0'') = Some 0" by (simp add: hex_val_def)
  moreover have "[char_of n] = [c]" using assms(1) char_of_char [of c] by metis
  ultimately show ?thesis using assms(2) by (simp add: unicode_escape_def utf8_def)
qed

lemma parse_escaped: "parse_string (escape_char c @ t) = map_option (\<lambda>(s, r). (c # s, r)) (parse_string t)"
proof -
  obtain n :: nat where c: "c = char_of n" and n: "n < 256"
    by (metis char_of_char of_char_mod_256 mod_less_divisor zero_less_numeral)
  consider "n \<in> {34, 92, 8, 12, 10, 13, 9}"
    | "n < 32 \<or> n = 60 \<or> n = 62 \<or> n = 38" "n \<notin> {34, 92, 8, 12, 10, 13, 9}"
    | "32 \<le> n" "n \<notin> {34, 92, 60, 62, 38}" by fastforce
  then show ?thesis
  proof cases
    case 1
    then show ?thesis unfolding c by (auto simp: escape_char_def Let_def simple_escape_def)
  next
    case 2
    then have "unicode_escape (CHR ''0'' # CHR ''0'' # hex_digit (n div 16) # hex_digit (n mod 16) # t) = Some ([c], t)"
      by (intro unicode_escape_ascii) (auto simp: c)
    then show ?thesis using 2 n unfolding c by (auto simp: escape_char_def Let_def)
  next
    case 3
    then show ?thesis using n unfolding c by (auto simp: escape_char_def Let_def)
  qed
qed

lemma parse_print_string: "parse_string (concat (map escape_char s) @ char_of (34 :: nat) # r) = Some (s, r)"
  by (induction s) (simp_all add: parse_escaped del: parse_string.simps(2), simp)

definition after_value :: "string \<Rightarrow> bool" where
  "after_value r \<longleftrightarrow> r = [] \<or> hd r \<in> {CHR '','', CHR '']'', CHR ''}''}"

lemma itoa_digits: "\<forall>c \<in> set (itoa_nat n). is_digit c"
proof (induction n rule: itoa_nat.induct)
  case (1 n)
  have "is_digit (digit_of (n mod 10))" "n < 10 \<Longrightarrow> is_digit (digit_of n)" by (simp_all add: is_digit_def)
  then show ?case using 1 by (subst itoa_nat.simps) auto
qed

lemma itoa_zero: "hd (itoa_nat n) = CHR ''0'' \<Longrightarrow> n = 0"
proof (induction n rule: itoa_nat.induct)
  case (1 n)
  show ?case
  proof (cases "n < 10")
    case True
    then have "n \<in> {0, 1, 2, 3, 4, 5, 6, 7, 8, 9}" by auto
    then show ?thesis using 1 by (auto simp: itoa_nat.simps [of n] digit_of_def char_of_def)
  next
    case False
    then have "hd (itoa_nat n) = hd (itoa_nat (n div 10))" by (subst itoa_nat.simps) (simp add: hd_append)
    then show ?thesis using 1 False by simp
  qed
qed

lemma parse_number_int:
  assumes "after_value r"
  shows "parse_number (format_int z @ r) = Some (format_int z, r)"
proof -
  have r: "takeWhile is_digit r = []" "dropWhile is_digit r = r" "parse_fraction r = Some ([], r)" "parse_exponent r = Some ([], r)"
    using assms by (cases r; auto simp: after_value_def is_digit_def digit_val_def parse_fraction_def parse_exponent_def)+
  have i: "parse_integer (itoa_nat n @ r) = Some (itoa_nat n, r)" for n
  proof (cases "n = 0")
    case True
    have "digit_of 0 = CHR ''0''" by code_simp
    then show ?thesis using True by (simp add: itoa_nat.simps parse_integer_def)
  next
    case False
    obtain c cs where c: "itoa_nat n = c # cs" by (cases "itoa_nat n") auto
    have "takeWhile is_digit (itoa_nat n @ r) = itoa_nat n" "dropWhile is_digit (itoa_nat n @ r) = r"
      using itoa_digits [of n] r by (simp_all add: takeWhile_append dropWhile_append)
    moreover have "c \<noteq> CHR ''0''" using itoa_zero [of n] False c by auto
    ultimately show ?thesis using c by (simp add: parse_integer_def parse_digits1_def)
  qed
  show ?thesis
  proof (cases "z < 0")
    case True
    then show ?thesis using i r by (simp add: parse_number_def format_int_def)
  next
    case False
    obtain c cs where c: "itoa_nat (nat z) = c # cs" by (cases "itoa_nat (nat z)") auto
    then have "c \<noteq> CHR ''-''" using hd_itoa [of "nat z"] by auto
    then show ?thesis using i [of "nat z"] r False c by (simp add: parse_number_def format_int_def)
  qed
qed

text \<open>The nesting a value needs, the values of the model (numbers are integers), the round trip.\<close>

fun depth :: "json \<Rightarrow> nat"
  and depth_elems :: "json list \<Rightarrow> nat"
  and depth_members :: "(string \<times> json) list \<Rightarrow> nat" where
  "depth (JArr js) = Suc (depth_elems js)"
| "depth (JObj kvs) = Suc (depth_members kvs)"
| "depth j = 1"
| "depth_elems [] = 0"
| "depth_elems (j # js) = Suc (max (depth j) (depth_elems js))"
| "depth_members [] = 0"
| "depth_members ((k, j) # kvs) = Suc (max (depth j) (depth_members kvs))"

fun integral :: "json \<Rightarrow> bool" where
  "integral (JNum s) \<longleftrightarrow> (\<exists>z. s = format_int z)"
| "integral (JArr js) \<longleftrightarrow> (\<forall>j \<in> set js. integral j)"
| "integral (JObj kvs) \<longleftrightarrow> (\<forall>kv \<in> set kvs. integral (snd kv))"
| "integral j \<longleftrightarrow> True"

lemma format_int_head:
  obtains c cs where "format_int z = c # cs" "c = CHR ''-'' \<or> is_digit c"
proof (cases "z < 0")
  case True
  then show ?thesis using that by (simp add: format_int_def)
next
  case False
  then show ?thesis
    using that itoa_digits [of "nat z"] itoa_nat_not_Nil [of "nat z"]
    by (cases "itoa_nat (nat z)") (auto simp: format_int_def)
qed

lemma skip_ws_token: "\<not> is_ws c \<Longrightarrow> skip_ws (c # r) = c # r"
  by simp

lemma not_ws [simp]:
  "\<not> is_ws (CHR ''n'')" "\<not> is_ws (CHR ''t'')" "\<not> is_ws (CHR ''f'')" "\<not> is_ws (CHR ''['')" "\<not> is_ws (CHR ''{'')"
  "\<not> is_ws (CHR '']'')" "\<not> is_ws (CHR ''}'')" "\<not> is_ws (CHR '','')" "\<not> is_ws (CHR '':'')" "\<not> is_ws (char_of (34 :: nat))"
  by code_simp+

lemma number_head:
  assumes "c = CHR ''-'' \<or> is_digit c"
  shows "\<not> is_ws c" "c \<noteq> CHR ''n''" "c \<noteq> CHR ''t''" "c \<noteq> CHR ''f''" "of_char c \<noteq> (34 :: nat)"
    "c \<noteq> CHR ''[''" "c \<noteq> CHR ''{''" "c \<noteq> CHR '']''" "c \<noteq> CHR ''}''"
  using assms by (auto simp: is_digit_def digit_val_def is_ws_def Let_def split: if_splits)

lemma print_head:
  assumes "integral j"
  obtains c cs where "print_json j = c # cs" "\<not> is_ws c" "c \<noteq> CHR '']''" "c \<noteq> CHR ''}''"
proof (cases j)
  case (JNum s)
  then obtain z where "s = format_int z" using assms by auto
  then show ?thesis using JNum that format_int_head [of z] number_head by (metis print_json.simps(3))
next
  case (JStr s)
  have "char_of (34 :: nat) \<noteq> CHR '']''" "char_of (34 :: nat) \<noteq> CHR ''}''" by code_simp+
  then show ?thesis using JStr that by (simp add: print_string_def)
next
  case (JBool b)
  then show ?thesis using that by (cases b) auto
qed (use that in auto)

lemma after_value_simps [simp]:
  "after_value []" "after_value (CHR '','' # r)" "after_value (CHR '']'' # r)" "after_value (CHR ''}'' # r)"
  by (simp_all add: after_value_def)

lemma quote_char [simp]: "of_char (char_of (34 :: nat)) = (34 :: nat)"
  "char_of (34 :: nat) \<noteq> CHR ''n''" "char_of (34 :: nat) \<noteq> CHR ''t''" "char_of (34 :: nat) \<noteq> CHR ''f''"
  "char_of (34 :: nat) \<noteq> CHR ''}''"
  by code_simp+

theorem parse_print:
  "integral j \<Longrightarrow> depth j \<le> n \<Longrightarrow> after_value r \<Longrightarrow> parse_value n (print_json j @ r) = Some (j, r)"
  "\<forall>j \<in> set js. integral j \<Longrightarrow> js \<noteq> [] \<Longrightarrow> depth_elems js \<le> n \<Longrightarrow>
   parse_elems n (print_elems js @ CHR '']'' # r) = Some (js, r)"
  "\<forall>kv \<in> set kvs. integral (snd kv) \<Longrightarrow> kvs \<noteq> [] \<Longrightarrow> depth_members kvs \<le> n \<Longrightarrow>
   parse_members n (print_members kvs @ CHR ''}'' # r) = Some (kvs, r)"
proof (induction j and js and kvs arbitrary: n r and n r and n r rule: print_json_print_elems_print_members.induct)
  case 1
  then show ?case by (cases n) (auto simp: expect_def has_prefix_def)
next
  case (2 b)
  then show ?case by (cases n) (auto simp: expect_def has_prefix_def)
next
  case (3 s)
  then obtain z where z: "s = format_int z" by auto
  obtain c cs where c: "format_int z = c # cs" "c = CHR ''-'' \<or> is_digit c" by (rule format_int_head)
  show ?case using 3 parse_number_int [of r z] number_head [OF c(2)] c(1) by (cases n) (simp_all add: z)
next
  case (4 s)
  then show ?case by (cases n) (simp_all add: print_string_def parse_print_string)
next
  case (5 js)
  then obtain m where m: "n = Suc m" by (cases n) auto
  show ?case
  proof (cases js)
    case Nil
    then show ?thesis by (simp add: m)
  next
    case (Cons j js')
    then obtain c cs where c: "print_json j = c # cs" "\<not> is_ws c" "c \<noteq> CHR '']''" "c \<noteq> CHR ''}''"
      using print_head [of j] 5(2) by (metis integral.simps(2) list.set_intros(1))
    have "parse_elems m (print_elems js @ CHR '']'' # r) = Some (js, r)" using 5 m Cons by simp
    then show ?thesis using c Cons m by simp
  qed
next
  case (6 kvs)
  then obtain m where m: "n = Suc m" by (cases n) auto
  show ?case
  proof (cases kvs)
    case Nil
    then show ?thesis by (simp add: m)
  next
    case (Cons kv kvs')
    have "parse_members m (print_members kvs @ CHR ''}'' # r) = Some (kvs, r)" using 6 m Cons by simp
    then show ?thesis using Cons m by (cases kv) (simp add: print_string_def)
  qed
next
  case 7
  then show ?case by simp
next
  case (8 j js)
  then obtain m where m: "n = Suc m" by (cases n) auto
  show ?case using 8 m by (cases "js = []") simp_all
next
  case 9
  then show ?case by simp
next
  case (10 k j kvs)
  then obtain m where m: "n = Suc m" by (cases n) auto
  show ?case using 10 m by (cases "kvs = []") (simp_all add: print_string_def parse_print_string)
qed

lemma depth_length:
  "integral j \<Longrightarrow> depth j \<le> length (print_json j)"
  "\<forall>j \<in> set js. integral j \<Longrightarrow> depth_elems js \<le> Suc (length (print_elems js))"
  "\<forall>kv \<in> set kvs. integral (snd kv) \<Longrightarrow> depth_members kvs \<le> Suc (length (print_members kvs))"
proof (induction j and js and kvs rule: print_json_print_elems_print_members.induct)
  case (3 s)
  then obtain z where "s = format_int z" by auto
  then show ?case using format_int_head [of z] by (metis depth.simps(5) length_greater_0_conv list.discI print_json.simps(3) Suc_leI One_nat_def)
qed (auto simp: print_string_def)

theorem parse_print_json: "integral j \<Longrightarrow> parse_json (print_json j) = Some j"
  using parse_print(1) [of j "Suc (length (print_json j))" "[]"] depth_length(1) [of j]
  by (simp add: parse_json_def)

end
