(* ===== verification/Cache_Summary.thy ===== *)
theory Cache_Summary
  imports Complex_Main Go_Json
begin

text \<open>
  src/mcv/pkg/cache: what mcv records about a Triton cache when it builds an image. The
  kernels' JSON files become metadata (with a key of the Triton installation), the metadata
  becomes the manifest and a summary of the hardware targets, the summary becomes a label.
  Python's answers about the Triton installation, SHA-256 and the iteration order of Go's
  maps are parameters. Of the structs the model keeps the fields that the code reads.
\<close>

subsection \<open>Structs (types.go)\<close>

text \<open>A field of type \<open>any\<close> that JSON filled: a string, a float64 or something else.\<close>

datatype arch = Arch_string string | Arch_int int | Arch_float rat | Arch_other

record target =
  t_backend :: string
  t_arch :: arch
  t_warp_size :: int

record triton_data =
  d_hash :: string
  d_target :: target
  d_num_warps :: int
  d_num_stages :: int
  d_debug :: bool
  d_ptx_version :: "int option"

record triton_metadata =
  m_hash :: string
  m_dummy_key :: string
  m_ptx_version :: int
  m_num_stages :: int
  m_num_warps :: int
  m_debug :: bool
  m_target :: target

record target_info =
  s_backend :: string
  s_arch :: string
  s_warp_size :: int
  s_ptx_version :: int
  s_cuda_version :: string

record summary =
  targets :: "target_info list"

subsection \<open>triton.go\<close>

text \<open>The format \<open>%.0f\<close>: the nearest integer, halves to even.\<close>

definition round_even :: "rat \<Rightarrow> int" where
  "round_even r = (let f = \<lfloor>r\<rfloor>; d = r - of_int f in
     if d < 1 / 2 then f else if d > 1 / 2 then f + 1 else if even f then f else f + 1)"

definition ConvertArchToString :: "arch \<Rightarrow> string" where
  "ConvertArchToString a = (case a of
     Arch_string s \<Rightarrow> s
   | Arch_int i \<Rightarrow> format_int i
   | Arch_float r \<Rightarrow> (if r < 0 then ''-'' else []) @ format_int (round_even \<bar>r\<bar>)
   | Arch_other \<Rightarrow> [])"

text \<open>The key of a target, \<open>%s-%s-%d\<close>.\<close>

definition target_key :: "string \<Rightarrow> string \<Rightarrow> int \<Rightarrow> string" where
  "target_key b a w = b @ ''-'' @ a @ ''-'' @ format_int w"

text \<open>
  \<open>BuildTritonSummary\<close>: one target per key, in the order of a map. The map is the list of
  its entries by insertion; \<open>order\<close> is the order in which \<open>range\<close> visits them. \<open>%s\<close> of an
  architecture that is no string is the parameter \<open>fmt\<close>.
\<close>

fun summary_seen ::
  "(arch \<Rightarrow> string) \<Rightarrow> triton_metadata list \<Rightarrow> (string \<times> target_info) list \<Rightarrow> (string \<times> target_info) list" where
  "summary_seen fmt [] seen = seen"
| "summary_seen fmt (e # es) seen =
     (let t = m_target e;
          key = target_key (t_backend t) (case t_arch t of Arch_string s \<Rightarrow> s | a \<Rightarrow> fmt a) (t_warp_size t) in
      summary_seen fmt es
        (if map_of seen key \<noteq> None then seen
         else seen @ [(key, \<lparr>s_backend = t_backend t, s_arch = ConvertArchToString (t_arch t),
                             s_warp_size = t_warp_size t, s_ptx_version = 0, s_cuda_version = []\<rparr>)]))"

definition BuildTritonSummary ::
  "(target_info list \<Rightarrow> target_info list) \<Rightarrow> (arch \<Rightarrow> string) \<Rightarrow> triton_metadata list \<Rightarrow> summary option" where
  "BuildTritonSummary order fmt metadata =
     (if metadata = [] then None
      else Some \<lparr>targets = order (map snd (summary_seen fmt metadata []))\<rparr>)"

subsection \<open>dummytritonkey.go\<close>

text \<open>
  The environment: what python3 and triton answer (\<open>None\<close> when the call fails), the
  environment variables as the JSON text of their sorted map, and SHA-256 in hexadecimal.
\<close>

record triton_env =
  installation_key :: "string option"
  current_target :: "string option"
  env_vars :: "string option"
  triton_debug :: bool
  sha256 :: "string \<Rightarrow> string"

text \<open>\<open>json.Marshal\<close> of a map sorts the keys.\<close>

definition key_options :: "triton_env \<Rightarrow> triton_data option \<Rightarrow> json" where
  "key_options E data = (case data of
     Some d \<Rightarrow> JObj [(''debug'', JBool (d_debug d)), (''num_stages'', JNum (format_int (d_num_stages d))),
       (''num_warps'', JNum (format_int (d_num_warps d))),
       (''ptx'', JNum (format_int (case d_ptx_version d of Some p \<Rightarrow> p | None \<Rightarrow> 0)))]
   | None \<Rightarrow> JObj [(''debug'', JBool (triton_debug E)), (''num_stages'', JNum (format_int 3)),
       (''num_warps'', JNum (format_int 4))])"

definition generateTritonCacheKey :: "triton_env \<Rightarrow> string \<Rightarrow> triton_data option \<Rightarrow> string option" where
  "generateTritonCacheKey E sourceHash data =
     (case installation_key E of
        None \<Rightarrow> None
      | Some tritonKey \<Rightarrow>
         let source = (if sourceHash = [] then ''dummy_source_content'' else sourceHash) in
         (case (case data of
              Some d \<Rightarrow> Some (target_key (t_backend (d_target d)) (ConvertArchToString (t_arch (d_target d))) (t_warp_size (d_target d)))
            | None \<Rightarrow> current_target E) of
            None \<Rightarrow> None
          | Some backendInfo \<Rightarrow>
             (case env_vars E of
                None \<Rightarrow> None
              | Some sortedEnvVars \<Rightarrow>
                 Some (sha256 E (join_with ''-''
                   [tritonKey, sha256 E source, sha256 E backendInfo,
                    sha256 E (print_json (key_options E data)), sha256 E sortedEnvVars])))))"

definition ComputeDummyTritonKey :: "triton_env \<Rightarrow> triton_data \<Rightarrow> string option" where
  "ComputeDummyTritonKey E data = generateTritonCacheKey E [] (Some data)"

text \<open>
  \<open>getTritonMetadata\<close>, on the result of loading each file: \<open>None\<close> for a file that cannot be
  read or parsed, \<open>Some None\<close> for one without a hash; both are skipped, as is a file whose
  key cannot be computed.
\<close>

definition metadata_of :: "string \<Rightarrow> triton_data \<Rightarrow> triton_metadata" where
  "metadata_of dummyKey data =
     \<lparr>m_hash = d_hash data, m_dummy_key = dummyKey,
      m_ptx_version = (case d_ptx_version data of Some p \<Rightarrow> p | None \<Rightarrow> 0),
      m_num_stages = d_num_stages data, m_num_warps = d_num_warps data, m_debug = d_debug data,
      m_target = \<lparr>t_backend = t_backend (d_target data),
        t_arch = Arch_string (ConvertArchToString (t_arch (d_target data))),
        t_warp_size = t_warp_size (d_target data)\<rparr>\<rparr>"

fun getTritonMetadata :: "triton_env \<Rightarrow> triton_data option option list \<Rightarrow> triton_metadata list" where
  "getTritonMetadata E [] = []"
| "getTritonMetadata E (f # fs) =
     (case f of
        None \<Rightarrow> getTritonMetadata E fs
      | Some None \<Rightarrow> getTritonMetadata E fs
      | Some (Some data) \<Rightarrow>
         (case ComputeDummyTritonKey E data of
            None \<Rightarrow> getTritonMetadata E fs
          | Some dummyKey \<Rightarrow> metadata_of dummyKey data # getTritonMetadata E fs))"

subsection \<open>The summary as a label\<close>

definition target_json :: "target_info \<Rightarrow> json" where
  "target_json t = JObj
     ([(''backend'', JStr (s_backend t)), (''arch'', JStr (s_arch t)), (''warp_size'', JNum (format_int (s_warp_size t)))] @
      (if s_ptx_version t = 0 then [] else [(''ptx_version'', JNum (format_int (s_ptx_version t)))]) @
      (if s_cuda_version t = [] then [] else [(''cuda_version'', JStr (s_cuda_version t))]))"

text \<open>A nil pointer is null.\<close>

definition summary_json :: "summary option \<Rightarrow> json" where
  "summary_json s = (case s of
     None \<Rightarrow> JNull
   | Some s \<Rightarrow> JObj [(''targets'', JArr (map target_json (targets s)))])"

text \<open>\<open>TritonCache.Summary\<close> and \<open>TritonCache.Labels\<close>.\<close>

definition triton_summary ::
  "(target_info list \<Rightarrow> target_info list) \<Rightarrow> (arch \<Rightarrow> string) \<Rightarrow> triton_metadata list \<Rightarrow> string" where
  "triton_summary order fmt metadata =
     (case BuildTritonSummary order fmt metadata of
        None \<Rightarrow> []
      | Some s \<Rightarrow> print_json (summary_json (Some s)))"

type_synonym labels = "string \<Rightarrow> string option"

definition triton_labels ::
  "(target_info list \<Rightarrow> target_info list) \<Rightarrow> (arch \<Rightarrow> string) \<Rightarrow> triton_metadata list \<Rightarrow> int \<Rightarrow> labels" where
  "triton_labels order fmt metadata totalSize =
     [''cache.triton.image/entry-count'' \<mapsto> format_int (int (length metadata)),
      ''cache.triton.image/summary'' \<mapsto> triton_summary order fmt metadata,
      ''cache.triton.image/cache-size-bytes'' \<mapsto> format_int totalSize]"

subsection \<open>Decoding\<close>

text \<open>
  \<open>json.Unmarshal\<close> into structs: keys match fields without regard to case, unknown keys are
  ignored, null leaves a field as it is, a value of the wrong type or an integer outside 64
  bits is an error.
\<close>

fun decode_string :: "string \<Rightarrow> json \<Rightarrow> string option" where
  "decode_string old (JStr s) = Some s"
| "decode_string old JNull = Some old"
| "decode_string old _ = None"

fun decode_int :: "int \<Rightarrow> json \<Rightarrow> int option" where
  "decode_int old (JNum n) = parse_int64 n"
| "decode_int old JNull = Some old"
| "decode_int old _ = None"

fun decode_bool :: "bool \<Rightarrow> json \<Rightarrow> bool option" where
  "decode_bool old (JBool b) = Some b"
| "decode_bool old JNull = Some old"
| "decode_bool old _ = None"

fun decode_fields :: "(string \<Rightarrow> json \<Rightarrow> 'a \<Rightarrow> 'a option) \<Rightarrow> (string \<times> json) list \<Rightarrow> 'a \<Rightarrow> 'a option" where
  "decode_fields f [] x = Some x"
| "decode_fields f ((k, j) # kvs) x = (case f (to_lower k) j x of None \<Rightarrow> None | Some x \<Rightarrow> decode_fields f kvs x)"

definition decode_struct :: "(string \<Rightarrow> json \<Rightarrow> 'a \<Rightarrow> 'a option) \<Rightarrow> 'a \<Rightarrow> json \<Rightarrow> 'a option" where
  "decode_struct f zero j = (case j of
     JObj kvs \<Rightarrow> decode_fields f kvs zero | JNull \<Rightarrow> Some zero | _ \<Rightarrow> None)"

fun decode_all :: "(json \<Rightarrow> 'a option) \<Rightarrow> json list \<Rightarrow> 'a list option" where
  "decode_all f [] = Some []"
| "decode_all f (j # js) = (case f j of None \<Rightarrow> None | Some x \<Rightarrow> map_option (Cons x) (decode_all f js))"

definition decode_slice :: "(json \<Rightarrow> 'a option) \<Rightarrow> json \<Rightarrow> 'a list option" where
  "decode_slice f j = (case j of JArr js \<Rightarrow> decode_all f js | JNull \<Rightarrow> Some [] | _ \<Rightarrow> None)"

definition target_field :: "string \<Rightarrow> json \<Rightarrow> target_info \<Rightarrow> target_info option" where
  "target_field k j t =
     (if k = ''backend'' then map_option (\<lambda>v. t\<lparr>s_backend := v\<rparr>) (decode_string (s_backend t) j)
      else if k = ''arch'' then map_option (\<lambda>v. t\<lparr>s_arch := v\<rparr>) (decode_string (s_arch t) j)
      else if k = ''warp_size'' then map_option (\<lambda>v. t\<lparr>s_warp_size := v\<rparr>) (decode_int (s_warp_size t) j)
      else if k = ''ptx_version'' then map_option (\<lambda>v. t\<lparr>s_ptx_version := v\<rparr>) (decode_int (s_ptx_version t) j)
      else if k = ''cuda_version'' then map_option (\<lambda>v. t\<lparr>s_cuda_version := v\<rparr>) (decode_string (s_cuda_version t) j)
      else Some t)"

definition no_target :: target_info where
  "no_target = \<lparr>s_backend = [], s_arch = [], s_warp_size = 0, s_ptx_version = 0, s_cuda_version = []\<rparr>"

definition summary_field :: "string \<Rightarrow> json \<Rightarrow> summary \<Rightarrow> summary option" where
  "summary_field k j s =
     (if k = ''targets'' then map_option (\<lambda>ts. s\<lparr>targets := ts\<rparr>) (decode_slice (decode_struct target_field no_target) j)
      else Some s)"

definition parse_summary :: "string \<Rightarrow> summary option" where
  "parse_summary s = (case parse_json s of
     None \<Rightarrow> None
   | Some j \<Rightarrow> decode_struct summary_field \<lparr>targets = []\<rparr> j)"

subsection \<open>Lemmas\<close>

lemma to_lower_names [simp]:
  "to_lower ''backend'' = ''backend''" "to_lower ''arch'' = ''arch''" "to_lower ''warp_size'' = ''warp_size''"
  "to_lower ''ptx_version'' = ''ptx_version''" "to_lower ''cuda_version'' = ''cuda_version''" "to_lower ''targets'' = ''targets''"
  by code_simp+

definition int64 :: "int \<Rightarrow> bool" where
  "int64 z \<longleftrightarrow> - (2 ^ 63) \<le> z \<and> z < 2 ^ 63"

lemma parse_int64_format [simp]: "int64 z \<Longrightarrow> parse_int64 (format_int z) = Some z"
  by (simp add: int64_def parse_format_int)

lemma decode_target:
  assumes "int64 (s_warp_size t)" "int64 (s_ptx_version t)"
  shows "decode_struct target_field no_target (target_json t) = Some t"
  using assms by (simp add: decode_struct_def target_json_def target_field_def no_target_def)

lemma decode_targets:
  "\<forall>t \<in> set ts. int64 (s_warp_size t) \<and> int64 (s_ptx_version t) \<Longrightarrow>
   decode_all (decode_struct target_field no_target) (map target_json ts) = Some ts"
  by (induction ts) (auto simp: decode_target)

lemma summary_integral: "integral (summary_json s)"
  by (auto simp: summary_json_def target_json_def split: option.splits)

lemma parse_summary_json:
  assumes "\<forall>t \<in> set (targets s). int64 (s_warp_size t) \<and> int64 (s_ptx_version t)"
  shows "parse_summary (print_json (summary_json (Some s))) = Some s"
  using decode_targets [OF assms] parse_print_json [OF summary_integral [of "Some s"]]
  by (simp add: parse_summary_def decode_struct_def decode_slice_def summary_json_def summary_field_def)

lemma parse_summary_null: "parse_summary (print_json (summary_json None)) = Some \<lparr>targets = []\<rparr>"
  using parse_print_json [OF summary_integral [of None]]
  by (simp add: parse_summary_def decode_struct_def summary_json_def)

lemma split_first:
  fixes p q :: string
  assumes "c \<notin> set p" "c \<notin> set p'" "p @ c # q = p' @ c # q'"
  shows "p = p' \<and> q = q'"
proof -
  have "Some (length p) = Some (length p')"
    using index_byte_append [OF assms(1), of q] index_byte_append [OF assms(2), of q'] assms(3) by simp
  then show ?thesis using assms(3) by simp
qed

lemma split_last:
  fixes p q :: string
  assumes "c \<notin> set q" "c \<notin> set q'" "p @ c # q = p' @ c # q'"
  shows "p = p' \<and> q = q'"
proof -
  have "Some (length p) = Some (length p')"
    using last_index_byte_append [OF assms(1), of p] last_index_byte_append [OF assms(2), of p'] assms(3) by simp
  then show ?thesis using assms(3) by simp
qed

lemma itoa_no_minus: "CHR ''-'' \<notin> set (itoa_nat n)"
proof
  assume "CHR ''-'' \<in> set (itoa_nat n)"
  then have "is_digit (CHR ''-'')" using itoa_digits by blast
  then show False by (simp add: is_digit_def digit_val_def)
qed

lemma itoa_inject: "itoa_nat m = itoa_nat n \<Longrightarrow> m = n"
  by (metis option.inject parse_digits_itoa)

text \<open>
  Two targets with the same key are the same, as long as no backend has a hyphen and no warp
  size is negative; then the summary loses no target.
\<close>

lemma target_key_inject:
  assumes "target_key b a w = target_key b' a' w'"
    and "CHR ''-'' \<notin> set b" "CHR ''-'' \<notin> set b'" "0 \<le> w" "0 \<le> w'"
  shows "b = b' \<and> a = a' \<and> w = w'"
proof -
  have b: "b = b'" "a @ ''-'' @ format_int w = a' @ ''-'' @ format_int w'"
    using split_first [of "CHR ''-''" b b'] assms(1-3) by (auto simp: target_key_def)
  have w: "format_int w = itoa_nat (nat w)" "format_int w' = itoa_nat (nat w')"
    using assms(4,5) by (simp_all add: format_int_def)
  have "a = a'" "itoa_nat (nat w) = itoa_nat (nat w')"
    using split_last [of "CHR ''-''" "itoa_nat (nat w)" "itoa_nat (nat w')" a a'] b(2) itoa_no_minus
    by (simp_all add: w)
  then show ?thesis using b(1) itoa_inject assms(4,5) by force
qed

definition info_of :: "triton_metadata \<Rightarrow> target_info" where
  "info_of e = \<lparr>s_backend = t_backend (m_target e), s_arch = ConvertArchToString (t_arch (m_target e)),
     s_warp_size = t_warp_size (m_target e), s_ptx_version = 0, s_cuda_version = []\<rparr>"

text \<open>Entries as \<open>getTritonMetadata\<close> makes them, from targets of the usual form.\<close>

definition ascii :: "string \<Rightarrow> bool" where
  "ascii s \<longleftrightarrow> (\<forall>c \<in> set s. of_char c < (128 :: nat))"

definition usual_entry :: "triton_metadata \<Rightarrow> bool" where
  "usual_entry e \<longleftrightarrow> (\<exists>s. t_arch (m_target e) = Arch_string s \<and> ascii s) \<and>
     CHR ''-'' \<notin> set (t_backend (m_target e)) \<and> ascii (t_backend (m_target e)) \<and>
     0 \<le> t_warp_size (m_target e) \<and> int64 (t_warp_size (m_target e))"

abbreviation key_of :: "triton_metadata \<Rightarrow> string" where
  "key_of e \<equiv> target_key (t_backend (m_target e)) (ConvertArchToString (t_arch (m_target e))) (t_warp_size (m_target e))"

lemma key_of_inject: "usual_entry e \<Longrightarrow> usual_entry e' \<Longrightarrow> key_of e = key_of e' \<Longrightarrow> info_of e = info_of e'"
  using target_key_inject [of "t_backend (m_target e)" "ConvertArchToString (t_arch (m_target e))" "t_warp_size (m_target e)"]
  by (simp add: usual_entry_def info_of_def)

lemma summary_seen_info:
  assumes "\<forall>e \<in> set es. usual_entry e" and "seen = map (\<lambda>e. (key_of e, info_of e)) ss" and "\<forall>e \<in> set ss. usual_entry e"
  shows "\<exists>rs. summary_seen fmt es seen = map (\<lambda>e. (key_of e, info_of e)) rs \<and>
     (\<forall>e \<in> set rs. usual_entry e) \<and> info_of ` set rs = info_of ` (set ss \<union> set es)"
  using assms
proof (induction es arbitrary: seen ss)
  case Nil
  then show ?case by auto
next
  case (Cons e es)
  then obtain s where s: "t_arch (m_target e) = Arch_string s" by (auto simp: usual_entry_def)
  have k: "map_of seen (key_of e) = None \<longleftrightarrow> key_of e \<notin> key_of ` set ss"
    unfolding Cons.prems(2) by (force simp: map_of_eq_None_iff)
  show ?case
  proof (cases "key_of e \<in> key_of ` set ss")
    case True
    then obtain e' where e': "e' \<in> set ss" "key_of e = key_of e'" by blast
    then have "info_of e = info_of e'" using key_of_inject Cons.prems by auto
    then have "info_of ` (set ss \<union> set (e # es)) = info_of ` (set ss \<union> set es)" using e' by auto
    then show ?thesis
      using Cons.IH [OF _ Cons.prems(2,3)] Cons.prems(1) True k s by (simp add: ConvertArchToString_def Let_def)
  next
    case False
    have "summary_seen fmt (e # es) seen = summary_seen fmt es (map (\<lambda>e. (key_of e, info_of e)) (ss @ [e]))"
      using False k s Cons.prems(2) by (simp add: ConvertArchToString_def Let_def info_of_def)
    then show ?thesis
      using Cons.IH [OF _ refl, of "ss @ [e]"] Cons.prems(1,3) by (simp add: Un_commute Un_left_commute insert_commute)
  qed
qed

lemma summary_targets:
  assumes "\<forall>e \<in> set es. usual_entry e"
  shows "set (map snd (summary_seen fmt es [])) = info_of ` set es"
proof -
  obtain rs where "summary_seen fmt es [] = map (\<lambda>e. (key_of e, info_of e)) rs" "info_of ` set rs = info_of ` set es"
    using summary_seen_info [OF assms, of "[]" "[]" fmt] by auto
  then show ?thesis by (simp add: image_image)
qed

end
