(* ===== verification/Preflight.thy ===== *)
theory Preflight
  imports Cache_Summary
begin

text \<open>
  src/mcv/pkg/preflightcheck: whether a cache image fits the GPUs of a machine. The check of
  the summary label runs before an image is unpacked, the check of the manifest after it.
  The devices, the image configuration, files, the value of a number literal as a float64
  and the configuration switches are parameters.
\<close>

record gpu =
  g_backend :: string
  g_arch :: string
  g_warp_size :: int
  g_ptx_version :: int
  g_id :: int

datatype preflight_error =
  Image_config
| No_labels
| Missing_summary
| Bad_summary
| No_summary_match
| No_entries
| No_devices
| Key_failed
| Backend_mismatch
| No_compatible_gpu
| Read_failed
| Bad_manifest
| Bad_entry
| Unknown_format string
| Binary_mismatch string int
| Empty_type
| Unsupported_type string

subsection \<open>utils.go: the summary label\<close>

definition normalizeArchForComparison :: "string \<Rightarrow> string \<Rightarrow> string" where
  "normalizeArchForComparison backend arch = (if backend = ''cuda'' then trim_prefix arch ''sm_'' else arch)"

fun target_loop :: "gpu \<Rightarrow> target_info list \<Rightarrow> bool" where
  "target_loop gpu [] = False"
| "target_loop gpu (t # ts) =
     (let backendMatches = (s_backend t = g_backend gpu);
          archMatches = (normalizeArchForComparison (s_backend t) (s_arch t) = normalizeArchForComparison (g_backend gpu) (g_arch gpu));
          warpMatches = (s_warp_size t = g_warp_size gpu) in
      if backendMatches \<and> archMatches \<and> warpMatches then True else target_loop gpu ts)"

fun device_loop :: "target_info list \<Rightarrow> gpu list \<Rightarrow> gpu list \<times> gpu list \<Rightarrow> gpu list \<times> gpu list" where
  "device_loop ts [] (matched, unmatched) = (matched, unmatched)"
| "device_loop ts (g # gs) (matched, unmatched) =
     (if target_loop g ts then device_loop ts gs (matched @ [g], unmatched)
      else device_loop ts gs (matched, unmatched @ [g]))"

text \<open>The image configuration is \<open>None\<close> when it cannot be read; its labels may be nil.\<close>

definition CompareCacheSummaryLabelToGPU ::
  "labels option option \<Rightarrow> labels option \<Rightarrow> gpu list \<Rightarrow> gpu list \<times> gpu list \<times> preflight_error option" where
  "CompareCacheSummaryLabelToGPU config labels devInfo =
     (case (case labels of
              Some l \<Rightarrow> Inr l
            | None \<Rightarrow> (case config of None \<Rightarrow> Inl Image_config | Some None \<Rightarrow> Inl No_labels | Some (Some l) \<Rightarrow> Inr l)) of
        Inl err \<Rightarrow> ([], [], Some err)
      | Inr l \<Rightarrow>
         (case (case l ''cache.triton.image/summary'' of Some s \<Rightarrow> Some s | None \<Rightarrow> l ''cache.vllm.image/summary'') of
            None \<Rightarrow> ([], [], Some Missing_summary)
          | Some summaryStr \<Rightarrow>
             (case parse_summary summaryStr of
                None \<Rightarrow> ([], [], Some Bad_summary)
              | Some summary \<Rightarrow>
                 (let (matched, unmatched) = device_loop (targets summary) devInfo ([], []) in
                  (matched, unmatched, if matched = [] then Some No_summary_match else None)))))"

definition DetectCacheTypeFromLabels :: "labels option \<Rightarrow> string option" where
  "DetectCacheTypeFromLabels labels = (case labels of
     None \<Rightarrow> None
   | Some l \<Rightarrow>
      if l ''cache.triton.image/summary'' \<noteq> None then Some ''triton''
      else if l ''cache.vllm.image/summary'' \<noteq> None then Some ''vllm'' else None)"

subsection \<open>triton.go\<close>

text \<open>The inner loop over the devices, with its break; the state is (hasMatch, backendMismatch).\<close>

fun gpu_loop :: "bool \<Rightarrow> triton_metadata \<Rightarrow> gpu list \<Rightarrow> bool \<times> bool \<Rightarrow> bool \<times> bool" where
  "gpu_loop dummyKeyMatches entry [] st = st"
| "gpu_loop dummyKeyMatches entry (gpu # gs) (hasMatch, backendMismatch) =
     (let t = m_target entry;
          backendMatches = (t_backend t = g_backend gpu);
          archMatches = (normalizeArchForComparison (t_backend t) (ConvertArchToString (t_arch t)) =
             normalizeArchForComparison (g_backend gpu) (g_arch gpu));
          warpMatches = (t_warp_size t = g_warp_size gpu);
          ptxMatches = (t_backend t = ''cuda'' \<longrightarrow> m_ptx_version entry = g_ptx_version gpu) in
      if backendMatches \<and> archMatches \<and> warpMatches \<and> ptxMatches \<and> dummyKeyMatches then (True, backendMismatch)
      else gpu_loop dummyKeyMatches entry gs (hasMatch, backendMismatch \<or> \<not> backendMatches))"

definition entry_data :: "triton_metadata \<Rightarrow> triton_data" where
  "entry_data entry = \<lparr>d_hash = m_hash entry, d_target = m_target entry, d_num_warps = m_num_warps entry,
     d_num_stages = m_num_stages entry, d_debug = m_debug entry, d_ptx_version = Some (m_ptx_version entry)\<rparr>"

fun entry_loop ::
  "bool \<Rightarrow> triton_env \<Rightarrow> triton_metadata list \<Rightarrow> gpu list \<Rightarrow> bool \<times> bool \<Rightarrow> preflight_error + bool \<times> bool" where
  "entry_loop baremetal E [] devInfo st = Inr st"
| "entry_loop baremetal E (entry # es) devInfo st =
     (case (if baremetal then map_option (\<lambda>k. m_dummy_key entry = k) (ComputeDummyTritonKey E (entry_data entry)) else Some True) of
        None \<Rightarrow> Inl Key_failed
      | Some dummyKeyMatches \<Rightarrow> entry_loop baremetal E es devInfo (gpu_loop dummyKeyMatches entry devInfo st))"

definition CompareTritonEntriesToGPU ::
  "bool \<Rightarrow> triton_env \<Rightarrow> triton_metadata list \<Rightarrow> gpu list option \<Rightarrow> preflight_error option" where
  "CompareTritonEntriesToGPU baremetal E entries devInfo =
     (if entries = [] then Some No_entries
      else case devInfo of
        None \<Rightarrow> Some No_devices
      | Some devs \<Rightarrow>
         (case entry_loop baremetal E entries devs (False, False) of
            Inl err \<Rightarrow> Some err
          | Inr (hasMatch, backendMismatch) \<Rightarrow>
             if hasMatch then None else if backendMismatch then Some Backend_mismatch else Some No_compatible_gpu))"

text \<open>The manifest file; an architecture is a value of type \<open>any\<close>.\<close>

definition decode_arch :: "(string \<Rightarrow> rat option) \<Rightarrow> json \<Rightarrow> arch option" where
  "decode_arch num j = (case j of
     JStr s \<Rightarrow> Some (Arch_string s)
   | JNum n \<Rightarrow> map_option Arch_float (num n)
   | _ \<Rightarrow> Some Arch_other)"

definition metadata_field :: "(string \<Rightarrow> rat option) \<Rightarrow> string \<Rightarrow> json \<Rightarrow> triton_metadata \<Rightarrow> triton_metadata option" where
  "metadata_field num k j m =
     (if k = ''hash'' then map_option (\<lambda>v. m\<lparr>m_hash := v\<rparr>) (decode_string (m_hash m) j)
      else if k = ''dummy_key'' then map_option (\<lambda>v. m\<lparr>m_dummy_key := v\<rparr>) (decode_string (m_dummy_key m) j)
      else if k = ''ptx_version'' then map_option (\<lambda>v. m\<lparr>m_ptx_version := v\<rparr>) (decode_int (m_ptx_version m) j)
      else if k = ''num_stages'' then map_option (\<lambda>v. m\<lparr>m_num_stages := v\<rparr>) (decode_int (m_num_stages m) j)
      else if k = ''num_warps'' then map_option (\<lambda>v. m\<lparr>m_num_warps := v\<rparr>) (decode_int (m_num_warps m) j)
      else if k = ''debug'' then map_option (\<lambda>v. m\<lparr>m_debug := v\<rparr>) (decode_bool (m_debug m) j)
      else if k = ''backend'' then map_option (\<lambda>v. m\<lparr>m_target := (m_target m)\<lparr>t_backend := v\<rparr>\<rparr>) (decode_string (t_backend (m_target m)) j)
      else if k = ''arch'' then map_option (\<lambda>v. m\<lparr>m_target := (m_target m)\<lparr>t_arch := v\<rparr>\<rparr>) (decode_arch num j)
      else if k = ''warp_size'' then map_option (\<lambda>v. m\<lparr>m_target := (m_target m)\<lparr>t_warp_size := v\<rparr>\<rparr>) (decode_int (t_warp_size (m_target m)) j)
      else Some m)"

definition no_metadata :: triton_metadata where
  "no_metadata = \<lparr>m_hash = [], m_dummy_key = [], m_ptx_version = 0, m_num_stages = 0, m_num_warps = 0, m_debug = False,
     m_target = \<lparr>t_backend = [], t_arch = Arch_other, t_warp_size = 0\<rparr>\<rparr>"

abbreviation decode_metadata :: "(string \<Rightarrow> rat option) \<Rightarrow> json \<Rightarrow> triton_metadata option" where
  "decode_metadata num \<equiv> decode_struct (metadata_field num) no_metadata"

definition triton_manifest_field ::
  "(string \<Rightarrow> rat option) \<Rightarrow> string \<Rightarrow> json \<Rightarrow> triton_metadata list \<Rightarrow> triton_metadata list option" where
  "triton_manifest_field num k j es = (if k = ''triton'' then decode_slice (decode_metadata num) j else Some es)"

definition CompareTritonCacheManifestToGPU ::
  "(string \<Rightarrow> rat option) \<Rightarrow> bool \<Rightarrow> triton_env \<Rightarrow> string option \<Rightarrow> gpu list option \<Rightarrow> preflight_error option" where
  "CompareTritonCacheManifestToGPU num baremetal E file devInfo =
     (case file of
        None \<Rightarrow> Some Read_failed
      | Some content \<Rightarrow>
         (case Option.bind (parse_json content) (decode_struct (triton_manifest_field num) []) of
            None \<Rightarrow> Some Bad_manifest
          | Some entries \<Rightarrow> CompareTritonEntriesToGPU baremetal E entries devInfo))"

subsection \<open>When a target fits a device\<close>

text \<open>The same architecture: equal, or on CUDA equal up to the prefix sm_ of one of them.\<close>

definition same_arch :: "string \<Rightarrow> string \<Rightarrow> string \<Rightarrow> bool" where
  "same_arch backend x y \<longleftrightarrow> x = y \<or>
     backend = ''cuda'' \<and> (\<not> has_prefix y ''sm_'' \<and> x = ''sm_'' @ y \<or> \<not> has_prefix x ''sm_'' \<and> y = ''sm_'' @ x)"

lemma normalize_same:
  "normalizeArchForComparison b x = normalizeArchForComparison b y \<longleftrightarrow> same_arch b x y"
proof -
  have "trim_prefix x ''sm_'' = trim_prefix y ''sm_'' \<longleftrightarrow> x = y \<or>
      (\<not> has_prefix y ''sm_'' \<and> x = ''sm_'' @ y \<or> \<not> has_prefix x ''sm_'' \<and> y = ''sm_'' @ x)"
    by (cases "has_prefix x ''sm_''"; cases "has_prefix y ''sm_''")
      (auto simp: trim_prefix_def has_prefix_iff)
  then show ?thesis by (simp add: normalizeArchForComparison_def same_arch_def)
qed

definition fits :: "triton_metadata \<Rightarrow> gpu \<Rightarrow> bool" where
  "fits e g \<longleftrightarrow> t_backend (m_target e) = g_backend g \<and> t_warp_size (m_target e) = g_warp_size g \<and>
     same_arch (g_backend g) (ConvertArchToString (t_arch (m_target e))) (g_arch g)"

definition ptx_fits :: "triton_metadata \<Rightarrow> gpu \<Rightarrow> bool" where
  "ptx_fits e g \<longleftrightarrow> (g_backend g = ''cuda'' \<longrightarrow> m_ptx_version e = g_ptx_version g)"

definition target_fits :: "target_info \<Rightarrow> gpu \<Rightarrow> bool" where
  "target_fits t g \<longleftrightarrow> s_backend t = g_backend g \<and> s_warp_size t = g_warp_size g \<and>
     same_arch (g_backend g) (s_arch t) (g_arch g)"

lemma target_loop_iff: "target_loop g ts \<longleftrightarrow> (\<exists>t \<in> set ts. target_fits t g)"
  by (induction ts) (auto simp: Let_def target_fits_def normalize_same [symmetric])

lemma info_fits [simp]: "target_fits (info_of e) g = fits e g"
  by (auto simp: target_fits_def fits_def info_of_def)

lemma device_loop_filter:
  "device_loop ts gs (m, u) = (m @ filter (\<lambda>g. target_loop g ts) gs, u @ filter (\<lambda>g. \<not> target_loop g ts) gs)"
  by (induction gs arbitrary: m u) auto

definition summary_outcome :: "target_info list \<Rightarrow> gpu list \<Rightarrow> gpu list \<times> gpu list \<times> preflight_error option" where
  "summary_outcome ts devs =
     (filter (\<lambda>g. \<exists>t \<in> set ts. target_fits t g) devs, filter (\<lambda>g. \<not> (\<exists>t \<in> set ts. target_fits t g)) devs,
      if \<exists>g \<in> set devs. \<exists>t \<in> set ts. target_fits t g then None else Some No_summary_match)"

lemma device_loop_outcome:
  "(let (matched, unmatched) = device_loop ts devs ([], []) in
    (matched, unmatched, if matched = [] then Some No_summary_match else None)) = summary_outcome ts devs"
  by (auto simp: device_loop_filter target_loop_iff summary_outcome_def filter_empty_conv)

lemma label_check:
  assumes "(case l ''cache.triton.image/summary'' of Some s \<Rightarrow> Some s | None \<Rightarrow> l ''cache.vllm.image/summary'') = Some s"
    and "parse_summary s = Some \<lparr>targets = ts\<rparr>"
  shows "CompareCacheSummaryLabelToGPU config (Some l) devs = summary_outcome ts devs"
  unfolding CompareCacheSummaryLabelToGPU_def using assms device_loop_outcome by simp

lemma triton_label_check:
  assumes "\<And>xs. set (order xs) = set xs" "es \<noteq> []" "\<forall>e \<in> set es. usual_entry e"
  shows "CompareCacheSummaryLabelToGPU config (Some (triton_labels order fmt es bytes)) devs = summary_outcome (map info_of es) devs"
proof -
  define ts where "ts = order (map snd (summary_seen fmt es []))"
  have t: "set ts = info_of ` set es" using summary_targets [OF assms(3)] assms(1) by (simp add: ts_def)
  then have "\<forall>t \<in> set ts. int64 (s_warp_size t) \<and> int64 (s_ptx_version t)"
    using assms(3) by (auto simp: info_of_def usual_entry_def int64_def)
  then have "parse_summary (print_json (summary_json (Some \<lparr>targets = ts\<rparr>))) = Some \<lparr>targets = ts\<rparr>"
    by (intro parse_summary_json) simp
  then have "CompareCacheSummaryLabelToGPU config (Some (triton_labels order fmt es bytes)) devs = summary_outcome ts devs"
    by (intro label_check) (simp_all add: triton_labels_def triton_summary_def BuildTritonSummary_def assms(2) ts_def)
  then show ?thesis using t by (simp add: summary_outcome_def)
qed

text \<open>The two loops of the manifest check as one condition on pairs.\<close>

lemma gpu_loop_step:
  "gpu_loop k e (g # gs) (hm, bm) =
     (if fits e g \<and> ptx_fits e g \<and> k then (True, bm)
      else gpu_loop k e gs (hm, bm \<or> t_backend (m_target e) \<noteq> g_backend g))"
proof (cases "t_backend (m_target e) = g_backend g")
  case True
  have "fits e g \<longleftrightarrow> normalizeArchForComparison (g_backend g) (ConvertArchToString (t_arch (m_target e))) =
       normalizeArchForComparison (g_backend g) (g_arch g) \<and> t_warp_size (m_target e) = g_warp_size g"
    using True by (auto simp: fits_def normalize_same)
  then show ?thesis using True by (simp add: Let_def ptx_fits_def)
next
  case False
  then show ?thesis by (simp add: Let_def fits_def)
qed

declare gpu_loop.simps(2) [simp del]

lemma gpu_loop_outcome:
  "fst (gpu_loop k e devs (hm, bm)) \<longleftrightarrow> hm \<or> k \<and> (\<exists>g \<in> set devs. fits e g \<and> ptx_fits e g)"
  by (induction devs arbitrary: bm) (auto simp: gpu_loop_step)

lemma gpu_loop_mismatch:
  "\<not> (k \<and> (\<exists>g \<in> set devs. fits e g \<and> ptx_fits e g)) \<Longrightarrow>
   gpu_loop k e devs (hm, bm) = (hm, bm \<or> (\<exists>g \<in> set devs. t_backend (m_target e) \<noteq> g_backend g))"
proof (induction devs arbitrary: bm)
  case (Cons g devs)
  then have "\<not> (fits e g \<and> ptx_fits e g \<and> k)" "\<not> (k \<and> (\<exists>g \<in> set devs. fits e g \<and> ptx_fits e g))" by auto
  then show ?case using Cons.IH by (simp only: gpu_loop_step if_False) (simp add: disj_assoc)
qed simp

definition key_ok :: "bool \<Rightarrow> triton_env \<Rightarrow> triton_metadata \<Rightarrow> bool" where
  "key_ok baremetal E e \<longleftrightarrow> (baremetal \<longrightarrow> ComputeDummyTritonKey E (entry_data e) = Some (m_dummy_key e))"

definition accepts :: "bool \<Rightarrow> triton_env \<Rightarrow> gpu list \<Rightarrow> triton_metadata \<Rightarrow> bool" where
  "accepts baremetal E devs e \<longleftrightarrow> key_ok baremetal E e \<and> (\<exists>g \<in> set devs. fits e g \<and> ptx_fits e g)"

definition computable :: "bool \<Rightarrow> triton_env \<Rightarrow> bool" where
  "computable baremetal E \<longleftrightarrow> (baremetal \<longrightarrow> installation_key E \<noteq> None \<and> env_vars E \<noteq> None)"

lemma compute_key: "ComputeDummyTritonKey E d \<noteq> None \<longleftrightarrow> installation_key E \<noteq> None \<and> env_vars E \<noteq> None"
  by (auto simp: ComputeDummyTritonKey_def generateTritonCacheKey_def Let_def split: option.splits)

lemma entry_loop_outcome:
  assumes "computable b E"
  shows "\<exists>bm'. entry_loop b E es devs (hm, bm) = Inr (hm \<or> (\<exists>e \<in> set es. accepts b E devs e), bm')"
proof (induction es arbitrary: hm bm)
  case (Cons e es)
  obtain k where k: "(if b then map_option (\<lambda>k. m_dummy_key e = k) (ComputeDummyTritonKey E (entry_data e)) else Some True) = Some k"
    "k = key_ok b E e"
    using assms compute_key [of E "entry_data e"] by (cases b) (auto simp: computable_def key_ok_def)
  obtain hm' bm' where g: "gpu_loop k e devs (hm, bm) = (hm', bm')" by fastforce
  then have "hm' = (hm \<or> accepts b E devs e)" using gpu_loop_outcome [of k e devs hm bm] k g by (simp add: accepts_def)
  then show ?case using Cons.IH [of hm' bm'] k(1) g by auto
qed simp

lemma entry_loop_mismatch:
  assumes "computable b E" "\<forall>e \<in> set es. \<not> accepts b E devs e"
  shows "entry_loop b E es devs (hm, bm) =
     Inr (hm, bm \<or> (\<exists>e \<in> set es. \<exists>g \<in> set devs. t_backend (m_target e) \<noteq> g_backend g))"
  using assms(2)
proof (induction es arbitrary: bm)
  case (Cons e es)
  obtain k where k: "(if b then map_option (\<lambda>k. m_dummy_key e = k) (ComputeDummyTritonKey E (entry_data e)) else Some True) = Some k"
    "k = key_ok b E e"
    using assms(1) compute_key [of E "entry_data e"] by (cases b) (auto simp: computable_def key_ok_def)
  have "\<not> (k \<and> (\<exists>g \<in> set devs. fits e g \<and> ptx_fits e g))" using Cons.prems k by (simp add: accepts_def)
  then show ?case using Cons k(1) by (auto simp: gpu_loop_mismatch)
qed simp

lemma entries_outcome:
  "CompareTritonEntriesToGPU b E es devInfo =
     (if es = [] then Some No_entries
      else case devInfo of None \<Rightarrow> Some No_devices
      | Some devs \<Rightarrow>
         if \<not> computable b E then Some Key_failed
         else if \<exists>e \<in> set es. accepts b E devs e then None
         else if \<exists>e \<in> set es. \<exists>g \<in> set devs. t_backend (m_target e) \<noteq> g_backend g then Some Backend_mismatch
         else Some No_compatible_gpu)"
proof (cases "es = [] \<or> devInfo = None")
  case True
  then show ?thesis by (auto simp: CompareTritonEntriesToGPU_def)
next
  case False
  then obtain devs e es' where d: "devInfo = Some devs" "es = e # es'" by (cases es) auto
  show ?thesis
  proof (cases "computable b E")
    case True
    then show ?thesis
      using d(1) False entry_loop_outcome [of b E es devs False False] entry_loop_mismatch [of b E es devs False False]
      by (cases "entry_loop b E es devs (False, False)") (auto simp: CompareTritonEntriesToGPU_def)
  next
    case no: False
    then have "entry_loop b E es devs (False, False) = Inl Key_failed"
      using compute_key [of E "entry_data e"] d(2) by (auto simp: computable_def)
    then show ?thesis using d(1) False no by (simp add: CompareTritonEntriesToGPU_def)
  qed
qed

subsection \<open>The manifest of a Triton cache\<close>

text \<open>
  \<open>BuildManifest\<close> and the JSON of its entries; empty fields are omitted. An architecture
  that is no string, which \<open>getTritonMetadata\<close> never produces, is left to the parameter \<open>any\<close>.
\<close>

definition omit_zero :: "string \<Rightarrow> int \<Rightarrow> (string \<times> json) list" where
  "omit_zero k z = (if z = 0 then [] else [(k, JNum (format_int z))])"

definition metadata_json :: "(arch \<Rightarrow> json) \<Rightarrow> triton_metadata \<Rightarrow> json" where
  "metadata_json any m = JObj
     ([(''hash'', JStr (m_hash m))] @
      (if m_dummy_key m = [] then [] else [(''dummy_key'', JStr (m_dummy_key m))]) @
      omit_zero ''ptx_version'' (m_ptx_version m) @ omit_zero ''num_stages'' (m_num_stages m) @
      omit_zero ''num_warps'' (m_num_warps m) @ (if m_debug m then [(''debug'', JBool True)] else []) @
      [(''backend'', JStr (t_backend (m_target m))),
       (''arch'', case t_arch (m_target m) of Arch_string s \<Rightarrow> JStr s | a \<Rightarrow> any a),
       (''warp_size'', JNum (format_int (t_warp_size (m_target m))))])"

definition triton_manifest :: "(arch \<Rightarrow> json) \<Rightarrow> triton_metadata list \<Rightarrow> json" where
  "triton_manifest any es = JObj [(''triton'', JArr (map (metadata_json any) es))]"

definition small_entry :: "triton_metadata \<Rightarrow> bool" where
  "small_entry m \<longleftrightarrow> int64 (m_ptx_version m) \<and> int64 (m_num_stages m) \<and> int64 (m_num_warps m)"

lemma to_lower_metadata [simp]:
  "to_lower ''hash'' = ''hash''" "to_lower ''dummy_key'' = ''dummy_key''" "to_lower ''num_stages'' = ''num_stages''"
  "to_lower ''num_warps'' = ''num_warps''" "to_lower ''debug'' = ''debug''" "to_lower ''triton'' = ''triton''"
  by code_simp+

lemma decode_fields_append:
  "decode_fields f (xs @ ys) x = (case decode_fields f xs x of None \<Rightarrow> None | Some x \<Rightarrow> decode_fields f ys x)"
  by (induction xs arbitrary: x) (auto split: option.splits)

lemma decode_omit_zero:
  assumes "int64 z" "f (to_lower k) (JNum (format_int z)) x = map_option g (Some z)" "z = 0 \<Longrightarrow> g z = x"
  shows "decode_fields f (omit_zero k z) x = Some (g z)"
  using assms by (simp add: omit_zero_def)

lemma decode_metadata_json:
  assumes "usual_entry m" "small_entry m"
  shows "decode_metadata num (metadata_json any m) = Some m"
proof -
  obtain s where s: "t_arch (m_target m) = Arch_string s" using assms by (auto simp: usual_entry_def)
  have i: "int64 (t_warp_size (m_target m))" "int64 (m_ptx_version m)" "int64 (m_num_stages m)" "int64 (m_num_warps m)"
    using assms by (auto simp: usual_entry_def small_entry_def)
  show ?thesis
    using i s by (cases m; cases "m_target m")
      (simp add: metadata_json_def decode_struct_def decode_fields_append omit_zero_def metadata_field_def no_metadata_def
        decode_arch_def)
qed

lemma decode_manifest:
  assumes "\<forall>m \<in> set es. usual_entry m \<and> small_entry m"
  shows "decode_struct (triton_manifest_field num) [] (triton_manifest any es) = Some es"
proof -
  have "decode_all (decode_metadata num) (map (metadata_json any) es) = Some es"
    using assms by (induction es) (auto simp: decode_metadata_json)
  then show ?thesis by (simp add: triton_manifest_def decode_struct_def triton_manifest_field_def decode_slice_def)
qed

text \<open>The key stored when the image is built is the key computed again from the manifest.\<close>

lemma Convert_string [simp]: "ConvertArchToString (Arch_string s) = s"
  by (simp add: ConvertArchToString_def)

lemma key_again: "ComputeDummyTritonKey E (entry_data (metadata_of k d)) = ComputeDummyTritonKey E d"
  by (cases "installation_key E"; cases "env_vars E")
    (simp_all add: ComputeDummyTritonKey_def generateTritonCacheKey_def key_options_def entry_data_def metadata_of_def Let_def)

lemma metadata_files:
  "e \<in> set (getTritonMetadata E files) \<longleftrightarrow>
     (\<exists>d k. Some (Some d) \<in> set files \<and> ComputeDummyTritonKey E d = Some k \<and> e = metadata_of k d)"
  by (induction E files rule: getTritonMetadata.induct) (auto split: option.splits)

lemma metadata_key_ok: "e \<in> set (getTritonMetadata E files) \<Longrightarrow> key_ok b E e"
  by (auto simp: metadata_files key_ok_def key_again) (simp add: metadata_of_def)

end
