(* ===== verification/Vllm_Cache.thy ===== *)
theory Vllm_Cache
  imports Preflight
begin

text \<open>
  The vLLM side of src/mcv/pkg/cache and src/mcv/pkg/preflightcheck: the summary and the labels
  of a vLLM cache (vllm.go), the detection of the GPU of the building machine, and the check
  of a vLLM manifest.
\<close>

record binary_entry =
  b_rank :: string
  b_prefix :: string
  b_artifact_count :: int
  b_artifact_names :: "string list"
  b_code_hash :: string
  b_config_hash :: string
  b_compiler_hash :: string
  b_cache_save_format :: string
  b_target_device :: string
  b_env :: "string \<Rightarrow> json option"

record aot_entry =
  a_hash :: string
  a_rank :: string
  a_model_file :: string
  a_file_size :: int

text \<open>The entries of a Triton cache inside a manifest are untyped JSON values.\<close>

record vllm_metadata =
  v_hash :: string
  v_format :: string
  v_triton :: "json list"
  v_binary :: "binary_entry list"
  v_aot :: "aot_entry list"

subsection \<open>Detecting the GPU of the building machine\<close>

datatype dev_type = NVML | ROCM | AMD | Other_device

record device =
  dev_type :: dev_type
  dev_init :: bool
  dev_info :: "gpu option"

definition detectActualGPUInfo :: "bool \<Rightarrow> bool \<Rightarrow> device option \<Rightarrow> string \<times> string \<times> int \<times> int" where
  "detectActualGPUInfo configured gpuEnabled dev =
     (let unknown = (''UnknownBackend'', ''UnknownBackend'', 0, 0) in
      if \<not> configured \<or> \<not> gpuEnabled then unknown
      else case dev of
        None \<Rightarrow> unknown
      | Some d \<Rightarrow>
         if \<not> dev_init d then unknown
         else (case dev_info d of
           None \<Rightarrow> unknown
         | Some gpuInfo \<Rightarrow>
            let detectedBackend =
                  (if g_backend gpuInfo = [] then
                     (case dev_type d of NVML \<Rightarrow> ''cuda'' | ROCM \<Rightarrow> ''rocm'' | AMD \<Rightarrow> ''rocm'' | Other_device \<Rightarrow> ''UnknownBackend'')
                   else g_backend gpuInfo);
                detectedWarpSize =
                  (if g_warp_size gpuInfo = 0 then
                     (if detectedBackend = ''cuda'' then 32 else if detectedBackend \<in> {''rocm'', ''hip''} then 64 else 0)
                   else g_warp_size gpuInfo) in
            (detectedBackend, g_arch gpuInfo, detectedWarpSize, g_ptx_version gpuInfo)))"

subsection \<open>vllm.go: summary and labels\<close>

definition env_string :: "binary_entry \<Rightarrow> string \<Rightarrow> string option" where
  "env_string e k = (case b_env e k of Some (JStr s) \<Rightarrow> Some s | _ \<Rightarrow> None)"

text \<open>The target of one entry: the detected GPU, or the cache's own metadata without one.\<close>

definition binary_target :: "string \<times> string \<times> int \<times> int \<Rightarrow> binary_entry \<Rightarrow> string \<times> string \<times> int" where
  "binary_target = (\<lambda>(detectedBackend, detectedArch, detectedWarpSize, detectedPTX) e.
     let (backend, arch, warpSize) =
       (if detectedBackend = ''UnknownBackend'' then
          let backend = (if b_target_device e = [] then ''cuda'' else b_target_device e);
              arch = (case env_string e ''VLLM_PAGED_ATTN_ARCH'' of
                        Some s \<Rightarrow> if s \<noteq> [] then s else detectedArch | None \<Rightarrow> detectedArch);
              arch = (if arch = ''UnknownBackend'' \<or> arch = [] then
                        (if backend = ''cuda'' then ''75''
                         else if backend \<in> {''rocm'', ''hip''} then ''gfx908'' else ''unknown'')
                      else arch);
              warpSize = (if backend \<in> {''rocm'', ''hip''} then 64 else if backend = ''cuda'' then 32
                          else if backend = ''tpu'' then 128 else if backend = ''cpu'' then 1 else detectedWarpSize)
          in (backend, arch, warpSize)
        else (detectedBackend, detectedArch, detectedWarpSize))
     in (backend, if backend = ''cuda'' \<and> \<not> has_prefix arch ''sm_'' then ''sm_'' @ arch else arch, warpSize))"

definition binary_versions :: "string \<Rightarrow> binary_entry \<Rightarrow> string \<times> string" where
  "binary_versions backend e =
     (if backend = ''cuda'' then (case env_string e ''VLLM_MAIN_CUDA_VERSION'' of Some v \<Rightarrow> v | None \<Rightarrow> [], [])
      else if backend \<in> {''rocm'', ''hip''} then ([], case env_string e ''ROCM_VERSION'' of Some v \<Rightarrow> v | None \<Rightarrow> [])
      else ([], []))"

fun binary_seen ::
  "string \<times> string \<times> int \<times> int \<Rightarrow> binary_entry list \<Rightarrow> (string \<times> target_info) list \<Rightarrow> (string \<times> target_info) list" where
  "binary_seen det [] seen = seen"
| "binary_seen det (e # es) seen =
     (let (backend, arch, warpSize) = binary_target det e;
          (cudaVersion, rocmVersion) = binary_versions backend e;
          ptx = snd (snd (snd det));
          key = join_with ''-'' [backend, arch, format_int warpSize, cudaVersion, rocmVersion] in
      binary_seen det es
        (if map_of seen key \<noteq> None then seen
         else seen @ [(key, \<lparr>s_backend = backend, s_arch = arch, s_warp_size = warpSize,
                             s_ptx_version = (if ptx > 0 then ptx else 0), s_cuda_version = cudaVersion\<rparr>)]))"

definition buildBinaryCacheSummary ::
  "(target_info list \<Rightarrow> target_info list) \<Rightarrow> string \<times> string \<times> int \<times> int \<Rightarrow> vllm_metadata list \<Rightarrow> summary option" where
  "buildBinaryCacheSummary order det metadata =
     (let ts = order (map snd (binary_seen det (concat (map v_binary (filter (\<lambda>m. v_format m = ''binary'') metadata))) [])) in
      if ts = [] then None else Some \<lparr>targets = ts\<rparr>)"

definition vllm_summary ::
  "(target_info list \<Rightarrow> target_info list) \<Rightarrow> (arch \<Rightarrow> string) \<Rightarrow> string \<times> string \<times> int \<times> int \<Rightarrow>
   triton_metadata list option \<Rightarrow> vllm_metadata list \<Rightarrow> string" where
  "vllm_summary order fmt det tritonCache metadata =
     (if list_ex (\<lambda>m. v_format m = ''binary'' \<and> v_binary m \<noteq> []) metadata then
        (case buildBinaryCacheSummary order det metadata of
           None \<Rightarrow> [] | Some s \<Rightarrow> print_json (summary_json (Some s)))
      else case tritonCache of
        Some (e # es) \<Rightarrow>
          (case BuildTritonSummary order fmt (e # es) of
             None \<Rightarrow> [] | Some s \<Rightarrow> print_json (summary_json (Some s)))
      | _ \<Rightarrow> print_json (summary_json None))"

text \<open>The distinct hashes in the order of their first appearance.\<close>

fun seen_hashes :: "vllm_metadata list \<Rightarrow> string list \<Rightarrow> string list" where
  "seen_hashes [] hs = hs"
| "seen_hashes (m # ms) hs = seen_hashes ms (if v_hash m \<noteq> [] \<and> v_hash m \<notin> set hs then hs @ [v_hash m] else hs)"

definition uses_aot_directory :: "vllm_metadata \<Rightarrow> bool" where
  "uses_aot_directory m \<longleftrightarrow> v_format m = ''aot_compile'' \<or>
     (v_format m = ''binary'' \<and> list_ex (\<lambda>e. b_cache_save_format e = ''mega-aot'') (v_binary m))"

definition cache_format :: "vllm_metadata list \<Rightarrow> string" where
  "cache_format metadata =
     (let formats = filter (\<lambda>f. f \<in> v_format ` set metadata) [''aot_compile'', ''binary'', ''triton''] in
      if formats = [] then ''unpacked'' else join_with '','' formats)"

definition mount_labels :: "vllm_metadata list \<Rightarrow> labels" where
  "mount_labels metadata =
     (if metadata = [] then Map.empty
      else
        let ls = [''io.kserve.km/framework'' \<mapsto> ''vllm'', ''io.kserve.km/cache-type'' \<mapsto> ''torch-compile''];
            hashes = seen_hashes metadata [] in
        if hashes = [] then ls
        else
          let firstMeta = find (\<lambda>m. v_hash m = hd hashes) metadata;
              aot = (case firstMeta of Some m \<Rightarrow> uses_aot_directory m | None \<Rightarrow> False) in
          ls(''io.kserve.km/cache-hash'' \<mapsto> join_with '','' hashes,
             ''io.kserve.km/cache-mount-subpath'' \<mapsto> (if aot then path_join [''torch_compile_cache'', ''torch_aot_compile''] else ''torch_compile_cache''),
             ''io.kserve.km/cache-root-env'' \<mapsto> ''VLLM_CACHE_ROOT=/home/kserve/.cache/vllm''))"

definition vllm_labels ::
  "(target_info list \<Rightarrow> target_info list) \<Rightarrow> (arch \<Rightarrow> string) \<Rightarrow> string \<times> string \<times> int \<times> int \<Rightarrow>
   triton_metadata list option \<Rightarrow> vllm_metadata list \<Rightarrow> int \<Rightarrow> int \<Rightarrow> labels" where
  "vllm_labels order fmt det tritonCache metadata count bytes =
     [''cache.vllm.image/entry-count'' \<mapsto> format_int count,
      ''cache.vllm.image/cache-size-bytes'' \<mapsto> format_int bytes,
      ''cache.vllm.image/summary'' \<mapsto> vllm_summary order fmt det tritonCache metadata,
      ''cache.vllm.image/format'' \<mapsto> cache_format metadata] ++ mount_labels metadata"

subsection \<open>preflightcheck/vllm.go\<close>

definition expected_warp_size :: "string \<Rightarrow> int" where
  "expected_warp_size backend =
     (if backend = ''rocm'' \<or> backend = ''hip'' then 64 else if backend = ''cuda'' then 32
      else if backend = ''tpu'' then 128 else if backend = ''cpu'' then 1 else 32)"

fun compareBinaryCacheEntriesToGPU :: "binary_entry list \<Rightarrow> gpu list \<Rightarrow> preflight_error option" where
  "compareBinaryCacheEntriesToGPU [] devInfo = None"
| "compareBinaryCacheEntriesToGPU (e # es) devInfo =
     (let backend = (if b_target_device e = [] then ''cuda'' else b_target_device e) in
      if list_ex (\<lambda>g. backend = g_backend g \<and> expected_warp_size backend = g_warp_size g) devInfo
      then compareBinaryCacheEntriesToGPU es devInfo
      else Some (Binary_mismatch backend (expected_warp_size backend)))"

text \<open>
  \<open>remarshal\<close> is \<open>json.Marshal\<close> of a value that \<open>json.Unmarshal\<close> stored in an interface, read
  back as JSON: objects come back with sorted keys, numbers through float64.
\<close>

fun CompareVLLMEntriesToGPU ::
  "(string \<Rightarrow> rat option) \<Rightarrow> (json \<Rightarrow> json option) \<Rightarrow> bool \<Rightarrow> triton_env \<Rightarrow> vllm_metadata list \<Rightarrow> gpu list option \<Rightarrow>
   preflight_error option" where
  "CompareVLLMEntriesToGPU num remarshal baremetal E [] devInfo = None"
| "CompareVLLMEntriesToGPU num remarshal baremetal E (m # ms) devInfo =
     (let devs = (case devInfo of None \<Rightarrow> [] | Some ds \<Rightarrow> ds);
          result =
            (if v_format m = ''binary'' then compareBinaryCacheEntriesToGPU (v_binary m) devs
             else if v_format m = ''aot_compile'' then None
             else if v_format m = ''triton'' then
               (if v_triton m = [] then None
                else case decode_all (\<lambda>j. Option.bind (remarshal j) (decode_metadata num)) (v_triton m) of
                  None \<Rightarrow> Some Bad_entry
                | Some es \<Rightarrow> CompareTritonEntriesToGPU baremetal E es devInfo)
             else Some (Unknown_format (v_format m))) in
      case result of
        Some err \<Rightarrow> Some err
      | None \<Rightarrow> CompareVLLMEntriesToGPU num remarshal baremetal E ms devInfo)"

text \<open>Decoding of a vLLM manifest; keys are compared in lower case.\<close>

definition decode_map :: "(string \<Rightarrow> json option) \<Rightarrow> json \<Rightarrow> (string \<Rightarrow> json option) option" where
  "decode_map old j = (case j of JObj kvs \<Rightarrow> Some (old ++ map_of (rev kvs)) | JNull \<Rightarrow> Some Map.empty | _ \<Rightarrow> None)"

definition binary_field :: "string \<Rightarrow> json \<Rightarrow> binary_entry \<Rightarrow> binary_entry option" where
  "binary_field k j e =
     (if k = ''rank'' then map_option (\<lambda>v. e\<lparr>b_rank := v\<rparr>) (decode_string (b_rank e) j)
      else if k = ''prefix'' then map_option (\<lambda>v. e\<lparr>b_prefix := v\<rparr>) (decode_string (b_prefix e) j)
      else if k = ''artifact_count'' then map_option (\<lambda>v. e\<lparr>b_artifact_count := v\<rparr>) (decode_int (b_artifact_count e) j)
      else if k = ''artifact_names'' then map_option (\<lambda>v. e\<lparr>b_artifact_names := v\<rparr>) (decode_slice (decode_string []) j)
      else if k = ''code_hash'' then map_option (\<lambda>v. e\<lparr>b_code_hash := v\<rparr>) (decode_string (b_code_hash e) j)
      else if k = ''config_hash'' then map_option (\<lambda>v. e\<lparr>b_config_hash := v\<rparr>) (decode_string (b_config_hash e) j)
      else if k = ''compiler_hash'' then map_option (\<lambda>v. e\<lparr>b_compiler_hash := v\<rparr>) (decode_string (b_compiler_hash e) j)
      else if k = ''cache_save_format'' then map_option (\<lambda>v. e\<lparr>b_cache_save_format := v\<rparr>) (decode_string (b_cache_save_format e) j)
      else if k = ''target_device'' then map_option (\<lambda>v. e\<lparr>b_target_device := v\<rparr>) (decode_string (b_target_device e) j)
      else if k = ''env'' then map_option (\<lambda>v. e\<lparr>b_env := v\<rparr>) (decode_map (b_env e) j)
      else Some e)"

definition no_binary :: binary_entry where
  "no_binary = \<lparr>b_rank = [], b_prefix = [], b_artifact_count = 0, b_artifact_names = [], b_code_hash = [], b_config_hash = [],
     b_compiler_hash = [], b_cache_save_format = [], b_target_device = [], b_env = Map.empty\<rparr>"

definition aot_field :: "string \<Rightarrow> json \<Rightarrow> aot_entry \<Rightarrow> aot_entry option" where
  "aot_field k j e =
     (if k = ''hash'' then map_option (\<lambda>v. e\<lparr>a_hash := v\<rparr>) (decode_string (a_hash e) j)
      else if k = ''rank'' then map_option (\<lambda>v. e\<lparr>a_rank := v\<rparr>) (decode_string (a_rank e) j)
      else if k = ''model_file'' then map_option (\<lambda>v. e\<lparr>a_model_file := v\<rparr>) (decode_string (a_model_file e) j)
      else if k = ''file_size'' then map_option (\<lambda>v. e\<lparr>a_file_size := v\<rparr>) (decode_int (a_file_size e) j)
      else Some e)"

definition vllm_field :: "string \<Rightarrow> json \<Rightarrow> vllm_metadata \<Rightarrow> vllm_metadata option" where
  "vllm_field k j m =
     (if k = ''vllmhash'' then map_option (\<lambda>v. m\<lparr>v_hash := v\<rparr>) (decode_string (v_hash m) j)
      else if k = ''cacheformat'' then map_option (\<lambda>v. m\<lparr>v_format := v\<rparr>) (decode_string (v_format m) j)
      else if k = ''triton'' then map_option (\<lambda>v. m\<lparr>v_triton := v\<rparr>) (decode_slice Some j)
      else if k = ''binary'' then map_option (\<lambda>v. m\<lparr>v_binary := v\<rparr>) (decode_slice (decode_struct binary_field no_binary) j)
      else if k = ''aot_compile'' then map_option (\<lambda>v. m\<lparr>v_aot := v\<rparr>)
        (decode_slice (decode_struct aot_field \<lparr>a_hash = [], a_rank = [], a_model_file = [], a_file_size = 0\<rparr>) j)
      else Some m)"

definition no_vllm :: vllm_metadata where
  "no_vllm = \<lparr>v_hash = [], v_format = [], v_triton = [], v_binary = [], v_aot = []\<rparr>"

definition vllm_manifest_field :: "string \<Rightarrow> json \<Rightarrow> vllm_metadata list \<Rightarrow> vllm_metadata list option" where
  "vllm_manifest_field k j ms = (if k = ''vllm'' then decode_slice (decode_struct vllm_field no_vllm) j else Some ms)"

definition CompareVLLMCacheManifestToGPU ::
  "(string \<Rightarrow> rat option) \<Rightarrow> (json \<Rightarrow> json option) \<Rightarrow> bool \<Rightarrow> triton_env \<Rightarrow> string option \<Rightarrow> gpu list option \<Rightarrow>
   preflight_error option" where
  "CompareVLLMCacheManifestToGPU num remarshal baremetal E file devInfo =
     (case file of
        None \<Rightarrow> Some Read_failed
      | Some content \<Rightarrow>
         (case Option.bind (parse_json content) (decode_struct vllm_manifest_field []) of
            None \<Rightarrow> Some Bad_manifest
          | Some entries \<Rightarrow> CompareVLLMEntriesToGPU num remarshal baremetal E entries devInfo))"

definition CompareCacheManifestToGPU ::
  "(string \<Rightarrow> rat option) \<Rightarrow> (json \<Rightarrow> json option) \<Rightarrow> bool \<Rightarrow> triton_env \<Rightarrow> string option \<Rightarrow> string \<Rightarrow> gpu list option \<Rightarrow>
   preflight_error option" where
  "CompareCacheManifestToGPU num remarshal baremetal E file cacheType devInfo =
     (if cacheType = [] then Some Empty_type
      else if cacheType = ''triton'' then CompareTritonCacheManifestToGPU num baremetal E file devInfo
      else if cacheType = ''vllm'' then CompareVLLMCacheManifestToGPU num remarshal baremetal E file devInfo
      else Some (Unsupported_type cacheType))"

subsection \<open>Lemmas\<close>

definition binary_device :: "binary_entry \<Rightarrow> string" where
  "binary_device e = (if b_target_device e = [] then ''cuda'' else b_target_device e)"

lemma binary_check:
  "compareBinaryCacheEntriesToGPU es devs = None \<longleftrightarrow>
     (\<forall>e \<in> set es. \<exists>g \<in> set devs. g_backend g = binary_device e \<and> g_warp_size g = expected_warp_size (binary_device e))"
proof (induction es)
  case (Cons e es)
  have "list_ex (\<lambda>g. binary_device e = g_backend g \<and> expected_warp_size (binary_device e) = g_warp_size g) devs \<longleftrightarrow>
    (\<exists>g \<in> set devs. g_backend g = binary_device e \<and> g_warp_size g = expected_warp_size (binary_device e))"
    unfolding list_ex_iff by metis
  then show ?case using Cons by (simp add: Let_def binary_device_def)
qed simp

lemma binary_seen_step:
  assumes "binary_target det e = (b, a, w)" "binary_versions b e = (c, r)"
    and "key = join_with ''-'' [b, a, format_int w, c, r]"
    and "x = \<lparr>s_backend = b, s_arch = a, s_warp_size = w,
      s_ptx_version = (if snd (snd (snd det)) > 0 then snd (snd (snd det)) else 0), s_cuda_version = c\<rparr>"
  shows "binary_seen det (e # es) seen = binary_seen det es (if map_of seen key \<noteq> None then seen else seen @ [(key, x)])"
  using assms by (simp add: Let_def)

text \<open>What holds of the target of every entry holds of every target of the summary.\<close>

lemma binary_seen_all:
  assumes "\<And>e c. e \<in> set es \<Longrightarrow> (case binary_target det e of (b, a, w) \<Rightarrow>
      Q \<lparr>s_backend = b, s_arch = a, s_warp_size = w, s_ptx_version = (if snd (snd (snd det)) > 0 then snd (snd (snd det)) else 0), s_cuda_version = c\<rparr>)"
    and "\<forall>t \<in> set (map snd seen). Q t"
  shows "\<forall>t \<in> set (map snd (binary_seen det es seen)). Q t"
  using assms
proof (induction es arbitrary: seen)
  case (Cons e es)
  obtain b a w where t: "binary_target det e = (b, a, w)" by (cases "binary_target det e") auto
  obtain c r where v: "binary_versions b e = (c, r)" by (cases "binary_versions b e") auto
  define key where "key = join_with ''-'' [b, a, format_int w, c, r]"
  define x where "x = \<lparr>s_backend = b, s_arch = a, s_warp_size = w,
    s_ptx_version = (if snd (snd (snd det)) > 0 then snd (snd (snd det)) else 0), s_cuda_version = c\<rparr>"
  have "Q x" using Cons.prems(1) [of e c] t by (simp add: x_def)
  then have "\<forall>t \<in> set (map snd (if map_of seen key \<noteq> None then seen else seen @ [(key, x)])). Q t"
    using Cons.prems(2) by auto
  moreover have "binary_seen det (e # es) seen = binary_seen det es (if map_of seen key \<noteq> None then seen else seen @ [(key, x)])"
    by (rule binary_seen_step [OF t v key_def x_def])
  moreover have "\<And>e c. e \<in> set es \<Longrightarrow> (case binary_target det e of (b, a, w) \<Rightarrow>
      Q \<lparr>s_backend = b, s_arch = a, s_warp_size = w, s_ptx_version = (if snd (snd (snd det)) > 0 then snd (snd (snd det)) else 0), s_cuda_version = c\<rparr>)"
    by (rule Cons.prems(1)) simp
  ultimately show ?case using Cons.IH by metis
qed simp

lemma binary_seen_grows: "seen \<noteq> [] \<or> es \<noteq> [] \<Longrightarrow> binary_seen det es seen \<noteq> []"
proof (induction es arbitrary: seen)
  case (Cons e es)
  obtain b a w where t: "binary_target det e = (b, a, w)" by (cases "binary_target det e") auto
  obtain c r where v: "binary_versions b e = (c, r)" by (cases "binary_versions b e") auto
  define key where "key = join_with ''-'' [b, a, format_int w, c, r]"
  define x where "x = \<lparr>s_backend = b, s_arch = a, s_warp_size = w,
    s_ptx_version = (if snd (snd (snd det)) > 0 then snd (snd (snd det)) else 0), s_cuda_version = c\<rparr>"
  have "(if map_of seen key \<noteq> None then seen else seen @ [(key, x)]) \<noteq> []" by (cases seen) auto
  then have "binary_seen det es (if map_of seen key \<noteq> None then seen else seen @ [(key, x)]) \<noteq> []"
    by (intro Cons.IH) (rule disjI1)
  then show ?case by (simp only: binary_seen_step [OF t v key_def x_def] not_False_eq_True)
qed simp

lemma detected_target:
  assumes "b \<noteq> ''UnknownBackend''"
  shows "binary_target (b, a, w, p) e = (b, if b = ''cuda'' \<and> \<not> has_prefix a ''sm_'' then ''sm_'' @ a else a, w)"
  using assms by (simp add: binary_target_def)

lemma normalize_prefixed:
  "normalizeArchForComparison b (if b = ''cuda'' \<and> \<not> has_prefix a ''sm_'' then ''sm_'' @ a else a) = normalizeArchForComparison b a"
  using trim_prefix_append [of "''sm_''" a] by (auto simp: normalizeArchForComparison_def trim_prefix_def [of a])

end
