(* ===== verification/Image_Extract.thy ===== *)
theory Image_Extract
  imports Tar_Extract Vllm_Cache
begin

text \<open>
  Fetching a cache image and unpacking its layers: src/mcv/pkg/fetcher/fetcher.go and
  imgfetcher.go, the switches of src/mcv/pkg/config/config.go and the run-time paths of
  src/mcv/pkg/constants. The switches and paths are variables of the process, a record that
  every operation takes and returns; so is the list of the warnings it logs. What the
  machine answers (environment, devices, fetchers, the library that reads images) is the
  record \<open>host\<close>. Fetching has no effect on files here: the copy that a local fetcher makes
  below the temporary directory is part of the image it returns.
\<close>

subsection \<open>Images, the process and the machine\<close>

text \<open>The content of a layer is \<open>None\<close> when it cannot be had, \<open>Some None\<close> when it is no gzip stream.\<close>

record layer =
  ly_media :: "string option"
  ly_blob :: "tar_event list option option"

record img =
  i_digest_ok :: bool
  i_size_ok :: bool
  i_config :: "labels option option"
  i_layers :: "layer list option"

record mcv_config =
  EnabledGPU :: "bool option"
  EnabledBaremetal :: "bool option"
  SkipPrecheck :: "bool option"

datatype warning = Manifest_dir_missing | Size_check | Dir_kept string | Cleanup_failed | No_accelerator

record process =
  cfg_instance :: "mcv_config option"
  once_done :: bool
  TritonCacheDir :: string
  VLLMCacheDir :: string
  ExtractCacheDir :: string
  ExtractManifestDir :: string
  warnings :: "warning list"

record 's host =
  os_of :: "'s os"
  read_of :: "'s \<Rightarrow> string \<Rightarrow> string option"
  read_dir_of :: "'s \<Rightarrow> string \<Rightarrow> string list option"
  lookup_env :: "string \<Rightarrow> string option"
  conf_dir_ok :: bool
  level_ok :: "string \<Rightarrow> bool"
  detected :: nat
  acc_ok :: bool
  device_info :: "gpu list option option"
  local_fetchers :: "(string \<Rightarrow> img option) list"
  remote_fetcher :: "string \<Rightarrow> img option"
  number_of_literal :: "string \<Rightarrow> rat option"
  json_remarshal :: "json \<Rightarrow> json option"
  triton_setup :: triton_env

datatype layer_error =
  Type_is_empty
| Layers_unreadable
| Layer_count nat
| Media_type_unreadable
| No_such_layer
| Content_unreadable
| Type_unsupported string
| Unpack_error extract_error

datatype mcv_error =
  Image_name_missing
| Init_failed
| Bad_log_level
| Cache_dir_failed
| Preflight_failed
| Fetch_failed
| No_image_config
| No_image_labels
| No_cache_type
| Unsupported_cache string
| Gpu_info_failed
| Summary_check_failed preflight_error
| Extract_failed layer_error
| Manifest_check_failed preflight_error

text \<open>A call returns a value or dereferences nil.\<close>

datatype 'a outcome = Ret 'a | Panic

abbreviation MCVBuildDir :: string where
  "MCVBuildDir \<equiv> ''/tmp/.mcv''"

definition warn :: "warning \<Rightarrow> process \<Rightarrow> process" where
  "warn w p = p\<lparr>warnings := warnings p @ [w]\<rparr>"

subsection \<open>config.go\<close>

definition parseBoolEnv :: "(string \<Rightarrow> string option) \<Rightarrow> string \<Rightarrow> bool \<Rightarrow> bool option" where
  "parseBoolEnv env key defaultVal = (case env key of
     Some val \<Rightarrow> Some (to_lower val = ''true'')
   | None \<Rightarrow> Some defaultVal)"

definition getMCVConfig :: "(string \<Rightarrow> string option) \<Rightarrow> mcv_config" where
  "getMCVConfig env = \<lparr>EnabledGPU = parseBoolEnv env ''ENABLE_GPU'' True,
     EnabledBaremetal = parseBoolEnv env ''ENABLE_BAREMETAL'' False,
     SkipPrecheck = parseBoolEnv env ''SKIP_PRECHECK'' False\<rparr>"

text \<open>\<open>once.Do\<close> runs its function once, also when that fails; later calls give no error.\<close>

definition Initialize :: "'s host \<Rightarrow> process \<Rightarrow> bool \<times> process" where
  "Initialize h p =
     (if once_done p then (True, p)
      else if conf_dir_ok h then (True, p\<lparr>once_done := True, cfg_instance := Some (getMCVConfig (lookup_env h))\<rparr>)
      else (False, p\<lparr>once_done := True\<rparr>))"

definition IsGPUEnabled :: "mcv_config \<Rightarrow> bool" where
  "IsGPUEnabled c = (EnabledGPU c = Some True)"

definition IsBaremetalEnabled :: "mcv_config \<Rightarrow> bool" where
  "IsBaremetalEnabled c = (EnabledBaremetal c = Some True)"

definition IsSkipPrecheckEnabled :: "mcv_config \<Rightarrow> bool" where
  "IsSkipPrecheckEnabled c = (SkipPrecheck c = Some True)"

text \<open>preflightcheck/utils.go: \<open>None\<close> is an error, \<open>Some None\<close> a nil list.\<close>

definition GetAllGPUInfo :: "'s host \<Rightarrow> mcv_config \<Rightarrow> bool \<Rightarrow> gpu list option option" where
  "GetAllGPUInfo h c acc =
     (if \<not> acc then None
      else if \<not> IsGPUEnabled c then Some None
      else device_info h)"

subsection \<open>fetcher.go and imgfetcher.go: fetching\<close>

fun local_loop :: "(string \<Rightarrow> img option) list \<Rightarrow> string \<Rightarrow> img option" where
  "local_loop [] imgName = None"
| "local_loop (f # fs) imgName = (case f imgName of Some img \<Rightarrow> Some img | None \<Rightarrow> local_loop fs imgName)"

definition fetcher_FetchImg :: "'s host \<Rightarrow> string \<Rightarrow> img option" where
  "fetcher_FetchImg h imgName = (case local_loop (local_fetchers h) imgName of
     Some img \<Rightarrow> Some img
   | None \<Rightarrow> remote_fetcher h imgName)"

definition FetchImg :: "'s host \<Rightarrow> string \<Rightarrow> img option" where
  "FetchImg h imgName =
     (let imageWithTag = (if \<not> contains imgName '':'' then imgName @ '':latest'' else imgName) in
      case fetcher_FetchImg h imageWithTag of
        None \<Rightarrow> None
      | Some img \<Rightarrow> if i_digest_ok img \<and> i_size_ok img then Some img else None)"

subsection \<open>Layers\<close>

definition ExtractCacheDirectory ::
  "'s os \<Rightarrow> process \<Rightarrow> tar_event list option \<Rightarrow> string \<Rightarrow> 's \<Rightarrow> (layer_error + string list \<times> int) \<times> 's" where
  "ExtractCacheDirectory os p r cacheType s =
     (if cacheType = [] then (Inl Type_is_empty, s)
      else if cacheType = ''triton'' then
        apfst (map_sum Unpack_error id) (ExtractTritonCacheDirectory os (ExtractCacheDir p) (ExtractManifestDir p) r s)
      else if cacheType = ''vllm'' then
        apfst (map_sum Unpack_error id) (ExtractVLLMCacheDirectory os (ExtractCacheDir p) (ExtractManifestDir p) r s)
      else (Inl (Type_unsupported cacheType), s))"

definition isCompatLayerMediaType :: "string \<Rightarrow> bool" where
  "isCompatLayerMediaType mt \<longleftrightarrow>
     mt = ''application/vnd.docker.image.rootfs.diff.tar.gzip'' \<or> mt = ''application/vnd.oci.image.layer.v1.tar+gzip''"

fun media_loop :: "layer list \<Rightarrow> layer list option" where
  "media_loop [] = Some []"
| "media_loop (l # ls) = (case ly_media l of
     None \<Rightarrow> None
   | Some mt \<Rightarrow> map_option (\<lambda>compatLayers. if isCompatLayerMediaType mt then l # compatLayers else compatLayers) (media_loop ls))"

fun compat_loop ::
  "'s os \<Rightarrow> process \<Rightarrow> string \<Rightarrow> layer list \<Rightarrow> string list \<times> int \<Rightarrow> 's \<Rightarrow> (layer_error + string list \<times> int) \<times> 's" where
  "compat_loop os p cacheType [] acc s = (Inr acc, s)"
| "compat_loop os p cacheType (l # ls) acc s = (case ly_blob l of
     None \<Rightarrow> (Inl Content_unreadable, s)
   | Some r \<Rightarrow>
      (case ExtractCacheDirectory os p r cacheType s of
         (Inl e, s) \<Rightarrow> (Inl e, s)
       | (Inr (dirs, bytesWritten), s) \<Rightarrow> compat_loop os p cacheType ls (fst acc @ dirs, snd acc + bytesWritten) s))"

definition extractCompatImg ::
  "'s os \<Rightarrow> process \<Rightarrow> img \<Rightarrow> string \<Rightarrow> 's \<Rightarrow> (layer_error + string list \<times> int) \<times> 's" where
  "extractCompatImg os p img cacheType s =
     (if cacheType = [] then (Inl Type_is_empty, s)
      else case i_layers img of
        None \<Rightarrow> (Inl Layers_unreadable, s)
      | Some layers \<Rightarrow>
         if layers = [] then (Inl (Layer_count 0), s)
         else (case media_loop layers of
            None \<Rightarrow> (Inl Media_type_unreadable, s)
          | Some compatLayers \<Rightarrow>
             if compatLayers = [] then (Inl No_such_layer, s)
             else compat_loop os p cacheType compatLayers ([], 0) s))"

text \<open>The loop with its break: \<open>None\<close> when a media type cannot be read.\<close>

fun find_layer :: "string \<Rightarrow> layer list \<Rightarrow> layer option option" where
  "find_layer wanted [] = Some None"
| "find_layer wanted (l # ls) = (case ly_media l of
     None \<Rightarrow> None
   | Some mt \<Rightarrow> if mt = wanted then Some (Some l) else find_layer wanted ls)"

definition cacheLayerMediaType :: "string \<Rightarrow> string" where
  "cacheLayerMediaType cacheType = ''application/cache.'' @ cacheType @ ''.content.layer.v1+'' @ cacheType"

definition extractOCIArtifactImg ::
  "'s os \<Rightarrow> process \<Rightarrow> img \<Rightarrow> string \<Rightarrow> 's \<Rightarrow> (layer_error + string list \<times> int) \<times> 's" where
  "extractOCIArtifactImg os p img cacheType s =
     (if cacheType = [] then (Inl Type_is_empty, s)
      else case i_layers img of
        None \<Rightarrow> (Inl Layers_unreadable, s)
      | Some layers \<Rightarrow>
         if length layers \<noteq> 1 then (Inl (Layer_count (length layers)), s)
         else (case find_layer (cacheLayerMediaType cacheType) layers of
            None \<Rightarrow> (Inl Media_type_unreadable, s)
          | Some None \<Rightarrow> (Inl No_such_layer, s)
          | Some (Some l) \<Rightarrow>
             (case ly_blob l of
                None \<Rightarrow> (Inl Content_unreadable, s)
              | Some r \<Rightarrow> ExtractCacheDirectory os p r cacheType s)))"

text \<open>Compat first, then the artifact variant, on the files that the first attempt left.\<close>

definition extract_layers ::
  "'s os \<Rightarrow> process \<Rightarrow> img \<Rightarrow> string \<Rightarrow> 's \<Rightarrow> (layer_error + string list \<times> int) \<times> 's" where
  "extract_layers os p img ct s = (case extractCompatImg os p img ct s of
     (Inr r, s) \<Rightarrow> (Inr r, s)
   | (Inl e, s) \<Rightarrow> extractOCIArtifactImg os p img ct s)"

definition validateExtractedCacheSize :: "labels \<Rightarrow> string \<Rightarrow> int \<Rightarrow> bool" where
  "validateExtractedCacheSize l cacheType extractedBytes =
     (case (if cacheType = ''triton'' then Some ''cache.triton.image/cache-size-bytes''
            else if cacheType = ''vllm'' then Some ''cache.vllm.image/cache-size-bytes'' else None) of
        None \<Rightarrow> False
      | Some labelKey \<Rightarrow>
         (case l labelKey of
            None \<Rightarrow> False
          | Some expectedSizeStr \<Rightarrow>
             (case parse_int64 expectedSizeStr of
                None \<Rightarrow> False
              | Some expectedSize \<Rightarrow> extractedBytes \<noteq> 0 \<and> extractedBytes = expectedSize)))"

subsection \<open>The extractor\<close>

fun remove_dirs :: "'s os \<Rightarrow> string list \<Rightarrow> process \<times> 's \<Rightarrow> process \<times> 's" where
  "remove_dirs os [] (p, s) = (p, s)"
| "remove_dirs os (d # ds) (p, s) = (case os (Remove_all d) s of
     (ok, s) \<Rightarrow> remove_dirs os ds (if ok then p else warn (Dir_kept d) p, s))"

text \<open>The check of the manifest after unpacking, which removes the unpacked directories when it fails.\<close>

definition manifest_check ::
  "'s host \<Rightarrow> mcv_config \<Rightarrow> bool \<Rightarrow> string \<Rightarrow> string list \<Rightarrow> process \<times> 's \<Rightarrow> mcv_error option \<times> process \<times> 's" where
  "manifest_check h c acc ct extractedDirs = (\<lambda>(p, s).
     let manifestPath = path_join [ExtractManifestDir p, ''manifest.json''] in
     if IsGPUEnabled c \<and> IsBaremetalEnabled c \<and> \<not> IsSkipPrecheckEnabled c then
       (case GetAllGPUInfo h c acc of
          None \<Rightarrow> (Some Gpu_info_failed, p, s)
        | Some None \<Rightarrow> (Some Gpu_info_failed, p, s)
        | Some (Some devInfo) \<Rightarrow>
           (case CompareCacheManifestToGPU (number_of_literal h) (json_remarshal h) (IsBaremetalEnabled c) (triton_setup h)
               (read_of h s manifestPath) ct (Some devInfo) of
              None \<Rightarrow> (None, p, s)
            | Some err \<Rightarrow> (Some (Manifest_check_failed err), remove_dirs (os_of h) extractedDirs (p, s))))
     else (None, p, s))"

definition CleanupMCVDirs :: "'s os \<Rightarrow> string \<Rightarrow> 's \<Rightarrow> bool \<times> 's" where
  "CleanupMCVDirs os path s = os (Remove_all (if path = [] then MCVBuildDir else path)) s"

text \<open>What runs under the deferred cleanup.\<close>

definition extract_and_check ::
  "'s host \<Rightarrow> mcv_config \<Rightarrow> bool \<Rightarrow> img \<Rightarrow> labels \<Rightarrow> string \<Rightarrow> process \<times> 's \<Rightarrow> mcv_error option \<times> process \<times> 's" where
  "extract_and_check h c acc img l ct = (\<lambda>(p, s).
     case extract_layers (os_of h) p img ct s of
       (Inl e, s) \<Rightarrow> (Some (Extract_failed e), p, s)
     | (Inr (extractedDirs, extractedBytes), s) \<Rightarrow>
        manifest_check h c acc ct extractedDirs
          (if validateExtractedCacheSize l ct extractedBytes then p else warn Size_check p, s))"

definition with_cleanup :: "'s os \<Rightarrow> 'r \<times> process \<times> 's \<Rightarrow> 'r \<times> process \<times> 's" where
  "with_cleanup os = (\<lambda>(r, p, s). case CleanupMCVDirs os [] s of (ok, s) \<Rightarrow> (r, if ok then p else warn Cleanup_failed p, s))"

definition choose_cache_dir :: "string \<Rightarrow> process \<Rightarrow> process option" where
  "choose_cache_dir cacheType p =
     (if ExtractCacheDir p = [] then
        (if cacheType = ''triton'' then Some (p\<lparr>ExtractCacheDir := TritonCacheDir p\<rparr>)
         else if cacheType = ''vllm'' then Some (p\<lparr>ExtractCacheDir := VLLMCacheDir p\<rparr>)
         else None)
      else Some p)"

definition ExtractCache_img :: "'s host \<Rightarrow> bool \<Rightarrow> img \<Rightarrow> process \<times> 's \<Rightarrow> mcv_error option outcome \<times> process \<times> 's" where
  "ExtractCache_img h acc img = (\<lambda>(p, s).
     case i_config img of
       None \<Rightarrow> (Ret (Some No_image_config), p, s)
     | Some None \<Rightarrow> (Ret (Some No_image_labels), p, s)
     | Some (Some l) \<Rightarrow>
        let p = p\<lparr>ExtractManifestDir := path_join [MCVBuildDir, ''manifest'']\<rparr> in
        case os_of h (Mkdir_all (ExtractManifestDir p) 493) s of
          (ok, s) \<Rightarrow>
            let p = (if ok then p else warn Manifest_dir_missing p) in
            (case DetectCacheTypeFromLabels (Some l) of
               None \<Rightarrow> (Ret (Some No_cache_type), p, s)
             | Some ct \<Rightarrow>
                (case choose_cache_dir ct p of
                   None \<Rightarrow> (Ret (Some (Unsupported_cache ct)), p, s)
                 | Some p \<Rightarrow>
                    (case cfg_instance p of
                       None \<Rightarrow> (Panic, p, s)
                     | Some c \<Rightarrow>
                        (case (if IsGPUEnabled c \<and> \<not> IsSkipPrecheckEnabled c then
                                 (case GetAllGPUInfo h c acc of
                                    None \<Rightarrow> Some Gpu_info_failed
                                  | Some devInfo \<Rightarrow>
                                     (case CompareCacheSummaryLabelToGPU (i_config img) (Some l)
                                         (case devInfo of None \<Rightarrow> [] | Some devs \<Rightarrow> devs) of
                                        (_, _, None) \<Rightarrow> None
                                      | (_, _, Some err) \<Rightarrow> Some (Summary_check_failed err)))
                               else None) of
                           Some err \<Rightarrow> (Ret (Some err), p, s)
                         | None \<Rightarrow>
                            (case with_cleanup (os_of h) (extract_and_check h c acc img l ct (p, s)) of
                               (err, p, s) \<Rightarrow> (Ret err, p, s)))))))"

text \<open>
  \<open>New\<close> makes the accelerator when the GPU is enabled and keeps nil when that fails; then
  \<open>FetchAndExtractCache\<close> runs.
\<close>

definition FetchAndExtractCache :: "'s host \<Rightarrow> bool \<Rightarrow> string \<Rightarrow> process \<times> 's \<Rightarrow> mcv_error option outcome \<times> process \<times> 's" where
  "FetchAndExtractCache h acc imgName = (\<lambda>(p, s).
     case FetchImg h imgName of
       None \<Rightarrow> (Ret (Some Fetch_failed), p, s)
     | Some img \<Rightarrow> ExtractCache_img h acc img (p, s))"

definition new_extractor :: "'s host \<Rightarrow> process \<Rightarrow> (bool \<times> process) outcome" where
  "new_extractor h p = (case cfg_instance p of
     None \<Rightarrow> Panic
   | Some c \<Rightarrow> if IsGPUEnabled c then Ret (acc_ok h, if acc_ok h then p else warn No_accelerator p) else Ret (False, p))"

end
