(* ===== verification/Mcv_Client.thy ===== *)
theory Mcv_Client
  imports Image_Extract
begin

text \<open>
  The client interface, src/mcv/pkg/client/client.go: the check of an image against the GPUs
  of the machine and the extraction of a cache, which sets the switches of the process,
  checks the image and leaves the rest to the extractor.
\<close>

subsection \<open>The GPUs an image fits\<close>

record client_world =
  config_ok :: bool
  accelerator_ok :: bool
  gpu_info :: "gpu list option"
  fetch_img :: "string \<Rightarrow> labels option option option"

definition extractGPUIDs :: "gpu list \<Rightarrow> int list" where
  "extractGPUIDs infos = map g_id infos"

definition PreflightCheck :: "client_world \<Rightarrow> string \<Rightarrow> (int list \<times> int list) option" where
  "PreflightCheck w imageName =
     (if \<not> config_ok w then None
      else if \<not> accelerator_ok w then None
      else case gpu_info w of
        None \<Rightarrow> None
      | Some devInfo \<Rightarrow>
         (case fetch_img w imageName of
            None \<Rightarrow> None
          | Some config \<Rightarrow>
             (case CompareCacheSummaryLabelToGPU config None devInfo of
                (matched, unmatched, Some err) \<Rightarrow> None
              | (matched, unmatched, None) \<Rightarrow> Some (extractGPUIDs matched, extractGPUIDs unmatched))))"

subsection \<open>Extraction\<close>

record options =
  ImageName :: string
  CacheDir :: string
  EnableGPU :: "bool option"
  LogLevel :: string
  EnableBaremetal :: "bool option"
  SkipPrecheck_opt :: "bool option"

text \<open>logformat.go; which names are levels is the logging library's to say.\<close>

definition ConfigureLogging :: "'s host \<Rightarrow> string \<Rightarrow> bool" where
  "ConfigureLogging h logLevel \<longleftrightarrow> (if logLevel \<noteq> [] then level_ok h logLevel else True)"

text \<open>The switches, from the options: a switch that the options leave out keeps its value.\<close>

definition set_switches :: "'s host \<Rightarrow> options \<Rightarrow> mcv_config \<Rightarrow> mcv_config" where
  "set_switches h opts c =
     (let c = (case SkipPrecheck_opt opts of None \<Rightarrow> c | Some b \<Rightarrow> c\<lparr>SkipPrecheck := Some b\<rparr>);
          c = (case EnableBaremetal opts of None \<Rightarrow> c | Some b \<Rightarrow> c\<lparr>EnabledBaremetal := Some b\<rparr>);
          c = (case EnableGPU opts of None \<Rightarrow> c
             | Some True \<Rightarrow> c\<lparr>EnabledGPU := Some (detected h \<noteq> 0)\<rparr>
             | Some False \<Rightarrow> c\<lparr>EnabledGPU := Some False\<rparr>) in
      if \<not> IsGPUEnabled c then c\<lparr>SkipPrecheck := Some True\<rparr> else c)"

definition detect_warning :: "'s host \<Rightarrow> options \<Rightarrow> process \<Rightarrow> process" where
  "detect_warning h opts p = (if EnableGPU opts = Some True \<and> detected h = 0 then warn No_accelerator p else p)"

definition set_cache_dir :: "'s host \<Rightarrow> options \<Rightarrow> process \<times> 's \<Rightarrow> bool \<times> process \<times> 's" where
  "set_cache_dir h opts = (\<lambda>(p, s).
     if CacheDir opts \<noteq> [] then
       (case os_of h (Mkdir_all (CacheDir opts) 493) s of
          (False, s) \<Rightarrow> (False, p, s)
        | (True, s) \<Rightarrow> (True, p\<lparr>ExtractCacheDir := CacheDir opts\<rparr>, s))
     else (True, p, s))"

text \<open>The world that \<open>PreflightCheck\<close> finds when the configuration is there.\<close>

definition client_view :: "'s host \<Rightarrow> mcv_config \<Rightarrow> client_world" where
  "client_view h c = \<lparr>config_ok = True, accelerator_ok = acc_ok h,
     gpu_info = map_option (\<lambda>devs. case devs of None \<Rightarrow> [] | Some ds \<Rightarrow> ds) (GetAllGPUInfo h c (acc_ok h)),
     fetch_img = (\<lambda>n. map_option i_config (FetchImg h n))\<rparr>"

text \<open>The last part: the check unless it is to be skipped, then the extractor.\<close>

definition preflight_and_extract ::
  "'s host \<Rightarrow> options \<Rightarrow> mcv_config \<Rightarrow> process \<times> 's \<Rightarrow>
   (int list \<times> int list \<times> mcv_error option) outcome \<times> process \<times> 's" where
  "preflight_and_extract h opts c = (\<lambda>(p, s).
     case (if IsGPUEnabled c \<and> \<not> IsSkipPrecheckEnabled c
           then map_option (\<lambda>ids. (ids, c\<lparr>SkipPrecheck := Some True\<rparr>)) (PreflightCheck (client_view h c) (ImageName opts))
           else Some (([], []), c)) of
       None \<Rightarrow> (Ret ([], [], Some Preflight_failed), p, s)
     | Some ((matchedIDs, unmatchedIDs), c) \<Rightarrow>
        let p = p\<lparr>cfg_instance := Some c\<rparr> in
        (case new_extractor h p of
           Panic \<Rightarrow> (Panic, p, s)
         | Ret (acc, p) \<Rightarrow>
            (case FetchAndExtractCache h acc (ImageName opts) (p, s) of
               (Panic, p, s) \<Rightarrow> (Panic, p, s)
             | (Ret err, p, s) \<Rightarrow> (Ret (matchedIDs, unmatchedIDs, err), p, s))))"

definition ExtractCache ::
  "'s host \<Rightarrow> options \<Rightarrow> process \<times> 's \<Rightarrow>
   (int list \<times> int list \<times> mcv_error option) outcome \<times> process \<times> 's" where
  "ExtractCache h opts = (\<lambda>(p, s).
     if ImageName opts = [] then (Ret ([], [], Some Image_name_missing), p, s)
     else case (if cfg_instance p = None then Initialize h p else (True, p)) of
       (False, p) \<Rightarrow> (Ret ([], [], Some Init_failed), p, s)
     | (True, p) \<Rightarrow>
        if \<not> ConfigureLogging h (LogLevel opts) then (Ret ([], [], Some Bad_log_level), p, s)
        else (case cfg_instance p of
           None \<Rightarrow> (Panic, p, s)
         | Some c \<Rightarrow>
            let c = set_switches h opts c; p = detect_warning h opts (p\<lparr>cfg_instance := Some c\<rparr>) in
            (case set_cache_dir h opts (p, s) of
               (False, p, s) \<Rightarrow> (Ret ([], [], Some Cache_dir_failed), p, s)
             | (True, p, s) \<Rightarrow> preflight_and_extract h opts c (p, s))))"

end
