(* ===== verification/Extract_Job.thy ===== *)
theory Extract_Job
  imports Mcv_Client
begin

text \<open>
  The extraction job, src/gkm-extract/main.go: the program of the pod that the agent starts
  for a claim. It locks the cache directory, compares the image recorded in the file
  .initialized with the one it is to extract, clears the directory when they differ, extracts
  through the client of mcv and records the image by renaming a temporary file. The backoff
  sleep and the listing it logs are left out.
\<close>

subsection \<open>Package strings: TrimSpace\<close>

text \<open>White space in UTF-8: the ASCII characters, next line, no-break space and the space separators.\<close>

definition white_space :: "string list" where
  "white_space = [[CHR 0x09], [CHR 0x0A], [CHR 0x0B], [CHR 0x0C], [CHR 0x0D], [CHR 0x20],
     [CHR 0xC2, CHR 0x85], [CHR 0xC2, CHR 0xA0], [CHR 0xE1, CHR 0x9A, CHR 0x80],
     [CHR 0xE2, CHR 0x80, CHR 0x80], [CHR 0xE2, CHR 0x80, CHR 0x81], [CHR 0xE2, CHR 0x80, CHR 0x82],
     [CHR 0xE2, CHR 0x80, CHR 0x83], [CHR 0xE2, CHR 0x80, CHR 0x84], [CHR 0xE2, CHR 0x80, CHR 0x85],
     [CHR 0xE2, CHR 0x80, CHR 0x86], [CHR 0xE2, CHR 0x80, CHR 0x87], [CHR 0xE2, CHR 0x80, CHR 0x88],
     [CHR 0xE2, CHR 0x80, CHR 0x89], [CHR 0xE2, CHR 0x80, CHR 0x8A], [CHR 0xE2, CHR 0x80, CHR 0xA8],
     [CHR 0xE2, CHR 0x80, CHR 0xA9], [CHR 0xE2, CHR 0x80, CHR 0xAF], [CHR 0xE2, CHR 0x81, CHR 0x9F],
     [CHR 0xE3, CHR 0x80, CHR 0x80]]"

fun strip :: "string list \<Rightarrow> string \<Rightarrow> string" where
  "strip ws [] = []"
| "strip ws (c # s) = (case find (\<lambda>w. w \<noteq> [] \<and> has_prefix (c # s) w) ws of
     None \<Rightarrow> c # s
   | Some w \<Rightarrow> strip ws (drop (length w - 1) s))"

definition trim_space :: "string \<Rightarrow> string" where
  "trim_space s = rev (strip (map rev white_space) (rev (strip white_space s)))"

subsection \<open>main.go\<close>

fun clear_loop :: "'s os \<Rightarrow> string \<Rightarrow> string list \<Rightarrow> 's \<Rightarrow> bool \<times> 's" where
  "clear_loop os dir [] s = (True, s)"
| "clear_loop os dir (entry # entries) s =
     (if entry = ''.extract.lock'' \<or> entry = ''.initialized.tmp'' then clear_loop os dir entries s
      else case os (Remove_all (path_join [dir, entry])) s of
        (False, s) \<Rightarrow> (False, s)
      | (True, s) \<Rightarrow> clear_loop os dir entries s)"

definition clearDirectory :: "'s host \<Rightarrow> string \<Rightarrow> 's \<Rightarrow> bool \<times> 's" where
  "clearDirectory h dir s = (case read_dir_of h s dir of
     None \<Rightarrow> (False, s)
   | Some entries \<Rightarrow> clear_loop (os_of h) dir entries s)"

definition deleteFile :: "'s os \<Rightarrow> string \<Rightarrow> 's \<Rightarrow> bool \<times> 's" where
  "deleteFile os name s = os (Remove_file name) s"

datatype job_error =
  Job_mkdir
| Job_open_lock
| Job_lock
| Job_clear
| Job_init_file
| Job_extract mcv_error
| Job_finalize

abbreviation lock_file :: "string \<Rightarrow> string" where
  "lock_file cacheDir \<equiv> path_join [cacheDir, ''.extract.lock'']"

abbreviation init_file :: "string \<Rightarrow> string" where
  "init_file cacheDir \<equiv> path_join [cacheDir, ''.initialized'']"

abbreviation init_file_tmp :: "string \<Rightarrow> string" where
  "init_file_tmp cacheDir \<equiv> init_file cacheDir @ ''.tmp''"

definition job_options :: "string \<Rightarrow> string \<Rightarrow> bool \<Rightarrow> options" where
  "job_options cacheDir imageURL noGpu = \<lparr>ImageName = imageURL, CacheDir = cacheDir, EnableGPU = Some (\<not> noGpu),
     LogLevel = ''info'', EnableBaremetal = None, SkipPrecheck_opt = None\<rparr>"

text \<open>From the temporary file to the final one.\<close>

definition extract_and_record ::
  "'s host \<Rightarrow> string \<Rightarrow> string \<Rightarrow> bool \<Rightarrow> process \<times> 's \<Rightarrow> job_error option outcome \<times> process \<times> 's" where
  "extract_and_record h cacheDir imageURL noGpu = (\<lambda>(p, s).
     case os_of h (Write_file (init_file_tmp cacheDir) (imageURL @ [CHR 0x0A]) 420) s of
       (False, s) \<Rightarrow> (Ret (Some Job_init_file), p, s)
     | (True, s) \<Rightarrow>
        (case ExtractCache h (job_options cacheDir imageURL noGpu) (p, s) of
           (Panic, p, s) \<Rightarrow> (Panic, p, s)
         | (Ret (matchedIds, unmatchedIds, Some err), p, s) \<Rightarrow>
            (case deleteFile (os_of h) (init_file_tmp cacheDir) s of (_, s) \<Rightarrow>
             case os_of h (Flock (lock_file cacheDir) False) s of (_, s) \<Rightarrow>
               (Ret (Some (Job_extract err)), p, s))
         | (Ret (matchedIds, unmatchedIds, None), p, s) \<Rightarrow>
            (case os_of h (Rename (init_file_tmp cacheDir) (init_file cacheDir)) s of
               (False, s) \<Rightarrow> (Ret (Some Job_finalize), p, s)
             | (True, s) \<Rightarrow> (Ret None, p, s))))"

text \<open>What runs while the lock file is open.\<close>

definition locked_job ::
  "'s host \<Rightarrow> string \<Rightarrow> string \<Rightarrow> bool \<Rightarrow> process \<times> 's \<Rightarrow> job_error option outcome \<times> process \<times> 's" where
  "locked_job h cacheDir imageURL noGpu = (\<lambda>(p, s).
     case os_of h (Flock (lock_file cacheDir) True) s of
       (False, s) \<Rightarrow> (Ret (Some Job_lock), p, s)
     | (True, s) \<Rightarrow>
        (case read_of h s (init_file cacheDir) of
           None \<Rightarrow> extract_and_record h cacheDir imageURL noGpu (p, s)
         | Some data \<Rightarrow>
            if trim_space data = imageURL then (Ret None, p, s)
            else (case clearDirectory h cacheDir s of
              (False, s) \<Rightarrow> (Ret (Some Job_clear), p, s)
            | (True, s) \<Rightarrow> extract_and_record h cacheDir imageURL noGpu (p, s))))"

definition ExtractCache_job ::
  "'s host \<Rightarrow> string \<Rightarrow> string \<Rightarrow> bool \<Rightarrow> process \<times> 's \<Rightarrow> job_error option outcome \<times> process \<times> 's" where
  "ExtractCache_job h cacheDir imageURL noGpu = (\<lambda>(p, s).
     case os_of h (Mkdir_all cacheDir 511) s of
       (False, s) \<Rightarrow> (Ret (Some Job_mkdir), p, s)
     | (True, s) \<Rightarrow>
        (case os_of h (Chown cacheDir 1000 1000) s of (_, s) \<Rightarrow>
         case os_of h (Open_create (lock_file cacheDir) 384) s of
           (False, s) \<Rightarrow> (Ret (Some Job_open_lock), p, s)
         | (True, s) \<Rightarrow>
            (case locked_job h cacheDir imageURL noGpu (p, s) of
               (r, p, s) \<Rightarrow> (r, p, snd (os_of h (Close (lock_file cacheDir)) s)))))"

text \<open>The exit code of the program; a panic exits with 2.\<close>

definition job_main :: "'s host \<Rightarrow> process \<times> 's \<Rightarrow> nat \<times> process \<times> 's" where
  "job_main h st =
     (let getenv = (\<lambda>k. case lookup_env h k of None \<Rightarrow> [] | Some v \<Rightarrow> v);
          cacheDir = trim_space (getenv ''GKM_CACHE_DIR'');
          imageURL = trim_space (getenv ''GKM_IMAGE_URL'') in
      if cacheDir = [] then (1, st)
      else if imageURL = [] then (1, st)
      else case ExtractCache_job h cacheDir imageURL (getenv ''NO_GPU'' = ''true'') st of
        (Ret None, st) \<Rightarrow> (0, st)
      | (Ret (Some err), st) \<Rightarrow> (1, st)
      | (Panic, st) \<Rightarrow> (2, st))"

end
