(* ===== verification/Extract_Content.thy ===== *)
theory Extract_Content
  imports Extract_Job
begin

text \<open>
  What the unpacking of an image does to the files: a reference definition of the files an
  image holds, the actions that unpacking performs whether it succeeds or fails, and the
  exact files after a success, for every operating system that keeps the laws of the locale
  \<open>file_system\<close>.
\<close>

subsection \<open>The files of an image\<close>

definition entry_output :: "string \<Rightarrow> string \<Rightarrow> string \<Rightarrow> string \<Rightarrow> tar_header \<Rightarrow> (string \<times> string) list" where
  "entry_output cp mp cd md h =
     (if h_typeflag h \<noteq> TypeReg then []
      else if has_prefix (h_name h) cp then
        (if h_name h = cp then [] else [(path_join [cd, trim_prefix (h_name h) cp], h_content h)])
      else if has_prefix (h_name h) (mp @ ''manifest.json'') then
        [(path_join [md, trim_prefix (h_name h) mp], h_content h)]
      else [])"

fun event_output :: "string \<Rightarrow> string \<Rightarrow> string \<Rightarrow> string \<Rightarrow> tar_event \<Rightarrow> (string \<times> string) list" where
  "event_output cp mp cd md (Entry h) = entry_output cp mp cd md h"
| "event_output cp mp cd md Read_error = []"

definition archive_output :: "string \<Rightarrow> string \<Rightarrow> string \<Rightarrow> string \<Rightarrow> tar_event list \<Rightarrow> (string \<times> string) list" where
  "archive_output cp mp cd md evs = concat (map (event_output cp mp cd md) evs)"

lemma archive_output_simps [simp]:
  "archive_output cp mp cd md [] = []"
  "archive_output cp mp cd md (e # evs) = event_output cp mp cd md e @ archive_output cp mp cd md evs"
  by (simp_all add: archive_output_def)

definition layer_output :: "string \<Rightarrow> string \<Rightarrow> string \<Rightarrow> layer \<Rightarrow> (string \<times> string) list" where
  "layer_output ct cd md l = (case ly_blob l of
     Some (Some evs) \<Rightarrow>
       if ct = ''triton'' then archive_output ''io.triton.cache/'' ''io.triton.manifest/'' cd md evs
       else if ct = ''vllm'' then archive_output ''io.vllm.cache'' ''io.vllm.manifest/'' cd md evs else []
   | _ \<Rightarrow> [])"

definition is_compat :: "layer \<Rightarrow> bool" where
  "is_compat l \<longleftrightarrow> (case ly_media l of None \<Rightarrow> False | Some mt \<Rightarrow> isCompatLayerMediaType mt)"

text \<open>The layers that are unpacked: the compat ones if there are any, otherwise the artifact.\<close>

definition used_layers :: "img \<Rightarrow> layer list" where
  "used_layers img = (case i_layers img of
     None \<Rightarrow> []
   | Some ls \<Rightarrow> if filter is_compat ls \<noteq> [] then filter is_compat ls else ls)"

definition image_output :: "string \<Rightarrow> string \<Rightarrow> string \<Rightarrow> img \<Rightarrow> (string \<times> string) list" where
  "image_output ct cd md img = concat (map (layer_output ct cd md) (used_layers img))"

text \<open>Later files replace earlier ones of the same name.\<close>

abbreviation overlay :: "(string \<Rightarrow> string option) \<Rightarrow> (string \<times> string) list \<Rightarrow> string \<Rightarrow> string option" where
  "overlay fs outs \<equiv> fs ++ map_of (rev outs)"

lemma overlay_append: "overlay fs (xs @ ys) = overlay (overlay fs xs) ys"
  by (simp add: map_add_assoc)

subsection \<open>Actions of a run\<close>

definition writes :: "string set \<Rightarrow> action \<Rightarrow> bool" where
  "writes X a = (case a of Mkdir_all d m \<Rightarrow> True | Write_file q c m \<Rightarrow> q \<in> X | _ \<Rightarrow> False)"

lemma acts_mkdir: "os (Mkdir_all d m) s = (ok, s') \<Longrightarrow> acts os (writes X) s s'"
  by (rule acts_one) (auto simp: writes_def)

lemma acts_mkdir_then: "os (Mkdir_all d m) s = (ok, s1) \<Longrightarrow> acts os (writes X) s1 s' \<Longrightarrow> acts os (writes X) s s'"
  by (rule acts_trans [OF acts_mkdir])

lemma acts_write: "os (Write_file q c m) s = (ok, s') \<Longrightarrow> q \<in> X \<Longrightarrow> acts os (writes X) s s'"
  by (rule acts_one) (auto simp: writes_def)

lemma writes_mono: "acts os (writes X) s s' \<Longrightarrow> X \<subseteq> Y \<Longrightarrow> acts os (writes Y) s s'"
  by (erule acts_mono) (auto simp: writes_def split: action.splits)

lemma writeFile_acts:
  "writeFile os q c m s = (ok, s') \<Longrightarrow> q \<in> X \<Longrightarrow> acts os (writes X) s s'"
  by (auto simp: writeFile_def split: prod.splits bool.splits intro: acts_mkdir acts_write acts_mkdir_then)

text \<open>The name of an entry decides what becomes of it.\<close>

lemma entry_cases [case_names skip cache manifest]:
  obtains "(\<not> has_prefix (h_name h) cp \<and> \<not> has_prefix (h_name h) (mp @ ''manifest.json'')) \<or> h_name h = cp"
      "entry_output cp mp cd md h = []"
  | "has_prefix (h_name h) cp" "h_name h \<noteq> cp" "trim_prefix (h_name h) cp \<noteq> []"
  | "\<not> has_prefix (h_name h) cp" "has_prefix (h_name h) (mp @ ''manifest.json'')"
proof -
  have e: "has_prefix (h_name h) cp \<Longrightarrow> trim_prefix (h_name h) cp = [] \<longleftrightarrow> h_name h = cp"
    by (auto simp: has_prefix_iff)
  consider "has_prefix (h_name h) cp" "h_name h \<noteq> cp" | "h_name h = cp"
    | "\<not> has_prefix (h_name h) cp" "has_prefix (h_name h) (mp @ ''manifest.json'')"
    | "\<not> has_prefix (h_name h) cp" "\<not> has_prefix (h_name h) (mp @ ''manifest.json'')" by blast
  then show thesis
  proof cases
    case 1
    then show ?thesis using e that(2) by simp
  next
    case 2
    then have "has_prefix (h_name h) cp" by (simp add: has_prefix_iff)
    with 2 e show ?thesis
      by (intro that(1)) (auto simp: entry_output_def)
  next
    case 3
    then show ?thesis by (rule that(3))
  next
    case 4
    then show ?thesis
      by (intro that(1)) (auto simp: entry_output_def)
  qed
qed

lemma extract_entry_skip:
  assumes "(\<not> has_prefix (h_name h) cp \<and> \<not> has_prefix (h_name h) (mp @ ''manifest.json'')) \<or> h_name h = cp"
  shows "extract_entry os cp mp cd md h r s = (Inr r, s)"
proof -
  have "has_prefix cp cp" by (simp add: has_prefix_iff)
  with assms show ?thesis by (cases r) (auto simp: extract_entry_def)
qed

lemma extract_entry_acts:
  assumes "extract_entry os cp mp cd md h r s = (r', s')"
  shows "acts os (writes (fst ` set (entry_output cp mp cd md h))) s s'"
proof (cases rule: entry_cases [of h cp mp cd md])
  case skip
  then show ?thesis using assms by (simp add: extract_entry_skip acts.none)
next
  case cache
  then show ?thesis using assms
    by (cases "h_typeflag h")
      (auto simp: extract_entry_def entry_output_def Let_def split: prod.splits bool.splits
        intro: acts_mkdir acts_mkdir_then writeFile_acts)
next
  case manifest
  then show ?thesis using assms
    by (cases "h_typeflag h")
      (auto simp: extract_entry_def entry_output_def Let_def split: prod.splits bool.splits
        intro: acts_mkdir acts_mkdir_then writeFile_acts)
qed

lemma extract_loop_acts:
  "extract_loop (extract_entry os cp mp cd md) evs r s = (r', s') \<Longrightarrow>
   acts os (writes (fst ` set (archive_output cp mp cd md evs))) s s'"
proof (induction evs arbitrary: r s)
  case Nil
  then show ?case by (auto intro: acts.none)
next
  case (Cons e evs)
  show ?case
  proof (cases e)
    case (Entry h)
    obtain r1 s1 where st: "extract_entry os cp mp cd md h r s = (r1, s1)" by fastforce
    have a: "acts os (writes (fst ` set (archive_output cp mp cd md (e # evs)))) s s1"
      by (rule writes_mono [OF extract_entry_acts [OF st]]) (auto simp: Entry)
    show ?thesis
    proof (cases r1)
      case (Inl x)
      then show ?thesis using Cons.prems st a by (simp add: Entry)
    next
      case (Inr r2)
      then have "acts os (writes (fst ` set (archive_output cp mp cd md evs))) s1 s'"
        using Cons.IH [of r2 s1] Cons.prems st by (simp add: Entry)
      then have "acts os (writes (fst ` set (archive_output cp mp cd md (e # evs)))) s1 s'"
        by (rule writes_mono) auto
      with a show ?thesis by (rule acts_trans)
    qed
  next
    case Read_error
    then show ?thesis using Cons.prems by (auto intro: acts.none)
  qed
qed

lemma extract_directory_acts:
  assumes "extractCacheAndManifestDirectory os (Some evs) cp mp cd md s = (r, s')"
  shows "acts os (writes (fst ` set (archive_output cp mp cd md evs))) s s'"
  using assms
  by (auto simp: extractCacheAndManifestDirectory_def split: prod.splits bool.splits
      intro: acts_mkdir acts_mkdir_then dest!: extract_loop_acts)

lemma ExtractCacheDirectory_acts:
  assumes "ExtractCacheDirectory os p b ct s = (r, s')" "ly_blob l = Some b"
  shows "acts os (writes (fst ` set (layer_output ct (ExtractCacheDir p) (ExtractManifestDir p) l))) s s'"
proof (cases b)
  case None
  then show ?thesis using assms
    by (auto simp: ExtractCacheDirectory_def ExtractTritonCacheDirectory_def ExtractVLLMCacheDirectory_def
        extractCacheAndManifestDirectory_def split: if_splits intro: acts.none)
next
  case (Some evs)
  then show ?thesis using assms
    by (auto simp: ExtractCacheDirectory_def ExtractTritonCacheDirectory_def ExtractVLLMCacheDirectory_def
        layer_output_def apfst_def map_prod_def split: if_splits prod.splits
        intro: acts.none dest!: extract_directory_acts)
qed

lemma compat_loop_acts:
  "compat_loop os p ct ls acc s = (r, s') \<Longrightarrow>
   acts os (writes (fst ` set (concat (map (layer_output ct (ExtractCacheDir p) (ExtractManifestDir p)) ls)))) s s'"
proof (induction ls arbitrary: acc s)
  case Nil
  then show ?case by (simp add: acts.none)
next
  case (Cons l ls)
  let ?X = "\<lambda>ls. fst ` set (concat (map (layer_output ct (ExtractCacheDir p) (ExtractManifestDir p)) ls))"
  show ?case
  proof (cases "ly_blob l")
    case None
    then show ?thesis using Cons.prems by (simp add: acts.none)
  next
    case (Some b)
    obtain r1 s1 where st: "ExtractCacheDirectory os p b ct s = (r1, s1)" by fastforce
    have a: "acts os (writes (?X (l # ls))) s s1"
      by (rule writes_mono [OF ExtractCacheDirectory_acts [OF st Some]]) auto
    show ?thesis
    proof (cases r1)
      case (Inl x)
      then show ?thesis using Cons.prems st a Some by simp
    next
      case (Inr db)
      then have "acts os (writes (?X ls)) s1 s'"
        using Cons.IH [of "(fst acc @ fst db, snd acc + snd db)" s1] Cons.prems st Some by (simp add: case_prod_beta)
      then have "acts os (writes (?X (l # ls))) s1 s'" by (rule writes_mono) auto
      with a show ?thesis by (rule acts_trans)
    qed
  qed
qed

text \<open>
  The two attempts at an image never both write: the second one wants a single layer of a
  media type that the first one leaves alone.
\<close>

lemma media_loop_filter: "media_loop ls = Some cs \<Longrightarrow> cs = filter is_compat ls"
  by (induction ls arbitrary: cs) (auto simp: is_compat_def split: option.splits if_splits)

lemma artifact_not_compat [simp]: "\<not> isCompatLayerMediaType (cacheLayerMediaType ct)"
  by (simp add: isCompatLayerMediaType_def cacheLayerMediaType_def)

lemma extractOCI_cases:
  assumes "extractOCIArtifactImg os p img ct s = (r, s')"
  obtains (untouched) e where "r = Inl e" "s' = s"
  | (artifact) l b where "i_layers img = Some [l]" "\<not> is_compat l" "ly_blob l = Some b"
      "ExtractCacheDirectory os p b ct s = (r, s')"
proof -
  have one: "length ls = Suc 0 \<Longrightarrow> find_layer (cacheLayerMediaType ct) ls = Some (Some l) \<Longrightarrow> ls = [l] \<and> \<not> is_compat l" for ls l
    by (cases ls) (auto simp: is_compat_def split: option.splits if_splits)
  have "(\<exists>e. r = Inl e \<and> s' = s) \<or> (\<exists>l b. i_layers img = Some [l] \<and> \<not> is_compat l \<and> ly_blob l = Some b \<and>
      ExtractCacheDirectory os p b ct s = (r, s'))"
    using assms by (auto simp: extractOCIArtifactImg_def split: if_splits option.splits) (blast dest: one)+
  then show thesis using untouched artifact by blast
qed

lemma extractCompat_cases:
  assumes "extractCompatImg os p img ct s = (r, s')"
  obtains (untouched) e where "r = Inl e" "s' = s"
  | (compat) "used_layers img = filter is_compat (the (i_layers img))" "filter is_compat (the (i_layers img)) \<noteq> []"
      "compat_loop os p ct (used_layers img) ([], 0) s = (r, s')"
  using assms
  by (auto simp: extractCompatImg_def used_layers_def split: if_splits option.splits dest!: media_loop_filter)

lemma extract_layers_cases:
  assumes "extract_layers os p img ct s = (r, s')"
  obtains (untouched) e where "r = Inl e" "s' = s"
  | (compat) r' where "compat_loop os p ct (used_layers img) ([], 0) s = (r', s')" "\<And>x. r = Inr x \<Longrightarrow> r' = Inr x"
  | (artifact) l b where "used_layers img = [l]" "ly_blob l = Some b" "ExtractCacheDirectory os p b ct s = (r, s')"
proof -
  obtain r1 s1 where c: "extractCompatImg os p img ct s = (r1, s1)" by fastforce
  show thesis
  proof (cases rule: extractCompat_cases [OF c])
    case (1 e)
    then have o: "extractOCIArtifactImg os p img ct s = (r, s')" using assms c by (simp add: extract_layers_def)
    show ?thesis
      by (cases rule: extractOCI_cases [OF o]) (auto simp: used_layers_def intro: untouched artifact)
  next
    case 2
    show ?thesis
    proof (cases r1)
      case (Inr x)
      then show ?thesis using assms c 2(3) compat [of r1] by (simp add: extract_layers_def)
    next
      case (Inl e)
      then have o: "extractOCIArtifactImg os p img ct s1 = (r, s')" using assms c by (simp add: extract_layers_def)
      show ?thesis
        using 2 compat [of r1] by (cases rule: extractOCI_cases [OF o]) auto
    qed
  qed
qed

lemma extract_layers_acts:
  assumes "extract_layers os p img ct s = (r, s')"
  shows "acts os (writes (fst ` set (image_output ct (ExtractCacheDir p) (ExtractManifestDir p) img))) s s'"
  using assms
proof (cases rule: extract_layers_cases)
  case (untouched e)
  then show ?thesis by (simp add: acts.none)
next
  case (compat r')
  then show ?thesis using compat_loop_acts unfolding image_output_def by fast
next
  case (artifact l b)
  then show ?thesis using ExtractCacheDirectory_acts [of os p b ct s r s' l] by (simp add: image_output_def)
qed

subsection \<open>The files after a success\<close>

context file_system
begin

lemma writeFile_read: "writeFile os q c m s = (True, s') \<Longrightarrow> read s' = (read s)(q \<mapsto> c)"
  by (auto simp: writeFile_def split: prod.splits bool.splits dest!: mkdir_read write_read)

lemma extract_entry_read:
  assumes "extract_entry os cp mp cd md h r s = (Inr r', s')"
  shows "read s' = overlay (read s) (entry_output cp mp cd md h)"
proof (cases rule: entry_cases [of h cp mp cd md])
  case skip
  then show ?thesis using assms by (simp add: extract_entry_skip)
next
  case cache
  then show ?thesis using assms
    by (cases "h_typeflag h")
      (auto simp: extract_entry_def entry_output_def Let_def split: prod.splits bool.splits
        dest!: mkdir_read writeFile_read)
next
  case manifest
  then show ?thesis using assms
    by (cases "h_typeflag h")
      (auto simp: extract_entry_def entry_output_def Let_def split: prod.splits bool.splits
        dest!: mkdir_read writeFile_read)
qed

lemma extract_loop_read:
  "extract_loop (extract_entry os cp mp cd md) evs r s = (Inr r', s') \<Longrightarrow>
   read s' = overlay (read s) (archive_output cp mp cd md evs)"
proof (induction evs arbitrary: r s)
  case (Cons e evs)
  then obtain h where e: "e = Entry h" by (cases e) auto
  with Cons.prems obtain r1 s1 where st: "extract_entry os cp mp cd md h r s = (Inr r1, s1)"
    and rest: "extract_loop (extract_entry os cp mp cd md) evs r1 s1 = (Inr r', s')"
    by (auto split: prod.splits sum.splits)
  show ?case
    unfolding Cons.IH [OF rest] extract_entry_read [OF st] by (simp only: e archive_output_simps event_output.simps overlay_append)
qed simp

lemma extract_directory_read:
  assumes "extractCacheAndManifestDirectory os b cp mp cd md s = (Inr r, s')"
  shows "\<exists>evs. b = Some evs \<and> read s' = overlay (read s) (archive_output cp mp cd md evs)"
  using assms
  by (auto simp: extractCacheAndManifestDirectory_def split: option.splits prod.splits bool.splits
      dest!: extract_loop_read mkdir_read)

lemma ExtractCacheDirectory_read:
  assumes "ExtractCacheDirectory os p b ct s = (Inr r, s')" "ly_blob l = Some b"
  shows "read s' = overlay (read s) (layer_output ct (ExtractCacheDir p) (ExtractManifestDir p) l)"
proof -
  have inv: "apfst (map_sum Unpack_error id) x = (Inr r, s') \<Longrightarrow> x = (Inr r, s')" for x
    by (cases x; cases "fst x") auto
  show ?thesis
    using assms
    by (auto simp: ExtractCacheDirectory_def ExtractTritonCacheDirectory_def ExtractVLLMCacheDirectory_def
        layer_output_def split: if_splits dest!: inv extract_directory_read)
qed

lemma compat_loop_read:
  "compat_loop os p ct ls acc s = (Inr r, s') \<Longrightarrow>
   read s' = overlay (read s) (concat (map (layer_output ct (ExtractCacheDir p) (ExtractManifestDir p)) ls))"
proof (induction ls arbitrary: acc s)
  case (Cons l ls)
  then obtain b db s1 where b: "ly_blob l = Some b" and st: "ExtractCacheDirectory os p b ct s = (Inr db, s1)"
    and rest: "compat_loop os p ct ls (fst acc @ fst db, snd acc + snd db) s1 = (Inr r, s')"
    by (auto split: option.splits prod.splits sum.splits)
  show ?case
    unfolding Cons.IH [OF rest] ExtractCacheDirectory_read [OF st b] list.map concat.simps overlay_append by (rule refl)
qed simp

lemma extract_layers_read:
  assumes "extract_layers os p img ct s = (Inr r, s')"
  shows "read s' = overlay (read s) (image_output ct (ExtractCacheDir p) (ExtractManifestDir p) img)"
  using assms
proof (cases rule: extract_layers_cases)
  case (compat r')
  then show ?thesis using compat_loop_read by (simp add: image_output_def)
next
  case (artifact l b)
  then show ?thesis using ExtractCacheDirectory_read [of p b ct s r s' l] by (simp add: image_output_def)
qed simp

end

end
