(* ===== verification/Extract_Run.thy ===== *)
theory Extract_Run
  imports Extract_Content
begin

text \<open>
  Whole runs of the extractor, the client and the job: which switches and paths of the
  process they leave behind, which actions they perform, and the files after them.
\<close>

subsection \<open>Names in a directory\<close>

definition dir_prefix :: "string \<Rightarrow> string" where
  "dir_prefix d = (if is_rooted d then ''/'' else []) @
     (if clean_parts d = [] then [] else join_with ''/'' (clean_parts d) @ ''/'')"

lemma join_with_snoc: "join_with sep (ps @ [n]) = (if ps = [] then n else join_with sep ps @ sep @ n)"
  by (induction sep ps rule: join_with.induct) auto

lemma path_join_plain:
  assumes "d \<noteq> []" "plain n"
  shows "path_join [d, n] = dir_prefix d @ n"
proof -
  have n: "n \<noteq> []" "split_on (CHR ''/'') n = [n]"
    using assms(2) by (simp_all add: plain_def split_on_free)
  have "clean_acc (is_rooted d) (rev (clean_parts d)) [n] = clean_parts d @ [n]"
    using clean_acc_names [of "[n]"] assms(2) by simp
  then show ?thesis
    using assms(1) n by (simp add: path_join_two render_def dir_prefix_def join_with_snoc)
qed

lemma plain_names [simp]: "plain ''.extract.lock''" "plain ''.initialized''" "plain ''.initialized.tmp''"
  by (simp_all add: plain_def)

text \<open>The files inside a directory, and those the job uses for itself.\<close>

definition inside :: "string \<Rightarrow> string \<Rightarrow> bool" where
  "inside d q \<longleftrightarrow> (\<exists>n. plain n \<and> under (path_join [d, n]) q)"

definition control :: "string \<Rightarrow> string \<Rightarrow> bool" where
  "control d q \<longleftrightarrow> under (lock_file d) q \<or> under (init_file_tmp d) q \<or> q = init_file d"

lemma control_names:
  assumes "d \<noteq> []"
  shows "lock_file d = dir_prefix d @ ''.extract.lock''" "init_file d = dir_prefix d @ ''.initialized''"
    "init_file_tmp d = path_join [d, ''.initialized.tmp'']"
  using assms by (simp_all add: path_join_plain)

lemma control_distinct:
  assumes "d \<noteq> []"
  shows "init_file d \<noteq> init_file_tmp d" "init_file d \<noteq> lock_file d" "lock_file d \<noteq> init_file_tmp d"
    "\<not> under (lock_file d) (init_file d)"
  using assms by (auto simp: control_names under_def has_prefix_iff)

lemma has_prefix_shorter: "has_prefix (x @ y) p \<Longrightarrow> length p \<le> length x \<Longrightarrow> has_prefix x p"
  by (simp add: has_prefix_def)

lemma tmp_not_build:
  assumes "d \<noteq> []" "\<not> under MCVBuildDir (init_file d)"
  shows "\<not> under MCVBuildDir (init_file_tmp d)"
proof
  assume u: "under MCVBuildDir (init_file_tmp d)"
  have len: "12 \<le> length (init_file d)" using control_names(2) [OF assms(1)] by simp
  then have "init_file_tmp d \<noteq> MCVBuildDir" by (auto dest: arg_cong [of _ _ length])
  with u have "has_prefix (init_file_tmp d) (MCVBuildDir @ ''/'')" by (simp add: under_def)
  then have "has_prefix (init_file d) (MCVBuildDir @ ''/'')" by (rule has_prefix_shorter) (use len in simp)
  with assms(2) show False by (simp add: under_def)
qed

text \<open>What a listing of a directory promises.\<close>

locale directory_system = file_system os read
  for os :: "'s os" and read :: "'s \<Rightarrow> string \<Rightarrow> string option" +
  fixes read_dir :: "'s \<Rightarrow> string \<Rightarrow> string list option"
  assumes names_plain: "read_dir s d = Some ns \<Longrightarrow> n \<in> set ns \<Longrightarrow> plain n"
    and listing: "read_dir s d = Some ns \<Longrightarrow> read s q = Some c \<Longrightarrow> inside d q \<Longrightarrow> \<exists>n \<in> set ns. under (path_join [d, n]) q"

definition mem_read_dir :: "files \<Rightarrow> string \<Rightarrow> string list option" where
  "mem_read_dir fs d =
     (if d = [] then None
      else Some (filter plain (remdups (map (\<lambda>q. takeWhile (\<lambda>c. c \<noteq> CHR ''/'') (drop (length (dir_prefix d)) q))
        (filter (\<lambda>q. has_prefix q (dir_prefix d)) (map fst fs))))))"

lemma first_element: "plain n \<Longrightarrow> under (pre @ n) q \<Longrightarrow> pre @ n \<noteq> ''/'' \<Longrightarrow>
    has_prefix q pre \<and> takeWhile (\<lambda>c. c \<noteq> CHR ''/'') (drop (length pre) q) = n"
  by (auto simp: under_def has_prefix_iff plain_def takeWhile_append takeWhile_eq_all_conv)

interpretation mem_dir: directory_system mem_os map_of mem_read_dir
proof unfold_locales
  fix s d ns n q c
  show "mem_read_dir s d = Some ns \<Longrightarrow> n \<in> set ns \<Longrightarrow> plain n"
    by (auto simp: mem_read_dir_def split: if_splits)
  show "\<exists>n \<in> set ns. under (path_join [d, n]) q"
    if l: "mem_read_dir s d = Some ns" and f: "map_of s q = Some c" and i: "inside d q"
  proof -
    have d: "d \<noteq> []" using l by (auto simp: mem_read_dir_def)
    obtain n where n: "plain n" "under (path_join [d, n]) q" using i by (auto simp: inside_def)
    then have u: "under (dir_prefix d @ n) q" by (simp add: path_join_plain d)
    have "dir_prefix d @ n \<noteq> ''/''" using n(1) by (cases "dir_prefix d") (auto simp: plain_def Cons_eq_append_conv)
    from first_element [OF n(1) u this] have "n \<in> set ns"
      using l f n(1) by (force simp: mem_read_dir_def d dest: map_of_SomeD)
    with n show ?thesis by blast
  qed
qed

subsection \<open>The extractor when the checks are switched off\<close>

definition skipping :: "process \<Rightarrow> bool" where
  "skipping p \<longleftrightarrow> (\<exists>c. cfg_instance p = Some c \<and> IsSkipPrecheckEnabled c)"

abbreviation manifest_dir :: string where
  "manifest_dir \<equiv> path_join [MCVBuildDir, ''manifest'']"

definition target_dir :: "string \<Rightarrow> process \<Rightarrow> string" where
  "target_dir ct p =
     (if ExtractCacheDir p \<noteq> [] then ExtractCacheDir p else if ct = ''triton'' then TritonCacheDir p else VLLMCacheDir p)"

lemma warn_fields [simp]:
  "cfg_instance (warn w p) = cfg_instance p" "ExtractCacheDir (warn w p) = ExtractCacheDir p"
  "ExtractManifestDir (warn w p) = ExtractManifestDir p" "TritonCacheDir (warn w p) = TritonCacheDir p"
  "VLLMCacheDir (warn w p) = VLLMCacheDir p" "once_done (warn w p) = once_done p"
  by (simp_all add: warn_def)

lemma detect_type: "DetectCacheTypeFromLabels l = Some ct \<Longrightarrow> ct = ''triton'' \<or> ct = ''vllm''"
  by (auto simp: DetectCacheTypeFromLabels_def split: option.splits if_splits)

lemma cache_dir_same [simp]: "p\<lparr>ExtractCacheDir := ExtractCacheDir p\<rparr> = p"
  by (cases p) simp

lemma choose_target:
  assumes "DetectCacheTypeFromLabels l = Some ct"
  shows "choose_cache_dir ct p = Some (p\<lparr>ExtractCacheDir := target_dir ct p\<rparr>)"
  using detect_type [OF assms] by (auto simp: choose_cache_dir_def target_dir_def)

text \<open>What is left of the extractor: it looks at no switch.\<close>

definition unpack_image :: "'s host \<Rightarrow> img \<Rightarrow> process \<times> 's \<Rightarrow> mcv_error option \<times> process \<times> 's" where
  "unpack_image h img = (\<lambda>(p, s). case i_config img of
     None \<Rightarrow> (Some No_image_config, p, s)
   | Some None \<Rightarrow> (Some No_image_labels, p, s)
   | Some (Some l) \<Rightarrow>
      (case os_of h (Mkdir_all manifest_dir 493) s of
         (ok, s) \<Rightarrow>
           let p = p\<lparr>ExtractManifestDir := manifest_dir\<rparr>; p = (if ok then p else warn Manifest_dir_missing p) in
           (case DetectCacheTypeFromLabels (Some l) of
              None \<Rightarrow> (Some No_cache_type, p, s)
            | Some ct \<Rightarrow>
               let p = p\<lparr>ExtractCacheDir := target_dir ct p\<rparr> in
               with_cleanup (os_of h)
                 (case extract_layers (os_of h) p img ct s of
                    (Inl e, s) \<Rightarrow> (Some (Extract_failed e), p, s)
                  | (Inr (dirs, bytes), s) \<Rightarrow>
                     (None, if validateExtractedCacheSize l ct bytes then p else warn Size_check p, s)))))"

lemma ExtractCache_img_skipping:
  assumes "skipping p"
  shows "ExtractCache_img h acc img (p, s) = map_prod Ret id (unpack_image h img (p, s))"
proof -
  obtain c where c: "cfg_instance p = Some c" "IsSkipPrecheckEnabled c" using assms by (auto simp: skipping_def)
  have m: "manifest_check h c acc ct dirs (p, s) = (None, p, s)" for p ct dirs s
    using c(2) by (simp add: manifest_check_def Let_def)
  show ?thesis
    using c
    by (auto simp: ExtractCache_img_def unpack_image_def choose_target extract_and_check_def m Let_def
        split: option.split prod.split sum.split)
qed

subsection \<open>Switches and paths after a run\<close>

lemma with_cleanup_process:
  assumes "with_cleanup os (r, p, s) = (r', p', s')"
  shows "r' = r \<and> cfg_instance p' = cfg_instance p \<and> ExtractCacheDir p' = ExtractCacheDir p"
  using assms by (auto simp: with_cleanup_def split: prod.splits)

lemma unpack_image_process:
  assumes "unpack_image h img (p, s) = (r, p', s')"
  shows "cfg_instance p' = cfg_instance p"
  using assms
  by (auto simp: unpack_image_def Let_def split: option.splits prod.splits sum.splits if_splits
      dest!: with_cleanup_process)

subsection \<open>Actions and files of a run\<close>

definition image_files :: "process \<Rightarrow> img \<Rightarrow> (string \<times> string) list" where
  "image_files p img = (case i_config img of
     Some (Some l) \<Rightarrow>
       (case DetectCacheTypeFromLabels (Some l) of
          Some ct \<Rightarrow> image_output ct (target_dir ct p) manifest_dir img
        | None \<Rightarrow> [])
   | _ \<Rightarrow> [])"

definition unpacks :: "string set \<Rightarrow> action \<Rightarrow> bool" where
  "unpacks X a \<longleftrightarrow> writes X a \<or> a = Remove_all MCVBuildDir"

lemma writes_unpacks: "acts os (writes X) s s' \<Longrightarrow> acts os (unpacks X) s s'"
  by (erule acts_mono) (simp add: unpacks_def)

lemma cleanup_acts:
  assumes "with_cleanup os (r, p, s1) = (r', p', s')" "acts os (unpacks X) s s1"
  shows "acts os (unpacks X) s s'"
  using assms
  by (auto simp: with_cleanup_def CleanupMCVDirs_def unpacks_def split: prod.splits intro: acts.step)

lemma unpack_image_acts:
  assumes "unpack_image h img (p, s) = (r, p', s')"
  shows "acts (os_of h) (unpacks (fst ` set (image_files p img))) s s'"
proof (cases "i_config img")
  case None
  then show ?thesis using assms by (simp add: unpack_image_def acts.none)
next
  case (Some lo)
  show ?thesis
  proof (cases lo)
    case None
    then show ?thesis using assms Some by (simp add: unpack_image_def acts.none)
  next
    case l: (Some l)
    obtain ok s1 where mk: "os_of h (Mkdir_all manifest_dir 493) s = (ok, s1)" by fastforce
    let ?p = "(if ok then p\<lparr>ExtractManifestDir := manifest_dir\<rparr> else warn Manifest_dir_missing (p\<lparr>ExtractManifestDir := manifest_dir\<rparr>))"
    let ?X = "fst ` set (image_files p img)"
    have a1: "acts (os_of h) (unpacks X) s s1" for X
      by (rule writes_unpacks, rule acts_mkdir, rule mk)
    show ?thesis
    proof (cases "DetectCacheTypeFromLabels (Some l)")
      case None
      then show ?thesis using assms Some l mk a1 by (simp add: unpack_image_def Let_def)
    next
      case ct: (Some ct)
      let ?p2 = "?p\<lparr>ExtractCacheDir := target_dir ct ?p\<rparr>"
      obtain r2 s2 where ex: "extract_layers (os_of h) ?p2 img ct s1 = (r2, s2)" by fastforce
      have f: "image_files p img = image_output ct (ExtractCacheDir ?p2) (ExtractManifestDir ?p2) img"
        by (simp add: image_files_def Some l ct target_dir_def)
      have "acts (os_of h) (unpacks ?X) s s2"
        by (rule acts_trans [OF a1]) (simp only: f writes_unpacks extract_layers_acts [OF ex])
      moreover obtain r3 p3 where "with_cleanup (os_of h) (r3, p3, s2) = (r, p', s')"
        using assms Some l mk ct ex by (cases r2) (auto simp: unpack_image_def Let_def split: prod.splits)
      ultimately show ?thesis by (rule cleanup_acts [rotated])
    qed
  qed
qed

context file_system
begin

lemma cleanup_read:
  assumes "with_cleanup os (r, p, s) = (r', p', s')" "\<not> under MCVBuildDir q"
  shows "read s' q = read s q"
  using assms by (auto simp: with_cleanup_def CleanupMCVDirs_def split: prod.splits dest!: frame [where q = q])

lemma unpack_image_read:
  assumes "os_of h = os" "unpack_image h img (p, s) = (None, p', s')" "\<not> under MCVBuildDir q"
  shows "read s' q = overlay (read s) (image_files p img) q"
proof -
  from assms(2) obtain l where l: "i_config img = Some (Some l)"
    by (auto simp: unpack_image_def split: option.splits)
  obtain ok s1 where mk: "os (Mkdir_all manifest_dir 493) s = (ok, s1)" by fastforce
  let ?p = "(if ok then p\<lparr>ExtractManifestDir := manifest_dir\<rparr> else warn Manifest_dir_missing (p\<lparr>ExtractManifestDir := manifest_dir\<rparr>))"
  from assms(1,2) l mk obtain ct where ct: "DetectCacheTypeFromLabels (Some l) = Some ct"
    by (auto simp: unpack_image_def Let_def split: option.splits)
  let ?p2 = "?p\<lparr>ExtractCacheDir := target_dir ct ?p\<rparr>"
  obtain r2 s2 where ex: "extract_layers os ?p2 img ct s1 = (r2, s2)" by fastforce
  have f: "image_files p img = image_output ct (ExtractCacheDir ?p2) (ExtractManifestDir ?p2) img"
    by (simp add: image_files_def l ct target_dir_def)
  from assms(1,2) l mk ct ex obtain x p3 where r2: "r2 = Inr x" and cl: "with_cleanup os (None :: mcv_error option, p3, s2) = (None, p', s')"
    by (cases r2) (auto simp: unpack_image_def Let_def with_cleanup_def split: prod.splits)
  have "read s2 = overlay (read s) (image_files p img)"
    using extract_layers_read [OF ex [unfolded r2]] mkdir_read [OF mk] by (simp only: f)
  with cleanup_read [OF cl assms(3)] show ?thesis by simp
qed

end

subsection \<open>The client\<close>

lemma set_switches_skip: "IsGPUEnabled (set_switches h opts c) \<or> IsSkipPrecheckEnabled (set_switches h opts c)"
  by (auto simp: set_switches_def IsSkipPrecheckEnabled_def Let_def)

lemma extract_cases:
  assumes "preflight_and_extract h opts c (p, s) = (r, p', s')" "IsGPUEnabled c \<or> IsSkipPrecheckEnabled c"
  obtains (refused) m u e where "r = Ret (m, u, Some e)" "s' = s"
  | (extracted) img p1 m u e where "FetchImg h (ImageName opts) = Some img" "skipping p1"
      "unpack_image h img (p1, s) = (e, p', s')" "r = Ret (m, u, e)" "ExtractCacheDir p1 = ExtractCacheDir p"
proof -
  let ?pre = "if IsGPUEnabled c \<and> \<not> IsSkipPrecheckEnabled c
     then map_option (\<lambda>ids. (ids, c\<lparr>SkipPrecheck := Some True\<rparr>)) (PreflightCheck (client_view h c) (ImageName opts))
     else Some (([], []), c)"
  show thesis
  proof (cases ?pre)
    case None
    then show ?thesis using assms(1) refused [of "[]" "[]" Preflight_failed] by (auto simp: preflight_and_extract_def)
  next
    case (Some x)
    obtain m u c1 where x: "x = ((m, u), c1)" by (metis prod.exhaust)
    have c1: "IsSkipPrecheckEnabled c1"
      using Some x assms(2) by (auto simp: IsSkipPrecheckEnabled_def split: if_splits)
    let ?p = "p\<lparr>cfg_instance := Some c1\<rparr>"
    obtain acc p1 where n: "new_extractor h ?p = Ret (acc, p1)" "skipping p1" "ExtractCacheDir p1 = ExtractCacheDir p"
      using c1 by (cases "IsGPUEnabled c1"; cases "acc_ok h") (auto simp: new_extractor_def skipping_def)
    show ?thesis
    proof (cases "FetchImg h (ImageName opts)")
      case None
      then show ?thesis using assms(1) Some x n refused [of m u Fetch_failed]
        by (auto simp: preflight_and_extract_def FetchAndExtractCache_def Let_def)
    next
      case img: (Some img)
      obtain e p2 s2 where e: "unpack_image h img (p1, s) = (e, p2, s2)" by (metis prod.exhaust)
      show ?thesis
        using assms(1) Some x n img e extracted [of img p1 e m u]
        by (auto simp: preflight_and_extract_def FetchAndExtractCache_def Let_def ExtractCache_img_skipping [OF n(2)])
    qed
  qed
qed

text \<open>A call of the client stops early, with an error or a panic, or it runs the extractor with the checks switched off.\<close>

lemma client_cases:
  assumes "ExtractCache h opts (p, s) = (r, p', s')"
  obtains (early) "\<And>m u. r \<noteq> Ret (m, u, None)" "acts (os_of h) (writes {}) s s'"
  | (late) img p1 s1 m u e where "FetchImg h (ImageName opts) = Some img" "skipping p1"
      "acts (os_of h) (writes {}) s s1" "unpack_image h img (p1, s1) = (e, p', s')" "r = Ret (m, u, e)"
      "CacheDir opts \<noteq> [] \<Longrightarrow> ExtractCacheDir p1 = CacheDir opts"
proof -
  have "(\<forall>m u. r \<noteq> Ret (m, u, None)) \<and> s' = s \<or>
     (\<exists>c p1 p2 s2 ok. set_cache_dir h opts (p1, s) = (ok, p2, s2) \<and>
       (if ok then preflight_and_extract h opts (set_switches h opts c) (p2, s2) = (r, p', s')
        else (\<forall>m u. r \<noteq> Ret (m, u, None)) \<and> s' = s2))"
    using assms
    by (auto simp: ExtractCache_def Let_def split: if_splits prod.splits bool.splits option.splits) blast+
  then consider "\<forall>m u. r \<noteq> Ret (m, u, None)" "s' = s"
    | c p1 p2 s2 ok where "set_cache_dir h opts (p1, s) = (ok, p2, s2)"
       "if ok then preflight_and_extract h opts (set_switches h opts c) (p2, s2) = (r, p', s')
        else (\<forall>m u. r \<noteq> Ret (m, u, None)) \<and> s' = s2" by blast
  then show thesis
  proof cases
    case 1
    then show ?thesis using early by (simp add: acts.none)
  next
    case 2
    have a: "acts (os_of h) (writes {}) s s2" and d: "ok \<Longrightarrow> CacheDir opts \<noteq> [] \<Longrightarrow> ExtractCacheDir p2 = CacheDir opts"
      using 2(1) by (auto simp: set_cache_dir_def split: if_splits prod.splits bool.splits intro: acts_mkdir acts.none)
    show ?thesis
    proof (cases ok)
      case True
      with 2(2) have pe: "preflight_and_extract h opts (set_switches h opts c) (p2, s2) = (r, p', s')" by simp
      show ?thesis
      proof (cases rule: extract_cases [OF pe set_switches_skip])
        case (1 m u e)
        then show ?thesis using early a by simp
      next
        case (2 img p1 m u e)
        then show ?thesis using late a d True by metis
      qed
    next
      case False
      then show ?thesis using 2(2) early a by simp
    qed
  qed
qed

end
