(* ===== verification/Job_Run.thy ===== *)
theory Job_Run
  imports Extract_Run
begin

text \<open>
  Runs of the extraction job: the record of the extracted image, the files of the cache
  directory after a success and after a failure, and when a run succeeds.
\<close>

subsection \<open>The record of the image\<close>

lemma strip_suffix: "suffix (strip ws s) s"
proof (induction ws s rule: strip.induct)
  case (2 ws c s)
  have "suffix (strip ws (drop n s)) (c # s)" if "suffix (strip ws (drop n s)) (drop n s)" for n
    using that by (meson suffix_Cons suffix_drop suffix_order.trans)
  with 2 show ?case by (auto split: option.split)
qed simp

lemma find_None: "find P xs = None \<longleftrightarrow> (\<forall>x \<in> set xs. \<not> P x)"
  by (auto simp: find_None_iff)

lemma strip_fixed: "strip ws s = s \<longleftrightarrow> (\<forall>w \<in> set ws. w \<noteq> [] \<longrightarrow> \<not> has_prefix s w)"
proof (cases s)
  case Nil
  then show ?thesis by (auto simp: has_prefix_def)
next
  case (Cons c t)
  have short: "length (strip ws (drop n t)) \<le> length t" for n
    using suffix_length_le [OF strip_suffix [of ws "drop n t"]] by simp
  have "strip ws s = s \<longleftrightarrow> find (\<lambda>w. w \<noteq> [] \<and> has_prefix s w) ws = None"
  proof (cases "find (\<lambda>w. w \<noteq> [] \<and> has_prefix s w) ws")
    case None
    then show ?thesis by (simp add: Cons)
  next
    case (Some w)
    have "length (strip ws s) \<le> length t" using short Some by (simp add: Cons)
    then have "strip ws s \<noteq> s" using Cons by auto
    then show ?thesis using Some by simp
  qed
  then show ?thesis by (auto simp: find_None)
qed

text \<open>A trimmed name survives being written as a line.\<close>

lemma trim_line:
  assumes "trim_space u = u" "u \<noteq> []"
  shows "trim_space (u @ [CHR 0x0A]) = u"
proof -
  let ?v = "strip white_space u"
  have r: "strip (map rev white_space) (rev ?v) = rev u" using assms(1) by (simp add: trim_space_def rev_swap)
  have "length u \<le> length ?v"
    using suffix_length_le [OF strip_suffix [of "map rev white_space" "rev ?v"]] r by simp
  moreover obtain zs where zs: "u = zs @ ?v" using strip_suffix [of white_space u] by (auto simp: suffix_def)
  ultimately have "zs = []" by (metis add_le_same_cancel2 le_zero_eq length_0_conv length_append)
  then have v: "?v = u" using zs by simp
  have nl: "w \<in> set white_space \<Longrightarrow> last w = CHR 0x0A \<Longrightarrow> w = [CHR 0x0A]" for w
    by (auto simp: white_space_def)
  have "\<not> has_prefix (u @ [CHR 0x0A]) w" if w: "w \<in> set white_space" "w \<noteq> []" for w
  proof
    assume "has_prefix (u @ [CHR 0x0A]) w"
    then obtain x where x: "u @ [CHR 0x0A] = w @ x" by (auto simp: has_prefix_iff)
    show False
    proof (cases x rule: rev_cases)
      case Nil
      then have "w = [CHR 0x0A]" using nl [OF w(1)] x by (metis append.right_neutral last_snoc)
      then show False using x Nil assms(2) by simp
    next
      case (snoc y c)
      then have "has_prefix u w" using x by (auto simp: has_prefix_iff)
      then show False using v w strip_fixed [of white_space u] by blast
    qed
  qed
  then have l: "strip white_space (u @ [CHR 0x0A]) = u @ [CHR 0x0A]" by (simp add: strip_fixed)
  have "strip (map rev white_space) (CHR 0x0A # rev u) = rev u"
    using r v by (simp add: white_space_def has_prefix_def)
  then show ?thesis by (simp add: trim_space_def l)
qed

subsection \<open>The files of the job\<close>

definition job_files :: "'s host \<Rightarrow> string \<Rightarrow> string \<Rightarrow> (string \<times> string) list" where
  "job_files h d url = (case FetchImg h url of
     None \<Rightarrow> []
   | Some img \<Rightarrow>
      (case i_config img of
         Some (Some l) \<Rightarrow>
           (case DetectCacheTypeFromLabels (Some l) of Some ct \<Rightarrow> image_output ct d manifest_dir img | None \<Rightarrow> [])
       | _ \<Rightarrow> []))"

lemma job_files_image:
  "FetchImg h url = Some img \<Longrightarrow> ExtractCacheDir p = d \<Longrightarrow> d \<noteq> [] \<Longrightarrow> job_files h d url = image_files p img"
  by (simp add: job_files_def image_files_def target_dir_def split: option.split)

lemma job_client_acts:
  assumes "ExtractCache h (job_options d url noGpu) (p, s) = (r, p', s')" "d \<noteq> []"
  shows "acts (os_of h) (unpacks (fst ` set (job_files h d url))) s s'"
  using assms(1)
proof (cases rule: client_cases)
  case early
  then show ?thesis by (intro writes_unpacks writes_mono [OF early(2)]) simp
next
  case (late img p1 s1 m u e)
  have "job_files h d url = image_files p1 img"
    using late(1,6) assms(2) by (intro job_files_image) (simp_all add: job_options_def)
  then have "acts (os_of h) (unpacks (fst ` set (job_files h d url))) s1 s'"
    using unpack_image_acts [OF late(4)] by simp
  moreover have "acts (os_of h) (unpacks (fst ` set (job_files h d url))) s s1"
    by (intro writes_unpacks writes_mono [OF late(3)]) simp
  ultimately show ?thesis by (rule acts_trans [rotated])
qed

context file_system
begin

lemma unpacks_frame:
  assumes "acts os (unpacks X) s s'" "q \<notin> X" "\<not> under MCVBuildDir q"
  shows "read s' q = read s q"
  using assms(1) by (rule acts_frame) (use assms(2,3) in \<open>auto simp: unpacks_def writes_def split: action.splits\<close>)

lemma mkdir_frame: "acts os (writes {}) s s' \<Longrightarrow> read s' q = read s q"
  by (erule acts_frame) (auto simp: writes_def split: action.splits)

lemma job_client_read:
  assumes h: "os_of h = os" and run: "ExtractCache h (job_options d url noGpu) (p, s) = (Ret (m, u, None), p', s')"
    and q: "d \<noteq> []" "\<not> under MCVBuildDir q"
  shows "read s' q = overlay (read s) (job_files h d url) q"
  using run
proof (cases rule: client_cases)
  case (late img p1 s1 m u e)
  have "job_files h d url = image_files p1 img"
    using late(1,6) q(1) by (intro job_files_image) (simp_all add: job_options_def)
  moreover have "read s1 q = read s q" using late(3) h mkdir_frame by simp
  ultimately show ?thesis
    using unpack_image_read [OF h _ q(2)] late(4,5) by (simp add: map_add_def split: option.split)
qed blast

text \<open>Recording an image: what a failure leaves of the record, and what a success makes of the files.\<close>

lemma record_failed:
  assumes h: "os_of h = os" and run: "extract_and_record h d url noGpu (p, s) = (r, p', s')" and r: "r \<noteq> Ret None"
    and d: "d \<noteq> []" "\<not> under MCVBuildDir (init_file d)" "init_file d \<notin> fst ` set (job_files h d url)"
  shows "read s' (init_file d) = read s (init_file d)"
proof -
  let ?q = "init_file d"
  note nt = control_distinct(1) [OF d(1)]
  obtain ok s1 where w: "os (Write_file (init_file_tmp d) (url @ [CHR 0x0A]) 420) s = (ok, s1)" by fastforce
  have w': "read s1 ?q = read s ?q" using frame [OF w, of ?q] nt by simp
  show ?thesis
  proof (cases ok)
    case False
    then show ?thesis using run w w' h by (auto simp: extract_and_record_def)
  next
    case True
    obtain r2 p2 s2 where e: "ExtractCache h (job_options d url noGpu) (p, s1) = (r2, p2, s2)" by (metis prod.exhaust)
    have e': "read s2 ?q = read s1 ?q"
      using unpacks_frame [OF job_client_acts [OF e d(1), unfolded h] d(3,2)] .
    have f1: "os (Remove_file (init_file_tmp d)) x = (b, y) \<Longrightarrow> read y ?q = read x ?q" for x b y
      using frame [of "Remove_file (init_file_tmp d)" x b y ?q] nt by simp
    have f2: "os (Flock l b') x = (b, y) \<Longrightarrow> read y ?q = read x ?q" for l b' x b y
      using frame [of "Flock l b'" x b y ?q] by simp
    have f3: "os (Rename (init_file_tmp d) ?q) x = (False, y) \<Longrightarrow> read y ?q = read x ?q" for x y
      using rename_atomic by simp
    show ?thesis
      using run [unfolded extract_and_record_def deleteFile_def h] w True e r e' w'
      by (auto split: outcome.splits prod.splits option.splits bool.splits dest!: f1 f2 f3)
  qed
qed

lemma record_succeeded:
  assumes h: "os_of h = os" and run: "extract_and_record h d url noGpu (p, s) = (Ret None, p', s')"
    and d: "d \<noteq> []" "\<not> under MCVBuildDir (init_file d)"
  shows "q \<noteq> init_file d \<Longrightarrow> q \<noteq> init_file_tmp d \<Longrightarrow> \<not> under MCVBuildDir q \<Longrightarrow>
      read s' q = overlay (read s) (job_files h d url) q"
    and "init_file_tmp d \<notin> fst ` set (job_files h d url) \<Longrightarrow>
      read s' (init_file d) = Some (url @ [CHR 0x0A]) \<and> read s' (init_file_tmp d) = None"
proof -
  note nt = control_distinct(1) [OF d(1)]
  from run h obtain s1 m u p2 s2 where
    w: "os (Write_file (init_file_tmp d) (url @ [CHR 0x0A]) 420) s = (True, s1)"
    and e: "ExtractCache h (job_options d url noGpu) (p, s1) = (Ret (m, u, None), p2, s2)"
    and n: "os (Rename (init_file_tmp d) (init_file d)) s2 = (True, s')"
    by (auto simp: extract_and_record_def split: outcome.splits prod.splits option.splits bool.splits)
  show "read s' q = overlay (read s) (job_files h d url) q"
    if "q \<noteq> init_file d" "q \<noteq> init_file_tmp d" "\<not> under MCVBuildDir q"
    using frame [OF n, of q] job_client_read [OF h e d(1) that(3)] write_read [OF w] that
    by (simp add: map_add_def split: option.split)
  show "read s' (init_file d) = Some (url @ [CHR 0x0A]) \<and> read s' (init_file_tmp d) = None"
    if t: "init_file_tmp d \<notin> fst ` set (job_files h d url)"
  proof -
    have "read s2 (init_file_tmp d) = read s1 (init_file_tmp d)"
      using unpacks_frame [OF job_client_acts [OF e d(1), unfolded h] t tmp_not_build [OF d]] .
    then show ?thesis using renamed [OF n] nt written [OF w] by simp
  qed
qed

end

subsection \<open>Clearing a directory\<close>

lemma clear_loop_acts:
  "clear_loop os d ns s = (ok, s') \<Longrightarrow> acts os (\<lambda>a. \<exists>n \<in> set ns. a = Remove_all (path_join [d, n])) s s'"
proof (induction ns arbitrary: s)
  case Nil
  then show ?case by (simp add: acts.none)
next
  case (Cons n ns)
  have m: "acts os (\<lambda>a. \<exists>n \<in> set ns. a = Remove_all (path_join [d, n])) x s' \<Longrightarrow>
      acts os (\<lambda>a. \<exists>n \<in> set (n # ns). a = Remove_all (path_join [d, n])) x s'" for x
    by (erule acts_mono) auto
  show ?case
  proof (cases "n = ''.extract.lock'' \<or> n = ''.initialized.tmp''")
    case True
    then show ?thesis using Cons m by simp
  next
    case False
    obtain b s1 where b: "os (Remove_all (path_join [d, n])) s = (b, s1)" by fastforce
    then have "acts os (\<lambda>a. \<exists>n \<in> set (n # ns). a = Remove_all (path_join [d, n])) s s1"
      by (intro acts_one [where a = "Remove_all (path_join [d, n])"]) auto
    then show ?thesis using Cons False b m [of s1] by (cases b) (auto intro: acts_trans)
  qed
qed

context file_system
begin

lemma removals_shrink:
  assumes "acts os P s s'" "\<And>a. P a \<Longrightarrow> \<exists>d. a = Remove_all d"
  shows "read s' q = None \<or> read s' q = read s q"
  using assms(1)
proof (induction rule: acts.induct)
  case (step s s1 a ok s2)
  then obtain d where "a = Remove_all d" using assms(2) by blast
  then show ?case using step.IH shrinks step.hyps(3) by metis
qed simp

lemma clear_loop_shrinks:
  assumes "clear_loop os d ns s = (ok, s')"
  shows "read s' q = None \<or> read s' q = read s q"
  by (rule removals_shrink [OF clear_loop_acts [OF assms]]) blast

lemma clear_loop_clears:
  "clear_loop os d ns s = (True, s') \<Longrightarrow> n \<in> set ns \<Longrightarrow> n \<noteq> ''.extract.lock'' \<Longrightarrow> n \<noteq> ''.initialized.tmp'' \<Longrightarrow>
   under (path_join [d, n]) q \<Longrightarrow> read s' q = None"
proof (induction ns arbitrary: s)
  case (Cons m ns)
  show ?case
  proof (cases "m = n")
    case True
    then obtain s1 where s1: "os (Remove_all (path_join [d, n])) s = (True, s1)" "clear_loop os d ns s1 = (True, s')"
      using Cons.prems by (auto split: prod.splits bool.splits)
    then show ?thesis using clear_loop_shrinks [OF s1(2), of q] removed [OF s1(1) Cons.prems(5)] by auto
  next
    case False
    then show ?thesis using Cons by (auto split: if_splits prod.splits bool.splits)
  qed
qed simp

end

context directory_system
begin

lemma clearDirectory_shrinks:
  assumes "os_of h = os" "clearDirectory h d s = (ok, s')"
  shows "read s' q = None \<or> read s' q = read s q"
  using assms clear_loop_shrinks by (auto simp: clearDirectory_def split: option.splits)

lemma clearDirectory_clears:
  assumes "os_of h = os" "read_dir_of h = read_dir" "clearDirectory h d s = (True, s')" "d \<noteq> []" "inside d q" "\<not> control d q"
  shows "read s' q = None"
proof (cases "read s q")
  case None
  then show ?thesis using clearDirectory_shrinks [OF assms(1,3), of q] by simp
next
  case (Some c)
  from assms(1-3) obtain ns where ns: "read_dir s d = Some ns" "clear_loop os d ns s = (True, s')"
    by (auto simp: clearDirectory_def split: option.splits)
  then obtain n where n: "n \<in> set ns" "under (path_join [d, n]) q" using listing [OF ns(1) Some assms(5)] by blast
  then have "n \<noteq> ''.extract.lock''" "n \<noteq> ''.initialized.tmp''"
    using assms(4,6) control_names(3) [OF assms(4)] by (auto simp: control_def)
  then show ?thesis using clear_loop_clears [OF ns(2) n(1) _ _ n(2)] by blast
qed

end

subsection \<open>One run of the job\<close>

definition recorded :: "'s host \<Rightarrow> 's \<Rightarrow> string \<Rightarrow> string option" where
  "recorded h s d = map_option trim_space (read_of h s (init_file d))"

text \<open>Before the record is looked at, nothing changes but the lock file.\<close>

definition prepares :: "string \<Rightarrow> action \<Rightarrow> bool" where
  "prepares d a = (case a of Mkdir_all _ _ \<Rightarrow> True | Chown _ _ _ \<Rightarrow> True | Flock _ _ \<Rightarrow> True | Close _ \<Rightarrow> True
     | Open_create q m \<Rightarrow> q = lock_file d | _ \<Rightarrow> False)"

lemma prepares_frame: "prepares d a \<Longrightarrow> q \<noteq> lock_file d \<Longrightarrow> \<not> touches a q"
  by (cases a) (auto simp: prepares_def)

lemma job_cases:
  assumes "ExtractCache_job h d url noGpu (p, s) = (r, p', s')"
  obtains (failed) e where "r = Ret (Some e)" "acts (os_of h) (prepares d) s s'"
  | (present) s1 where "acts (os_of h) (prepares d) s s1" "recorded h s1 d = Some url" "r = Ret None" "acts (os_of h) (prepares d) s1 s'"
  | (not_cleared) e s1 s2 where "acts (os_of h) (prepares d) s s1" "recorded h s1 d \<noteq> Some url" "recorded h s1 d \<noteq> None"
      "clearDirectory h d s1 = (False, s2)" "r = Ret (Some e)" "acts (os_of h) (prepares d) s2 s'"
  | (fresh) s1 s2 where "acts (os_of h) (prepares d) s s1" "recorded h s1 d = None"
      "extract_and_record h d url noGpu (p, s1) = (r, p', s2)" "acts (os_of h) (prepares d) s2 s'"
  | (replaced) s1 s2 s3 where "acts (os_of h) (prepares d) s s1" "recorded h s1 d \<noteq> Some url" "recorded h s1 d \<noteq> None"
      "clearDirectory h d s1 = (True, s2)" "extract_and_record h d url noGpu (p, s2) = (r, p', s3)" "acts (os_of h) (prepares d) s3 s'"
proof -
  let ?os = "os_of h"
  obtain b1 s1 where o1: "?os (Mkdir_all d 511) s = (b1, s1)" by fastforce
  obtain b2 s2 where o2: "?os (Chown d 1000 1000) s1 = (b2, s2)" by fastforce
  obtain b3 s3 where o3: "?os (Open_create (lock_file d) 384) s2 = (b3, s3)" by fastforce
  obtain b4 s4 where o4: "?os (Flock (lock_file d) True) s3 = (b4, s4)" by fastforce
  have st: "acts ?os (prepares d) x y \<Longrightarrow> ?os a y = (b, z) \<Longrightarrow> prepares d a \<Longrightarrow> acts ?os (prepares d) x z" for x y a b z
    by (rule acts.step)
  have a1: "acts ?os (prepares d) s s1" by (rule st [OF acts.none o1]) (simp add: prepares_def)
  have a2: "acts ?os (prepares d) s s2" by (rule st [OF a1 o2]) (simp add: prepares_def)
  have a3: "acts ?os (prepares d) s s3" by (rule st [OF a2 o3]) (simp add: prepares_def)
  have a4: "acts ?os (prepares d) s s4" by (rule st [OF a3 o4]) (simp add: prepares_def)
  have cl: "acts ?os (prepares d) x (snd (?os (Close (lock_file d)) x))" for x
    by (rule st [OF acts.none surjective_pairing]) (simp add: prepares_def)
  show thesis
  proof (cases "b1 \<and> b3 \<and> b4")
    case False
    then show ?thesis
      using assms o1 o2 o3 o4 a1 a3 acts_trans [OF a4 cl] failed
      by (cases b1; cases b3; cases b4) (auto simp: ExtractCache_job_def locked_job_def)
  next
    case True
    define st where "st = locked_job h d url noGpu (p, s3)"
    obtain x where x: "st = (r, p', x)" "s' = snd (?os (Close (lock_file d)) x)"
      using assms o1 o2 o3 True by (cases st) (auto simp: ExtractCache_job_def st_def)
    show ?thesis
    proof (cases "read_of h s4 (init_file d)")
      case None
      then show ?thesis
        using x o4 True a4 cl fresh [of s4 x] by (auto simp: st_def locked_job_def recorded_def)
    next
      case (Some data)
      show ?thesis
      proof (cases "trim_space data = url")
        case eq: True
        then show ?thesis
          using x o4 True Some a4 cl present [of s4] by (auto simp: st_def locked_job_def recorded_def)
      next
        case ne: False
        obtain b5 s5 where c: "clearDirectory h d s4 = (b5, s5)" by fastforce
        show ?thesis
          using x o4 True Some ne c a4 cl not_cleared [of s4 s5 Job_clear] replaced [of s4 s5 x]
          by (cases b5) (auto simp: st_def locked_job_def recorded_def)
      qed
    qed
  qed
qed

context directory_system
begin

lemma prepared:
  assumes "os_of h = os" "acts (os_of h) (prepares d) s s'" "q \<noteq> lock_file d"
  shows "read s' q = read s q"
  using assms(2) unfolding assms(1) by (rule acts_frame) (rule prepares_frame [OF _ assms(3)])

lemma recorded_prepared:
  assumes "os_of h = os" "read_of h = read" "d \<noteq> []" "acts (os_of h) (prepares d) s s'"
  shows "recorded h s' d = recorded h s d"
  using prepared [OF assms(1,4), of "init_file d"] control_distinct(2) [OF assms(3)] by (simp add: recorded_def assms(2))

lemma extracted_files:
  assumes h: "os_of h = os" and d: "d \<noteq> []" "\<not> under MCVBuildDir (init_file d)"
    and run: "extract_and_record h d url noGpu (p, s1) = (Ret None, p', s2)" "acts (os_of h) (prepares d) s2 s'"
    and q: "\<not> control d q" "\<not> under MCVBuildDir q"
  shows "read s' q = overlay (read s1) (job_files h d url) q"
proof -
  have "q \<noteq> init_file d" "q \<noteq> init_file_tmp d" "q \<noteq> lock_file d"
    using q(1) by (auto simp: control_def under_def)
  then show ?thesis
    using record_succeeded(1) [OF h run(1) d _ _ q(2)] prepared [OF h run(2)] by simp
qed

lemma job_record:
  assumes h: "os_of h = os" "read_of h = read"
    and d: "d \<noteq> []" "\<not> under MCVBuildDir (init_file d)" "init_file d \<notin> fst ` set (job_files h d url)"
    and run: "ExtractCache_job h d url noGpu (p, s) = (r, p', s')" and rec: "recorded h s' d = Some url"
  shows "recorded h s d = Some url \<or> r = Ret None \<and>
     (\<forall>q \<in> fst ` set (job_files h d url). \<not> control d q \<longrightarrow> \<not> under MCVBuildDir q \<longrightarrow>
        read s' q = map_of (rev (job_files h d url)) q)"
proof -
  note same = recorded_prepared [OF h d(1)]
  have shrunk: "recorded h y d = Some url \<Longrightarrow> recorded h x d = Some url" if "clearDirectory h d x = (b, y)" for x b y
    using clearDirectory_shrinks [OF h(1) that, of "init_file d"] by (auto simp: recorded_def h(2))
  have finished: "recorded h x d = Some url \<or> r = Ret None \<and>
     (\<forall>q \<in> fst ` set (job_files h d url). \<not> control d q \<longrightarrow> \<not> under MCVBuildDir q \<longrightarrow>
        read s' q = map_of (rev (job_files h d url)) q)"
    if x: "extract_and_record h d url noGpu (p, x) = (r, p', y)" and y: "acts (os_of h) (prepares d) y s'" for x y
  proof (cases "r = Ret None")
    case True
    have "read s' q = map_of (rev (job_files h d url)) q"
      if "q \<in> fst ` set (job_files h d url)" "\<not> control d q" "\<not> under MCVBuildDir q" for q
    proof -
      have "map_of (rev (job_files h d url)) q \<noteq> None" using that(1) by (simp add: map_of_eq_None_iff)
      then show ?thesis using extracted_files [OF h(1) d(1,2) x [unfolded True] y that(2,3)] by (auto simp: map_add_def)
    qed
    with True show ?thesis by blast
  next
    case False
    from record_failed [OF h(1) x this d] same [OF y] rec show ?thesis by (simp add: recorded_def h(2))
  qed
  from run show ?thesis
  proof (cases rule: job_cases)
    case (not_cleared e s1 s2)
    then show ?thesis using shrunk same rec by metis
  next
    case (fresh s1 s2)
    then show ?thesis using finished [OF fresh(3,4)] by simp
  next
    case (replaced s1 s2 s3)
    then show ?thesis using finished [OF replaced(5,6)] shrunk by blast
  qed (use same rec in auto)
qed

text \<open>A success that had work to do extracted the image, on a directory without a record or a cleared one.\<close>

lemma job_worked:
  assumes h: "os_of h = os" "read_of h = read" "read_dir_of h = read_dir" and d: "d \<noteq> []"
    and run: "ExtractCache_job h d url noGpu (p, s) = (Ret None, p', s')" and rec: "recorded h s d \<noteq> Some url"
  obtains s1 s2 where "extract_and_record h d url noGpu (p, s1) = (Ret None, p', s2)" "acts (os_of h) (prepares d) s2 s'"
    "\<forall>q. inside d q \<longrightarrow> \<not> control d q \<longrightarrow> read s1 q = (if recorded h s d = None then read s q else None)"
  using run
proof (cases rule: job_cases)
  case (fresh s1 s2)
  have "read s1 q = read s q" if "\<not> control d q" for q
    by (rule prepared [OF h(1) fresh(1)]) (use that in \<open>auto simp: control_def under_def\<close>)
  then show ?thesis
    using fresh recorded_prepared [OF h(1,2) d fresh(1)] by (intro that [of s1 s2]) auto
next
  case (replaced s1 s2 s3)
  then show ?thesis
    using recorded_prepared [OF h(1,2) d replaced(1)] clearDirectory_clears [OF h(1,3) replaced(4) d]
    by (intro that [of s2 s3]) auto
qed (use recorded_prepared [OF h(1,2) d] rec in auto)

lemma job_contents:
  assumes h: "os_of h = os" "read_of h = read" "read_dir_of h = read_dir"
    and d: "d \<noteq> []" "\<not> under MCVBuildDir (init_file d)" "init_file_tmp d \<notin> fst ` set (job_files h d url)"
    and url: "url \<noteq> []" "trim_space url = url"
    and run: "ExtractCache_job h d url noGpu (p, s) = (Ret None, p', s')" and rec: "recorded h s d \<noteq> Some url"
  shows "recorded h s' d = Some url"
    and "inside d q \<Longrightarrow> \<not> control d q \<Longrightarrow> \<not> under MCVBuildDir q \<Longrightarrow>
      read s' q = overlay (if recorded h s d = None then read s else Map.empty) (job_files h d url) q"
proof -
  obtain s1 s2 where e: "extract_and_record h d url noGpu (p, s1) = (Ret None, p', s2)" "acts (os_of h) (prepares d) s2 s'"
    and s1: "\<forall>q. inside d q \<longrightarrow> \<not> control d q \<longrightarrow> read s1 q = (if recorded h s d = None then read s q else None)"
    by (rule job_worked [OF h d(1) run rec])
  show "recorded h s' d = Some url"
    using record_succeeded(2) [OF h(1) e(1) d] recorded_prepared [OF h(1,2) d(1) e(2)] trim_line [OF url(2,1)]
    by (simp add: recorded_def h(2))
  show "read s' q = overlay (if recorded h s d = None then read s else Map.empty) (job_files h d url) q"
    if "inside d q" "\<not> control d q" "\<not> under MCVBuildDir q"
    using extracted_files [OF h(1) d(1,2) e that(2,3)] s1 that(1,2) by (auto simp: map_add_def split: option.split)
qed

end

subsection \<open>When a run succeeds\<close>

text \<open>An operating system on which nothing fails that can be done.\<close>

definition obliging :: "'s os \<Rightarrow> ('s \<Rightarrow> string \<Rightarrow> string option) \<Rightarrow> bool" where
  "obliging os read \<longleftrightarrow>
     (\<forall>a s. (case a of Rename p q \<Rightarrow> read s p \<noteq> None | Remove_file p \<Rightarrow> read s p \<noteq> None | _ \<Rightarrow> True) \<longrightarrow> fst (os a s))"

definition good_layer :: "layer \<Rightarrow> bool" where
  "good_layer l \<longleftrightarrow> (case ly_blob l of Some (Some evs) \<Rightarrow> Read_error \<notin> set evs | _ \<Rightarrow> False)"

text \<open>A labelled image with compat layers, each of them a readable archive.\<close>

definition good_image :: "img \<Rightarrow> bool" where
  "good_image img \<longleftrightarrow>
     (case i_config img of Some (Some l) \<Rightarrow> DetectCacheTypeFromLabels (Some l) \<noteq> None | _ \<Rightarrow> False) \<and>
     (case i_layers img of None \<Rightarrow> False
      | Some ls \<Rightarrow> list_all (\<lambda>l. ly_media l \<noteq> None) ls \<and> list_ex is_compat ls \<and> list_all good_layer (filter is_compat ls))"

lemma obliging_ok:
  assumes "obliging os read" "case a of Rename p q \<Rightarrow> read s p \<noteq> None | Remove_file p \<Rightarrow> read s p \<noteq> None | _ \<Rightarrow> True"
  shows "\<exists>s'. os a s = (True, s')"
proof -
  have "fst (os a s)" using assms unfolding obliging_def by blast
  then show ?thesis by (cases "os a s") simp
qed

lemma obliging_simple:
  assumes "obliging os read"
  shows "\<exists>s'. os (Mkdir_all d m) s = (True, s')" "\<exists>s'. os (Write_file q c m) s = (True, s')"
    "\<exists>s'. os (Open_create q m) s = (True, s')" "\<exists>s'. os (Flock q b) s = (True, s')" "\<exists>s'. os (Remove_all q) s = (True, s')"
  by (rule obliging_ok [OF assms], simp)+

lemma writeFile_ok:
  assumes "obliging os read"
  shows "\<exists>s'. writeFile os q c m s = (True, s')"
proof -
  obtain s1 where "os (Mkdir_all (path_dir q) 493) s = (True, s1)" using obliging_simple(1) [OF assms] by blast
  then show ?thesis using obliging_simple(2) [OF assms] by (simp add: writeFile_def)
qed

lemma extract_entry_ok:
  assumes "obliging os read"
  shows "\<exists>r' s'. extract_entry os cp mp cd md h r s = (Inr r', s')"
proof -
  define q where "q = (if has_prefix (h_name h) cp then path_join [cd, trim_prefix (h_name h) cp]
     else path_join [md, trim_prefix (h_name h) mp])"
  obtain s1 where s1: "os (Mkdir_all (path_dir q) 493) s = (True, s1)" using obliging_simple(1) [OF assms] by blast
  obtain s2 where s2: "os (Mkdir_all q (h_mode h)) s1 = (True, s2)" using obliging_simple(1) [OF assms] by blast
  obtain s3 where s3: "writeFile os q (h_content h) (h_mode h) s1 = (True, s3)" using writeFile_ok [OF assms] by blast
  show ?thesis
    using s1 s2 s3
    by (cases r; cases "h_typeflag h"; cases "has_prefix (h_name h) cp") (auto simp: extract_entry_def q_def Let_def)
qed

lemma extract_loop_ok:
  assumes "obliging os read"
  shows "Read_error \<notin> set evs \<Longrightarrow> \<exists>r' s'. extract_loop (extract_entry os cp mp cd md) evs r s = (Inr r', s')"
proof (induction evs arbitrary: r s)
  case (Cons e evs)
  then obtain h where e: "e = Entry h" by (cases e) auto
  obtain r1 s1 where "extract_entry os cp mp cd md h r s = (Inr r1, s1)" using extract_entry_ok [OF assms] by blast
  then show ?case using Cons e by simp
qed simp

lemma ExtractCacheDirectory_ok:
  assumes "obliging os read" "Read_error \<notin> set evs" "ct = ''triton'' \<or> ct = ''vllm''"
  shows "\<exists>r s'. ExtractCacheDirectory os p (Some evs) ct s = (Inr r, s')"
proof -
  have "\<exists>r s'. extractCacheAndManifestDirectory os (Some evs) cp mp cd md s = (Inr r, s')" for cp mp cd md
  proof -
    obtain s1 where s1: "os (Mkdir_all cd 493) s = (True, s1)" using obliging_simple(1) [OF assms(1)] by blast
    obtain s2 where s2: "os (Mkdir_all md 493) s1 = (True, s2)" using obliging_simple(1) [OF assms(1)] by blast
    show ?thesis
      using extract_loop_ok [OF assms(1,2), of cp mp cd md "([], 0)" s2] s1 s2
      by (simp add: extractCacheAndManifestDirectory_def)
  qed
  note ok = this
  show ?thesis
    using assms(3)
  proof
    assume "ct = ''triton''"
    then show ?thesis
      using ok [of "''io.triton.cache/''" "''io.triton.manifest/''" "ExtractCacheDir p" "ExtractManifestDir p"]
      by (auto simp: ExtractCacheDirectory_def ExtractTritonCacheDirectory_def)
  next
    assume "ct = ''vllm''"
    then show ?thesis
      using ok [of "''io.vllm.cache''" "''io.vllm.manifest/''" "ExtractCacheDir p" "ExtractManifestDir p"]
      by (auto simp: ExtractCacheDirectory_def ExtractVLLMCacheDirectory_def)
  qed
qed

lemma compat_loop_ok:
  assumes "obliging os read" "ct = ''triton'' \<or> ct = ''vllm''"
  shows "list_all good_layer ls \<Longrightarrow> \<exists>r s'. compat_loop os p ct ls acc s = (Inr r, s')"
proof (induction ls arbitrary: acc s)
  case (Cons l ls)
  then obtain evs where evs: "ly_blob l = Some (Some evs)" "Read_error \<notin> set evs"
    by (auto simp: good_layer_def split: option.splits)
  obtain r1 s1 where "ExtractCacheDirectory os p (Some evs) ct s = (Inr r1, s1)"
    using ExtractCacheDirectory_ok [OF assms(1) evs(2) assms(2)] by blast
  then show ?case using Cons evs by (simp add: split_beta)
qed simp

lemma media_loop_known: "list_all (\<lambda>l. ly_media l \<noteq> None) ls \<Longrightarrow> media_loop ls = Some (filter is_compat ls)"
  by (induction ls) (auto simp: is_compat_def)

lemma unpack_image_ok:
  assumes "obliging (os_of h) read" "good_image img"
  shows "\<exists>p' s'. unpack_image h img (p, s) = (None, p', s')"
proof -
  obtain l ct where l: "i_config img = Some (Some l)" "DetectCacheTypeFromLabels (Some l) = Some ct"
    using assms(2) by (auto simp: good_image_def split: option.splits)
  obtain ls where ls: "i_layers img = Some ls" "list_all (\<lambda>l. ly_media l \<noteq> None) ls" "list_ex is_compat ls"
      "list_all good_layer (filter is_compat ls)"
    using assms(2) by (auto simp: good_image_def split: option.splits)
  have ne: "ls \<noteq> []" "filter is_compat ls \<noteq> []" using ls(3) by (auto simp: list_ex_iff filter_empty_conv)
  note ct = detect_type [OF l(2)]
  obtain s1 where s1: "os_of h (Mkdir_all manifest_dir 493) s = (True, s1)" using obliging_simple(1) [OF assms(1)] by blast
  define p1 where "p1 = p\<lparr>ExtractManifestDir := manifest_dir, ExtractCacheDir := target_dir ct (p\<lparr>ExtractManifestDir := manifest_dir\<rparr>)\<rparr>"
  obtain r s2 where "compat_loop (os_of h) p1 ct (filter is_compat ls) ([], 0) s1 = (Inr r, s2)"
    using compat_loop_ok [OF assms(1) ct ls(4)] by blast
  then have "extract_layers (os_of h) p1 img ct s1 = (Inr r, s2)"
    using ls(1) ne media_loop_known [OF ls(2)] ct by (auto simp: extract_layers_def extractCompatImg_def)
  then have u: "unpack_image h img (p, s) =
      with_cleanup (os_of h) (None, if validateExtractedCacheSize l ct (snd r) then p1 else warn Size_check p1, s2)"
    using l s1 by (simp add: unpack_image_def p1_def Let_def split_beta)
  show ?thesis unfolding u by (auto simp: with_cleanup_def split: prod.split)
qed

text \<open>Without a GPU the client runs no check, so a readable image is enough.\<close>

lemma job_client_ok:
  assumes os: "obliging (os_of h) read" and img: "FetchImg h url = Some img" "good_image img"
    and h: "conf_dir_ok h" "level_ok h ''info''" and p: "once_done p \<longleftrightarrow> cfg_instance p \<noteq> None"
    and ne: "d \<noteq> []" "url \<noteq> []"
  shows "\<exists>p' s'. ExtractCache h (job_options d url True) (p, s) = (Ret ([], [], None), p', s')"
proof -
  obtain p1 c where p1: "(if cfg_instance p = None then Initialize h p else (True, p)) = (True, p1)" "cfg_instance p1 = Some c"
    using h(1) p by (auto simp: Initialize_def)
  let ?o = "job_options d url True"
  have url: "ImageName ?o = url" by (simp add: job_options_def)
  let ?c = "set_switches h ?o c"
  have c: "\<not> IsGPUEnabled ?c" "IsSkipPrecheckEnabled ?c"
    by (auto simp: set_switches_def job_options_def IsGPUEnabled_def IsSkipPrecheckEnabled_def Let_def)
  define p0 where "p0 = p1\<lparr>cfg_instance := Some ?c, ExtractCacheDir := d\<rparr>"
  have sk: "skipping p0" and same: "p0\<lparr>cfg_instance := Some ?c\<rparr> = p0" "cfg_instance p0 = Some ?c"
    using c(2) by (simp_all add: skipping_def p0_def)
  obtain s1 where s1: "os_of h (Mkdir_all d 493) s = (True, s1)" using obliging_simple(1) [OF os] by blast
  obtain p2 s2 where u: "unpack_image h img (p0, s1) = (None, p2, s2)" using unpack_image_ok [OF os img(2)] by blast
  have cd: "set_cache_dir h ?o (detect_warning h ?o (p1\<lparr>cfg_instance := Some ?c\<rparr>), s) = (True, p0, s1)"
    using s1 ne(1) by (simp add: set_cache_dir_def job_options_def detect_warning_def p0_def)
  have "preflight_and_extract h ?o ?c (p0, s1) = (Ret ([], [], None), p2, s2)"
    using c(1) img(1) u ExtractCache_img_skipping [OF sk, of h False img s1]
    by (simp add: preflight_and_extract_def new_extractor_def FetchAndExtractCache_def Let_def same url)
  then have "ExtractCache h ?o (p, s) = (Ret ([], [], None), p2, s2)"
    using p1 cd h(2) ne(2)
    by (simp add: ExtractCache_def ConfigureLogging_def Let_def) (simp add: job_options_def)
  then show ?thesis by blast
qed

lemma clear_loop_ok: "obliging os read \<Longrightarrow> \<exists>s'. clear_loop os d ns s = (True, s')"
proof (induction ns arbitrary: s)
  case (Cons n ns)
  obtain s1 where "os (Remove_all (path_join [d, n])) s = (True, s1)" using obliging_simple(5) [OF Cons.prems] by blast
  then show ?case using Cons by simp
qed simp

context file_system
begin

lemma record_ok:
  assumes h: "os_of h = os" and os: "obliging os read" and img: "FetchImg h url = Some img" "good_image img"
    and c: "conf_dir_ok h" "level_ok h ''info''" and p: "once_done p \<longleftrightarrow> cfg_instance p \<noteq> None"
    and d: "d \<noteq> []" "\<not> under MCVBuildDir (init_file d)" "init_file_tmp d \<notin> fst ` set (job_files h d url)" and url: "url \<noteq> []"
  shows "\<exists>p' s'. extract_and_record h d url True (p, s) = (Ret None, p', s')"
proof -
  obtain s1 where w: "os (Write_file (init_file_tmp d) (url @ [CHR 0x0A]) 420) s = (True, s1)"
    using obliging_simple(2) [OF os] by blast
  obtain p2 s2 where e: "ExtractCache h (job_options d url True) (p, s1) = (Ret ([], [], None), p2, s2)"
    using job_client_ok [of h read url img p d s1] os img c p d(1) url by (auto simp: h)
  have "read s2 (init_file_tmp d) = read s1 (init_file_tmp d)"
    using unpacks_frame [OF job_client_acts [OF e d(1), unfolded h] d(3) tmp_not_build [OF d(1,2)]] .
  then have "read s2 (init_file_tmp d) \<noteq> None" using written [OF w] by simp
  then obtain s3 where "os (Rename (init_file_tmp d) (init_file d)) s2 = (True, s3)"
    using obliging_ok [OF os, where a = "Rename (init_file_tmp d) (init_file d)" and s = s2] by auto
  then show ?thesis using w e by (simp add: extract_and_record_def h)
qed

lemma job_ok:
  assumes h: "os_of h = os" "read_of h = read" and os: "obliging os read" "\<And>s. read_dir_of h s d \<noteq> None"
    and img: "FetchImg h url = Some img" "good_image img"
    and c: "conf_dir_ok h" "level_ok h ''info''" and p: "once_done p \<longleftrightarrow> cfg_instance p \<noteq> None"
    and d: "d \<noteq> []" "\<not> under MCVBuildDir (init_file d)" "init_file_tmp d \<notin> fst ` set (job_files h d url)" and url: "url \<noteq> []"
  shows "\<exists>p' s'. ExtractCache_job h d url True (p, s) = (Ret None, p', s')"
proof -
  obtain s1 where s1: "os (Mkdir_all d 511) s = (True, s1)" using obliging_simple(1) [OF os(1)] by blast
  obtain b s2 where s2: "os (Chown d 1000 1000) s1 = (b, s2)" by fastforce
  obtain s3 where s3: "os (Open_create (lock_file d) 384) s2 = (True, s3)" using obliging_simple(3) [OF os(1)] by blast
  obtain s4 where s4: "os (Flock (lock_file d) True) s3 = (True, s4)" using obliging_simple(4) [OF os(1)] by blast
  obtain ns where ns: "read_dir_of h s4 d = Some ns" using os(2) by blast
  obtain s5 where s5: "clear_loop os d ns s4 = (True, s5)" using clear_loop_ok [OF os(1)] by blast
  have r: "\<exists>p' s'. extract_and_record h d url True (p, x) = (Ret None, p', s')" for x
    by (rule record_ok [OF h(1) os(1) img c p d url])
  have "\<exists>p' s'. locked_job h d url True (p, s3) = (Ret None, p', s')"
    using r [of s4] r [of s5] s4 s5 ns by (auto simp: locked_job_def clearDirectory_def h split: option.split)
  then show ?thesis using s1 s2 s3 by (auto simp: ExtractCache_job_def h)
qed

end

end
