(* ===== verification/Preflight_Theorems.thy ===== *)
theory Preflight_Theorems
  imports Vllm_Cache
begin

text \<open>
  What the preflight checks of mcv promise, from the kernels' metadata at build time to the
  decision on the machine that pulls the image, with inputs that satisfy the hypotheses.
\<close>

definition ex_gpu :: gpu where
  "ex_gpu = \<lparr>g_backend = ''cuda'', g_arch = ''75'', g_warp_size = 32, g_ptx_version = 82, g_id = 0\<rparr>"

definition ex_amd :: gpu where
  "ex_amd = \<lparr>g_backend = ''hip'', g_arch = ''gfx90a'', g_warp_size = 64, g_ptx_version = 0, g_id = 1\<rparr>"

definition ex_data :: triton_data where
  "ex_data = \<lparr>d_hash = ''h'', d_target = \<lparr>t_backend = ''cuda'', t_arch = Arch_float 75, t_warp_size = 32\<rparr>,
     d_num_warps = 4, d_num_stages = 3, d_debug = False, d_ptx_version = Some 82\<rparr>"

definition ex_env :: triton_env where
  "ex_env = \<lparr>installation_key = Some ''k'', current_target = None, env_vars = Some ''{}'', triton_debug = False, sha256 = rev\<rparr>"

definition ex_entry :: triton_metadata where
  "ex_entry = metadata_of ''d'' ex_data"

text \<open>A kernel's own file targets the device.\<close>

definition data_fits :: "triton_data \<Rightarrow> gpu \<Rightarrow> bool" where
  "data_fits d g \<longleftrightarrow> t_backend (d_target d) = g_backend g \<and> t_warp_size (d_target d) = g_warp_size g \<and>
     same_arch (g_backend g) (ConvertArchToString (t_arch (d_target d))) (g_arch g) \<and>
     (g_backend g = ''cuda'' \<longrightarrow> d_ptx_version d = Some (g_ptx_version g))"

lemma data_fits_metadata: "data_fits d g \<Longrightarrow> fits (metadata_of k d) g \<and> ptx_fits (metadata_of k d) g"
  by (simp add: data_fits_def fits_def ptx_fits_def metadata_of_def Convert_string)

lemma ex_arch: "ConvertArchToString (Arch_float 75) = ''75''"
  by code_simp

lemma ex_usual: "usual_entry ex_entry" "small_entry ex_entry"
  by (simp_all add: usual_entry_def ex_entry_def metadata_of_def ex_data_def ex_arch ascii_def int64_def small_entry_def)

lemma ex_fits: "fits ex_entry ex_gpu" "ptx_fits ex_entry ex_gpu"
  by (simp_all add: fits_def ex_entry_def metadata_of_def ex_data_def ex_arch ex_gpu_def ptx_fits_def same_arch_def)

text \<open>
  C29. The summary label decides exactly: for a Triton cache with any kernels (architectures as
  mcv records them, backends without a hyphen, warp sizes not negative) and any order of Go's
  map iteration, the check of the label that mcv writes splits the devices into those that
  some kernel targets (same backend, warp size and architecture, with or without the prefix
  sm_) and the others, both in their order, and fails exactly when no device is targeted.
\<close>

theorem summary_label_decides:
  assumes "\<And>xs. set (order xs) = set xs" "es \<noteq> []" "\<forall>e \<in> set es. usual_entry e"
  shows "CompareCacheSummaryLabelToGPU config (Some (triton_labels order fmt es bytes)) devs =
    (filter (\<lambda>g. \<exists>e \<in> set es. fits e g) devs, filter (\<lambda>g. \<not> (\<exists>e \<in> set es. fits e g)) devs,
     if \<exists>g \<in> set devs. \<exists>e \<in> set es. fits e g then None else Some No_summary_match)"
  using triton_label_check [OF assms] by (simp add: summary_outcome_def)

theorem summary_label_decides_witness:
  "CompareCacheSummaryLabelToGPU None (Some (triton_labels rev (\<lambda>_. []) [ex_entry] 0)) [ex_gpu] = ([ex_gpu], [], None)"
  using summary_label_decides [of rev "[ex_entry]" None "\<lambda>_. []" 0 "[ex_gpu]"] ex_usual ex_fits by simp

text \<open>
  C30. The check of the kernels' entries decides exactly, and says why: without entries or
  devices, or when a key cannot be computed, it is that error; otherwise it accepts exactly
  when some entry fits some device (with its PTX version on CUDA, and with its key on bare
  metal); when it rejects, it reports a backend mismatch exactly when some entry and some
  device differ in it.
\<close>

theorem entries_decide:
  "CompareTritonEntriesToGPU baremetal E es devInfo =
     (if es = [] then Some No_entries
      else case devInfo of None \<Rightarrow> Some No_devices
      | Some devs \<Rightarrow>
         if baremetal \<and> (installation_key E = None \<or> env_vars E = None) then Some Key_failed
         else if list_ex (\<lambda>e. key_ok baremetal E e \<and> list_ex (\<lambda>g. fits e g \<and> ptx_fits e g) devs) es then None
         else if list_ex (\<lambda>e. list_ex (\<lambda>g. t_backend (m_target e) \<noteq> g_backend g) devs) es then Some Backend_mismatch
         else Some No_compatible_gpu)"
  unfolding entries_outcome by (auto simp: computable_def accepts_def list_ex_iff split: option.splits)

text \<open>
  C31. The check of the entries refines the check of the label: on the same cache and devices,
  whatever the first accepts the second accepts, so a check of the label never turns away an
  image that the manifest would have admitted.
\<close>

theorem entries_refine_label:
  assumes "\<And>xs. set (order xs) = set xs" "\<forall>e \<in> set es. usual_entry e"
    and "CompareTritonEntriesToGPU baremetal E es (Some devs) = None"
  shows "snd (snd (CompareCacheSummaryLabelToGPU config (Some (triton_labels order fmt es bytes)) devs)) = None"
proof -
  have "es \<noteq> []" "\<exists>e \<in> set es. accepts baremetal E devs e"
    using assms(3) by (auto simp: entries_outcome split: if_splits)
  then show ?thesis
    using triton_label_check [OF assms(1) _ assms(2)] by (auto simp: summary_outcome_def accepts_def)
qed

theorem entries_refine_label_witness:
  "CompareTritonEntriesToGPU False ex_env [ex_entry] (Some [ex_gpu]) = None \<and>
   snd (snd (CompareCacheSummaryLabelToGPU None (Some (triton_labels rev (\<lambda>_. []) [ex_entry] 0)) [ex_gpu])) = None"
proof -
  have "CompareTritonEntriesToGPU False ex_env [ex_entry] (Some [ex_gpu]) = None"
    using ex_fits by (simp add: entries_outcome computable_def accepts_def key_ok_def)
  then show ?thesis
    using entries_refine_label [of rev "[ex_entry]" False ex_env "[ex_gpu]"] ex_usual by simp
qed

text \<open>
  C32. A cache fits the machine it was made on: the image of a Triton cache whose files hold a
  kernel for one of the devices passes the check of its label and, whatever the layout of the
  manifest file, the check of its manifest, with and without the keys of the Triton
  installation, which are computed again from the manifest and agree with the stored ones.
\<close>

theorem image_fits_its_machine:
  assumes "\<And>xs. set (order xs) = set xs"
    and "installation_key E \<noteq> None" "env_vars E \<noteq> None"
    and "es = getTritonMetadata E files" "\<forall>e \<in> set es. usual_entry e \<and> small_entry e"
    and "Some (Some d) \<in> set files" "g \<in> set devs" "data_fits d g"
    and "parse_json content = Some (triton_manifest any es)"
  shows "snd (snd (CompareCacheSummaryLabelToGPU config (Some (triton_labels order fmt es bytes)) devs)) = None \<and>
    CompareTritonCacheManifestToGPU num baremetal E (Some content) (Some devs) = None"
proof -
  obtain k where k: "ComputeDummyTritonKey E d = Some k" using compute_key [of E d] assms(2,3) by auto
  then have e: "metadata_of k d \<in> set es" using assms(4,6) by (auto simp: metadata_files)
  have u: "\<forall>e \<in> set es. usual_entry e" using assms(5) by blast
  have a: "accepts baremetal E devs (metadata_of k d)" for baremetal
    using metadata_key_ok e assms(4,7) data_fits_metadata [OF assms(8), of k] by (auto simp: accepts_def)
  have "CompareTritonEntriesToGPU baremetal E es (Some devs) = None" for baremetal
    using e a assms(2,3) by (auto simp: entries_outcome computable_def)
  then have "CompareTritonCacheManifestToGPU num baremetal E (Some content) (Some devs) = None"
    using assms(9) decode_manifest [OF assms(5)] by (simp add: CompareTritonCacheManifestToGPU_def)
  moreover have "snd (snd (CompareCacheSummaryLabelToGPU config (Some (triton_labels order fmt es bytes)) devs)) = None"
    using triton_label_check [OF assms(1) _ u] e assms(7) data_fits_metadata [OF assms(8), of k] by (force simp: summary_outcome_def)
  ultimately show ?thesis by blast
qed

theorem image_fits_its_machine_witness:
  "snd (snd (CompareCacheSummaryLabelToGPU None (Some (triton_labels rev (\<lambda>_. []) (getTritonMetadata ex_env [None, Some (Some ex_data)]) 0)) [ex_amd, ex_gpu])) = None \<and>
   CompareTritonCacheManifestToGPU (\<lambda>_. None) True ex_env
     (Some (print_json (triton_manifest (\<lambda>_. JNull) (getTritonMetadata ex_env [None, Some (Some ex_data)])))) (Some [ex_amd, ex_gpu]) = None"
proof -
  obtain k where k: "ComputeDummyTritonKey ex_env ex_data = Some k"
    using compute_key [of ex_env ex_data] by (auto simp: ex_env_def)
  have m: "getTritonMetadata ex_env [None, Some (Some ex_data)] = [metadata_of k ex_data]" by (simp add: k)
  have u: "usual_entry (metadata_of k ex_data)" "small_entry (metadata_of k ex_data)"
    by (simp_all add: usual_entry_def metadata_of_def ex_data_def ex_arch ascii_def int64_def small_entry_def)
  have j: "parse_json (print_json (triton_manifest (\<lambda>_. JNull) [metadata_of k ex_data])) = Some (triton_manifest (\<lambda>_. JNull) [metadata_of k ex_data])"
    by (rule parse_print_json) (auto simp: triton_manifest_def metadata_json_def omit_zero_def metadata_of_def)
  have f: "data_fits ex_data ex_gpu"
    by (simp add: data_fits_def ex_data_def ex_gpu_def ex_arch same_arch_def)
  show ?thesis
    using image_fits_its_machine [of rev ex_env "[metadata_of k ex_data]" "[None, Some (Some ex_data)]" ex_data ex_gpu "[ex_amd, ex_gpu]"] m u j f
    by (simp add: ex_env_def)
qed

lemma mount_labels_other:
  "mount_labels ms ''cache.triton.image/summary'' = None" "mount_labels ms ''cache.vllm.image/summary'' = None"
  by (simp_all add: mount_labels_def Let_def)

lemma vllm_label_check:
  assumes "parse_summary (vllm_summary order fmt det tc ms) = Some \<lparr>targets = ts\<rparr>"
  shows "CompareCacheSummaryLabelToGPU config (Some (vllm_labels order fmt det tc ms count bytes)) devs = summary_outcome ts devs"
  by (rule label_check [OF _ assms]) (simp add: vllm_labels_def map_add_def mount_labels_other)

lemma detected_builder:
  assumes "dev_init dev" "dev_info dev = Some g" "g_backend g \<noteq> []" "g_warp_size g \<noteq> 0"
  shows "detectActualGPUInfo True True (Some dev) = (g_backend g, g_arch g, g_warp_size g, g_ptx_version g)"
  using assms by (simp add: detectActualGPUInfo_def Let_def)

lemma binary_label_fits:
  assumes order: "\<And>xs. set (order xs) = set xs"
    and m: "m \<in> set ms" "v_format m = ''binary''" "v_binary m \<noteq> []"
    and g: "g_backend g \<noteq> ''UnknownBackend''" "int64 (g_warp_size g)" "int64 (g_ptx_version g)" "g \<in> set devs"
  shows "snd (snd (CompareCacheSummaryLabelToGPU config
     (Some (vllm_labels order fmt (g_backend g, g_arch g, g_warp_size g, g_ptx_version g) tc ms count bytes)) devs)) = None"
proof -
  define det where "det = (g_backend g, g_arch g, g_warp_size g, g_ptx_version g)"
  define es where "es = concat (map v_binary (filter (\<lambda>m. v_format m = ''binary'') ms))"
  define ts where "ts = order (map snd (binary_seen det es []))"
  have "es \<noteq> []" using m by (auto simp: es_def)
  then have "binary_seen det es [] \<noteq> []" using binary_seen_grows by blast
  then have ne: "ts \<noteq> []" using order [of "map snd (binary_seen det es [])"] by (auto simp: ts_def)
  have "\<forall>t \<in> set (map snd (binary_seen det es [])). target_fits t g \<and> int64 (s_warp_size t) \<and> int64 (s_ptx_version t)"
    by (rule binary_seen_all)
      (use g in \<open>auto simp: det_def detected_target target_fits_def normalize_same [symmetric] normalize_prefixed int64_def\<close>)
  then have ts: "\<forall>t \<in> set ts. target_fits t g \<and> int64 (s_warp_size t) \<and> int64 (s_ptx_version t)"
    by (simp add: ts_def order)
  have "vllm_summary order fmt det tc ms = print_json (summary_json (Some \<lparr>targets = ts\<rparr>))"
    using m ne by (auto simp: vllm_summary_def buildBinaryCacheSummary_def list_ex_iff ts_def es_def Let_def)
  then have "parse_summary (vllm_summary order fmt det tc ms) = Some \<lparr>targets = ts\<rparr>"
    using ts by (simp add: parse_summary_json)
  from vllm_label_check [OF this] show ?thesis
    using ts ne g(4) by (auto simp: summary_outcome_def det_def) (metis list.set_intros(1) neq_Nil_conv)
qed

definition ex_binary :: vllm_metadata where
  "ex_binary = \<lparr>v_hash = ''0f'', v_format = ''binary'', v_triton = [], v_binary = [no_binary\<lparr>b_target_device := ''rocm''\<rparr>], v_aot = []\<rparr>"

definition ex_device :: device where
  "ex_device = \<lparr>dev_type = AMD, dev_init = True, dev_info = Some ex_amd\<rparr>"

text \<open>
  A vLLM image with a binary cache passes the check of its label on every machine that has
  the GPU of the machine that built it, whatever device and versions the cache itself names
  and however many binary entries and other caches it holds.
\<close>

theorem binary_label_fits_builder:
  assumes "\<And>xs. set (order xs) = set xs"
    and "m \<in> set ms" "v_format m = ''binary''" "v_binary m \<noteq> []"
    and "dev_init dev" "dev_info dev = Some g" "g_backend g \<noteq> []" "g_backend g \<noteq> ''UnknownBackend''"
    and "g_warp_size g \<noteq> 0" "int64 (g_warp_size g)" "int64 (g_ptx_version g)" "g \<in> set devs"
  shows "snd (snd (CompareCacheSummaryLabelToGPU config
     (Some (vllm_labels order fmt (detectActualGPUInfo True True (Some dev)) tc ms count bytes)) devs)) = None"
  using binary_label_fits [OF assms(1-4,8,10-12)] detected_builder [OF assms(5-7,9)] by simp

theorem binary_label_fits_builder_witness:
  "snd (snd (CompareCacheSummaryLabelToGPU None
     (Some (vllm_labels rev (\<lambda>_. []) (detectActualGPUInfo True True (Some ex_device)) None [ex_binary] 1 0)) [ex_gpu, ex_amd])) = None"
  using binary_label_fits_builder [of rev ex_binary "[ex_binary]" ex_device ex_amd "[ex_gpu, ex_amd]"]
  by (simp add: ex_binary_def ex_device_def ex_amd_def int64_def)

text \<open>
  C34. The two checks contradict each other on AMD machines: a vLLM image built there from a
  binary cache whose metadata names the device rocm passes the check of its label, but its
  manifest is rejected on every machine all of whose devices report another backend, as AMD
  devices do (they report hip), the building machine included.
\<close>

theorem rocm_manifest_rejected:
  assumes "\<And>xs. set (order xs) = set xs"
    and "m \<in> set ms" "v_format m = ''binary''" "e \<in> set (v_binary m)" "b_target_device e = ''rocm''"
    and "g_backend g = ''hip''" "int64 (g_warp_size g)" "int64 (g_ptx_version g)" "g \<in> set devs"
    and "\<forall>g \<in> set devs. g_backend g \<noteq> ''rocm''"
  shows "snd (snd (CompareCacheSummaryLabelToGPU config
       (Some (vllm_labels order fmt (g_backend g, g_arch g, g_warp_size g, g_ptx_version g) tc ms count bytes)) devs)) = None \<and>
     CompareVLLMEntriesToGPU num remarshal baremetal E ms (Some devs) \<noteq> None"
proof
  show "snd (snd (CompareCacheSummaryLabelToGPU config
       (Some (vllm_labels order fmt (g_backend g, g_arch g, g_warp_size g, g_ptx_version g) tc ms count bytes)) devs)) = None"
    using assms by (intro binary_label_fits) auto
  have r: "compareBinaryCacheEntriesToGPU (v_binary m) devs \<noteq> None"
  proof -
    have "binary_device e = ''rocm''" using assms(5) by (simp add: binary_device_def)
    then show ?thesis unfolding binary_check using assms(4,10) by metis
  qed
  show "CompareVLLMEntriesToGPU num remarshal baremetal E ms (Some devs) \<noteq> None"
    using assms(2)
  proof (induction ms)
    case (Cons m' ms)
    then show ?case using r assms(3) by (cases "m' = m") (auto simp: Let_def split: option.splits)
  qed simp
qed

theorem rocm_manifest_rejected_witness:
  "snd (snd (CompareCacheSummaryLabelToGPU None
       (Some (vllm_labels rev (\<lambda>_. []) (''hip'', ''gfx90a'', 64, 0) None [ex_binary] 1 0)) [ex_amd])) = None \<and>
     CompareVLLMEntriesToGPU (\<lambda>_. None) Some False ex_env [ex_binary] (Some [ex_amd]) \<noteq> None"
  using rocm_manifest_rejected [of rev ex_binary "[ex_binary]" "no_binary\<lparr>b_target_device := ''rocm''\<rparr>" ex_amd "[ex_amd]"]
  by (simp add: ex_binary_def ex_amd_def int64_def)




end
