(* ===== verification/Extract_Theorems.thy ===== *)
theory Extract_Theorems
  imports Job_Run Preflight_Theorems
begin

text \<open>
  What the extraction job, the client and the extractor guarantee: the record of the
  extracted image, the files of the cache directory, and the checks that run and do not run.
\<close>

subsection \<open>An example machine\<close>

definition ex_image :: "string \<Rightarrow> string \<Rightarrow> img" where
  "ex_image n c = \<lparr>i_digest_ok = True, i_size_ok = True,
     i_config = Some (Some (map_of [(''cache.triton.image/summary'', ''{}''), (''cache.triton.image/cache-size-bytes'', ''5'')])),
     i_layers = Some [\<lparr>ly_media = Some ''application/vnd.oci.image.layer.v1.tar+gzip'',
       ly_blob = Some (Some [Entry \<lparr>h_name = ''io.triton.cache/'' @ n, h_typeflag = TypeReg, h_mode = 420, h_size = 5, h_content = c\<rparr>])\<rparr>]\<rparr>"

definition ex_host :: "files host" where
  "ex_host = \<lparr>os_of = mem_os, read_of = map_of, read_dir_of = mem_read_dir, lookup_env = (\<lambda>_. None), conf_dir_ok = True,
     level_ok = (\<lambda>_. True), detected = 1, acc_ok = True, device_info = Some (Some []), local_fetchers = [],
     remote_fetcher = map_of [(''r/i:1'', ex_image ''K/a'' ''hello''), (''r/i:2'', ex_image ''L/b'' ''world'')],
     number_of_literal = (\<lambda>_. None), json_remarshal = Some, triton_setup = ex_env\<rparr>"

definition ex_process :: process where
  "ex_process = \<lparr>cfg_instance = None, once_done = False, TritonCacheDir = ''/root/.triton/cache'', VLLMCacheDir = ''/root/.cache/vllm'',
     ExtractCacheDir = [], ExtractManifestDir = [], warnings = []\<rparr>"

lemma ex_host_fields [simp]:
  "os_of ex_host = mem_os" "read_of ex_host = map_of" "read_dir_of ex_host = mem_read_dir" "conf_dir_ok ex_host" "level_ok ex_host l"
  by (simp_all add: ex_host_def)

lemma ex_directory_system: "directory_system (os_of ex_host) (read_of ex_host) (read_dir_of ex_host)"
  by (simp add: mem_dir.directory_system_axioms)

definition ex_files :: files where
  "ex_files = snd (snd (ExtractCache_job ex_host ''/c'' ''r/i:1'' True (ex_process, [(''/c/left'', ''over'')])))"

lemma ex_run: "fst (ExtractCache_job ex_host ''/c'' ''r/i:1'' True (ex_process, [(''/c/left'', ''over'')])) = Ret None"
  by code_simp

lemma ex_files_eq: "ex_files = [(''/c/.initialized'', ''r/i:1'' @ [CHR 0x0A]), (''/c/K/a'', ''hello''), (''/c/.extract.lock'', []), (''/c/left'', ''over'')]"
  by code_simp

lemma ex_names:
  "\<not> under MCVBuildDir (init_file ''/c'')"
  "init_file ''/c'' \<notin> fst ` set (job_files ex_host ''/c'' ''r/i:1'')"
  "job_files ex_host ''/c'' ''r/i:1'' = [(''/c/K/a'', ''hello'')]"
  by code_simp+

subsection \<open>The job\<close>

text \<open>
  C10. The file .initialized of a cache directory can be trusted whatever happens to the job,
  on every operating system that keeps the laws of files and directories and whichever of
  its actions fail: when it names an image after a run for that image, then it did so
  before, or the run succeeded and every file of the image is in place with its content,
  the job's own files and the temporary directory aside. The image must not itself hold a
  file of that name.
\<close>

theorem job_record_sound:
  assumes "directory_system (os_of h) (read_of h) (read_dir_of h)"
    and "d \<noteq> []" and "\<not> under MCVBuildDir (init_file d)" and "init_file d \<notin> fst ` set (job_files h d url)"
    and "ExtractCache_job h d url noGpu (p, s) = (r, p', s')" and "recorded h s' d = Some url"
  shows "recorded h s d = Some url \<or> r = Ret None \<and>
     (\<forall>q \<in> fst ` set (job_files h d url). \<not> control d q \<longrightarrow> \<not> under MCVBuildDir q \<longrightarrow>
        read_of h s' q = map_of (rev (job_files h d url)) q)"
  by (rule directory_system.job_record [OF assms(1) refl refl assms(2-6)])

theorem job_record_sound_witness:
  "recorded ex_host ex_files ''/c'' = Some ''r/i:1'' \<and> map_of ex_files ''/c/K/a'' = Some ''hello''"
proof -
  obtain p' where run: "ExtractCache_job ex_host ''/c'' ''r/i:1'' True (ex_process, [(''/c/left'', ''over'')]) = (Ret None, p', ex_files)"
    using ex_run unfolding ex_files_def by (metis prod.collapse)
  have rec: "recorded ex_host ex_files ''/c'' = Some ''r/i:1''" by code_simp
  have "recorded ex_host [(''/c/left'', ''over'')] ''/c'' \<noteq> Some ''r/i:1''" by code_simp
  moreover have "\<not> control ''/c'' ''/c/K/a''" "\<not> under MCVBuildDir ''/c/K/a''" by code_simp+
  ultimately show ?thesis
    using job_record_sound [OF ex_directory_system _ ex_names(1,2) run rec] rec by (simp add: ex_names(3))
qed

text \<open>
  On an operating system on which nothing fails, without a GPU, a run for a readable
  image succeeds. If the directory was recorded for another image, afterwards it holds the
  files of the new image and no other, the job's own files aside. If it had no record, as
  after a failed run, every file in it that the image does not replace is still there.
\<close>

theorem job_delivers:
  assumes "directory_system (os_of h) (read_of h) (read_dir_of h)" and "obliging (os_of h) (read_of h)"
    and "\<And>s. read_dir_of h s d \<noteq> None" and "conf_dir_ok h" and "level_ok h ''info''" and "once_done p \<longleftrightarrow> cfg_instance p \<noteq> None"
    and "FetchImg h url = Some img" and "good_image img"
    and "d \<noteq> []" and "\<not> under MCVBuildDir (init_file d)" and "init_file_tmp d \<notin> fst ` set (job_files h d url)"
    and "url \<noteq> []" and "trim_space url = url" and "recorded h s d \<noteq> Some url"
  shows "\<exists>p' s'. ExtractCache_job h d url True (p, s) = (Ret None, p', s') \<and> recorded h s' d = Some url \<and>
     (\<forall>q. inside d q \<and> \<not> control d q \<and> \<not> under MCVBuildDir q \<longrightarrow>
        read_of h s' q = overlay (if recorded h s d = None then read_of h s else Map.empty) (job_files h d url) q)"
proof -
  have "file_system (os_of h) (read_of h)" using assms(1) by (simp add: directory_system_def)
  from file_system.job_ok [OF this refl refl assms(2,3,7,8,4-6,9-12)]
  obtain p' s' where run: "ExtractCache_job h d url True (p, s) = (Ret None, p', s')" by blast
  from directory_system.job_contents [OF assms(1) refl refl refl assms(9-13) run assms(14)] run
  show ?thesis by blast
qed

lemma mem_obliging: "obliging mem_os map_of"
  by (auto simp: obliging_def split: action.splits option.splits)

theorem job_delivers_witness:
  "\<exists>p' s'. ExtractCache_job ex_host ''/c'' ''r/i:2'' True (ex_process, ex_files) = (Ret None, p', s') \<and>
     map_of s' ''/c/L/b'' = Some ''world'' \<and> map_of s' ''/c/K/a'' = None \<and> map_of s' ''/c/left'' = None"
proof -
  have names: "\<not> under MCVBuildDir (init_file ''/c'')" "init_file_tmp ''/c'' \<notin> fst ` set (job_files ex_host ''/c'' ''r/i:2'')"
    "recorded ex_host ex_files ''/c'' = Some ''r/i:1''" "trim_space ''r/i:2'' = ''r/i:2''"
    "good_image (ex_image ''L/b'' ''world'')" "job_files ex_host ''/c'' ''r/i:2'' = [(''/c/L/b'', ''world'')]"
    by code_simp+
  have fetch: "FetchImg ex_host ''r/i:2'' = Some (ex_image ''L/b'' ''world'')"
    by (simp add: FetchImg_def fetcher_FetchImg_def ex_host_def ex_image_def has_prefix_def)
  have at: "inside ''/c'' q" if "under ''/c/K'' q \<or> under ''/c/L'' q \<or> under ''/c/left'' q" for q
  proof -
    have "path_join [''/c'', ''K''] = ''/c/K''" "path_join [''/c'', ''L''] = ''/c/L''" "path_join [''/c'', ''left''] = ''/c/left''"
      by code_simp+
    moreover have "plain ''K''" "plain ''L''" "plain ''left''" by (simp_all add: plain_def)
    ultimately show ?thesis using that unfolding inside_def by metis
  qed
  have cs: "\<not> control ''/c'' ''/c/L/b''" "\<not> control ''/c'' ''/c/K/a''" "\<not> control ''/c'' ''/c/left''"
    "\<not> under MCVBuildDir ''/c/L/b''" "\<not> under MCVBuildDir ''/c/K/a''" "\<not> under MCVBuildDir ''/c/left''"
    "under ''/c/L'' ''/c/L/b''" "under ''/c/K'' ''/c/K/a''" "under ''/c/left'' ''/c/left''"
    by code_simp+
  show ?thesis
    using job_delivers [OF ex_directory_system, of "''/c''" ex_process "''r/i:2''" "ex_image ''L/b'' ''world''" ex_files]
      names fetch at cs mem_obliging by (fastforce simp: mem_read_dir_def ex_process_def)
qed

text \<open>
  The condition on the names is needed: an image that holds a file .initialized.tmp gets the
  record of its choice, here that of another image, and its files are then taken for that
  image's.
\<close>

definition ex_planting_host :: "files host" where
  "ex_planting_host = ex_host\<lparr>remote_fetcher := map_of [(''r/i:3'', ex_image ''.initialized.tmp'' ''r/i:1'')]\<rparr>"

lemma planted_record:
  "(let (r, p', s') = ExtractCache_job ex_planting_host ''/c'' ''r/i:3'' True (ex_process, []) in
     r = Ret None \<and> recorded ex_planting_host s' ''/c'' = Some ''r/i:1'' \<and>
     fst (ExtractCache_job ex_host ''/c'' ''r/i:1'' True (ex_process, s')) = Ret None \<and>
     map_of (snd (snd (ExtractCache_job ex_host ''/c'' ''r/i:1'' True (ex_process, s')))) ''/c/K/a'' = None)"
  by code_simp

subsection \<open>The client\<close>

text \<open>Everything of a process but the switch for the check of the manifest.\<close>

definition blind :: "process \<Rightarrow> process" where
  "blind p = p\<lparr>cfg_instance := map_option (\<lambda>c. c\<lparr>EnabledBaremetal := None\<rparr>) (cfg_instance p)\<rparr>"

lemma compat_loop_dirs:
  assumes "ExtractCacheDirectory os p = ExtractCacheDirectory os p'"
  shows "compat_loop os p ct ls acc s = compat_loop os p' ct ls acc s"
  by (induction ls arbitrary: acc s) (simp_all add: assms split: option.split prod.split sum.split)

lemma extract_layers_dirs:
  assumes "ExtractCacheDir p = ExtractCacheDir p'" "ExtractManifestDir p = ExtractManifestDir p'"
  shows "extract_layers os p = extract_layers os p'"
proof -
  have e: "ExtractCacheDirectory os p = ExtractCacheDirectory os p'"
    using assms by (simp add: ExtractCacheDirectory_def fun_eq_iff)
  have "extractCompatImg os p = extractCompatImg os p'"
    by (rule ext)+ (simp add: extractCompatImg_def compat_loop_dirs [OF e] split: option.split)
  moreover have "extractOCIArtifactImg os p = extractOCIArtifactImg os p'"
    by (rule ext)+ (simp add: extractOCIArtifactImg_def e split: option.split)
  ultimately show ?thesis by (intro ext) (simp add: extract_layers_def split: prod.split sum.split)
qed

lemma blind_fields [simp]:
  "ExtractCacheDir (blind p) = ExtractCacheDir p" "ExtractManifestDir (blind p) = ExtractManifestDir p"
  "TritonCacheDir (blind p) = TritonCacheDir p" "VLLMCacheDir (blind p) = VLLMCacheDir p"
  "once_done (blind p) = once_done p" "target_dir ct (blind p) = target_dir ct p"
  by (simp_all add: blind_def target_dir_def)

lemma blind_updates:
  "blind (warn w p) = warn w (blind p)"
  "blind (p\<lparr>ExtractCacheDir := d\<rparr>) = (blind p)\<lparr>ExtractCacheDir := d\<rparr>"
  "blind (p\<lparr>ExtractManifestDir := d\<rparr>) = (blind p)\<lparr>ExtractManifestDir := d\<rparr>"
  "blind (p\<lparr>cfg_instance := Some c\<rparr>) = p\<lparr>cfg_instance := Some (c\<lparr>EnabledBaremetal := None\<rparr>)\<rparr>"
  by (simp_all add: blind_def warn_def)

abbreviation blindly :: "'r \<times> process \<times> 's \<Rightarrow> 'r \<times> process \<times> 's" where
  "blindly \<equiv> map_prod id (map_prod blind id)"

lemma extract_layers_blind [simp]: "extract_layers os (blind p) = extract_layers os p"
  by (rule extract_layers_dirs) simp_all

lemma cleanup_blind: "with_cleanup os (r, blind p, s) = blindly (with_cleanup os (r, p, s))"
  by (auto simp: with_cleanup_def blind_updates split: prod.split)

lemma unpack_image_blind: "unpack_image h img (blind p, s) = blindly (unpack_image h img (p, s))"
  by (auto simp: unpack_image_def blind_updates(1-3) [symmetric] cleanup_blind Let_def split: option.split prod.split sum.split)

lemma fetch_blind:
  assumes "skipping p" "skipping p'" "blind p = blind p'"
  shows "blindly (FetchAndExtractCache h acc n (p, s)) = blindly (FetchAndExtractCache h acc n (p', s))"
proof -
  have "blindly (unpack_image h img (p, s)) = blindly (unpack_image h img (p', s))" for img
    by (simp add: unpack_image_blind [symmetric] assms(3))
  then have "blindly (map_prod Ret id (unpack_image h img (p, s))) = blindly (map_prod Ret id (unpack_image h img (p', s)))" for img
    by (cases "unpack_image h img (p, s)"; cases "unpack_image h img (p', s)") (simp add: prod_eq_iff)
  then show ?thesis
    using assms by (simp add: FetchAndExtractCache_def ExtractCache_img_skipping split: option.split)
qed

text \<open>The last part of a call, on switches that differ in that one.\<close>

lemma preflight_and_extract_blind:
  assumes c: "IsGPUEnabled c \<or> IsSkipPrecheckEnabled c" "c' = c\<lparr>EnabledBaremetal := b\<rparr>"
    and p: "blind p = blind p'" and o: "ImageName opts' = ImageName opts"
  shows "blindly (preflight_and_extract h opts c (p, s)) = blindly (preflight_and_extract h opts' c' (p', s))"
proof -
  have same: "IsGPUEnabled c' = IsGPUEnabled c" "IsSkipPrecheckEnabled c' = IsSkipPrecheckEnabled c" "client_view h c' = client_view h c"
    by (simp_all add: c(2) IsGPUEnabled_def IsSkipPrecheckEnabled_def client_view_def GetAllGPUInfo_def)
  let ?pre = "\<lambda>c. if IsGPUEnabled c \<and> \<not> IsSkipPrecheckEnabled c
     then map_option (\<lambda>ids. (ids, c\<lparr>SkipPrecheck := Some True\<rparr>)) (PreflightCheck (client_view h c) (ImageName opts))
     else Some (([], []), c)"
  show ?thesis
  proof (cases "?pre c")
    case None
    then show ?thesis using p o same by (auto simp: preflight_and_extract_def split: if_splits)
  next
    case (Some x)
    obtain m u c1 where x: "x = ((m, u), c1)" by (metis prod.exhaust)
    define c1' where "c1' = c1\<lparr>EnabledBaremetal := b\<rparr>"
    have pre': "?pre c' = Some ((m, u), c1')" and c1: "IsSkipPrecheckEnabled c1" "IsSkipPrecheckEnabled c1'" "IsGPUEnabled c1' = IsGPUEnabled c1"
      using Some x same c by (auto simp: c1'_def IsSkipPrecheckEnabled_def IsGPUEnabled_def split: if_splits)
    obtain p1 where p1: "p1 = p\<lparr>cfg_instance := Some c1\<rparr>" by blast
    obtain p1' where p1': "p1' = p'\<lparr>cfg_instance := Some c1'\<rparr>" by blast
    have e1: "blind p1 = blind p1'"
      using p by (cases p; cases p') (simp add: p1 p1' c1'_def blind_def)
    have "new_extractor h p1 = Ret (IsGPUEnabled c1 \<and> acc_ok h, if IsGPUEnabled c1 \<and> \<not> acc_ok h then warn No_accelerator p1 else p1)"
      "new_extractor h p1' = Ret (IsGPUEnabled c1 \<and> acc_ok h, if IsGPUEnabled c1 \<and> \<not> acc_ok h then warn No_accelerator p1' else p1')"
      using c1 by (simp_all add: new_extractor_def p1 p1')
    then obtain acc p2 p2' where n: "new_extractor h p1 = Ret (acc, p2)" "new_extractor h p1' = Ret (acc, p2')"
        "skipping p2" "skipping p2'" "blind p2 = blind p2'"
      using e1 c1 by (auto simp: skipping_def p1 p1' blind_updates)
    obtain r q t where f: "FetchAndExtractCache h acc (ImageName opts) (p2, s) = (r, q, t)" by (metis prod.exhaust)
    obtain r' q' t' where f': "FetchAndExtractCache h acc (ImageName opts) (p2', s) = (r', q', t')" by (metis prod.exhaust)
    have "r' = r" "blind q' = blind q" "t' = t"
      using fetch_blind [OF n(3-5), of h acc "ImageName opts" s] f f' by simp_all
    then show ?thesis
      unfolding preflight_and_extract_def prod.case o Some pre' x
      using n f f' by (cases r) (simp_all add: p1 [symmetric] p1' [symmetric] Let_def)
  qed
qed

lemma set_switches_baremetal:
  "set_switches h (opts\<lparr>EnableBaremetal := b\<rparr>) c = (set_switches h (opts\<lparr>EnableBaremetal := None\<rparr>) c)
     \<lparr>EnabledBaremetal := (case b of None \<Rightarrow> EnabledBaremetal c | Some v \<Rightarrow> Some v)\<rparr>"
  by (auto simp: set_switches_def IsGPUEnabled_def Let_def split: option.split bool.split)

lemma set_cache_dir_blind:
  assumes "blind p = blind p'" "CacheDir opts' = CacheDir opts"
  shows "\<exists>ok q q' t. set_cache_dir h opts (p, s) = (ok, q, t) \<and> set_cache_dir h opts' (p', s) = (ok, q', t) \<and> blind q = blind q'"
  using assms by (auto simp: set_cache_dir_def blind_updates split: prod.split bool.split)

lemma ExtractCache_blind:
  "blindly (ExtractCache h (opts\<lparr>EnableBaremetal := b\<rparr>) (p, s)) = blindly (ExtractCache h (opts\<lparr>EnableBaremetal := None\<rparr>) (p, s))"
proof (cases "ImageName opts = [] \<or> \<not> ConfigureLogging h (LogLevel opts)")
  case True
  then show ?thesis by (auto simp: ExtractCache_def split: prod.split bool.split)
next
  case False
  obtain ok p1 where i: "(if cfg_instance p = None then Initialize h p else (True, p)) = (ok, p1)" by fastforce
  show ?thesis
  proof (cases "ok \<and> cfg_instance p1 \<noteq> None")
    case no: False
    then show ?thesis using False i by (cases ok) (simp_all add: ExtractCache_def)
  next
    case True
    then obtain c where c: "cfg_instance p1 = Some c" and ok: ok by blast
    let ?o = "opts\<lparr>EnableBaremetal := b\<rparr>" and ?o' = "opts\<lparr>EnableBaremetal := None\<rparr>"
    let ?c = "set_switches h ?o c" and ?c' = "set_switches h ?o' c"
    let ?p = "detect_warning h ?o (p1\<lparr>cfg_instance := Some ?c\<rparr>)" and ?p' = "detect_warning h ?o' (p1\<lparr>cfg_instance := Some ?c'\<rparr>)"
    have "blind ?p = blind ?p'"
      unfolding set_switches_baremetal [where opts = opts and b = b] by (simp add: detect_warning_def blind_updates)
    then obtain k q q' t where d: "set_cache_dir h ?o (?p, s) = (k, q, t)" "set_cache_dir h ?o' (?p', s) = (k, q', t)" "blind q = blind q'"
      using set_cache_dir_blind [of ?p ?p' ?o' ?o h s] by auto
    have "blindly (preflight_and_extract h ?o ?c (q, t)) = blindly (preflight_and_extract h ?o' ?c' (q', t))"
      by (rule preflight_and_extract_blind [OF set_switches_skip set_switches_baremetal d(3) [symmetric], symmetric]) simp
    then show ?thesis
      using False i ok c d by (cases k) (simp_all add: ExtractCache_def)
  qed
qed

text \<open>
  C22. The option EnableBaremetal of the client, documented as enabling the full hardware
  check with the validation of the kernels' keys, has no effect: two calls that differ in it
  only return the same, leave the same files, and leave processes that differ in the stored
  switch only. By the time the extractor looks at the switch the client has always switched
  the checks off.
\<close>

theorem baremetal_never_checked:
  "map_prod id (map_prod blind id) (ExtractCache h (opts\<lparr>EnableBaremetal := b\<rparr>) (p, s)) =
   map_prod id (map_prod blind id) (ExtractCache h (opts\<lparr>EnableBaremetal := b'\<rparr>) (p, s))"
  by (simp only: ExtractCache_blind [where b = b] ExtractCache_blind [where b = b'])

subsection \<open>What a call leaves behind in the process\<close>

lemma success_skips:
  assumes "ExtractCache h opts (p, s) = (Ret (m, u, None), p', s')"
  shows "skipping p'"
  using assms
proof (cases rule: client_cases)
  case (late img p1 s1 m u e)
  then show ?thesis using unpack_image_process [OF late(4)] by (simp add: skipping_def)
qed blast

lemma skipping_sticks:
  assumes "skipping p" "SkipPrecheck_opt opts = None"
  shows "ExtractCache h opts (p, s) = ExtractCache h (opts\<lparr>SkipPrecheck_opt := Some True\<rparr>) (p, s)"
proof -
  obtain c where c: "cfg_instance p = Some c" "SkipPrecheck c = Some True"
    using assms(1) by (auto simp: skipping_def IsSkipPrecheckEnabled_def)
  then have "c\<lparr>SkipPrecheck := Some True\<rparr> = c" by (cases c) simp
  then have "set_switches h opts c = set_switches h (opts\<lparr>SkipPrecheck_opt := Some True\<rparr>) c"
    using assms(2) by (simp add: set_switches_def)
  moreover have same: "ImageName (opts\<lparr>SkipPrecheck_opt := Some True\<rparr>) = ImageName opts"
    "CacheDir (opts\<lparr>SkipPrecheck_opt := Some True\<rparr>) = CacheDir opts"
    "EnableGPU (opts\<lparr>SkipPrecheck_opt := Some True\<rparr>) = EnableGPU opts" by simp_all
  moreover have "preflight_and_extract h (opts\<lparr>SkipPrecheck_opt := Some True\<rparr>) = preflight_and_extract h opts"
    "set_cache_dir h (opts\<lparr>SkipPrecheck_opt := Some True\<rparr>) = set_cache_dir h opts"
    "detect_warning h (opts\<lparr>SkipPrecheck_opt := Some True\<rparr>) = detect_warning h opts"
    unfolding preflight_and_extract_def [abs_def] set_cache_dir_def [abs_def] detect_warning_def [abs_def] same by (rule refl)+
  ultimately show ?thesis using c by (simp add: ExtractCache_def Let_def split: prod.split bool.split)
qed

lemma preflight_skipped:
  assumes "IsSkipPrecheckEnabled c"
  obtains p2 where "skipping p2" "preflight_and_extract h opts c (p, s) =
     (case FetchImg h (ImageName opts) of
        None \<Rightarrow> (Ret ([], [], Some Fetch_failed), p2, s)
      | Some img \<Rightarrow> map_prod (\<lambda>e. Ret ([], [], e)) id (unpack_image h img (p2, s)))"
proof -
  let ?p = "p\<lparr>cfg_instance := Some c\<rparr>"
  obtain acc p2 where n: "new_extractor h ?p = Ret (acc, p2)" "skipping p2"
    using assms by (cases "IsGPUEnabled c"; cases "acc_ok h") (auto simp: new_extractor_def skipping_def)
  show thesis
  proof (rule that [OF n(2)])
    show "preflight_and_extract h opts c (p, s) =
     (case FetchImg h (ImageName opts) of
        None \<Rightarrow> (Ret ([], [], Some Fetch_failed), p2, s)
      | Some img \<Rightarrow> map_prod (\<lambda>e. Ret ([], [], e)) id (unpack_image h img (p2, s)))"
    proof (cases "FetchImg h (ImageName opts)")
      case None
      then show ?thesis using assms n by (simp add: preflight_and_extract_def FetchAndExtractCache_def Let_def)
    next
      case (Some img)
      then show ?thesis using assms n
        by (cases "unpack_image h img (p2, s)")
          (simp add: preflight_and_extract_def FetchAndExtractCache_def Let_def ExtractCache_img_skipping)
    qed
  qed
qed

lemma unpack_image_no_preflight: "fst (unpack_image h img (p, s)) \<noteq> Some Preflight_failed"
  by (auto simp: unpack_image_def with_cleanup_def Let_def split: option.split prod.split sum.split)

lemma skipped_ids:
  assumes "ExtractCache h opts (p, s) = (Ret (m, u, e), p', s')" "SkipPrecheck_opt opts = Some True"
  shows "m = [] \<and> u = [] \<and> e \<noteq> Some Preflight_failed"
proof -
  have sk: "IsSkipPrecheckEnabled (set_switches h opts c)" for c
    using assms(2) by (auto simp: set_switches_def IsSkipPrecheckEnabled_def Let_def split: option.split bool.split)
  have late: "m = [] \<and> u = [] \<and> e \<noteq> Some Preflight_failed"
    if run: "preflight_and_extract h opts (set_switches h opts c) (p1, s1) = (Ret (m, u, e), p', s')" for c p1 s1 m u e
  proof -
    obtain p2 where "preflight_and_extract h opts (set_switches h opts c) (p1, s1) =
       (case FetchImg h (ImageName opts) of
          None \<Rightarrow> (Ret ([], [], Some Fetch_failed), p2, s1)
        | Some img \<Rightarrow> map_prod (\<lambda>e. Ret ([], [], e)) id (unpack_image h img (p2, s1)))"
      by (rule preflight_skipped [OF sk])
    with run have r: "(case FetchImg h (ImageName opts) of
          None \<Rightarrow> (Ret ([], [], Some Fetch_failed), p2, s1)
        | Some img \<Rightarrow> map_prod (\<lambda>e. Ret ([], [], e)) id (unpack_image h img (p2, s1))) = (Ret (m, u, e), p', s')" by simp
    show ?thesis
    proof (cases "FetchImg h (ImageName opts)")
      case (Some img)
      then show ?thesis using r unpack_image_no_preflight [of h img p2 s1] by (cases "unpack_image h img (p2, s1)") auto
    qed (use r in auto)
  qed
  show ?thesis
    using assms(1) unfolding ExtractCache_def Let_def
    by (simp split: if_splits prod.splits bool.splits option.splits) (auto dest: late)
qed

text \<open>
  C24. A successful call switches the check of the image against the GPUs off for the rest of
  the life of the process: a later call that leaves SkipPrecheck unset, on any machine and
  for any image, behaves as if it had asked to skip the check. It reports no matching GPUs
  and cannot fail for a mismatch.
\<close>

theorem skip_precheck_sticks:
  assumes "ExtractCache h opts (p, s) = (Ret (m, u, None), p', s')" and "SkipPrecheck_opt opts' = None"
  shows "ExtractCache h' opts' (p', s'') = ExtractCache h' (opts'\<lparr>SkipPrecheck_opt := Some True\<rparr>) (p', s'') \<and>
     (\<forall>m' u' e. fst (ExtractCache h' opts' (p', s'')) = Ret (m', u', e) \<longrightarrow> m' = [] \<and> u' = [] \<and> e \<noteq> Some Preflight_failed)"
proof -
  have eq: "ExtractCache h' opts' (p', s'') = ExtractCache h' (opts'\<lparr>SkipPrecheck_opt := Some True\<rparr>) (p', s'')"
    by (rule skipping_sticks [OF success_skips [OF assms(1)] assms(2)])
  have "m' = [] \<and> u' = [] \<and> e \<noteq> Some Preflight_failed"
    if "fst (ExtractCache h' opts' (p', s'')) = Ret (m', u', e)" for m' u' e
  proof -
    obtain r q t where x: "ExtractCache h' (opts'\<lparr>SkipPrecheck_opt := Some True\<rparr>) (p', s'') = (r, q, t)" by (rule prod_cases3)
    then have "r = Ret (m', u', e)" using that eq by simp
    with x show ?thesis using skipped_ids [of h' "opts'\<lparr>SkipPrecheck_opt := Some True\<rparr>" p' s''] by simp
  qed
  with eq show ?thesis by blast
qed

definition ex_options :: options where
  "ex_options = \<lparr>ImageName = ''r/i:1'', CacheDir = ''/c'', EnableGPU = Some False, LogLevel = [], EnableBaremetal = None, SkipPrecheck_opt = None\<rparr>"

theorem skip_precheck_sticks_witness:
  "(let (r, p', s') = ExtractCache ex_host ex_options (ex_process, []) in
      r = Ret ([], [], None) \<and>
      fst (ExtractCache ex_host (ex_options\<lparr>EnableGPU := Some True\<rparr>) (p', s')) = Ret ([], [], None) \<and>
      fst (ExtractCache ex_host (ex_options\<lparr>EnableGPU := Some True\<rparr>) (ex_process, s')) = Ret ([], [], Some Preflight_failed))"
proof -
  obtain r p' s' where x: "ExtractCache ex_host ex_options (ex_process, []) = (r, p', s')" by (rule prod_cases3)
  have r: "fst (ExtractCache ex_host ex_options (ex_process, [])) = Ret ([], [], None)" by code_simp
  have "fst (ExtractCache ex_host (ex_options\<lparr>EnableGPU := Some True\<rparr>) (ex_process, [(''/c/K/a'', ''hello'')])) = Ret ([], [], Some Preflight_failed)"
    "snd (snd (ExtractCache ex_host ex_options (ex_process, []))) = [(''/c/K/a'', ''hello'')]"
    "fst (case ExtractCache ex_host ex_options (ex_process, []) of (r, p', s') \<Rightarrow>
      ExtractCache ex_host (ex_options\<lparr>EnableGPU := Some True, SkipPrecheck_opt := Some True\<rparr>) (p', s')) = Ret ([], [], None)"
    by code_simp+
  then show ?thesis
    using skip_precheck_sticks [of ex_host ex_options ex_process "[]" "[]" "[]" p' s' "ex_options\<lparr>EnableGPU := Some True\<rparr>" ex_host s'] r x
    by (simp add: ex_options_def)
qed

text \<open>
  A failed initialisation is not repeated: \<open>once.Do\<close> has run, so the next call gets no
  error, and the first switch that it reads is that of a nil configuration.
\<close>

lemma failed_initialization_panics:
  assumes "ImageName opts \<noteq> []" "cfg_instance p = None" "\<not> once_done p" "\<not> conf_dir_ok h"
    and "ImageName opts' \<noteq> []" "ConfigureLogging h' (LogLevel opts')"
  shows "\<exists>p'. ExtractCache h opts (p, s) = (Ret ([], [], Some Init_failed), p', s) \<and>
     fst (ExtractCache h' opts' (p', s')) = Panic"
  using assms by (simp add: ExtractCache_def Initialize_def)

subsection \<open>A rejected manifest\<close>

text \<open>The directories that the extractor records for an image.\<close>

definition entry_dirs :: "string \<Rightarrow> string \<Rightarrow> tar_event \<Rightarrow> string set" where
  "entry_dirs cp cd e = (case e of
     Entry h \<Rightarrow> if has_prefix (h_name h) cp \<and> h_name h \<noteq> cp then {path_join [cd, path_dir (trim_prefix (h_name h) cp)]} else {}
   | Read_error \<Rightarrow> {})"

definition layer_dirs :: "string \<Rightarrow> string \<Rightarrow> layer \<Rightarrow> string set" where
  "layer_dirs ct cd l = (case ly_blob l of
     Some (Some evs) \<Rightarrow> \<Union> (set (map (entry_dirs (if ct = ''triton'' then ''io.triton.cache/'' else ''io.vllm.cache'') cd) evs))
   | _ \<Rightarrow> {})"

definition image_dirs :: "process \<Rightarrow> img \<Rightarrow> string set" where
  "image_dirs p img = (case i_config img of
     Some (Some l) \<Rightarrow>
       (case DetectCacheTypeFromLabels (Some l) of
          Some ct \<Rightarrow> \<Union> (set (map (layer_dirs ct (target_dir ct p)) (used_layers img)))
        | None \<Rightarrow> {})
   | _ \<Rightarrow> {})"

lemma extract_entry_dirs:
  assumes "extract_entry os cp mp cd md h (dirs, b) s = (Inr (dirs', b'), s')"
  shows "set dirs' = set dirs \<union> entry_dirs cp cd (Entry h)"
proof (cases rule: entry_cases [of h cp mp cd md])
  case skip
  then show ?thesis using assms by (auto simp: extract_entry_skip entry_dirs_def)
next
  case cache
  then show ?thesis using assms
    by (cases "h_typeflag h")
      (auto simp: extract_entry_def entry_dirs_def stringInSlice_def list_ex_iff Let_def split: prod.splits bool.splits if_splits)
next
  case manifest
  then show ?thesis using assms
    by (cases "h_typeflag h") (auto simp: extract_entry_def entry_dirs_def Let_def split: prod.splits bool.splits)
qed

lemma extract_loop_dirs:
  "extract_loop (extract_entry os cp mp cd md) evs (dirs, b) s = (Inr (dirs', b'), s') \<Longrightarrow>
   set dirs' = set dirs \<union> \<Union> (set (map (entry_dirs cp cd) evs))"
proof (induction evs arbitrary: dirs b s)
  case (Cons e evs)
  then obtain h where e: "e = Entry h" by (cases e) auto
  with Cons.prems obtain d c s1 where "extract_entry os cp mp cd md h (dirs, b) s = (Inr (d, c), s1)"
    and "extract_loop (extract_entry os cp mp cd md) evs (d, c) s1 = (Inr (dirs', b'), s')"
    by (auto split: prod.splits sum.splits)
  from Cons.IH [OF this(2)] extract_entry_dirs [OF this(1)] show ?case by (simp add: e Un_assoc)
qed simp

lemma ExtractCacheDirectory_dirs:
  assumes "ExtractCacheDirectory os p b ct s = (Inr (dirs, n), s')" "ly_blob l = Some b"
  shows "set dirs = layer_dirs ct (ExtractCacheDir p) l"
proof -
  have dir: "\<exists>evs. b = Some evs \<and> set dirs = \<Union> (set (map (entry_dirs cp cd) evs))"
    if "extractCacheAndManifestDirectory os b cp mp cd md s = (Inr (dirs, n), s')" for cp mp cd md
    using that by (auto simp: extractCacheAndManifestDirectory_def split: option.splits prod.splits bool.splits dest!: extract_loop_dirs)
  have inv: "apfst (map_sum Unpack_error id) x = (Inr r, s') \<Longrightarrow> x = (Inr r, s')" for x r
    by (cases x; cases "fst x") auto
  show ?thesis
    using assms
    by (auto simp: ExtractCacheDirectory_def ExtractTritonCacheDirectory_def ExtractVLLMCacheDirectory_def
        layer_dirs_def split: if_splits dest!: inv dir)
qed

lemma compat_loop_dirs_of:
  "compat_loop os p ct ls acc s = (Inr (dirs, n), s') \<Longrightarrow>
   set dirs = set (fst acc) \<union> \<Union> (set (map (layer_dirs ct (ExtractCacheDir p)) ls))"
proof (induction ls arbitrary: acc s)
  case (Cons l ls)
  then obtain b d k s1 where b: "ly_blob l = Some b" and st: "ExtractCacheDirectory os p b ct s = (Inr (d, k), s1)"
    and rest: "compat_loop os p ct ls (fst acc @ d, snd acc + k) s1 = (Inr (dirs, n), s')"
    by (auto split: option.splits prod.splits sum.splits)
  from Cons.IH [OF rest] ExtractCacheDirectory_dirs [OF st b] show ?case by (simp add: Un_assoc)
qed auto

lemma extract_layers_dirs_of:
  assumes "extract_layers os p img ct s = (Inr (dirs, n), s')"
  shows "set dirs = \<Union> (set (map (layer_dirs ct (ExtractCacheDir p)) (used_layers img)))"
  using assms
proof (cases rule: extract_layers_cases)
  case (compat r')
  then show ?thesis using compat_loop_dirs_of [of os p ct "used_layers img" "([], 0)" s dirs n s'] by simp
next
  case (artifact l b)
  then show ?thesis using ExtractCacheDirectory_dirs [of os p b ct s dirs n s' l] by simp
qed simp

context file_system
begin

lemma remove_dirs_read:
  assumes "\<And>d s. fst (os (Remove_all d) s)"
  shows "remove_dirs os ds (p, s) = (p', s') \<Longrightarrow> read s' q = (if \<exists>d \<in> set ds. under d q then None else read s q)"
proof (induction ds arbitrary: p s)
  case (Cons d ds)
  obtain s1 where s1: "os (Remove_all d) s = (True, s1)" using assms [of d s] by (cases "os (Remove_all d) s") auto
  then show ?case using Cons remove_all_read [OF s1] by (auto split: if_splits)
qed simp

end

lemma check_rejects:
  assumes "manifest_check h c acc ct dirs (p, s) = (Some (Manifest_check_failed e), p', s')"
  shows "remove_dirs (os_of h) dirs (p, s) = (p', s')"
  using assms by (auto simp: manifest_check_def Let_def split: if_splits option.splits)

lemma extract_and_check_rejects:
  assumes "extract_and_check h c acc img l ct (p, s) = (Some (Manifest_check_failed e), p', s')"
  obtains dirs n s1 p1 where "extract_layers (os_of h) p img ct s = (Inr (dirs, n), s1)" "remove_dirs (os_of h) dirs (p1, s1) = (p', s')"
  using assms by (auto simp: extract_and_check_def split: prod.splits sum.splits dest!: check_rejects)

lemma rejected_cases:
  assumes "ExtractCache_img h acc img (p, s) = (Ret (Some (Manifest_check_failed e)), p', s')"
  obtains l ct ok s1 p1 dirs n s2 q q' s3 ok' where "i_config img = Some (Some l)" "DetectCacheTypeFromLabels (Some l) = Some ct"
    "os_of h (Mkdir_all manifest_dir 493) s = (ok, s1)" "ExtractCacheDir p1 = target_dir ct p" "ExtractManifestDir p1 = manifest_dir"
    "extract_layers (os_of h) p1 img ct s1 = (Inr (dirs, n), s2)" "remove_dirs (os_of h) dirs (q, s2) = (q', s3)"
    "os_of h (Remove_all MCVBuildDir) s3 = (ok', s')"
proof -
  from assms obtain l where l: "i_config img = Some (Some l)"
    by (auto simp: ExtractCache_img_def split: option.splits)
  obtain ok s1 where mk: "os_of h (Mkdir_all manifest_dir 493) s = (ok, s1)" by fastforce
  define p0 where "p0 = (if ok then p\<lparr>ExtractManifestDir := manifest_dir\<rparr> else warn Manifest_dir_missing (p\<lparr>ExtractManifestDir := manifest_dir\<rparr>))"
  from assms l mk obtain ct where ct: "DetectCacheTypeFromLabels (Some l) = Some ct"
    by (auto simp: ExtractCache_img_def Let_def split: option.splits)
  define p1 where "p1 = p0\<lparr>ExtractCacheDir := target_dir ct p0\<rparr>"
  have p1: "ExtractCacheDir p1 = target_dir ct p" "ExtractManifestDir p1 = manifest_dir"
    by (simp_all add: p1_def p0_def target_dir_def)
  from assms l mk ct obtain c where "with_cleanup (os_of h) (extract_and_check h c acc img l ct (p1, s1)) = (Some (Manifest_check_failed e), p', s')"
    by (auto simp: ExtractCache_img_def Let_def choose_target p0_def [symmetric] p1_def [symmetric] split: option.splits prod.splits if_splits)
  then obtain q' s3 ok' where e: "extract_and_check h c acc img l ct (p1, s1) = (Some (Manifest_check_failed e), q', s3)"
      "os_of h (Remove_all MCVBuildDir) s3 = (ok', s')"
    by (cases "extract_and_check h c acc img l ct (p1, s1)") (auto simp: with_cleanup_def CleanupMCVDirs_def split: prod.splits)
  from extract_and_check_rejects [OF e(1)] show thesis using that [OF l ct mk p1 _ _ e(2)] by metis
qed

text \<open>
  C33. When the extractor, called with the full checks switched on, rejects the manifest of
  an image that it has unpacked, it removes every directory that directly contains an entry
  of the image, with everything in it, whether the image put it there or not, and the
  temporary directory; every other file is as the image left it. An image with an entry at
  the top of its tree so removes the whole cache directory of the host.
\<close>

theorem rejected_manifest_removes:
  assumes "file_system (os_of h) (read_of h)" and "\<And>d s. fst (os_of h (Remove_all d) s)"
    and "ExtractCache_img h acc img (p, s) = (Ret (Some (Manifest_check_failed e)), p', s')"
  shows "read_of h s' q =
     (if under MCVBuildDir q \<or> (\<exists>d \<in> image_dirs p img. under d q) then None
      else overlay (read_of h s) (image_files p img) q)"
  using assms(3)
proof (cases rule: rejected_cases)
  case (1 l ct ok s1 p1 dirs n s2 q1 q1' s3 ok')
  have "ok'" using assms(2) [of MCVBuildDir s3] 1(8) by simp
  have "set dirs = image_dirs p img" using extract_layers_dirs_of [OF 1(6)] 1(1,2,4) by (simp add: image_dirs_def)
  moreover have "read_of h s2 = overlay (read_of h s) (image_files p img)"
    using file_system.extract_layers_read [OF assms(1) 1(6)] file_system.mkdir_read [OF assms(1) 1(3)] 1(1,2,4,5) by (simp add: image_files_def)
  ultimately show ?thesis
    using file_system.remove_all_read [OF assms(1)] 1(8) \<open>ok'\<close> file_system.remove_dirs_read [OF assms(1,2) 1(7), of q] by auto
qed

definition ex_rejected :: img where
  "ex_rejected = (ex_image ''x'' ''hello'')\<lparr>i_config := Some (Some (map_of [(''cache.triton.image/summary'',
     ''{\"targets\":[{\"backend\":\"cuda\",\"arch\":\"80\",\"warp_size\":32}]}'')]))\<rparr>"

definition ex_gpu_host :: "files host" where
  "ex_gpu_host = ex_host\<lparr>device_info := Some (Some [\<lparr>g_backend = ''cuda'', g_arch = ''sm_80'', g_warp_size = 32, g_ptx_version = 0, g_id = 0\<rparr>])\<rparr>"

definition ex_checking :: process where
  "ex_checking = ex_process\<lparr>ExtractCacheDir := ''/c'',
     cfg_instance := Some \<lparr>EnabledGPU = Some True, EnabledBaremetal = Some True, SkipPrecheck = Some False\<rparr>\<rparr>"

lemma ex_rejection:
  "fst (ExtractCache_img ex_gpu_host True ex_rejected (ex_checking, [(''/c/other/k'', ''old''), (''/d'', ''old'')])) =
     Ret (Some (Manifest_check_failed Read_failed))"
  by code_simp

theorem rejected_manifest_removes_witness:
  "(let (r, p', s') = ExtractCache_img ex_gpu_host True ex_rejected (ex_checking, [(''/c/other/k'', ''old''), (''/d'', ''old'')]) in
      r = Ret (Some (Manifest_check_failed Read_failed)) \<and> map_of s' ''/c/other/k'' = None \<and> map_of s' ''/d'' = Some ''old'')"
proof -
  obtain r p' s' where x: "ExtractCache_img ex_gpu_host True ex_rejected (ex_checking, [(''/c/other/k'', ''old''), (''/d'', ''old'')]) = (r, p', s')"
    by (rule prod_cases3)
  have r: "r = Ret (Some (Manifest_check_failed Read_failed))" using ex_rejection x by simp
  have h: "os_of ex_gpu_host = mem_os" "read_of ex_gpu_host = map_of" by (simp_all add: ex_gpu_host_def)
  have "image_dirs ex_checking ex_rejected = {''/c''}" "image_files ex_checking ex_rejected = [(''/c/x'', ''hello'')]"
    "under ''/c'' ''/c/other/k''" "\<not> under MCVBuildDir ''/d''" "\<not> under ''/c'' ''/d''"
    by code_simp+
  then show ?thesis
    using rejected_manifest_removes [of ex_gpu_host, OF _ _ x [unfolded r]] mem.file_system_axioms x r
    by (simp add: h)
qed

end
