(* ===== verification/Go_Base64.thy ===== *)
theory Go_Base64
  imports Go_Base
begin

text \<open>
  What the webhooks use of encoding/base64 (\<open>StdEncoding\<close>, with padding; the decoder skips
  line breaks and ignores the unused bits of the last group), on strings as lists of bytes,
  and that decoding an encoding gives the bytes back.
\<close>

definition b64_alphabet :: string where
  "b64_alphabet = ''ABCDEFGHIJKLMNOPQRSTUVWXYZabcdefghijklmnopqrstuvwxyz0123456789+/''"

definition b64_char :: "nat \<Rightarrow> char" where
  "b64_char n = b64_alphabet ! n"

definition b64_val :: "char \<Rightarrow> nat option" where
  "b64_val c = index_byte c b64_alphabet"

abbreviation byte :: "char \<Rightarrow> nat" where
  "byte c \<equiv> of_char c"

fun EncodeToString :: "string \<Rightarrow> string" where
  "EncodeToString [] = []"
| "EncodeToString [a] = [b64_char (byte a div 4), b64_char (byte a mod 4 * 16), CHR ''='', CHR ''='']"
| "EncodeToString [a, b] =
     [b64_char (byte a div 4), b64_char (byte a mod 4 * 16 + byte b div 16), b64_char (byte b mod 16 * 4), CHR ''='']"
| "EncodeToString (a # b # c # r) =
     [b64_char (byte a div 4), b64_char (byte a mod 4 * 16 + byte b div 16),
      b64_char (byte b mod 16 * 4 + byte c div 64), b64_char (byte c mod 64)] @ EncodeToString r"

fun decode_groups :: "string \<Rightarrow> string option" where
  "decode_groups [] = Some []"
| "decode_groups (w # x # y # z # r) =
     (case (b64_val w, b64_val x) of
        (Some p, Some q) \<Rightarrow>
          if y = CHR ''='' then
            (if z = CHR ''='' \<and> r = [] then Some [char_of (p * 4 + q div 16)] else None)
          else (case b64_val y of
             None \<Rightarrow> None
           | Some s \<Rightarrow>
              if z = CHR ''='' then
                (if r = [] then Some [char_of (p * 4 + q div 16), char_of (q mod 16 * 16 + s div 4)] else None)
              else (case (b64_val z, decode_groups r) of
                 (Some t, Some bs) \<Rightarrow>
                   Some (char_of (p * 4 + q div 16) # char_of (q mod 16 * 16 + s div 4) # char_of (s mod 4 * 64 + t) # bs)
               | _ \<Rightarrow> None))
      | _ \<Rightarrow> None)"
| "decode_groups _ = None"

definition is_newline :: "char \<Rightarrow> bool" where
  "is_newline c \<longleftrightarrow> byte c = 10 \<or> byte c = 13"

definition DecodeString :: "string \<Rightarrow> string option" where
  "DecodeString s = decode_groups (filter (\<lambda>c. \<not> is_newline c) s)"

lemma b64_all: "\<forall>n \<in> set [0..<64]. b64_val (b64_char n) = Some n \<and> b64_char n \<noteq> CHR ''='' \<and> \<not> is_newline (b64_char n)"
  by code_simp

lemma b64_digit [simp]:
  assumes "n < 64"
  shows "b64_val (b64_char n) = Some n" "b64_char n \<noteq> CHR ''=''" "\<not> is_newline (b64_char n)"
  using b64_all assms by auto

lemma not_newline_pad [simp]: "\<not> is_newline (CHR ''='')"
  by code_simp

lemma byte_div_less: "byte c div 4 < 64" "byte c div 16 < 16" "byte c div 64 < 4"
  by (simp_all add: less_mult_imp_div_less)

lemma sextet_less [simp]:
  "byte c div 4 < 64" "byte c mod 4 * 16 < 64" "byte c mod 16 * 4 < 64" "byte c mod 64 < 64"
  "byte a mod 4 * 16 + byte b div 16 < 64" "byte a mod 16 * 4 + byte b div 64 < 64"
proof -
  have "byte a mod 4 < 4" "byte a mod 16 < 16" "byte c mod 4 < 4" "byte c mod 16 < 16" by simp_all
  then show "byte a mod 4 * 16 + byte b div 16 < 64" "byte a mod 16 * 4 + byte b div 64 < 64"
    "byte c mod 4 * 16 < 64" "byte c mod 16 * 4 < 64"
    using byte_div_less [of b] by linarith+
qed (simp_all add: byte_div_less)

lemma sextets_again [simp]:
  "byte b div 16 div 16 = 0" "byte c div 64 div 4 = 0"
  "byte b div 16 mod 16 * 16 + byte b mod 16 = byte b" "byte c div 64 mod 4 * 64 + byte c mod 64 = byte c"
  using byte_div_less [of b] byte_div_less [of c] by simp_all

theorem decode_encode: "DecodeString (EncodeToString bs) = Some bs"
  unfolding DecodeString_def
  by (induction bs rule: EncodeToString.induct) (simp_all)

end
