(* ===== verification/Webhooks.thy ===== *)
theory Webhooks
  imports Cache_Summary Go_Base64 "HOL-Library.AList" "HOL-Library.Word"
begin

text \<open>
  The admission webhooks of the two cache resources (src/api/v1alpha1/gkmcache_webhook.go and
  clustergkmcache_webhook.go) and the signature check they call (src/pkg/cosign/verify.go).
  What the handlers read of the world is the record \<open>outside\<close>: the environment of the process,
  the admission request, the container registry and the libraries go-containerregistry,
  cosign and sigstore (each a function from what is asked to its answer, \<open>None\<close> or \<open>False\<close>
  when the call fails), and the keyed hash HMAC-SHA256, about which nothing is assumed.
  A Go map is a partial function; a nil map is \<open>None\<close> and reads as empty.
\<close>

type_synonym annotations = "(string \<Rightarrow> string option) option"

record cache =
  c_name :: string
  c_namespace :: string
  c_annotations :: annotations
  c_finalizers :: "string list"
  c_image :: string

datatype runtime_object = GKMCache cache | ClusterGKMCache cache | Other_object

record image_hash =
  hash_hex :: string
  hash_string :: string

record ('r, 'b) outside =
  getenv :: "string \<Rightarrow> string"
  request_user :: "string option"
  parse_reference :: "string \<Rightarrow> 'r option"
  ref_identifier :: "'r \<Rightarrow> string"
  remote_labels :: "'r \<Rightarrow> (string \<times> string) list option option"
  remote_digest :: "'r \<Rightarrow> string option"
  trusted_root :: bool
  get_bundles :: "'r \<Rightarrow> ('b list \<times> image_hash) option"
  new_verifier :: bool
  verify_bundle :: "string \<Rightarrow> 'b \<Rightarrow> bool"
  legacy_signatures :: "'r \<Rightarrow> nat option"
  signed_entity :: "'r \<Rightarrow> string option option"
  hmac_sha256 :: "string \<Rightarrow> string \<Rightarrow> string"

abbreviation resolvedDigest :: string where
  "resolvedDigest \<equiv> ''gkm.io/resolvedDigest''"

abbreviation cacheSizeBytes :: string where
  "cacheSizeBytes \<equiv> ''gkm.io/cache-size-bytes''"

abbreviation mutationSig :: string where
  "mutationSig \<equiv> ''gkm.io/mutationSig''"

abbreviation lastMutatedBy :: string where
  "lastMutatedBy \<equiv> ''gkm.io/lastMutatedBy''"

abbreviation verifyImages :: string where
  "verifyImages \<equiv> ''kyverno.io/verify-images''"

definition lookup :: "annotations \<Rightarrow> string \<Rightarrow> string option" where
  "lookup a k = (case a of None \<Rightarrow> None | Some m \<Rightarrow> m k)"

text \<open>Indexing a map without the second result gives the empty string for a missing key.\<close>

definition index :: "annotations \<Rightarrow> string \<Rightarrow> string" where
  "index a k = (case lookup a k of None \<Rightarrow> [] | Some v \<Rightarrow> v)"

subsection \<open>Verifying an image signature\<close>

datatype cosign_error =
  Bad_reference | No_trust_root
| Bundles_unavailable | No_bundles | Bad_digest_hex | No_verifier | Bundles_failed nat
| Legacy_failed | No_legacy_signatures | No_signed_entity | No_entity_digest
| All_formats_failed cosign_error

text \<open>\<open>hex.DecodeString\<close>.\<close>

fun hex_decode :: "string \<Rightarrow> string option" where
  "hex_decode [] = Some []"
| "hex_decode [c] = None"
| "hex_decode (c # d # r) =
     (case (hex_val c, hex_val d, hex_decode r) of
        (Some x, Some y, Some bs) \<Rightarrow> Some (char_of (16 * x + y) # bs)
      | _ \<Rightarrow> None)"

fun bundle_loop :: "('b \<Rightarrow> bool) \<Rightarrow> 'b list \<Rightarrow> bool" where
  "bundle_loop verify [] = False"
| "bundle_loop verify (bundle # bundles) = (if verify bundle then True else bundle_loop verify bundles)"

definition verifyNewBundleFormat :: "('r, 'b) outside \<Rightarrow> 'r \<Rightarrow> cosign_error + string" where
  "verifyNewBundleFormat W ref =
     (case get_bundles W ref of
        None \<Rightarrow> Inl Bundles_unavailable
      | Some (bundles, hash) \<Rightarrow>
         if bundles = [] then Inl No_bundles
         else case hex_decode (hash_hex hash) of
            None \<Rightarrow> Inl Bad_digest_hex
          | Some digestBytes \<Rightarrow>
             if \<not> new_verifier W then Inl No_verifier
             else if bundle_loop (verify_bundle W digestBytes) bundles then Inr (hash_string hash)
             else Inl (Bundles_failed (length bundles)))"

definition verifyLegacySignature :: "('r, 'b) outside \<Rightarrow> 'r \<Rightarrow> cosign_error + string" where
  "verifyLegacySignature W ref =
     (case legacy_signatures W ref of
        None \<Rightarrow> Inl Legacy_failed
      | Some n \<Rightarrow>
         if n = 0 then Inl No_legacy_signatures
         else case signed_entity W ref of
            None \<Rightarrow> Inl No_signed_entity
          | Some None \<Rightarrow> Inl No_entity_digest
          | Some (Some h) \<Rightarrow> Inr h)"

definition VerifyImageSignature :: "('r, 'b) outside \<Rightarrow> string \<Rightarrow> cosign_error + string" where
  "VerifyImageSignature W imageRef =
     (case parse_reference W imageRef of
        None \<Rightarrow> Inl Bad_reference
      | Some ref \<Rightarrow>
         if \<not> trusted_root W then Inl No_trust_root
         else case verifyNewBundleFormat W ref of
            Inr digest \<Rightarrow> Inr digest
          | Inl _ \<Rightarrow>
             (case verifyLegacySignature W ref of
                Inr digest \<Rightarrow> Inr digest
              | Inl err \<Rightarrow> Inl (All_formats_failed err)))"

subsection \<open>Helpers of the webhooks\<close>

datatype webhook_error =
  Wrong_type
| Image_unset
| Digest_unset
| Digest_immutable
| Resolve_failed
| Signature_failed cosign_error
| No_request
| No_signing_key
| Bad_mutation_signature
| Kyverno_unset
| Kyverno_failed

definition extractDigestFromImage :: "('r, 'b) outside \<Rightarrow> string \<Rightarrow> string" where
  "extractDigestFromImage W imageRef =
     (case parse_reference W imageRef of
        None \<Rightarrow> []
      | Some ref \<Rightarrow>
         if 7 < length (ref_identifier W ref) \<and> take 7 (ref_identifier W ref) = ''sha256:'' then ref_identifier W ref else [])"

fun size_loop :: "(string \<times> string) list \<Rightarrow> 64 word \<Rightarrow> 64 word" where
  "size_loop [] totalSize = totalSize"
| "size_loop ((key, value) # labels) totalSize =
     (if contains key ''cache-size-bytes'' then
        (case parse_int64 value of
           None \<Rightarrow> size_loop labels totalSize
         | Some n \<Rightarrow> size_loop labels (totalSize + word_of_int n))
      else size_loop labels totalSize)"

definition extractSizeFromImage :: "('r, 'b) outside \<Rightarrow> string \<Rightarrow> int" where
  "extractSizeFromImage W imageRef =
     (case parse_reference W imageRef of
        None \<Rightarrow> 0
      | Some ref \<Rightarrow>
         (case remote_labels W ref of
            None \<Rightarrow> 0
          | Some None \<Rightarrow> 0
          | Some (Some labels) \<Rightarrow> if labels = [] then 0 else sint (size_loop labels 0)))"

text \<open>\<open>json.Unmarshal\<close> into a \<open>map[string]string\<close>: null leaves the map nil, a null member is empty.\<close>

fun decode_string_members :: "(string \<times> json) list \<Rightarrow> (string \<times> string) list \<Rightarrow> (string \<times> string) list option" where
  "decode_string_members [] m = Some m"
| "decode_string_members ((k, j) # kjs) m =
     (case decode_string [] j of
        None \<Rightarrow> None
      | Some v \<Rightarrow> decode_string_members kjs (AList.update k v m))"

fun decode_string_map :: "json \<Rightarrow> (string \<times> string) list option" where
  "decode_string_map JNull = Some []"
| "decode_string_map (JObj kjs) = decode_string_members kjs []"
| "decode_string_map _ = None"

definition verifyKyvernoAnnotation :: "annotations \<Rightarrow> bool" where
  "verifyKyvernoAnnotation a =
     (case lookup a verifyImages of
        None \<Rightarrow> False
      | Some kyvernoAnnotation \<Rightarrow>
         (case Option.bind (parse_json kyvernoAnnotation) decode_string_map of
            None \<Rightarrow> False
          | Some verifications \<Rightarrow> list_all (\<lambda>(_, status). status = ''pass'') verifications))"

definition isKyvernoVerificationEnabled :: "('r, 'b) outside \<Rightarrow> bool" where
  "isKyvernoVerificationEnabled W =
     (let envValue = getenv W ''KYVERNO_VERIFICATION_ENABLED'' in
      if envValue = [] then True
      else let v = to_lower envValue in
       if v = ''true'' \<or> v = ''1'' \<or> v = ''yes'' then True
       else if v = ''false'' \<or> v = ''0'' \<or> v = ''no'' then False
       else True)"

definition resolveImageDigest :: "('r, 'b) outside \<Rightarrow> string \<Rightarrow> string option" where
  "resolveImageDigest W imageRef =
     (case parse_reference W imageRef of
        None \<Rightarrow> None
      | Some ref \<Rightarrow> remote_digest W ref)"

definition mutationKeyFromEnv :: "('r, 'b) outside \<Rightarrow> string option" where
  "mutationKeyFromEnv W =
     (let k = getenv W ''MUTATION_SIGNING_KEY'' in if k = [] then None else Some k)"

definition signMutation :: "('r, 'b) outside \<Rightarrow> string \<Rightarrow> string \<Rightarrow> string \<Rightarrow> string \<Rightarrow> string" where
  "signMutation W secret requestUID img digest =
     EncodeToString (hmac_sha256 W secret (requestUID @ ''|'' @ img @ ''|'' @ digest))"

definition verifyMutation :: "('r, 'b) outside \<Rightarrow> string \<Rightarrow> string \<Rightarrow> string \<Rightarrow> string \<Rightarrow> string \<Rightarrow> bool" where
  "verifyMutation W secret requestUID img digest sigB64 =
     (if sigB64 = [] then False
      else let wantSig = signMutation W secret requestUID img digest;
               want = (case DecodeString wantSig of None \<Rightarrow> [] | Some b \<Rightarrow> b) in
       case DecodeString sigB64 of
         None \<Rightarrow> False
       | Some got \<Rightarrow> want = got)"

subsection \<open>The webhooks of GKMCache\<close>

abbreviation annotate :: "(string \<Rightarrow> string option) \<Rightarrow> cache \<Rightarrow> cache" where
  "annotate m c \<equiv> c\<lparr>c_annotations := Some m\<rparr>"

definition GKMCache_Default :: "('r, 'b) outside \<Rightarrow> runtime_object \<Rightarrow> webhook_error + cache" where
  "GKMCache_Default W obj =
     (case obj of
        GKMCache c \<Rightarrow>
          let m = (case c_annotations c of None \<Rightarrow> Map.empty | Some m \<Rightarrow> m);
              c = annotate m c;
              finish = (\<lambda>digest. annotate (m(resolvedDigest \<mapsto> digest, cacheSizeBytes \<mapsto> format_int (extractSizeFromImage W (c_image c)))) c) in
          if c_image c = [] then Inr c
          else if isKyvernoVerificationEnabled W then
            (let digest = extractDigestFromImage W (c_image c) in
             if digest \<noteq> [] \<and> m resolvedDigest = Some digest then Inr c
             else if digest = [] then Inr c
             else Inr (finish digest))
          else (case resolveImageDigest W (c_image c) of
             None \<Rightarrow> Inl Resolve_failed
           | Some digest \<Rightarrow> Inr (finish digest))
      | _ \<Rightarrow> Inl Wrong_type)"

definition kyverno_check :: "annotations \<Rightarrow> webhook_error option" where
  "kyverno_check a =
     (if lookup a verifyImages = None then Some Kyverno_unset
      else if \<not> verifyKyvernoAnnotation a then Some Kyverno_failed
      else None)"

definition GKMCache_ValidateCreate :: "('r, 'b) outside \<Rightarrow> runtime_object \<Rightarrow> webhook_error option" where
  "GKMCache_ValidateCreate W obj =
     (case obj of
        GKMCache c \<Rightarrow>
          if c_image c = [] then Some Image_unset
          else if lookup (c_annotations c) resolvedDigest = None then Some Digest_unset
          else if isKyvernoVerificationEnabled W then kyverno_check (c_annotations c)
          else None
      | _ \<Rightarrow> Some Wrong_type)"

definition GKMCache_ValidateUpdate :: "('r, 'b) outside \<Rightarrow> runtime_object \<Rightarrow> runtime_object \<Rightarrow> webhook_error option" where
  "GKMCache_ValidateUpdate W oldObj newObj =
     (case (oldObj, newObj) of
        (GKMCache old, GKMCache new) \<Rightarrow>
          let oldDigest = index (c_annotations old) resolvedDigest;
              newDigest = index (c_annotations new) resolvedDigest in
          if c_image old = c_image new then
            (if oldDigest \<noteq> newDigest then Some Digest_immutable else None)
          else if c_image new = [] then Some Image_unset
          else if newDigest = [] then Some Digest_unset
          else if isKyvernoVerificationEnabled W then kyverno_check (c_annotations new)
          else None
      | _ \<Rightarrow> Some Wrong_type)"

definition GKMCache_ValidateDelete :: "runtime_object \<Rightarrow> webhook_error option" where
  "GKMCache_ValidateDelete obj = (case obj of GKMCache c \<Rightarrow> None | _ \<Rightarrow> Some Wrong_type)"

subsection \<open>The webhooks of ClusterGKMCache\<close>

definition ClusterGKMCache_Default :: "('r, 'b) outside \<Rightarrow> runtime_object \<Rightarrow> webhook_error + cache" where
  "ClusterGKMCache_Default W obj =
     (case obj of
        ClusterGKMCache c \<Rightarrow>
          let m = (case c_annotations c of None \<Rightarrow> Map.empty | Some m \<Rightarrow> m);
              c = annotate m c in
          if c_image c = [] then Inr c
          else case VerifyImageSignature W (c_image c) of
            Inl err \<Rightarrow> Inl (Signature_failed err)
          | Inr digest \<Rightarrow>
             if m resolvedDigest = Some digest then Inr c
             else case request_user W of
               None \<Rightarrow> Inl No_request
             | Some username \<Rightarrow>
                (case mutationKeyFromEnv W of
                   None \<Rightarrow> Inl No_signing_key
                 | Some secret \<Rightarrow>
                    Inr (annotate (m(resolvedDigest \<mapsto> digest,
                      cacheSizeBytes \<mapsto> format_int (extractSizeFromImage W (c_image c)),
                      mutationSig \<mapsto> signMutation W secret [] (c_image c) digest,
                      lastMutatedBy \<mapsto> username)) c))
      | _ \<Rightarrow> Inl Wrong_type)"

definition ClusterGKMCache_ValidateCreate :: "('r, 'b) outside \<Rightarrow> runtime_object \<Rightarrow> webhook_error option" where
  "ClusterGKMCache_ValidateCreate W obj =
     (case obj of
        ClusterGKMCache c \<Rightarrow>
          if c_image c = [] then Some Image_unset
          else
            let digest = index (c_annotations c) resolvedDigest;
                sig = index (c_annotations c) mutationSig in
            if digest = [] then Some Digest_unset
            else case mutationKeyFromEnv W of
              None \<Rightarrow> Some No_signing_key
            | Some secret \<Rightarrow>
               if \<not> verifyMutation W secret [] (c_image c) digest sig then Some Bad_mutation_signature else None
      | _ \<Rightarrow> Some Wrong_type)"

definition ClusterGKMCache_ValidateUpdate :: "('r, 'b) outside \<Rightarrow> runtime_object \<Rightarrow> runtime_object \<Rightarrow> webhook_error option" where
  "ClusterGKMCache_ValidateUpdate W oldObj newObj =
     (case (oldObj, newObj) of
        (ClusterGKMCache old, ClusterGKMCache new) \<Rightarrow>
          let oldDigest = index (c_annotations old) resolvedDigest;
              newDigest = index (c_annotations new) resolvedDigest;
              newSig = index (c_annotations new) mutationSig in
          if c_image old = c_image new then
            (if oldDigest \<noteq> newDigest then Some Digest_immutable else None)
          else if c_image new = [] then Some Image_unset
          else if newDigest = [] \<or> newSig = [] then Some Digest_unset
          else case mutationKeyFromEnv W of
            None \<Rightarrow> Some No_signing_key
          | Some secret \<Rightarrow>
             if \<not> verifyMutation W secret [] (c_image new) newDigest newSig then Some Bad_mutation_signature else None
      | _ \<Rightarrow> Some Wrong_type)"

definition ClusterGKMCache_ValidateDelete :: "runtime_object \<Rightarrow> webhook_error option" where
  "ClusterGKMCache_ValidateDelete obj = (case obj of ClusterGKMCache c \<Rightarrow> None | _ \<Rightarrow> Some Wrong_type)"

end
