(* ===== verification/Admission_Steps.thy ===== *)
theory Admission_Steps
  imports Main
begin

text \<open>
  How an API server calls a pair of webhooks, as a step relation: a write is passed to the
  mutating webhook and its result to the validating one, and is stored when both accept.
  Between the writes the world around the webhooks (registry, environment, requests) may
  change in any way. The two locales state what a webhook for pinned images owes its
  clients and derive what then holds of every object that is ever stored.
\<close>

record ('o, 'w) api_server =
  stored :: "string \<Rightarrow> 'o option"
  worlds :: "'w list"

definition empty_server :: "'w \<Rightarrow> ('o, 'w) api_server" where
  "empty_server W = \<lparr>stored = Map.empty, worlds = [W]\<rparr>"

definition admit ::
  "('w \<Rightarrow> 'o \<Rightarrow> 'e + 'o) \<Rightarrow> ('w \<Rightarrow> 'o \<Rightarrow> 'e option) \<Rightarrow> 'w \<Rightarrow> 'o \<Rightarrow> 'e + 'o" where
  "admit mutate validate W ob =
     (case mutate W ob of
        Inl err \<Rightarrow> Inl err
      | Inr ob' \<Rightarrow> (case validate W ob' of Some err \<Rightarrow> Inl err | None \<Rightarrow> Inr ob'))"

lemma admit_Inr [simp]: "admit mutate validate W ob = Inr ob' \<longleftrightarrow> mutate W ob = Inr ob' \<and> validate W ob' = None"
  by (auto simp: admit_def split: sum.splits option.splits)

inductive admission_step ::
  "('w \<Rightarrow> 'o \<Rightarrow> 'e + 'o) \<Rightarrow> ('w \<Rightarrow> 'o \<Rightarrow> 'e option) \<Rightarrow> ('w \<Rightarrow> 'o \<Rightarrow> 'o \<Rightarrow> 'e option) \<Rightarrow>
   ('o, 'w) api_server \<Rightarrow> ('o, 'w) api_server \<Rightarrow> bool"
  for mutate validate_create validate_update where
  create: "worlds s = W # Ws \<Longrightarrow> stored s n = None \<Longrightarrow> admit mutate validate_create W ob = Inr ob' \<Longrightarrow>
    admission_step mutate validate_create validate_update s (s\<lparr>stored := (stored s)(n \<mapsto> ob')\<rparr>)"
| update: "worlds s = W # Ws \<Longrightarrow> stored s n = Some old \<Longrightarrow> admit mutate (\<lambda>W. validate_update W old) W ob = Inr ob' \<Longrightarrow>
    admission_step mutate validate_create validate_update s (s\<lparr>stored := (stored s)(n \<mapsto> ob')\<rparr>)"
| delete: "admission_step mutate validate_create validate_update s (s\<lparr>stored := (stored s)(n := None)\<rparr>)"
| turn: "admission_step mutate validate_create validate_update s (s\<lparr>worlds := W # worlds s\<rparr>)"

locale admission =
  fixes image :: "'o \<Rightarrow> string"
    and digest :: "'o \<Rightarrow> string"
    and resolve :: "'w \<Rightarrow> string \<Rightarrow> string option"
    and mutate :: "'w \<Rightarrow> 'o \<Rightarrow> 'e + 'o"
    and validate_create :: "'w \<Rightarrow> 'o \<Rightarrow> 'e option"
    and validate_update :: "'w \<Rightarrow> 'o \<Rightarrow> 'o \<Rightarrow> 'e option"
  assumes mutate_image: "mutate W ob = Inr ob' \<Longrightarrow> image ob' = image ob"
    and mutate_digest: "mutate W ob = Inr ob' \<Longrightarrow> image ob \<noteq> [] \<Longrightarrow> resolve W (image ob) = Some d \<Longrightarrow> digest ob' = d"
    and create_image: "validate_create W ob = None \<Longrightarrow> image ob \<noteq> []"
    and update_image: "validate_update W old ob = None \<Longrightarrow> image old \<noteq> [] \<Longrightarrow> image ob \<noteq> []"
    and update_digest: "validate_update W old ob = None \<Longrightarrow> image ob = image old \<Longrightarrow> digest ob = digest old"
begin

text \<open>An object is well recorded when some world the server has seen resolves its image to nothing else.\<close>

definition recorded :: "'w list \<Rightarrow> 'o \<Rightarrow> bool" where
  "recorded Ws ob \<longleftrightarrow> image ob \<noteq> [] \<and> (\<exists>W \<in> set Ws. \<exists>ob'. mutate W ob' = Inr ob \<and> image ob' = image ob)"

lemma recorded_digest: "recorded Ws ob \<Longrightarrow> \<exists>W \<in> set Ws. \<forall>d. resolve W (image ob) = Some d \<longrightarrow> digest ob = d"
  by (metis recorded_def mutate_digest)

lemma reachable_recorded:
  assumes "(admission_step mutate validate_create validate_update)\<^sup>*\<^sup>* (empty_server W) s" "stored s n = Some ob"
  shows "recorded (worlds s) ob"
  using assms
proof (induction arbitrary: n ob rule: rtranclp_induct)
  case base
  then show ?case by (simp add: empty_server_def)
next
  case (step s s')
  note IH = step.IH
  from step.hyps(2) step.prems show ?case
  proof (cases rule: admission_step.cases)
    case (create W Ws n' ob0 ob')
    then show ?thesis using IH [of n ob] step.prems mutate_image [of W ob0 ob'] create_image [of W ob']
      by (auto simp: recorded_def split: if_splits)
  next
    case (update W Ws n' old ob0 ob')
    then show ?thesis using IH [of n ob] IH [of n' old] step.prems mutate_image [of W ob0 ob'] update_image [of W old ob']
      by (auto simp: recorded_def split: if_splits)
  next
    case (delete n')
    then show ?thesis using IH [of n ob] step.prems by (auto split: if_splits)
  next
    case (turn W)
    then show ?thesis using IH [of n ob] step.prems by (auto simp: recorded_def)
  qed
qed

lemma step_keeps_digest:
  assumes "admission_step mutate validate_create validate_update s s'"
    and "stored s n = Some ob" "stored s' n = Some ob'" "image ob' = image ob"
  shows "digest ob' = digest ob"
  using assms by (cases rule: admission_step.cases) (auto split: if_splits dest: update_digest)

end

locale resolving_admission = admission +
  assumes mutate_resolves: "mutate W ob = Inr ob' \<Longrightarrow> image ob \<noteq> [] \<Longrightarrow> \<exists>d. resolve W (image ob) = Some d"
begin

lemma reachable_resolved:
  assumes "(admission_step mutate validate_create validate_update)\<^sup>*\<^sup>* (empty_server W) s" "stored s n = Some ob"
  shows "image ob \<noteq> [] \<and> (\<exists>W \<in> set (worlds s). resolve W (image ob) = Some (digest ob))"
  using reachable_recorded [OF assms] mutate_resolves mutate_digest by (metis recorded_def)

end

end
