(* ===== verification/Webhook_Theorems.thy ===== *)
theory Webhook_Theorems
  imports Webhooks Admission_Steps
begin

text \<open>
  What the webhooks promise: the contract of the pinned digest, proved for both resources by
  interpreting the admission locales, and the decisions on single requests.
\<close>

abbreviation digest_of :: "cache \<Rightarrow> string" where
  "digest_of c \<equiv> index (c_annotations c) resolvedDigest"

text \<open>The handlers as the API server calls them, each on its own resource.\<close>

abbreviation cluster_mutate :: "('r, 'b) outside \<Rightarrow> cache \<Rightarrow> webhook_error + cache" where
  "cluster_mutate W c \<equiv> ClusterGKMCache_Default W (ClusterGKMCache c)"

abbreviation cluster_on_create :: "('r, 'b) outside \<Rightarrow> cache \<Rightarrow> webhook_error option" where
  "cluster_on_create W c \<equiv> ClusterGKMCache_ValidateCreate W (ClusterGKMCache c)"

abbreviation cluster_on_update :: "('r, 'b) outside \<Rightarrow> cache \<Rightarrow> cache \<Rightarrow> webhook_error option" where
  "cluster_on_update W old c \<equiv> ClusterGKMCache_ValidateUpdate W (ClusterGKMCache old) (ClusterGKMCache c)"

abbreviation ns_mutate :: "('r, 'b) outside \<Rightarrow> cache \<Rightarrow> webhook_error + cache" where
  "ns_mutate W c \<equiv> GKMCache_Default W (GKMCache c)"

abbreviation ns_on_create :: "('r, 'b) outside \<Rightarrow> cache \<Rightarrow> webhook_error option" where
  "ns_on_create W c \<equiv> GKMCache_ValidateCreate W (GKMCache c)"

abbreviation ns_on_update :: "('r, 'b) outside \<Rightarrow> cache \<Rightarrow> cache \<Rightarrow> webhook_error option" where
  "ns_on_update W old c \<equiv> GKMCache_ValidateUpdate W (GKMCache old) (GKMCache c)"

text \<open>What each resource takes as the digest of an image.\<close>

definition verified :: "('r, 'b) outside \<Rightarrow> string \<Rightarrow> string option" where
  "verified W i = (case VerifyImageSignature W i of Inl _ \<Rightarrow> None | Inr d \<Rightarrow> Some d)"

definition ns_resolved :: "('r, 'b) outside \<Rightarrow> string \<Rightarrow> string option" where
  "ns_resolved W i =
     (if isKyvernoVerificationEnabled W then
        (if extractDigestFromImage W i = [] then None else Some (extractDigestFromImage W i))
      else resolveImageDigest W i)"

lemmas webhook_defs =
  ClusterGKMCache_Default_def ClusterGKMCache_ValidateCreate_def ClusterGKMCache_ValidateUpdate_def
  GKMCache_Default_def GKMCache_ValidateCreate_def GKMCache_ValidateUpdate_def

lemma index_simps [simp]:
  "index (Some (m(k \<mapsto> v))) k = v" "k \<noteq> k' \<Longrightarrow> index (Some (m(k \<mapsto> v))) k' = index (Some m) k'"
  "m k = Some v \<Longrightarrow> index (Some m) k = v"
  by (simp_all add: index_def lookup_def)

lemma cluster_mutate_digest:
  assumes "cluster_mutate W c = Inr c'"
  shows "c_image c' = c_image c" "c_image c \<noteq> [] \<Longrightarrow> VerifyImageSignature W (c_image c) = Inr (digest_of c')"
  using assms by (auto simp: ClusterGKMCache_Default_def Let_def split: if_splits sum.splits option.splits)

lemma ns_mutate_digest:
  assumes "ns_mutate W c = Inr c'"
  shows "c_image c' = c_image c" "c_image c \<noteq> [] \<Longrightarrow> ns_resolved W (c_image c) = Some d \<Longrightarrow> digest_of c' = d"
  using assms by (auto simp: GKMCache_Default_def ns_resolved_def Let_def split: if_splits option.splits)

interpretation cluster: resolving_admission c_image digest_of verified cluster_mutate cluster_on_create cluster_on_update
proof
  fix W :: "('r, 'b) outside" and c c' d old
  show "c_image c' = c_image c" if "cluster_mutate W c = Inr c'" using cluster_mutate_digest [OF that] by simp
  show "digest_of c' = d" if "cluster_mutate W c = Inr c'" "c_image c \<noteq> []" "verified W (c_image c) = Some d"
    using cluster_mutate_digest [OF that(1)] that(2,3) by (simp add: verified_def)
  show "\<exists>d. verified W (c_image c) = Some d" if "cluster_mutate W c = Inr c'" "c_image c \<noteq> []"
    using cluster_mutate_digest [OF that(1)] that(2) by (simp add: verified_def)
qed (auto simp: webhook_defs Let_def split: if_splits)

interpretation ns: admission c_image digest_of ns_resolved ns_mutate ns_on_create ns_on_update
proof
  fix W :: "('r, 'b) outside" and c c' d old
  show "c_image c' = c_image c" if "ns_mutate W c = Inr c'" using ns_mutate_digest [OF that] by simp
  show "digest_of c' = d" if "ns_mutate W c = Inr c'" "c_image c \<noteq> []" "ns_resolved W (c_image c) = Some d"
    using ns_mutate_digest [OF that(1)] that(2,3) by simp
qed (auto simp: webhook_defs Let_def split: if_splits)

text \<open>
  What a verified digest rests on: a trusted root and either a bundle that verifies for the
  bytes of the digest, or at least one legacy signature of the reference.
\<close>

definition attested :: "('r, 'b) outside \<Rightarrow> string \<Rightarrow> string \<Rightarrow> bool" where
  "attested W i d \<longleftrightarrow> trusted_root W \<and> (\<exists>ref. parse_reference W i = Some ref \<and>
     ((\<exists>bundles hash bs. get_bundles W ref = Some (bundles, hash) \<and> hex_decode (hash_hex hash) = Some bs \<and>
         hash_string hash = d \<and> (\<exists>b \<in> set bundles. verify_bundle W bs b)) \<or>
      (\<exists>n. legacy_signatures W ref = Some (Suc n) \<and> signed_entity W ref = Some (Some d))))"

lemma bundle_loop_iff: "bundle_loop verify bs \<longleftrightarrow> (\<exists>b \<in> set bs. verify b)"
  by (induction bs) auto

lemma new_bundle_attested:
  "verifyNewBundleFormat W ref = Inr d \<Longrightarrow>
   \<exists>bundles hash bs. get_bundles W ref = Some (bundles, hash) \<and> hex_decode (hash_hex hash) = Some bs \<and>
     hash_string hash = d \<and> (\<exists>b \<in> set bundles. verify_bundle W bs b)"
  by (auto simp: verifyNewBundleFormat_def bundle_loop_iff split: option.splits prod.splits if_splits)

lemma legacy_attested:
  "verifyLegacySignature W ref = Inr d \<Longrightarrow> \<exists>n. legacy_signatures W ref = Some (Suc n) \<and> signed_entity W ref = Some (Some d)"
  by (auto simp: verifyLegacySignature_def gr0_conv_Suc split: option.splits if_splits)

lemma verified_attested:
  assumes "VerifyImageSignature W i = Inr d"
  shows "attested W i d"
proof -
  obtain ref where ref: "parse_reference W i = Some ref" "trusted_root W"
    "verifyNewBundleFormat W ref = Inr d \<or> verifyLegacySignature W ref = Inr d"
    using assms by (auto simp: VerifyImageSignature_def split: option.splits if_splits sum.splits)
  then show ?thesis unfolding attested_def using new_bundle_attested legacy_attested by metis
qed

definition ex_out :: "(string, unit) outside" where
  "ex_out = \<lparr>getenv = (\<lambda>k. if k = ''MUTATION_SIGNING_KEY'' then ''key'' else []), request_user = Some ''user'',
     parse_reference = Some, ref_identifier = (\<lambda>r. drop 2 r),
     remote_labels = (\<lambda>_. Some (Some [(''cache.triton.image/cache-size-bytes'', ''12'')])), remote_digest = Some,
     trusted_root = True, get_bundles = (\<lambda>_. None), new_verifier = True, verify_bundle = (\<lambda>_ _. True),
     legacy_signatures = (\<lambda>_. Some 1), signed_entity = (\<lambda>_. Some (Some ''sha256:0'')),
     hmac_sha256 = (\<lambda>secret msg. secret @ msg)\<rparr>"

definition ex_cache :: "string \<Rightarrow> (string \<Rightarrow> string option) \<Rightarrow> cache" where
  "ex_cache i m = \<lparr>c_name = ''n'', c_namespace = [], c_annotations = Some m, c_finalizers = [], c_image = i\<rparr>"

lemma ex_verify: "VerifyImageSignature ex_out i = Inr ''sha256:0''"
  by (simp add: VerifyImageSignature_def verifyNewBundleFormat_def verifyLegacySignature_def ex_out_def)

lemma ex_key: "mutationKeyFromEnv ex_out = Some ''key''" "request_user ex_out = Some ''user''"
  by (simp_all add: mutationKeyFromEnv_def ex_out_def)

text \<open>The signature annotation is accepted exactly when it decodes to the keyed hash.\<close>

lemma verifyMutation_iff:
  "verifyMutation W secret uid i d sig \<longleftrightarrow>
     sig \<noteq> [] \<and> DecodeString sig = Some (hmac_sha256 W secret (uid @ ''|'' @ i @ ''|'' @ d))"
  by (auto simp: verifyMutation_def signMutation_def decode_encode split: option.splits)

lemma verify_own:
  assumes "hmac_sha256 W secret (uid @ ''|'' @ i @ ''|'' @ d) \<noteq> []"
  shows "verifyMutation W secret uid i d (signMutation W secret uid i d)" "signMutation W secret uid i d \<noteq> []"
proof -
  show "signMutation W secret uid i d \<noteq> []"
    using assms decode_encode [of "hmac_sha256 W secret (uid @ ''|'' @ i @ ''|'' @ d)"]
    by (auto simp: signMutation_def DecodeString_def)
  then show "verifyMutation W secret uid i d (signMutation W secret uid i d)"
    by (simp add: verifyMutation_iff) (simp add: signMutation_def decode_encode)
qed

text \<open>
  C36. The digest of a ClusterGKMCache is always one that a signature was checked for: in
  every state of the API server that any requests lead to (with any annotations, signatures
  included, chosen by the client, while tags, keys and trust roots change in between), every
  stored object names an image, its digest annotation is a digest that the signature check
  attested for this very image in some world the server has seen, and no later write that
  keeps the image changes it.
\<close>

theorem cluster_digest_verified:
  assumes "(admission_step cluster_mutate cluster_on_create cluster_on_update)\<^sup>*\<^sup>* (empty_server W) s"
    and "stored s n = Some c"
  shows "c_image c \<noteq> [] \<and> (\<exists>W \<in> set (worlds s). attested W (c_image c) (digest_of c)) \<and>
    (\<forall>s' c'. admission_step cluster_mutate cluster_on_create cluster_on_update s s' \<longrightarrow>
       stored s' n = Some c' \<longrightarrow> c_image c' = c_image c \<longrightarrow> digest_of c' = digest_of c)"
proof (intro conjI allI impI)
  show "c_image c \<noteq> []" using cluster.reachable_resolved [OF assms] by blast
  obtain W where "W \<in> set (worlds s)" "verified W (c_image c) = Some (digest_of c)"
    using cluster.reachable_resolved [OF assms] by blast
  then show "\<exists>W \<in> set (worlds s). attested W (c_image c) (digest_of c)"
    by (auto simp: verified_def intro: verified_attested split: sum.splits)
qed (use cluster.step_keeps_digest assms(2) in metis)

definition ex_admitted :: cache where
  "ex_admitted = ex_cache ''a:1'' [resolvedDigest \<mapsto> ''sha256:0'', mutationSig \<mapsto> signMutation ex_out ''key'' [] ''a:1'' ''sha256:0'']"

lemma ex_hmac: "hmac_sha256 ex_out k m = k @ m"
  by (simp add: ex_out_def)

lemma ex_create: "admit cluster_mutate cluster_on_create ex_out ex_admitted = Inr ex_admitted"
  using verify_own [of ex_out "''key''" "[]" "''a:1''" "''sha256:0''"]
  by (simp add: webhook_defs ex_admitted_def ex_cache_def ex_verify ex_key ex_hmac Let_def)

theorem cluster_digest_verified_witness:
  "attested ex_out ''a:1'' ''sha256:0''"
proof -
  let ?s = "(empty_server ex_out)\<lparr>stored := [''n'' \<mapsto> ex_admitted]\<rparr>"
  have "admission_step cluster_mutate cluster_on_create cluster_on_update (empty_server ex_out) ?s"
    using admission_step.create [OF _ _ ex_create, of "empty_server ex_out" "[]" "''n''" cluster_on_update]
    by (simp add: empty_server_def)
  then show ?thesis
    using cluster_digest_verified [of ex_out ?s "''n''" ex_admitted]
    by (auto simp: empty_server_def ex_admitted_def ex_cache_def)
qed

lemma cluster_mutate_ok:
  assumes "c_image c \<noteq> []" "VerifyImageSignature W (c_image c) = Inr d" "request_user W = Some u" "mutationKeyFromEnv W = Some k"
  shows "\<exists>c'. cluster_mutate W c = Inr c'"
  using assms by (simp add: ClusterGKMCache_Default_def Let_def)

text \<open>
  C37. A write to a ClusterGKMCache that keeps its image (a label, the operator's finalizer) is
  admitted exactly when the signature check of that image gives the recorded digest again,
  on a server that can sign. So when a tag has moved, or the image, its signature or the
  trust root can no longer be fetched, every such write is refused, the removal of the
  finalizer that a deletion waits for included.
\<close>

theorem cluster_same_image_update:
  assumes "c_image old \<noteq> []" "c_image new = c_image old"
    and "request_user W = Some u" "mutationKeyFromEnv W = Some k"
  shows "(\<exists>c. admit cluster_mutate (\<lambda>W. cluster_on_update W old) W new = Inr c) \<longleftrightarrow>
    VerifyImageSignature W (c_image old) = Inr (digest_of old)"
proof
  assume "\<exists>c. admit cluster_mutate (\<lambda>W. cluster_on_update W old) W new = Inr c"
  then obtain c where c: "cluster_mutate W new = Inr c" "cluster_on_update W old c = None" by auto
  moreover have "digest_of c = digest_of old"
    using cluster.update_digest [OF c(2)] cluster_mutate_digest(1) [OF c(1)] assms(2) by simp
  ultimately show "VerifyImageSignature W (c_image old) = Inr (digest_of old)"
    using cluster_mutate_digest(2) [OF c(1)] assms by simp
next
  assume v: "VerifyImageSignature W (c_image old) = Inr (digest_of old)"
  then obtain c where c: "cluster_mutate W new = Inr c" using cluster_mutate_ok [of new W] assms by metis
  then have "c_image c = c_image old" "digest_of c = digest_of old"
    using cluster_mutate_digest [OF c] v assms by auto
  then show "\<exists>c. admit cluster_mutate (\<lambda>W. cluster_on_update W old) W new = Inr c"
    using c by (simp add: ClusterGKMCache_ValidateUpdate_def)
qed

theorem cluster_same_image_update_witness:
  "\<not> (\<exists>c. admit cluster_mutate (\<lambda>W. cluster_on_update W (ex_cache ''a:1'' [resolvedDigest \<mapsto> ''sha256:1''])) ex_out
     (ex_cache ''a:1'' Map.empty) = Inr c)"
  using cluster_same_image_update [of "ex_cache ''a:1'' [resolvedDigest \<mapsto> ''sha256:1'']" "ex_cache ''a:1'' Map.empty" ex_out]
  by (simp add: ex_verify ex_key ex_cache_def)

text \<open>
  C38. A ClusterGKMCache whose image is replaced by another reference to the same content, with
  the annotations that the first admission left (as a patch or an edit sends them), is
  refused: the mutating webhook finds the digest unchanged and leaves the signature of the
  old reference in place. The same request without the annotations is admitted and signed.
\<close>

theorem cluster_retag_rejected:
  assumes "c_image new \<noteq> []" "c_image new \<noteq> c_image old"
    and "mutationKeyFromEnv W = Some k" "request_user W = Some u"
    and "VerifyImageSignature W (c_image new) = Inr d" "d \<noteq> []"
    and "c_annotations new = Some m" "m resolvedDigest = Some d" "m mutationSig = Some (signMutation W k [] (c_image old) d)"
    and "hmac_sha256 W k ([] @ ''|'' @ c_image old @ ''|'' @ d) \<noteq> hmac_sha256 W k ([] @ ''|'' @ c_image new @ ''|'' @ d)"
    and "\<And>msg. hmac_sha256 W k msg \<noteq> []"
  shows "admit cluster_mutate (\<lambda>W. cluster_on_update W old) W new = Inl Bad_mutation_signature \<and>
    (\<exists>c. admit cluster_mutate (\<lambda>W. cluster_on_update W old) W (new\<lparr>c_annotations := None\<rparr>) = Inr c \<and> digest_of c = d)"
proof
  have "cluster_mutate W new = Inr new"
    using assms(1,5,7,8) by (simp add: ClusterGKMCache_Default_def Let_def)
  moreover have "cluster_on_update W old new = Some Bad_mutation_signature"
    using assms verify_own(2) [of W k "[]" "c_image old" d]
    by (auto simp: ClusterGKMCache_ValidateUpdate_def Let_def verifyMutation_iff signMutation_def decode_encode)
  ultimately show "admit cluster_mutate (\<lambda>W. cluster_on_update W old) W new = Inl Bad_mutation_signature"
    by (simp add: admit_def)
  show "\<exists>c. admit cluster_mutate (\<lambda>W. cluster_on_update W old) W (new\<lparr>c_annotations := None\<rparr>) = Inr c \<and> digest_of c = d"
    using assms verify_own [of W k "[]" "c_image new" d]
    by (simp add: ClusterGKMCache_Default_def ClusterGKMCache_ValidateUpdate_def Let_def)
qed

theorem cluster_retag_rejected_witness:
  "admit cluster_mutate (\<lambda>W. cluster_on_update W ex_admitted) ex_out (ex_admitted\<lparr>c_image := ''a:2''\<rparr>) = Inl Bad_mutation_signature"
  using cluster_retag_rejected [of "ex_admitted\<lparr>c_image := ''a:2''\<rparr>" ex_admitted ex_out "''key''"]
  by (simp add: ex_verify ex_key ex_hmac ex_admitted_def ex_cache_def)

lemma kyverno_empty: "parse_json ''{}'' = Some (JObj [])"
  by code_simp

lemma unchecked_digest_admitted:
  assumes "isKyvernoVerificationEnabled W" "c_image c \<noteq> []" "extractDigestFromImage W (c_image c) = []"
    and "c_annotations c = Some m" "m resolvedDigest = Some d" "m verifyImages = Some ''{}''"
  shows "admit ns_mutate ns_on_create W c = Inr c"
  using assms
  by (simp add: GKMCache_Default_def GKMCache_ValidateCreate_def Let_def kyverno_check_def verifyKyvernoAnnotation_def
      lookup_def kyverno_empty)

text \<open>
  C39. With Kyverno verification enabled, a new GKMCache whose image names no digest is admitted
  as it is when it carries a resolved digest and the Kyverno annotation \<open>{}\<close>, whatever the
  digest: neither webhook of GKMCache compares the digest with the image or with the entries
  that Kyverno wrote.
\<close>

theorem kyverno_digest_unchecked:
  assumes "isKyvernoVerificationEnabled W" "c_image c \<noteq> []" "extractDigestFromImage W (c_image c) = []"
    and "c_annotations c = Some m" "m resolvedDigest = Some d" "m verifyImages = Some ''{}''"
  shows "admit ns_mutate ns_on_create W c = Inr c \<and> digest_of c = d"
  using unchecked_digest_admitted [OF assms] assms(4,5) by simp

lemma ex_kyverno: "isKyvernoVerificationEnabled ex_out"
  by (simp add: isKyvernoVerificationEnabled_def ex_out_def)

lemma ex_unpinned: "extractDigestFromImage ex_out ''a:1'' = []"
  by (simp add: extractDigestFromImage_def ex_out_def)

theorem kyverno_digest_unchecked_witness:
  "admit ns_mutate ns_on_create ex_out (ex_cache ''a:1'' [resolvedDigest \<mapsto> ''forged'', verifyImages \<mapsto> ''{}'']) =
     Inr (ex_cache ''a:1'' [resolvedDigest \<mapsto> ''forged'', verifyImages \<mapsto> ''{}''])"
  using kyverno_digest_unchecked [of ex_out "ex_cache ''a:1'' [resolvedDigest \<mapsto> ''forged'', verifyImages \<mapsto> ''{}'']"]
  by (simp add: ex_kyverno ex_unpinned ex_cache_def)

subsection \<open>The size annotation\<close>










end
