(* ===== verification/Kube_Calls.thy ===== *)
theory Kube_Calls
  imports Image_Extract Image_Url
begin

text \<open>
  The calls to the API server through which the node agent looks for and creates the volume,
  the claim and the extraction job of a cache (src/pkg/common/k8s.go). What the server answers
  is a parameter; the objects that the code sends and the labels it selects by are built as
  the code builds them, without their constant parts (modes, policies, security context, time
  to live). A digest shorter than 60 bytes makes the slice expression of its label
  panic, a malformed size makes \<open>resource.MustParse\<close> panic.
\<close>

type_synonym labels = "(string \<times> string) list"

record volume =
  v_name :: string
  v_labels :: labels
  v_capacity :: string
  v_access_modes :: "string list"
  v_class :: string
  v_host_path :: string
  v_node :: "string option"

record volume_claim =
  vc_name :: string
  vc_namespace :: string
  vc_labels :: labels
  vc_capacity :: string
  vc_access_modes :: "string list"
  vc_volume :: string
  vc_class :: "string option"

text \<open>The pod template of a cache; tolerations and affinity are passed on unread.\<close>

record template_metadata =
  tm_labels :: labels
  tm_annotations :: labels

record template_spec =
  ts_node_selector :: labels
  ts_tolerations :: "string list"
  ts_affinity :: "string option"
  ts_priority_class :: string

record pod_template =
  pt_metadata :: "template_metadata option"
  pt_spec :: "template_spec option"

record batch_job =
  bj_generate_name :: string
  bj_namespace :: string
  bj_labels :: labels
  bj_image :: string
  bj_env :: labels
  bj_mount :: string
  bj_claim :: string
  bj_node_selector :: labels
  bj_pod_labels :: labels
  bj_pod_annotations :: labels
  bj_tolerations :: "string list"
  bj_affinity :: "string option"
  bj_priority_class :: string
  bj_init_command :: "string option"

text \<open>What the agent reads of a job that the server lists.\<close>

record job =
  j_name :: string
  j_created :: int
  j_succeeded :: int
  j_failed :: int
  j_ready :: "int option"

text \<open>
  What the calls that concern one claim answer: lists by labels (\<open>None\<close> is an error of the
  call), whether an object is created, and the suffix of a fresh name. \<open>quantity_ok\<close> is
  whether a text is a quantity.
\<close>

record kube_answers =
  pv_list :: "labels \<Rightarrow> string list option"
  create_pv :: "volume \<Rightarrow> bool"
  pvc_list :: "labels \<Rightarrow> string list option"
  create_pvc :: "volume_claim \<Rightarrow> bool"
  job_list :: "string \<Rightarrow> labels \<Rightarrow> job list option"
  create_job :: "batch_job \<Rightarrow> bool"
  unique_name :: string
  quantity_ok :: "string \<Rightarrow> bool"

subsection \<open>Digests as labels\<close>

definition digest_label :: "string \<Rightarrow> string outcome" where
  "digest_label resolvedDigest =
     (let trimDigest = trim_prefix resolvedDigest ''sha256:'' in
      if length trimDigest < 60 then Panic else Ret (take 60 trimDigest))"

subsection \<open>Volumes\<close>

definition MustParse :: "kube_answers \<Rightarrow> string \<Rightarrow> string outcome" where
  "MustParse k capacity = (if quantity_ok k capacity then Ret capacity else Panic)"

definition CreatePv ::
  "kube_answers \<Rightarrow> string \<Rightarrow> string \<Rightarrow> string \<Rightarrow> string \<Rightarrow> string \<Rightarrow> string list \<Rightarrow> string \<Rightarrow> string \<Rightarrow> string \<Rightarrow> bool outcome" where
  "CreatePv k gkmCacheNamespace gkmCacheName nodeName pvName pvcNamespace accessModes storageClass capacity resolvedDigest =
     (case digest_label resolvedDigest of
        Panic \<Rightarrow> Panic
      | Ret trimDigest \<Rightarrow>
         (case MustParse k capacity of
            Panic \<Rightarrow> Panic
          | Ret storage \<Rightarrow>
             Ret (create_pv k \<lparr>v_name = pvName,
               v_labels = [(''cache-name'', gkmCacheName), (''cache-namespace'', gkmCacheNamespace),
                 (''pvc-namespace'', pvcNamespace), (''node'', nodeName), (''digest'', trimDigest)],
               v_capacity = storage, v_access_modes = accessModes, v_class = storageClass, v_host_path = ''/kernel-caches'',
               v_node = (if nodeName \<noteq> [] then Some nodeName else None)\<rparr>)))"

text \<open>\<open>PvExists\<close> and \<open>PvcExists\<close>: whether the name is known, and a name found on the server. A failed list is not an error.\<close>

definition PvExists :: "kube_answers \<Rightarrow> string \<Rightarrow> string \<Rightarrow> string \<Rightarrow> string \<Rightarrow> string \<Rightarrow> (bool \<times> string) option outcome" where
  "PvExists k gkmCacheName nodeName pvName pvcNamespace resolvedDigest =
     (if pvName \<noteq> [] then Ret (Some (True, []))
      else case digest_label resolvedDigest of
        Panic \<Rightarrow> Panic
      | Ret trimDigest \<Rightarrow>
         (case pv_list k [(''cache-name'', gkmCacheName), (''pvc-namespace'', pvcNamespace), (''node'', nodeName), (''digest'', trimDigest)] of
            None \<Rightarrow> Ret (Some (False, []))
          | Some pvs \<Rightarrow>
             if length pvs = 1 then Ret (Some (False, hd pvs))
             else if 1 < length pvs then Ret None
             else Ret (Some (False, []))))"

subsection \<open>Claims\<close>

definition CreatePvc ::
  "kube_answers \<Rightarrow> string \<Rightarrow> string \<Rightarrow> string \<Rightarrow> string \<Rightarrow> string \<Rightarrow> string \<Rightarrow> string list \<Rightarrow> string \<Rightarrow> string \<Rightarrow> string \<Rightarrow> bool outcome" where
  "CreatePvc k gkmCacheNamespace gkmCacheName nodeName pvName pvcName pvcNamespace accessModes storageClass capacity resolvedDigest =
     (case digest_label resolvedDigest of
        Panic \<Rightarrow> Panic
      | Ret trimDigest \<Rightarrow>
         (case MustParse k capacity of
            Panic \<Rightarrow> Panic
          | Ret storage \<Rightarrow>
             Ret (create_pvc k \<lparr>vc_name = pvcName, vc_namespace = pvcNamespace,
               vc_labels = [(''cache-name'', gkmCacheName), (''cache-namespace'', gkmCacheNamespace),
                 (''pvc-namespace'', pvcNamespace), (''pv-name'', pvName), (''node'', nodeName), (''digest'', trimDigest)],
               vc_capacity = storage, vc_access_modes = accessModes, vc_volume = pvName,
               vc_class = (if storageClass \<noteq> [] then Some storageClass else if pvName \<noteq> [] then Some [] else None)\<rparr>)))"

definition PvcExists :: "kube_answers \<Rightarrow> string \<Rightarrow> string \<Rightarrow> string \<Rightarrow> string \<Rightarrow> string \<Rightarrow> (bool \<times> string) option outcome" where
  "PvcExists k gkmCacheName nodeName pvcName pvcNamespace resolvedDigest =
     (if pvcName \<noteq> [] then Ret (Some (True, []))
      else case digest_label resolvedDigest of
        Panic \<Rightarrow> Panic
      | Ret trimDigest \<Rightarrow>
         (case pvc_list k [(''cache-name'', gkmCacheName), (''pvc-namespace'', pvcNamespace), (''node'', nodeName), (''digest'', trimDigest)] of
            None \<Rightarrow> Ret (Some (False, []))
          | Some pvcs \<Rightarrow>
             if length pvcs = 1 then Ret (Some (False, hd pvcs))
             else if 1 < length pvcs then Ret None
             else Ret (Some (False, []))))"

subsection \<open>Extraction jobs\<close>

fun latest_loop :: "job option \<Rightarrow> job list \<Rightarrow> job option" where
  "latest_loop latestJob [] = latestJob"
| "latest_loop latestJob (j # js) =
     latest_loop (case latestJob of None \<Rightarrow> Some j | Some l \<Rightarrow> if j_created l < j_created j then Some j else Some l) js"

definition GetLatestJob :: "kube_answers \<Rightarrow> string \<Rightarrow> string \<Rightarrow> string \<Rightarrow> string \<Rightarrow> job option option outcome" where
  "GetLatestJob k jobNamespace pvcName resolvedDigest nodeName =
     (case digest_label resolvedDigest of
        Panic \<Rightarrow> Panic
      | Ret trimDigest \<Rightarrow>
         Ret (case job_list k jobNamespace [(''pvc'', pvcName), (''digest'', trimDigest), (''node'', nodeName)] of
            None \<Rightarrow> None
          | Some jobs \<Rightarrow> Some (latest_loop None jobs)))"

definition apply_template :: "pod_template option \<Rightarrow> batch_job \<Rightarrow> batch_job" where
  "apply_template podTemplate job =
     (case podTemplate of
        None \<Rightarrow> job
      | Some t \<Rightarrow>
         let job = (case pt_metadata t of
               None \<Rightarrow> job
             | Some md \<Rightarrow>
                let job = (if tm_labels md \<noteq> [] then job\<lparr>bj_pod_labels := tm_labels md\<rparr> else job) in
                if tm_annotations md \<noteq> [] then job\<lparr>bj_pod_annotations := tm_annotations md\<rparr> else job) in
         (case pt_spec t of
            None \<Rightarrow> job
          | Some spec \<Rightarrow>
             let job = (if ts_node_selector spec \<noteq> [] then job\<lparr>bj_node_selector := ts_node_selector spec\<rparr> else job);
                 job = (if ts_tolerations spec \<noteq> [] then job\<lparr>bj_tolerations := ts_tolerations spec\<rparr> else job);
                 job = (if ts_affinity spec \<noteq> None then job\<lparr>bj_affinity := ts_affinity spec\<rparr> else job) in
             if ts_priority_class spec \<noteq> [] then job\<lparr>bj_priority_class := ts_priority_class spec\<rparr> else job))"

text \<open>The job that \<open>LaunchJob\<close> builds.\<close>

definition job_object ::
  "string \<Rightarrow> string \<Rightarrow> string \<Rightarrow> string \<Rightarrow> string \<Rightarrow> bool \<Rightarrow> bool \<Rightarrow> string \<Rightarrow> string \<Rightarrow> pod_template option \<Rightarrow> string \<Rightarrow> batch_job" where
  "job_object jobNamespace jobName nodeName updatedImage trimDigest noGpu kindCluster extractImage pvcName podTemplate jobLogLevel =
     (let job = apply_template podTemplate
            \<lparr>bj_generate_name = jobName, bj_namespace = jobNamespace,
             bj_labels = [(''pvc'', pvcName), (''digest'', trimDigest), (''node'', nodeName)],
             bj_image = extractImage,
             bj_env = [(''GKM_CACHE_DIR'', ''/kernel-caches''), (''GKM_IMAGE_URL'', updatedImage),
               (''NO_GPU'', if noGpu then ''true'' else ''false''), (''GO_LOG'', jobLogLevel)],
             bj_mount = ''/kernel-caches'', bj_claim = pvcName,
             bj_node_selector = (if nodeName \<noteq> [] then [(''kubernetes.io/hostname'', nodeName)] else []),
             bj_pod_labels = [], bj_pod_annotations = [], bj_tolerations = [], bj_affinity = None, bj_priority_class = [],
             bj_init_command = None\<rparr> in
      if kindCluster
      then job\<lparr>bj_init_command := Some ''mkdir -p /kernel-caches && chown -R 1000:1000 /kernel-caches && chmod -R 775 /kernel-caches''\<rparr>
      else job)"

text \<open>
  \<open>LaunchJob\<close> gives the job that was created, \<open>None\<close> for an error. An error of the list of
  jobs is dropped.
\<close>

definition LaunchJob ::
  "kube_answers \<Rightarrow> string \<Rightarrow> string \<Rightarrow> string \<Rightarrow> string \<Rightarrow> string \<Rightarrow> bool \<Rightarrow> bool \<Rightarrow> string \<Rightarrow> string \<Rightarrow> pod_template option \<Rightarrow> string \<Rightarrow>
   batch_job option outcome" where
  "LaunchJob k jobNamespace jobName nodeName cacheImage resolvedDigest noGpu kindCluster extractImage pvcName podTemplate jobLogLevel =
     (case GetLatestJob k jobNamespace pvcName resolvedDigest nodeName of
        Panic \<Rightarrow> Panic
      | Ret found \<Rightarrow>
         if Option.bind found id \<noteq> None then Ret None
         else
           let updatedImage = ReplaceUrlTag cacheImage resolvedDigest in
           if updatedImage = [] then Ret None
           else (case digest_label resolvedDigest of
              Panic \<Rightarrow> Panic
            | Ret trimDigest \<Rightarrow>
               let job = job_object jobNamespace jobName nodeName updatedImage trimDigest noGpu kindCluster extractImage pvcName podTemplate jobLogLevel in
               Ret (if create_job k job then Some job else None)))"

subsection \<open>What is created is found, and what is found is the latest\<close>

definition selects :: "labels \<Rightarrow> labels \<Rightarrow> bool" where
  "selects sel ls \<longleftrightarrow> (\<forall>(key, val) \<in> set sel. map_of ls key = Some val)"

lemma latest_loop_spec:
  "latest_loop l js = Some j \<Longrightarrow> (l = Some j \<or> j \<in> set js) \<and> (\<forall>i \<in> set js. j_created i \<le> j_created j) \<and>
     (\<forall>i. l = Some i \<longrightarrow> j_created i \<le> j_created j)"
  by (induction l js rule: latest_loop.induct) (fastforce split: option.splits if_splits)+

lemma GetLatestJob_latest:
  assumes "GetLatestJob k n v d node = Ret (Some (Some j))"
  shows "\<exists>sel js. job_list k n sel = Some js \<and> j \<in> set js \<and> (\<forall>i \<in> set js. j_created i \<le> j_created j)"
  using assms latest_loop_spec
  by (fastforce simp: GetLatestJob_def Let_def split: outcome.splits option.splits)

lemma template_keeps [simp]:
  "bj_env (apply_template t j) = bj_env j" "bj_labels (apply_template t j) = bj_labels j" "bj_claim (apply_template t j) = bj_claim j"
  "bj_namespace (apply_template t j) = bj_namespace j" "bj_mount (apply_template t j) = bj_mount j" "bj_image (apply_template t j) = bj_image j"
  by (auto simp: apply_template_def Let_def split: option.splits)

text \<open>A node selector in the pod template replaces the pin to the node of the agent.\<close>

lemma template_unpins:
  assumes "t = Some \<lparr>pt_metadata = md, pt_spec = Some spec\<rparr>" "ts_node_selector spec \<noteq> []"
  shows "bj_node_selector (job_object n name node url l noGpu kind ext v t lev) = ts_node_selector spec"
  using assms by (auto simp: job_object_def apply_template_def Let_def split: option.split)

lemma job_object_fields [simp]:
  "bj_env (job_object n name node url l noGpu kind ext v t lev) = [(''GKM_CACHE_DIR'', ''/kernel-caches''), (''GKM_IMAGE_URL'', url),
     (''NO_GPU'', if noGpu then ''true'' else ''false''), (''GO_LOG'', lev)]"
  "bj_labels (job_object n name node url l noGpu kind ext v t lev) = [(''pvc'', v), (''digest'', l), (''node'', node)]"
  "bj_claim (job_object n name node url l noGpu kind ext v t lev) = v"
  by (simp_all add: job_object_def Let_def)

lemma LaunchJob_created:
  assumes "LaunchJob k n name node img d noGpu kind ext v t lev = Ret (Some j)"
  shows "\<exists>l. digest_label d = Ret l \<and> j = job_object n name node (ReplaceUrlTag img d) l noGpu kind ext v t lev" "ReplaceUrlTag img d \<noteq> []"
  using assms unfolding LaunchJob_def Let_def
  by (simp_all split: outcome.splits if_splits)

text \<open>The list that precedes the creation of a job selects by labels that the created job has.\<close>

lemma launched_job_found:
  assumes "LaunchJob k n name node img d noGpu kind ext v t lev = Ret (Some j)"
  shows "\<exists>sel. GetLatestJob k n v d node = Ret (map_option (latest_loop None) (job_list k n sel)) \<and> selects sel (bj_labels j)"
  using LaunchJob_created(1) [OF assms] by (auto simp: GetLatestJob_def selects_def map_option_case)

end
