(* ===== verification/Node_Status.thy ===== *)
theory Node_Status
  imports Mcv_Client Kube_Calls "HOL-Library.AList"
begin

text \<open>
  What the node agent (src/internal/controller/gkm-agent/common.go) keeps about the caches of
  one node: the conditions of their volume claims (src/api/v1alpha1/shared_types.go), the
  pods that use them (src/pkg/common/k8s.go), the counts it derives and writes into the
  status of the node object that all caches of a namespace share, and the lists of GPUs an
  image fits. Pods, devices and images are what the API
  server, the device library and the registry answer. Transition times are left out.
\<close>

subsection \<open>Conditions\<close>

datatype GkmConditionType =
  GkmCondPending | GkmCondDownloading | GkmCondExtracted | GkmCondRunning | GkmCondOutdated
| GkmCondDeleting | GkmCondError | GkmCondNoNamespace | GkmCondUnloadError

record condition =
  cond_type :: string
  cond_status :: string
  cond_reason :: string
  cond_message :: string

fun type_name :: "GkmConditionType \<Rightarrow> string" where
  "type_name GkmCondPending = ''Pending''"
| "type_name GkmCondDownloading = ''Downloading''"
| "type_name GkmCondExtracted = ''Extracted''"
| "type_name GkmCondRunning = ''Running''"
| "type_name GkmCondOutdated = ''Outdated''"
| "type_name GkmCondDeleting = ''Deleting''"
| "type_name GkmCondError = ''Error''"
| "type_name GkmCondNoNamespace = ''NoNamespace''"
| "type_name GkmCondUnloadError = ''UnloadError''"

fun type_message :: "GkmConditionType \<Rightarrow> string" where
  "type_message GkmCondPending = ''Not yet complete''"
| "type_message GkmCondDownloading = ''Job to extract Kernel Cache in progress''"
| "type_message GkmCondExtracted = ''The Kernel Cache has been extracted onto the host''"
| "type_message GkmCondRunning = ''The Kernel Cache has been extracted and is in use by one or more pods''"
| "type_message GkmCondOutdated = ''The Kernel Cache is in use by one or more pods but newer version exists''"
| "type_message GkmCondDeleting = ''Cache instance has been deleted but PVC is still in use by one or more pods''"
| "type_message GkmCondError = ''An error occurred trying to extract the Kernel Cache''"
| "type_message GkmCondNoNamespace = ''Workload Namespace does not exist''"
| "type_message GkmCondUnloadError = ''An error occurred trying to remove the extracted Kernel Cache''"

definition Condition :: "GkmConditionType \<Rightarrow> condition" where
  "Condition b = \<lparr>cond_type = type_name b, cond_status = ''True'', cond_reason = type_name b, cond_message = type_message b\<rparr>"

fun IsConditionSet :: "GkmConditionType \<Rightarrow> condition list \<Rightarrow> bool" where
  "IsConditionSet b [] = False"
| "IsConditionSet b (c # cs) = (if cond_type c = type_name b then True else IsConditionSet b cs)"

fun IsConditionDownloadSet :: "condition list \<Rightarrow> bool" where
  "IsConditionDownloadSet [] = False"
| "IsConditionDownloadSet (c # cs) =
     (if cond_type c = ''Extracted'' \<or> cond_type c = ''Running'' \<or> cond_type c = ''Outdated'' \<or> cond_type c = ''Deleting''
      then True else IsConditionDownloadSet cs)"

definition GetLatestConditionType :: "condition list \<Rightarrow> condition" where
  "GetLatestConditionType conditions = fold (\<lambda>c latest. c) conditions (Condition GkmCondPending)"

record pvc_status =
  pv_name :: string
  pvc_name :: string
  job_name :: string
  pvc_owner :: string
  pvc_conditions :: "condition list"

text \<open>The list is emptied first, so that the new condition is appended to nothing.\<close>

definition SetPvcStatusConditions :: "condition \<Rightarrow> pvc_status \<Rightarrow> pvc_status" where
  "SetPvcStatusConditions c p = p\<lparr>pvc_conditions := [c]\<rparr>"

subsection \<open>Counts\<close>

record cache_counts =
  NodeCnt :: int
  NodeInUseCnt :: int
  NodeNotInUseCnt :: int
  NodeErrorCnt :: int
  PodRunningCnt :: int
  PodDeletingCnt :: int
  PodOutdatedCnt :: int

definition no_counts :: cache_counts where
  "no_counts = \<lparr>NodeCnt = 0, NodeInUseCnt = 0, NodeNotInUseCnt = 0, NodeErrorCnt = 0, PodRunningCnt = 0,
     PodDeletingCnt = 0, PodOutdatedCnt = 0\<rparr>"

record pod =
  pod_namespace :: string
  pod_node :: string
  pod_phase :: string
  pod_claims :: "string option list"

fun claims_loop :: "string \<Rightarrow> string \<Rightarrow> string option list \<Rightarrow> int" where
  "claims_loop phase pvcName [] = 0"
| "claims_loop phase pvcName (vol # vols) =
     (if phase \<noteq> ''Succeeded'' \<and> phase \<noteq> ''Failed'' \<and> (case vol of None \<Rightarrow> False | Some claim \<Rightarrow> contains claim pvcName)
      then 1 else 0) + claims_loop phase pvcName vols"

text \<open>\<open>pods\<close> is what listing the pods answers, \<open>None\<close> when the call fails.\<close>

definition GetPvcUsedByList :: "pod list option \<Rightarrow> string \<Rightarrow> string \<Rightarrow> string \<Rightarrow> int" where
  "GetPvcUsedByList pods nodeName pvcNamespace pvcName =
     (if pvcName = [] then 0
      else case pods of
        None \<Rightarrow> 0
      | Some ps \<Rightarrow>
         sum_list (map (\<lambda>p. claims_loop (pod_phase p) pvcName (pod_claims p))
           (filter (\<lambda>p. pod_namespace p = pvcNamespace \<and> (nodeName = [] \<or> pod_node p = nodeName)) ps)))"

definition getCacheNodeFinalizerName :: "string \<Rightarrow> string" where
  "getCacheNodeFinalizerName name = ''gkm.io.'' @ name @ ''/finalizer''"

definition hasCacheNodeFinalizer :: "string \<Rightarrow> string list \<Rightarrow> bool" where
  "hasCacheNodeFinalizer cacheName finalizers = list_ex (\<lambda>f. f = getCacheNodeFinalizerName cacheName) finalizers"

record agent =
  a_node_name :: string
  a_no_gpu :: bool
  a_kind_cluster :: bool
  a_write_ok :: bool
  a_pods :: "pod list option"
  a_finalizers :: "string list"
  a_extract_image :: string
  a_log_level :: string

text \<open>
  \<open>addCounts\<close>: the counts, the claim's status, and whether that status changed. The reasons for
  a change, which the code only logs, are left out here and below.
\<close>

definition addCounts ::
  "agent \<Rightarrow> string \<Rightarrow> cache_counts \<Rightarrow> string \<Rightarrow> pvc_status \<Rightarrow> cache_counts \<times> pvc_status \<times> bool" where
  "addCounts A cacheName cnts pvcNamespace pvcStatus =
     (let cnts = cnts\<lparr>NodeCnt := 1\<rparr>;
          podUseCnt = (if pvc_name pvcStatus \<noteq> [] then GetPvcUsedByList (a_pods A) (a_node_name A) pvcNamespace cacheName else 0);
          t = cond_type (GetLatestConditionType (pvc_conditions pvcStatus)) in
      if t = ''Pending'' then (cnts, pvcStatus, False)
      else if t = ''Extracted'' then
        (if podUseCnt \<noteq> 0 then (cnts, SetPvcStatusConditions (Condition GkmCondRunning) pvcStatus, True)
         else (if NodeInUseCnt cnts = 0 then cnts\<lparr>NodeNotInUseCnt := 1\<rparr> else cnts, pvcStatus, False))
      else if t = ''Running'' then
        (if podUseCnt = 0 then (cnts, SetPvcStatusConditions (Condition GkmCondExtracted) pvcStatus, True)
         else (cnts\<lparr>NodeInUseCnt := 1, NodeNotInUseCnt := 0, PodRunningCnt := PodRunningCnt cnts + podUseCnt\<rparr>, pvcStatus, False))
      else if t = ''Deleting'' then
        (let cnts = cnts\<lparr>PodDeletingCnt := PodDeletingCnt cnts + podUseCnt, NodeInUseCnt := 1, NodeNotInUseCnt := 0\<rparr> in
         (if hasCacheNodeFinalizer cacheName (a_finalizers A) then cnts else cnts\<lparr>NodeCnt := 0\<rparr>, pvcStatus, False))
      else if t = ''Error'' then (cnts\<lparr>NodeErrorCnt := NodeErrorCnt cnts + 1\<rparr>, pvcStatus, False)
      else if t = ''UnloadError'' then (cnts\<lparr>NodeErrorCnt := NodeErrorCnt cnts + 1\<rparr>, pvcStatus, False)
      else (cnts, pvcStatus, False))"

subsection \<open>The status of a node\<close>

text \<open>A nil map of claims is \<open>None\<close>.\<close>

record cache_status =
  comp_gpu_list :: "int list"
  incomp_gpu_list :: "int list"
  last_updated :: int
  pvc_statuses :: "(string \<times> pvc_status) list option"

record node_status =
  node_counts :: cache_counts
  cache_statuses :: "(string \<times> (string \<times> cache_status) list) list"

definition no_cache_status :: cache_status where
  "no_cache_status = \<lparr>comp_gpu_list = [], incomp_gpu_list = [], last_updated = 0, pvc_statuses = None\<rparr>"

subsection \<open>The GPUs an image fits\<close>

text \<open>
  The declaration \<open>matchedIds, unmatchedIds, err := \<dots>\<close> in the else branch makes new variables;
  the ones assigned to the status are those of the function, which keep their value nil.
\<close>

definition getImageToGpuList :: "agent \<Rightarrow> client_world \<Rightarrow> string \<Rightarrow> string \<Rightarrow> cache_status \<Rightarrow> cache_status option" where
  "getImageToGpuList A w img resolvedDigest cacheStatus =
     (let matchedIds = []; unmatchedIds = [] in
      if a_no_gpu A then
        Some (cacheStatus\<lparr>comp_gpu_list := matchedIds @ [0], incomp_gpu_list := unmatchedIds @ [1, 2]\<rparr>)
      else
        let updatedImage = ReplaceUrlTag img resolvedDigest in
        if updatedImage = [] then None
        else case PreflightCheck w updatedImage of
          None \<Rightarrow> None
        | Some (inner_matchedIds, inner_unmatchedIds) \<Rightarrow>
            Some (cacheStatus\<lparr>comp_gpu_list := matchedIds, incomp_gpu_list := unmatchedIds\<rparr>))"

subsection \<open>Claims and extraction jobs\<close>

text \<open>A cache as the agent sees it, with what the calls for its claim in a namespace answer.\<close>

record agent_cache =
  ac_name :: string
  ac_namespace :: string
  ac_digest :: string
  ac_size :: "string option"
  ac_image :: string
  ac_owner :: string
  ac_storage_class :: string
  ac_namespaces :: "string list"
  ac_pod_template :: "pod_template option"
  ac_kube :: "string \<Rightarrow> kube_answers"
  ac_operator_claims :: "(string \<times> pvc_status) list"

definition capacity_of :: "agent_cache \<Rightarrow> string" where
  "capacity_of c = (case ac_size c of None \<Rightarrow> ''1Gi'' | Some s \<Rightarrow> s)"

text \<open>Each half gives whether it updated the claim; \<open>None\<close> is an error.\<close>

definition manage_pvc :: "agent \<Rightarrow> agent_cache \<Rightarrow> string \<Rightarrow> pvc_status \<Rightarrow> (bool \<times> pvc_status) option outcome" where
  "manage_pvc A c pvcNamespace pvcStatus =
     (let k = ac_kube c pvcNamespace in
      case PvcExists k (ac_name c) (a_node_name A) (pvc_name pvcStatus) pvcNamespace (ac_digest c) of
        Panic \<Rightarrow> Panic
      | Ret None \<Rightarrow> Ret None
      | Ret (Some (found, updatedName)) \<Rightarrow>
         if updatedName \<noteq> [] then Ret (Some (True, pvcStatus\<lparr>pvc_name := updatedName\<rparr>))
         else if \<not> found then
           (let pvcStatus = pvcStatus\<lparr>pvc_name := (if pv_name pvcStatus \<noteq> [] then pv_name pvcStatus else unique_name k)\<rparr> in
            case CreatePvc k (ac_namespace c) (ac_name c) (a_node_name A) (pv_name pvcStatus) (pvc_name pvcStatus) pvcNamespace
                [''ReadWriteOnce''] (ac_storage_class c) (capacity_of c) (ac_digest c) of
              Panic \<Rightarrow> Panic
            | Ret created \<Rightarrow> Ret (if created then Some (True, pvcStatus) else None))
         else Ret (Some (False, pvcStatus)))"

definition managePVandPVC :: "agent \<Rightarrow> agent_cache \<Rightarrow> string \<Rightarrow> pvc_status \<Rightarrow> (bool \<times> pvc_status) option outcome" where
  "managePVandPVC A c pvcNamespace pvcStatus =
     (let k = ac_kube c pvcNamespace in
      if IsConditionSet GkmCondPending (pvc_conditions pvcStatus) \<and> ac_owner c = ''Agent'' then
        (if a_kind_cluster A then
           (case PvExists k (ac_name c) (a_node_name A) (pv_name pvcStatus) pvcNamespace (ac_digest c) of
              Panic \<Rightarrow> Panic
            | Ret None \<Rightarrow> Ret None
            | Ret (Some (found, updatedName)) \<Rightarrow>
               if updatedName \<noteq> [] then Ret (Some (True, pvcStatus\<lparr>pv_name := updatedName\<rparr>))
               else if \<not> found then
                 (let pvcStatus = pvcStatus\<lparr>pv_name := unique_name k\<rparr> in
                  case CreatePv k (ac_namespace c) (ac_name c) (a_node_name A) (pv_name pvcStatus) pvcNamespace
                      [''ReadWriteOnce''] (ac_storage_class c) (capacity_of c) (ac_digest c) of
                    Panic \<Rightarrow> Panic
                  | Ret created \<Rightarrow> Ret (if created then Some (True, pvcStatus) else None))
               else manage_pvc A c pvcNamespace pvcStatus)
         else manage_pvc A c pvcNamespace pvcStatus)
      else Ret (Some (False, pvcStatus)))"

text \<open>The job that \<open>manageJob\<close> launches for a pending claim.\<close>

definition launch_for :: "agent \<Rightarrow> agent_cache \<Rightarrow> string \<Rightarrow> string \<Rightarrow> batch_job option outcome" where
  "launch_for A c jobNamespace pvcName =
     LaunchJob (ac_kube c jobNamespace) jobNamespace (pvcName @ ''-job-download-'') (a_node_name A) (ac_image c) (ac_digest c)
       (a_no_gpu A) (a_kind_cluster A) (a_extract_image A) pvcName (ac_pod_template c) (a_log_level A)"

text \<open>\<open>manageJob\<close> gives: updated, pending, the status of the cache and of the claim.\<close>

definition job_switch ::
  "agent \<Rightarrow> client_world \<Rightarrow> agent_cache \<Rightarrow> job \<Rightarrow> bool \<Rightarrow> cache_status \<Rightarrow> pvc_status \<Rightarrow> bool \<times> bool \<times> cache_status \<times> pvc_status" where
  "job_switch A w c latestJob updated cacheStatus pvcStatus =
     (if 0 < j_succeeded latestJob then
        (if \<not> IsConditionDownloadSet (pvc_conditions pvcStatus) then
           (True, False,
            case getImageToGpuList A w (ac_image c) (ac_digest c) cacheStatus of None \<Rightarrow> cacheStatus | Some s \<Rightarrow> s,
            SetPvcStatusConditions (Condition GkmCondExtracted) pvcStatus)
         else (updated, False, cacheStatus, pvcStatus))
      else if 0 < j_failed latestJob then
        (if \<not> IsConditionSet GkmCondError (pvc_conditions pvcStatus) then
           (True, False, cacheStatus, SetPvcStatusConditions (Condition GkmCondError) pvcStatus)
         else (updated, False, cacheStatus, pvcStatus))
      else if (case j_ready latestJob of None \<Rightarrow> False | Some r \<Rightarrow> 0 < r) then
        (if \<not> IsConditionSet GkmCondDownloading (pvc_conditions pvcStatus) then
           (True, False, cacheStatus, SetPvcStatusConditions (Condition GkmCondDownloading) pvcStatus)
         else (updated, True, cacheStatus, pvcStatus))
      else (updated, True, cacheStatus, pvcStatus))"

definition manageJob ::
  "agent \<Rightarrow> client_world \<Rightarrow> agent_cache \<Rightarrow> string \<Rightarrow> cache_status \<Rightarrow> pvc_status \<Rightarrow>
   (bool \<times> bool \<times> cache_status \<times> pvc_status) option outcome" where
  "manageJob A w c jobNamespace cacheStatus pvcStatus =
     (let conds = pvc_conditions pvcStatus in
      if ac_owner c = ''Agent'' then
        (if IsConditionSet GkmCondPending conds then
           (case launch_for A c jobNamespace (pvc_name pvcStatus) of
              Panic \<Rightarrow> Panic
            | Ret None \<Rightarrow> Ret None
            | Ret (Some _) \<Rightarrow> Ret (Some (True, False, cacheStatus, SetPvcStatusConditions (Condition GkmCondDownloading) pvcStatus)))
         else if IsConditionDownloadSet conds then
           (if IsConditionSet GkmCondDeleting conds then
              Ret (Some (True, False, cacheStatus, SetPvcStatusConditions (Condition GkmCondRunning) pvcStatus))
            else Ret (Some (False, False, cacheStatus, pvcStatus)))
         else
           (case GetLatestJob (ac_kube c jobNamespace) jobNamespace (pvc_name pvcStatus) (ac_digest c) (a_node_name A) of
              Panic \<Rightarrow> Panic
            | Ret None \<Rightarrow> Ret None
            | Ret (Some None) \<Rightarrow> Ret (Some (False, True, cacheStatus, pvcStatus))
            | Ret (Some (Some latestJob)) \<Rightarrow>
               if job_name pvcStatus \<noteq> j_name latestJob
               then Ret (Some (job_switch A w c latestJob True cacheStatus (pvcStatus\<lparr>job_name := j_name latestJob\<rparr>)))
               else Ret (Some (job_switch A w c latestJob False cacheStatus pvcStatus))))
      else
        (if pvc_name pvcStatus = [] then
           (case map_of (ac_operator_claims c) jobNamespace of
              None \<Rightarrow> Ret (Some (False, False, cacheStatus, pvcStatus))
            | Some o' \<Rightarrow>
               if IsConditionDownloadSet (pvc_conditions o') then
                 Ret (Some (True, False, cacheStatus,
                   SetPvcStatusConditions (GetLatestConditionType (pvc_conditions o'))
                     (pvcStatus\<lparr>pv_name := pv_name o', pvc_name := pvc_name o'\<rparr>)))
               else Ret (Some (False, False, cacheStatus, pvcStatus)))
         else Ret (Some (False, False, cacheStatus, pvcStatus))))"

definition managePvcStatusModify ::
  "agent \<Rightarrow> client_world \<Rightarrow> agent_cache \<Rightarrow> string \<Rightarrow> cache_status \<Rightarrow> pvc_status \<Rightarrow>
   (bool \<times> bool \<times> cache_status \<times> pvc_status) option outcome" where
  "managePvcStatusModify A w c pvcNamespace cacheStatus pvcStatus =
     (case managePVandPVC A c pvcNamespace pvcStatus of
        Panic \<Rightarrow> Panic
      | Ret None \<Rightarrow> Ret None
      | Ret (Some (True, pvcStatus)) \<Rightarrow> Ret (Some (True, False, cacheStatus, pvcStatus))
      | Ret (Some (False, pvcStatus)) \<Rightarrow> manageJob A w c pvcNamespace cacheStatus pvcStatus)"

subsection \<open>One reconciliation of the agent\<close>

record loop_state =
  l_updated :: bool
  l_status :: cache_status
  l_counts :: cache_counts
  l_error :: bool
  l_in_use :: bool

definition fresh_claim :: "agent_cache \<Rightarrow> pvc_status" where
  "fresh_claim c = SetPvcStatusConditions (Condition GkmCondPending)
     \<lparr>pv_name = [], pvc_name = [], job_name = [], pvc_owner = ac_owner c, pvc_conditions = []\<rparr>"

text \<open>
  The loop over the namespaces of one cache that is not being deleted; it ends at the first
  change.
\<close>

fun namespace_loop :: "agent \<Rightarrow> client_world \<Rightarrow> agent_cache \<Rightarrow> string list \<Rightarrow> loop_state \<Rightarrow> loop_state outcome" where
  "namespace_loop A w c [] st = Ret st"
| "namespace_loop A w c (pvcNamespace # rest) st =
     (let claims = (case pvc_statuses (l_status st) of None \<Rightarrow> [] | Some m \<Rightarrow> m);
          pvcStatus = (case map_of claims pvcNamespace of Some p \<Rightarrow> p | None \<Rightarrow> fresh_claim c);
          updated = (l_updated st \<or> pvc_statuses (l_status st) = None \<or> map_of claims pvcNamespace = None);
          cacheStatus = (l_status st)\<lparr>pvc_statuses := Some claims\<rparr> in
      case managePvcStatusModify A w c pvcNamespace cacheStatus pvcStatus of
        Panic \<Rightarrow> Panic
      | Ret None \<Rightarrow> namespace_loop A w c rest (st\<lparr>l_updated := updated, l_status := cacheStatus, l_error := True\<rparr>)
      | Ret (Some (pvcUpdated, pending, cacheStatus, pvcStatus)) \<Rightarrow>
         (case (if updated \<or> pvcUpdated then (l_counts st, pvcStatus, True)
                else addCounts A (ac_name c) (l_counts st) pvcNamespace pvcStatus) of
            (cnts, pvcStatus, updated) \<Rightarrow>
              let st = st\<lparr>l_updated := updated, l_in_use := l_in_use st \<or> (\<not> pvcUpdated \<and> pending), l_status := cacheStatus,
                          l_counts := cnts\<rparr> in
              if updated then
                Ret (st\<lparr>l_status := cacheStatus\<lparr>pvc_statuses := map_option (AList.update pvcNamespace pvcStatus) (pvc_statuses cacheStatus)\<rparr>\<rparr>)
              else namespace_loop A w c rest st))"

datatype cache_result = Wrote node_status | Next bool bool | Crashed

text \<open>
  One cache: \<open>Wrote\<close> is a successful write of the node's status, which ends the
  reconciliation; \<open>Next\<close> goes on to the next cache and tells whether an error was hit and
  whether work is pending; \<open>Crashed\<close> is a panic, which ends the reconciliation without a
  write. The deep comparison of stored and new status is their equality.
\<close>

definition reconcile_cache :: "agent \<Rightarrow> client_world \<Rightarrow> int \<Rightarrow> agent_cache \<Rightarrow> node_status \<Rightarrow> cache_result" where
  "reconcile_cache A w now c stored =
     (if ac_owner c = ''Unknown'' \<or> ac_owner c = [] then Next False True
      else
        let digests = map_of (cache_statuses stored) (ac_name c);
            existed = Option.bind digests (\<lambda>ds. map_of ds (ac_digest c));
            cacheStatus = (case existed of Some s \<Rightarrow> s | None \<Rightarrow> no_cache_status);
            nodeStatus = (if existed = None then stored\<lparr>cache_statuses := AList.update (ac_name c) [] (cache_statuses stored)\<rparr> else stored) in
        case namespace_loop A w c (ac_namespaces c)
          \<lparr>l_updated = (existed = None), l_status = cacheStatus, l_counts = no_counts\<lparr>NodeCnt := 1\<rparr>, l_error = False, l_in_use = False\<rparr> of
          Panic \<Rightarrow> Crashed
        | Ret st \<Rightarrow>
           let nodeStatus = (if l_updated st then nodeStatus else nodeStatus\<lparr>node_counts := l_counts st\<rparr>) in
           if l_updated st \<or> stored \<noteq> nodeStatus then
             (let nodeStatus = nodeStatus\<lparr>cache_statuses := AList.update (ac_name c)
                    (AList.update (ac_digest c) ((l_status st)\<lparr>last_updated := now\<rparr>)
                      (case map_of (cache_statuses nodeStatus) (ac_name c) of None \<Rightarrow> [] | Some ds \<Rightarrow> ds)) (cache_statuses nodeStatus)\<rparr> in
              if a_write_ok A then Wrote nodeStatus else Next True (l_in_use st))
           else Next (l_error st) (l_in_use st))"

fun agent_pass :: "agent \<Rightarrow> client_world \<Rightarrow> int \<Rightarrow> agent_cache list \<Rightarrow> node_status \<Rightarrow> cache_result" where
  "agent_pass A w now [] stored = Next False False"
| "agent_pass A w now (c # cs) stored =
     (case reconcile_cache A w now c stored of
        Wrote nodeStatus \<Rightarrow> Wrote nodeStatus
      | Crashed \<Rightarrow> Crashed
      | Next err pending \<Rightarrow>
         (case agent_pass A w now cs stored of
            Wrote nodeStatus \<Rightarrow> Wrote nodeStatus
          | Crashed \<Rightarrow> Crashed
          | Next err' pending' \<Rightarrow> Next (err \<or> err') (pending \<or> pending')))"

end
