(* ===== verification/Node_Theorems.thy ===== *)
theory Node_Theorems
  imports Node_Status
begin

text \<open>
  What the bookkeeping of the node agent does: when it comes to rest, how the condition of a
  claim moves, and what becomes of the list of GPUs.
\<close>

subsection \<open>Claims at rest\<close>

definition uses :: "agent \<Rightarrow> agent_cache \<Rightarrow> string \<Rightarrow> pvc_status \<Rightarrow> int" where
  "uses A c n p = (if pvc_name p \<noteq> [] then GetPvcUsedByList (a_pods A) (a_node_name A) n (ac_name c) else 0)"

text \<open>A claim needs no work: it is extracted and unused, or running and used, and it has a name if the operator owns it.\<close>

definition at_rest :: "agent \<Rightarrow> agent_cache \<Rightarrow> string \<Rightarrow> pvc_status \<Rightarrow> bool" where
  "at_rest A c n p \<longleftrightarrow>
     pvc_conditions p = [Condition (if uses A c n p = 0 then GkmCondExtracted else GkmCondRunning)] \<and>
     (ac_owner c \<noteq> ''Agent'' \<longrightarrow> pvc_name p \<noteq> [])"

lemma latest_single [simp]: "GetLatestConditionType [c] = c"
  by (simp add: GetLatestConditionType_def)

lemma Condition_type [simp]: "cond_type (Condition b) = type_name b"
  by (simp add: Condition_def)

lemma modify_at_rest:
  assumes "at_rest A c n p"
  shows "managePvcStatusModify A w c n s p = Ret (Some (False, False, s, p))"
  using assms
  by (auto simp: at_rest_def managePvcStatusModify_def managePVandPVC_def manageJob_def Let_def split: if_splits)

lemma addCounts_at_rest:
  assumes "at_rest A c n p"
  shows "addCounts A (ac_name c) k n p =
     (if uses A c n p = 0
      then (if NodeInUseCnt k = 0 then k\<lparr>NodeCnt := 1, NodeNotInUseCnt := 1\<rparr> else k\<lparr>NodeCnt := 1\<rparr>)
      else k\<lparr>NodeCnt := 1, NodeInUseCnt := 1, NodeNotInUseCnt := 0, PodRunningCnt := PodRunningCnt k + uses A c n p\<rparr>, p, False)"
  using assms by (auto simp: at_rest_def addCounts_def uses_def Let_def split: if_splits)

text \<open>The counts of claims at rest, in closed form.\<close>

definition rest_counts :: "int list \<Rightarrow> cache_counts" where
  "rest_counts us = no_counts\<lparr>NodeCnt := 1, NodeInUseCnt := (if list_all (\<lambda>u. u = 0) us then 0 else 1),
     NodeNotInUseCnt := (if us \<noteq> [] \<and> list_all (\<lambda>u. u = 0) us then 1 else 0), PodRunningCnt := sum_list us\<rparr>"

lemma addCounts_rest:
  assumes "at_rest A c n p"
  shows "addCounts A (ac_name c) (rest_counts us) n p = (rest_counts (us @ [uses A c n p]), p, False)"
  unfolding addCounts_at_rest [OF assms]
  by (cases "list_all (\<lambda>u. u = 0) us") (auto simp: rest_counts_def no_counts_def)

abbreviation loop_start :: "cache_status \<Rightarrow> cache_counts \<Rightarrow> loop_state" where
  "loop_start s k \<equiv> \<lparr>l_updated = False, l_status = s, l_counts = k, l_error = False, l_in_use = False\<rparr>"

lemma status_same [simp]: "pvc_statuses s = Some m \<Longrightarrow> s\<lparr>pvc_statuses := Some m\<rparr> = s"
  by (cases s) simp

lemma counts_same [simp]: "st = st\<lparr>node_counts := k\<rparr> \<longleftrightarrow> node_counts st = k"
  by (cases st) auto

lemma namespace_loop_rest:
  assumes "pvc_statuses s = Some m" "\<forall>n \<in> set ns. \<exists>p. map_of m n = Some p \<and> at_rest A c n p"
  shows "namespace_loop A w c ns (loop_start s (rest_counts us)) =
     Ret (loop_start s (rest_counts (us @ map (\<lambda>n. uses A c n (the (map_of m n))) ns)))"
  using assms(2)
proof (induction ns arbitrary: us)
  case (Cons n ns)
  then obtain p where p: "map_of m n = Some p" "at_rest A c n p" by auto
  then show ?case
    using Cons assms(1) by (simp add: modify_at_rest addCounts_rest)
qed simp

text \<open>The claims that the status of the node records for a cache.\<close>

definition claims_in :: "node_status \<Rightarrow> agent_cache \<Rightarrow> (string \<times> pvc_status) list option" where
  "claims_in st c =
     Option.bind (map_of (cache_statuses st) (ac_name c)) (\<lambda>ds. Option.bind (map_of ds (ac_digest c)) pvc_statuses)"

definition cache_at_rest :: "agent \<Rightarrow> node_status \<Rightarrow> agent_cache \<Rightarrow> bool" where
  "cache_at_rest A st c \<longleftrightarrow> ac_owner c \<noteq> ''Unknown'' \<and> ac_owner c \<noteq> [] \<and>
     (\<exists>m. claims_in st c = Some m \<and> (\<forall>n \<in> set (ac_namespaces c). \<exists>p. map_of m n = Some p \<and> at_rest A c n p))"

definition counts_of :: "agent \<Rightarrow> node_status \<Rightarrow> agent_cache \<Rightarrow> cache_counts" where
  "counts_of A st c = rest_counts (map (\<lambda>n. uses A c n (the (map_of (the (claims_in st c)) n))) (ac_namespaces c))"

lemma rest_counts_Nil: "no_counts\<lparr>NodeCnt := 1\<rparr> = rest_counts []"
  by (simp add: rest_counts_def no_counts_def)

lemma reconcile_at_rest:
  assumes "cache_at_rest A st c" "a_write_ok A"
  shows "node_counts st = counts_of A st c \<Longrightarrow> reconcile_cache A w now c st = Next False False"
    and "node_counts st \<noteq> counts_of A st c \<Longrightarrow> \<exists>st'. reconcile_cache A w now c st = Wrote st' \<and>
      node_counts st' = counts_of A st c \<and> (\<forall>c'. claims_in st' c' = claims_in st c')"
proof -
  obtain ds s m where ds: "map_of (cache_statuses st) (ac_name c) = Some ds" "map_of ds (ac_digest c) = Some s" "pvc_statuses s = Some m"
    and m: "\<forall>n \<in> set (ac_namespaces c). \<exists>p. map_of m n = Some p \<and> at_rest A c n p"
    using assms(1) by (auto simp: cache_at_rest_def claims_in_def bind_eq_Some_conv)
  have k: "counts_of A st c = rest_counts (map (\<lambda>n. uses A c n (the (map_of m n))) (ac_namespaces c))"
    using ds by (simp add: counts_of_def claims_in_def)
  have own: "ac_owner c \<noteq> ''Unknown''" "ac_owner c \<noteq> []" using assms(1) by (auto simp: cache_at_rest_def)
  let ?st = "st\<lparr>node_counts := counts_of A st c, cache_statuses := AList.update (ac_name c)
     (AList.update (ac_digest c) (s\<lparr>last_updated := now\<rparr>) ds) (cache_statuses st)\<rparr>"
  have r: "reconcile_cache A w now c st = (if node_counts st = counts_of A st c then Next False False else Wrote ?st)"
    using own ds assms(2) namespace_loop_rest [OF ds(3) m, of w "[]"]
    by (simp add: reconcile_cache_def rest_counts_Nil k Let_def)
  then show "node_counts st = counts_of A st c \<Longrightarrow> reconcile_cache A w now c st = Next False False" by simp
  have "claims_in ?st c' = claims_in st c'" for c'
    using ds by (auto simp: claims_in_def AList.update_conv')
  then show "node_counts st \<noteq> counts_of A st c \<Longrightarrow> \<exists>st'. reconcile_cache A w now c st = Wrote st' \<and>
      node_counts st' = counts_of A st c \<and> (\<forall>c'. claims_in st' c' = claims_in st c')"
    using r by (intro exI [of _ ?st]) simp
qed

lemma pass_at_rest:
  assumes "\<forall>c \<in> set cs. cache_at_rest A st c" "a_write_ok A"
  shows "\<forall>c \<in> set cs. node_counts st = counts_of A st c \<Longrightarrow> agent_pass A w now cs st = Next False False"
    and "\<not> (\<forall>c \<in> set cs. node_counts st = counts_of A st c) \<Longrightarrow>
      \<exists>st'. agent_pass A w now cs st = Wrote st' \<and> (\<exists>c \<in> set cs. node_counts st' = counts_of A st c) \<and>
        (\<forall>c. claims_in st' c = claims_in st c)"
proof -
  show "\<forall>c \<in> set cs. node_counts st = counts_of A st c \<Longrightarrow> agent_pass A w now cs st = Next False False"
    using assms by (induction cs) (auto simp: reconcile_at_rest(1))
  show "\<not> (\<forall>c \<in> set cs. node_counts st = counts_of A st c) \<Longrightarrow>
      \<exists>st'. agent_pass A w now cs st = Wrote st' \<and> (\<exists>c \<in> set cs. node_counts st' = counts_of A st c) \<and>
        (\<forall>c. claims_in st' c = claims_in st c)"
    using assms(1)
  proof (induction cs)
    case (Cons c cs)
    show ?case
    proof (cases "node_counts st = counts_of A st c")
      case True
      then obtain st' where "agent_pass A w now cs st = Wrote st'" "\<exists>c \<in> set cs. node_counts st' = counts_of A st c"
        "\<forall>c. claims_in st' c = claims_in st c"
        using Cons by auto
      then show ?thesis using True Cons.prems(2) assms(2) by (auto simp: reconcile_at_rest(1))
    next
      case False
      then show ?thesis using reconcile_at_rest(2) [of A st c w now] Cons.prems(2) assms(2) by fastforce
    qed
  qed simp
qed

text \<open>Reconciliations until one has nothing to write, each at its own time; one that panicked is repeated.\<close>

fun passes :: "agent \<Rightarrow> client_world \<Rightarrow> (nat \<Rightarrow> int) \<Rightarrow> agent_cache list \<Rightarrow> node_status \<Rightarrow> nat \<Rightarrow> node_status option" where
  "passes A w now cs st 0 = Some st"
| "passes A w now cs st (Suc n) =
     (case passes A w now cs st n of
        None \<Rightarrow> None
      | Some st' \<Rightarrow> (case agent_pass A w (now n) cs st' of Wrote st'' \<Rightarrow> Some st'' | Crashed \<Rightarrow> Some st' | Next _ _ \<Rightarrow> None))"

lemma rest_claims:
  assumes "\<And>c. claims_in st' c = claims_in st c"
  shows "cache_at_rest A st' c = cache_at_rest A st c" "counts_of A st' c = counts_of A st c"
  using assms by (simp_all add: cache_at_rest_def counts_of_def)

lemma passes_differ:
  assumes "\<forall>c \<in> set cs. cache_at_rest A st c" "a_write_ok A" "a \<in> set cs" "b \<in> set cs" "counts_of A st a \<noteq> counts_of A st b"
  shows "\<exists>st'. passes A w now cs st n = Some st' \<and> (\<forall>c. claims_in st' c = claims_in st c)"
proof (induction n)
  case (Suc n)
  then obtain st' where st': "passes A w now cs st n = Some st'" "\<forall>c. claims_in st' c = claims_in st c" by blast
  have r: "\<forall>c \<in> set cs. cache_at_rest A st' c" using assms(1) rest_claims(1) st'(2) by metis
  have "counts_of A st' a \<noteq> counts_of A st' b" using assms(5) rest_claims(2) st'(2) by metis
  then have "\<not> (\<forall>c \<in> set cs. node_counts st' = counts_of A st' c)" using assms(3,4) by metis
  then show ?case using pass_at_rest(2) [OF r assms(2), of w "now n"] st' by fastforce
qed simp

lemma passes_agree:
  assumes "\<forall>c \<in> set cs. cache_at_rest A st c" "a_write_ok A" "\<forall>c \<in> set cs. counts_of A st c = k"
  shows "passes A w now cs st 2 = None"
proof (cases "\<forall>c \<in> set cs. node_counts st = counts_of A st c")
  case True
  then show ?thesis using pass_at_rest(1) [OF assms(1,2) True] by (simp add: numeral_2_eq_2)
next
  case False
  then obtain st' where st': "agent_pass A w (now 0) cs st = Wrote st'" "\<exists>c \<in> set cs. node_counts st' = counts_of A st c"
    "\<forall>c. claims_in st' c = claims_in st c"
    using pass_at_rest(2) [OF assms(1,2) False] by blast
  have r: "\<forall>c \<in> set cs. cache_at_rest A st' c" using assms(1) rest_claims(1) st'(3) by metis
  have "\<forall>c \<in> set cs. node_counts st' = counts_of A st' c" using st'(2,3) assms(3) rest_claims(2) by metis
  then show ?thesis using pass_at_rest(1) [OF r assms(2)] st'(1) by (simp add: numeral_2_eq_2)
qed

text \<open>
  C4. The agent comes to rest exactly when all caches of a node object have the same counts.
  The caches of a namespace share one status on each node, and each reconciliation replaces
  its counts by those of the cache at hand. When every claim is in order (extracted and
  unused, or running and used) and writes succeed: if the counts agree, two reconciliations
  are enough; if two caches differ, say one is in use and the other is not, every
  reconciliation writes the status, which triggers the next one, without end.
\<close>

theorem agent_rests_iff_counts_agree:
  assumes "\<forall>c \<in> set cs. cache_at_rest A st c" "a_write_ok A"
  shows "(\<exists>n. passes A w now cs st n = None) \<longleftrightarrow> (\<forall>a \<in> set cs. \<forall>b \<in> set cs. counts_of A st a = counts_of A st b)"
proof
  assume n: "\<exists>n. passes A w now cs st n = None"
  show "\<forall>a \<in> set cs. \<forall>b \<in> set cs. counts_of A st a = counts_of A st b"
  proof (rule ccontr)
    assume "\<not> (\<forall>a \<in> set cs. \<forall>b \<in> set cs. counts_of A st a = counts_of A st b)"
    then obtain a b where ab: "a \<in> set cs" "b \<in> set cs" "counts_of A st a \<noteq> counts_of A st b" by blast
    obtain n where "passes A w now cs st n = None" using n by blast
    then show False using passes_differ [OF assms ab, of w now n] by simp
  qed
next
  assume eq: "\<forall>a \<in> set cs. \<forall>b \<in> set cs. counts_of A st a = counts_of A st b"
  have "counts_of A st c = counts_of A st (hd cs)" if c: "c \<in> set cs" for c
  proof -
    have "cs \<noteq> []" using c by auto
    then have "hd cs \<in> set cs" by (rule hd_in_set)
    then show ?thesis using eq c by blast
  qed
  then show "\<exists>n. passes A w now cs st n = None" using passes_agree [OF assms] by blast
qed

definition ex_agent :: agent where
  "ex_agent = \<lparr>a_node_name = ''node'', a_no_gpu = False, a_kind_cluster = False, a_write_ok = True,
     a_pods = Some [\<lparr>pod_namespace = ''ns'', pod_node = ''node'', pod_phase = ''Running'', pod_claims = [None, Some ''a'']\<rparr>], a_finalizers = [],
     a_extract_image = ''x'', a_log_level = ''info''\<rparr>"

definition ex_claim :: "GkmConditionType \<Rightarrow> pvc_status" where
  "ex_claim t = \<lparr>pv_name = [], pvc_name = ''v'', job_name = ''j'', pvc_owner = ''Agent'', pvc_conditions = [Condition t]\<rparr>"

text \<open>An API server on which nothing exists but the jobs given, and everything can be created.\<close>

definition ex_kube :: "job list \<Rightarrow> kube_answers" where
  "ex_kube js = \<lparr>pv_list = (\<lambda>_. Some []), create_pv = (\<lambda>_. True), pvc_list = (\<lambda>_. Some []), create_pvc = (\<lambda>_. True),
     job_list = (\<lambda>_ _. Some js), create_job = (\<lambda>_. True), unique_name = ''u'', quantity_ok = (\<lambda>q. q = ''1Gi'')\<rparr>"

definition ex_digest :: string where
  "ex_digest = ''sha256:'' @ replicate 64 (CHR ''0'')"

definition ex_agent_cache :: "string \<Rightarrow> agent_cache" where
  "ex_agent_cache n = \<lparr>ac_name = n, ac_namespace = ''ns'', ac_digest = ex_digest, ac_size = None, ac_image = ''r/i:t'', ac_owner = ''Agent'',
     ac_storage_class = [], ac_namespaces = [''ns''], ac_pod_template = None, ac_kube = (\<lambda>_. ex_kube []), ac_operator_claims = []\<rparr>"

definition ex_node :: node_status where
  "ex_node = \<lparr>node_counts = no_counts, cache_statuses =
     [(''a'', [(ex_digest, no_cache_status\<lparr>pvc_statuses := Some [(''ns'', ex_claim GkmCondRunning)]\<rparr>)]),
      (''b'', [(ex_digest, no_cache_status\<lparr>pvc_statuses := Some [(''ns'', ex_claim GkmCondExtracted)]\<rparr>)])]\<rparr>"

definition ex_client :: client_world where
  "ex_client = \<lparr>config_ok = True, accelerator_ok = True, gpu_info = None, fetch_img = (\<lambda>_. None)\<rparr>"

lemma ex_uses: "uses ex_agent (ex_agent_cache ''a'') ''ns'' (ex_claim t) = 1" "uses ex_agent (ex_agent_cache ''b'') ''ns'' (ex_claim t) = 0"
  by (simp_all add: uses_def GetPvcUsedByList_def ex_agent_def ex_agent_cache_def ex_claim_def has_prefix_def)

lemma ex_rest:
  "cache_at_rest ex_agent ex_node (ex_agent_cache ''a'')" "cache_at_rest ex_agent ex_node (ex_agent_cache ''b'')"
  using ex_uses
  by (simp_all add: cache_at_rest_def claims_in_def at_rest_def ex_node_def ex_claim_def ex_agent_cache_def)

theorem agent_rests_iff_counts_agree_witness:
  "\<not> (\<exists>n. passes ex_agent ex_client int [ex_agent_cache ''a'', ex_agent_cache ''b''] ex_node n = None)"
proof -
  have "NodeInUseCnt (counts_of ex_agent ex_node (ex_agent_cache ''a'')) \<noteq> NodeInUseCnt (counts_of ex_agent ex_node (ex_agent_cache ''b''))"
    using ex_uses by (simp add: counts_of_def claims_in_def ex_node_def ex_agent_cache_def rest_counts_def)
  then have "counts_of ex_agent ex_node (ex_agent_cache ''a'') \<noteq> counts_of ex_agent ex_node (ex_agent_cache ''b'')" by auto
  then show ?thesis
    using agent_rests_iff_counts_agree [of "[ex_agent_cache ''a'', ex_agent_cache ''b'']" ex_agent ex_node ex_client int] ex_rest
    by (auto simp: ex_agent_def)
qed

subsection \<open>How the condition of a claim moves\<close>

text \<open>
  The state machine of a claim in namespace \<open>n\<close> of a cache, where \<open>u\<close> is the number of uses by
  pods: what may happen to its condition in one reconciliation, and what must be the case.
\<close>

inductive claim_edge :: "agent \<Rightarrow> agent_cache \<Rightarrow> string \<Rightarrow> int \<Rightarrow> GkmConditionType \<Rightarrow> GkmConditionType \<Rightarrow> bool"
  for A c n u where
  stay: "claim_edge A c n u x x"
| launch: "ac_owner c = ''Agent'' \<Longrightarrow> launch_for A c n v = Ret (Some b) \<Longrightarrow> claim_edge A c n u GkmCondPending GkmCondDownloading"
| extracted: "ac_owner c = ''Agent'' \<Longrightarrow> GetLatestJob (ac_kube c n) n v (ac_digest c) (a_node_name A) = Ret (Some (Some j)) \<Longrightarrow>
    0 < j_succeeded j \<Longrightarrow> x \<in> {GkmCondDownloading, GkmCondError, GkmCondNoNamespace, GkmCondUnloadError} \<Longrightarrow>
    claim_edge A c n u x GkmCondExtracted"
| failed: "ac_owner c = ''Agent'' \<Longrightarrow> GetLatestJob (ac_kube c n) n v (ac_digest c) (a_node_name A) = Ret (Some (Some j)) \<Longrightarrow>
    \<not> 0 < j_succeeded j \<Longrightarrow> 0 < j_failed j \<Longrightarrow> x \<in> {GkmCondDownloading, GkmCondNoNamespace, GkmCondUnloadError} \<Longrightarrow>
    claim_edge A c n u x GkmCondError"
| restarted: "ac_owner c = ''Agent'' \<Longrightarrow> GetLatestJob (ac_kube c n) n v (ac_digest c) (a_node_name A) = Ret (Some (Some j)) \<Longrightarrow>
    \<not> 0 < j_succeeded j \<Longrightarrow> \<not> 0 < j_failed j \<Longrightarrow> j_ready j = Some r \<Longrightarrow> 0 < r \<Longrightarrow>
    x \<in> {GkmCondError, GkmCondNoNamespace, GkmCondUnloadError} \<Longrightarrow> claim_edge A c n u x GkmCondDownloading"
| used: "u \<noteq> 0 \<Longrightarrow> claim_edge A c n u GkmCondExtracted GkmCondRunning"
| unused: "u = 0 \<Longrightarrow> claim_edge A c n u GkmCondRunning GkmCondExtracted"
| revived: "ac_owner c = ''Agent'' \<Longrightarrow> claim_edge A c n u GkmCondDeleting GkmCondRunning"
| adopted: "ac_owner c \<noteq> ''Agent'' \<Longrightarrow> map_of (ac_operator_claims c) n = Some q \<Longrightarrow> pvc_conditions q = [Condition x'] \<Longrightarrow>
    x' \<in> {GkmCondExtracted, GkmCondRunning, GkmCondOutdated, GkmCondDeleting} \<Longrightarrow> claim_edge A c n u x x'"

definition one_condition :: "pvc_status \<Rightarrow> bool" where
  "one_condition p \<longleftrightarrow> (\<exists>x. pvc_conditions p = [Condition x])"

lemma set_conditions [simp]: "pvc_conditions (SetPvcStatusConditions k p) = [k]"
  by (simp add: SetPvcStatusConditions_def)

lemma type_name_inject [simp]: "type_name x = type_name y \<longleftrightarrow> x = y"
  by (cases x; cases y) simp_all

lemma Condition_inject [simp]: "Condition x = Condition y \<longleftrightarrow> x = y"
  by (auto simp: Condition_def)

lemma download_single:
  "IsConditionDownloadSet [Condition x] \<longleftrightarrow> x \<in> {GkmCondExtracted, GkmCondRunning, GkmCondOutdated, GkmCondDeleting}"
  by (cases x) simp_all

lemma gpu_list_claims: "getImageToGpuList A w i d s = Some s' \<Longrightarrow> pvc_statuses s' = pvc_statuses s"
  by (auto simp: getImageToGpuList_def Let_def split: if_splits option.splits)

lemma manage_pvc_conditions:
  "manage_pvc A c n p = Ret (Some (b, p')) \<Longrightarrow> pvc_conditions p' = pvc_conditions p \<and> (\<not> b \<longrightarrow> p' = p)"
  by (auto simp: manage_pvc_def Let_def split: if_splits option.splits prod.splits outcome.splits)

lemma volume_conditions:
  "managePVandPVC A c n p = Ret (Some (b, p')) \<Longrightarrow> pvc_conditions p' = pvc_conditions p \<and> (\<not> b \<longrightarrow> p' = p)"
  using manage_pvc_conditions [of A c n p b p']
  by (auto simp: managePVandPVC_def Let_def split: if_splits option.splits prod.splits outcome.splits)

lemma job_switch_edge:
  assumes "pvc_conditions p = [Condition x]" "ac_owner c = ''Agent''"
    "GetLatestJob (ac_kube c n) n v (ac_digest c) (a_node_name A) = Ret (Some (Some j))"
    and "\<not> IsConditionDownloadSet [Condition x]" "x \<noteq> GkmCondPending"
    and "job_switch A w c j b s p = (b', pend, s', p')"
  shows "\<exists>x'. pvc_conditions p' = [Condition x'] \<and> claim_edge A c n u x x'"
    and "\<not> b' \<Longrightarrow> \<not> b \<and> p' = p" "pvc_statuses s' = pvc_statuses s"
proof -
  have x: "x \<in> {GkmCondDownloading, GkmCondError, GkmCondNoNamespace, GkmCondUnloadError}"
    using assms(4,5) by (cases x) (auto simp: download_single)
  show "\<exists>x'. pvc_conditions p' = [Condition x'] \<and> claim_edge A c n u x x'"
    using assms x
    by (auto simp: job_switch_def split: if_splits option.splits
        intro: claim_edge.stay claim_edge.extracted claim_edge.failed claim_edge.restarted)
  show "\<not> b' \<Longrightarrow> \<not> b \<and> p' = p" "pvc_statuses s' = pvc_statuses s"
    using assms(6) gpu_list_claims [of A w "ac_image c" "ac_digest c" s]
    by (auto simp: job_switch_def split: if_splits option.splits)
qed

lemma job_edge:
  assumes "pvc_conditions p = [Condition x]" "\<forall>q \<in> ran (map_of (ac_operator_claims c)). one_condition q"
    and "manageJob A w c n s p = Ret (Some (b, pend, s', p'))"
  shows "\<exists>x'. pvc_conditions p' = [Condition x'] \<and> claim_edge A c n u x x'"
    and "\<not> b \<Longrightarrow> p' = p" "pvc_statuses s' = pvc_statuses s"
proof -
  consider (agent) "ac_owner c = ''Agent''" "x = GkmCondPending \<or> IsConditionDownloadSet [Condition x]"
    | (job) "ac_owner c = ''Agent''" "x \<noteq> GkmCondPending" "\<not> IsConditionDownloadSet [Condition x]"
    | (operator) "ac_owner c \<noteq> ''Agent''" by blast
  then have "(\<exists>x'. pvc_conditions p' = [Condition x'] \<and> claim_edge A c n u x x') \<and> (\<not> b \<longrightarrow> p' = p) \<and> pvc_statuses s' = pvc_statuses s"
  proof cases
    case agent
    then show ?thesis using assms(1,3)
      by (cases x) (auto simp: manageJob_def Let_def split: if_splits outcome.splits option.splits intro: claim_edge.stay claim_edge.launch claim_edge.revived)
  next
    case job
    have "type_name x \<noteq> ''Pending''" using job(2) type_name_inject [of x GkmCondPending] by simp
    then consider (missing) "b = False" "s' = s" "p' = p" | (named) j where
        "GetLatestJob (ac_kube c n) n (pvc_name p) (ac_digest c) (a_node_name A) = Ret (Some (Some j))"
        "job_switch A w c j True s (p\<lparr>job_name := j_name j\<rparr>) = (b, pend, s', p') \<or> job_switch A w c j False s p = (b, pend, s', p')"
      using job assms(1,3) by (auto simp: manageJob_def Let_def split: if_splits option.splits outcome.splits)
    then show ?thesis
    proof cases
      case missing
      then show ?thesis using assms(1) claim_edge.stay by auto
    next
      case (named j)
      have p: "pvc_conditions (p\<lparr>job_name := j_name j\<rparr>) = [Condition x]" using assms(1) by simp
      show ?thesis
        using named(2)
      proof
        assume "job_switch A w c j True s (p\<lparr>job_name := j_name j\<rparr>) = (b, pend, s', p')"
        from job_switch_edge [OF p job(1) named(1) job(3,2) this] show ?thesis by blast
      next
        assume "job_switch A w c j False s p = (b, pend, s', p')"
        from job_switch_edge [OF assms(1) job(1) named(1) job(3,2) this] show ?thesis by blast
      qed
    qed
  next
    case operator
    show ?thesis
    proof (cases "p' = p \<and> s' = s")
      case True
      then show ?thesis using assms(1) claim_edge.stay by auto
    next
      case False
      then obtain q where q: "map_of (ac_operator_claims c) n = Some q" "IsConditionDownloadSet (pvc_conditions q)"
        "p' = SetPvcStatusConditions (GetLatestConditionType (pvc_conditions q)) (p\<lparr>pv_name := pv_name q, pvc_name := pvc_name q\<rparr>)" "s' = s" "b"
        using operator assms(3) by (auto simp: manageJob_def Let_def split: if_splits option.splits)
      then obtain x' where x': "pvc_conditions q = [Condition x']" using assms(2) by (auto simp: one_condition_def ran_def)
      then have "x' \<in> {GkmCondExtracted, GkmCondRunning, GkmCondOutdated, GkmCondDeleting}"
        using q(2) by (simp only: download_single)
      from claim_edge.adopted [OF operator q(1) x' this] show ?thesis using q(3-5) x' by simp
    qed
  qed
  then show "\<exists>x'. pvc_conditions p' = [Condition x'] \<and> claim_edge A c n u x x'" "\<not> b \<Longrightarrow> p' = p" "pvc_statuses s' = pvc_statuses s"
    by blast+
qed

lemma modify_edge:
  assumes "pvc_conditions p = [Condition x]" "\<forall>q \<in> ran (map_of (ac_operator_claims c)). one_condition q"
    and "managePvcStatusModify A w c n s p = Ret (Some (b, pend, s', p'))"
  shows "\<exists>x'. pvc_conditions p' = [Condition x'] \<and> claim_edge A c n u x x'"
    and "\<not> b \<Longrightarrow> p' = p" "pvc_statuses s' = pvc_statuses s"
proof -
  obtain b0 p0 where v: "managePVandPVC A c n p = Ret (Some (b0, p0))"
    "if b0 then b \<and> s' = s \<and> p' = p0 else manageJob A w c n s p0 = Ret (Some (b, pend, s', p'))"
    using assms(3) by (auto simp: managePvcStatusModify_def split: option.splits prod.splits bool.splits outcome.splits)
  have "(\<exists>x'. pvc_conditions p' = [Condition x'] \<and> claim_edge A c n u x x') \<and> (\<not> b \<longrightarrow> p' = p) \<and> pvc_statuses s' = pvc_statuses s"
  proof (cases b0)
    case True
    then show ?thesis using v volume_conditions [OF v(1)] assms(1) claim_edge.stay by auto
  next
    case False
    then have "manageJob A w c n s p = Ret (Some (b, pend, s', p'))" using v volume_conditions [OF v(1)] by simp
    from job_edge [OF assms(1,2) this] show ?thesis by blast
  qed
  then show "\<exists>x'. pvc_conditions p' = [Condition x'] \<and> claim_edge A c n u x x'" "\<not> b \<Longrightarrow> p' = p" "pvc_statuses s' = pvc_statuses s"
    by blast+
qed

lemma addCounts_edge:
  assumes "pvc_conditions p = [Condition x]" "addCounts A (ac_name c) k n p = (k', p', b)"
  shows "\<exists>x'. pvc_conditions p' = [Condition x'] \<and> claim_edge A c n (uses A c n p) x x'"
  using assms by (cases x)
    (auto simp: addCounts_def Let_def uses_def split: if_splits intro: claim_edge.stay claim_edge.used claim_edge.unused)

text \<open>The claim of a namespace before a reconciliation; a missing one starts as pending.\<close>

definition claim_before :: "agent_cache \<Rightarrow> (string \<times> pvc_status) list option \<Rightarrow> string \<Rightarrow> pvc_status" where
  "claim_before c m n = (case Option.bind m (\<lambda>m. map_of m n) of Some p \<Rightarrow> p | None \<Rightarrow> fresh_claim c)"

definition moved :: "agent \<Rightarrow> agent_cache \<Rightarrow> (string \<times> pvc_status) list option \<Rightarrow> string \<Rightarrow> pvc_status \<Rightarrow> bool" where
  "moved A c m n p' \<longleftrightarrow> (\<exists>x x'. pvc_conditions (claim_before c m n) = [Condition x] \<and> pvc_conditions p' = [Condition x'] \<and>
     claim_edge A c n (uses A c n (claim_before c m n)) x x')"

lemma fresh_one: "pvc_conditions (fresh_claim c) = [Condition GkmCondPending]"
  by (simp add: fresh_claim_def)

lemma before_one:
  assumes "\<forall>m. ms = Some m \<longrightarrow> (\<forall>p \<in> ran (map_of m). one_condition p)"
  shows "\<exists>x. pvc_conditions (claim_before c ms n) = [Condition x]"
  using assms fresh_one by (auto simp: claim_before_def one_condition_def ran_def split: option.splits bind_splits)

lemma moved_same:
  assumes "Option.bind ms (\<lambda>m. map_of m n) = Some p" "one_condition p"
  shows "moved A c ms n p"
  using assms claim_edge.stay by (auto simp: moved_def claim_before_def one_condition_def)

lemma before_alloc: "claim_before c (Some (case ms of None \<Rightarrow> [] | Some m \<Rightarrow> m)) n = claim_before c ms n"
  by (cases ms) (simp_all add: claim_before_def)

lemma moved_alloc: "moved A c (Some (case ms of None \<Rightarrow> [] | Some m \<Rightarrow> m)) n p = moved A c ms n p"
  by (simp add: moved_def before_alloc)

definition sound_claims :: "(string \<times> pvc_status) list option \<Rightarrow> bool" where
  "sound_claims ms \<longleftrightarrow> (\<forall>m. ms = Some m \<longrightarrow> (\<forall>p \<in> ran (map_of m). one_condition p))"

lemma sound_alloc: "sound_claims ms \<Longrightarrow> sound_claims (Some (case ms of None \<Rightarrow> [] | Some m \<Rightarrow> m))"
  by (cases ms) (simp_all add: sound_claims_def)

lemma step_moved:
  assumes "sound_claims ms" "\<forall>q \<in> ran (map_of (ac_operator_claims c)). one_condition q"
    and "managePvcStatusModify A w c n s (claim_before c ms n) = Ret (Some (b, pend, s', p1))"
    and "if b \<or> b0 then p2 = p1 else addCounts A (ac_name c) k n p1 = (k', p2, b2)"
  shows "moved A c ms n p2"
proof -
  obtain x where x: "pvc_conditions (claim_before c ms n) = [Condition x]"
    using before_one assms(1) unfolding sound_claims_def by blast
  note e = modify_edge [OF x assms(2,3)]
  show ?thesis
  proof (cases "b \<or> b0")
    case True
    then show ?thesis using e(1) x assms(4) by (auto simp: moved_def)
  next
    case False
    then have "p1 = claim_before c ms n" using e(2) by simp
    then show ?thesis using False assms(4) addCounts_edge [of "claim_before c ms n" x A c k n k' p2 b2] x by (auto simp: moved_def)
  qed
qed

lemma loop_moved:
  assumes "\<forall>q \<in> ran (map_of (ac_operator_claims c)). one_condition q" "sound_claims (pvc_statuses (l_status st))"
    and "namespace_loop A w c ns st = Ret l" "Option.bind (pvc_statuses (l_status l)) (\<lambda>m. map_of m n) = Some p'"
  shows "moved A c (pvc_statuses (l_status st)) n p'"
  using assms(2-)
proof (induction ns arbitrary: st)
  case Nil
  then show ?case by (intro moved_same) (auto simp: sound_claims_def ran_def bind_eq_Some_conv)
next
  case (Cons n0 ns)
  note run = Cons.prems(2)
  let ?ms = "pvc_statuses (l_status st)"
  define m where "m = (case ?ms of None \<Rightarrow> [] | Some m \<Rightarrow> m)"
  define s where "s = (l_status st)\<lparr>pvc_statuses := Some m\<rparr>"
  define b0 where "b0 = (l_updated st \<or> ?ms = None \<or> map_of m n0 = None)"
  have p: "claim_before c ?ms n0 = (case map_of m n0 of Some p \<Rightarrow> p | None \<Rightarrow> fresh_claim c)"
    by (cases ?ms) (simp_all add: claim_before_def m_def)
  have sound: "sound_claims (Some m)" using Cons.prems(1) sound_alloc unfolding m_def by blast
  have alloc: "moved A c (Some m) n p' = moved A c ?ms n p'" by (simp add: m_def moved_alloc)
  show ?case
  proof (cases "managePvcStatusModify A w c n0 s (claim_before c ?ms n0)")
    case Panic
    then show ?thesis using run by (simp add: p s_def m_def Let_def)
  next
    case (Ret o')
    note modify = Ret
    show ?thesis
    proof (cases o')
      case None
      have "namespace_loop A w c (n0 # ns) st = namespace_loop A w c ns (st\<lparr>l_updated := b0, l_status := s, l_error := True\<rparr>)"
        using None modify by (simp add: p s_def m_def b0_def Let_def)
      then show ?thesis
        using Cons.IH [of "st\<lparr>l_updated := b0, l_status := s, l_error := True\<rparr>"] run Cons.prems(3) sound alloc by (simp add: s_def)
    next
      case (Some t)
      obtain b pend s' p1 where t: "t = (b, pend, s', p1)" by (cases t)
      note Some' = modify [unfolded Some t]
      obtain x where x: "pvc_conditions (claim_before c ?ms n0) = [Condition x]"
        using before_one Cons.prems(1) unfolding sound_claims_def by blast
      have s': "pvc_statuses s' = Some m" using modify_edge(3) [OF x assms(1) Some'] by (simp add: s_def)
      obtain k p2 b2 where k: "(if b0 \<or> b then (l_counts st, p1, True) else addCounts A (ac_name c) (l_counts st) n0 p1) = (k, p2, b2)"
        by (metis prod_cases3)
      let ?st = "st\<lparr>l_updated := b2, l_in_use := l_in_use st \<or> \<not> b \<and> pend, l_status := s', l_counts := k\<rparr>"
      have e: "namespace_loop A w c (n0 # ns) st =
          (if b2 then Ret (?st\<lparr>l_status := s'\<lparr>pvc_statuses := Some (AList.update n0 p2 m)\<rparr>\<rparr>) else namespace_loop A w c ns ?st)"
        using Some' k s' by (simp add: p s_def m_def b0_def Let_def)
      show ?thesis
      proof (cases b2)
        case True
        then have n: "map_of (AList.update n0 p2 m) n = Some p'" using run Cons.prems(3) e by auto
        show ?thesis
        proof (cases "n = n0")
          case n0: True
          then have "p2 = p'" using n by (simp add: update_Some_unfold)
          moreover have "moved A c ?ms n0 p2"
            by (rule step_moved [OF Cons.prems(1) assms(1) Some', of b0 _ "l_counts st" k b2])
              (use k in \<open>auto split: if_splits\<close>)
          ultimately show ?thesis using n0 by simp
        next
          case False
          then have "map_of m n = Some p'" using n by (simp add: update_conv')
          then show ?thesis using sound moved_same [of "Some m" n p' A c] alloc by (auto simp: sound_claims_def ran_def)
        qed
      next
        case False
        then show ?thesis using Cons.IH [of ?st] run Cons.prems(3) e sound s' alloc by simp
      qed
    qed
  qed
qed

text \<open>
  C6. The condition of a claim moves as the state machine allows, and for its reasons: whatever
  the API server, the jobs and the pods answer, after a successful write of the agent every
  claim of the cache has exactly one condition, which either stays or changes along one edge.
  In particular an agent's claim is marked extracted only if its latest job has succeeded or
  the pods that ran with it are gone, marked failed only if the job has failed and not
  succeeded, and marked running only if a pod uses it or its deletion is taken back.
\<close>

theorem claims_follow_state_machine:
  assumes "reconcile_cache A w now c st = Wrote st'"
    and "\<forall>m p. claims_in st c = Some m \<longrightarrow> p \<in> ran (map_of m) \<longrightarrow> one_condition p"
    and "\<forall>q \<in> ran (map_of (ac_operator_claims c)). one_condition q"
    and "claims_in st' c = Some m'" "map_of m' n = Some p'"
  shows "\<exists>x x'. pvc_conditions (claim_before c (claims_in st c) n) = [Condition x] \<and> pvc_conditions p' = [Condition x'] \<and>
    claim_edge A c n (uses A c n (claim_before c (claims_in st c) n)) x x'"
proof -
  define ex where "ex = Option.bind (map_of (cache_statuses st) (ac_name c)) (\<lambda>ds. map_of ds (ac_digest c))"
  define s where "s = (case ex of Some s \<Rightarrow> s | None \<Rightarrow> no_cache_status)"
  define l0 where "l0 = \<lparr>l_updated = (ex = None), l_status = s, l_counts = no_counts\<lparr>NodeCnt := 1\<rparr>, l_error = False, l_in_use = False\<rparr>"
  have before: "claims_in st c = pvc_statuses s"
    by (cases "map_of (cache_statuses st) (ac_name c)") (auto simp: claims_in_def s_def ex_def no_cache_status_def split: option.splits)
  obtain l where l: "namespace_loop A w c (ac_namespaces c) l0 = Ret l"
    using assms(1) by (cases "namespace_loop A w c (ac_namespaces c) l0")
      (simp_all add: reconcile_cache_def Let_def s_def ex_def l0_def split: if_splits)
  have "claims_in st' c = pvc_statuses (l_status l)"
    using assms(1) l by (auto simp: reconcile_cache_def Let_def l0_def s_def ex_def claims_in_def AList.update_conv' split: if_splits)
  then have "pvc_statuses (l_status l) = Some m'" using assms(4) by simp
  then have "Option.bind (pvc_statuses (l_status l)) (\<lambda>m. map_of m n) = Some p'" using assms(5) by simp
  moreover have "sound_claims (pvc_statuses s)" using assms(2) before by (simp add: sound_claims_def)
  ultimately have "moved A c (pvc_statuses s) n p'"
    using loop_moved [OF assms(3) _ l] by (simp add: l0_def)
  then show ?thesis by (simp add: moved_def before)
qed

definition ex_done :: agent_cache where
  "ex_done = (ex_agent_cache ''a'')\<lparr>ac_kube := \<lambda>_.
     ex_kube [\<lparr>j_name = ''j'', j_created = 3, j_succeeded = 1, j_failed = 0, j_ready = None\<rparr>]\<rparr>"

definition ex_loading :: node_status where
  "ex_loading = \<lparr>node_counts = no_counts, cache_statuses =
     [(''a'', [(ex_digest, no_cache_status\<lparr>pvc_statuses := Some [(''ns'', ex_claim GkmCondDownloading)]\<rparr>)])]\<rparr>"

lemma ex_extracted:
  "reconcile_cache ex_agent ex_client 7 ex_done ex_loading = Wrote (ex_loading\<lparr>cache_statuses :=
     [(''a'', [(ex_digest, no_cache_status\<lparr>last_updated := 7, pvc_statuses := Some [(''ns'', ex_claim GkmCondExtracted)]\<rparr>)])]\<rparr>)"
  by code_simp

theorem claims_follow_state_machine_witness:
  "claim_edge ex_agent ex_done ''ns'' (uses ex_agent ex_done ''ns'' (ex_claim GkmCondDownloading)) GkmCondDownloading GkmCondExtracted"
  using claims_follow_state_machine [OF ex_extracted, of "[(''ns'', ex_claim GkmCondExtracted)]" "''ns''" "ex_claim GkmCondExtracted"]
  by (simp add: claims_in_def claim_before_def ex_loading_def ex_done_def ex_agent_cache_def no_cache_status_def ex_claim_def one_condition_def)

subsection \<open>The GPUs of a node\<close>

lemma labels_from_config:
  "CompareCacheSummaryLabelToGPU (Some (Some l)) None devs = CompareCacheSummaryLabelToGPU None (Some l) devs"
  by (simp add: CompareCacheSummaryLabelToGPU_def)

text \<open>
  C14. The compatible GPUs of an extracted cache are never recorded: on a node with GPUs, the
  preflight check of an image that mcv built for a Triton cache gives the numbers of exactly
  the GPUs that some kernel targets, and of exactly the others; the agent, which asks for
  both under the pinned reference, then writes two empty lists.
\<close>

theorem gpu_lists_lost:
  assumes "\<not> a_no_gpu A" "ReplaceUrlTag img d \<noteq> []"
    and "config_ok w" "accelerator_ok w" "gpu_info w = Some devs"
    and "fetch_img w (ReplaceUrlTag img d) = Some (Some (Some (triton_labels order fmt es bytes)))"
    and "\<And>xs. set (order xs) = set xs" "es \<noteq> []" "\<forall>e \<in> set es. usual_entry e"
    and "\<exists>g \<in> set devs. \<exists>e \<in> set es. fits e g"
  shows "PreflightCheck w (ReplaceUrlTag img d) =
      Some (map g_id (filter (\<lambda>g. \<exists>e \<in> set es. fits e g) devs), map g_id (filter (\<lambda>g. \<not> (\<exists>e \<in> set es. fits e g)) devs)) \<and>
    getImageToGpuList A w img d s = Some (s\<lparr>comp_gpu_list := [], incomp_gpu_list := []\<rparr>)"
proof
  have "CompareCacheSummaryLabelToGPU (Some (Some (triton_labels order fmt es bytes))) None devs = summary_outcome (map info_of es) devs"
    unfolding labels_from_config by (rule triton_label_check [OF assms(7-9)])
  then show p: "PreflightCheck w (ReplaceUrlTag img d) =
      Some (map g_id (filter (\<lambda>g. \<exists>e \<in> set es. fits e g) devs), map g_id (filter (\<lambda>g. \<not> (\<exists>e \<in> set es. fits e g)) devs))"
    using assms(3-6,10) by (auto simp: PreflightCheck_def extractGPUIDs_def summary_outcome_def)
  show "getImageToGpuList A w img d s = Some (s\<lparr>comp_gpu_list := [], incomp_gpu_list := []\<rparr>)"
    using assms(1,2) p by (simp add: getImageToGpuList_def Let_def)
qed

definition ex_kernel :: triton_metadata where
  "ex_kernel = \<lparr>m_hash = ''h'', m_dummy_key = [], m_ptx_version = 82, m_num_stages = 3, m_num_warps = 4, m_debug = False,
     m_target = \<lparr>t_backend = ''cuda'', t_arch = Arch_string ''75'', t_warp_size = 32\<rparr>\<rparr>"

definition ex_device :: gpu where
  "ex_device = \<lparr>g_backend = ''cuda'', g_arch = ''sm_75'', g_warp_size = 32, g_ptx_version = 82, g_id = 0\<rparr>"

definition ex_fleet :: client_world where
  "ex_fleet = \<lparr>config_ok = True, accelerator_ok = True, gpu_info = Some [ex_device],
     fetch_img = (\<lambda>_. Some (Some (Some (triton_labels rev (\<lambda>_. []) [ex_kernel] 12))))\<rparr>"

theorem gpu_lists_lost_witness:
  "PreflightCheck ex_fleet ''r/i@d'' = Some ([0], []) \<and>
   getImageToGpuList ex_agent ex_fleet ''r/i:t'' ''d'' no_cache_status = Some no_cache_status"
proof -
  have u: "usual_entry ex_kernel"
    by (simp add: usual_entry_def ex_kernel_def Convert_string ascii_def int64_def)
  have f: "fits ex_kernel ex_device" "g_id ex_device = 0"
    by (simp_all add: fits_def ex_kernel_def ex_device_def Convert_string same_arch_def has_prefix_def)
  have r: "ReplaceUrlTag ''r/i:t'' ''d'' = ''r/i@d''" by code_simp
  have s: "no_cache_status\<lparr>comp_gpu_list := [], incomp_gpu_list := []\<rparr> = no_cache_status"
    by (simp add: no_cache_status_def)
  have w: "config_ok ex_fleet" "accelerator_ok ex_fleet" "gpu_info ex_fleet = Some [ex_device]" "\<not> a_no_gpu ex_agent"
    "fetch_img ex_fleet ''r/i@d'' = Some (Some (Some (triton_labels rev (\<lambda>_. []) [ex_kernel] 12)))"
    by (simp_all add: ex_fleet_def ex_agent_def)
  show ?thesis
    using gpu_lists_lost [of ex_agent "''r/i:t''" "''d''" ex_fleet "[ex_device]" rev "\<lambda>_. []" "[ex_kernel]" 12 no_cache_status] u f r s w
    by simp
qed

end
