(* ===== verification/Agent_Theorems.thy ===== *)
theory Agent_Theorems
  imports Node_Theorems Webhook_Theorems Extract_Theorems
begin

text \<open>
  Where the parts of the cluster meet: what the webhooks admit and the agent then works on,
  and the job the agent launches and what it leaves in the volume.
\<close>

subsection \<open>Panics of the agent\<close>

definition short_digest :: "string \<Rightarrow> bool" where
  "short_digest d \<longleftrightarrow> length (trim_prefix d ''sha256:'') < 60"

definition well_formed :: "agent_cache \<Rightarrow> bool" where
  "well_formed c \<longleftrightarrow> \<not> short_digest (ac_digest c) \<and> (\<forall>n. quantity_ok (ac_kube c n) (capacity_of c))"

lemma digest_label_simps [simp]:
  "short_digest d \<Longrightarrow> digest_label d = Panic"
  "\<not> short_digest d \<Longrightarrow> digest_label d = Ret (take 60 (trim_prefix d ''sha256:''))"
  by (simp_all add: digest_label_def short_digest_def)

lemma volume_no_panic:
  assumes "well_formed c"
  shows "managePVandPVC A c n p \<noteq> Panic"
proof -
  have d: "\<not> short_digest (ac_digest c)" and q: "quantity_ok (ac_kube c n) (capacity_of c)"
    using assms by (simp_all add: well_formed_def)
  have "manage_pvc A c n p \<noteq> Panic" for p
    using d q by (simp add: manage_pvc_def PvcExists_def CreatePvc_def MustParse_def Let_def split: option.splits prod.splits)
  then show ?thesis
    using d q by (simp add: managePVandPVC_def PvExists_def CreatePv_def MustParse_def Let_def split: option.splits prod.splits)
qed

lemma job_no_panic:
  assumes "well_formed c"
  shows "manageJob A w c n s p \<noteq> Panic"
proof -
  have d: "\<not> short_digest (ac_digest c)" using assms by (simp add: well_formed_def)
  then have j: "\<exists>r. GetLatestJob k n v (ac_digest c) node = Ret r" for k v node by (simp add: GetLatestJob_def)
  then have "launch_for A c n v \<noteq> Panic" for v
  proof -
    obtain r where "GetLatestJob (ac_kube c n) n v (ac_digest c) (a_node_name A) = Ret r" using j by blast
    then show ?thesis using d by (simp add: launch_for_def LaunchJob_def Let_def)
  qed
  then obtain l where l: "launch_for A c n (pvc_name p) = Ret l" by (cases "launch_for A c n (pvc_name p)") auto
  obtain r where r: "GetLatestJob (ac_kube c n) n (pvc_name p) (ac_digest c) (a_node_name A) = Ret r" using j by blast
  show ?thesis
    using l r by (cases "pvc_name p = []") (simp_all add: manageJob_def Let_def split: option.split)
qed

lemma modify_no_panic: "well_formed c \<Longrightarrow> managePvcStatusModify A w c n s p \<noteq> Panic"
  using volume_no_panic [of c A n p] job_no_panic [of c A w n s]
  by (auto simp: managePvcStatusModify_def split: outcome.splits option.splits prod.splits bool.splits)

lemma loop_no_panic:
  assumes "well_formed c"
  shows "namespace_loop A w c ns st \<noteq> Panic"
proof (induction ns arbitrary: st)
  case (Cons n ns)
  show ?case
    using modify_no_panic [OF assms] Cons.IH
    by (auto simp: Let_def split: outcome.split option.split prod.split)
qed simp

lemma reconcile_no_panic: "well_formed c \<Longrightarrow> reconcile_cache A w now c st \<noteq> Crashed"
  using loop_no_panic [of c A w "ac_namespaces c"]
  by (auto simp: reconcile_cache_def Let_def split: outcome.split)

lemma pass_no_panic: "\<forall>c \<in> set cs. well_formed c \<Longrightarrow> agent_pass A w now cs st \<noteq> Crashed"
  using reconcile_no_panic by (induction cs) (auto split: cache_result.split)

lemma pass_skips:
  "\<forall>b \<in> set bs. \<exists>e p. reconcile_cache A w now b st = Next e p \<Longrightarrow>
   agent_pass A w now (bs @ cs) st = Crashed \<longleftrightarrow> agent_pass A w now cs st = Crashed"
  by (induction bs) (auto split: cache_result.split)

text \<open>A cache of the agent without a status yet.\<close>

definition unseen :: "node_status \<Rightarrow> agent_cache \<Rightarrow> bool" where
  "unseen st c \<longleftrightarrow> Option.bind (map_of (cache_statuses st) (ac_name c)) (\<lambda>ds. map_of ds (ac_digest c)) = None \<and>
     ac_owner c = ''Agent'' \<and> ac_namespaces c \<noteq> []"

lemma fresh_panics:
  assumes "short_digest (ac_digest c)" "ac_owner c = ''Agent''"
  shows "managePvcStatusModify A w c n s (fresh_claim c) = Panic"
  using assms
  by (simp add: managePvcStatusModify_def managePVandPVC_def manage_pvc_def PvExists_def PvcExists_def fresh_claim_def
      SetPvcStatusConditions_def Let_def)

lemma unseen_panics:
  assumes "unseen st c" "short_digest (ac_digest c)"
  shows "reconcile_cache A w now c st = Crashed"
proof -
  obtain n ns where "ac_namespaces c = n # ns" using assms(1) by (cases "ac_namespaces c") (auto simp: unseen_def)
  then show ?thesis
    using assms by (simp add: reconcile_cache_def unseen_def fresh_panics no_cache_status_def Let_def)
qed

text \<open>
  C21. One forged annotation stops the agents. With Kyverno verification enabled the webhooks
  admit a new GKMCache with an unpinned image whatever its digest annotation says. If the agent
  is to create the claim, its reconciliation panics on this cache exactly when the digest has
  less than 60 bytes after the prefix, provided that all other digests and sizes are well
  formed; then no reconciliation, however often it is repeated, changes the status of the
  node or gets to the caches behind this one.
\<close>

theorem forged_digest_stops_agent:
  assumes "isKyvernoVerificationEnabled W" "c_image c \<noteq> []" "extractDigestFromImage W (c_image c) = []"
    and "c_annotations c = Some m" "m resolvedDigest = Some d" "m verifyImages = Some ''{}''"
    and "ac_digest a = d" "unseen st a" "\<forall>n. quantity_ok (ac_kube a n) (capacity_of a)"
    and "\<forall>b \<in> set bs. \<forall>t. \<exists>e p. reconcile_cache A w t b st = Next e p" "\<forall>b \<in> set cs. well_formed b"
  shows "admit ns_mutate ns_on_create W c = Inr c \<and>
    (agent_pass A w t (bs @ a # cs) st = Crashed \<longleftrightarrow> length (trim_prefix d ''sha256:'') < 60) \<and>
    (length (trim_prefix d ''sha256:'') < 60 \<longrightarrow> passes A w now (bs @ a # cs) st k = Some st)"
proof (intro conjI impI)
  show "admit ns_mutate ns_on_create W c = Inr c" by (rule unchecked_digest_admitted [OF assms(1-6)])
  have iff: "agent_pass A w t (bs @ a # cs) st = Crashed \<longleftrightarrow> short_digest d" for t
  proof -
    have "agent_pass A w t (a # cs) st = Crashed \<longleftrightarrow> short_digest d"
    proof (cases "short_digest d")
      case True
      then show ?thesis using unseen_panics [OF assms(8)] assms(7) by simp
    next
      case False
      then show ?thesis using pass_no_panic [of "a # cs" A w t st] assms(7,9,11) by (simp add: well_formed_def)
    qed
    then show ?thesis using pass_skips assms(10) by metis
  qed
  then show "agent_pass A w t (bs @ a # cs) st = Crashed \<longleftrightarrow> length (trim_prefix d ''sha256:'') < 60" by (simp add: short_digest_def)
  assume "length (trim_prefix d ''sha256:'') < 60"
  then have "agent_pass A w t (bs @ a # cs) st = Crashed" for t using iff by (simp add: short_digest_def)
  then show "passes A w now (bs @ a # cs) st k = Some st" by (induction k) simp_all
qed

definition ex_forged :: agent_cache where
  "ex_forged = (ex_agent_cache ''f'')\<lparr>ac_digest := ''forged''\<rparr>"

lemma ex_digest_long: "\<not> short_digest ex_digest"
proof -
  have "trim_prefix ex_digest ''sha256:'' = replicate 64 (CHR ''0'')" unfolding ex_digest_def by (rule trim_prefix_append)
  then show ?thesis by (simp add: short_digest_def)
qed

theorem forged_digest_stops_agent_witness:
  "\<forall>k. passes ex_agent ex_client int [ex_forged, ex_agent_cache ''a''] ex_node k = Some ex_node"
proof
  fix k
  have w: "well_formed (ex_agent_cache ''a'')" "unseen ex_node ex_forged" "\<forall>n. quantity_ok (ac_kube ex_forged n) (capacity_of ex_forged)"
    using ex_digest_long
    by (simp_all add: well_formed_def ex_agent_cache_def ex_kube_def capacity_of_def unseen_def ex_node_def ex_forged_def)
  have d: "length (trim_prefix (''forged'' :: string) ''sha256:'') < 60" "ac_digest ex_forged = ''forged''"
    by (simp_all add: trim_prefix_def has_prefix_def ex_forged_def)
  have c: "isKyvernoVerificationEnabled ex_out" "extractDigestFromImage ex_out ''a:1'' = []" by (rule ex_kyverno ex_unpinned)+
  show "passes ex_agent ex_client int [ex_forged, ex_agent_cache ''a''] ex_node k = Some ex_node"
    using forged_digest_stops_agent [of ex_out "ex_cache ''a:1'' [resolvedDigest \<mapsto> ''forged'', verifyImages \<mapsto> ''{}'']"
        "[resolvedDigest \<mapsto> ''forged'', verifyImages \<mapsto> ''{}'']" "''forged''" ex_forged
        ex_node "[]" ex_agent ex_client "[ex_agent_cache ''a'']" 0 int k] w d c
    by (simp add: ex_cache_def)
qed

subsection \<open>From the claim to the files\<close>






end
