(* ===== verification/Spec2Isabelle.thy ===== *)
theory Spec2Isabelle
  imports Compiled_Theorems Native_Theorems Artifact_Index Transformed_Theorems Image_Url Extract_Theorems Preflight_Theorems Webhook_Theorems Node_Theorems Agent_Theorems
begin

text \<open>
  GKM (GPU kernel manager) ships compiled GPU kernels as OCI images. The Go part of the
  repository packs, signs, checks and mounts such caches; the Python part is the content of
  a cache: what vLLM and torch.compile wrote for one model on one GPU. This development
  verifies that content for the three sample caches of the repository, most of it for
  src/mcv/example/vllm-cache/torch_compile_cache/d4ec7c2a7d/rank_0_0 (below: R), and the
  Go code that labels, checks, fetches and unpacks a cache image, the job that puts it into
  a volume, and the webhooks that admit it to a cluster.

  Parts of a cache and how they interact. computation_graph.py holds the traced forward of
  a 24-layer decoder, cut at the attention operator into 49 submodules; the odd ones call
  attention, the even ones do everything else. inductor_cache holds the compiled
  replacement of the even submodules: three modules with a function \<open>call\<close> and the Triton
  kernels they launch. vllm_compile_cache.py is the index that tells which module replaces
  which submodule. At run time vLLM runs the forward with the modules in place of the even
  submodules. The question a user of a cache has is whether that computes the same thing.

  Theories.
  \<^item> Prelude: index arithmetic of row-major arrays, the option monad, hint collections.
  \<^item> Tensor: tensors as handles (storage, offset, shape, strides) into a store; reading,
    allocating, in-place writing, aliasing, frames (which storages a computation may change).
  \<^item> Torch_API: the 25 PyTorch and vLLM operators the graph calls, as a parameter (record
    \<open>torch\<close>), with their documented behaviour as the assumptions of the locale \<open>torch_api\<close>.
    Torch_Ref: an implementation over the reals that satisfies all of them.
  \<^item> Vllm_Graph, Vllm_Graph_Layers: R/computation_graph.py, one definition per submodule and
    one for the forward, operator call by operator call; an exception is \<open>None\<close>.
  \<^item> Piecewise: the reference decoder on plain values (embedding, rotary embedding,
    attention, gated MLP, residuals), the state at a graph break (\<open>at_break\<close>), and the locale
    \<open>piecewise\<close>: what each piece of a cut model promises, from which the composition is
    proved to compute the decoder, once for traced and compiled pieces.
  \<^item> Vllm_Decoder, Vllm_Forward: the traced submodules keep that contract
    (\<open>sublocale torch_api \<subseteq> graph\<close>), all middle submodules are one function, and the
    unrolled forward is the composition.
  \<^item> Triton_Kernels: the three Triton kernels, as the program of one lane, with 32- and 64-bit
    index arithmetic, masked loads and device assertions. Triton_Launch: grids, schedules
    and the locale \<open>pointwise_kernel\<close>; safety and results of every launch.
  \<^item> Inductor: the three \<open>call\<close> functions with their layout assertions, allocations, buffer
    reuse and kernel launches. Inductor_Pieces: they keep the contract of the pieces.
  \<^item> Compile_Cache: the index, the pieces it selects, the compiled forward. Inductor_Ref:
    an implementation of the allocation, view and matrix-product functions over the reals.
  \<^item> Native_API, Native_Ops: the operators of the llama and qwen graphs (norms spelled out in
    powers, means and reciprocal roots, conversions between half and single precision), as
    the locale \<open>native_api\<close> over \<open>torch_api\<close>, and a calculus of fresh tensors for them.
  \<^item> Llama_Graph, Llama_Graph_Layers, Qwen_Graph, Qwen_Graph_Layers: computation_graph.py of
    src/mcv/example/llama-binary-cache and qwen-binary-cache, 33 and 57 submodules.
  \<^item> Native_Decoder: the reference decoder of both on plain values, with every rounding to
    half precision where the graph has it, and the state at a graph break (\<open>nat_break\<close>).
    Native_Frag: the fragments the submodules are made of (norm, head norm, rotary embedding,
    projections, gated MLP), proved once for all sizes. Native_Piecewise: the contract of the
    pieces, locale \<open>native_pieces\<close>, and the composition. Llama_Forward, Qwen_Forward: both
    graphs keep it. Native_Ref: an implementation of the operators over the reals.
    Native_Theorems: C19, C20 and C23. Artifact_Index: the two vllm_compile_cache.py.
  \<^item> Py_Object: straight-line Python on an arbitrary runtime (attributes, calls, exceptions),
    a definite- and single-assignment analysis with its soundness and progress theorems.
    Transformed_Code: the statements of R/transformed_code.py, which a bytecode decompiler
    wrote. Transformed_Theorems: C25 to C28.
  \<^item> Go_Base: Go's string and slash-path functions (index, split, join, clean). Image_Url:
    pinning an image reference to a digest (src/pkg/utils/utils.go). File_System: actions on
    files and the locale \<open>file_system\<close> of what the operating system promises of them, also when
    they fail. Tar_Extract: unpacking a cache image from its tar archive (src/mcv/pkg/cache,
    C16 to C18).
  \<^item> Image_Extract: fetching an image, its layers and the extractor with its two checks
    (src/mcv/pkg/fetcher, config, constants); the switches and paths that Go keeps in package
    variables are the record \<open>process\<close>. Mcv_Client: the client that sets them
    (src/mcv/pkg/client). Extract_Job: the job in the cluster that calls the client under a
    lock and records the image it extracted (src/gkm-extract/main.go). Extract_Content: the
    files an image holds, the actions an extraction performs, and the files after a success.
    Extract_Run, Job_Run: the same for whole runs of extractor, client and job; a crash is an
    operating system on which every later action fails. Extract_Theorems: C10, C22, C24, C33.
  \<^item> Go_Json: printing and parsing of JSON as encoding/json does it, with its round trip.
    Cache_Summary, Vllm_Cache: the metadata, keys, summaries and labels that mcv computes
    when it builds an image (src/mcv/pkg/cache). Preflight: the checks of label and manifest
    against the GPUs of a machine (src/mcv/pkg/preflightcheck). Preflight_Theorems: C29 to C32,
    C34 and C35.
  \<^item> Go_Base64: encoding/base64 with its round trip. Webhooks: the mutating and validating
    webhooks of GKMCache and ClusterGKMCache (src/api/v1alpha1) and the signature check they
    call (src/pkg/cosign). Admission_Steps: the API server as a step relation, and what follows
    for every stored object from the contract of such webhooks. Webhook_Theorems: both
    resources keep the contract; C36 to C40.
  \<^item> Kube_Calls: the calls to the API server with which the agent finds and creates volume,
    claim and job of a cache (src/pkg/common/k8s.go), panics included.
    Node_Status: the node agent (src/internal/controller/gkm-agent) on the caches of one node:
    conditions of claims, uses by pods, extraction jobs, counts, the list of fitting GPUs and
    one reconciliation with its write. Node_Theorems: when the agent comes to rest, the state
    machine of a claim, the fate of the GPU lists; C4, C6 and C14. Agent_Theorems: which
    admitted caches make the agent panic (C21), and what the job it launches leaves in the
    volume (C15).
  \<^item> Vllm_Theorems, Triton_Launch, Compiled_Theorems: the other properties up to C13 with inputs
    that satisfy their hypotheses.

  Interfaces. \<open>torch_api\<close>, \<open>inductor_api\<close> (which extends it) state documented behaviour of
  code outside the repository; their interpretations \<open>ref\<close> and \<open>refi\<close> show they can hold.
  \<open>piecewise\<close> and \<open>pointwise_kernel\<close> are contracts the repository's code keeps; their
  sublocales and interpretations are proved from the code's definitions. \<open>admission\<close> and
  \<open>resolving_admission\<close> are what the webhooks owe the API server: the image stays, the digest
  annotation is what the image resolves to, and it stays while the image does; they are
  interpreted on the handlers of GKMCache and of ClusterGKMCache. \<open>file_system\<close> and
  \<open>directory_system\<close> (which extends it) are what package os promises on a tree without links;
  they are interpreted on lists of files.

  Bounds. The rotary kernel's element offsets are 32 bit: 699051 tokens are the largest
  number for which no offset wraps (C7), and C9 shows the bound is sharp. Only the JSON
  parser uses fuel, the length of its input, which is shown to be enough for all printed text.

  Not modelled. Values are uninterpreted: rounding of single operators is inside the
  parameter, and the fused rotary kernel's different rounding is explicit (\<open>fused_rope\<close>).
  Device, stream and reference counting are left out; the artifacts the llama and qwen indices
  name are binary. Of the Go programs, container registry, sigstore, HMAC and the operating
  system are parameters; the files that local fetchers leave below the temporary directory,
  the waiting of the job and the device query of the client are left out; of the node agent
  the set-up of the node object and the deletion of caches are left out, and the operator,
  image building, device discovery and the command line of mcv are listed in the manifest as
  not modelled.
\<close>

end
